(* ===== verification/Prelude.thy ===== *)
theory Prelude
  imports Complex_Main "HOL-Library.Char_ord" "HOL-Library.List_Lexorder"
begin

text \<open>
  The generic part of the development: JavaScript strings, arrays and property lookups as the
  server code uses them, results with errors as values, and the lemmas the component theories
  share.

  A JavaScript string is a char list.  Each char stands for one UTF-16 code unit below 256;
  the classification functions below (white space, letter case) are right for those code units.
\<close>

named_theorems js_simps \<open>unfoldings of the JavaScript library functions\<close>

subsection \<open>Results\<close>

text \<open>A function that may throw returns \<open>Inl error\<close> or \<open>Inr value\<close>.\<close>

abbreviation Throw :: "'e \<Rightarrow> 'e + 'a" where "Throw \<equiv> Inl"
abbreviation Ok :: "'a \<Rightarrow> 'e + 'a" where "Ok \<equiv> Inr"

fun res_bind :: "('e + 'a) \<Rightarrow> ('a \<Rightarrow> 'e + 'b) \<Rightarrow> 'e + 'b" where
  "res_bind (Inl e) f = Inl e"
| "res_bind (Inr a) f = f a"

lemma res_bind_Ok_iff: "res_bind r f = Inr b \<longleftrightarrow> (\<exists>a. r = Inr a \<and> f a = Inr b)"
  by (cases r) auto

lemma res_bind_Throw_iff:
  "res_bind r f = Inl e \<longleftrightarrow> r = Inl e \<or> (\<exists>a. r = Inr a \<and> f a = Inl e)"
  by (cases r) auto

lemma if_Throw_Ok: "(if c then Inl e else r) = Inr a \<longleftrightarrow> \<not> c \<and> r = Inr a"
  by simp

fun is_ok :: "'e + 'a \<Rightarrow> bool" where
  "is_ok (Inl _) = False"
| "is_ok (Inr _) = True"

lemma is_ok_iff: "is_ok r \<longleftrightarrow> (\<exists>a. r = Inr a)"
  by (cases r) auto

subsection \<open>Code units\<close>

definition code_unit :: "char \<Rightarrow> nat" where
  "code_unit c = (of_char c :: nat)"

definition js_is_space :: "char \<Rightarrow> bool" where
  "js_is_space c \<longleftrightarrow> code_unit c \<in> {9, 10, 11, 12, 13, 32, 160}"

definition js_is_digit :: "char \<Rightarrow> bool" where
  "js_is_digit c \<longleftrightarrow> 48 \<le> code_unit c \<and> code_unit c \<le> 57"

definition js_is_upper :: "char \<Rightarrow> bool" where
  "js_is_upper c \<longleftrightarrow> 65 \<le> code_unit c \<and> code_unit c \<le> 90"

definition js_is_lower :: "char \<Rightarrow> bool" where
  "js_is_lower c \<longleftrightarrow> 97 \<le> code_unit c \<and> code_unit c \<le> 122"

text \<open>\<open>String.prototype.toLowerCase\<close> on the first 256 code units.\<close>

definition js_lower_char :: "char \<Rightarrow> char" where
  "js_lower_char c = (if js_is_upper c \<or> (192 \<le> code_unit c \<and> code_unit c \<le> 222 \<and> code_unit c \<noteq> 215)
     then char_of (code_unit c + 32) else c)"

definition js_lower :: "string \<Rightarrow> string" where
  "js_lower s = map js_lower_char s"

lemma length_js_lower [simp]: "length (js_lower s) = length s"
  by (simp add: js_lower_def)

subsection \<open>Strings\<close>

fun js_starts_with :: "string \<Rightarrow> string \<Rightarrow> bool" where
  "js_starts_with s [] = True"
| "js_starts_with [] (p # ps) = False"
| "js_starts_with (c # s) (p # ps) = (c = p \<and> js_starts_with s ps)"

definition js_ends_with :: "string \<Rightarrow> string \<Rightarrow> bool" where
  "js_ends_with s t \<longleftrightarrow> length t \<le> length s \<and> drop (length s - length t) s = t"

text \<open>\<open>s.includes(t)\<close> and \<open>s.indexOf(t)\<close>; a missing needle is \<open>None\<close> instead of \<open>-1\<close>.\<close>

fun js_index_of :: "string \<Rightarrow> string \<Rightarrow> nat option" where
  "js_index_of [] t = (if t = [] then Some 0 else None)"
| "js_index_of (c # s) t =
     (if js_starts_with (c # s) t then Some 0 else map_option Suc (js_index_of s t))"

definition js_includes :: "string \<Rightarrow> string \<Rightarrow> bool" where
  "js_includes s t \<longleftrightarrow> js_index_of s t \<noteq> None"

definition js_index_of_from :: "string \<Rightarrow> string \<Rightarrow> nat \<Rightarrow> nat option" where
  "js_index_of_from s t i = map_option (\<lambda>k. k + min i (length s)) (js_index_of (drop i s) t)"

definition js_trim_start :: "string \<Rightarrow> string" where
  "js_trim_start s = dropWhile js_is_space s"

definition js_trim_end :: "string \<Rightarrow> string" where
  "js_trim_end s = rev (dropWhile js_is_space (rev s))"

definition js_trim :: "string \<Rightarrow> string" where
  "js_trim s = js_trim_end (js_trim_start s)"

text \<open>\<open>s.slice(a, b)\<close> for non-negative bounds.\<close>

definition js_slice :: "string \<Rightarrow> nat \<Rightarrow> nat \<Rightarrow> string" where
  "js_slice s a b = take (b - a) (drop a s)"

text \<open>\<open>s.split(c)\<close> for a one-character separator.\<close>

fun js_split :: "char \<Rightarrow> string \<Rightarrow> string list" where
  "js_split d [] = [[]]"
| "js_split d (c # s) =
     (if c = d then [] # js_split d s
      else case js_split d s of [] \<Rightarrow> [[c]] | p # ps \<Rightarrow> (c # p) # ps)"

text \<open>\<open>s.split(t)\<close> for a non-empty separator: the counter skips the rest of a match.\<close>

fun js_split_str_from :: "nat \<Rightarrow> string \<Rightarrow> string \<Rightarrow> string list" where
  "js_split_str_from k t [] = [[]]"
| "js_split_str_from (Suc k) t (c # s) = js_split_str_from k t s"
| "js_split_str_from 0 t (c # s) =
     (if js_starts_with (c # s) t then [] # js_split_str_from (length t - 1) t s
      else case js_split_str_from 0 t s of [] \<Rightarrow> [[c]] | p # ps \<Rightarrow> (c # p) # ps)"

definition js_split_str :: "string \<Rightarrow> string \<Rightarrow> string list" where
  "js_split_str t s = js_split_str_from 0 t s"

text \<open>\<open>parts.join(sep)\<close>.\<close>

fun js_join :: "string \<Rightarrow> string list \<Rightarrow> string" where
  "js_join sep [] = []"
| "js_join sep [p] = p"
| "js_join sep (p # q # ps) = p @ sep @ js_join sep (q # ps)"

text \<open>\<open>[...new Set(xs)]\<close>: the first occurrence of every element, in order.\<close>

fun js_uniq_acc :: "'a list \<Rightarrow> 'a list \<Rightarrow> 'a list" where
  "js_uniq_acc seen [] = []"
| "js_uniq_acc seen (x # xs) =
     (if x \<in> set seen then js_uniq_acc seen xs else x # js_uniq_acc (x # seen) xs)"

definition js_uniq :: "'a list \<Rightarrow> 'a list" where
  "js_uniq xs = js_uniq_acc [] xs"

text \<open>\<open>xs ?? []\<close>.\<close>

fun or_empty :: "'a list option \<Rightarrow> 'a list" where
  "or_empty None = []"
| "or_empty (Some xs) = xs"

text \<open>\<open>xs.find(p)\<close> is \<open>List.find\<close>; \<open>xs.findIndex(p)\<close> is the following.\<close>

fun js_find_index :: "('a \<Rightarrow> bool) \<Rightarrow> 'a list \<Rightarrow> nat option" where
  "js_find_index p [] = None"
| "js_find_index p (x # xs) = (if p x then Some 0 else map_option Suc (js_find_index p xs))"

text \<open>The decimal digits of a natural number.\<close>

definition digit_char :: "nat \<Rightarrow> char" where
  "digit_char d = char_of (48 + d)"

fun nat_to_string :: "nat \<Rightarrow> string" where
  "nat_to_string n = (if n < 10 then [digit_char n] else nat_to_string (n div 10) @ [digit_char (n mod 10)])"

declare nat_to_string.simps [simp del]

definition int_to_string :: "int \<Rightarrow> string" where
  "int_to_string i = (if i < 0 then ''-'' @ nat_to_string (nat (- i)) else nat_to_string (nat i))"

definition digit_value :: "char \<Rightarrow> nat" where
  "digit_value c = code_unit c - 48"

definition digits_value :: "string \<Rightarrow> nat" where
  "digits_value s = foldl (\<lambda>a c. 10 * a + digit_value c) 0 s"

text \<open>\<open>JSON.stringify\<close> of a string.\<close>

definition hex_char :: "nat \<Rightarrow> char" where
  "hex_char d = (if d < 10 then char_of (48 + d) else char_of (87 + d))"

definition json_escape_char :: "char \<Rightarrow> string" where
  "json_escape_char c = (let n = code_unit c in
     if n = 34 then [CHR 0x5C, CHR 0x22]
     else if n = 92 then [CHR 0x5C, CHR 0x5C]
     else if n = 8 then [CHR 0x5C, CHR ''b'']
     else if n = 9 then [CHR 0x5C, CHR ''t'']
     else if n = 10 then [CHR 0x5C, CHR ''n'']
     else if n = 12 then [CHR 0x5C, CHR ''f'']
     else if n = 13 then [CHR 0x5C, CHR ''r'']
     else if n < 32 then [CHR 0x5C, CHR ''u'', CHR ''0'', CHR ''0'', hex_char (n div 16), hex_char (n mod 16)]
     else [c])"

definition json_string :: "string \<Rightarrow> string" where
  "json_string s = [CHR 0x22] @ concat (map json_escape_char s) @ [CHR 0x22]"

subsection \<open>Property lookup\<close>

text \<open>
  \<open>table[key]\<close> on an object literal.  A key that is not an own property may still be found on
  \<open>Object.prototype\<close>, where it is a function or an object and never one of the table's values.
\<close>

datatype 'a js_prop = Own 'a | Inherited | Absent

definition object_prototype_keys :: "string list" where
  "object_prototype_keys =
     [''constructor'', ''__defineGetter__'', ''__defineSetter__'', ''hasOwnProperty'',
      ''__lookupGetter__'', ''__lookupSetter__'', ''isPrototypeOf'', ''propertyIsEnumerable'',
      ''toString'', ''valueOf'', ''__proto__'', ''toLocaleString'']"

definition js_get :: "(string \<times> 'a) list \<Rightarrow> string \<Rightarrow> 'a js_prop" where
  "js_get tbl k = (case map_of tbl k of
       Some v \<Rightarrow> Own v
     | None \<Rightarrow> if k \<in> set object_prototype_keys then Inherited else Absent)"

text \<open>The exception a built-in raises when a value has no such method.\<close>

datatype js_error = TypeError

lemma js_get_Own_iff: "js_get tbl k = Own v \<longleftrightarrow> map_of tbl k = Some v"
  by (auto simp: js_get_def split: option.splits)

subsection \<open>Lemmas on strings\<close>

lemma js_starts_with_iff: "js_starts_with s t \<longleftrightarrow> (\<exists>u. s = t @ u)"
  by (induction s t rule: js_starts_with.induct) auto

lemma js_starts_with_append [simp]: "js_starts_with (t @ u) t"
  by (auto simp: js_starts_with_iff)

lemma js_starts_with_refl [simp]: "js_starts_with t t"
  by (auto simp: js_starts_with_iff)

lemma js_split_not_Nil [simp]: "js_split d s \<noteq> []"
  by (cases s) (auto split: list.splits)

lemma js_split_str_from_not_Nil [simp]: "js_split_str_from k t s \<noteq> []"
  by (induction k t s rule: js_split_str_from.induct) (auto split: list.splits)

lemma js_split_str_not_Nil [simp]: "js_split_str t s \<noteq> []"
  by (simp add: js_split_str_def)

lemma js_join_Cons: "ps \<noteq> [] \<Longrightarrow> js_join sep (p # ps) = p @ sep @ js_join sep ps"
  by (cases ps) auto

lemma js_split_str_from_skip:
  "k \<le> length s \<Longrightarrow> js_split_str_from k t s = js_split_str_from 0 t (drop k s)"
proof (induction s arbitrary: k)
  case (Cons c s)
  then show ?case by (cases k) auto
qed auto

lemma js_split_str_from_step:
  assumes "t \<noteq> []"
  shows "js_split_str_from 0 t (t @ u) = [] # js_split_str_from 0 t u"
proof -
  obtain a t' where t: "t = a # t'" using assms by (cases t) auto
  have "js_split_str_from (length t') t (t' @ u) = js_split_str_from 0 t u"
    using js_split_str_from_skip[of "length t'" "t' @ u" t] by simp
  moreover have "js_starts_with (a # t' @ u) t"
    using t js_starts_with_append[of t u] by simp
  ultimately show ?thesis by (simp add: t)
qed

lemma js_join_push: "ps \<noteq> [] \<Longrightarrow> js_join sep ((case ps of [] \<Rightarrow> [[c]] | p # qs \<Rightarrow> (c # p) # qs)) = c # js_join sep ps"
  by (cases ps; cases "tl ps") auto

lemma js_join_split_str_from:
  assumes "t \<noteq> []"
  shows "js_join t (js_split_str_from 0 t s) = s"
proof (induction "length s" arbitrary: s rule: less_induct)
  case less
  show ?case
  proof (cases s)
    case (Cons c cs)
    show ?thesis
    proof (cases "js_starts_with s t")
      case True
      then obtain u where u: "s = t @ u" by (auto simp: js_starts_with_iff)
      have "length u < length s" using u assms by (cases t) auto
      then have "js_join t (js_split_str_from 0 t u) = u" by (rule less)
      then show ?thesis using u assms by (simp add: js_split_str_from_step js_join_Cons)
    next
      case False
      have "js_join t (js_split_str_from 0 t cs) = cs" using less[of cs] Cons by simp
      then show ?thesis using False Cons by (simp add: js_join_push)
    qed
  qed simp
qed

lemma js_join_split_str: "t \<noteq> [] \<Longrightarrow> js_join t (js_split_str t s) = s"
  by (simp add: js_split_str_def js_join_split_str_from)

lemma js_join_split: "js_join [d] (js_split d s) = s"
proof (induction s)
  case (Cons c s)
  obtain p ps where "js_split d s = p # ps"
    by (meson js_split_not_Nil list.exhaust)
  with Cons show ?case by (cases ps) (auto simp: js_join_Cons)
qed simp

lemma js_split_no_sep: "p \<in> set (js_split d s) \<Longrightarrow> d \<notin> set p"
proof (induction s arbitrary: p)
  case (Cons c s)
  obtain q qs where "js_split d s = q # qs"
    by (meson js_split_not_Nil list.exhaust)
  with Cons show ?case by (auto split: if_splits)
qed simp

lemma length_js_trim_start: "length (js_trim_start s) \<le> length s"
  by (simp add: js_trim_start_def length_dropWhile_le)

lemma length_js_trim_end: "length (js_trim_end s) \<le> length s"
  unfolding js_trim_end_def by (metis length_dropWhile_le length_rev)

lemma length_js_trim: "length (js_trim s) \<le> length s"
  unfolding js_trim_def using length_js_trim_end length_js_trim_start le_trans by blast

subsection \<open>Lemmas on unique lists\<close>

lemma set_js_uniq_acc: "set (js_uniq_acc seen xs) = set xs - set seen"
  by (induction xs arbitrary: seen) auto

lemma distinct_js_uniq_acc: "distinct (js_uniq_acc seen xs)"
  by (induction xs arbitrary: seen) (auto simp: set_js_uniq_acc)

lemma set_js_uniq [simp]: "set (js_uniq xs) = set xs"
  by (simp add: js_uniq_def set_js_uniq_acc)

lemma distinct_js_uniq [simp]: "distinct (js_uniq xs)"
  by (simp add: js_uniq_def distinct_js_uniq_acc)

lemma js_uniq_acc_distinct: "distinct xs \<Longrightarrow> set xs \<inter> set seen = {} \<Longrightarrow> js_uniq_acc seen xs = xs"
  by (induction xs arbitrary: seen) auto

lemma js_uniq_distinct: "distinct xs \<Longrightarrow> js_uniq xs = xs"
  by (simp add: js_uniq_def js_uniq_acc_distinct)

subsection \<open>Lemmas on association lists and searches\<close>

lemma find_Some_set: "List.find P xs = Some x \<Longrightarrow> x \<in> set xs \<and> P x"
  by (induction xs) (auto split: if_splits)

lemma find_None_set: "List.find P xs = None \<longleftrightarrow> (\<forall>x \<in> set xs. \<not> P x)"
  by (induction xs) auto

lemma js_find_index_Some: "js_find_index P xs = Some i \<Longrightarrow> i < length xs \<and> P (xs ! i)"
  by (induction xs arbitrary: i) (auto split: if_splits)

lemma js_find_index_None: "js_find_index P xs = None \<longleftrightarrow> (\<forall>x \<in> set xs. \<not> P x)"
  by (induction xs) auto

lemma map_of_key_in: "map_of xs k = Some v \<Longrightarrow> k \<in> fst ` set xs"
  by (metis map_of_eq_None_iff option.distinct(1))

lemma find_unique:
  assumes "x \<in> set xs" "P x" "\<And>y. y \<in> set xs \<Longrightarrow> P y \<Longrightarrow> y = x"
  shows "List.find P xs = Some x"
proof (cases "List.find P xs")
  case None
  with assms(1,2) show ?thesis by (simp add: find_None_set)
next
  case (Some y)
  then have "y = x" using assms(3) find_Some_set[of P xs y] by simp
  with Some show ?thesis by simp
qed

lemma distinct_map_inj: "distinct (map f xs) \<Longrightarrow> x \<in> set xs \<Longrightarrow> y \<in> set xs \<Longrightarrow> f x = f y \<Longrightarrow> x = y"
  by (simp add: distinct_map inj_on_def)

lemma find_stronger: "List.find P xs = Some a \<Longrightarrow> Q a \<Longrightarrow> List.find (\<lambda>x. P x \<and> Q x) xs = Some a"
  by (induction xs) (auto split: if_splits)

subsection \<open>Lemmas on decimal numerals\<close>

lemma code_unit_digit_char: "d < 10 \<Longrightarrow> code_unit (digit_char d) = 48 + d"
  by (simp add: code_unit_def digit_char_def)

lemma digit_char_digit: "d < 10 \<Longrightarrow> js_is_digit (digit_char d)"
  by (simp add: js_is_digit_def code_unit_digit_char)

lemma nat_to_string_not_Nil [simp]: "nat_to_string n \<noteq> []"
  by (subst nat_to_string.simps) simp

lemma nat_to_string_digits: "list_all js_is_digit (nat_to_string n)"
proof (induction n rule: nat_to_string.induct)
  case (1 n)
  then show ?case by (subst nat_to_string.simps) (auto simp: digit_char_digit)
qed

lemma digits_value_snoc: "digits_value (s @ [c]) = 10 * digits_value s + digit_value c"
  by (simp add: digits_value_def)

lemma digits_value_nat_to_string: "digits_value (nat_to_string n) = n"
proof (induction n rule: nat_to_string.induct)
  case (1 n)
  show ?case
  proof (cases "n < 10")
    case True
    then show ?thesis
      by (subst nat_to_string.simps) (simp add: digits_value_def digit_value_def code_unit_digit_char)
  next
    case False
    then show ?thesis using 1
      by (subst nat_to_string.simps) (simp add: digits_value_snoc digit_value_def code_unit_digit_char)
  qed
qed

subsection \<open>Evaluation with binary numerals\<close>

text \<open>Equations for \<open>code_simp\<close>, which otherwise evaluates code units and decimal digits on unary
  numbers.\<close>

function int_digits :: "int \<Rightarrow> string" where
  "int_digits i = (if i < 10 then [char_of (48 + i)] else int_digits (i div 10) @ [char_of (48 + i mod 10)])"
  by pat_completeness auto
termination by (relation "measure nat") auto

declare int_digits.simps [simp del]

lemma char_of_digit: "char_of (48 + int d) = digit_char d"
proof -
  have "48 + int d = of_nat (48 + d)" by simp
  then show ?thesis unfolding digit_char_def by (metis char_of_nat)
qed

lemma int_digits_of_nat: "int_digits (int n) = nat_to_string n"
proof (induction n rule: nat_to_string.induct)
  case (1 n)
  have "char_of (48 + int n mod 10) = digit_char (n mod 10)"
    using char_of_digit[of "n mod 10"] by (simp add: zmod_int)
  then show ?case using 1
    by (subst int_digits.simps, subst nat_to_string.simps) (simp add: char_of_digit zdiv_int)
qed

lemma int_to_string_code [code]:
  "int_to_string i = (if i < 0 then CHR ''-'' # int_digits (- i) else int_digits i)"
  using int_digits_of_nat[of "nat i"] int_digits_of_nat[of "nat (- i)"] by (auto simp: int_to_string_def)

lemma code_unit_int: "int (code_unit c) = of_char c"
  unfolding code_unit_def by (rule of_nat_of_char)

lemma char_of_shift: "char_of (of_char c + 32 :: int) = char_of (code_unit c + 32)"
  by (metis char_of_nat code_unit_int of_nat_add of_nat_numeral)

lemma js_is_digit_code [code]: "js_is_digit c \<longleftrightarrow> (let k = of_char c :: int in 48 \<le> k \<and> k \<le> 57)"
  unfolding js_is_digit_def Let_def code_unit_int[symmetric] by linarith

lemma js_is_upper_code [code]: "js_is_upper c \<longleftrightarrow> (let k = of_char c :: int in 65 \<le> k \<and> k \<le> 90)"
  unfolding js_is_upper_def Let_def code_unit_int[symmetric] by linarith

lemma js_lower_char_code [code]:
  "js_lower_char c = (let k = of_char c :: int in
     if (65 \<le> k \<and> k \<le> 90) \<or> (192 \<le> k \<and> k \<le> 222 \<and> k \<noteq> 215) then char_of (k + 32) else c)"
  unfolding js_lower_char_def js_is_upper_def Let_def char_of_shift using code_unit_int[of c] by auto

lemma js_is_space_code [code]: "js_is_space c \<longleftrightarrow> (let k = of_char c :: int in k \<in> {9, 10, 11, 12, 13, 32, 160})"
  unfolding js_is_space_def Let_def using code_unit_int[of c] by auto

lemma digit_value_code: "digit_value c = nat (of_char c - 48)"
  unfolding digit_value_def using code_unit_int[of c] by simp

lemma digits_value_code [code]:
  "digits_value s = nat (foldl (\<lambda>a c. 10 * a + max 0 (of_char c - 48)) 0 s)"
proof -
  have step: "int (digit_value c) = max 0 (of_char c - 48)" for c by (simp add: digit_value_code)
  have "int (foldl (\<lambda>a c. 10 * a + digit_value c) k s) = foldl (\<lambda>a c. 10 * a + max 0 (of_char c - 48)) (int k) s" for k
    by (induction s arbitrary: k) (simp_all add: step[symmetric])
  from this[of 0] show ?thesis unfolding digits_value_def by (metis nat_int of_nat_0)
qed

end
