(* ===== verification/Workflow.thy ===== *)
theory Workflow
  imports Prelude
begin

text \<open>
  The interface of a status graph: a finite list of states and a successor table.  Task
  statuses, App Run states, execution attempt states and the statuses of a plan under its routes are
  interpretations of it.
  Two contracts extend it: a graph whose edges raise a rank (a lifecycle, which ends), and a
  graph in which every state can reach a hub and be reached from it (a board column graph, in
  which nothing is stuck).
\<close>

fun path_of :: "('s \<Rightarrow> 's list) \<Rightarrow> 's \<Rightarrow> 's list \<Rightarrow> bool" where
  "path_of nexts s [] = True"
| "path_of nexts s (t # ts) = (t \<in> set (nexts s) \<and> path_of nexts t ts)"

definition step_rel :: "('s \<Rightarrow> 's list) \<Rightarrow> ('s \<times> 's) set" where
  "step_rel nexts = {(s, t). t \<in> set (nexts s)}"

lemma step_rel_iff: "(s, t) \<in> step_rel nexts \<longleftrightarrow> t \<in> set (nexts s)"
  by (simp add: step_rel_def)

lemma path_of_rtrancl:
  "path_of nexts s ts \<Longrightarrow> (s, last (s # ts)) \<in> (step_rel nexts)\<^sup>*"
proof (induction ts arbitrary: s)
  case (Cons t ts)
  then have "(s, t) \<in> step_rel nexts" by (simp add: step_rel_def)
  moreover have "(t, last (t # ts)) \<in> (step_rel nexts)\<^sup>*" using Cons by simp
  ultimately show ?case by (auto intro: converse_rtrancl_into_rtrancl)
qed simp

locale workflow =
  fixes states :: "'s list"
    and nexts :: "'s \<Rightarrow> 's list"
  assumes closed: "s \<in> set states \<Longrightarrow> t \<in> set (nexts s) \<Longrightarrow> t \<in> set states"
begin

lemma path_closed: "s \<in> set states \<Longrightarrow> path_of nexts s ts \<Longrightarrow> set ts \<subseteq> set states"
  by (induction ts arbitrary: s) (auto intro: closed)

lemma reach_closed: "(s, t) \<in> (step_rel nexts)\<^sup>* \<Longrightarrow> s \<in> set states \<Longrightarrow> t \<in> set states"
  by (induction rule: rtrancl_induct) (auto simp: step_rel_def intro: closed)

end

locale staged = workflow +
  fixes rank :: "'s \<Rightarrow> nat"
  assumes rank_mono: "s \<in> set states \<Longrightarrow> t \<in> set (nexts s) \<Longrightarrow> rank s \<le> rank t"
begin

lemma reach_rank: "(s, t) \<in> (step_rel nexts)\<^sup>* \<Longrightarrow> s \<in> set states \<Longrightarrow> rank s \<le> rank t"
proof (induction rule: rtrancl_induct)
  case (step t u)
  then have "t \<in> set states" using reach_closed by blast
  with step have "rank t \<le> rank u" by (simp add: step_rel_def rank_mono)
  with step show ?case by simp
qed simp

lemma reach_terminal: "(s, t) \<in> (step_rel nexts)\<^sup>* \<Longrightarrow> nexts s = [] \<Longrightarrow> t = s"
  by (induction rule: converse_rtrancl_induct) (auto simp: step_rel_def)

end

locale lifecycle = staged +
  assumes rank_up: "s \<in> set states \<Longrightarrow> t \<in> set (nexts s) \<Longrightarrow> rank s < rank t"
begin

lemma path_length_rank:
  "s \<in> set states \<Longrightarrow> path_of nexts s ts \<Longrightarrow> rank s + length ts \<le> rank (last (s # ts))"
proof (induction ts arbitrary: s)
  case (Cons t ts)
  then have t: "t \<in> set states" "rank s < rank t" by (auto intro: closed rank_up)
  have "path_of nexts t ts" using Cons.prems by simp
  with Cons.IH[of t] t show ?case by (cases ts) auto
qed simp

lemma no_return:
  "s \<in> set states \<Longrightarrow> path_of nexts s ts \<Longrightarrow> ts \<noteq> [] \<Longrightarrow> last ts \<noteq> s"
proof
  assume a: "s \<in> set states" "path_of nexts s ts" "ts \<noteq> []" "last ts = s"
  have "rank s + length ts \<le> rank (last (s # ts))" by (rule path_length_rank[OF a(1,2)])
  then have "length ts = 0" using a(3,4) by simp
  then show False using a(3) by simp
qed

end

locale board = workflow +
  fixes hub :: "'s"
  assumes to_hub: "s \<in> set states \<Longrightarrow> (s, hub) \<in> (step_rel nexts)\<^sup>*"
    and from_hub: "s \<in> set states \<Longrightarrow> (hub, s) \<in> (step_rel nexts)\<^sup>*"
begin

lemma strongly_connected:
  "s \<in> set states \<Longrightarrow> t \<in> set states \<Longrightarrow> (s, t) \<in> (step_rel nexts)\<^sup>*"
  by (rule rtrancl_trans[OF to_hub from_hub])

end

end
