(* ===== verification/TaskStatus.thy ===== *)
theory TaskStatus
  imports Workflow
begin

text \<open>
  The task status machine of \<open>src/apps/api/src/lib/task-status-machine.ts\<close>: the engineering
  tables, the transition check and the list of next statuses.
\<close>

record project_status =
  st_id :: string
  st_label :: string
  st_color :: string
  st_order :: int

record project_config =
  cfg_statuses :: "project_status list"
  cfg_transitions :: "(string \<times> string list) list option"

definition status_row :: "string \<Rightarrow> string \<Rightarrow> string \<Rightarrow> int \<Rightarrow> project_status" where
  "status_row i l c k = \<lparr>st_id = i, st_label = l, st_color = c, st_order = k\<rparr>"

definition ENGINEERING_STATUSES :: "project_status list" where
  "ENGINEERING_STATUSES =
     [status_row ''backlog'' ''Backlog'' ''#6b7280'' 0,
      status_row ''todo'' ''To Do'' ''#3b82f6'' 1,
      status_row ''in_progress'' ''In Progress'' ''#f59e0b'' 2,
      status_row ''in_review'' ''In Review'' ''#8b5cf6'' 3,
      status_row ''done'' ''Done'' ''#10b981'' 4,
      status_row ''cancelled'' ''Cancelled'' ''#ef4444'' 5]"

definition ENGINEERING_TRANSITIONS :: "(string \<times> string list) list" where
  "ENGINEERING_TRANSITIONS =
     [(''backlog'', [''todo'', ''in_progress'', ''cancelled'']),
      (''todo'', [''in_progress'', ''backlog'', ''cancelled'']),
      (''in_progress'', [''in_review'', ''done'', ''backlog'', ''cancelled'']),
      (''in_review'', [''in_progress'', ''done'', ''cancelled'']),
      (''done'', [''in_progress'', ''backlog'']),
      (''cancelled'', [''backlog''])]"

definition ENGINEERING_DEFAULTS :: project_config where
  "ENGINEERING_DEFAULTS =
     \<lparr>cfg_statuses = ENGINEERING_STATUSES, cfg_transitions = Some ENGINEERING_TRANSITIONS\<rparr>"

definition config_status_ids :: "project_config \<Rightarrow> string list" where
  "config_status_ids cfg = map st_id (cfg_statuses cfg)"

text \<open>
  \<open>allowed_transitions[from]\<close> may find an inherited property of the object literal; that value is
  truthy and has no \<open>includes\<close> or \<open>filter\<close> method, so the call throws a \<open>TypeError\<close>.
\<close>

definition isValidTransition :: "string \<Rightarrow> string \<Rightarrow> project_config \<Rightarrow> js_error + bool" where
  "isValidTransition frm to cfg =
     (if to \<notin> set (config_status_ids cfg) then Ok False
      else if frm = to then Ok True
      else case cfg_transitions cfg of
             None \<Rightarrow> Ok True
           | Some tbl \<Rightarrow> (case js_get tbl frm of
                 Absent \<Rightarrow> Ok False
               | Inherited \<Rightarrow> Throw TypeError
               | Own allowed \<Rightarrow> Ok (to \<in> set allowed)))"

definition allowedNextStatuses :: "string \<Rightarrow> project_config \<Rightarrow> js_error + string list" where
  "allowedNextStatuses frm cfg =
     (let ids = config_status_ids cfg in
      if frm \<notin> set ids then Ok []
      else case cfg_transitions cfg of
             None \<Rightarrow> Ok (filter (\<lambda>s. s \<noteq> frm) ids)
           | Some tbl \<Rightarrow> (case js_get tbl frm of
                 Absent \<Rightarrow> Ok []
               | Inherited \<Rightarrow> Throw TypeError
               | Own allowed \<Rightarrow> Ok (filter (\<lambda>s. s \<noteq> frm \<and> s \<in> set ids) allowed)))"

lemma isValidTransition_into_known:
  "isValidTransition frm to cfg = Ok True \<Longrightarrow> to \<in> set (config_status_ids cfg)"
  by (auto simp: isValidTransition_def split: if_splits)

lemma allowedNext_known:
  "allowedNextStatuses frm cfg = Ok ns \<Longrightarrow> t \<in> set ns \<Longrightarrow> t \<in> set (config_status_ids cfg)"
  by (auto simp: allowedNextStatuses_def Let_def split: if_splits option.splits js_prop.splits)

text \<open>The read contract and the write check agree, whatever the configuration.\<close>

lemma allowedNext_iff_valid:
  assumes "allowedNextStatuses frm cfg = Ok ns"
    and "frm \<in> set (config_status_ids cfg)"
  shows "t \<in> set ns \<longleftrightarrow> t \<noteq> frm \<and> isValidTransition frm t cfg = Ok True"
  using assms
  by (auto simp: allowedNextStatuses_def isValidTransition_def Let_def
      split: option.splits js_prop.splits)

lemma allowedNext_throws_iff:
  "(\<exists>e. allowedNextStatuses frm cfg = Throw e) \<longleftrightarrow>
     frm \<in> set (config_status_ids cfg) \<and>
     (\<exists>tbl. cfg_transitions cfg = Some tbl \<and> js_get tbl frm = Inherited)"
  by (auto simp: allowedNextStatuses_def Let_def split: option.splits js_prop.splits if_splits)

subsection \<open>The engineering board\<close>

definition engineering_next :: "string \<Rightarrow> string list" where
  "engineering_next s = (case allowedNextStatuses s ENGINEERING_DEFAULTS of Inl _ \<Rightarrow> [] | Inr ns \<Rightarrow> ns)"

definition engineering_ids :: "string list" where
  "engineering_ids = config_status_ids ENGINEERING_DEFAULTS"

lemmas engineering_tables =
  ENGINEERING_DEFAULTS_def ENGINEERING_STATUSES_def ENGINEERING_TRANSITIONS_def
  config_status_ids_def status_row_def

lemma engineering_ids_eq:
  "engineering_ids = [''backlog'', ''todo'', ''in_progress'', ''in_review'', ''done'', ''cancelled'']"
  by (simp add: engineering_ids_def engineering_tables)

lemma engineering_next_eq:
  "engineering_next ''backlog'' = [''todo'', ''in_progress'', ''cancelled'']"
  "engineering_next ''todo'' = [''in_progress'', ''backlog'', ''cancelled'']"
  "engineering_next ''in_progress'' = [''in_review'', ''done'', ''backlog'', ''cancelled'']"
  "engineering_next ''in_review'' = [''in_progress'', ''done'', ''cancelled'']"
  "engineering_next ''done'' = [''in_progress'', ''backlog'']"
  "engineering_next ''cancelled'' = [''backlog'']"
  by (simp_all add: engineering_next_def allowedNextStatuses_def js_get_def engineering_tables)

lemma engineering_path:
  assumes "path_of engineering_next s ts" and "last (s # ts) = t"
  shows "(s, t) \<in> (step_rel engineering_next)\<^sup>*"
  using path_of_rtrancl[OF assms(1)] assms(2) by simp

lemma engineering_to_backlog:
  "s \<in> set engineering_ids \<Longrightarrow> (s, ''backlog'') \<in> (step_rel engineering_next)\<^sup>*"
  using engineering_path[of "''todo''" "[''backlog'']"]
    engineering_path[of "''in_progress''" "[''backlog'']"]
    engineering_path[of "''in_review''" "[''in_progress'', ''backlog'']"]
    engineering_path[of "''done''" "[''backlog'']"]
    engineering_path[of "''cancelled''" "[''backlog'']"]
  by (auto simp: engineering_ids_eq engineering_next_eq)

lemma engineering_from_backlog:
  "s \<in> set engineering_ids \<Longrightarrow> (''backlog'', s) \<in> (step_rel engineering_next)\<^sup>*"
  using engineering_path[of "''backlog''" "[''todo'']"]
    engineering_path[of "''backlog''" "[''in_progress'']"]
    engineering_path[of "''backlog''" "[''in_progress'', ''in_review'']"]
    engineering_path[of "''backlog''" "[''in_progress'', ''done'']"]
    engineering_path[of "''backlog''" "[''cancelled'']"]
  by (auto simp: engineering_ids_eq engineering_next_eq)

lemma engineering_next_known: "t \<in> set (engineering_next s) \<Longrightarrow> t \<in> set engineering_ids"
  by (cases "allowedNextStatuses s ENGINEERING_DEFAULTS")
    (auto simp: engineering_next_def engineering_ids_def intro: allowedNext_known)

interpretation eng: board engineering_ids engineering_next "''backlog''"
  by unfold_locales
    (auto intro: engineering_to_backlog engineering_from_backlog engineering_next_known)

end
