(* ===== verification/JsValue.thy ===== *)
theory JsValue
  imports Prelude
begin

text \<open>
  JavaScript values as they come out of JSON: the data that tool calls, plan steps and module
  records carry.  A number is a rational, or one of the values that are not finite.  An object is
  the list of its own properties in insertion order, with distinct keys.
\<close>

datatype jsv =
    JUndefined
  | JNull
  | JBool bool
  | JNum rat
  | JNaN
  | JInf bool
  | JStr string
  | JArr "jsv list"
  | JObj "(string \<times> jsv) list"

fun js_truthy :: "jsv \<Rightarrow> bool" where
  "js_truthy JUndefined = False"
| "js_truthy JNull = False"
| "js_truthy (JBool b) = b"
| "js_truthy (JNum n) = (n \<noteq> 0)"
| "js_truthy JNaN = False"
| "js_truthy (JInf _) = True"
| "js_truthy (JStr s) = (s \<noteq> [])"
| "js_truthy (JArr _) = True"
| "js_truthy (JObj _) = True"

fun js_is_string :: "jsv \<Rightarrow> bool" where
  "js_is_string (JStr _) = True"
| "js_is_string _ = False"

text \<open>\<open>typeof v === 'object' && v !== null && !Array.isArray(v)\<close>.\<close>

fun js_is_record :: "jsv \<Rightarrow> bool" where
  "js_is_record (JObj _) = True"
| "js_is_record _ = False"

text \<open>The own property \<open>k\<close> of a value; \<open>undefined\<close> when there is none.\<close>

fun js_prop_of :: "jsv \<Rightarrow> string \<Rightarrow> jsv" where
  "js_prop_of (JObj ps) k = (case map_of ps k of Some v \<Rightarrow> v | None \<Rightarrow> JUndefined)"
| "js_prop_of _ k = JUndefined"

text \<open>
  \<open>a === b\<close> for two values that do not share storage: two arrays or two objects are never
  identical, and \<open>NaN\<close> is not identical to itself.
\<close>

definition js_strict_eq :: "jsv \<Rightarrow> jsv \<Rightarrow> bool" where
  "js_strict_eq a b \<longleftrightarrow> a = b \<and>
     (case a of JNaN \<Rightarrow> False | JArr _ \<Rightarrow> False | JObj _ \<Rightarrow> False | _ \<Rightarrow> True)"

lemma js_strict_eq_imp_eq: "js_strict_eq a b \<Longrightarrow> a = b"
  by (simp add: js_strict_eq_def)

end
