(* ===== verification/Approval.thy ===== *)
theory Approval
  imports JsValue
begin

text \<open>
  Approval tiers and trust levels: \<open>src/apps/api/src/lib/agent-approval.ts\<close>, the module
  operation table of \<open>src/packages/shared/src/modules.ts\<close>, and the identity functions of
  \<open>mcp-tool-identity.ts\<close> and \<open>mcp-tools.ts\<close>.
\<close>

datatype trust_level = Conservative | Standard | Autonomous
datatype approval_tier = TierAuto | TierQuick | TierFull

subsection \<open>Module operations\<close>

datatype op_mode = OpRead | OpWrite

record module_operation =
  mo_mode :: op_mode
  mo_tier :: approval_tier
  mo_destructive :: bool

definition module_op :: "op_mode \<Rightarrow> approval_tier \<Rightarrow> bool \<Rightarrow> module_operation" where
  "module_op m t d = \<lparr>mo_mode = m, mo_tier = t, mo_destructive = d\<rparr>"

definition MODULE_OPERATION_NAMES :: "string list" where
  "MODULE_OPERATION_NAMES =
     [''module_list'', ''module_schema_get'', ''module_record_search'', ''module_record_query'',
      ''module_record_get'', ''module_record_incoming'', ''module_record_latest_related'',
      ''module_record_task_links'', ''module_record_task_link'', ''module_record_task_unlink'',
      ''module_record_create'', ''module_record_bulk_create'', ''module_record_update'',
      ''module_record_archive'']"

definition MODULE_OPERATION_DEFINITIONS :: "(string \<times> module_operation) list" where
  "MODULE_OPERATION_DEFINITIONS =
     [(''module_list'', module_op OpRead TierAuto False),
      (''module_schema_get'', module_op OpRead TierAuto False),
      (''module_record_search'', module_op OpRead TierAuto False),
      (''module_record_query'', module_op OpRead TierAuto False),
      (''module_record_get'', module_op OpRead TierAuto False),
      (''module_record_incoming'', module_op OpRead TierAuto False),
      (''module_record_latest_related'', module_op OpRead TierAuto False),
      (''module_record_task_links'', module_op OpRead TierAuto False),
      (''module_record_task_link'', module_op OpWrite TierQuick False),
      (''module_record_task_unlink'', module_op OpWrite TierQuick True),
      (''module_record_create'', module_op OpWrite TierQuick False),
      (''module_record_bulk_create'', module_op OpWrite TierFull True),
      (''module_record_update'', module_op OpWrite TierQuick False),
      (''module_record_archive'', module_op OpWrite TierFull True)]"

definition module_definition :: "string \<Rightarrow> module_operation" where
  "module_definition n = the (map_of MODULE_OPERATION_DEFINITIONS n)"

definition moduleTaskOperationRequiredScopes :: "string \<Rightarrow> string list option" where
  "moduleTaskOperationRequiredScopes operation =
     (if operation = ''module_record_task_links'' then Some [''read:modules'', ''read:tasks'']
      else if operation = ''module_record_task_link'' \<or> operation = ''module_record_task_unlink''
        then Some [''write:modules'', ''write:tasks'']
      else None)"

subsection \<open>Tiers\<close>

definition TOOL_APPROVAL_TIERS :: "(string \<times> approval_tier) list" where
  "TOOL_APPROVAL_TIERS =
     [(''update_task_status'', TierAuto),
      (''bulk_update_tasks'', TierFull),
      (''assign_task'', TierAuto),
      (''create_task'', TierQuick),
      (''workspace_plan_import'', TierFull),
      (''document_send'', TierFull),
      (''add_knowledge'', TierQuick),
      (''wiki_write'', TierQuick),
      (''post_message'', TierFull),
      (''create_github_issue'', TierFull),
      (''manage_agent_employee'', TierFull),
      (''list_agent_employees'', TierAuto),
      (''get_agent_activity'', TierAuto),
      (''manage_mcp_connection'', TierFull),
      (''get_agent_economics'', TierAuto),
      (''manage_triggers'', TierQuick),
      (''create_plan'', TierAuto),
      (''task_create'', TierQuick),
      (''task_update'', TierQuick),
      (''message_post'', TierFull),
      (''send_message'', TierFull),
      (''memory_update'', TierQuick),
      (''wiki_create'', TierQuick),
      (''wiki_update'', TierQuick),
      (''space_memory_set'', TierAuto),
      (''space_memory_get'', TierAuto),
      (''delegation_self_report'', TierAuto),
      (''comment_on_task'', TierQuick),
      (''set_due_date'', TierAuto),
      (''set_priority'', TierAuto),
      (''add_label'', TierAuto),
      (''close_task'', TierAuto),
      (''reopen_task'', TierAuto),
      (''add_dependency'', TierQuick),
      (''remove_dependency'', TierQuick),
      (''create_reminder'', TierQuick),
      (''create_note'', TierQuick),
      (''note_to_wiki'', TierQuick),
      (''post_thread_reply'', TierFull),
      (''write_canvas'', TierQuick),
      (''link_decision_to_tasks'', TierQuick),
      (''mark_decision_implemented'', TierQuick),
      (''module_record_task_links'', TierAuto),
      (''module_record_task_link'', TierQuick),
      (''module_record_task_unlink'', TierQuick),
      (''module_list'', mo_tier (module_definition ''module_list'')),
      (''module_schema_get'', mo_tier (module_definition ''module_schema_get'')),
      (''module_record_search'', mo_tier (module_definition ''module_record_search'')),
      (''module_record_query'', mo_tier (module_definition ''module_record_query'')),
      (''module_record_get'', mo_tier (module_definition ''module_record_get'')),
      (''module_record_incoming'', mo_tier (module_definition ''module_record_incoming'')),
      (''module_record_latest_related'', mo_tier (module_definition ''module_record_latest_related'')),
      (''module_record_create'', mo_tier (module_definition ''module_record_create'')),
      (''module_record_bulk_create'', TierFull),
      (''module_record_update'', mo_tier (module_definition ''module_record_update'')),
      (''module_record_archive'', mo_tier (module_definition ''module_record_archive''))]"

text \<open>
  The value of \<open>approvalTierOverride ?? TOOL_APPROVAL_TIERS[action] ?? 'full'\<close>: a tier, or the
  inherited property of the table object, which equals none of the three tier strings.
\<close>

datatype tier_value = Tier approval_tier | NotATier

definition getApprovalTier :: "string \<Rightarrow> approval_tier option \<Rightarrow> tier_value" where
  "getApprovalTier action approvalTierOverride = (case approvalTierOverride of
       Some t \<Rightarrow> Tier t
     | None \<Rightarrow> (case js_get TOOL_APPROVAL_TIERS action of
           Own t \<Rightarrow> Tier t | Inherited \<Rightarrow> NotATier | Absent \<Rightarrow> Tier TierFull))"

subsection \<open>Destructive actions\<close>

definition DESTRUCTIVE_ADMIN_TOOLS :: "string list" where
  "DESTRUCTIVE_ADMIN_TOOLS = [''manage_agent_employee'', ''manage_mcp_connection'', ''remove_member'']"

definition DESTRUCTIVE_MODULE_TOOLS :: "string list" where
  "DESTRUCTIVE_MODULE_TOOLS =
     filter (\<lambda>operation. mo_destructive (module_definition operation)) MODULE_OPERATION_NAMES
     @ [''module_record_bulk_create'']"

definition effectiveToolName :: "string \<Rightarrow> string" where
  "effectiveToolName toolName =
     (if js_starts_with toolName ''mcp__''
      then js_join ''__'' (drop 2 (js_split_str ''__'' toolName)) else toolName)"

definition destructive_mode :: "jsv \<Rightarrow> bool" where
  "destructive_mode params \<longleftrightarrow> js_is_record params \<and>
     (case js_prop_of params ''mode'' of
        JStr m \<Rightarrow> js_lower m \<in> {''delete'', ''pause'', ''revoke''}
      | _ \<Rightarrow> False)"

definition isDestructiveAction :: "string \<Rightarrow> jsv \<Rightarrow> bool" where
  "isDestructiveAction toolName params =
     (if toolName \<in> set DESTRUCTIVE_ADMIN_TOOLS then True
      else let eff = effectiveToolName toolName in
        if toolName \<in> set DESTRUCTIVE_MODULE_TOOLS \<or> eff \<in> set DESTRUCTIVE_MODULE_TOOLS then True
        else if js_starts_with eff ''delete_'' then True
        else destructive_mode params)"

definition shouldAutoExecute ::
  "string \<Rightarrow> trust_level \<Rightarrow> jsv \<Rightarrow> approval_tier option \<Rightarrow> bool" where
  "shouldAutoExecute action trustLevel params approvalTierOverride =
     (let tier = getApprovalTier action approvalTierOverride in
      case trustLevel of
        Conservative \<Rightarrow> tier = Tier TierAuto
      | Standard \<Rightarrow> tier = Tier TierAuto \<or> tier = Tier TierQuick
      | Autonomous \<Rightarrow>
          if isDestructiveAction action params then False
          else tier = Tier TierAuto \<or> tier = Tier TierQuick \<or> tier = Tier TierFull)"

subsection \<open>MCP tool names\<close>

definition canonicalMcpToolName :: "string \<Rightarrow> string" where
  "canonicalMcpToolName toolName =
     (if \<not> js_starts_with toolName ''mcp__'' then toolName
      else case js_index_of_from toolName ''__'' (length ''mcp__'') of
             Some separator \<Rightarrow> drop (separator + 2) toolName
           | None \<Rightarrow> toolName)"

definition isMcpToolEnabled :: "string list option \<Rightarrow> string \<Rightarrow> string \<Rightarrow> bool" where
  "isMcpToolEnabled enabledTools connectionSlug toolName = (case enabledTools of
       None \<Rightarrow> True
     | Some tools \<Rightarrow> list_ex (\<lambda>configuredName. canonicalMcpToolName configuredName = toolName) tools)"

text \<open>
  The slug of a new connection (\<open>routes/mcp-connections.ts\<close>): lower case, every run of other
  characters becomes one hyphen, and one hyphen is cut off at each end.
\<close>

definition slug_char :: "char \<Rightarrow> bool" where
  "slug_char c \<longleftrightarrow> js_is_lower c \<or> js_is_digit c"

fun slug_runs :: "bool \<Rightarrow> string \<Rightarrow> string" where
  "slug_runs in_run [] = []"
| "slug_runs in_run (c # s) =
     (if slug_char c then c # slug_runs False s
      else if in_run then slug_runs True s else CHR ''-'' # slug_runs True s)"

definition strip_hyphens :: "string \<Rightarrow> string" where
  "strip_hyphens s =
     (let a = (case s of c # t \<Rightarrow> if c = CHR ''-'' then t else s | [] \<Rightarrow> []) in
      if a \<noteq> [] \<and> last a = CHR ''-'' then butlast a else a)"

definition slugify :: "string \<Rightarrow> string" where
  "slugify name = strip_hyphens (slug_runs False (js_lower name))"

text \<open>
  \<open>parseMCPToolName\<close>: the regular expression needs a slug of non-empty parts joined by single
  underscores, a double underscore, and a non-empty rest without line terminators.
\<close>

definition mcp_slug_pattern :: "string \<Rightarrow> bool" where
  "mcp_slug_pattern g \<longleftrightarrow> list_all (\<lambda>p. p \<noteq> []) (js_split (CHR ''_'') g)"

definition mcp_tail_pattern :: "string \<Rightarrow> bool" where
  "mcp_tail_pattern r \<longleftrightarrow> r \<noteq> [] \<and> list_all (\<lambda>c. code_unit c \<noteq> 10 \<and> code_unit c \<noteq> 13) r"

definition mcp_name_matches :: "string \<Rightarrow> bool" where
  "mcp_name_matches s \<longleftrightarrow> js_starts_with s ''mcp__'' \<and>
     (let body = drop 5 s in
      list_ex (\<lambda>i. mcp_slug_pattern (take i body) \<and> js_starts_with (drop i body) ''__''
                 \<and> mcp_tail_pattern (drop (i + 2) body)) [0..<Suc (length body)])"

datatype mcp_name_error = InvalidMcpToolName string

definition parseMCPToolName :: "string \<Rightarrow> mcp_name_error + (string \<times> string)" where
  "parseMCPToolName prefixedName =
     (if \<not> mcp_name_matches prefixedName then Throw (InvalidMcpToolName prefixedName)
      else let parts = js_split_str ''__'' prefixedName in
        if length parts < 3 then Throw (InvalidMcpToolName prefixedName)
        else Ok (parts ! 1, js_join ''__'' (drop 2 parts)))"

subsection \<open>Splitting a prefixed name\<close>

lemma mcp_split_head:
  "CHR ''_'' \<notin> set p \<Longrightarrow>
    js_split_str_from 0 ''__'' (p @ ''__'' @ u) = p # js_split_str_from 0 ''__'' u"
  by (induction p) auto

lemma mcp_index_head:
  "CHR ''_'' \<notin> set p \<Longrightarrow> js_index_of (p @ ''__'' @ u) ''__'' = Some (length p)"
  by (induction p) auto

lemma js_split_no_occurrence: "d \<notin> set p \<Longrightarrow> js_split d p = [p]"
  by (induction p) auto

lemma mcp_split_name:
  assumes "CHR ''_'' \<notin> set slug"
  shows "js_split_str ''__'' (''mcp__'' @ slug @ ''__'' @ tool) =
    ''mcp'' # slug # js_split_str ''__'' tool"
  using mcp_split_head[of "''mcp''" "slug @ ''__'' @ tool"] mcp_split_head[OF assms, of tool]
  by (simp add: js_split_str_def)

lemma effective_of_prefixed:
  assumes "CHR ''_'' \<notin> set slug"
  shows "effectiveToolName (''mcp__'' @ slug @ ''__'' @ tool) = tool"
  using mcp_split_name[OF assms, of tool] js_join_split_str[of "''__''" tool]
  by (simp add: effectiveToolName_def)

lemma canonical_of_prefixed:
  assumes "CHR ''_'' \<notin> set slug"
  shows "canonicalMcpToolName (''mcp__'' @ slug @ ''__'' @ tool) = tool"
  using mcp_index_head[OF assms, of tool]
  by (simp add: canonicalMcpToolName_def js_index_of_from_def)

lemma canonical_of_native: "\<not> js_starts_with t ''mcp__'' \<Longrightarrow> canonicalMcpToolName t = t"
  by (simp add: canonicalMcpToolName_def)

lemma effective_of_native: "\<not> js_starts_with t ''mcp__'' \<Longrightarrow> effectiveToolName t = t"
  by (simp add: effectiveToolName_def)

subsection \<open>Slugs\<close>

lemma slug_runs_chars: "c \<in> set (slug_runs b s) \<Longrightarrow> slug_char c \<or> c = CHR ''-''"
  by (induction b s rule: slug_runs.induct) (auto split: if_splits)

lemma strip_hyphens_subset: "c \<in> set (strip_hyphens s) \<Longrightarrow> c \<in> set s"
  by (auto simp: strip_hyphens_def Let_def split: list.splits if_splits dest: in_set_butlastD)

lemma slug_char_not_underscore: "\<not> slug_char (CHR ''_'')"
  by (simp add: slug_char_def js_is_lower_def js_is_digit_def code_unit_def)

lemma slugify_chars: "c \<in> set (slugify name) \<Longrightarrow> slug_char c \<or> c = CHR ''-''"
  unfolding slugify_def by (meson slug_runs_chars strip_hyphens_subset)

lemma slugify_no_underscore: "CHR ''_'' \<notin> set (slugify name)"
  using slugify_chars[of "CHR ''_''" name] slug_char_not_underscore by auto

lemma slug_runs_no_double:
  "successively (\<lambda>a b. \<not> (a = CHR ''-'' \<and> b = CHR ''-'')) (slug_runs b s) \<and>
   (b \<longrightarrow> slug_runs b s \<noteq> [] \<longrightarrow> hd (slug_runs b s) \<noteq> CHR ''-'')"
proof (induction b s rule: slug_runs.induct)
  case (2 b c s)
  have "slug_char c \<Longrightarrow> c \<noteq> CHR ''-''"
    by (auto simp: slug_char_def js_is_lower_def js_is_digit_def code_unit_def)
  with 2 show ?case by (auto simp: successively_Cons)
qed simp

subsection \<open>Destructive names\<close>

lemma destructive_prefixed:
  assumes "CHR ''_'' \<notin> set slug"
    and "js_starts_with tool ''delete_'' \<or> tool \<in> set DESTRUCTIVE_MODULE_TOOLS"
  shows "isDestructiveAction (''mcp__'' @ slug @ ''__'' @ tool) params"
  unfolding isDestructiveAction_def effective_of_prefixed[OF assms(1)] Let_def
  using assms(2) by auto

lemma destructive_never_auto:
  "isDestructiveAction a params \<Longrightarrow> \<not> shouldAutoExecute a Autonomous params ov"
  by (simp add: shouldAutoExecute_def Let_def)

lemma DESTRUCTIVE_MODULE_TOOLS_eq:
  "DESTRUCTIVE_MODULE_TOOLS =
     [''module_record_task_unlink'', ''module_record_bulk_create'', ''module_record_archive'',
      ''module_record_bulk_create'']"
  by (simp add: DESTRUCTIVE_MODULE_TOOLS_def MODULE_OPERATION_NAMES_def module_definition_def
      MODULE_OPERATION_DEFINITIONS_def module_op_def)

lemmas tier_tables =
  TOOL_APPROVAL_TIERS_def module_definition_def MODULE_OPERATION_DEFINITIONS_def module_op_def

subsection \<open>The properties\<close>

text \<open>An MCP tool of a connection whose slug the API generated never runs without review when
  the server's own tool name begins with \<open>delete_\<close> or is one of the destructive module operations:
  the prefix does not hide the name, under no trust level that would otherwise run a full-tier tool
  and whatever tier override the connection has.\<close>

theorem prefix_cannot_hide_destructive_tool:
  assumes "js_starts_with tool ''delete_'' \<or> tool \<in> set DESTRUCTIVE_MODULE_TOOLS"
  shows "\<not> shouldAutoExecute (''mcp__'' @ slugify conn @ ''__'' @ tool) Autonomous params override"
  using destructive_prefixed[OF slugify_no_underscore assms] by (rule destructive_never_auto)

theorem prefix_cannot_hide_destructive_tool_witness:
  "\<not> shouldAutoExecute (''mcp__'' @ slugify ''GitHub (prod)'' @ ''__'' @ ''delete_repo'') Autonomous
      (JObj []) (Some TierAuto)"
  by (rule prefix_cannot_hide_destructive_tool) simp

text \<open>The three readings of a prefixed tool name agree for the slugs the API generates: the
  policy's canonical name, the destructive check's effective name and the router's parse all recover
  the server's own tool name, and the router recovers the slug.\<close>

theorem mcp_name_roundtrip:
  assumes "slugify conn \<noteq> []" and "mcp_tail_pattern tool"
  shows "parseMCPToolName (''mcp__'' @ slugify conn @ ''__'' @ tool) = Ok (slugify conn, tool)
    \<and> canonicalMcpToolName (''mcp__'' @ slugify conn @ ''__'' @ tool) = tool
    \<and> effectiveToolName (''mcp__'' @ slugify conn @ ''__'' @ tool) = tool"
proof -
  let ?g = "slugify conn" and ?n = "''mcp__'' @ slugify conn @ ''__'' @ tool"
  have nu: "CHR ''_'' \<notin> set ?g" by (rule slugify_no_underscore)
  have "mcp_slug_pattern ?g"
    using assms(1) by (simp add: mcp_slug_pattern_def js_split_no_occurrence[OF nu])
  then have "mcp_name_matches ?n"
    using assms(2) by (auto simp: mcp_name_matches_def Let_def list_ex_iff intro!: bexI[of _ "length ?g"])
  moreover have "3 \<le> length (js_split_str ''__'' ?n)"
    using js_split_str_not_Nil[of "''__''" tool]
    unfolding mcp_split_name[OF nu] by (cases "js_split_str ''__'' tool") auto
  ultimately show ?thesis
    using effective_of_prefixed[OF nu, of tool] canonical_of_prefixed[OF nu, of tool]
      js_join_split_str[of "''__''" tool]
    by (simp add: parseMCPToolName_def Let_def mcp_split_name[OF nu] del: append.simps)
qed

theorem mcp_name_roundtrip_witness:
  "parseMCPToolName (''mcp__'' @ slugify ''My Server'' @ ''__'' @ ''get__item'') =
     Ok (slugify ''My Server'', ''get__item'')"
  using mcp_name_roundtrip[of "''My Server''" "''get__item''"]
  by (simp add: mcp_tail_pattern_def code_unit_def slugify_def slug_runs.simps slug_char_def
      js_is_lower_def js_is_digit_def js_lower_def js_lower_char_def js_is_upper_def strip_hyphens_def)

text \<open>Trust is monotone: what runs without review at one level runs at every higher level,
  except that autonomous trust queues destructive actions; and a full-tier action runs without
  review under autonomous trust only.\<close>

theorem trust_is_monotone:
  "(shouldAutoExecute a Conservative p ov \<longrightarrow> shouldAutoExecute a Standard p ov)
   \<and> (shouldAutoExecute a Standard p ov \<longrightarrow>
        shouldAutoExecute a Autonomous p ov \<or> isDestructiveAction a p)
   \<and> (getApprovalTier a ov = Tier TierFull \<longrightarrow> shouldAutoExecute a lvl p ov \<longrightarrow>
        lvl = Autonomous \<and> \<not> isDestructiveAction a p)"
  by (cases lvl) (auto simp: shouldAutoExecute_def Let_def)

theorem trust_is_monotone_witness:
  "shouldAutoExecute ''add_label'' Standard JNull None
   \<and> \<not> shouldAutoExecute ''post_message'' Standard JNull None"
proof -
  have "shouldAutoExecute ''add_label'' Conservative JNull None"
    "getApprovalTier ''post_message'' None = Tier TierFull"
    by code_simp+
  then show ?thesis
    using trust_is_monotone[of "''add_label''" JNull None Standard]
      trust_is_monotone[of "''post_message''" JNull None Standard] by blast
qed

lemma conservative_iff_auto:
  "shouldAutoExecute a Conservative p ov \<longleftrightarrow> getApprovalTier a ov = Tier TierAuto"
  by (simp add: shouldAutoExecute_def Let_def)

text \<open>The tools that the code runs without review under conservative trust: the auto tier of
  the table, eight of them writes.  The matrix in the file's header comment queues this tier.\<close>

theorem conservative_runs_auto_tier:
  "filter (\<lambda>a. shouldAutoExecute a Conservative p None) (map fst TOOL_APPROVAL_TIERS) =
     [''update_task_status'', ''assign_task'', ''list_agent_employees'', ''get_agent_activity'',
      ''get_agent_economics'', ''create_plan'', ''space_memory_set'', ''space_memory_get'',
      ''delegation_self_report'', ''set_due_date'', ''set_priority'', ''add_label'', ''close_task'',
      ''reopen_task'', ''module_record_task_links'', ''module_list'', ''module_schema_get'',
      ''module_record_search'', ''module_record_query'', ''module_record_get'',
      ''module_record_incoming'', ''module_record_latest_related'']"
  unfolding conservative_iff_auto by code_simp

end
