(* ===== verification/RunContract.thy ===== *)
theory RunContract
  imports Workflow JsValue
begin

text \<open>
  The App Run contract of \<open>src/packages/shared/src/app-runs.ts\<close>: limits, states and their graphs,
  actors, policies, the crash-recovery classification, and the refinements of the safe outcome, the
  safe metadata, the authorization snapshot, the receipt and the submission.  Times are
  milliseconds since the epoch.
\<close>

subsection \<open>Limits and retention\<close>

record run_limits =
  lim_input_bytes :: nat
  lim_output_bytes :: nat
  lim_authorization_snapshot_bytes :: nat
  lim_safe_preview_bytes :: nat
  lim_safe_event_payload_bytes :: nat
  lim_safe_receipt_envelope_bytes :: nat
  lim_idempotency_key_bytes :: nat
  lim_keyring_entries :: nat
  lim_key_id_chars :: nat
  lim_max_child_depth :: nat
  lim_resource_refs_per_preview :: nat

definition APP_RUN_LIMITS :: run_limits where
  "APP_RUN_LIMITS =
     \<lparr>lim_input_bytes = 256 * 1024, lim_output_bytes = 1024 * 1024,
      lim_authorization_snapshot_bytes = 64 * 1024, lim_safe_preview_bytes = 16 * 1024,
      lim_safe_event_payload_bytes = 32 * 1024, lim_safe_receipt_envelope_bytes = 32 * 1024,
      lim_idempotency_key_bytes = 256, lim_keyring_entries = 16, lim_key_id_chars = 64,
      lim_max_child_depth = 8, lim_resource_refs_per_preview = 32\<rparr>"

lemma max_child_depth_code [code_unfold]: "lim_max_child_depth APP_RUN_LIMITS = 8"
  by (simp add: APP_RUN_LIMITS_def)

datatype retention_class = Ephemeral | StandardRetention | Extended

definition APP_RUN_SECRET_RETENTION_MS :: "retention_class \<Rightarrow> int" where
  "APP_RUN_SECRET_RETENTION_MS c = (case c of
       Ephemeral \<Rightarrow> 60 * 60 * 1000
     | StandardRetention \<Rightarrow> 7 * 24 * 60 * 60 * 1000
     | Extended \<Rightarrow> 30 * 24 * 60 * 60 * 1000)"

definition APP_RUN_IDEMPOTENCY_RETENTION_MS :: "retention_class \<Rightarrow> int" where
  "APP_RUN_IDEMPOTENCY_RETENTION_MS c = (case c of
       Ephemeral \<Rightarrow> 7 * 24 * 60 * 60 * 1000
     | StandardRetention \<Rightarrow> 30 * 24 * 60 * 60 * 1000
     | Extended \<Rightarrow> 90 * 24 * 60 * 60 * 1000)"

definition retentionDeadline :: "retention_class \<Rightarrow> int \<Rightarrow> int" where
  "retentionDeadline c from = from + APP_RUN_SECRET_RETENTION_MS c"

definition idempotencyDeadline :: "retention_class \<Rightarrow> int \<Rightarrow> int" where
  "idempotencyDeadline c from = from + APP_RUN_IDEMPOTENCY_RETENTION_MS c"

definition APP_RUN_DEFAULT_ATTEMPT_LIMIT :: nat where
  "APP_RUN_DEFAULT_ATTEMPT_LIMIT = 3"

definition exact_identity :: "string \<Rightarrow> bool" where
  "exact_identity s \<longleftrightarrow> 1 \<le> length s \<and> length s \<le> 512 \<and> s = js_trim s
     \<and> list_all (\<lambda>c. \<not> (code_unit c \<le> 31 \<or> code_unit c = 127)) s"

subsection \<open>Run and attempt states\<close>

datatype run_state = Pending | PendingApproval | Running | WaitingExternal
  | Succeeded | Failed | Cancelled | Expired | UnknownOutcome

definition APP_RUN_TERMINAL_STATES :: "run_state list" where
  "APP_RUN_TERMINAL_STATES = [Succeeded, Failed, Cancelled, Expired]"

definition APP_RUN_STATE_TRANSITIONS :: "run_state \<Rightarrow> run_state list" where
  "APP_RUN_STATE_TRANSITIONS s = (case s of
       Pending \<Rightarrow> [PendingApproval, Running, Cancelled, Expired]
     | PendingApproval \<Rightarrow> [Running, Cancelled, Expired]
     | Running \<Rightarrow> [WaitingExternal, Succeeded, Failed, UnknownOutcome]
     | WaitingExternal \<Rightarrow> [Running, Succeeded, Failed, Cancelled, UnknownOutcome]
     | Succeeded \<Rightarrow> []
     | Failed \<Rightarrow> []
     | Cancelled \<Rightarrow> []
     | Expired \<Rightarrow> []
     | UnknownOutcome \<Rightarrow> [Succeeded, Failed])"

definition isAppRunStateTransitionAllowed :: "run_state \<Rightarrow> run_state \<Rightarrow> bool" where
  "isAppRunStateTransitionAllowed frm to \<longleftrightarrow> frm = to \<or> to \<in> set (APP_RUN_STATE_TRANSITIONS frm)"

datatype attempt_state = AttPending | AttClaimed | AttCallStarted
  | AttSucceeded | AttFailed | AttCancelled | AttUnknown

definition APP_RUN_ATTEMPT_STATE_TRANSITIONS :: "attempt_state \<Rightarrow> attempt_state list" where
  "APP_RUN_ATTEMPT_STATE_TRANSITIONS s = (case s of
       AttPending \<Rightarrow> [AttClaimed, AttCancelled]
     | AttClaimed \<Rightarrow> [AttCallStarted, AttFailed, AttCancelled]
     | AttCallStarted \<Rightarrow> [AttSucceeded, AttFailed, AttCancelled, AttUnknown]
     | AttSucceeded \<Rightarrow> []
     | AttFailed \<Rightarrow> []
     | AttCancelled \<Rightarrow> []
     | AttUnknown \<Rightarrow> [])"

definition isAppRunAttemptStateTransitionAllowed :: "attempt_state \<Rightarrow> attempt_state \<Rightarrow> bool" where
  "isAppRunAttemptStateTransitionAllowed frm to \<longleftrightarrow>
     frm = to \<or> to \<in> set (APP_RUN_ATTEMPT_STATE_TRANSITIONS frm)"

definition run_states :: "run_state list" where
  "run_states = [Pending, PendingApproval, Running, WaitingExternal, Succeeded, Failed, Cancelled,
     Expired, UnknownOutcome]"

definition attempt_states :: "attempt_state list" where
  "attempt_states = [AttPending, AttClaimed, AttCallStarted, AttSucceeded, AttFailed, AttCancelled, AttUnknown]"

definition run_rank :: "run_state \<Rightarrow> nat" where
  "run_rank s = (case s of Pending \<Rightarrow> 0 | PendingApproval \<Rightarrow> 1 | Running \<Rightarrow> 2 | WaitingExternal \<Rightarrow> 2
     | UnknownOutcome \<Rightarrow> 3 | _ \<Rightarrow> 4)"

definition attempt_rank :: "attempt_state \<Rightarrow> nat" where
  "attempt_rank s = (case s of AttPending \<Rightarrow> 0 | AttClaimed \<Rightarrow> 1 | AttCallStarted \<Rightarrow> 2 | _ \<Rightarrow> 3)"

interpretation run_graph: staged run_states APP_RUN_STATE_TRANSITIONS run_rank
  by unfold_locales (auto simp: run_states_def APP_RUN_STATE_TRANSITIONS_def run_rank_def split: run_state.splits)

interpretation attempt_graph: lifecycle attempt_states APP_RUN_ATTEMPT_STATE_TRANSITIONS attempt_rank
  by unfold_locales
    (auto simp: attempt_states_def APP_RUN_ATTEMPT_STATE_TRANSITIONS_def attempt_rank_def split: attempt_state.splits)

lemma run_states_all [simp]: "s \<in> set run_states"
  by (cases s) (simp_all add: run_states_def)

lemma attempt_states_all [simp]: "s \<in> set attempt_states"
  by (cases s) (simp_all add: attempt_states_def)

lemma terminal_iff_no_next: "s \<in> set APP_RUN_TERMINAL_STATES \<longleftrightarrow> APP_RUN_STATE_TRANSITIONS s = []"
  by (cases s) (simp_all add: APP_RUN_TERMINAL_STATES_def APP_RUN_STATE_TRANSITIONS_def)

subsection \<open>Actors, operations, origins\<close>

datatype actor =
    HumanActor string
  | AgentEmployeeActor string "string option"
  | SystemActor string
  | AppPublicActor string string
  | AutomationActor string "string option"

datatype actor_type = TyHuman | TyAgentEmployee | TySystem | TyAppPublic | TyAutomation

definition actor_type_of :: "actor \<Rightarrow> actor_type" where
  "actor_type_of a = (case a of HumanActor _ \<Rightarrow> TyHuman | AgentEmployeeActor _ _ \<Rightarrow> TyAgentEmployee
     | SystemActor _ \<Rightarrow> TySystem | AppPublicActor _ _ \<Rightarrow> TyAppPublic | AutomationActor _ _ \<Rightarrow> TyAutomation)"

definition actor_valid :: "actor \<Rightarrow> bool" where
  "actor_valid a = (case a of
       HumanActor u \<Rightarrow> exact_identity u
     | AgentEmployeeActor e u \<Rightarrow> exact_identity e \<and> (\<forall>x \<in> set_option u. exact_identity x)
     | SystemActor s \<Rightarrow> exact_identity s
     | AppPublicActor e i \<Rightarrow> exact_identity e \<and> exact_identity i
     | AutomationActor d u \<Rightarrow> exact_identity d \<and> (\<forall>x \<in> set_option u. exact_identity x))"

datatype origin_kind = OriginCore | OriginLegacyConnector | OriginApp
datatype provider_kind = ProvMcp | ProvAppRuntime | ProvNative

text \<open>The shapes of an App origin: which of the three bindings it names, and the public ingress.\<close>

datatype app_binding = NativeBinding string | ActionBinding string | RuntimeBinding string

datatype run_origin =
    CoreOrigin
  | LegacyOrigin string
  | AppOrigin string string app_binding string "(string \<times> string) option"

fun origin_kind_of :: "run_origin \<Rightarrow> origin_kind" where
  "origin_kind_of CoreOrigin = OriginCore"
| "origin_kind_of (LegacyOrigin _) = OriginLegacyConnector"
| "origin_kind_of (AppOrigin _ _ _ _ _) = OriginApp"

text \<open>The union has no variant with an action binding and a public ingress.\<close>

fun origin_valid :: "run_origin \<Rightarrow> bool" where
  "origin_valid CoreOrigin = True"
| "origin_valid (LegacyOrigin c) = exact_identity c"
| "origin_valid (AppOrigin inst ver b grant pub) =
     (exact_identity inst \<and> exact_identity ver \<and> exact_identity grant
      \<and> (case b of NativeBinding x \<Rightarrow> exact_identity x | ActionBinding x \<Rightarrow> exact_identity x \<and> pub = None
           | RuntimeBinding x \<Rightarrow> exact_identity x)
      \<and> (case pub of None \<Rightarrow> True | Some (e, i) \<Rightarrow> exact_identity e \<and> exact_identity i))"

definition origin_is_native :: "run_origin \<Rightarrow> bool" where
  "origin_is_native og = (case og of AppOrigin _ _ (NativeBinding _) _ _ \<Rightarrow> True | _ \<Rightarrow> False)"

record operation_identity =
  op_org :: string
  op_provider_kind :: provider_kind
  op_provider_instance :: string
  op_name :: string

subsection \<open>Policy\<close>

datatype risk_class = RiskRead | RiskInternalWrite | RiskExternalWrite | RiskDestructive | RiskPrivileged
datatype review_requirement = ReviewPolicy | ReviewAlways
datatype review_scope = PerInvocation | ImmutableBatch | ApprovedAutomationDefinition
  | ForbiddenInAutomation | ReviewedResourceSync
datatype retry_class = RetrySafe | IdempotentWithKey | UnsafeOrUnknown

record policy_snapshot =
  ps_risk_class :: risk_class
  ps_review_requirement :: review_requirement
  ps_review_scope :: review_scope
  ps_retry_class :: retry_class

text \<open>The submission's policy may not use the host-created sync scope; a receipt's may, in one form.\<close>

definition submission_policy_valid :: "policy_snapshot \<Rightarrow> bool" where
  "submission_policy_valid p \<longleftrightarrow> ps_review_scope p \<noteq> ReviewedResourceSync"

definition receipt_policy_valid :: "policy_snapshot \<Rightarrow> bool" where
  "receipt_policy_valid p \<longleftrightarrow> submission_policy_valid p \<or>
     (ps_risk_class p = RiskInternalWrite \<and> ps_review_requirement p = ReviewPolicy
      \<and> ps_review_scope p = ReviewedResourceSync \<and> ps_retry_class p = UnsafeOrUnknown)"

datatype run_error_code =
    APP_RUNS_DISABLED | APP_RUN_KEYRING_INVALID | APP_RUN_KEY_VERSION_UNAVAILABLE
  | APP_RUN_INPUT_INVALID | APP_RUN_INPUT_TOO_LARGE | APP_RUN_OUTPUT_TOO_LARGE
  | APP_RUN_IDEMPOTENCY_CONFLICT | APP_RUN_ILLEGAL_TRANSITION | APP_RUN_EXECUTION_NOT_RELEASED
  | APP_RUN_ACCESS_DENIED | APP_RUN_AUTHORIZATION_STALE | APP_RUN_PROVIDER_UNAVAILABLE
  | APP_RUN_PROVIDER_ERROR | APP_RUN_PROVIDER_TIMEOUT | APP_RUN_APPROVAL_REJECTED
  | APP_RUN_APPROVAL_EXPIRED | APP_RUN_CANCELLED | APP_RUN_EXPIRED | APP_RUN_UNKNOWN_OUTCOME
  | APP_RUN_RESULT_EXPIRED | APP_RUN_REPAIR_REQUIRED | APP_RUN_ANCESTRY_LIMIT
  | APP_RUN_CAPABILITY_CYCLE

subsection \<open>Crash recovery\<close>

datatype recovery_decision = PersistKnownResult | CreateRetryAttempt | DecideUnknownOutcome

definition classifyAppRunCrashRecovery :: "retry_class \<Rightarrow> bool \<Rightarrow> bool \<Rightarrow> bool \<Rightarrow> recovery_decision" where
  "classifyAppRunCrashRecovery retry call_started result_known key_bound =
     (if result_known then PersistKnownResult
      else if \<not> call_started then CreateRetryAttempt
      else if retry = RetrySafe then CreateRetryAttempt
      else if retry = IdempotentWithKey \<and> key_bound then CreateRetryAttempt
      else DecideUnknownOutcome)"

subsection \<open>Safe data\<close>

definition APP_RUN_FORBIDDEN_SAFE_KEYS :: "string list" where
  "APP_RUN_FORBIDDEN_SAFE_KEYS =
     [''input'', ''output'', ''raw_input'', ''raw_output'', ''params'', ''idempotency_key'', ''retry_key'',
      ''ciphertext'', ''ciphertext_b64'', ''nonce_b64'', ''auth_tag_b64'', ''credential'', ''credentials'',
      ''secret'', ''password'', ''access_token'', ''refresh_token'', ''api_key'', ''private_key'',
      ''signature_hmac'']"

fun findForbiddenSafeKey :: "jsv \<Rightarrow> string list \<Rightarrow> string list option"
  and find_forbidden_items :: "jsv list \<Rightarrow> nat \<Rightarrow> string list \<Rightarrow> string list option"
  and find_forbidden_entries :: "(string \<times> jsv) list \<Rightarrow> string list \<Rightarrow> string list option" where
  "findForbiddenSafeKey (JArr vs) path = find_forbidden_items vs 0 path"
| "findForbiddenSafeKey (JObj ps) path = find_forbidden_entries ps path"
| "findForbiddenSafeKey v path = None"
| "find_forbidden_items [] i path = None"
| "find_forbidden_items (v # vs) i path =
     (case findForbiddenSafeKey v (path @ [nat_to_string i]) of
        Some found \<Rightarrow> Some found
      | None \<Rightarrow> find_forbidden_items vs (Suc i) path)"
| "find_forbidden_entries [] path = None"
| "find_forbidden_entries ((key, item) # ps) path =
     (if js_lower key \<in> set APP_RUN_FORBIDDEN_SAFE_KEYS then Some (path @ [key])
      else case findForbiddenSafeKey item (path @ [key]) of
        Some found \<Rightarrow> Some found
      | None \<Rightarrow> find_forbidden_entries ps path)"

definition safe_metadata_ok :: "jsv \<Rightarrow> bool" where
  "safe_metadata_ok v \<longleftrightarrow> findForbiddenSafeKey v [] = None"

datatype result_status = Retained | ResultExpired | Unavailable

record safe_outcome =
  so_success :: bool
  so_provider_call_attempted :: bool
  so_result_status :: result_status
  so_summary :: "string option"
  so_error_code :: "run_error_code option"

definition AppRunSafeOutcome_ok :: "safe_outcome \<Rightarrow> bool" where
  "AppRunSafeOutcome_ok out \<longleftrightarrow>
     (case so_summary out of None \<Rightarrow> True | Some s \<Rightarrow> length s \<le> 1000)
     \<and> \<not> (so_success out \<and> so_error_code out \<noteq> None)
     \<and> \<not> (\<not> so_success out \<and> so_error_code out = None)"

definition outcome :: "bool \<Rightarrow> bool \<Rightarrow> result_status \<Rightarrow> run_error_code option \<Rightarrow> safe_outcome" where
  "outcome success attempted status err =
     \<lparr>so_success = success, so_provider_call_attempted = attempted, so_result_status = status,
      so_summary = None, so_error_code = err\<rparr>"

record authority_ref =
  ar_kind :: string
  ar_id :: string
  ar_version :: string

record authorization_snapshot =
  as_subject :: actor
  as_refs :: "authority_ref list"

text \<open>The indices at which the refinement reports a repeated authority identity.\<close>

fun duplicate_authorities :: "(string \<times> string) list \<Rightarrow> nat \<Rightarrow> authority_ref list \<Rightarrow> nat list" where
  "duplicate_authorities seen i [] = []"
| "duplicate_authorities seen i (r # rs) =
     (let identity = (ar_kind r, ar_id r) in
      (if identity \<in> set seen then [i] else [])
      @ duplicate_authorities (identity # seen) (Suc i) rs)"

definition AppRunAuthorizationSnapshot_ok :: "authorization_snapshot \<Rightarrow> bool" where
  "AppRunAuthorizationSnapshot_ok a \<longleftrightarrow> actor_valid (as_subject a)
     \<and> 1 \<le> length (as_refs a) \<and> length (as_refs a) \<le> 32
     \<and> list_all (\<lambda>r. exact_identity (ar_id r) \<and> exact_identity (ar_version r)) (as_refs a)
     \<and> duplicate_authorities [] 0 (as_refs a) = []"

lemma duplicate_authorities_Nil:
  "duplicate_authorities seen i rs = [] \<longleftrightarrow>
     distinct (map (\<lambda>r. (ar_kind r, ar_id r)) rs) \<and>
     set (map (\<lambda>r. (ar_kind r, ar_id r)) rs) \<inter> set seen = {}"
  by (induction rs arbitrary: seen i) (auto simp: Let_def)

datatype receipt_kind = ApprovalReceipt | AttemptTerminalReceipt | ReconciliationReceipt | RepairReceipt

datatype receipt_issue = MissingAttemptId | ProviderOrgMismatch

definition AppRunReceipt_issues :: "receipt_kind \<Rightarrow> string option \<Rightarrow> string \<Rightarrow> operation_identity \<Rightarrow> receipt_issue list" where
  "AppRunReceipt_issues kind attempt_id org operation =
     (if kind = AttemptTerminalReceipt \<and> attempt_id = None then [MissingAttemptId] else [])
     @ (if op_org operation \<noteq> org then [ProviderOrgMismatch] else [])"

record submission =
  sub_org :: string
  sub_initiating :: actor
  sub_execution :: actor
  sub_origin :: run_origin
  sub_operation :: operation_identity
  sub_snapshot_digest :: string
  sub_policy :: policy_snapshot
  sub_retention :: retention_class
  sub_idempotency_key :: string
  sub_input :: jsv
  sub_authorization :: authorization_snapshot
  sub_preview :: jsv

datatype submission_issue = SubProviderOrg | SubNativeOrigin

definition AppRunSubmission_issues :: "submission \<Rightarrow> submission_issue list" where
  "AppRunSubmission_issues s =
     (if op_org (sub_operation s) \<noteq> sub_org s then [SubProviderOrg] else [])
     @ (if origin_is_native (sub_origin s) \<noteq> (op_provider_kind (sub_operation s) = ProvNative)
        then [SubNativeOrigin] else [])"

end
