(* ===== verification/RunStore.thy ===== *)
theory RunStore
  imports RunContract
begin

text \<open>
  The tables behind one App Run and the repository operations on them: \<open>app-run-repository.ts\<close>,
  the receipt writer of \<open>app-run-receipts.ts\<close>, the payload table of \<open>app-run-secret-repository.ts\<close>
  and the triggers of \<open>src/packages/db/upgrades\<close> (the run guard of preview.26, the attempt guard of
  preview.18, the release gates of preview.19) that every write passes.

  Every operation of the engine locks the Run row first, so one value of type \<open>run_db\<close> holds the
  Run, its attempts, events, receipts, payloads and queued jobs, and a transaction is a function
  from it to an error (rolled back) or a new value with a result.  The columns that the guard
  declares immutable are the record \<open>run_ident\<close>.
\<close>

subsection \<open>Rows\<close>

record run_ident =
  ri_id :: string
  ri_org :: string
  ri_origin :: run_origin
  ri_initiating :: "actor_type \<times> string"
  ri_execution :: "actor_type \<times> string"
  ri_operation :: operation_identity
  ri_policy :: policy_snapshot
  ri_retention :: retention_class
  ri_idempotency :: "string \<times> string"
  ri_input_fingerprint :: "string \<times> string"
  ri_authorization :: authorization_snapshot
  ri_preview :: jsv
  ri_automation :: "(string \<times> string) option"
  ri_root_run_id :: string
  ri_parent_run_id :: "string option"
  ri_depth :: nat
  ri_input_expires_at :: int
  ri_result_expires_at :: int
  ri_idempotency_expires_at :: int
  ri_attempt_limit :: nat

datatype release_kind = ReleasePolicySatisfied | ReleaseApproved | ReleaseAutomation

record app_run =
  rn_ident :: run_ident
  rn_state :: run_state
  rn_safe_outcome :: "safe_outcome option"
  rn_release_kind :: "release_kind option"
  rn_released_at :: "int option"
  rn_budget :: "(int \<times> int \<times> int) option"
  rn_input_purged_at :: "int option"
  rn_result_purged_at :: "int option"
  rn_started_at :: "int option"
  rn_terminal_at :: "int option"
  rn_unknown_outcome_at :: "int option"
  rn_reconciled_at :: "int option"
  rn_cancelled_at :: "int option"
  rn_cancel_requested_at :: "int option"
  rn_updated_at :: int

record attempt =
  at_id :: string
  at_number :: nat
  at_retry_of :: "string option"
  at_state :: attempt_state
  at_claim :: "(string \<times> string \<times> int) option"
  at_lease :: "int option"
  at_started :: "int option"
  at_finished :: "int option"
  at_key :: "(string \<times> string) option"
  at_outcome :: "safe_outcome option"
  at_error :: "run_error_code option"
  at_updated :: int

definition at_token :: "attempt \<Rightarrow> string option" where
  "at_token a = map_option (\<lambda>(owner, token, claimed_at). token) (at_claim a)"

datatype event_type = RunCreated | ApprovalRequested | ApprovalResolved | AttemptCreated | AttemptClaimed
  | ProviderCallStarted | CancellationRequested | AttemptTerminal | RunTransitioned | SecretsPurged
  | ReconciliationRecorded | RepairGap

datatype event_payload =
    PEmpty
  | PState run_state
  | PTransition run_state run_state "run_error_code option"
  | PAttempt string
  | PAttemptNumber string nat
  | PAttemptState string attempt_state
  | PNativeUnstarted string attempt_state
  | PRelease
  | PAction string
  | PPurged bool bool

record run_event =
  ev_sequence :: nat
  ev_type :: event_type
  ev_actor :: "(actor_type \<times> string) option"
  ev_payload :: event_payload
  ev_at :: int

datatype receipt_facts =
    AttemptFacts attempt_state bool "run_error_code option" bool
  | ApprovalFacts string string
  | ReconciliationFacts run_state

datatype receipt_key = AttemptKey string | ApprovalKey string | ReconciliationKey "int option"

datatype payload_kind = InputPayload | OutputPayload string

record payload =
  py_kind :: payload_kind
  py_value :: jsv
  py_expires_at :: int

record receipt =
  rc_key :: receipt_key
  rc_kind :: receipt_kind
  rc_attempt :: "string option"
  rc_run_state :: run_state
  rc_actor :: "actor option"
  rc_output :: "payload option"
  rc_facts :: receipt_facts
  rc_at :: int

record run_db =
  d_run :: app_run
  d_attempts :: "attempt list"
  d_events :: "run_event list"
  d_receipts :: "receipt list"
  d_payloads :: "payload list"
  d_jobs :: "string list"

datatype tx_error =
    RunError run_error_code
  | ImmutableField
  | GuardIllegalTransition
  | GuardNotReleased
  | ConstraintViolation
  | SchemaError

type_synonym 'a tx = "tx_error + (run_db \<times> 'a)"

definition actorColumns :: "actor \<Rightarrow> actor_type \<times> string" where
  "actorColumns a = (actor_type_of a, (case a of
       HumanActor u \<Rightarrow> u | AgentEmployeeActor e _ \<Rightarrow> e | SystemActor s \<Rightarrow> s
     | AutomationActor d _ \<Rightarrow> d | AppPublicActor _ i \<Rightarrow> i))"

definition appRunActorId :: "actor \<Rightarrow> string" where
  "appRunActorId a = snd (actorColumns a)"

abbreviation run_terminal :: "run_state \<Rightarrow> bool" where
  "run_terminal s \<equiv> s \<in> {Succeeded, Failed, Cancelled, Expired}"

definition retry_of :: "app_run \<Rightarrow> retry_class" where
  "retry_of r = ps_retry_class (ri_policy (rn_ident r))"

definition provider_of :: "app_run \<Rightarrow> provider_kind" where
  "provider_of r = op_provider_kind (ri_operation (rn_ident r))"

subsection \<open>The guards of the database\<close>

definition frozen :: "'a option \<Rightarrow> 'a option \<Rightarrow> bool" where
  "frozen old new \<longleftrightarrow> old = None \<or> new = old"

definition run_guard :: "app_run \<Rightarrow> app_run \<Rightarrow> tx_error option" where
  "run_guard old new =
     (if rn_ident new \<noteq> rn_ident old then Some ImmutableField
      else if \<not> (frozen (rn_started_at old) (rn_started_at new)
                 \<and> frozen (rn_terminal_at old) (rn_terminal_at new)
                 \<and> frozen (rn_unknown_outcome_at old) (rn_unknown_outcome_at new)
                 \<and> frozen (rn_reconciled_at old) (rn_reconciled_at new)
                 \<and> frozen (rn_cancelled_at old) (rn_cancelled_at new)
                 \<and> frozen (rn_cancel_requested_at old) (rn_cancel_requested_at new)
                 \<and> frozen (rn_input_purged_at old) (rn_input_purged_at new)
                 \<and> frozen (rn_result_purged_at old) (rn_result_purged_at new)
                 \<and> \<not> (rn_safe_outcome old \<noteq> None \<and> rn_safe_outcome new = None))
        then Some ImmutableField
      else if rn_cancel_requested_at old = None \<and> rn_cancel_requested_at new \<noteq> None
              \<and> rn_state old \<notin> {Running, WaitingExternal} then Some GuardIllegalTransition
      else if rn_state new \<noteq> rn_state old \<and> \<not> (
              (rn_state old = Pending \<and> rn_state new \<in> {PendingApproval, Running, Cancelled, Expired})
            \<or> (rn_state old = PendingApproval \<and> rn_state new \<in> {Running, Cancelled, Expired})
            \<or> (rn_state old = Running \<and> rn_state new \<in> {WaitingExternal, Succeeded, Failed, UnknownOutcome})
            \<or> (rn_state old = WaitingExternal \<and>
                rn_state new \<in> {Running, Succeeded, Failed, Cancelled, UnknownOutcome})
            \<or> (rn_state old = UnknownOutcome \<and> rn_state new \<in> {Succeeded, Failed}))
        then Some GuardIllegalTransition
      else if rn_release_kind old \<noteq> None \<and>
              (rn_release_kind new \<noteq> rn_release_kind old \<or> rn_released_at new \<noteq> rn_released_at old)
        then Some ImmutableField
      else if rn_budget old \<noteq> None \<and> rn_budget new \<noteq> rn_budget old then Some ImmutableField
      else if rn_state new = Running \<and> rn_released_at new = None then Some GuardNotReleased
      else None)"

definition attempt_guard :: "app_run \<Rightarrow> attempt \<Rightarrow> attempt \<Rightarrow> tx_error option" where
  "attempt_guard run old new =
     (if (at_number new, at_retry_of new, at_key new) \<noteq> (at_number old, at_retry_of old, at_key old)
        then Some ImmutableField
      else if at_claim old \<noteq> None \<and> at_claim new \<noteq> at_claim old then Some ImmutableField
      else if at_claim old = None \<and> at_claim new \<noteq> None
              \<and> \<not> (at_state old = AttPending \<and> at_state new = AttClaimed) then Some GuardIllegalTransition
      else if (case (at_lease old, at_lease new) of (Some l, Some l') \<Rightarrow> l' < l | _ \<Rightarrow> False)
        then Some ImmutableField
      else if \<not> frozen (at_started old) (at_started new) then Some ImmutableField
      else if at_started old = None \<and> at_started new \<noteq> None
              \<and> \<not> (at_state old = AttClaimed \<and> at_state new = AttCallStarted) then Some GuardIllegalTransition
      else if \<not> frozen (at_finished old) (at_finished new) then Some ImmutableField
      else if at_finished old = None \<and> at_finished new \<noteq> None \<and> at_state old \<noteq> AttCallStarted
        then Some GuardIllegalTransition
      else if \<not> frozen (at_outcome old) (at_outcome new) then Some ImmutableField
      else if at_outcome old = None \<and> at_outcome new \<noteq> None
              \<and> (at_state old \<noteq> AttCallStarted \<or> at_finished new = None) then Some GuardIllegalTransition
      else if \<not> frozen (at_error old) (at_error new) then Some ImmutableField
      else if at_state new \<noteq> at_state old \<and> \<not> (
              (at_state old = AttPending \<and> at_state new \<in> {AttClaimed, AttCancelled})
            \<or> (at_state old = AttClaimed \<and> at_state new \<in> {AttCallStarted, AttFailed, AttCancelled})
            \<or> (at_state old = AttCallStarted \<and>
                at_state new \<in> {AttSucceeded, AttFailed, AttCancelled, AttUnknown}))
        then Some GuardIllegalTransition
      else if at_state new \<in> {AttPending, AttClaimed, AttCallStarted} \<and> rn_released_at run = None
        then Some GuardNotReleased
      else if \<not> ((at_claim new = None) = (at_lease new = None)) then Some ConstraintViolation
      else if (case at_finished new of None \<Rightarrow> False
               | Some f \<Rightarrow> (case at_started new of None \<Rightarrow> True | Some s \<Rightarrow> f < s))
        then Some ConstraintViolation
      else None)"

subsection \<open>Writes\<close>

definition update_run :: "run_db \<Rightarrow> app_run \<Rightarrow> app_run tx" where
  "update_run db new = (case run_guard (d_run db) new of
       Some e \<Rightarrow> Throw e
     | None \<Rightarrow> Ok (db\<lparr>d_run := new\<rparr>, new))"

text \<open>
  \<open>UPDATE app_run_attempts SET f WHERE id = aid AND p\<close>: the rows it returns, and an error when the
  guard refuses one of them.
\<close>

definition update_attempt ::
  "run_db \<Rightarrow> string \<Rightarrow> (attempt \<Rightarrow> bool) \<Rightarrow> (attempt \<Rightarrow> attempt) \<Rightarrow> (attempt option) tx" where
  "update_attempt db aid p f = (case List.find (\<lambda>a. at_id a = aid \<and> p a) (d_attempts db) of
       None \<Rightarrow> Ok (db, None)
     | Some a \<Rightarrow> (case attempt_guard (d_run db) a (f a) of
           Some e \<Rightarrow> Throw e
         | None \<Rightarrow> Ok (db\<lparr>d_attempts := map (\<lambda>b. if at_id b = aid then f b else b) (d_attempts db)\<rparr>, Some (f a))))"

definition insert_attempt :: "run_db \<Rightarrow> attempt \<Rightarrow> attempt tx" where
  "insert_attempt db a =
     (if at_id a \<in> at_id ` set (d_attempts db) \<or> at_number a \<in> at_number ` set (d_attempts db)
         \<or> at_number a < 1 then Throw ConstraintViolation
      else if rn_released_at (d_run db) = None then Throw GuardNotReleased
      else Ok (db\<lparr>d_attempts := d_attempts db @ [a]\<rparr>, a))"

definition next_sequence :: "run_event list \<Rightarrow> nat" where
  "next_sequence es = Max (insert 0 (ev_sequence ` set es)) + 1"

definition appendEvent :: "run_db \<Rightarrow> event_type \<Rightarrow> actor option \<Rightarrow> event_payload \<Rightarrow> int \<Rightarrow> run_db" where
  "appendEvent db ty actor p now =
     db\<lparr>d_events := d_events db @
        [\<lparr>ev_sequence = next_sequence (d_events db), ev_type = ty,
          ev_actor = map_option actorColumns actor, ev_payload = p, ev_at = now\<rparr>]\<rparr>"

definition find_output :: "run_db \<Rightarrow> string \<Rightarrow> payload option" where
  "find_output db aid = List.find (\<lambda>p. py_kind p = OutputPayload aid) (d_payloads db)"

text \<open>The writer keeps the first envelope under a key and refuses a different second one.\<close>

definition write_receipt :: "run_db \<Rightarrow> receipt_key \<Rightarrow> receipt_kind \<Rightarrow> string option \<Rightarrow> run_state
    \<Rightarrow> actor option \<Rightarrow> receipt_facts \<Rightarrow> int \<Rightarrow> unit tx" where
  "write_receipt db key kind att st actor facts now =
     (if kind = AttemptTerminalReceipt \<and> att = None then Throw (RunError APP_RUN_REPAIR_REQUIRED)
      else let r = \<lparr>rc_key = key, rc_kind = kind, rc_attempt = att, rc_run_state = st, rc_actor = actor,
                    rc_output = (case att of None \<Rightarrow> None | Some aid \<Rightarrow> find_output db aid),
                    rc_facts = facts, rc_at = now\<rparr> in
        case List.find (\<lambda>x. rc_key x = key) (d_receipts db) of
          None \<Rightarrow> Ok (db\<lparr>d_receipts := d_receipts db @ [r]\<rparr>, ())
        | Some existing \<Rightarrow> if existing = r then Ok (db, ()) else Throw (RunError APP_RUN_REPAIR_REQUIRED))"

definition insertOutput :: "run_db \<Rightarrow> string \<Rightarrow> jsv \<Rightarrow> int \<Rightarrow> unit tx" where
  "insertOutput db aid v expires =
     (if find_output db aid \<noteq> None then Throw ConstraintViolation
      else Ok (db\<lparr>d_payloads := d_payloads db @ [\<lparr>py_kind = OutputPayload aid, py_value = v, py_expires_at = expires\<rparr>]\<rparr>, ()))"

definition readInput :: "run_db \<Rightarrow> jsv option" where
  "readInput db = map_option py_value (List.find (\<lambda>p. py_kind p = InputPayload) (d_payloads db))"

definition readOutput :: "run_db \<Rightarrow> string \<Rightarrow> jsv option" where
  "readOutput db aid = map_option py_value (find_output db aid)"

definition enqueue :: "run_db \<Rightarrow> string \<Rightarrow> run_db" where
  "enqueue db aid = (if aid \<in> set (d_jobs db) then db else db\<lparr>d_jobs := d_jobs db @ [aid]\<rparr>)"

subsection \<open>Repository operations\<close>

text \<open>The columns that a transition to \<open>st\<close> sets on the stored row, from the row the caller holds.\<close>

definition keep_or :: "'a option \<Rightarrow> 'a \<Rightarrow> 'a option" where
  "keep_or old v = (case old of None \<Rightarrow> Some v | Some x \<Rightarrow> Some x)"

definition transition_row :: "app_run \<Rightarrow> app_run \<Rightarrow> run_state \<Rightarrow> safe_outcome option \<Rightarrow> int \<Rightarrow> app_run" where
  "transition_row stored run st out now = stored\<lparr>
     rn_state := st,
     rn_safe_outcome := (if out \<noteq> None then out else rn_safe_outcome run),
     rn_started_at := (if st = Running then keep_or (rn_started_at run) now else rn_started_at run),
     rn_terminal_at := (if run_terminal st then keep_or (rn_terminal_at run) now else rn_terminal_at run),
     rn_unknown_outcome_at :=
       (if st = UnknownOutcome then keep_or (rn_unknown_outcome_at run) now else rn_unknown_outcome_at run),
     rn_reconciled_at := (if rn_state run = UnknownOutcome then Some now else rn_reconciled_at run),
     rn_cancelled_at := (if st = Cancelled then keep_or (rn_cancelled_at run) now else rn_cancelled_at run),
     rn_updated_at := now\<rparr>"

definition transition :: "run_db \<Rightarrow> app_run \<Rightarrow> run_state \<Rightarrow> actor option \<Rightarrow> safe_outcome option
    \<Rightarrow> run_error_code option \<Rightarrow> event_type \<Rightarrow> int \<Rightarrow> app_run tx" where
  "transition db run st actor out err ty now =
     (if rn_state run = st then Ok (db, run)
      else res_bind (update_run db (transition_row (d_run db) run st out now))
        (\<lambda>(db1, updated). Ok (appendEvent db1 ty actor (PTransition (rn_state run) st err) now, updated)))"

definition requestCancellation :: "run_db \<Rightarrow> app_run \<Rightarrow> actor \<Rightarrow> int \<Rightarrow> app_run tx" where
  "requestCancellation db run actor now =
     (if rn_cancel_requested_at run \<noteq> None then Ok (db, run)
      else res_bind (update_run db ((d_run db)\<lparr>rn_cancel_requested_at := Some now, rn_updated_at := now\<rparr>))
        (\<lambda>(db1, updated). Ok (appendEvent db1 CancellationRequested (Some actor) PEmpty now, updated)))"

definition recordApprovedExecutionRelease :: "run_db \<Rightarrow> app_run \<Rightarrow> actor \<Rightarrow> int \<Rightarrow> app_run tx" where
  "recordApprovedExecutionRelease db run actor now =
     (case rn_release_kind run of
        Some ReleaseApproved \<Rightarrow> Ok (db, run)
      | Some _ \<Rightarrow> Throw (RunError APP_RUN_ILLEGAL_TRANSITION)
      | None \<Rightarrow>
          if rn_state (d_run db) \<noteq> PendingApproval then Throw (RunError APP_RUN_ILLEGAL_TRANSITION)
          else res_bind (update_run db ((d_run db)\<lparr>rn_release_kind := Some ReleaseApproved,
                   rn_released_at := Some now, rn_updated_at := now\<rparr>))
            (\<lambda>(db1, updated). Ok (appendEvent db1 ApprovalResolved (Some actor) PRelease now, updated)))"

definition live_attempt :: "attempt \<Rightarrow> bool" where
  "live_attempt a \<longleftrightarrow> at_state a \<in> {AttPending, AttClaimed, AttCallStarted}"

text \<open>Attempts are read in the order of their number, which is the order of insertion.\<close>

definition pendingAttemptIds :: "run_db \<Rightarrow> string list" where
  "pendingAttemptIds db = map at_id (filter live_attempt (d_attempts db))"

definition latestRetainedAttemptId :: "run_db \<Rightarrow> string option" where
  "latestRetainedAttemptId db =
     map_option at_id (List.find (\<lambda>a. at_finished a \<noteq> None
        \<and> (case at_outcome a of None \<Rightarrow> False | Some out \<Rightarrow> so_result_status out = Retained)) (rev (d_attempts db)))"

end
