(* ===== verification/RunEngine.thy ===== *)
theory RunEngine
  imports RunStore
begin

text \<open>
  The App Run engine: the attempt runner of \<open>app-run-attempt-runner.ts\<close> for the providers that the
  server itself calls (MCP and native), the lifecycle operations of \<open>app-run-service.ts\<close>, the
  approval resolver of \<open>app-run-approval-adapter.ts\<close> and the retention purge of
  \<open>app-run-secret-repository.ts\<close>.  Each definition is one transaction of the code; \<open>Throw\<close> rolls it
  back.  What the constructors inject is the record \<open>engine_env\<close>: the execution authorizer, the
  approval authorizer, the output budget check, the reviewed dispatch pin, the last
  authority check of a native execution and the keyed fingerprint.
  The current time, fresh identifiers and fresh claim tokens are arguments.  Runs that belong to a
  scheduled future record action have a further gate that is not modelled.
\<close>

datatype exec_stage = StagePrepare | StageClaim | StageProviderCall

record engine_env =
  en_authorize :: "app_run \<Rightarrow> exec_stage \<Rightarrow> int \<Rightarrow> bool"
  en_authorize_approval :: "app_run \<Rightarrow> int \<Rightarrow> bool"
  en_within_budget :: "jsv \<Rightarrow> bool"
  en_dispatch_pin :: "run_ident \<Rightarrow> bool"
  en_final_authority :: "app_run \<Rightarrow> bool"
  en_fingerprint :: "string \<Rightarrow> string \<times> string"
  en_lease_ms :: int

definition boundedLeaseMs :: "int \<Rightarrow> int" where
  "boundedLeaseMs v = max 1000 (min v (15 * 60000))"

definition failure_outcome :: "bool \<Rightarrow> run_error_code \<Rightarrow> safe_outcome" where
  "failure_outcome attempted code = outcome False attempted Unavailable (Some code)"

definition run_over :: "run_state \<Rightarrow> bool" where
  "run_over s \<longleftrightarrow> s \<in> {Succeeded, Failed, Cancelled, Expired, UnknownOutcome}"

definition last_attempt :: "run_db \<Rightarrow> attempt option" where
  "last_attempt db = (if d_attempts db = [] then None else Some (last (d_attempts db)))"

subsection \<open>Scheduling and claiming\<close>

definition createAttempt :: "engine_env \<Rightarrow> run_db \<Rightarrow> app_run \<Rightarrow> int \<Rightarrow> string \<Rightarrow> (attempt option) tx" where
  "createAttempt env db run now new_id =
     (let prev = last_attempt db;
          number = (case prev of None \<Rightarrow> 0 | Some a \<Rightarrow> at_number a) + 1 in
      if number > ri_attempt_limit (rn_ident run) then Ok (db, None)
      else res_bind (insert_attempt db
             \<lparr>at_id = new_id, at_number = number, at_retry_of = map_option at_id prev, at_state = AttPending,
              at_claim = None, at_lease = None, at_started = None, at_finished = None,
              at_key = (if retry_of run = IdempotentWithKey then Some (en_fingerprint env (ri_id (rn_ident run))) else None),
              at_outcome = None, at_error = None, at_updated = now\<rparr>)
        (\<lambda>(db1, a). Ok (enqueue (appendEvent db1 AttemptCreated None (PAttemptNumber (at_id a) number) now) (at_id a), Some a)))"

definition scheduleInTransaction :: "engine_env \<Rightarrow> run_db \<Rightarrow> app_run \<Rightarrow> int \<Rightarrow> string \<Rightarrow> (string option) tx" where
  "scheduleInTransaction env db run now new_id =
     (if rn_released_at run = None \<or> run_over (rn_state run)
         \<or> \<not> en_authorize env run StagePrepare now
         \<or> ri_input_expires_at (rn_ident run) \<le> now then Ok (db, None)
      else case List.find live_attempt (d_attempts db) of
             Some a \<Rightarrow> Ok (enqueue db (at_id a), Some (at_id a))
           | None \<Rightarrow> res_bind (createAttempt env db run now new_id)
                 (\<lambda>(db1, a). Ok (db1, map_option at_id a)))"

definition claim :: "engine_env \<Rightarrow> run_db \<Rightarrow> int \<Rightarrow> string \<Rightarrow> string \<Rightarrow> string \<Rightarrow> (attempt option) tx" where
  "claim env db now attemptId workerId token =
     (let run = d_run db in
      if provider_of run \<notin> {ProvMcp, ProvNative} then Ok (db, None)
      else if rn_released_at run = None \<or> run_over (rn_state run) \<or> \<not> en_authorize env run StageClaim now
        then Ok (db, None)
      else if ri_input_expires_at (rn_ident run) \<le> now
        then res_bind (transition db run Expired None (Some (failure_outcome False APP_RUN_EXPIRED))
               (Some APP_RUN_EXPIRED) RunTransitioned now) (\<lambda>(db1, _). Ok (db1, None))
      else case List.find (\<lambda>a. at_id a = attemptId) (d_attempts db) of
             None \<Rightarrow> Ok (db, None)
           | Some a \<Rightarrow>
               if at_state a \<noteq> AttPending then Ok (db, None)
               else res_bind (update_attempt db attemptId (\<lambda>b. at_state b = AttPending)
                      (\<lambda>b. b\<lparr>at_state := AttClaimed, at_claim := Some (workerId, token, now),
                             at_lease := Some (now + boundedLeaseMs (en_lease_ms env)), at_updated := now\<rparr>))
                 (\<lambda>(db1, claimed). case claimed of
                      None \<Rightarrow> Ok (db1, None)
                    | Some c \<Rightarrow> Ok (appendEvent db1 AttemptClaimed None (PAttempt (at_id c)) now, Some c)))"

definition lease_live :: "attempt \<Rightarrow> int \<Rightarrow> bool" where
  "lease_live a now \<longleftrightarrow> (case at_lease a of None \<Rightarrow> False | Some l \<Rightarrow> now < l)"

definition markProviderCallStarted :: "engine_env \<Rightarrow> run_db \<Rightarrow> int \<Rightarrow> string \<Rightarrow> string \<Rightarrow> bool tx" where
  "markProviderCallStarted env db now attemptId token =
     (let run = d_run db in
      if provider_of run \<noteq> ProvMcp then Ok (db, False)
      else if rn_released_at run = None \<or> rn_state run = Cancelled
              \<or> \<not> en_authorize env run StageProviderCall now then Ok (db, False)
      else if origin_kind_of (ri_origin (rn_ident run)) = OriginApp \<and> \<not> en_dispatch_pin env (rn_ident run)
        then Ok (db, False)
      else case List.find (\<lambda>a. at_id a = attemptId) (d_attempts db) of
             None \<Rightarrow> Ok (db, False)
           | Some current \<Rightarrow>
               if at_state current \<noteq> AttClaimed \<or> at_token current \<noteq> Some token \<or> \<not> lease_live current now
               then Ok (db, False)
               else res_bind (update_attempt db attemptId
                       (\<lambda>b. at_state b = AttClaimed \<and> at_token b = Some token)
                       (\<lambda>b. b\<lparr>at_state := AttCallStarted, at_started := Some now, at_updated := now\<rparr>))
                 (\<lambda>(db1, updated). case updated of
                    None \<Rightarrow> Ok (db1, False)
                  | Some a \<Rightarrow>
                      res_bind (if rn_state run = Pending \<or> rn_state run = PendingApproval
                                then transition db1 run Running None None None RunTransitioned now
                                else Ok (db1, run))
                        (\<lambda>(db2, _). Ok (appendEvent db2 ProviderCallStarted None (PAttempt (at_id a)) now, True))))"

text \<open>The deadline is computed from the first reading of the clock and compared with a second one.\<close>

definition renewLease :: "engine_env \<Rightarrow> run_db \<Rightarrow> int \<Rightarrow> int \<Rightarrow> string \<Rightarrow> string \<Rightarrow> bool tx" where
  "renewLease env db now now2 attemptId token =
     (if provider_of (d_run db) \<noteq> ProvMcp then Ok (db, False)
      else if now + boundedLeaseMs (en_lease_ms env) \<le> now2 then Ok (db, False)
      else case List.find (\<lambda>a. at_id a = attemptId) (d_attempts db) of
             None \<Rightarrow> Ok (db, False)
           | Some current \<Rightarrow>
               if at_token current \<noteq> Some token \<or> \<not> lease_live current now
                  \<or> at_state current \<notin> {AttClaimed, AttCallStarted} then Ok (db, False)
               else res_bind (update_attempt db attemptId (\<lambda>b. at_token b = Some token)
                      (\<lambda>b. b\<lparr>at_lease := Some (now + boundedLeaseMs (en_lease_ms env)), at_updated := now\<rparr>))
                 (\<lambda>(db1, renewed). Ok (db1, renewed \<noteq> None)))"

subsection \<open>Provider results\<close>

datatype provider_result = Returned bool jsv | NotAttempted "run_error_code option" | Indeterminate

definition result_envelope :: "bool \<Rightarrow> jsv \<Rightarrow> jsv" where
  "result_envelope ok out = JObj [(''schema_version'', JStr ''deft.app_run_provider_result.v1''),
     (''provider_succeeded'', JBool ok), (''output'', out)]"

text \<open>Not called for an indeterminate result, which has no known outcome.\<close>

definition knownOutcome :: "engine_env \<Rightarrow> app_run \<Rightarrow> provider_result \<Rightarrow> int \<Rightarrow> safe_outcome option" where
  "knownOutcome env run result now = (case result of
       NotAttempted err \<Rightarrow> Some (failure_outcome False
           (case err of Some e \<Rightarrow> e | None \<Rightarrow> APP_RUN_PROVIDER_UNAVAILABLE))
     | Returned ok out \<Rightarrow>
         Some (outcome ok True
           (if ri_result_expires_at (rn_ident run) > now \<and> en_within_budget env (result_envelope ok out)
            then Retained else Unavailable)
           (if ok then None else Some APP_RUN_PROVIDER_ERROR))
     | Indeterminate \<Rightarrow> None)"

definition persist_once :: "run_db \<Rightarrow> int \<Rightarrow> string \<Rightarrow> string \<Rightarrow> provider_result \<Rightarrow> safe_outcome \<Rightarrow> unit tx" where
  "persist_once db now attemptId token result out =
     (case List.find (\<lambda>a. at_id a = attemptId) (d_attempts db) of
        None \<Rightarrow> Ok (db, ())
      | Some a \<Rightarrow>
          if at_state a \<noteq> AttCallStarted \<or> at_token a \<noteq> Some token then Ok (db, ())
          else if at_finished a \<noteq> None \<and> at_outcome a \<noteq> None then Ok (db, ())
          else res_bind
            (case result of
               Returned ok v \<Rightarrow> (if so_result_status out = Retained
                  then insertOutput db attemptId (result_envelope ok v) (ri_result_expires_at (rn_ident (d_run db)))
                  else Ok (db, ()))
             | _ \<Rightarrow> Ok (db, ()))
            (\<lambda>(db1, _). res_bind (update_attempt db1 attemptId (\<lambda>b. at_token b = Some token)
                (\<lambda>b. b\<lparr>at_finished := Some now, at_outcome := Some out, at_updated := now\<rparr>))
              (\<lambda>(db2, _). Ok (db2, ()))))"

text \<open>The code tries the transaction up to three times and throws the last error.\<close>

fun persist_retry :: "nat \<Rightarrow> run_db \<Rightarrow> int \<Rightarrow> string \<Rightarrow> string \<Rightarrow> provider_result \<Rightarrow> safe_outcome \<Rightarrow> unit tx" where
  "persist_retry 0 db now aid token result out = Throw SchemaError"
| "persist_retry (Suc n) db now aid token result out =
     (case persist_once db now aid token result out of
        Inr r \<Rightarrow> Inr r
      | Inl e \<Rightarrow> if n = 0 then Inl e else persist_retry n db now aid token result out)"

definition persistKnownResult :: "run_db \<Rightarrow> int \<Rightarrow> string \<Rightarrow> string \<Rightarrow> provider_result \<Rightarrow> safe_outcome \<Rightarrow> unit tx" where
  "persistKnownResult db now aid token result out = persist_retry 3 db now aid token result out"

definition writeAttemptReceipt ::
  "run_db \<Rightarrow> app_run \<Rightarrow> string \<Rightarrow> attempt_state \<Rightarrow> int \<Rightarrow> run_error_code option \<Rightarrow> bool \<Rightarrow> bool \<Rightarrow> unit tx" where
  "writeAttemptReceipt db run attemptId st now err retryScheduled notAttemptedFact =
     write_receipt db (AttemptKey attemptId) AttemptTerminalReceipt (Some attemptId) (rn_state run) None
       (AttemptFacts st retryScheduled err notAttemptedFact) now"

definition finalizeKnownInTransaction :: "run_db \<Rightarrow> app_run \<Rightarrow> attempt \<Rightarrow> int \<Rightarrow> unit tx" where
  "finalizeKnownInTransaction db run attempt now = (case at_outcome attempt of
       None \<Rightarrow> Throw SchemaError
     | Some out \<Rightarrow>
         if \<not> AppRunSafeOutcome_ok out then Throw SchemaError
         else let attemptState = (if so_success out then AttSucceeded else AttFailed) in
           res_bind (update_attempt db (at_id attempt) (\<lambda>_. True)
               (\<lambda>b. b\<lparr>at_state := attemptState, at_error := so_error_code out, at_updated := now\<rparr>))
             (\<lambda>(db1, _). res_bind (transition
                 (appendEvent db1 AttemptTerminal None (PAttemptState (at_id attempt) attemptState) now)
                 run (if so_success out then Succeeded else Failed) None (Some out) (so_error_code out) RunTransitioned now)
               (\<lambda>(db2, terminalRun).
                 writeAttemptReceipt db2 terminalRun (at_id attempt) attemptState now (so_error_code out) False False)))"

definition finalizeKnownResult :: "run_db \<Rightarrow> int \<Rightarrow> string \<Rightarrow> string \<Rightarrow> unit tx" where
  "finalizeKnownResult db now attemptId token =
     (case List.find (\<lambda>a. at_id a = attemptId) (d_attempts db) of
        None \<Rightarrow> Ok (db, ())
      | Some a \<Rightarrow>
          if at_state a \<noteq> AttCallStarted \<or> at_token a \<noteq> Some token \<or> at_outcome a = None then Ok (db, ())
          else finalizeKnownInTransaction db (d_run db) a now)"

definition settleBeforeCallFailure :: "run_db \<Rightarrow> int \<Rightarrow> string \<Rightarrow> string \<Rightarrow> unit tx" where
  "settleBeforeCallFailure db now attemptId token =
     res_bind (update_attempt db attemptId (\<lambda>b. at_token b = Some token)
         (\<lambda>b. b\<lparr>at_state := AttFailed, at_error := Some APP_RUN_EXPIRED, at_updated := now\<rparr>))
       (\<lambda>(db1, _). res_bind (transition
            (appendEvent db1 AttemptTerminal None (PAttemptState attemptId AttFailed) now)
            (d_run db) Expired None (Some (failure_outcome False APP_RUN_EXPIRED)) (Some APP_RUN_EXPIRED) RunTransitioned now)
         (\<lambda>(db2, terminalRun).
            writeAttemptReceipt db2 terminalRun attemptId AttFailed now (Some APP_RUN_EXPIRED) False False))"

subsection \<open>Native execution\<close>

text \<open>
  Provider start, effect, retained result and receipt in one transaction.  \<open>native\<close> is the calendar
  operation on the input, \<open>still_current\<close> the authority check at the end; either may refuse.  The
  result says whether the effect was made.
\<close>

definition executeNativeAtomic ::
  "engine_env \<Rightarrow> (jsv option \<Rightarrow> tx_error + jsv) \<Rightarrow> bool \<Rightarrow> run_db \<Rightarrow> int \<Rightarrow> string \<Rightarrow> string \<Rightarrow> bool tx" where
  "executeNativeAtomic env native still_current db now attemptId token =
     (let run = d_run db in
      case List.find (\<lambda>a. at_id a = attemptId) (d_attempts db) of
        None \<Rightarrow> Ok (db, False)
      | Some a \<Rightarrow>
          if provider_of run \<noteq> ProvNative \<or> at_state a \<noteq> AttClaimed \<or> at_token a \<noteq> Some token
             \<or> \<not> lease_live a now \<or> rn_released_at run = None \<or> rn_state run \<notin> {Pending, PendingApproval}
             \<or> rn_cancel_requested_at run \<noteq> None \<or> ri_input_expires_at (rn_ident run) \<le> now
             \<or> ri_result_expires_at (rn_ident run) \<le> now then Ok (db, False)
          else if \<not> origin_is_native (ri_origin (rn_ident run)) then Throw (RunError APP_RUN_AUTHORIZATION_STALE)
          else if \<not> en_authorize env run StageProviderCall now then Throw (RunError APP_RUN_AUTHORIZATION_STALE)
          else
            res_bind (update_attempt db attemptId (\<lambda>b. at_token b = Some token)
                (\<lambda>b. b\<lparr>at_state := AttCallStarted, at_started := Some now, at_updated := now\<rparr>)) (\<lambda>(db1, _).
            res_bind (transition db1 run Running None None None RunTransitioned now) (\<lambda>(db2, run2).
            res_bind (native (readInput db)) (\<lambda>out.
            if \<not> en_within_budget env (result_envelope True out) then Throw SchemaError else
            res_bind (insertOutput (appendEvent db2 ProviderCallStarted None (PAttempt attemptId) now) attemptId
                (result_envelope True out) (ri_result_expires_at (rn_ident run2))) (\<lambda>(db3, _).
            res_bind (update_attempt db3 attemptId (\<lambda>_. True)
                (\<lambda>b. b\<lparr>at_finished := Some now, at_outcome := Some (outcome True True Retained None), at_updated := now\<rparr>))
              (\<lambda>(db4, _).
            res_bind (finalizeKnownInTransaction db4 run2
                (a\<lparr>at_started := Some now, at_finished := Some now, at_outcome := Some (outcome True True Retained None)\<rparr>) now)
              (\<lambda>(db5, _). if still_current then Ok (db5, True) else Throw (RunError APP_RUN_AUTHORIZATION_STALE))))))))"

subsection \<open>Recovery\<close>

definition lease_lapsed :: "attempt \<Rightarrow> int \<Rightarrow> bool" where
  "lease_lapsed a now \<longleftrightarrow> (case at_lease a of None \<Rightarrow> False | Some l \<Rightarrow> l \<le> now)"

definition native_unstarted :: "app_run \<Rightarrow> attempt \<Rightarrow> int \<Rightarrow> bool" where
  "native_unstarted run a now \<longleftrightarrow> provider_of run = ProvNative \<and> at_state a = AttClaimed \<and> at_started a = None
     \<and> rn_released_at run \<noteq> None \<and> lease_lapsed a now \<and> rn_state run \<in> {Pending, PendingApproval}"

definition recovery_decision_of :: "app_run \<Rightarrow> attempt \<Rightarrow> recovery_decision" where
  "recovery_decision_of run a = classifyAppRunCrashRecovery (retry_of run) (at_state a = AttCallStarted)
     (at_finished a \<noteq> None \<and> at_outcome a \<noteq> None) (at_key a \<noteq> None)"

definition may_retry :: "app_run \<Rightarrow> attempt \<Rightarrow> int \<Rightarrow> bool" where
  "may_retry run a now \<longleftrightarrow> \<not> native_unstarted run a now \<and> recovery_decision_of run a = CreateRetryAttempt
     \<and> (provider_of run \<noteq> ProvAppRuntime \<or> at_state a = AttClaimed)
     \<and> at_number a < ri_attempt_limit (rn_ident run) \<and> now < ri_input_expires_at (rn_ident run)"

definition recoverUnknownInTransaction ::
  "engine_env \<Rightarrow> run_db \<Rightarrow> app_run \<Rightarrow> attempt \<Rightarrow> int \<Rightarrow> string \<Rightarrow> unit tx" where
  "recoverUnknownInTransaction env db run a now new_id =
     (let bridge = native_unstarted run a now;
          st = (if at_state a = AttClaimed then AttFailed else AttUnknown);
          code = (if st = AttUnknown then APP_RUN_UNKNOWN_OUTCOME else APP_RUN_PROVIDER_UNAVAILABLE) in
      res_bind (if bridge then transition db run Running None None (Some APP_RUN_PROVIDER_UNAVAILABLE) RunTransitioned now
                else Ok (db, run)) (\<lambda>(db1, run1).
      res_bind (update_attempt db1 (at_id a) (\<lambda>_. True)
          (\<lambda>b. b\<lparr>at_state := st, at_error := Some code, at_updated := now\<rparr>)) (\<lambda>(db2, _).
      let db3 = appendEvent db2 AttemptTerminal None
            (if bridge then PNativeUnstarted (at_id a) st else PAttemptState (at_id a) st) now in
      if may_retry run a now then
        res_bind (createAttempt env db3 run1 now new_id) (\<lambda>(db4, _).
          writeAttemptReceipt db4 run1 (at_id a) st now (Some code) True False)
      else if at_state a = AttClaimed then
        res_bind (transition db3 run1 Failed None (Some (failure_outcome False APP_RUN_PROVIDER_UNAVAILABLE))
            (Some APP_RUN_PROVIDER_UNAVAILABLE) RunTransitioned now) (\<lambda>(db4, terminalRun).
          writeAttemptReceipt db4 terminalRun (at_id a) st now (Some APP_RUN_PROVIDER_UNAVAILABLE) False False)
      else
        res_bind (transition db3 run1 UnknownOutcome None
            (Some (failure_outcome (at_state a = AttCallStarted) APP_RUN_UNKNOWN_OUTCOME))
            (Some APP_RUN_UNKNOWN_OUTCOME) RunTransitioned now) (\<lambda>(db4, terminalRun).
          writeAttemptReceipt db4 terminalRun (at_id a) st now (Some APP_RUN_UNKNOWN_OUTCOME) False False))))"

definition settleIndeterminate :: "engine_env \<Rightarrow> run_db \<Rightarrow> int \<Rightarrow> string \<Rightarrow> string \<Rightarrow> string \<Rightarrow> unit tx" where
  "settleIndeterminate env db now attemptId token new_id =
     (case List.find (\<lambda>a. at_id a = attemptId) (d_attempts db) of
        None \<Rightarrow> Ok (db, ())
      | Some a \<Rightarrow>
          if at_state a \<noteq> AttCallStarted \<or> at_token a \<noteq> Some token then Ok (db, ())
          else recoverUnknownInTransaction env db (d_run db) a now new_id)"

definition stale_attempt :: "int \<Rightarrow> attempt \<Rightarrow> bool" where
  "stale_attempt now a \<longleftrightarrow> at_state a \<in> {AttClaimed, AttCallStarted} \<and> lease_lapsed a now"

definition recoverRun :: "engine_env \<Rightarrow> run_db \<Rightarrow> int \<Rightarrow> string option \<Rightarrow> string \<Rightarrow> nat tx" where
  "recoverRun env db now attemptId new_id =
     (case List.find (\<lambda>a. (attemptId = None \<or> attemptId = Some [] \<or> attemptId = Some (at_id a)) \<and> stale_attempt now a)
             (d_attempts db) of
        None \<Rightarrow> Ok (db, 0)
      | Some a \<Rightarrow>
          res_bind
            (if rn_state (d_run db) = Expired \<and> at_state a = AttClaimed then
               res_bind (update_attempt db (at_id a) (\<lambda>_. True)
                   (\<lambda>b. b\<lparr>at_state := AttFailed, at_error := Some APP_RUN_EXPIRED, at_updated := now\<rparr>))
                 (\<lambda>(db1, _). writeAttemptReceipt
                    (appendEvent db1 AttemptTerminal None (PAttemptState (at_id a) AttFailed) now)
                    (d_run db) (at_id a) AttFailed now (Some APP_RUN_EXPIRED) False True)
             else if at_state a = AttCallStarted \<and> at_finished a \<noteq> None \<and> at_outcome a \<noteq> None
             then finalizeKnownInTransaction db (d_run db) a now
             else recoverUnknownInTransaction env db (d_run db) a now new_id)
            (\<lambda>(db1, _). Ok (db1, 1)))"

text \<open>
  The maintenance sweep over all Runs: the stale attempts in the order of their lease, at most
  \<open>limit\<close> (clamped to 1..500) of them, each recovered in its own transaction.  The first recovery
  that throws ends the sweep; what was committed before stays.
\<close>

definition stale_rows :: "int \<Rightarrow> run_db list \<Rightarrow> (int \<times> string) list" where
  "stale_rows now dbs = sort_key fst (concat (map (\<lambda>db.
      map (\<lambda>a. (the (at_lease a), ri_id (rn_ident (d_run db)))) (filter (stale_attempt now) (d_attempts db))) dbs))"

fun recover_rows :: "engine_env \<Rightarrow> int \<Rightarrow> (string \<Rightarrow> string) \<Rightarrow> string list \<Rightarrow> run_db list \<Rightarrow> run_db list \<times> (tx_error + nat)" where
  "recover_rows env now fresh [] dbs = (dbs, Ok 0)"
| "recover_rows env now fresh (rid # rids) dbs =
     (case List.find (\<lambda>db. ri_id (rn_ident (d_run db)) = rid) dbs of
        None \<Rightarrow> recover_rows env now fresh rids dbs
      | Some db \<Rightarrow> (case recoverRun env db now None (fresh rid) of
            Inl e \<Rightarrow> (dbs, Throw e)
          | Inr (db', n) \<Rightarrow>
              (let (dbs', r) = recover_rows env now fresh rids
                     (map (\<lambda>x. if ri_id (rn_ident (d_run x)) = rid then db' else x) dbs) in
               (dbs', case r of Inl e \<Rightarrow> Inl e | Inr m \<Rightarrow> Inr (n + m)))))"

definition recoverStale ::
  "engine_env \<Rightarrow> int \<Rightarrow> (string \<Rightarrow> string) \<Rightarrow> nat \<Rightarrow> run_db list \<Rightarrow> run_db list \<times> (tx_error + nat)" where
  "recoverStale env now fresh limit dbs =
     recover_rows env now fresh (map snd (take (max 1 (min limit 500)) (stale_rows now dbs))) dbs"

subsection \<open>Lifecycle operations of the service\<close>

definition cancel_run :: "run_db \<Rightarrow> actor \<Rightarrow> int \<Rightarrow> app_run tx" where
  "cancel_run db actor now =
     (let run = d_run db in
      if rn_state run = Pending \<or> rn_state run = PendingApproval
        then transition db run Cancelled (Some actor) (Some (failure_outcome False APP_RUN_CANCELLED))
               (Some APP_RUN_CANCELLED) RunTransitioned now
      else if rn_state run = Running \<or> rn_state run = WaitingExternal
        then requestCancellation db run actor now
      else Ok (db, run))"

definition expire_run :: "run_db \<Rightarrow> int \<Rightarrow> app_run tx" where
  "expire_run db now =
     (let run = d_run db in
      if rn_state run \<noteq> Pending \<and> rn_state run \<noteq> PendingApproval then Ok (db, run)
      else transition db run Expired None (Some (failure_outcome False APP_RUN_EXPIRED))
             (Some APP_RUN_EXPIRED) RunTransitioned now)"

definition reconcileUnknown :: "run_db \<Rightarrow> actor \<Rightarrow> bool \<Rightarrow> int \<Rightarrow> app_run tx" where
  "reconcileUnknown db actor succeeded now =
     (let run = d_run db; st = (if succeeded then Succeeded else Failed);
          code = (if succeeded then None else Some APP_RUN_PROVIDER_ERROR) in
      if rn_state run \<noteq> UnknownOutcome then Throw (RunError APP_RUN_ILLEGAL_TRANSITION)
      else res_bind (transition db run st (Some actor) (Some (outcome succeeded True Unavailable code)) code
               ReconciliationRecorded now)
        (\<lambda>(db1, resolved). res_bind (write_receipt db1 (ReconciliationKey (rn_reconciled_at resolved))
             ReconciliationReceipt None (rn_state resolved) (Some actor) (ReconciliationFacts st)
             (case rn_reconciled_at resolved of Some t \<Rightarrow> t | None \<Rightarrow> now))
          (\<lambda>(db2, _). Ok (db2, resolved))))"

definition run_result :: "run_db \<Rightarrow> string option \<Rightarrow> bool \<Rightarrow> int \<Rightarrow> run_error_code + app_run \<times> jsv" where
  "run_result db runtime_protocol delivery_authorized now =
     (let run = d_run db in
      if provider_of run = ProvNative then Throw APP_RUN_ACCESS_DENIED
      else if provider_of run = ProvAppRuntime \<and> runtime_protocol = Some ''7'' then Throw APP_RUN_ACCESS_DENIED
      else if origin_kind_of (ri_origin (rn_ident run)) = OriginApp \<and> \<not> delivery_authorized
        then Throw APP_RUN_AUTHORIZATION_STALE
      else if rn_result_purged_at run \<noteq> None \<or> ri_result_expires_at (rn_ident run) \<le> now
        then Throw APP_RUN_RESULT_EXPIRED
      else case latestRetainedAttemptId db of
             None \<Rightarrow> Throw APP_RUN_RESULT_EXPIRED
           | Some aid \<Rightarrow> (case readOutput db aid of None \<Rightarrow> Throw APP_RUN_RESULT_EXPIRED | Some v \<Rightarrow> Ok (run, v)))"

subsection \<open>Retention purge\<close>

definition expire_result :: "safe_outcome \<Rightarrow> safe_outcome" where
  "expire_result out = out\<lparr>so_result_status := ResultExpired\<rparr>"

definition purgeExpiredRun :: "run_db \<Rightarrow> int \<Rightarrow> nat tx" where
  "purgeExpiredRun db now =
     (let gone = filter (\<lambda>p. py_expires_at p \<le> now) (d_payloads db);
          db1 = db\<lparr>d_payloads := filter (\<lambda>p. \<not> py_expires_at p \<le> now) (d_payloads db)\<rparr>;
          purgedInput = list_ex (\<lambda>p. py_kind p = InputPayload) gone;
          purgedOutput = list_ex (\<lambda>p. py_kind p \<noteq> InputPayload) gone;
          run = d_run db;
          shouldExpire = (purgedInput \<and> (rn_state run = Pending \<or> rn_state run = PendingApproval)) in
      if gone = [] then Ok (db, 0)
      else res_bind (update_run db1 (run\<lparr>
             rn_state := (if shouldExpire then Expired else rn_state run),
             rn_safe_outcome := (if purgedOutput then map_option expire_result (rn_safe_outcome run) else rn_safe_outcome run),
             rn_input_purged_at := (if purgedInput then Some now else rn_input_purged_at run),
             rn_result_purged_at := (if purgedOutput then Some now else rn_result_purged_at run),
             rn_terminal_at := (if shouldExpire then Some now else rn_terminal_at run),
             rn_updated_at := now\<rparr>))
        (\<lambda>(db2, _). Ok (appendEvent db2 SecretsPurged None (PPurged purgedInput purgedOutput) now, length gone)))"

subsection \<open>Approval\<close>

datatype approval_status = ApPending | ApApproved | ApRejected | ApExpired

record approval_action =
  aa_id :: string
  aa_is_invoke :: bool
  aa_user_id :: string
  aa_status :: approval_status
  aa_approved_by :: "string option"

datatype approval_resolution =
    ResApproved bool
  | ResRejected bool
  | ResNotFound
  | ResInvalidState

type_synonym approval_tx = "tx_error + (run_db \<times> approval_action \<times> approval_resolution)"

definition markApproved :: "approval_action \<Rightarrow> string \<Rightarrow> approval_action" where
  "markApproved a approver = a\<lparr>aa_status := ApApproved, aa_approved_by := Some approver\<rparr>"

definition writeApprovalReceipt :: "run_db \<Rightarrow> string \<Rightarrow> app_run \<Rightarrow> string \<Rightarrow> string \<Rightarrow> int \<Rightarrow> unit tx" where
  "writeApprovalReceipt db actionId run user decision now =
     write_receipt db (ApprovalKey actionId) ApprovalReceipt None (rn_state run) (Some (HumanActor user))
       (ApprovalFacts decision actionId) now"

definition released_or :: "app_run \<Rightarrow> int \<Rightarrow> int" where
  "released_or run now = (case rn_released_at run of Some t \<Rightarrow> t | None \<Rightarrow> now)"

text \<open>Runs whose release belongs to one human owner.\<close>

definition owner_only_approval :: "app_run \<Rightarrow> bool" where
  "owner_only_approval run \<longleftrightarrow> fst (ri_initiating (rn_ident run)) = TyAppPublic \<or> provider_of run = ProvNative
     \<or> (provider_of run = ProvAppRuntime \<and> fst (ri_initiating (rn_ident run)) = TyAgentEmployee)"

definition approve_resolve ::
  "engine_env \<Rightarrow> bool \<Rightarrow> run_db \<Rightarrow> approval_action \<Rightarrow> string \<Rightarrow> int \<Rightarrow> string \<Rightarrow> approval_tx" where
  "approve_resolve env web_guarded db act approver now new_id =
     (let run = d_run db in
      if owner_only_approval run \<and> aa_user_id act \<noteq> approver then Ok (db, act, ResNotFound)
      else if (provider_of run = ProvNative \<or> web_guarded)
              \<and> (rn_state run \<noteq> PendingApproval \<or> rn_release_kind run = Some ReleaseApproved)
              \<and> \<not> en_authorize_approval env run now then Ok (db, act, ResInvalidState)
      else if rn_release_kind run = Some ReleaseApproved then
        res_bind (writeApprovalReceipt db (aa_id act) run
            (case aa_approved_by act of Some u \<Rightarrow> u | None \<Rightarrow> approver) ''approved'' (released_or run now)) (\<lambda>(db1, _).
        res_bind (scheduleInTransaction env db1 run now new_id) (\<lambda>(db2, _).
          Ok (db2, markApproved act approver, ResApproved True)))
      else if rn_state run = Cancelled then Ok (db, act\<lparr>aa_status := ApRejected\<rparr>, ResRejected True)
      else if rn_state run = Expired \<or> rn_state run = Failed
        then Ok (db, act\<lparr>aa_status := ApExpired\<rparr>, ResInvalidState)
      else if aa_status act = ApRejected then Ok (db, act, ResRejected True)
      else if aa_status act = ApExpired then Ok (db, act, ResInvalidState)
      else if rn_state run \<noteq> PendingApproval \<or> ri_input_expires_at (rn_ident run) \<le> now
              \<or> \<not> en_authorize_approval env run now then
        (if rn_state run = PendingApproval then
           res_bind (transition db run Expired (Some (HumanActor approver))
               (Some (failure_outcome False APP_RUN_AUTHORIZATION_STALE)) (Some APP_RUN_AUTHORIZATION_STALE)
               ApprovalResolved now) (\<lambda>(db1, run1).
           res_bind (writeApprovalReceipt db1 (aa_id act) run1 approver ''expired''
               (case rn_terminal_at run1 of Some t \<Rightarrow> t | None \<Rightarrow> now)) (\<lambda>(db2, _).
             Ok (db2, act\<lparr>aa_status := ApExpired\<rparr>, ResInvalidState)))
         else Ok (db, act\<lparr>aa_status := ApExpired\<rparr>, ResInvalidState))
      else
        res_bind (recordApprovedExecutionRelease db run (HumanActor approver) now) (\<lambda>(db1, run1).
        res_bind (writeApprovalReceipt db1 (aa_id act) run1 approver ''approved'' (released_or run1 now)) (\<lambda>(db2, _).
        res_bind (scheduleInTransaction env db2 run1 now new_id) (\<lambda>(db3, _).
          Ok (db3, markApproved act approver, ResApproved False)))))"

text \<open>
  \<open>guard\<close> is the caller's final guard: absent, or present and passing or throwing; a protocol 7
  runtime Run needs one.
\<close>

definition approveInTransaction ::
  "engine_env \<Rightarrow> bool \<Rightarrow> bool option \<Rightarrow> run_db \<Rightarrow> approval_action \<Rightarrow> string \<Rightarrow> int \<Rightarrow> string \<Rightarrow> approval_tx" where
  "approveInTransaction env protocol7 guard db act approver now new_id =
     (let web_guarded = (provider_of (d_run db) = ProvAppRuntime \<and> protocol7) in
      if \<not> aa_is_invoke act then (if guard = Some False then Throw (RunError APP_RUN_ACCESS_DENIED) else Ok (db, act, ResNotFound))
      else if web_guarded \<and> guard = None then Throw (RunError APP_RUN_ACCESS_DENIED)
      else res_bind (approve_resolve env web_guarded db act approver now new_id)
        (\<lambda>r. if guard = Some False then Throw (RunError APP_RUN_ACCESS_DENIED) else Ok r))"

definition reject_approval :: "run_db \<Rightarrow> approval_action \<Rightarrow> string \<Rightarrow> int \<Rightarrow> approval_tx" where
  "reject_approval db act rejecter now =
     (let run = d_run db in
      if \<not> aa_is_invoke act then Ok (db, act, ResNotFound)
      else if fst (ri_initiating (rn_ident run)) = TyAppPublic \<and> aa_user_id act \<noteq> rejecter
        then Ok (db, act, ResNotFound)
      else if rn_release_kind run = Some ReleaseApproved
        then Ok (db, markApproved act (case aa_approved_by act of Some u \<Rightarrow> u | None \<Rightarrow> rejecter), ResApproved True)
      else if rn_state run = Cancelled \<or> aa_status act = ApRejected
        then Ok (db, act\<lparr>aa_status := ApRejected\<rparr>, ResRejected True)
      else if rn_state run \<noteq> PendingApproval then Ok (db, act\<lparr>aa_status := ApExpired\<rparr>, ResInvalidState)
      else
        res_bind (transition db run Cancelled (Some (HumanActor rejecter))
            (Some (failure_outcome False APP_RUN_APPROVAL_REJECTED)) (Some APP_RUN_APPROVAL_REJECTED)
            ApprovalResolved now) (\<lambda>(db1, run1).
        res_bind (writeApprovalReceipt db1 (aa_id act) run1 rejecter ''rejected''
            (case rn_terminal_at run1 of Some t \<Rightarrow> t | None \<Rightarrow> now)) (\<lambda>(db2, _).
          Ok (db2, act\<lparr>aa_status := ApRejected\<rparr>, ResRejected False))))"

subsection \<open>One delivery of an attempt job\<close>

text \<open>
  \<open>#runInternal\<close>: recover, claim, read the input, mark the provider call, call the provider, record the
  outcome.  Each step commits on its own; the result is the database after the last commit, the
  number of provider calls made, and the error if a transaction threw.  \<open>tick\<close> gives the time of each
  step, \<open>fresh\<close> the identifiers.
\<close>

definition recordProviderResult ::
  "engine_env \<Rightarrow> provider_result \<Rightarrow> (nat \<Rightarrow> int) \<Rightarrow> (nat \<Rightarrow> string) \<Rightarrow> run_db \<Rightarrow> string \<Rightarrow> run_db \<times> tx_error option" where
  "recordProviderResult env result tick fresh db attemptId =
     (case knownOutcome env (d_run db) result (tick 3) of
        None \<Rightarrow> (case settleIndeterminate env db (tick 4) attemptId (fresh 1) (fresh 2) of
            Inl e \<Rightarrow> (db, Some e)
          | Inr (db', _) \<Rightarrow> (db', None))
      | Some out \<Rightarrow> (case persistKnownResult db (tick 4) attemptId (fresh 1) result out of
            Inl e \<Rightarrow> (db, Some e)
          | Inr (db4, _) \<Rightarrow> (case finalizeKnownResult db4 (tick 5) attemptId (fresh 1) of
              Inl e \<Rightarrow> (db4, Some e)
            | Inr (db5, _) \<Rightarrow> (db5, None))))"

definition runClaimed ::
  "engine_env \<Rightarrow> (run_ident \<Rightarrow> jsv \<Rightarrow> provider_result) \<Rightarrow> (jsv option \<Rightarrow> tx_error + jsv) \<Rightarrow> (nat \<Rightarrow> int)
    \<Rightarrow> (nat \<Rightarrow> string) \<Rightarrow> run_db \<Rightarrow> string \<Rightarrow> run_db \<times> nat \<times> tx_error option" where
  "runClaimed env execute native tick fresh db attemptId =
     (if provider_of (d_run db) = ProvNative then
        (case executeNativeAtomic env native (en_final_authority env (d_run db)) db (tick 2) attemptId (fresh 1) of
           Inl e \<Rightarrow> (db, 0, Some e)
         | Inr (db', made) \<Rightarrow> (db', of_bool made, None))
      else case readInput db of
        None \<Rightarrow> (case settleBeforeCallFailure db (tick 2) attemptId (fresh 1) of
            Inl e \<Rightarrow> (db, 0, Some e)
          | Inr (db', _) \<Rightarrow> (db', 0, None))
      | Some input \<Rightarrow> (case markProviderCallStarted env db (tick 2) attemptId (fresh 1) of
          Inl e \<Rightarrow> (db, 0, Some e)
        | Inr (db', started) \<Rightarrow>
            if \<not> started then (db', 0, None)
            else (let (db'', err) = recordProviderResult env (execute (rn_ident (d_run db')) input) tick fresh db' attemptId
                  in (db'', 1, err))))"

definition runInternal ::
  "engine_env \<Rightarrow> (run_ident \<Rightarrow> jsv \<Rightarrow> provider_result) \<Rightarrow> (jsv option \<Rightarrow> tx_error + jsv) \<Rightarrow> (nat \<Rightarrow> int)
    \<Rightarrow> (nat \<Rightarrow> string) \<Rightarrow> run_db \<Rightarrow> string \<Rightarrow> string \<Rightarrow> run_db \<times> nat \<times> tx_error option" where
  "runInternal env execute native tick fresh db attemptId workerId =
     (if provider_of (d_run db) = ProvAppRuntime then (db, 0, None)
      else case recoverRun env db (tick 0) (Some attemptId) (fresh 0) of
        Inl e \<Rightarrow> (db, 0, Some e)
      | Inr (db1, _) \<Rightarrow> (case claim env db1 (tick 1) attemptId workerId (fresh 1) of
          Inl e \<Rightarrow> (db1, 0, Some e)
        | Inr (db2, claimed) \<Rightarrow>
            if claimed = None then (db2, 0, None)
            else runClaimed env execute native tick fresh db2 attemptId))"

end
