(* ===== verification/RunInvariants.thy ===== *)
theory RunInvariants
  imports RunEngine
begin

text \<open>
  What every interleaving of the engine's transactions keeps: the transactions as a step relation,
  the invariant of the attempt ledger, and its preservation.  A step is one committed transaction
  with any arguments, so a worker that crashes between two of its transactions, a second worker, a
  delayed job and a maintenance sweep are all interleavings of steps.
\<close>

subsection \<open>What the database operations leave alone\<close>

lemma appendEvent_simps [simp]:
  "d_run (appendEvent db ty ac p now) = d_run db"
  "d_attempts (appendEvent db ty ac p now) = d_attempts db"
  "d_payloads (appendEvent db ty ac p now) = d_payloads db"
  "d_receipts (appendEvent db ty ac p now) = d_receipts db"
  "d_jobs (appendEvent db ty ac p now) = d_jobs db"
  by (simp_all add: appendEvent_def)

lemma enqueue_simps [simp]:
  "d_run (enqueue db aid) = d_run db"
  "d_attempts (enqueue db aid) = d_attempts db"
  "d_events (enqueue db aid) = d_events db"
  by (simp_all add: enqueue_def)

lemma write_receipt_core:
  assumes "write_receipt db k kind att st ac f now = Ok (db', u)"
  shows "d_run db' = d_run db" "d_attempts db' = d_attempts db" "d_events db' = d_events db"
  using assms by (auto simp: write_receipt_def Let_def split: if_splits option.splits)

lemma insertOutput_core:
  assumes "insertOutput db aid v e = Ok (db', u)"
  shows "d_run db' = d_run db" "d_attempts db' = d_attempts db" "d_events db' = d_events db"
  using assms by (auto simp: insertOutput_def split: if_splits)

lemma update_run_Ok:
  "update_run db new = Ok (db', r) \<longleftrightarrow> run_guard (d_run db) new = None \<and> db' = db\<lparr>d_run := new\<rparr> \<and> r = new"
  by (auto simp: update_run_def split: option.splits)

definition set_attempt :: "attempt list \<Rightarrow> string \<Rightarrow> (attempt \<Rightarrow> attempt) \<Rightarrow> attempt list" where
  "set_attempt atts aid f = map (\<lambda>b. if at_id b = aid then f b else b) atts"

lemma update_attempt_cases:
  assumes "update_attempt db aid p f = Ok (db', r)"
  obtains (none) "r = None" "db' = db"
  | (hit) a where "a \<in> set (d_attempts db)" "at_id a = aid" "p a" "attempt_guard (d_run db) a (f a) = None"
      "r = Some (f a)" "db' = db\<lparr>d_attempts := set_attempt (d_attempts db) aid f\<rparr>"
proof (cases "List.find (\<lambda>a. at_id a = aid \<and> p a) (d_attempts db)")
  case None
  with assms none show ?thesis by (simp add: update_attempt_def)
next
  case (Some a)
  then have a: "a \<in> set (d_attempts db)" "at_id a = aid" "p a" using find_Some_set[OF Some] by auto
  show ?thesis
  proof (cases "attempt_guard (d_run db) a (f a)")
    case None
    with assms Some a hit show ?thesis by (simp add: update_attempt_def set_attempt_def)
  next
    case (Some e)
    with assms \<open>List.find _ _ = Some a\<close> show ?thesis by (simp add: update_attempt_def)
  qed
qed

lemma transition_row_simps [simp]:
  "rn_state (transition_row stored run st out now) = st"
  "rn_ident (transition_row stored run st out now) = rn_ident stored"
  "rn_release_kind (transition_row stored run st out now) = rn_release_kind stored"
  "rn_released_at (transition_row stored run st out now) = rn_released_at stored"
  by (simp_all add: transition_row_def)

lemma transition_cases:
  assumes "transition db run st ac out err ty now = Ok (db', r)"
  obtains (same) "rn_state run = st" "db' = db" "r = run"
  | (moved) p where "rn_state run \<noteq> st" "r = transition_row (d_run db) run st out now"
      "run_guard (d_run db) r = None" "db' = appendEvent (db\<lparr>d_run := r\<rparr>) ty ac p now"
proof (cases "rn_state run = st")
  case True
  then have "db' = db" "r = run" using assms by (simp_all add: transition_def)
  then show ?thesis using True same by blast
next
  case False
  have "run_guard (d_run db) r = None \<and> r = transition_row (d_run db) run st out now
    \<and> db' = appendEvent (db\<lparr>d_run := r\<rparr>) ty ac (PTransition (rn_state run) st err) now"
    using assms False by (auto simp: transition_def res_bind_Ok_iff update_run_Ok)
  with False moved show ?thesis by blast
qed

subsection \<open>What the guards guarantee\<close>

text \<open>A chain of checks passes when none of them fires.\<close>

lemma check_chain: "(if c then Some e else r) = None \<longleftrightarrow> \<not> c \<and> r = None"
  by simp

lemma eq_None_cong: "a = b \<Longrightarrow> (a = None) = (b = None)"
  by simp

lemmas run_guard_None = run_guard_def [THEN eq_None_cong, unfolded check_chain]
lemmas attempt_guard_None = attempt_guard_def [THEN eq_None_cong, unfolded check_chain]

lemma run_guard_ident: "run_guard old new = None \<Longrightarrow> rn_ident new = rn_ident old"
  by (simp add: run_guard_None)

lemma run_guard_edge:
  assumes "run_guard old new = None"
  shows "isAppRunStateTransitionAllowed (rn_state old) (rn_state new)"
proof -
  have "rn_state new = rn_state old
    \<or> (rn_state old = Pending \<and> rn_state new \<in> {PendingApproval, Running, Cancelled, Expired})
    \<or> (rn_state old = PendingApproval \<and> rn_state new \<in> {Running, Cancelled, Expired})
    \<or> (rn_state old = Running \<and> rn_state new \<in> {WaitingExternal, Succeeded, Failed, UnknownOutcome})
    \<or> (rn_state old = WaitingExternal \<and>
        rn_state new \<in> {Running, Succeeded, Failed, Cancelled, UnknownOutcome})
    \<or> (rn_state old = UnknownOutcome \<and> rn_state new \<in> {Succeeded, Failed})"
    using assms unfolding run_guard_None by blast
  then show ?thesis by (auto simp: isAppRunStateTransitionAllowed_def APP_RUN_STATE_TRANSITIONS_def)
qed

lemma allowed_over: "isAppRunStateTransitionAllowed s t \<Longrightarrow> run_over s \<Longrightarrow> run_over t"
  by (cases s) (auto simp: isAppRunStateTransitionAllowed_def APP_RUN_STATE_TRANSITIONS_def run_over_def)

lemma run_guard_over: "run_guard old new = None \<Longrightarrow> run_over (rn_state old) \<Longrightarrow> run_over (rn_state new)"
  using run_guard_edge allowed_over by blast

lemma attempt_guard_edge:
  assumes "attempt_guard run old new = None"
  shows "isAppRunAttemptStateTransitionAllowed (at_state old) (at_state new)"
proof -
  have "at_state new = at_state old
    \<or> (at_state old = AttPending \<and> at_state new \<in> {AttClaimed, AttCancelled})
    \<or> (at_state old = AttClaimed \<and> at_state new \<in> {AttCallStarted, AttFailed, AttCancelled})
    \<or> (at_state old = AttCallStarted \<and> at_state new \<in> {AttSucceeded, AttFailed, AttCancelled, AttUnknown})"
    using assms unfolding attempt_guard_None by blast
  then show ?thesis
    by (auto simp: isAppRunAttemptStateTransitionAllowed_def APP_RUN_ATTEMPT_STATE_TRANSITIONS_def)
qed

lemma attempt_guard_ids:
  "attempt_guard run old new = None \<Longrightarrow> at_number new = at_number old \<and> at_key new = at_key old"
  by (simp add: attempt_guard_None)

lemma attempt_guard_started:
  assumes "attempt_guard run old new = None"
  shows "at_started new = at_started old
     \<or> (at_started old = None \<and> at_state old = AttClaimed \<and> at_state new = AttCallStarted)"
proof -
  have "frozen (at_started old) (at_started new)"
    and "\<not> (at_started old = None \<and> at_started new \<noteq> None
              \<and> \<not> (at_state old = AttClaimed \<and> at_state new = AttCallStarted))"
    using assms unfolding attempt_guard_None by blast+
  then show ?thesis by (auto simp: frozen_def)
qed

lemma attempt_guard_closed:
  assumes "attempt_guard run old new = None" and "\<not> live_attempt old"
  shows "at_state new = at_state old" "at_started new = at_started old"
proof -
  show "at_state new = at_state old"
    using attempt_guard_edge[OF assms(1)] assms(2)
    by (cases "at_state old")
      (auto simp: isAppRunAttemptStateTransitionAllowed_def APP_RUN_ATTEMPT_STATE_TRANSITIONS_def live_attempt_def)
  show "at_started new = at_started old"
    using attempt_guard_started[OF assms(1)] assms(2) by (auto simp: live_attempt_def)
qed

text \<open>Releases are kept: a released Run stays released.\<close>

lemma run_guard_release_kind:
  "run_guard old new = None \<Longrightarrow> rn_release_kind old \<noteq> None \<Longrightarrow>
     rn_release_kind new = rn_release_kind old \<and> rn_released_at new = rn_released_at old"
  unfolding run_guard_None by blast

subsection \<open>The invariant of the attempt ledger\<close>

definition unsafe_run :: "app_run \<Rightarrow> bool" where
  "unsafe_run r \<longleftrightarrow> retry_of r = UnsafeOrUnknown"

definition att_wf :: "engine_env \<Rightarrow> run_ident \<Rightarrow> attempt \<Rightarrow> bool" where
  "att_wf env i a \<longleftrightarrow>
     (at_state a \<in> {AttPending, AttClaimed} \<longrightarrow> at_started a = None)
     \<and> at_key a = (if ps_retry_class (ri_policy i) = IdempotentWithKey then Some (en_fingerprint env (ri_id i)) else None)"

definition ledger_inv :: "engine_env \<Rightarrow> app_run \<Rightarrow> attempt list \<Rightarrow> bool" where
  "ledger_inv env run atts \<longleftrightarrow>
     map at_number atts = [1..<Suc (length atts)]
     \<and> distinct (map at_id atts)
     \<and> length atts \<le> ri_attempt_limit (rn_ident run)
     \<and> (\<forall>a \<in> set (butlast atts). \<not> live_attempt a \<and> (unsafe_run run \<longrightarrow> at_started a = None))
     \<and> (\<forall>a \<in> set atts. att_wf env (rn_ident run) a)
     \<and> (unsafe_run run \<longrightarrow> (\<forall>a \<in> set atts. at_started a \<noteq> None \<and> \<not> live_attempt a \<longrightarrow> run_over (rn_state run)))"

lemma unsafe_run_ident: "rn_ident r = rn_ident s \<Longrightarrow> unsafe_run r = unsafe_run s"
  by (simp add: unsafe_run_def retry_of_def)

lemma ledger_run_change:
  assumes "ledger_inv env run atts" "rn_ident run' = rn_ident run"
    and "run_over (rn_state run) \<Longrightarrow> run_over (rn_state run')"
  shows "ledger_inv env run' atts"
  using assms unsafe_run_ident[OF assms(2)] by (auto simp: ledger_inv_def)

lemma ledger_guarded_run:
  "ledger_inv env run atts \<Longrightarrow> run_guard run run' = None \<Longrightarrow> ledger_inv env run' atts"
  using ledger_run_change run_guard_ident run_guard_over by metis

lemma set_attempt_at_id: "(\<And>b. at_id (f b) = at_id b) \<Longrightarrow> map at_id (set_attempt atts aid f) = map at_id atts"
  by (simp add: set_attempt_def)

lemma set_attempt_member:
  assumes "distinct (map at_id atts)" "a \<in> set atts" "at_id a = aid" "b' \<in> set (set_attempt atts aid f)"
  shows "b' = f a \<or> (b' \<in> set atts \<and> at_id b' \<noteq> aid)"
proof -
  obtain b where b: "b \<in> set atts" "b' = (if at_id b = aid then f b else b)"
    using assms(4) by (auto simp: set_attempt_def)
  show ?thesis
  proof (cases "at_id b = aid")
    case True
    then have "b = a" using assms(1-3) b(1) distinct_map_inj by metis
    with b True show ?thesis by simp
  qed (use b in simp)
qed

lemma butlast_set_attempt: "butlast (set_attempt atts aid f) = set_attempt (butlast atts) aid f"
  by (simp add: set_attempt_def map_butlast)

lemma ledger_attempt_change:
  assumes inv: "ledger_inv env run atts"
    and a: "a \<in> set atts" "at_id a = aid" and g: "attempt_guard run0 a (f a) = None"
    and f: "\<And>b. at_id (f b) = at_id b"
    and ident: "rn_ident run' = rn_ident run"
    and over: "run_over (rn_state run) \<Longrightarrow> run_over (rn_state run')"
    and close: "unsafe_run run \<Longrightarrow> at_started (f a) \<noteq> None \<Longrightarrow> \<not> live_attempt (f a) \<Longrightarrow> run_over (rn_state run')"
  shows "ledger_inv env run' (set_attempt atts aid f)"
proof -
  have d: "distinct (map at_id atts)" using inv by (simp add: ledger_inv_def)
  have num: "map at_number (set_attempt atts aid f) = map at_number atts"
  proof -
    have "at_number (if at_id b = aid then f b else b) = at_number b" if "b \<in> set atts" for b
    proof (cases "at_id b = aid")
      case True
      then have "b = a" using distinct_map_inj[OF d that a(1)] a(2) by simp
      with True attempt_guard_ids[OF g] show ?thesis by simp
    qed simp
    then show ?thesis by (simp add: set_attempt_def)
  qed
  have wf_a: "att_wf env (rn_ident run) a" using inv a(1) by (simp add: ledger_inv_def)
  have wf: "att_wf env (rn_ident run) (f a)"
    using wf_a attempt_guard_ids[OF g] attempt_guard_started[OF g] attempt_guard_edge[OF g]
    by (cases "at_state a")
      (auto simp: att_wf_def isAppRunAttemptStateTransitionAllowed_def APP_RUN_ATTEMPT_STATE_TRANSITIONS_def)
  have early: "\<not> live_attempt b' \<and> (unsafe_run run' \<longrightarrow> at_started b' = None)"
    if b': "b' \<in> set (butlast (set_attempt atts aid f))" for b'
  proof -
    obtain b where b: "b \<in> set (butlast atts)" "b' = (if at_id b = aid then f b else b)"
      using b' unfolding butlast_set_attempt unfolding set_attempt_def by auto
    have bb: "\<not> live_attempt b" "unsafe_run run \<longrightarrow> at_started b = None" "b \<in> set atts"
      using inv b(1) by (auto simp: ledger_inv_def dest: in_set_butlastD)
    show ?thesis
    proof (cases "at_id b = aid")
      case True
      then have "b = a" using distinct_map_inj[OF d bb(3) a(1)] a(2) by simp
      then show ?thesis
        using bb b True attempt_guard_closed[OF g] unsafe_run_ident[OF ident]
        by (auto simp: live_attempt_def)
    qed (use bb b unsafe_run_ident[OF ident] in auto)
  qed
  have all: "att_wf env (rn_ident run') b' \<and> (unsafe_run run' \<longrightarrow> at_started b' \<noteq> None \<and> \<not> live_attempt b' \<longrightarrow> run_over (rn_state run'))"
    if "b' \<in> set (set_attempt atts aid f)" for b'
    using set_attempt_member[OF d a that]
  proof
    assume "b' = f a"
    then show ?thesis using wf ident close unsafe_run_ident[OF ident] by auto
  next
    assume "b' \<in> set atts \<and> at_id b' \<noteq> aid"
    then show ?thesis using inv ident over unsafe_run_ident[OF ident] by (auto simp: ledger_inv_def)
  qed
  have len: "length (set_attempt atts aid f) = length atts" by (simp add: set_attempt_def)
  have ids: "map at_id (set_attempt atts aid f) = map at_id atts" by (rule set_attempt_at_id[OF f])
  have base: "map at_number atts = [1..<Suc (length atts)]" "length atts \<le> ri_attempt_limit (rn_ident run)"
    using inv unfolding ledger_inv_def by blast+
  show ?thesis
    unfolding ledger_inv_def num ids len ident using base d early all by (simp only: ident) blast
qed

lemma ledger_insert:
  assumes inv: "ledger_inv env run atts"
    and closed: "\<forall>a \<in> set atts. \<not> live_attempt a \<and> (unsafe_run run \<longrightarrow> at_started a = None)"
    and new: "at_id a \<notin> at_id ` set atts" "at_number a = Suc (length atts)"
      "Suc (length atts) \<le> ri_attempt_limit (rn_ident run)" "at_started a = None" "att_wf env (rn_ident run) a"
  shows "ledger_inv env run (atts @ [a])"
  using inv closed new by (auto simp: ledger_inv_def)

subsection \<open>Preservation by the building blocks\<close>

abbreviation ledger :: "engine_env \<Rightarrow> run_db \<Rightarrow> bool" where
  "ledger env db \<equiv> ledger_inv env (d_run db) (d_attempts db)"

text \<open>The provider calls a Run has made: the attempts whose call was marked as started.\<close>

definition provider_calls :: "run_db \<Rightarrow> nat" where
  "provider_calls db = length (filter (\<lambda>a. at_started a \<noteq> None) (d_attempts db))"

lemma provider_calls_cong:
  "map at_started (d_attempts db') = map at_started (d_attempts db) \<Longrightarrow> provider_calls db' = provider_calls db"
proof -
  have *: "provider_calls x = length (filter (\<lambda>t. t \<noteq> None) (map at_started (d_attempts x)))" for x
    by (simp add: provider_calls_def filter_map comp_def)
  show "map at_started (d_attempts db') = map at_started (d_attempts db) \<Longrightarrow> ?thesis" by (simp add: *)
qed

lemma started_set_attempt:
  "(\<And>b. at_started (f b) = at_started b) \<Longrightarrow> map at_started (set_attempt atts aid f) = map at_started atts"
  by (induction atts) (simp_all add: set_attempt_def)

lemma update_attempt_run:
  assumes "update_attempt db aid p f = Ok (db1, r)"
  shows "d_run db1 = d_run db" "d_events db1 = d_events db"
proof -
  have "d_run db1 = d_run db \<and> d_events db1 = d_events db"
    using assms by (cases rule: update_attempt_cases) simp_all
  then show "d_run db1 = d_run db" "d_events db1 = d_events db" by blast+
qed

lemma update_attempt_quiet:
  assumes "update_attempt db aid p f = Ok (db1, r)" and "\<And>b. at_started (f b) = at_started b"
  shows "provider_calls db1 = provider_calls db"
proof (rule provider_calls_cong)
  show "map at_started (d_attempts db1) = map at_started (d_attempts db)"
    using assms(1) by (cases rule: update_attempt_cases) (simp_all add: started_set_attempt assms(2))
qed

lemma update_attempt_ledger:
  assumes "ledger env db" and "update_attempt db aid p f = Ok (db1, r)"
    and "\<And>b. at_id (f b) = at_id b"
    and "rn_ident run' = rn_ident (d_run db)"
    and "run_over (rn_state (d_run db)) \<Longrightarrow> run_over (rn_state run')"
    and "\<And>a. a \<in> set (d_attempts db) \<Longrightarrow> at_id a = aid \<Longrightarrow> p a \<Longrightarrow> unsafe_run (d_run db) \<Longrightarrow>
       run_over (rn_state run') \<or> live_attempt (f a) \<or> at_started (f a) = None
       \<or> (at_state (f a) = at_state a \<and> at_started (f a) = at_started a)"
  shows "ledger_inv env run' (d_attempts db1)"
  using assms(2)
proof (cases rule: update_attempt_cases)
  case none
  then show ?thesis using ledger_run_change[OF assms(1) assms(4,5)] by simp
next
  case (hit a)
  have "ledger_inv env run' (set_attempt (d_attempts db) aid f)"
  proof (rule ledger_attempt_change[OF assms(1) hit(1,2,4) assms(3,4,5)])
    assume u: "unsafe_run (d_run db)" and st: "at_started (f a) \<noteq> None" "\<not> live_attempt (f a)"
    from assms(6)[OF hit(1-3) u] st
    have "run_over (rn_state run') \<or> (at_state (f a) = at_state a \<and> at_started (f a) = at_started a)" by blast
    then show "run_over (rn_state run')"
    proof
      assume e: "at_state (f a) = at_state a \<and> at_started (f a) = at_started a"
      then have "at_started a \<noteq> None \<and> \<not> live_attempt a" using st by (simp add: live_attempt_def)
      then have "run_over (rn_state (d_run db))"
        using assms(1) hit(1) u unfolding ledger_inv_def by blast
      then show ?thesis by (rule assms(5))
    qed
  qed
  then show ?thesis using hit by simp
qed

lemma transition_keeps:
  assumes "transition db (d_run db) st ac out err ty now = Ok (db', r)"
  shows "d_attempts db' = d_attempts db" "rn_ident (d_run db') = rn_ident (d_run db)" "d_run db' = r" "rn_state r = st"
    "run_over (rn_state (d_run db)) \<Longrightarrow> run_over st"
    "ledger env db \<Longrightarrow> ledger env db'"
proof -
  have "d_attempts db' = d_attempts db \<and> rn_ident (d_run db') = rn_ident (d_run db) \<and> d_run db' = r \<and> rn_state r = st
    \<and> (run_over (rn_state (d_run db)) \<longrightarrow> run_over st)"
    using assms
  proof (cases rule: transition_cases)
    case (moved p)
    have "run_over (rn_state (d_run db)) \<longrightarrow> run_over (rn_state r)" using run_guard_over[OF moved(3)] by blast
    then show ?thesis using moved(2,4) by simp
  qed auto
  then show *: "d_attempts db' = d_attempts db" "rn_ident (d_run db') = rn_ident (d_run db)" "d_run db' = r" "rn_state r = st"
    "run_over (rn_state (d_run db)) \<Longrightarrow> run_over st" by blast+
  show "ledger env db \<Longrightarrow> ledger env db'"
    using ledger_run_change[of env "d_run db" "d_attempts db" "d_run db'"] * by simp
qed

lemma update_run_keeps:
  assumes "update_run db new = Ok (db', r)"
  shows "d_attempts db' = d_attempts db" "rn_ident (d_run db') = rn_ident (d_run db)" "d_run db' = r" "r = new"
    "run_over (rn_state (d_run db)) \<Longrightarrow> run_over (rn_state r)"
    "ledger env db \<Longrightarrow> ledger env db'"
  using assms unfolding update_run_Ok
  by (auto simp: run_guard_over run_guard_ident ledger_guarded_run)

lemma createAttempt_keeps:
  assumes "createAttempt env db run now nid = Ok (db', r)"
    and "rn_ident run = rn_ident (d_run db)"
    and inv: "ledger env db"
    and closed: "\<forall>a \<in> set (d_attempts db). \<not> live_attempt a \<and> (unsafe_run (d_run db) \<longrightarrow> at_started a = None)"
  shows "ledger env db'" "d_run db' = d_run db" "provider_calls db' = provider_calls db"
proof -
  let ?n = "(case last_attempt db of None \<Rightarrow> 0 | Some a \<Rightarrow> at_number a) + 1"
  have nums: "map at_number (d_attempts db) = [1..<Suc (length (d_attempts db))]"
    using inv unfolding ledger_inv_def by blast
  have "?n = Suc (length (d_attempts db))"
  proof (cases "d_attempts db = []")
    case False
    then have "at_number (last (d_attempts db)) = last (map at_number (d_attempts db))" by (simp add: last_map)
    also have "\<dots> = length (d_attempts db)" using False by (simp add: nums del: upt_Suc)
    finally show ?thesis using False by (simp add: last_attempt_def)
  qed (simp add: last_attempt_def)
  have "(db' = db) \<or> (\<exists>a. d_attempts db' = d_attempts db @ [a] \<and> d_run db' = d_run db
     \<and> at_id a \<notin> at_id ` set (d_attempts db) \<and> at_number a = ?n \<and> ?n \<le> ri_attempt_limit (rn_ident run)
     \<and> at_started a = None \<and> att_wf env (rn_ident run) a)"
    using assms(1)
    by (auto simp: createAttempt_def Let_def res_bind_Ok_iff insert_attempt_def att_wf_def retry_of_def split: if_splits)
  then have "ledger env db' \<and> d_run db' = d_run db \<and> provider_calls db' = provider_calls db"
  proof
    assume "db' = db" then show ?thesis using inv by simp
  next
    assume "\<exists>a. d_attempts db' = d_attempts db @ [a] \<and> d_run db' = d_run db
     \<and> at_id a \<notin> at_id ` set (d_attempts db) \<and> at_number a = ?n \<and> ?n \<le> ri_attempt_limit (rn_ident run)
     \<and> at_started a = None \<and> att_wf env (rn_ident run) a"
    then obtain a where a: "d_attempts db' = d_attempts db @ [a]" "d_run db' = d_run db"
      "at_id a \<notin> at_id ` set (d_attempts db)" "at_number a = ?n" "?n \<le> ri_attempt_limit (rn_ident run)"
      "at_started a = None" "att_wf env (rn_ident run) a" by blast
    have "ledger_inv env (d_run db) (d_attempts db @ [a])"
      by (rule ledger_insert[OF inv closed a(3)]) (use a \<open>?n = _\<close> assms(2) in simp_all)
    then show ?thesis using a by (simp add: provider_calls_def)
  qed
  then show "ledger env db'" "d_run db' = d_run db" "provider_calls db' = provider_calls db" by blast+
qed

end
