(* ===== verification/RunEvolution.thy ===== *)
theory RunEvolution
  imports RunInvariants "HOL-Library.Sublist"
begin

text \<open>
  What one committed transaction may do to a Run, whatever its arguments: the row, its attempts, its
  journal and its receipts only evolve.
\<close>

subsection \<open>The order on rows\<close>

text \<open>The release columns change once, from nothing to the approval of a Run that waits for it.\<close>

definition release_le :: "app_run \<Rightarrow> app_run \<Rightarrow> bool" where
  "release_le r r' \<longleftrightarrow> (rn_release_kind r' = rn_release_kind r \<and> rn_released_at r' = rn_released_at r)
     \<or> (rn_release_kind r = None \<and> rn_release_kind r' = Some ReleaseApproved)"

definition run_le :: "app_run \<Rightarrow> app_run \<Rightarrow> bool" where
  "run_le r r' \<longleftrightarrow> rn_ident r' = rn_ident r
     \<and> (rn_state r, rn_state r') \<in> (step_rel APP_RUN_STATE_TRANSITIONS)\<^sup>*
     \<and> release_le r r'
     \<and> frozen (rn_terminal_at r) (rn_terminal_at r') \<and> frozen (rn_unknown_outcome_at r) (rn_unknown_outcome_at r')
     \<and> frozen (rn_reconciled_at r) (rn_reconciled_at r') \<and> frozen (rn_cancel_requested_at r) (rn_cancel_requested_at r')
     \<and> (rn_safe_outcome r \<noteq> None \<longrightarrow> rn_safe_outcome r' \<noteq> None)"

definition att_le :: "attempt \<Rightarrow> attempt \<Rightarrow> bool" where
  "att_le a b \<longleftrightarrow> at_id b = at_id a \<and> at_number b = at_number a \<and> at_key b = at_key a
     \<and> (at_state a, at_state b) \<in> (step_rel APP_RUN_ATTEMPT_STATE_TRANSITIONS)\<^sup>*
     \<and> frozen (at_started a) (at_started b) \<and> frozen (at_finished a) (at_finished b)
     \<and> frozen (at_outcome a) (at_outcome b)"

definition journal_ok :: "run_event list \<Rightarrow> bool" where
  "journal_ok es \<longleftrightarrow> map ev_sequence es = [1..<Suc (length es)]"

definition atts_le :: "attempt list \<Rightarrow> attempt list \<Rightarrow> bool" where
  "atts_le as bs \<longleftrightarrow> (distinct (map at_id as) \<longrightarrow>
     distinct (map at_id bs) \<and> length as \<le> length bs \<and> list_all2 att_le as (take (length as) bs))"

definition evolves :: "run_db \<Rightarrow> run_db \<Rightarrow> bool" where
  "evolves db db' \<longleftrightarrow> run_le (d_run db) (d_run db') \<and> atts_le (d_attempts db) (d_attempts db')
     \<and> prefix (d_receipts db) (d_receipts db') \<and> prefix (d_events db) (d_events db')
     \<and> (distinct (map rc_key (d_receipts db)) \<longrightarrow> distinct (map rc_key (d_receipts db')))
     \<and> (journal_ok (d_events db) \<longrightarrow> journal_ok (d_events db'))"

lemma frozen_refl [simp]: "frozen x x"
  by (simp add: frozen_def)

lemma frozen_trans: "frozen x y \<Longrightarrow> frozen y z \<Longrightarrow> frozen x z"
  by (auto simp: frozen_def)

lemma release_le_refl [simp]: "release_le r r"
  by (simp add: release_le_def)

lemma release_le_trans: "release_le a b \<Longrightarrow> release_le b c \<Longrightarrow> release_le a c"
  by (auto simp: release_le_def)

lemma run_le_refl [simp]: "run_le r r"
  by (simp add: run_le_def)

lemma run_le_trans: "run_le a b \<Longrightarrow> run_le b c \<Longrightarrow> run_le a c"
  unfolding run_le_def
  by (elim conjE, intro conjI; (blast intro: frozen_trans rtrancl_trans release_le_trans | simp))

lemma att_le_refl [simp]: "att_le a a"
  by (simp add: att_le_def)

lemma att_le_trans: "att_le a b \<Longrightarrow> att_le b c \<Longrightarrow> att_le a c"
  unfolding att_le_def
  by (elim conjE, intro conjI; (blast intro: frozen_trans rtrancl_trans | simp))

lemma atts_le_refl [simp]: "atts_le as as"
  by (simp add: atts_le_def list_all2_refl)

lemma list_all2_take: "list_all2 P xs ys \<Longrightarrow> list_all2 P (take n xs) (take n ys)"
  by (auto simp: list_all2_conv_all_nth)

lemma atts_le_trans:
  assumes "atts_le as bs" "atts_le bs cs" shows "atts_le as cs"
  unfolding atts_le_def
proof (intro impI)
  assume "distinct (map at_id as)"
  with assms(1) have ab: "distinct (map at_id bs)" "length as \<le> length bs" "list_all2 att_le as (take (length as) bs)"
    by (simp_all add: atts_le_def)
  with assms(2) have bc: "distinct (map at_id cs)" "length bs \<le> length cs" "list_all2 att_le bs (take (length bs) cs)"
    by (simp_all add: atts_le_def)
  have "list_all2 att_le (take (length as) bs) (take (length as) cs)"
    using list_all2_take[OF bc(3), of "length as"] ab(2) by (simp add: min_def)
  then have "list_all2 att_le as (take (length as) cs)"
    using list_all2_trans[of att_le att_le att_le, rule_format, OF att_le_trans ab(3)] by simp
  then show "distinct (map at_id cs) \<and> length as \<le> length cs \<and> list_all2 att_le as (take (length as) cs)"
    using ab bc by simp
qed

lemma evolves_refl [simp]: "evolves db db"
  by (simp add: evolves_def)

lemma evolves_trans: "evolves a b \<Longrightarrow> evolves b c \<Longrightarrow> evolves a c"
  unfolding evolves_def
  by (elim conjE, intro conjI; (blast intro: run_le_trans atts_le_trans prefix_order.order_trans))

subsection \<open>Relations that transactions keep\<close>

text \<open>
  A relation between the database before and after a transaction.  The contract \<open>tx_relation\<close> makes
  it follow the syntax of the operations; \<open>tx_store\<close> adds the writes that do not touch the attempts,
  and the operations made of them.
\<close>

definition tx_in :: "(run_db \<Rightarrow> run_db \<Rightarrow> bool) \<Rightarrow> run_db \<Rightarrow> 'a tx \<Rightarrow> bool" where
  "tx_in R db m \<longleftrightarrow> (\<forall>db' r. m = Ok (db', r) \<longrightarrow> R db db')"

named_theorems tx_intros

lemma tx_inI: "(\<And>db' r. m = Ok (db', r) \<Longrightarrow> R db db') \<Longrightarrow> tx_in R db m"
  by (simp add: tx_in_def)

lemma tx_inD: "tx_in R db m \<Longrightarrow> m = Ok (db', r) \<Longrightarrow> R db db'"
  by (simp add: tx_in_def)

lemma tx_in_Throw [tx_intros]: "tx_in R db (Throw e)"
  by (simp add: tx_in_def)

lemma tx_in_if [tx_intros]: "(c \<Longrightarrow> tx_in R db m) \<Longrightarrow> (\<not> c \<Longrightarrow> tx_in R db n) \<Longrightarrow> tx_in R db (if c then m else n)"
  by simp

lemma tx_in_option [tx_intros]:
  "(x = None \<Longrightarrow> tx_in R db m) \<Longrightarrow> (\<And>y. x = Some y \<Longrightarrow> tx_in R db (n y)) \<Longrightarrow> tx_in R db (case x of None \<Rightarrow> m | Some y \<Rightarrow> n y)"
  by (cases x) simp_all

lemma tx_in_bind_value: "(\<And>v. tx_in R db (f v)) \<Longrightarrow> tx_in R db (res_bind m f)"
  by (cases m) (simp_all add: tx_in_def)

locale tx_relation =
  fixes R :: "run_db \<Rightarrow> run_db \<Rightarrow> bool"
  assumes R_refl: "R db db"
    and R_trans: "R a b \<Longrightarrow> R b c \<Longrightarrow> R a c"
begin

lemma in_Ok [tx_intros]: "tx_in R db (Ok (db, r))"
  by (simp add: tx_in_def R_refl)

lemma in_bind [tx_intros]:
  assumes "tx_in R db m" "\<And>db' r. tx_in R db' (f db' r)"
  shows "tx_in R db (res_bind m (\<lambda>(x, y). f x y))"
proof (rule tx_inI)
  fix db'' s assume "res_bind m (\<lambda>(x, y). f x y) = Ok (db'', s)"
  then obtain db' r where m: "m = Ok (db', r)" "f db' r = Ok (db'', s)" by (auto simp: res_bind_Ok_iff)
  show "R db db''" by (rule R_trans[OF tx_inD[OF assms(1) m(1)] tx_inD[OF assms(2) m(2)]])
qed

lemma in_from: "R db db' \<Longrightarrow> tx_in R db' m \<Longrightarrow> tx_in R db m"
  unfolding tx_in_def using R_trans by blast

end

locale tx_store = tx_relation +
  assumes R_event: "R db (appendEvent db ty ac p now)"
    and R_enqueue: "R db (enqueue db aid)"
    and R_payloads: "R db (db\<lparr>d_payloads := ps\<rparr>)"
    and R_receipt: "rc_key x \<notin> rc_key ` set (d_receipts db) \<Longrightarrow> R db (db\<lparr>d_receipts := d_receipts db @ [x]\<rparr>)"
    and R_run: "run_guard (d_run db) new = None \<Longrightarrow> release_le (d_run db) new \<Longrightarrow> R db (db\<lparr>d_run := new\<rparr>)"
begin

lemma in_event: "tx_in R (appendEvent db ty ac p now) m \<Longrightarrow> tx_in R db m"
  by (rule in_from[OF R_event])

lemma in_Ok_event [tx_intros]: "tx_in R db (Ok (appendEvent db ty ac p now, r))"
  by (rule in_event[OF in_Ok])

lemma in_Ok_enqueue [tx_intros]: "tx_in R db (Ok (enqueue db aid, r))"
  by (rule in_from[OF R_enqueue in_Ok])

lemma in_Ok_enqueue_event [tx_intros]: "tx_in R db (Ok (enqueue (appendEvent db ty ac p now) aid, r))"
  by (rule in_event[OF in_Ok_enqueue])

lemma in_update_run: "release_le (d_run db) new \<Longrightarrow> tx_in R db (update_run db new)"
  by (auto simp: tx_in_def update_run_Ok R_run)

lemma in_update_run_payloads [tx_intros]:
  "release_le (d_run db) new \<Longrightarrow> tx_in R db (update_run (db\<lparr>d_payloads := ps\<rparr>) new)"
  by (rule in_from[OF R_payloads in_update_run]) simp

lemma in_update_row [tx_intros]:
  "tx_in R db (update_run db (transition_row (d_run db) run st out now))"
  "tx_in R db (update_run db ((d_run db)\<lparr>rn_cancel_requested_at := c, rn_updated_at := now\<rparr>))"
  by (rule in_update_run; simp add: release_le_def)+

lemma in_write_receipt [tx_intros]: "tx_in R db (write_receipt db k kind att st ac f now)"
  unfolding write_receipt_def Let_def
  by (auto simp: tx_in_def R_refl find_None_iff split: option.splits intro!: R_receipt)

lemma in_insertOutput [tx_intros]: "tx_in R db (insertOutput db aid v e)"
  unfolding insertOutput_def by (auto simp: tx_in_def R_payloads)

lemma in_transition [tx_intros]: "tx_in R db (transition db run st ac out err ty now)"
  unfolding transition_def by (intro tx_intros)

lemma in_requestCancellation [tx_intros]: "tx_in R db (requestCancellation db run actor now)"
  unfolding requestCancellation_def by (intro tx_intros)

lemma in_recordRelease [tx_intros]:
  assumes "run = d_run db"
  shows "tx_in R db (recordApprovedExecutionRelease db run actor now)"
proof (cases "rn_release_kind run")
  case None
  have "tx_in R db (update_run db ((d_run db)\<lparr>rn_release_kind := Some ReleaseApproved, rn_released_at := Some now, rn_updated_at := now\<rparr>))"
    by (rule in_update_run) (use None assms in \<open>simp add: release_le_def\<close>)
  then show ?thesis unfolding recordApprovedExecutionRelease_def None option.case by (intro tx_intros)
qed (auto simp: recordApprovedExecutionRelease_def split: release_kind.splits intro!: tx_intros)

lemma in_writeAttemptReceipt [tx_intros]: "tx_in R db (writeAttemptReceipt db run aid st now err rs na)"
  unfolding writeAttemptReceipt_def by (rule tx_intros)

lemma in_after_event [tx_intros]:
  "tx_in R db (transition (appendEvent db ty ac p now) run st ac' out err ty' now')"
  "tx_in R db (insertOutput (appendEvent db ty ac p now) aid v e)"
  "tx_in R db (writeAttemptReceipt (appendEvent db ty ac p now) run aid ast now' err' rs na)"
  by (rule in_event, rule in_transition in_insertOutput in_writeAttemptReceipt)+

lemma in_cancel: "tx_in R db (cancel_run db actor now)"
  unfolding cancel_run_def Let_def by (intro tx_intros)

lemma in_expire: "tx_in R db (expire_run db now)"
  unfolding expire_run_def Let_def by (intro tx_intros)

lemma in_reconcile: "tx_in R db (reconcileUnknown db actor ok now)"
  unfolding reconcileUnknown_def Let_def by (intro tx_intros)

lemma in_purge: "tx_in R db (purgeExpiredRun db now)"
  unfolding purgeExpiredRun_def Let_def by (intro tx_intros) (simp add: release_le_def)

lemma in_approvalReceipt [tx_intros]: "tx_in R db (writeApprovalReceipt db aid run u d now)"
  unfolding writeApprovalReceipt_def by (rule tx_intros)

lemma in_reject: "tx_in R db (reject_approval db act u now)"
  unfolding reject_approval_def Let_def by (intro tx_intros)

end

subsection \<open>Evolution is such a relation\<close>

lemma next_sequence_journal: "journal_ok es \<Longrightarrow> next_sequence es = Suc (length es)"
proof -
  assume j: "journal_ok es"
  have "ev_sequence ` set es = {1..<Suc (length es)}"
    using j unfolding journal_ok_def by (metis set_map set_upt)
  then have "insert 0 (ev_sequence ` set es) = {0..<Suc (length es)}" by auto
  moreover have "Max {0..<Suc (length es)} = length es" by (rule Max_eqI) auto
  ultimately show ?thesis by (simp add: next_sequence_def)
qed

lemma evolves_appendEvent: "evolves db (appendEvent db ty ac p now)"
proof -
  have "journal_ok (d_events (appendEvent db ty ac p now))" if "journal_ok (d_events db)"
    using that next_sequence_journal[OF that] by (simp add: appendEvent_def journal_ok_def)
  moreover have "prefix (d_events db) (d_events (appendEvent db ty ac p now))"
    by (simp add: appendEvent_def)
  ultimately show ?thesis by (simp add: evolves_def)
qed

lemma run_guard_frozen:
  assumes "run_guard old new = None"
  shows "frozen (rn_terminal_at old) (rn_terminal_at new)" "frozen (rn_unknown_outcome_at old) (rn_unknown_outcome_at new)"
    "frozen (rn_reconciled_at old) (rn_reconciled_at new)"
    "frozen (rn_cancel_requested_at old) (rn_cancel_requested_at new)"
    "rn_safe_outcome old \<noteq> None \<longrightarrow> rn_safe_outcome new \<noteq> None"
proof -
  have "frozen (rn_started_at old) (rn_started_at new)
                 \<and> frozen (rn_terminal_at old) (rn_terminal_at new)
                 \<and> frozen (rn_unknown_outcome_at old) (rn_unknown_outcome_at new)
                 \<and> frozen (rn_reconciled_at old) (rn_reconciled_at new)
                 \<and> frozen (rn_cancelled_at old) (rn_cancelled_at new)
                 \<and> frozen (rn_cancel_requested_at old) (rn_cancel_requested_at new)
                 \<and> frozen (rn_input_purged_at old) (rn_input_purged_at new)
                 \<and> frozen (rn_result_purged_at old) (rn_result_purged_at new)
                 \<and> \<not> (rn_safe_outcome old \<noteq> None \<and> rn_safe_outcome new = None)"
    by (rule notnotD[OF assms[unfolded run_guard_None, THEN conjunct2, THEN conjunct1]])
  then show "frozen (rn_terminal_at old) (rn_terminal_at new)" "frozen (rn_unknown_outcome_at old) (rn_unknown_outcome_at new)"
    "frozen (rn_reconciled_at old) (rn_reconciled_at new)"
    "frozen (rn_cancel_requested_at old) (rn_cancel_requested_at new)"
    "rn_safe_outcome old \<noteq> None \<longrightarrow> rn_safe_outcome new \<noteq> None" by (simp_all, auto)
qed

lemma run_guard_run_le:
  assumes "run_guard old new = None" "release_le old new" shows "run_le old new"
proof -
  have "(rn_state old, rn_state new) \<in> (step_rel APP_RUN_STATE_TRANSITIONS)\<^sup>*"
    using run_guard_edge[OF assms(1)]
    by (auto simp: isAppRunStateTransitionAllowed_def step_rel_def intro: r_into_rtrancl)
  then show ?thesis
    using run_guard_ident[OF assms(1)] run_guard_frozen[OF assms(1)] assms(2)
    unfolding run_le_def by blast
qed

interpretation ev: tx_store evolves
proof (unfold_locales)
  show "evolves db (appendEvent db ty ac p now)" for db ty ac p now by (rule evolves_appendEvent)
  show "evolves db db" for db by simp
  show "evolves a b \<Longrightarrow> evolves b c \<Longrightarrow> evolves a c" for a b c by (rule evolves_trans)
  show "run_guard (d_run db) new = None \<Longrightarrow> release_le (d_run db) new \<Longrightarrow> evolves db (db\<lparr>d_run := new\<rparr>)" for db new
    by (simp add: evolves_def run_guard_run_le)
qed (simp_all add: evolves_def enqueue_def)

lemma attempt_guard_att_le:
  assumes "attempt_guard run old new = None" "at_id new = at_id old" shows "att_le old new"
proof -
  have "(at_state old, at_state new) \<in> (step_rel APP_RUN_ATTEMPT_STATE_TRANSITIONS)\<^sup>*"
    using attempt_guard_edge[OF assms(1)]
    by (auto simp: isAppRunAttemptStateTransitionAllowed_def step_rel_def intro: r_into_rtrancl)
  moreover have "frozen (at_started old) (at_started new) \<and> frozen (at_finished old) (at_finished new)
     \<and> frozen (at_outcome old) (at_outcome new)"
    using assms(1) unfolding attempt_guard_None by blast
  ultimately show ?thesis using attempt_guard_ids[OF assms(1)] assms(2) by (simp add: att_le_def)
qed

lemma safe_update_attempt:
  assumes "\<And>b. at_id (f b) = at_id b" shows "tx_in evolves db (update_attempt db aid p f)"
proof (rule tx_inI)
  fix db' r assume "update_attempt db aid p f = Ok (db', r)"
  then show "evolves db db'"
  proof (cases rule: update_attempt_cases)
    case (hit a)
    have le: "att_le b (if at_id b = aid then f b else b)"
      if "distinct (map at_id (d_attempts db))" "b \<in> set (d_attempts db)" for b
    proof (cases "at_id b = aid")
      case True
      then have "b = a" using distinct_map_inj[OF that hit(1)] hit(2) by simp
      then show ?thesis using attempt_guard_att_le[OF hit(4) assms] by simp
    qed simp
    have "atts_le (d_attempts db) (set_attempt (d_attempts db) aid f)"
      unfolding atts_le_def
    proof (intro impI)
      assume d: "distinct (map at_id (d_attempts db))"
      have "list_all2 att_le (d_attempts db) (set_attempt (d_attempts db) aid f)"
        using le[OF d] by (simp add: set_attempt_def list_all2_map2 list_all2_same)
      moreover have "length (set_attempt (d_attempts db) aid f) = length (d_attempts db)" by (simp add: set_attempt_def)
      ultimately show "distinct (map at_id (set_attempt (d_attempts db) aid f))
        \<and> length (d_attempts db) \<le> length (set_attempt (d_attempts db) aid f)
        \<and> list_all2 att_le (d_attempts db) (take (length (d_attempts db)) (set_attempt (d_attempts db) aid f))"
        using d by (simp add: set_attempt_at_id[of f, OF assms])
    qed
    with hit show ?thesis by (simp add: evolves_def)
  qed simp
qed

lemma safe_insert_attempt [tx_intros]: "tx_in evolves db (insert_attempt db a)"
  unfolding insert_attempt_def
  by (auto simp: tx_in_def evolves_def atts_le_def list_all2_refl)

subsection \<open>Every operation of the engine is safe\<close>

lemma safe_attempt_row [tx_intros]:
  "tx_in evolves db (update_attempt db aid p (\<lambda>b. b\<lparr>at_state := s, at_claim := c, at_lease := l, at_updated := t\<rparr>))"
  "tx_in evolves db (update_attempt db aid p (\<lambda>b. b\<lparr>at_state := s, at_started := st, at_updated := t\<rparr>))"
  "tx_in evolves db (update_attempt db aid p (\<lambda>b. b\<lparr>at_lease := l, at_updated := t\<rparr>))"
  "tx_in evolves db (update_attempt db aid p (\<lambda>b. b\<lparr>at_finished := f, at_outcome := out, at_updated := t\<rparr>))"
  "tx_in evolves db (update_attempt db aid p (\<lambda>b. b\<lparr>at_state := s, at_error := e, at_updated := t\<rparr>))"
  by (rule safe_update_attempt, simp)+

lemma safe_createAttempt [tx_intros]: "tx_in evolves db (createAttempt env db run now nid)"
  unfolding createAttempt_def Let_def by (intro tx_intros)

lemma safe_schedule [tx_intros]: "tx_in evolves db (scheduleInTransaction env db run now nid)"
  unfolding scheduleInTransaction_def by (intro tx_intros)

lemma safe_claim [tx_intros]: "tx_in evolves db (claim env db now aid w tok)"
  unfolding claim_def Let_def by (intro tx_intros)

lemma safe_mark [tx_intros]: "tx_in evolves db (markProviderCallStarted env db now aid tok)"
  unfolding markProviderCallStarted_def Let_def by (intro tx_intros)

lemma safe_renewLease [tx_intros]: "tx_in evolves db (renewLease env db now now2 aid tok)"
  unfolding renewLease_def by (intro tx_intros)

lemma safe_persist_once [tx_intros]: "tx_in evolves db (persist_once db now aid tok res out)"
  unfolding persist_once_def by (cases res) (simp_all only: provider_result.case, (intro tx_intros)+)

lemma safe_persist_retry [tx_intros]: "tx_in evolves db (persist_retry n db now aid tok res out)"
proof (induction n)
  case (Suc n)
  then show ?case
    using safe_persist_once[of db now aid tok res out]
    by (cases "persist_once db now aid tok res out") (auto simp: tx_in_def)
qed (simp add: tx_in_def)

lemma safe_persist [tx_intros]: "tx_in evolves db (persistKnownResult db now aid tok res out)"
  unfolding persistKnownResult_def by (rule tx_intros)

lemma safe_createAttempt_event [tx_intros]:
  "tx_in evolves db (createAttempt env (appendEvent db ty ac p now) run now' nid)"
  by (rule ev.in_event, rule safe_createAttempt)

lemma safe_finalizeInTransaction [tx_intros]: "tx_in evolves db (finalizeKnownInTransaction db run a now)"
  unfolding finalizeKnownInTransaction_def Let_def by (intro tx_intros)

lemma safe_finalize [tx_intros]: "tx_in evolves db (finalizeKnownResult db now aid tok)"
  unfolding finalizeKnownResult_def by (intro tx_intros)

lemma safe_settleBefore [tx_intros]: "tx_in evolves db (settleBeforeCallFailure db now aid tok)"
  unfolding settleBeforeCallFailure_def by (intro tx_intros)

lemma safe_native [tx_intros]: "tx_in evolves db (executeNativeAtomic env native cur db now aid tok)"
  unfolding executeNativeAtomic_def Let_def
  by (intro tx_intros | rule tx_in_bind_value)+

lemma safe_recoverUnknown [tx_intros]: "tx_in evolves db (recoverUnknownInTransaction env db run a now nid)"
  unfolding recoverUnknownInTransaction_def Let_def by (intro tx_intros)

lemma safe_settleIndeterminate [tx_intros]: "tx_in evolves db (settleIndeterminate env db now aid tok nid)"
  unfolding settleIndeterminate_def by (intro tx_intros)

lemma safe_recoverRun [tx_intros]: "tx_in evolves db (recoverRun env db now aid nid)"
  unfolding recoverRun_def by (intro tx_intros)

lemma safe_approve_resolve [tx_intros]: "tx_in evolves db (approve_resolve env w db act u now nid)"
  unfolding approve_resolve_def Let_def by (intro tx_intros refl)

lemma safe_approve [tx_intros]: "tx_in evolves db (approveInTransaction env p7 g db act u now nid)"
proof -
  have "tx_in evolves db (res_bind (approve_resolve env w db act u now nid)
        (\<lambda>r. if g = Some False then Throw (RunError APP_RUN_ACCESS_DENIED) else Ok r))" for w
    using safe_approve_resolve[of db env w act u now nid]
    by (auto simp: tx_in_def res_bind_Ok_iff split: if_splits)
  then show ?thesis
    unfolding approveInTransaction_def Let_def by (auto intro!: tx_intros)
qed

end
