(* ===== verification/RunLedger.thy ===== *)
theory RunLedger
  imports RunEvolution
begin

text \<open>
  Every transaction of the engine keeps the attempt ledger, and only two of them start a provider
  call: \<open>markProviderCallStarted\<close> when it answers true and \<open>executeNativeAtomic\<close> when it commits an
  effect, one call each.
\<close>

definition keeps :: "engine_env \<Rightarrow> run_db \<Rightarrow> run_db \<Rightarrow> bool" where
  "keeps env db db' \<longleftrightarrow> (ledger env db \<longrightarrow> ledger env db' \<and> provider_calls db' = provider_calls db)"

lemma provider_calls_attempts: "d_attempts db' = d_attempts db \<Longrightarrow> provider_calls db' = provider_calls db"
  by (simp add: provider_calls_def)

interpretation kp: tx_store "keeps env" for env
proof (unfold_locales)
  show "run_guard (d_run db) new = None \<Longrightarrow> release_le (d_run db) new \<Longrightarrow> keeps env db (db\<lparr>d_run := new\<rparr>)" for db new
    by (simp add: keeps_def ledger_guarded_run provider_calls_def)
qed (simp_all add: keeps_def provider_calls_def)

lemma tx_keepsI:
  "(\<And>db' r. ledger env db \<Longrightarrow> m = Ok (db', r) \<Longrightarrow> ledger env db' \<and> provider_calls db' = provider_calls db) \<Longrightarrow> tx_in (keeps env) db m"
  by (simp add: tx_in_def keeps_def)

lemma keeps_update_attempt:
  assumes "\<And>b. at_id (f b) = at_id b" "\<And>b. at_started (f b) = at_started b"
    and "\<And>b. live_attempt (f b) \<or> at_state (f b) = at_state b"
  shows "tx_in (keeps env) db (update_attempt db aid p f)"
proof (rule tx_keepsI)
  fix db' r assume l: "ledger env db" and u: "update_attempt db aid p f = Ok (db', r)"
  have "ledger_inv env (d_run db) (d_attempts db')"
    by (rule update_attempt_ledger[OF l u assms(1)]) (use assms in auto)
  then show "ledger env db' \<and> provider_calls db' = provider_calls db"
    using update_attempt_run[OF u] update_attempt_quiet[OF u assms(2)] by simp
qed

lemma keeps_attempt_row [tx_intros]:
  "tx_in (keeps env) db (update_attempt db aid p (\<lambda>b. b\<lparr>at_state := AttClaimed, at_claim := c, at_lease := l, at_updated := t\<rparr>))"
  "tx_in (keeps env) db (update_attempt db aid p (\<lambda>b. b\<lparr>at_lease := l, at_updated := t\<rparr>))"
  "tx_in (keeps env) db (update_attempt db aid p (\<lambda>b. b\<lparr>at_finished := fin, at_outcome := out, at_updated := t\<rparr>))"
  by (rule keeps_update_attempt; simp add: live_attempt_def)+

text \<open>Closing an attempt together with its Run.\<close>

lemma keeps_close:
  assumes "run_over st" "run = d_run db" and rest: "\<And>db2 t. tx_in (keeps env) db2 (m db2 t)"
  shows "tx_in (keeps env) db
    (res_bind (update_attempt db aid p (\<lambda>b. b\<lparr>at_state := s, at_error := e, at_updated := t\<rparr>))
      (\<lambda>(db1, _). res_bind (transition (appendEvent db1 ty ac pl now) run st ac' out err ty' now') (\<lambda>(db2, t). m db2 t)))"
proof (rule tx_keepsI)
  let ?f = "\<lambda>b. b\<lparr>at_state := s, at_error := e, at_updated := t\<rparr>"
  fix db' r assume l: "ledger env db" and "res_bind (update_attempt db aid p ?f)
      (\<lambda>(db1, _). res_bind (transition (appendEvent db1 ty ac pl now) run st ac' out err ty' now') (\<lambda>(db2, t). m db2 t)) = Ok (db', r)"
  then obtain db1 x db2 y where u: "update_attempt db aid p ?f = Ok (db1, x)"
    and t: "transition (appendEvent db1 ty ac pl now) run st ac' out err ty' now' = Ok (db2, y)" and m: "m db2 y = Ok (db', r)"
    by (auto simp: res_bind_Ok_iff)
  have run: "run = d_run (appendEvent db1 ty ac pl now)" using update_attempt_run[OF u] assms(2) by simp
  note tk = transition_keeps[OF t[unfolded run]]
  have "ledger_inv env (d_run db2) (d_attempts db1)"
    by (rule update_attempt_ledger[OF l u]) (use tk update_attempt_run[OF u] assms(1) in simp_all)
  then have "ledger env db2" using tk by simp
  moreover have "provider_calls db2 = provider_calls db"
    using update_attempt_quiet[OF u] provider_calls_attempts[of db2 db1] tk by simp
  ultimately show "ledger env db' \<and> provider_calls db' = provider_calls db"
    using tx_inD[OF rest m] by (simp add: keeps_def)
qed

lemma keeps_finalizeInTransaction:
  "run = d_run db \<Longrightarrow> tx_in (keeps env) db (finalizeKnownInTransaction db run a now)"
  unfolding finalizeKnownInTransaction_def Let_def
  by (intro tx_intros keeps_close) (simp_all add: run_over_def)

lemma keeps_finalize: "tx_in (keeps env) db (finalizeKnownResult db now aid tok)"
  unfolding finalizeKnownResult_def by (intro tx_intros keeps_finalizeInTransaction) simp

lemma keeps_settleBefore: "tx_in (keeps env) db (settleBeforeCallFailure db now aid tok)"
  unfolding settleBeforeCallFailure_def by (intro tx_intros keeps_close) (simp_all add: run_over_def)

lemma keeps_claim: "tx_in (keeps env) db (claim env db now aid w tok)"
  unfolding claim_def Let_def by (intro tx_intros)

lemma keeps_renewLease: "tx_in (keeps env) db (renewLease env db now now2 aid tok)"
  unfolding renewLease_def by (intro tx_intros)

lemma keeps_persist_once: "tx_in (keeps env) db (persist_once db now aid tok res out)"
  unfolding persist_once_def by (cases res) (simp_all only: provider_result.case, (intro tx_intros)+)

lemma keeps_persist_retry: "tx_in (keeps env) db (persist_retry n db now aid tok res out)"
proof (induction n)
  case (Suc n)
  then show ?case
    using keeps_persist_once[of env db now aid tok res out]
    by (cases "persist_once db now aid tok res out") (auto simp: tx_in_def)
qed (simp add: tx_in_def)

lemma keeps_persist: "tx_in (keeps env) db (persistKnownResult db now aid tok res out)"
  unfolding persistKnownResult_def by (rule keeps_persist_retry)

subsection \<open>New attempts\<close>

lemma none_live_closed:
  assumes "ledger env db" "List.find live_attempt (d_attempts db) = None" "\<not> run_over (rn_state (d_run db))"
  shows "\<forall>a \<in> set (d_attempts db). \<not> live_attempt a \<and> (unsafe_run (d_run db) \<longrightarrow> at_started a = None)"
proof -
  have nl: "\<forall>a \<in> set (d_attempts db). \<not> live_attempt a" using assms(2) by (auto simp: find_None_iff)
  have "unsafe_run (d_run db) \<longrightarrow>
     (\<forall>a \<in> set (d_attempts db). at_started a \<noteq> None \<and> \<not> live_attempt a \<longrightarrow> run_over (rn_state (d_run db)))"
    using assms(1) unfolding ledger_inv_def by blast
  then show ?thesis using nl assms(3) by blast
qed

lemma keeps_schedule:
  assumes "rn_ident run = rn_ident (d_run db)" "rn_state run = rn_state (d_run db)"
  shows "tx_in (keeps env) db (scheduleInTransaction env db run now nid)"
proof (rule tx_keepsI)
  fix db' r assume l: "ledger env db" and s: "scheduleInTransaction env db run now nid = Ok (db', r)"
  show "ledger env db' \<and> provider_calls db' = provider_calls db"
  proof (cases "db' = db \<or> (\<exists>aid. db' = enqueue db aid)")
    case True
    then show ?thesis using l by (auto simp: provider_calls_def)
  next
    case False
    then have nlive: "List.find live_attempt (d_attempts db) = None" and over: "\<not> run_over (rn_state run)"
      using s by (auto simp: scheduleInTransaction_def split: if_splits option.splits)
    obtain a where c: "createAttempt env db run now nid = Ok (db', a)"
      using s False nlive by (auto simp: scheduleInTransaction_def res_bind_Ok_iff split: if_splits)
    show ?thesis
      using createAttempt_keeps[OF c assms(1) l none_live_closed[OF l nlive]] over assms(2) by simp
  qed
qed

lemma ledger_live_last:
  assumes l: "ledger_inv env run atts" and a: "a \<in> set atts" "live_attempt a" shows "a = last atts"
proof -
  have "a \<notin> set (butlast atts)" using l a(2) unfolding ledger_inv_def by blast
  moreover have "atts = butlast atts @ [last atts]" using a(1) by (cases "atts = []") simp_all
  then have "set atts = set (butlast atts) \<union> {last atts}" by (metis list.simps(15) list.set(1) set_append)
  ultimately show ?thesis using a(1) by blast
qed

lemma closed_after:
  assumes l: "ledger_inv env run atts" and a: "a \<in> set atts" "live_attempt a"
    and f: "\<not> live_attempt (f a)" "unsafe_run run \<Longrightarrow> at_started (f a) = None"
  shows "\<forall>b \<in> set (set_attempt atts (at_id a) f). \<not> live_attempt b \<and> (unsafe_run run \<longrightarrow> at_started b = None)"
proof
  fix b assume b: "b \<in> set (set_attempt atts (at_id a) f)"
  have d: "distinct (map at_id atts)"
    and early: "\<And>x. x \<in> set (butlast atts) \<Longrightarrow> \<not> live_attempt x \<and> (unsafe_run run \<longrightarrow> at_started x = None)"
    using l unfolding ledger_inv_def by blast+
  have last: "x = last atts \<or> x \<in> set (butlast atts)" if "x \<in> set atts" for x
    using that by (metis append_butlast_last_id empty_iff empty_set in_set_conv_decomp rotate1.simps(2) set_ConsD set_rotate1)
  have "a = last atts" using last[OF a(1)] early a(2) by blast
  then have "b = f a \<or> b \<in> set (butlast atts)"
    using set_attempt_member[OF d a(1) refl b] last by blast
  then show "\<not> live_attempt b \<and> (unsafe_run run \<longrightarrow> at_started b = None)" using f early by (elim disjE) simp_all
qed

subsection \<open>Recovery\<close>

lemma may_retry_safe:
  assumes "may_retry run a now" "unsafe_run run" shows "at_state a \<noteq> AttCallStarted"
  using assms by (auto simp: may_retry_def recovery_decision_of_def classifyAppRunCrashRecovery_def unsafe_run_def
      split: if_splits)

lemma keeps_settle_retry:
  assumes a: "a \<in> set (d_attempts db)" "live_attempt a" and run: "run = d_run db"
    and s: "s \<in> {AttFailed, AttUnknown}" and unsafe: "unsafe_run run \<Longrightarrow> at_state a \<noteq> AttCallStarted"
    and rest: "\<And>db2 t. tx_in (keeps env) db2 (m db2 t)"
  shows "tx_in (keeps env) db
    (res_bind (update_attempt db (at_id a) (\<lambda>_. True) (\<lambda>b. b\<lparr>at_state := s, at_error := e, at_updated := t\<rparr>))
      (\<lambda>(db1, _). res_bind (createAttempt env (appendEvent db1 ty ac pl now) run now nid) (\<lambda>(db2, t). m db2 t)))"
proof (rule tx_keepsI)
  let ?f = "\<lambda>b. b\<lparr>at_state := s, at_error := e, at_updated := t\<rparr>"
  fix db' r assume l: "ledger env db" and "res_bind (update_attempt db (at_id a) (\<lambda>_. True) ?f)
      (\<lambda>(db1, _). res_bind (createAttempt env (appendEvent db1 ty ac pl now) run now nid) (\<lambda>(db2, t). m db2 t)) = Ok (db', r)"
  then obtain db1 x db2 y where u: "update_attempt db (at_id a) (\<lambda>_. True) ?f = Ok (db1, x)"
    and c: "createAttempt env (appendEvent db1 ty ac pl now) run now nid = Ok (db2, y)" and m: "m db2 y = Ok (db', r)"
    by (auto simp: res_bind_Ok_iff)
  have d: "distinct (map at_id (d_attempts db))" and wf: "att_wf env (rn_ident run) a"
    using l a(1) run unfolding ledger_inv_def by blast+
  have st: "at_started a = None" if "unsafe_run run"
    using wf a(2) unsafe[OF that] by (auto simp: att_wf_def live_attempt_def)
  have nl: "\<not> live_attempt (?f b)" for b using s by (auto simp: live_attempt_def)
  have atts: "d_attempts db1 = set_attempt (d_attempts db) (at_id a) ?f"
    using u
  proof (cases rule: update_attempt_cases)
    case none
    then show ?thesis using u a(1) by (auto simp: update_attempt_def find_None_iff split: option.splits)
  qed simp
  have closed: "\<forall>b \<in> set (d_attempts db1). \<not> live_attempt b \<and> (unsafe_run run \<longrightarrow> at_started b = None)"
    unfolding atts by (rule closed_after[OF l[folded run] a nl]) (use st in simp)
  have l1: "ledger_inv env (d_run db1) (d_attempts db1)"
  proof (rule update_attempt_ledger[OF l u])
    fix b assume "b \<in> set (d_attempts db)" "at_id b = at_id a" and ur: "unsafe_run (d_run db)"
    then have "b = a" using distinct_map_inj[OF d] a(1) by blast
    then have "at_started (?f b) = None" using st ur run by simp
    then show "run_over (rn_state (d_run db1)) \<or> live_attempt (?f b) \<or> at_started (?f b) = None
       \<or> (at_state (?f b) = at_state b \<and> at_started (?f b) = at_started b)" by blast
  qed (use update_attempt_run[OF u] in simp_all)
  have "ledger env db2 \<and> provider_calls db2 = provider_calls (appendEvent db1 ty ac pl now)"
    using createAttempt_keeps[OF c] l1 closed run update_attempt_run[OF u] by simp
  then have "ledger env db2 \<and> provider_calls db2 = provider_calls db"
    using update_attempt_quiet[OF u] by (simp add: provider_calls_def)
  then show "ledger env db' \<and> provider_calls db' = provider_calls db"
    using tx_inD[OF rest m] by (simp add: keeps_def)
qed

lemma keeps_recoverUnknown:
  assumes a: "a \<in> set (d_attempts db)" "live_attempt a" and run: "run = d_run db"
  shows "tx_in (keeps env) db (recoverUnknownInTransaction env db run a now nid)"
proof -
  let ?s = "if at_state a = AttClaimed then AttFailed else AttUnknown"
  define body where "body db1 run1 = res_bind (update_attempt db1 (at_id a) (\<lambda>_. True)
          (\<lambda>b. b\<lparr>at_state := ?s, at_error := Some (if ?s = AttUnknown then APP_RUN_UNKNOWN_OUTCOME else APP_RUN_PROVIDER_UNAVAILABLE), at_updated := now\<rparr>))
      (\<lambda>(db2, _).
      let db3 = appendEvent db2 AttemptTerminal None
            (if native_unstarted run a now then PNativeUnstarted (at_id a) ?s else PAttemptState (at_id a) ?s) now in
      if may_retry run a now then
        res_bind (createAttempt env db3 run1 now nid) (\<lambda>(db4, _).
          writeAttemptReceipt db4 run1 (at_id a) ?s now
            (Some (if ?s = AttUnknown then APP_RUN_UNKNOWN_OUTCOME else APP_RUN_PROVIDER_UNAVAILABLE)) True False)
      else if at_state a = AttClaimed then
        res_bind (transition db3 run1 Failed None (Some (failure_outcome False APP_RUN_PROVIDER_UNAVAILABLE))
            (Some APP_RUN_PROVIDER_UNAVAILABLE) RunTransitioned now) (\<lambda>(db4, terminalRun).
          writeAttemptReceipt db4 terminalRun (at_id a) ?s now (Some APP_RUN_PROVIDER_UNAVAILABLE) False False)
      else
        res_bind (transition db3 run1 UnknownOutcome None
            (Some (failure_outcome (at_state a = AttCallStarted) APP_RUN_UNKNOWN_OUTCOME))
            (Some APP_RUN_UNKNOWN_OUTCOME) RunTransitioned now) (\<lambda>(db4, terminalRun).
          writeAttemptReceipt db4 terminalRun (at_id a) ?s now (Some APP_RUN_UNKNOWN_OUTCOME) False False))" for db1 run1
  have body: "tx_in (keeps env) db1 (body db1 run1)"
    if "d_attempts db1 = d_attempts db" "run1 = d_run db1" "rn_ident run1 = rn_ident run" for db1 run1
  proof (cases "may_retry run a now")
    case True
    have u: "unsafe_run run1 \<Longrightarrow> at_state a \<noteq> AttCallStarted"
      using may_retry_safe[OF True] unsafe_run_ident[OF that(3)] by simp
    show ?thesis
      unfolding body_def Let_def using True a that u
      by (simp only: if_True) (rule keeps_settle_retry; auto intro!: tx_intros)
  next
    case False
    have "tx_in (keeps env) db1 (body db1 run1)" if "at_state a = AttClaimed"
      unfolding body_def Let_def using False that \<open>run1 = d_run db1\<close>
      by (simp split del: if_split) (rule keeps_close; auto simp: run_over_def intro!: tx_intros)
    moreover have "tx_in (keeps env) db1 (body db1 run1)" if "at_state a \<noteq> AttClaimed"
      unfolding body_def Let_def using False that \<open>run1 = d_run db1\<close>
      by (simp split del: if_split) (rule keeps_close; auto simp: run_over_def intro!: tx_intros)
    ultimately show ?thesis by blast
  qed
  have eq: "recoverUnknownInTransaction env db run a now nid =
    res_bind (if native_unstarted run a now then transition db run Running None None (Some APP_RUN_PROVIDER_UNAVAILABLE) RunTransitioned now
                else Ok (db, run)) (\<lambda>(db1, run1). body db1 run1)"
    by (simp add: recoverUnknownInTransaction_def body_def Let_def)
  show ?thesis
  proof (cases "native_unstarted run a now")
    case False
    then show ?thesis unfolding eq using body[of db run] run by simp
  next
    case True
    show ?thesis
    proof (rule tx_inI)
      fix db' r assume "recoverUnknownInTransaction env db run a now nid = Ok (db', r)"
      then obtain db1 run1 where t: "transition db run Running None None (Some APP_RUN_PROVIDER_UNAVAILABLE) RunTransitioned now = Ok (db1, run1)"
        and b: "body db1 run1 = Ok (db', r)"
        using True by (auto simp: eq res_bind_Ok_iff)
      note tk = transition_keeps[OF t[unfolded run]]
      have "keeps env db db1" by (rule tx_inD[OF kp.in_transition t])
      moreover have "keeps env db1 db'" by (rule tx_inD[OF body b]) (use tk run in simp_all)
      ultimately show "keeps env db db'" by (rule kp.R_trans)
    qed
  qed
qed

lemma stale_live: "stale_attempt now a \<Longrightarrow> live_attempt a"
  by (auto simp: stale_attempt_def live_attempt_def)

lemma keeps_settleIndeterminate: "tx_in (keeps env) db (settleIndeterminate env db now aid tok nid)"
proof -
  have "tx_in (keeps env) db (recoverUnknownInTransaction env db (d_run db) a now nid)"
    if "List.find (\<lambda>a. at_id a = aid) (d_attempts db) = Some a" "at_state a = AttCallStarted" for a
    by (rule keeps_recoverUnknown) (use that find_Some_set[OF that(1)] in \<open>auto simp: live_attempt_def\<close>)
  then show ?thesis
    unfolding settleIndeterminate_def by (intro tx_intros) auto
qed

text \<open>Closing a claimed attempt of a Run that is over.\<close>

lemma keeps_fail_attempt:
  assumes "run_over (rn_state (d_run db))"
  shows "tx_in (keeps env) db (update_attempt db aid p (\<lambda>b. b\<lparr>at_state := s, at_error := e, at_updated := t\<rparr>))"
proof (rule tx_keepsI)
  let ?f = "\<lambda>b. b\<lparr>at_state := s, at_error := e, at_updated := t\<rparr>"
  fix db' r assume l: "ledger env db" and u: "update_attempt db aid p ?f = Ok (db', r)"
  have "ledger_inv env (d_run db) (d_attempts db')"
    by (rule update_attempt_ledger[OF l u]) (use assms in simp_all)
  then show "ledger env db' \<and> provider_calls db' = provider_calls db"
    using update_attempt_run[OF u] update_attempt_quiet[OF u] by simp
qed

lemma keeps_recoverRun: "tx_in (keeps env) db (recoverRun env db now aid nid)"
proof -
  have "tx_in (keeps env) db (recoverUnknownInTransaction env db (d_run db) a now nid)"
    if "List.find (\<lambda>a. (aid = None \<or> aid = Some [] \<or> aid = Some (at_id a)) \<and> stale_attempt now a) (d_attempts db) = Some a" for a
    by (rule keeps_recoverUnknown) (use find_Some_set[OF that] stale_live in auto)
  then show ?thesis
    unfolding recoverRun_def
    by (intro tx_intros keeps_fail_attempt keeps_finalizeInTransaction) (auto simp: run_over_def)
qed

text \<open>Scheduling after the receipt of an approval.\<close>

lemma approvalReceipt_run: "writeApprovalReceipt db k run u d t = Ok (db', w) \<Longrightarrow> d_run db' = d_run db"
  unfolding writeApprovalReceipt_def by (rule write_receipt_core(1))

lemma keeps_receipt_schedule:
  assumes run: "run = d_run db"
  shows "tx_in (keeps env) db (res_bind (writeApprovalReceipt db k run u d t)
     (\<lambda>(db1, _). res_bind (scheduleInTransaction env db1 run now nid) (\<lambda>(db2, _). Ok (db2, x))))"
proof (rule tx_inI)
  fix db' r assume "res_bind (writeApprovalReceipt db k run u d t)
     (\<lambda>(db1, _). res_bind (scheduleInTransaction env db1 run now nid) (\<lambda>(db2, _). Ok (db2, x))) = Ok (db', r)"
  then obtain db1 v w where r: "writeApprovalReceipt db k run u d t = Ok (db1, v)"
    and s: "scheduleInTransaction env db1 run now nid = Ok (db', w)" by (auto simp: res_bind_Ok_iff)
  have "keeps env db1 db'"
    by (rule tx_inD[OF keeps_schedule s]) (simp_all add: run approvalReceipt_run[OF r])
  then show "keeps env db db'" using tx_inD[OF kp.in_approvalReceipt r] kp.R_trans by blast
qed

lemma recordRelease_run:
  "recordApprovedExecutionRelease db (d_run db) ac t = Ok (db', rr) \<Longrightarrow> d_run db' = rr"
  by (auto simp: recordApprovedExecutionRelease_def res_bind_Ok_iff update_run_Ok
        split: option.splits release_kind.splits if_splits)

lemma keeps_release_schedule:
  assumes run: "run = d_run db"
  shows "tx_in (keeps env) db (res_bind (recordApprovedExecutionRelease db run ac now)
     (\<lambda>(db1, run1). res_bind (writeApprovalReceipt db1 k run1 u d (t run1))
       (\<lambda>(db2, _). res_bind (scheduleInTransaction env db2 run1 now nid) (\<lambda>(db3, _). Ok (db3, x)))))"
proof (rule tx_inI)
  fix db' r assume "res_bind (recordApprovedExecutionRelease db run ac now)
     (\<lambda>(db1, run1). res_bind (writeApprovalReceipt db1 k run1 u d (t run1))
       (\<lambda>(db2, _). res_bind (scheduleInTransaction env db2 run1 now nid) (\<lambda>(db3, _). Ok (db3, x)))) = Ok (db', r)"
  then obtain db1 run1 where rel: "recordApprovedExecutionRelease db run ac now = Ok (db1, run1)"
    and rest: "res_bind (writeApprovalReceipt db1 k run1 u d (t run1))
       (\<lambda>(db2, _). res_bind (scheduleInTransaction env db2 run1 now nid) (\<lambda>(db3, _). Ok (db3, x))) = Ok (db', r)"
    by (auto simp: res_bind_Ok_iff)
  have "run1 = d_run db1" using recordRelease_run[OF rel[unfolded run]] by simp
  from tx_inD[OF keeps_receipt_schedule[OF this] rest] show "keeps env db db'"
    using tx_inD[OF kp.in_recordRelease[OF run] rel] kp.R_trans by blast
qed

lemma keeps_approve_resolve: "tx_in (keeps env) db (approve_resolve env web db act u now nid)"
  unfolding approve_resolve_def Let_def
  by (rule refl tx_in_if keeps_receipt_schedule keeps_release_schedule | rule tx_intros)+

lemma keeps_approve: "tx_in (keeps env) db (approveInTransaction env p7 g db act u now nid)"
proof -
  have "tx_in (keeps env) db (res_bind (approve_resolve env w db act u now nid)
        (\<lambda>r. if g = Some False then Throw (RunError APP_RUN_ACCESS_DENIED) else Ok r))" for w
    using keeps_approve_resolve[of env db w act u now nid]
    by (auto simp: tx_in_def res_bind_Ok_iff split: if_splits)
  then show ?thesis
    unfolding approveInTransaction_def Let_def by (auto intro!: tx_intros)
qed

subsection \<open>Provider calls\<close>

definition starts :: "engine_env \<Rightarrow> run_db \<Rightarrow> run_db \<Rightarrow> bool" where
  "starts env db db' \<longleftrightarrow> (ledger env db \<longrightarrow> ledger env db' \<and> provider_calls db' = Suc (provider_calls db))"

lemma starts_keeps: "starts env a b \<Longrightarrow> keeps env b c \<Longrightarrow> starts env a c"
  by (simp add: starts_def keeps_def)

lemma count_set_attempt:
  assumes "distinct (map at_id atts)" "a \<in> set atts" "at_started a = None" "at_started (f a) \<noteq> None"
  shows "length (filter (\<lambda>a. at_started a \<noteq> None) (set_attempt atts (at_id a) f))
    = Suc (length (filter (\<lambda>a. at_started a \<noteq> None) atts))"
proof -
  obtain xs ys where atts: "atts = xs @ a # ys" using split_list[OF assms(2)] by blast
  have apart: "\<forall>b \<in> set xs \<union> set ys. at_id b \<noteq> at_id a" using assms(1) by (auto simp: atts image_iff dest: sym)
  have "set_attempt xs (at_id a) f = xs"
    unfolding set_attempt_def by (rule map_idI) (use apart in simp)
  moreover have "set_attempt ys (at_id a) f = ys"
    unfolding set_attempt_def by (rule map_idI) (use apart in simp)
  ultimately have "set_attempt atts (at_id a) f = xs @ f a # ys" by (simp add: atts set_attempt_def)
  then show ?thesis using assms(3,4) by (simp add: atts)
qed

lemma starts_update_attempt:
  assumes l: "ledger env db"
    and u: "update_attempt db aid p (\<lambda>b. b\<lparr>at_state := AttCallStarted, at_started := Some now, at_updated := t\<rparr>) = Ok (db1, Some r)"
    and a: "List.find (\<lambda>a. at_id a = aid) (d_attempts db) = Some a" "at_state a = AttClaimed"
  shows "ledger env db1" "provider_calls db1 = Suc (provider_calls db)"
proof -
  let ?f = "\<lambda>b. b\<lparr>at_state := AttCallStarted, at_started := Some now, at_updated := t\<rparr>"
  have d: "distinct (map at_id (d_attempts db))" and wf: "att_wf env (rn_ident (d_run db)) a"
    using l find_Some_set[OF a(1)] unfolding ledger_inv_def by blast+
  have atts: "d_attempts db1 = set_attempt (d_attempts db) (at_id a) ?f"
    using u
  proof (cases rule: update_attempt_cases)
    case (hit b)
    then show ?thesis using find_Some_set[OF a(1)] by simp
  qed simp
  have "ledger_inv env (d_run db) (d_attempts db1)"
    by (rule update_attempt_ledger[OF l u]) (simp_all add: live_attempt_def)
  then show "ledger env db1" using update_attempt_run[OF u] by simp
  have "at_started a = None" using wf a(2) by (simp add: att_wf_def)
  then show "provider_calls db1 = Suc (provider_calls db)"
    unfolding provider_calls_def atts using find_Some_set[OF a(1)] by (intro count_set_attempt[OF d]) auto
qed

lemma mark_starts:
  assumes "markProviderCallStarted env db now aid tok = Ok (db', started)"
  shows "if started then starts env db db' else keeps env db db'"
proof (cases "db' = db \<and> \<not> started")
  case True
  then show ?thesis by (simp add: keeps_def)
next
  case False
  let ?f = "\<lambda>b. b\<lparr>at_state := AttCallStarted, at_started := Some now, at_updated := now\<rparr>"
  let ?p = "\<lambda>b. at_state b = AttClaimed \<and> at_token b = Some tok"
  obtain a where a: "List.find (\<lambda>a. at_id a = aid) (d_attempts db) = Some a" "at_state a = AttClaimed"
    and rest: "res_bind (update_attempt db aid ?p ?f)
                 (\<lambda>(db1, updated). case updated of
                    None \<Rightarrow> Ok (db1, False)
                  | Some a \<Rightarrow>
                      res_bind (if rn_state (d_run db) = Pending \<or> rn_state (d_run db) = PendingApproval
                                then transition db1 (d_run db) Running None None None RunTransitioned now
                                else Ok (db1, d_run db))
                        (\<lambda>(db2, _). Ok (appendEvent db2 ProviderCallStarted None (PAttempt (at_id a)) now, True))) = Ok (db', started)"
    using assms False
    by (auto simp: markProviderCallStarted_def Let_def split: if_splits option.splits)
  then obtain db1 u where u: "update_attempt db aid ?p ?f = Ok (db1, u)" by (auto simp: res_bind_Ok_iff)
  show ?thesis
  proof (cases u)
    case None
    then have "db1 = db" using u by (auto simp: update_attempt_def split: option.splits)
    then have "db' = db \<and> \<not> started" using rest u None by simp
    with False show ?thesis by blast
  next
    case (Some r)
    have run1: "d_run db1 = d_run db" using update_attempt_run[OF u] by simp
    have "starts env db db1" using starts_update_attempt[OF _ u[unfolded Some] a] by (simp add: starts_def)
    moreover have "tx_in (keeps env) db1 (res_bind (if rn_state (d_run db) = Pending \<or> rn_state (d_run db) = PendingApproval
                                then transition db1 (d_run db) Running None None None RunTransitioned now
                                else Ok (db1, d_run db))
                        (\<lambda>(db2, _). Ok (appendEvent db2 ProviderCallStarted None (PAttempt (at_id r)) now, True)))"
      by (intro tx_intros)
    then have "keeps env db1 db'" by (rule tx_inD) (use rest u Some in simp)
    moreover have "started" using rest u Some by (auto simp: res_bind_Ok_iff)
    ultimately show ?thesis using starts_keeps by simp
  qed
qed

lemma native_starts:
  assumes "executeNativeAtomic env native cur db now aid tok = Ok (db', made)"
  shows "if made then starts env db db' else db' = db"
proof (cases "db' = db \<and> \<not> made")
  case False
  let ?start = "\<lambda>b. b\<lparr>at_state := AttCallStarted, at_started := Some now, at_updated := now\<rparr>"
  let ?out = "Some (outcome True True Retained None)"
  let ?fin = "\<lambda>b. b\<lparr>at_finished := Some now, at_outcome := ?out, at_updated := now\<rparr>"
  obtain a db1 u db2 run2 out db3 v db4 w where
      a: "List.find (\<lambda>a. at_id a = aid) (d_attempts db) = Some a" "at_state a = AttClaimed" "at_token a = Some tok"
    and u: "update_attempt db aid (\<lambda>b. at_token b = Some tok) ?start = Ok (db1, u)"
    and t: "transition db1 (d_run db) Running None None None RunTransitioned now = Ok (db2, run2)"
    and i: "insertOutput (appendEvent db2 ProviderCallStarted None (PAttempt aid) now) aid
                (result_envelope True out) (ri_result_expires_at (rn_ident run2)) = Ok (db3, v)"
    and fin: "update_attempt db3 aid (\<lambda>_. True) ?fin = Ok (db4, w)"
    and settle: "finalizeKnownInTransaction db4 run2 (a\<lparr>at_started := Some now, at_finished := Some now, at_outcome := ?out\<rparr>) now
                = Ok (db', ())" and made: "made"
    using assms False
    by (auto simp: executeNativeAtomic_def Let_def res_bind_Ok_iff split: if_splits option.splits)
  have run1: "d_run db1 = d_run db" using update_attempt_run[OF u] by simp
  obtain r where r: "u = Some r" using u a by (auto simp: update_attempt_def find_None_iff split: option.splits dest: find_Some_set)
  have "starts env db db1" using starts_update_attempt[OF _ u[unfolded r] a(1,2)] by (simp add: starts_def)
  moreover have "keeps env db1 db2" by (rule tx_inD[OF kp.in_transition t])
  moreover have "keeps env db2 db3" by (rule tx_inD[OF kp.in_after_event(2) i])
  moreover have "keeps env db3 db4" by (rule tx_inD[OF keeps_attempt_row(3) fin])
  moreover have "run2 = d_run db4"
    using transition_keeps(3)[OF t[folded run1]] insertOutput_core(1)[OF i] update_attempt_run[OF fin] by simp
  then have "keeps env db4 db'" by (rule tx_inD[OF keeps_finalizeInTransaction settle])
  ultimately have "starts env db db'" using starts_keeps by blast
  with made show ?thesis by simp
qed simp

subsection \<open>One committed transaction\<close>

text \<open>\<open>run_step env now k db db'\<close>: a transaction commits at time \<open>now\<close> and starts \<open>k\<close> provider calls.\<close>

inductive run_step :: "engine_env \<Rightarrow> int \<Rightarrow> nat \<Rightarrow> run_db \<Rightarrow> run_db \<Rightarrow> bool" for env where
  schedule: "scheduleInTransaction env db (d_run db) now nid = Ok (db', r) \<Longrightarrow> run_step env now 0 db db'"
| claims: "claim env db now aid worker tok = Ok (db', r) \<Longrightarrow> run_step env now 0 db db'"
| marks: "markProviderCallStarted env db now aid tok = Ok (db', started) \<Longrightarrow> run_step env now (of_bool started) db db'"
| renews: "renewLease env db now now2 aid tok = Ok (db', b) \<Longrightarrow> run_step env now 0 db db'"
| persists: "persistKnownResult db now aid tok res out = Ok (db', u) \<Longrightarrow> run_step env now 0 db db'"
| finalizes: "finalizeKnownResult db now aid tok = Ok (db', u) \<Longrightarrow> run_step env now 0 db db'"
| settles: "settleBeforeCallFailure db now aid tok = Ok (db', u) \<Longrightarrow> run_step env now 0 db db'"
| indeterminate: "settleIndeterminate env db now aid tok nid = Ok (db', u) \<Longrightarrow> run_step env now 0 db db'"
| natives: "executeNativeAtomic env native cur db now aid tok = Ok (db', made) \<Longrightarrow> run_step env now (of_bool made) db db'"
| recovers: "recoverRun env db now oaid nid = Ok (db', n) \<Longrightarrow> run_step env now 0 db db'"
| cancels: "cancel_run db actor now = Ok (db', r') \<Longrightarrow> run_step env now 0 db db'"
| expires: "expire_run db now = Ok (db', r') \<Longrightarrow> run_step env now 0 db db'"
| reconciles: "reconcileUnknown db actor ok now = Ok (db', r') \<Longrightarrow> run_step env now 0 db db'"
| purges: "purgeExpiredRun db now = Ok (db', n) \<Longrightarrow> run_step env now 0 db db'"
| approves: "approveInTransaction env p7 g db act u now nid = Ok (db', ar) \<Longrightarrow> run_step env now 0 db db'"
| rejects: "reject_approval db act u now = Ok (db', ar) \<Longrightarrow> run_step env now 0 db db'"

lemma run_step_evolves: "run_step env now k db db' \<Longrightarrow> evolves db db'"
  by (induction rule: run_step.induct)
    (erule tx_inD[rotated], intro tx_intros ev.in_cancel ev.in_expire ev.in_reconcile ev.in_purge ev.in_reject)+

lemmas keeps_ops = keeps_claim keeps_renewLease keeps_persist keeps_finalize keeps_settleBefore
  keeps_settleIndeterminate keeps_recoverRun kp.in_cancel kp.in_expire kp.in_reconcile kp.in_purge
  keeps_approve kp.in_reject keeps_schedule [OF refl refl]

lemma zero_calls:
  "m = Ok (db', r) \<Longrightarrow> tx_in (keeps env) db m \<Longrightarrow> ledger env db
     \<Longrightarrow> ledger env db' \<and> provider_calls db' = provider_calls db + 0"
  by (simp add: tx_in_def keeps_def)

lemma run_step_calls:
  "run_step env now k db db' \<Longrightarrow> ledger env db \<Longrightarrow> ledger env db' \<and> provider_calls db' = provider_calls db + k"
proof (induction rule: run_step.induct)
  case (marks db now aid tok db' started)
  then show ?case using mark_starts[OF marks(1)] by (cases started) (simp_all add: starts_def keeps_def)
next
  case (natives native cur db now aid tok db' made)
  then show ?case using native_starts[OF natives(1)] by (cases made) (simp_all add: starts_def)
qed (erule zero_calls, rule keeps_ops, assumption)+

subsection \<open>Histories\<close>

text \<open>\<open>history env n db db'\<close>: the engine takes the Run from \<open>db\<close> to \<open>db'\<close>, starting \<open>n\<close> provider calls.\<close>

inductive history :: "engine_env \<Rightarrow> nat \<Rightarrow> run_db \<Rightarrow> run_db \<Rightarrow> bool" for env where
  none: "history env 0 db db"
| more: "history env n db db1 \<Longrightarrow> run_step env now k db1 db2 \<Longrightarrow> history env (n + k) db db2"

text \<open>\<open>later env t db db'\<close>: the same, by transactions at or after time \<open>t\<close>.\<close>

inductive later :: "engine_env \<Rightarrow> int \<Rightarrow> run_db \<Rightarrow> run_db \<Rightarrow> bool" for env t where
  here: "later env t db db"
| onward: "later env t db db1 \<Longrightarrow> t \<le> now \<Longrightarrow> run_step env now k db1 db2 \<Longrightarrow> later env t db db2"

lemma history_evolves: "history env n db db' \<Longrightarrow> evolves db db'"
  by (induction rule: history.induct) (auto intro: evolves_trans run_step_evolves)

lemma history_calls:
  "history env n db db' \<Longrightarrow> ledger env db \<Longrightarrow> ledger env db' \<and> provider_calls db' = provider_calls db + n"
proof (induction rule: history.induct)
  case (more n db db1 now k db2)
  then show ?case using run_step_calls[OF more(2)] by simp
qed simp

text \<open>A Run as it is submitted: no attempt yet.\<close>

lemma ledger_fresh: "d_attempts db = [] \<Longrightarrow> ledger env db"
  by (simp add: ledger_inv_def)

lemma ledger_bound: "ledger env db \<Longrightarrow> provider_calls db \<le> ri_attempt_limit (rn_ident (d_run db))"
  unfolding ledger_inv_def provider_calls_def by (meson length_filter_le le_trans)

lemma ledger_unsafe_bound:
  assumes "ledger env db" "unsafe_run (d_run db)" shows "provider_calls db \<le> 1"
proof (cases "d_attempts db = []")
  case False
  have "\<forall>a \<in> set (butlast (d_attempts db)). at_started a = None"
    using assms unfolding ledger_inv_def by blast
  then have "filter (\<lambda>a. at_started a \<noteq> None) (butlast (d_attempts db)) = []" by (simp add: filter_empty_conv)
  moreover have "d_attempts db = butlast (d_attempts db) @ [last (d_attempts db)]" using False by simp
  then have "provider_calls db = length (filter (\<lambda>a. at_started a \<noteq> None) (butlast (d_attempts db) @ [last (d_attempts db)]))"
    unfolding provider_calls_def by metis
  ultimately show ?thesis by simp
qed (simp add: provider_calls_def)

end
