(* ===== verification/RunProperties.thy ===== *)
theory RunProperties
  imports RunLedger
begin

text \<open>
  What the App Run engine promises, over every history of committed transactions and over every
  delivery of an attempt job, with the sample Run that the witnesses use.
\<close>

subsection \<open>A sample Run\<close>

definition sample_env :: engine_env where
  "sample_env = \<lparr>en_authorize = (\<lambda>_ _ _. True), en_authorize_approval = (\<lambda>_ _. True),
     en_within_budget = (\<lambda>_. True), en_dispatch_pin = (\<lambda>_. True), en_final_authority = (\<lambda>_. True),
     en_fingerprint = (\<lambda>i. (''v1'', i)), en_lease_ms = 60000\<rparr>"

definition sample_ident :: "provider_kind \<Rightarrow> retry_class \<Rightarrow> run_ident" where
  "sample_ident pk rc = \<lparr>ri_id = ''run1'', ri_org = ''org1'', ri_origin = (if pk = ProvNative then AppOrigin ''i'' ''v'' (NativeBinding ''b'') ''g'' None else CoreOrigin),
     ri_initiating = (TyHuman, ''u1''), ri_execution = (TyHuman, ''u1''),
     ri_operation = \<lparr>op_org = ''org1'', op_provider_kind = pk, op_provider_instance = ''srv'', op_name = ''send''\<rparr>,
     ri_policy = \<lparr>ps_risk_class = RiskExternalWrite, ps_review_requirement = ReviewPolicy,
        ps_review_scope = PerInvocation, ps_retry_class = rc\<rparr>,
     ri_retention = StandardRetention, ri_idempotency = (''v1'', ''k''), ri_input_fingerprint = (''v1'', ''f''),
     ri_authorization = \<lparr>as_subject = HumanActor ''u1'', as_refs = []\<rparr>, ri_preview = JNull,
     ri_automation = None, ri_root_run_id = ''run1'', ri_parent_run_id = None, ri_depth = 0,
     ri_input_expires_at = 100000, ri_result_expires_at = 100000, ri_idempotency_expires_at = 200000,
     ri_attempt_limit = 3\<rparr>"

definition sample_run :: "provider_kind \<Rightarrow> retry_class \<Rightarrow> app_run" where
  "sample_run pk rc = \<lparr>rn_ident = sample_ident pk rc, rn_state = Pending, rn_safe_outcome = None,
     rn_release_kind = Some ReleasePolicySatisfied, rn_released_at = Some 0, rn_budget = None,
     rn_input_purged_at = None, rn_result_purged_at = None, rn_started_at = None, rn_terminal_at = None,
     rn_unknown_outcome_at = None, rn_reconciled_at = None, rn_cancelled_at = None,
     rn_cancel_requested_at = None, rn_updated_at = 0\<rparr>"

definition sample_run_db :: "provider_kind \<Rightarrow> retry_class \<Rightarrow> run_db" where
  "sample_run_db pk rc = \<lparr>d_run = sample_run pk rc, d_attempts = [], d_events = [], d_receipts = [],
     d_payloads = [\<lparr>py_kind = InputPayload, py_value = JStr ''hello'', py_expires_at = 100000\<rparr>], d_jobs = []\<rparr>"

definition tx_db :: "'a tx \<Rightarrow> run_db" where
  "tx_db m = fst (projr m)"

lemma tx_db_Ok: "\<not> isl m \<Longrightarrow> m = Ok (tx_db m, snd (projr m))"
  by (cases m) (simp_all add: tx_db_def)

definition sample_scheduled :: "provider_kind \<Rightarrow> retry_class \<Rightarrow> run_db" where
  "sample_scheduled pk rc = tx_db (scheduleInTransaction sample_env (sample_run_db pk rc) (d_run (sample_run_db pk rc)) 1 ''a1'')"

definition sample_claimed :: "provider_kind \<Rightarrow> retry_class \<Rightarrow> run_db" where
  "sample_claimed pk rc = tx_db (claim sample_env (sample_scheduled pk rc) 2 ''a1'' ''w1'' ''t1'')"

definition sample_called :: "retry_class \<Rightarrow> run_db" where
  "sample_called rc = tx_db (markProviderCallStarted sample_env (sample_claimed ProvMcp rc) 3 ''a1'' ''t1'')"

lemma sample_tx:
  "\<not> isl (scheduleInTransaction sample_env (sample_run_db ProvMcp rc) (d_run (sample_run_db ProvMcp rc)) 1 ''a1'')"
  "\<not> isl (claim sample_env (sample_scheduled ProvMcp rc) 2 ''a1'' ''w1'' ''t1'')"
  "\<not> isl (markProviderCallStarted sample_env (sample_claimed ProvMcp rc) 3 ''a1'' ''t1'')"
  "snd (projr (markProviderCallStarted sample_env (sample_claimed ProvMcp rc) 3 ''a1'' ''t1''))"
  by (cases rc; code_simp)+

lemma sample_history: "history sample_env 1 (sample_run_db ProvMcp rc) (sample_called rc)"
proof -
  let ?db = "sample_run_db ProvMcp rc"
  have "history sample_env (0 + 0) ?db (sample_scheduled ProvMcp rc)"
    unfolding sample_scheduled_def by (rule history.more[OF history.none run_step.schedule[OF tx_db_Ok[OF sample_tx(1)]]])
  then have "history sample_env (0 + 0 + 0) ?db (sample_claimed ProvMcp rc)"
    unfolding sample_claimed_def by (rule history.more[OF _ run_step.claims[OF tx_db_Ok[OF sample_tx(2)]]])
  then have "history sample_env (0 + 0 + 0 + of_bool (snd (projr (markProviderCallStarted sample_env (sample_claimed ProvMcp rc) 3 ''a1'' ''t1'')))) ?db (sample_called rc)"
    unfolding sample_called_def by (rule history.more[OF _ run_step.marks[OF tx_db_Ok[OF sample_tx(3)]]])
  then show ?thesis using sample_tx(4)[of rc] by simp
qed

lemma sample_run_db_attempts [simp]: "d_attempts (sample_run_db pk rc) = []"
  by (simp add: sample_run_db_def)

lemma sample_run_db_ident [simp]: "rn_ident (d_run (sample_run_db pk rc)) = sample_ident pk rc"
  by (simp add: sample_run_db_def sample_run_def)

lemma sample_ident_simps [simp]:
  "ps_retry_class (ri_policy (sample_ident pk rc)) = rc" "ri_attempt_limit (sample_ident pk rc) = 3"
  by (simp_all add: sample_ident_def)

subsection \<open>Histories\<close>

text \<open>C1. An operation whose retries are unsafe is called at most once, whatever workers, crashes, recoveries, approvals and sweeps the history of its Run contains.\<close>

theorem unsafe_operation_is_called_at_most_once:
  assumes "history env n db db'" "d_attempts db = []" "ps_retry_class (ri_policy (rn_ident (d_run db))) = UnsafeOrUnknown"
  shows "n \<le> 1"
proof -
  have l: "ledger env db'" and n: "provider_calls db' = provider_calls db + n"
    using history_calls[OF assms(1) ledger_fresh[OF assms(2)]] by blast+
  have "rn_ident (d_run db') = rn_ident (d_run db)"
    using history_evolves[OF assms(1)] by (simp add: evolves_def run_le_def)
  then have "unsafe_run (d_run db')" using assms(3) by (simp add: unsafe_run_def retry_of_def)
  then show ?thesis using ledger_unsafe_bound[OF l] n by simp
qed

theorem unsafe_operation_is_called_at_most_once_witness:
  "(1::nat) \<le> 1 \<and> history sample_env 1 (sample_run_db ProvMcp UnsafeOrUnknown) (sample_called UnsafeOrUnknown)"
  using unsafe_operation_is_called_at_most_once[OF sample_history[of UnsafeOrUnknown]] sample_history[of UnsafeOrUnknown] by simp

text \<open>C7. No history of a Run starts more provider calls than its attempt limit.\<close>

theorem provider_calls_stay_within_attempt_limit:
  assumes "history env n db db'" "d_attempts db = []"
  shows "n \<le> ri_attempt_limit (rn_ident (d_run db))"
proof -
  have l: "ledger env db'" and n: "provider_calls db' = provider_calls db + n"
    using history_calls[OF assms(1) ledger_fresh[OF assms(2)]] by blast+
  have "rn_ident (d_run db') = rn_ident (d_run db)"
    using history_evolves[OF assms(1)] by (simp add: evolves_def run_le_def)
  then show ?thesis using ledger_bound[OF l] n by simp
qed

theorem provider_calls_stay_within_attempt_limit_witness:
  "(1::nat) \<le> ri_attempt_limit (rn_ident (d_run (sample_run_db ProvMcp RetrySafe)))"
  using provider_calls_stay_within_attempt_limit[OF sample_history[of RetrySafe]] by simp

text \<open>C8. The attempts of a Run are numbered without gaps from 1, only the newest one can be live, and all of them carry the same provider idempotency key, derived from the Run, when the operation is idempotent with a key.\<close>

theorem attempts_form_one_keyed_chain:
  assumes "history env n db db'" "d_attempts db = []"
  shows "map at_number (d_attempts db') = [1..<Suc (length (d_attempts db'))]
    \<and> (\<forall>a \<in> set (butlast (d_attempts db')). \<not> live_attempt a)
    \<and> (\<forall>a \<in> set (d_attempts db'). at_key a =
         (if ps_retry_class (ri_policy (rn_ident (d_run db))) = IdempotentWithKey
          then Some (en_fingerprint env (ri_id (rn_ident (d_run db)))) else None))"
proof -
  have l: "ledger env db'" using history_calls[OF assms(1) ledger_fresh[OF assms(2)]] by blast
  have i: "rn_ident (d_run db') = rn_ident (d_run db)"
    using history_evolves[OF assms(1)] by (simp add: evolves_def run_le_def)
  have "map at_number (d_attempts db') = [1..<Suc (length (d_attempts db'))]"
    "\<forall>a \<in> set (butlast (d_attempts db')). \<not> live_attempt a"
    "\<forall>a \<in> set (d_attempts db'). att_wf env (rn_ident (d_run db)) a"
    using l unfolding ledger_inv_def i by blast+
  then show ?thesis by (simp add: att_wf_def del: upt_Suc)
qed

theorem attempts_form_one_keyed_chain_witness:
  "map at_key (d_attempts (sample_called IdempotentWithKey)) = [Some (''v1'', ''run1'')]"
proof -
  have "\<forall>a \<in> set (d_attempts (sample_called IdempotentWithKey)). at_key a = Some (''v1'', ''run1'')"
    using attempts_form_one_keyed_chain[OF sample_history[of IdempotentWithKey]]
    by (simp add: sample_env_def sample_ident_def)
  moreover have "length (d_attempts (sample_called IdempotentWithKey)) = 1" by code_simp
  ultimately show ?thesis by (cases "d_attempts (sample_called IdempotentWithKey)") auto
qed

text \<open>C9. A settled Run stays settled: no later transaction changes its state or its time of settlement, or removes an
  outcome that is recorded.  The content of the outcome is not frozen: the retention purge marks its result as
  expired.\<close>

theorem settled_run_stays_settled:
  assumes "history env n db db'" "rn_state (d_run db) \<in> set APP_RUN_TERMINAL_STATES"
  shows "rn_state (d_run db') = rn_state (d_run db)
    \<and> (rn_terminal_at (d_run db) \<noteq> None \<longrightarrow> rn_terminal_at (d_run db') = rn_terminal_at (d_run db))
    \<and> (rn_safe_outcome (d_run db) \<noteq> None \<longrightarrow> rn_safe_outcome (d_run db') \<noteq> None)"
proof -
  have le: "run_le (d_run db) (d_run db')" using history_evolves[OF assms(1)] by (simp add: evolves_def)
  then have "rn_state (d_run db') = rn_state (d_run db)"
    using run_graph.reach_terminal assms(2) unfolding run_le_def terminal_iff_no_next by blast
  then show ?thesis using le by (auto simp: run_le_def frozen_def)
qed

definition sample_cancelled :: run_db where
  "sample_cancelled = tx_db (cancel_run (sample_run_db ProvMcp RetrySafe) (HumanActor ''u1'') 5)"

theorem settled_run_stays_settled_witness:
  "rn_state (d_run (tx_db (expire_run sample_cancelled 9))) = Cancelled"
proof -
  have ok: "\<not> isl (expire_run sample_cancelled 9)" by code_simp
  have "history sample_env (0 + 0) sample_cancelled (tx_db (expire_run sample_cancelled 9))"
    by (rule history.more[OF history.none run_step.expires[OF tx_db_Ok[OF ok]]])
  moreover have "rn_state (d_run sample_cancelled) = Cancelled" by code_simp
  ultimately show ?thesis using settled_run_stays_settled by (simp add: APP_RUN_TERMINAL_STATES_def)
qed

text \<open>C17. The evidence of a Run is append-only: no history rewrites or drops an event or a receipt, the events stay numbered 1, 2, 3 and so on, and no receipt key is used twice.\<close>

theorem evidence_is_append_only:
  assumes "history env n db db'"
  shows "prefix (d_events db) (d_events db') \<and> prefix (d_receipts db) (d_receipts db')
    \<and> (journal_ok (d_events db) \<longrightarrow> journal_ok (d_events db'))
    \<and> (distinct (map rc_key (d_receipts db)) \<longrightarrow> distinct (map rc_key (d_receipts db')))"
  using history_evolves[OF assms] by (simp add: evolves_def)

theorem evidence_is_append_only_witness:
  "map ev_sequence (d_events (sample_called RetrySafe)) = [1, 2, 3, 4] \<and> journal_ok (d_events (sample_called RetrySafe))"
proof -
  have "journal_ok (d_events (sample_called RetrySafe))"
    using evidence_is_append_only[OF sample_history[of RetrySafe]] by (simp add: sample_run_db_def journal_ok_def)
  moreover have "map ev_sequence (d_events (sample_called RetrySafe)) = [1, 2, 3, 4]" by code_simp
  ultimately show ?thesis by blast
qed

subsection \<open>Release\<close>

lemma mark_released:
  assumes "markProviderCallStarted env db now aid tok = Ok (db', True)"
  shows "provider_of (d_run db) = ProvMcp" "rn_released_at (d_run db) \<noteq> None" "rn_state (d_run db) \<noteq> Cancelled"
    "en_authorize env (d_run db) StageProviderCall now"
    "\<exists>a. List.find (\<lambda>a. at_id a = aid) (d_attempts db) = Some a \<and> at_state a = AttClaimed
       \<and> at_token a = Some tok \<and> lease_live a now"
  using assms by (auto simp: markProviderCallStarted_def Let_def split: if_splits option.splits)

lemma native_released:
  assumes "executeNativeAtomic env native cur db now aid tok = Ok (db', True)"
  shows "rn_released_at (d_run db) \<noteq> None"
  using assms by (auto simp: executeNativeAtomic_def Let_def split: if_splits option.splits)

lemma step_released: "run_step env now k db db' \<Longrightarrow> k \<noteq> 0 \<Longrightarrow> rn_released_at (d_run db) \<noteq> None"
proof (induction rule: run_step.induct)
  case (marks db now aid tok db' started)
  then show ?case using mark_released(2)[of env db now aid tok db'] by (cases started) simp_all
next
  case (natives native cur db now aid tok db' made)
  then show ?case using native_released[of env native cur db now aid tok db'] by (cases made) simp_all
qed simp_all

lemma evolves_release: "evolves db db' \<Longrightarrow> release_le (d_run db) (d_run db')"
  by (simp add: evolves_def run_le_def)

text \<open>C4. An unreleased Run reaches its provider only through the approval: when a history of a Run without any release has started a call, the Run now carries the release of an approver.\<close>

theorem no_call_without_approval:
  assumes "history env n db db'" "rn_release_kind (d_run db) = None" "rn_released_at (d_run db) = None" "0 < n"
  shows "rn_release_kind (d_run db') = Some ReleaseApproved"
  using assms
proof (induction rule: history.induct)
  case (more n db db1 now k db2)
  have to1: "release_le (d_run db) (d_run db1)" by (rule evolves_release[OF history_evolves[OF more(1)]])
  have to2: "release_le (d_run db1) (d_run db2)" by (rule evolves_release[OF run_step_evolves[OF more(2)]])
  have "rn_release_kind (d_run db1) = Some ReleaseApproved"
  proof (cases "k = 0")
    case True
    then show ?thesis using more by simp
  next
    case False
    then have "rn_released_at (d_run db1) \<noteq> None" using step_released[OF more(2)] by simp
    then show ?thesis using to1 more(4,5) by (auto simp: release_le_def)
  qed
  then show ?case using to2 by (auto simp: release_le_def)
qed simp

definition sample_waiting :: "provider_kind \<Rightarrow> run_db" where
  "sample_waiting pk = (sample_run_db pk UnsafeOrUnknown)\<lparr>d_run := (sample_run pk UnsafeOrUnknown)
     \<lparr>rn_state := PendingApproval, rn_release_kind := None, rn_released_at := None\<rparr>\<rparr>"

definition sample_action :: approval_action where
  "sample_action = \<lparr>aa_id = ''act1'', aa_is_invoke = True, aa_user_id = ''u1'', aa_status = ApPending, aa_approved_by = None\<rparr>"

definition sample_approved :: run_db where
  "sample_approved = tx_db (approveInTransaction sample_env False None (sample_waiting ProvMcp) sample_action ''u2'' 1 ''a1'')"

definition sample_approved_claimed :: run_db where
  "sample_approved_claimed = tx_db (claim sample_env sample_approved 2 ''a1'' ''w1'' ''t1'')"

definition sample_approved_called :: run_db where
  "sample_approved_called = tx_db (markProviderCallStarted sample_env sample_approved_claimed 3 ''a1'' ''t1'')"

lemma sample_approval_history: "history sample_env 1 (sample_waiting ProvMcp) sample_approved_called"
proof -
  let ?m = "markProviderCallStarted sample_env sample_approved_claimed 3 ''a1'' ''t1''"
  have ok: "\<not> isl (approveInTransaction sample_env False None (sample_waiting ProvMcp) sample_action ''u2'' 1 ''a1'')"
    "\<not> isl (claim sample_env sample_approved 2 ''a1'' ''w1'' ''t1'')" "\<not> isl ?m" "snd (projr ?m)"
    by code_simp+
  have "history sample_env (0 + 0) (sample_waiting ProvMcp) sample_approved"
    unfolding sample_approved_def by (rule history.more[OF history.none run_step.approves[OF tx_db_Ok[OF ok(1)]]])
  then have "history sample_env (0 + 0 + 0) (sample_waiting ProvMcp) sample_approved_claimed"
    unfolding sample_approved_claimed_def by (rule history.more[OF _ run_step.claims[OF tx_db_Ok[OF ok(2)]]])
  then have "history sample_env (0 + 0 + 0 + of_bool (snd (projr ?m))) (sample_waiting ProvMcp) sample_approved_called"
    unfolding sample_approved_called_def by (rule history.more[OF _ run_step.marks[OF tx_db_Ok[OF ok(3)]]])
  then show ?thesis using ok(4) by simp
qed

theorem no_call_without_approval_witness: "rn_release_kind (d_run sample_approved_called) = Some ReleaseApproved"
  by (rule no_call_without_approval[OF sample_approval_history]) (simp_all add: sample_waiting_def)

subsection \<open>Deliveries\<close>

definition recorded :: "engine_env \<Rightarrow> nat \<Rightarrow> run_db \<Rightarrow> run_db \<Rightarrow> bool" where
  "recorded env n db db' \<longleftrightarrow> (ledger env db \<longrightarrow> ledger env db' \<and> provider_calls db' = provider_calls db + n)"

lemma recorded_keeps: "keeps env a b \<Longrightarrow> recorded env n b c \<Longrightarrow> recorded env n a c"
  by (simp add: recorded_def keeps_def)

lemma keeps_recorded: "recorded env n a b \<Longrightarrow> keeps env b c \<Longrightarrow> recorded env n a c"
  by (simp add: recorded_def keeps_def)

lemma recorded_refl: "recorded env 0 db db"
  by (simp add: recorded_def)

lemma record_result_keeps:
  assumes "recordProviderResult env result tick fresh db aid = (db', err)" shows "keeps env db db'"
  using assms unfolding recordProviderResult_def
  by (auto simp: kp.R_refl split: option.splits sum.splits prod.splits
      intro: tx_inD[OF keeps_settleIndeterminate] tx_inD[OF keeps_persist]
        kp.R_trans[OF tx_inD[OF keeps_persist] tx_inD[OF keeps_finalize]])

lemma run_claimed_recorded:
  assumes "runClaimed env execute native tick fresh db aid = (db', n, err)" shows "n \<le> 1 \<and> recorded env n db db'"
proof (cases "provider_of (d_run db) = ProvNative")
  case True
  show ?thesis
  proof (cases "executeNativeAtomic env native (en_final_authority env (d_run db)) db (tick 2) aid (fresh 1)")
    case (Inr r)
    obtain d made where ok: "executeNativeAtomic env native (en_final_authority env (d_run db)) db (tick 2) aid (fresh 1) = Ok (d, made)" using Inr by (cases r) simp
    then have "db' = d" "n = of_bool made" using assms True by (simp_all add: runClaimed_def)
    then show ?thesis using native_starts[OF ok] by (cases made) (simp_all add: recorded_def starts_def)
  qed (use assms True in \<open>simp add: runClaimed_def recorded_refl\<close>)
next
  case other: False
  show ?thesis
  proof (cases "readInput db")
    case None
    show ?thesis
    proof (cases "settleBeforeCallFailure db (tick 2) aid (fresh 1)")
      case (Inr r)
      obtain d u where ok: "settleBeforeCallFailure db (tick 2) aid (fresh 1) = Ok (d, u)" using Inr by (cases r) simp
      then have "db' = d" "n = 0" using assms other None by (simp_all add: runClaimed_def)
      then show ?thesis using recorded_keeps[OF tx_inD[OF keeps_settleBefore ok] recorded_refl] by simp
    qed (use assms other None in \<open>simp add: runClaimed_def recorded_refl\<close>)
  next
    case (Some input)
    show ?thesis
    proof (cases "markProviderCallStarted env db (tick 2) aid (fresh 1)")
      case (Inr r)
      obtain d started where ok: "markProviderCallStarted env db (tick 2) aid (fresh 1) = Ok (d, started)" using Inr by (cases r) simp
      show ?thesis
      proof (cases started)
        case False
        then have "db' = d" "n = 0" using assms other Some ok by (simp_all add: runClaimed_def)
        then show ?thesis using recorded_keeps[OF _ recorded_refl] mark_starts[OF ok] False by simp
      next
        case True
        obtain d' e where rec: "recordProviderResult env (execute (rn_ident (d_run d)) input) tick fresh d aid = (d', e)"
          by fastforce
        then have "db' = d'" "n = 1" using assms other Some ok True by (simp_all add: runClaimed_def)
        moreover have "recorded env 1 db d" using mark_starts[OF ok] True by (simp add: recorded_def starts_def)
        ultimately show ?thesis using keeps_recorded record_result_keeps[OF rec] by simp
      qed
    qed (use assms other Some in \<open>simp add: runClaimed_def recorded_refl\<close>)
  qed
qed

text \<open>C3. One delivery of an attempt job calls the provider at most once, and a call it made is recorded in the ledger, whichever transaction of the delivery throws afterwards.\<close>

theorem every_delivered_call_is_on_record:
  assumes "runInternal env execute native tick fresh db aid w = (db', n, err)" "ledger env db"
  shows "n \<le> 1 \<and> provider_calls db' = provider_calls db + n \<and> ledger env db'"
proof -
  have "n \<le> 1 \<and> recorded env n db db'"
  proof (cases "provider_of (d_run db) = ProvAppRuntime \<or> isl (recoverRun env db (tick 0) (Some aid) (fresh 0))")
    case True
    then show ?thesis using assms(1) by (auto simp: runInternal_def recorded_refl isl_def split: if_splits)
  next
    case False
    then obtain db1 c1 where r1: "recoverRun env db (tick 0) (Some aid) (fresh 0) = Ok (db1, c1)" and p: "provider_of (d_run db) \<noteq> ProvAppRuntime"
      by (cases "recoverRun env db (tick 0) (Some aid) (fresh 0)") auto
    have k1: "keeps env db db1" by (rule tx_inD[OF keeps_recoverRun r1])
    show ?thesis
    proof (cases "claim env db1 (tick 1) aid w (fresh 1)")
      case (Inl e)
      then show ?thesis using assms(1) r1 p recorded_keeps[OF k1 recorded_refl] by (simp add: runInternal_def)
    next
      case (Inr r)
      obtain db2 c where r2: "claim env db1 (tick 1) aid w (fresh 1) = Ok (db2, c)" using Inr by (cases r) simp
      have k2: "keeps env db db2" using kp.R_trans[OF k1 tx_inD[OF keeps_claim r2]] .
      show ?thesis
      proof (cases c)
        case None
        then show ?thesis using assms(1) r1 r2 p recorded_keeps[OF k2 recorded_refl] by (simp add: runInternal_def)
      next
        case (Some a)
        then have "runClaimed env execute native tick fresh db2 aid = (db', n, err)"
          using assms(1) r1 r2 p by (simp add: runInternal_def)
        from run_claimed_recorded[OF this] show ?thesis using recorded_keeps[OF k2] by blast
      qed
    qed
  qed
  then show ?thesis using assms(2) by (simp add: recorded_def)
qed

definition sample_execute :: "run_ident \<Rightarrow> jsv \<Rightarrow> provider_result" where
  "sample_execute i v = Returned True v"

definition sample_native :: "jsv option \<Rightarrow> tx_error + jsv" where
  "sample_native v = Ok JNull"

definition sample_fresh :: "nat \<Rightarrow> string" where
  "sample_fresh n = ''f'' @ nat_to_string n"

definition sample_delivery :: "provider_kind \<Rightarrow> run_db \<times> nat \<times> tx_error option" where
  "sample_delivery pk = runInternal sample_env sample_execute sample_native (\<lambda>n. 2 + int n) sample_fresh
     (sample_scheduled pk UnsafeOrUnknown) ''a1'' ''w1''"

theorem every_delivered_call_is_on_record_witness:
  "provider_calls (fst (sample_delivery ProvMcp)) = 1 \<and> rn_state (d_run (fst (sample_delivery ProvMcp))) = Succeeded"
proof -
  have "ledger sample_env (sample_scheduled ProvMcp UnsafeOrUnknown)"
    using run_step_calls[OF run_step.schedule[OF tx_db_Ok[OF sample_tx(1)]] ledger_fresh] by (simp add: sample_scheduled_def)
  moreover have "fst (snd (sample_delivery ProvMcp)) = 1" "rn_state (d_run (fst (sample_delivery ProvMcp))) = Succeeded"
    "provider_calls (sample_scheduled ProvMcp UnsafeOrUnknown) = 0" by code_simp+
  moreover have "runInternal sample_env sample_execute sample_native (\<lambda>n. 2 + int n) sample_fresh
     (sample_scheduled ProvMcp UnsafeOrUnknown) ''a1'' ''w1'' = (fst (sample_delivery ProvMcp), fst (snd (sample_delivery ProvMcp)), snd (snd (sample_delivery ProvMcp)))"
    by (simp add: sample_delivery_def)
  ultimately show ?thesis using every_delivered_call_is_on_record by fastforce
qed

end
