(* ===== verification/RunContracts.thy ===== *)
theory RunContracts
  imports RunProperties
begin

text \<open>
  Contracts of single operations: what the native transaction commits, what crash recovery decides,
  what the retention purge leaves, and the two places where a Run gets stuck.
\<close>

subsection \<open>Native execution\<close>

lemma update_attempt_payloads: "update_attempt db aid p f = Ok (db1, r) \<Longrightarrow> d_payloads db1 = d_payloads db"
  by (erule update_attempt_cases) simp_all

lemma transition_payloads: "transition db run st ac out err ty now = Ok (db1, r) \<Longrightarrow> d_payloads db1 = d_payloads db"
  by (erule transition_cases) simp_all

lemma write_receipt_rest:
  assumes "write_receipt db k kind att st ac f now = Ok (db', u)"
  shows "d_payloads db' = d_payloads db" "d_jobs db' = d_jobs db"
  using assms by (auto simp: write_receipt_def Let_def split: if_splits option.splits)

lemma find_append: "List.find P (xs @ ys) = (case List.find P xs of None \<Rightarrow> List.find P ys | Some x \<Rightarrow> Some x)"
  by (induction xs) simp_all

lemma set_attempt_state:
  assumes "b \<in> set (set_attempt atts aid (\<lambda>b. b\<lparr>at_state := s, at_error := e, at_updated := t\<rparr>))" "at_id b = aid"
  shows "at_state b = s"
proof -
  obtain c where "b = (if at_id c = aid then c\<lparr>at_state := s, at_error := e, at_updated := t\<rparr> else c)"
    using assms(1) unfolding set_attempt_def set_map by blast
  then show ?thesis using assms(2) by (cases "at_id c = aid") simp_all
qed

lemma update_attempt_state:
  assumes "update_attempt db aid (\<lambda>_. True) (\<lambda>b. b\<lparr>at_state := s, at_error := e, at_updated := t\<rparr>) = Ok (db', r)"
  shows "\<forall>b \<in> set (d_attempts db'). at_id b = aid \<longrightarrow> at_state b = s"
  using assms
proof (cases rule: update_attempt_cases)
  case none
  have "\<forall>b \<in> set (d_attempts db). at_id b \<noteq> aid"
    using assms none(1) by (auto simp: update_attempt_def find_None_iff split: option.splits)
  then show ?thesis using none(2) by blast
next
  case (hit a)
  then show ?thesis using set_attempt_state by simp
qed

lemma finalize_result:
  assumes "finalizeKnownInTransaction db (d_run db) a now = Ok (db', u)" "at_outcome a = Some out"
  shows "rn_state (d_run db') = (if so_success out then Succeeded else Failed)"
    "\<forall>b \<in> set (d_attempts db'). at_id b = at_id a \<longrightarrow> at_state b = (if so_success out then AttSucceeded else AttFailed)"
    "d_payloads db' = d_payloads db"
proof -
  let ?s = "if so_success out then AttSucceeded else AttFailed"
  obtain db1 r db2 tr where
      u: "update_attempt db (at_id a) (\<lambda>_. True) (\<lambda>b. b\<lparr>at_state := ?s, at_error := so_error_code out, at_updated := now\<rparr>) = Ok (db1, r)"
    and t: "transition (appendEvent db1 AttemptTerminal None (PAttemptState (at_id a) ?s) now) (d_run db)
        (if so_success out then Succeeded else Failed) None (Some out) (so_error_code out) RunTransitioned now = Ok (db2, tr)"
    and w: "writeAttemptReceipt db2 tr (at_id a) ?s now (so_error_code out) False False = Ok (db', u)"
    using assms by (auto simp: finalizeKnownInTransaction_def Let_def res_bind_Ok_iff split: if_splits)
  have run: "d_run db = d_run (appendEvent db1 AttemptTerminal None (PAttemptState (at_id a) ?s) now)"
    using update_attempt_run[OF u] by simp
  note tk = transition_keeps[OF t[unfolded run]]
  note wk = write_receipt_core[OF w[unfolded writeAttemptReceipt_def]]
  show "rn_state (d_run db') = (if so_success out then Succeeded else Failed)" using tk wk by simp
  show "\<forall>b \<in> set (d_attempts db'). at_id b = at_id a \<longrightarrow> at_state b = ?s"
    using update_attempt_state[OF u] tk wk by simp
  show "d_payloads db' = d_payloads db"
    using update_attempt_payloads[OF u] transition_payloads[OF t] write_receipt_rest(1)[OF w[unfolded writeAttemptReceipt_def]]
    by simp
qed

text \<open>C6. The native transaction is all or nothing: when it reports an effect, the Run and the attempt have succeeded, the calendar operation returned the value that is now retained for the attempt, and the authority was still current; otherwise it committed nothing.\<close>

theorem native_effect_commits_with_its_result:
  assumes "executeNativeAtomic env native cur db now aid tok = Ok (db', made)"
  shows "if made then rn_state (d_run db') = Succeeded \<and> cur
      \<and> (\<forall>b \<in> set (d_attempts db'). at_id b = aid \<longrightarrow> at_state b = AttSucceeded)
      \<and> (\<exists>out. native (readInput db) = Ok out \<and> readOutput db' aid = Some (result_envelope True out))
    else db' = db"
proof (cases made)
  case False
  then show ?thesis using native_starts[OF assms] by simp
next
  case True
  let ?out = "Some (outcome True True Retained None)"
  obtain a db1 u db2 run2 out db3 v db4 w where
      a: "List.find (\<lambda>a. at_id a = aid) (d_attempts db) = Some a"
    and u: "update_attempt db aid (\<lambda>b. at_token b = Some tok)
        (\<lambda>b. b\<lparr>at_state := AttCallStarted, at_started := Some now, at_updated := now\<rparr>) = Ok (db1, u)"
    and t: "transition db1 (d_run db) Running None None None RunTransitioned now = Ok (db2, run2)"
    and n: "native (readInput db) = Ok out"
    and i: "insertOutput (appendEvent db2 ProviderCallStarted None (PAttempt aid) now) aid
                (result_envelope True out) (ri_result_expires_at (rn_ident run2)) = Ok (db3, v)"
    and fin: "update_attempt db3 aid (\<lambda>_. True)
        (\<lambda>b. b\<lparr>at_finished := Some now, at_outcome := ?out, at_updated := now\<rparr>) = Ok (db4, w)"
    and settle: "finalizeKnownInTransaction db4 run2 (a\<lparr>at_started := Some now, at_finished := Some now, at_outcome := ?out\<rparr>) now
                = Ok (db', ())" and cur: "cur"
    using assms True
    by (auto simp: executeNativeAtomic_def Let_def res_bind_Ok_iff split: if_splits option.splits)
  have run1: "d_run db1 = d_run db" using update_attempt_run[OF u] by simp
  have run2: "run2 = d_run db4"
    using transition_keeps(3)[OF t[folded run1]] insertOutput_core(1)[OF i] update_attempt_run[OF fin] by simp
  note f = finalize_result[OF settle[unfolded run2], of "outcome True True Retained None"]
  have "d_payloads db' = d_payloads db3" using f update_attempt_payloads[OF fin] by simp
  moreover have "find_output db3 aid = Some \<lparr>py_kind = OutputPayload aid, py_value = result_envelope True out,
      py_expires_at = ri_result_expires_at (rn_ident run2)\<rparr>"
    using i by (auto simp: insertOutput_def find_output_def find_append split: if_splits option.splits)
  ultimately have "readOutput db' aid = Some (result_envelope True out)"
    by (simp add: readOutput_def find_output_def)
  moreover have "at_id a = aid" using find_Some_set[OF a] by simp
  ultimately show ?thesis using f True cur n by (simp add: outcome_def)
qed

definition sample_native_done :: run_db where
  "sample_native_done = tx_db (executeNativeAtomic sample_env sample_native True (sample_claimed ProvNative UnsafeOrUnknown) 3 ''a1'' ''t1'')"

theorem native_effect_commits_with_its_result_witness:
  "rn_state (d_run sample_native_done) = Succeeded \<and> readOutput sample_native_done ''a1'' = Some (result_envelope True JNull)"
proof -
  let ?m = "executeNativeAtomic sample_env sample_native True (sample_claimed ProvNative UnsafeOrUnknown) 3 ''a1'' ''t1''"
  have ok: "\<not> isl ?m" "snd (projr ?m)" by code_simp+
  have "?m = Ok (sample_native_done, True)" using tx_db_Ok[OF ok(1)] ok(2) by (simp add: sample_native_done_def)
  from native_effect_commits_with_its_result[OF this] show ?thesis by (auto simp: sample_native_def)
qed

subsection \<open>Crash recovery\<close>

lemma stale_is_found:
  assumes "ledger env db" "a \<in> set (d_attempts db)" "stale_attempt now a" "asked \<in> {None, Some [], Some (at_id a)}"
  shows "List.find (\<lambda>b. (asked = None \<or> asked = Some [] \<or> asked = Some (at_id b)) \<and> stale_attempt now b) (d_attempts db) = Some a"
proof (rule find_unique)
  fix b assume "b \<in> set (d_attempts db)" "(asked = None \<or> asked = Some [] \<or> asked = Some (at_id b)) \<and> stale_attempt now b"
  then have "b = last (d_attempts db)" "a = last (d_attempts db)"
    using ledger_live_last[OF assms(1)] stale_live assms(2,3) by blast+
  then show "b = a" by simp
qed (use assms in auto)

text \<open>What the recovery of a started call without a known result leaves when it commits.\<close>

lemma recovery_outcome:
  assumes ok: "recoverUnknownInTransaction env db (d_run db) a now nid = Ok (db', ())" and l: "ledger env db"
    and a: "a \<in> set (d_attempts db)" "stale_attempt now a" "at_state a = AttCallStarted" "at_finished a = None"
    and retry: "retry \<longleftrightarrow> may_retry (d_run db) a now"
  shows "if retry then rn_state (d_run db') = rn_state (d_run db) \<and> length (d_attempts db') = Suc (length (d_attempts db))
        \<and> at_state (last (d_attempts db')) = AttPending \<and> at_id (last (d_attempts db')) = nid \<and> nid \<in> set (d_jobs db')
      else rn_state (d_run db') = UnknownOutcome \<and> length (d_attempts db') = length (d_attempts db)
        \<and> rn_state (d_run db) \<in> {Running, WaitingExternal, UnknownOutcome}"
proof -
  let ?f = "\<lambda>b. b\<lparr>at_state := AttUnknown, at_error := Some APP_RUN_UNKNOWN_OUTCOME, at_updated := now\<rparr>"
  let ?ev = "\<lambda>x. appendEvent x AttemptTerminal None (PAttemptState (at_id a) AttUnknown) now"
  have may: "may_retry (d_run db) a now = retry" by (simp add: retry)
  define cont where "cont db2 = (if retry then
        res_bind (createAttempt env (?ev db2) (d_run db) now nid) (\<lambda>(db4, _).
          writeAttemptReceipt db4 (d_run db) (at_id a) AttUnknown now (Some APP_RUN_UNKNOWN_OUTCOME) True False)
      else res_bind (transition (?ev db2) (d_run db) UnknownOutcome None
            (Some (failure_outcome True APP_RUN_UNKNOWN_OUTCOME)) (Some APP_RUN_UNKNOWN_OUTCOME) RunTransitioned now)
          (\<lambda>(db4, terminalRun). writeAttemptReceipt db4 terminalRun (at_id a) AttUnknown now (Some APP_RUN_UNKNOWN_OUTCOME) False False))" for db2
  have nn: "native_unstarted (d_run db) a now = False" by (simp add: native_unstarted_def a(3))
  have "recoverUnknownInTransaction env db (d_run db) a now nid =
      res_bind (update_attempt db (at_id a) (\<lambda>_. True) ?f) (\<lambda>(db2, _). cont db2)"
    by (simp add: recoverUnknownInTransaction_def may nn Let_def cont_def a(3) cong: if_cong)
  then have "res_bind (update_attempt db (at_id a) (\<lambda>_. True) ?f) (\<lambda>(db2, _). cont db2) = Ok (db', ())" using ok by simp
  then obtain db2 r where u: "update_attempt db (at_id a) (\<lambda>_. True) ?f = Ok (db2, r)" and rest: "cont db2 = Ok (db', ())"
    by (auto simp: res_bind_Ok_iff)
  have run2: "d_run (?ev db2) = d_run db" using update_attempt_run[OF u] by simp
  have len: "length (d_attempts db2) = length (d_attempts db)"
    using u by (cases rule: update_attempt_cases) (simp_all add: set_attempt_def)
  show ?thesis
  proof (cases retry)
    case False
    then obtain db4 tr where t: "transition (?ev db2) (d_run db) UnknownOutcome None
            (Some (failure_outcome True APP_RUN_UNKNOWN_OUTCOME)) (Some APP_RUN_UNKNOWN_OUTCOME) RunTransitioned now = Ok (db4, tr)"
      and w: "writeAttemptReceipt db4 tr (at_id a) AttUnknown now (Some APP_RUN_UNKNOWN_OUTCOME) False False = Ok (db', ())"
      using rest unfolding cont_def by (auto simp: res_bind_Ok_iff)
    have "rn_state (d_run db) \<in> {Running, WaitingExternal, UnknownOutcome}"
    proof (cases "rn_state (d_run db) = UnknownOutcome")
      case other: False
      then have "run_guard (d_run (?ev db2)) tr = None" "rn_state tr = UnknownOutcome"
        using t by (auto simp: transition_def res_bind_Ok_iff update_run_Ok transition_row_def)
      then show ?thesis using other run2 by (simp add: run_guard_None)
    qed simp
    then show ?thesis
      using False transition_keeps[OF t[folded run2]] write_receipt_core[OF w[unfolded writeAttemptReceipt_def]] len by simp
  next
    case True
    then obtain db4 x where c: "createAttempt env (?ev db2) (d_run db) now nid = Ok (db4, x)"
      and w: "writeAttemptReceipt db4 (d_run db) (at_id a) AttUnknown now (Some APP_RUN_UNKNOWN_OUTCOME) True False = Ok (db', ())"
      using rest unfolding cont_def by (auto simp: res_bind_Ok_iff)
    have number: "(case last_attempt (?ev db2) of None \<Rightarrow> 0 | Some b \<Rightarrow> at_number b) + 1 \<le> ri_attempt_limit (rn_ident (d_run db))"
    proof -
      have "d_attempts db2 = set_attempt (d_attempts db) (at_id a) ?f"
        using u
      proof (cases rule: update_attempt_cases)
        case none
        then show ?thesis using u a(1) by (auto simp: update_attempt_def find_None_iff split: option.splits)
      qed simp
      moreover have "a = last (d_attempts db)" by (rule ledger_live_last[OF l a(1) stale_live[OF a(2)]])
      ultimately have "at_number (last (d_attempts db2)) = at_number a" "d_attempts db2 \<noteq> []"
        using a(1) by (cases "d_attempts db = []"; simp add: set_attempt_def last_map)+
      then show ?thesis using True retry by (simp add: last_attempt_def may_retry_def)
    qed
    have "d_run db4 = d_run db \<and> length (d_attempts db4) = Suc (length (d_attempts db2))
        \<and> at_state (last (d_attempts db4)) = AttPending \<and> at_id (last (d_attempts db4)) = nid \<and> nid \<in> set (d_jobs db4)"
      using c number run2
      by (auto simp: createAttempt_def Let_def res_bind_Ok_iff insert_attempt_def enqueue_def split: if_splits)
    then show ?thesis
      using True write_receipt_core[OF w[unfolded writeAttemptReceipt_def]] write_receipt_rest[OF w[unfolded writeAttemptReceipt_def]] len
      by simp
  qed
qed

text \<open>It commits on a Run that is being worked on: nothing it writes is refused.\<close>

lemma recovery_commits:
  assumes l: "ledger env db" and a: "a \<in> set (d_attempts db)" "stale_attempt now a" "at_state a = AttCallStarted"
      "at_finished a = None" "at_error a = None" "at_claim a \<noteq> None"
    and run: "rn_state (d_run db) \<in> {Running, WaitingExternal}" "rn_released_at (d_run db) \<noteq> None"
    and new: "\<forall>x \<in> set (d_receipts db). rc_key x \<noteq> AttemptKey (at_id a)" "nid \<notin> at_id ` set (d_attempts db)"
  shows "\<exists>db'. recoverUnknownInTransaction env db (d_run db) a now nid = Ok (db', ())"
proof -
  let ?f = "\<lambda>b. b\<lparr>at_state := AttUnknown, at_error := Some APP_RUN_UNKNOWN_OUTCOME, at_updated := now\<rparr>"
  let ?db2 = "db\<lparr>d_attempts := set_attempt (d_attempts db) (at_id a) ?f\<rparr>"
  let ?db3 = "appendEvent ?db2 AttemptTerminal None (PAttemptState (at_id a) AttUnknown) now"
  have last: "a = last (d_attempts db)" by (rule ledger_live_last[OF l a(1) stale_live[OF a(2)]])
  have nums: "map at_number (d_attempts db) = [1..<Suc (length (d_attempts db))]" and d: "distinct (map at_id (d_attempts db))"
    using l by (simp_all add: ledger_inv_def)
  have nn: "\<not> native_unstarted (d_run db) a now" by (simp add: native_unstarted_def a(3))
  have lease: "at_lease a \<noteq> None" using a(2) by (auto simp: stale_attempt_def lease_lapsed_def split: option.splits)
  have "attempt_guard (d_run db) a (?f a) = None"
    using a lease unfolding attempt_guard_None by (auto simp: frozen_def)
  moreover have "List.find (\<lambda>b. at_id b = at_id a) (d_attempts db) = Some a"
    by (rule find_unique) (use a(1) distinct_map_inj[OF d] in auto)
  ultimately have u: "update_attempt db (at_id a) (\<lambda>_. True) ?f = Ok (?db2, Some (?f a))"
    by (simp add: update_attempt_def set_attempt_def)
  have none: "List.find (\<lambda>x. rc_key x = AttemptKey (at_id a)) (d_receipts db) = None"
    using new(1) by (simp add: find_None_iff)
  have receipt: "\<exists>db'. writeAttemptReceipt x tr (at_id a) AttUnknown now e b c = Ok (db', ())" if "d_receipts x = d_receipts db" for x tr e b c
    using none that by (simp add: writeAttemptReceipt_def write_receipt_def Let_def)
  show ?thesis
  proof (cases "may_retry (d_run db) a now")
    case True
    have created: "\<exists>x r. createAttempt env ?db3 (d_run db) now nid = Ok (x, r) \<and> d_receipts x = d_receipts db"
    proof (cases "(case last_attempt ?db3 of None \<Rightarrow> 0 | Some b \<Rightarrow> at_number b) + 1 > ri_attempt_limit (rn_ident (d_run db))")
      case True
      then show ?thesis by (simp add: createAttempt_def Let_def)
    next
      case False
      let ?as = "set_attempt (d_attempts db) (at_id a) ?f"
      have "map at_id ?as = map at_id (d_attempts db)" by (rule set_attempt_at_id) simp
      then have ids: "at_id ` set ?as = at_id ` set (d_attempts db)" by (metis list.set_map)
      have numbers: "at_number ` set ?as = {1..<Suc (length (d_attempts db))}"
      proof -
        have "map at_number ?as = [1..<Suc (length (d_attempts db))]" unfolding nums[symmetric] by (simp add: set_attempt_def)
        then show ?thesis by (metis list.set_map set_upt)
      qed
      have ne: "d_attempts db \<noteq> []" using a(1) by auto
      then have "at_number (last (d_attempts db)) = length (d_attempts db)"
        using nums by (metis One_nat_def add_diff_cancel_left' last_map last_upt length_greater_0_conv less_Suc_eq_le plus_1_eq_Suc Suc_leI diff_Suc_1)
      then have "at_number (last ?as) = length (d_attempts db)" using ne by (simp add: set_attempt_def last_map)
      moreover have "?as \<noteq> []" using ne by (simp add: set_attempt_def)
      ultimately show ?thesis
        using False ids numbers new(2) run(2)
        by (simp add: createAttempt_def Let_def insert_attempt_def last_attempt_def enqueue_def)
    qed
    then obtain x r where c: "createAttempt env ?db3 (d_run db) now nid = Ok (x, r)" "d_receipts x = d_receipts db" by blast
    obtain db' where "writeAttemptReceipt x (d_run db) (at_id a) AttUnknown now (Some APP_RUN_UNKNOWN_OUTCOME) True False = Ok (db', ())"
      using receipt[OF c(2)] by blast
    then show ?thesis using c(1) u nn a(3) True by (simp add: recoverUnknownInTransaction_def Let_def cong: if_cong)
  next
    case False
    let ?out = "Some (failure_outcome True APP_RUN_UNKNOWN_OUTCOME)"
    have g: "run_guard (d_run ?db3) (transition_row (d_run ?db3) (d_run db) UnknownOutcome ?out now) = None"
      using run unfolding run_guard_None by (auto simp: transition_row_def frozen_def keep_or_def split: option.split)
    obtain x tr where t: "transition ?db3 (d_run db) UnknownOutcome None ?out (Some APP_RUN_UNKNOWN_OUTCOME) RunTransitioned now = Ok (x, tr)"
        "d_receipts x = d_receipts db"
      using run(1) g by (auto simp: transition_def update_run_def)
    obtain db' where "writeAttemptReceipt x tr (at_id a) AttUnknown now (Some APP_RUN_UNKNOWN_OUTCOME) False False = Ok (db', ())"
      using receipt[OF t(2)] by blast
    then show ?thesis using t(1) u nn a(3) False by (simp add: recoverUnknownInTransaction_def Let_def cong: if_cong)
  qed
qed

text \<open>C5. Crash recovery of a started call without a known result, by the sweep or by a delivery of the attempt, follows
  the retry class.  When it commits: if the operation is safe to retry, or idempotent with a bound key, and
  attempts and time are left, the Run keeps its state and gets a new pending attempt whose job is queued;
  otherwise the Run ends in unknown_outcome and no attempt is added.  It commits when the Run is running or waiting,
  the attempt has a claim and no error or receipt yet and the identifier of the next attempt is new.  When it
  may not retry and the Run is in any state but these two and unknown_outcome (an expired Run whose call had
  started, for example), it is refused.\<close>

theorem crash_recovery_follows_the_retry_class:
  assumes l: "ledger env db" and a: "a \<in> set (d_attempts db)" "stale_attempt now a" "at_state a = AttCallStarted" "at_finished a = None"
    and asked: "asked \<in> {None, Some [], Some (at_id a)}"
    and retry: "retry \<longleftrightarrow> (retry_of (d_run db) = RetrySafe \<or> retry_of (d_run db) = IdempotentWithKey \<and> at_key a \<noteq> None)
      \<and> provider_of (d_run db) \<noteq> ProvAppRuntime \<and> at_number a < ri_attempt_limit (rn_ident (d_run db))
      \<and> now < ri_input_expires_at (rn_ident (d_run db))"
  shows "(recoverRun env db now asked nid = Ok (db', n) \<longrightarrow>
      (if retry then rn_state (d_run db') = rn_state (d_run db) \<and> length (d_attempts db') = Suc (length (d_attempts db))
          \<and> at_state (last (d_attempts db')) = AttPending \<and> at_id (last (d_attempts db')) = nid \<and> nid \<in> set (d_jobs db')
        else rn_state (d_run db') = UnknownOutcome \<and> length (d_attempts db') = length (d_attempts db)))
    \<and> (rn_state (d_run db) \<in> {Running, WaitingExternal} \<and> rn_released_at (d_run db) \<noteq> None \<and> at_error a = None \<and> at_claim a \<noteq> None
        \<and> (\<forall>x \<in> set (d_receipts db). rc_key x \<noteq> AttemptKey (at_id a)) \<and> nid \<notin> at_id ` set (d_attempts db)
        \<longrightarrow> (\<exists>db'. recoverRun env db now asked nid = Ok (db', 1)))
    \<and> (\<not> retry \<and> rn_state (d_run db) \<notin> {Running, WaitingExternal, UnknownOutcome} \<longrightarrow> isl (recoverRun env db now asked nid))"
proof -
  have found: "recoverRun env db now asked nid
      = res_bind (recoverUnknownInTransaction env db (d_run db) a now nid) (\<lambda>(db1, _). Ok (db1, 1))"
    using a stale_is_found[OF l a(1,2) asked] by (simp add: recoverRun_def)
  have may: "retry \<longleftrightarrow> may_retry (d_run db) a now"
    using a by (auto simp: may_retry_def native_unstarted_def recovery_decision_of_def classifyAppRunCrashRecovery_def retry)
  note outcome = recovery_outcome[OF _ l a may]
  have "isl (recoverRun env db now asked nid)" if "\<not> retry" "rn_state (d_run db) \<notin> {Running, WaitingExternal, UnknownOutcome}"
    using outcome that by (cases "recoverUnknownInTransaction env db (d_run db) a now nid") (auto simp: found)
  moreover have "\<exists>db'. recoverRun env db now asked nid = Ok (db', 1)"
    if "rn_state (d_run db) \<in> {Running, WaitingExternal}" "rn_released_at (d_run db) \<noteq> None" "at_error a = None" "at_claim a \<noteq> None"
      "\<forall>x \<in> set (d_receipts db). rc_key x \<noteq> AttemptKey (at_id a)" "nid \<notin> at_id ` set (d_attempts db)"
    using recovery_commits[OF l a that(3,4,1,2,5,6)] found by auto
  moreover have "if retry then rn_state (d_run db') = rn_state (d_run db) \<and> length (d_attempts db') = Suc (length (d_attempts db))
          \<and> at_state (last (d_attempts db')) = AttPending \<and> at_id (last (d_attempts db')) = nid \<and> nid \<in> set (d_jobs db')
        else rn_state (d_run db') = UnknownOutcome \<and> length (d_attempts db') = length (d_attempts db)"
    if "recoverRun env db now asked nid = Ok (db', n)"
    using that outcome[where db' = db'] unfolding found by (auto simp: res_bind_Ok_iff split: if_splits)
  ultimately show ?thesis by blast
qed

definition sample_recovered :: "retry_class \<Rightarrow> run_db" where
  "sample_recovered rc = tx_db (recoverRun sample_env (sample_called rc) 70000 None ''a2'')"

lemma sample_called_ledger: "ledger sample_env (sample_called rc)"
  using history_calls[OF sample_history ledger_fresh] by simp

theorem crash_recovery_follows_the_retry_class_witness:
  "rn_state (d_run (sample_recovered UnsafeOrUnknown)) = UnknownOutcome
   \<and> rn_state (d_run (sample_recovered RetrySafe)) = Running \<and> ''a2'' \<in> set (d_jobs (sample_recovered RetrySafe))"
proof -
  let ?a = "\<lambda>rc. hd (d_attempts (sample_called rc))"
  have a: "?a rc \<in> set (d_attempts (sample_called rc))" "stale_attempt 70000 (?a rc)"
    "at_state (?a rc) = AttCallStarted" "at_finished (?a rc) = None" "rn_state (d_run (sample_called rc)) = Running"
    "at_number (?a rc) = 1" "rn_ident (d_run (sample_called rc)) = sample_ident ProvMcp rc"
    "rn_released_at (d_run (sample_called rc)) \<noteq> None" "at_error (?a rc) = None" "at_claim (?a rc) \<noteq> None"
    "\<forall>x \<in> set (d_receipts (sample_called rc)). rc_key x \<noteq> AttemptKey (at_id (?a rc))"
    "''a2'' \<notin> at_id ` set (d_attempts (sample_called rc))" for rc
    by (induct rc; code_simp)+
  note c = crash_recovery_follows_the_retry_class[OF sample_called_ledger a(1-4), of None _ _ "''a2''" "sample_recovered _" 1, OF _ refl]
  have "\<exists>db'. recoverRun sample_env (sample_called rc) 70000 None ''a2'' = Ok (db', 1)" for rc using c a(5,8-12) by auto
  then have ok: "recoverRun sample_env (sample_called rc) 70000 None ''a2'' = Ok (sample_recovered rc, 1)" for rc
    unfolding sample_recovered_def tx_db_def by (metis fst_conv sum.sel(2))
  have safe: "retry_of (d_run (sample_called rc)) = rc" "provider_of (d_run (sample_called rc)) = ProvMcp"
    "ri_input_expires_at (sample_ident ProvMcp rc) = 100000" for rc
    by (simp_all add: retry_of_def provider_of_def a(7) sample_ident_def)
  show ?thesis
    using c[of UnsafeOrUnknown] c[of RetrySafe] ok by (simp add: safe a)
qed

end
