(* ===== verification/RunLiveness.thy ===== *)
theory RunLiveness
  imports RunContracts
begin

text \<open>
  Where a Run makes progress and where it does not: states that no transaction of the engine leaves,
  recoveries that always throw, and calls made for a Run that is already over.
\<close>

subsection \<open>Running with an expired input\<close>

text \<open>A running MCP Run whose input has expired and that has no claimed or started attempt, at time \<open>t\<close> or later.\<close>

definition strandable :: "int \<Rightarrow> run_db \<Rightarrow> bool" where
  "strandable t db \<longleftrightarrow> rn_state (d_run db) = Running \<and> provider_of (d_run db) = ProvMcp
     \<and> ri_input_expires_at (rn_ident (d_run db)) \<le> t
     \<and> (\<forall>a \<in> set (d_attempts db). at_state a \<notin> {AttClaimed, AttCallStarted})
     \<and> (\<forall>a \<in> set (d_attempts db). at_state a = AttPending \<longrightarrow> at_claim a = None)"

lemma strandable_cong:
  "rn_state (d_run db') = rn_state (d_run db) \<Longrightarrow> rn_ident (d_run db') = rn_ident (d_run db)
     \<Longrightarrow> d_attempts db' = d_attempts db \<Longrightarrow> strandable t db' = strandable t db"
  by (simp add: strandable_def provider_of_def)

lemma strandable_find:
  assumes "strandable t db" "List.find P (d_attempts db) = Some a" shows "at_state a \<notin> {AttClaimed, AttCallStarted}"
  using assms find_Some_set[OF assms(2)] by (auto simp: strandable_def)

lemma running_no_expiry:
  assumes "rn_state (d_run db) = Running" "transition db (d_run db) Expired ac out err ty now = Ok (db', r)" shows False
  using assms(2)
proof (cases rule: transition_cases)
  case (moved p)
  show False using run_guard_edge[OF moved(3)] assms(1) moved(2)
    by (simp add: isAppRunStateTransitionAllowed_def APP_RUN_STATE_TRANSITIONS_def)
qed (use assms(1) in simp)

lemma strandable_schedule:
  assumes "strandable t db" "t \<le> now" "scheduleInTransaction env db1 run now nid = Ok (db', r)"
    "rn_ident run = rn_ident (d_run db)"
  shows "db' = db1"
  using assms by (auto simp: scheduleInTransaction_def strandable_def split: if_splits)

lemma strandable_approve:
  assumes s: "strandable t db" "t \<le> now" and ok: "approve_resolve env web db act u now nid = Ok (db', r)"
  shows "strandable t db'"
proof (cases "db' = db")
  case False
  have run: "rn_state (d_run db) = Running" using s by (simp add: strandable_def)
  obtain db1 v w where r: "writeApprovalReceipt db (aa_id act) (d_run db)
            (case aa_approved_by act of Some u \<Rightarrow> u | None \<Rightarrow> u) ''approved'' (released_or (d_run db) now) = Ok (db1, v)"
    and sc: "scheduleInTransaction env db1 (d_run db) now nid = Ok (db', w)"
    using ok run False
    by (auto simp: approve_resolve_def Let_def res_bind_Ok_iff split: if_splits)
  have "db' = db1" by (rule strandable_schedule[OF s sc refl])
  moreover have "d_run db1 = d_run db" "d_attempts db1 = d_attempts db"
    using write_receipt_core[OF r[unfolded writeApprovalReceipt_def]] by simp_all
  ultimately show ?thesis using s(1) strandable_cong[of db1 db t] by simp
qed (use s in simp)

lemma strandable_step:
  assumes "run_step env now k db db'" "t \<le> now" "strandable t db" shows "strandable t db'"
  using assms
proof (induction rule: run_step.induct)
  case (schedule db now nid db' r)
  then show ?case using strandable_schedule[OF schedule(3,2,1)] by simp
next
  case (claims db now aid worker tok db' r)
  have "db' = db"
  proof (rule ccontr)
    assume "db' \<noteq> db"
    moreover have "ri_input_expires_at (rn_ident (d_run db)) \<le> now" using claims by (simp add: strandable_def)
    ultimately obtain x y where "transition db (d_run db) Expired None (Some (failure_outcome False APP_RUN_EXPIRED))
               (Some APP_RUN_EXPIRED) RunTransitioned now = Ok (x, y)"
      using claims(1) by (auto simp: claim_def Let_def res_bind_Ok_iff split: if_splits)
    then show False using running_no_expiry claims(3) by (auto simp: strandable_def)
  qed
  then show ?case using claims by simp
next
  case (marks db now aid tok db' started)
  have "db' = db"
    using marks(1) strandable_find[OF marks(3)]
    by (auto simp: markProviderCallStarted_def Let_def split: if_splits option.splits)
  then show ?case using marks by simp
next
  case (renews db now now2 aid tok db' b)
  have "db' = db"
    using renews(1) strandable_find[OF renews(3)]
    by (auto simp: renewLease_def split: if_splits option.splits)
  then show ?case using renews by simp
next
  case (persists db now aid tok res out db' u)
  have "persist_once db now aid tok res out = Ok (db, ())"
    using strandable_find[OF persists(3)] by (auto simp: persist_once_def split: option.splits)
  then have "db' = db" using persists(1) by (simp add: persistKnownResult_def numeral_3_eq_3)
  then show ?case using persists by simp
next
  case (finalizes db now aid tok db' u)
  have "db' = db"
    using finalizes(1) strandable_find[OF finalizes(3)]
    by (auto simp: finalizeKnownResult_def split: if_splits option.splits)
  then show ?case using finalizes by simp
next
  case (settles db now aid tok db' u)
  obtain db1 r db2 y where u: "update_attempt db aid (\<lambda>b. at_token b = Some tok)
         (\<lambda>b. b\<lparr>at_state := AttFailed, at_error := Some APP_RUN_EXPIRED, at_updated := now\<rparr>) = Ok (db1, r)"
    and t: "transition (appendEvent db1 AttemptTerminal None (PAttemptState aid AttFailed) now)
            (d_run db) Expired None (Some (failure_outcome False APP_RUN_EXPIRED)) (Some APP_RUN_EXPIRED) RunTransitioned now = Ok (db2, y)"
    using settles(1) by (auto simp: settleBeforeCallFailure_def res_bind_Ok_iff)
  have "d_run db = d_run (appendEvent db1 AttemptTerminal None (PAttemptState aid AttFailed) now)"
    using update_attempt_run[OF u] by simp
  then have False using running_no_expiry[of "appendEvent db1 AttemptTerminal None (PAttemptState aid AttFailed) now"] t settles(3)
    by (simp add: strandable_def)
  then show ?case ..
next
  case (indeterminate db now aid tok nid db' u)
  have "db' = db"
    using indeterminate(1) strandable_find[OF indeterminate(3)]
    by (auto simp: settleIndeterminate_def split: if_splits option.splits)
  then show ?case using indeterminate by simp
next
  case (natives native cur db now aid tok db' made)
  have "db' = db"
    using natives(1) strandable_find[OF natives(3)]
    by (auto simp: executeNativeAtomic_def Let_def split: if_splits option.splits)
  then show ?case using natives by simp
next
  case (recovers db now oaid nid db' n)
  have "List.find (\<lambda>a. (oaid = None \<or> oaid = Some [] \<or> oaid = Some (at_id a)) \<and> stale_attempt now a) (d_attempts db) = None"
    using recovers(3) by (auto simp: find_None_iff strandable_def stale_attempt_def)
  then have "db' = db" using recovers(1) by (simp add: recoverRun_def)
  then show ?case using recovers by simp
next
  case (cancels db actor now db' r')
  have "rn_state (d_run db') = rn_state (d_run db) \<and> rn_ident (d_run db') = rn_ident (d_run db) \<and> d_attempts db' = d_attempts db"
    using cancels(1,3) by (auto simp: cancel_run_def Let_def strandable_def requestCancellation_def res_bind_Ok_iff update_run_Ok split: if_splits)
  then show ?case using cancels(3) strandable_cong by blast
next
  case (expires db now db' r')
  then show ?case by (simp add: expire_run_def strandable_def)
next
  case (reconciles db actor ok now db' r')
  then show ?case by (simp add: reconcileUnknown_def Let_def strandable_def)
next
  case (purges db now db' n)
  have "rn_state (d_run db') = rn_state (d_run db) \<and> rn_ident (d_run db') = rn_ident (d_run db) \<and> d_attempts db' = d_attempts db"
    using purges(1,3) by (auto simp: purgeExpiredRun_def Let_def strandable_def res_bind_Ok_iff update_run_Ok split: if_splits)
  then show ?case using purges(3) strandable_cong by blast
next
  case (approves p7 g db act u now nid db' ar)
  then show ?case using strandable_approve[OF approves(3,2)]
    by (auto simp: approveInTransaction_def Let_def res_bind_Ok_iff split: if_splits)
next
  case (rejects db act u now db' ar)
  then show ?case by (auto simp: reject_approval_def Let_def strandable_def split: if_splits)
qed

text \<open>A Run can be stranded: once it is running with an expired input and its only unfinished attempt is a retry nobody has claimed, no transaction of the engine at any later time (claim, recovery, cancellation, expiry, purge, approval) takes it out of the running state.\<close>

theorem expired_retry_is_stranded:
  assumes "later env t db db'" "rn_state (d_run db) = Running" "provider_of (d_run db) = ProvMcp"
    "ri_input_expires_at (rn_ident (d_run db)) \<le> t"
    "\<forall>a \<in> set (d_attempts db). at_state a \<notin> {AttClaimed, AttCallStarted} \<and> (at_state a = AttPending \<longrightarrow> at_claim a = None)"
  shows "rn_state (d_run db') = Running"
proof -
  have "strandable t db'"
    using assms
  proof (induction rule: later.induct)
    case (here db)
    then show ?case by (simp add: strandable_def)
  next
    case (onward db1 now k db2)
    then show ?case using strandable_step by blast
  qed
  then show ?thesis by (simp add: strandable_def)
qed

theorem expired_retry_is_stranded_witness:
  "rn_state (d_run (sample_recovered RetrySafe)) = Running
   \<and> map at_state (d_attempts (sample_recovered RetrySafe)) = [AttUnknown, AttPending]
   \<and> rn_state (d_run (tx_db (cancel_run (sample_recovered RetrySafe) (HumanActor ''u1'') 100001))) = Running"
proof -
  let ?db = "sample_recovered RetrySafe"
  have ok: "\<not> isl (cancel_run ?db (HumanActor ''u1'') 100001)" by code_simp
  have l: "later sample_env 100000 ?db (tx_db (cancel_run ?db (HumanActor ''u1'') 100001))"
    by (rule later.onward[OF later.here _ run_step.cancels[OF tx_db_Ok[OF ok]]]) simp
  have a: "rn_state (d_run ?db) = Running" "provider_of (d_run ?db) = ProvMcp"
    "ri_input_expires_at (rn_ident (d_run ?db)) \<le> 100000"
    "\<forall>a \<in> set (d_attempts ?db). at_state a \<notin> {AttClaimed, AttCallStarted} \<and> (at_state a = AttPending \<longrightarrow> at_claim a = None)"
    "map at_state (d_attempts ?db) = [AttUnknown, AttPending]" by code_simp+
  show ?thesis using expired_retry_is_stranded[OF l a(1,2,3,4)] a by blast
qed

subsection \<open>Recovery of a claim that never called\<close>

text \<open>A lapsed claim that may not be retried cannot be recovered while its Run has not started: the recovery would move the Run from a state it never left to failed, which the guard refuses, so the transaction throws and nothing is settled.\<close>

theorem unstarted_claim_cannot_be_recovered:
  assumes "List.find (stale_attempt now) (d_attempts db) = Some a" "at_state a = AttClaimed"
    "rn_state (d_run db) \<in> {Pending, PendingApproval}" "provider_of (d_run db) \<noteq> ProvNative"
    "at_number a \<ge> ri_attempt_limit (rn_ident (d_run db)) \<or> ri_input_expires_at (rn_ident (d_run db)) \<le> now"
  shows "isl (recoverRun env db now None nid)"
proof (rule ccontr)
  assume "\<not> isl (recoverRun env db now None nid)"
  then obtain db' n where ok: "recoverRun env db now None nid = Ok (db', n)"
    by (cases "recoverRun env db now None nid") auto
  have nn: "native_unstarted (d_run db) a now = False" "may_retry (d_run db) a now = False"
    using assms by (auto simp: native_unstarted_def may_retry_def)
  have "recoverUnknownInTransaction env db (d_run db) a now nid = Ok (db', ())"
    using ok assms by (auto simp: recoverRun_def res_bind_Ok_iff split: if_splits)
  then obtain db2 r db4 y where u: "update_attempt db (at_id a) (\<lambda>_. True)
        (\<lambda>b. b\<lparr>at_state := AttFailed, at_error := Some APP_RUN_PROVIDER_UNAVAILABLE, at_updated := now\<rparr>) = Ok (db2, r)"
    and t: "transition (appendEvent db2 AttemptTerminal None (PAttemptState (at_id a) AttFailed) now) (d_run db) Failed None
        (Some (failure_outcome False APP_RUN_PROVIDER_UNAVAILABLE)) (Some APP_RUN_PROVIDER_UNAVAILABLE) RunTransitioned now = Ok (db4, y)"
    by (auto simp: recoverUnknownInTransaction_def nn assms(2) Let_def res_bind_Ok_iff)
  have run: "d_run (appendEvent db2 AttemptTerminal None (PAttemptState (at_id a) AttFailed) now) = d_run db"
    using update_attempt_run[OF u] by simp
  show False
    using t
  proof (cases rule: transition_cases)
    case (moved p)
    show False using run_guard_edge[OF moved(3)] assms(3) moved(2) unfolding run
      by (auto simp: isAppRunStateTransitionAllowed_def APP_RUN_STATE_TRANSITIONS_def)
  qed (use assms(3) in auto)
qed

theorem unstarted_claim_cannot_be_recovered_witness:
  "isl (recoverRun sample_env (sample_claimed ProvMcp RetrySafe) 100000 None ''a2'')"
proof -
  let ?db = "sample_claimed ProvMcp RetrySafe"
  have a: "List.find (stale_attempt 100000) (d_attempts ?db) = Some (hd (d_attempts ?db))"
    "at_state (hd (d_attempts ?db)) = AttClaimed" "rn_state (d_run ?db) \<in> {Pending, PendingApproval}"
    "provider_of (d_run ?db) \<noteq> ProvNative" "ri_input_expires_at (rn_ident (d_run ?db)) \<le> 100000" by code_simp+
  show ?thesis by (rule unstarted_claim_cannot_be_recovered[OF a(1-4) disjI2[OF a(5)]])
qed

subsection \<open>A call for a Run that is over\<close>

lemma settled_cannot_finalize:
  assumes "rn_state (d_run db) \<in> {Cancelled, Expired}" "at_outcome a = Some out"
  shows "isl (finalizeKnownInTransaction db (d_run db) a now)"
proof (rule ccontr)
  assume "\<not> isl (finalizeKnownInTransaction db (d_run db) a now)"
  then obtain db' u where ok: "finalizeKnownInTransaction db (d_run db) a now = Ok (db', u)"
    by (cases "finalizeKnownInTransaction db (d_run db) a now") auto
  have "evolves db db'" by (rule tx_inD[OF safe_finalizeInTransaction ok])
  then have "rn_state (d_run db') = rn_state (d_run db)"
    using run_graph.reach_terminal assms(1)
    by (auto simp: evolves_def run_le_def APP_RUN_STATE_TRANSITIONS_def)
  then show False using finalize_result(1)[OF ok assms(2)] assms(1) by (auto split: if_splits)
qed

text \<open>The last check before the provider call rejects a cancelled Run but not an expired one: when the retention sweep expires a claimed Run after its input was read, the call is marked as started and made, and no result of it can ever be finalized.\<close>

theorem expired_run_is_still_called:
  assumes "rn_state (d_run db) = Expired" "provider_of (d_run db) = ProvMcp" "origin_kind_of (ri_origin (rn_ident (d_run db))) \<noteq> OriginApp"
    "rn_released_at (d_run db) \<noteq> None" "en_authorize env (d_run db) StageProviderCall now"
    "List.find (\<lambda>a. at_id a = aid) (d_attempts db) = Some a" "at_state a = AttClaimed" "at_token a = Some tok" "lease_live a now"
    "at_started a = None" "at_finished a = None"
  shows "\<exists>db'. markProviderCallStarted env db now aid tok = Ok (db', True)
    \<and> (\<forall>n db'' b out t. history env n db' db'' \<longrightarrow> at_outcome b = Some out \<longrightarrow> isl (finalizeKnownInTransaction db'' (d_run db'') b t))"
proof -
  let ?f = "\<lambda>b. b\<lparr>at_state := AttCallStarted, at_started := Some now, at_updated := now\<rparr>"
  let ?p = "\<lambda>b. at_state b = AttClaimed \<and> at_token b = Some tok"
  have claim: "at_claim a \<noteq> None" "at_lease a \<noteq> None"
    using assms(8,9) by (auto simp: at_token_def lease_live_def split: option.splits)
  have guard: "attempt_guard (d_run db) a (?f a) = None"
    using claim assms(4,7,10,11) by (cases "at_outcome a") (auto simp: attempt_guard_None frozen_def)
  have found: "List.find (\<lambda>b. at_id b = aid \<and> ?p b) (d_attempts db) = Some a"
    using find_stronger[OF assms(6), of ?p] assms(7,8) by simp
  define db1 where "db1 = db\<lparr>d_attempts := set_attempt (d_attempts db) aid ?f\<rparr>"
  have u: "update_attempt db aid ?p ?f = Ok (db1, Some (?f a))"
    using found guard by (simp add: update_attempt_def set_attempt_def db1_def)
  define db' where "db' = appendEvent db1 ProviderCallStarted None (PAttempt (at_id a)) now"
  have "markProviderCallStarted env db now aid tok = Ok (db', True)"
    using assms u by (simp add: markProviderCallStarted_def Let_def db'_def)
  moreover have "isl (finalizeKnownInTransaction db'' (d_run db'') b t)"
    if "history env n db' db''" "at_outcome b = Some out" for n db'' b out t
  proof (rule settled_cannot_finalize[OF _ that(2)])
    have "rn_state (d_run db') = Expired" using assms(1) by (simp add: db'_def db1_def)
    then have "rn_state (d_run db'') = Expired"
      using settled_run_stays_settled[OF that(1)] by (simp add: APP_RUN_TERMINAL_STATES_def)
    then show "rn_state (d_run db'') \<in> {Cancelled, Expired}" by simp
  qed
  ultimately show ?thesis by blast
qed

text \<open>The sweep runs at the expiry of the input, while the lease of the claim taken just before is live.\<close>

definition sample_swept :: run_db where
  "sample_swept = tx_db (purgeExpiredRun (tx_db (claim sample_env (sample_scheduled ProvMcp RetrySafe) 99990 ''a1'' ''w1'' ''t1'')) 100000)"

theorem expired_run_is_still_called_witness:
  "rn_state (d_run sample_swept) = Expired
   \<and> (\<exists>db'. markProviderCallStarted sample_env sample_swept 100001 ''a1'' ''t1'' = Ok (db', True))"
proof -
  let ?a = "hd (d_attempts sample_swept)"
  have a: "rn_state (d_run sample_swept) = Expired" "provider_of (d_run sample_swept) = ProvMcp"
    "origin_kind_of (ri_origin (rn_ident (d_run sample_swept))) \<noteq> OriginApp" "rn_released_at (d_run sample_swept) \<noteq> None"
    "en_authorize sample_env (d_run sample_swept) StageProviderCall 100001"
    "List.find (\<lambda>a. at_id a = ''a1'') (d_attempts sample_swept) = Some ?a" "at_state ?a = AttClaimed" "at_token ?a = Some ''t1''"
    "lease_live ?a 100001" "at_started ?a = None" "at_finished ?a = None" by code_simp+
  show ?thesis using expired_run_is_still_called[OF a] a(1) by blast
qed

subsection \<open>Approving twice\<close>

text \<open>Approving an already approved action succeeds again only until its Run starts: the receipt the first approval wrote names the state of the Run, so once that state has changed the second approval ends in the repair error instead of answering that it is already approved.\<close>

theorem second_approval_after_start_needs_repair:
  assumes "provider_of (d_run db) = ProvMcp" "fst (ri_initiating (rn_ident (d_run db))) \<noteq> TyAppPublic" "aa_is_invoke act"
    "rn_release_kind (d_run db) = Some ReleaseApproved"
    "List.find (\<lambda>x. rc_key x = ApprovalKey (aa_id act)) (d_receipts db) = Some first"
    "rc_run_state first \<noteq> rn_state (d_run db)"
  shows "approveInTransaction env p7 guard db act approver now nid = Throw (RunError APP_RUN_REPAIR_REQUIRED)"
proof -
  have "writeApprovalReceipt db (aa_id act) (d_run db) u ''approved'' t = Throw (RunError APP_RUN_REPAIR_REQUIRED)" for u t
    using assms(5,6) by (auto simp: writeApprovalReceipt_def write_receipt_def Let_def)
  then have "approve_resolve env False db act approver now nid = Throw (RunError APP_RUN_REPAIR_REQUIRED)"
    using assms(1,2,4) by (simp add: approve_resolve_def Let_def owner_only_approval_def)
  then show ?thesis using assms(1,3) by (simp add: approveInTransaction_def)
qed

theorem second_approval_after_start_needs_repair_witness:
  "approveInTransaction sample_env False None sample_approved_called sample_action ''u2'' 9 ''a9''
     = Throw (RunError APP_RUN_REPAIR_REQUIRED)"
proof -
  let ?db = sample_approved_called
  let ?x = "hd (d_receipts ?db)"
  have a: "provider_of (d_run ?db) = ProvMcp" "fst (ri_initiating (rn_ident (d_run ?db))) \<noteq> TyAppPublic" "aa_is_invoke sample_action"
    "rn_release_kind (d_run ?db) = Some ReleaseApproved"
    "List.find (\<lambda>x. rc_key x = ApprovalKey (aa_id sample_action)) (d_receipts ?db) = Some ?x"
    "rc_run_state ?x \<noteq> rn_state (d_run ?db)" by code_simp+
  show ?thesis by (rule second_approval_after_start_needs_repair[OF a])
qed

subsection \<open>A delivery that goes well\<close>

definition fresh_attempt :: "attempt \<Rightarrow> bool" where
  "fresh_attempt a \<longleftrightarrow> at_state a = AttPending \<and> at_claim a = None \<and> at_lease a = None \<and> at_started a = None
     \<and> at_finished a = None \<and> at_outcome a = None \<and> at_error a = None"

definition claimed_row :: "engine_env \<Rightarrow> attempt \<Rightarrow> int \<Rightarrow> string \<Rightarrow> string \<Rightarrow> attempt" where
  "claimed_row env a now w tok = a\<lparr>at_state := AttClaimed, at_claim := Some (w, tok, now),
     at_lease := Some (now + boundedLeaseMs (en_lease_ms env)), at_updated := now\<rparr>"

lemma claim_ready:
  assumes "provider_of (d_run db) = ProvMcp" "rn_state (d_run db) = Pending" "rn_released_at (d_run db) \<noteq> None"
    "en_authorize env (d_run db) StageClaim now" "now < ri_input_expires_at (rn_ident (d_run db))"
    "d_attempts db = [a]" "fresh_attempt a"
  shows "claim env db now (at_id a) w tok
    = Ok (appendEvent (db\<lparr>d_attempts := [claimed_row env a now w tok]\<rparr>) AttemptClaimed None (PAttempt (at_id a)) now,
          Some (claimed_row env a now w tok))"
proof -
  have "attempt_guard (d_run db) a (claimed_row env a now w tok) = None"
    using assms(3,7) unfolding attempt_guard_None by (auto simp: fresh_attempt_def frozen_def claimed_row_def)
  then show ?thesis
    using assms by (auto simp: claim_def Let_def update_attempt_def fresh_attempt_def run_over_def claimed_row_def)
qed

definition started_row :: "attempt \<Rightarrow> int \<Rightarrow> attempt" where
  "started_row a now = a\<lparr>at_state := AttCallStarted, at_started := Some now, at_updated := now\<rparr>"

lemma frozen_keep_or [simp]: "frozen x (keep_or x v)"
  by (cases x) (simp_all add: frozen_def keep_or_def)

lemma transition_Running:
  assumes "rn_state (d_run db) \<in> {Pending, PendingApproval}" "rn_released_at (d_run db) \<noteq> None"
  shows "transition db (d_run db) Running ac out err ty now
    = Ok (appendEvent (db\<lparr>d_run := transition_row (d_run db) (d_run db) Running out now\<rparr>) ty ac
            (PTransition (rn_state (d_run db)) Running err) now, transition_row (d_run db) (d_run db) Running out now)"
proof -
  have "run_guard (d_run db) (transition_row (d_run db) (d_run db) Running out now) = None"
    using assms unfolding run_guard_None by (auto simp: transition_row_def)
  then show ?thesis using assms(1) by (auto simp: transition_def update_run_def)
qed

lemma mark_ready:
  assumes run: "provider_of (d_run db) = ProvMcp"
      "origin_kind_of (ri_origin (rn_ident (d_run db))) = OriginApp \<longrightarrow> en_dispatch_pin env (rn_ident (d_run db))"
      "rn_state (d_run db) = Pending" "rn_released_at (d_run db) \<noteq> None"
    and env: "en_authorize env (d_run db) StageProviderCall now"
    and att: "d_attempts db = [a]" "at_state a = AttClaimed" "at_token a = Some tok" "lease_live a now"
      "at_started a = None" "at_finished a = None" "at_outcome a = None"
  shows "\<exists>db'. markProviderCallStarted env db now (at_id a) tok = Ok (db', True)
     \<and> d_attempts db' = [started_row a now] \<and> rn_state (d_run db') = Running \<and> rn_ident (d_run db') = rn_ident (d_run db)
     \<and> rn_released_at (d_run db') \<noteq> None \<and> d_payloads db' = d_payloads db \<and> d_receipts db' = d_receipts db"
proof -
  have claim: "at_claim a \<noteq> None" "at_lease a \<noteq> None"
    using att by (auto simp: at_token_def lease_live_def split: option.splits)
  have "attempt_guard (d_run db) a (started_row a now) = None"
    using claim run(4) att unfolding attempt_guard_None by (auto simp: frozen_def started_row_def)
  then show ?thesis
    using assms transition_Running[of "db\<lparr>d_attempts := [started_row a now]\<rparr>"]
    by (auto simp: markProviderCallStarted_def Let_def update_attempt_def started_row_def)
qed

lemma persist_ready:
  assumes "d_attempts db = [a]" "at_state a = AttCallStarted" "at_token a = Some tok" "at_started a = Some st" "st \<le> now"
    "at_finished a = None" "at_outcome a = None" "at_lease a \<noteq> None" "rn_released_at (d_run db) \<noteq> None"
    "find_output db (at_id a) = None" "so_result_status out = Retained"
  shows "persistKnownResult db now (at_id a) tok (Returned ok v) out
    = Ok (db\<lparr>d_payloads := d_payloads db @ [\<lparr>py_kind = OutputPayload (at_id a), py_value = result_envelope ok v,
                py_expires_at = ri_result_expires_at (rn_ident (d_run db))\<rparr>],
            d_attempts := [a\<lparr>at_finished := Some now, at_outcome := Some out, at_updated := now\<rparr>]\<rparr>, ())"
proof -
  have claim: "at_claim a \<noteq> None" using assms(3) by (auto simp: at_token_def)
  have "attempt_guard (d_run db) a (a\<lparr>at_finished := Some now, at_outcome := Some out, at_updated := now\<rparr>) = None"
    using claim assms unfolding attempt_guard_None by (auto simp: frozen_def)
  then have "persist_once db now (at_id a) tok (Returned ok v) out
    = Ok (db\<lparr>d_payloads := d_payloads db @ [\<lparr>py_kind = OutputPayload (at_id a), py_value = result_envelope ok v,
                py_expires_at = ri_result_expires_at (rn_ident (d_run db))\<rparr>],
            d_attempts := [a\<lparr>at_finished := Some now, at_outcome := Some out, at_updated := now\<rparr>]\<rparr>, ())"
    using assms by (simp add: persist_once_def insertOutput_def update_attempt_def)
  then show ?thesis by (simp add: persistKnownResult_def numeral_3_eq_3)
qed

lemma transition_moves:
  assumes "rn_state run \<noteq> st" "run_guard (d_run db) (transition_row (d_run db) run st out now) = None"
  shows "transition db run st ac out err ty now
    = Ok (appendEvent (db\<lparr>d_run := transition_row (d_run db) run st out now\<rparr>) ty ac (PTransition (rn_state run) st err) now,
          transition_row (d_run db) run st out now)"
  using assms by (simp add: transition_def update_run_def)

lemma finalize_ready:
  assumes "d_attempts db = [a]" "at_state a = AttCallStarted" "at_token a = Some tok" "at_started a \<noteq> None"
    "at_finished a \<noteq> None" "at_finished a = Some fin" "at_started a = Some st" "st \<le> fin"
    "at_outcome a = Some out" "at_error a = None" "at_lease a \<noteq> None" "AppRunSafeOutcome_ok out"
    "rn_state (d_run db) = Running" "rn_released_at (d_run db) \<noteq> None"
    "\<forall>x \<in> set (d_receipts db). rc_key x \<noteq> AttemptKey (at_id a)"
  shows "\<exists>db'. finalizeKnownResult db now (at_id a) tok = Ok (db', ()) \<and> finalizeKnownInTransaction db (d_run db) a now = Ok (db', ())"
proof -
  let ?s = "if so_success out then AttSucceeded else AttFailed"
  let ?st = "if so_success out then Succeeded else Failed"
  let ?a = "a\<lparr>at_state := ?s, at_error := so_error_code out, at_updated := now\<rparr>"
  let ?db1 = "appendEvent (db\<lparr>d_attempts := [?a]\<rparr>) AttemptTerminal None (PAttemptState (at_id a) ?s) now"
  have claim: "at_claim a \<noteq> None" using assms(3) by (auto simp: at_token_def)
  have "attempt_guard (d_run db) a ?a = None"
    using claim assms unfolding attempt_guard_None by (auto simp: frozen_def)
  then have u: "update_attempt db (at_id a) (\<lambda>_. True)
      (\<lambda>b. b\<lparr>at_state := ?s, at_error := so_error_code out, at_updated := now\<rparr>) = Ok (db\<lparr>d_attempts := [?a]\<rparr>, Some ?a)"
    using assms(1) by (simp add: update_attempt_def)
  have g: "run_guard (d_run ?db1) (transition_row (d_run ?db1) (d_run db) ?st (Some out) now) = None"
    using assms(13) unfolding run_guard_None by (auto simp: transition_row_def)
  have "rn_state (d_run db) \<noteq> ?st" using assms(13) by simp
  then obtain db2 tr where t: "transition ?db1 (d_run db) ?st None (Some out) (so_error_code out) RunTransitioned now = Ok (db2, tr)"
    and r: "d_receipts db2 = d_receipts db"
    using transition_moves[OF _ g] by fastforce
  have "List.find (\<lambda>x. rc_key x = AttemptKey (at_id a)) (d_receipts db2) = None"
    using assms(15) by (auto simp: r find_None_iff)
  then obtain db3 where w: "writeAttemptReceipt db2 tr (at_id a) ?s now (so_error_code out) False False = Ok (db3, ())"
    by (auto simp: writeAttemptReceipt_def write_receipt_def Let_def)
  have "finalizeKnownInTransaction db (d_run db) a now = Ok (db3, ())"
    using u t w assms(9,12) by (simp add: finalizeKnownInTransaction_def Let_def)
  then show ?thesis using assms(1,2,3,9) by (simp add: finalizeKnownResult_def)
qed

text \<open>C2. A delivery succeeds when nothing is in its way.  For the fresh first attempt of a released pending MCP
  Run, whose dispatch pin holds if an App submitted it, whose input is readable and unexpired and which has
  no output and no receipt of the attempt yet: when the provider answers within the output budget, the
  worker is authorized at every stage and starts the call within a second of its claim, it makes exactly one
  call, ends without an error, settles the Run with the provider's answer and retains the output.\<close>

theorem delivery_settles_a_ready_run:
  assumes run: "provider_of (d_run db) = ProvMcp"
      "origin_kind_of (ri_origin (rn_ident (d_run db))) = OriginApp \<longrightarrow> en_dispatch_pin env (rn_ident (d_run db))"
      "rn_state (d_run db) = Pending" "rn_released_at (d_run db) \<noteq> None"
    and att: "d_attempts db = [a]" "fresh_attempt a"
    and data: "readInput db = Some input" "find_output db (at_id a) = None"
      "\<forall>x \<in> set (d_receipts db). rc_key x \<noteq> AttemptKey (at_id a)"
    and env: "\<And>r s t. en_authorize env r s t" "\<And>v. en_within_budget env v"
    and time: "tick 1 < ri_input_expires_at (rn_ident (d_run db))" "tick 3 < ri_result_expires_at (rn_ident (d_run db))"
      "tick 2 < tick 1 + 1000" "tick 2 \<le> tick 4"
    and result: "execute (rn_ident (d_run db)) input = Returned ok v"
  shows "\<exists>db'. runInternal env execute native tick fresh db (at_id a) w = (db', 1, None)
    \<and> rn_state (d_run db') = (if ok then Succeeded else Failed)
    \<and> readOutput db' (at_id a) = Some (result_envelope ok v)"
proof -
  have r: "recoverRun env db (tick 0) (Some (at_id a)) (fresh 0) = Ok (db, 0)"
    using att by (simp add: recoverRun_def stale_attempt_def fresh_attempt_def)
  let ?a2 = "claimed_row env a (tick 1) w (fresh 1)"
  let ?db2 = "appendEvent (db\<lparr>d_attempts := [?a2]\<rparr>) AttemptClaimed None (PAttempt (at_id a)) (tick 1)"
  have c: "claim env db (tick 1) (at_id a) w (fresh 1) = Ok (?db2, Some ?a2)"
    by (rule claim_ready[OF run(1,3,4) env(1) time(1) att])
  have a2: "at_id ?a2 = at_id a" "at_state ?a2 = AttClaimed" "at_token ?a2 = Some (fresh 1)" "lease_live ?a2 (tick 2)"
    "at_started ?a2 = None" "at_finished ?a2 = None" "at_outcome ?a2 = None" "at_lease ?a2 \<noteq> None" "at_error ?a2 = None"
    using att(2) time(3) by (auto simp: claimed_row_def at_token_def lease_live_def fresh_attempt_def boundedLeaseMs_def)
  obtain db3 where m: "markProviderCallStarted env ?db2 (tick 2) (at_id a) (fresh 1) = Ok (db3, True)"
    and db3: "d_attempts db3 = [started_row ?a2 (tick 2)]" "rn_state (d_run db3) = Running" "rn_ident (d_run db3) = rn_ident (d_run db)"
      "rn_released_at (d_run db3) \<noteq> None" "d_payloads db3 = d_payloads db" "d_receipts db3 = d_receipts db"
    using mark_ready[of ?db2 env "tick 2" ?a2 "fresh 1"] run env(1) a2 by auto
  let ?a3 = "started_row ?a2 (tick 2)"
  define out where "out = outcome ok True Retained (if ok then None else Some APP_RUN_PROVIDER_ERROR)"
  have k: "knownOutcome env (d_run db3) (Returned ok v) (tick 3) = Some out"
    using time(2) env(2) db3(3) by (simp add: knownOutcome_def out_def)
  let ?a4 = "?a3\<lparr>at_finished := Some (tick 4), at_outcome := Some out, at_updated := tick 4\<rparr>"
  let ?db4 = "db3\<lparr>d_payloads := d_payloads db3 @ [\<lparr>py_kind = OutputPayload (at_id a), py_value = result_envelope ok v,
                py_expires_at = ri_result_expires_at (rn_ident (d_run db3))\<rparr>], d_attempts := [?a4]\<rparr>"
  have a3: "at_id ?a3 = at_id a" "at_state ?a3 = AttCallStarted" "at_token ?a3 = Some (fresh 1)" "at_started ?a3 = Some (tick 2)"
    "at_finished ?a3 = None" "at_outcome ?a3 = None" "at_lease ?a3 \<noteq> None" "at_error ?a3 = None"
    using a2 by (simp_all add: started_row_def at_token_def)
  have p: "persistKnownResult db3 (tick 4) (at_id a) (fresh 1) (Returned ok v) out = Ok (?db4, ())"
    using persist_ready[OF db3(1) a3(2,3,4) time(4) a3(5,6,7) db3(4), of out ok v] data(2) db3(5) a3(1)
    by (simp add: find_output_def out_def outcome_def)
  have a4: "at_id ?a4 = at_id a" "at_token ?a4 = Some (fresh 1)" using a3 by (simp_all add: at_token_def)
  have out_ok: "AppRunSafeOutcome_ok out" by (simp add: AppRunSafeOutcome_ok_def out_def outcome_def)
  obtain db5 where f: "finalizeKnownResult ?db4 (tick 5) (at_id ?a4) (fresh 1) = Ok (db5, ())"
    and ft: "finalizeKnownInTransaction ?db4 (d_run ?db4) ?a4 (tick 5) = Ok (db5, ())"
    using finalize_ready[of ?db4 ?a4 "fresh 1" "tick 4" "tick 2" out "tick 5"] a3 a4 db3 data(3) out_ok time(4) by auto
  have settled: "rn_state (d_run db5) = (if ok then Succeeded else Failed)" "d_payloads db5 = d_payloads ?db4"
    using finalize_result[OF ft, of out] by (simp_all add: out_def outcome_def)
  have out: "readOutput db5 (at_id a) = Some (result_envelope ok v)"
    using settled(2) data(2) db3(5) by (simp add: readOutput_def find_output_def find_append)
  have "recordProviderResult env (Returned ok v) tick fresh db3 (at_id a) = (db5, None)"
    using k p f a4 by (simp add: recordProviderResult_def)
  moreover have "readInput ?db2 = Some input" using data(1) by (simp add: readInput_def)
  ultimately have "runClaimed env execute native tick fresh ?db2 (at_id a) = (db5, 1, None)"
    using run(1) m result db3(3) by (simp add: runClaimed_def del: One_nat_def)
  then have "runInternal env execute native tick fresh db (at_id a) w = (db5, 1, None)"
    using run(1) r c by (simp add: runInternal_def del: One_nat_def)
  then show ?thesis using settled out by blast
qed

theorem delivery_settles_a_ready_run_witness:
  "\<exists>db'. sample_delivery ProvMcp = (db', 1, None) \<and> rn_state (d_run db') = Succeeded
    \<and> readOutput db' ''a1'' = Some (result_envelope True (JStr ''hello''))"
proof -
  let ?db = "sample_scheduled ProvMcp UnsafeOrUnknown"
  let ?a = "hd (d_attempts ?db)"
  have a: "provider_of (d_run ?db) = ProvMcp"
      "origin_kind_of (ri_origin (rn_ident (d_run ?db))) = OriginApp \<longrightarrow> en_dispatch_pin sample_env (rn_ident (d_run ?db))"
      "rn_state (d_run ?db) = Pending" "rn_released_at (d_run ?db) \<noteq> None"
      "d_attempts ?db = [?a]" "fresh_attempt ?a" "readInput ?db = Some (JStr ''hello'')" "find_output ?db (at_id ?a) = None"
      "\<forall>x \<in> set (d_receipts ?db). rc_key x \<noteq> AttemptKey (at_id ?a)" "at_id ?a = ''a1''"
      "ri_input_expires_at (rn_ident (d_run ?db)) = 100000" "ri_result_expires_at (rn_ident (d_run ?db)) = 100000" by code_simp+
  show ?thesis
    using delivery_settles_a_ready_run[OF a(1-9), of "\<lambda>n. 2 + int n" sample_execute True "JStr ''hello''" sample_native sample_fresh "''w1''"]
    by (simp add: a(10-12) sample_env_def sample_execute_def sample_delivery_def)
qed

end
