(* ===== verification/RunAdmission.thy ===== *)
theory RunAdmission
  imports RunEngine "HOL-Library.List_Lexorder"
begin

text \<open>
  Admission of App Runs: the keyrings of \<open>app-run-keyrings.ts\<close> and the fingerprints of
  \<open>app-run-secrets.ts\<close>, replay lookup, child lineage and row insertion of \<open>app-run-repository.ts\<close>, and
  the submission of \<open>app-run-service.ts\<close>.  The HMAC, canonical JSON, the collation of
  \<open>localeCompare\<close>, the byte budgets, the live recheck of a trusted App capture, the provider
  snapshot lookup and the approval owner lookup are parameters (\<open>admission_env\<close>).  The advisory lock
  makes two submissions with one key run one after the other, so a submission is a function on the
  table of Runs.
\<close>

subsection \<open>Keyrings\<close>

record key_ring =
  kr_current :: string
  kr_keys :: "(string \<times> string) list"

datatype key_purpose = RunEncryption | ReceiptSigning | FingerprintKeys

definition APP_RUN_KEY_PURPOSES :: "key_purpose list" where
  "APP_RUN_KEY_PURPOSES = [RunEncryption, ReceiptSigning, FingerprintKeys]"

definition BASE64 :: string where
  "BASE64 = ''ABCDEFGHIJKLMNOPQRSTUVWXYZabcdefghijklmnopqrstuvwxyz0123456789+/''"

fun base64_value :: "string \<Rightarrow> char \<Rightarrow> nat \<Rightarrow> nat option" where
  "base64_value [] c i = None"
| "base64_value (x # xs) c i = (if x = c then Some i else base64_value xs c (Suc i))"

text \<open>
  43 alphabet characters and one padding character encode 258 bits: the key and two bits that
  re-encoding the key writes as zero.  A key is kept as its canonical text.
\<close>

definition decodeCanonicalKey :: "string \<Rightarrow> string option" where
  "decodeCanonicalKey v =
     (if length v = 44 \<and> last v = CHR ''='' \<and> list_all (\<lambda>c. c \<in> set BASE64) (butlast v)
         \<and> (case base64_value BASE64 (v ! 42) 0 of None \<Rightarrow> False | Some n \<Rightarrow> n mod 4 = 0)
      then Some v else None)"

fun collect_keys :: "(string \<times> string) list \<Rightarrow> string list \<Rightarrow> (string \<times> string) list option" where
  "collect_keys [] seen = Some []"
| "collect_keys ((kid, enc) # rest) seen = (case decodeCanonicalKey enc of
       None \<Rightarrow> None
     | Some k \<Rightarrow> if k \<in> set seen then None
                 else map_option (\<lambda>ks. (kid, k) # ks) (collect_keys rest (seen @ [k])))"

definition parseRing :: "key_ring \<Rightarrow> key_ring option" where
  "parseRing r =
     (if kr_keys r = [] \<or> length (kr_keys r) > lim_keyring_entries APP_RUN_LIMITS
         \<or> kr_current r \<notin> fst ` set (kr_keys r) then None
      else map_option (\<lambda>ks. \<lparr>kr_current = kr_current r, kr_keys = ks\<rparr>) (collect_keys (kr_keys r) []))"

fun parse_rings :: "key_ring list \<Rightarrow> string list \<Rightarrow> key_ring list option" where
  "parse_rings [] used = Some []"
| "parse_rings (r # rs) used = (case parseRing r of
       None \<Rightarrow> None
     | Some p \<Rightarrow> if \<not> distinct (map snd (kr_keys p)) \<or> set (map snd (kr_keys p)) \<inter> set used \<noteq> {} then None
                 else map_option (\<lambda>ps. p # ps) (parse_rings rs (used @ map snd (kr_keys p))))"

text \<open>The document has one ring per purpose, in the order of \<open>APP_RUN_KEY_PURPOSES\<close>.\<close>

definition parseEnvironmentAppRunKeyrings :: "key_ring \<Rightarrow> key_ring \<Rightarrow> key_ring \<Rightarrow> key_ring list option" where
  "parseEnvironmentAppRunKeyrings enc sig fp = parse_rings [enc, sig, fp] []"

definition key_read :: "key_ring \<Rightarrow> string \<Rightarrow> string option" where
  "key_read r kid = map_of (kr_keys r) kid"

definition key_current :: "key_ring \<Rightarrow> (string \<times> string) option" where
  "key_current r = map_option (\<lambda>k. (kr_current r, k)) (key_read r (kr_current r))"

definition keyIds :: "key_ring \<Rightarrow> string list" where
  "keyIds r = map fst (kr_keys r)"

subsection \<open>Fingerprints\<close>

datatype fp_purpose = FpIdempotency | FpInput

record admission_env =
  am_engine :: engine_env
  am_mac :: "string \<Rightarrow> fp_purpose \<Rightarrow> string \<Rightarrow> string"
  am_ring :: key_ring
  am_canonical :: "jsv \<Rightarrow> string"
  am_collate :: "string \<Rightarrow> int list"
  am_within_budget :: "submission \<Rightarrow> bool"
  am_keys_available :: bool
  am_snapshot :: "submission \<Rightarrow> bool"
  am_owner :: "submission \<Rightarrow> string option"

definition fingerprintWith :: "admission_env \<Rightarrow> string \<times> string \<Rightarrow> fp_purpose \<Rightarrow> string \<Rightarrow> string \<times> string" where
  "fingerprintWith env kr p v = (fst kr, am_mac env (snd kr) p v)"

definition fingerprintText :: "admission_env \<Rightarrow> fp_purpose \<Rightarrow> string \<Rightarrow> (string \<times> string) option" where
  "fingerprintText env p v = map_option (\<lambda>kr. fingerprintWith env kr p v) (key_current (am_ring env))"

definition fingerprintTextCandidates :: "admission_env \<Rightarrow> fp_purpose \<Rightarrow> string \<Rightarrow> (string \<times> string) list" where
  "fingerprintTextCandidates env p v = concat (map (\<lambda>kid. case key_read (am_ring env) kid of
       None \<Rightarrow> [] | Some k \<Rightarrow> [fingerprintWith env (kid, k) p v]) (keyIds (am_ring env)))"

definition fingerprintJson :: "admission_env \<Rightarrow> fp_purpose \<Rightarrow> jsv \<Rightarrow> (string \<times> string) option" where
  "fingerprintJson env p v = fingerprintText env p (am_canonical env v)"

definition fingerprintJsonCandidates :: "admission_env \<Rightarrow> fp_purpose \<Rightarrow> jsv \<Rightarrow> (string \<times> string) list" where
  "fingerprintJsonCandidates env p v = fingerprintTextCandidates env p (am_canonical env v)"

subsection \<open>Comparing actors and authority\<close>

definition sameActor :: "actor \<Rightarrow> actor \<Rightarrow> bool" where
  "sameActor l r \<longleftrightarrow> actor_type_of l = actor_type_of r \<and> appRunActorId l = appRunActorId r"

text \<open>Two snapshots have the same canonical text iff they agree up to the order of the refs.\<close>

definition canonicalAuthorization :: "admission_env \<Rightarrow> authorization_snapshot \<Rightarrow> authorization_snapshot" where
  "canonicalAuthorization env a = a\<lparr>as_refs := sort_key (\<lambda>r. am_collate env (ar_kind r @ [CHR 0x00] @ ar_id r)) (as_refs a)\<rparr>"

definition AMBIENT_AUTHORITY_KINDS :: "string list" where
  "AMBIENT_AUTHORITY_KINDS = [''membership'', ''token_scope'', ''employee_health'', ''employee_budget'']"

definition APP_AUTHORITY_KINDS :: "string list" where
  "APP_AUTHORITY_KINDS = [''app_surface'', ''app_installation'', ''app_version'', ''app_grant'', ''app_binding'',
     ''app_dependency'', ''app_automation_request'', ''app_automation_definition'', ''app_automation_fire'',
     ''app_automation_policy'', ''resource'', ''relation'']"

definition riskRank :: "risk_class \<Rightarrow> nat" where
  "riskRank r = (case r of RiskRead \<Rightarrow> 0 | RiskInternalWrite \<Rightarrow> 1 | RiskExternalWrite \<Rightarrow> 2
     | RiskDestructive \<Rightarrow> 3 | RiskPrivileged \<Rightarrow> 4)"

definition retryPermissionRank :: "retry_class \<Rightarrow> nat" where
  "retryPermissionRank r = (case r of UnsafeOrUnknown \<Rightarrow> 0 | IdempotentWithKey \<Rightarrow> 1 | RetrySafe \<Rightarrow> 2)"

definition retentionRank :: "retention_class \<Rightarrow> nat" where
  "retentionRank r = (case r of Ephemeral \<Rightarrow> 0 | StandardRetention \<Rightarrow> 1 | Extended \<Rightarrow> 2)"

subsection \<open>The columns of an origin\<close>

record origin_columns =
  oc_installation :: "string option"
  oc_version :: "string option"
  oc_binding_key :: "string option"
  oc_runtime_binding :: "string option"
  oc_native_binding :: "string option"
  oc_endpoint :: "string option"
  oc_ingress :: "string option"
  oc_grant :: "string option"

definition origin_columns_of :: "run_origin \<Rightarrow> origin_columns" where
  "origin_columns_of og = (case og of
       AppOrigin inst ver b grant pub \<Rightarrow>
         \<lparr>oc_installation = Some inst, oc_version = Some ver,
          oc_binding_key = (case b of ActionBinding k \<Rightarrow> Some k | _ \<Rightarrow> None),
          oc_runtime_binding = (case b of RuntimeBinding x \<Rightarrow> Some x | _ \<Rightarrow> None),
          oc_native_binding = (case b of NativeBinding x \<Rightarrow> Some x | _ \<Rightarrow> None),
          oc_endpoint = map_option fst pub, oc_ingress = map_option snd pub, oc_grant = Some grant\<rparr>
     | _ \<Rightarrow> \<lparr>oc_installation = None, oc_version = None, oc_binding_key = None, oc_runtime_binding = None,
            oc_native_binding = None, oc_endpoint = None, oc_ingress = None, oc_grant = None\<rparr>)"

subsection \<open>Child lineage\<close>

definition find_run :: "run_db list \<Rightarrow> string \<Rightarrow> string \<Rightarrow> app_run option" where
  "find_run runs org rid =
     map_option d_run (List.find (\<lambda>db. ri_org (rn_ident (d_run db)) = org \<and> ri_id (rn_ident (d_run db)) = rid) runs)"

text \<open>The loop pushes at most nine ancestors; what is left of the cursor tells whether it reached a root.\<close>

fun walk_ancestors :: "nat \<Rightarrow> run_db list \<Rightarrow> string \<Rightarrow> string option \<Rightarrow> (app_run list \<times> string option) option" where
  "walk_ancestors n runs org None = Some ([], None)"
| "walk_ancestors 0 runs org (Some c) = Some ([], Some c)"
| "walk_ancestors (Suc n) runs org (Some c) = (case find_run runs org c of
       None \<Rightarrow> None
     | Some r \<Rightarrow> map_option (\<lambda>(rs, cur). (r # rs, cur)) (walk_ancestors n runs org (ri_parent_run_id (rn_ident r))))"

record child_lineage =
  cl_parent :: app_run
  cl_ancestors :: "app_run list"
  cl_root_budget :: "(int \<times> int \<times> int) option"

definition loadChildLineage :: "run_db list \<Rightarrow> string \<Rightarrow> string \<Rightarrow> child_lineage option" where
  "loadChildLineage runs org parent_id = (case walk_ancestors 9 runs org (Some parent_id) of
       None \<Rightarrow> None
     | Some (ancestors, cursor) \<Rightarrow>
         if cursor \<noteq> None \<or> ancestors = [] then None
         else let parent = hd ancestors; root = last ancestors in
           if ri_id (rn_ident root) \<noteq> ri_root_run_id (rn_ident parent)
              \<or> ri_id (rn_ident root) \<noteq> ri_root_run_id (rn_ident root) \<or> ri_depth (rn_ident root) \<noteq> 0 then None
           else Some \<lparr>cl_parent = parent, cl_ancestors = ancestors, cl_root_budget = rn_budget root\<rparr>)"

record lineage_insert =
  li_root_run_id :: string
  li_parent_run_id :: string
  li_depth :: nat
  li_budget :: "(int \<times> int \<times> int) option"

definition ref_key :: "authority_ref \<Rightarrow> string \<times> string \<times> string" where
  "ref_key r = (ar_kind r, ar_id r, ar_version r)"

definition childLineageInsert :: "child_lineage \<Rightarrow> submission \<Rightarrow> run_error_code + lineage_insert" where
  "childLineageInsert l s =
     (let parent = cl_parent l; pi = rn_ident parent; pp = ri_policy pi; p = sub_policy s in
      if (rn_state parent \<noteq> Running \<and> rn_state parent \<noteq> WaitingExternal)
         \<or> ri_depth pi \<ge> lim_max_child_depth APP_RUN_LIMITS then Throw APP_RUN_ANCESTRY_LIMIT
      else if ri_initiating pi \<noteq> actorColumns (sub_initiating s) \<or> ri_execution pi \<noteq> actorColumns (sub_execution s)
         \<or> origin_kind_of (ri_origin pi) \<noteq> origin_kind_of (sub_origin s) then Throw APP_RUN_ACCESS_DENIED
      else if list_ex (\<lambda>a. op_provider_kind (ri_operation (rn_ident a)) = op_provider_kind (sub_operation s)
              \<and> op_provider_instance (ri_operation (rn_ident a)) = op_provider_instance (sub_operation s)
              \<and> op_name (ri_operation (rn_ident a)) = op_name (sub_operation s)) (cl_ancestors l)
        then Throw APP_RUN_CAPABILITY_CYCLE
      else if list_ex (\<lambda>r. ar_kind r \<in> set AMBIENT_AUTHORITY_KINDS
              \<and> ref_key r \<notin> ref_key ` set (as_refs (ri_authorization pi))) (as_refs (sub_authorization s))
        then Throw APP_RUN_ACCESS_DENIED
      else if riskRank (ps_risk_class p) > riskRank (ps_risk_class pp)
         \<or> (ps_review_requirement pp = ReviewAlways \<and> ps_review_requirement p \<noteq> ReviewAlways)
         \<or> ps_review_scope p \<noteq> ps_review_scope pp
         \<or> retryPermissionRank (ps_retry_class p) > retryPermissionRank (ps_retry_class pp)
         \<or> retentionRank (sub_retention s) > retentionRank (ri_retention pi) then Throw APP_RUN_ACCESS_DENIED
      else if actor_type_of (sub_execution s) = TyAgentEmployee
         \<and> (case cl_root_budget l of None \<Rightarrow> True | Some (at_time, count, limit) \<Rightarrow> count \<noteq> 1)
        then Throw APP_RUN_ACCESS_DENIED
      else Ok \<lparr>li_root_run_id = ri_root_run_id pi, li_parent_run_id = ri_id pi, li_depth = ri_depth pi + 1,
               li_budget = cl_root_budget l\<rparr>)"

subsection \<open>Replay\<close>

definition findReplay ::
  "run_db list \<Rightarrow> submission \<Rightarrow> (string \<times> string) list \<Rightarrow> int \<Rightarrow> string option \<Rightarrow> app_run option" where
  "findReplay runs s candidates now parent = map_option d_run (List.find (\<lambda>db. let i = rn_ident (d_run db) in
       ri_org i = sub_org s \<and> ri_initiating i = actorColumns (sub_initiating s)
       \<and> op_provider_kind (ri_operation i) = op_provider_kind (sub_operation s)
       \<and> op_provider_instance (ri_operation i) = op_provider_instance (sub_operation s)
       \<and> op_name (ri_operation i) = op_name (sub_operation s)
       \<and> now < ri_idempotency_expires_at i \<and> ri_parent_run_id i = parent
       \<and> ri_idempotency i \<in> set candidates) runs)"

definition replayExecutionMatches :: "app_run \<Rightarrow> submission \<Rightarrow> bool" where
  "replayExecutionMatches run s \<longleftrightarrow> ri_execution (rn_ident run) = actorColumns (sub_execution s)
     \<and> origin_kind_of (ri_origin (rn_ident run)) = origin_kind_of (sub_origin s)"

datatype trusted_capture =
    AppVector "(string \<times> string) option"
  | RuntimeCapture bool
  | PublicRuntimeCapture
  | NativeCapture bool

definition vector_automation :: "trusted_capture option \<Rightarrow> (string \<times> string) option" where
  "vector_automation t = (case t of Some (AppVector au) \<Rightarrow> au | _ \<Rightarrow> None)"

definition appRunReplayAuthorityMatches :: "admission_env \<Rightarrow> app_run \<Rightarrow> submission \<Rightarrow> trusted_capture option \<Rightarrow> bool" where
  "appRunReplayAuthorityMatches env run s trusted =
     (if origin_kind_of (sub_origin s) \<noteq> OriginApp then True
      else origin_columns_of (ri_origin (rn_ident run)) = origin_columns_of (sub_origin s)
        \<and> ri_automation (rn_ident run) = vector_automation trusted
        \<and> AppRunAuthorizationSnapshot_ok (ri_authorization (rn_ident run))
        \<and> canonicalAuthorization env (ri_authorization (rn_ident run)) = canonicalAuthorization env (sub_authorization s))"

subsection \<open>Submission\<close>

record trusted_context =
  tc_org :: string
  tc_initiating :: actor
  tc_execution :: actor

definition submission_denied :: "trusted_context \<Rightarrow> submission \<Rightarrow> trusted_capture option \<Rightarrow> bool" where
  "submission_denied ctx s trusted \<longleftrightarrow>
     tc_org ctx \<noteq> sub_org s
     \<or> \<not> sameActor (tc_initiating ctx) (sub_initiating s) \<or> \<not> sameActor (tc_execution ctx) (sub_execution s)
     \<or> \<not> sameActor (tc_initiating ctx) (as_subject (sub_authorization s))
     \<or> (origin_kind_of (sub_origin s) = OriginApp \<and> trusted = None)
     \<or> (origin_kind_of (sub_origin s) \<noteq> OriginApp \<and> trusted \<noteq> None)
     \<or> (case sub_origin s of
          AppOrigin _ _ (RuntimeBinding _) _ pub \<Rightarrow>
            (case trusted of Some (RuntimeCapture _) \<Rightarrow> pub \<noteq> None | Some PublicRuntimeCapture \<Rightarrow> False | _ \<Rightarrow> True)
        | AppOrigin _ _ (ActionBinding _) _ pub \<Rightarrow> (case trusted of Some (AppVector _) \<Rightarrow> pub \<noteq> None | _ \<Rightarrow> True)
        | AppOrigin _ _ (NativeBinding _) _ pub \<Rightarrow>
            (case trusted of Some (NativeCapture public_endpoint) \<Rightarrow> pub \<noteq> None \<and> \<not> public_endpoint | _ \<Rightarrow> True)
        | _ \<Rightarrow> (case trusted of Some (NativeCapture _) \<Rightarrow> True | _ \<Rightarrow> False))
     \<or> (trusted = Some PublicRuntimeCapture \<and> (oc_endpoint (origin_columns_of (sub_origin s)) = None
          \<or> actor_type_of (sub_initiating s) \<noteq> TyAppPublic \<or> actor_type_of (sub_execution s) \<noteq> TyHuman))
     \<or> (trusted = None \<and> list_ex (\<lambda>r. ar_kind r \<in> set APP_AUTHORITY_KINDS) (as_refs (sub_authorization s)))
     \<or> (case sub_origin s of LegacyOrigin c \<Rightarrow> c \<noteq> op_provider_instance (sub_operation s) | _ \<Rightarrow> False)"

definition parseAppRunSubmission :: "admission_env \<Rightarrow> submission \<Rightarrow> bool" where
  "parseAppRunSubmission env s \<longleftrightarrow> am_within_budget env s \<and> AppRunSubmission_issues s = []
     \<and> submission_policy_valid (sub_policy s) \<and> AppRunAuthorizationSnapshot_ok (sub_authorization s)
     \<and> origin_valid (sub_origin s) \<and> actor_valid (sub_initiating s) \<and> actor_valid (sub_execution s)"

definition auto_released :: "policy_snapshot \<Rightarrow> release_kind option" where
  "auto_released p = (if ps_review_scope p = ApprovedAutomationDefinition then Some ReleaseAutomation
     else if ps_review_requirement p = ReviewPolicy then Some ReleasePolicySatisfied else None)"

definition insertRun :: "submission \<Rightarrow> string \<Rightarrow> string \<times> string \<Rightarrow> string \<times> string \<Rightarrow> int \<Rightarrow> int \<Rightarrow> int \<Rightarrow> nat
    \<Rightarrow> lineage_insert option \<Rightarrow> (string \<times> string) option \<Rightarrow> int \<Rightarrow> tx_error + app_run" where
  "insertRun s rid idem input_fp input_exp result_exp idem_exp limit lineage automation now =
     (if actor_type_of (sub_execution s) = TyAppPublic then Throw (RunError APP_RUN_ACCESS_DENIED)
      else Ok \<lparr>rn_ident =
        \<lparr>ri_id = rid, ri_org = sub_org s, ri_origin = sub_origin s,
         ri_initiating = actorColumns (sub_initiating s), ri_execution = actorColumns (sub_execution s),
         ri_operation = sub_operation s, ri_policy = sub_policy s, ri_retention = sub_retention s,
         ri_idempotency = idem, ri_input_fingerprint = input_fp, ri_authorization = sub_authorization s,
         ri_preview = sub_preview s, ri_automation = automation,
         ri_root_run_id = (case lineage of None \<Rightarrow> rid | Some l \<Rightarrow> li_root_run_id l),
         ri_parent_run_id = map_option li_parent_run_id lineage,
         ri_depth = (case lineage of None \<Rightarrow> 0 | Some l \<Rightarrow> li_depth l),
         ri_input_expires_at = input_exp, ri_result_expires_at = result_exp,
         ri_idempotency_expires_at = idem_exp, ri_attempt_limit = limit\<rparr>,
       rn_state = (if ps_review_scope (sub_policy s) = ApprovedAutomationDefinition then Pending
                   else if ps_review_requirement (sub_policy s) = ReviewAlways then PendingApproval else Pending),
       rn_safe_outcome = None, rn_release_kind = auto_released (sub_policy s),
       rn_released_at = (if auto_released (sub_policy s) = None then None else Some now),
       rn_budget = (case lineage of None \<Rightarrow> None | Some l \<Rightarrow> li_budget l),
       rn_input_purged_at = None, rn_result_purged_at = None, rn_started_at = None, rn_terminal_at = None,
       rn_unknown_outcome_at = None, rn_reconciled_at = None, rn_cancelled_at = None,
       rn_cancel_requested_at = None, rn_updated_at = now\<rparr>)"

text \<open>
  \<open>live\<close> is the outcome of the recheck of the trusted capture in the transaction: \<open>None\<close> when it
  still matches.  \<open>new_ids\<close> are the identifiers of the Run, the approval action and the attempt.
\<close>

definition admit_run :: "admission_env \<Rightarrow> submission \<Rightarrow> app_run \<Rightarrow> int \<Rightarrow> string \<Rightarrow> string \<Rightarrow> tx_error + run_db" where
  "admit_run env s run now action_id attempt_id =
     (let db0 = \<lparr>d_run = run, d_attempts = [], d_events = [], d_receipts = [],
            d_payloads = [\<lparr>py_kind = InputPayload, py_value = sub_input s,
                           py_expires_at = ri_input_expires_at (rn_ident run)\<rparr>], d_jobs = []\<rparr>;
          db1 = appendEvent db0 RunCreated (Some (sub_initiating s)) (PState (rn_state run)) now in
      res_bind (if rn_state run = PendingApproval then
                  (case am_owner env s of None \<Rightarrow> Throw (RunError APP_RUN_ACCESS_DENIED)
                   | Some owner \<Rightarrow> Ok (appendEvent db1 ApprovalRequested (Some (sub_initiating s)) (PAction action_id) now))
                else Ok db1) (\<lambda>db2.
      if rn_released_at run = None then Ok db2
      else res_bind (scheduleInTransaction (am_engine env) db2 run now attempt_id) (\<lambda>(db3, _). Ok db3)))"

definition lineage_of ::
  "run_db list \<Rightarrow> submission \<Rightarrow> string option \<Rightarrow> tx_error + (child_lineage \<times> lineage_insert) option" where
  "lineage_of runs s parent = (case parent of
       None \<Rightarrow> Ok None
     | Some p \<Rightarrow> (case loadChildLineage runs (sub_org s) p of
           None \<Rightarrow> Throw (RunError APP_RUN_ACCESS_DENIED)
         | Some l \<Rightarrow> (case childLineageInsert l s of
               Inl e \<Rightarrow> Throw (RunError e)
             | Inr li \<Rightarrow> Ok (Some (l, li)))))"

definition bounded_by :: "(child_lineage \<times> lineage_insert) option \<Rightarrow> (run_ident \<Rightarrow> int) \<Rightarrow> int \<Rightarrow> int" where
  "bounded_by lin f e = (case lin of None \<Rightarrow> e | Some (l, _) \<Rightarrow> min e (f (rn_ident (cl_parent l))))"

definition protocol7_expired :: "trusted_capture option \<Rightarrow> app_run \<Rightarrow> int \<Rightarrow> bool" where
  "protocol7_expired trusted run now \<longleftrightarrow> trusted = Some (RuntimeCapture True)
     \<and> (ri_input_expires_at (rn_ident run) \<le> now \<or> ri_result_expires_at (rn_ident run) \<le> now)"

definition admit_new ::
  "admission_env \<Rightarrow> submission \<Rightarrow> string option \<Rightarrow> trusted_capture option \<Rightarrow> run_db list \<Rightarrow> int
    \<Rightarrow> string \<times> string \<times> string \<Rightarrow> string \<times> string \<Rightarrow> string \<times> string \<Rightarrow> tx_error + (run_db list \<times> app_run)" where
  "admit_new env s parent trusted runs now new_ids idem input_fp =
     res_bind (lineage_of runs s parent) (\<lambda>lin.
       let input_exp = bounded_by lin ri_input_expires_at (retentionDeadline (sub_retention s) now);
           result_exp = bounded_by lin ri_result_expires_at (retentionDeadline (sub_retention s) now);
           idem_exp = bounded_by lin ri_idempotency_expires_at (idempotencyDeadline (sub_retention s) now);
           limit = (case trusted of Some (NativeCapture _) \<Rightarrow> 1
             | _ \<Rightarrow> (case lin of None \<Rightarrow> APP_RUN_DEFAULT_ATTEMPT_LIMIT
                     | Some (l, _) \<Rightarrow> min APP_RUN_DEFAULT_ATTEMPT_LIMIT (ri_attempt_limit (rn_ident (cl_parent l))))) in
       if \<not> am_snapshot env s then Throw (RunError APP_RUN_PROVIDER_UNAVAILABLE)
       else if input_exp \<le> now \<or> result_exp \<le> now \<or> idem_exp \<le> now then Throw (RunError APP_RUN_EXPIRED)
       else res_bind (insertRun s (fst new_ids) idem input_fp input_exp result_exp idem_exp limit (map_option snd lin)
                        (vector_automation trusted) now) (\<lambda>run.
            res_bind (admit_run env s run now (fst (snd new_ids)) (snd (snd new_ids))) (\<lambda>db.
              if protocol7_expired trusted run now then Throw (RunError APP_RUN_AUTHORIZATION_STALE)
              else Ok (runs @ [db], run))))"

definition replay_run ::
  "admission_env \<Rightarrow> submission \<Rightarrow> trusted_capture option \<Rightarrow> run_db list \<Rightarrow> int \<Rightarrow> app_run \<Rightarrow> tx_error + (run_db list \<times> app_run)" where
  "replay_run env s trusted runs now replay =
     (if ri_input_fingerprint (rn_ident replay) \<notin> set (fingerprintJsonCandidates env FpInput (sub_input s))
         \<or> \<not> replayExecutionMatches replay s \<or> \<not> appRunReplayAuthorityMatches env replay s trusted
        then Throw (RunError APP_RUN_IDEMPOTENCY_CONFLICT)
      else if protocol7_expired trusted replay now then Throw (RunError APP_RUN_AUTHORIZATION_STALE)
      else Ok (runs, replay))"

definition submit_run ::
  "admission_env \<Rightarrow> trusted_context \<Rightarrow> submission \<Rightarrow> string option \<Rightarrow> trusted_capture option \<Rightarrow> run_error_code option
    \<Rightarrow> run_db list \<Rightarrow> int \<Rightarrow> string \<times> string \<times> string \<Rightarrow> tx_error + (run_db list \<times> app_run)" where
  "submit_run env ctx s parent trusted live runs now new_ids =
     (if \<not> parseAppRunSubmission env s then Throw (RunError APP_RUN_INPUT_INVALID)
      else if submission_denied ctx s trusted then Throw (RunError APP_RUN_ACCESS_DENIED)
      else if \<not> am_keys_available env then Throw (RunError APP_RUN_KEY_VERSION_UNAVAILABLE)
      else case (fingerprintText env FpIdempotency (sub_idempotency_key s), fingerprintJson env FpInput (sub_input s)) of
        (Some idem, Some input_fp) \<Rightarrow>
          (case live of Some e \<Rightarrow> Throw (RunError e)
           | None \<Rightarrow> (case findReplay runs s (fingerprintTextCandidates env FpIdempotency (sub_idempotency_key s)) now parent of
                Some replay \<Rightarrow> replay_run env s trusted runs now replay
              | None \<Rightarrow> admit_new env s parent trusted runs now new_ids idem input_fp))
      | _ \<Rightarrow> Throw (RunError APP_RUN_KEYRING_INVALID))"

end
