(* ===== verification/RunLineage.thy ===== *)
theory RunLineage
  imports RunAdmission RunEvolution
begin

text \<open>
  What admission promises: a repeated submission returns the same Run, also after the engine has
  worked on it and after a key rotation; a child never exceeds its parent; and every Run of a table
  built by admissions descends from a root within the depth limit and the authority of that root.
\<close>

subsection \<open>Fingerprints under a keyring\<close>

lemma candidates_iff:
  "fp \<in> set (fingerprintTextCandidates env p v) \<longleftrightarrow>
     (\<exists>k. key_read (am_ring env) (fst fp) = Some k \<and> fp = fingerprintWith env (fst fp, k) p v)"
proof
  assume "fp \<in> set (fingerprintTextCandidates env p v)"
  then obtain kid where "fp \<in> set (case key_read (am_ring env) kid of None \<Rightarrow> [] | Some k \<Rightarrow> [fingerprintWith env (kid, k) p v])"
    by (auto simp: fingerprintTextCandidates_def)
  then show "\<exists>k. key_read (am_ring env) (fst fp) = Some k \<and> fp = fingerprintWith env (fst fp, k) p v"
    by (cases "key_read (am_ring env) kid") (auto simp: fingerprintWith_def)
next
  assume "\<exists>k. key_read (am_ring env) (fst fp) = Some k \<and> fp = fingerprintWith env (fst fp, k) p v"
  then obtain k where k: "key_read (am_ring env) (fst fp) = Some k" "fp = fingerprintWith env (fst fp, k) p v" by blast
  have "fst fp \<in> set (keyIds (am_ring env))"
    using imageI[OF map_of_SomeD[OF k(1)[unfolded key_read_def]], of fst] by (simp add: keyIds_def)
  then show "fp \<in> set (fingerprintTextCandidates env p v)"
    using k by (auto simp: fingerprintTextCandidates_def intro!: bexI[where x = "fst fp"])
qed

lemma current_among_candidates: "fingerprintText env p v = Some fp \<Longrightarrow> fp \<in> set (fingerprintTextCandidates env p v)"
  unfolding candidates_iff fingerprintText_def key_current_def
  by (auto simp: fingerprintWith_def)

lemma retained_candidates:
  assumes "\<And>kid k. key_read (am_ring env) kid = Some k \<Longrightarrow> key_read ring kid = Some k"
    and "fp \<in> set (fingerprintTextCandidates env p v)"
  shows "fp \<in> set (fingerprintTextCandidates (env\<lparr>am_ring := ring\<rparr>) p v)"
  using assms unfolding candidates_iff by (fastforce simp: fingerprintWith_def)

lemma rotated_candidates:
  assumes "\<And>kid k. key_read (am_ring env) kid = Some k \<Longrightarrow> key_read ring kid = Some k"
    and "fp \<in> set (fingerprintTextCandidates (env\<lparr>am_ring := ring\<rparr>) p v)" and "key_read (am_ring env) (fst fp) \<noteq> None"
  shows "fp \<in> set (fingerprintTextCandidates env p v)"
proof -
  obtain k where k: "key_read (am_ring env) (fst fp) = Some k" using assms(3) by blast
  then have "key_read ring (fst fp) = Some k" by (rule assms(1))
  with assms(2) k show ?thesis unfolding candidates_iff by (auto simp: fingerprintWith_def)
qed

subsection \<open>Looking up a replay\<close>

abbreviation idents :: "run_db list \<Rightarrow> run_ident list" where
  "idents runs \<equiv> map (\<lambda>db. rn_ident (d_run db)) runs"

definition replay_key :: "submission \<Rightarrow> (string \<times> string) list \<Rightarrow> int \<Rightarrow> string option \<Rightarrow> run_ident \<Rightarrow> bool" where
  "replay_key s candidates now parent i \<longleftrightarrow> ri_org i = sub_org s \<and> ri_initiating i = actorColumns (sub_initiating s)
       \<and> op_provider_kind (ri_operation i) = op_provider_kind (sub_operation s)
       \<and> op_provider_instance (ri_operation i) = op_provider_instance (sub_operation s)
       \<and> op_name (ri_operation i) = op_name (sub_operation s)
       \<and> now < ri_idempotency_expires_at i \<and> ri_parent_run_id i = parent
       \<and> ri_idempotency i \<in> set candidates"

lemma find_over_idents:
  "map_option (\<lambda>db. rn_ident (d_run db)) (List.find (\<lambda>db. Q (rn_ident (d_run db))) runs) = List.find Q (idents runs)"
  by (induction runs) simp_all

lemma findReplay_ident:
  "map_option rn_ident (findReplay runs s c now parent) = List.find (replay_key s c now parent) (idents runs)"
  using find_over_idents[of "replay_key s c now parent" runs]
  by (simp add: findReplay_def Let_def replay_key_def option.map_comp comp_def)

lemma find_narrow: "List.find P xs = Some x \<Longrightarrow> Q x \<Longrightarrow> (\<And>y. y \<in> set xs \<Longrightarrow> Q y \<Longrightarrow> P y) \<Longrightarrow> List.find Q xs = Some x"
  by (induction xs) (auto split: if_splits)

lemma find_narrow_None: "List.find P xs = None \<Longrightarrow> (\<And>y. y \<in> set xs \<Longrightarrow> Q y \<Longrightarrow> P y) \<Longrightarrow> List.find Q xs = None"
  by (auto simp: find_None_iff)

lemma find_append_None: "List.find P xs = None \<Longrightarrow> P x \<Longrightarrow> List.find P (xs @ [x]) = Some x"
  by (induction xs) (auto split: if_splits)

subsection \<open>Lineage\<close>

lemma find_run_Some:
  assumes "find_run runs org rid = Some r"
  shows "\<exists>db \<in> set runs. d_run db = r" "ri_org (rn_ident r) = org" "ri_id (rn_ident r) = rid"
  using assms by (auto simp: find_run_def dest!: find_Some_set)

lemma walk_parent:
  assumes "walk_ancestors (Suc n) runs org (Some c) = Some (rs, cur)"
  shows "\<exists>r rest. rs = r # rest \<and> find_run runs org c = Some r"
  using assms by (auto split: option.splits)

lemma loadChildLineage_parent:
  assumes "loadChildLineage runs org p = Some l" shows "find_run runs org p = Some (cl_parent l)"
proof -
  obtain rs cur where w: "walk_ancestors (Suc 8) runs org (Some p) = Some (rs, cur)" and l: "cl_parent l = hd rs"
    using assms by (auto simp: loadChildLineage_def Let_def split: option.splits if_splits)
  from walk_parent[OF w] l show ?thesis by auto
qed

lemma childLineageInsert_Ok:
  assumes "childLineageInsert l s = Ok li"
  defines "q \<equiv> rn_ident (cl_parent l)"
  shows "li_parent_run_id li = ri_id q" "li_root_run_id li = ri_root_run_id q" "li_depth li = Suc (ri_depth q)" "ri_depth q < 8"
    "ri_initiating q = actorColumns (sub_initiating s)" "ri_execution q = actorColumns (sub_execution s)"
    "riskRank (ps_risk_class (sub_policy s)) \<le> riskRank (ps_risk_class (ri_policy q))"
    "retryPermissionRank (ps_retry_class (sub_policy s)) \<le> retryPermissionRank (ps_retry_class (ri_policy q))"
    "ps_review_scope (sub_policy s) = ps_review_scope (ri_policy q)"
    "ps_review_requirement (ri_policy q) = ReviewAlways \<Longrightarrow> ps_review_requirement (sub_policy s) = ReviewAlways"
    "rn_state (cl_parent l) \<in> {Running, WaitingExternal}"
    "\<forall>r \<in> set (as_refs (sub_authorization s)). ar_kind r \<in> set AMBIENT_AUTHORITY_KINDS \<longrightarrow> ref_key r \<in> ref_key ` set (as_refs (ri_authorization q))"
  using assms(1) unfolding q_def
  by (auto simp: childLineageInsert_def Let_def APP_RUN_LIMITS_def list_ex_iff split: if_splits)

lemma lineage_of_Some:
  assumes "lineage_of runs s (Some p) = Ok lin"
  shows "\<exists>l li. lin = Some (l, li) \<and> loadChildLineage runs (sub_org s) p = Some l \<and> childLineageInsert l s = Ok li"
  using assms by (auto simp: lineage_of_def split: option.splits sum.splits)

subsection \<open>What an admission inserts\<close>

lemma admit_run_ident: "admit_run env s run now x y = Ok db \<Longrightarrow> rn_ident (d_run db) = rn_ident run"
proof -
  assume a: "admit_run env s run now x y = Ok db"
  define db1 where "db1 = appendEvent \<lparr>d_run = run, d_attempts = [], d_events = [], d_receipts = [],
            d_payloads = [\<lparr>py_kind = InputPayload, py_value = sub_input s,
                           py_expires_at = ri_input_expires_at (rn_ident run)\<rparr>], d_jobs = []\<rparr>
            RunCreated (Some (sub_initiating s)) (PState (rn_state run)) now"
  have run1: "d_run db1 = run" by (simp add: db1_def)
  obtain db2 where first: "(if rn_state run = PendingApproval then
                  (case am_owner env s of None \<Rightarrow> Throw (RunError APP_RUN_ACCESS_DENIED)
                   | Some owner \<Rightarrow> Ok (appendEvent db1 ApprovalRequested (Some (sub_initiating s)) (PAction x) now))
                else Ok db1) = Ok db2"
    and d: "db = db2 \<or> (\<exists>z. scheduleInTransaction (am_engine env) db2 run now y = Ok (db, z))"
    using a unfolding admit_run_def Let_def db1_def[symmetric] res_bind_Ok_iff
    by (elim exE conjE) (auto simp: res_bind_Ok_iff split: if_splits)
  have run2: "d_run db2 = run" using first run1 by (auto split: if_splits option.splits)
  have "rn_ident (d_run db) = rn_ident (d_run db2)" if "scheduleInTransaction (am_engine env) db2 run now y = Ok (db, z)" for z
    using tx_inD[OF safe_schedule that] by (simp add: evolves_def run_le_def)
  with d run2 show ?thesis by auto
qed

lemma admit_new_Ok:
  assumes "admit_new env s parent trusted runs now ids idem fp = Ok (runs', run)"
  obtains lin db where "lineage_of runs s parent = Ok lin" "runs' = runs @ [db]" "rn_ident (d_run db) = rn_ident run"
    "ri_id (rn_ident run) = fst ids" "ri_org (rn_ident run) = sub_org s" "ri_origin (rn_ident run) = sub_origin s"
    "ri_initiating (rn_ident run) = actorColumns (sub_initiating s)" "ri_execution (rn_ident run) = actorColumns (sub_execution s)"
    "ri_operation (rn_ident run) = sub_operation s" "ri_policy (rn_ident run) = sub_policy s"
    "ri_idempotency (rn_ident run) = idem" "ri_input_fingerprint (rn_ident run) = fp"
    "ri_authorization (rn_ident run) = sub_authorization s" "ri_automation (rn_ident run) = vector_automation trusted"
    "ri_parent_run_id (rn_ident run) = map_option (\<lambda>(l, li). li_parent_run_id li) lin"
    "ri_root_run_id (rn_ident run) = (case lin of None \<Rightarrow> fst ids | Some (l, li) \<Rightarrow> li_root_run_id li)"
    "ri_depth (rn_ident run) = (case lin of None \<Rightarrow> 0 | Some (l, li) \<Rightarrow> li_depth li)"
    "ri_input_expires_at (rn_ident run) = bounded_by lin ri_input_expires_at (retentionDeadline (sub_retention s) now)"
    "ri_result_expires_at (rn_ident run) = bounded_by lin ri_result_expires_at (retentionDeadline (sub_retention s) now)"
proof -
  obtain lin where lin: "lineage_of runs s parent = Ok lin"
    using assms by (auto simp: admit_new_def res_bind_Ok_iff)
  obtain r db ie re de lim where ins: "insertRun s (fst ids) idem fp ie re de lim (map_option snd lin) (vector_automation trusted) now = Ok run"
    and adm: "admit_run env s run now (fst (snd ids)) (snd (snd ids)) = Ok db" and runs': "runs' = runs @ [db]"
    and ie: "ie = bounded_by lin ri_input_expires_at (retentionDeadline (sub_retention s) now)"
    and re: "re = bounded_by lin ri_result_expires_at (retentionDeadline (sub_retention s) now)"
    using assms lin by (auto simp: admit_new_def Let_def res_bind_Ok_iff split: if_splits)
  show thesis
  proof (rule that[OF lin runs' admit_run_ident[OF adm]])
  qed (use ins ie re in \<open>auto simp: insertRun_def split: if_splits option.splits\<close>)
qed

subsection \<open>Replay\<close>

lemma submit_Ok:
  assumes "submit_run env ctx s parent trusted live runs now ids = Ok (runs', run)"
  obtains idem fp where "parseAppRunSubmission env s" "\<not> submission_denied ctx s trusted" "live = None"
    "fingerprintText env FpIdempotency (sub_idempotency_key s) = Some idem" "fingerprintJson env FpInput (sub_input s) = Some fp"
    "(case findReplay runs s (fingerprintTextCandidates env FpIdempotency (sub_idempotency_key s)) now parent of
        Some replay \<Rightarrow> replay_run env s trusted runs now replay
      | None \<Rightarrow> admit_new env s parent trusted runs now ids idem fp) = Ok (runs', run)"
  using assms by (auto simp: submit_run_def split: if_splits option.splits)

definition replay_accepts :: "admission_env \<Rightarrow> submission \<Rightarrow> trusted_capture option \<Rightarrow> run_ident \<Rightarrow> bool" where
  "replay_accepts env s trusted i \<longleftrightarrow> ri_input_fingerprint i \<in> set (fingerprintJsonCandidates env FpInput (sub_input s))
     \<and> ri_execution i = actorColumns (sub_execution s) \<and> origin_kind_of (ri_origin i) = origin_kind_of (sub_origin s)
     \<and> (origin_kind_of (sub_origin s) = OriginApp \<longrightarrow> origin_columns_of (ri_origin i) = origin_columns_of (sub_origin s)
          \<and> ri_automation i = vector_automation trusted \<and> AppRunAuthorizationSnapshot_ok (ri_authorization i)
          \<and> canonicalAuthorization env (ri_authorization i) = canonicalAuthorization env (sub_authorization s))"

lemma replay_run_Ok:
  "replay_run env s trusted runs now r = Ok (runs', run)
     \<longleftrightarrow> replay_accepts env s trusted (rn_ident r) \<and> \<not> protocol7_expired trusted r now \<and> runs' = runs \<and> run = r"
  by (auto simp: replay_run_def replay_accepts_def replayExecutionMatches_def appRunReplayAuthorityMatches_def protocol7_expired_def)

text \<open>The identity of the admitted Run answers the same submission, and no earlier row does.\<close>

lemma admitted_is_found:
  assumes ok: "submit_run env ctx s parent trusted live runs now ids = Ok (runs', run)"
    and live: "now < ri_idempotency_expires_at (rn_ident run)"
  shows "List.find (replay_key s (fingerprintTextCandidates env FpIdempotency (sub_idempotency_key s)) now parent) (idents runs') = Some (rn_ident run)"
    "replay_accepts env s trusted (rn_ident run)"
proof -
  let ?c = "fingerprintTextCandidates env FpIdempotency (sub_idempotency_key s)"
  have "List.find (replay_key s ?c now parent) (idents runs') = Some (rn_ident run) \<and> replay_accepts env s trusted (rn_ident run)"
    using ok
  proof (rule submit_Ok)
    fix idem fp
    assume p: "parseAppRunSubmission env s" and f: "fingerprintText env FpIdempotency (sub_idempotency_key s) = Some idem"
      "fingerprintJson env FpInput (sub_input s) = Some fp"
      and c: "(case findReplay runs s ?c now parent of Some replay \<Rightarrow> replay_run env s trusted runs now replay
        | None \<Rightarrow> admit_new env s parent trusted runs now ids idem fp) = Ok (runs', run)"
    show ?thesis
    proof (cases "findReplay runs s ?c now parent")
      case (Some r)
      then have "replay_accepts env s trusted (rn_ident run)" "runs' = runs" "run = r"
        using c replay_run_Ok by auto
      then show ?thesis using findReplay_ident[of runs s ?c now parent] Some by simp
    next
      case None
      then have "admit_new env s parent trusted runs now ids idem fp = Ok (runs', run)" using c by simp
      then show ?thesis
      proof (rule admit_new_Ok)
        fix lin db
        assume a: "lineage_of runs s parent = Ok lin" "runs' = runs @ [db]" "rn_ident (d_run db) = rn_ident run"
          "ri_org (rn_ident run) = sub_org s" "ri_origin (rn_ident run) = sub_origin s"
          "ri_initiating (rn_ident run) = actorColumns (sub_initiating s)" "ri_execution (rn_ident run) = actorColumns (sub_execution s)"
          "ri_operation (rn_ident run) = sub_operation s" "ri_idempotency (rn_ident run) = idem"
          "ri_input_fingerprint (rn_ident run) = fp" "ri_authorization (rn_ident run) = sub_authorization s"
          "ri_automation (rn_ident run) = vector_automation trusted"
          "ri_parent_run_id (rn_ident run) = map_option (\<lambda>(l, li). li_parent_run_id li) lin"
        have par: "ri_parent_run_id (rn_ident run) = parent"
        proof (cases parent)
          case None
          then show ?thesis using a(1,13) by (simp add: lineage_of_def)
        next
          case (Some q)
          obtain l li where l: "lin = Some (l, li)" "loadChildLineage runs (sub_org s) q = Some l" "childLineageInsert l s = Ok li"
            using lineage_of_Some a(1) Some by blast
          have "ri_id (rn_ident (cl_parent l)) = q" using find_run_Some(3)[OF loadChildLineage_parent[OF l(2)]] .
          then show ?thesis using a(13) l(1) childLineageInsert_Ok(1)[OF l(3)] Some by simp
        qed
        have "fp \<in> set (fingerprintJsonCandidates env FpInput (sub_input s))"
          using current_among_candidates f(2) by (simp add: fingerprintJson_def fingerprintJsonCandidates_def)
        then have acc: "replay_accepts env s trusted (rn_ident run)"
          using a p by (simp add: replay_accepts_def parseAppRunSubmission_def)
        have key: "replay_key s ?c now parent (rn_ident run)"
          using a par live current_among_candidates[OF f(1)] by (simp add: replay_key_def)
        have "List.find (replay_key s ?c now parent) (idents runs) = None"
          using findReplay_ident[of runs s ?c now parent] None by simp
        from find_append_None[OF this key] show ?thesis using a(2,3) acc by simp
      qed
    qed
  qed
  then show "List.find (replay_key s ?c now parent) (idents runs') = Some (rn_ident run)" "replay_accepts env s trusted (rn_ident run)" by blast+
qed

text \<open>C26. Submitting is idempotent: until its idempotency deadline, a submission that was accepted is answered with the
  same Run and inserts nothing, whatever the engine has done to the Runs in the meantime and also under a rotated
  keyring that still holds the keys in use.  The repeated submission has passed the live authority check
  and finds the keys available; one captured from an app runtime of protocol 7 is answered
  only while the input and the result of the Run are unexpired.\<close>

theorem resubmission_returns_the_same_run:
  assumes first: "submit_run env ctx s parent trusted live runs now ids = Ok (runs', run)"
    and later: "now \<le> now2" "now2 < ri_idempotency_expires_at (rn_ident run)"
    and worked: "map (\<lambda>db. rn_ident (d_run db)) runs2 = map (\<lambda>db. rn_ident (d_run db)) runs'"
    and ring: "\<And>kid k. key_read (am_ring env) kid = Some k \<Longrightarrow> key_read ring kid = Some k" "key_current ring \<noteq> None"
    and used: "\<And>db. db \<in> set runs' \<Longrightarrow> key_read (am_ring env) (fst (ri_idempotency (rn_ident (d_run db)))) \<noteq> None"
    and t: "\<not> protocol7_expired trusted run now2" and keys: "am_keys_available env"
  shows "\<exists>run2. submit_run (env\<lparr>am_ring := ring\<rparr>) ctx s parent trusted None runs2 now2 ids2 = Ok (runs2, run2) \<and> rn_ident run2 = rn_ident run"
proof -
  let ?e2 = "env\<lparr>am_ring := ring\<rparr>"
  let ?c = "fingerprintTextCandidates env FpIdempotency (sub_idempotency_key s)"
  let ?c2 = "fingerprintTextCandidates ?e2 FpIdempotency (sub_idempotency_key s)"
  have found: "List.find (replay_key s ?c now parent) (idents runs') = Some (rn_ident run)" "replay_accepts env s trusted (rn_ident run)"
    using admitted_is_found[OF first] later by simp_all
  have key: "replay_key s ?c now parent (rn_ident run)" using find_Some_set[OF found(1)] by blast
  then have key2: "replay_key s ?c2 now2 parent (rn_ident run)"
    using retained_candidates[OF ring(1)] later by (auto simp: replay_key_def)
  have "List.find (replay_key s ?c2 now2 parent) (idents runs') = Some (rn_ident run)"
  proof (rule find_narrow[where Q = "replay_key s ?c2 now2 parent", OF found(1) key2])
    fix y assume y: "y \<in> set (idents runs')" "replay_key s ?c2 now2 parent y"
    then have "key_read (am_ring env) (fst (ri_idempotency y)) \<noteq> None" using used by auto
    then have "ri_idempotency y \<in> set ?c" using y(2) rotated_candidates[OF ring(1)] by (simp add: replay_key_def)
    then show "replay_key s ?c now parent y" using y(2) later by (simp add: replay_key_def)
  qed
  then obtain r2 where r2: "findReplay runs2 s ?c2 now2 parent = Some r2" "rn_ident r2 = rn_ident run"
    using findReplay_ident[of runs2 s ?c2 now2 parent] worked by auto
  have "replay_accepts ?e2 s trusted (rn_ident r2)"
    using found(2) r2(2) retained_candidates[OF ring(1)]
    by (auto simp: replay_accepts_def canonicalAuthorization_def fingerprintJsonCandidates_def)
  then have ok: "replay_run ?e2 s trusted runs2 now2 r2 = Ok (runs2, r2)" using replay_run_Ok t r2(2) by (simp add: protocol7_expired_def)
  obtain k where k: "key_current ring = Some k" using ring(2) by blast
  have "parseAppRunSubmission env s \<and> \<not> submission_denied ctx s trusted" using first by (rule submit_Ok) blast
  then have "submit_run ?e2 ctx s parent trusted None runs2 now2 ids2 = Ok (runs2, r2)"
    using k r2(1) ok keys
    by (simp add: submit_run_def parseAppRunSubmission_def fingerprintText_def fingerprintJson_def)
  then show ?thesis using r2(2) by blast
qed

subsection \<open>Authority along the lineage\<close>

text \<open>What a Run may do, compared with another Run of its lineage.\<close>

definition within_authority :: "run_ident \<Rightarrow> run_ident \<Rightarrow> bool" where
  "within_authority i j \<longleftrightarrow> ri_org i = ri_org j \<and> ri_initiating i = ri_initiating j \<and> ri_execution i = ri_execution j
     \<and> riskRank (ps_risk_class (ri_policy i)) \<le> riskRank (ps_risk_class (ri_policy j))
     \<and> retryPermissionRank (ps_retry_class (ri_policy i)) \<le> retryPermissionRank (ps_retry_class (ri_policy j))
     \<and> ps_review_scope (ri_policy i) = ps_review_scope (ri_policy j)
     \<and> (ps_review_requirement (ri_policy j) = ReviewAlways \<longrightarrow> ps_review_requirement (ri_policy i) = ReviewAlways)
     \<and> {r \<in> ref_key ` set (as_refs (ri_authorization i)). fst r \<in> set AMBIENT_AUTHORITY_KINDS}
         \<subseteq> ref_key ` set (as_refs (ri_authorization j))
     \<and> ri_input_expires_at i \<le> ri_input_expires_at j \<and> ri_result_expires_at i \<le> ri_result_expires_at j"

lemma within_refl: "within_authority i i"
  by (simp add: within_authority_def)

lemma within_trans: "within_authority i j \<Longrightarrow> within_authority j k \<Longrightarrow> within_authority i k"
  unfolding within_authority_def by (elim conjE, intro conjI; (force | simp))

lemma submit_child:
  assumes "submit_run env ctx s (Some p) trusted live runs now ids = Ok (runs', run)" "runs' \<noteq> runs"
  obtains db q where "runs' = runs @ [db]" "rn_ident (d_run db) = rn_ident run" "ri_id (rn_ident run) = fst ids"
    "q \<in> d_run ` set runs" "ri_id (rn_ident q) = p" "rn_state q \<in> {Running, WaitingExternal}"
    "within_authority (rn_ident run) (rn_ident q)" "ri_depth (rn_ident run) = Suc (ri_depth (rn_ident q))" "ri_depth (rn_ident q) < 8"
    "ri_root_run_id (rn_ident run) = ri_root_run_id (rn_ident q)" "ri_parent_run_id (rn_ident run) = Some p"
  using assms(1)
proof (rule submit_Ok)
  fix idem fp
  assume c: "(case findReplay runs s (fingerprintTextCandidates env FpIdempotency (sub_idempotency_key s)) now (Some p) of
      Some replay \<Rightarrow> replay_run env s trusted runs now replay
    | None \<Rightarrow> admit_new env s (Some p) trusted runs now ids idem fp) = Ok (runs', run)"
  have "runs' = runs" if "replay_run env s trusted runs now r = Ok (runs', run)" for r
    using that by (auto simp: replay_run_def split: if_splits)
  then have "admit_new env s (Some p) trusted runs now ids idem fp = Ok (runs', run)"
    using c assms(2) by (auto split: option.splits)
  then show thesis
  proof (rule admit_new_Ok)
    fix lin db
    assume a: "lineage_of runs s (Some p) = Ok lin" "runs' = runs @ [db]" "rn_ident (d_run db) = rn_ident run"
      "ri_id (rn_ident run) = fst ids" "ri_org (rn_ident run) = sub_org s"
      "ri_initiating (rn_ident run) = actorColumns (sub_initiating s)" "ri_execution (rn_ident run) = actorColumns (sub_execution s)"
      "ri_policy (rn_ident run) = sub_policy s" "ri_authorization (rn_ident run) = sub_authorization s"
      "ri_parent_run_id (rn_ident run) = map_option (\<lambda>(l, li). li_parent_run_id li) lin"
      "ri_root_run_id (rn_ident run) = (case lin of None \<Rightarrow> fst ids | Some (l, li) \<Rightarrow> li_root_run_id li)"
      "ri_depth (rn_ident run) = (case lin of None \<Rightarrow> 0 | Some (l, li) \<Rightarrow> li_depth li)"
      "ri_input_expires_at (rn_ident run) = bounded_by lin ri_input_expires_at (retentionDeadline (sub_retention s) now)"
      "ri_result_expires_at (rn_ident run) = bounded_by lin ri_result_expires_at (retentionDeadline (sub_retention s) now)"
    obtain l li where l: "lin = Some (l, li)" "loadChildLineage runs (sub_org s) p = Some l" "childLineageInsert l s = Ok li"
      using lineage_of_Some[OF a(1)] by blast
    note q = find_run_Some[OF loadChildLineage_parent[OF l(2)]]
    note c = childLineageInsert_Ok[OF l(3)]
    have "within_authority (rn_ident run) (rn_ident (cl_parent l))"
      unfolding within_authority_def
    proof (intro conjI)
      show "{r \<in> ref_key ` set (as_refs (ri_authorization (rn_ident run))). fst r \<in> set AMBIENT_AUTHORITY_KINDS}
         \<subseteq> ref_key ` set (as_refs (ri_authorization (rn_ident (cl_parent l))))"
        using c(12) a(9) by (auto simp: ref_key_def)
    qed (use a c q l(1) in \<open>auto simp: bounded_by_def\<close>)
    moreover have "cl_parent l \<in> d_run ` set runs" using q(1) by (auto intro: rev_image_eqI)
    ultimately show thesis
      using that[OF a(2,3,4), of "cl_parent l"] q(3) c a(10-12) l(1) by simp
  qed
qed

text \<open>A child Run never exceeds its parent: an admission under a parent either replays an existing Run or adds one whose parent is running, at one level deeper and at most the eighth, with the actors of the parent, no more risk, no weaker review, no more retry permission, no ambient authority the parent lacks and no longer retention.\<close>

theorem child_never_exceeds_its_parent:
  assumes "submit_run env ctx s (Some p) trusted live runs now ids = Ok (runs', run)"
  shows "runs' = runs \<or> (\<exists>q \<in> d_run ` set runs. ri_id (rn_ident q) = p \<and> rn_state q \<in> {Running, WaitingExternal}
     \<and> within_authority (rn_ident run) (rn_ident q) \<and> ri_depth (rn_ident run) = Suc (ri_depth (rn_ident q))
     \<and> ri_depth (rn_ident run) \<le> lim_max_child_depth APP_RUN_LIMITS)"
proof (cases "runs' = runs")
  case False
  show ?thesis
  proof (rule submit_child[OF assms False])
    fix q
    assume c: "q \<in> d_run ` set runs" "ri_id (rn_ident q) = p" "rn_state q \<in> {Running, WaitingExternal}"
      "within_authority (rn_ident run) (rn_ident q)" "ri_depth (rn_ident run) = Suc (ri_depth (rn_ident q))" "ri_depth (rn_ident q) < 8"
    then have "ri_depth (rn_ident run) \<le> lim_max_child_depth APP_RUN_LIMITS" by (simp add: APP_RUN_LIMITS_def)
    with c show ?thesis by blast
  qed
qed simp

text \<open>The tables that admissions and the engine build.\<close>

inductive admitted :: "run_db list \<Rightarrow> bool" where
  empty: "admitted []"
| submit: "admitted runs \<Longrightarrow> submit_run env ctx s parent trusted live runs now ids = Ok (runs', run)
     \<Longrightarrow> fst ids \<notin> ri_id ` set (idents runs) \<Longrightarrow> admitted runs'"
| work: "admitted runs \<Longrightarrow> list_all2 evolves runs runs' \<Longrightarrow> admitted runs'"

definition rooted :: "run_ident list \<Rightarrow> run_ident \<Rightarrow> bool" where
  "rooted is i \<longleftrightarrow> ri_depth i \<le> 8 \<and> (\<exists>r \<in> set is. ri_id r = ri_root_run_id i \<and> ri_parent_run_id r = None
     \<and> ri_depth r = 0 \<and> within_authority i r)"

lemma rooted_mono: "rooted is i \<Longrightarrow> rooted (is @ js) i"
  by (auto simp: rooted_def)

lemma evolves_idents: "list_all2 evolves runs runs' \<Longrightarrow> idents runs' = idents runs"
  by (induction rule: list_all2_induct) (simp_all add: evolves_def run_le_def)

lemma submit_root:
  assumes "submit_run env ctx s None trusted live runs now ids = Ok (runs', run)" "runs' \<noteq> runs"
  obtains db where "runs' = runs @ [db]" "rn_ident (d_run db) = rn_ident run" "ri_id (rn_ident run) = ri_root_run_id (rn_ident run)"
    "ri_parent_run_id (rn_ident run) = None" "ri_depth (rn_ident run) = 0"
  using assms(1)
proof (rule submit_Ok)
  fix idem fp
  assume c: "(case findReplay runs s (fingerprintTextCandidates env FpIdempotency (sub_idempotency_key s)) now None of
      Some replay \<Rightarrow> replay_run env s trusted runs now replay
    | None \<Rightarrow> admit_new env s None trusted runs now ids idem fp) = Ok (runs', run)"
  have "runs' = runs" if "replay_run env s trusted runs now r = Ok (runs', run)" for r
    using that by (auto simp: replay_run_def split: if_splits)
  then have "admit_new env s None trusted runs now ids idem fp = Ok (runs', run)"
    using c assms(2) by (auto split: option.splits)
  then show thesis
  proof (rule admit_new_Ok)
    fix lin db
    assume "lineage_of runs s None = Ok lin" "runs' = runs @ [db]" "rn_ident (d_run db) = rn_ident run"
      "ri_id (rn_ident run) = fst ids"
      "ri_parent_run_id (rn_ident run) = map_option (\<lambda>(l, li). li_parent_run_id li) lin"
      "ri_root_run_id (rn_ident run) = (case lin of None \<Rightarrow> fst ids | Some (l, li) \<Rightarrow> li_root_run_id li)"
      "ri_depth (rn_ident run) = (case lin of None \<Rightarrow> 0 | Some (l, li) \<Rightarrow> li_depth li)"
    then show thesis using that[of db] by (simp add: lineage_of_def)
  qed
qed

lemma admitted_rooted: "admitted runs \<Longrightarrow> i \<in> set (idents runs) \<Longrightarrow> rooted (idents runs) i"
proof (induction arbitrary: i rule: admitted.induct)
  case empty
  then show ?case by simp
next
  case (work runs runs')
  then show ?case using evolves_idents[OF work(2)] by simp
next
  case (submit runs env ctx s parent trusted live now ids runs' run)
  show ?case
  proof (cases "runs' = runs")
    case True
    then show ?thesis using submit by simp
  next
    case False
    have "\<exists>db. runs' = runs @ [db] \<and> rn_ident (d_run db) = rn_ident run \<and> rooted (idents runs @ [rn_ident run]) (rn_ident run)"
    proof (cases parent)
      case None
      show ?thesis
        using submit_root[OF submit(2)[unfolded None] False] by (force simp: rooted_def within_refl)
    next
      case (Some p)
      show ?thesis
      proof (rule submit_child[OF submit(2)[unfolded Some] False])
        fix db q
        assume c: "runs' = runs @ [db]" "rn_ident (d_run db) = rn_ident run" "q \<in> d_run ` set runs"
          "within_authority (rn_ident run) (rn_ident q)" "ri_depth (rn_ident run) = Suc (ri_depth (rn_ident q))" "ri_depth (rn_ident q) < 8"
          "ri_root_run_id (rn_ident run) = ri_root_run_id (rn_ident q)"
        have "rooted (idents runs) (rn_ident q)" by (rule submit(4)) (use c(3) in auto)
        then show ?thesis using c within_trans[OF c(4)] by (auto simp: rooted_def)
      qed
    qed
    then obtain db where d: "runs' = runs @ [db]" "rn_ident (d_run db) = rn_ident run" "rooted (idents runs @ [rn_ident run]) (rn_ident run)"
      by blast
    then show ?thesis using submit(4,5) rooted_mono by auto
  qed
qed

text \<open>C31. However Runs are admitted and worked on, every Run of the organization descends from a root Run of its table within eight levels and stays within the authority of that root.\<close>

theorem lineage_stays_within_its_root:
  assumes "admitted runs" "db \<in> set runs"
  shows "ri_depth (rn_ident (d_run db)) \<le> 8 \<and> (\<exists>root \<in> d_run ` set runs.
     ri_id (rn_ident root) = ri_root_run_id (rn_ident (d_run db)) \<and> ri_parent_run_id (rn_ident root) = None
     \<and> within_authority (rn_ident (d_run db)) (rn_ident root))"
  using admitted_rooted[OF assms(1), of "rn_ident (d_run db)"] assms(2) by (auto simp: rooted_def)

subsection \<open>A sample admission\<close>

definition sample_admission_env :: admission_env where
  "sample_admission_env = \<lparr>am_engine = \<lparr>en_authorize = (\<lambda>_ _ _. True), en_authorize_approval = (\<lambda>_ _. True),
       en_within_budget = (\<lambda>_. True), en_dispatch_pin = (\<lambda>_. True), en_final_authority = (\<lambda>_. True),
       en_fingerprint = (\<lambda>i. (''v1'', i)), en_lease_ms = 60000\<rparr>,
     am_mac = (\<lambda>k p v. k @ (if p = FpIdempotency then ''/i/'' else ''/n/'') @ v),
     am_ring = \<lparr>kr_current = ''k1'', kr_keys = [(''k1'', ''m1'')]\<rparr>,
     am_canonical = (\<lambda>_. ''{}''), am_collate = (\<lambda>t. map (\<lambda>c. int (code_unit c)) t),
     am_within_budget = (\<lambda>_. True), am_keys_available = True, am_snapshot = (\<lambda>_. True), am_owner = (\<lambda>_. Some ''u1'')\<rparr>"

definition sample_rotated_ring :: key_ring where
  "sample_rotated_ring = \<lparr>kr_current = ''k2'', kr_keys = [(''k2'', ''m2''), (''k1'', ''m1'')]\<rparr>"

definition sample_submission :: "string \<Rightarrow> string \<Rightarrow> submission" where
  "sample_submission op key = \<lparr>sub_org = ''org1'', sub_initiating = HumanActor ''u1'', sub_execution = HumanActor ''u1'',
     sub_origin = CoreOrigin,
     sub_operation = \<lparr>op_org = ''org1'', op_provider_kind = ProvMcp, op_provider_instance = ''srv'', op_name = op\<rparr>,
     sub_snapshot_digest = ''d'',
     sub_policy = \<lparr>ps_risk_class = RiskExternalWrite, ps_review_requirement = ReviewPolicy,
        ps_review_scope = PerInvocation, ps_retry_class = UnsafeOrUnknown\<rparr>,
     sub_retention = StandardRetention, sub_idempotency_key = key, sub_input = JNull,
     sub_authorization = \<lparr>as_subject = HumanActor ''u1'',
        as_refs = [\<lparr>ar_kind = ''membership'', ar_id = ''m'', ar_version = ''1''\<rparr>]\<rparr>, sub_preview = JNull\<rparr>"

definition sample_context :: trusted_context where
  "sample_context = \<lparr>tc_org = ''org1'', tc_initiating = HumanActor ''u1'', tc_execution = HumanActor ''u1''\<rparr>"

definition submit_sample :: "string \<Rightarrow> string \<Rightarrow> string option \<Rightarrow> run_db list \<Rightarrow> int \<Rightarrow> string \<Rightarrow> tx_error + (run_db list \<times> app_run)" where
  "submit_sample op key parent runs now rid = submit_run sample_admission_env sample_context (sample_submission op key)
     parent None None runs now (rid, rid @ ''act'', rid @ ''att'')"

text \<open>The rows these submissions insert, and the root after its attempt was claimed and its call started.\<close>

definition sample_run_row :: "string \<Rightarrow> string \<Rightarrow> string \<Rightarrow> string option \<Rightarrow> nat \<Rightarrow> int \<Rightarrow> app_run" where
  "sample_run_row rid op key parent depth now =
     \<lparr>rn_ident = \<lparr>ri_id = rid, ri_org = ''org1'', ri_origin = CoreOrigin, ri_initiating = (TyHuman, ''u1''),
        ri_execution = (TyHuman, ''u1''), ri_operation = sub_operation (sample_submission op key),
        ri_policy = sub_policy (sample_submission op key), ri_retention = StandardRetention,
        ri_idempotency = (''k1'', ''m1/i/'' @ key), ri_input_fingerprint = (''k1'', ''m1/n/{}''),
        ri_authorization = sub_authorization (sample_submission op key), ri_preview = JNull, ri_automation = None,
        ri_root_run_id = ''r1'', ri_parent_run_id = parent, ri_depth = depth,
        ri_input_expires_at = 604800000, ri_result_expires_at = 604800000,
        ri_idempotency_expires_at = 2592000000, ri_attempt_limit = 3\<rparr>,
      rn_state = Pending, rn_safe_outcome = None, rn_release_kind = Some ReleasePolicySatisfied, rn_released_at = Some now,
      rn_budget = None, rn_input_purged_at = None, rn_result_purged_at = None, rn_started_at = None, rn_terminal_at = None,
      rn_unknown_outcome_at = None, rn_reconciled_at = None, rn_cancelled_at = None, rn_cancel_requested_at = None,
      rn_updated_at = now\<rparr>"

definition sample_attempt :: "string \<Rightarrow> int \<Rightarrow> attempt" where
  "sample_attempt rid now = \<lparr>at_id = rid @ ''att'', at_number = 1, at_retry_of = None, at_state = AttPending, at_claim = None,
     at_lease = None, at_started = None, at_finished = None, at_key = None, at_outcome = None, at_error = None, at_updated = now\<rparr>"

definition sample_row :: "string \<Rightarrow> string \<Rightarrow> string \<Rightarrow> string option \<Rightarrow> nat \<Rightarrow> int \<Rightarrow> run_db" where
  "sample_row rid op key parent depth now =
     \<lparr>d_run = sample_run_row rid op key parent depth now, d_attempts = [sample_attempt rid now],
      d_events = [\<lparr>ev_sequence = 1, ev_type = RunCreated, ev_actor = Some (TyHuman, ''u1''), ev_payload = PState Pending, ev_at = now\<rparr>,
        \<lparr>ev_sequence = 2, ev_type = AttemptCreated, ev_actor = None, ev_payload = PAttemptNumber (rid @ ''att'') 1, ev_at = now\<rparr>],
      d_receipts = [], d_payloads = [\<lparr>py_kind = InputPayload, py_value = JNull, py_expires_at = 604800000\<rparr>], d_jobs = [rid @ ''att'']\<rparr>"

definition sample_claimed_row :: run_db where
  "sample_claimed_row = (let db = sample_row ''r1'' ''send'' ''key1'' None 0 0 in
     db\<lparr>d_attempts := [(sample_attempt ''r1'' 0)\<lparr>at_state := AttClaimed, at_claim := Some (''w'', ''t'', 1), at_lease := Some 60001, at_updated := 1\<rparr>],
        d_events := d_events db @ [\<lparr>ev_sequence = 3, ev_type = AttemptClaimed, ev_actor = None, ev_payload = PAttempt ''r1att'', ev_at = 1\<rparr>]\<rparr>)"

definition sample_running_row :: run_db where
  "sample_running_row = (let db = sample_row ''r1'' ''send'' ''key1'' None 0 0 in
     db\<lparr>d_run := (d_run db)\<lparr>rn_state := Running, rn_started_at := Some 2, rn_updated_at := 2\<rparr>,
        d_attempts := [(sample_attempt ''r1'' 0)\<lparr>at_state := AttCallStarted, at_claim := Some (''w'', ''t'', 1), at_lease := Some 60001,
                        at_started := Some 2, at_updated := 2\<rparr>],
        d_events := d_events db @
          [\<lparr>ev_sequence = 3, ev_type = AttemptClaimed, ev_actor = None, ev_payload = PAttempt ''r1att'', ev_at = 1\<rparr>,
           \<lparr>ev_sequence = 4, ev_type = RunTransitioned, ev_actor = None, ev_payload = PTransition Pending Running None, ev_at = 2\<rparr>,
           \<lparr>ev_sequence = 5, ev_type = ProviderCallStarted, ev_actor = None, ev_payload = PAttempt ''r1att'', ev_at = 2\<rparr>]\<rparr>)"

abbreviation sample_table :: "run_db list" where
  "sample_table \<equiv> [sample_row ''r1'' ''send'' ''key1'' None 0 0]"

abbreviation sample_family :: "run_db list" where
  "sample_family \<equiv> [sample_running_row, sample_row ''r2'' ''fetch'' ''key2'' (Some ''r1'') 1 3]"

lemma sample_submit:
  assumes "admit_new sample_admission_env (sample_submission op key) parent None runs now (rid, rid @ ''act'', rid @ ''att'')
      (''k1'', ''m1/i/'' @ key) (''k1'', ''m1/n/{}'') = Ok r"
    and "findReplay runs (sample_submission op key) [(''k1'', ''m1/i/'' @ key)] now parent = None"
    and "parseAppRunSubmission sample_admission_env (sample_submission op key)"
    and "\<not> submission_denied sample_context (sample_submission op key) None"
  shows "submit_sample op key parent runs now rid = Ok r"
proof -
  have f: "fingerprintText sample_admission_env FpIdempotency key = Some (''k1'', ''m1/i/'' @ key)"
    "fingerprintTextCandidates sample_admission_env FpIdempotency key = [(''k1'', ''m1/i/'' @ key)]"
    "fingerprintJson sample_admission_env FpInput v = Some (''k1'', ''m1/n/{}'')" for v
    by (simp_all add: fingerprintText_def fingerprintJson_def fingerprintTextCandidates_def key_current_def key_read_def
        keyIds_def fingerprintWith_def sample_admission_env_def)
  have k: "am_keys_available sample_admission_env" "sub_idempotency_key (sample_submission op key) = key"
    by (simp_all add: sample_admission_env_def sample_submission_def)
  show ?thesis using assms f k by (simp add: submit_sample_def submit_run_def)
qed

lemma sample_root_ok:
  "submit_sample ''send'' ''key1'' None [] 0 ''r1'' = Ok (sample_table, sample_run_row ''r1'' ''send'' ''key1'' None 0 0)"
  by (rule sample_submit) code_simp+

lemma sample_child_ok:
  "submit_sample ''fetch'' ''key2'' (Some ''r1'') [sample_running_row] 3 ''r2''
     = Ok (sample_family, sample_run_row ''r2'' ''fetch'' ''key2'' (Some ''r1'') 1 3)"
  by (rule sample_submit) code_simp+

lemma sample_running_evolves: "list_all2 evolves sample_table [sample_running_row]"
proof -
  let ?e = "am_engine sample_admission_env"
  have c: "claim ?e (sample_row ''r1'' ''send'' ''key1'' None 0 0) 1 ''r1att'' ''w'' ''t'' = Ok (sample_claimed_row, Some (hd (d_attempts sample_claimed_row)))"
    by code_simp
  have m: "markProviderCallStarted ?e sample_claimed_row 2 ''r1att'' ''t'' = Ok (sample_running_row, True)" by code_simp
  have "evolves (sample_row ''r1'' ''send'' ''key1'' None 0 0) sample_running_row"
    by (rule evolves_trans[OF tx_inD[OF safe_claim c] tx_inD[OF safe_mark m]])
  then show ?thesis by simp
qed

theorem resubmission_returns_the_same_run_witness:
  "\<exists>run2. submit_run (sample_admission_env\<lparr>am_ring := sample_rotated_ring\<rparr>) sample_context (sample_submission ''send'' ''key1'')
      None None None [sample_running_row] 5000 (''r9'', ''a'', ''b'') = Ok ([sample_running_row], run2) \<and> ri_id (rn_ident run2) = ''r1''"
proof -
  note first = sample_root_ok[unfolded submit_sample_def]
  have exp: "5000 < ri_idempotency_expires_at (rn_ident (sample_run_row ''r1'' ''send'' ''key1'' None 0 0))"
    "am_keys_available sample_admission_env" "key_current sample_rotated_ring \<noteq> None"
    "ri_id (rn_ident (sample_run_row ''r1'' ''send'' ''key1'' None 0 0)) = ''r1''"
    "key_read (am_ring sample_admission_env) (fst (ri_idempotency (rn_ident (d_run (sample_row ''r1'' ''send'' ''key1'' None 0 0))))) \<noteq> None"
    by code_simp+
  have ring: "key_read sample_rotated_ring kid = Some k" if "key_read (am_ring sample_admission_env) kid = Some k" for kid k
    using that by (simp add: key_read_def sample_admission_env_def sample_rotated_ring_def split: if_splits)
  have idents: "idents [sample_running_row] = idents sample_table" by (rule evolves_idents[OF sample_running_evolves])
  have used: "db \<in> set sample_table \<Longrightarrow> key_read (am_ring sample_admission_env) (fst (ri_idempotency (rn_ident (d_run db)))) \<noteq> None" for db
    using exp(5) by simp
  show ?thesis
    using resubmission_returns_the_same_run[OF first _ exp(1) idents ring exp(3) used _ exp(2), of "(''r9'', ''a'', ''b'')"] exp(4)
    by (auto simp: protocol7_expired_def)
qed

theorem child_never_exceeds_its_parent_witness:
  "\<exists>q \<in> {d_run sample_running_row}. ri_id (rn_ident q) = ''r1''
     \<and> within_authority (rn_ident (sample_run_row ''r2'' ''fetch'' ''key2'' (Some ''r1'') 1 3)) (rn_ident q)"
  using child_never_exceeds_its_parent[OF sample_child_ok[unfolded submit_sample_def]] by simp

theorem lineage_stays_within_its_root_witness:
  "ri_depth (rn_ident (d_run (sample_row ''r2'' ''fetch'' ''key2'' (Some ''r1'') 1 3))) \<le> 8"
proof -
  have "admitted sample_table"
    by (rule admitted.submit[OF admitted.empty sample_root_ok[unfolded submit_sample_def]]) simp
  then have r: "admitted [sample_running_row]" by (rule admitted.work[OF _ sample_running_evolves])
  have "''r2'' \<notin> ri_id ` set (idents [sample_running_row])" by code_simp
  then have "admitted sample_family"
    using admitted.submit[OF r sample_child_ok[unfolded submit_sample_def]] by simp
  from lineage_stays_within_its_root[OF this] show ?thesis by simp
qed

end
