(* ===== verification/ActionGraph.thy ===== *)
theory ActionGraph
  imports Workflow JsValue "HOL-Library.Multiset"
begin

text \<open>
  The graph of actions a chat message is compiled to (agent-action-graph.ts): its nodes, the
  validation that refuses unknown, self and cyclic dependencies, and the idempotency key of a
  node, which is a digest of its parameters with their keys sorted.
\<close>

subsection \<open>Data\<close>

datatype proposal_intent = Read | SingleWrite | CompoundWrite | Plan | Clarify

record action_node =
  an_id :: string
  an_tool :: string
  an_params :: jsv
  an_depends_on :: "string list"
  an_idempotency_key :: string

record action_graph =
  ag_intent :: proposal_intent
  ag_summary :: string
  ag_actions :: "action_node list"

datatype graph_error =
    TooManySteps
  | DuplicateOrEmptyId string
  | UnknownDependency string string
  | SelfDependency string
  | DependencyCycle string

definition MAX_ACTION_GRAPH_NODES :: nat where
  "MAX_ACTION_GRAPH_NODES = 12"

subsection \<open>Canonical parameters\<close>

text \<open>
  \<open>sortValue\<close> sorts the keys of every object, at any depth; an array keeps its order.  The keys
  are compared by code unit, as \<open>Array.prototype.sort\<close> does.
\<close>

fun sortValue :: "jsv \<Rightarrow> jsv" where
  "sortValue (JArr vs) = JArr (map sortValue vs)"
| "sortValue (JObj ps) = JObj (sort_key fst (map (\<lambda>(k, v). (k, sortValue v)) ps))"
| "sortValue v = v"

text \<open>
  \<open>JSON.stringify\<close>: a property whose value is \<open>undefined\<close> is left out, \<open>undefined\<close> in an array
  and a number that is not finite print as \<open>null\<close>.  The digits of a number come from \<open>num\<close>.
\<close>

fun json_text :: "(rat \<Rightarrow> string) \<Rightarrow> jsv \<Rightarrow> string" where
  "json_text num JUndefined = ''null''"
| "json_text num JNull = ''null''"
| "json_text num (JBool b) = (if b then ''true'' else ''false'')"
| "json_text num (JNum n) = num n"
| "json_text num JNaN = ''null''"
| "json_text num (JInf _) = ''null''"
| "json_text num (JStr s) = json_string s"
| "json_text num (JArr vs) = ''['' @ js_join '','' (map (json_text num) vs) @ '']''"
| "json_text num (JObj ps) = ''{'' @ js_join '','' (concat (map (\<lambda>(k, v).
     (if v = JUndefined then [] else [json_string k @ '':'' @ json_text num v])) ps)) @ ''}''"

definition stableActionKey ::
    "(rat \<Rightarrow> string) \<Rightarrow> (string \<Rightarrow> string) \<Rightarrow> string \<Rightarrow> string \<Rightarrow> string \<Rightarrow> jsv \<Rightarrow> string" where
  "stableActionKey num sha sourceMessageId nodeId tool params =
     (let canonical = json_text num (sortValue (JObj
            [(''sourceMessageId'', JStr sourceMessageId), (''nodeId'', JStr nodeId),
             (''tool'', JStr tool), (''params'', params)]))
      in ''defty_'' @ js_slice (sha canonical) 0 32)"

text \<open>\<open>[...new Set(value.filter((item) => typeof item === 'string' && item.trim().length > 0))]\<close>.\<close>

fun dependency_name :: "jsv \<Rightarrow> string list" where
  "dependency_name (JStr s) = (if js_trim s \<noteq> [] then [s] else [])"
| "dependency_name _ = []"

fun normalizeDependencies :: "jsv \<Rightarrow> string list" where
  "normalizeDependencies (JArr vs) = js_uniq (concat (map dependency_name vs))"
| "normalizeDependencies _ = []"

subsection \<open>Validation\<close>

fun check_ids :: "string list \<Rightarrow> action_node list \<Rightarrow> graph_error + string list" where
  "check_ids ids [] = Ok ids"
| "check_ids ids (n # ns) =
     (if an_id n = [] \<or> an_id n \<in> set ids then Throw (DuplicateOrEmptyId (an_id n))
      else check_ids (an_id n # ids) ns)"

fun check_node_deps :: "string list \<Rightarrow> string \<Rightarrow> string list \<Rightarrow> graph_error + unit" where
  "check_node_deps ids i [] = Ok ()"
| "check_node_deps ids i (d # ds) =
     (if d \<notin> set ids then Throw (UnknownDependency i d)
      else if d = i then Throw (SelfDependency i)
      else check_node_deps ids i ds)"

fun check_deps :: "string list \<Rightarrow> action_node list \<Rightarrow> graph_error + unit" where
  "check_deps ids [] = Ok ()"
| "check_deps ids (n # ns) =
     res_bind (check_node_deps ids (an_id n) (an_depends_on n)) (\<lambda>_. check_deps ids ns)"

text \<open>\<open>byId.get(id)?.depends_on ?? []\<close>; a later entry of the \<open>Map\<close> replaces an earlier one.\<close>

definition deps_of :: "action_node list \<Rightarrow> string \<Rightarrow> string list" where
  "deps_of ns i = (case List.find (\<lambda>n. an_id n = i) (rev ns) of
       Some n \<Rightarrow> an_depends_on n | None \<Rightarrow> [])"

lemma deps_of_unknown: "i \<notin> an_id ` set ns \<Longrightarrow> deps_of ns i = []"
  by (auto simp: deps_of_def find_None_set split: option.splits dest!: find_Some_set)

text \<open>
  The depth-first search: \<open>visiting\<close> is the path to the node, \<open>visited\<close> the finished nodes.
  The recursion needs no fuel: every descent adds a node to the path.
\<close>

function visit_all :: "action_node list \<Rightarrow> string list \<Rightarrow> string list \<Rightarrow> string list
    \<Rightarrow> graph_error + string list" where
  "visit_all ns visiting visited [] = Ok visited"
| "visit_all ns visiting visited (i # is) =
     (if i \<in> set visiting then Throw (DependencyCycle i)
      else if i \<in> set visited then visit_all ns visiting visited is
      else (case visit_all ns (i # visiting) visited (deps_of ns i) of
              Inl e \<Rightarrow> Inl e
            | Inr visited' \<Rightarrow> visit_all ns visiting (i # visited') is))"
  by pat_completeness auto

termination
proof (relation "measures [\<lambda>(ns, visiting, visited, is). card (an_id ` set ns - set visiting),
    \<lambda>(ns, visiting, visited, is). length is]")
  fix ns visiting visited i "is"
  assume "\<not> (i::string) \<in> set visiting"
  then show "((ns, i # visiting, visited, deps_of ns i), ns, visiting, visited, i # is)
      \<in> measures [\<lambda>(ns, visiting, visited, is). card (an_id ` set ns - set visiting),
          \<lambda>(ns, visiting, visited, is). length is]"
  proof (cases "i \<in> an_id ` set ns")
    case True
    then have "an_id ` set ns - set (i # visiting) \<subset> an_id ` set ns - set visiting"
      using \<open>\<not> i \<in> set visiting\<close> by auto
    then have "card (an_id ` set ns - set (i # visiting)) < card (an_id ` set ns - set visiting)"
      by (intro psubset_card_mono) auto
    then show ?thesis by simp
  next
    case False
    then have "an_id ` set ns - set (i # visiting) = an_id ` set ns - set visiting" by auto
    with False show ?thesis by (simp add: deps_of_unknown)
  qed
qed auto

definition validateActionGraph :: "action_graph \<Rightarrow> graph_error + unit" where
  "validateActionGraph graph =
     (if length (ag_actions graph) > MAX_ACTION_GRAPH_NODES then Throw TooManySteps
      else res_bind (check_ids [] (ag_actions graph)) (\<lambda>ids.
           res_bind (check_deps ids (ag_actions graph)) (\<lambda>_.
           res_bind (visit_all (ag_actions graph) [] [] (map an_id (ag_actions graph))) (\<lambda>_.
           Ok ()))))"

definition step_id :: "nat \<Rightarrow> string" where
  "step_id index = ''step_'' @ nat_to_string (index + 1)"

definition action_node_of ::
    "(rat \<Rightarrow> string) \<Rightarrow> (string \<Rightarrow> string) \<Rightarrow> string \<Rightarrow> nat \<Rightarrow> string \<times> jsv \<Rightarrow> action_node" where
  "action_node_of num sha sourceMessageId index action =
     (let i = step_id index in
      \<lparr>an_id = i, an_tool = fst action, an_params = snd action,
       an_depends_on = normalizeDependencies (js_prop_of (snd action) ''depends_on''),
       an_idempotency_key = stableActionKey num sha sourceMessageId i (fst action) (snd action)\<rparr>)"

definition buildActionGraph ::
    "(rat \<Rightarrow> string) \<Rightarrow> (string \<Rightarrow> string) \<Rightarrow> (string \<times> jsv) list \<Rightarrow> string \<Rightarrow> string
      \<Rightarrow> graph_error + action_graph" where
  "buildActionGraph num sha actions sourceMessageId summary =
     (let nodes = map (\<lambda>(index, action). action_node_of num sha sourceMessageId index action)
            (enumerate 0 actions);
          graph = \<lparr>ag_intent = (if length nodes > 1 then CompoundWrite
                      else if length nodes = 1 then SingleWrite else Read),
                   ag_summary = summary, ag_actions = nodes\<rparr>
      in res_bind (validateActionGraph graph) (\<lambda>_. Ok graph))"

subsection \<open>Correctness of the search\<close>

abbreviation dep_rel :: "action_node list \<Rightarrow> (string \<times> string) set" where
  "dep_rel ns \<equiv> step_rel (deps_of ns)"

definition settled :: "action_node list \<Rightarrow> string list \<Rightarrow> bool" where
  "settled ns vd \<longleftrightarrow> (\<forall>v \<in> set vd. set (deps_of ns v) \<subseteq> set vd \<and> (v, v) \<notin> (dep_rel ns)\<^sup>+)"

lemma settled_reach: "(v, w) \<in> (dep_rel ns)\<^sup>* \<Longrightarrow> settled ns vd \<Longrightarrow> v \<in> set vd \<Longrightarrow> w \<in> set vd"
  by (induction rule: rtrancl_induct) (auto simp: settled_def step_rel_iff)

lemma settled_add:
  assumes "settled ns vd" "set (deps_of ns i) \<subseteq> set vd" "i \<notin> set vd"
  shows "settled ns (i # vd)"
proof -
  have "(i, i) \<notin> (dep_rel ns)\<^sup>+"
  proof
    assume "(i, i) \<in> (dep_rel ns)\<^sup>+"
    then obtain d where "(i, d) \<in> dep_rel ns" "(d, i) \<in> (dep_rel ns)\<^sup>*"
      by (meson tranclD)
    then show False using assms settled_reach[of d i ns vd] by (auto simp: step_rel_iff)
  qed
  with assms show ?thesis by (auto simp: settled_def)
qed

lemma visit_all_settles:
  "visit_all ns visiting visited is = Inr vd \<Longrightarrow> settled ns visited \<Longrightarrow> set visited \<inter> set visiting = {}
   \<Longrightarrow> settled ns vd \<and> set visited \<subseteq> set vd \<and> set is \<subseteq> set vd \<and> set vd \<inter> set visiting = {}"
proof (induction ns visiting visited "is" arbitrary: vd rule: visit_all.induct)
  case (2 ns visiting visited i "is")
  show ?case
  proof (cases "i \<in> set visited")
    case True
    have "i \<notin> set visiting" using 2(4) by (auto split: if_splits)
    moreover have "visit_all ns visiting visited is = Inr vd" using 2(4) True by (simp split: if_splits)
    ultimately show ?thesis using 2(1)[OF _ True _ 2(5,6)] True by auto
  next
    case False
    from 2(4) False obtain v1 where v1: "i \<notin> set visiting"
      "visit_all ns (i # visiting) visited (deps_of ns i) = Inr v1"
      "visit_all ns visiting (i # v1) is = Inr vd"
      by (auto split: if_splits sum.splits)
    have inner: "settled ns v1 \<and> set visited \<subseteq> set v1 \<and> set (deps_of ns i) \<subseteq> set v1
        \<and> set v1 \<inter> set (i # visiting) = {}"
      using 2(2)[OF v1(1) False v1(2)] 2(5,6) False by auto
    then have "settled ns (i # v1)" by (intro settled_add) auto
    moreover have "set (i # v1) \<inter> set visiting = {}" using inner v1(1) by auto
    ultimately show ?thesis using 2(3)[OF v1(1) False v1(2) v1(3)] inner by auto
  qed
qed simp

lemma visit_all_finds_cycle:
  "visit_all ns visiting visited is = Inl e \<Longrightarrow> (\<forall>v \<in> set visiting. \<forall>i \<in> set is. (v, i) \<in> (dep_rel ns)\<^sup>+)
   \<Longrightarrow> \<not> acyclic (dep_rel ns)"
proof (induction ns visiting visited "is" arbitrary: e rule: visit_all.induct)
  case (2 ns visiting visited i "is")
  note path = 2(5)
  show ?case
  proof (cases "i \<in> set visiting")
    case True
    with path show ?thesis by (auto simp: acyclic_def)
  next
    case False
    have tail: "\<forall>v \<in> set visiting. \<forall>i \<in> set is. (v, i) \<in> (dep_rel ns)\<^sup>+" using path by simp
    have inner: "\<forall>v \<in> set (i # visiting). \<forall>d \<in> set (deps_of ns i). (v, d) \<in> (dep_rel ns)\<^sup>+"
    proof (intro ballI)
      fix v d
      assume v: "v \<in> set (i # visiting)" and "d \<in> set (deps_of ns i)"
      then have d: "(i, d) \<in> dep_rel ns" by (simp add: step_rel_iff)
      show "(v, d) \<in> (dep_rel ns)\<^sup>+"
      proof (cases "v = i")
        case False
        with v path have "(v, i) \<in> (dep_rel ns)\<^sup>+" by simp
        then show ?thesis using d by (rule trancl_into_trancl)
      qed (use d in simp)
    qed
    show ?thesis
    proof (cases "i \<in> set visited")
      case visited: True
      show ?thesis by (rule 2(1)[OF False visited _ tail]) (use 2(4) False visited in simp)
    next
      case new: False
      show ?thesis
      proof (cases "visit_all ns (i # visiting) visited (deps_of ns i)")
        case (Inl e')
        show ?thesis by (rule 2(2)[OF False new Inl inner])
      next
        case (Inr v1)
        show ?thesis by (rule 2(3)[OF False new Inr _ tail]) (use 2(4) False new Inr in simp)
      qed
    qed
  qed
qed simp

lemma visit_all_iff: "is_ok (visit_all ns [] [] is) \<longleftrightarrow> (\<forall>i \<in> set is. \<forall>w. (i, w) \<in> (dep_rel ns)\<^sup>* \<longrightarrow> (w, w) \<notin> (dep_rel ns)\<^sup>+)"
  if "an_id ` set ns \<subseteq> set is"
proof (cases "visit_all ns [] [] is")
  case (Inl e)
  then have "\<not> acyclic (dep_rel ns)" by (rule visit_all_finds_cycle) simp
  then obtain w where w: "(w, w) \<in> (dep_rel ns)\<^sup>+" by (auto simp: acyclic_def)
  then obtain d where "d \<in> set (deps_of ns w)" by (meson step_rel_iff tranclD)
  then have "w \<in> an_id ` set ns" using deps_of_unknown by fastforce
  with w that Inl show ?thesis by (auto simp: is_ok_iff)
next
  case (Inr vd)
  have "settled ns vd \<and> set is \<subseteq> set vd"
    using visit_all_settles[OF Inr] by (simp add: settled_def)
  with Inr show ?thesis using settled_reach by (auto simp: settled_def)
qed

lemma visit_all_acyclic: "is_ok (visit_all ns [] [] (map an_id ns)) \<longleftrightarrow> acyclic (dep_rel ns)"
proof
  assume "acyclic (dep_rel ns)"
  then show "is_ok (visit_all ns [] [] (map an_id ns))"
    using visit_all_finds_cycle[of ns "[]" "[]" "map an_id ns"]
    by (cases "visit_all ns [] [] (map an_id ns)") auto
next
  assume ok: "is_ok (visit_all ns [] [] (map an_id ns))"
  show "acyclic (dep_rel ns)"
  proof (rule ccontr)
    assume "\<not> acyclic (dep_rel ns)"
    then obtain w where w: "(w, w) \<in> (dep_rel ns)\<^sup>+" by (auto simp: acyclic_def)
    then obtain d where "d \<in> set (deps_of ns w)" by (meson step_rel_iff tranclD)
    then have "w \<in> set (map an_id ns)" using deps_of_unknown by fastforce
    then show False using ok w visit_all_iff[of ns "map an_id ns"] by auto
  qed
qed

subsection \<open>Correctness of the other checks\<close>

lemma check_ids_Ok:
  "check_ids ids ns = Inr r \<longleftrightarrow> r = rev (map an_id ns) @ ids \<and> [] \<notin> an_id ` set ns
     \<and> distinct (map an_id ns) \<and> set ids \<inter> an_id ` set ns = {}"
  by (induction ids ns rule: check_ids.induct) auto

lemma check_node_deps_Ok:
  "check_node_deps ids i ds = Inr u \<longleftrightarrow> set ds \<subseteq> set ids \<and> i \<notin> set ds"
  by (induction ids i ds rule: check_node_deps.induct) auto

lemma check_deps_Ok:
  "check_deps ids ns = Inr u \<longleftrightarrow>
     (\<forall>n \<in> set ns. set (an_depends_on n) \<subseteq> set ids \<and> an_id n \<notin> set (an_depends_on n))"
  by (induction ids ns rule: check_deps.induct)
    (auto simp: res_bind_Ok_iff check_node_deps_Ok)

text \<open>The edges of a graph: a node depends on each entry of its list.\<close>

definition graph_edges :: "action_node list \<Rightarrow> (string \<times> string) set" where
  "graph_edges ns = {(an_id n, d) | n d. n \<in> set ns \<and> d \<in> set (an_depends_on n)}"

lemma deps_of_member: "distinct (map an_id ns) \<Longrightarrow> n \<in> set ns \<Longrightarrow> deps_of ns (an_id n) = an_depends_on n"
  using find_unique[of n "rev ns" "\<lambda>m. an_id m = an_id n"] distinct_map_inj[of an_id ns]
  by (auto simp: deps_of_def)

lemma graph_edges_dep_rel: "distinct (map an_id ns) \<Longrightarrow> dep_rel ns = graph_edges ns"
proof
  show "dep_rel ns \<subseteq> graph_edges ns"
    by (fastforce simp: step_rel_def deps_of_def graph_edges_def split: option.splits dest: find_Some_set[OF sym])
  assume "distinct (map an_id ns)"
  then show "graph_edges ns \<subseteq> dep_rel ns"
    by (auto simp: step_rel_def graph_edges_def deps_of_member)
qed

lemma self_edge_cyclic: "n \<in> set ns \<Longrightarrow> acyclic (graph_edges ns) \<Longrightarrow> an_id n \<notin> set (an_depends_on n)"
  by (auto simp: acyclic_def graph_edges_def)

text \<open>C34. The validation accepts exactly the graphs of at most twelve nodes with distinct, non-empty
  ids whose dependencies name nodes of the graph and form no cycle; the recursive search decides the
  absence of cycles and returns on every graph, cyclic ones included.\<close>
theorem action_graph_accepted_iff_acyclic:
  "validateActionGraph g = Ok () \<longleftrightarrow>
     length (ag_actions g) \<le> 12 \<and> distinct (map an_id (ag_actions g)) \<and> [] \<notin> an_id ` set (ag_actions g)
     \<and> graph_edges (ag_actions g) \<subseteq> UNIV \<times> an_id ` set (ag_actions g)
     \<and> acyclic (graph_edges (ag_actions g))"
proof -
  let ?ns = "ag_actions g"
  have search: "(\<exists>r. visit_all ?ns [] [] (map an_id ?ns) = Inr r) \<longleftrightarrow> acyclic (graph_edges ?ns)"
    if "distinct (map an_id ?ns)"
    using visit_all_acyclic[of ?ns] graph_edges_dep_rel[OF that] by (auto simp: is_ok_iff)
  have edges: "(\<forall>n \<in> set ?ns. set (an_depends_on n) \<subseteq> an_id ` set ?ns)
      \<longleftrightarrow> graph_edges ?ns \<subseteq> UNIV \<times> an_id ` set ?ns"
    by (auto simp: graph_edges_def)
  have "validateActionGraph g = Ok () \<longleftrightarrow> length ?ns \<le> 12 \<and> [] \<notin> an_id ` set ?ns
      \<and> distinct (map an_id ?ns)
      \<and> (\<forall>n \<in> set ?ns. set (an_depends_on n) \<subseteq> an_id ` set ?ns \<and> an_id n \<notin> set (an_depends_on n))
      \<and> (\<exists>r. visit_all ?ns [] [] (map an_id ?ns) = Inr r)"
    by (auto simp: validateActionGraph_def MAX_ACTION_GRAPH_NODES_def res_bind_Ok_iff check_ids_Ok
        check_deps_Ok)
  with search edges self_edge_cyclic[of _ ?ns] show ?thesis by blast
qed

text \<open>A cyclic graph of three steps is refused.\<close>

lemma cyclic_graph_refused:
  "validateActionGraph \<lparr>ag_intent = CompoundWrite, ag_summary = ''x'', ag_actions =
     [\<lparr>an_id = ''a'', an_tool = ''t'', an_params = JObj [], an_depends_on = [''b''], an_idempotency_key = ''k''\<rparr>,
      \<lparr>an_id = ''b'', an_tool = ''t'', an_params = JObj [], an_depends_on = [''c''], an_idempotency_key = ''k''\<rparr>,
      \<lparr>an_id = ''c'', an_tool = ''t'', an_params = JObj [], an_depends_on = [''a''], an_idempotency_key = ''k''\<rparr>]\<rparr>
   = Throw (DependencyCycle ''a'')"
  by code_simp

subsection \<open>The idempotency key\<close>

lemma sort_key_perm:
  assumes "mset ps = mset qs" "distinct (map f qs)"
  shows "sort_key f ps = sort_key f qs"
proof (rule sort_key_inj_key_eq)
  have "set ps = set qs" using assms(1) by (metis set_mset_mset)
  then show "inj_on f (set ps)" using assms(2) by (simp add: distinct_map)
qed (use assms(1) in auto)

lemma sortValue_key_order:
  assumes "mset ps = mset qs" "distinct (map fst ps)"
  shows "sortValue (JObj ps) = sortValue (JObj qs)"
proof -
  let ?f = "\<lambda>(k::string, v). (k, sortValue v)"
  have "mset (map ?f ps) = mset (map ?f qs)" using assms(1) by simp
  moreover have "mset (map fst ps) = mset (map fst qs)" using assms(1) by simp
  then have "distinct (map fst qs)" using assms(2) by (metis mset_eq_imp_distinct_iff)
  then have "distinct (map fst (map ?f qs))" by (simp add: comp_def case_prod_beta)
  ultimately show ?thesis by (simp add: sort_key_perm)
qed

lemma buildActionGraph_valid:
  "buildActionGraph num sha acts m s = Ok g \<Longrightarrow> validateActionGraph g = Ok ()"
  by (auto simp: buildActionGraph_def res_bind_Ok_iff Let_def)

end
