(* ===== verification/TaskStore.thy ===== *)
theory TaskStore
  imports JsValue Workflow
begin

text \<open>
  Projects, tasks and task relationships as rows (schema.ts), who may see a task
  (task-visibility.ts), the reservation of task numbers (task-numbering.ts), the construction of a
  task in a transaction (native-task-create.ts) and the identifiers people type for a task
  (agent-actions.ts).  Columns that no operation here reads are left out.
\<close>

subsection \<open>Rows\<close>

datatype rel_type = Blocks | BlockedBy | RelatesTo | Duplicates

record project_row =
  pj_id :: string
  pj_org :: string
  pj_prefix :: string
  pj_lead :: "string option"
  pj_counter :: int

record task_row =
  t_id :: string
  t_org :: string
  t_project :: string
  t_number :: int
  t_title :: string
  t_status :: string
  t_priority :: string
  t_assignee :: "string option"
  t_created_by :: string
  t_parent :: "string option"
  t_metadata :: jsv

record rel_row =
  rel_id :: string
  rel_source :: string
  rel_target :: string
  rel_kind :: rel_type

record task_db =
  td_projects :: "project_row list"
  td_tasks :: "task_row list"
  td_rels :: "rel_row list"
  td_watchers :: "(string \<times> string) list"
  td_assignees :: "(string \<times> string) list"
  td_activity :: "(string \<times> string) list"

datatype task_error =
    BadCount
  | ProjectNotFound
  | IntegerOutOfRange
  | UniqueViolation
  | ForeignKeyViolation
  | TaskTitleRequired
  | SubtasksNotAList
  | TooManySubtasks
  | SubtaskNotAnObject nat
  | SubtaskTitleRequired nat
  | NestedSubtasks
  | DependsOnNotNumbers nat
  | DependsOnLater nat
  | AmbiguousAssignee string
  | AssigneeNotFound string
  | SourceNotAccessible

definition task_ids :: "task_db \<Rightarrow> string set" where
  "task_ids db = t_id ` set (td_tasks db)"

subsection \<open>Visibility\<close>

text \<open>\<open>coalesce(metadata->>'visibility', 'org') != 'restricted'\<close>.\<close>

definition unrestrictedTaskCondition :: "task_row \<Rightarrow> bool" where
  "unrestrictedTaskCondition t \<longleftrightarrow> js_prop_of (t_metadata t) ''visibility'' \<noteq> JStr ''restricted''"

text \<open>The \<open>?\<close> operator of jsonb: a key of an object, an element of an array, or the string itself.\<close>

fun jsonb_has :: "jsv \<Rightarrow> string \<Rightarrow> bool" where
  "jsonb_has (JObj ps) k = (k \<in> fst ` set ps)"
| "jsonb_has (JArr vs) k = (JStr k \<in> set vs)"
| "jsonb_has (JStr s) k = (s = k)"
| "jsonb_has _ k = False"

definition visibleTaskCondition :: "task_db \<Rightarrow> string \<Rightarrow> project_row \<Rightarrow> task_row \<Rightarrow> bool" where
  "visibleTaskCondition db userId p t \<longleftrightarrow>
     unrestrictedTaskCondition t
     \<or> t_assignee t = Some userId
     \<or> t_created_by t = userId
     \<or> pj_lead p = Some userId
     \<or> jsonb_has (js_prop_of (t_metadata t) ''visible_user_ids'') userId
     \<or> (t_id t, userId) \<in> set (td_watchers db)
     \<or> (t_id t, userId) \<in> set (td_assignees db)"

definition project_of :: "task_db \<Rightarrow> string \<Rightarrow> project_row option" where
  "project_of db p = List.find (\<lambda>r. pj_id r = p) (td_projects db)"

definition getVisibleTaskForOrg :: "task_db \<Rightarrow> string \<Rightarrow> string \<Rightarrow> string \<Rightarrow> task_row option" where
  "getVisibleTaskForOrg db taskId orgId userId = List.find
     (\<lambda>t. t_id t = taskId \<and> t_org t = orgId
        \<and> (case project_of db (t_project t) of None \<Rightarrow> False
           | Some p \<Rightarrow> visibleTaskCondition db userId p t)) (td_tasks db)"

subsection \<open>Inserting rows\<close>

text \<open>
  \<open>INSERT INTO tasks\<close> with the constraints of the table: the primary key, the unique index on
  project and number, and the references to the project and to the parent task.
\<close>

definition insert_task :: "task_row \<Rightarrow> task_db \<Rightarrow> task_error + task_db" where
  "insert_task t db =
     (if t_id t \<in> task_ids db then Throw UniqueViolation
      else if \<exists>u \<in> set (td_tasks db). t_project u = t_project t \<and> t_number u = t_number t
      then Throw UniqueViolation
      else if project_of db (t_project t) = None then Throw ForeignKeyViolation
      else if (case t_parent t of None \<Rightarrow> False | Some p \<Rightarrow> p \<notin> task_ids db) then Throw ForeignKeyViolation
      else Ok (db\<lparr>td_tasks := td_tasks db @ [t]\<rparr>))"

definition insert_rel :: "rel_row \<Rightarrow> task_db \<Rightarrow> task_error + task_db" where
  "insert_rel r db =
     (if rel_id r \<in> rel_id ` set (td_rels db) then Throw UniqueViolation
      else if rel_source r \<notin> task_ids db \<or> rel_target r \<notin> task_ids db then Throw ForeignKeyViolation
      else Ok (db\<lparr>td_rels := td_rels db @ [r]\<rparr>))"

subsection \<open>Numbers\<close>

text \<open>\<open>SELECT COALESCE(MAX(number), 0) FROM tasks WHERE project_id = ...\<close>.\<close>

definition max_number :: "task_db \<Rightarrow> string \<Rightarrow> int" where
  "max_number db p = (case map t_number (filter (\<lambda>t. t_project t = p) (td_tasks db)) of
       [] \<Rightarrow> 0 | n # ns \<Rightarrow> foldl max n ns)"

definition max_int4 :: int where
  "max_int4 = 2147483647"

definition rat_is_int :: "rat \<Rightarrow> bool" where
  "rat_is_int q \<longleftrightarrow> snd (quotient_of q) = 1"

text \<open>
  One \<open>UPDATE ... RETURNING task_counter\<close>: the counter is first repaired to the largest number in
  use, then advanced.  The column is a 32-bit integer; the statement fails when it does not fit.
\<close>

definition reserveTaskNumberRange ::
    "string \<Rightarrow> string \<Rightarrow> rat option \<Rightarrow> task_db \<Rightarrow> task_error + (int \<times> int) \<times> task_db" where
  "reserveTaskNumberRange projectId orgId count_param db =
     (let count = (case count_param of None \<Rightarrow> 1 | Some c \<Rightarrow> c) in
      if \<not> rat_is_int count \<or> count < 1 then Throw BadCount
      else let n = fst (quotient_of count) in
        (case List.find (\<lambda>p. pj_id p = projectId \<and> pj_org p = orgId) (td_projects db) of
           None \<Rightarrow> Throw ProjectNotFound
         | Some p \<Rightarrow>
             (let lastNumber = max (pj_counter p) (max_number db projectId) + n in
              if lastNumber > max_int4 then Throw IntegerOutOfRange
              else Ok ((lastNumber - n + 1, lastNumber),
                 db\<lparr>td_projects := map (\<lambda>q. if pj_id q = projectId \<and> pj_org q = orgId
                      then q\<lparr>pj_counter := lastNumber\<rparr> else q) (td_projects db)\<rparr>))))"

definition reserveNextTaskNumber :: "string \<Rightarrow> string \<Rightarrow> task_db \<Rightarrow> task_error + int \<times> task_db" where
  "reserveNextTaskNumber projectId orgId db =
     (case reserveTaskNumberRange projectId orgId None db of
        Inl e \<Rightarrow> Inl e | Inr ((first, lastNumber), db') \<Rightarrow> Ok (lastNumber, db'))"

text \<open>The largest number of a project's tasks in the organisation, \<open>None\<close> when it has none.\<close>

definition existing_max :: "string \<Rightarrow> task_db \<Rightarrow> project_row \<Rightarrow> int option" where
  "existing_max orgId db p =
     (case filter (\<lambda>t. t_org t = orgId \<and> t_project t = pj_id p) (td_tasks db) of
        [] \<Rightarrow> None | t # ts \<Rightarrow> Some (foldl max (t_number t) (map t_number ts)))"

definition stale_counter :: "string \<Rightarrow> task_db \<Rightarrow> project_row \<Rightarrow> bool" where
  "stale_counter orgId db p \<longleftrightarrow> pj_org p = orgId
     \<and> (case existing_max orgId db p of None \<Rightarrow> False | Some m \<Rightarrow> pj_counter p < m)"

definition repair_counter :: "string \<Rightarrow> task_db \<Rightarrow> project_row \<Rightarrow> project_row" where
  "repair_counter orgId db p = (if stale_counter orgId db p
     then p\<lparr>pj_counter := max (pj_counter p) (the (existing_max orgId db p))\<rparr> else p)"

definition reconcileProjectTaskCountersForOrg :: "string \<Rightarrow> task_db \<Rightarrow> (string \<times> int) list \<times> task_db" where
  "reconcileProjectTaskCountersForOrg orgId db =
     (map (\<lambda>p. (pj_id p, pj_counter (repair_counter orgId db p)))
        (filter (stale_counter orgId db) (td_projects db)),
      db\<lparr>td_projects := map (repair_counter orgId db) (td_projects db)\<rparr>)"

lemma repair_counter_simps [simp]:
  "pj_id (repair_counter orgId db p) = pj_id p" "pj_org (repair_counter orgId db p) = pj_org p"
  "pj_prefix (repair_counter orgId db p) = pj_prefix p" "pj_counter p \<le> pj_counter (repair_counter orgId db p)"
  by (simp_all add: repair_counter_def)

text \<open>\<open>createNativeTask\<close> runs in the caller's transaction: an error leaves the store unchanged.\<close>

record native_task_input =
  nt_org :: string
  nt_project :: string
  nt_user :: string
  nt_title :: string
  nt_status :: "string option"
  nt_priority :: "string option"
  nt_assignee :: "string option"
  nt_parent :: "string option"
  nt_metadata :: jsv

text \<open>\<open>a || b\<close> on optional strings: the empty string counts as absent.\<close>

fun or_else :: "string option \<Rightarrow> string \<Rightarrow> string" where
  "or_else None d = d"
| "or_else (Some s) d = (if s = [] then d else s)"

fun non_empty :: "string option \<Rightarrow> string option" where
  "non_empty None = None"
| "non_empty (Some s) = (if s = [] then None else Some s)"

definition createNativeTask :: "string \<Rightarrow> native_task_input \<Rightarrow> task_db \<Rightarrow> task_error + task_row \<times> task_db" where
  "createNativeTask fresh inp db =
     res_bind (reserveNextTaskNumber (nt_project inp) (nt_org inp) db) (\<lambda>(number, db1).
       let t = \<lparr>t_id = fresh, t_org = nt_org inp, t_project = nt_project inp, t_number = number,
            t_title = nt_title inp, t_status = or_else (nt_status inp) ''backlog'',
            t_priority = or_else (nt_priority inp) ''p2'', t_assignee = nt_assignee inp,
            t_created_by = nt_user inp, t_parent = non_empty (nt_parent inp), t_metadata = nt_metadata inp\<rparr>
       in res_bind (insert_task t db1) (\<lambda>db2.
            Ok (t, db2\<lparr>td_activity := td_activity db2 @ [(fresh, ''created'')]\<rparr>)))"

subsection \<open>Identifiers\<close>

text \<open>
  \<open>s !== s.toUpperCase()\<close>: a code unit below 256 is changed by \<open>toUpperCase\<close> when it is a lower
  case letter, the sharp s, the micro sign or y with diaeresis.
\<close>

definition upper_fixed :: "char \<Rightarrow> bool" where
  "upper_fixed c \<longleftrightarrow> (let n = code_unit c in
     \<not> (97 \<le> n \<and> n \<le> 122) \<and> \<not> (223 \<le> n \<and> n \<noteq> 247) \<and> n \<noteq> 181)"

fun last_index_of :: "char \<Rightarrow> string \<Rightarrow> nat option" where
  "last_index_of d [] = None"
| "last_index_of d (c # s) = (case last_index_of d s of Some i \<Rightarrow> Some (Suc i)
     | None \<Rightarrow> if c = d then Some 0 else None)"

definition parseProjectTaskIdentifier :: "string \<Rightarrow> (string \<times> int) option" where
  "parseProjectTaskIdentifier identifier =
     (case last_index_of (CHR ''-'') identifier of
        None \<Rightarrow> None
      | Some separator \<Rightarrow>
          if separator < 1 then None
          else let prefix = take separator identifier; suffix = drop (separator + 1) identifier in
            if suffix = [] \<or> \<not> list_all js_is_digit suffix \<or> \<not> list_all upper_fixed prefix
               \<or> (\<not> (2 \<le> length prefix \<and> length prefix \<le> 6)
                  \<and> \<not> (prefix \<noteq> [] \<and> list_all js_is_upper prefix))
            then None
            else let number = int (digits_value suffix) in
              if number \<le> max_int4 then Some (prefix, number) else None)"

definition resolveTaskIdentifier :: "string \<Rightarrow> string \<Rightarrow> task_db \<Rightarrow> string option" where
  "resolveTaskIdentifier identifier orgId db =
     (case parseProjectTaskIdentifier identifier of
        Some (prefix, number) \<Rightarrow>
          (case List.find (\<lambda>p. pj_org p = orgId \<and> pj_prefix p = prefix) (td_projects db) of
             None \<Rightarrow> None
           | Some proj \<Rightarrow> map_option t_id
               (List.find (\<lambda>t. t_project t = pj_id proj \<and> t_number t = number) (td_tasks db)))
      | None \<Rightarrow> map_option t_id (List.find (\<lambda>t. t_id t = identifier \<and> t_org t = orgId) (td_tasks db)))"

text \<open>The identifier that is shown for a task.\<close>

definition task_identifier :: "string \<Rightarrow> int \<Rightarrow> string" where
  "task_identifier prefix number = prefix @ ''-'' @ int_to_string number"

end
