(* ===== verification/TaskGraph.thy ===== *)
theory TaskGraph
  imports TaskStore
begin

text \<open>
  The graph of \<open>blocks\<close> relationships between tasks: the breadth-first cycle check
  (task-dependency.ts) and the operations that add and remove relationships (the dependency routes
  of routes/tasks.ts, the add_dependency and remove_dependency tools of agent-actions.ts).
\<close>

subsection \<open>The cycle check\<close>

definition MAX_NODES :: nat where
  "MAX_NODES = 1000"

text \<open>The rows of one query: the targets of the stored \<open>blocks\<close> edges of a task of the organisation.\<close>

definition blocks_targets :: "task_db \<Rightarrow> string \<Rightarrow> string \<Rightarrow> string list" where
  "blocks_targets db orgId current = map rel_target (filter
     (\<lambda>r. rel_source r = current \<and> rel_kind r = Blocks
        \<and> (\<exists>t \<in> set (td_tasks db). t_id t = rel_source r \<and> t_org t = orgId)) (td_rels db))"

text \<open>One row after another: \<open>None\<close> when the row closes the cycle.\<close>

fun scan_rows :: "string \<Rightarrow> string list \<Rightarrow> string list \<Rightarrow> string list \<Rightarrow> (string list \<times> string list) option" where
  "scan_rows fromId visited queue [] = Some (visited, queue)"
| "scan_rows fromId visited queue (n # ns) =
     (if n = fromId then None
      else if n \<in> set visited then scan_rows fromId visited queue ns
      else scan_rows fromId (n # visited) (queue @ [n]) ns)"

lemma scan_rows_grows:
  "scan_rows fromId visited queue ns = Some (v, q) \<Longrightarrow>
     length visited < length v \<or> (v = visited \<and> q = queue)"
  by (induction fromId visited queue ns rule: scan_rows.induct) (auto split: if_splits)

text \<open>The loop ends on every graph: a round either visits a new node, of which there are at most
  1001, or shortens the queue.\<close>

function bfs :: "(string \<Rightarrow> string list) \<Rightarrow> string \<Rightarrow> string list \<Rightarrow> string list \<Rightarrow> bool" where
  "bfs nexts fromId visited [] = False"
| "bfs nexts fromId visited (current # queue) =
     (if length visited \<le> MAX_NODES
      then (case scan_rows fromId visited queue (nexts current) of
              None \<Rightarrow> True
            | Some (visited', queue') \<Rightarrow> bfs nexts fromId visited' queue')
      else False)"
  by pat_completeness auto

termination
  by (relation "measures [\<lambda>(nexts, fromId, visited, queue). Suc MAX_NODES - length visited,
      \<lambda>(nexts, fromId, visited, queue). length queue]")
    (auto dest!: scan_rows_grows)

definition detectBlocksCycle :: "task_db \<Rightarrow> string \<Rightarrow> string \<Rightarrow> string \<Rightarrow> bool" where
  "detectBlocksCycle db fromId toId orgId =
     (if fromId = toId then True else bfs (blocks_targets db orgId) fromId [toId] [toId])"

subsection \<open>Adding and removing relationships\<close>

datatype dep_error =
    DepInvalidInput
  | DepNotFound
  | DepTargetNotFound
  | DepSelf
  | DepCycle
  | DepExists
  | DepMissing
  | DepInternal

text \<open>\<open>blocked_by\<close> is stored as \<open>blocks\<close> with the ends swapped.\<close>

fun normalize_dep :: "rel_type \<Rightarrow> string \<Rightarrow> string \<Rightarrow> string \<times> string \<times> rel_type" where
  "normalize_dep BlockedBy a b = (b, a, Blocks)"
| "normalize_dep k a b = (a, b, k)"

text \<open>The guard that both entry points share, and the insert that follows it.\<close>

definition dep_guard :: "task_db \<Rightarrow> string \<Rightarrow> string \<times> string \<times> rel_type \<Rightarrow> bool" where
  "dep_guard db orgId e = (case e of (s, t, k) \<Rightarrow> k = Blocks \<longrightarrow> \<not> detectBlocksCycle db s t orgId)"

definition dep_insert :: "string \<Rightarrow> string \<times> string \<times> rel_type \<Rightarrow> task_db \<Rightarrow> dep_error + rel_row \<times> task_db" where
  "dep_insert fresh e db = (case e of (s, t, k) \<Rightarrow>
     (let r = \<lparr>rel_id = fresh, rel_source = s, rel_target = t, rel_kind = k\<rparr>
      in case insert_rel r db of
           Inr db' \<Rightarrow> Ok (r, db')
         | Inl UniqueViolation \<Rightarrow> Throw DepExists
         | Inl _ \<Rightarrow> Throw DepInternal))"

text \<open>\<open>POST /api/tasks/:id/dependencies\<close>.\<close>

definition dependency_route ::
    "string \<Rightarrow> string \<Rightarrow> string \<Rightarrow> string \<Rightarrow> string \<Rightarrow> rel_type \<Rightarrow> task_db \<Rightarrow> dep_error + rel_row \<times> task_db" where
  "dependency_route fresh orgId userId taskId target rtype db =
     (if target = [] then Throw DepInvalidInput
      else if getVisibleTaskForOrg db taskId orgId userId = None then Throw DepNotFound
      else if getVisibleTaskForOrg db target orgId userId = None then Throw DepTargetNotFound
      else if taskId = target then Throw DepSelf
      else let e = normalize_dep rtype taskId target in
        if dep_guard db orgId e then dep_insert fresh e db else Throw DepCycle)"

text \<open>\<open>DELETE /api/tasks/:id/dependencies/:relationId\<close>.\<close>

definition dependency_delete_route ::
    "string \<Rightarrow> string \<Rightarrow> string \<Rightarrow> string \<Rightarrow> task_db \<Rightarrow> dep_error + task_db" where
  "dependency_delete_route orgId userId taskId relationId db =
     (if getVisibleTaskForOrg db taskId orgId userId = None then Throw DepNotFound
      else let hit = (\<lambda>r. rel_id r = relationId \<and> (rel_source r = taskId \<or> rel_target r = taskId)) in
        if filter hit (td_rels db) = [] then Throw DepMissing
        else Ok (db\<lparr>td_rels := filter (\<lambda>r. \<not> hit r) (td_rels db)\<rparr>))"

fun rel_type_of :: "string \<Rightarrow> rel_type option" where
  "rel_type_of s = (if s = ''blocks'' then Some Blocks else if s = ''blocked_by'' then Some BlockedBy
     else if s = ''relates_to'' then Some RelatesTo else if s = ''duplicates'' then Some Duplicates
     else None)"

text \<open>The add_dependency and remove_dependency tools.\<close>

definition add_dependency ::
    "string \<Rightarrow> string \<Rightarrow> string \<Rightarrow> string \<Rightarrow> string \<Rightarrow> task_db \<Rightarrow> dep_error + rel_row \<times> task_db" where
  "add_dependency fresh orgId source target rtype db =
     (case resolveTaskIdentifier source orgId db of
        None \<Rightarrow> Throw DepNotFound
      | Some sourceId \<Rightarrow>
          (case resolveTaskIdentifier target orgId db of
             None \<Rightarrow> Throw DepTargetNotFound
           | Some targetId \<Rightarrow>
               if sourceId = targetId then Throw DepSelf
               else (case rel_type_of rtype of
                  None \<Rightarrow> Throw DepInvalidInput
                | Some k \<Rightarrow>
                    let e = normalize_dep k sourceId targetId in
                    if dep_guard db orgId e then dep_insert fresh e db else Throw DepCycle)))"

definition remove_dependency ::
    "string \<Rightarrow> string \<Rightarrow> string \<Rightarrow> string \<Rightarrow> task_db \<Rightarrow> dep_error + task_db" where
  "remove_dependency orgId source target rtype db =
     (case resolveTaskIdentifier source orgId db of
        None \<Rightarrow> Throw DepNotFound
      | Some sourceId \<Rightarrow>
          (case resolveTaskIdentifier target orgId db of
             None \<Rightarrow> Throw DepTargetNotFound
           | Some targetId \<Rightarrow>
               (case rel_type_of rtype of
                  None \<Rightarrow> Throw DepInvalidInput
                | Some k \<Rightarrow>
                    (case normalize_dep k sourceId targetId of (s, t, k') \<Rightarrow>
                       let hit = (\<lambda>r. rel_source r = s \<and> rel_target r = t \<and> rel_kind r = k') in
                       if filter hit (td_rels db) = [] then Throw DepMissing
                       else Ok (db\<lparr>td_rels := filter (\<lambda>r. \<not> hit r) (td_rels db)\<rparr>)))))"

subsection \<open>Correctness of the search\<close>

lemma scan_rows_None: "scan_rows f vis q ns = None \<Longrightarrow> f \<in> set ns"
  by (induction f vis q ns rule: scan_rows.induct) (auto split: if_splits)

lemma scan_rows_Some:
  "scan_rows f vis q ns = Some (v, q') \<Longrightarrow>
     set v = set vis \<union> set ns \<and> set q' = set q \<union> (set ns - set vis) \<and> f \<notin> set ns
     \<and> (distinct vis \<longrightarrow> distinct v)"
proof (induction f vis q ns arbitrary: v q' rule: scan_rows.induct)
  case (2 f vis q n ns)
  have f: "n \<noteq> f" using 2(3) by auto
  show ?case
  proof (cases "n \<in> set vis")
    case True
    then have "scan_rows f vis q ns = Some (v, q')" using 2(3) f by simp
    from 2(1)[OF f True this] f True show ?thesis by auto
  next
    case False
    then have "scan_rows f (n # vis) (q @ [n]) ns = Some (v, q')" using 2(3) f by simp
    from 2(2)[OF f False this] f False show ?thesis by auto
  qed
qed simp

lemma bfs_sound: "bfs nexts f vis q \<Longrightarrow> \<exists>x \<in> set q. (x, f) \<in> (step_rel nexts)\<^sup>+"
proof (induction nexts f vis q rule: bfs.induct)
  case (2 nexts f vis c q)
  show ?case
  proof (cases "scan_rows f vis q (nexts c)")
    case None
    then have "(c, f) \<in> step_rel nexts" unfolding step_rel_iff by (rule scan_rows_None)
    then show ?thesis by (intro bexI[of _ c]) simp_all
  next
    case (Some vq)
    then obtain v q' where vq: "scan_rows f vis q (nexts c) = Some (v, q')" by (cases vq) auto
    have len: "length vis \<le> MAX_NODES" and rec: "bfs nexts f v q'"
      using 2(2) vq unfolding bfs.simps by (simp_all split: if_splits)
    obtain x where x: "x \<in> set q'" "(x, f) \<in> (step_rel nexts)\<^sup>+"
      using 2(1)[OF len vq refl rec] by blast
    have "x \<in> set q \<or> x \<in> set (nexts c)" using scan_rows_Some[OF vq] x(1) by auto
    then show ?thesis
    proof
      assume "x \<in> set (nexts c)"
      then have "(c, x) \<in> step_rel nexts" by (simp add: step_rel_iff)
      then have "(c, f) \<in> (step_rel nexts)\<^sup>+" using x(2) by (rule trancl_into_trancl2)
      then show ?thesis by simp
    qed (use x(2) in \<open>auto intro: bexI[of _ x]\<close>)
  qed
qed simp

text \<open>The set that the search explores: closed apart from the queue.\<close>

definition explored :: "(string \<Rightarrow> string list) \<Rightarrow> string \<Rightarrow> string list \<Rightarrow> string list \<Rightarrow> bool" where
  "explored nexts f vis q \<longleftrightarrow> f \<notin> set vis \<and> set q \<subseteq> set vis \<and> distinct vis
     \<and> (\<forall>v \<in> set vis - set q. set (nexts v) \<subseteq> set vis)"

lemma explored_round:
  assumes "explored nexts f vis (c # q)" "scan_rows f vis q (nexts c) = Some (v, q')"
  shows "explored nexts f v q'"
proof -
  note s = scan_rows_Some[OF assms(2)]
  have "set (nexts w) \<subseteq> set v" if "w \<in> set v - set q'" for w
  proof (cases "w = c")
    case False
    then have "w \<in> set vis - set (c # q)" using that s by auto
    then show ?thesis using assms(1) s by (auto simp: explored_def)
  qed (use s in auto)
  then show ?thesis using assms(1) s by (auto simp: explored_def)
qed

lemma bfs_complete:
  "\<not> bfs nexts f vis q \<Longrightarrow> explored nexts f vis q \<Longrightarrow> set vis \<subseteq> R \<Longrightarrow> finite R \<Longrightarrow> card R \<le> MAX_NODES
   \<Longrightarrow> (\<And>x. x \<in> R \<Longrightarrow> set (nexts x) \<subseteq> R)
   \<Longrightarrow> \<exists>C. set vis \<subseteq> C \<and> f \<notin> C \<and> (\<forall>x \<in> C. set (nexts x) \<subseteq> C)"
proof (induction nexts f vis q rule: bfs.induct)
  case (1 nexts f vis)
  then show ?case by (intro exI[of _ "set vis"]) (auto simp: explored_def)
next
  case (2 nexts f vis c q)
  have "distinct vis" using 2(3) by (simp add: explored_def)
  then have "length vis \<le> MAX_NODES"
    using card_mono[OF 2(5) 2(4)] 2(6) by (simp add: distinct_card)
  with 2(2) obtain v q' where vq: "scan_rows f vis q (nexts c) = Some (v, q')" "\<not> bfs nexts f v q'"
    by (auto split: option.splits)
  note s = scan_rows_Some[OF vq(1)]
  have "c \<in> R" using 2(3,4) by (auto simp: explored_def)
  then have "set v \<subseteq> R" using s 2(4) 2(7) by auto
  then obtain C where "set v \<subseteq> C" "f \<notin> C" "\<forall>x \<in> C. set (nexts x) \<subseteq> C"
    using 2(1)[OF \<open>length vis \<le> MAX_NODES\<close> vq(1) refl vq(2) explored_round[OF 2(3) vq(1)] _ 2(5,6,7)]
    by auto
  then show ?case using s by (intro exI[of _ C]) auto
qed

lemma closed_reach: "(x, y) \<in> (step_rel nexts)\<^sup>* \<Longrightarrow> \<forall>x \<in> C. set (nexts x) \<subseteq> C \<Longrightarrow> x \<in> C \<Longrightarrow> y \<in> C"
  by (induction rule: rtrancl_induct) (auto simp: step_rel_iff)

definition reachable_from :: "(string \<Rightarrow> string list) \<Rightarrow> string \<Rightarrow> string set" where
  "reachable_from nexts x = {y. (x, y) \<in> (step_rel nexts)\<^sup>*}"

lemma finite_reachable_from: "finite (reachable_from (blocks_targets db o') x)"
proof (rule finite_subset)
  show "reachable_from (blocks_targets db o') x \<subseteq> insert x (rel_target ` set (td_rels db))"
  proof
    fix y assume "y \<in> reachable_from (blocks_targets db o') x"
    then have "(x, y) \<in> (step_rel (blocks_targets db o'))\<^sup>*" by (simp add: reachable_from_def)
    then show "y \<in> insert x (rel_target ` set (td_rels db))"
      by (cases rule: rtranclE) (auto simp: step_rel_iff blocks_targets_def)
  qed
qed simp

lemma detectBlocksCycle_sound:
  "detectBlocksCycle db f t o' \<Longrightarrow> (t, f) \<in> (step_rel (blocks_targets db o'))\<^sup>*"
  using bfs_sound[of "blocks_targets db o'" f "[t]" "[t]"]
  by (auto simp: detectBlocksCycle_def split: if_splits dest: trancl_into_rtrancl)

lemma detectBlocksCycle_complete:
  assumes "card (reachable_from (blocks_targets db o') t) \<le> MAX_NODES"
    and "(t, f) \<in> (step_rel (blocks_targets db o'))\<^sup>*"
  shows "detectBlocksCycle db f t o'"
proof (rule ccontr)
  let ?n = "blocks_targets db o'"
  assume "\<not> detectBlocksCycle db f t o'"
  then have ne: "f \<noteq> t" and b: "\<not> bfs ?n f [t] [t]" by (auto simp: detectBlocksCycle_def split: if_splits)
  have "explored ?n f [t] [t]" using ne by (simp add: explored_def)
  moreover have "set [t] \<subseteq> reachable_from ?n t" by (simp add: reachable_from_def)
  moreover have "set (?n x) \<subseteq> reachable_from ?n t" if "x \<in> reachable_from ?n t" for x
    using that by (auto simp: reachable_from_def step_rel_iff intro: rtrancl_into_rtrancl)
  ultimately obtain C where "set [t] \<subseteq> C" "f \<notin> C" "\<forall>x \<in> C. set (?n x) \<subseteq> C"
    using bfs_complete[OF b _ _ finite_reachable_from assms(1)] by blast
  then show False using closed_reach[OF assms(2)] by auto
qed

text \<open>C18. The cycle check is reachability: while at most 1000 tasks can be reached from the new target along
  the blocks edges of tasks of the organisation, it answers that the edge closes a cycle exactly
  when the source is one of them.\<close>
theorem cycle_check_is_reachability:
  assumes "card (reachable_from (blocks_targets db orgId) toId) \<le> 1000"
  shows "detectBlocksCycle db fromId toId orgId \<longleftrightarrow> fromId \<in> reachable_from (blocks_targets db orgId) toId"
  using detectBlocksCycle_sound[of db fromId toId orgId]
    detectBlocksCycle_complete[of db orgId toId fromId] assms
  by (auto simp: reachable_from_def MAX_NODES_def)

end
