(* ===== verification/TaskBundle.thy ===== *)
theory TaskBundle
  imports TaskGraph
begin

text \<open>
  A parent task with its subtasks, created in one transaction (task-bundle.ts), and the lookup of an
  assignee by id or name (resolve-assignee.ts).
\<close>

subsection \<open>Assignees\<close>

record org_user =
  ou_id :: string
  ou_name :: string
  ou_is_agent :: bool

record org_member =
  om_user :: string
  om_org :: string
  om_active :: bool

record agent_employee =
  ae_user :: string
  ae_org :: string
  ae_active :: bool
  ae_deleted :: bool
  ae_unhealthy :: bool

record assignee_db =
  as_users :: "org_user list"
  as_members :: "org_member list"
  as_employees :: "agent_employee list"

datatype 'a lookup = Found 'a | NotFound | Ambiguous "'a list"

definition assignee_candidates :: "assignee_db \<Rightarrow> string \<Rightarrow> org_user list" where
  "assignee_candidates adb orgId = filter (\<lambda>u.
       (\<exists>m \<in> set (as_members adb). om_user m = ou_id u \<and> om_org m = orgId \<and> om_active m)
     \<or> (\<exists>e \<in> set (as_employees adb). ae_user e = ou_id u \<and> ae_org e = orgId
          \<and> ae_active e \<and> \<not> ae_deleted e \<and> \<not> ae_unhealthy e)) (as_users adb)"

text \<open>
  \<open>normalize('NFKD')\<close> followed by the removal of combining marks, on the code units below 256: an
  accented letter loses its accent, a superscript or ordinal becomes its base, a spacing mark and
  the no-break space become a space.  (The micro sign and the three fractions, whose
  decompositions use wider code units, stay as they are.)
\<close>

definition strip_accent :: "char \<Rightarrow> char" where
  "strip_accent c = (let n = code_unit c in
     if n \<in> {160, 168, 175, 180, 184} then CHR '' ''
     else if n = 170 then CHR ''a'' else if n = 186 then CHR ''o''
     else if n = 178 then CHR ''2'' else if n = 179 then CHR ''3'' else if n = 185 then CHR ''1''
     else if 192 \<le> n \<and> n \<le> 197 then CHR ''A'' else if n = 199 then CHR ''C''
     else if 200 \<le> n \<and> n \<le> 203 then CHR ''E'' else if 204 \<le> n \<and> n \<le> 207 then CHR ''I''
     else if n = 209 then CHR ''N'' else if 210 \<le> n \<and> n \<le> 214 then CHR ''O''
     else if 217 \<le> n \<and> n \<le> 220 then CHR ''U'' else if n = 221 then CHR ''Y''
     else if 224 \<le> n \<and> n \<le> 229 then CHR ''a'' else if n = 231 then CHR ''c''
     else if 232 \<le> n \<and> n \<le> 235 then CHR ''e'' else if 236 \<le> n \<and> n \<le> 239 then CHR ''i''
     else if n = 241 then CHR ''n'' else if 242 \<le> n \<and> n \<le> 246 then CHR ''o''
     else if 249 \<le> n \<and> n \<le> 252 then CHR ''u'' else if n = 253 \<or> n = 255 then CHR ''y''
     else c)"

definition normalizeAssigneeLookup :: "string \<Rightarrow> string" where
  "normalizeAssigneeLookup value = js_lower (map strip_accent value)"

definition resolveAssigneeWithMatches :: "string \<Rightarrow> string \<Rightarrow> assignee_db \<Rightarrow> org_user lookup" where
  "resolveAssigneeWithMatches nameOrId orgId adb =
     (let inp = js_trim nameOrId; candidates = assignee_candidates adb orgId in
      if nameOrId = [] \<or> inp = [] \<or> candidates = [] then NotFound
      else (case List.find (\<lambda>c. ou_id c = inp) candidates of
        Some u \<Rightarrow> Found u
      | None \<Rightarrow>
          (case filter (\<lambda>c. normalizeAssigneeLookup (ou_name c) = normalizeAssigneeLookup inp) candidates of
             [u] \<Rightarrow> Found u
           | u # v # us \<Rightarrow> Ambiguous (u # v # us)
           | [] \<Rightarrow>
               (case filter (\<lambda>c. js_includes (normalizeAssigneeLookup (ou_name c))
                       (normalizeAssigneeLookup inp)) candidates of
                  [u] \<Rightarrow> Found u
                | u # v # us \<Rightarrow> Ambiguous (u # v # us)
                | [] \<Rightarrow> NotFound))))"

subsection \<open>Subtask drafts\<close>

definition MAX_SUBTASKS_PER_DRAFT :: nat where
  "MAX_SUBTASKS_PER_DRAFT = 20"

definition normalizeOptionalString :: "jsv \<Rightarrow> string option" where
  "normalizeOptionalString value = (case value of
       JStr s \<Rightarrow> (let trimmed = js_trim s in if trimmed = [] then None else Some trimmed)
     | _ \<Rightarrow> None)"

definition VALID_PRIORITY :: "string list" where
  "VALID_PRIORITY = [''p0'', ''p1'', ''p2'', ''p3'']"

definition normalizePriority :: "jsv \<Rightarrow> string \<Rightarrow> string" where
  "normalizePriority value fallback = (case value of
       JStr s \<Rightarrow> if s \<in> set VALID_PRIORITY then s else fallback
     | _ \<Rightarrow> fallback)"

fun js_is_integer :: "jsv \<Rightarrow> bool" where
  "js_is_integer (JNum q) = rat_is_int q"
| "js_is_integer _ = False"

fun num_of :: "jsv \<Rightarrow> rat" where
  "num_of (JNum q) = q"
| "num_of _ = 0"

definition validate_depends_on :: "nat \<Rightarrow> jsv \<Rightarrow> task_error + unit" where
  "validate_depends_on index v =
     (if v = JUndefined then Ok ()
      else (case v of
        JArr ds \<Rightarrow>
          if \<exists>d \<in> set ds. \<not> js_is_integer d then Throw (DependsOnNotNumbers (index + 1))
          else if \<exists>d \<in> set ds. num_of d < 1 \<or> num_of d > of_nat index then Throw (DependsOnLater (index + 1))
          else Ok ()
      | _ \<Rightarrow> Throw (DependsOnNotNumbers (index + 1))))"

definition validate_subtask :: "nat \<Rightarrow> jsv \<Rightarrow> task_error + unit" where
  "validate_subtask index subtask =
     (if \<not> js_is_record subtask then Throw (SubtaskNotAnObject (index + 1))
      else if (case js_prop_of subtask ''title'' of JStr s \<Rightarrow> js_trim s = [] | _ \<Rightarrow> True)
      then Throw (SubtaskTitleRequired (index + 1))
      else if js_prop_of subtask ''subtasks'' \<noteq> JUndefined then Throw NestedSubtasks
      else validate_depends_on index (js_prop_of subtask ''depends_on''))"

fun validate_subtasks_from :: "nat \<Rightarrow> jsv list \<Rightarrow> task_error + unit" where
  "validate_subtasks_from index [] = Ok ()"
| "validate_subtasks_from index (s # ss) =
     res_bind (validate_subtask index s) (\<lambda>_. validate_subtasks_from (Suc index) ss)"

definition validateTaskBundleSubtasks :: "jsv \<Rightarrow> task_error + unit" where
  "validateTaskBundleSubtasks subtasks = (case subtasks of
       JUndefined \<Rightarrow> Ok ()
     | JNull \<Rightarrow> Ok ()
     | JArr ss \<Rightarrow> if length ss > MAX_SUBTASKS_PER_DRAFT then Throw TooManySubtasks
         else validate_subtasks_from 0 ss
     | _ \<Rightarrow> Throw SubtasksNotAList)"

record subtask_input =
  si_title :: string
  si_assignee_id :: jsv
  si_assignee_name :: jsv
  si_priority :: jsv
  si_depends_on :: jsv

fun opt_string :: "string option \<Rightarrow> jsv" where
  "opt_string None = JUndefined"
| "opt_string (Some s) = JStr s"

definition subtask_record :: "jsv \<Rightarrow> subtask_input" where
  "subtask_record s = \<lparr>si_title = (case js_prop_of s ''title'' of JStr t \<Rightarrow> js_trim t | _ \<Rightarrow> []),
     si_assignee_id = js_prop_of s ''assignee_id'',
     si_assignee_name = opt_string (normalizeOptionalString (js_prop_of s ''assignee_name'')),
     si_priority = js_prop_of s ''priority'',
     si_depends_on = js_prop_of s ''depends_on''\<rparr>"

definition normalizeSubtaskInputs :: "jsv \<Rightarrow> subtask_input list" where
  "normalizeSubtaskInputs subtasks = (case subtasks of
       JArr ss \<Rightarrow> filter (\<lambda>s. si_title s \<noteq> []) (map subtask_record (take MAX_SUBTASKS_PER_DRAFT ss))
     | _ \<Rightarrow> [])"

record normalized_subtask =
  ns_title :: string
  ns_assignee :: "string option"
  ns_priority :: string
  ns_depends_on :: "rat list"

fun option_or :: "'a option \<Rightarrow> 'a option \<Rightarrow> 'a option" where
  "option_or (Some a) b = Some a"
| "option_or None b = b"

definition subtask_assignee :: "assignee_db \<Rightarrow> string \<Rightarrow> subtask_input \<Rightarrow> task_error + string option" where
  "subtask_assignee adb orgId s =
     (case option_or (normalizeOptionalString (si_assignee_id s)) (normalizeOptionalString (si_assignee_name s)) of
        None \<Rightarrow> Ok None
      | Some l \<Rightarrow> (case resolveAssigneeWithMatches l orgId adb of
            Found u \<Rightarrow> Ok (Some (ou_id u))
          | Ambiguous _ \<Rightarrow> Throw (AmbiguousAssignee l)
          | NotFound \<Rightarrow> Throw (AssigneeNotFound l)))"

fun depends_numbers :: "jsv \<Rightarrow> rat list" where
  "depends_numbers (JArr ds) = js_uniq (map num_of ds)"
| "depends_numbers _ = []"

fun normalizeSubtasksForOrg ::
    "assignee_db \<Rightarrow> string \<Rightarrow> jsv \<Rightarrow> subtask_input list \<Rightarrow> task_error + normalized_subtask list" where
  "normalizeSubtasksForOrg adb orgId inherited [] = Ok []"
| "normalizeSubtasksForOrg adb orgId inherited (s # ss) =
     res_bind (subtask_assignee adb orgId s) (\<lambda>a.
     res_bind (normalizeSubtasksForOrg adb orgId inherited ss) (\<lambda>rest.
       Ok (\<lparr>ns_title = si_title s, ns_assignee = a,
            ns_priority = normalizePriority (si_priority s) (normalizePriority inherited ''p2''),
            ns_depends_on = depends_numbers (si_depends_on s)\<rparr> # rest)))"

subsection \<open>The transaction\<close>

record bundle_params =
  bp_org :: string
  bp_project :: string
  bp_created_by :: string
  bp_title :: string
  bp_priority :: jsv
  bp_assignee :: "string option"
  bp_source_event :: "string option"
  bp_subtasks :: jsv

definition bundle_row :: "bundle_params \<Rightarrow> string \<Rightarrow> int \<Rightarrow> string option \<Rightarrow> string \<Rightarrow> string \<Rightarrow> string option \<Rightarrow> task_row" where
  "bundle_row p fresh number parent title priority assignee =
     \<lparr>t_id = fresh, t_org = bp_org p, t_project = bp_project p, t_number = number, t_title = title,
      t_status = ''backlog'', t_priority = priority, t_assignee = assignee,
      t_created_by = bp_created_by p, t_parent = parent, t_metadata = JNull\<rparr>"

fun insert_children ::
    "bundle_params \<Rightarrow> string \<Rightarrow> (nat \<Rightarrow> string) \<Rightarrow> int \<Rightarrow> nat \<Rightarrow> normalized_subtask list \<Rightarrow> task_db
      \<Rightarrow> task_error + task_row list \<times> task_db" where
  "insert_children p parent fresh first index [] db = Ok ([], db)"
| "insert_children p parent fresh first index (s # ss) db =
     (let t = bundle_row p (fresh (index + 1)) (first + int index + 1) (Some parent)
            (ns_title s) (ns_priority s) (ns_assignee s)
      in res_bind (insert_task t db) (\<lambda>db1.
         res_bind (insert_children p parent fresh first (Suc index) ss db1) (\<lambda>(ts, db2). Ok (t # ts, db2))))"

text \<open>\<open>childRows[dependencyIndex - 1]!.id\<close>: \<open>None\<close> where the index names no row.\<close>

definition child_id :: "task_row list \<Rightarrow> rat \<Rightarrow> string option" where
  "child_id rows d =
     (if rat_is_int d \<and> 1 \<le> d \<and> d \<le> of_nat (length rows)
      then Some (t_id (rows ! nat (fst (quotient_of d) - 1))) else None)"

definition relationship_pairs :: "task_row list \<Rightarrow> normalized_subtask list \<Rightarrow> (string option \<times> string) list" where
  "relationship_pairs rows subtasks = concat (map
     (\<lambda>(index, s). map (\<lambda>d. (child_id rows d, t_id (rows ! index))) (ns_depends_on s))
     (enumerate 0 subtasks))"

fun insert_rels :: "(nat \<Rightarrow> string) \<Rightarrow> nat \<Rightarrow> (string option \<times> string) list \<Rightarrow> task_db \<Rightarrow> task_error + task_db" where
  "insert_rels fresh k [] db = Ok db"
| "insert_rels fresh k ((None, t) # es) db = Throw ForeignKeyViolation"
| "insert_rels fresh k ((Some s, t) # es) db =
     res_bind (insert_rel \<lparr>rel_id = fresh k, rel_source = s, rel_target = t, rel_kind = Blocks\<rparr> db)
       (insert_rels fresh (Suc k) es)"

text \<open>
  \<open>authorized\<close> is the outcome of the final authority check of an agent channel event; every
  error leaves the store as it was, the number reservation included.
\<close>

definition bundle_tx ::
    "(nat \<Rightarrow> string) \<Rightarrow> (nat \<Rightarrow> string) \<Rightarrow> bool \<Rightarrow> bundle_params \<Rightarrow> string \<Rightarrow> normalized_subtask list
      \<Rightarrow> task_db \<Rightarrow> task_error + (task_row \<times> task_row list) \<times> task_db" where
  "bundle_tx fresh fresh_rel authorized p title subtasks db =
     res_bind (reserveTaskNumberRange (bp_project p) (bp_org p) (Some (of_nat (1 + length subtasks))) db)
       (\<lambda>((first, lastNumber), db1).
     (let parent = bundle_row p (fresh 0) first None title (normalizePriority (bp_priority p) ''p2'') (bp_assignee p)
      in res_bind (insert_task parent db1) (\<lambda>db2.
     res_bind (insert_children p (fresh 0) fresh first 0 subtasks db2) (\<lambda>(children, db3).
     res_bind (insert_rels fresh_rel 0 (relationship_pairs children subtasks) db3) (\<lambda>db4.
     (let db5 = db4\<lparr>td_activity := td_activity db4 @ map (\<lambda>t. (t_id t, ''created'')) (parent # children)\<rparr>
      in if bp_source_event p \<noteq> None \<and> \<not> authorized then Throw SourceNotAccessible
         else Ok ((parent, children), db5)))))))"

definition createTaskBundle ::
    "(nat \<Rightarrow> string) \<Rightarrow> (nat \<Rightarrow> string) \<Rightarrow> bool \<Rightarrow> assignee_db \<Rightarrow> bundle_params \<Rightarrow> task_db
      \<Rightarrow> task_error + (task_row \<times> string) list \<times> task_db" where
  "createTaskBundle fresh fresh_rel authorized adb p db =
     (let title = js_trim (bp_title p) in
      if title = [] then Throw TaskTitleRequired
      else (case List.find (\<lambda>r. pj_id r = bp_project p \<and> pj_org r = bp_org p) (td_projects db) of
        None \<Rightarrow> Throw ProjectNotFound
      | Some project \<Rightarrow>
          res_bind (validateTaskBundleSubtasks (bp_subtasks p)) (\<lambda>_.
          res_bind (normalizeSubtasksForOrg adb (bp_org p) (bp_priority p) (normalizeSubtaskInputs (bp_subtasks p)))
            (\<lambda>subtasks.
          res_bind (bundle_tx fresh fresh_rel authorized p title subtasks db) (\<lambda>((parent, children), db').
            Ok (map (\<lambda>t. (t, task_identifier (pj_prefix project) (t_number t))) (parent # children), db'))))))"

end
