(* ===== verification/TaskWorld.thy ===== *)
theory TaskWorld
  imports TaskBundle "HOL-Library.Multiset"
begin

text \<open>
  The operations on projects, tasks and relationships as one step relation, in any interleaving, and
  what they keep: numbers handed out by a reservation stay free until they are used, the \<open>blocks\<close>
  graph stays free of cycles, and an identifier keeps naming its task.
\<close>

subsection \<open>Copies of a task\<close>

text \<open>The next occurrence of a recurring task, and the copy the duplicate route makes (routes/tasks.ts).
  Both reserve their number first and insert the row in a later statement.\<close>

definition recurring_clone :: "string \<Rightarrow> string \<Rightarrow> task_row \<Rightarrow> int \<Rightarrow> task_row" where
  "recurring_clone fresh user t n =
     \<lparr>t_id = fresh, t_org = t_org t, t_project = t_project t, t_number = n, t_title = t_title t,
      t_status = ''todo'', t_priority = t_priority t, t_assignee = t_assignee t,
      t_created_by = user, t_parent = t_parent t, t_metadata = JNull\<rparr>"

definition duplicate_copy :: "string \<Rightarrow> string \<Rightarrow> task_row \<Rightarrow> int \<Rightarrow> task_row" where
  "duplicate_copy fresh user t n =
     \<lparr>t_id = fresh, t_org = t_org t, t_project = t_project t, t_number = n,
      t_title = t_title t @ '' (copy)'', t_status = ''backlog'', t_priority = t_priority t,
      t_assignee = t_assignee t, t_created_by = user, t_parent = None, t_metadata = JNull\<rparr>"

subsection \<open>Steps\<close>

text \<open>A state is the store and the numbers that are reserved but not used yet.\<close>

type_synonym task_world = "task_db \<times> (string \<times> int) multiset"

definition range_numbers :: "string \<Rightarrow> int \<times> int \<Rightarrow> (string \<times> int) multiset" where
  "range_numbers p r = mset (map (\<lambda>n. (p, n)) [fst r..snd r])"

inductive task_step :: "task_world \<Rightarrow> task_world \<Rightarrow> bool" where
  Reserve: "reserveTaskNumberRange p o' c db = Ok (r, db')
    \<Longrightarrow> task_step (db, pend) (db', pend + range_numbers p r)"
| Abandon: "task_step (db, pend) (db, pend - {#x#})"
| Reconcile: "task_step (db, pend) (snd (reconcileProjectTaskCountersForOrg o' db), pend)"
| Recur: "u \<in> set (td_tasks db) \<Longrightarrow> (t_project u, n) \<in> set_mset pend
    \<Longrightarrow> insert_task (recurring_clone fresh user u n) db = Ok db'
    \<Longrightarrow> task_step (db, pend) (db', pend - {#(t_project u, n)#})"
| Duplicate: "u \<in> set (td_tasks db) \<Longrightarrow> (t_project u, n) \<in> set_mset pend
    \<Longrightarrow> insert_task (duplicate_copy fresh user u n) db = Ok db'
    \<Longrightarrow> task_step (db, pend) (db', pend - {#(t_project u, n)#})"
| Native: "createNativeTask fresh inp db = Ok (t, db') \<Longrightarrow> task_step (db, pend) (db', pend)"
| Bundle: "createTaskBundle fresh_task fresh_rel auth adb p db = Ok (ts, db') \<Longrightarrow> task_step (db, pend) (db', pend)"
| RouteAdd: "dependency_route fresh o' user a b k db = Ok (r, db') \<Longrightarrow> task_step (db, pend) (db', pend)"
| RouteRemove: "dependency_delete_route o' user a i db = Ok db' \<Longrightarrow> task_step (db, pend) (db', pend)"
| ToolAdd: "add_dependency fresh o' a b kind db = Ok (r, db') \<Longrightarrow> task_step (db, pend) (db', pend)"
| ToolRemove: "remove_dependency o' a b kind db = Ok db' \<Longrightarrow> task_step (db, pend) (db', pend)"

abbreviation task_run :: "task_world \<Rightarrow> task_world \<Rightarrow> bool" where
  "task_run \<equiv> task_step\<^sup>*\<^sup>*"

subsection \<open>What the primitive operations change\<close>

definition project_keys :: "task_db \<Rightarrow> (string \<times> string \<times> string) list" where
  "project_keys db = map (\<lambda>q. (pj_id q, pj_org q, pj_prefix q)) (td_projects db)"

lemma reserve_Ok:
  assumes "reserveTaskNumberRange p o' c db = Ok (r, db')"
  obtains q where "q \<in> set (td_projects db)" "pj_id q = p" "pj_org q = o'"
    "fst r > max (pj_counter q) (max_number db p)" "fst r \<le> snd r" "snd r \<le> max_int4"
    "db' = db\<lparr>td_projects := map (\<lambda>q. if pj_id q = p \<and> pj_org q = o'
       then q\<lparr>pj_counter := snd r\<rparr> else q) (td_projects db)\<rparr>"
proof -
  define n where "n = fst (quotient_of (case c of None \<Rightarrow> 1 | Some c \<Rightarrow> c))"
  have "rat_is_int (case c of None \<Rightarrow> 1 | Some c \<Rightarrow> c)" and ge: "(case c of None \<Rightarrow> 1 | Some c \<Rightarrow> c) \<ge> 1"
    using assms by (auto simp: reserveTaskNumberRange_def Let_def not_less split: if_splits option.splits)
  then have "(case c of None \<Rightarrow> 1 | Some c \<Rightarrow> c) = of_int n"
    by (metis n_def rat_is_int_def quotient_of_div div_by_1 of_int_1 prod.collapse)
  with ge have "n \<ge> 1" by simp
  with assms show thesis
    by (auto simp: reserveTaskNumberRange_def Let_def n_def[symmetric] split: if_splits option.splits
        dest!: find_Some_set intro!: that)
qed

lemma reserve_keeps:
  assumes "reserveTaskNumberRange p o' c db = Ok (r, db')"
  shows "td_tasks db' = td_tasks db" "td_rels db' = td_rels db"
    "project_keys db' = project_keys db"
  using assms by (auto simp: project_keys_def elim!: reserve_Ok)

lemma reconcile_keeps:
  "td_tasks (snd (reconcileProjectTaskCountersForOrg o' db)) = td_tasks db"
  "td_rels (snd (reconcileProjectTaskCountersForOrg o' db)) = td_rels db"
  "project_keys (snd (reconcileProjectTaskCountersForOrg o' db)) = project_keys db"
  by (auto simp: project_keys_def reconcileProjectTaskCountersForOrg_def Let_def)

lemma insert_task_Ok:
  "insert_task t db = Ok db' \<longleftrightarrow> db' = db\<lparr>td_tasks := td_tasks db @ [t]\<rparr> \<and> t_id t \<notin> task_ids db
     \<and> (\<forall>u \<in> set (td_tasks db). t_project u = t_project t \<longrightarrow> t_number u \<noteq> t_number t)
     \<and> project_of db (t_project t) \<noteq> None \<and> (case t_parent t of None \<Rightarrow> True | Some p \<Rightarrow> p \<in> task_ids db)"
  by (auto simp: insert_task_def split: option.splits)

lemma insert_rel_Ok:
  "insert_rel r db = Ok db' \<longleftrightarrow> db' = db\<lparr>td_rels := td_rels db @ [r]\<rparr>
     \<and> rel_id r \<notin> rel_id ` set (td_rels db) \<and> rel_source r \<in> task_ids db \<and> rel_target r \<in> task_ids db"
  by (auto simp: insert_rel_def)

lemma dep_insert_Ok:
  "dep_insert fresh (s, t, k) db = Ok (r, db') \<longleftrightarrow>
     r = \<lparr>rel_id = fresh, rel_source = s, rel_target = t, rel_kind = k\<rparr> \<and> insert_rel r db = Ok db'"
  by (auto simp: dep_insert_def Let_def split: sum.splits task_error.splits)

subsection \<open>Well-formed stores\<close>

definition homed :: "task_db \<Rightarrow> task_row \<Rightarrow> bool" where
  "homed db t \<longleftrightarrow> (\<exists>p \<in> set (td_projects db). pj_id p = t_project t \<and> pj_org p = t_org t)"

lemma homed_keys: "homed db t \<longleftrightarrow> (\<exists>x. (t_project t, t_org t, x) \<in> set (project_keys db))"
  by (force simp: homed_def project_keys_def)

definition task_in :: "task_db \<Rightarrow> string \<Rightarrow> string \<Rightarrow> bool" where
  "task_in db o' i \<longleftrightarrow> (\<exists>t \<in> set (td_tasks db). t_id t = i \<and> t_org t = o')"

definition same_org_edge :: "task_db \<Rightarrow> rel_row \<Rightarrow> bool" where
  "same_org_edge db r \<longleftrightarrow> rel_source r \<in> task_ids db \<and> rel_target r \<in> task_ids db
     \<and> (rel_kind r = Blocks \<longrightarrow> (\<exists>o'. task_in db o' (rel_source r) \<and> task_in db o' (rel_target r)))"

definition task_wf :: "task_db \<Rightarrow> bool" where
  "task_wf db \<longleftrightarrow> distinct (map pj_id (td_projects db))
     \<and> distinct (map (\<lambda>p. (pj_org p, pj_prefix p)) (td_projects db))
     \<and> distinct (map t_id (td_tasks db))
     \<and> distinct (map (\<lambda>t. (t_project t, t_number t)) (td_tasks db))
     \<and> list_all (\<lambda>p. 0 \<le> pj_counter p) (td_projects db)
     \<and> list_all (homed db) (td_tasks db) \<and> list_all (same_org_edge db) (td_rels db)"

subsection \<open>Bundles refer to earlier subtasks only\<close>

fun deps_bounded :: "nat \<Rightarrow> normalized_subtask list \<Rightarrow> bool" where
  "deps_bounded k [] = True"
| "deps_bounded k (s # ss) =
     ((\<forall>d \<in> set (ns_depends_on s). rat_is_int d \<and> 1 \<le> d \<and> d \<le> of_nat k) \<and> deps_bounded (Suc k) ss)"

lemma validate_subtask_deps:
  "validate_subtask k s = Ok () \<Longrightarrow>
     si_title (subtask_record s) \<noteq> []
     \<and> (\<forall>d \<in> set (depends_numbers (js_prop_of s ''depends_on'')). rat_is_int d \<and> 1 \<le> d \<and> d \<le> of_nat k)"
proof -
  assume ok: "validate_subtask k s = Ok ()"
  then have "validate_depends_on k (js_prop_of s ''depends_on'') = Ok ()"
    by (auto simp: validate_subtask_def split: if_splits)
  then have "\<forall>d \<in> set (depends_numbers (js_prop_of s ''depends_on'')). rat_is_int d \<and> 1 \<le> d \<and> d \<le> of_nat k"
    by (cases "js_prop_of s ''depends_on''") (auto simp: validate_depends_on_def not_less split: if_splits elim!: js_is_integer.elims)
  moreover have "si_title (subtask_record s) \<noteq> []"
    using ok by (auto simp: validate_subtask_def subtask_record_def split: if_splits jsv.splits)
  ultimately show ?thesis by blast
qed

lemma validated_titles:
  "validate_subtasks_from k ss = Ok () \<Longrightarrow>
     filter (\<lambda>s. si_title s \<noteq> []) (map subtask_record ss) = map subtask_record ss"
  by (induction k ss rule: validate_subtasks_from.induct) (auto simp: res_bind_Ok_iff dest: validate_subtask_deps)

lemma normalized_deps_bounded:
  "validate_subtasks_from k ss = Ok () \<Longrightarrow> normalizeSubtasksForOrg adb o' pr (map subtask_record ss) = Ok subs
   \<Longrightarrow> deps_bounded k subs"
proof (induction k ss arbitrary: subs rule: validate_subtasks_from.induct)
  case (2 k s ss)
  then have v: "validate_subtask k s = Ok ()" "validate_subtasks_from (Suc k) ss = Ok ()"
    by (auto simp: res_bind_Ok_iff)
  from 2(3) obtain sub rest where subs: "subs = sub # rest"
      "normalizeSubtasksForOrg adb o' pr (map subtask_record ss) = Ok rest"
      "ns_depends_on sub = depends_numbers (si_depends_on (subtask_record s))"
    by (auto simp: res_bind_Ok_iff)
  have "deps_bounded (Suc k) rest" using 2(1) v subs by simp
  then show ?case using validate_subtask_deps[OF v(1)] subs by (simp add: subtask_record_def)
qed simp

lemma bundle_deps_bounded:
  assumes "validateTaskBundleSubtasks v = Ok ()"
    and "normalizeSubtasksForOrg adb o' pr (normalizeSubtaskInputs v) = Ok subs"
  shows "deps_bounded 0 subs"
proof (cases v)
  case (JArr ss)
  then have "length ss \<le> MAX_SUBTASKS_PER_DRAFT" "validate_subtasks_from 0 ss = Ok ()"
    using assms(1) by (auto simp: validateTaskBundleSubtasks_def split: if_splits)
  then show ?thesis
    using assms(2) JArr validated_titles[of 0 ss] normalized_deps_bounded[of 0 ss adb o' pr subs]
    by (simp add: normalizeSubtaskInputs_def)
qed (use assms in \<open>auto simp: normalizeSubtaskInputs_def\<close>)

text \<open>The edges of a bundle in the order they are stored: no edge leads into a task that is already
  the source of one.\<close>

fun fwd :: "(string option \<times> string) list \<Rightarrow> bool" where
  "fwd [] = True"
| "fwd ((s, t) # es) = (s \<noteq> Some t \<and> s \<notin> Some ` snd ` set es \<and> fwd es)"

lemma fwd_append: "fwd (xs @ ys) \<longleftrightarrow> fwd xs \<and> fwd ys \<and> (\<forall>s \<in> fst ` set xs. s \<notin> Some ` snd ` set ys)"
  by (induction xs rule: fwd.induct) auto

lemma fwd_star: "(\<forall>d \<in> set ds. f d \<noteq> Some t) \<Longrightarrow> fwd (map (\<lambda>d. (f d, t)) ds)"
  by (induction ds) (auto simp: image_iff)

definition pairs_from :: "task_row list \<Rightarrow> nat \<Rightarrow> normalized_subtask list \<Rightarrow> (string option \<times> string) list" where
  "pairs_from rows k ss = concat (map
     (\<lambda>(index, s). map (\<lambda>d. (child_id rows d, t_id (rows ! index))) (ns_depends_on s)) (enumerate k ss))"

lemma pairs_from_Cons: "pairs_from rows k (s # ss) =
    map (\<lambda>d. (child_id rows d, t_id (rows ! k))) (ns_depends_on s) @ pairs_from rows (Suc k) ss"
  by (simp add: pairs_from_def)

lemma pairs_from_targets: "t \<in> snd ` set (pairs_from rows k ss) \<Longrightarrow> \<exists>j. k \<le> j \<and> j < k + length ss \<and> t = t_id (rows ! j)"
proof (induction ss arbitrary: k)
  case (Cons s ss)
  then consider "t = t_id (rows ! k)" | "t \<in> snd ` set (pairs_from rows (Suc k) ss)"
    by (auto simp: pairs_from_Cons)
  then show ?case
  proof cases
    case 2
    from Cons.IH[OF this] show ?thesis by (metis Suc_le_lessD add_Suc_shift length_Cons less_imp_le)
  qed (auto intro: exI[of _ k])
qed (simp add: pairs_from_def)

lemma child_id_earlier:
  assumes "rat_is_int d" "1 \<le> d" "d \<le> of_nat k" "k \<le> length rows"
  obtains j where "j < k" "child_id rows d = Some (t_id (rows ! j))"
proof -
  obtain z where z: "d = of_int z" using assms(1)
    by (metis rat_is_int_def quotient_of_div div_by_1 of_int_1 prod.collapse)
  have "1 \<le> z" using assms(2) z by simp
  moreover have "z \<le> int k" using assms(3) z by (metis of_int_le_iff of_int_of_nat_eq)
  moreover have "d \<le> of_nat (length rows)" using assms(3,4) by (meson of_nat_le_iff order_trans)
  ultimately show thesis
    using assms z by (intro that[of "nat (z - 1)"]) (auto simp: child_id_def)
qed

lemma fwd_pairs_from:
  "deps_bounded k ss \<Longrightarrow> k + length ss \<le> length rows \<Longrightarrow> distinct (map t_id rows) \<Longrightarrow>
     fwd (pairs_from rows k ss)
     \<and> (\<forall>s \<in> fst ` set (pairs_from rows k ss). \<exists>j < length rows. s = Some (t_id (rows ! j)))"
proof (induction ss arbitrary: k)
  case (Cons s ss)
  let ?xs = "map (\<lambda>d. (child_id rows d, t_id (rows ! k))) (ns_depends_on s)"
  have ne: "t_id (rows ! i) \<noteq> t_id (rows ! j)" if "i < j" "j < length rows" for i j
    using Cons.prems(3) that by (metis (no_types, lifting) distinct_conv_nth length_map less_trans nat_neq_iff nth_map)
  have early: "\<exists>j < k. child_id rows d = Some (t_id (rows ! j))" if "d \<in> set (ns_depends_on s)" for d
    using that Cons.prems(1,2) by (auto intro: child_id_earlier[of d k rows])
  have IH: "fwd (pairs_from rows (Suc k) ss)"
    "\<forall>s \<in> fst ` set (pairs_from rows (Suc k) ss). \<exists>j < length rows. s = Some (t_id (rows ! j))"
    using Cons.IH[of "Suc k"] Cons.prems by auto
  have "child_id rows d \<noteq> Some (t_id (rows ! i))" if "d \<in> set (ns_depends_on s)" "k \<le> i" "i < length rows" for d i
  proof -
    have "\<exists>j < k. child_id rows d = Some (t_id (rows ! j))" using that(1) by (rule early)
    then obtain j where "j < k" "child_id rows d = Some (t_id (rows ! j))" by blast
    then show ?thesis using ne[of j i] that by simp
  qed
  then have "fwd ?xs" "\<forall>s \<in> fst ` set ?xs. s \<notin> Some ` snd ` set (pairs_from rows (Suc k) ss)"
    using Cons.prems(2) by (auto intro!: fwd_star dest!: pairs_from_targets[OF imageI])
  moreover have "\<forall>s \<in> fst ` set ?xs. \<exists>j < length rows. s = Some (t_id (rows ! j))"
  proof clarsimp
    fix d assume "d \<in> set (ns_depends_on s)"
    then have "\<exists>j < k. child_id rows d = Some (t_id (rows ! j))" by (rule early)
    then obtain j where "j < k" "child_id rows d = Some (t_id (rows ! j))" by blast
    then show "\<exists>j < length rows. child_id rows d = Some (t_id (rows ! j))"
      using Cons.prems(2) by (intro exI[of _ j]) simp
  qed
  ultimately show ?case using IH by (auto simp: pairs_from_Cons fwd_append)
qed (simp add: pairs_from_def)

subsection \<open>The contract\<close>

lemma rel_sources_are_tasks: "task_wf db \<Longrightarrow> rel_source ` set (td_rels db) \<subseteq> task_ids db"
  by (auto simp: task_wf_def list_all_iff same_org_edge_def)

lemma resolve_in_org:
  assumes "task_wf db" "resolveTaskIdentifier a o' db = Some i"
  shows "task_in db o' i"
proof (cases "parseProjectTaskIdentifier a")
  case None
  with assms(2) show ?thesis
    by (auto simp: resolveTaskIdentifier_def task_in_def dest!: find_Some_set)
next
  case (Some pn)
  then obtain proj t where pt: "proj \<in> set (td_projects db)" "pj_org proj = o'"
      "t \<in> set (td_tasks db)" "t_project t = pj_id proj" "t_id t = i"
    using assms(2) by (auto simp: resolveTaskIdentifier_def split: prod.splits option.splits dest!: find_Some_set)
  then obtain q where "q \<in> set (td_projects db)" "pj_id q = t_project t" "pj_org q = t_org t"
    using assms(1) by (auto simp: task_wf_def list_all_iff homed_def)
  with pt have "q = proj" using distinct_map_inj[of pj_id "td_projects db" q proj] assms(1)
    by (simp add: task_wf_def)
  with pt \<open>pj_org q = t_org t\<close> show ?thesis by (auto simp: task_in_def)
qed

text \<open>Every operation is a composition of six primitive ones; a contract that these keep is kept by
  every run.  Numbers are only ever used after they were reserved.\<close>

locale task_law =
  fixes I :: "task_world \<Rightarrow> bool"
    and edge_ok :: "task_db \<Rightarrow> rel_row \<Rightarrow> bool"
  assumes wf: "I (db, pend) \<Longrightarrow> task_wf db"
    and reserve: "I (db, pend) \<Longrightarrow> reserveTaskNumberRange p o' c db = Ok (r, db')
      \<Longrightarrow> I (db', pend + range_numbers p r)"
    and abandon: "I (db, pend) \<Longrightarrow> I (db, pend - {#x#})"
    and reconcile: "I (db, pend) \<Longrightarrow> I (snd (reconcileProjectTaskCountersForOrg o' db), pend)"
    and insert: "I (db, pend) \<Longrightarrow> (t_project t, t_number t) \<in> set_mset pend \<Longrightarrow> homed db t
      \<Longrightarrow> insert_task t db = Ok db' \<Longrightarrow> I (db', pend - {#(t_project t, t_number t)#})"
    and activity: "I (db, pend) \<Longrightarrow> I (db\<lparr>td_activity := acts\<rparr>, pend)"
    and relate: "I (db, pend) \<Longrightarrow> edge_ok db e \<Longrightarrow> insert_rel e db = Ok db' \<Longrightarrow> I (db', pend)"
    and unrelate: "I (db, pend) \<Longrightarrow> I (db\<lparr>td_rels := filter P (td_rels db)\<rparr>, pend)"
    and guarded: "I (db, pend) \<Longrightarrow> task_in db o' a \<Longrightarrow> task_in db o' b \<Longrightarrow> a \<noteq> b
      \<Longrightarrow> dep_guard db o' (a, b, k) \<Longrightarrow> edge_ok db \<lparr>rel_id = i, rel_source = a, rel_target = b, rel_kind = k\<rparr>"
    and forward: "I (db, pend) \<Longrightarrow> task_in db o' a \<Longrightarrow> task_in db o' b \<Longrightarrow> a \<noteq> b
      \<Longrightarrow> b \<notin> rel_source ` set (td_rels db)
      \<Longrightarrow> edge_ok db \<lparr>rel_id = i, rel_source = a, rel_target = b, rel_kind = Blocks\<rparr>"
begin

lemma insert_reserved:
  assumes "I (db, pend + {#(t_project t, t_number t)#})" "homed db t" "insert_task t db = Ok db'"
  shows "I (db', pend)"
  using insert[OF assms(1) _ assms(2,3)] by simp

lemma native_keeps:
  assumes "I (db, pend)" "createNativeTask fresh inp db = Ok (t, db')"
  shows "I (db', pend)"
proof -
  from assms(2) obtain r db1 db2 where ops:
    "reserveTaskNumberRange (nt_project inp) (nt_org inp) None db = Ok (r, db1)"
    "insert_task t db1 = Ok db2" "db' = db2\<lparr>td_activity := td_activity db2 @ [(fresh, ''created'')]\<rparr>"
    and t: "t_org t = nt_org inp" "t_project t = nt_project inp" "t_number t = snd r"
    by (auto simp: createNativeTask_def reserveNextTaskNumber_def res_bind_Ok_iff Let_def
        split: sum.splits prod.splits)
  from reserve_Ok[OF ops(1)] obtain q where q: "q \<in> set (td_projects db)" "pj_id q = nt_project inp"
      "pj_org q = nt_org inp" "fst r \<le> snd r"
      "db1 = db\<lparr>td_projects := map (\<lambda>q. if pj_id q = nt_project inp \<and> pj_org q = nt_org inp
         then q\<lparr>pj_counter := snd r\<rparr> else q) (td_projects db)\<rparr>" .
  have "homed db t" using q t by (auto simp: homed_def)
  then have "homed db1 t" by (simp add: homed_keys reserve_keeps[OF ops(1)])
  moreover have "fst r = snd r"
    using ops(1) by (auto simp: reserveTaskNumberRange_def Let_def split: if_splits option.splits)
  then have "range_numbers (nt_project inp) r = {#(t_project t, t_number t)#}"
    using t by (simp add: range_numbers_def)
  then have "I (db1, pend + {#(t_project t, t_number t)#})" using reserve[OF assms(1) ops(1)] by simp
  ultimately have "I (db2, pend)" using ops(2) insert_reserved by blast
  then show ?thesis using activity ops(3) by simp
qed

lemma dep_insert_keeps:
  assumes "I (db, pend)" "task_in db o' a" "task_in db o' b" "a \<noteq> b" "dep_guard db o' (a, b, k)"
    and "dep_insert fresh (a, b, k) db = Ok (r, db')"
  shows "I (db', pend)"
  using assms(6) guarded[OF assms(1-5)] relate[OF assms(1)] by (auto simp: dep_insert_Ok)

lemma normalized_insert_keeps:
  assumes "I (db, pend)" "task_in db o' a" "task_in db o' b" "a \<noteq> b"
    and "dep_guard db o' (normalize_dep k a b)" "dep_insert fresh (normalize_dep k a b) db = Ok (r, db')"
  shows "I (db', pend)"
  using assms by (cases k) (auto intro: dep_insert_keeps)

lemma route_add_keeps:
  assumes "I (db, pend)" "dependency_route fresh o' user a b k db = Ok (r, db')"
  shows "I (db', pend)"
proof (rule normalized_insert_keeps[OF assms(1)])
  show "task_in db o' a" "task_in db o' b"
    using assms(2) by (auto simp: dependency_route_def getVisibleTaskForOrg_def task_in_def Let_def
        split: if_splits dest!: find_Some_set)
qed (use assms(2) in \<open>auto simp: dependency_route_def Let_def split: if_splits\<close>)

lemma route_remove_keeps:
  "I (db, pend) \<Longrightarrow> dependency_delete_route o' user a i db = Ok db' \<Longrightarrow> I (db', pend)"
  by (auto simp: dependency_delete_route_def Let_def split: if_splits intro: unrelate)

lemma tool_add_keeps:
  assumes "I (db, pend)" "add_dependency fresh o' a b kind db = Ok (r, db')"
  shows "I (db', pend)"
proof -
  from assms(2) obtain s t k where st: "resolveTaskIdentifier a o' db = Some s"
      "resolveTaskIdentifier b o' db = Some t" "s \<noteq> t" "dep_guard db o' (normalize_dep k s t)"
      "dep_insert fresh (normalize_dep k s t) db = Ok (r, db')"
    unfolding add_dependency_def Let_def
    by (simp split: option.splits if_splits del: rel_type_of.simps)
  show ?thesis
    using normalized_insert_keeps[OF assms(1) _ _ st(3,4,5)] st(1,2) resolve_in_org[OF wf[OF assms(1)]] by blast
qed

lemma tool_remove_keeps:
  "I (db, pend) \<Longrightarrow> remove_dependency o' a b kind db = Ok db' \<Longrightarrow> I (db', pend)"
  by (auto simp: remove_dependency_def Let_def split: option.splits if_splits prod.splits intro: unrelate)

lemma children_keep:
  "insert_children p parent fresh first index ss db = Ok (ts, db')
   \<Longrightarrow> I (db, pend + range_numbers (bp_project p) (first + int index + 1, first + int index + int (length ss)))
   \<Longrightarrow> \<exists>q \<in> set (td_projects db). pj_id q = bp_project p \<and> pj_org q = bp_org p
   \<Longrightarrow> I (db', pend) \<and> length ts = length ss \<and> td_tasks db' = td_tasks db @ ts
      \<and> td_rels db' = td_rels db \<and> (\<forall>t \<in> set ts. t_org t = bp_org p)"
proof (induction p parent fresh first index ss db arbitrary: ts db' rule: insert_children.induct)
  case (1 p parent fresh first index db)
  then show ?case by (simp add: range_numbers_def)
next
  case (2 p parent fresh first index s ss db)
  let ?t = "bundle_row p (fresh (index + 1)) (first + int index + 1) (Some parent)
      (ns_title s) (ns_priority s) (ns_assignee s)"
  let ?rest = "range_numbers (bp_project p) (first + int (Suc index) + 1, first + int (Suc index) + int (length ss))"
  from 2(2) obtain db1 ts1 where ops: "insert_task ?t db = Ok db1"
      "insert_children p parent fresh first (Suc index) ss db1 = Ok (ts1, db')" "ts = ?t # ts1"
    by (auto simp: res_bind_Ok_iff Let_def)
  have db1: "db1 = db\<lparr>td_tasks := td_tasks db @ [?t]\<rparr>" using ops(1) by (simp add: insert_task_Ok)
  have "range_numbers (bp_project p) (first + int index + 1, first + int index + int (length (s # ss)))
      = ?rest + {#(t_project ?t, t_number ?t)#}"
    by (simp add: range_numbers_def upto_rec1 bundle_row_def algebra_simps)
  then have "I (db, (pend + ?rest) + {#(t_project ?t, t_number ?t)#})" using 2(3) by (simp add: ac_simps)
  moreover have "homed db ?t" using 2(4) by (simp add: homed_def bundle_row_def)
  ultimately have "I (db1, pend + ?rest)" using ops(1) insert_reserved by blast
  with 2(1)[OF refl ops(2)] 2(4) show ?case by (auto simp: db1 ops(3) bundle_row_def)
qed

lemma rels_keep:
  "insert_rels fresh k es db = Ok db' \<Longrightarrow> I (db, pend) \<Longrightarrow> fwd es
   \<Longrightarrow> (\<forall>(s, t) \<in> set es. task_in db o' t \<and> t \<notin> rel_source ` set (td_rels db) \<and> (\<forall>s'. s = Some s' \<longrightarrow> task_in db o' s'))
   \<Longrightarrow> I (db', pend)"
proof (induction fresh k es db rule: insert_rels.induct)
  case (3 fresh k s t es db)
  let ?r = "\<lparr>rel_id = fresh k, rel_source = s, rel_target = t, rel_kind = Blocks\<rparr>"
  from 3(2) obtain db1 where ops: "insert_rel ?r db = Ok db1" "insert_rels fresh (Suc k) es db1 = Ok db'"
    by (auto simp: res_bind_Ok_iff)
  have inv: "I (db1, pend)"
    using relate[OF 3(3) forward[OF 3(3), of o' s t "fresh k"] ops(1)] 3(4,5) by simp
  have "db1 = db\<lparr>td_rels := td_rels db @ [?r]\<rparr>" using ops(1) by (simp add: insert_rel_Ok)
  then have "td_tasks db1 = td_tasks db" "rel_source ` set (td_rels db1) = insert s (rel_source ` set (td_rels db))"
    by auto
  moreover have "Some s \<notin> Some ` snd ` set es" using 3(4) by simp
  ultimately have "\<forall>(s, t) \<in> set es. task_in db1 o' t \<and> t \<notin> rel_source ` set (td_rels db1)
      \<and> (\<forall>s'. s = Some s' \<longrightarrow> task_in db1 o' s')"
    using 3(5) by (auto simp: task_in_def image_iff)
  then show ?case using 3(1)[OF ops(2) inv] 3(4) by simp
qed auto

lemma bundle_tx_keeps:
  assumes "I (db, pend)" "deps_bounded 0 subs"
    and tx: "bundle_tx fresh fresh_rel auth p title subs db = Ok ((parent, children), db')"
  shows "I (db', pend)"
proof -
  from tx obtain r db1 db2 db3 db4 where ops:
    "reserveTaskNumberRange (bp_project p) (bp_org p) (Some (of_nat (1 + length subs))) db = Ok (r, db1)"
    "insert_task parent db1 = Ok db2"
    "insert_children p (fresh 0) fresh (fst r) 0 subs db2 = Ok (children, db3)"
    "insert_rels fresh_rel 0 (relationship_pairs children subs) db3 = Ok db4"
    "db' = db4\<lparr>td_activity := td_activity db4 @ map (\<lambda>t. (t_id t, ''created'')) (parent # children)\<rparr>"
    and parent: "t_org parent = bp_org p" "t_project parent = bp_project p" "t_number parent = fst r"
    by (auto simp: bundle_tx_def bundle_row_def res_bind_Ok_iff Let_def split: prod.splits if_splits)
  let ?rest = "range_numbers (bp_project p) (fst r + int 0 + 1, fst r + int 0 + int (length subs))"
  have "fst (quotient_of (1 + rat_of_nat (length subs))) = 1 + int (length subs)"
    using quotient_of_int[of "1 + int (length subs)"] by (simp add: Rat.of_int_def)
  then have last: "snd r = fst r + int (length subs)"
    using ops(1) by (auto simp: reserveTaskNumberRange_def Let_def split: if_splits option.splits)
  have "range_numbers (bp_project p) r = ?rest + {#(t_project parent, t_number parent)#}"
    using last parent by (simp add: range_numbers_def upto_rec1)
  then have "I (db1, (pend + ?rest) + {#(t_project parent, t_number parent)#})"
    using reserve[OF assms(1) ops(1)] by (simp add: ac_simps)
  moreover from reserve_Ok[OF ops(1)] obtain q where q: "q \<in> set (td_projects db)"
      "pj_id q = bp_project p" "pj_org q = bp_org p" .
  then have home: "homed db parent" using parent by (auto simp: homed_def)
  then have "homed db1 parent" by (simp add: homed_keys reserve_keeps[OF ops(1)])
  ultimately have I2: "I (db2, pend + ?rest)" using ops(2) insert_reserved by blast
  have db2: "db2 = db1\<lparr>td_tasks := td_tasks db1 @ [parent]\<rparr>" using ops(2) by (simp add: insert_task_Ok)
  have "homed db2 parent" using \<open>homed db1 parent\<close> by (simp add: db2 homed_def)
  then have ex: "\<exists>q \<in> set (td_projects db2). pj_id q = bp_project p \<and> pj_org q = bp_org p"
    using parent by (auto simp: homed_def)
  note ch = children_keep[OF ops(3) I2 ex]
  then have I3: "I (db3, pend)" and rels: "td_rels db3 = td_rels db2" and tasks: "td_tasks db3 = td_tasks db2 @ children"
    and len: "length children = length subs" and orgs: "\<forall>t \<in> set children. t_org t = bp_org p" by blast+
  have wf3: "task_wf db3" and wf2: "task_wf db2" using wf I2 I3 by blast+
  have dist: "distinct (map t_id children)" using wf3 tasks by (simp add: task_wf_def)
  have new: "t_id t \<notin> rel_source ` set (td_rels db3)" if "t \<in> set children" for t
    using rel_sources_are_tasks[OF wf2] wf3 that unfolding rels by (auto simp: task_wf_def tasks task_ids_def)
  have inn: "task_in db3 (bp_org p) (t_id t)" if "t \<in> set children" for t
    using that orgs by (auto simp: task_in_def tasks)
  have pairs: "relationship_pairs children subs = pairs_from children 0 subs"
    by (simp add: relationship_pairs_def pairs_from_def)
  have f: "fwd (relationship_pairs children subs)"
    and src: "\<forall>s \<in> fst ` set (relationship_pairs children subs). \<exists>j < length children. s = Some (t_id (children ! j))"
    using fwd_pairs_from[OF assms(2), of children] len dist by (auto simp: pairs)
  have "\<forall>(s, t) \<in> set (relationship_pairs children subs). task_in db3 (bp_org p) t
      \<and> t \<notin> rel_source ` set (td_rels db3) \<and> (\<forall>s'. s = Some s' \<longrightarrow> task_in db3 (bp_org p) s')"
  proof clarify
    fix s t assume st: "(s, t) \<in> set (relationship_pairs children subs)"
    then obtain j where "j < length children" "t = t_id (children ! j)"
      using pairs_from_targets[of t children 0 subs] len by (force simp: pairs)
    moreover obtain i where "i < length children" "s = Some (t_id (children ! i))"
      using src st by force
    ultimately show "task_in db3 (bp_org p) t \<and> t \<notin> rel_source ` set (td_rels db3)
        \<and> (\<forall>s'. s = Some s' \<longrightarrow> task_in db3 (bp_org p) s')"
      using inn new by simp
  qed
  then have "I (db4, pend)" using rels_keep[OF ops(4) I3 f] by blast
  then show ?thesis using activity ops(5) by simp
qed

lemma bundle_keeps:
  assumes "I (db, pend)" "createTaskBundle fresh fresh_rel auth adb p db = Ok (ts, db')"
  shows "I (db', pend)"
proof -
  from assms(2) obtain subs parent children title where
    "validateTaskBundleSubtasks (bp_subtasks p) = Ok ()"
    "normalizeSubtasksForOrg adb (bp_org p) (bp_priority p) (normalizeSubtaskInputs (bp_subtasks p)) = Ok subs"
    "bundle_tx fresh fresh_rel auth p title subs db = Ok ((parent, children), db')"
    by (auto simp: createTaskBundle_def Let_def res_bind_Ok_iff split: if_splits option.splits prod.splits)
  then show ?thesis using bundle_tx_keeps[OF assms(1) bundle_deps_bounded] by blast
qed

lemma copy_keeps:
  assumes "I (db, pend)" "u \<in> set (td_tasks db)" "(t_project u, n) \<in> set_mset pend"
    and "insert_task t db = Ok db'" "t_org t = t_org u" "t_project t = t_project u" "t_number t = n"
  shows "I (db', pend - {#(t_project u, n)#})"
proof -
  have "homed db u" using wf[OF assms(1)] assms(2) by (simp add: task_wf_def list_all_iff)
  then have "homed db t" using assms(5,6) by (simp add: homed_def)
  then show ?thesis using insert[OF assms(1) _ _ assms(4)] assms(3,6,7) by simp
qed

lemma step_keeps: "task_step w w' \<Longrightarrow> I w \<Longrightarrow> I w'"
proof (induction rule: task_step.induct)
  case (Reserve p o' c db r db' pend)
  then show ?case by (intro reserve)
next
  case (Abandon db pend x)
  then show ?case by (rule abandon)
next
  case (Reconcile db pend o')
  then show ?case by (rule reconcile)
next
  case (Recur u db n pend fresh user db')
  show ?case by (rule copy_keeps[OF Recur(4,1,2,3)]) (simp_all add: recurring_clone_def)
next
  case (Duplicate u db n pend fresh user db')
  show ?case by (rule copy_keeps[OF Duplicate(4,1,2,3)]) (simp_all add: duplicate_copy_def)
next
  case (Native fresh inp db t db' pend)
  then show ?case by (blast intro: native_keeps)
next
  case (Bundle fresh_task fresh_rel auth adb p db ts db' pend)
  then show ?case by (blast intro: bundle_keeps)
next
  case (RouteAdd fresh o' user a b k db r db' pend)
  then show ?case by (blast intro: route_add_keeps)
next
  case (RouteRemove o' user a i db db' pend)
  then show ?case by (blast intro: route_remove_keeps)
next
  case (ToolAdd fresh o' a b kind db r db' pend)
  then show ?case by (blast intro: tool_add_keeps)
next
  case (ToolRemove o' a b kind db db' pend)
  then show ?case by (blast intro: tool_remove_keeps)
qed

lemma run_keeps: "task_run w w' \<Longrightarrow> I w \<Longrightarrow> I w'"
  by (induction rule: rtranclp_induct) (auto intro: step_keeps)

end

end
