(* ===== verification/TaskProperties.thy ===== *)
theory TaskProperties
  imports TaskWorld
begin

text \<open>
  The contract of the task store on its three invariants: reserved numbers, the acyclic \<open>blocks\<close>
  graph and the identifiers.
\<close>

subsection \<open>Well-formedness is kept by the primitives\<close>

lemma wf_keys: "task_wf db \<longleftrightarrow> distinct (map fst (project_keys db))
     \<and> distinct (map snd (project_keys db))
     \<and> list_all (\<lambda>p. 0 \<le> pj_counter p) (td_projects db)
     \<and> distinct (map t_id (td_tasks db))
     \<and> distinct (map (\<lambda>t. (t_project t, t_number t)) (td_tasks db))
     \<and> list_all (homed db) (td_tasks db) \<and> list_all (same_org_edge db) (td_rels db)"
  by (auto simp: task_wf_def project_keys_def comp_def)

lemma same_org_edge_tasks: "td_tasks db' = td_tasks db \<Longrightarrow> same_org_edge db' = same_org_edge db"
  by (auto simp: same_org_edge_def task_in_def task_ids_def fun_eq_iff)

lemma homed_projects: "project_keys db' = project_keys db \<Longrightarrow> homed db' = homed db"
  by (auto simp: homed_keys fun_eq_iff)

lemma wf_same:
  assumes "task_wf db" "project_keys db' = project_keys db" "td_tasks db' = td_tasks db"
    and "set (td_rels db') \<subseteq> set (td_rels db)" "list_all (\<lambda>p. 0 \<le> pj_counter p) (td_projects db')"
  shows "task_wf db'"
  using assms same_org_edge_tasks[OF assms(3)] homed_projects[OF assms(2)]
  by (auto simp: wf_keys list_all_iff)

lemma reserve_counters:
  assumes "task_wf db" "reserveTaskNumberRange p o' c db = Ok (r, db')"
  shows "list_all (\<lambda>p. 0 \<le> pj_counter p) (td_projects db') \<and> 1 \<le> fst r \<and> snd r \<le> max_int4"
proof -
  from reserve_Ok[OF assms(2)] obtain q where q: "q \<in> set (td_projects db)"
    "max (pj_counter q) (max_number db p) < fst r" "fst r \<le> snd r" "snd r \<le> max_int4"
    and db': "db' = db\<lparr>td_projects := map (\<lambda>q. if pj_id q = p \<and> pj_org q = o'
       then q\<lparr>pj_counter := snd r\<rparr> else q) (td_projects db)\<rparr>" .
  have "0 \<le> pj_counter q" using assms(1) q(1) by (simp add: task_wf_def list_all_iff)
  then show ?thesis using q assms(1) by (auto simp: db' task_wf_def list_all_iff)
qed

lemma wf_reserve:
  assumes "task_wf db" "reserveTaskNumberRange p o' c db = Ok (r, db')"
  shows "task_wf db'"
  by (rule wf_same[OF assms(1)])
    (use reserve_keeps[OF assms(2)] reserve_counters[OF assms] in auto)

lemma wf_reconcile: "task_wf db \<Longrightarrow> task_wf (snd (reconcileProjectTaskCountersForOrg o' db))"
proof (rule wf_same)
  assume wf: "task_wf db"
  then show "list_all (\<lambda>p. 0 \<le> pj_counter p) (td_projects (snd (reconcileProjectTaskCountersForOrg o' db)))"
    by (auto simp: reconcileProjectTaskCountersForOrg_def task_wf_def list_all_iff intro: order_trans[OF _ repair_counter_simps(4)])
qed (auto simp: reconcile_keeps)

lemma wf_activity: "task_wf db \<Longrightarrow> task_wf (db\<lparr>td_activity := a\<rparr>)"
  by (rule wf_same[of db]) (simp_all add: project_keys_def task_wf_def)

lemma wf_unrelate: "task_wf db \<Longrightarrow> task_wf (db\<lparr>td_rels := filter P (td_rels db)\<rparr>)"
  by (rule wf_same[of db]) (simp_all add: project_keys_def task_wf_def)

lemma same_org_edge_mono: "same_org_edge db r \<Longrightarrow> set (td_tasks db) \<subseteq> set (td_tasks db') \<Longrightarrow> same_org_edge db' r"
  unfolding same_org_edge_def task_in_def task_ids_def by blast

lemma wf_insert:
  assumes "task_wf db" "homed db t" "insert_task t db = Ok db'"
  shows "task_wf db'"
proof -
  have db': "db' = db\<lparr>td_tasks := td_tasks db @ [t]\<rparr>" "t_id t \<notin> task_ids db"
      "\<forall>u \<in> set (td_tasks db). t_project u = t_project t \<longrightarrow> t_number u \<noteq> t_number t"
    using assms(3) by (simp_all add: insert_task_Ok)
  have "project_keys db' = project_keys db" by (simp add: db' project_keys_def)
  moreover have "list_all (same_org_edge db') (td_rels db')"
    using assms(1) same_org_edge_mono[of db _ db'] by (auto simp: db' task_wf_def list_all_iff)
  ultimately show ?thesis
    using assms(1,2) db' homed_projects[of db' db] by (auto simp: wf_keys task_ids_def)
qed

lemma wf_relate: "task_wf db \<Longrightarrow> same_org_edge db e \<Longrightarrow> insert_rel e db = Ok db' \<Longrightarrow> task_wf db'"
  using same_org_edge_tasks[of db' db] homed_projects[of db' db]
  by (auto simp: insert_rel_Ok wf_keys project_keys_def)

lemma same_org_edge_new:
  "task_in db o' a \<Longrightarrow> task_in db o' b \<Longrightarrow>
     same_org_edge db \<lparr>rel_id = i, rel_source = a, rel_target = b, rel_kind = k\<rparr>"
  by (auto simp: same_org_edge_def task_in_def task_ids_def)

lemmas wf_primitives = wf_reserve wf_reconcile wf_activity wf_unrelate wf_insert wf_relate same_org_edge_new

subsection \<open>Reserved numbers\<close>

definition pend_ok :: "task_db \<Rightarrow> (string \<times> int) multiset \<Rightarrow> bool" where
  "pend_ok db pend \<longleftrightarrow> (\<forall>x. count pend x \<le> 1)
     \<and> (\<forall>(p, n) \<in> set_mset pend. (\<forall>t \<in> set (td_tasks db). t_project t = p \<longrightarrow> t_number t \<noteq> n)
          \<and> (\<exists>q \<in> set (td_projects db). pj_id q = p \<and> n \<le> pj_counter q))"

lemma max_number_ge: "t \<in> set (td_tasks db) \<Longrightarrow> t_number t \<le> max_number db (t_project t)"
proof -
  have fold: "m \<le> foldl max m ns \<and> (\<forall>n \<in> set ns. n \<le> foldl max m ns)" for m :: int and ns
  proof (induction ns arbitrary: m)
    case (Cons a ns)
    from Cons[of "max m a"] show ?case by (auto intro: order_trans)
  qed simp
  assume t: "t \<in> set (td_tasks db)"
  define ns where "ns = map t_number (filter (\<lambda>u. t_project u = t_project t) (td_tasks db))"
  have "t_number t \<in> set ns" using t by (simp add: ns_def)
  moreover have "max_number db (t_project t) = (case ns of [] \<Rightarrow> 0 | n # ns \<Rightarrow> foldl max n ns)"
    by (simp add: max_number_def ns_def)
  ultimately show ?thesis using fold by (cases ns) auto
qed

lemma count_range_numbers: "count (range_numbers p r) x \<le> 1"
proof -
  have "distinct (map (\<lambda>n. (p, n)) [fst r..snd r])" by (simp add: distinct_map inj_on_def)
  then have "count (range_numbers p r) x = (if x \<in> set (map (\<lambda>n. (p, n)) [fst r..snd r]) then 1 else 0)"
    unfolding range_numbers_def distinct_count_atmost_1 by blast
  then show ?thesis by simp
qed

lemma in_range_numbers: "(p', n) \<in># range_numbers p r \<longleftrightarrow> p' = p \<and> fst r \<le> n \<and> n \<le> snd r"
  by (auto simp: range_numbers_def)

lemma pend_ok_counter: "pend_ok db pend \<Longrightarrow> (p, n) \<in># pend \<Longrightarrow> \<exists>q \<in> set (td_projects db). pj_id q = p \<and> n \<le> pj_counter q"
  by (auto simp: pend_ok_def)

lemma pend_ok_weaken:
  assumes "pend_ok db pend" "pend' \<subseteq># pend"
  shows "pend_ok db pend'"
  using assms mset_subset_eq_count[OF assms(2)] set_mset_mono[OF assms(2)]
  unfolding pend_ok_def by (meson order_trans subsetD)

lemma pend_ok_reserve:
  assumes wf: "task_wf db" and pend: "pend_ok db pend" and res: "reserveTaskNumberRange p o' c db = Ok (r, db')"
  shows "pend_ok db' (pend + range_numbers p r)"
proof -
  from reserve_Ok[OF res] obtain q where q: "q \<in> set (td_projects db)" "pj_id q = p" "pj_org q = o'"
    "max (pj_counter q) (max_number db p) < fst r" "fst r \<le> snd r"
    and db': "db' = db\<lparr>td_projects := map (\<lambda>q. if pj_id q = p \<and> pj_org q = o'
       then q\<lparr>pj_counter := snd r\<rparr> else q) (td_projects db)\<rparr>" .
  have uniq: "q' = q" if "q' \<in> set (td_projects db)" "pj_id q' = p" for q'
    using wf that q distinct_map_inj[of pj_id "td_projects db" q' q] by (simp add: task_wf_def)
  have old: "n < fst r" if "(p, n) \<in># pend" for n
    using pend that uniq q(4) by (fastforce simp: pend_ok_def)
  have "count (pend + range_numbers p r) x \<le> 1" for x
  proof (cases "x \<in># range_numbers p r")
    case True
    then obtain n where "x = (p, n)" "fst r \<le> n" by (cases x) (simp add: in_range_numbers)
    then have "x \<notin># pend" using old[of n] by auto
    then have "count pend x = 0" by (simp add: not_in_iff)
    then show ?thesis using count_range_numbers[of p r x] by simp
  next
    case False
    then have "count (range_numbers p r) x = 0" by (simp add: not_in_iff)
    moreover have "count pend x \<le> 1" using pend unfolding pend_ok_def by blast
    ultimately show ?thesis by simp
  qed
  moreover have free: "t_number t \<noteq> n" if "(p', n) \<in># pend + range_numbers p r" "t \<in> set (td_tasks db)" "t_project t = p'" for p' n t
    using that pend max_number_ge[of t db] q(4) by (fastforce simp: pend_ok_def in_range_numbers)
  moreover have "\<exists>q \<in> set (td_projects db'). pj_id q = p' \<and> n \<le> pj_counter q" if "(p', n) \<in># pend + range_numbers p r" for p' n
  proof -
    let ?f = "\<lambda>q. if pj_id q = p \<and> pj_org q = o' then q\<lparr>pj_counter := snd r\<rparr> else q"
    have "p' = p \<or> (p', n) \<in># pend" using that by (auto simp: in_range_numbers)
    then obtain q' where q': "q' \<in> set (td_projects db)" "pj_id q' = p'" "p' = p \<or> n \<le> pj_counter q'"
      using pend_ok_counter[OF pend] q(1,2) by blast
    have "n \<le> snd r" if "p' = p" using \<open>(p', n) \<in># pend + range_numbers p r\<close> that old q(5) by (force simp: in_range_numbers)
    then have "n \<le> pj_counter (?f q')" using q' uniq[of q'] q(3) by auto
    moreover have "?f q' \<in> set (td_projects db')" using q'(1) by (simp add: db')
    moreover have "pj_id (?f q') = p'" using q'(2) by simp
    ultimately show ?thesis by blast
  qed
  moreover have "td_tasks db' = td_tasks db" by (simp add: db')
  ultimately show ?thesis unfolding pend_ok_def by fastforce
qed

lemma pend_ok_insert:
  assumes pend: "pend_ok db pend" and mem: "(t_project t, t_number t) \<in># pend" and ins: "insert_task t db = Ok db'"
  shows "pend_ok db' (pend - {#(t_project t, t_number t)#})"
proof -
  have db': "db' = db\<lparr>td_tasks := td_tasks db @ [t]\<rparr>" using ins by (simp add: insert_task_Ok)
  have "count pend (t_project t, t_number t) = 1"
    using pend mem by (metis One_nat_def count_greater_eq_Suc_zero_iff le_antisym pend_ok_def)
  then have "(t_project t, t_number t) \<notin># pend - {#(t_project t, t_number t)#}" by (simp add: not_in_iff)
  moreover have "pend_ok db (pend - {#(t_project t, t_number t)#})"
    by (rule pend_ok_weaken[OF pend]) simp
  ultimately show ?thesis by (auto simp: pend_ok_def db')
qed

lemma pend_ok_reconcile: "pend_ok db pend \<Longrightarrow> pend_ok (snd (reconcileProjectTaskCountersForOrg o' db)) pend"
proof -
  assume pend: "pend_ok db pend"
  have "\<exists>q' \<in> set (td_projects (snd (reconcileProjectTaskCountersForOrg o' db))). pj_id q' = pj_id q \<and> pj_counter q \<le> pj_counter q'"
    if "q \<in> set (td_projects db)" for q
    using that by (auto simp: reconcileProjectTaskCountersForOrg_def intro!: bexI[of _ q])
  then show ?thesis using pend unfolding pend_ok_def reconcile_keeps by (fastforce intro: order_trans)
qed

lemma pend_ok_same: "pend_ok db pend \<Longrightarrow> td_tasks db' = td_tasks db \<Longrightarrow> td_projects db' = td_projects db \<Longrightarrow> pend_ok db' pend"
  by (simp add: pend_ok_def)

interpretation nums: task_law "\<lambda>w. task_wf (fst w) \<and> pend_ok (fst w) (snd w)" same_org_edge
proof (unfold_locales, goal_cases)
  case (2 db pend p o' c r db')
  then show ?case by (auto intro: wf_reserve pend_ok_reserve)
next
  case (4 db pend o')
  then show ?case by (auto intro: wf_reconcile pend_ok_reconcile)
next
  case (5 db pend t db')
  then show ?case by (auto intro: wf_insert pend_ok_insert)
next
  case (6 db pend acts)
  then show ?case by (auto intro: wf_activity pend_ok_same)
next
  case (7 db pend e db')
  then show ?case by (auto intro: wf_relate pend_ok_same simp: insert_rel_Ok)
next
  case (8 db pend P)
  then show ?case by (auto intro: wf_unrelate pend_ok_same)
qed (auto intro: pend_ok_weaken same_org_edge_new)

text \<open>A number that a reservation handed out stays free until it is used: after any interleaving of
  reservations, inserts, bundles and other operations the row that uses it is never refused for a
  taken number.\<close>
theorem reserved_number_is_never_taken:
  assumes "task_wf db" and "task_run (db, {#}) (db', pend)" and "(t_project t, t_number t) \<in># pend"
    and "t_id t \<notin> task_ids db'" and "t_parent t = None \<or> t_parent t \<in> Some ` task_ids db'"
  shows "insert_task t db' = Ok (db'\<lparr>td_tasks := td_tasks db' @ [t]\<rparr>)"
proof -
  have "task_wf db' \<and> pend_ok db' pend"
    using nums.run_keeps[OF assms(2)] assms(1) by (simp add: pend_ok_def)
  then obtain q where "\<forall>u \<in> set (td_tasks db'). t_project u = t_project t \<longrightarrow> t_number u \<noteq> t_number t"
      "q \<in> set (td_projects db')" "pj_id q = t_project t"
    using assms(3) by (auto simp: pend_ok_def)
  moreover from this have "project_of db' (t_project t) \<noteq> None" by (auto simp: project_of_def find_None_set)
  ultimately show ?thesis using assms(4,5) by (auto simp: insert_task_Ok split: option.splits)
qed

subsection \<open>The blocks graph\<close>

definition blocks_edges :: "task_db \<Rightarrow> (string \<times> string) set" where
  "blocks_edges db = {(rel_source r, rel_target r) | r. r \<in> set (td_rels db) \<and> rel_kind r = Blocks}"

lemma blocks_edges_insert:
  "insert_rel r db = Ok db' \<Longrightarrow> blocks_edges db' =
     (if rel_kind r = Blocks then insert (rel_source r, rel_target r) (blocks_edges db) else blocks_edges db)"
  by (auto simp: insert_rel_Ok blocks_edges_def)

lemma task_in_unique: "task_wf db \<Longrightarrow> task_in db o1 i \<Longrightarrow> task_in db o2 i \<Longrightarrow> o1 = o2"
  using distinct_map_inj[of t_id "td_tasks db"] by (fastforce simp: task_wf_def task_in_def)

lemma blocks_edges_org:
  assumes "task_wf db" "(x, y) \<in> blocks_edges db" "task_in db o' x"
  shows "y \<in> set (blocks_targets db o' x) \<and> task_in db o' y"
proof -
  from assms(2) obtain r where r: "r \<in> set (td_rels db)" "rel_kind r = Blocks" "rel_source r = x" "rel_target r = y"
    by (auto simp: blocks_edges_def)
  then obtain o2 where "task_in db o2 x" "task_in db o2 y"
    using assms(1) by (auto simp: task_wf_def list_all_iff same_org_edge_def)
  with assms have "task_in db o' y" using task_in_unique by blast
  with r assms(3) show ?thesis by (auto simp: blocks_targets_def task_in_def)
qed

lemma blocks_path_org:
  "(x, y) \<in> (blocks_edges db)\<^sup>* \<Longrightarrow> task_wf db \<Longrightarrow> task_in db o' x
   \<Longrightarrow> (x, y) \<in> (step_rel (blocks_targets db o'))\<^sup>* \<and> task_in db o' y"
proof (induction rule: rtrancl_induct)
  case (step y z)
  then have xy: "(x, y) \<in> (step_rel (blocks_targets db o'))\<^sup>*" "task_in db o' y" by auto
  have "(y, z) \<in> step_rel (blocks_targets db o')" "task_in db o' z"
    using blocks_edges_org[OF step(4) step(2) xy(2)] by (simp_all add: step_rel_iff)
  with xy show ?case by (auto intro: rtrancl_into_rtrancl)
qed simp

lemma reachable_bounded:
  assumes "task_wf db" "task_in db o' t" "length (td_tasks db) \<le> MAX_NODES"
  shows "card (reachable_from (blocks_targets db o') t) \<le> MAX_NODES"
proof -
  have "y \<in> task_ids db" if "(t, y) \<in> (step_rel (blocks_targets db o'))\<^sup>*" for y
    using that
  proof (cases rule: rtranclE)
    case (step z)
    then show ?thesis using assms(1)
      by (auto simp: step_rel_iff blocks_targets_def task_wf_def list_all_iff same_org_edge_def)
  qed (use assms(2) in \<open>auto simp: task_in_def task_ids_def\<close>)
  then have "reachable_from (blocks_targets db o') t \<subseteq> task_ids db" by (auto simp: reachable_from_def)
  then have "card (reachable_from (blocks_targets db o') t) \<le> card (task_ids db)"
    by (intro card_mono) (auto simp: task_ids_def)
  also have "\<dots> \<le> length (td_tasks db)" unfolding task_ids_def by (metis card_length length_map list.set_map)
  finally show ?thesis using assms(3) by simp
qed

definition acyclic_edge_ok :: "task_db \<Rightarrow> rel_row \<Rightarrow> bool" where
  "acyclic_edge_ok db r \<longleftrightarrow> same_org_edge db r
     \<and> (length (td_tasks db) \<le> MAX_NODES \<longrightarrow> rel_kind r = Blocks
        \<longrightarrow> (rel_target r, rel_source r) \<notin> (blocks_edges db)\<^sup>*)"

definition acyclic_law :: "task_world \<Rightarrow> bool" where
  "acyclic_law w \<longleftrightarrow> task_wf (fst w) \<and> (length (td_tasks (fst w)) \<le> MAX_NODES \<longrightarrow> acyclic (blocks_edges (fst w)))"

lemma acyclic_guarded:
  assumes "task_wf db" "task_in db o' a" "task_in db o' b" "dep_guard db o' (a, b, k)"
  shows "acyclic_edge_ok db \<lparr>rel_id = i, rel_source = a, rel_target = b, rel_kind = k\<rparr>"
proof -
  have "(b, a) \<notin> (blocks_edges db)\<^sup>*" if "length (td_tasks db) \<le> MAX_NODES" "k = Blocks"
  proof
    assume "(b, a) \<in> (blocks_edges db)\<^sup>*"
    then have "(b, a) \<in> (step_rel (blocks_targets db o'))\<^sup>*" using blocks_path_org assms(1,3) by blast
    then have "detectBlocksCycle db a b o'"
      using detectBlocksCycle_complete[OF reachable_bounded[OF assms(1,3) that(1)]] by blast
    then show False using assms(4) that(2) by (simp add: dep_guard_def)
  qed
  then show ?thesis using assms by (simp add: acyclic_edge_ok_def same_org_edge_new)
qed

lemma acyclic_forward:
  assumes "task_in db o' a" "task_in db o' b" "a \<noteq> b" "b \<notin> rel_source ` set (td_rels db)"
  shows "acyclic_edge_ok db \<lparr>rel_id = i, rel_source = a, rel_target = b, rel_kind = Blocks\<rparr>"
proof -
  have "(b, a) \<notin> (blocks_edges db)\<^sup>*"
  proof
    assume "(b, a) \<in> (blocks_edges db)\<^sup>*"
    then show False using assms(3,4) by (cases rule: converse_rtranclE) (auto simp: blocks_edges_def)
  qed
  then show ?thesis using assms by (simp add: acyclic_edge_ok_def same_org_edge_new)
qed

interpretation order: task_law acyclic_law acyclic_edge_ok
proof (unfold_locales, goal_cases)
  case (2 db pend p o' c r db')
  then show ?case
    by (auto simp: acyclic_law_def reserve_keeps blocks_edges_def dest: wf_reserve)
next
  case (4 db pend o')
  then show ?case by (auto simp: acyclic_law_def reconcile_keeps blocks_edges_def intro: wf_reconcile)
next
  case (5 db pend t db')
  then show ?case by (auto simp: acyclic_law_def insert_task_Ok blocks_edges_def dest: wf_insert)
next
  case (6 db pend acts)
  then show ?case by (auto simp: acyclic_law_def blocks_edges_def intro: wf_activity)
next
  case (7 db pend e db')
  then have "task_wf db'" using wf_relate by (auto simp: acyclic_law_def acyclic_edge_ok_def)
  with 7 show ?case
    using blocks_edges_insert[OF 7(3)] arg_cong[OF insert_rel_Ok[THEN iffD1, OF 7(3), THEN conjunct1], of td_tasks]
    by (auto simp: acyclic_law_def acyclic_edge_ok_def acyclic_insert)
next
  case (8 db pend P)
  have "blocks_edges (db\<lparr>td_rels := filter P (td_rels db)\<rparr>) \<subseteq> blocks_edges db"
    by (auto simp: blocks_edges_def)
  with 8 show ?case by (auto simp: acyclic_law_def intro: wf_unrelate acyclic_subset)
next
  case (9 db pend o' a b k i)
  then show ?case by (auto simp: acyclic_law_def intro: acyclic_guarded)
next
  case (10 db pend o' a b i)
  then show ?case by (auto intro: acyclic_forward)
qed (auto simp: acyclic_law_def)

text \<open>C33. The \<open>blocks\<close> graph stays free of cycles: no sequence of route calls, tool calls, bundles and
  task copies closes a cycle while the workspace holds at most 1000 tasks.\<close>
theorem blocks_graph_stays_acyclic:
  assumes "task_wf db" and "acyclic (blocks_edges db)" and "task_run (db, pend) (db', pend')"
    and "length (td_tasks db') \<le> 1000"
  shows "acyclic (blocks_edges db')"
proof -
  have "acyclic_law (db', pend')"
    using order.run_keeps[OF assms(3)] assms(1,2) by (simp add: acyclic_law_def)
  then show ?thesis using assms(4) by (simp add: acyclic_law_def MAX_NODES_def)
qed

subsection \<open>Identifiers\<close>

lemma last_index_of_suffix: "d \<notin> set s \<Longrightarrow> last_index_of d (p @ d # s) = Some (length p)"
proof (induction p)
  case Nil
  have "last_index_of d s = None" using Nil by (induction s) auto
  then show ?case by simp
qed simp

definition valid_prefix :: "string \<Rightarrow> bool" where
  "valid_prefix prefix \<longleftrightarrow> 2 \<le> length prefix \<and> length prefix \<le> 6 \<and> list_all upper_fixed prefix"

lemma parse_task_identifier:
  assumes "valid_prefix prefix" "0 \<le> n" "n \<le> max_int4"
  shows "parseProjectTaskIdentifier (task_identifier prefix n) = Some (prefix, n)"
proof -
  let ?d = "nat_to_string (nat n)"
  have "\<not> js_is_digit (CHR ''-'')" by code_simp
  then have "CHR ''-'' \<notin> set ?d" using nat_to_string_digits[of "nat n"] by (auto simp: list_all_iff)
  then have "last_index_of (CHR ''-'') (prefix @ CHR ''-'' # ?d) = Some (length prefix)"
    by (rule last_index_of_suffix)
  then show ?thesis
    using assms nat_to_string_digits[of "nat n"]
    by (cases prefix) (simp_all add: parseProjectTaskIdentifier_def task_identifier_def int_to_string_def valid_prefix_def
        Let_def digits_value_nat_to_string)
qed

lemma resolve_task_identifier:
  assumes wf: "task_wf db" and t: "t \<in> set (td_tasks db)" and "valid_prefix prefix"
    and n: "0 \<le> t_number t" "t_number t \<le> max_int4"
    and key: "(t_project t, t_org t, prefix) \<in> set (project_keys db)"
  shows "resolveTaskIdentifier (task_identifier prefix (t_number t)) (t_org t) db = Some (t_id t)"
proof -
  from key obtain p where p: "p \<in> set (td_projects db)" "pj_id p = t_project t" "pj_org p = t_org t" "pj_prefix p = prefix"
    by (auto simp: project_keys_def)
  have "List.find (\<lambda>p. pj_org p = t_org t \<and> pj_prefix p = prefix) (td_projects db) = Some p"
    using p wf distinct_map_inj[of "\<lambda>p. (pj_org p, pj_prefix p)" "td_projects db"]
    by (intro find_unique) (auto simp: task_wf_def)
  moreover have "List.find (\<lambda>u. t_project u = t_project t \<and> t_number u = t_number t) (td_tasks db) = Some t"
    using t wf distinct_map_inj[of "\<lambda>u. (t_project u, t_number u)" "td_tasks db"]
    by (intro find_unique) (auto simp: task_wf_def)
  ultimately show ?thesis
    using parse_task_identifier[OF assms(3) n] p by (simp add: resolveTaskIdentifier_def)
qed

text \<open>The contract that one task stays as it is and the projects keep their keys.\<close>

definition keeps_task :: "task_row \<Rightarrow> (string \<times> string \<times> string) list \<Rightarrow> task_world \<Rightarrow> bool" where
  "keeps_task t keys w \<longleftrightarrow> task_wf (fst w) \<and> t \<in> set (td_tasks (fst w)) \<and> project_keys (fst w) = keys"

interpretation names: task_law "keeps_task t keys" same_org_edge for t keys
proof (unfold_locales, goal_cases)
  case (2 db pend p o' c r db')
  then show ?case by (auto simp: keeps_task_def reserve_keeps dest: wf_reserve)
next
  case (4 db pend o')
  then show ?case by (auto simp: keeps_task_def reconcile_keeps intro: wf_reconcile)
next
  case (5 db pend u db')
  then show ?case by (auto simp: keeps_task_def insert_task_Ok project_keys_def dest: wf_insert)
next
  case (6 db pend acts)
  then show ?case by (auto simp: keeps_task_def project_keys_def intro: wf_activity)
next
  case (7 db pend e db')
  then show ?case by (auto simp: keeps_task_def insert_rel_Ok project_keys_def dest: wf_relate)
next
  case (8 db pend P)
  then show ?case by (auto simp: keeps_task_def project_keys_def intro: wf_unrelate)
qed (auto simp: keeps_task_def same_org_edge_new)

lemma insert_children_rows:
  "insert_children p parent fresh first index ss db = Ok (ts, db') \<Longrightarrow>
     td_tasks db' = td_tasks db @ ts \<and> td_projects db' = td_projects db
     \<and> (\<forall>t \<in> set ts. t_org t = bp_org p \<and> t_project t = bp_project p
          \<and> first < t_number t \<and> t_number t \<le> first + int index + int (length ss))"
proof (induction p parent fresh first index ss db arbitrary: ts db' rule: insert_children.induct)
  case (2 p parent fresh first index s ss db)
  let ?t = "bundle_row p (fresh (index + 1)) (first + int index + 1) (Some parent)
      (ns_title s) (ns_priority s) (ns_assignee s)"
  from 2(2) obtain db1 ts1 where ops: "insert_task ?t db = Ok db1"
      "insert_children p parent fresh first (Suc index) ss db1 = Ok (ts1, db')" "ts = ?t # ts1"
    by (auto simp: res_bind_Ok_iff Let_def)
  have "db1 = db\<lparr>td_tasks := td_tasks db @ [?t]\<rparr>" using ops(1) by (simp add: insert_task_Ok)
  with 2(1)[OF refl ops(2)] ops(3) show ?case by (auto simp: bundle_row_def)
qed simp

lemma insert_rels_rows:
  "insert_rels fresh k es db = Ok db' \<Longrightarrow> td_tasks db' = td_tasks db \<and> td_projects db' = td_projects db"
proof (induction fresh k es db rule: insert_rels.induct)
  case (3 fresh k s t es db)
  then show ?case by (auto simp: res_bind_Ok_iff insert_rel_Ok)
qed auto

lemma bundle_tx_rows:
  assumes "task_wf db" "bundle_tx fresh fresh_rel auth p title subs db = Ok ((parent, children), db')"
  shows "set (parent # children) \<subseteq> set (td_tasks db') \<and> project_keys db' = project_keys db
     \<and> (\<forall>t \<in> set (parent # children). t_org t = bp_org p \<and> t_project t = bp_project p
          \<and> 1 \<le> t_number t \<and> t_number t \<le> max_int4)"
proof -
  from assms(2) obtain r db1 db2 db3 db4 where ops:
    "reserveTaskNumberRange (bp_project p) (bp_org p) (Some (of_nat (1 + length subs))) db = Ok (r, db1)"
    "insert_task parent db1 = Ok db2"
    "insert_children p (fresh 0) fresh (fst r) 0 subs db2 = Ok (children, db3)"
    "insert_rels fresh_rel 0 (relationship_pairs children subs) db3 = Ok db4"
    "db' = db4\<lparr>td_activity := td_activity db4 @ map (\<lambda>t. (t_id t, ''created'')) (parent # children)\<rparr>"
    and parent: "t_org parent = bp_org p" "t_project parent = bp_project p" "t_number parent = fst r"
    by (auto simp: bundle_tx_def bundle_row_def res_bind_Ok_iff Let_def split: prod.splits if_splits)
  have "fst (quotient_of (1 + rat_of_nat (length subs))) = 1 + int (length subs)"
    using quotient_of_int[of "1 + int (length subs)"] by (simp add: Rat.of_int_def)
  then have last: "snd r = fst r + int (length subs)"
    using ops(1) by (auto simp: reserveTaskNumberRange_def Let_def split: if_splits option.splits)
  have db2: "db2 = db1\<lparr>td_tasks := td_tasks db1 @ [parent]\<rparr>" using ops(2) by (simp add: insert_task_Ok)
  have bounds: "1 \<le> fst r" "snd r \<le> max_int4" using reserve_counters[OF assms(1) ops(1)] by simp_all
  note rows = insert_children_rows[OF ops(3)] insert_rels_rows[OF ops(4)]
  have "project_keys db' = project_keys db1" using rows by (simp add: ops(5) db2 project_keys_def)
  then have "project_keys db' = project_keys db" by (simp add: reserve_keeps[OF ops(1)])
  then show ?thesis using rows bounds last parent by (force simp: ops(5) db2)
qed

text \<open>The identifiers a bundle answers with (prefix, dash, number) name the tasks it created: each
  parses back to its prefix and number and resolves to its task, then and after any later work.\<close>
theorem bundle_identifiers_resolve:
  assumes "task_wf db" and "createTaskBundle fresh fresh_rel auth adb p db = Ok (ts, db1)"
    and "list_all (\<lambda>q. valid_prefix (pj_prefix q)) (td_projects db)"
    and "task_run (db1, pend) (db2, pend')" and "(t, identifier) \<in> set ts"
  shows "resolveTaskIdentifier identifier (bp_org p) db2 = Some (t_id t)"
proof -
  from assms(2) obtain q subs parent children title where
    q: "List.find (\<lambda>r. pj_id r = bp_project p \<and> pj_org r = bp_org p) (td_projects db) = Some q"
    and tx: "bundle_tx fresh fresh_rel auth p title subs db = Ok ((parent, children), db1)"
    and ts: "ts = map (\<lambda>t. (t, task_identifier (pj_prefix q) (t_number t))) (parent # children)"
    by (auto simp: createTaskBundle_def Let_def res_bind_Ok_iff split: if_splits option.splits prod.splits)
  note rows = bundle_tx_rows[OF assms(1) tx]
  have t: "t \<in> set (parent # children)" "identifier = task_identifier (pj_prefix q) (t_number t)"
    using assms(5) by (auto simp: ts)
  have "pj_id q = bp_project p" "pj_org q = bp_org p" "q \<in> set (td_projects db)" using find_Some_set[OF q] by simp_all
  then have key: "(t_project t, t_org t, pj_prefix q) \<in> set (project_keys db)" and pre: "valid_prefix (pj_prefix q)"
    using rows t(1) assms(3) by (auto simp: project_keys_def list_all_iff intro!: image_eqI)
  have "task_wf db1" using nums.bundle_keeps[of db "{#}", OF _ assms(2)] assms(1) by (simp add: pend_ok_def)
  then have "keeps_task t (project_keys db) (db1, pend)" using rows t(1) by (auto simp: keeps_task_def)
  then have "keeps_task t (project_keys db) (db2, pend')" by (rule names.run_keeps[OF assms(4)])
  then have "task_wf db2" "t \<in> set (td_tasks db2)" "(t_project t, t_org t, pj_prefix q) \<in> set (project_keys db2)"
    using key by (auto simp: keeps_task_def)
  then show ?thesis using resolve_task_identifier[of db2 t "pj_prefix q"] rows t pre by auto
qed

end
