(* ===== verification/TaskSamples.thy ===== *)
theory TaskSamples
  imports TaskProperties
begin

text \<open>
  The task store's properties on a concrete workspace, and two ways past the cycle check: two
  requests that check before either inserts, and a target with more than a thousand successors.
\<close>

subsection \<open>A workspace\<close>

definition sample_project :: project_row where
  "sample_project = \<lparr>pj_id = ''p1'', pj_org = ''o1'', pj_prefix = ''ENG'', pj_lead = None, pj_counter = 0\<rparr>"

definition sample_task :: "string \<Rightarrow> int \<Rightarrow> task_row" where
  "sample_task i n = \<lparr>t_id = i, t_org = ''o1'', t_project = ''p1'', t_number = n, t_title = ''task'',
     t_status = ''backlog'', t_priority = ''p2'', t_assignee = None, t_created_by = ''u1'',
     t_parent = None, t_metadata = JNull\<rparr>"

text \<open>The counter of the project is stale: two tasks exist, with the numbers 1 and 2.\<close>

definition sample_store :: task_db where
  "sample_store = \<lparr>td_projects = [sample_project], td_tasks = [sample_task ''a'' 1, sample_task ''b'' 2],
     td_rels = [], td_watchers = [], td_assignees = [], td_activity = []\<rparr>"

definition sample_bundle :: bundle_params where
  "sample_bundle = \<lparr>bp_org = ''o1'', bp_project = ''p1'', bp_created_by = ''u1'', bp_title = ''Launch'',
     bp_priority = JStr ''p1'', bp_assignee = None, bp_source_event = None,
     bp_subtasks = JArr [JObj [(''title'', JStr ''Draft'')],
       JObj [(''title'', JStr ''Review''), (''depends_on'', JArr [JNum 1])]]\<rparr>"

definition sample_fresh :: "nat \<Rightarrow> string" where
  "sample_fresh k = ''n'' @ nat_to_string k"

lemma sample_store_wf: "task_wf sample_store"
  by (simp add: task_wf_def sample_store_def sample_project_def sample_task_def homed_def)

lemma sample_store_acyclic: "acyclic (blocks_edges sample_store)"
  by (simp add: blocks_edges_def sample_store_def wf_acyclic)

definition sample_edge :: rel_row where
  "sample_edge = \<lparr>rel_id = ''r1'', rel_source = ''a'', rel_target = ''b'', rel_kind = Blocks\<rparr>"

definition linked_store :: task_db where
  "linked_store = sample_store\<lparr>td_rels := [sample_edge]\<rparr>"

lemma link_a_b: "add_dependency ''r1'' ''o1'' ''ENG-1'' ''ENG-2'' ''blocks'' sample_store = Ok (sample_edge, linked_store)"
  by code_simp

lemma link_b_a_refused: "add_dependency ''r2'' ''o1'' ''ENG-2'' ''ENG-1'' ''blocks'' linked_store = Throw DepCycle"
  by code_simp

lemma link_is_a_step: "task_run (sample_store, {#}) (linked_store, {#})"
  by (rule r_into_rtranclp) (rule task_step.ToolAdd[OF link_a_b])

lemma cycle_check_is_reachability_witness:
  "detectBlocksCycle linked_store ''b'' ''a'' ''o1'' \<longleftrightarrow> ''b'' \<in> reachable_from (blocks_targets linked_store ''o1'') ''a''"
proof (rule cycle_check_is_reachability)
  have "task_wf linked_store"
    using nums.run_keeps[OF link_is_a_step] sample_store_wf by (simp add: pend_ok_def)
  moreover have "task_in linked_store ''o1'' ''a''" "length (td_tasks linked_store) \<le> MAX_NODES"
    by code_simp+
  ultimately show "card (reachable_from (blocks_targets linked_store ''o1'') ''a'') \<le> 1000"
    using reachable_bounded[of linked_store "''o1''" "''a''"] by (simp add: MAX_NODES_def)
qed

lemma blocks_graph_stays_acyclic_witness: "acyclic (blocks_edges linked_store) \<and> ''a'' \<in> Domain (blocks_edges linked_store)"
proof
  have "length (td_tasks linked_store) \<le> 1000" by (simp add: linked_store_def sample_store_def)
  then show "acyclic (blocks_edges linked_store)"
    by (rule blocks_graph_stays_acyclic[OF sample_store_wf sample_store_acyclic link_is_a_step])
  show "''a'' \<in> Domain (blocks_edges linked_store)"
    by (auto simp: blocks_edges_def linked_store_def sample_edge_def)
qed

text \<open>A reservation of one number repairs the counter and hands out 3.\<close>

definition reserved_store :: task_db where
  "reserved_store = sample_store\<lparr>td_projects := [sample_project\<lparr>pj_counter := 3\<rparr>]\<rparr>"

lemma sample_reserve: "reserveTaskNumberRange ''p1'' ''o1'' None sample_store = Ok ((3, 3), reserved_store)"
  by code_simp

lemma reserved_number_is_never_taken_witness:
  "insert_task (sample_task ''c'' 3) reserved_store
     = Ok (reserved_store\<lparr>td_tasks := td_tasks reserved_store @ [sample_task ''c'' 3]\<rparr>)"
proof (rule reserved_number_is_never_taken[OF sample_store_wf])
  have "range_numbers ''p1'' (3, 3) = {#(''p1'', 3)#}" by (simp add: range_numbers_def)
  then show "task_run (sample_store, {#}) (reserved_store, {#(''p1'', 3)#})"
    using task_step.Reserve[OF sample_reserve, of "{#}"] by simp
  show "t_id (sample_task ''c'' 3) \<notin> task_ids reserved_store"
    by (simp add: sample_task_def task_ids_def reserved_store_def sample_store_def)
qed (simp_all add: sample_task_def)

text \<open>A bundle of a parent and two subtasks takes the numbers 3, 4 and 5.\<close>

definition no_assignees :: assignee_db where
  "no_assignees = \<lparr>as_users = [], as_members = [], as_employees = []\<rparr>"

abbreviation sample_created :: "task_error + (task_row \<times> string) list \<times> task_db" where
  "sample_created \<equiv> createTaskBundle sample_fresh sample_fresh True no_assignees sample_bundle sample_store"

lemma sample_bundle_created:
  "map_sum (\<lambda>e. e) (\<lambda>(ts, db). (map (\<lambda>(t, i). (t_id t, i)) ts, map (\<lambda>r. (rel_source r, rel_target r)) (td_rels db))) sample_created
   = Ok ([(''n0'', ''ENG-3''), (''n1'', ''ENG-4''), (''n2'', ''ENG-5'')], [(''n1'', ''n2'')])"
  by code_simp

lemma bundle_identifiers_resolve_witness:
  "\<exists>ts db. sample_created = Ok (ts, db) \<and> resolveTaskIdentifier ''ENG-5'' ''o1'' db = Some ''n2''"
proof -
  obtain ts db where ok: "sample_created = Ok (ts, db)"
    and ids: "map (\<lambda>(t, i). (t_id t, i)) ts = [(''n0'', ''ENG-3''), (''n1'', ''ENG-4''), (''n2'', ''ENG-5'')]"
    using sample_bundle_created by (cases sample_created) auto
  have "(''n2'', ''ENG-5'') \<in> set (map (\<lambda>(t, i). (t_id t, i)) ts)" unfolding ids by simp
  then obtain t where t: "(t, ''ENG-5'') \<in> set ts" "t_id t = ''n2''" by auto
  have "list_all (\<lambda>q. valid_prefix (pj_prefix q)) (td_projects sample_store)" by code_simp
  moreover have "task_run (db, {#}) (db, {#})" by simp
  ultimately have "resolveTaskIdentifier ''ENG-5'' (bp_org sample_bundle) db = Some (t_id t)"
    using bundle_identifiers_resolve[OF sample_store_wf ok _ _ t(1)] by blast
  then have "resolveTaskIdentifier ''ENG-5'' ''o1'' db = Some ''n2''" using t(2) by (simp add: sample_bundle_def)
  with ok show ?thesis by blast
qed

subsection \<open>Past the check\<close>

text \<open>
  The check and the insert are separate statements without a lock.  Two requests for opposite
  edges both pass the check on the same store, both insert, and the graph has a cycle.
\<close>

lemma blocks_edges_memI: "r \<in> set (td_rels db) \<Longrightarrow> rel_kind r = Blocks \<Longrightarrow> (rel_source r, rel_target r) \<in> blocks_edges db"
  by (auto simp: blocks_edges_def)

lemma concurrent_checks_close_a_cycle:
  "dep_guard sample_store ''o1'' (''a'', ''b'', Blocks) \<and> dep_guard sample_store ''o1'' (''b'', ''a'', Blocks)
   \<and> (\<exists>r1 db1 r2 db2. dep_insert ''r1'' (''a'', ''b'', Blocks) sample_store = Ok (r1, db1)
        \<and> dep_insert ''r2'' (''b'', ''a'', Blocks) db1 = Ok (r2, db2) \<and> \<not> acyclic (blocks_edges db2))"
proof -
  let ?r2 = "\<lparr>rel_id = ''r2'', rel_source = ''b'', rel_target = ''a'', rel_kind = Blocks\<rparr>"
  have "dep_insert ''r1'' (''a'', ''b'', Blocks) sample_store = Ok (sample_edge, linked_store)" by code_simp
  moreover have "dep_insert ''r2'' (''b'', ''a'', Blocks) linked_store
      = Ok (?r2, linked_store\<lparr>td_rels := [sample_edge, ?r2]\<rparr>)" by code_simp
  moreover have "(''a'', ''a'') \<in> (blocks_edges (linked_store\<lparr>td_rels := [sample_edge, ?r2]\<rparr>))\<^sup>+"
  proof (rule trancl_into_trancl[OF r_into_trancl[of "''a''" "''b''"]])
    let ?db = "linked_store\<lparr>td_rels := [sample_edge, ?r2]\<rparr>"
    show "(''a'', ''b'') \<in> blocks_edges ?db"
      using blocks_edges_memI[of sample_edge ?db] by (simp add: sample_edge_def)
    show "(''b'', ''a'') \<in> blocks_edges ?db"
      using blocks_edges_memI[of ?r2 ?db] by simp
  qed
  moreover have "dep_guard sample_store ''o1'' (''a'', ''b'', Blocks)" "dep_guard sample_store ''o1'' (''b'', ''a'', Blocks)"
    by code_simp+
  ultimately show ?thesis unfolding acyclic_def by blast
qed

lemma scan_rows_fresh:
  "distinct ns \<Longrightarrow> f \<notin> set ns \<Longrightarrow> set ns \<inter> set vis = {} \<Longrightarrow>
     scan_rows f vis q ns = Some (rev ns @ vis, q @ ns)"
  by (induction ns arbitrary: vis q) auto

text \<open>A task that blocks a thousand others hides everything behind them.\<close>

lemma wide_target_is_not_searched:
  assumes "blocks_targets db o' t = ns" "distinct ns" "1000 \<le> length ns" "f \<notin> set ns" "t \<notin> set ns" "f \<noteq> t"
  shows "\<not> detectBlocksCycle db f t o'"
proof -
  have "scan_rows f [t] [] ns = Some (rev ns @ [t], ns)"
    using scan_rows_fresh[of ns f "[t]" "[]"] assms by simp
  moreover have "\<not> bfs (blocks_targets db o') f (rev ns @ [t]) ns"
    using assms(3) by (cases ns) (simp_all add: MAX_NODES_def)
  ultimately show ?thesis using assms(1,6) by (simp add: detectBlocksCycle_def MAX_NODES_def)
qed

text \<open>
  The 409 answer for a dependency that exists already needs a unique violation, and the table has
  no unique index on its ends: only a reused row id gives one.  The same edge is stored twice.
\<close>

lemma duplicate_edge_is_accepted:
  assumes "fresh \<notin> rel_id ` set (td_rels db)"
  shows "dep_insert fresh e db \<noteq> Throw DepExists"
  using assms by (auto simp: dep_insert_def insert_rel_def Let_def split: prod.splits)

end
