(* ===== verification/PlanEngine.thy ===== *)
theory PlanEngine
  imports Approval
begin

text \<open>
  Agent plans: the resolution of step references and conditions, the execution loop with its
  approval gate, failure recovery, fail-fast and rollback (agent-plans.ts), the direct execution of
  an action with its log row (agent-actions.ts), and the routes that move a plan between its states
  (routes/agent-plans.ts).

  What lies outside is an argument, \<open>plan_env\<close>: the tools themselves, the discovery of MCP tools, the
  recovery agent, the preflight of an action, the digest, and other requests that change the plan's
  status while it runs.  They act on a state of their own, \<open>pw_ext\<close>.
\<close>

subsection \<open>Data\<close>

datatype step_status =
    StPending | StRunning | StCompleted | StFailed | StSkipped | StWaitingApproval | StSkippedDueToFailure

datatype plan_status = PlDraft | PlApproved | PlExecuting | PlPaused | PlCompleted | PlFailed

datatype action_status = AcPending | AcApproved | AcRejected | AcExpired

record step_condition =
  co_field :: jsv
  co_operator :: string
  co_value :: jsv

record plan_step =
  sp_id :: string
  sp_description :: string
  sp_tool :: string
  sp_params :: jsv
  sp_depends_on :: "string list option"
  sp_condition :: "step_condition option"
  sp_status :: "step_status option"
  sp_result :: jsv
  sp_error :: "string option"

type_synonym plan_context = "(string \<times> jsv) list"

record plan_row =
  pl_id :: string
  pl_org :: string
  pl_user :: string
  pl_employee :: "string option"
  pl_title :: string
  pl_steps :: "plan_step list"
  pl_status :: plan_status
  pl_current_step :: nat
  pl_context :: plan_context
  pl_error :: "string option"
  pl_fail_fast :: bool
  pl_rollback_on_fail :: bool

record action_row =
  ac_id :: string
  ac_org :: string
  ac_user :: string
  ac_employee :: "string option"
  ac_source :: string
  ac_plan :: "string option"
  ac_step :: "string option"
  ac_request_key :: "string option"
  ac_action :: string
  ac_params :: jsv
  ac_tier :: approval_tier
  ac_status :: action_status
  ac_executed :: bool
  ac_result :: jsv
  ac_error :: "string option"

datatype plan_event_type = StepStart | StepComplete | StepSkip | StepFail | PlanPause | PlanComplete | PlanFail

datatype rollback_effect = DeleteTask jsv | DeleteMessage jsv

text \<open>
  A call that hands a write over to be executed, with the state of the outside in which it is made and
  the step it is made for.  \<open>ToolCall\<close> is \<open>executeAction\<close> on a row of the log; \<open>GovernedCall\<close> is the path of
  the module record and task link actions, which claim their row themselves, with the tier and with
  \<open>forceApproval\<close>, under which they only queue the action.
\<close>

datatype 'e write_call =
    ToolCall 'e "string option" string string jsv
  | GovernedCall 'e "string option" string jsv approval_tier bool

text \<open>
  The store: the plan's row, the log of agent actions, the calls that were made to execute writes, the
  read tools that were called, the effects of a rollback, the events.
\<close>

record 'e plan_world =
  pw_plan :: "plan_row option"
  pw_actions :: "action_row list"
  pw_writes :: "'e write_call list"
  pw_reads :: "(string \<times> jsv) list"
  pw_rollbacks :: "rollback_effect list"
  pw_events :: "(plan_event_type \<times> string option) list"
  pw_ext :: 'e

record write_result =
  wr_action :: string
  wr_success :: bool
  wr_result :: jsv
  wr_error :: "string option"
  wr_requires_approval :: bool

record tool_outcome =
  to_success :: bool
  to_result :: jsv
  to_error :: "string option"
  to_executed :: bool
  to_row_error :: "string option"

record mcp_tool =
  mt_name :: string
  mt_tier :: approval_tier
  mt_write :: bool

record 'e plan_env =
  pe_org :: string
  pe_user :: string
  pe_trust :: "'e \<Rightarrow> trust_level option"
  pe_read :: "string \<Rightarrow> jsv \<Rightarrow> 'e \<Rightarrow> (string + jsv) \<times> 'e"
  pe_write :: "string \<Rightarrow> string \<Rightarrow> jsv \<Rightarrow> 'e \<Rightarrow> tool_outcome \<times> 'e"
  pe_governed :: "string \<Rightarrow> jsv \<Rightarrow> approval_tier \<Rightarrow> bool \<Rightarrow> 'e \<Rightarrow> (string + write_result) \<times> 'e"
  pe_mcp :: "'e \<Rightarrow> mcp_tool list"
  pe_blocked :: "string \<Rightarrow> jsv \<Rightarrow> 'e \<Rightarrow> string option"
  pe_preflight :: "string \<Rightarrow> jsv \<Rightarrow> bool \<Rightarrow> 'e \<Rightarrow> string + jsv"
  pe_recover :: "string \<Rightarrow> 'e \<Rightarrow> (string + string) \<times> 'e"
  pe_digest :: "string \<Rightarrow> jsv \<Rightarrow> string"
  pe_fresh :: "nat \<Rightarrow> string"
  pe_before :: "nat \<Rightarrow> 'e \<Rightarrow> plan_status option"
  pe_during :: "nat \<Rightarrow> 'e \<Rightarrow> plan_status option"
  pe_num :: "rat \<Rightarrow> string"
  pe_to_num :: "string \<Rightarrow> jsv"

definition ACTION_TOOLS :: "string list" where
  "ACTION_TOOLS =
     [''create_task'', ''update_task_status'', ''bulk_update_tasks'', ''assign_task'', ''post_message'',
      ''create_reminder'', ''add_knowledge'', ''wiki_write'', ''comment_on_task'', ''set_due_date'',
      ''set_priority'', ''add_label'', ''close_task'', ''reopen_task'', ''add_dependency'',
      ''remove_dependency'', ''create_note'', ''note_to_wiki'', ''post_thread_reply'', ''write_canvas'',
      ''link_decision_to_tasks'', ''mark_decision_implemented'', ''module_record_task_link'',
      ''module_record_task_unlink'', ''module_record_create'', ''module_record_bulk_create'',
      ''module_record_update'', ''module_record_archive'', ''document_send'']"

definition isModuleWriteAction :: "string \<Rightarrow> bool" where
  "isModuleWriteAction action \<longleftrightarrow>
     action \<in> {''module_record_create'', ''module_record_update'', ''module_record_archive''}"

definition isModuleTaskLinkWriteAction :: "string \<Rightarrow> bool" where
  "isModuleTaskLinkWriteAction action \<longleftrightarrow>
     action \<in> {''module_record_task_link'', ''module_record_task_unlink''}"

text \<open>The actions whose log row is claimed by idempotency key instead of inserted.\<close>

definition governed_action :: "string \<Rightarrow> bool" where
  "governed_action action \<longleftrightarrow> isModuleWriteAction action \<or> isModuleTaskLinkWriteAction action
     \<or> action = ''module_record_bulk_create''"

subsection \<open>References\<close>

definition js_own :: "plan_context \<Rightarrow> string \<Rightarrow> jsv" where
  "js_own ctx k = (case map_of ctx k of Some v \<Rightarrow> v | None \<Rightarrow> JUndefined)"

text \<open>\<open>obj[key] = v\<close>: an existing property keeps its place.\<close>

fun js_set :: "string \<Rightarrow> jsv \<Rightarrow> (string \<times> jsv) list \<Rightarrow> (string \<times> jsv) list" where
  "js_set k v [] = [(k, v)]"
| "js_set k v ((k', v') # ps) = (if k' = k then (k, v) # ps else (k', v') # js_set k v ps)"

definition array_index :: "string \<Rightarrow> nat option" where
  "array_index k = (if k \<noteq> [] \<and> list_all js_is_digit k \<and> nat_to_string (digits_value k) = k
     then Some (digits_value k) else None)"

text \<open>\<open>current[part]\<close> on a value that is neither undefined nor null: a property of its own.  (A path that
  names a member of a prototype reaches a function and is outside the model.)\<close>

fun js_member :: "jsv \<Rightarrow> string \<Rightarrow> jsv" where
  "js_member (JObj ps) k = js_own ps k"
| "js_member (JArr vs) k = (if k = ''length'' then JNum (of_nat (length vs))
     else case array_index k of Some i \<Rightarrow> if i < length vs then vs ! i else JUndefined | None \<Rightarrow> JUndefined)"
| "js_member (JStr s) k = (if k = ''length'' then JNum (of_nat (length s))
     else case array_index k of Some i \<Rightarrow> if i < length s then JStr [s ! i] else JUndefined | None \<Rightarrow> JUndefined)"
| "js_member _ k = JUndefined"

definition js_nullish :: "jsv \<Rightarrow> bool" where
  "js_nullish v \<longleftrightarrow> v = JUndefined \<or> v = JNull"

fun nested_parts :: "jsv \<Rightarrow> string list \<Rightarrow> jsv" where
  "nested_parts current [] = current"
| "nested_parts current (part # parts) =
     (if js_nullish current then JUndefined else nested_parts (js_member current part) parts)"

definition getNestedValue :: "jsv \<Rightarrow> string \<Rightarrow> jsv" where
  "getNestedValue obj path = (if js_nullish obj then JUndefined else nested_parts obj (js_split (CHR ''.'') path))"

text \<open>\<open>context[stepId]?.result\<close>.\<close>

definition step_result :: "plan_context \<Rightarrow> string \<Rightarrow> jsv" where
  "step_result ctx i = (let v = js_own ctx i in if js_nullish v then JUndefined else js_member v ''result'')"

definition step_prefix :: string where "step_prefix = ''$step.''"
definition result_infix :: string where "result_infix = ''.result.''"

text \<open>A reference at the start of a string: \<open>$step.\<close>, an id without dots, \<open>.result.\<close>, and the rest.\<close>

definition reference_head :: "string \<Rightarrow> (string \<times> string) option" where
  "reference_head s =
     (if js_starts_with s step_prefix
      then let t = drop (length step_prefix) s; i = takeWhile (\<lambda>c. c \<noteq> CHR ''.'') t; u = dropWhile (\<lambda>c. c \<noteq> CHR ''.'') t in
        if i \<noteq> [] \<and> js_starts_with u result_infix then Some (i, drop (length result_infix) u) else None
      else None)"

definition line_terminator :: "char \<Rightarrow> bool" where
  "line_terminator c \<longleftrightarrow> code_unit c = 10 \<or> code_unit c = 13"

text \<open>\<open>/^\$step\.([^.]+)\.result\.(.+)$/\<close>.\<close>

definition full_reference :: "string \<Rightarrow> (string \<times> string) option" where
  "full_reference s = (case reference_head s of
       Some (i, path) \<Rightarrow> if path \<noteq> [] \<and> list_all (\<lambda>c. \<not> line_terminator c) path then Some (i, path) else None
     | None \<Rightarrow> None)"

text \<open>\<open>/\$step\.([^.]+)\.result\.([^\s}]+)/\<close> at the start of a string, with what follows the match.\<close>

definition path_char :: "char \<Rightarrow> bool" where
  "path_char c \<longleftrightarrow> \<not> js_is_space c \<and> c \<noteq> CHR ''}''"

definition inline_reference :: "string \<Rightarrow> (string \<times> string \<times> string) option" where
  "inline_reference s = (case reference_head s of
       Some (i, r) \<Rightarrow> (let path = takeWhile path_char r in
         if path \<noteq> [] then Some (i, path, dropWhile path_char r) else None)
     | None \<Rightarrow> None)"

text \<open>\<open>String(v)\<close>; the digits of a number come from \<open>num\<close>.\<close>

fun js_text :: "(rat \<Rightarrow> string) \<Rightarrow> jsv \<Rightarrow> string" where
  "js_text num JUndefined = ''undefined''"
| "js_text num JNull = ''null''"
| "js_text num (JBool b) = (if b then ''true'' else ''false'')"
| "js_text num (JNum q) = num q"
| "js_text num JNaN = ''NaN''"
| "js_text num (JInf p) = (if p then ''Infinity'' else ''-Infinity'')"
| "js_text num (JStr s) = s"
| "js_text num (JArr vs) = js_join '','' (map (\<lambda>v. if js_nullish v then [] else js_text num v) vs)"
| "js_text num (JObj ps) = ''[object Object]''"

lemma reference_head_shorter: "reference_head s = Some (i, r) \<Longrightarrow> length r < length s"
proof -
  assume a: "reference_head s = Some (i, r)"
  have "length (dropWhile (\<lambda>c. c \<noteq> CHR ''.'') (drop (length step_prefix) s)) \<le> length s"
    by (rule order_trans[OF length_dropWhile_le]) simp
  moreover have "0 < length s" using a by (auto simp: reference_head_def step_prefix_def split: if_splits)
  ultimately have "length (dropWhile (\<lambda>c. c \<noteq> CHR ''.'') (drop (length step_prefix) s)) - length result_infix < length s"
    unfolding result_infix_def by (cases s) auto
  then show ?thesis
    using a by (auto simp: reference_head_def Let_def split: if_splits)
qed

lemma inline_reference_shorter: "inline_reference s = Some (i, p, r) \<Longrightarrow> length r < length s"
  using length_dropWhile_le[of path_char] reference_head_shorter
  by (fastforce simp: inline_reference_def Let_def split: option.splits if_splits intro: le_less_trans)

text \<open>\<open>value.replace(/.../g, ...)\<close>: matches from left to right; an unresolved reference stays as it is.\<close>

function replace_inline :: "(rat \<Rightarrow> string) \<Rightarrow> plan_context \<Rightarrow> string \<Rightarrow> string" where
  "replace_inline num ctx s = (case inline_reference s of
       Some (i, path, rest) \<Rightarrow>
         (let v = getNestedValue (step_result ctx i) path in
          (if v \<noteq> JUndefined then js_text num v else take (length s - length rest) s) @ replace_inline num ctx rest)
     | None \<Rightarrow> (case s of [] \<Rightarrow> [] | c # t \<Rightarrow> c # replace_inline num ctx t))"
  by pat_completeness auto
termination
  by (relation "measure (\<lambda>(num, ctx, s). length s)") (auto dest: inline_reference_shorter)

declare replace_inline.simps [simp del]

fun resolveValue :: "(rat \<Rightarrow> string) \<Rightarrow> plan_context \<Rightarrow> jsv \<Rightarrow> jsv" where
  "resolveValue num ctx (JStr s) = (case full_reference s of
       Some (i, path) \<Rightarrow> getNestedValue (step_result ctx i) path
     | None \<Rightarrow> JStr (replace_inline num ctx s))"
| "resolveValue num ctx (JArr vs) = JArr (map (resolveValue num ctx) vs)"
| "resolveValue num ctx (JObj ps) = JObj (map (\<lambda>(k, v). (k, resolveValue num ctx v)) ps)"
| "resolveValue num ctx v = v"

text \<open>\<open>Object.entries\<close>, which throws on undefined and null.\<close>

fun js_entries :: "jsv \<Rightarrow> string + (string \<times> jsv) list" where
  "js_entries JUndefined = Throw ''Cannot convert undefined or null to object''"
| "js_entries JNull = Throw ''Cannot convert undefined or null to object''"
| "js_entries (JObj ps) = Ok ps"
| "js_entries (JArr vs) = Ok (map (\<lambda>(i, v). (nat_to_string i, v)) (enumerate 0 vs))"
| "js_entries (JStr s) = Ok (map (\<lambda>(i, c). (nat_to_string i, JStr [c])) (enumerate 0 s))"
| "js_entries v = Ok []"

definition resolveStepReferences :: "(rat \<Rightarrow> string) \<Rightarrow> jsv \<Rightarrow> plan_context \<Rightarrow> string + jsv" where
  "resolveStepReferences num params ctx =
     res_bind (js_entries params) (\<lambda>ps. Ok (JObj (map (\<lambda>(k, v). (k, resolveValue num ctx v)) ps)))"

subsection \<open>Conditions\<close>

text \<open>\<open>Number(v)\<close> of the right-hand side of a comparison.\<close>

fun js_number :: "(rat \<Rightarrow> string) \<Rightarrow> (string \<Rightarrow> jsv) \<Rightarrow> jsv \<Rightarrow> jsv" where
  "js_number num to_num JUndefined = JNaN"
| "js_number num to_num JNull = JNum 0"
| "js_number num to_num (JBool b) = JNum (if b then 1 else 0)"
| "js_number num to_num (JNum q) = JNum q"
| "js_number num to_num JNaN = JNaN"
| "js_number num to_num (JInf p) = JInf p"
| "js_number num to_num v = to_num (js_text num v)"

fun num_less :: "jsv \<Rightarrow> jsv \<Rightarrow> bool" where
  "num_less (JNum a) (JNum b) = (a < b)"
| "num_less (JNum a) (JInf p) = p"
| "num_less (JInf p) (JNum b) = (\<not> p)"
| "num_less (JInf p) (JInf q) = (\<not> p \<and> q)"
| "num_less _ _ = False"

fun js_is_number :: "jsv \<Rightarrow> bool" where
  "js_is_number (JNum _) = True"
| "js_is_number JNaN = True"
| "js_is_number (JInf _) = True"
| "js_is_number _ = False"

definition js_empty :: "jsv \<Rightarrow> bool" where
  "js_empty v \<longleftrightarrow> v = JUndefined \<or> v = JNull \<or> v = JStr [] \<or> v = JArr []"

definition evaluateCondition ::
    "(rat \<Rightarrow> string) \<Rightarrow> (string \<Rightarrow> jsv) \<Rightarrow> step_condition \<Rightarrow> plan_context \<Rightarrow> bool" where
  "evaluateCondition num to_num condition ctx =
     (let fieldValue = resolveValue num ctx (co_field condition);
          value = co_value condition; operator = co_operator condition in
      if operator = ''eq'' then js_strict_eq fieldValue value
      else if operator = ''neq'' then \<not> js_strict_eq fieldValue value
      else if operator = ''gt'' then js_is_number fieldValue \<and> num_less (js_number num to_num value) fieldValue
      else if operator = ''lt'' then js_is_number fieldValue \<and> num_less fieldValue (js_number num to_num value)
      else if operator = ''contains'' then
        (case fieldValue of
           JStr s \<Rightarrow> js_includes s (js_text num value)
         | JArr vs \<Rightarrow> (\<exists>v \<in> set vs. js_strict_eq v value \<or> (v = JNaN \<and> value = JNaN))
         | _ \<Rightarrow> False)
      else if operator = ''empty'' then js_empty fieldValue
      else if operator = ''not_empty'' then \<not> js_empty fieldValue
      else True)"

subsection \<open>Creating a plan and moving it between states\<close>

record create_plan_input =
  ci_org :: string
  ci_user :: string
  ci_employee :: "string option"
  ci_source_message :: "string option"
  ci_task :: "string option"
  ci_title :: string
  ci_steps :: "plan_step list"
  ci_fail_fast :: "bool option"
  ci_rollback_on_fail :: "bool option"

fun truthy_entry :: "string \<Rightarrow> string option \<Rightarrow> plan_context" where
  "truthy_entry k None = []"
| "truthy_entry k (Some s) = (if s = [] then [] else [(k, JStr s)])"

fun flag_or_false :: "bool option \<Rightarrow> bool" where
  "flag_or_false None = False"
| "flag_or_false (Some b) = b"

definition createPlanRow :: "string \<Rightarrow> create_plan_input \<Rightarrow> plan_row" where
  "createPlanRow fresh inp =
     \<lparr>pl_id = fresh, pl_org = ci_org inp, pl_user = ci_user inp, pl_employee = ci_employee inp,
      pl_title = ci_title inp, pl_steps = map (\<lambda>s. s\<lparr>sp_status := Some StPending\<rparr>) (ci_steps inp),
      pl_status = PlDraft, pl_current_step = 0,
      pl_context = truthy_entry ''source_message_id'' (ci_source_message inp) @ truthy_entry ''task_id'' (ci_task inp),
      pl_error = None, pl_fail_fast = flag_or_false (ci_fail_fast inp),
      pl_rollback_on_fail = flag_or_false (ci_rollback_on_fail inp)\<rparr>"

datatype plan_request =
    EditPlan "string option" "plan_step list option"
  | ApprovePlan
  | ExecutePlan
  | PausePlan
  | ResumePlan
  | AbortPlan

datatype plan_response = PlanNotFound | InvalidPlanState | PlanSaved plan_row | PlanEnqueued plan_row

definition own_plan :: "string \<Rightarrow> string \<Rightarrow> plan_row \<Rightarrow> bool" where
  "own_plan org user p \<longleftrightarrow> pl_org p = org \<and> pl_user p = user"

definition edit_plan :: "string option \<Rightarrow> plan_step list option \<Rightarrow> plan_row \<Rightarrow> plan_row" where
  "edit_plan title steps p =
     (let p1 = (case title of Some (c # t) \<Rightarrow> p\<lparr>pl_title := c # t\<rparr> | _ \<Rightarrow> p) in
      case steps of None \<Rightarrow> p1
      | Some ss \<Rightarrow> p1\<lparr>pl_steps := map (\<lambda>s. s\<lparr>sp_status := Some
           (case sp_status s of None \<Rightarrow> StPending | Some st \<Rightarrow> st)\<rparr>) ss\<rparr>)"

definition waiting_to_pending :: "plan_step \<Rightarrow> plan_step" where
  "waiting_to_pending s = (if sp_status s = Some StWaitingApproval then s\<lparr>sp_status := Some StPending\<rparr> else s)"

definition edit_route :: "string option \<Rightarrow> plan_step list option \<Rightarrow> plan_row \<Rightarrow> plan_response" where
  "edit_route title steps p =
     (if pl_status p \<noteq> PlDraft \<and> pl_status p \<noteq> PlPaused then InvalidPlanState
      else PlanSaved (edit_plan title steps p))"

definition approve_route :: "plan_row \<Rightarrow> plan_response" where
  "approve_route p =
     (if pl_status p \<noteq> PlDraft \<and> pl_status p \<noteq> PlPaused then InvalidPlanState
      else PlanSaved (p\<lparr>pl_status := PlApproved\<rparr>))"

definition execute_route :: "plan_row \<Rightarrow> plan_response" where
  "execute_route p = (if pl_status p \<noteq> PlApproved then InvalidPlanState else PlanEnqueued p)"

definition pause_route :: "plan_row \<Rightarrow> plan_response" where
  "pause_route p =
     (if pl_status p \<noteq> PlExecuting then InvalidPlanState else PlanSaved (p\<lparr>pl_status := PlPaused\<rparr>))"

definition resume_route :: "plan_row \<Rightarrow> plan_response" where
  "resume_route p =
     (if pl_status p \<noteq> PlPaused then InvalidPlanState
      else PlanEnqueued (p\<lparr>pl_status := PlApproved, pl_steps := map waiting_to_pending (pl_steps p)\<rparr>))"

definition abort_route :: "plan_row \<Rightarrow> plan_response" where
  "abort_route p =
     (if pl_status p = PlCompleted \<or> pl_status p = PlFailed then InvalidPlanState
      else PlanSaved (p\<lparr>pl_status := PlFailed, pl_error := Some ''Aborted by user''\<rparr>))"

fun plan_request_route :: "plan_request \<Rightarrow> plan_row \<Rightarrow> plan_response" where
  "plan_request_route (EditPlan title steps) p = edit_route title steps p"
| "plan_request_route ApprovePlan p = approve_route p"
| "plan_request_route ExecutePlan p = execute_route p"
| "plan_request_route PausePlan p = pause_route p"
| "plan_request_route ResumePlan p = resume_route p"
| "plan_request_route AbortPlan p = abort_route p"

text \<open>Every route looks the plan up by id, organisation and user first.\<close>

definition plan_route :: "string \<Rightarrow> string \<Rightarrow> plan_request \<Rightarrow> plan_row option \<Rightarrow> plan_response" where
  "plan_route org user req row = (case row of
       None \<Rightarrow> PlanNotFound
     | Some p \<Rightarrow> if own_plan org user p then plan_request_route req p else PlanNotFound)"

subsection \<open>Executing an action\<close>

text \<open>\<open>executeAction\<close> of one log row: the tool runs, and its outcome is recorded on the row.  The step is only
  kept in the log of calls.\<close>

definition set_action :: "string \<Rightarrow> (action_row \<Rightarrow> action_row) \<Rightarrow> action_row list \<Rightarrow> action_row list" where
  "set_action i f rows = map (\<lambda>r. if ac_id r = i then f r else r) rows"

definition executeAction ::
    "'e plan_env \<Rightarrow> string option \<Rightarrow> string \<Rightarrow> string \<Rightarrow> jsv \<Rightarrow> 'e plan_world \<Rightarrow> tool_outcome \<times> 'e plan_world" where
  "executeAction env stepId actionId action params w =
     (case pe_write env actionId action params (pw_ext w) of
        (out, ext) \<Rightarrow> (out, w\<lparr>pw_ext := ext, pw_writes := pw_writes w @ [ToolCall (pw_ext w) stepId actionId action params],
           pw_actions := set_action actionId (\<lambda>r. r\<lparr>ac_executed := to_executed out \<or> ac_executed r,
               ac_result := (if to_executed out then to_result out else ac_result r),
               ac_error := (case to_row_error out of None \<Rightarrow> ac_error r | Some e \<Rightarrow> Some e)\<rparr>) (pw_actions w)\<rparr>))"

definition tierRank :: "approval_tier \<Rightarrow> nat" where
  "tierRank t = (case t of TierAuto \<Rightarrow> 0 | TierQuick \<Rightarrow> 1 | TierFull \<Rightarrow> 2)"

record direct_options =
  do_employee :: "string option"
  do_source :: string
  do_plan :: "string option"
  do_step :: "string option"
  do_request_key :: "string option"
  do_force :: bool

text \<open>The current MCP policy of the action: tier, whether a fresh approval is needed, and the reason why
  it cannot run at all.\<close>

definition current_mcp_policy ::
    "'e plan_env \<Rightarrow> string \<Rightarrow> approval_tier \<Rightarrow> bool \<Rightarrow> 'e \<Rightarrow> approval_tier \<times> bool \<times> string option" where
  "current_mcp_policy env action tier fresh ext =
     (if js_starts_with action ''mcp__''
      then (case List.find (\<lambda>t. mt_name t = action) (pe_mcp env ext) of
          None \<Rightarrow> (TierFull, fresh, Some ''unavailable'')
        | Some t \<Rightarrow> if tierRank (mt_tier t) > tierRank tier then (mt_tier t, True, None) else (tier, fresh, None))
      else (tier, fresh, None))"

text \<open>An employee's own actions are gated by the employee's trust; a plan's actions are not.\<close>

definition direct_employee_gate ::
    "'e plan_env \<Rightarrow> string \<Rightarrow> jsv \<Rightarrow> direct_options \<Rightarrow> approval_tier \<Rightarrow> bool \<Rightarrow> 'e \<Rightarrow> approval_tier \<times> bool" where
  "direct_employee_gate env action params opts tier fresh ext =
     (if do_employee opts \<noteq> None \<and> do_source opts \<noteq> ''plan''
      then (case pe_trust env ext of
          None \<Rightarrow> (TierFull, True)
        | Some trust \<Rightarrow> if shouldAutoExecute action trust params (Some tier) then (tier, fresh) else (tier, True))
      else (tier, fresh))"

definition executeActionDirect ::
    "'e plan_env \<Rightarrow> string \<Rightarrow> jsv \<Rightarrow> tier_value \<Rightarrow> direct_options \<Rightarrow> 'e plan_world
      \<Rightarrow> (string + write_result) \<times> 'e plan_world" where
  "executeActionDirect env action params tier opts w =
     (case tier of
        NotATier \<Rightarrow> (Throw ''invalid approval tier'', w)
      | Tier approvalTier \<Rightarrow>
          if governed_action action
          then (case pe_governed env action params approvalTier (do_force opts) (pw_ext w) of
              (r, ext) \<Rightarrow> (r, w\<lparr>pw_ext := ext, pw_writes := pw_writes w
                 @ [GovernedCall (pw_ext w) (do_step opts) action params approvalTier (do_force opts)]\<rparr>))
          else (case pe_blocked env action params (pw_ext w) of
            Some e \<Rightarrow> (Throw e, w)
          | None \<Rightarrow>
              (case current_mcp_policy env action approvalTier (do_force opts) (pw_ext w) of
                 (tier1, fresh1, blocked) \<Rightarrow>
              (case direct_employee_gate env action params opts tier1 fresh1 (pw_ext w) of
                 (tier2, fresh2) \<Rightarrow>
               let actionId = pe_fresh env (length (pw_actions w));
                   row = \<lparr>ac_id = actionId, ac_org = pe_org env, ac_user = pe_user env,
                     ac_employee = do_employee opts, ac_source = do_source opts, ac_plan = do_plan opts,
                     ac_step = do_step opts, ac_request_key = do_request_key opts, ac_action = action,
                     ac_params = params, ac_tier = tier2,
                     ac_status = (if fresh2 then AcPending else AcApproved),
                     ac_executed = False, ac_result = JNull, ac_error = None\<rparr>;
                   w1 = w\<lparr>pw_actions := pw_actions w @ [row]\<rparr> in
               (case blocked of
                  Some e \<Rightarrow>
                    (Ok \<lparr>wr_action = actionId, wr_success = False, wr_result = JNull, wr_error = Some e,
                         wr_requires_approval = False\<rparr>,
                     w1\<lparr>pw_actions := set_action actionId (\<lambda>r. r\<lparr>ac_error := Some e\<rparr>) (pw_actions w1)\<rparr>)
                | None \<Rightarrow>
                    if fresh2
                    then (Ok \<lparr>wr_action = actionId, wr_success = False, wr_result = JNull,
                              wr_error = Some ''queued for fresh review'', wr_requires_approval = True\<rparr>,
                          w1\<lparr>pw_actions := set_action actionId
                            (\<lambda>r. r\<lparr>ac_error := Some ''queued for fresh review''\<rparr>) (pw_actions w1)\<rparr>)
                    else (case executeAction env (do_step opts) actionId action params w1 of
                        (out, w2) \<Rightarrow> (Ok \<lparr>wr_action = actionId, wr_success = to_success out,
                           wr_result = to_result out, wr_error = to_error out,
                           wr_requires_approval = False\<rparr>, w2)))))))"

subsection \<open>A dependency that needs review\<close>

definition planStepRequestKey :: "'e plan_env \<Rightarrow> string \<Rightarrow> string \<Rightarrow> string \<Rightarrow> jsv \<Rightarrow> string" where
  "planStepRequestKey env planId stepId action params =
     ''plan-step:'' @ planId @ '':'' @ stepId @ '':'' @ pe_digest env action params"

definition prior_actions :: "'e plan_env \<Rightarrow> plan_row \<Rightarrow> string \<Rightarrow> action_row list \<Rightarrow> action_row list" where
  "prior_actions env p stepId rows = take 2 (filter (\<lambda>a. ac_org a = pe_org env \<and> ac_user a = pe_user env
     \<and> ac_plan a = Some (pl_id p) \<and> ac_step a = Some stepId \<and> ac_source a = ''plan''
     \<and> ac_employee a = pl_employee p) rows)"

text \<open>Every error of this function is a \<open>PlanApprovalBoundaryError\<close>.\<close>

definition executeReviewedPlanDependency ::
    "'e plan_env \<Rightarrow> plan_row \<Rightarrow> plan_step \<Rightarrow> jsv \<Rightarrow> tier_value \<Rightarrow> 'e plan_world
      \<Rightarrow> (string + write_result) \<times> 'e plan_world" where
  "executeReviewedPlanDependency env p step params tier w =
     (let prior = prior_actions env p (sp_id step) (pw_actions w) in
      if length prior > 1 then (Throw ''multiple approval actions'', w)
      else (case pe_preflight env (sp_tool step) params (prior \<noteq> []) (pw_ext w) of
          Inl e \<Rightarrow> (Throw e, w)
        | Inr canonicalParams \<Rightarrow>
            (let requestKey = planStepRequestKey env (pl_id p) (sp_id step) (sp_tool step) canonicalParams in
             case prior of
               a # _ \<Rightarrow>
                 if ac_action a \<noteq> sp_tool step \<or> ac_request_key a \<noteq> Some requestKey
                 then (Throw ''input changed after review was requested'',
                   if ac_status a = AcPending
                   then w\<lparr>pw_actions := map (\<lambda>r. if ac_id r = ac_id a \<and> ac_org r = pe_org env \<and> ac_status r = AcPending
                            then r\<lparr>ac_status := AcExpired, ac_error := Some ''changed after review was requested''\<rparr>
                            else r) (pw_actions w)\<rparr>
                   else w)
                 else if ac_status a = AcPending
                 then (Ok \<lparr>wr_action = ac_id a, wr_success = False, wr_result = JNull,
                       wr_error = (case ac_error a of None \<Rightarrow> Some ''Action requires human approval'' | Some e \<Rightarrow> Some e),
                       wr_requires_approval = True\<rparr>, w)
                 else if ac_status a = AcApproved \<and> ac_executed a
                 then (Ok \<lparr>wr_action = ac_id a, wr_success = (ac_error a = None), wr_result = ac_result a,
                       wr_error = (case ac_error a of Some (c # e) \<Rightarrow> Some (c # e) | _ \<Rightarrow> None),
                       wr_requires_approval = False\<rparr>, w)
                 else if ac_status a = AcApproved
                 then (Throw ''approved but its execution outcome is unavailable'', w)
                 else (Throw ''approval was not granted'', w)
             | [] \<Rightarrow> executeActionDirect env (sp_tool step) canonicalParams tier
                 \<lparr>do_employee = pl_employee p, do_source = ''plan'', do_plan = Some (pl_id p),
                  do_step = Some (sp_id step), do_request_key = Some requestKey, do_force = True\<rparr> w)))"

end
