(* ===== verification/PlanLoop.thy ===== *)
theory PlanLoop
  imports PlanEngine
begin

text \<open>The execution loop of a plan (agent-plans.ts, executePlanUnlocked and its helpers).\<close>

subsection \<open>Helpers\<close>

definition set_plan :: "(plan_row \<Rightarrow> plan_row) \<Rightarrow> 'e plan_world \<Rightarrow> 'e plan_world" where
  "set_plan f w = w\<lparr>pw_plan := map_option f (pw_plan w)\<rparr>"

definition emit :: "plan_event_type \<Rightarrow> string option \<Rightarrow> 'e plan_world \<Rightarrow> 'e plan_world" where
  "emit t s w = w\<lparr>pw_events := pw_events w @ [(t, s)]\<rparr>"

definition updatePlanProgress ::
    "plan_step list \<Rightarrow> plan_context \<Rightarrow> nat \<Rightarrow> plan_status option \<Rightarrow> 'e plan_world \<Rightarrow> 'e plan_world" where
  "updatePlanProgress steps ctx currentStep st w =
     set_plan (\<lambda>p. p\<lparr>pl_steps := steps, pl_context := ctx, pl_current_step := currentStep,
        pl_status := (case st of None \<Rightarrow> pl_status p | Some s \<Rightarrow> s)\<rparr>) w"

definition finishPlan ::
    "plan_status \<Rightarrow> plan_context \<Rightarrow> string option \<Rightarrow> 'e plan_world \<Rightarrow> 'e plan_world" where
  "finishPlan st ctx err w = set_plan (\<lambda>p. p\<lparr>pl_status := st, pl_context := ctx, pl_error := err\<rparr>) w"

text \<open>Another request may change the status between two statements of the loop.\<close>

definition interfere :: "plan_status option \<Rightarrow> 'e plan_world \<Rightarrow> 'e plan_world" where
  "interfere st w = (case st of None \<Rightarrow> w | Some s \<Rightarrow> set_plan (\<lambda>p. p\<lparr>pl_status := s\<rparr>) w)"

fun js_or :: "jsv \<Rightarrow> jsv \<Rightarrow> jsv" where
  "js_or a b = (if js_nullish a then b else a)"

text \<open>\<open>step.result?.[k]\<close>.\<close>

definition result_field :: "plan_step \<Rightarrow> string \<Rightarrow> jsv" where
  "result_field s k = (if js_nullish (sp_result s) then JUndefined else js_member (sp_result s) k)"

definition rollback_step :: "plan_step \<Rightarrow> rollback_effect list" where
  "rollback_step s =
     (if sp_status s \<noteq> Some StCompleted \<or> sp_tool s \<notin> set ACTION_TOOLS then []
      else if sp_tool s = ''create_task'' then
        (let createdId = js_or (result_field s ''task_id'') (result_field s ''id'') in
         if js_truthy createdId then [DeleteTask createdId] else [])
      else if sp_tool s = ''post_message'' then
        (let msgId = js_or (result_field s ''message_id'') (result_field s ''id'') in
         if js_truthy msgId then [DeleteMessage msgId] else [])
      else [])"

definition rollbackCompletedSteps :: "plan_step list \<Rightarrow> 'e plan_world \<Rightarrow> 'e plan_world" where
  "rollbackCompletedSteps steps w =
     w\<lparr>pw_rollbacks := pw_rollbacks w @ concat (map rollback_step (rev steps))\<rparr>"

subsection \<open>One step\<close>

definition mark :: "nat \<Rightarrow> step_status \<Rightarrow> plan_step list \<Rightarrow> plan_step list" where
  "mark i st steps = steps[i := (steps ! i)\<lparr>sp_status := Some st\<rparr>]"

definition mark_error :: "nat \<Rightarrow> step_status \<Rightarrow> string option \<Rightarrow> plan_step list \<Rightarrow> plan_step list" where
  "mark_error i st e steps = steps[i := (steps ! i)\<lparr>sp_status := Some st, sp_error := e\<rparr>]"

definition dep_done :: "plan_step list \<Rightarrow> string \<Rightarrow> bool" where
  "dep_done steps d = (case List.find (\<lambda>s. sp_id s = d) steps of
       None \<Rightarrow> False
     | Some s \<Rightarrow> sp_status s = Some StCompleted \<or> sp_status s = Some StSkipped)"

definition allDepsCompleted :: "plan_step list \<Rightarrow> plan_step \<Rightarrow> bool" where
  "allDepsCompleted steps s \<longleftrightarrow> list_all (dep_done steps) (or_empty (sp_depends_on s))"

definition isDependency :: "plan_step list \<Rightarrow> nat \<Rightarrow> bool" where
  "isDependency steps i \<longleftrightarrow>
     list_ex (\<lambda>s. sp_id (steps ! i) \<in> set (or_empty (sp_depends_on s))) (drop (Suc i) steps)"

text \<open>How a tool of a plan is classified: unavailable, a read, or a write with its tier override.\<close>

datatype tool_class = ToolUnavailable | ToolRead | ToolWrite "approval_tier option"

definition classify_tool :: "'e plan_env \<Rightarrow> string \<Rightarrow> 'e \<Rightarrow> tool_class" where
  "classify_tool env tool ext =
     (let mcpToolPolicy = (if js_starts_with tool ''mcp__''
            then List.find (\<lambda>t. mt_name t = tool) (pe_mcp env ext) else None) in
      if js_starts_with tool ''mcp__'' \<and> mcpToolPolicy = None then ToolUnavailable
      else if tool \<in> set ACTION_TOOLS \<or> (case mcpToolPolicy of None \<Rightarrow> False
          | Some t \<Rightarrow> mt_write t \<or> mt_tier t \<noteq> TierAuto \<or> isDestructiveAction (mt_name t) JUndefined)
      then ToolWrite (map_option mt_tier mcpToolPolicy)
      else ToolRead)"

definition thread_source :: "string \<Rightarrow> plan_context \<Rightarrow> jsv \<Rightarrow> jsv" where
  "thread_source tool ctx params =
     (case (js_own ctx ''source_message_id'', params) of
        (JStr m, JObj ps) \<Rightarrow>
          if \<not> isModuleWriteAction tool \<and> m \<noteq> [] \<and> \<not> js_truthy (js_own ps ''source_message_id'')
          then JObj (js_set ''source_message_id'' (JStr m) ps) else params
      | _ \<Rightarrow> params)"

text \<open>What the body of the loop may end with: completed with a result (a write also clears the step's
  earlier error), waiting for an approval, a
  failed approval boundary, or another error.\<close>

datatype step_outcome = Completed bool jsv | Waiting "string option" | Boundary string | Failure string

fun fail_message :: "string option \<Rightarrow> string" where
  "fail_message (Some (c # e)) = c # e"
| "fail_message _ = ''Action execution failed''"

definition write_outcome :: "write_result \<Rightarrow> step_outcome" where
  "write_outcome r = (if wr_success r then Completed True (wr_result r)
     else if wr_requires_approval r then Waiting (wr_error r)
     else Failure (fail_message (wr_error r)))"

definition run_write ::
    "'e plan_env \<Rightarrow> trust_level \<Rightarrow> plan_row \<Rightarrow> plan_step list \<Rightarrow> nat \<Rightarrow> jsv \<Rightarrow> approval_tier option \<Rightarrow> 'e plan_world
      \<Rightarrow> step_outcome \<times> 'e plan_world" where
  "run_write env trust p steps i params override w =
     (let step = steps ! i; tier = getApprovalTier (sp_tool step) override in
      if shouldAutoExecute (sp_tool step) trust params override \<or> \<not> isDependency steps i
      then (case executeActionDirect env (sp_tool step) params tier
              \<lparr>do_employee = pl_employee p, do_source = ''plan'', do_plan = Some (pl_id p),
               do_step = Some (sp_id step), do_request_key = None, do_force = False\<rparr> w of
          (Inl e, w') \<Rightarrow> (Failure e, w')
        | (Inr r, w') \<Rightarrow> (write_outcome r, w'))
      else (case executeReviewedPlanDependency env p step params tier w of
          (Inl e, w') \<Rightarrow> (Boundary e, w')
        | (Inr r, w') \<Rightarrow> (write_outcome r, w')))"

definition run_body ::
    "'e plan_env \<Rightarrow> trust_level \<Rightarrow> plan_row \<Rightarrow> plan_step list \<Rightarrow> nat \<Rightarrow> plan_context \<Rightarrow> 'e plan_world
      \<Rightarrow> step_outcome \<times> 'e plan_world" where
  "run_body env trust p steps i ctx w =
     (let step = steps ! i in
      case resolveStepReferences (pe_num env) (sp_params step) ctx of
        Inl e \<Rightarrow> (Failure e, w)
      | Inr resolved \<Rightarrow>
          (case classify_tool env (sp_tool step) (pw_ext w) of
             ToolUnavailable \<Rightarrow> (Failure ''MCP tool is unavailable or disabled'', w)
           | ToolRead \<Rightarrow>
               (case pe_read env (sp_tool step) resolved (pw_ext w) of
                  (r, ext) \<Rightarrow>
                    let w' = w\<lparr>pw_ext := ext, pw_reads := pw_reads w @ [(sp_tool step, resolved)]\<rparr> in
                    (case r of Inl e \<Rightarrow> (Failure e, w') | Inr v \<Rightarrow> (Completed False v, w')))
           | ToolWrite override \<Rightarrow>
               run_write env trust p steps i (thread_source (sp_tool step) ctx resolved) override w))"

text \<open>The loop goes on with new steps, context and store, or it has returned.\<close>

datatype 'e loop_state =
    Continue "plan_step list" plan_context "'e plan_world"
  | Returned "'e plan_world"

definition js_result :: "jsv \<Rightarrow> jsv" where
  "js_result v = JObj [(''result'', v)]"

definition step_completed ::
    "plan_step list \<Rightarrow> nat \<Rightarrow> plan_context \<Rightarrow> bool \<Rightarrow> jsv \<Rightarrow> 'e plan_world \<Rightarrow> 'e loop_state" where
  "step_completed steps i ctx clear v w =
     (let steps' = steps[i := (steps ! i)\<lparr>sp_status := Some StCompleted, sp_result := v,
            sp_error := (if clear then None else sp_error (steps ! i))\<rparr>];
          ctx' = js_set (sp_id (steps ! i)) (js_result v) ctx in
      Continue steps' ctx' (emit StepComplete (Some (sp_id (steps ! i)))
        (updatePlanProgress steps' ctx' (i + 1) None w)))"

definition recover_step ::
    "'e plan_env \<Rightarrow> plan_step list \<Rightarrow> nat \<Rightarrow> plan_context \<Rightarrow> string \<Rightarrow> 'e plan_world \<Rightarrow> 'e loop_state" where
  "recover_step env steps i ctx e w =
     (let steps' = mark_error i StFailed (Some e) steps; sid = Some (sp_id (steps ! i)) in
      case pe_recover env e (pw_ext w) of
        (Inl _, ext) \<Rightarrow>
          Returned (emit PlanPause sid (updatePlanProgress steps' ctx i (Some PlPaused) (w\<lparr>pw_ext := ext\<rparr>)))
      | (Inr text, ext) \<Rightarrow>
          if js_includes text ''ESCALATE''
          then Returned (emit PlanPause sid (updatePlanProgress steps' ctx i (Some PlPaused) (w\<lparr>pw_ext := ext\<rparr>)))
          else (let ctx' = js_set (sp_id (steps ! i))
                  (js_result (JObj [(''error'', JStr e), (''recovery'', JStr text)])) ctx in
                Continue steps' ctx' (emit StepFail sid
                  (updatePlanProgress steps' ctx' (i + 1) None (w\<lparr>pw_ext := ext\<rparr>)))))"

definition fail_fast_stop ::
    "plan_row \<Rightarrow> plan_step list \<Rightarrow> nat \<Rightarrow> plan_context \<Rightarrow> string \<Rightarrow> 'e plan_world \<Rightarrow> 'e loop_state" where
  "fail_fast_stop p steps i ctx e w =
     (let steps' = take (Suc i) (mark_error i StFailed (Some e) steps)
            @ map (\<lambda>s. s\<lparr>sp_status := Some StSkippedDueToFailure\<rparr>) (drop (Suc i) steps);
          w1 = (if pl_rollback_on_fail p then rollbackCompletedSteps (take i steps) w else w) in
      Returned (emit PlanFail (Some (sp_id (steps ! i)))
        (set_plan (\<lambda>q. q\<lparr>pl_steps := steps', pl_context := ctx, pl_current_step := i,
           pl_status := PlFailed, pl_error := Some e\<rparr>) w1)))"

definition after_body ::
    "'e plan_env \<Rightarrow> plan_row \<Rightarrow> plan_step list \<Rightarrow> nat \<Rightarrow> plan_context \<Rightarrow> step_outcome \<times> 'e plan_world \<Rightarrow> 'e loop_state" where
  "after_body env p steps i ctx o_w = (case o_w of
       (Completed clear v, w) \<Rightarrow> step_completed steps i ctx clear v w
     | (Waiting e, w) \<Rightarrow>
         Returned (emit PlanPause (Some (sp_id (steps ! i)))
           (updatePlanProgress (mark_error i StWaitingApproval e steps) ctx i (Some PlPaused) w))
     | (Boundary e, w) \<Rightarrow>
         Returned (emit PlanPause (Some (sp_id (steps ! i)))
           (set_plan (\<lambda>q. q\<lparr>pl_steps := mark_error i StFailed (Some e) steps, pl_context := ctx,
              pl_current_step := i, pl_status := PlPaused, pl_error := Some e\<rparr>) w))
     | (Failure e, w) \<Rightarrow>
         if pl_fail_fast p then fail_fast_stop p steps i ctx e w else recover_step env steps i ctx e w)"

definition run_plan_step ::
    "'e plan_env \<Rightarrow> trust_level \<Rightarrow> plan_row \<Rightarrow> nat \<Rightarrow> plan_step list \<Rightarrow> plan_context \<Rightarrow> 'e plan_world \<Rightarrow> 'e loop_state" where
  "run_plan_step env trust p i steps ctx w0 =
     (let w = interfere (pe_before env i (pw_ext w0)) w0; step = steps ! i in
      if map_option pl_status (pw_plan w) = Some PlPaused \<or> map_option pl_status (pw_plan w) = Some PlFailed
      then Returned (emit PlanPause None w)
      else if \<not> allDepsCompleted steps step
      then (let steps' = mark_error i StFailed (Some ''Dependencies not met'') steps in
            Continue steps' ctx (emit StepFail (Some (sp_id step)) (updatePlanProgress steps' ctx i None w)))
      else if (case sp_condition step of None \<Rightarrow> False
               | Some c \<Rightarrow> \<not> evaluateCondition (pe_num env) (pe_to_num env) c ctx)
      then (let steps' = mark i StSkipped steps in
            Continue steps' ctx (emit StepSkip (Some (sp_id step)) (updatePlanProgress steps' ctx i None w)))
      else (let steps' = mark i StRunning steps;
                w1 = emit StepStart (Some (sp_id step)) (updatePlanProgress steps' ctx i None w);
                ow = run_body env trust p steps' i ctx w1 in
            after_body env p steps' i ctx (fst ow, interfere (pe_during env i (pw_ext (snd ow))) (snd ow))))"

text \<open>After the last step.\<close>

definition conclude :: "plan_step list \<Rightarrow> plan_context \<Rightarrow> 'e plan_world \<Rightarrow> 'e plan_world" where
  "conclude steps ctx w =
     (if filter (\<lambda>s. sp_status s = Some StFailed \<or> sp_status s = Some StSkippedDueToFailure) steps \<noteq> []
      then emit PlanFail None (finishPlan PlFailed ctx (Some ''plan steps failed'') w)
      else if filter (\<lambda>s. sp_status s \<noteq> Some StCompleted \<and> sp_status s \<noteq> Some StSkipped) steps \<noteq> []
      then emit PlanPause None (finishPlan PlPaused ctx (Some ''plan steps remained incomplete'') w)
      else emit PlanComplete None (finishPlan PlCompleted ctx None w))"

text \<open>The loop runs over the indices from \<open>current_step\<close> to the end; the number of steps never changes.\<close>

fun run_loop ::
    "'e plan_env \<Rightarrow> trust_level \<Rightarrow> plan_row \<Rightarrow> nat list \<Rightarrow> plan_step list \<Rightarrow> plan_context \<Rightarrow> 'e plan_world \<Rightarrow> 'e plan_world" where
  "run_loop env trust p [] steps ctx w = conclude steps ctx w"
| "run_loop env trust p (i # is) steps ctx w =
     (case run_plan_step env trust p i steps ctx w of
        Returned w' \<Rightarrow> w'
      | Continue steps' ctx' w' \<Rightarrow> run_loop env trust p is steps' ctx' w')"

datatype plan_exception = PlanMissing | PlanNotExecutable plan_status | EmployeeInactive

definition executePlan :: "'e plan_env \<Rightarrow> 'e plan_world \<Rightarrow> (plan_exception + unit) \<times> 'e plan_world" where
  "executePlan env w = (case pw_plan w of
       None \<Rightarrow> (Throw PlanMissing, w)
     | Some p \<Rightarrow>
         if pl_org p \<noteq> pe_org env then (Throw PlanMissing, w)
         else if pl_status p \<noteq> PlApproved \<and> pl_status p \<noteq> PlExecuting
         then (if pl_status p = PlPaused \<or> pl_status p = PlCompleted \<or> pl_status p = PlFailed
               then (Ok (), w) else (Throw (PlanNotExecutable (pl_status p)), w))
         else (case pe_trust env (pw_ext w) of
             None \<Rightarrow> (Throw EmployeeInactive, w)
           | Some trust \<Rightarrow>
               (Ok (), run_loop env trust p [pl_current_step p..<length (pl_steps p)] (pl_steps p) (pl_context p)
                  (set_plan (\<lambda>q. q\<lparr>pl_status := PlExecuting\<rparr>) w))))"

end
