(* ===== verification/PlanProperties.thy ===== *)
theory PlanProperties
  imports PlanLoop Workflow
begin

text \<open>What a run of a plan keeps: the approval gate in front of the writes, and the meaning of a
  completed plan.\<close>

subsection \<open>Loop invariants\<close>

text \<open>The contract of one round of the loop; the loop then ends in a store that satisfies \<open>Q\<close>.\<close>

locale plan_invariant =
  fixes env :: "'e plan_env" and trust :: trust_level and p :: plan_row and n :: nat
    and J :: "nat list \<Rightarrow> plan_step list \<Rightarrow> plan_context \<Rightarrow> 'e plan_world \<Rightarrow> bool"
    and Q :: "'e plan_world \<Rightarrow> bool"
  assumes continue: "i < n \<Longrightarrow> J (i # is) steps ctx w \<Longrightarrow>
      run_plan_step env trust p i steps ctx w = Continue s c v \<Longrightarrow> J is s c v"
    and return: "i < n \<Longrightarrow> J (i # is) steps ctx w \<Longrightarrow> run_plan_step env trust p i steps ctx w = Returned v \<Longrightarrow> Q v"
    and conclude: "J [] steps ctx w \<Longrightarrow> Q (conclude steps ctx w)"
begin

lemma loop: "set is \<subseteq> {..<n} \<Longrightarrow> J is steps ctx w \<Longrightarrow> Q (run_loop env trust p is steps ctx w)"
proof (induction "is" arbitrary: steps ctx w)
  case (Cons i "is")
  then have i: "i < n" by simp
  show ?case
  proof (cases "run_plan_step env trust p i steps ctx w")
    case (Continue s c v)
    then have "J is s c v" using continue[OF i Cons.prems(2)] by simp
    then show ?thesis using Cons Continue by simp
  next
    case (Returned v)
    then show ?thesis using return[OF i Cons.prems(2)] by simp
  qed
qed (simp add: conclude)

end

subsection \<open>What the primitive updates leave alone\<close>

lemma set_plan_frame [simp]:
  "pw_writes (set_plan f w) = pw_writes w" "pw_actions (set_plan f w) = pw_actions w"
  "pw_ext (set_plan f w) = pw_ext w" "pw_plan (set_plan f w) = map_option f (pw_plan w)"
  by (simp_all add: set_plan_def)

lemma emit_frame [simp]:
  "pw_writes (emit t s w) = pw_writes w" "pw_actions (emit t s w) = pw_actions w"
  "pw_ext (emit t s w) = pw_ext w" "pw_plan (emit t s w) = pw_plan w"
  by (simp_all add: emit_def)

lemma interfere_frame [simp]:
  "pw_writes (interfere s w) = pw_writes w" "pw_actions (interfere s w) = pw_actions w"
  "pw_ext (interfere s w) = pw_ext w"
  by (simp_all add: interfere_def split: option.splits)

lemma update_frame [simp]:
  "pw_writes (updatePlanProgress a b c d w) = pw_writes w" "pw_writes (finishPlan x b y w) = pw_writes w"
  "pw_writes (rollbackCompletedSteps a w) = pw_writes w" "pw_writes (w\<lparr>pw_ext := e\<rparr>) = pw_writes w"
  by (simp_all add: updatePlanProgress_def finishPlan_def rollbackCompletedSteps_def)

subsection \<open>The shape of the steps\<close>

definition step_shape :: "plan_step \<Rightarrow> string \<times> string \<times> string list option" where
  "step_shape s = (sp_id s, sp_tool s, sp_depends_on s)"

lemma shape_update: "i < length steps \<Longrightarrow> step_shape t = step_shape (steps ! i) \<Longrightarrow>
    map step_shape (steps[i := t]) = map step_shape steps"
  by (metis list_update_id length_map map_update nth_map)

lemma isDependency_shape_def:
  assumes "i < length steps"
  shows "isDependency steps i = list_ex (\<lambda>(_, _, d). fst (map step_shape steps ! i) \<in> set (or_empty d))
     (drop (Suc i) (map step_shape steps))"
proof -
  have "list_ex (\<lambda>s. a \<in> set (or_empty (sp_depends_on s))) xs = list_ex (\<lambda>(_, _, d). a \<in> set (or_empty d)) (map step_shape xs)"
    for a and xs :: "plan_step list"
    by (induction xs) (auto simp: step_shape_def)
  then show ?thesis using assms by (simp add: isDependency_def drop_map step_shape_def)
qed

lemma isDependency_shape:
  "map step_shape steps = map step_shape steps' \<Longrightarrow> i < length steps \<Longrightarrow> isDependency steps i = isDependency steps' i"
  using isDependency_shape_def[of i steps] isDependency_shape_def[of i steps'] by (metis length_map)

lemmas mark_defs = mark_def mark_error_def

lemma mark_shape [simp]:
  "i < length steps \<Longrightarrow> map step_shape (mark i st steps) = map step_shape steps"
  "i < length steps \<Longrightarrow> map step_shape (mark_error i st e steps) = map step_shape steps"
  "length (mark i st steps) = length steps" "length (mark_error i st e steps) = length steps"
  by (auto simp: mark_defs step_shape_def intro: shape_update)

lemma nth_mark [simp]: "i < length steps \<Longrightarrow> sp_id (mark i st steps ! i) = sp_id (steps ! i)"
  "i < length steps \<Longrightarrow> sp_tool (mark i st steps ! i) = sp_tool (steps ! i)"
  by (simp_all add: mark_defs)

subsection \<open>The gate in front of writes\<close>

text \<open>What a direct execution adds to the log of calls: nothing, or one call for its step.\<close>

lemma executeActionDirect_writes:
  "executeActionDirect env action params tier opts w = (r, w') \<Longrightarrow>
     pw_writes w' = pw_writes w
     \<or> (\<not> do_force opts \<and> (\<exists>aid. pw_writes w' = pw_writes w @ [ToolCall (pw_ext w) (do_step opts) aid action params]))
     \<or> (\<exists>t. tier = Tier t \<and>
          pw_writes w' = pw_writes w @ [GovernedCall (pw_ext w) (do_step opts) action params t (do_force opts)])"
  by (auto simp: executeActionDirect_def executeAction_def current_mcp_policy_def direct_employee_gate_def Let_def
      split: tier_value.splits if_splits option.splits prod.splits)

lemma reviewed_writes:
  "executeReviewedPlanDependency env p step params tier w = (r, w') \<Longrightarrow> pw_writes w' = pw_writes w
     \<or> (\<exists>ps t. tier = Tier t
          \<and> pw_writes w' = pw_writes w @ [GovernedCall (pw_ext w) (Some (sp_id step)) (sp_tool step) ps t True])"
  by (auto simp: executeReviewedPlanDependency_def Let_def
      split: if_splits sum.splits list.splits prod.splits dest!: executeActionDirect_writes)

text \<open>A call is made for a step of the plan whose tool is a write in the state in which it is made, at the tier
  of that tool; unless it only queues the action, the tool may execute by itself at its tier under
  the trust level, or no later step waits for the step.\<close>

definition gated_step ::
    "'e plan_env \<Rightarrow> trust_level \<Rightarrow> plan_step list \<Rightarrow> 'e \<Rightarrow> string option \<Rightarrow> string \<Rightarrow> jsv \<Rightarrow> bool \<Rightarrow> nat \<Rightarrow> bool" where
  "gated_step env trust steps ext stepId tool params forced i \<longleftrightarrow>
     stepId = Some (sp_id (steps ! i)) \<and> sp_tool (steps ! i) = tool
     \<and> (case classify_tool env tool ext of
           ToolWrite override \<Rightarrow> forced \<or> shouldAutoExecute tool trust params override \<or> \<not> isDependency steps i
         | _ \<Rightarrow> False)"

definition own_tier :: "'e plan_env \<Rightarrow> string \<Rightarrow> 'e \<Rightarrow> tier_value" where
  "own_tier env tool ext = getApprovalTier tool (case classify_tool env tool ext of ToolWrite override \<Rightarrow> override | _ \<Rightarrow> None)"

fun gated_call :: "'e plan_env \<Rightarrow> trust_level \<Rightarrow> plan_step list \<Rightarrow> 'e write_call \<Rightarrow> bool" where
  "gated_call env trust steps (ToolCall ext stepId actionId tool params) \<longleftrightarrow>
     (\<exists>i < length steps. gated_step env trust steps ext stepId tool params False i)"
| "gated_call env trust steps (GovernedCall ext stepId tool params tier forced) \<longleftrightarrow>
     own_tier env tool ext = Tier tier \<and> (\<exists>i < length steps. gated_step env trust steps ext stepId tool params forced i)"

text \<open>A native tool has no tier of its own beside the table.\<close>

lemma classify_native: "\<not> js_starts_with tool ''mcp__'' \<Longrightarrow> classify_tool env tool ext = ToolWrite ov \<Longrightarrow> ov = None"
  by (auto simp: classify_tool_def Let_def split: if_splits)

lemma gated_step_shape:
  assumes "map step_shape a = map step_shape b" "i < length a"
  shows "gated_step env trust a ext s tool ps forced i = gated_step env trust b ext s tool ps forced i"
proof -
  have "length b = length a" using assms(1) by (metis length_map)
  then have "step_shape (a ! i) = step_shape (b ! i)" using assms by (metis nth_map)
  then show ?thesis by (simp add: gated_step_def step_shape_def isDependency_shape[OF assms] split: tool_class.split)
qed

lemma gated_call_shape: "map step_shape a = map step_shape b \<Longrightarrow> gated_call env trust a = gated_call env trust b"
proof
  fix c assume a: "map step_shape a = map step_shape b"
  have len: "length b = length a" using a by (metis length_map)
  show "gated_call env trust a c = gated_call env trust b c"
    by (cases c) (simp_all add: len gated_step_shape[OF a] cong: conj_cong)
qed

definition new_writes :: "('e write_call \<Rightarrow> bool) \<Rightarrow> 'e plan_world \<Rightarrow> 'e plan_world \<Rightarrow> bool" where
  "new_writes P w w' \<longleftrightarrow> (\<exists>xs. pw_writes w' = pw_writes w @ xs \<and> list_all P xs)"

lemma new_writes_refl: "pw_writes w' = pw_writes w \<Longrightarrow> new_writes P w w'"
  by (simp add: new_writes_def)

lemma new_writes_trans: "new_writes P w v \<Longrightarrow> new_writes P v u \<Longrightarrow> new_writes P w u"
  by (auto simp: new_writes_def)

lemma new_writes_frame: "new_writes P w v \<Longrightarrow> pw_writes u = pw_writes v \<Longrightarrow> new_writes P w u"
  by (auto simp: new_writes_def)

lemma run_write_gated:
  assumes i: "i < length steps" and c: "classify_tool env (sp_tool (steps ! i)) (pw_ext w) = ToolWrite ov"
    and r: "run_write env trust p steps i params ov w = (r, w')"
  shows "new_writes (gated_call env trust steps) w w'"
proof (cases "shouldAutoExecute (sp_tool (steps ! i)) trust params ov \<or> \<not> isDependency steps i")
  case True
  let ?tool = "sp_tool (steps ! i)"
  let ?opts = "\<lparr>do_employee = pl_employee p, do_source = ''plan'', do_plan = Some (pl_id p),
     do_step = Some (sp_id (steps ! i)), do_request_key = None, do_force = False\<rparr>"
  obtain x where x: "executeActionDirect env ?tool params (getApprovalTier ?tool ov) ?opts w = (x, w')"
    using r True by (auto simp: run_write_def Let_def split: prod.splits sum.splits)
  have "gated_step env trust steps (pw_ext w) (Some (sp_id (steps ! i))) ?tool params False i"
    using True c by (simp add: gated_step_def)
  moreover have "own_tier env ?tool (pw_ext w) = getApprovalTier ?tool ov" using c by (simp add: own_tier_def)
  ultimately show ?thesis using executeActionDirect_writes[OF x] i by (fastforce simp: new_writes_def)
next
  case False
  have "gated_step env trust steps (pw_ext w) (Some (sp_id (steps ! i))) (sp_tool (steps ! i)) ps True i" for ps
    using c by (simp add: gated_step_def)
  moreover have "own_tier env (sp_tool (steps ! i)) (pw_ext w) = getApprovalTier (sp_tool (steps ! i)) ov"
    using c by (simp add: own_tier_def)
  ultimately show ?thesis using r False i
    by (fastforce simp: run_write_def Let_def new_writes_def split: prod.splits sum.splits dest: reviewed_writes)
qed

lemma run_body_gated:
  assumes "i < length steps" "run_body env trust p steps i ctx w = (r, w')"
  shows "new_writes (gated_call env trust steps) w w'"
  using assms by (auto simp: run_body_def Let_def new_writes_refl
      split: sum.splits tool_class.splits prod.splits dest: run_write_gated)

fun loop_world :: "'e loop_state \<Rightarrow> 'e plan_world" where
  "loop_world (Continue s c v) = v"
| "loop_world (Returned v) = v"

fun loop_steps :: "'e loop_state \<Rightarrow> plan_step list option" where
  "loop_steps (Continue s c v) = Some s"
| "loop_steps (Returned v) = None"

lemma after_body_frame:
  assumes "i < length steps"
  shows "pw_writes (loop_world (after_body env p steps i ctx (r, w))) = pw_writes w"
    and "after_body env p steps i ctx (r, w) = Continue s c v \<Longrightarrow> map step_shape s = map step_shape steps"
  using assms by (cases r; auto simp: after_body_def step_completed_def fail_fast_stop_def recover_step_def Let_def
      step_shape_def intro!: shape_update split: if_splits prod.splits sum.splits)+

lemma run_plan_step_gated:
  assumes i: "i < length steps"
  shows "new_writes (gated_call env trust steps) w (loop_world (run_plan_step env trust p i steps ctx w))"
    and "run_plan_step env trust p i steps ctx w = Continue s c v \<Longrightarrow> map step_shape s = map step_shape steps"
proof -
  let ?w = "interfere (pe_before env i (pw_ext w)) w"
  let ?m = "mark i StRunning steps"
  let ?w1 = "emit StepStart (Some (sp_id (steps ! i))) (updatePlanProgress ?m ctx i None ?w)"
  obtain r u where b: "run_body env trust p ?m i ctx ?w1 = (r, u)" by force
  have "new_writes (gated_call env trust ?m) ?w1 u" using run_body_gated[OF _ b] i by simp
  moreover have "gated_call env trust ?m = gated_call env trust steps"
    using i by (intro gated_call_shape) simp
  ultimately have g: "new_writes (gated_call env trust steps) w u" by (simp add: new_writes_def)
  show "new_writes (gated_call env trust steps) w (loop_world (run_plan_step env trust p i steps ctx w))"
    using new_writes_frame[OF g] after_body_frame(1)[of i ?m env p ctx r] i
    by (auto simp: run_plan_step_def Let_def b new_writes_refl split: if_splits)
  show "map step_shape s = map step_shape steps" if "run_plan_step env trust p i steps ctx w = Continue s c v"
    using that i after_body_frame(2)[of i ?m env p ctx r] by (auto simp: run_plan_step_def Let_def b split: if_splits)
qed

text \<open>The loop invariant of the gate: the writes since the start are gated, the shape is unchanged.\<close>

definition gate_law :: "'e plan_env \<Rightarrow> trust_level \<Rightarrow> plan_step list \<Rightarrow> 'e plan_world \<Rightarrow> plan_step list \<Rightarrow> 'e plan_world \<Rightarrow> bool" where
  "gate_law env trust steps0 w0 steps w \<longleftrightarrow>
     map step_shape steps = map step_shape steps0 \<and> new_writes (gated_call env trust steps0) w0 w"

lemma conclude_frame [simp]: "pw_writes (conclude steps ctx w) = pw_writes w"
  by (simp add: conclude_def)

lemma gate_law_step:
  assumes "i < length steps0" "gate_law env trust steps0 w0 steps w"
  shows "new_writes (gated_call env trust steps0) w0 (loop_world (run_plan_step env trust p i steps ctx w))"
    and "run_plan_step env trust p i steps ctx w = Continue s c v \<Longrightarrow> map step_shape s = map step_shape steps0"
proof -
  have len: "i < length steps" using assms by (metis gate_law_def length_map)
  show "new_writes (gated_call env trust steps0) w0 (loop_world (run_plan_step env trust p i steps ctx w))"
    using assms(2) run_plan_step_gated(1)[OF len, of env trust w p ctx] gated_call_shape[of steps steps0 env trust]
    by (auto simp: gate_law_def intro: new_writes_trans)
  show "map step_shape s = map step_shape steps0" if "run_plan_step env trust p i steps ctx w = Continue s c v"
    using run_plan_step_gated(2)[OF len that] assms(2) by (simp add: gate_law_def)
qed

interpretation gate: plan_invariant env trust p "length steps0"
    "\<lambda>is steps ctx w. gate_law env trust steps0 w0 steps w" "new_writes (gated_call env trust steps0) w0"
  for env :: "'e plan_env" and trust p steps0 w0
proof (unfold_locales, goal_cases)
  case (1 i js steps ctx w s c v)
  then show ?case using gate_law_step[OF 1(1,2), of p ctx] by (simp add: gate_law_def)
next
  case (2 i js steps ctx w v)
  then show ?case using gate_law_step(1)[OF 2(1,2), of p ctx] by simp
next
  case (3 steps ctx w)
  then show ?case by (auto simp: gate_law_def intro: new_writes_frame)
qed

text \<open>C36. Whatever its tools, its recovery agent and other requests do, every call a run of a plan makes to
  execute a write is made for a step of the plan with that tool; the tool either may execute by
  itself at its own tier, as it stands when the call is made, under the trust level read at the
  start of the run, or no later step depends on the step. Otherwise a tool is not called at all, and
  a module action is only queued for approval. The tier is the one of the table for a native tool
  and the one of the connection's catalogue for an MCP tool.\<close>
theorem reviewed_dependency_is_never_run:
  assumes "pw_plan w = Some p" and "pe_trust env (pw_ext w) = Some trust"
  shows "\<exists>calls. pw_writes (snd (executePlan env w)) = pw_writes w @ calls
     \<and> list_all (gated_call env trust (pl_steps p)) calls"
proof -
  let ?is = "[pl_current_step p..<length (pl_steps p)]" and ?w = "set_plan (\<lambda>q. q\<lparr>pl_status := PlExecuting\<rparr>) w"
  have "gate_law env trust (pl_steps p) w (pl_steps p) ?w"
    by (simp add: gate_law_def new_writes_refl)
  moreover have "set ?is \<subseteq> {..<length (pl_steps p)}" by auto
  ultimately have "new_writes (gated_call env trust (pl_steps p)) w (run_loop env trust p ?is (pl_steps p) (pl_context p) ?w)"
    by (intro gate.loop)
  then have "new_writes (gated_call env trust (pl_steps p)) w (snd (executePlan env w))"
    using assms by (auto simp: executePlan_def new_writes_refl)
  then show ?thesis by (simp add: new_writes_def)
qed

subsection \<open>A completed plan\<close>

definition step_done :: "plan_step \<Rightarrow> bool" where
  "step_done s \<longleftrightarrow> sp_status s = Some StCompleted \<or> sp_status s = Some StSkipped"

text \<open>Other requests pause, approve or abort a plan; none completes it.\<close>

definition requests_only :: "'e plan_env \<Rightarrow> bool" where
  "requests_only env \<longleftrightarrow> (\<forall>i e. pe_before env i e \<noteq> Some PlCompleted \<and> pe_during env i e \<noteq> Some PlCompleted)"

text \<open>What the stored row says while the loop runs.\<close>

definition row_law :: "plan_step list \<Rightarrow> 'e plan_world \<Rightarrow> bool" where
  "row_law steps w \<longleftrightarrow> (\<forall>q. pw_plan w = Some q \<longrightarrow> pl_steps q = steps \<and> pl_status q \<noteq> PlCompleted)"

definition deps_known :: "plan_step list \<Rightarrow> nat \<Rightarrow> bool" where
  "deps_known steps i \<longleftrightarrow> set (or_empty (sp_depends_on (steps ! i))) \<subseteq> sp_id ` set steps"

text \<open>The steps behind the loop have failed or only name steps of the plan.\<close>

definition past_law :: "nat \<Rightarrow> plan_step list \<Rightarrow> nat list \<Rightarrow> plan_step list \<Rightarrow> bool" where
  "past_law cur steps0 is steps \<longleftrightarrow> map step_shape steps = map step_shape steps0
     \<and> (\<forall>j \<in> {cur..<length steps0} - set is. step_done (steps ! j) \<longrightarrow> deps_known steps0 j)"

definition completed_law :: "nat \<Rightarrow> 'e plan_world \<Rightarrow> bool" where
  "completed_law cur w \<longleftrightarrow> (\<forall>q. pw_plan w = Some q \<longrightarrow> pl_status q = PlCompleted \<longrightarrow>
     list_all step_done (pl_steps q) \<and> (\<forall>j \<in> {cur..<length (pl_steps q)}. deps_known (pl_steps q) j))"

lemma row_law_interfere:
  assumes "requests_only env" "row_law steps w"
  shows "row_law steps (interfere (pe_before env i e) w)" "row_law steps (interfere (pe_during env i e) w)"
  using assms by (auto simp: requests_only_def row_law_def interfere_def split: option.splits)

lemma row_law_frame [simp]:
  "row_law steps (emit t x w) = row_law steps w"
  "row_law steps (w\<lparr>pw_ext := e\<rparr>) = row_law steps w"
  by (simp_all add: row_law_def)

lemma row_law_progress:
  "row_law steps w \<Longrightarrow> row_law steps' (updatePlanProgress steps' ctx i None w)"
  by (auto simp: row_law_def updatePlanProgress_def)

lemma row_law_plan: "pw_plan w' = pw_plan w \<Longrightarrow> row_law steps w' = row_law steps w"
  by (simp add: row_law_def)

lemma executeActionDirect_plan:
  "executeActionDirect env action params tier opts w = (r, w') \<Longrightarrow> pw_plan w' = pw_plan w"
  by (auto simp: executeActionDirect_def executeAction_def current_mcp_policy_def direct_employee_gate_def Let_def
      split: tier_value.splits if_splits option.splits prod.splits)

lemma reviewed_plan:
  "executeReviewedPlanDependency env p step params tier w = (r, w') \<Longrightarrow> pw_plan w' = pw_plan w"
  by (auto simp: executeReviewedPlanDependency_def Let_def
      split: if_splits sum.splits list.splits prod.splits dest!: executeActionDirect_plan)

lemma run_body_plan:
  "run_body env trust p steps i ctx w = (r, w') \<Longrightarrow> pw_plan w' = pw_plan w"
  by (auto simp: run_body_def run_write_def Let_def split: sum.splits tool_class.splits prod.splits if_splits
      dest: executeActionDirect_plan reviewed_plan)

lemma after_body_row:
  assumes "row_law steps w"
  shows "after_body env p steps i ctx (r, w) = Continue s c v \<Longrightarrow> row_law s v"
    and "after_body env p steps i ctx (r, w) = Returned v \<Longrightarrow> pw_plan v = Some q \<Longrightarrow> pl_status q \<noteq> PlCompleted"
  using assms by (cases r; auto simp: after_body_def step_completed_def fail_fast_stop_def recover_step_def Let_def
      row_law_def updatePlanProgress_def split: if_splits prod.splits sum.splits)+

lemma after_body_other:
  assumes "after_body env p steps i ctx (r, w) = Continue s c v" "j \<noteq> i"
  shows "s ! j = steps ! j"
  using assms by (cases r; auto simp: after_body_def step_completed_def fail_fast_stop_def recover_step_def Let_def
      mark_error_def split: if_splits prod.splits sum.splits)

lemma allDeps_known: "allDepsCompleted steps (steps ! i) \<Longrightarrow> deps_known steps i"
  by (force simp: allDepsCompleted_def deps_known_def list_all_iff dep_done_def find_Some_iff split: option.splits)

lemma shape_ids: "map step_shape steps = map step_shape steps' \<Longrightarrow> sp_id ` set steps = sp_id ` set steps'"
proof -
  assume a: "map step_shape steps = map step_shape steps'"
  have "map sp_id xs = map fst (map step_shape xs)" for xs by (simp add: step_shape_def)
  then have "map sp_id steps = map sp_id steps'" using a by metis
  then show ?thesis by (metis set_map)
qed

lemma deps_known_shape:
  assumes "map step_shape steps = map step_shape steps'" "i < length steps"
  shows "deps_known steps i = deps_known steps' i"
proof -
  have "step_shape (steps ! i) = step_shape (steps' ! i)"
    using assms by (metis length_map nth_map)
  then show ?thesis unfolding deps_known_def using shape_ids[OF assms(1)] by (simp add: step_shape_def)
qed

lemma run_plan_step_row:
  assumes "requests_only env" "row_law steps w"
  shows "run_plan_step env trust p i steps ctx w = Continue s c v \<Longrightarrow> row_law s v"
    and "run_plan_step env trust p i steps ctx w = Returned v \<Longrightarrow> pw_plan v = Some q \<Longrightarrow> pl_status q \<noteq> PlCompleted"
proof -
  let ?w = "interfere (pe_before env i (pw_ext w)) w"
  let ?m = "mark i StRunning steps"
  let ?w1 = "emit StepStart (Some (sp_id (steps ! i))) (updatePlanProgress ?m ctx i None ?w)"
  obtain r u where b: "run_body env trust p ?m i ctx ?w1 = (r, u)" by force
  have w: "row_law steps ?w" using assms by (rule row_law_interfere(1))
  then have "row_law ?m ?w1" by (simp add: row_law_progress)
  then have "row_law ?m u" using run_body_plan[OF b] row_law_plan by metis
  then have u: "row_law ?m (interfere (pe_during env i (pw_ext u)) u)" by (rule row_law_interfere(2)[OF assms(1)])
  show "row_law s v" if "run_plan_step env trust p i steps ctx w = Continue s c v"
    using that w after_body_row(1)[OF u] by (auto simp: run_plan_step_def Let_def b row_law_progress split: if_splits)
  show "pl_status q \<noteq> PlCompleted" if "run_plan_step env trust p i steps ctx w = Returned v" "pw_plan v = Some q"
    using that after_body_row(2)[OF u] by (auto simp: run_plan_step_def Let_def b split: if_splits)
qed

lemma mark_other [simp]:
  "j \<noteq> i \<Longrightarrow> mark i st steps ! j = steps ! j" "j \<noteq> i \<Longrightarrow> mark_error i st e steps ! j = steps ! j"
  by (simp_all add: mark_defs)

lemma run_plan_step_past:
  assumes i: "i < length steps" and r: "run_plan_step env trust p i steps ctx w = Continue s c v"
  shows "j \<noteq> i \<Longrightarrow> s ! j = steps ! j" and "step_done (s ! i) \<Longrightarrow> deps_known steps i"
proof -
  let ?m = "mark i StRunning steps"
  let ?w1 = "emit StepStart (Some (sp_id (steps ! i))) (updatePlanProgress ?m ctx i None (interfere (pe_before env i (pw_ext w)) w))"
  obtain x u where b: "run_body env trust p ?m i ctx ?w1 = (x, u)" by force
  show "s ! j = steps ! j" if "j \<noteq> i"
    using r that after_body_other[of env p ?m i ctx x _ s c v j]
    by (auto simp: run_plan_step_def Let_def b split: if_splits)
  show "deps_known steps i" if "step_done (s ! i)"
    using r i that by (auto simp: run_plan_step_def Let_def mark_error_def step_done_def allDeps_known split: if_splits)
qed

lemma past_law_step:
  assumes "i < length steps0" "past_law cur steps0 (i # js) steps"
    and "run_plan_step env trust p i steps ctx w = Continue s c v"
  shows "past_law cur steps0 js s"
proof -
  have sh: "map step_shape steps = map step_shape steps0" using assms(2) by (simp add: past_law_def)
  then have i: "i < length steps" using assms(1) by (metis length_map)
  have "deps_known steps0 j" if "j \<in> {cur..<length steps0} - set js" "step_done (s ! j)" for j
  proof (cases "j = i")
    case True
    then show ?thesis using run_plan_step_past(2)[OF i assms(3)] that deps_known_shape[OF sh i] by simp
  next
    case False
    then have "step_done (steps ! j)" using run_plan_step_past(1)[OF i assms(3) False] that by simp
    then show ?thesis using assms(2) that False by (auto simp: past_law_def)
  qed
  then show ?thesis using run_plan_step_gated(2)[OF i assms(3)] sh by (simp add: past_law_def)
qed

lemma conclude_completed:
  assumes "row_law steps w" "past_law cur steps0 [] steps"
  shows "completed_law cur (conclude steps ctx w)"
proof (unfold completed_law_def, intro allI impI)
  fix q assume q: "pw_plan (conclude steps ctx w) = Some q" "pl_status q = PlCompleted"
  then have st: "pl_steps q = steps"
      and d: "filter (\<lambda>s. sp_status s \<noteq> Some StCompleted \<and> sp_status s \<noteq> Some StSkipped) steps = []"
    using assms(1) by (auto simp: conclude_def finishPlan_def row_law_def split: if_splits)
  from d have all: "list_all step_done steps" by (auto simp: filter_empty_conv list_all_iff step_done_def)
  have "deps_known steps j" if "j \<in> {cur..<length steps}" for j
  proof -
    have sh: "map step_shape steps = map step_shape steps0" using assms(2) by (simp add: past_law_def)
    then have len: "length steps = length steps0" by (metis length_map)
    have "step_done (steps ! j)" using all that by (simp add: list_all_length)
    then have "deps_known steps0 j" using assms(2) that len by (auto simp: past_law_def)
    then show ?thesis using deps_known_shape[OF sh] that by simp
  qed
  then show "list_all step_done (pl_steps q) \<and> (\<forall>j \<in> {cur..<length (pl_steps q)}. deps_known (pl_steps q) j)"
    using st all by simp
qed

interpretation completion: plan_invariant env trust p "length steps0"
    "\<lambda>js steps ctx w. requests_only env \<longrightarrow> row_law steps w \<and> past_law cur steps0 js steps"
    "\<lambda>w. requests_only env \<longrightarrow> completed_law cur w"
  for env :: "'e plan_env" and trust p steps0 cur
proof (unfold_locales, goal_cases)
  case (1 i js steps ctx w s c v)
  then show ?case using run_plan_step_row(1)[of env steps w trust p i ctx s c v] past_law_step[OF 1(1) _ 1(3)] by simp
next
  case (2 i js steps ctx w v)
  then show ?case using run_plan_step_row(2)[of env steps w trust p i ctx v] by (simp add: completed_law_def)
next
  case (3 steps ctx w)
  then show ?case using conclude_completed by blast
qed

text \<open>When other requests only pause, approve or abort plans, a plan whose run ends completed has
  every step completed or skipped, and the run went over no step that names a step the plan lacks.\<close>
theorem completed_plan_is_done:
  assumes "requests_only env" "pw_plan w = Some p" "pl_status p \<noteq> PlCompleted"
    and "pw_plan (snd (executePlan env w)) = Some q" "pl_status q = PlCompleted"
  shows "list_all step_done (pl_steps q) \<and> (\<forall>j \<in> {pl_current_step p..<length (pl_steps q)}. deps_known (pl_steps q) j)"
proof -
  let ?is = "[pl_current_step p..<length (pl_steps p)]" and ?w = "set_plan (\<lambda>q. q\<lparr>pl_status := PlExecuting\<rparr>) w"
  have run: "completed_law (pl_current_step p) (run_loop env trust p ?is (pl_steps p) (pl_context p) ?w)" for trust
  proof -
    have "row_law (pl_steps p) ?w" using assms(2) by (simp add: row_law_def)
    moreover have "past_law (pl_current_step p) (pl_steps p) ?is (pl_steps p)" by (simp add: past_law_def)
    moreover have "set ?is \<subseteq> {..<length (pl_steps p)}" by auto
    ultimately show ?thesis using completion.loop[of ?is "pl_steps p" env "pl_steps p" ?w "pl_current_step p" trust p] assms(1)
      by blast
  qed
  then show ?thesis using assms(2-) by (auto simp: executePlan_def completed_law_def split: if_splits option.splits)
qed

subsection \<open>The routes\<close>

definition plan_states :: "plan_status list" where
  "plan_states = [PlDraft, PlApproved, PlExecuting, PlPaused, PlCompleted, PlFailed]"

text \<open>The statuses a request may move a plan to; only the run itself starts or completes it.\<close>

fun route_nexts :: "plan_status \<Rightarrow> plan_status list" where
  "route_nexts PlDraft = [PlApproved, PlFailed]"
| "route_nexts PlApproved = [PlFailed]"
| "route_nexts PlExecuting = [PlPaused, PlFailed]"
| "route_nexts PlPaused = [PlApproved, PlFailed]"
| "route_nexts _ = []"

fun route_rank :: "plan_status \<Rightarrow> nat" where
  "route_rank PlCompleted = 1"
| "route_rank PlFailed = 1"
| "route_rank _ = 0"

interpretation routes: staged plan_states route_nexts route_rank
proof (unfold_locales, goal_cases)
  case (1 s t)
  show ?case by (insert 1, cases t) (auto simp: plan_states_def)
next
  case (2 s t)
  show ?case by (insert 2, cases s) auto
qed

lemma edit_plan_status [simp]: "pl_status (edit_plan title steps p) = pl_status p"
  by (auto simp: edit_plan_def Let_def split: option.splits list.splits)

lemma route_follows:
  assumes "plan_route org user req (Some p) = PlanSaved q \<or> plan_route org user req (Some p) = PlanEnqueued q"
  shows "pl_status q = pl_status p \<or> pl_status q \<in> set (route_nexts (pl_status p))"
  using assms by (cases req; cases "pl_status p")
    (auto simp: plan_route_def edit_route_def approve_route_def execute_route_def pause_route_def resume_route_def
      abort_route_def split: if_splits)

text \<open>No sequence of requests revives a plan that has completed or failed.\<close>

lemma terminal_plan_stays:
  "(s, t) \<in> (step_rel route_nexts)\<^sup>* \<Longrightarrow> route_nexts s = [] \<Longrightarrow> t = s"
  by (rule routes.reach_terminal)

end
