(* ===== verification/PlanSamples.thy ===== *)
theory PlanSamples
  imports PlanProperties
begin

text \<open>Plans evaluated on concrete inputs: the witnesses of the plan properties, and the runs behind the
  findings about the plan loop.\<close>

definition sample_step :: "string \<Rightarrow> string \<Rightarrow> string list option \<Rightarrow> plan_step" where
  "sample_step i tool deps = \<lparr>sp_id = i, sp_description = [], sp_tool = tool, sp_params = JObj [],
     sp_depends_on = deps, sp_condition = None, sp_status = Some StPending, sp_result = JUndefined, sp_error = None\<rparr>"

definition sample_plan :: "bool \<Rightarrow> plan_step list \<Rightarrow> plan_row" where
  "sample_plan fast steps = \<lparr>pl_id = ''p'', pl_org = ''o'', pl_user = ''u'', pl_employee = None, pl_title = [],
     pl_steps = steps, pl_status = PlApproved, pl_current_step = 0, pl_context = [], pl_error = None,
     pl_fail_fast = fast, pl_rollback_on_fail = False\<rparr>"

definition sample_plan_world :: "plan_row \<Rightarrow> unit plan_world" where
  "sample_plan_world p = \<lparr>pw_plan = Some p, pw_actions = [], pw_writes = [], pw_reads = [], pw_rollbacks = [],
     pw_events = [], pw_ext = ()\<rparr>"

text \<open>Reads and writes succeed; the recovery agent proposes to go on; no other request comes in.\<close>

definition sample_plan_env :: "(nat \<Rightarrow> plan_status option) \<Rightarrow> unit plan_env" where
  "sample_plan_env during = \<lparr>pe_org = ''o'', pe_user = ''u'', pe_trust = (\<lambda>e. Some Conservative),
     pe_read = (\<lambda>tool ps e. if tool = ''broken'' then (Throw ''broken'', e) else (Ok (JObj []), e)),
     pe_write = (\<lambda>i a ps e. (\<lparr>to_success = True, to_result = JObj [], to_error = None, to_executed = True,
        to_row_error = None\<rparr>, e)),
     pe_governed = (\<lambda>a ps t f e. (Throw ''unused'', e)), pe_mcp = (\<lambda>e. []), pe_blocked = (\<lambda>a ps e. None),
     pe_preflight = (\<lambda>a ps b e. Ok ps), pe_recover = (\<lambda>m e. (Ok ''go on'', e)),
     pe_digest = (\<lambda>a ps. a), pe_fresh = (\<lambda>n. [char_of (65 + n)]),
     pe_before = (\<lambda>i e. None), pe_during = (\<lambda>i e. during i),
     pe_num = (\<lambda>q. []), pe_to_num = (\<lambda>s. JNaN)\<rparr>"

definition quiet_env :: "unit plan_env" where
  "quiet_env = sample_plan_env (\<lambda>i. None)"

definition row_status :: "'e plan_world \<Rightarrow> plan_status option" where
  "row_status w = map_option pl_status (pw_plan w)"

definition step_statuses :: "'e plan_world \<Rightarrow> step_status option list" where
  "step_statuses w = (case pw_plan w of None \<Rightarrow> [] | Some p \<Rightarrow> map sp_status (pl_steps p))"

text \<open>A dependency that needs review stops the plan before anything is written.\<close>

definition review_plan :: plan_row where
  "review_plan = sample_plan False [sample_step ''a'' ''post_message'' None, sample_step ''b'' ''post_message'' (Some [''a''])]"

lemma reviewed_dependency_waits:
  "(let w = snd (executePlan quiet_env (sample_plan_world review_plan)) in
     row_status w = Some PlPaused \<and> step_statuses w = [Some StWaitingApproval, Some StPending]
     \<and> pw_writes w = [] \<and> length (pw_actions w) = 1 \<and> ac_status (pw_actions w ! 0) = AcPending)"
  by code_simp

text \<open>The same write without a later step that waits for it is executed at once, under the most cautious
  trust level.\<close>

lemma leaf_write_is_executed_without_review:
  "(let w = snd (executePlan quiet_env (sample_plan_world (sample_plan False [sample_step ''a'' ''post_message'' None]))) in
     row_status w = Some PlCompleted \<and> pw_writes w = [ToolCall () (Some ''a'') ''A'' ''post_message'' (JObj [])]
     \<and> \<not> shouldAutoExecute ''post_message'' Conservative (JObj []) None)"
  by code_simp

text \<open>A plan that is aborted, or paused, while its last step runs ends as completed.\<close>

lemma abort_during_the_last_step_is_lost:
  "st \<in> {PlFailed, PlPaused} \<Longrightarrow>
     row_status (snd (executePlan (sample_plan_env (\<lambda>i. Some st))
       (sample_plan_world (sample_plan False [sample_step ''a'' ''search'' None])))) = Some PlCompleted"
  by (elim insertE emptyE; hypsubst; code_simp)

text \<open>\<open>fail_fast\<close> does not stop the plan at a step whose dependency was not met: the step after it runs.\<close>

lemma fail_fast_goes_on_after_an_unmet_dependency:
  "(let w = snd (executePlan quiet_env (sample_plan_world (sample_plan True
        [sample_step ''a'' ''search'' (Some [''ghost'']), sample_step ''b'' ''post_message'' None]))) in
     row_status w = Some PlFailed \<and> step_statuses w = [Some StFailed, Some StCompleted]
     \<and> pw_writes w = [ToolCall () (Some ''b'') ''A'' ''post_message'' (JObj [])])"
  by code_simp

lemma fail_fast_stops_after_an_error:
  "(let w = snd (executePlan quiet_env (sample_plan_world (sample_plan True
        [sample_step ''a'' ''broken'' None, sample_step ''b'' ''post_message'' None]))) in
     row_status w = Some PlFailed \<and> step_statuses w = [Some StFailed, Some StSkippedDueToFailure]
     \<and> pw_writes w = [])"
  by code_simp

subsection \<open>Witnesses\<close>

text \<open>The first step is executed, because no later step depends on it; the second one waits.\<close>

definition mixed_plan :: plan_row where
  "mixed_plan = sample_plan False [sample_step ''a'' ''post_message'' None, sample_step ''b'' ''post_message'' None,
     sample_step ''c'' ''post_message'' (Some [''b''])]"

lemma mixed_plan_calls:
  "pw_writes (snd (executePlan quiet_env (sample_plan_world mixed_plan))) =
     [ToolCall () (Some ''a'') ''A'' ''post_message'' (JObj [])]
   \<and> \<not> gated_call quiet_env Conservative (pl_steps mixed_plan) (ToolCall () (Some ''b'') ''B'' ''post_message'' (JObj []))"
  by (rule conjI; code_simp)

theorem reviewed_dependency_is_never_run_witness:
  "gated_call quiet_env Conservative (pl_steps mixed_plan) (ToolCall () (Some ''a'') ''A'' ''post_message'' (JObj []))"
  using reviewed_dependency_is_never_run[of "sample_plan_world mixed_plan" mixed_plan quiet_env Conservative]
    mixed_plan_calls
  by (simp add: sample_plan_world_def quiet_env_def sample_plan_env_def)

definition read_plan :: plan_row where
  "read_plan = sample_plan False [sample_step ''a'' ''search'' None, sample_step ''b'' ''post_message'' (Some [''a''])]"

theorem completed_plan_is_done_witness:
  "(case pw_plan (snd (executePlan quiet_env (sample_plan_world read_plan))) of
      None \<Rightarrow> False
    | Some q \<Rightarrow> list_all step_done (pl_steps q) \<and> deps_known (pl_steps q) 1)"
proof -
  let ?w = "snd (executePlan quiet_env (sample_plan_world read_plan))"
  have "row_status ?w = Some PlCompleted" "length (step_statuses ?w) = 2" by code_simp+
  then obtain q where q: "pw_plan ?w = Some q" "pl_status q = PlCompleted" "length (pl_steps q) = 2"
    by (auto simp: row_status_def step_statuses_def)
  have "requests_only quiet_env" by (simp add: requests_only_def quiet_env_def sample_plan_env_def)
  then show ?thesis
    using completed_plan_is_done[of quiet_env "sample_plan_world read_plan" read_plan q] q
    by (simp add: sample_plan_world_def read_plan_def sample_plan_def)
qed

end
