(* ===== verification/McpClient.thy ===== *)
theory McpClient
  imports JsValue
begin

text \<open>
  The client for outside MCP servers (packages/mcp/src): classification of tools, the cache of
  discovered tools, the pool of connections with its limit per organisation, and the health record
  that backs off from a failing connection.

  The servers and the clock are the argument \<open>mcp_env\<close>; they act on a state of their own.
\<close>

subsection \<open>Types\<close>

datatype mcp_transport = Stdio | Sse | StreamableHttp

record mcp_config =
  mc_id :: string
  mc_slug :: string
  mc_org :: string
  mc_transport :: mcp_transport
  mc_url :: "string option"
  mc_headers :: "(string \<times> string) list option"
  mc_command :: "string option"
  mc_args :: "string list option"
  mc_env :: "(string \<times> string) list option"

datatype client_tier = AutoExecute | QuickApprove | FullReview

text \<open>A tool as the server lists it; a field it does not send is undefined.\<close>

record server_tool =
  st_name :: string
  st_description :: "string option"
  st_input_schema :: jsv
  st_output_schema :: jsv
  st_title :: jsv
  st_icons :: jsv
  st_execution :: jsv
  st_annotations :: "(string \<times> jsv) list option"

record client_tool =
  ct_name :: string
  ct_original :: string
  ct_description :: string
  ct_input_schema :: jsv
  ct_output_schema :: jsv
  ct_title :: jsv
  ct_icons :: jsv
  ct_execution :: jsv
  ct_connection :: string
  ct_slug :: string
  ct_write :: bool
  ct_tier :: client_tier
  ct_annotations :: "(string \<times> jsv) list option"
  ct_raw :: server_tool

record provider_tool =
  pt_name :: string
  pt_description :: string
  pt_input_schema :: jsv
  pt_output_schema :: jsv
  pt_title :: jsv

type_synonym tool_discovery = "client_tool list \<times> provider_tool list"

record tool_override =
  ov_tool :: string
  ov_tier :: "client_tier option"
  ov_write :: "bool option"
  ov_description :: "string option"
  ov_disabled :: bool

subsection \<open>Classification\<close>

definition READ_ONLY_BROWSER :: "string list" where
  "READ_ONLY_BROWSER =
     [''browser_snapshot'', ''browser_take_screenshot'', ''browser_console_messages'',
      ''browser_network_requests'', ''browser_tabs'', ''browser_wait_for'']"

definition DESTRUCTIVE_BROWSER :: "string list" where
  "DESTRUCTIVE_BROWSER =
     [''browser_run_code'', ''browser_evaluate'', ''browser_file_upload'', ''browser_close'',
      ''browser_handle_dialog'']"

definition TIME_TOOL_NAMES :: "string list" where
  "TIME_TOOL_NAMES =
     [''get_current_time'', ''convert_time'', ''current_time'', ''relative_time'', ''days_in_month'',
      ''get_timestamp'', ''get_week_year'']"

text \<open>\<open>/^word[-_]/\<close>.\<close>

definition family :: "string \<Rightarrow> string \<Rightarrow> bool" where
  "family w name \<longleftrightarrow> js_starts_with name (w @ ''-'') \<or> js_starts_with name (w @ ''_'')"

definition search_tool :: "string \<Rightarrow> bool" where
  "search_tool name \<longleftrightarrow> family ''tavily'' name \<or> family ''brave'' name \<or> family ''exa'' name
     \<or> family ''perplexity'' name \<or> name = ''web-search'' \<or> name = ''web_search'' \<or> name = ''search''"

definition hint :: "(string \<times> jsv) list \<Rightarrow> string \<Rightarrow> bool" where
  "hint annotations k \<longleftrightarrow> js_prop_of (JObj annotations) k = JBool True"

definition classifyTool :: "string \<Rightarrow> (string \<times> jsv) list option \<Rightarrow> client_tier \<times> bool" where
  "classifyTool name annotations =
     (if js_starts_with name ''browser_''
      then (if name \<in> set READ_ONLY_BROWSER then (AutoExecute, False)
            else if name \<in> set DESTRUCTIVE_BROWSER then (FullReview, True)
            else (QuickApprove, False))
      else if js_starts_with name ''filesystem_read'' \<or> name = ''filesystem_list'' then (AutoExecute, False)
      else if js_starts_with name ''filesystem_'' then (FullReview, True)
      else if name = ''git_log'' \<or> name = ''git_diff'' \<or> name = ''git_show'' \<or> name = ''git_status''
      then (AutoExecute, False)
      else if js_starts_with name ''git_'' then (FullReview, True)
      else if search_tool name then (AutoExecute, False)
      else if name \<in> set TIME_TOOL_NAMES \<or> js_starts_with name ''time_'' then (AutoExecute, False)
      else if name = ''fetch'' \<or> name = ''http_get'' \<or> family ''fetch'' name then (AutoExecute, False)
      else if name = ''sequentialthinking'' \<or> name = ''sequential_thinking'' then (AutoExecute, False)
      else if name = ''resolve-library-id'' \<or> name = ''get-library-docs'' \<or> name = ''query-docs''
      then (AutoExecute, False)
      else (case annotations of
          None \<Rightarrow> (FullReview, False)
        | Some an \<Rightarrow>
            if hint an ''destructiveHint'' then (FullReview, True)
            else if hint an ''readOnlyHint'' then (AutoExecute, False)
            else (FullReview, False)))"

subsection \<open>Projections of a listed tool\<close>

definition truthy_or_undefined :: "jsv \<Rightarrow> jsv" where
  "truthy_or_undefined v = (if js_truthy v then v else JUndefined)"

fun or_default :: "'a option \<Rightarrow> 'a \<Rightarrow> 'a" where
  "or_default (Some x) d = x"
| "or_default None d = d"

definition schema_or_empty :: "jsv \<Rightarrow> jsv" where
  "schema_or_empty v = (if v = JUndefined \<or> v = JNull then JObj [] else v)"

definition find_override :: "tool_override list \<Rightarrow> string \<Rightarrow> tool_override option" where
  "find_override overrides name = List.find (\<lambda>o'. ov_tool o' = name) overrides"

definition mapTool :: "server_tool \<Rightarrow> mcp_config \<Rightarrow> tool_override list \<Rightarrow> client_tool" where
  "mapTool tool config overrides =
     (let override = find_override overrides (st_name tool);
          classified = classifyTool (st_name tool) (st_annotations tool) in
      \<lparr>ct_name = ''mcp__'' @ mc_slug config @ ''__'' @ st_name tool,
       ct_original = st_name tool,
       ct_description = or_default (Option.bind override ov_description) (or_default (st_description tool) []),
       ct_input_schema = schema_or_empty (st_input_schema tool),
       ct_output_schema = truthy_or_undefined (st_output_schema tool),
       ct_title = truthy_or_undefined (st_title tool),
       ct_icons = truthy_or_undefined (st_icons tool),
       ct_execution = truthy_or_undefined (st_execution tool),
       ct_connection = mc_id config, ct_slug = mc_slug config,
       ct_write = or_default (Option.bind override ov_write) (snd classified),
       ct_tier = or_default (Option.bind override ov_tier) (fst classified),
       ct_annotations = st_annotations tool, ct_raw = tool\<rparr>)"

definition mapProviderTool :: "server_tool \<Rightarrow> provider_tool" where
  "mapProviderTool tool =
     \<lparr>pt_name = st_name tool, pt_description = or_default (st_description tool) [],
      pt_input_schema = schema_or_empty (st_input_schema tool),
      pt_output_schema = truthy_or_undefined (st_output_schema tool),
      pt_title = truthy_or_undefined (st_title tool)\<rparr>"

definition tool_enabled :: "tool_override list \<Rightarrow> client_tool \<Rightarrow> bool" where
  "tool_enabled overrides tool \<longleftrightarrow>
     (case find_override overrides (ct_original tool) of None \<Rightarrow> True | Some ov \<Rightarrow> \<not> ov_disabled ov)"

subsection \<open>The cache\<close>

record cache_entry =
  ce_tools :: "client_tool list"
  ce_provider :: "provider_tool list option"
  ce_at :: int

type_synonym tool_cache = "string \<rightharpoonup> cache_entry"

definition cache_ttl :: int where "cache_ttl = 5 * 60 * 1000"

definition cache_get :: "int \<Rightarrow> int \<Rightarrow> string \<Rightarrow> tool_cache \<Rightarrow> client_tool list option \<times> tool_cache" where
  "cache_get ttl now i cache = (case cache i of
       None \<Rightarrow> (None, cache)
     | Some e \<Rightarrow> if now - ce_at e > ttl then (None, cache(i := None)) else (Some (ce_tools e), cache))"

definition cache_getDiscovery :: "int \<Rightarrow> int \<Rightarrow> string \<Rightarrow> tool_cache \<Rightarrow> tool_discovery option \<times> tool_cache" where
  "cache_getDiscovery ttl now i cache = (case cache_get ttl now i cache of
       (None, c) \<Rightarrow> (None, c)
     | (Some tools, c) \<Rightarrow> (Option.bind (c i) (\<lambda>e. map_option (\<lambda>p. (tools, p)) (ce_provider e)), c))"

definition cache_set :: "int \<Rightarrow> string \<Rightarrow> client_tool list \<Rightarrow> tool_cache \<Rightarrow> tool_cache" where
  "cache_set now i tools cache = cache(i \<mapsto> \<lparr>ce_tools = tools, ce_provider = None, ce_at = now\<rparr>)"

definition cache_setDiscovery :: "int \<Rightarrow> string \<Rightarrow> tool_discovery \<Rightarrow> tool_cache \<Rightarrow> tool_cache" where
  "cache_setDiscovery now i d cache = cache(i \<mapsto> \<lparr>ce_tools = fst d, ce_provider = Some (snd d), ce_at = now\<rparr>)"

definition cache_invalidate :: "string \<Rightarrow> tool_cache \<Rightarrow> tool_cache" where
  "cache_invalidate i cache = cache(i := None)"

definition cache_clear :: "tool_cache \<Rightarrow> tool_cache" where
  "cache_clear cache = Map.empty"

subsection \<open>The state of the manager\<close>

record pool_entry =
  po_config :: mcp_config
  po_used :: int

record health_entry =
  he_count :: nat
  he_first :: int
  he_backoff :: int

text \<open>
  \<open>ms_pool\<close> lists the connections in insertion order, \<open>ms_calls\<close> the tool calls that reached a server,
  \<open>ms_auth\<close> the connections reported to the handler of authentication errors.
\<close>

record 'e mcp_state =
  ms_pool :: "(string \<times> pool_entry) list"
  ms_health :: "string \<rightharpoonup> health_entry"
  ms_orgs :: "string \<rightharpoonup> string list"
  ms_cache :: tool_cache
  ms_calls :: "(string \<times> string \<times> jsv) list"
  ms_auth :: "string list"
  ms_ext :: 'e

record call_answer =
  an_error :: bool
  an_text :: "string list"
  an_content :: jsv
  an_structured :: jsv
  an_meta :: jsv

record mcp_result =
  mr_success :: bool
  mr_content :: jsv
  mr_structured :: jsv
  mr_meta :: jsv
  mr_error :: "string option"
  mr_duration :: int

record 'e mcp_env =
  me_limit :: "string option"
  me_clock :: "'e \<Rightarrow> int"
  me_iso :: "int \<Rightarrow> string"
  me_connect :: "mcp_config \<Rightarrow> string \<Rightarrow> 'e \<Rightarrow> (string + unit) \<times> 'e"
  me_close :: "mcp_config \<Rightarrow> 'e \<Rightarrow> 'e"
  me_list :: "mcp_config \<Rightarrow> 'e \<Rightarrow> (string + server_tool list) \<times> 'e"
  me_call :: "mcp_config \<Rightarrow> string \<Rightarrow> jsv \<Rightarrow> 'e \<Rightarrow> (string + call_answer) \<times> 'e"

definition MAX_CONNECTIONS_DEFAULT :: int where "MAX_CONNECTIONS_DEFAULT = 3"
definition IDLE_TIMEOUT_MS :: int where "IDLE_TIMEOUT_MS = 5 * 60 * 1000"
definition HEALTH_FAILURE_THRESHOLD :: nat where "HEALTH_FAILURE_THRESHOLD = 3"
definition HEALTH_FAILURE_WINDOW_MS :: int where "HEALTH_FAILURE_WINDOW_MS = 5 * 60 * 1000"
definition BACKOFF_DURATION_MS :: int where "BACKOFF_DURATION_MS = 10 * 60 * 1000"

lemmas client_constants = MAX_CONNECTIONS_DEFAULT_def IDLE_TIMEOUT_MS_def HEALTH_FAILURE_THRESHOLD_def
  HEALTH_FAILURE_WINDOW_MS_def BACKOFF_DURATION_MS_def

definition now_of :: "'e mcp_env \<Rightarrow> 'e mcp_state \<Rightarrow> int" where
  "now_of env s = me_clock env (ms_ext s)"

definition initial_manager :: "'e \<Rightarrow> 'e mcp_state" where
  "initial_manager e = \<lparr>ms_pool = [], ms_health = Map.empty, ms_orgs = Map.empty, ms_cache = Map.empty,
     ms_calls = [], ms_auth = [], ms_ext = e\<rparr>"

text \<open>A \<open>Map\<close> in insertion order.\<close>

fun jm_set :: "'k \<Rightarrow> 'v \<Rightarrow> ('k \<times> 'v) list \<Rightarrow> ('k \<times> 'v) list" where
  "jm_set k v [] = [(k, v)]"
| "jm_set k v ((k', v') # m) = (if k' = k then (k, v) # m else (k', v') # jm_set k v m)"

definition jm_delete :: "'k \<Rightarrow> ('k \<times> 'v) list \<Rightarrow> ('k \<times> 'v) list" where
  "jm_delete k m = filter (\<lambda>(k', v). k' \<noteq> k) m"

text \<open>\<open>parseInt(s, 10)\<close>; \<open>None\<close> is \<open>NaN\<close>.\<close>

definition js_parse_digits :: "string \<Rightarrow> int option" where
  "js_parse_digits s = (let ds = takeWhile js_is_digit s in if ds = [] then None else Some (int (digits_value ds)))"

definition js_parse_int :: "string \<Rightarrow> int option" where
  "js_parse_int s = (case js_trim_start s of
       c # t \<Rightarrow> if c = CHR ''-'' then map_option uminus (js_parse_digits t)
                else if c = CHR ''+'' then js_parse_digits t else js_parse_digits (c # t)
     | [] \<Rightarrow> None)"

definition maxConnectionsPerOrg :: "'e mcp_env \<Rightarrow> int option" where
  "maxConnectionsPerOrg env = (case me_limit env of
       Some (c # s) \<Rightarrow> js_parse_int (c # s) | _ \<Rightarrow> Some MAX_CONNECTIONS_DEFAULT)"

subsection \<open>Tracking, health and disconnection\<close>

definition trackOrgConnection :: "string \<Rightarrow> string \<Rightarrow> 'e mcp_state \<Rightarrow> 'e mcp_state" where
  "trackOrgConnection orgId i s =
     (let connections = or_empty (ms_orgs s orgId) in
      s\<lparr>ms_orgs := (ms_orgs s)(orgId \<mapsto> (if i \<in> set connections then connections else connections @ [i]))\<rparr>)"

definition removeOrgConnection :: "string \<Rightarrow> string \<Rightarrow> 'e mcp_state \<Rightarrow> 'e mcp_state" where
  "removeOrgConnection orgId i s = (case ms_orgs s orgId of
       None \<Rightarrow> s
     | Some connections \<Rightarrow>
         let rest = filter (\<lambda>j. j \<noteq> i) connections in
         s\<lparr>ms_orgs := (ms_orgs s)(orgId := (if rest = [] then None else Some rest))\<rparr>)"

definition clearFailures :: "string \<Rightarrow> 'e mcp_state \<Rightarrow> 'e mcp_state" where
  "clearFailures i s = s\<lparr>ms_health := (ms_health s)(i := None)\<rparr>"

text \<open>\<open>disconnect\<close>: what happens before the client's \<open>close\<close> returns, and after.\<close>

definition disconnect :: "'e mcp_env \<Rightarrow> string \<Rightarrow> bool \<Rightarrow> 'e mcp_state \<Rightarrow> 'e mcp_state" where
  "disconnect env i clearHealth s =
     (let finish = (\<lambda>s. let s1 = s\<lparr>ms_cache := cache_invalidate i (ms_cache s)\<rparr> in
            if clearHealth then clearFailures i s1 else s1) in
      case map_of (ms_pool s) i of
        None \<Rightarrow> finish s
      | Some entry \<Rightarrow>
          finish (removeOrgConnection (mc_org (po_config entry)) i
            (s\<lparr>ms_ext := me_close env (po_config entry) (ms_ext s), ms_pool := jm_delete i (ms_pool s)\<rparr>)))"

definition failed_entry :: "int \<Rightarrow> health_entry \<Rightarrow> health_entry" where
  "failed_entry now entry =
     (let expired = he_first entry > 0 \<and> now - he_first entry > HEALTH_FAILURE_WINDOW_MS;
          count0 = (if expired then 0 else he_count entry);
          first0 = (if expired then 0 else he_first entry);
          first1 = (if count0 = 0 then now else first0);
          count1 = count0 + 1 in
      if count1 \<ge> HEALTH_FAILURE_THRESHOLD
      then \<lparr>he_count = 0, he_first = 0, he_backoff = now + BACKOFF_DURATION_MS\<rparr>
      else \<lparr>he_count = count1, he_first = first1, he_backoff = he_backoff entry\<rparr>)"

definition recordFailure :: "'e mcp_env \<Rightarrow> string \<Rightarrow> 'e mcp_state \<Rightarrow> 'e mcp_state" where
  "recordFailure env i s =
     s\<lparr>ms_health := (ms_health s)(i \<mapsto> failed_entry (now_of env s)
        (or_default (ms_health s i) \<lparr>he_count = 0, he_first = 0, he_backoff = 0\<rparr>))\<rparr>"

subsection \<open>Connecting\<close>

text \<open>The scan for the least recently used connection: the first of the smallest times.\<close>

fun lru_from :: "(string \<times> pool_entry) list \<Rightarrow> string list \<Rightarrow> (string \<times> int) option \<Rightarrow> (string \<times> int) option" where
  "lru_from pool [] best = best"
| "lru_from pool (i # is) best = lru_from pool is (case map_of pool i of
       None \<Rightarrow> best
     | Some e \<Rightarrow> (case best of
           None \<Rightarrow> Some (i, po_used e)
         | Some (_, t) \<Rightarrow> if po_used e < t then Some (i, po_used e) else best))"

definition enforceOrgLimit :: "'e mcp_env \<Rightarrow> string \<Rightarrow> 'e mcp_state \<Rightarrow> 'e mcp_state" where
  "enforceOrgLimit env orgId s = (case ms_orgs s orgId of
       None \<Rightarrow> s
     | Some connections \<Rightarrow>
         if (case maxConnectionsPerOrg env of None \<Rightarrow> False | Some l \<Rightarrow> int (length connections) < l) then s
         else (case lru_from (ms_pool s) connections None of
             Some (i, _) \<Rightarrow> if i \<noteq> [] then disconnect env i True s else s
           | None \<Rightarrow> s))"

definition connectFreshClient ::
    "'e mcp_env \<Rightarrow> mcp_config \<Rightarrow> string \<Rightarrow> 'e mcp_state \<Rightarrow> (string + unit) \<times> 'e mcp_state" where
  "connectFreshClient env config clientName s = (case me_connect env config clientName (ms_ext s) of
       (Inl e, ext) \<Rightarrow> (Throw e, s\<lparr>ms_ext := me_close env config ext\<rparr>)
     | (Inr _, ext) \<Rightarrow> (Ok (), s\<lparr>ms_ext := ext\<rparr>))"

definition backoff_message :: "'e mcp_env \<Rightarrow> string \<Rightarrow> int \<Rightarrow> string" where
  "backoff_message env i until = ''Connection '' @ i @ '' is in backoff until '' @ me_iso env until"

definition in_backoff :: "int \<Rightarrow> string \<Rightarrow> 'e mcp_state \<Rightarrow> bool" where
  "in_backoff now i s \<longleftrightarrow> (case ms_health s i of None \<Rightarrow> False | Some h \<Rightarrow> now < he_backoff h)"

definition expire_backoff :: "int \<Rightarrow> string \<Rightarrow> 'e mcp_state \<Rightarrow> 'e mcp_state" where
  "expire_backoff now i s = (case ms_health s i of
       None \<Rightarrow> s
     | Some h \<Rightarrow> if he_backoff h \<noteq> 0 \<and> now \<ge> he_backoff h then clearFailures i s else s)"

text \<open>\<open>connect\<close> up to the handshake: \<open>Inr True\<close> when the pooled client answers.\<close>

definition connect_begin :: "'e mcp_env \<Rightarrow> mcp_config \<Rightarrow> 'e mcp_state \<Rightarrow> (string + bool) \<times> 'e mcp_state" where
  "connect_begin env config s =
     (let i = mc_id config; now = now_of env s in
      if in_backoff now i s
      then (Throw (backoff_message env i (case ms_health s i of Some h \<Rightarrow> he_backoff h | None \<Rightarrow> 0)), s)
      else
        let s1 = expire_backoff now i s in
        case map_of (ms_pool s1) i of
          Some entry \<Rightarrow> (Ok True, s1\<lparr>ms_pool := jm_set i (entry\<lparr>po_used := now\<rparr>) (ms_pool s1)\<rparr>)
        | None \<Rightarrow> (Ok False, enforceOrgLimit env (mc_org config) s1))"

text \<open>\<open>connect\<close> after the handshake.\<close>

definition connect_store :: "'e mcp_env \<Rightarrow> mcp_config \<Rightarrow> 'e mcp_state \<Rightarrow> 'e mcp_state" where
  "connect_store env config s =
     trackOrgConnection (mc_org config) (mc_id config)
       (s\<lparr>ms_pool := jm_set (mc_id config) \<lparr>po_config = config, po_used = now_of env s\<rparr> (ms_pool s)\<rparr>)"

definition connect :: "'e mcp_env \<Rightarrow> mcp_config \<Rightarrow> 'e mcp_state \<Rightarrow> (string + unit) \<times> 'e mcp_state" where
  "connect env config s = (case connect_begin env config s of
       (Inl e, s1) \<Rightarrow> (Throw e, s1)
     | (Inr True, s1) \<Rightarrow> (Ok (), s1)
     | (Inr False, s1) \<Rightarrow>
         (case connectFreshClient env config (''deft-mcp-'' @ mc_slug config) s1 of
            (Inl e, s2) \<Rightarrow> (Throw e, s2)
          | (Inr _, s2) \<Rightarrow> (Ok (), connect_store env config s2)))"

subsection \<open>Discovery\<close>

definition testToolDiscovery ::
    "'e mcp_env \<Rightarrow> mcp_config \<Rightarrow> 'e mcp_state \<Rightarrow> (string + tool_discovery) \<times> 'e mcp_state" where
  "testToolDiscovery env config s =
     (case connectFreshClient env config (''deft-mcp-test-'' @ mc_slug config) s of
        (Inl e, s1) \<Rightarrow> (Throw e, s1)
      | (Inr _, s1) \<Rightarrow>
          (case me_list env config (ms_ext s1) of
             (r, ext) \<Rightarrow>
               (res_bind r (\<lambda>tools. Ok (map (\<lambda>t. mapTool t config []) tools, map mapProviderTool tools)),
                s1\<lparr>ms_ext := me_close env config ext\<rparr>)))"

definition testConnection ::
    "'e mcp_env \<Rightarrow> mcp_config \<Rightarrow> 'e mcp_state \<Rightarrow> (string + client_tool list) \<times> 'e mcp_state" where
  "testConnection env config s = (case testToolDiscovery env config s of (r, s1) \<Rightarrow> (res_bind r (\<lambda>d. Ok (fst d)), s1))"

text \<open>A failed connection or request is recorded, and the connection is dropped with its health kept.\<close>

definition drop_failed :: "'e mcp_env \<Rightarrow> string \<Rightarrow> 'e mcp_state \<Rightarrow> 'e mcp_state" where
  "drop_failed env i s = disconnect env i False (recordFailure env i s)"

text \<open>The connection that the pool holds answers a request under the config it was opened with.\<close>

definition pooled_config :: "mcp_config \<Rightarrow> 'e mcp_state \<Rightarrow> mcp_config" where
  "pooled_config config s = (case map_of (ms_pool s) (mc_id config) of Some e \<Rightarrow> po_config e | None \<Rightarrow> config)"

definition discoverToolDiscovery ::
    "'e mcp_env \<Rightarrow> mcp_config \<Rightarrow> tool_override list \<Rightarrow> 'e mcp_state \<Rightarrow> (string + tool_discovery) \<times> 'e mcp_state" where
  "discoverToolDiscovery env config overrides s =
     (case connect env config s of
        (Inl e, s1) \<Rightarrow> (Throw e, drop_failed env (mc_id config) s1)
      | (Inr _, s1) \<Rightarrow>
          (case me_list env (pooled_config config s1) (ms_ext s1) of
             (Inl e, ext) \<Rightarrow> (Throw e, drop_failed env (mc_id config) (s1\<lparr>ms_ext := ext\<rparr>))
           | (Inr tools, ext) \<Rightarrow>
               (let s2 = clearFailures (mc_id config) (s1\<lparr>ms_ext := ext\<rparr>);
                    d = (filter (tool_enabled overrides) (map (\<lambda>t. mapTool t config overrides) tools),
                         map mapProviderTool tools) in
                (Ok d, s2\<lparr>ms_cache := cache_setDiscovery (now_of env s2) (mc_id config) d (ms_cache s2)\<rparr>))))"

definition discoverTools ::
    "'e mcp_env \<Rightarrow> mcp_config \<Rightarrow> tool_override list \<Rightarrow> 'e mcp_state \<Rightarrow> (string + client_tool list) \<times> 'e mcp_state" where
  "discoverTools env config overrides s =
     (case discoverToolDiscovery env config overrides s of (r, s1) \<Rightarrow> (res_bind r (\<lambda>d. Ok (fst d)), s1))"

definition getCachedTools ::
    "'e mcp_env \<Rightarrow> mcp_config \<Rightarrow> tool_override list \<Rightarrow> 'e mcp_state \<Rightarrow> (string + client_tool list) \<times> 'e mcp_state" where
  "getCachedTools env config overrides s =
     (case cache_get cache_ttl (now_of env s) (mc_id config) (ms_cache s) of
        (Some tools, c) \<Rightarrow> (Ok tools, s\<lparr>ms_cache := c\<rparr>)
      | (None, c) \<Rightarrow> discoverTools env config overrides (s\<lparr>ms_cache := c\<rparr>))"

definition getCachedToolDiscovery ::
    "'e mcp_env \<Rightarrow> mcp_config \<Rightarrow> tool_override list \<Rightarrow> 'e mcp_state \<Rightarrow> (string + tool_discovery) \<times> 'e mcp_state" where
  "getCachedToolDiscovery env config overrides s =
     (case cache_getDiscovery cache_ttl (now_of env s) (mc_id config) (ms_cache s) of
        (Some d, c) \<Rightarrow> (Ok d, s\<lparr>ms_cache := c\<rparr>)
      | (None, c) \<Rightarrow> discoverToolDiscovery env config overrides (s\<lparr>ms_cache := c\<rparr>))"

subsection \<open>Calling a tool\<close>

definition word_char :: "char \<Rightarrow> bool" where
  "word_char c \<longleftrightarrow> js_is_digit c \<or> js_is_upper c \<or> js_is_lower c \<or> c = CHR ''_''"

text \<open>\<open>/\b401\b/\<close>: \<open>b\<close> tells whether the character before is a word character.\<close>

fun word_401 :: "bool \<Rightarrow> string \<Rightarrow> bool" where
  "word_401 b [] = False"
| "word_401 b (c # s) =
     ((\<not> b \<and> js_starts_with (c # s) ''401'' \<and> (case drop 2 s of [] \<Rightarrow> True | d # _ \<Rightarrow> \<not> word_char d))
      \<or> word_401 (word_char c) s)"

definition isAuthenticationError :: "string \<Rightarrow> bool" where
  "isAuthenticationError message =
     (let normalized = js_lower message in
      word_401 False normalized \<or> js_includes normalized ''unauthorized''
      \<or> js_includes normalized ''authentication'' \<or> js_includes normalized ''invalid token'')"

definition toolErrorMessage :: "call_answer \<Rightarrow> string" where
  "toolErrorMessage r =
     (let text = js_join [CHR 0x0A] (filter (\<lambda>t. t \<noteq> []) (an_text r)) in
      if text = [] then ''MCP tool reported an error'' else text)"

definition failed_result :: "string \<Rightarrow> int \<Rightarrow> mcp_result" where
  "failed_result e d = \<lparr>mr_success = False, mr_content = JNull, mr_structured = JUndefined, mr_meta = JUndefined,
     mr_error = Some e, mr_duration = d\<rparr>"

definition answer_result :: "call_answer \<Rightarrow> int \<Rightarrow> mcp_result" where
  "answer_result r d = \<lparr>mr_success = (\<not> an_error r), mr_content = an_content r, mr_structured = an_structured r,
     mr_meta = truthy_or_undefined (an_meta r),
     mr_error = (if an_error r then Some (toolErrorMessage r) else None), mr_duration = d\<rparr>"

text \<open>The \<open>catch\<close> of \<open>executeTool\<close>.\<close>

definition execute_failed :: "'e mcp_env \<Rightarrow> string \<Rightarrow> int \<Rightarrow> string \<Rightarrow> 'e mcp_state \<Rightarrow> mcp_result \<times> 'e mcp_state" where
  "execute_failed env i start message s =
     (if isAuthenticationError message
      then (let s1 = s\<lparr>ms_health := (ms_health s)(i \<mapsto>
                \<lparr>he_count = 0, he_first = 0, he_backoff = now_of env s + BACKOFF_DURATION_MS\<rparr>)\<rparr>;
                s2 = disconnect env i False s1; s3 = s2\<lparr>ms_auth := ms_auth s2 @ [i]\<rparr> in
            (failed_result ''MCP connection auth expired. Please reconnect in Settings > Integrations.''
               (now_of env s3 - start), s3))
      else (let s1 = drop_failed env i s in (failed_result message (now_of env s1 - start), s1)))"

definition touch :: "'e mcp_env \<Rightarrow> string \<Rightarrow> 'e mcp_state \<Rightarrow> 'e mcp_state" where
  "touch env i s = (case map_of (ms_pool s) i of
       None \<Rightarrow> s | Some e \<Rightarrow> s\<lparr>ms_pool := jm_set i (e\<lparr>po_used := now_of env s\<rparr>) (ms_pool s)\<rparr>)"

definition executeTool ::
    "'e mcp_env \<Rightarrow> mcp_config \<Rightarrow> string \<Rightarrow> jsv \<Rightarrow> 'e mcp_state \<Rightarrow> mcp_result \<times> 'e mcp_state" where
  "executeTool env config toolName params s =
     (let i = mc_id config; start = now_of env s in
      case connect env config s of
        (Inl e, s1) \<Rightarrow> execute_failed env i start e s1
      | (Inr _, s1) \<Rightarrow>
          (let s2 = touch env i s1 in
           case me_call env (pooled_config config s2) toolName params (ms_ext s2) of
             (r, ext) \<Rightarrow>
               (let s3 = s2\<lparr>ms_ext := ext, ms_calls := ms_calls s2 @ [(i, toolName, params)]\<rparr> in
                case r of
                  Inl e \<Rightarrow> execute_failed env i start e s3
                | Inr a \<Rightarrow> (let s4 = clearFailures i s3 in (answer_result a (now_of env s4 - start), s4)))))"

subsection \<open>Idle connections and shutdown\<close>

definition idle_cleanup :: "'e mcp_env \<Rightarrow> 'e mcp_state \<Rightarrow> 'e mcp_state" where
  "idle_cleanup env s =
     fold (\<lambda>(i, e) t. if now_of env s - po_used e > IDLE_TIMEOUT_MS then disconnect env i True t else t) (ms_pool s) s"

definition shutdown :: "'e mcp_env \<Rightarrow> 'e mcp_state \<Rightarrow> 'e mcp_state" where
  "shutdown env s =
     (let s1 = fold (\<lambda>i. disconnect env i True) (map fst (ms_pool s)) s in
      s1\<lparr>ms_cache := cache_clear (ms_cache s1), ms_orgs := Map.empty, ms_health := Map.empty\<rparr>)"

end
