(* ===== verification/McpClientProperties.thy ===== *)
theory McpClientProperties
  imports McpClient
begin

text \<open>The pool and its bookkeeping agree and respect the limit; the backoff; the cache as an expiring map.\<close>

subsection \<open>Maps in insertion order\<close>

lemma map_of_jm_set [simp]: "map_of (jm_set k v m) = (map_of m)(k \<mapsto> v)"
  by (induction m) (auto simp: fun_eq_iff)

lemma map_of_jm_delete [simp]: "map_of (jm_delete k m) = (map_of m)(k := None)"
  by (induction m) (auto simp: jm_delete_def fun_eq_iff)

subsection \<open>The invariant\<close>

text \<open>The number of connections an organisation may hold; a limit below one, or none that is a number,
  still admits one.\<close>

definition org_cap :: "'e mcp_env \<Rightarrow> int" where
  "org_cap env = (case maxConnectionsPerOrg env of None \<Rightarrow> 1 | Some l \<Rightarrow> max 1 l)"

definition org_pool :: "'e mcp_state \<Rightarrow> string \<Rightarrow> string set" where
  "org_pool s orgId = {i. \<exists>e. map_of (ms_pool s) i = Some e \<and> mc_org (po_config e) = orgId}"

definition tracked :: "'e mcp_state \<Rightarrow> string \<Rightarrow> string list" where
  "tracked s orgId = or_empty (ms_orgs s orgId)"

definition tracking_ok :: "'e mcp_env \<Rightarrow> 'e mcp_state \<Rightarrow> bool" where
  "tracking_ok env s \<longleftrightarrow> (\<forall>orgId. distinct (tracked s orgId) \<and> set (tracked s orgId) = org_pool s orgId
     \<and> int (length (tracked s orgId)) \<le> org_cap env)
   \<and> (\<forall>i. map_of (ms_pool s) i \<noteq> None \<longrightarrow> i \<noteq> [])"

text \<open>A connection that is kept has no failures on record.\<close>

definition healthy_pool :: "'e mcp_state \<Rightarrow> bool" where
  "healthy_pool s \<longleftrightarrow> (\<forall>i. map_of (ms_pool s) i \<noteq> None \<longrightarrow> ms_health s i = None)"

definition manager_ok :: "'e mcp_env \<Rightarrow> 'e mcp_state \<Rightarrow> bool" where
  "manager_ok env s \<longleftrightarrow> tracking_ok env s \<and> healthy_pool s"

lemma org_cap_pos: "1 \<le> org_cap env"
  by (simp add: org_cap_def split: option.splits)

lemma tracking_frame:
  "ms_pool s' = ms_pool s \<Longrightarrow> ms_orgs s' = ms_orgs s \<Longrightarrow> tracking_ok env s' = tracking_ok env s"
  by (simp add: tracking_ok_def tracked_def org_pool_def)

lemma clearFailures_frame [simp]:
  "ms_pool (clearFailures i s) = ms_pool s" "ms_orgs (clearFailures i s) = ms_orgs s"
  "ms_calls (clearFailures i s) = ms_calls s" "ms_ext (clearFailures i s) = ms_ext s"
  "ms_health (clearFailures i s) = (ms_health s)(i := None)"
  by (simp_all add: clearFailures_def)

lemma removeOrg_frame [simp]:
  "ms_pool (removeOrgConnection b i s) = ms_pool s" "ms_health (removeOrgConnection b i s) = ms_health s"
  "ms_calls (removeOrgConnection b i s) = ms_calls s" "ms_ext (removeOrgConnection b i s) = ms_ext s"
  by (simp_all add: removeOrgConnection_def Let_def split: option.splits)

lemma tracked_update [simp]:
  "tracked (s\<lparr>ms_ext := x\<rparr>) = tracked s" "tracked (s\<lparr>ms_pool := y\<rparr>) = tracked s"
  "tracked (s\<lparr>ms_calls := z\<rparr>) = tracked s" "tracked (s\<lparr>ms_cache := c\<rparr>) = tracked s"
  by (simp_all add: tracked_def fun_eq_iff)

lemma tracked_remove [simp]:
  "tracked (removeOrgConnection b i s) o' =
     (if o' = b then filter (\<lambda>j. j \<noteq> i) (tracked s o') else tracked s o')"
  by (auto simp: tracked_def removeOrgConnection_def Let_def split: option.splits)

lemma disconnect_pool: "map_of (ms_pool (disconnect env i c s)) = (map_of (ms_pool s))(i := None)"
  by (auto simp: disconnect_def Let_def fun_eq_iff split: option.splits)

lemma disconnect_frame [simp]:
  "ms_calls (disconnect env i c s) = ms_calls s"
  "ms_health (disconnect env i c s) = (if c then (ms_health s)(i := None) else ms_health s)"
  by (auto simp: disconnect_def Let_def split: option.splits)

lemma disconnect_tracked:
  assumes "tracking_ok env s"
  shows "tracked (disconnect env i c s) o' = filter (\<lambda>j. j \<noteq> i) (tracked s o')"
proof (cases "map_of (ms_pool s) i")
  case None
  then have "i \<notin> set (tracked s o')" using assms by (simp add: tracking_ok_def org_pool_def)
  then have "filter (\<lambda>j. j \<noteq> i) (tracked s o') = tracked s o'" by (auto simp: filter_id_conv)
  moreover have "tracked (disconnect env i c s) o' = tracked s o'"
    using None by (simp add: disconnect_def Let_def tracked_def)
  ultimately show ?thesis by simp
next
  case (Some e)
  let ?s = "removeOrgConnection (mc_org (po_config e)) i
      (s\<lparr>ms_ext := me_close env (po_config e) (ms_ext s), ms_pool := jm_delete i (ms_pool s)\<rparr>)"
  have "tracked (disconnect env i c s) o' = tracked ?s o'"
    using Some by (simp add: disconnect_def Let_def tracked_def)
  moreover have "i \<notin> set (tracked s o')" if "o' \<noteq> mc_org (po_config e)"
    using assms that Some by (auto simp: tracking_ok_def org_pool_def)
  then have "filter (\<lambda>j. j \<noteq> i) (tracked s o') = tracked s o'" if "o' \<noteq> mc_org (po_config e)"
    using that by (auto simp: filter_id_conv)
  ultimately show ?thesis by simp
qed

lemma tracking_disconnect:
  assumes "tracking_ok env s"
  shows "tracking_ok env (disconnect env i c s)"
proof -
  have "distinct (tracked (disconnect env i c s) o') \<and>
      set (tracked (disconnect env i c s) o') = org_pool (disconnect env i c s) o' \<and>
      int (length (tracked (disconnect env i c s) o')) \<le> org_cap env" for o'
  proof (intro conjI)
    show "distinct (tracked (disconnect env i c s) o')"
      using assms by (simp add: disconnect_tracked tracking_ok_def)
    show "set (tracked (disconnect env i c s) o') = org_pool (disconnect env i c s) o'"
      using assms by (auto simp: disconnect_tracked tracking_ok_def org_pool_def disconnect_pool)
    have "int (length (filter (\<lambda>j. j \<noteq> i) (tracked s o'))) \<le> int (length (tracked s o'))" by simp
    also have "\<dots> \<le> org_cap env" using assms by (simp add: tracking_ok_def)
    finally show "int (length (tracked (disconnect env i c s) o')) \<le> org_cap env"
      by (simp add: disconnect_tracked[OF assms])
  qed
  moreover have "\<forall>j. map_of (ms_pool (disconnect env i c s)) j \<noteq> None \<longrightarrow> j \<noteq> []"
    using assms by (auto simp: tracking_ok_def disconnect_pool)
  ultimately show ?thesis by (simp add: tracking_ok_def)
qed

lemma healthy_disconnect: "healthy_pool s \<Longrightarrow> healthy_pool (disconnect env i c s)"
  by (auto simp: healthy_pool_def disconnect_pool)

lemma manager_disconnect: "manager_ok env s \<Longrightarrow> manager_ok env (disconnect env i c s)"
  by (simp add: manager_ok_def tracking_disconnect healthy_disconnect)

subsection \<open>Eviction makes room\<close>

lemma lru_from_Some: "lru_from pool is (Some b) \<noteq> None"
  by (induction "is" arbitrary: b) (auto split: option.splits prod.splits)

lemma lru_from_in:
  "lru_from pool is best = Some (i, t) \<Longrightarrow> best = Some (i, t) \<or> (i \<in> set is \<and> map_of pool i \<noteq> None)"
  by (induction "is" arbitrary: best) (auto split: option.splits prod.splits if_splits, (metis option.inject prod.inject)?)

lemma lru_from_finds: "\<forall>i \<in> set is. map_of pool i \<noteq> None \<Longrightarrow> is \<noteq> [] \<Longrightarrow> lru_from pool is None \<noteq> None"
  using lru_from_Some[of pool "tl is"] by (cases "is") auto

lemma org_limit_frame [simp]:
  "ms_calls (enforceOrgLimit env b s) = ms_calls s"
  by (simp add: enforceOrgLimit_def split: option.splits)

lemma org_limit_tracking: "tracking_ok env s \<Longrightarrow> tracking_ok env (enforceOrgLimit env b s)"
  by (auto simp: enforceOrgLimit_def tracking_disconnect split: option.splits)

lemma org_limit_pool:
  "map_of (ms_pool (enforceOrgLimit env b s)) i = Some e \<Longrightarrow> map_of (ms_pool s) i = Some e"
  by (auto simp: enforceOrgLimit_def disconnect_pool split: option.splits if_splits)

lemma org_limit_room:
  assumes "tracking_ok env s"
  shows "int (length (tracked (enforceOrgLimit env b s) b)) < org_cap env"
proof (cases "ms_orgs s b")
  case None
  then show ?thesis using org_cap_pos[of env] by (simp add: enforceOrgLimit_def tracked_def)
next
  case (Some conns)
  then have tr: "tracked s b = conns" by (simp add: tracked_def)
  have pool: "\<forall>i \<in> set conns. map_of (ms_pool s) i \<noteq> None \<and> i \<noteq> []" and d: "distinct conns"
      and len: "int (length conns) \<le> org_cap env"
    using assms tr by (auto simp: tracking_ok_def org_pool_def)
  consider "conns = []" | (full) "conns \<noteq> []" "\<not> (case maxConnectionsPerOrg env of None \<Rightarrow> False | Some l \<Rightarrow> int (length conns) < l)"
    | (room) "case maxConnectionsPerOrg env of None \<Rightarrow> False | Some l \<Rightarrow> int (length conns) < l" by blast
  then show ?thesis
  proof cases
    case 1
    then show ?thesis using Some tr org_cap_pos[of env] by (simp add: enforceOrgLimit_def)
  next
    case full
    then obtain i t where l: "lru_from (ms_pool s) conns None = Some (i, t)"
      using lru_from_finds pool by (metis not_None_eq surj_pair)
    then have i: "i \<in> set conns" using lru_from_in by fastforce
    then have "length (filter (\<lambda>j. j \<noteq> i) conns) < length conns" by (simp add: length_filter_less)
    moreover have "tracked (enforceOrgLimit env b s) b = filter (\<lambda>j. j \<noteq> i) conns"
      using Some full l i pool tr assms by (simp add: enforceOrgLimit_def disconnect_tracked)
    ultimately show ?thesis using len by simp
  next
    case room
    then show ?thesis using Some tr by (auto simp: enforceOrgLimit_def org_cap_def split: option.splits)
  qed
qed

subsection \<open>Connecting keeps the tracking\<close>

lemma connect_store_tracking:
  assumes ok: "tracking_ok env s" and new: "map_of (ms_pool s) (mc_id config) = None" "mc_id config \<noteq> []"
    and room: "int (length (tracked s (mc_org config))) < org_cap env"
  shows "tracking_ok env (connect_store env config s)"
proof -
  let ?i = "mc_id config" and ?b = "mc_org config" and ?t = "connect_store env config s"
  have fresh: "?i \<notin> set (tracked s b)" for b using ok new(1) by (auto simp: tracking_ok_def org_pool_def)
  have tr: "tracked ?t b = (if b = ?b then tracked s b @ [?i] else tracked s b)" for b
    using fresh[of ?b] by (simp add: connect_store_def trackOrgConnection_def tracked_def Let_def)
  have pool: "map_of (ms_pool ?t) = (map_of (ms_pool s))(?i \<mapsto> \<lparr>po_config = config, po_used = now_of env s\<rparr>)"
    by (simp add: connect_store_def trackOrgConnection_def Let_def)
  have "set (tracked ?t b) = org_pool ?t b" for b
    using ok new(1) by (auto simp: tr org_pool_def pool tracking_ok_def)
  moreover have "distinct (tracked ?t b)" "int (length (tracked ?t b)) \<le> org_cap env" for b
    using ok fresh room by (auto simp: tr tracking_ok_def)
  ultimately show ?thesis using ok new(2) by (auto simp: tracking_ok_def pool)
qed

lemma tracking_touch:
  assumes "map_of (ms_pool s) i = Some e" "tracking_ok env s"
  shows "tracking_ok env (s\<lparr>ms_pool := jm_set i (e\<lparr>po_used := t\<rparr>) (ms_pool s)\<rparr>)"
proof -
  have "org_pool (s\<lparr>ms_pool := jm_set i (e\<lparr>po_used := t\<rparr>) (ms_pool s)\<rparr>) b = org_pool s b" for b
    using assms(1) by (auto simp: org_pool_def)
  then show ?thesis using assms by (auto simp: tracking_ok_def tracked_def)
qed

lemma expire_frame [simp]:
  "ms_pool (expire_backoff t i s) = ms_pool s" "ms_orgs (expire_backoff t i s) = ms_orgs s"
  "ms_calls (expire_backoff t i s) = ms_calls s" "ms_ext (expire_backoff t i s) = ms_ext s"
  by (simp_all add: expire_backoff_def split: option.splits)

lemma expire_health: "ms_health (expire_backoff t i s) j = None \<or> ms_health (expire_backoff t i s) j = ms_health s j"
  by (simp add: expire_backoff_def split: option.splits)

lemma expire_tracking [simp]: "tracking_ok env (expire_backoff t i s) = tracking_ok env s"
  by (rule tracking_frame) simp_all

lemma connect_begin_cases:
  assumes "connect_begin env config s = (r, s1)"
  obtains (backoff) e where "r = Inl e" "s1 = s"
  | (pooled) x where "r = Inr True" "map_of (ms_pool s) (mc_id config) = Some x"
      "s1 = expire_backoff (now_of env s) (mc_id config) s
         \<lparr>ms_pool := jm_set (mc_id config) (x\<lparr>po_used := now_of env s\<rparr>) (ms_pool s)\<rparr>"
  | (room) "r = Inr False" "map_of (ms_pool s) (mc_id config) = None"
      "s1 = enforceOrgLimit env (mc_org config) (expire_backoff (now_of env s) (mc_id config) s)"
proof (cases "in_backoff (now_of env s) (mc_id config) s")
  case True
  then show thesis using assms by (intro backoff) (auto simp: connect_begin_def Let_def)
next
  case False
  note b = assms[unfolded connect_begin_def Let_def, simplified False, simplified]
  show thesis
  proof (cases "map_of (ms_pool s) (mc_id config)")
    case None
    then show thesis using b by (intro room) simp_all
  next
    case (Some x)
    then show thesis using b by (intro pooled) auto
  qed
qed

lemma fresh_frame [simp]:
  "connectFreshClient env config n s = (r, s1) \<Longrightarrow> ms_pool s1 = ms_pool s"
  "connectFreshClient env config n s = (r, s1) \<Longrightarrow> ms_orgs s1 = ms_orgs s"
  "connectFreshClient env config n s = (r, s1) \<Longrightarrow> ms_health s1 = ms_health s"
  "connectFreshClient env config n s = (r, s1) \<Longrightarrow> ms_calls s1 = ms_calls s"
  by (auto simp: connectFreshClient_def split: prod.splits sum.splits)

text \<open>While an operation on connection \<open>i\<close> runs, the other connections are healthy.\<close>

definition healthy_but :: "string \<Rightarrow> 'e mcp_state \<Rightarrow> bool" where
  "healthy_but i s \<longleftrightarrow> (\<forall>j. j \<noteq> i \<longrightarrow> map_of (ms_pool s) j \<noteq> None \<longrightarrow> ms_health s j = None)"

lemma healthy_but_weaken: "healthy_pool s \<Longrightarrow> healthy_but i s"
  by (simp add: healthy_but_def healthy_pool_def)

lemma healthy_expire: "healthy_pool s \<Longrightarrow> healthy_pool (expire_backoff t i s)"
  using expire_health[of t i s] unfolding healthy_pool_def by (metis expire_frame(1))

lemma healthy_limit: "healthy_pool s \<Longrightarrow> healthy_pool (enforceOrgLimit env b s)"
  by (auto simp: enforceOrgLimit_def healthy_disconnect split: option.splits)

lemma connect_begin_laws:
  assumes "manager_ok env s" "connect_begin env config s = (r, s1)"
  shows "manager_ok env s1" "ms_calls s1 = ms_calls s"
    "r = Inr True \<Longrightarrow> map_of (ms_pool s1) (mc_id config) \<noteq> None"
    "r = Inr False \<Longrightarrow> map_of (ms_pool s1) (mc_id config) = None
       \<and> int (length (tracked s1 (mc_org config))) < org_cap env"
proof -
  let ?e = "expire_backoff (now_of env s) (mc_id config) s"
  have e: "tracking_ok env ?e" "healthy_pool ?e" using assms(1) by (simp_all add: manager_ok_def healthy_expire)
  have "manager_ok env s1 \<and> ms_calls s1 = ms_calls s
     \<and> (r = Inr True \<longrightarrow> map_of (ms_pool s1) (mc_id config) \<noteq> None)
     \<and> (r = Inr False \<longrightarrow> map_of (ms_pool s1) (mc_id config) = None
          \<and> int (length (tracked s1 (mc_org config))) < org_cap env)"
    using assms(2)
  proof (cases rule: connect_begin_cases)
    case (backoff e)
    then show ?thesis using assms(1) by simp
  next
    case (pooled x)
    have "tracking_ok env (?e\<lparr>ms_pool := jm_set (mc_id config) (x\<lparr>po_used := now_of env s\<rparr>) (ms_pool ?e)\<rparr>)"
      using pooled(2) e(1) by (intro tracking_touch) simp_all
    moreover have "healthy_pool (?e\<lparr>ms_pool := jm_set (mc_id config) (x\<lparr>po_used := now_of env s\<rparr>) (ms_pool ?e)\<rparr>)"
      using e(2) pooled(2) by (simp add: healthy_pool_def)
    ultimately show ?thesis using pooled by (simp add: manager_ok_def)
  next
    case room
    then have "map_of (ms_pool s1) (mc_id config) = None"
      using org_limit_pool[of env "mc_org config" ?e "mc_id config"] by (cases "map_of (ms_pool s1) (mc_id config)") auto
    then show ?thesis using room e org_limit_room[OF e(1)]
      by (simp add: manager_ok_def org_limit_tracking healthy_limit)
  qed
  then show "manager_ok env s1" "ms_calls s1 = ms_calls s"
    "r = Inr True \<Longrightarrow> map_of (ms_pool s1) (mc_id config) \<noteq> None"
    "r = Inr False \<Longrightarrow> map_of (ms_pool s1) (mc_id config) = None
       \<and> int (length (tracked s1 (mc_org config))) < org_cap env" by blast+
qed

lemma connect_store_frame [simp]:
  "ms_calls (connect_store env config s) = ms_calls s" "ms_health (connect_store env config s) = ms_health s"
  "map_of (ms_pool (connect_store env config s)) =
     (map_of (ms_pool s))(mc_id config \<mapsto> \<lparr>po_config = config, po_used = now_of env s\<rparr>)"
  by (simp_all add: connect_store_def trackOrgConnection_def Let_def)

lemma connect_laws:
  assumes ok: "manager_ok env s" and i: "mc_id config \<noteq> []" and c: "connect env config s = (r, s1)"
  shows "tracking_ok env s1 \<and> healthy_but (mc_id config) s1 \<and> ms_calls s1 = ms_calls s
     \<and> (r = Inr () \<longrightarrow> map_of (ms_pool s1) (mc_id config) \<noteq> None)"
proof -
  obtain x t where b: "connect_begin env config s = (x, t)" by force
  note laws = connect_begin_laws[OF ok b]
  have t: "tracking_ok env t" "healthy_but (mc_id config) t"
    using laws(1) healthy_but_weaken by (auto simp: manager_ok_def)
  show ?thesis
  proof (cases "x = Inr False")
    case False
    then show ?thesis using c b t laws by (auto simp: connect_def split: sum.splits bool.splits)
  next
    case True
    obtain y u where f: "connectFreshClient env config (''deft-mcp-'' @ mc_slug config) t = (y, u)" by force
    have u: "tracking_ok env u" "healthy_but (mc_id config) u" "map_of (ms_pool u) (mc_id config) = None"
        "int (length (tracked u (mc_org config))) < org_cap env" "ms_calls u = ms_calls s"
      using f t laws(2,4) True tracking_frame[of u t env]
      by (simp_all add: healthy_but_def tracked_def)
    show ?thesis
    proof (cases y)
      case (Inl e)
      then show ?thesis using c b f True u by (auto simp: connect_def)
    next
      case (Inr unit)
      then have "s1 = connect_store env config u" using c b f True by (auto simp: connect_def)
      then show ?thesis using connect_store_tracking[OF u(1,3) i u(4)] u(2,5) by (simp add: healthy_but_def)
    qed
  qed
qed

lemma settle_drop:
  assumes "tracking_ok env s" "healthy_but i s"
  shows "manager_ok env (drop_failed env i s)" "ms_calls (drop_failed env i s) = ms_calls s"
proof -
  have "tracking_ok env (recordFailure env i s)"
    using assms(1) tracking_frame[of "recordFailure env i s" s] by (simp add: recordFailure_def)
  then show "manager_ok env (drop_failed env i s)"
    using assms(2) by (auto simp: manager_ok_def drop_failed_def tracking_disconnect healthy_pool_def healthy_but_def
        disconnect_pool recordFailure_def)
  show "ms_calls (drop_failed env i s) = ms_calls s" by (simp add: drop_failed_def recordFailure_def)
qed

lemma settle_clear:
  assumes "tracking_ok env s" "healthy_but i s"
  shows "manager_ok env (clearFailures i s)"
  using assms tracking_frame[of "clearFailures i s" s env] by (auto simp: manager_ok_def healthy_pool_def healthy_but_def)

subsection \<open>The operations\<close>

datatype 'e mcp_op =
    Execute mcp_config string jsv
  | Discover mcp_config "tool_override list"
  | CachedTools mcp_config "tool_override list"
  | CachedDiscovery mcp_config "tool_override list"
  | TestTools mcp_config
  | Disconnect string
  | IdleTick
  | Shutdown
  | Outside 'e

text \<open>\<open>Outside\<close>: time passes and the servers change between two operations.\<close>

fun run_mcp_op :: "'e mcp_env \<Rightarrow> 'e mcp_op \<Rightarrow> 'e mcp_state \<Rightarrow> 'e mcp_state" where
  "run_mcp_op env (Execute config tool params) s = snd (executeTool env config tool params s)"
| "run_mcp_op env (Discover config overrides) s = snd (discoverTools env config overrides s)"
| "run_mcp_op env (CachedTools config overrides) s = snd (getCachedTools env config overrides s)"
| "run_mcp_op env (CachedDiscovery config overrides) s = snd (getCachedToolDiscovery env config overrides s)"
| "run_mcp_op env (TestTools config) s = snd (testConnection env config s)"
| "run_mcp_op env (Disconnect i) s = disconnect env i True s"
| "run_mcp_op env IdleTick s = idle_cleanup env s"
| "run_mcp_op env Shutdown s = shutdown env s"
| "run_mcp_op env (Outside e) s = s\<lparr>ms_ext := e\<rparr>"

definition run_mcp :: "'e mcp_env \<Rightarrow> 'e mcp_op list \<Rightarrow> 'e mcp_state \<Rightarrow> 'e mcp_state" where
  "run_mcp env ops = fold (run_mcp_op env) ops"

text \<open>Connection ids are not empty.\<close>

fun valid_mcp_op :: "'e mcp_op \<Rightarrow> bool" where
  "valid_mcp_op (Execute config tool params) = (mc_id config \<noteq> [])"
| "valid_mcp_op (Discover config overrides) = (mc_id config \<noteq> [])"
| "valid_mcp_op (CachedTools config overrides) = (mc_id config \<noteq> [])"
| "valid_mcp_op (CachedDiscovery config overrides) = (mc_id config \<noteq> [])"
| "valid_mcp_op op = True"

lemma manager_frame:
  "ms_pool s' = ms_pool s \<Longrightarrow> ms_orgs s' = ms_orgs s \<Longrightarrow> ms_health s' = ms_health s \<Longrightarrow>
     manager_ok env s' = manager_ok env s"
  using tracking_frame[of s' s env] by (simp add: manager_ok_def healthy_pool_def)

lemma manager_updates [simp]:
  "manager_ok env (s\<lparr>ms_cache := c\<rparr>) = manager_ok env s" "manager_ok env (s\<lparr>ms_ext := e\<rparr>) = manager_ok env s"
  "manager_ok env (s\<lparr>ms_auth := x\<rparr>) = manager_ok env s"
  by (rule manager_frame; simp)+

lemma law_frame:
  "ms_pool s' = ms_pool s \<Longrightarrow> ms_orgs s' = ms_orgs s \<Longrightarrow> ms_health s' = ms_health s \<Longrightarrow>
     (tracking_ok env s' = tracking_ok env s) \<and> (healthy_but i s' = healthy_but i s)"
  using tracking_frame[of s' s env] by (simp add: healthy_but_def)

lemma discovery_ok:
  assumes "manager_ok env s" "mc_id config \<noteq> []"
  shows "manager_ok env (snd (discoverToolDiscovery env config overrides s))"
proof -
  obtain r s1 where c: "connect env config s = (r, s1)" by force
  note laws = connect_laws[OF assms c]
  show ?thesis
  proof (cases r)
    case (Inl e)
    then show ?thesis using c laws settle_drop(1)[of env s1 "mc_id config"] by (simp add: discoverToolDiscovery_def)
  next
    case (Inr u)
    obtain x ext where l: "me_list env (pooled_config config s1) (ms_ext s1) = (x, ext)" by force
    let ?t = "s1\<lparr>ms_ext := ext\<rparr>"
    have t: "tracking_ok env ?t" "healthy_but (mc_id config) ?t"
      using laws law_frame[of ?t s1 env "mc_id config"] by simp_all
    show ?thesis
    proof (cases x)
      case (Inl e)
      then show ?thesis using c Inr l settle_drop(1)[OF t] by (simp add: discoverToolDiscovery_def)
    next
      case x: (Inr tools)
      then show ?thesis using c Inr l settle_clear[OF t]
        by (simp add: discoverToolDiscovery_def Let_def)
    qed
  qed
qed

lemma discoverTools_ok:
  "manager_ok env s \<Longrightarrow> mc_id config \<noteq> [] \<Longrightarrow> manager_ok env (snd (discoverTools env config overrides s))"
  using discovery_ok[of env s config overrides]
  by (cases "discoverToolDiscovery env config overrides s") (simp add: discoverTools_def)

lemma cached_ok:
  assumes "manager_ok env s" "mc_id config \<noteq> []"
  shows "manager_ok env (snd (getCachedTools env config overrides s))"
    and "manager_ok env (snd (getCachedToolDiscovery env config overrides s))"
proof -
  have c: "manager_ok env (s\<lparr>ms_cache := c\<rparr>)" for c using assms(1) by simp
  show "manager_ok env (snd (getCachedTools env config overrides s))"
    using discoverTools_ok[OF c assms(2)] assms(1)
    by (cases "cache_get cache_ttl (now_of env s) (mc_id config) (ms_cache s)")
      (simp add: getCachedTools_def split: option.split)
  show "manager_ok env (snd (getCachedToolDiscovery env config overrides s))"
    using discovery_ok[OF c assms(2)] assms(1)
    by (cases "cache_getDiscovery cache_ttl (now_of env s) (mc_id config) (ms_cache s)")
      (simp add: getCachedToolDiscovery_def split: option.split)
qed

lemma fresh_ok:
  "connectFreshClient env config n s = (r, s1) \<Longrightarrow> manager_ok env s1 = manager_ok env s"
  by (rule manager_frame) simp_all

lemma test_ok:
  assumes "manager_ok env s"
  shows "manager_ok env (snd (testConnection env config s))"
proof -
  obtain r s1 where f: "connectFreshClient env config (''deft-mcp-test-'' @ mc_slug config) s = (r, s1)" by force
  obtain x ext where l: "me_list env config (ms_ext s1) = (x, ext)" by force
  have "manager_ok env (snd (testToolDiscovery env config s))"
    using assms fresh_ok[OF f] f l by (cases r) (simp_all add: testToolDiscovery_def)
  then show ?thesis by (cases "testToolDiscovery env config s") (simp add: testConnection_def)
qed

lemma failed_ok:
  assumes "tracking_ok env s" "healthy_but i s"
  shows "manager_ok env (snd (execute_failed env i start e s))"
proof -
  let ?h = "s\<lparr>ms_health := (ms_health s)(i \<mapsto> h)\<rparr>"
  have "manager_ok env (disconnect env i False (s\<lparr>ms_health := (ms_health s)(i \<mapsto> h)\<rparr>))" for h
  proof -
    let ?s = "s\<lparr>ms_health := (ms_health s)(i \<mapsto> h)\<rparr>"
    have "tracking_ok env ?s" using assms(1) tracking_frame[of ?s s] by simp
    then show ?thesis using assms(2)
      by (auto simp: manager_ok_def tracking_disconnect healthy_pool_def healthy_but_def disconnect_pool)
  qed
  then show ?thesis using settle_drop(1)[OF assms] by (simp add: execute_failed_def Let_def)
qed

lemma failed_calls [simp]: "ms_calls (snd (execute_failed env i start e s)) = ms_calls s"
  by (simp add: execute_failed_def Let_def drop_failed_def recordFailure_def)

lemma touch_laws:
  assumes "tracking_ok env s" "healthy_but i s"
  shows "tracking_ok env (touch env i s)" "healthy_but i (touch env i s)" "ms_calls (touch env i s) = ms_calls s"
  using assms by (auto simp: touch_def tracking_touch healthy_but_def split: option.splits)

lemma execute_ok:
  assumes "manager_ok env s" "mc_id config \<noteq> []"
  shows "manager_ok env (snd (executeTool env config tool params s))"
    and "ms_calls (snd (executeTool env config tool params s)) = ms_calls s
       \<or> ms_calls (snd (executeTool env config tool params s)) = ms_calls s @ [(mc_id config, tool, params)]"
proof -
  let ?i = "mc_id config"
  obtain r s1 where c: "connect env config s = (r, s1)" by force
  note laws = connect_laws[OF assms c]
  have "manager_ok env (snd (executeTool env config tool params s))
     \<and> (ms_calls (snd (executeTool env config tool params s)) = ms_calls s
       \<or> ms_calls (snd (executeTool env config tool params s)) = ms_calls s @ [(?i, tool, params)])"
  proof (cases r)
    case (Inl e)
    then show ?thesis using c laws failed_ok[of env s1 ?i] by (simp add: executeTool_def Let_def)
  next
    case (Inr u)
    let ?t = "touch env ?i s1"
    obtain x ext where l: "me_call env (pooled_config config ?t) tool params (ms_ext ?t) = (x, ext)" by force
    let ?v = "?t\<lparr>ms_ext := ext, ms_calls := ms_calls ?t @ [(?i, tool, params)]\<rparr>"
    have "tracking_ok env ?v \<and> healthy_but ?i ?v"
      using touch_laws[of env s1 ?i] laws law_frame[of ?v ?t env ?i] by simp
    moreover have "ms_calls ?v = ms_calls s @ [(?i, tool, params)]"
      using touch_laws(3)[of env s1 ?i] laws by simp
    ultimately show ?thesis using c Inr l failed_ok[of env ?v ?i] settle_clear[of env ?v ?i]
      by (cases x) (simp_all add: executeTool_def Let_def)
  qed
  then show "manager_ok env (snd (executeTool env config tool params s))"
    and "ms_calls (snd (executeTool env config tool params s)) = ms_calls s
       \<or> ms_calls (snd (executeTool env config tool params s)) = ms_calls s @ [(mc_id config, tool, params)]"
    by blast+
qed

lemma fold_disconnect:
  "manager_ok env s \<Longrightarrow> manager_ok env (fold (\<lambda>i. disconnect env i True) is s)"
  "map_of (ms_pool (fold (\<lambda>i. disconnect env i True) is s)) j = (if j \<in> set is then None else map_of (ms_pool s) j)"
  by (induction "is" arbitrary: s) (auto simp: manager_disconnect disconnect_pool)

lemma idle_ok: "manager_ok env s \<Longrightarrow> manager_ok env (idle_cleanup env s)"
proof -
  have "manager_ok env t \<Longrightarrow> manager_ok env (fold (\<lambda>(i, e) t. if n - po_used e > IDLE_TIMEOUT_MS then disconnect env i True t else t) es t)"
    for n es t by (induction es arbitrary: t) (auto simp: manager_disconnect)
  then show "manager_ok env s \<Longrightarrow> manager_ok env (idle_cleanup env s)" by (simp add: idle_cleanup_def)
qed

lemma shutdown_ok: "manager_ok env (shutdown env s)"
proof -
  have "map_of (ms_pool (shutdown env s)) j = None" for j
    by (simp add: shutdown_def Let_def fold_disconnect(2) map_of_eq_None_iff)
  then show ?thesis using org_cap_pos[of env]
    by (auto simp: manager_ok_def tracking_ok_def healthy_pool_def org_pool_def tracked_def shutdown_def Let_def)
qed

lemma run_mcp_op_ok: "valid_mcp_op op \<Longrightarrow> manager_ok env s \<Longrightarrow> manager_ok env (run_mcp_op env op s)"
  by (cases op) (simp_all add: execute_ok(1) discoverTools_ok cached_ok test_ok manager_disconnect idle_ok shutdown_ok)

lemma initial_ok: "manager_ok env (initial_manager e)"
  using org_cap_pos[of env] by (simp add: manager_ok_def tracking_ok_def healthy_pool_def org_pool_def tracked_def initial_manager_def)

text \<open>C37. After any sequence of calls, discoveries, tests, disconnects, idle ticks and shutdowns, each run to its end
  before the next and on connections with non-empty identifiers, whatever the servers and the clock do, the connections an organisation is counted for are exactly its pooled
  ones, no more than the limit (one when the limit is not a positive number), and no connection in
  the pool has failures on record, so evicting an idle or least recently used one erases none.\<close>
theorem pool_stays_bounded:
  assumes "list_all valid_mcp_op ops"
  shows "manager_ok env (run_mcp env ops (initial_manager e))"
proof -
  have "list_all valid_mcp_op ops \<Longrightarrow> manager_ok env s \<Longrightarrow> manager_ok env (fold (run_mcp_op env) ops s)" for s
    by (induction ops arbitrary: s) (auto simp: run_mcp_op_ok)
  then show ?thesis using assms by (simp add: run_mcp_def initial_ok)
qed

subsection \<open>Backoff\<close>

text \<open>A call made while a connection is in backoff reaches no server, and counts as a failure.\<close>

lemma connect_in_backoff:
  "in_backoff (now_of env s) (mc_id config) s \<Longrightarrow>
     \<exists>e. connect env config s = (Inl e, s)"
  by (simp add: connect_def connect_begin_def Let_def)

text \<open>Every step of the state: how many failures since the last backoff, when the first was, how long the
  backoff still lasts.\<close>

definition poll_law :: "'e mcp_env \<Rightarrow> string \<Rightarrow> int \<Rightarrow> 'e mcp_state \<Rightarrow> bool" where
  "poll_law env i t s \<longleftrightarrow> map_of (ms_pool s) i = None \<and> (case ms_health s i of
       None \<Rightarrow> False
     | Some h \<Rightarrow> (he_count h = 0 \<and> he_first h = 0 \<and> t + 600000 \<le> he_backoff h)
         \<or> (he_count h = 1 \<and> he_first h = t \<and> t + 450000 \<le> he_backoff h)
         \<or> (he_count h = 2 \<and> t - he_first h \<le> 150000 \<and> t + 300000 \<le> he_backoff h))"

lemma disconnect_absent:
  "map_of (ms_pool s) i = None \<Longrightarrow>
     disconnect env i False s = s\<lparr>ms_cache := cache_invalidate i (ms_cache s)\<rparr>"
  by (simp add: disconnect_def)

lemma poll_step:
  assumes law: "poll_law env (mc_id config) t s" and gap: "t \<le> now_of env s" "now_of env s \<le> t + 150000"
  shows "poll_law env (mc_id config) (now_of env s) (snd (executeTool env config tool params s))"
    and "ms_calls (snd (executeTool env config tool params s)) = ms_calls s"
    and "ms_ext (snd (executeTool env config tool params s)) = ms_ext s"
    and "\<not> mr_success (fst (executeTool env config tool params s))"
proof -
  let ?i = "mc_id config" and ?n = "now_of env s"
  obtain h where h: "ms_health s ?i = Some h" "map_of (ms_pool s) ?i = None"
    using law by (auto simp: poll_law_def split: option.splits)
  have "in_backoff ?n ?i s" using law gap h by (auto simp: in_backoff_def poll_law_def)
  then obtain e where c: "connect env config s = (Inl e, s)" using connect_in_backoff by blast
  have x: "executeTool env config tool params s = execute_failed env ?i ?n e s" by (simp add: executeTool_def c)
  have f: "failed_entry ?n h = (if he_count h = 0 then \<lparr>he_count = 1, he_first = ?n, he_backoff = he_backoff h\<rparr>
      else if he_count h = 1 then \<lparr>he_count = 2, he_first = he_first h, he_backoff = he_backoff h\<rparr>
      else \<lparr>he_count = 0, he_first = 0, he_backoff = ?n + 600000\<rparr>)"
  proof -
    consider "he_count h = 0" "he_first h = 0" | "he_count h = 1" "he_first h = t"
      | "he_count h = 2" "t - he_first h \<le> 150000"
      using law h(1) by (auto simp: poll_law_def)
    then show ?thesis using gap by cases (simp_all add: failed_entry_def client_constants Let_def)
  qed
  have p: "map_of (ms_pool (snd (executeTool env config tool params s))) ?i = None"
    using h by (simp add: x execute_failed_def drop_failed_def recordFailure_def disconnect_pool Let_def)
  have "ms_health (snd (executeTool env config tool params s)) ?i =
      Some (if isAuthenticationError e then \<lparr>he_count = 0, he_first = 0, he_backoff = ?n + 600000\<rparr> else failed_entry ?n h)"
    using h by (simp add: x execute_failed_def drop_failed_def recordFailure_def or_default.simps client_constants Let_def)
  moreover have "failed_entry ?n h \<in> {g. (he_count g = 0 \<and> he_first g = 0 \<and> ?n + 600000 \<le> he_backoff g)
         \<or> (he_count g = 1 \<and> he_first g = ?n \<and> ?n + 450000 \<le> he_backoff g)
         \<or> (he_count g = 2 \<and> ?n - he_first g \<le> 150000 \<and> ?n + 300000 \<le> he_backoff g)}"
  proof -
    consider "he_count h = 0" "t + 600000 \<le> he_backoff h" | "he_count h = 1" "he_first h = t" "t + 450000 \<le> he_backoff h"
      | "he_count h = 2"
      using law h(1) by (auto simp: poll_law_def)
    then show ?thesis unfolding f using gap by cases simp_all
  qed
  ultimately show "poll_law env ?i ?n (snd (executeTool env config tool params s))"
    unfolding poll_law_def using p by (cases "isAuthenticationError e") simp_all
  show "ms_calls (snd (executeTool env config tool params s)) = ms_calls s" by (simp add: x)
  show "ms_ext (snd (executeTool env config tool params s)) = ms_ext s"
    using h by (simp add: x execute_failed_def drop_failed_def recordFailure_def disconnect_absent Let_def)
  show "\<not> mr_success (fst (executeTool env config tool params s))"
    by (simp add: x execute_failed_def failed_result_def Let_def)
qed

text \<open>A client that calls a tool again and again: before each call the outside has become \<open>e\<close>.\<close>

fun poll :: "'e mcp_env \<Rightarrow> mcp_config \<Rightarrow> string \<Rightarrow> jsv \<Rightarrow> 'e list \<Rightarrow> 'e mcp_state \<Rightarrow> mcp_result list \<times> 'e mcp_state" where
  "poll env config tool params [] s = ([], s)"
| "poll env config tool params (e # es) s =
     (case executeTool env config tool params (s\<lparr>ms_ext := e\<rparr>) of
        (r, s1) \<Rightarrow> (case poll env config tool params es s1 of (rs, s2) \<Rightarrow> (r # rs, s2)))"

text \<open>Consecutive calls are at most two and a half minutes apart.\<close>

fun steady :: "'e mcp_env \<Rightarrow> int \<Rightarrow> 'e list \<Rightarrow> bool" where
  "steady env t [] = True"
| "steady env t (e # es) = (t \<le> me_clock env e \<and> me_clock env e \<le> t + 150000 \<and> steady env (me_clock env e) es)"

lemma poll_never_connects:
  "poll_law env (mc_id config) t s \<Longrightarrow> steady env t es \<Longrightarrow>
     ms_calls (snd (poll env config tool params es s)) = ms_calls s
     \<and> list_all (\<lambda>r. \<not> mr_success r) (fst (poll env config tool params es s))"
proof (induction es arbitrary: s t)
  case (Cons e es)
  let ?s = "s\<lparr>ms_ext := e\<rparr>"
  obtain r s1 where x: "executeTool env config tool params ?s = (r, s1)" by force
  obtain rs s2 where y: "poll env config tool params es s1 = (rs, s2)" by force
  have "poll_law env (mc_id config) t ?s" using Cons.prems(1) by (simp add: poll_law_def)
  moreover have "t \<le> now_of env ?s" "now_of env ?s \<le> t + 150000" using Cons.prems(2) by (simp_all add: now_of_def)
  ultimately have step: "poll_law env (mc_id config) (me_clock env e) s1" "ms_calls s1 = ms_calls s" "\<not> mr_success r"
    using poll_step[of env config t ?s tool params] x by (simp_all add: now_of_def)
  have "steady env (me_clock env e) es" using Cons.prems(2) by simp
  then show ?case using Cons.IH[OF step(1)] step(2,3) x y by simp
qed simp

text \<open>A connection that an authentication error has put into backoff stays there as long as it is called
  at least every two and a half minutes: the ten minutes start again at every third rejected call,
  whatever the servers do, and no call reaches them.\<close>
theorem polled_connection_stays_in_backoff:
  assumes "map_of (ms_pool s) (mc_id config) = None"
    and "ms_health s (mc_id config) = Some \<lparr>he_count = 0, he_first = 0, he_backoff = now_of env s + BACKOFF_DURATION_MS\<rparr>"
    and "steady env (now_of env s) es"
  shows "ms_calls (snd (poll env config tool params es s)) = ms_calls s
     \<and> list_all (\<lambda>r. \<not> mr_success r) (fst (poll env config tool params es s))"
proof -
  have "poll_law env (mc_id config) (now_of env s) s"
    using assms(1,2) by (simp add: poll_law_def client_constants)
  then show ?thesis using assms(3) by (rule poll_never_connects)
qed

text \<open>The backoff itself ends: the first call after it goes to the server again.\<close>

lemma backoff_expires:
  "ms_health s i = Some h \<Longrightarrow> he_backoff h \<le> t \<Longrightarrow> \<not> in_backoff t i s"
  by (simp add: in_backoff_def)

end
