(* ===== verification/McpCacheProperties.thy ===== *)
theory McpCacheProperties
  imports McpClientProperties
begin

text \<open>The tool cache as an expiring map, and concrete runs of the MCP client.\<close>

subsection \<open>Histories\<close>

text \<open>What was done with a cache, the latest first; \<open>CGet\<close> stands for both lookups.\<close>

datatype 'v cache_event = CGet int string | CPut int string 'v | CDrop string | CClear

text \<open>The abstract meaning of a history: the entry of a key is the latest one put and not dropped since.\<close>

fun last_put :: "'v cache_event list \<Rightarrow> string \<Rightarrow> ('v \<times> int) option" where
  "last_put [] i = None"
| "last_put (CGet t j # h) i = last_put h i"
| "last_put (CPut t j v # h) i = (if i = j then Some (v, t) else last_put h i)"
| "last_put (CDrop j # h) i = (if i = j then None else last_put h i)"
| "last_put (CClear # h) i = None"

definition fresh :: "int \<Rightarrow> int \<Rightarrow> ('v \<times> int) option \<Rightarrow> 'v option" where
  "fresh ttl now e = (case e of None \<Rightarrow> None | Some (v, t) \<Rightarrow> if now - t \<le> ttl then Some v else None)"

text \<open>The clock of the events does not run backwards and has not passed \<open>now\<close>.\<close>

fun clock_ok :: "int \<Rightarrow> 'v cache_event list \<Rightarrow> bool" where
  "clock_ok now [] = True"
| "clock_ok now (CGet t j # h) = (t \<le> now \<and> clock_ok t h)"
| "clock_ok now (CPut t j v # h) = (t \<le> now \<and> clock_ok t h)"
| "clock_ok now (e # h) = clock_ok now h"

fun run_history ::
    "(int \<Rightarrow> string \<Rightarrow> 'c \<Rightarrow> 'c) \<Rightarrow> (int \<Rightarrow> string \<Rightarrow> 'v \<Rightarrow> 'c \<Rightarrow> 'c) \<Rightarrow> (string \<Rightarrow> 'c \<Rightarrow> 'c) \<Rightarrow> ('c \<Rightarrow> 'c) \<Rightarrow> 'c
      \<Rightarrow> 'v cache_event list \<Rightarrow> 'c" where
  "run_history get put del clear init [] = init"
| "run_history get put del clear init (CGet t i # h) = get t i (run_history get put del clear init h)"
| "run_history get put del clear init (CPut t i v # h) = put t i v (run_history get put del clear init h)"
| "run_history get put del clear init (CDrop i # h) = del i (run_history get put del clear init h)"
| "run_history get put del clear init (CClear # h) = clear (run_history get put del clear init h)"

text \<open>The contract of an expiring map: \<open>view t c\<close> is what a lookup at time \<open>t\<close> or later may see.\<close>

locale expiring_map =
  fixes ttl :: int
    and get :: "int \<Rightarrow> string \<Rightarrow> 'c \<Rightarrow> 'c" and put :: "int \<Rightarrow> string \<Rightarrow> 'v \<Rightarrow> 'c \<Rightarrow> 'c"
    and del :: "string \<Rightarrow> 'c \<Rightarrow> 'c" and clear :: "'c \<Rightarrow> 'c" and init :: 'c
    and view :: "int \<Rightarrow> 'c \<Rightarrow> string \<Rightarrow> 'v option"
  assumes view_empty: "view t init i = None"
    and view_get: "now \<le> t \<Longrightarrow> view t (get now j c) i = view t c i"
    and view_put: "view t (put now j v c) i = (if i = j then fresh ttl t (Some (v, now)) else view t c i)"
    and view_drop: "view t (del j c) i = (if i = j then None else view t c i)"
    and view_clear: "view t (clear c) i = None"
begin

lemma history: "clock_ok now h \<Longrightarrow> now \<le> t \<Longrightarrow> view t (run_history get put del clear init h) i = fresh ttl t (last_put h i)"
proof (induction h arbitrary: now)
  case Nil
  then show ?case by (simp add: view_empty fresh_def)
next
  case (Cons e h)
  then show ?case
  proof (cases e)
    case (CGet s j)
    then have "clock_ok s h" "s \<le> t" using Cons.prems by auto
    then show ?thesis using CGet Cons.IH by (simp add: view_get)
  next
    case (CPut s j v)
    then have "clock_ok s h" "s \<le> t" using Cons.prems by auto
    then show ?thesis using CPut Cons.IH by (simp add: view_put)
  next
    case (CDrop j)
    then show ?thesis using Cons by (simp add: view_drop fresh_def)
  next
    case CClear
    then show ?thesis by (simp add: view_clear fresh_def)
  qed
qed

end

subsection \<open>The cache of the client\<close>

type_synonym cache_value = "client_tool list \<times> provider_tool list option"

definition cache_lookup :: "int \<Rightarrow> int \<Rightarrow> string \<Rightarrow> tool_cache \<Rightarrow> tool_cache" where
  "cache_lookup ttl now i c = snd (cache_get ttl now i c)"

fun cache_put :: "int \<Rightarrow> string \<Rightarrow> cache_value \<Rightarrow> tool_cache \<Rightarrow> tool_cache" where
  "cache_put now i (tools, None) c = cache_set now i tools c"
| "cache_put now i (tools, Some p) c = cache_setDiscovery now i (tools, p) c"

definition cache_view :: "int \<Rightarrow> int \<Rightarrow> tool_cache \<Rightarrow> string \<Rightarrow> cache_value option" where
  "cache_view ttl t c i =
     fresh ttl t (map_option (\<lambda>e. ((ce_tools e, ce_provider e), ce_at e)) (c i))"

lemma getDiscovery_cache: "snd (cache_getDiscovery ttl now i c) = cache_lookup ttl now i c"
  by (simp add: cache_getDiscovery_def cache_lookup_def split: prod.split option.split)

lemma get_view: "fst (cache_get ttl now i c) = map_option fst (cache_view ttl now c i)"
  by (simp add: cache_get_def cache_view_def fresh_def split: option.split)

lemma getDiscovery_view:
  "fst (cache_getDiscovery ttl now i c) =
     Option.bind (cache_view ttl now c i) (\<lambda>(tools, p). map_option (\<lambda>p. (tools, p)) p)"
  by (simp add: cache_getDiscovery_def cache_get_def cache_view_def fresh_def split: option.split)

interpretation tool_map: expiring_map ttl "cache_lookup ttl" cache_put cache_invalidate cache_clear Map.empty "cache_view ttl"
  for ttl :: int
proof (unfold_locales, goal_cases)
  case (1 t i)
  then show ?case by (simp add: cache_view_def fresh_def)
next
  case (2 now t j c i)
  then show ?case by (auto simp: cache_lookup_def cache_get_def cache_view_def fresh_def split: option.split)
next
  case (3 t now j v c i)
  then show ?case
    by (cases "(now, j, v, c)" rule: cache_put.cases)
      (auto simp: cache_set_def cache_setDiscovery_def cache_view_def fresh_def)
next
  case (4 t j c i)
  then show ?case by (simp add: cache_invalidate_def cache_view_def fresh_def)
next
  case (5 t c i)
  then show ?case by (simp add: cache_clear_def cache_view_def fresh_def)
qed

definition cache_after :: "int \<Rightarrow> cache_value cache_event list \<Rightarrow> tool_cache" where
  "cache_after ttl h = run_history (cache_lookup ttl) cache_put cache_invalidate cache_clear Map.empty h"

text \<open>C38. After any history of lookups, insertions, invalidations and clearings along a clock that does not
  run backwards, both lookups answer from the latest insertion of the key that was not invalidated
  since, exactly while it is no older than the time to live; that a lookup deletes what has expired
  is not seen.\<close>
theorem cache_refines_expiring_map:
  assumes "clock_ok now h"
  shows "fst (cache_get ttl now i (cache_after ttl h)) = map_option fst (fresh ttl now (last_put h i))
    \<and> fst (cache_getDiscovery ttl now i (cache_after ttl h)) =
        Option.bind (fresh ttl now (last_put h i)) (\<lambda>(tools, p). map_option (\<lambda>p. (tools, p)) p)"
  using tool_map.history[OF assms order_refl, of ttl i]
  by (simp add: get_view getDiscovery_view cache_after_def)

theorem cache_refines_expiring_map_witness:
  "fst (cache_get cache_ttl 300001 ''c'' (cache_after cache_ttl [CGet 300000 ''c'', CPut 1 ''c'' ([], None)])) = Some []
   \<and> fst (cache_getDiscovery cache_ttl 300002 ''c'' (cache_after cache_ttl [CPut 1 ''c'' ([], Some [])])) = None"
  using cache_refines_expiring_map[of 300001 "[CGet 300000 ''c'', CPut 1 ''c'' ([], None)]" cache_ttl "''c''"]
    cache_refines_expiring_map[of 300002 "[CPut 1 ''c'' ([], Some [])]" cache_ttl "''c''"]
  by (simp add: fresh_def cache_ttl_def)

subsection \<open>Concrete runs\<close>

text \<open>The outside is the clock; connections succeed and calls are rejected with the status of a lapsed token.\<close>

definition clock_env :: "string option \<Rightarrow> int mcp_env" where
  "clock_env limit = \<lparr>me_limit = limit, me_clock = (\<lambda>e. e), me_iso = (\<lambda>t. []), me_connect = (\<lambda>c n e. (Ok (), e)),
     me_close = (\<lambda>c e. e), me_list = (\<lambda>c e. (Ok [], e)), me_call = (\<lambda>c t p e. (Throw ''HTTP 401'', e))\<rparr>"

definition sample_config :: "string \<Rightarrow> mcp_config" where
  "sample_config i = \<lparr>mc_id = i, mc_slug = i, mc_org = ''o'', mc_transport = Stdio, mc_url = None,
     mc_headers = None, mc_command = None, mc_args = None, mc_env = None\<rparr>"

definition sample_mcp_ops :: "int mcp_op list" where
  "sample_mcp_ops = [Discover (sample_config ''a'') [], Outside 10, Discover (sample_config ''b'') [],
     Outside 20, CachedTools (sample_config ''c'') [], Outside 30, Execute (sample_config ''c'') ''t'' JNull, IdleTick]"

theorem pool_stays_bounded_witness:
  "manager_ok (clock_env (Some ''2'')) (run_mcp (clock_env (Some ''2'')) sample_mcp_ops (initial_manager 0))"
  by (rule pool_stays_bounded) (simp add: sample_mcp_ops_def sample_config_def)

definition lapsed :: "int mcp_state" where
  "lapsed = snd (executeTool (clock_env None) (sample_config ''a'') ''t'' JNull (initial_manager 1000))"

theorem polled_connection_stays_in_backoff_witness:
  "ms_calls (snd (poll (clock_env None) (sample_config ''a'') ''t'' JNull (map (\<lambda>k. 1000 + 150000 * int k) [0..<50]) lapsed))
     = [(''a'', ''t'', JNull)]"
proof -
  have "map_of (ms_pool lapsed) ''a'' = None" by code_simp
  moreover have "ms_health lapsed ''a'' = Some \<lparr>he_count = 0, he_first = 0, he_backoff = 601000\<rparr>" by code_simp
  moreover have "now_of (clock_env None) lapsed = 1000" by code_simp
  moreover have "steady (clock_env None) 1000 (map (\<lambda>k. 1000 + 150000 * int k) [0..<50])" by code_simp
  moreover have "ms_calls lapsed = [(''a'', ''t'', JNull)]" by code_simp
  ultimately show ?thesis
    using polled_connection_stays_in_backoff[of lapsed "sample_config ''a''" "clock_env None"
        "map (\<lambda>k. 1000 + 150000 * int k) [0..<50]" "''t''" JNull]
    by (simp add: sample_config_def client_constants)
qed

text \<open>Two requests that connect at the same time both find room for one more connection.\<close>

lemma concurrent_connects_exceed_the_limit:
  "(let env = clock_env (Some ''1''); a = sample_config ''a''; b = sample_config ''b'';
        s1 = snd (connect_begin env a (initial_manager 0)); s2 = snd (connect_begin env b s1) in
      tracked (connect_store env b (connect_store env a s2)) ''o'' = [''a'', ''b'']
      \<and> maxConnectionsPerOrg env = Some 1)"
  by code_simp

text \<open>A tool the server declares destructive runs without review when its name falls into a known family.\<close>

lemma family_name_outranks_the_destructive_hint:
  "classifyTool ''fetch_and_purge'' (Some [(''destructiveHint'', JBool True)]) = (AutoExecute, False)
   \<and> classifyTool ''purge'' (Some [(''destructiveHint'', JBool True)]) = (FullReview, True)"
  by code_simp

end
