(* ===== verification/TransportSecurity.thy ===== *)
theory TransportSecurity
  imports McpClient
begin

unbundle bit_operations_syntax

text \<open>
  The guard in front of every HTTP request to an MCP server (packages/mcp/src/transport-security.ts):
  which hosts and addresses may be reached, the pinning of the resolved address, the headers that
  are forwarded, and the choice of a transport (transports.ts).

  The URL parser, the name service, the network and the variables of the process are arguments.
\<close>

subsection \<open>Tables\<close>

definition BLOCKED_HOST_SUFFIXES :: "string list" where
  "BLOCKED_HOST_SUFFIXES = [''.localhost'', ''.local'', ''.internal'', ''.home'', ''.lan'']"

definition METADATA_HOSTNAMES :: "string list" where
  "METADATA_HOSTNAMES =
     [''metadata.google.internal'', ''metadata.azure.internal'', ''instance-data.ec2.internal'',
      ''metadata.packet.net'']"

definition NEVER_ALLOWED_METADATA_ADDRESSES :: "string list" where
  "NEVER_ALLOWED_METADATA_ADDRESSES =
     [''100.100.100.200'', ''168.63.129.16'', ''169.254.169.254'', ''169.254.170.2'', ''169.254.170.23'',
      ''192.80.8.124'', ''fd00:ec2::23'', ''fd00:ec2::254'']"

definition unsafeForwardedHeaders :: "string list" where
  "unsafeForwardedHeaders =
     [''connection'', ''content-length'', ''host'', ''keep-alive'', ''proxy-authenticate'',
      ''proxy-authorization'', ''proxy-connection'', ''te'', ''trailer'', ''transfer-encoding'', ''upgrade'',
      ''forwarded'', ''x-http-method-override'', ''x-method-override'', ''x-original-host'',
      ''x-original-method'', ''x-original-url'', ''x-rewrite-url'']"

subsection \<open>Addresses as text\<close>

definition normalizeHostname :: "string \<Rightarrow> string" where
  "normalizeHostname hostname =
     (let l = js_lower hostname;
          withoutTrailingDot = (if js_ends_with l ''.'' then butlast l else l) in
      if js_starts_with withoutTrailingDot ''['' \<and> js_ends_with withoutTrailingDot '']''
      then js_slice withoutTrailingDot 1 (length withoutTrailingDot - 1) else withoutTrailingDot)"

text \<open>\<open>Number(s)\<close> of a string: blank text is zero, the radix prefixes, and decimal literals; \<open>None\<close> is
  \<open>NaN\<close> or an infinity.  The value is exact, without the rounding of very long literals.\<close>

definition hex_digit :: "char \<Rightarrow> nat option" where
  "hex_digit c = (if js_is_digit c then Some (code_unit c - 48)
     else if 97 \<le> code_unit c \<and> code_unit c \<le> 102 then Some (code_unit c - 87)
     else if 65 \<le> code_unit c \<and> code_unit c \<le> 70 then Some (code_unit c - 55) else None)"

fun radix_value :: "nat \<Rightarrow> nat \<Rightarrow> string \<Rightarrow> nat option" where
  "radix_value r a [] = Some a"
| "radix_value r a (c # s) = (case hex_digit c of
       Some d \<Rightarrow> if d < r then radix_value r (r * a + d) s else None | None \<Rightarrow> None)"

definition radix_literal :: "nat \<Rightarrow> string \<Rightarrow> rat option" where
  "radix_literal r s = (if s = [] then None else map_option of_nat (radix_value r 0 s))"

definition decimal_digits :: "string \<Rightarrow> nat option" where
  "decimal_digits t = (if t \<noteq> [] \<and> list_all js_is_digit t then Some (digits_value t) else None)"

definition exponent_value :: "string \<Rightarrow> rat option" where
  "exponent_value s = (case s of [] \<Rightarrow> Some 1
     | e # t \<Rightarrow> if e \<noteq> CHR ''e'' \<and> e \<noteq> CHR ''E'' then None
         else if js_starts_with t ''-'' then map_option (\<lambda>n. 1 / 10 ^ n) (decimal_digits (tl t))
         else if js_starts_with t ''+'' then map_option (\<lambda>n. 10 ^ n) (decimal_digits (tl t))
         else map_option (\<lambda>n. 10 ^ n) (decimal_digits t))"

definition decimal_literal :: "string \<Rightarrow> rat option" where
  "decimal_literal s =
     (let whole = takeWhile js_is_digit s; r = dropWhile js_is_digit s;
          frac = (if js_starts_with r ''.'' then takeWhile js_is_digit (tl r) else []);
          rest = (if js_starts_with r ''.'' then dropWhile js_is_digit (tl r) else r) in
      if whole = [] \<and> frac = [] then None
      else map_option (\<lambda>p. (of_nat (digits_value whole) + of_nat (digits_value frac) / 10 ^ length frac) * p)
        (exponent_value rest))"

definition js_number_text :: "string \<Rightarrow> rat option" where
  "js_number_text s = (let t = js_trim s in
     if t = [] then Some 0
     else if js_starts_with t ''-'' then map_option uminus (decimal_literal (tl t))
     else if js_starts_with t ''+'' then decimal_literal (tl t)
     else if js_starts_with t ''0x'' \<or> js_starts_with t ''0X'' then radix_literal 16 (drop 2 t)
     else if js_starts_with t ''0o'' \<or> js_starts_with t ''0O'' then radix_literal 8 (drop 2 t)
     else if js_starts_with t ''0b'' \<or> js_starts_with t ''0B'' then radix_literal 2 (drop 2 t)
     else decimal_literal t)"

definition js_byte :: "string \<Rightarrow> nat option" where
  "js_byte part = (case js_number_text part of
       None \<Rightarrow> None
     | Some q \<Rightarrow> if q = of_int \<lfloor>q\<rfloor> \<and> 0 \<le> q \<and> q \<le> 255 then Some (nat \<lfloor>q\<rfloor>) else None)"

fun all_some :: "'a option list \<Rightarrow> 'a list option" where
  "all_some [] = Some []"
| "all_some (None # xs) = None"
| "all_some (Some x # xs) = map_option (Cons x) (all_some xs)"

definition ipv4Bytes :: "string \<Rightarrow> nat list option" where
  "ipv4Bytes address =
     (let parts = js_split (CHR ''.'') address in
      if length parts \<noteq> 4 then None else all_some (map js_byte parts))"

text \<open>\<open>/^[0-9a-f]{1,4}$/\<close>, and the value of such a part.\<close>

definition hex_lower :: "char \<Rightarrow> bool" where
  "hex_lower c \<longleftrightarrow> js_is_digit c \<or> (97 \<le> code_unit c \<and> code_unit c \<le> 102)"

definition hex_word :: "string \<Rightarrow> nat option" where
  "hex_word part = (if part \<noteq> [] \<and> length part \<le> 4 \<and> list_all hex_lower part then radix_value 16 0 part else None)"

definition v4_words :: "nat list \<Rightarrow> nat list" where
  "v4_words v4 = [push_bit 8 (v4 ! 0) OR v4 ! 1, push_bit 8 (v4 ! 2) OR v4 ! 3]"

fun parse_parts :: "string list \<Rightarrow> nat list option" where
  "parse_parts [] = Some []"
| "parse_parts (part # parts) =
     (if CHR ''.'' \<in> set part
      then (case ipv4Bytes part of None \<Rightarrow> None | Some v4 \<Rightarrow> map_option (append (v4_words v4)) (parse_parts parts))
      else (case hex_word part of None \<Rightarrow> None | Some w \<Rightarrow> map_option (Cons w) (parse_parts parts)))"

definition parseHalf :: "string \<Rightarrow> nat list option" where
  "parseHalf v = (if v = [] then Some [] else parse_parts (js_split (CHR '':'') v))"

definition word_bytes :: "nat \<Rightarrow> nat list" where
  "word_bytes word = [drop_bit 8 word, word AND 255]"

definition ipv6Bytes :: "string \<Rightarrow> nat list option" where
  "ipv6Bytes address =
     (let withoutZone = hd (js_split (CHR ''%'') (js_lower address));
          halves = js_split_str ''::'' withoutZone in
      if length halves > 2 then None
      else (case (parseHalf (halves ! 0), if length halves = 2 then parseHalf (halves ! 1) else Some []) of
          (Some left, Some right) \<Rightarrow>
            (let used = length left + length right in
             if (length halves = 1 \<and> used \<noteq> 8) \<or> (length halves = 2 \<and> used > 7) then None
             else (let words = left @ replicate (8 - used) 0 @ right in
               if length words \<noteq> 8 then None else Some (concat (map word_bytes words))))
        | _ \<Rightarrow> None))"

text \<open>\<open>isIP\<close> of \<open>node:net\<close>.\<close>

definition dec_octet :: "string \<Rightarrow> bool" where
  "dec_octet p \<longleftrightarrow> list_all js_is_digit p \<and> nat_to_string (digits_value p) = p \<and> digits_value p \<le> 255"

definition is_ipv4 :: "string \<Rightarrow> bool" where
  "is_ipv4 s \<longleftrightarrow> (let parts = js_split (CHR ''.'') s in length parts = 4 \<and> list_all dec_octet parts)"

definition v6_segment :: "string \<Rightarrow> bool" where
  "v6_segment p \<longleftrightarrow> p \<noteq> [] \<and> length p \<le> 4 \<and> list_all (\<lambda>c. hex_digit c \<noteq> None) p"

text \<open>The number of 16-bit groups of a colon list whose last part may be a dotted quad.\<close>

definition v6_groups :: "bool \<Rightarrow> string \<Rightarrow> nat option" where
  "v6_groups tail s = (if s = [] then Some 0
     else (let parts = js_split (CHR '':'') s in
       if list_all v6_segment parts then Some (length parts)
       else if tail \<and> list_all v6_segment (butlast parts) \<and> is_ipv4 (last parts) then Some (length parts + 1)
       else None))"

definition zone_char :: "char \<Rightarrow> bool" where
  "zone_char c \<longleftrightarrow> js_is_digit c \<or> js_is_upper c \<or> js_is_lower c \<or> c = CHR ''-'' \<or> c = CHR ''.'' \<or> c = CHR '':''"

definition is_ipv6 :: "string \<Rightarrow> bool" where
  "is_ipv6 s = (case js_split (CHR ''%'') s of
       [a] \<Rightarrow> (case js_split_str ''::'' a of
            [whole] \<Rightarrow> whole \<noteq> [] \<and> v6_groups True whole = Some 8
          | [l, r] \<Rightarrow> (case (v6_groups False l, v6_groups True r) of (Some m, Some n) \<Rightarrow> m + n \<le> 7 | _ \<Rightarrow> False)
          | _ \<Rightarrow> False)
     | [a, z] \<Rightarrow> z \<noteq> [] \<and> list_all zone_char z \<and> (case js_split_str ''::'' a of
            [whole] \<Rightarrow> whole \<noteq> [] \<and> v6_groups True whole = Some 8
          | [l, r] \<Rightarrow> (case (v6_groups False l, v6_groups True r) of (Some m, Some n) \<Rightarrow> m + n \<le> 7 | _ \<Rightarrow> False)
          | _ \<Rightarrow> False)
     | _ \<Rightarrow> False)"

definition isIP :: "string \<Rightarrow> nat" where
  "isIP s = (if is_ipv4 s then 4 else if is_ipv6 s then 6 else 0)"

lemma js_split_join:
  "list_all (\<lambda>p. d \<notin> set p) ps \<Longrightarrow> ps \<noteq> [] \<Longrightarrow> js_split d (js_join [d] ps) = ps"
proof (induction "[d]" ps rule: js_join.induct)
  case (2 p)
  then have "d \<notin> set p" by simp
  then have "js_split d p = [p]" by (induction p) auto
  then show ?case by simp
next
  case (3 p q ps)
  then have "d \<notin> set p" "js_split d (js_join [d] (q # ps)) = q # ps" by auto
  then have "js_split d (p @ [d] @ js_join [d] (q # ps)) = p # q # ps" by (induction p) auto
  then show ?case by simp
qed simp

definition dotted :: "nat list \<Rightarrow> string" where
  "dotted bytes = js_join ''.'' (map nat_to_string bytes)"

lemma nat_to_string_no_dot: "CHR ''.'' \<notin> set (nat_to_string n)"
  using nat_to_string_digits[of n] by (auto simp: list_all_iff js_is_digit_def code_unit_def)

lemma split_dotted: "bytes \<noteq> [] \<Longrightarrow> js_split (CHR ''.'') (dotted bytes) = map nat_to_string bytes"
  unfolding dotted_def by (intro js_split_join) (auto simp: list_all_iff nat_to_string_no_dot)

lemma dotted_is_ipv4:
  assumes "length bytes = 4" "\<forall>b \<in> set bytes. b \<le> 255"
  shows "is_ipv4 (dotted bytes)"
proof -
  have "bytes \<noteq> []" using assms(1) by auto
  then show ?thesis using assms
    by (simp add: is_ipv4_def split_dotted list_all_iff dec_octet_def digits_value_nat_to_string)
      (use nat_to_string_digits in \<open>auto simp: list_all_iff\<close>)
qed

lemma and_255: "w AND 255 = w mod 256" for w :: nat
  using take_bit_eq_mask[of 8 w] by (simp add: take_bit_eq_mod mask_eq_exp_minus_1)

lemma word_bytes_eq: "word_bytes w = [w div 256, w mod 256]"
  by (simp add: word_bytes_def drop_bit_eq_div and_255)

lemma word_bytes_bound: "w < 65536 \<Longrightarrow> b \<in> set (word_bytes w) \<Longrightarrow> b \<le> 255"
  by (auto simp: word_bytes_eq)

lemma radix_value_bound: "radix_value 16 a s = Some v \<Longrightarrow> v < (a + 1) * 16 ^ length s"
proof (induction s arbitrary: a)
  case (Cons c s)
  then obtain d where d: "d < 16" "radix_value 16 (16 * a + d) s = Some v" by (auto split: option.splits if_splits)
  then have "v < (16 * a + d + 1) * 16 ^ length s" using Cons.IH by blast
  also have "\<dots> \<le> (16 * (a + 1)) * 16 ^ length s" using d(1) by (intro mult_right_mono) auto
  finally show ?case by (simp add: algebra_simps)
qed simp

lemma hex_word_bound: "hex_word p = Some w \<Longrightarrow> w < 65536"
proof -
  assume a: "hex_word p = Some w"
  then have "w < (0 + 1) * 16 ^ length p" "length p \<le> 4" using radix_value_bound[of 0 p w]
    by (auto simp: hex_word_def split: if_splits)
  moreover from this(2) have "(16::nat) ^ length p \<le> 16 ^ 4" by (intro power_increasing) auto
  ultimately show ?thesis by simp
qed

lemma js_byte_bound: "js_byte p = Some b \<Longrightarrow> b \<le> 255"
  by (auto simp: js_byte_def nat_le_iff floor_le_iff split: option.splits if_splits)

lemma all_some_bound: "all_some xs = Some ys \<Longrightarrow> \<forall>y \<in> set ys. Some y \<in> set xs"
  by (induction xs arbitrary: ys rule: all_some.induct) auto

lemma all_some_length: "all_some xs = Some ys \<Longrightarrow> length ys = length xs"
  by (induction xs arbitrary: ys rule: all_some.induct) auto

lemma ipv4Bytes_bounds: "ipv4Bytes a = Some bs \<Longrightarrow> length bs = 4 \<and> (\<forall>b \<in> set bs. b \<le> 255)"
proof -
  assume a: "ipv4Bytes a = Some bs"
  then have x: "all_some (map js_byte (js_split (CHR ''.'') a)) = Some bs" "length (js_split (CHR ''.'') a) = 4"
    by (auto simp: ipv4Bytes_def Let_def split: if_splits)
  then have "length bs = 4" using all_some_length by fastforce
  moreover have "\<forall>b \<in> set bs. b \<le> 255" using all_some_bound[OF x(1)] js_byte_bound by fastforce
  ultimately show ?thesis by blast
qed

lemma v4_words_eq: "a \<le> 255 \<Longrightarrow> b \<le> 255 \<Longrightarrow> push_bit 8 a OR b = 256 * a + (b :: nat)"
proof -
  assume "b \<le> 255"
  then have "b = take_bit 8 b" by (simp add: take_bit_eq_mod)
  then have "\<not> bit b n" if "8 \<le> n" for n using that by (metis bit_take_bit_iff not_less)
  then have "\<not> bit (push_bit 8 a) n \<or> \<not> bit b n" for n by (cases "8 \<le> n") (auto simp: bit_push_bit_iff)
  then have "push_bit 8 a + b = push_bit 8 a OR b" by (rule disjunctive_add)
  then show ?thesis by (simp add: push_bit_eq_mult)
qed

lemma parse_parts_bound: "parse_parts ps = Some ws \<Longrightarrow> \<forall>w \<in> set ws. w < 65536"
proof (induction ps arbitrary: ws rule: parse_parts.induct)
  case (2 part parts)
  show ?case
  proof (cases "CHR ''.'' \<in> set part")
    case True
    then obtain v4 vs where v: "ipv4Bytes part = Some v4" "parse_parts parts = Some vs" "ws = v4_words v4 @ vs"
      using 2(3) by (auto split: option.splits)
    have "v4 ! i \<le> 255" if "i < 4" for i using ipv4Bytes_bounds[OF v(1)] that by auto
    from this[of 0] this[of 1] this[of 2] this[of 3]
    have "\<forall>w \<in> set (v4_words v4). w < 65536" by (simp add: v4_words_def v4_words_eq)
    then show ?thesis using v 2(1)[OF True v(1,2)] by auto
  next
    case False
    then obtain w vs where v: "hex_word part = Some w" "parse_parts parts = Some vs" "ws = w # vs"
      using 2(3) by (auto split: option.splits)
    then show ?thesis using 2(2)[OF False v(1,2)] hex_word_bound by auto
  qed
qed simp

lemma parseHalf_bound: "parseHalf v = Some ws \<Longrightarrow> \<forall>w \<in> set ws. w < 65536"
  using parse_parts_bound by (auto simp: parseHalf_def split: if_splits)

lemma ipv6Bytes_bounds: "ipv6Bytes a = Some bs \<Longrightarrow> length bs = 16 \<and> (\<forall>b \<in> set bs. b \<le> 255)"
proof -
  assume a: "ipv6Bytes a = Some bs"
  let ?h = "js_split_str ''::'' (hd (js_split (CHR ''%'') (js_lower a)))"
  obtain l r where lr: "parseHalf (?h ! 0) = Some l" "(if length ?h = 2 then parseHalf (?h ! 1) else Some []) = Some r"
      "bs = concat (map word_bytes (l @ replicate (8 - (length l + length r)) 0 @ r))"
      "length (l @ replicate (8 - (length l + length r)) 0 @ r) = 8"
    using a unfolding ipv6Bytes_def Let_def by (auto simp del: length_append split: if_splits option.splits)
  let ?w = "l @ replicate (8 - (length l + length r)) 0 @ r"
  have "\<forall>w \<in> set r. w < 65536"
    using lr(2) parseHalf_bound[of "?h ! 1" r] by (cases "length ?h = 2") auto
  then have "\<forall>w \<in> set ?w. w < 65536" using parseHalf_bound[OF lr(1)] by auto
  moreover have "\<forall>w \<in> set ws. w < 65536 \<Longrightarrow> b \<in> set (concat (map word_bytes ws)) \<Longrightarrow> b \<le> 255" for b ws
    using word_bytes_bound by (induction ws) auto
  ultimately have "\<forall>b \<in> set bs. b \<le> 255" unfolding lr(3) by blast
  moreover have "length (concat (map word_bytes ws)) = 2 * length ws" for ws
    by (induction ws) (simp_all add: word_bytes_def)
  then have "length bs = 2 * 8" unfolding lr(3) by (simp only: lr(4))
  ultimately show ?thesis by simp
qed

subsection \<open>Which addresses are public\<close>

fun v4_public :: "nat list \<Rightarrow> bool" where
  "v4_public (a # b # c # _) =
     (if a = 0 \<or> a = 10 \<or> a = 127 then False
      else if a = 100 \<and> 64 \<le> b \<and> b \<le> 127 then False
      else if a = 169 \<and> b = 254 then False
      else if a = 172 \<and> 16 \<le> b \<and> b \<le> 31 then False
      else if a = 192 \<and> b = 168 then False
      else if a = 192 \<and> b = 0 \<and> c = 0 then False
      else if a = 192 \<and> b = 0 \<and> c = 2 then False
      else if a = 192 \<and> b = 88 \<and> c = 99 then False
      else if a = 198 \<and> (b = 18 \<or> b = 19) then False
      else if a = 198 \<and> b = 51 \<and> c = 100 then False
      else if a = 203 \<and> b = 0 \<and> c = 113 then False
      else if 224 \<le> a then False else True)"
| "v4_public _ = False"

definition is_mapped :: "nat list \<Rightarrow> bool" where
  "is_mapped bytes \<longleftrightarrow> list_all (\<lambda>b. b = 0) (take 10 bytes) \<and> bytes ! 10 = 255 \<and> bytes ! 11 = 255"

definition is_loopback6 :: "nat list \<Rightarrow> bool" where
  "is_loopback6 bytes \<longleftrightarrow> list_all (\<lambda>b. b = 0) (take 15 bytes) \<and> bytes ! 15 = 1"

definition v6_public :: "nat list \<Rightarrow> bool" where
  "v6_public bytes =
     (if bytes ! 0 AND 254 = 252 then False
      else if bytes ! 0 = 254 \<and> bytes ! 1 AND 192 = 192 then False
      else if bytes ! 0 = 254 \<and> bytes ! 1 AND 192 = 128 then False
      else if bytes ! 0 = 255 then False
      else if bytes ! 0 = 1 \<and> list_all (\<lambda>b. b = 0) (take 7 (drop 1 bytes)) then False
      else if bytes ! 0 = 0 \<and> bytes ! 1 = 100 \<and> bytes ! 2 = 255 \<and> bytes ! 3 = 155 then False
      else if bytes ! 0 = 32 \<and> bytes ! 1 = 1 \<and> bytes ! 2 = 0 \<and> bytes ! 3 = 0 then False
      else if bytes ! 0 = 32 \<and> bytes ! 1 = 1 \<and> bytes ! 2 = 0 \<and> bytes ! 3 = 2 then False
      else if bytes ! 0 = 32 \<and> bytes ! 1 = 1 \<and> bytes ! 2 = 13 \<and> bytes ! 3 = 184 then False
      else if bytes ! 0 = 32 \<and> bytes ! 1 = 2 then False else True)"

text \<open>An address mapped from IPv4 is judged as the IPv4 address in it; the recursion ends there.\<close>

function isPublicNetworkAddress :: "string \<Rightarrow> bool" where
  "isPublicNetworkAddress address =
     (if isIP address = 4
      then (case ipv4Bytes address of Some bytes \<Rightarrow> v4_public bytes | None \<Rightarrow> False)
      else if isIP address = 6
      then (case ipv6Bytes address of
          None \<Rightarrow> False
        | Some bytes \<Rightarrow>
            if list_all (\<lambda>b. b = 0) bytes \<or> is_loopback6 bytes then False
            else if is_mapped bytes then isPublicNetworkAddress (dotted (drop 12 bytes))
            else v6_public bytes)
      else False)"
  by pat_completeness auto
termination
proof (relation "measure (\<lambda>address. if is_ipv4 address then 0 else 1)", goal_cases)
  case (2 address bytes)
  then have b: "length bytes = 16" "\<forall>b \<in> set bytes. b \<le> 255" using ipv6Bytes_bounds by blast+
  then have "is_ipv4 (dotted (drop 12 bytes))" by (intro dotted_is_ipv4) (auto dest: in_set_dropD)
  then show ?case using 2 by (simp add: isIP_def split: if_splits)
qed simp

declare isPublicNetworkAddress.simps [simp del]

function isAllowedSelfHostedPrivateAddress :: "string \<Rightarrow> bool" where
  "isAllowedSelfHostedPrivateAddress address =
     (if isIP address = 4
      then (case ipv4Bytes address of
          Some (a # b # _) \<Rightarrow> a = 127 \<or> a = 10 \<or> (a = 172 \<and> 16 \<le> b \<and> b \<le> 31) \<or> (a = 192 \<and> b = 168)
        | _ \<Rightarrow> False)
      else if isIP address = 6
      then (case ipv6Bytes address of
          None \<Rightarrow> False
        | Some bytes \<Rightarrow>
            if is_loopback6 bytes \<or> bytes ! 0 AND 254 = 252 then True
            else if is_mapped bytes then isAllowedSelfHostedPrivateAddress (dotted (drop 12 bytes))
            else False)
      else False)"
  by pat_completeness auto
termination
proof (relation "measure (\<lambda>address. if is_ipv4 address then 0 else 1)", goal_cases)
  case (2 address bytes)
  then have b: "length bytes = 16" "\<forall>b \<in> set bytes. b \<le> 255" using ipv6Bytes_bounds by blast+
  then have "is_ipv4 (dotted (drop 12 bytes))" by (intro dotted_is_ipv4) (auto dest: in_set_dropD)
  then show ?case using 2 by (simp add: isIP_def split: if_splits)
qed simp

declare isAllowedSelfHostedPrivateAddress.simps [simp del]

definition isNeverAllowedMetadataAddress :: "string \<Rightarrow> bool" where
  "isNeverAllowedMetadataAddress address =
     (let normalized = normalizeHostname address in
      if normalized \<in> set NEVER_ALLOWED_METADATA_ADDRESSES then True
      else (case ipv6Bytes normalized of
          None \<Rightarrow> False
        | Some candidate \<Rightarrow> list_ex (\<lambda>target. ipv6Bytes target = Some candidate) [''fd00:ec2::23'', ''fd00:ec2::254'']))"

definition isMetadataTarget :: "string \<Rightarrow> bool" where
  "isMetadataTarget hostname =
     (let normalized = normalizeHostname hostname in
      if normalized \<in> set METADATA_HOSTNAMES then True
      else if isIP normalized \<noteq> 0 then isNeverAllowedMetadataAddress normalized else False)"

subsection \<open>Hosts and URLs\<close>

record url =
  ur_protocol :: string
  ur_hostname :: string
  ur_origin :: string
  ur_host :: string
  ur_port :: string
  ur_path :: string
  ur_search :: string

record outgoing =
  og_protocol :: string
  og_address :: string
  og_family :: nat
  og_port :: "string option"
  og_path :: string
  og_method :: string
  og_headers :: "(string \<times> string) list"
  og_servername :: "string option"
  og_body :: "string option"

record incoming =
  ic_status :: "nat option"
  ic_message :: "string option"
  ic_headers :: "(string \<times> string) list"
  ic_body :: string

record 'e net_env =
  ne_vars :: "string \<Rightarrow> string option"
  ne_parse :: "string \<Rightarrow> url option"
  ne_lookup :: "string \<Rightarrow> 'e \<Rightarrow> (string + (string \<times> nat) list) \<times> 'e"
  ne_send :: "outgoing \<Rightarrow> 'e \<Rightarrow> (string + incoming) \<times> 'e"

text \<open>\<open>(process.env.X ?? "").split(",").map(trim).filter(Boolean)\<close>.\<close>

definition list_variable :: "string option \<Rightarrow> string list" where
  "list_variable v =
     filter (\<lambda>entry. entry \<noteq> []) (map js_trim (js_split (CHR '','') (case v of None \<Rightarrow> [] | Some s \<Rightarrow> s)))"

definition privateOriginAllowlist :: "'e net_env \<Rightarrow> string list" where
  "privateOriginAllowlist env =
     (if ne_vars env ''DEFT_SELF_HOSTED'' \<noteq> Some ''true'' then []
      else concat (map (\<lambda>entry. case ne_parse env entry of None \<Rightarrow> [] | Some u \<Rightarrow> [ur_origin u])
        (list_variable (ne_vars env ''DEFT_MCP_PRIVATE_ORIGIN_ALLOWLIST''))))"

datatype host_error =
    MetadataTarget | NotPublicHost | ReservedAddress | HttpsRequired

definition validateMcpHttpHostname :: "string \<Rightarrow> host_error option" where
  "validateMcpHttpHostname hostname =
     (let normalized = normalizeHostname hostname in
      if isMetadataTarget normalized then Some MetadataTarget
      else if normalized = [] \<or> normalized = ''localhost''
          \<or> list_ex (\<lambda>suffix. js_ends_with normalized suffix) BLOCKED_HOST_SUFFIXES then Some NotPublicHost
      else if isIP normalized \<noteq> 0 \<and> \<not> isPublicNetworkAddress normalized then Some ReservedAddress
      else None)"

definition validateMcpHttpUrl :: "'e net_env \<Rightarrow> url \<Rightarrow> host_error option" where
  "validateMcpHttpUrl env u =
     (if isMetadataTarget (ur_hostname u) then Some MetadataTarget
      else if ur_origin u \<in> set (privateOriginAllowlist env) then None
      else if ur_protocol u \<noteq> ''https:'' then Some HttpsRequired
      else validateMcpHttpHostname (ur_hostname u))"

definition isStdioCommandAllowed :: "'e net_env \<Rightarrow> string \<Rightarrow> bool" where
  "isStdioCommandAllowed env command =
     (if ne_vars env ''DEFT_SELF_HOSTED'' \<noteq> Some ''true'' \<or> ne_vars env ''DEFT_MCP_ENABLE_UNSAFE_STDIO'' \<noteq> Some ''true''
      then False
      else js_trim command \<in> set (list_variable (ne_vars env ''MCP_STDIO_ALLOWED_COMMANDS'')))"

subsection \<open>The request\<close>

datatype fetch_error =
    InvalidUrl | UnsupportedProtocol | CrossOrigin | BadTarget host_error | LookupFailed string
  | Unresolved | ResolvedToMetadata | ResolvedToDisallowed | Aborted | NetworkError string | RedirectRefused

record 'e net_world =
  nw_sent :: "outgoing list"
  nw_ext :: 'e

definition unsafe_address :: "bool \<Rightarrow> string \<Rightarrow> bool" where
  "unsafe_address privateOriginAllowed address \<longleftrightarrow>
     \<not> isPublicNetworkAddress address \<and> \<not> (privateOriginAllowed \<and> isAllowedSelfHostedPrivateAddress address)"

definition check_addresses :: "bool \<Rightarrow> (string \<times> nat) list \<Rightarrow> fetch_error + (string \<times> nat)" where
  "check_addresses privateOriginAllowed addresses =
     (case addresses of
        [] \<Rightarrow> Throw Unresolved
      | a # _ \<Rightarrow>
          if list_ex (\<lambda>(address, family). isNeverAllowedMetadataAddress address) addresses then Throw ResolvedToMetadata
          else if List.find (\<lambda>(address, family). unsafe_address privateOriginAllowed address) addresses \<noteq> None
          then Throw ResolvedToDisallowed
          else Ok a)"

definition resolvePinnedAddress ::
    "'e net_env \<Rightarrow> url \<Rightarrow> 'e \<Rightarrow> (fetch_error + (string \<times> nat)) \<times> 'e" where
  "resolvePinnedAddress env u ext =
     (let hostname = normalizeHostname (ur_hostname u); literalFamily = isIP hostname;
          privateOriginAllowed = (ur_origin u \<in> set (privateOriginAllowlist env) \<and> \<not> isMetadataTarget hostname) in
      if literalFamily \<noteq> 0 then (check_addresses privateOriginAllowed [(hostname, literalFamily)], ext)
      else (case ne_lookup env hostname ext of
          (Inl e, ext') \<Rightarrow> (Throw (LookupFailed e), ext')
        | (Inr addresses, ext') \<Rightarrow> (check_addresses privateOriginAllowed addresses, ext')))"

record fetch_request =
  rq_url :: string
  rq_method :: string
  rq_headers :: "(string \<times> string) list"
  rq_body :: "string option"
  rq_aborted :: bool

record fetch_response =
  rs_body :: "string option"
  rs_status :: nat
  rs_message :: "string option"
  rs_headers :: "(string \<times> string) list"

definition forwarded_header :: "string \<Rightarrow> bool" where
  "forwarded_header name \<longleftrightarrow> (let normalized = js_lower name in
     normalized \<notin> set unsafeForwardedHeaders \<and> \<not> js_starts_with normalized ''x-forwarded-''
     \<and> \<not> js_starts_with normalized ''x-original-'')"

definition outgoing_request :: "fetch_request \<Rightarrow> url \<Rightarrow> string \<times> nat \<Rightarrow> outgoing" where
  "outgoing_request request u pinned =
     \<lparr>og_protocol = ur_protocol u, og_address = fst pinned, og_family = snd pinned,
      og_port = (if ur_port u = [] then None else Some (ur_port u)),
      og_path = ur_path u @ ur_search u, og_method = rq_method request,
      og_headers = jm_set ''host'' (ur_host u) (filter (\<lambda>(name, v). forwarded_header name) (rq_headers request)),
      og_servername = (if ur_protocol u = ''https:'' then Some (ur_hostname u) else None),
      og_body = rq_body request\<rparr>"

definition or_status :: "nat option \<Rightarrow> nat \<Rightarrow> nat" where
  "or_status s d = (case s of None \<Rightarrow> d | Some n \<Rightarrow> n)"

definition fetch_answer :: "fetch_request \<Rightarrow> incoming \<Rightarrow> fetch_error + fetch_response" where
  "fetch_answer request incoming =
     (if 300 \<le> or_status (ic_status incoming) 0 \<and> or_status (ic_status incoming) 0 < 400 then Throw RedirectRefused
      else Ok \<lparr>rs_body = (if rq_method request = ''HEAD'' then None else Some (ic_body incoming)),
              rs_status = or_status (ic_status incoming) 500, rs_message = ic_message incoming,
              rs_headers = ic_headers incoming\<rparr>)"

definition secureMcpFetchForOrigin ::
    "'e net_env \<Rightarrow> string \<Rightarrow> fetch_request \<Rightarrow> 'e net_world \<Rightarrow> (fetch_error + fetch_response) \<times> 'e net_world" where
  "secureMcpFetchForOrigin env allowedOrigin request w =
     (case ne_parse env (rq_url request) of
        None \<Rightarrow> (Throw InvalidUrl, w)
      | Some u \<Rightarrow>
          if ur_protocol u \<noteq> ''http:'' \<and> ur_protocol u \<noteq> ''https:'' then (Throw UnsupportedProtocol, w)
          else if ur_origin u \<noteq> allowedOrigin then (Throw CrossOrigin, w)
          else (case validateMcpHttpUrl env u of
              Some e \<Rightarrow> (Throw (BadTarget e), w)
            | None \<Rightarrow>
                (case resolvePinnedAddress env u (nw_ext w) of
                   (Inl e, ext) \<Rightarrow> (Throw e, w\<lparr>nw_ext := ext\<rparr>)
                 | (Inr pinned, ext) \<Rightarrow>
                     if rq_aborted request then (Throw Aborted, w\<lparr>nw_ext := ext\<rparr>)
                     else (let outgoing = outgoing_request request u pinned in
                       case ne_send env outgoing ext of
                         (r, ext') \<Rightarrow>
                           ((case r of Inl e \<Rightarrow> Throw (NetworkError e) | Inr incoming \<Rightarrow> fetch_answer request incoming),
                            w\<lparr>nw_sent := nw_sent w @ [outgoing], nw_ext := ext'\<rparr>)))))"

subsection \<open>Transports\<close>

text \<open>\<open>createSecureMcpFetch\<close> fixes the origin that a transport may reach.\<close>

datatype transport_choice =
    StdioTransport string "string list option" "(string \<times> string) list option"
  | HttpTransport mcp_transport url string "(string \<times> string) list option"

datatype transport_error =
    StdioNotSelfHosted | StdioWithoutCommand | StdioNotAllowed | WithoutUrl | TransportInvalidUrl

definition createSecureMcpFetch :: "'e net_env \<Rightarrow> string \<Rightarrow> string option" where
  "createSecureMcpFetch env baseUrl = map_option ur_origin (ne_parse env baseUrl)"

definition http_transport :: "'e net_env \<Rightarrow> mcp_config \<Rightarrow> transport_error + transport_choice" where
  "http_transport env config = (case mc_url config of
       Some (c # s) \<Rightarrow> (case (ne_parse env (c # s), createSecureMcpFetch env (c # s)) of
           (Some u, Some allowedOrigin) \<Rightarrow> Ok (HttpTransport (mc_transport config) u allowedOrigin (mc_headers config))
         | _ \<Rightarrow> Throw TransportInvalidUrl)
     | _ \<Rightarrow> Throw WithoutUrl)"

text \<open>The variables of a server process: the default environment with the configured one on top.\<close>

definition createTransport ::
    "'e net_env \<Rightarrow> (string \<times> string) list \<Rightarrow> mcp_config \<Rightarrow> transport_error + transport_choice" where
  "createTransport env defaults config = (case mc_transport config of
       Stdio \<Rightarrow>
         if ne_vars env ''DEFT_SELF_HOSTED'' \<noteq> Some ''true'' then Throw StdioNotSelfHosted
         else (case mc_command config of
             Some (c # s) \<Rightarrow>
               if \<not> isStdioCommandAllowed env (c # s) then Throw StdioNotAllowed
               else Ok (StdioTransport (c # s) (mc_args config)
                 (map_option (\<lambda>own. fold (\<lambda>(k, v). jm_set k v) own defaults) (mc_env config)))
           | _ \<Rightarrow> Throw StdioWithoutCommand)
     | _ \<Rightarrow> http_transport env config)"

end
