(* ===== verification/TransportProperties.thy ===== *)
theory TransportProperties
  imports TransportSecurity McpClientProperties
begin

text \<open>The address policy against the list of reserved CIDR blocks, and what a request may reach.\<close>

subsection \<open>Blocks of addresses\<close>

definition addr_value :: "nat list \<Rightarrow> nat" where
  "addr_value = foldl (\<lambda>v b. 256 * v + b) 0"

text \<open>\<open>base/len\<close>: the first \<open>len\<close> bits agree.\<close>

definition in_block :: "nat list \<Rightarrow> nat list \<times> nat \<Rightarrow> bool" where
  "in_block bytes block = (let shift = 8 * length bytes - snd block in
     addr_value bytes div 2 ^ shift = addr_value (fst block) div 2 ^ shift)"

definition V4_RESERVED :: "(nat list \<times> nat) list" where
  "V4_RESERVED =
     [([0, 0, 0, 0], 8), ([10, 0, 0, 0], 8), ([127, 0, 0, 0], 8), ([100, 64, 0, 0], 10), ([169, 254, 0, 0], 16),
      ([172, 16, 0, 0], 12), ([192, 168, 0, 0], 16), ([192, 0, 0, 0], 24), ([192, 0, 2, 0], 24),
      ([192, 88, 99, 0], 24), ([198, 18, 0, 0], 15), ([198, 51, 100, 0], 24), ([203, 0, 113, 0], 24),
      ([224, 0, 0, 0], 3)]"

definition V4_PRIVATE :: "(nat list \<times> nat) list" where
  "V4_PRIVATE = [([127, 0, 0, 0], 8), ([10, 0, 0, 0], 8), ([172, 16, 0, 0], 12), ([192, 168, 0, 0], 16)]"

definition v6_base :: "nat list \<Rightarrow> nat list" where
  "v6_base prefix = prefix @ replicate (16 - length prefix) 0"

definition MAPPED :: "nat list \<times> nat" where
  "MAPPED = (v6_base (replicate 10 0 @ [255, 255]), 96)"

definition V6_RESERVED :: "(nat list \<times> nat) list" where
  "V6_RESERVED =
     [(v6_base [], 128), (replicate 15 0 @ [1], 128), (v6_base [252], 7), (v6_base [254, 192], 10),
      (v6_base [254, 128], 10), (v6_base [255], 8), (v6_base [1], 64), (v6_base [0, 100, 255, 155], 32),
      (v6_base [32, 1, 0, 0], 32), (v6_base [32, 1, 0, 2], 32), (v6_base [32, 1, 13, 184], 32),
      (v6_base [32, 2], 16)]"

definition V6_PRIVATE :: "(nat list \<times> nat) list" where
  "V6_PRIVATE = [(replicate 15 0 @ [1], 128), (v6_base [252], 7)]"

definition in_blocks :: "(nat list \<times> nat) list \<Rightarrow> (nat list \<times> nat) list \<Rightarrow> nat list \<Rightarrow> bool" where
  "in_blocks v4 v6 bytes = (if length bytes = 4 then list_ex (in_block bytes) v4
     else if in_block bytes MAPPED then list_ex (in_block (drop 12 bytes)) v4 else list_ex (in_block bytes) v6)"

text \<open>The bytes of an address in text form.\<close>

definition address_bytes :: "string \<Rightarrow> nat list option" where
  "address_bytes address = (if is_ipv4 address then ipv4Bytes address
     else if is_ipv6 address then ipv6Bytes address else None)"

definition bytes_ok :: "nat \<Rightarrow> nat list \<Rightarrow> bool" where
  "bytes_ok n bytes \<longleftrightarrow> length bytes = n \<and> (\<forall>b \<in> set bytes. b \<le> 255)"

subsection \<open>Values and prefixes\<close>

lemma addr_value_simps [simp]: "addr_value [] = 0" "addr_value (xs @ [b]) = 256 * addr_value xs + b"
  by (simp_all add: addr_value_def)

lemma addr_value_append: "addr_value (xs @ ys) = addr_value xs * 256 ^ length ys + addr_value ys"
  by (induction ys rule: rev_induct) (auto simp flip: append_assoc simp: algebra_simps)

lemma addr_value_bound: "\<forall>b \<in> set bs. b \<le> 255 \<Longrightarrow> addr_value bs < 256 ^ length bs"
  by (induction bs rule: rev_induct) auto

lemma addr_value_Cons: "addr_value (b # bs) = b * 256 ^ length bs + addr_value bs"
  using addr_value_append[of "[b]" bs] by (simp add: addr_value_def)

lemma addr_value_inj:
  "length xs = length ys \<Longrightarrow> \<forall>b \<in> set xs. b \<le> 255 \<Longrightarrow> \<forall>b \<in> set ys. b \<le> 255 \<Longrightarrow>
     addr_value xs = addr_value ys \<longleftrightarrow> xs = ys"
proof (induction xs arbitrary: ys rule: rev_induct)
  case (snoc x xs)
  then obtain zs z where ys: "ys = zs @ [z]" by (cases ys rule: rev_cases) auto
  have "x \<le> 255" "z \<le> 255" using snoc.prems ys by auto
  then have "256 * p + x = 256 * q + z \<longleftrightarrow> p = q \<and> x = z" for p q
    by (cases p q rule: linorder_cases) auto
  then show ?case using snoc ys by auto
qed simp

lemma value_prefix:
  assumes "\<forall>b \<in> set bs. b \<le> 255" "k \<le> length bs"
  shows "addr_value bs div 256 ^ (length bs - k) = addr_value (take k bs)"
proof -
  have "addr_value bs = addr_value (take k bs) * 256 ^ (length bs - k) + addr_value (drop k bs)"
    using addr_value_append[of "take k bs" "drop k bs"] by simp
  moreover have "addr_value (drop k bs) < 256 ^ (length bs - k)"
    using addr_value_bound[of "drop k bs"] assms by (auto dest: in_set_dropD)
  ultimately show ?thesis by simp
qed

lemma in_block_take:
  assumes "\<forall>b \<in> set bs. b \<le> 255" "\<forall>b \<in> set base. b \<le> 255" "length base = length bs" "k \<le> length bs" "len \<le> 8 * k"
  shows "in_block bs (base, len) \<longleftrightarrow>
    addr_value (take k bs) div 2 ^ (8 * k - len) = addr_value (take k base) div 2 ^ (8 * k - len)"
proof -
  have e: "8 * length bs - len = 8 * (length bs - k) + (8 * k - len)" using assms(4,5) by simp
  have "(2::nat) ^ (8 * length bs - len) = 256 ^ (length bs - k) * 2 ^ (8 * k - len)"
    unfolding e power_add power_mult by simp
  then show ?thesis using value_prefix[OF assms(1,4)] value_prefix[OF assms(2), of k] assms(3,4)
    by (simp add: in_block_def Let_def div_mult2_eq)
qed

lemma in_block_aligned:
  assumes "\<forall>b \<in> set bs. b \<le> 255" "\<forall>b \<in> set base. b \<le> 255" "length base = length bs" "k \<le> length bs"
  shows "in_block bs (base, 8 * k) \<longleftrightarrow> take k bs = take k base"
  using in_block_take[OF assms, of "8 * k"] assms addr_value_inj[of "take k bs" "take k base"]
  by (auto dest: in_set_takeD)

subsection \<open>The policies\<close>

lemma div_range: "0 < n \<Longrightarrow> m div n = q \<longleftrightarrow> q * n \<le> m \<and> m < (q + 1) * n" for m n q :: nat
  using less_eq_div_iff_mult_less_eq[of n q m] div_less_iff_less_mult[of n m "q + 1"] by linarith

lemma byte_range:
  fixes a b :: nat
  assumes "b \<le> 255" "h \<le> 256"
  shows "256 * A + l \<le> 256 * a + b \<and> 256 * a + b < 256 * A + h \<longleftrightarrow> a = A \<and> l \<le> b \<and> b < h"
  using assms by (cases a A rule: linorder_cases) auto

lemma short_blocks:
  fixes a b :: nat
  assumes "b \<le> 255"
  shows "(256 * a + b) div 64 = 401 \<longleftrightarrow> a = 100 \<and> 64 \<le> b \<and> b < 128"
    and "(256 * a + b) div 16 = 2753 \<longleftrightarrow> a = 172 \<and> 16 \<le> b \<and> b < 32"
    and "(256 * a + b) div 2 = 25353 \<longleftrightarrow> a = 198 \<and> 18 \<le> b \<and> b < 20"
    and "(256 * a + b) div 64 = 1019 \<longleftrightarrow> a = 254 \<and> 192 \<le> b \<and> b < 256"
    and "(256 * a + b) div 64 = 1018 \<longleftrightarrow> a = 254 \<and> 128 \<le> b \<and> b < 192"
  using byte_range[OF assms, of 128 100 64 a] byte_range[OF assms, of 32 172 16 a] byte_range[OF assms, of 20 198 18 a]
    byte_range[OF assms, of 256 254 192 a] byte_range[OF assms, of 192 254 128 a]
  by (simp_all add: div_range)

lemma closed_ranges: "b \<le> 127 \<longleftrightarrow> b < 128" "b \<le> 31 \<longleftrightarrow> b < 32" "b = 18 \<or> b = 19 \<longleftrightarrow> 18 \<le> b \<and> b < 20" for b :: nat
  by auto

lemma first_bits: "a \<le> 255 \<Longrightarrow> a div 32 = 7 \<longleftrightarrow> 224 \<le> a" "a div 2 = 126 \<longleftrightarrow> a = 252 \<or> a = 253" for a :: nat
  by (auto simp: div_range)

lemma if_not: "(if c then False else x) \<longleftrightarrow> \<not> c \<and> x"
  by simp

lemma bytes_4: "bytes_ok 4 bs \<Longrightarrow> \<exists>a b c d. bs = [a, b, c, d]"
  by (auto simp: bytes_ok_def length_Suc_conv numeral_eq_Suc)

lemma v4_blocks:
  assumes ok: "bytes_ok 4 [a, b, c, d]"
  shows "in_block [a, b, c, d] ([100, 64, 0, 0], 10) \<longleftrightarrow> a = 100 \<and> 64 \<le> b \<and> b < 128"
    and "in_block [a, b, c, d] ([172, 16, 0, 0], 12) \<longleftrightarrow> a = 172 \<and> 16 \<le> b \<and> b < 32"
    and "in_block [a, b, c, d] ([198, 18, 0, 0], 15) \<longleftrightarrow> a = 198 \<and> 18 \<le> b \<and> b < 20"
    and "in_block [a, b, c, d] ([224, 0, 0, 0], 3) \<longleftrightarrow> 224 \<le> a"
    and "x \<le> 255 \<Longrightarrow> in_block [a, b, c, d] ([x, 0, 0, 0], 8) \<longleftrightarrow> a = x"
    and "x \<le> 255 \<Longrightarrow> y \<le> 255 \<Longrightarrow> in_block [a, b, c, d] ([x, y, 0, 0], 16) \<longleftrightarrow> a = x \<and> b = y"
    and "x \<le> 255 \<Longrightarrow> y \<le> 255 \<Longrightarrow> z \<le> 255 \<Longrightarrow>
      in_block [a, b, c, d] ([x, y, z, 0], 24) \<longleftrightarrow> a = x \<and> b = y \<and> c = z"
proof -
  let ?bs = "[a, b, c, d]"
  have le: "a \<le> 255" "b \<le> 255" using ok by (auto simp: bytes_ok_def)
  have al: "in_block ?bs (base, 8 * k) \<longleftrightarrow> take k ?bs = take k base" if "bytes_ok 4 base" "k \<le> 4" for base k
    using that ok by (intro in_block_aligned) (auto simp: bytes_ok_def)
  have tk: "in_block ?bs (base, len) \<longleftrightarrow> addr_value (take k ?bs) div 2 ^ (8 * k - len) = addr_value (take k base) div 2 ^ (8 * k - len)"
    if "bytes_ok 4 base" "k \<le> 4" "len \<le> 8 * k" for base k len
    using that ok by (intro in_block_take) (auto simp: bytes_ok_def)
  show "in_block ?bs ([100, 64, 0, 0], 10) \<longleftrightarrow> a = 100 \<and> 64 \<le> b \<and> b < 128"
    "in_block ?bs ([172, 16, 0, 0], 12) \<longleftrightarrow> a = 172 \<and> 16 \<le> b \<and> b < 32"
    "in_block ?bs ([198, 18, 0, 0], 15) \<longleftrightarrow> a = 198 \<and> 18 \<le> b \<and> b < 20"
    "in_block ?bs ([224, 0, 0, 0], 3) \<longleftrightarrow> 224 \<le> a"
    using tk[of "[100, 64, 0, 0]" 2 10] tk[of "[172, 16, 0, 0]" 2 12] tk[of "[198, 18, 0, 0]" 2 15] tk[of "[224, 0, 0, 0]" 1 3]
      short_blocks[OF le(2), of a] first_bits(1)[OF le(1)] by (simp_all add: bytes_ok_def addr_value_def)
  show "x \<le> 255 \<Longrightarrow> in_block ?bs ([x, 0, 0, 0], 8) \<longleftrightarrow> a = x"
    using al[of "[x, 0, 0, 0]" 1] by (simp add: bytes_ok_def)
  show "x \<le> 255 \<Longrightarrow> y \<le> 255 \<Longrightarrow> in_block ?bs ([x, y, 0, 0], 16) \<longleftrightarrow> a = x \<and> b = y"
    using al[of "[x, y, 0, 0]" 2] by (simp add: bytes_ok_def)
  show "x \<le> 255 \<Longrightarrow> y \<le> 255 \<Longrightarrow> z \<le> 255 \<Longrightarrow> in_block ?bs ([x, y, z, 0], 24) \<longleftrightarrow> a = x \<and> b = y \<and> c = z"
    using al[of "[x, y, z, 0]" 3] by (simp add: bytes_ok_def)
qed

lemma v4_public_iff:
  assumes "bytes_ok 4 bs"
  shows "v4_public bs \<longleftrightarrow> \<not> list_ex (in_block bs) V4_RESERVED"
proof -
  obtain a b c d where bs: "bs = [a, b, c, d]" using assms bytes_4 by blast
  note blocks = v4_blocks[OF assms[unfolded bs]]
  have "list_ex (in_block bs) V4_RESERVED \<longleftrightarrow> a = 0 \<or> a = 10 \<or> a = 127 \<or> (a = 100 \<and> 64 \<le> b \<and> b < 128)
      \<or> (a = 169 \<and> b = 254) \<or> (a = 172 \<and> 16 \<le> b \<and> b < 32) \<or> (a = 192 \<and> b = 168) \<or> (a = 192 \<and> b = 0 \<and> c = 0)
      \<or> (a = 192 \<and> b = 0 \<and> c = 2) \<or> (a = 192 \<and> b = 88 \<and> c = 99) \<or> (a = 198 \<and> 18 \<le> b \<and> b < 20)
      \<or> (a = 198 \<and> b = 51 \<and> c = 100) \<or> (a = 203 \<and> b = 0 \<and> c = 113) \<or> 224 \<le> a"
    unfolding V4_RESERVED_def list_ex_Cons_iff list_ex_Nil_iff bs blocks(1-4) by (simp add: blocks(5-7))
  then show ?thesis unfolding bs v4_public.simps if_not closed_ranges by argo
qed

lemma v4_private_iff:
  assumes "bytes_ok 4 bs"
  shows "(case bs of a # b # _ \<Rightarrow> a = 127 \<or> a = 10 \<or> (a = 172 \<and> 16 \<le> b \<and> b \<le> 31) \<or> (a = 192 \<and> b = 168) | _ \<Rightarrow> False)
    \<longleftrightarrow> list_ex (in_block bs) V4_PRIVATE"
proof -
  obtain a b c d where bs: "bs = [a, b, c, d]" using assms bytes_4 by blast
  note blocks = v4_blocks[OF assms[unfolded bs]]
  show ?thesis unfolding V4_PRIVATE_def list_ex_Cons_iff list_ex_Nil_iff bs blocks(2)
    by (simp add: blocks(5,6)) auto
qed

lemma and_double: "b AND (2 * m) = 2 * ((b div 2) AND m)" for b m :: nat
  by (subst and_rec) simp

lemma and_mask: "b AND (2 ^ n - 1) = b mod 2 ^ n" for b :: nat
  using take_bit_eq_mask[of n b] by (simp add: take_bit_eq_mod mask_eq_exp_minus_1)

lemma byte_masks:
  fixes b :: nat
  assumes "b \<le> 255"
  shows "b AND 254 = 252 \<longleftrightarrow> b = 252 \<or> b = 253" and "b AND 192 = 192 \<longleftrightarrow> 192 \<le> b \<and> b < 256"
    and "b AND 192 = 128 \<longleftrightarrow> 128 \<le> b \<and> b < 192"
proof -
  have "b AND 254 = 2 * (b div 2)" using and_double[of b 127] and_mask[of "b div 2" 7] assms by simp
  then show "b AND 254 = 252 \<longleftrightarrow> b = 252 \<or> b = 253" using div_range[of 2 b 126] by auto
  have "b div 64 < 4" using assms by simp
  then have "b div 64 mod 4 = b div 64" by (rule mod_less)
  then have "b AND 192 = 64 * (b div 64)"
    using and_double[of b 96] and_double[of "b div 2" 48] and_double[of "b div 4" 24] and_double[of "b div 8" 12]
      and_double[of "b div 16" 6] and_double[of "b div 32" 3] and_mask[of "b div 64" 2] assms
    by (simp flip: div_mult2_eq)
  then show "b AND 192 = 192 \<longleftrightarrow> 192 \<le> b \<and> b < 256" "b AND 192 = 128 \<longleftrightarrow> 128 \<le> b \<and> b < 192"
    using div_range[of 64 b 3] div_range[of 64 b 2] by auto
qed

lemma length_16: "length bs = 16 \<Longrightarrow> \<exists>a b c d e f g h i j k l m n p q. bs = [a, b, c, d, e, f, g, h, i, j, k, l, m, n, p, q]"
  by (auto simp: length_Suc_conv eval_nat_numeral)

lemma mapped_iff:
  assumes "bytes_ok 16 bs"
  shows "in_block bs MAPPED \<longleftrightarrow> is_mapped bs"
proof -
  obtain a b c d e f g h i j k l m n p q where bs: "bs = [a, b, c, d, e, f, g, h, i, j, k, l, m, n, p, q]"
    using length_16[of bs] assms unfolding bytes_ok_def by blast
  have "in_block bs (v6_base (replicate 10 0 @ [255, 255]), 8 * 12) \<longleftrightarrow>
      take 12 bs = take 12 (v6_base (replicate 10 0 @ [255, 255]))"
    using assms by (intro in_block_aligned) (auto simp: bytes_ok_def v6_base_def)
  then show ?thesis by (simp add: MAPPED_def is_mapped_def bs v6_base_def eval_nat_numeral)
qed

lemma v6_base_ok: "length p \<le> 16 \<Longrightarrow> \<forall>b \<in> set p. b \<le> 255 \<Longrightarrow> bytes_ok 16 (v6_base p)"
  by (auto simp: bytes_ok_def v6_base_def)

lemma v6_aligned:
  "bytes_ok 16 bs \<Longrightarrow> bytes_ok 16 base \<Longrightarrow> k \<le> 16 \<Longrightarrow> in_block bs (base, 8 * k) \<longleftrightarrow> take k bs = take k base"
  by (intro in_block_aligned) (auto simp: bytes_ok_def)

lemma v6_blocks:
  assumes ok: "bytes_ok 16 bs"
  shows "in_block bs (v6_base [252], 7) \<longleftrightarrow> bs ! 0 AND 254 = 252"
    and "in_block bs (v6_base [254, 192], 10) \<longleftrightarrow> bs ! 0 = 254 \<and> bs ! 1 AND 192 = 192"
    and "in_block bs (v6_base [254, 128], 10) \<longleftrightarrow> bs ! 0 = 254 \<and> bs ! 1 AND 192 = 128"
    and "in_block bs (v6_base [], 128) \<longleftrightarrow> list_all (\<lambda>b. b = 0) bs"
    and "in_block bs (replicate 15 0 @ [1], 128) \<longleftrightarrow> is_loopback6 bs"
proof -
  obtain a b c d e f g h i j k l m n p q where bs: "bs = [a, b, c, d, e, f, g, h, i, j, k, l, m, n, p, q]"
    using length_16[of bs] assms unfolding bytes_ok_def by blast
  have le: "a \<le> 255" "b \<le> 255" using ok by (auto simp: bytes_ok_def bs)
  have tk: "in_block bs (base, len) \<longleftrightarrow> addr_value (take k bs) div 2 ^ (8 * k - len) = addr_value (take k base) div 2 ^ (8 * k - len)"
    if "bytes_ok 16 base" "k \<le> 16" "len \<le> 8 * k" for base k len
    using that ok by (intro in_block_take) (auto simp: bytes_ok_def)
  show "in_block bs (v6_base [252], 7) \<longleftrightarrow> bs ! 0 AND 254 = 252"
    "in_block bs (v6_base [254, 192], 10) \<longleftrightarrow> bs ! 0 = 254 \<and> bs ! 1 AND 192 = 192"
    "in_block bs (v6_base [254, 128], 10) \<longleftrightarrow> bs ! 0 = 254 \<and> bs ! 1 AND 192 = 128"
    using tk[OF v6_base_ok[of "[252]"], of 1 7] tk[OF v6_base_ok[of "[254, 192]"], of 2 10]
      tk[OF v6_base_ok[of "[254, 128]"], of 2 10]
      short_blocks(4,5)[OF le(2), of a] first_bits(2)[of a] byte_masks[OF le(1)] byte_masks[OF le(2)]
    by (simp_all add: bs addr_value_def v6_base_def)
  show "in_block bs (v6_base [], 128) \<longleftrightarrow> list_all (\<lambda>b. b = 0) bs"
    "in_block bs (replicate 15 0 @ [1], 128) \<longleftrightarrow> is_loopback6 bs"
    using v6_aligned[OF ok v6_base_ok[of "[]"], of 16] v6_aligned[OF ok, of "replicate 15 0 @ [1]" 16]
    by (simp_all add: bs v6_base_def is_loopback6_def bytes_ok_def eval_nat_numeral)
qed

lemma v6_public_iff:
  assumes ok: "bytes_ok 16 bs"
  shows "\<not> list_all (\<lambda>b. b = 0) bs \<and> \<not> is_loopback6 bs \<and> v6_public bs \<longleftrightarrow> \<not> list_ex (in_block bs) V6_RESERVED"
proof -
  obtain a b c d e f g h i j k l m n p q where bs: "bs = [a, b, c, d, e, f, g, h, i, j, k, l, m, n, p, q]"
    using length_16[of bs] assms unfolding bytes_ok_def by blast
  have prefix: "in_block bs (v6_base [255], 8) \<longleftrightarrow> a = 255" "in_block bs (v6_base [32, 2], 16) \<longleftrightarrow> a = 32 \<and> b = 2"
    using v6_aligned[OF ok v6_base_ok[of "[255]"], of 1] v6_aligned[OF ok v6_base_ok[of "[32, 2]"], of 2]
    by (simp_all add: bs v6_base_def)
  have discard: "in_block bs (v6_base [1], 64) \<longleftrightarrow> a = 1 \<and> list_all (\<lambda>b. b = 0) (take 7 (drop 1 bs))"
    using v6_aligned[OF ok v6_base_ok[of "[1]"], of 8] by (simp add: bs v6_base_def eval_nat_numeral)
  have four: "in_block bs (v6_base [w, x, y, z], 32) \<longleftrightarrow> a = w \<and> b = x \<and> c = y \<and> d = z"
    if "w \<le> 255" "x \<le> 255" "y \<le> 255" "z \<le> 255" for w x y z
    using v6_aligned[OF ok v6_base_ok[of "[w, x, y, z]"], of 4] that by (simp add: bs v6_base_def)
  have nths: "bs ! 0 = a" "bs ! 1 = b" "bs ! 2 = c" "bs ! 3 = d" by (simp_all add: bs)
  have "list_ex (in_block bs) V6_RESERVED \<longleftrightarrow> list_all (\<lambda>b. b = 0) bs \<or> is_loopback6 bs \<or> a AND 254 = 252
      \<or> (a = 254 \<and> b AND 192 = 192) \<or> (a = 254 \<and> b AND 192 = 128) \<or> a = 255
      \<or> (a = 1 \<and> list_all (\<lambda>b. b = 0) (take 7 (drop 1 bs))) \<or> (a = 0 \<and> b = 100 \<and> c = 255 \<and> d = 155)
      \<or> (a = 32 \<and> b = 1 \<and> c = 0 \<and> d = 0) \<or> (a = 32 \<and> b = 1 \<and> c = 0 \<and> d = 2)
      \<or> (a = 32 \<and> b = 1 \<and> c = 13 \<and> d = 184) \<or> (a = 32 \<and> b = 2)"
    unfolding V6_RESERVED_def list_ex_Cons_iff list_ex_Nil_iff v6_blocks[OF ok] prefix discard nths by (simp add: four)
  then show ?thesis unfolding v6_public_def if_not nths by (simp only: de_Morgan_disj simp_thms conj_assoc)
qed

subsection \<open>Text\<close>

lemma digit_facts:
  assumes "js_is_digit c"
  shows "\<not> js_is_space c" "c \<noteq> CHR ''-''" "c \<noteq> CHR ''+''" "c \<noteq> CHR ''x''" "c \<noteq> CHR ''X''" "c \<noteq> CHR ''o''"
    "c \<noteq> CHR ''O''" "c \<noteq> CHR ''b''" "c \<noteq> CHR ''B''"
  using assms by (auto simp: js_is_digit_def js_is_space_def code_unit_def)

lemma js_trim_digits: "list_all js_is_digit s \<Longrightarrow> js_trim s = s"
proof -
  have d: "list_all js_is_digit t \<Longrightarrow> dropWhile js_is_space t = t" for t by (cases t) (auto simp: digit_facts)
  then show "list_all js_is_digit s \<Longrightarrow> js_trim s = s"
    using d[of s] d[of "rev s"] by (simp add: js_trim_def js_trim_start_def js_trim_end_def)
qed

lemma js_number_digits:
  assumes "list_all js_is_digit s" "s \<noteq> []"
  shows "js_number_text s = Some (of_nat (digits_value s))"
proof -
  have t: "takeWhile js_is_digit s = s" "dropWhile js_is_digit s = []"
    using assms(1) by (auto simp: list_all_iff takeWhile_eq_all_conv dropWhile_eq_Nil_conv)
  then have "decimal_literal s = Some (of_nat (digits_value s))"
    using assms(2) by (simp add: decimal_literal_def exponent_value_def Let_def t digits_value_def[of "[]"])
  moreover have "\<not> js_starts_with s (c # d)" if "\<not> js_is_digit c" for c d
    using assms that by (cases s) auto
  moreover have "\<not> js_starts_with s (c # d # e)" if "\<not> js_is_digit d" for c d e
    using assms that by (cases s rule: remdups_adj.cases) auto
  ultimately show ?thesis using assms
    by (simp add: js_number_text_def js_trim_digits Let_def js_is_digit_def code_unit_def)
qed

lemma dec_octet_byte: "dec_octet p \<Longrightarrow> js_byte p = Some (digits_value p)"
proof -
  assume d: "dec_octet p"
  then have "p \<noteq> []" by (metis dec_octet_def nat_to_string_not_Nil)
  then have "js_number_text p = Some (of_nat (digits_value p))" using d js_number_digits by (simp add: dec_octet_def)
  moreover have "(of_nat (digits_value p) :: rat) \<le> 255" using d
    by (metis dec_octet_def of_nat_le_iff of_nat_numeral)
  ultimately show "js_byte p = Some (digits_value p)" by (simp add: js_byte_def)
qed

lemma all_some_octets: "list_all dec_octet ps \<Longrightarrow> all_some (map js_byte ps) = Some (map digits_value ps)"
  by (induction ps) (simp_all add: dec_octet_byte)

lemma ipv4Bytes_total: "is_ipv4 a \<Longrightarrow> ipv4Bytes a = Some (map digits_value (js_split (CHR ''.'') a))"
  by (simp add: ipv4Bytes_def is_ipv4_def Let_def all_some_octets)

lemma ipv4Bytes_dotted:
  assumes "bytes_ok 4 bs"
  shows "is_ipv4 (dotted bs)" "ipv4Bytes (dotted bs) = Some bs"
proof -
  have "bs \<noteq> []" using assms by (auto simp: bytes_ok_def)
  moreover show i: "is_ipv4 (dotted bs)" using assms dotted_is_ipv4 by (simp add: bytes_ok_def)
  ultimately show "ipv4Bytes (dotted bs) = Some bs"
    by (simp add: ipv4Bytes_total split_dotted digits_value_nat_to_string comp_def)
qed

lemma public4: "is_ipv4 a \<Longrightarrow> isPublicNetworkAddress a \<longleftrightarrow> (case ipv4Bytes a of None \<Rightarrow> False
    | Some bs \<Rightarrow> \<not> list_ex (in_block bs) V4_RESERVED)"
  using ipv4Bytes_bounds v4_public_iff
  by (subst isPublicNetworkAddress.simps) (auto simp: isIP_def bytes_ok_def split: option.split)

lemma mapped_not_zero:
  assumes "is_mapped bs" "length bs = 16"
  shows "\<not> list_all (\<lambda>b. b = 0) bs \<and> \<not> is_loopback6 bs"
proof -
  have b: "bs ! 10 = 255" using assms(1) by (simp add: is_mapped_def)
  have "255 \<in> set bs" "255 \<in> set (take 15 bs)"
    using nth_mem[of 10 bs] nth_mem[of 10 "take 15 bs"] b assms(2) by simp_all
  moreover have "255 \<in> set xs \<Longrightarrow> \<not> list_all (\<lambda>b. b = 0) xs" for xs :: "nat list" by (induction xs) auto
  ultimately show ?thesis by (simp add: is_loopback6_def)
qed

lemma public_iff:
  "isPublicNetworkAddress address \<longleftrightarrow> (case address_bytes address of
      None \<Rightarrow> False | Some bytes \<Rightarrow> \<not> in_blocks V4_RESERVED V6_RESERVED bytes)"
proof (cases "is_ipv4 address")
  case True
  then show ?thesis using ipv4Bytes_bounds[of address]
    by (auto simp: public4 address_bytes_def in_blocks_def split: option.split)
next
  case False
  show ?thesis
  proof (cases "is_ipv6 address \<and> ipv6Bytes address \<noteq> None")
    case True
    then obtain bs where bs: "ipv6Bytes address = Some bs" "is_ipv6 address" by auto
    then have ok: "bytes_ok 16 bs" using ipv6Bytes_bounds by (simp add: bytes_ok_def)
    then have ok4: "bytes_ok 4 (drop 12 bs)" by (auto simp: bytes_ok_def dest: in_set_dropD)
    have "isPublicNetworkAddress address \<longleftrightarrow> \<not> list_all (\<lambda>b. b = 0) bs \<and> \<not> is_loopback6 bs \<and>
        (if is_mapped bs then isPublicNetworkAddress (dotted (drop 12 bs)) else v6_public bs)"
      by (subst isPublicNetworkAddress.simps) (simp add: isIP_def False bs)
    moreover have "is_mapped bs \<Longrightarrow> \<not> list_all (\<lambda>b. b = 0) bs \<and> \<not> is_loopback6 bs"
      using mapped_not_zero ok by (simp add: bytes_ok_def)
    moreover have "isPublicNetworkAddress (dotted (drop 12 bs)) \<longleftrightarrow> \<not> list_ex (in_block (drop 12 bs)) V4_RESERVED"
      by (simp add: public4 ipv4Bytes_dotted[OF ok4])
    ultimately show ?thesis using v6_public_iff[OF ok] mapped_iff[OF ok] ok False bs
      by (auto simp: address_bytes_def in_blocks_def bytes_ok_def)
  next
    case other: False
    then show ?thesis using False
      by (subst isPublicNetworkAddress.simps) (auto simp: isIP_def address_bytes_def)
  qed
qed

text \<open>The exception for a self-hosted server, in the same terms.\<close>

lemma private4: "is_ipv4 a \<Longrightarrow> isAllowedSelfHostedPrivateAddress a \<longleftrightarrow> (case ipv4Bytes a of None \<Rightarrow> False
    | Some bs \<Rightarrow> list_ex (in_block bs) V4_PRIVATE)"
  using ipv4Bytes_bounds v4_private_iff
  by (subst isAllowedSelfHostedPrivateAddress.simps) (auto simp: isIP_def bytes_ok_def split: option.split)

lemma private_iff:
  "isAllowedSelfHostedPrivateAddress address \<longleftrightarrow> (case address_bytes address of
      None \<Rightarrow> False | Some bytes \<Rightarrow> in_blocks V4_PRIVATE V6_PRIVATE bytes)"
proof (cases "is_ipv4 address")
  case True
  then show ?thesis using ipv4Bytes_bounds[of address]
    by (auto simp: private4 address_bytes_def in_blocks_def split: option.split)
next
  case False
  show ?thesis
  proof (cases "is_ipv6 address \<and> ipv6Bytes address \<noteq> None")
    case True
    then obtain bs where bs: "ipv6Bytes address = Some bs" "is_ipv6 address" by auto
    then have ok: "bytes_ok 16 bs" using ipv6Bytes_bounds by (simp add: bytes_ok_def)
    then have ok4: "bytes_ok 4 (drop 12 bs)" by (auto simp: bytes_ok_def dest: in_set_dropD)
    have "isAllowedSelfHostedPrivateAddress address \<longleftrightarrow> is_loopback6 bs \<or> bs ! 0 AND 254 = 252 \<or>
        (is_mapped bs \<and> isAllowedSelfHostedPrivateAddress (dotted (drop 12 bs)))"
      by (subst isAllowedSelfHostedPrivateAddress.simps) (simp add: isIP_def False bs)
    moreover have "is_mapped bs \<Longrightarrow> \<not> is_loopback6 bs" using mapped_not_zero ok by (simp add: bytes_ok_def)
    moreover have "is_mapped bs \<Longrightarrow> bs ! 0 = 0" using ok
      by (auto simp: is_mapped_def bytes_ok_def list_all_length dest: spec[of _ 0])
    moreover have "isAllowedSelfHostedPrivateAddress (dotted (drop 12 bs)) \<longleftrightarrow> list_ex (in_block (drop 12 bs)) V4_PRIVATE"
      by (simp add: private4 ipv4Bytes_dotted[OF ok4])
    ultimately show ?thesis using v6_blocks(1,5)[OF ok] mapped_iff[OF ok] ok False bs
      by (auto simp: address_bytes_def in_blocks_def bytes_ok_def V6_PRIVATE_def)
  next
    case other: False
    then show ?thesis using False
      by (subst isAllowedSelfHostedPrivateAddress.simps) (auto simp: isIP_def address_bytes_def)
  qed
qed

text \<open>C40. An address is public exactly when it parses and lies in none of the reserved blocks, an IPv4
  address mapped into IPv6 being judged by the IPv4 blocks.\<close>
theorem public_iff_in_no_reserved_block:
  "isPublicNetworkAddress address \<longleftrightarrow> (case address_bytes address of
      None \<Rightarrow> False | Some bytes \<Rightarrow> \<not> in_blocks V4_RESERVED V6_RESERVED bytes)"
  by (rule public_iff)

subsection \<open>What a request may reach\<close>

definition reachable_address :: "'e net_env \<Rightarrow> string \<Rightarrow> string \<Rightarrow> bool" where
  "reachable_address env origin address \<longleftrightarrow> (case address_bytes address of
       None \<Rightarrow> False
     | Some bytes \<Rightarrow> \<not> in_blocks V4_RESERVED V6_RESERVED bytes
         \<or> (origin \<in> set (privateOriginAllowlist env) \<and> in_blocks V4_PRIVATE V6_PRIVATE bytes))"

lemma unsafe_iff:
  "(b \<Longrightarrow> origin \<in> set (privateOriginAllowlist env)) \<Longrightarrow> \<not> unsafe_address b address \<Longrightarrow> reachable_address env origin address"
  by (auto simp: unsafe_address_def reachable_address_def public_iff private_iff split: option.splits)

lemma check_addresses_Ok:
  "check_addresses b xs = Inr p \<Longrightarrow> p \<in> set xs \<and> \<not> isNeverAllowedMetadataAddress (fst p) \<and> \<not> unsafe_address b (fst p)"
  by (auto simp: check_addresses_def list_ex_iff find_None_iff split: list.splits if_splits)

lemma resolve_Ok:
  assumes "resolvePinnedAddress env u ext = (Inr p, ext')"
  shows "\<not> isNeverAllowedMetadataAddress (fst p)" "reachable_address env (ur_origin u) (fst p)"
proof -
  let ?b = "ur_origin u \<in> set (privateOriginAllowlist env) \<and> \<not> isMetadataTarget (normalizeHostname (ur_hostname u))"
  obtain xs where "check_addresses ?b xs = Inr p"
    using assms by (auto simp: resolvePinnedAddress_def Let_def split: if_splits prod.splits sum.splits)
  note c = check_addresses_Ok[OF this]
  then show "\<not> isNeverAllowedMetadataAddress (fst p)" by blast
  show "reachable_address env (ur_origin u) (fst p)" by (rule unsafe_iff[of ?b]) (use c in blast)+
qed

text \<open>Where an address comes from: the host of the URL itself when it is written as an address, and otherwise one
  of the answers of a lookup of that host.\<close>

definition address_of_host :: "'e net_env \<Rightarrow> string \<Rightarrow> string \<times> nat \<Rightarrow> bool" where
  "address_of_host env hostname p \<longleftrightarrow> (if isIP hostname \<noteq> 0 then p = (hostname, isIP hostname)
     else \<exists>ext ext' answers. ne_lookup env hostname ext = (Inr answers, ext') \<and> p \<in> set answers)"

lemma resolve_address:
  assumes "resolvePinnedAddress env u ext = (Inr p, ext')"
  shows "address_of_host env (normalizeHostname (ur_hostname u)) p"
  using assms
  by (auto simp: resolvePinnedAddress_def address_of_host_def Let_def dest: check_addresses_Ok
      split: if_splits prod.splits sum.splits)

lemma set_jm_set: "x \<in> set (jm_set k v m) \<Longrightarrow> x = (k, v) \<or> x \<in> set m"
  by (induction m) (auto split: if_splits)

definition in_bounds :: "'e net_env \<Rightarrow> string \<Rightarrow> fetch_request \<Rightarrow> outgoing \<Rightarrow> bool" where
  "in_bounds env allowedOrigin request og \<longleftrightarrow> (\<exists>u. ne_parse env (rq_url request) = Some u \<and> ur_origin u = allowedOrigin
     \<and> \<not> isMetadataTarget (ur_hostname u) \<and> \<not> isNeverAllowedMetadataAddress (og_address og)
     \<and> reachable_address env allowedOrigin (og_address og)
     \<and> address_of_host env (normalizeHostname (ur_hostname u)) (og_address og, og_family og)
     \<and> og_protocol og = ur_protocol u
     \<and> og_port og = (if ur_port u = [] then None else Some (ur_port u))
     \<and> og_path og = ur_path u @ ur_search u
     \<and> og_servername og = (if ur_protocol u = ''https:'' then Some (ur_hostname u) else None)
     \<and> og_method og = rq_method request \<and> og_body og = rq_body request
     \<and> (ur_protocol u = ''https:'' \<or> allowedOrigin \<in> set (privateOriginAllowlist env))
     \<and> map_of (og_headers og) ''host'' = Some (ur_host u)
     \<and> (\<forall>(name, v) \<in> set (og_headers og). name = ''host'' \<or> forwarded_header name))"

lemma outgoing_in_bounds:
  assumes "ne_parse env (rq_url request) = Some u" "validateMcpHttpUrl env u = None"
    and "resolvePinnedAddress env u ext = (Inr p, ext')"
  shows "in_bounds env (ur_origin u) request (outgoing_request request u p)"
proof -
  have "\<not> isMetadataTarget (ur_hostname u)" "ur_protocol u = ''https:'' \<or> ur_origin u \<in> set (privateOriginAllowlist env)"
    using assms(2) by (auto simp: validateMcpHttpUrl_def split: if_splits)
  moreover have "\<forall>(name, v) \<in> set (og_headers (outgoing_request request u p)). name = ''host'' \<or> forwarded_header name"
    by (auto simp: outgoing_request_def dest!: set_jm_set)
  ultimately show ?thesis using assms(1) resolve_Ok[OF assms(3)] resolve_address[OF assms(3)]
    by (auto simp: in_bounds_def outgoing_request_def)
qed

text \<open>C39. The guarded fetch sends at most one request, and only one to the transport's own origin, over https
  unless the operator listed that origin, to an address outside every reserved block (or a private
  one of a listed origin), never to an address or host on the metadata list, with the URL's own host
  header and none of the hop-by-hop, forwarding or override headers of the caller. The address is the
  host of the URL or one that a lookup of that host gave, and the port, the path with its query and,
  over https, the server name are those of the URL.\<close>
theorem secure_fetch_stays_in_bounds:
  "\<exists>sent. nw_sent (snd (secureMcpFetchForOrigin env allowedOrigin request w)) = nw_sent w @ sent \<and> length sent \<le> 1
     \<and> list_all (in_bounds env allowedOrigin request) sent"
  using outgoing_in_bounds[of env request]
  by (auto simp: secureMcpFetchForOrigin_def Let_def split: option.splits if_splits prod.splits sum.splits)

text \<open>A redirect is an error for every request and every answer.\<close>

lemma redirects_are_refused:
  "300 \<le> or_status (ic_status i) 0 \<Longrightarrow> or_status (ic_status i) 0 < 400 \<Longrightarrow> fetch_answer request i = Throw RedirectRefused"
  by (simp add: fetch_answer_def)

subsection \<open>Gaps\<close>

text \<open>The metadata list is compared as text, and only its IPv6 entries byte by byte: an IPv4 entry mapped into
  IPv6 is not found, and two of them are not in a reserved block either.\<close>

lemma sample_words:
  "hex_word ''ffff'' = Some 65535" "hex_word ''a83f'' = Some 43071" "hex_word ''8110'' = Some 33040"
  "hex_word ''7f00'' = Some 32512" "hex_word ''1'' = Some 1" "hex_word ''fd00'' = Some 64768"
  "hex_word ''ec2'' = Some 3778" "hex_word ''23'' = Some 35" "hex_word ''254'' = Some 596"
  by (simp_all add: hex_word_def hex_lower_def hex_digit_def js_is_digit_def code_unit_def)

lemma sample_halves:
  "parseHalf ''ffff:a83f:8110'' = Some [65535, 43071, 33040]" "parseHalf ''7f00:1'' = Some [32512, 1]"
  "parseHalf ''fd00:ec2'' = Some [64768, 3778]" "parseHalf ''23'' = Some [35]" "parseHalf ''254'' = Some [596]"
  "parseHalf [] = Some []"
  by (simp_all add: parseHalf_def sample_words)

lemma sample_split:
  "js_split_str ''::'' (hd (js_split (CHR ''%'') (js_lower ''::ffff:a83f:8110''))) = [[], ''ffff:a83f:8110'']"
  "js_split_str ''::'' (hd (js_split (CHR ''%'') (js_lower ''::7f00:1''))) = [[], ''7f00:1'']"
  "js_split_str ''::'' (hd (js_split (CHR ''%'') (js_lower ''fd00:ec2::23''))) = [''fd00:ec2'', ''23'']"
  "js_split_str ''::'' (hd (js_split (CHR ''%'') (js_lower ''fd00:ec2::254''))) = [''fd00:ec2'', ''254'']"
  by code_simp+

lemma sample_zeros: "replicate 5 (0::nat) = [0, 0, 0, 0, 0]" "replicate 6 (0::nat) = [0, 0, 0, 0, 0, 0]"
  by code_simp+

lemma sample_bytes:
  "ipv6Bytes ''::ffff:a83f:8110'' = Some [0, 0, 0, 0, 0, 0, 0, 0, 0, 0, 255, 255, 168, 63, 129, 16]"
  "ipv6Bytes ''::7f00:1'' = Some [0, 0, 0, 0, 0, 0, 0, 0, 0, 0, 0, 0, 127, 0, 0, 1]"
  "ipv6Bytes ''fd00:ec2::23'' = Some [253, 0, 14, 194, 0, 0, 0, 0, 0, 0, 0, 0, 0, 0, 0, 35]"
  "ipv6Bytes ''fd00:ec2::254'' = Some [253, 0, 14, 194, 0, 0, 0, 0, 0, 0, 0, 0, 0, 0, 2, 84]"
  unfolding ipv6Bytes_def Let_def sample_split
  by (simp_all add: sample_halves sample_zeros word_bytes_eq)

lemma sample_families:
  "is_ipv6 ''::ffff:a83f:8110''" "is_ipv6 ''::7f00:1''" "\<not> is_ipv4 ''::ffff:a83f:8110''" "\<not> is_ipv4 ''::7f00:1''"
  by code_simp+

lemma sample_hosts:
  "normalizeHostname ''[::ffff:a83f:8110]'' = ''::ffff:a83f:8110''"
  "normalizeHostname ''::ffff:a83f:8110'' = ''::ffff:a83f:8110''"
  "normalizeHostname ''168.63.129.16'' = ''168.63.129.16''"
  "\<not> list_ex (\<lambda>suffix. js_ends_with ''::ffff:a83f:8110'' suffix) BLOCKED_HOST_SUFFIXES"
  by code_simp+

lemma mapped_is_public: "isPublicNetworkAddress ''::ffff:a83f:8110''"
proof -
  let ?bs = "[0, 0, 0, 0, 0, 0, 0, 0, 0, 0, 255, 255, 168, 63, 129, 16] :: nat list"
  have "\<not> list_ex (in_block [168, 63, 129, 16]) V4_RESERVED"
    using v4_public_iff[of "[168, 63, 129, 16]"] by (simp add: bytes_ok_def)
  moreover have "in_block ?bs MAPPED" by (subst mapped_iff) (simp_all add: bytes_ok_def is_mapped_def)
  ultimately show ?thesis
    by (simp add: public_iff address_bytes_def sample_families sample_bytes in_blocks_def)
qed

lemma mapped_metadata_address_is_accepted:
  "isNeverAllowedMetadataAddress ''168.63.129.16''"
  "drop 12 (the (ipv6Bytes ''::ffff:a83f:8110'')) = [168, 63, 129, 16]"
  "\<not> isNeverAllowedMetadataAddress ''::ffff:a83f:8110''"
  "validateMcpHttpHostname ''[::ffff:a83f:8110]'' = None"
proof -
  show "isNeverAllowedMetadataAddress ''168.63.129.16''"
    by (simp add: isNeverAllowedMetadataAddress_def sample_hosts NEVER_ALLOWED_METADATA_ADDRESSES_def)
  show "drop 12 (the (ipv6Bytes ''::ffff:a83f:8110'')) = [168, 63, 129, 16]" by (simp add: sample_bytes)
  show m: "\<not> isNeverAllowedMetadataAddress ''::ffff:a83f:8110''"
    by (simp add: isNeverAllowedMetadataAddress_def sample_hosts NEVER_ALLOWED_METADATA_ADDRESSES_def sample_bytes)
  then have "\<not> isMetadataTarget ''::ffff:a83f:8110''"
    by (simp add: isMetadataTarget_def sample_hosts METADATA_HOSTNAMES_def Let_def)
  then show "validateMcpHttpHostname ''[::ffff:a83f:8110]'' = None"
    by (simp add: validateMcpHttpHostname_def sample_hosts mapped_is_public Let_def)
qed

text \<open>A request that is sent: the name of the server resolves to that address.\<close>

definition sample_url :: url where
  "sample_url = \<lparr>ur_protocol = ''https:'', ur_hostname = ''mcp.example'', ur_origin = ''https://mcp.example'',
     ur_host = ''mcp.example'', ur_port = [], ur_path = ''/mcp'', ur_search = []\<rparr>"

definition sample_net :: "unit net_env" where
  "sample_net = \<lparr>ne_vars = (\<lambda>v. None), ne_parse = (\<lambda>s. Some sample_url),
     ne_lookup = (\<lambda>h e. (Ok [(''::ffff:a83f:8110'', 6)], e)),
     ne_send = (\<lambda>og e. (Ok \<lparr>ic_status = Some 200, ic_message = None, ic_headers = [], ic_body = []\<rparr>, e))\<rparr>"

definition sample_fetch :: fetch_request where
  "sample_fetch = \<lparr>rq_url = [], rq_method = ''POST'', rq_headers = [(''x-forwarded-for'', ''a''), (''accept'', ''b'')],
     rq_body = None, rq_aborted = False\<rparr>"

lemma sample_host:
  "normalizeHostname ''mcp.example'' = ''mcp.example''" "\<not> is_ipv4 ''mcp.example''" "\<not> is_ipv6 ''mcp.example''"
  "\<not> list_ex (\<lambda>suffix. js_ends_with ''mcp.example'' suffix) BLOCKED_HOST_SUFFIXES"
  "forwarded_header ''accept''" "\<not> forwarded_header ''x-forwarded-for''"
  by code_simp+

lemma metadata_address_is_reached:
  "map (\<lambda>og. (og_address og, og_headers og))
      (nw_sent (snd (secureMcpFetchForOrigin sample_net ''https://mcp.example'' sample_fetch \<lparr>nw_sent = [], nw_ext = ()\<rparr>)))
   = [(''::ffff:a83f:8110'', [(''accept'', ''b''), (''host'', ''mcp.example'')])]"
proof -
  have m: "\<not> isMetadataTarget ''mcp.example''"
    by (simp add: isMetadataTarget_def sample_host METADATA_HOSTNAMES_def isIP_def)
  have v: "validateMcpHttpHostname ''mcp.example'' = None"
    by (simp add: validateMcpHttpHostname_def sample_host m isIP_def)
  show ?thesis
    by (simp add: secureMcpFetchForOrigin_def sample_net_def sample_url_def sample_fetch_def validateMcpHttpUrl_def m v
        privateOriginAllowlist_def resolvePinnedAddress_def sample_host isIP_def check_addresses_def unsafe_address_def
        mapped_is_public mapped_metadata_address_is_accepted(3) outgoing_request_def)
qed

text \<open>The deprecated IPv4-compatible form of the loopback address counts as public.\<close>

lemma compatible_loopback_is_public: "isPublicNetworkAddress ''::7f00:1''"
proof -
  let ?bs = "[0, 0, 0, 0, 0, 0, 0, 0, 0, 0, 0, 0, 127, 0, 0, 1] :: nat list"
  have ok: "bytes_ok 16 ?bs" by (simp add: bytes_ok_def)
  have "\<not> list_ex (in_block ?bs) V6_RESERVED"
    using v6_public_iff[OF ok] by (simp add: v6_public_def is_loopback6_def)
  moreover have "\<not> in_block ?bs MAPPED" using mapped_iff[OF ok] by (simp add: is_mapped_def)
  ultimately show ?thesis
    by (simp add: public_iff address_bytes_def sample_families sample_bytes in_blocks_def)
qed

end
