(* ===== verification/ModuleSchema.thy ===== *)
theory ModuleSchema
  imports ActionGraph
begin

text \<open>
  The data contract of modules (packages/shared/src/modules.ts): the fields a manifest declares, the
  check of one value against its field and the validation of a whole record.

  A manifest is the parsed one: the shape of its JSON (which keys it has and the types of their
  values) is given by the records below, the rules beyond the shape by \<open>manifest_valid\<close> in
  theory ModuleManifest.  The URL parser and the digits of a number are arguments.
\<close>

subsection \<open>Limits\<close>

datatype module_limit =
    Manifest_bytes | Module_id_chars | Module_slug_chars | Display_name_chars | Description_chars
  | Icon_token_chars | Collections_per_module | Collection_key_chars | Fields_per_collection
  | Field_key_chars | Select_options_per_field | Relation_values_per_field | Tags_per_field
  | Tag_value_chars | Views_per_collection | Fields_per_view | Search_fields_per_collection
  | Search_subtitle_fields | Record_bytes | Text_value_chars | Long_text_value_chars
  | Email_value_chars | Url_value_chars | Search_title_chars | Search_subtitle_chars
  | Search_text_chars | Operation_page_size

fun MODULE_LIMITS :: "module_limit \<Rightarrow> nat" where
  "MODULE_LIMITS Manifest_bytes = 128 * 1024"
| "MODULE_LIMITS Module_id_chars = 128"
| "MODULE_LIMITS Module_slug_chars = 48"
| "MODULE_LIMITS Display_name_chars = 80"
| "MODULE_LIMITS Description_chars = 500"
| "MODULE_LIMITS Icon_token_chars = 48"
| "MODULE_LIMITS Collections_per_module = 8"
| "MODULE_LIMITS Collection_key_chars = 48"
| "MODULE_LIMITS Fields_per_collection = 64"
| "MODULE_LIMITS Field_key_chars = 48"
| "MODULE_LIMITS Select_options_per_field = 50"
| "MODULE_LIMITS Relation_values_per_field = 100"
| "MODULE_LIMITS Tags_per_field = 50"
| "MODULE_LIMITS Tag_value_chars = 80"
| "MODULE_LIMITS Views_per_collection = 8"
| "MODULE_LIMITS Fields_per_view = 32"
| "MODULE_LIMITS Search_fields_per_collection = 16"
| "MODULE_LIMITS Search_subtitle_fields = 3"
| "MODULE_LIMITS Record_bytes = 256 * 1024"
| "MODULE_LIMITS Text_value_chars = 10000"
| "MODULE_LIMITS Long_text_value_chars = 100000"
| "MODULE_LIMITS Email_value_chars = 320"
| "MODULE_LIMITS Url_value_chars = 2048"
| "MODULE_LIMITS Search_title_chars = 200"
| "MODULE_LIMITS Search_subtitle_chars = 300"
| "MODULE_LIMITS Search_text_chars = 10000"
| "MODULE_LIMITS Operation_page_size = 100"

subsection \<open>Manifests\<close>

record select_option =
  so_value :: string
  so_label :: string

text \<open>The type of a field with the properties only that type has; a default may be missing.\<close>

datatype field_type =
    FtText "string option"
  | FtLongText "string option"
  | FtEmail "string option"
  | FtUrl "string option"
  | FtDate "string option"
  | FtDatetime "string option"
  | FtNumber "rat option"
  | FtBoolean "bool option"
  | FtSingleSelect "select_option list" "string option"
  | FtMultiSelect "select_option list" "string list option"
  | FtMember bool
  | FtTags
  | FtRelation string bool
  | FtResourceRef string string bool

record module_field =
  mf_key :: string
  mf_label :: string
  mf_description :: "string option"
  mf_required :: bool
  mf_type :: field_type

datatype filter_operator =
  OpEq | OpNeq | OpContains | OpGt | OpGte | OpLt | OpLte | OpIn | OpIsEmpty | OpDateRelative

record query_filter =
  qf_field :: string
  qf_operator :: filter_operator
  qf_value :: jsv

record quick_filter =
  qk_key :: string
  qk_name :: string
  qk_filters :: "query_filter list"

datatype view_type =
    VtTable
  | VtBoard string "(string \<times> string) option"
  | VtTimeline string "string option"
  | VtForm
  | VtDetail

record module_view =
  vw_key :: string
  vw_name :: string
  vw_fields :: "string list"
  vw_quick_filters :: "quick_filter list option"
  vw_type :: view_type

record module_search =
  sc_title_field :: string
  sc_subtitle_fields :: "string list"
  sc_fields :: "string list"

record latest_related =
  lr_key :: string
  lr_label :: string
  lr_description :: "string option"
  lr_source_collection :: string
  lr_relation_field :: string
  lr_date_field :: string
  lr_where :: "(string \<times> string list) list option"

record module_collection =
  mc_key :: string
  mc_name :: string
  mc_singular_name :: "string option"
  mc_description :: "string option"
  mc_fields :: "module_field list"
  mc_search :: "module_search option"
  mc_views :: "module_view list option"
  mc_latest_related :: "latest_related list option"

record module_manifest =
  mm_schema_version :: nat
  mm_id :: string
  mm_slug :: string
  mm_version :: string
  mm_name :: string
  mm_description :: "string option"
  mm_icon :: "string option"
  mm_collections :: "module_collection list"
  mm_navigation :: "(string \<times> string option) option"

text \<open>\<open>field.default\<close> as a value; \<open>undefined\<close> when the field has none.\<close>

fun opt_js :: "('a \<Rightarrow> jsv) \<Rightarrow> 'a option \<Rightarrow> jsv" where
  "opt_js f None = JUndefined"
| "opt_js f (Some a) = f a"

fun type_default :: "field_type \<Rightarrow> jsv" where
  "type_default (FtText d) = opt_js JStr d"
| "type_default (FtLongText d) = opt_js JStr d"
| "type_default (FtEmail d) = opt_js JStr d"
| "type_default (FtUrl d) = opt_js JStr d"
| "type_default (FtDate d) = opt_js JStr d"
| "type_default (FtDatetime d) = opt_js JStr d"
| "type_default (FtNumber d) = opt_js JNum d"
| "type_default (FtBoolean d) = opt_js JBool d"
| "type_default (FtSingleSelect _ d) = opt_js JStr d"
| "type_default (FtMultiSelect _ d) = opt_js (\<lambda>vs. JArr (map JStr vs)) d"
| "type_default _ = JUndefined"

definition option_values :: "select_option list \<Rightarrow> string list" where
  "option_values os = map so_value os"

subsection \<open>Texts with a format\<close>

definition js_digits :: "nat \<Rightarrow> string \<Rightarrow> bool" where
  "js_digits n s \<longleftrightarrow> length s = n \<and> list_all js_is_digit s"

definition leap_year :: "nat \<Rightarrow> bool" where
  "leap_year year \<longleftrightarrow> year mod 4 = 0 \<and> (year mod 100 \<noteq> 0 \<or> year mod 400 = 0)"

definition days_in_month :: "nat \<Rightarrow> nat \<Rightarrow> nat" where
  "days_in_month year month =
     [31, (if leap_year year then 29 else 28), 31, 30, 31, 30, 31, 31, 30, 31, 30, 31] ! (month - 1)"

text \<open>The three groups of \<open>/^(\d{4})-(\d{2})-(\d{2})$/\<close>.\<close>

definition date_groups :: "string \<Rightarrow> (nat \<times> nat \<times> nat) option" where
  "date_groups s =
     (if length s = 10 \<and> js_digits 4 (take 4 s) \<and> s ! 4 = CHR ''-'' \<and> js_digits 2 (take 2 (drop 5 s))
         \<and> s ! 7 = CHR ''-'' \<and> js_digits 2 (drop 8 s)
      then Some (digits_value (take 4 s), digits_value (take 2 (drop 5 s)), digits_value (drop 8 s))
      else None)"

definition isValidDate :: "string \<Rightarrow> bool" where
  "isValidDate value = (case date_groups value of
       None \<Rightarrow> False
     | Some (year, month, day) \<Rightarrow>
         if year < 1 \<or> month < 1 \<or> month > 12 then False
         else 1 \<le> day \<and> day \<le> days_in_month year month)"

text \<open>The zone at the end of a date and time: \<open>Z\<close>, or a sign, hours and minutes.\<close>

definition zone_ok :: "string \<Rightarrow> bool" where
  "zone_ok z \<longleftrightarrow> z = ''Z''
     \<or> (length z = 6 \<and> hd z \<in> set ''+-'' \<and> js_digits 2 (take 2 (drop 1 z)) \<and> z ! 3 = CHR '':''
        \<and> js_digits 2 (drop 4 z)
        \<and> \<not> (let offsetHour = digits_value (take 2 (drop 1 z)); offsetMinute = digits_value (drop 4 z)
             in offsetHour > 14 \<or> offsetMinute > 59 \<or> (offsetHour = 14 \<and> offsetMinute \<noteq> 0)))"

text \<open>
  The seconds and the fraction are optional: the text after the minutes is split into the seconds
  (\<open>0\<close> when there are none) and the zone.  The longest run of digits is the only one after which a
  zone can follow.
\<close>

definition seconds_and_zone :: "string \<Rightarrow> nat \<times> string" where
  "seconds_and_zone r =
     (if js_starts_with r '':'' \<and> js_digits 2 (take 2 (drop 1 r))
      then (let sec = digits_value (take 2 (drop 1 r)); rest = drop 3 r;
                frac = takeWhile js_is_digit (drop 1 rest)
            in if js_starts_with rest ''.'' \<and> 1 \<le> length frac \<and> length frac \<le> 9
               then (sec, drop (Suc (length frac)) rest) else (sec, rest))
      else (0, r))"

definition isValidDateTime :: "string \<Rightarrow> bool" where
  "isValidDateTime value =
     (if date_groups (take 10 value) = None \<or> \<not> js_starts_with (drop 10 value) ''T''
         \<or> \<not> js_digits 2 (take 2 (drop 11 value)) \<or> \<not> js_starts_with (drop 13 value) '':''
         \<or> \<not> js_digits 2 (take 2 (drop 14 value)) then False
      else case seconds_and_zone (drop 16 value) of (second, zone) \<Rightarrow>
               isValidDate (take 10 value) \<and> zone_ok zone
               \<and> digits_value (take 2 (drop 11 value)) \<le> 23 \<and> digits_value (take 2 (drop 14 value)) \<le> 59
               \<and> second \<le> 59)"

text \<open>\<open>/^[^\s@]+@[^\s@]+\.[^\s@]+$/\<close>: one \<open>@\<close>, no white space, and a dot inside the domain.\<close>

definition isValidEmail :: "string \<Rightarrow> bool" where
  "isValidEmail value \<longleftrightarrow> length value \<le> MODULE_LIMITS Email_value_chars
     \<and> list_all (\<lambda>c. \<not> js_is_space c) value
     \<and> (case js_split (CHR ''@'') value of
          [local, domain] \<Rightarrow> local \<noteq> [] \<and> length domain \<ge> 3 \<and> CHR ''.'' \<in> set (butlast (tl domain))
        | _ \<Rightarrow> False)"

text \<open>\<open>new URL(value).protocol\<close> is an argument, \<open>None\<close> when the constructor throws.\<close>

definition isValidHttpUrl :: "(string \<Rightarrow> string option) \<Rightarrow> string \<Rightarrow> bool" where
  "isValidHttpUrl url_protocol value \<longleftrightarrow> length value \<le> MODULE_LIMITS Url_value_chars
     \<and> url_protocol value \<in> {Some ''https:'', Some ''http:''}"

definition js_is_alnum :: "char \<Rightarrow> bool" where
  "js_is_alnum c \<longleftrightarrow> js_is_digit c \<or> js_is_lower c \<or> js_is_upper c"

text \<open>\<open>/^[A-Za-z0-9][A-Za-z0-9_-]*$/\<close>.\<close>

definition opaque_id :: "string \<Rightarrow> bool" where
  "opaque_id s \<longleftrightarrow> s \<noteq> [] \<and> js_is_alnum (hd s) \<and> list_all (\<lambda>c. js_is_alnum c \<or> c \<in> set ''_-'') s"

subsection \<open>One value\<close>

datatype issue_code =
    InvalidCollection | InvalidData | UnknownField | RequiredField | InvalidType | InvalidValue
  | RecordTooLarge

record validation_issue =
  vi_field :: "string option"
  vi_code :: issue_code
  vi_message :: string

definition validationIssue :: "string option \<Rightarrow> issue_code \<Rightarrow> string \<Rightarrow> validation_issue" where
  "validationIssue field code message = \<lparr>vi_field = field, vi_code = code, vi_message = message\<rparr>"

text \<open>The items of an array of strings; \<open>None\<close> for any other value.\<close>

fun js_str_items :: "jsv list \<Rightarrow> string list option" where
  "js_str_items [] = Some []"
| "js_str_items (JStr s # vs) = map_option ((#) s) (js_str_items vs)"
| "js_str_items _ = None"

fun js_strings :: "jsv \<Rightarrow> string list option" where
  "js_strings (JArr vs) = js_str_items vs"
| "js_strings _ = None"

fun js_string :: "jsv \<Rightarrow> string option" where
  "js_string (JStr s) = Some s"
| "js_string _ = None"

fun js_is_number :: "jsv \<Rightarrow> bool" where
  "js_is_number (JNum _) = True"
| "js_is_number _ = False"

fun js_is_bool :: "jsv \<Rightarrow> bool" where
  "js_is_bool (JBool _) = True"
| "js_is_bool _ = False"

definition text_issue :: "string \<Rightarrow> bool \<Rightarrow> module_limit \<Rightarrow> jsv \<Rightarrow> validation_issue option" where
  "text_issue key required bound v = (case js_string v of
       None \<Rightarrow> Some (validationIssue (Some key) InvalidType ''Must be text'')
     | Some s \<Rightarrow>
         if required \<and> s = [] then Some (validationIssue (Some key) RequiredField ''Must not be empty'')
         else if length s > MODULE_LIMITS bound
         then Some (validationIssue (Some key) InvalidValue
                (''Must be at most '' @ nat_to_string (MODULE_LIMITS bound) @ '' characters''))
         else None)"

definition format_issue ::
    "string \<Rightarrow> (string \<Rightarrow> bool) \<Rightarrow> string \<Rightarrow> string \<Rightarrow> jsv \<Rightarrow> validation_issue option" where
  "format_issue key ok type_message value_message v = (case js_string v of
       None \<Rightarrow> Some (validationIssue (Some key) InvalidType type_message)
     | Some s \<Rightarrow> if ok s then None
               else Some (validationIssue (Some key) InvalidValue value_message))"

definition multi_select_issue :: "string \<Rightarrow> select_option list \<Rightarrow> jsv \<Rightarrow> validation_issue option" where
  "multi_select_issue key os v = (case js_strings v of
       None \<Rightarrow> Some (validationIssue (Some key) InvalidType ''Must be an array of option values'')
     | Some items \<Rightarrow>
         if length items > MODULE_LIMITS Select_options_per_field \<or> \<not> distinct items
         then Some (validationIssue (Some key) InvalidValue
                ''Option values must be unique and within the option limit'')
         else if list_all (\<lambda>i. i \<in> set (option_values os)) items then None
         else Some (validationIssue (Some key) InvalidValue
                ''Every item must match a declared option value''))"

definition member_issue :: "string \<Rightarrow> bool \<Rightarrow> jsv \<Rightarrow> validation_issue option" where
  "member_issue key multiple v =
     (case (if multiple then js_strings v else map_option (\<lambda>s. [s]) (js_string v)) of
       None \<Rightarrow> Some (validationIssue (Some key) InvalidType
                (if multiple then ''Must be an array of member IDs'' else ''Must be one member ID''))
     | Some items \<Rightarrow>
         if length items > MODULE_LIMITS Relation_values_per_field \<or> \<not> distinct items
            \<or> \<not> list_all opaque_id items
         then Some (validationIssue (Some key) InvalidValue
                ''Member IDs must be unique valid identifiers within the field limit'')
         else None)"

definition tags_issue :: "string \<Rightarrow> jsv \<Rightarrow> validation_issue option" where
  "tags_issue key v = (case js_strings v of
       None \<Rightarrow> Some (validationIssue (Some key) InvalidType ''Must be an array of tags'')
     | Some items \<Rightarrow>
         if length items > MODULE_LIMITS Tags_per_field \<or> \<not> distinct items
            \<or> list_ex (\<lambda>i. js_trim i = [] \<or> length i > MODULE_LIMITS Tag_value_chars) items
         then Some (validationIssue (Some key) InvalidValue
                (''Tags must be unique non-empty strings of at most ''
                   @ nat_to_string (MODULE_LIMITS Tag_value_chars) @ '' characters''))
         else None)"

definition validateModuleFieldValue ::
    "(string \<Rightarrow> string option) \<Rightarrow> module_field \<Rightarrow> jsv \<Rightarrow> validation_issue option" where
  "validateModuleFieldValue url_protocol field v = (let key = mf_key field in
     case mf_type field of
       FtText _ \<Rightarrow> text_issue key (mf_required field) Text_value_chars v
     | FtLongText _ \<Rightarrow> text_issue key (mf_required field) Long_text_value_chars v
     | FtEmail _ \<Rightarrow> format_issue key isValidEmail ''Must be an email string''
                     ''Must be a valid email address'' v
     | FtUrl _ \<Rightarrow> format_issue key (isValidHttpUrl url_protocol) ''Must be a URL string''
                     ''Must be an absolute HTTP or HTTPS URL'' v
     | FtDate _ \<Rightarrow> format_issue key isValidDate ''Must be a date string''
                     ''Must be a real calendar date in YYYY-MM-DD format'' v
     | FtDatetime _ \<Rightarrow> format_issue key isValidDateTime ''Must be a datetime string''
                     ''Must be an ISO 8601 datetime with a timezone'' v
     | FtNumber _ \<Rightarrow> if js_is_number v then None
                     else Some (validationIssue (Some key) InvalidType ''Must be a finite number'')
     | FtBoolean _ \<Rightarrow> if js_is_bool v then None
                     else Some (validationIssue (Some key) InvalidType ''Must be true or false'')
     | FtSingleSelect os _ \<Rightarrow> format_issue key (\<lambda>s. s \<in> set (option_values os))
                     ''Must be one option value'' ''Must match a declared option value'' v
     | FtMultiSelect os _ \<Rightarrow> multi_select_issue key os v
     | FtMember multiple \<Rightarrow> member_issue key multiple v
     | FtTags \<Rightarrow> tags_issue key v
     | FtRelation _ _ \<Rightarrow> Some (validationIssue (Some key) InvalidValue
                     ''Relations must be managed through the relation endpoint, not record data'')
     | FtResourceRef _ _ _ \<Rightarrow> Some (validationIssue (Some key) InvalidValue
                     ''Relations must be managed through the relation endpoint, not record data''))"

subsection \<open>A whole record\<close>

text \<open>The length of \<open>TextEncoder().encode(s)\<close>: a code unit from 128 to 255 takes two bytes.\<close>

definition utf8_length :: "string \<Rightarrow> nat" where
  "utf8_length s = sum_list (map (\<lambda>c. if code_unit c < 128 then 1 else 2) s)"

definition data_prop :: "(string \<times> jsv) list \<Rightarrow> string \<Rightarrow> jsv" where
  "data_prop data k = (case map_of data k of None \<Rightarrow> JUndefined | Some v \<Rightarrow> v)"

text \<open>One round of the loop over the fields: the value to store, nothing, or an issue.\<close>

datatype field_outcome = Stored "string \<times> jsv" | Skipped | Issued validation_issue

definition field_outcome_of ::
    "(string \<Rightarrow> string option) \<Rightarrow> (string \<times> jsv) list \<Rightarrow> module_field \<Rightarrow> field_outcome" where
  "field_outcome_of url_protocol data field =
     (let given = data_prop data (mf_key field);
          v = (if given = JUndefined then type_default (mf_type field) else given)
      in if v = JUndefined
         then (if mf_required field
               then Issued (validationIssue (Some (mf_key field)) RequiredField ''Field is required'')
               else Skipped)
         else case validateModuleFieldValue url_protocol field v of
                Some i \<Rightarrow> Issued i
              | None \<Rightarrow> Stored (mf_key field, v))"

fun outcome_issues :: "field_outcome \<Rightarrow> validation_issue list" where
  "outcome_issues (Issued i) = [i]"
| "outcome_issues _ = []"

text \<open>\<open>output[field.key] = value\<close>: a later field of the same key replaces the value in place.\<close>

fun js_put :: "'k \<Rightarrow> 'a \<Rightarrow> ('k \<times> 'a) list \<Rightarrow> ('k \<times> 'a) list" where
  "js_put k v [] = [(k, v)]"
| "js_put k v ((k', v') # ps) = (if k = k' then (k, v) # ps else (k', v') # js_put k v ps)"

fun store_outcome :: "field_outcome \<Rightarrow> (string \<times> jsv) list \<Rightarrow> (string \<times> jsv) list" where
  "store_outcome (Stored (k, v)) out = js_put k v out"
| "store_outcome _ out = out"

definition find_collection :: "module_manifest \<Rightarrow> string \<Rightarrow> module_collection option" where
  "find_collection manifest key = List.find (\<lambda>c. mc_key c = key) (mm_collections manifest)"

definition find_field :: "module_collection \<Rightarrow> string \<Rightarrow> module_field option" where
  "find_field collection key = List.find (\<lambda>f. mf_key f = key) (mc_fields collection)"

definition unknown_field_issues :: "module_collection \<Rightarrow> (string \<times> jsv) list \<Rightarrow> validation_issue list" where
  "unknown_field_issues collection data =
     map (\<lambda>(k, v). validationIssue (Some k) UnknownField ''Field is not declared by the active manifest'')
       (filter (\<lambda>(k, v). find_field collection k = None) data)"

definition validateModuleRecordData ::
    "(string \<Rightarrow> string option) \<Rightarrow> (rat \<Rightarrow> string) \<Rightarrow> module_manifest \<Rightarrow> string \<Rightarrow> jsv
      \<Rightarrow> validation_issue list + (string \<times> jsv) list" where
  "validateModuleRecordData url_protocol num manifest collectionKey dataValue =
     (case find_collection manifest collectionKey of
        None \<Rightarrow> Throw [validationIssue None InvalidCollection (''Unknown collection: '' @ collectionKey)]
      | Some collection \<Rightarrow>
          (case dataValue of
             JObj data \<Rightarrow>
               (let outcomes = map (field_outcome_of url_protocol data) (mc_fields collection);
                    issues = unknown_field_issues collection data @ concat (map outcome_issues outcomes);
                    output = fold store_outcome outcomes []
                in if issues \<noteq> [] then Throw issues
                   else if utf8_length (json_text num (JObj output)) > MODULE_LIMITS Record_bytes
                   then Throw [validationIssue None RecordTooLarge
                          (''Record exceeds '' @ nat_to_string (MODULE_LIMITS Record_bytes) @ '' bytes'')]
                   else Ok output)
           | _ \<Rightarrow> Throw [validationIssue None InvalidData ''Record data must be a plain object'']))"

end
