(* ===== verification/ModuleManifest.thy ===== *)
theory ModuleManifest
  imports ModuleSchema
begin

text \<open>
  The rules of a module manifest (packages/shared/src/modules.ts): keys, names and versions, and the
  refinements that a schema cannot express - unique keys, defaults that fit their field, searches,
  views, filters, related summaries and navigation that refer to declared fields.  A refinement
  returns the messages of its issues in the order the code adds them; the paths are left out.
\<close>

subsection \<open>Names, keys and versions\<close>

definition lower_digit :: "char \<Rightarrow> bool" where
  "lower_digit c \<longleftrightarrow> js_is_lower c \<or> js_is_digit c"

text \<open>\<open>/^[a-z][a-z0-9]*(?:S[a-z0-9]+)*$/\<close> for a separator \<open>S\<close>.\<close>

definition key_pattern :: "char \<Rightarrow> string \<Rightarrow> bool" where
  "key_pattern sep s = (case js_split sep s of
       [] \<Rightarrow> False
     | p # ps \<Rightarrow> p \<noteq> [] \<and> js_is_lower (hd p) \<and> list_all lower_digit p
                 \<and> list_all (\<lambda>q. q \<noteq> [] \<and> list_all lower_digit q) ps)"

definition MODULE_RESERVED_FIELD_KEYS :: "string list" where
  "MODULE_RESERVED_FIELD_KEYS =
     [''__proto__'', ''constructor'', ''prototype'', ''id'', ''org_id'', ''module_id'', ''installation_id'',
      ''collection_key'', ''revision'', ''created_at'', ''updated_at'', ''archived_at'']"

text \<open>\<open>boundedPlainText\<close> on a parsed value, which is trimmed.  Of the unsafe characters those below 256.\<close>

definition unsafe_char :: "char \<Rightarrow> bool" where
  "unsafe_char c \<longleftrightarrow> code_unit c \<le> 31 \<or> (127 \<le> code_unit c \<and> code_unit c \<le> 159) \<or> c \<in> set ''<>''"

definition boundedPlainText :: "module_limit \<Rightarrow> string \<Rightarrow> bool" where
  "boundedPlainText bound s \<longleftrightarrow> js_trim s = s \<and> 1 \<le> length s \<and> length s \<le> MODULE_LIMITS bound
     \<and> \<not> list_ex unsafe_char s"

definition ModuleIdSchema :: "string \<Rightarrow> bool" where
  "ModuleIdSchema s \<longleftrightarrow> 3 \<le> length s \<and> length s \<le> MODULE_LIMITS Module_id_chars
     \<and> (let parts = js_split (CHR ''.'') s in 2 \<le> length parts \<and> list_all (key_pattern (CHR ''-'')) parts)"

definition ModuleSlugSchema :: "string \<Rightarrow> bool" where
  "ModuleSlugSchema s \<longleftrightarrow> 1 \<le> length s \<and> length s \<le> MODULE_LIMITS Module_slug_chars \<and> key_pattern (CHR ''-'') s"

definition ModuleKeySchema :: "string \<Rightarrow> bool" where
  "ModuleKeySchema s \<longleftrightarrow> 1 \<le> length s \<and> length s \<le> MODULE_LIMITS Collection_key_chars \<and> key_pattern (CHR ''_'') s"

definition ModuleFieldKeySchema :: "string \<Rightarrow> bool" where
  "ModuleFieldKeySchema s \<longleftrightarrow> 1 \<le> length s \<and> length s \<le> MODULE_LIMITS Field_key_chars
     \<and> key_pattern (CHR ''_'') s \<and> s \<notin> set MODULE_RESERVED_FIELD_KEYS"

definition ModuleDisplayNameSchema :: "string \<Rightarrow> bool" where
  "ModuleDisplayNameSchema = boundedPlainText Display_name_chars"

definition ModuleDescriptionSchema :: "string \<Rightarrow> bool" where
  "ModuleDescriptionSchema = boundedPlainText Description_chars"

definition ModuleIconTokenSchema :: "string \<Rightarrow> bool" where
  "ModuleIconTokenSchema s \<longleftrightarrow> 1 \<le> length s \<and> length s \<le> MODULE_LIMITS Icon_token_chars \<and> key_pattern (CHR ''-'') s"

text \<open>\<open>z.optional\<close> of a checked schema.\<close>

definition opt_ok :: "('a \<Rightarrow> bool) \<Rightarrow> 'a option \<Rightarrow> bool" where
  "opt_ok p v = (case v of None \<Rightarrow> True | Some a \<Rightarrow> p a)"

text \<open>
  \<open>SEMVER_REGEX\<close>: the build part follows the first \<open>+\<close>, the prerelease the first \<open>-\<close> before it.
\<close>

definition numeric_identifier :: "string \<Rightarrow> bool" where
  "numeric_identifier s \<longleftrightarrow> s \<noteq> [] \<and> list_all js_is_digit s \<and> (s = ''0'' \<or> \<not> js_starts_with s ''0'')"

definition semver_char :: "char \<Rightarrow> bool" where
  "semver_char c \<longleftrightarrow> js_is_alnum c \<or> c = CHR ''-''"

definition prerelease_identifier :: "string \<Rightarrow> bool" where
  "prerelease_identifier s \<longleftrightarrow> numeric_identifier s
     \<or> (s \<noteq> [] \<and> list_all semver_char s \<and> \<not> list_all js_is_digit s)"

definition before_char :: "char \<Rightarrow> string \<Rightarrow> string" where
  "before_char c s = takeWhile (\<lambda>d. d \<noteq> c) s"

definition after_char :: "char \<Rightarrow> string \<Rightarrow> string option" where
  "after_char c s = (case dropWhile (\<lambda>d. d \<noteq> c) s of [] \<Rightarrow> None | _ # r \<Rightarrow> Some r)"

definition SEMVER_REGEX :: "string \<Rightarrow> bool" where
  "SEMVER_REGEX v =
     (let withoutBuild = before_char (CHR ''+'') v; core = js_split (CHR ''.'') (before_char (CHR ''-'') withoutBuild)
      in length core = 3 \<and> list_all numeric_identifier core
         \<and> opt_ok (\<lambda>p. list_all prerelease_identifier (js_split (CHR ''.'') p)) (after_char (CHR ''-'') withoutBuild)
         \<and> opt_ok (\<lambda>b. list_all (\<lambda>i. i \<noteq> [] \<and> list_all semver_char i) (js_split (CHR ''.'') b))
             (after_char (CHR ''+'') v))"

definition ModuleSemverSchema :: "string \<Rightarrow> bool" where
  "ModuleSemverSchema s \<longleftrightarrow> length s \<le> 64 \<and> SEMVER_REGEX s"

subsection \<open>Order of versions\<close>

text \<open>\<open>Number(digits)\<close> is the double nearest to the number, given by \<open>dbl\<close>.\<close>

fun compare_core :: "(nat \<Rightarrow> nat) \<Rightarrow> nat list \<Rightarrow> nat list \<Rightarrow> int option" where
  "compare_core dbl (a # as) (b # bs) =
     (if dbl a = dbl b then compare_core dbl as bs
      else Some (if dbl a < dbl b then -1 else 1))"
| "compare_core dbl _ _ = None"

fun compare_prerelease :: "(nat \<Rightarrow> nat) \<Rightarrow> string list \<Rightarrow> string list \<Rightarrow> int" where
  "compare_prerelease dbl [] [] = 0"
| "compare_prerelease dbl [] (b # bs) = -1"
| "compare_prerelease dbl (a # as) [] = 1"
| "compare_prerelease dbl (a # as) (b # bs) =
     (if a = b then compare_prerelease dbl as bs
      else let aNumeric = a \<noteq> [] \<and> list_all js_is_digit a; bNumeric = b \<noteq> [] \<and> list_all js_is_digit b
           in if aNumeric \<and> bNumeric then (if dbl (digits_value a) < dbl (digits_value b) then -1 else 1)
              else if aNumeric \<noteq> bNumeric then (if aNumeric then -1 else 1)
              else (if a < b then -1 else 1))"

definition semver_parts :: "string \<Rightarrow> nat list \<times> string list" where
  "semver_parts v = (let withoutBuild = before_char (CHR ''+'') v
     in (map digits_value (js_split (CHR ''.'') (before_char (CHR ''-'') withoutBuild)),
         case after_char (CHR ''-'') withoutBuild of None \<Rightarrow> [] | Some p \<Rightarrow> js_split (CHR ''.'') p))"

definition compareSemver :: "(nat \<Rightarrow> nat) \<Rightarrow> string \<Rightarrow> string \<Rightarrow> int" where
  "compareSemver dbl left right =
     (let (acore, apre) = semver_parts left; (bcore, bpre) = semver_parts right
      in case compare_core dbl (take 3 acore) (take 3 bcore) of
           Some d \<Rightarrow> d
         | None \<Rightarrow>
             if apre = [] \<or> bpre = []
             then (if apre = bpre then 0 else if apre = [] then 1 else -1)
             else compare_prerelease dbl apre bpre)"

subsection \<open>Filters\<close>

definition field_value_shape :: "jsv \<Rightarrow> bool" where
  "field_value_shape v \<longleftrightarrow> js_is_string v \<or> js_is_number v \<or> js_is_bool v
     \<or> (case js_strings v of Some vs \<Rightarrow> length vs \<le> MODULE_LIMITS Relation_values_per_field | None \<Rightarrow> False)"

definition ordering_operator :: "filter_operator \<Rightarrow> bool" where
  "ordering_operator op \<longleftrightarrow> op \<in> {OpGt, OpGte, OpLt, OpLte}"

definition relative_periods :: "string list" where
  "relative_periods = [''past'', ''today'', ''next_7_days'']"

definition ModuleQueryFilterSchema :: "query_filter \<Rightarrow> bool" where
  "ModuleQueryFilterSchema q \<longleftrightarrow> ModuleFieldKeySchema (qf_field q) \<and> field_value_shape (qf_value q)
     \<and> (qf_operator q = OpDateRelative \<longrightarrow>
          (case js_string (qf_value q) of Some s \<Rightarrow> s \<in> set relative_periods | None \<Rightarrow> False))
     \<and> (qf_operator q = OpIsEmpty \<longrightarrow> js_is_bool (qf_value q))
     \<and> (qf_operator q = OpContains \<longrightarrow> js_is_string (qf_value q))
     \<and> (qf_operator q = OpIn \<longrightarrow> js_strings (qf_value q) \<noteq> None)
     \<and> (ordering_operator (qf_operator q) \<longrightarrow> js_is_string (qf_value q) \<or> js_is_number (qf_value q))"

fun is_reference :: "field_type \<Rightarrow> bool" where
  "is_reference (FtRelation _ _) = True"
| "is_reference (FtResourceRef _ _ _) = True"
| "is_reference _ = False"

fun is_date :: "field_type \<Rightarrow> bool" where
  "is_date (FtDate _) = True"
| "is_date _ = False"

text \<open>The lists of type names in the code.\<close>

fun is_text_like :: "field_type \<Rightarrow> bool" where
  "is_text_like (FtText _) = True"
| "is_text_like (FtLongText _) = True"
| "is_text_like (FtEmail _) = True"
| "is_text_like (FtUrl _) = True"
| "is_text_like _ = False"

fun is_ordered :: "field_type \<Rightarrow> bool" where
  "is_ordered (FtNumber _) = True"
| "is_ordered (FtDate _) = True"
| "is_ordered (FtDatetime _) = True"
| "is_ordered _ = False"

fun allows_in :: "field_type \<Rightarrow> bool" where
  "allows_in (FtNumber _) = False"
| "allows_in (FtBoolean _) = False"
| "allows_in (FtRelation _ _) = False"
| "allows_in (FtResourceRef _ _ _) = False"
| "allows_in _ = True"

fun is_tags_or_members :: "field_type \<Rightarrow> bool" where
  "is_tags_or_members FtTags = True"
| "is_tags_or_members (FtMember multiple) = multiple"
| "is_tags_or_members _ = False"

fun multi_select_options :: "field_type \<Rightarrow> select_option list option" where
  "multi_select_options (FtMultiSelect os _) = Some os"
| "multi_select_options _ = None"

fun operator_name :: "filter_operator \<Rightarrow> string" where
  "operator_name OpEq = ''eq''"
| "operator_name OpNeq = ''neq''"
| "operator_name OpContains = ''contains''"
| "operator_name OpGt = ''gt''"
| "operator_name OpGte = ''gte''"
| "operator_name OpLt = ''lt''"
| "operator_name OpLte = ''lte''"
| "operator_name OpIn = ''in''"
| "operator_name OpIsEmpty = ''is_empty''"
| "operator_name OpDateRelative = ''date_relative''"

definition value_message :: "filter_operator \<Rightarrow> module_field \<Rightarrow> string \<Rightarrow> string" where
  "value_message op field message = operator_name op @ '' value for '' @ mf_key field @ '': '' @ message"

definition filter_value_issue ::
    "(string \<Rightarrow> string option) \<Rightarrow> module_field \<Rightarrow> filter_operator \<Rightarrow> jsv \<Rightarrow> string option" where
  "filter_value_issue url_protocol field op v =
     map_option (\<lambda>i. value_message op field (vi_message i)) (validateModuleFieldValue url_protocol field v)"

fun first_issue :: "('a \<Rightarrow> string option) \<Rightarrow> 'a list \<Rightarrow> string option" where
  "first_issue f [] = None"
| "first_issue f (x # xs) = (case f x of Some e \<Rightarrow> Some e | None \<Rightarrow> first_issue f xs)"

definition option_issue :: "filter_operator \<Rightarrow> module_field \<Rightarrow> select_option list \<Rightarrow> string \<Rightarrow> string option" where
  "option_issue op field os s =
     (if s \<in> set (option_values os) then None
      else Some (operator_name op @ '' value for '' @ mf_key field @ '' must match a declared option''))"

definition moduleFilterCompatibilityIssue ::
    "(string \<Rightarrow> string option) \<Rightarrow> module_field \<Rightarrow> query_filter \<Rightarrow> string option" where
  "moduleFilterCompatibilityIssue url_protocol field flt =
     (let ft = mf_type field; op = qf_operator flt; v = qf_value flt in
      if is_reference ft then Some ''Reference fields must be queried through the relation endpoint''
      else if op = OpDateRelative then (if is_date ft then None else Some ''date_relative requires a date field'')
      else if op = OpIsEmpty then None
      else if op = OpEq \<or> op = OpNeq then filter_value_issue url_protocol field op v
      else if op = OpContains then
        (case js_string v of
           None \<Rightarrow> Some ''contains requires a string value''
         | Some s \<Rightarrow>
             (case multi_select_options ft of
                Some os \<Rightarrow> option_issue op field os s
              | None \<Rightarrow>
                  if is_tags_or_members ft then filter_value_issue url_protocol field op (JArr [v])
                  else if is_text_like ft then None
                  else Some ''contains is only valid for text or multi-select fields''))
      else if op = OpIn then
        (case js_strings v of
           None \<Rightarrow> Some ''in requires an array of string values''
         | Some items \<Rightarrow>
             if \<not> allows_in ft then Some ''in is not valid for this field type''
             else if is_tags_or_members ft then filter_value_issue url_protocol field op v
             else first_issue (\<lambda>item. case multi_select_options ft of
                      Some os \<Rightarrow> option_issue op field os item
                    | None \<Rightarrow> filter_value_issue url_protocol field op (JStr item)) items)
      else if \<not> is_ordered ft then Some (operator_name op @ '' is only valid for number/date fields'')
      else filter_value_issue url_protocol field op v)"

subsection \<open>Fields\<close>

definition ModuleSelectOptionSchema :: "select_option \<Rightarrow> bool" where
  "ModuleSelectOptionSchema opt \<longleftrightarrow> ModuleKeySchema (so_value opt) \<and> ModuleDisplayNameSchema (so_label opt)"

definition options_ok :: "select_option list \<Rightarrow> bool" where
  "options_ok os \<longleftrightarrow> 1 \<le> length os \<and> length os \<le> MODULE_LIMITS Select_options_per_field
     \<and> list_all ModuleSelectOptionSchema os"

fun field_type_ok :: "bool \<Rightarrow> field_type \<Rightarrow> bool" where
  "field_type_ok v2 (FtSingleSelect os d) = (options_ok os \<and> opt_ok ModuleKeySchema d)"
| "field_type_ok v2 (FtMultiSelect os d) = (options_ok os
     \<and> opt_ok (\<lambda>vs. list_all ModuleKeySchema vs \<and> length vs \<le> MODULE_LIMITS Select_options_per_field) d)"
| "field_type_ok v2 (FtRelation target multiple) = ModuleKeySchema target"
| "field_type_ok v2 (FtResourceRef module_id resource_type multiple) =
     (v2 \<and> ModuleIdSchema module_id \<and> ModuleKeySchema resource_type)"
| "field_type_ok v2 _ = True"

fun is_resource_ref :: "field_type \<Rightarrow> bool" where
  "is_resource_ref (FtResourceRef _ _ _) = True"
| "is_resource_ref _ = False"

fun is_relation :: "field_type \<Rightarrow> bool" where
  "is_relation (FtRelation _ _) = True"
| "is_relation _ = False"

definition ModuleFieldV2Schema :: "bool \<Rightarrow> module_field \<Rightarrow> bool" where
  "ModuleFieldV2Schema v2 f \<longleftrightarrow> ModuleFieldKeySchema (mf_key f) \<and> ModuleDisplayNameSchema (mf_label f)
     \<and> opt_ok ModuleDescriptionSchema (mf_description f) \<and> field_type_ok v2 (mf_type f)
     \<and> (is_resource_ref (mf_type f) \<longrightarrow> \<not> mf_required f)"

fun dup_issues :: "string list \<Rightarrow> string list \<Rightarrow> string \<Rightarrow> string list" where
  "dup_issues seen [] label = []"
| "dup_issues seen (v # vs) label =
     (if v \<in> set seen then [label @ '' must be unique''] else []) @ dup_issues (v # seen) vs label"

definition addDuplicateIssues :: "string list \<Rightarrow> string \<Rightarrow> string list" where
  "addDuplicateIssues values label = dup_issues [] values label"

fun type_name :: "field_type \<Rightarrow> string" where
  "type_name (FtText _) = ''text''"
| "type_name (FtLongText _) = ''long_text''"
| "type_name (FtEmail _) = ''email''"
| "type_name (FtUrl _) = ''url''"
| "type_name (FtDate _) = ''date''"
| "type_name (FtDatetime _) = ''datetime''"
| "type_name (FtNumber _) = ''number''"
| "type_name (FtBoolean _) = ''boolean''"
| "type_name (FtSingleSelect _ _) = ''single_select''"
| "type_name (FtMultiSelect _ _) = ''multi_select''"
| "type_name (FtMember _) = ''member''"
| "type_name FtTags = ''tags''"
| "type_name (FtRelation _ _) = ''relation''"
| "type_name (FtResourceRef _ _ _) = ''resource_ref''"

fun default_valid :: "(string \<Rightarrow> string option) \<Rightarrow> field_type \<Rightarrow> bool" where
  "default_valid url_protocol (FtText (Some d)) = (length d \<le> MODULE_LIMITS Text_value_chars)"
| "default_valid url_protocol (FtLongText (Some d)) = (length d \<le> MODULE_LIMITS Long_text_value_chars)"
| "default_valid url_protocol (FtEmail (Some d)) = isValidEmail d"
| "default_valid url_protocol (FtUrl (Some d)) = isValidHttpUrl url_protocol d"
| "default_valid url_protocol (FtDate (Some d)) = isValidDate d"
| "default_valid url_protocol (FtDatetime (Some d)) = isValidDateTime d"
| "default_valid url_protocol (FtSingleSelect os (Some d)) = (d \<in> set (option_values os))"
| "default_valid url_protocol (FtMultiSelect os (Some d)) =
     (distinct d \<and> list_all (\<lambda>v. v \<in> set (option_values os)) d)"
| "default_valid url_protocol _ = True"

definition validateManifestDefault :: "(string \<Rightarrow> string option) \<Rightarrow> module_field \<Rightarrow> string list" where
  "validateManifestDefault url_protocol f =
     (if default_valid url_protocol (mf_type f) then []
      else [''Default is invalid for '' @ type_name (mf_type f)])"

subsection \<open>Collections\<close>

text \<open>\<open>new Map(collection.fields.map((field) => [field.key, field]))\<close>.\<close>

definition fieldByKey :: "module_field list \<Rightarrow> string \<Rightarrow> module_field option" where
  "fieldByKey fds key = List.find (\<lambda>f. mf_key f = key) (rev fds)"

fun option_dup_issues :: "field_type \<Rightarrow> string list" where
  "option_dup_issues (FtSingleSelect os _) = addDuplicateIssues (option_values os) ''Select option values''"
| "option_dup_issues (FtMultiSelect os _) = addDuplicateIssues (option_values os) ''Select option values''"
| "option_dup_issues _ = []"

definition field_issues :: "(string \<Rightarrow> string option) \<Rightarrow> module_field list \<Rightarrow> string list" where
  "field_issues url_protocol fds =
     concat (map (\<lambda>f. validateManifestDefault url_protocol f @ option_dup_issues (mf_type f)) fds)
     @ concat (map (\<lambda>f. if is_relation (mf_type f) \<and> mf_required f
                        then [''Relation fields must be optional in schema version 1''] else []) fds)"

fun is_relation_or_member :: "field_type \<Rightarrow> bool" where
  "is_relation_or_member (FtRelation _ _) = True"
| "is_relation_or_member (FtMember _) = True"
| "is_relation_or_member _ = False"

definition search_issues :: "module_field list \<Rightarrow> module_search \<Rightarrow> string list" where
  "search_issues fds search =
     (let refs = sc_title_field search # sc_subtitle_fields search @ sc_fields search in
      concat (map (\<lambda>k. if fieldByKey fds k = None then [''Search references unknown field: '' @ k] else []) refs)
      @ addDuplicateIssues (sc_subtitle_fields search) ''Subtitle fields''
      @ addDuplicateIssues (sc_fields search) ''Search fields''
      @ (if sc_title_field search \<in> set (sc_fields search) then [] else [''Search fields must include title_field''])
      @ concat (map (\<lambda>k. if k \<in> set (sc_fields search) then []
                         else [''Search fields must include subtitle field: '' @ k]) (sc_subtitle_fields search))
      @ (case fieldByKey fds (sc_title_field search) of
           None \<Rightarrow> []
         | Some f \<Rightarrow> if \<not> mf_required f \<and> type_default (mf_type f) = JUndefined
                     then [''Search title_field must be required or have a default''] else [])
      @ concat (map (\<lambda>k. case fieldByKey fds k of
           None \<Rightarrow> []
         | Some f \<Rightarrow> if is_relation_or_member (mf_type f)
                     then [''Search cannot directly index '' @ type_name (mf_type f) @ '' field: '' @ k]
                     else []) refs))"

definition field_type_of :: "module_field list \<Rightarrow> string \<Rightarrow> string" where
  "field_type_of fds k = (case fieldByKey fds k of None \<Rightarrow> [] | Some f \<Rightarrow> type_name (mf_type f))"

definition quick_filter_issues ::
    "(string \<Rightarrow> string option) \<Rightarrow> module_field list \<Rightarrow> query_filter \<Rightarrow> string list" where
  "quick_filter_issues url_protocol fds flt = (case fieldByKey fds (qf_field flt) of
       None \<Rightarrow> [''Quick filter must reference a non-reference collection field'']
     | Some f \<Rightarrow> (case moduleFilterCompatibilityIssue url_protocol f flt of None \<Rightarrow> [] | Some e \<Rightarrow> [e]))"

definition board_issues :: "module_field list \<Rightarrow> string \<Rightarrow> (string \<times> string) option \<Rightarrow> string list" where
  "board_issues fds group_by summary =
     (case summary of
        None \<Rightarrow> []
      | Some (value_field, unit_field) \<Rightarrow>
          if field_type_of fds group_by \<noteq> ''single_select'' \<or> field_type_of fds value_field \<noteq> ''number''
             \<or> field_type_of fds unit_field \<noteq> ''single_select''
          then [''Summary requires a number value and single-select group and unit fields''] else [])
     @ (if fieldByKey fds group_by = None then [''Board references unknown field: '' @ group_by]
        else if field_type_of fds group_by \<notin> set [''single_select'', ''member'', ''tags'']
        then [''Board group_by must reference a select, member, or tags field''] else [])"

definition timeline_issues :: "module_field list \<Rightarrow> string \<Rightarrow> string option \<Rightarrow> string list" where
  "timeline_issues fds start_field end_field =
     concat (map (\<lambda>k. if fieldByKey fds k = None then [''Timeline references unknown field: '' @ k]
                      else if field_type_of fds k \<notin> set [''date'', ''datetime'']
                      then [''Timeline field must be a date or datetime: '' @ k] else [])
       (start_field # (case end_field of None \<Rightarrow> [] | Some e \<Rightarrow> if e = [] then [] else [e])))"

fun view_type_issues :: "module_field list \<Rightarrow> view_type \<Rightarrow> string list" where
  "view_type_issues fds (VtBoard group_by summary) = board_issues fds group_by summary"
| "view_type_issues fds (VtTimeline start_field end_field) = timeline_issues fds start_field end_field"
| "view_type_issues fds _ = []"

definition view_issues :: "(string \<Rightarrow> string option) \<Rightarrow> module_field list \<Rightarrow> module_view \<Rightarrow> string list" where
  "view_issues url_protocol fds view =
     addDuplicateIssues (vw_fields view) ''View fields''
     @ concat (map (\<lambda>k. if fieldByKey fds k = None then [''View references unknown field: '' @ k] else [])
         (vw_fields view))
     @ addDuplicateIssues (map qk_key (or_empty (vw_quick_filters view))) ''Quick filters''
     @ concat (map (\<lambda>preset. concat (map (quick_filter_issues url_protocol fds) (qk_filters preset)))
         (or_empty (vw_quick_filters view)))
     @ view_type_issues fds (vw_type view)"

definition collection_issues :: "(string \<Rightarrow> string option) \<Rightarrow> module_collection \<Rightarrow> string list" where
  "collection_issues url_protocol c =
     addDuplicateIssues (map mf_key (mc_fields c)) ''Field keys''
     @ field_issues url_protocol (mc_fields c)
     @ (case mc_search c of None \<Rightarrow> [] | Some search \<Rightarrow> search_issues (mc_fields c) search)
     @ (case mc_views c of
          None \<Rightarrow> []
        | Some views \<Rightarrow> addDuplicateIssues (map vw_key views) ''View keys''
                        @ concat (map (view_issues url_protocol (mc_fields c)) views))"

definition ModuleSearchSchema :: "module_search \<Rightarrow> bool" where
  "ModuleSearchSchema s \<longleftrightarrow> ModuleFieldKeySchema (sc_title_field s)
     \<and> list_all ModuleFieldKeySchema (sc_subtitle_fields s)
     \<and> length (sc_subtitle_fields s) \<le> MODULE_LIMITS Search_subtitle_fields
     \<and> list_all ModuleFieldKeySchema (sc_fields s) \<and> 1 \<le> length (sc_fields s)
     \<and> length (sc_fields s) \<le> MODULE_LIMITS Search_fields_per_collection"

fun view_type_ok :: "view_type \<Rightarrow> bool" where
  "view_type_ok (VtBoard group_by summary) = (ModuleFieldKeySchema group_by
     \<and> opt_ok (\<lambda>(v, u). ModuleFieldKeySchema v \<and> ModuleFieldKeySchema u) summary)"
| "view_type_ok (VtTimeline s e) = (ModuleFieldKeySchema s \<and> opt_ok ModuleFieldKeySchema e)"
| "view_type_ok _ = True"

definition quick_filter_ok :: "quick_filter \<Rightarrow> bool" where
  "quick_filter_ok q \<longleftrightarrow> ModuleKeySchema (qk_key q) \<and> ModuleDisplayNameSchema (qk_name q)
     \<and> list_all ModuleQueryFilterSchema (qk_filters q) \<and> 1 \<le> length (qk_filters q) \<and> length (qk_filters q) \<le> 16"

definition ModuleViewSchema :: "module_view \<Rightarrow> bool" where
  "ModuleViewSchema v \<longleftrightarrow> ModuleKeySchema (vw_key v) \<and> ModuleDisplayNameSchema (vw_name v)
     \<and> list_all ModuleFieldKeySchema (vw_fields v) \<and> 1 \<le> length (vw_fields v)
     \<and> length (vw_fields v) \<le> MODULE_LIMITS Fields_per_view
     \<and> opt_ok (\<lambda>qs. length qs \<le> 8 \<and> list_all quick_filter_ok qs) (vw_quick_filters v)
     \<and> view_type_ok (vw_type v)"

definition ModuleRelatedLatestSchema :: "latest_related \<Rightarrow> bool" where
  "ModuleRelatedLatestSchema l \<longleftrightarrow> ModuleKeySchema (lr_key l) \<and> ModuleDisplayNameSchema (lr_label l)
     \<and> opt_ok ModuleDescriptionSchema (lr_description l) \<and> ModuleKeySchema (lr_source_collection l)
     \<and> ModuleFieldKeySchema (lr_relation_field l) \<and> ModuleFieldKeySchema (lr_date_field l)
     \<and> opt_ok (\<lambda>ws. length ws \<le> 4 \<and> list_all (\<lambda>(f, vs). ModuleFieldKeySchema f \<and> list_all ModuleKeySchema vs
           \<and> 1 \<le> length vs \<and> length vs \<le> 100) ws) (lr_where l)"

definition collection_shape :: "bool \<Rightarrow> module_collection \<Rightarrow> bool" where
  "collection_shape v2 c \<longleftrightarrow> ModuleKeySchema (mc_key c) \<and> ModuleDisplayNameSchema (mc_name c)
     \<and> opt_ok ModuleDisplayNameSchema (mc_singular_name c) \<and> opt_ok ModuleDescriptionSchema (mc_description c)
     \<and> list_all (ModuleFieldV2Schema v2) (mc_fields c) \<and> 1 \<le> length (mc_fields c)
     \<and> length (mc_fields c) \<le> MODULE_LIMITS Fields_per_collection
     \<and> opt_ok ModuleSearchSchema (mc_search c)
     \<and> opt_ok (\<lambda>vs. length vs \<le> MODULE_LIMITS Views_per_collection \<and> list_all ModuleViewSchema vs) (mc_views c)
     \<and> opt_ok (\<lambda>ls. length ls \<le> 4 \<and> list_all ModuleRelatedLatestSchema ls) (mc_latest_related c)"

definition ModuleCollectionSchema :: "(string \<Rightarrow> string option) \<Rightarrow> module_collection \<Rightarrow> bool" where
  "ModuleCollectionSchema url_protocol c \<longleftrightarrow> collection_shape False c \<and> collection_issues url_protocol c = []"

text \<open>Schema version 2 checks the collection again with its resource references as relations.\<close>

fun compatible_type :: "field_type \<Rightarrow> field_type" where
  "compatible_type (FtResourceRef module_id resource_type multiple) = FtRelation resource_type multiple"
| "compatible_type t = t"

definition compatible_field :: "module_field \<Rightarrow> module_field" where
  "compatible_field f = f\<lparr>mf_required := (if is_resource_ref (mf_type f) then False else mf_required f),
                          mf_type := compatible_type (mf_type f)\<rparr>"

definition ModuleCollectionV2Schema :: "(string \<Rightarrow> string option) \<Rightarrow> module_collection \<Rightarrow> bool" where
  "ModuleCollectionV2Schema url_protocol c \<longleftrightarrow> collection_shape True c
     \<and> ModuleCollectionSchema url_protocol (c\<lparr>mc_fields := map compatible_field (mc_fields c)\<rparr>)"

subsection \<open>Manifests\<close>

fun single_select_options :: "field_type \<Rightarrow> select_option list option" where
  "single_select_options (FtSingleSelect os _) = Some os"
| "single_select_options _ = None"

fun relation_target :: "field_type \<Rightarrow> string option" where
  "relation_target (FtRelation target _) = Some target"
| "relation_target _ = None"

definition related_field :: "module_collection option \<Rightarrow> string \<Rightarrow> module_field option" where
  "related_field source k = (case source of None \<Rightarrow> None | Some c \<Rightarrow> find_field c k)"

definition match_valid :: "module_collection option \<Rightarrow> string \<times> string list \<Rightarrow> bool" where
  "match_valid source m = (case related_field source (fst m) of
       None \<Rightarrow> False
     | Some f \<Rightarrow> (case single_select_options (mf_type f) of
          None \<Rightarrow> False
        | Some os \<Rightarrow> list_all (\<lambda>v. v \<in> set (option_values os)) (snd m)))"

definition related_issues :: "module_collection list \<Rightarrow> module_collection \<Rightarrow> latest_related \<Rightarrow> string list" where
  "related_issues collections c l =
     (let source = List.find (\<lambda>i. mc_key i = lr_source_collection l) collections;
          relation = related_field source (lr_relation_field l);
          date = related_field source (lr_date_field l);
          validMatches = list_all (match_valid source) (or_empty (lr_where l))
      in if (case relation of None \<Rightarrow> True | Some f \<Rightarrow> relation_target (mf_type f) \<noteq> Some (mc_key c))
            \<or> (case date of None \<Rightarrow> True | Some f \<Rightarrow> type_name (mf_type f) \<notin> set [''date'', ''datetime''])
            \<or> \<not> validMatches
         then [''Latest related summary requires a direct relation to this collection, a date field and declared select values'']
         else [])"

definition validateLatestRelated :: "module_collection list \<Rightarrow> string list" where
  "validateLatestRelated collections = concat (map (\<lambda>c.
     addDuplicateIssues (map lr_key (or_empty (mc_latest_related c))) ''Related summary keys''
     @ concat (map (related_issues collections c) (or_empty (mc_latest_related c)))) collections)"

definition collectionByKey :: "module_collection list \<Rightarrow> string \<Rightarrow> module_collection option" where
  "collectionByKey cs key = List.find (\<lambda>c. mc_key c = key) (rev cs)"

text \<open>The collection of this module that a reference points to, when it points into this module.\<close>

fun own_target :: "bool \<Rightarrow> string \<Rightarrow> field_type \<Rightarrow> string option" where
  "own_target v2 module_id (FtRelation target _) = Some target"
| "own_target v2 module_id (FtResourceRef target_module resource_type _) =
     (if v2 \<and> target_module = module_id then Some resource_type else None)"
| "own_target v2 module_id _ = None"

definition target_issues :: "bool \<Rightarrow> module_manifest \<Rightarrow> string list" where
  "target_issues v2 m = concat (map (\<lambda>c. concat (map (\<lambda>f.
     case own_target v2 (mm_id m) (mf_type f) of
       None \<Rightarrow> []
     | Some target \<Rightarrow> if collectionByKey (mm_collections m) target = None
         then [(if v2 then ''Reference target collection does not exist: ''
                else ''Relation target collection does not exist: '') @ target] else []) (mc_fields c)))
     (mm_collections m))"

definition navigation_issues :: "module_manifest \<Rightarrow> string list" where
  "navigation_issues m = (case mm_navigation m of
       None \<Rightarrow> []
     | Some (default_collection, default_view) \<Rightarrow>
         (case collectionByKey (mm_collections m) default_collection of
            None \<Rightarrow> [''Default collection must reference a declared collection'']
          | Some c \<Rightarrow>
              (case default_view of
                 None \<Rightarrow> []
               | Some v \<Rightarrow> if v \<noteq> [] \<and> \<not> list_ex (\<lambda>w. vw_key w = v) (or_empty (mc_views c))
                          then [''Default view must belong to the default collection''] else [])))"

definition manifest_issues :: "bool \<Rightarrow> module_manifest \<Rightarrow> string list" where
  "manifest_issues v2 m = validateLatestRelated (mm_collections m)
     @ addDuplicateIssues (map mc_key (mm_collections m)) ''Collection keys''
     @ target_issues v2 m @ navigation_issues m"

definition manifest_shape :: "module_manifest \<Rightarrow> bool" where
  "manifest_shape m \<longleftrightarrow> ModuleIdSchema (mm_id m) \<and> ModuleSlugSchema (mm_slug m)
     \<and> ModuleSemverSchema (mm_version m) \<and> ModuleDisplayNameSchema (mm_name m)
     \<and> opt_ok ModuleDescriptionSchema (mm_description m) \<and> opt_ok ModuleIconTokenSchema (mm_icon m)
     \<and> 1 \<le> length (mm_collections m) \<and> length (mm_collections m) \<le> MODULE_LIMITS Collections_per_module
     \<and> opt_ok (\<lambda>(c, v). ModuleKeySchema c \<and> opt_ok ModuleKeySchema v) (mm_navigation m)"

definition DeftModuleManifestV1Schema :: "(string \<Rightarrow> string option) \<Rightarrow> module_manifest \<Rightarrow> bool" where
  "DeftModuleManifestV1Schema url_protocol m \<longleftrightarrow> mm_schema_version m = 1 \<and> manifest_shape m
     \<and> list_all (ModuleCollectionSchema url_protocol) (mm_collections m) \<and> manifest_issues False m = []"

definition DeftModuleManifestV2Schema :: "(string \<Rightarrow> string option) \<Rightarrow> module_manifest \<Rightarrow> bool" where
  "DeftModuleManifestV2Schema url_protocol m \<longleftrightarrow> mm_schema_version m = 2 \<and> manifest_shape m
     \<and> list_all (ModuleCollectionV2Schema url_protocol) (mm_collections m) \<and> manifest_issues True m = []"

definition DeftModuleManifestSchema :: "(string \<Rightarrow> string option) \<Rightarrow> module_manifest \<Rightarrow> bool" where
  "DeftModuleManifestSchema url_protocol m \<longleftrightarrow>
     DeftModuleManifestV1Schema url_protocol m \<or> DeftModuleManifestV2Schema url_protocol m"

end
