(* ===== verification/ModuleTyping.thy ===== *)
theory ModuleTyping
  imports ModuleManifest
begin

text \<open>
  A type system for module records, independent of the validation: which values a field admits
  (\<open>value_typed\<close>) and which records a list of fields admits (\<open>record_typed\<close>).  The
  validation of a value accepts exactly the typed values; the validation of a record returns only
  typed records and gives every typed record of admissible size back unchanged; fields that are added
  without obligations keep records typed.
\<close>

subsection \<open>Typed values\<close>

inductive value_typed ::
    "(string \<Rightarrow> string option) \<Rightarrow> bool \<Rightarrow> field_type \<Rightarrow> jsv \<Rightarrow> bool" for url_protocol where
  vt_text: "length s \<le> MODULE_LIMITS Text_value_chars \<Longrightarrow> \<not> (required \<and> s = [])
    \<Longrightarrow> value_typed url_protocol required (FtText d) (JStr s)"
| vt_long_text: "length s \<le> MODULE_LIMITS Long_text_value_chars \<Longrightarrow> \<not> (required \<and> s = [])
    \<Longrightarrow> value_typed url_protocol required (FtLongText d) (JStr s)"
| vt_email: "isValidEmail s \<Longrightarrow> value_typed url_protocol required (FtEmail d) (JStr s)"
| vt_url: "isValidHttpUrl url_protocol s \<Longrightarrow> value_typed url_protocol required (FtUrl d) (JStr s)"
| vt_date: "isValidDate s \<Longrightarrow> value_typed url_protocol required (FtDate d) (JStr s)"
| vt_datetime: "isValidDateTime s \<Longrightarrow> value_typed url_protocol required (FtDatetime d) (JStr s)"
| vt_number: "value_typed url_protocol required (FtNumber d) (JNum n)"
| vt_boolean: "value_typed url_protocol required (FtBoolean d) (JBool b)"
| vt_single_select: "s \<in> set (option_values os)
    \<Longrightarrow> value_typed url_protocol required (FtSingleSelect os d) (JStr s)"
| vt_multi_select: "distinct vs \<Longrightarrow> length vs \<le> MODULE_LIMITS Select_options_per_field
    \<Longrightarrow> set vs \<subseteq> set (option_values os)
    \<Longrightarrow> value_typed url_protocol required (FtMultiSelect os d) (JArr (map JStr vs))"
| vt_member: "opaque_id s \<Longrightarrow> value_typed url_protocol required (FtMember False) (JStr s)"
| vt_members: "distinct vs \<Longrightarrow> length vs \<le> MODULE_LIMITS Relation_values_per_field
    \<Longrightarrow> list_all opaque_id vs \<Longrightarrow> value_typed url_protocol required (FtMember True) (JArr (map JStr vs))"
| vt_tags: "distinct vs \<Longrightarrow> length vs \<le> MODULE_LIMITS Tags_per_field
    \<Longrightarrow> list_all (\<lambda>t. js_trim t \<noteq> [] \<and> length t \<le> MODULE_LIMITS Tag_value_chars) vs
    \<Longrightarrow> value_typed url_protocol required FtTags (JArr (map JStr vs))"

inductive_simps value_typed_simps:
  "value_typed url_protocol required (FtText d) v"
  "value_typed url_protocol required (FtLongText d) v"
  "value_typed url_protocol required (FtEmail d) v"
  "value_typed url_protocol required (FtUrl d) v"
  "value_typed url_protocol required (FtDate d) v"
  "value_typed url_protocol required (FtDatetime d) v"
  "value_typed url_protocol required (FtNumber d) v"
  "value_typed url_protocol required (FtBoolean d) v"
  "value_typed url_protocol required (FtSingleSelect os d) v"
  "value_typed url_protocol required (FtMultiSelect os d) v"
  "value_typed url_protocol required (FtMember m) v"
  "value_typed url_protocol required FtTags v"
  "value_typed url_protocol required (FtRelation t m) v"
  "value_typed url_protocol required (FtResourceRef i t m) v"

lemma js_str_items_iff: "js_str_items vs = Some items \<longleftrightarrow> vs = map JStr items"
  by (induction vs arbitrary: items rule: js_str_items.induct) auto

lemma map_JStr_eq [simp]: "map JStr xs = map JStr ys \<longleftrightarrow> xs = ys"
  by (rule inj_map_eq_map) (simp add: inj_def)

lemma js_str_items_map [simp]: "js_str_items (map JStr vs) = Some vs"
  by (simp add: js_str_items_iff)

lemma js_strings_iff: "js_strings v = Some items \<longleftrightarrow> v = JArr (map JStr items)"
  by (cases v) (auto simp: js_str_items_iff)

lemma js_string_iff: "js_string v = Some s \<longleftrightarrow> v = JStr s"
  by (cases v) auto

lemma js_is_number_iff: "js_is_number v \<longleftrightarrow> (\<exists>n. v = JNum n)"
  by (cases v) auto

lemma js_is_bool_iff: "js_is_bool v \<longleftrightarrow> (\<exists>b. v = JBool b)"
  by (cases v) auto

lemma text_issue_None: "text_issue key required bound v = None
    \<longleftrightarrow> (\<exists>s. v = JStr s \<and> length s \<le> MODULE_LIMITS bound \<and> \<not> (required \<and> s = []))"
  by (auto simp: text_issue_def js_string_iff split: option.splits)

lemma format_issue_None: "format_issue key p m1 m2 v = None \<longleftrightarrow> (\<exists>s. v = JStr s \<and> p s)"
  by (auto simp: format_issue_def js_string_iff split: option.splits)

lemma multi_select_issue_None: "multi_select_issue key os v = None
    \<longleftrightarrow> (\<exists>vs. v = JArr (map JStr vs) \<and> distinct vs \<and> length vs \<le> MODULE_LIMITS Select_options_per_field
           \<and> set vs \<subseteq> set (option_values os))"
  by (auto simp: multi_select_issue_def js_strings_iff list_all_iff split: option.splits if_splits)

lemma tags_issue_None: "tags_issue key v = None
    \<longleftrightarrow> (\<exists>vs. v = JArr (map JStr vs) \<and> distinct vs \<and> length vs \<le> MODULE_LIMITS Tags_per_field
           \<and> list_all (\<lambda>t. js_trim t \<noteq> [] \<and> length t \<le> MODULE_LIMITS Tag_value_chars) vs)"
  by (auto simp: tags_issue_def js_strings_iff list_all_iff list_ex_iff not_le split: option.splits if_splits)

lemma member_issue_None: "member_issue key multiple v = None
    \<longleftrightarrow> (if multiple then \<exists>vs. v = JArr (map JStr vs) \<and> distinct vs
             \<and> length vs \<le> MODULE_LIMITS Relation_values_per_field \<and> list_all opaque_id vs
         else \<exists>s. v = JStr s \<and> opaque_id s)"
  by (auto simp: member_issue_def js_strings_iff js_string_iff split: option.splits if_splits)

lemma value_accepted_iff_typed:
  "validateModuleFieldValue url_protocol f v = None
     \<longleftrightarrow> value_typed url_protocol (mf_required f) (mf_type f) v"
  by (cases "mf_type f")
     (auto simp: validateModuleFieldValue_def value_typed_simps text_issue_None format_issue_None
        multi_select_issue_None tags_issue_None member_issue_None js_is_number_iff js_is_bool_iff)

lemma value_typed_defined: "value_typed url_protocol required ft v \<Longrightarrow> v \<noteq> JUndefined"
  by (auto elim: value_typed.cases)

subsection \<open>Typed records\<close>

definition field_admits ::
    "(string \<Rightarrow> string option) \<Rightarrow> string \<Rightarrow> jsv \<Rightarrow> module_field \<Rightarrow> bool" where
  "field_admits url_protocol k v f \<longleftrightarrow> mf_key f = k \<and> value_typed url_protocol (mf_required f) (mf_type f) v"

text \<open>A field that a record must have: required, or filled from its default.\<close>

definition obligatory :: "module_field \<Rightarrow> bool" where
  "obligatory f \<longleftrightarrow> mf_required f \<or> type_default (mf_type f) \<noteq> JUndefined"

definition record_typed ::
    "(string \<Rightarrow> string option) \<Rightarrow> module_field list \<Rightarrow> (string \<times> jsv) list \<Rightarrow> bool" where
  "record_typed url_protocol fds data \<longleftrightarrow> distinct (map fst data)
     \<and> (\<forall>(k, v) \<in> set data. \<exists>f \<in> set fds. field_admits url_protocol k v f)
     \<and> (\<forall>f \<in> set fds. obligatory f \<longrightarrow> mf_key f \<in> fst ` set data)"

definition record_fits :: "(rat \<Rightarrow> string) \<Rightarrow> (string \<times> jsv) list \<Rightarrow> bool" where
  "record_fits num data \<longleftrightarrow> utf8_length (json_text num (JObj data)) \<le> MODULE_LIMITS Record_bytes"

lemma record_typed_more_fields:
  assumes "record_typed url_protocol fds data" "set fds \<subseteq> set fds'"
    and "\<And>f. f \<in> set fds' \<Longrightarrow> f \<notin> set fds \<Longrightarrow> \<not> obligatory f"
  shows "record_typed url_protocol fds' data"
  using assms unfolding record_typed_def by fast

subsection \<open>What the validation returns\<close>

definition stored_pair :: "field_outcome \<Rightarrow> (string \<times> jsv) list" where
  "stored_pair r = (case r of Stored p \<Rightarrow> [p] | _ \<Rightarrow> [])"

lemma js_put_fresh: "k \<notin> fst ` set ps \<Longrightarrow> js_put k v ps = ps @ [(k, v)]"
  by (induction k v ps rule: js_put.induct) auto

lemma fold_store_outcome:
  "distinct (map fst (acc @ concat (map stored_pair rs)))
   \<Longrightarrow> fold store_outcome rs acc = acc @ concat (map stored_pair rs)"
proof (induction rs arbitrary: acc)
  case (Cons r rs)
  show ?case
  proof (cases r)
    case (Stored p)
    obtain k v where p: "p = (k, v)" by (cases p)
    have "k \<notin> fst ` set acc" using Cons.prems Stored p by (auto simp: stored_pair_def)
    then show ?thesis using Cons Stored p by (auto simp: js_put_fresh stored_pair_def)
  qed (use Cons in \<open>auto simp: stored_pair_def\<close>)
qed simp

lemma stored_pair_key: "p \<in> set (stored_pair (field_outcome_of u data f)) \<Longrightarrow> fst p = mf_key f"
  by (auto simp: stored_pair_def field_outcome_of_def Let_def split: if_splits option.splits)

lemma length_stored_pair: "length (stored_pair r) \<le> 1"
  by (cases r) (auto simp: stored_pair_def)

lemma distinct_stored_keys:
  "distinct (map mf_key fds)
   \<Longrightarrow> distinct (map fst (concat (map (\<lambda>f. stored_pair (field_outcome_of u data f)) fds)))"
proof (induction fds)
  case (Cons f fds)
  have "fst p = mf_key f" if "p \<in> set (stored_pair (field_outcome_of u data f))" for p
    using that by (rule stored_pair_key)
  moreover have "fst p \<noteq> mf_key f"
    if "p \<in> set (concat (map (\<lambda>f. stored_pair (field_outcome_of u data f)) fds))" for p
    using that Cons.prems stored_pair_key by (fastforce simp: image_iff)
  moreover have "distinct (map fst (stored_pair (field_outcome_of u data f)))"
    by (cases "field_outcome_of u data f") (auto simp: stored_pair_def)
  ultimately show ?case using Cons by fastforce
qed simp

lemma field_outcome_sound:
  assumes "field_outcome_of u data f = r" "outcome_issues r = []"
  shows "(\<exists>v. r = Stored (mf_key f, v) \<and> value_typed u (mf_required f) (mf_type f) v) \<or> (r = Skipped \<and> \<not> obligatory f)"
  using assms
  by (auto simp: field_outcome_of_def Let_def obligatory_def value_accepted_iff_typed
      split: if_splits option.splits)

lemma validation_result:
  assumes "validateModuleRecordData u num m ck v = Inr out" "find_collection m ck = Some c"
    and "distinct (map mf_key (mc_fields c))"
  obtains data where "v = JObj data"
    and "out = concat (map (\<lambda>f. stored_pair (field_outcome_of u data f)) (mc_fields c))"
    and "\<And>f. f \<in> set (mc_fields c) \<Longrightarrow> outcome_issues (field_outcome_of u data f) = []"
    and "record_fits num out"
proof -
  obtain data where v: "v = JObj data"
    using assms(1,2) by (cases v) (auto simp: validateModuleRecordData_def)
  let ?rs = "map (field_outcome_of u data) (mc_fields c)"
  have out: "out = fold store_outcome ?rs []"
    using assms(1,2) v by (auto simp: validateModuleRecordData_def Let_def split: if_splits)
  have "fold store_outcome ?rs [] = concat (map stored_pair ?rs)"
    using fold_store_outcome[of "[]" ?rs] distinct_stored_keys[OF assms(3), of u data] by (simp add: comp_def)
  with out have "out = concat (map (\<lambda>f. stored_pair (field_outcome_of u data f)) (mc_fields c))"
    by (simp add: comp_def)
  moreover have "outcome_issues (field_outcome_of u data f) = []" if "f \<in> set (mc_fields c)" for f
    using assms(1,2) v that by (auto simp: validateModuleRecordData_def Let_def split: if_splits)
  moreover have "record_fits num out"
    using assms(1,2) v out
    by (auto simp: validateModuleRecordData_def Let_def record_fits_def not_less
        simp del: MODULE_LIMITS.simps split: if_splits)
  ultimately show ?thesis using v that by blast
qed

theorem validated_record_is_typed:
  assumes "validateModuleRecordData u num m ck v = Inr out" "find_collection m ck = Some c"
    and "distinct (map mf_key (mc_fields c))"
  shows "record_typed u (mc_fields c) out" "record_fits num out"
proof -
  obtain data where out: "out = concat (map (\<lambda>f. stored_pair (field_outcome_of u data f)) (mc_fields c))"
    and no_issue: "\<And>f. f \<in> set (mc_fields c) \<Longrightarrow> outcome_issues (field_outcome_of u data f) = []"
    and fits: "record_fits num out"
    by (rule validation_result[OF assms]) blast
  show "record_fits num out" by (rule fits)
  have "\<exists>f \<in> set (mc_fields c). field_admits u k w f" if kw: "(k, w) \<in> set out" for k w
  proof -
    from kw out obtain f where f: "f \<in> set (mc_fields c)" "(k, w) \<in> set (stored_pair (field_outcome_of u data f))"
      by auto
    from field_outcome_sound[OF refl no_issue[OF f(1)]] f(2)
    have "field_admits u k w f" by (auto simp: stored_pair_def field_admits_def)
    with f(1) show ?thesis by blast
  qed
  moreover have "mf_key f \<in> fst ` set out" if f: "f \<in> set (mc_fields c)" "obligatory f" for f
  proof -
    from field_outcome_sound[OF refl no_issue[OF f(1)]] f(2)
    obtain w where "field_outcome_of u data f = Stored (mf_key f, w)" by auto
    then have "(mf_key f, w) \<in> set out" using f(1) out by (force simp: stored_pair_def)
    then show ?thesis by force
  qed
  moreover have "distinct (map fst out)" using distinct_stored_keys[OF assms(3)] out by simp
  ultimately show "record_typed u (mc_fields c) out" by (auto simp: record_typed_def)
qed

subsection \<open>Typed records validate unchanged\<close>

lemma utf8_length_append [simp]: "utf8_length (s @ t) = utf8_length s + utf8_length t"
  by (simp add: utf8_length_def)

lemma utf8_length_Nil [simp]: "utf8_length [] = 0"
  by (simp add: utf8_length_def)

lemma utf8_length_Cons: "utf8_length (c # s) = (if code_unit c < 128 then 1 else 2) + utf8_length s"
  by (simp add: utf8_length_def)

lemma utf8_length_join:
  "utf8_length (js_join sep ps) = sum_list (map utf8_length ps) + (length ps - 1) * utf8_length sep"
  by (induction sep ps rule: js_join.induct) auto

lemma utf8_length_object_perm:
  assumes "mset ps = mset qs"
  shows "utf8_length (json_text num (JObj ps)) = utf8_length (json_text num (JObj qs))"
proof -
  define g where "g = (\<lambda>(k, v). if v = JUndefined then [] else [json_string k @ '':'' @ json_text num v])"
  have "mset (concat (map g ps)) = mset (concat (map g qs))"
    using assms by (metis mset_concat mset_map sum_mset_sum_list)
  then have "sum_list (map utf8_length (concat (map g ps))) = sum_list (map utf8_length (concat (map g qs)))"
    and "length (concat (map g ps)) = length (concat (map g qs))"
    by (metis mset_map sum_mset_sum_list, metis size_mset)
  then show ?thesis by (simp add: utf8_length_join utf8_length_Cons g_def)
qed

lemma typed_field_outcome:
  assumes typed: "record_typed u fds data" and f: "f \<in> set fds" and keys: "distinct (map mf_key fds)"
  shows "field_outcome_of u data f = (case map_of data (mf_key f) of Some v \<Rightarrow> Stored (mf_key f, v) | None \<Rightarrow> Skipped)"
proof (cases "map_of data (mf_key f)")
  case None
  then have "mf_key f \<notin> fst ` set data" by (simp add: map_of_eq_None_iff)
  then have "\<not> obligatory f" using typed f by (auto simp: record_typed_def)
  then show ?thesis using None by (simp add: field_outcome_of_def data_prop_def obligatory_def)
next
  case (Some v)
  then have "(mf_key f, v) \<in> set data" by (rule map_of_SomeD)
  then obtain g where "g \<in> set fds" "field_admits u (mf_key f) v g"
    using typed by (auto simp: record_typed_def)
  then have "value_typed u (mf_required f) (mf_type f) v"
    using keys f by (auto simp: field_admits_def dest: distinct_map_inj)
  then have "validateModuleFieldValue u f v = None" "v \<noteq> JUndefined"
    by (auto simp: value_accepted_iff_typed dest: value_typed_defined)
  then show ?thesis using Some by (simp add: field_outcome_of_def data_prop_def)
qed

lemma record_typed_keys: "record_typed u fds data \<Longrightarrow> (k, v) \<in> set data \<Longrightarrow> \<exists>f \<in> set fds. mf_key f = k"
  by (fastforce simp: record_typed_def field_admits_def)

theorem typed_record_validates:
  assumes "record_typed u (mc_fields c) data" "record_fits num data" "find_collection m ck = Some c"
    and keys: "distinct (map mf_key (mc_fields c))"
  obtains out where "validateModuleRecordData u num m ck (JObj data) = Inr out" "mset out = mset data"
proof -
  let ?g = "\<lambda>f. case map_of data (mf_key f) of Some v \<Rightarrow> [(mf_key f, v)] | None \<Rightarrow> []"
  define out where "out = concat (map ?g (mc_fields c))"
  have pair: "stored_pair (field_outcome_of u data f) = ?g f" if "f \<in> set (mc_fields c)" for f
    using typed_field_outcome[OF assms(1) that keys] by (auto simp: stored_pair_def split: option.splits)
  have issue: "outcome_issues (field_outcome_of u data f) = []" if "f \<in> set (mc_fields c)" for f
    using typed_field_outcome[OF assms(1) that keys] by (auto split: option.splits)
  have pairs: "concat (map (\<lambda>f. stored_pair (field_outcome_of u data f)) (mc_fields c)) = out"
    unfolding out_def by (intro arg_cong[where f = concat] map_cong refl pair)
  have distinct_out: "distinct (map fst out)"
    using distinct_stored_keys[OF keys, of u data] pairs by simp
  have "fold store_outcome (map (field_outcome_of u data) (mc_fields c)) [] = out"
    using fold_store_outcome[of "[]" "map (field_outcome_of u data) (mc_fields c)"] distinct_out pairs
    by (simp add: comp_def)
  moreover have "concat (map outcome_issues (map (field_outcome_of u data) (mc_fields c))) = []"
    using issue by simp
  moreover have "unknown_field_issues (the (find_collection m ck)) data = []"
    using record_typed_keys[OF assms(1)] assms(3)
    by (auto simp: unknown_field_issues_def find_field_def find_None_set filter_empty_conv)
  moreover have "set out = set data"
  proof (intro set_eqI iffI; clarify)
    fix k v assume kv: "(k, v) \<in> set data"
    then obtain f where "f \<in> set (mc_fields c)" "mf_key f = k"
      using record_typed_keys[OF assms(1)] by blast
    moreover have "map_of data k = Some v" using kv assms(1) by (simp add: record_typed_def)
    ultimately show "(k, v) \<in> set out" by (force simp: out_def)
  next
    fix k v assume "(k, v) \<in> set out"
    then have "\<exists>f \<in> set (mc_fields c). (k, v) \<in> set (?g f)" by (simp only: out_def set_concat set_map UN_iff bex_simps)
    then obtain f :: module_field where "(k, v) \<in> set (?g f)" by blast
    then show "(k, v) \<in> set data"
      by (cases "map_of data (mf_key f)") (auto dest: map_of_SomeD)
  qed
  moreover have "distinct out" "distinct data"
    using distinct_out assms(1) by (auto simp: record_typed_def distinct_map)
  ultimately have "validateModuleRecordData u num m ck (JObj data) = Inr out \<and> mset out = mset data"
    using assms(2,3) utf8_length_object_perm[of out data num]
    by (auto simp: validateModuleRecordData_def record_fits_def Let_def set_eq_iff_mset_eq_distinct
        not_less simp del: MODULE_LIMITS.simps json_text.simps)
  then show ?thesis using that by blast
qed

subsection \<open>What a manifest guarantees\<close>

text \<open>
  A default that the manifest accepts is a typed value, with one exception: the empty text as the
  default of a required text field.
\<close>

lemma default_is_typed:
  assumes "default_valid u (mf_type f)" "field_type_ok v2 (mf_type f)" "type_default (mf_type f) \<noteq> JUndefined"
    and "\<not> (mf_required f \<and> type_default (mf_type f) = JStr [])"
  shows "value_typed u (mf_required f) (mf_type f) (type_default (mf_type f))"
proof (cases "mf_type f")
  case (FtMultiSelect os d)
  with assms show ?thesis
    by (cases d) (auto simp: value_typed_simps list_all_iff opt_ok_def)
next
  case (FtText d)
  with assms show ?thesis by (cases d) (auto simp: value_typed_simps)
next
  case (FtLongText d)
  with assms show ?thesis by (cases d) (auto simp: value_typed_simps)
next
  case (FtSingleSelect os d)
  with assms show ?thesis by (cases d) (auto simp: value_typed_simps)
next
  case (FtEmail d)
  with assms show ?thesis by (cases d) (auto simp: value_typed_simps)
next
  case (FtUrl d)
  with assms show ?thesis by (cases d) (auto simp: value_typed_simps)
next
  case (FtDate d)
  with assms show ?thesis by (cases d) (auto simp: value_typed_simps)
next
  case (FtDatetime d)
  with assms show ?thesis by (cases d) (auto simp: value_typed_simps)
next
  case (FtNumber d)
  with assms show ?thesis by (cases d) (auto simp: value_typed_simps)
next
  case (FtBoolean d)
  with assms show ?thesis by (cases d) (auto simp: value_typed_simps)
qed (use assms in auto)

lemma empty_default_of_required_text_is_refused:
  assumes "mf_required f" "mf_type f = FtText (Some [])" "data_prop data (mf_key f) = JUndefined"
  shows "default_valid u (mf_type f)"
    and "field_outcome_of u data f = Issued (validationIssue (Some (mf_key f)) RequiredField ''Must not be empty'')"
  using assms by (auto simp: field_outcome_of_def validateModuleFieldValue_def text_issue_def)

lemma dup_issues_Nil: "dup_issues seen vs label = [] \<longleftrightarrow> distinct vs \<and> set vs \<inter> set seen = {}"
  by (induction vs arbitrary: seen) auto

lemma addDuplicateIssues_Nil: "addDuplicateIssues vs label = [] \<longleftrightarrow> distinct vs"
  by (simp add: addDuplicateIssues_def dup_issues_Nil)

lemma manifest_v1_collections:
  assumes "DeftModuleManifestV1Schema u m"
  shows "distinct (map mc_key (mm_collections m))"
    and "c \<in> set (mm_collections m) \<Longrightarrow> distinct (map mf_key (mc_fields c))"
  using assms
  by (auto simp: DeftModuleManifestV1Schema_def manifest_issues_def addDuplicateIssues_Nil list_all_iff
      ModuleCollectionSchema_def collection_issues_def)

lemma find_collection_mem: "find_collection m ck = Some c \<Longrightarrow> c \<in> set (mm_collections m) \<and> mc_key c = ck"
  unfolding find_collection_def by (drule find_Some_set) auto

lemma manifest_v1_fields:
  "DeftModuleManifestV1Schema u m \<Longrightarrow> find_collection m ck = Some c \<Longrightarrow> distinct (map mf_key (mc_fields c))"
  using find_collection_mem manifest_v1_collections(2) by blast

end
