(* ===== verification/ModuleProjection.thy ===== *)
theory ModuleProjection
  imports ModuleTyping
begin

text \<open>
  The texts a record is found and shown by (packages/shared/src/modules.ts): title, subtitle and
  search text, projected from the fields that the manifest names.
\<close>

fun projection_spaces :: "bool \<Rightarrow> string \<Rightarrow> string" where
  "projection_spaces after [] = []"
| "projection_spaces after (c # s) =
     (if js_is_space c then (if after then [] else '' '') @ projection_spaces True s
      else c # projection_spaces False s)"

definition collapseProjectionWhitespace :: "string \<Rightarrow> string" where
  "collapseProjectionWhitespace v = js_trim (projection_spaces False v)"

definition sliceUnicode :: "string \<Rightarrow> nat \<Rightarrow> string" where
  "sliceUnicode v m =
     (if length v \<le> m then v
      else let sliced = take m v
           in if sliced \<noteq> [] \<and> 0xd800 \<le> code_unit (last sliced) \<and> code_unit (last sliced) \<le> 0xdbff
              then butlast sliced else sliced)"

definition option_label :: "select_option list \<Rightarrow> string \<Rightarrow> string" where
  "option_label os s = (case List.find (\<lambda>opt. so_value opt = s) os of Some opt \<Rightarrow> so_label opt | None \<Rightarrow> s)"

text \<open>\<open>String(value)\<close> of a stored value.\<close>

fun js_display :: "(rat \<Rightarrow> string) \<Rightarrow> jsv \<Rightarrow> string" where
  "js_display num (JStr s) = s"
| "js_display num (JNum n) = num n"
| "js_display num (JBool b) = (if b then ''true'' else ''false'')"
| "js_display num _ = []"

fun single_select_text :: "field_type \<Rightarrow> jsv \<Rightarrow> string option" where
  "single_select_text (FtSingleSelect os _) (JStr s) = Some (option_label os s)"
| "single_select_text _ _ = None"

text \<open>A \<open>Map\<close> of the options answers with the last of equal values.\<close>

fun multi_select_text :: "field_type \<Rightarrow> jsv \<Rightarrow> string option" where
  "multi_select_text (FtMultiSelect os _) v =
     map_option (\<lambda>items. js_join '', '' (map (option_label (rev os)) items)) (js_strings v)"
| "multi_select_text _ _ = None"

definition fieldProjectionText :: "(rat \<Rightarrow> string) \<Rightarrow> field_type \<Rightarrow> jsv \<Rightarrow> string" where
  "fieldProjectionText num ft v =
     (if v = JUndefined then []
      else case single_select_text ft v of
             Some t \<Rightarrow> t
           | None \<Rightarrow> (case multi_select_text ft v of
                 Some t \<Rightarrow> t
               | None \<Rightarrow> (case js_strings v of Some items \<Rightarrow> js_join '', '' items | None \<Rightarrow> js_display num v)))"

record search_projection =
  sp_title :: string
  sp_subtitle :: "string option"
  sp_text :: string

definition display_field :: "(rat \<Rightarrow> string) \<Rightarrow> module_field list \<Rightarrow> (string \<times> jsv) list \<Rightarrow> string \<Rightarrow> string" where
  "display_field num fds data k = (case fieldByKey fds k of
       Some f \<Rightarrow> collapseProjectionWhitespace (fieldProjectionText num (mf_type f) (data_prop data k))
     | None \<Rightarrow> [])"

definition middle_dot :: string where
  "middle_dot = [CHR '' '', CHR 0xB7, CHR '' '']"

definition projectModuleRecordSearch ::
    "(string \<Rightarrow> string option) \<Rightarrow> (rat \<Rightarrow> string) \<Rightarrow> module_manifest \<Rightarrow> string \<Rightarrow> jsv
      \<Rightarrow> validation_issue list + search_projection option" where
  "projectModuleRecordSearch url_protocol num m collectionKey dataValue =
     (case find_collection m collectionKey of
        None \<Rightarrow> Throw [validationIssue None InvalidCollection (''Unknown collection: '' @ collectionKey)]
      | Some c \<Rightarrow>
          (case mc_search c of
             None \<Rightarrow> Ok None
           | Some search \<Rightarrow>
               res_bind (validateModuleRecordData url_protocol num m collectionKey dataValue) (\<lambda>data.
               let display = display_field num (mc_fields c) data;
                   subtitleValue = js_join middle_dot
                     (filter (\<lambda>t. t \<noteq> []) (map display (sc_subtitle_fields search)))
               in Ok (Some \<lparr>
                 sp_title = sliceUnicode (display (sc_title_field search)) (MODULE_LIMITS Search_title_chars),
                 sp_subtitle = (if subtitleValue = [] then None
                    else Some (sliceUnicode subtitleValue (MODULE_LIMITS Search_subtitle_chars))),
                 sp_text = sliceUnicode
                    (js_join [CHR 0x0A] (filter (\<lambda>t. t \<noteq> []) (map display (sc_fields search))))
                    (MODULE_LIMITS Search_text_chars)\<rparr>))))"

definition projectModuleRecordDisplayTitle ::
    "(string \<Rightarrow> string option) \<Rightarrow> (rat \<Rightarrow> string) \<Rightarrow> module_manifest \<Rightarrow> string \<Rightarrow> jsv
      \<Rightarrow> validation_issue list + string option" where
  "projectModuleRecordDisplayTitle url_protocol num m collectionKey dataValue =
     (case find_collection m collectionKey of
        None \<Rightarrow> Throw [validationIssue None InvalidCollection (''Unknown collection: '' @ collectionKey)]
      | Some c \<Rightarrow>
          (let titleFieldKey = (case mc_search c of Some search \<Rightarrow> Some (sc_title_field search)
                 | None \<Rightarrow> (case mc_fields c of [] \<Rightarrow> None | f # _ \<Rightarrow> Some (mf_key f)))
           in case titleFieldKey of
                None \<Rightarrow> Ok None
              | Some k \<Rightarrow>
                  (case find_field c k of
                     None \<Rightarrow> Ok None
                   | Some f \<Rightarrow>
                       res_bind (validateModuleRecordData url_protocol num m collectionKey dataValue) (\<lambda>data.
                       let title = sliceUnicode (collapseProjectionWhitespace
                             (fieldProjectionText num (mf_type f) (data_prop data k))) (MODULE_LIMITS Search_title_chars)
                       in Ok (if title = [] then None else Some title)))))"

lemma length_sliceUnicode: "length (sliceUnicode v m) \<le> m"
  by (simp add: sliceUnicode_def Let_def)

lemma projection_bounds:
  assumes "projectModuleRecordSearch u num m ck v = Inr (Some p)"
  shows "length (sp_title p) \<le> MODULE_LIMITS Search_title_chars"
    and "length (sp_text p) \<le> MODULE_LIMITS Search_text_chars"
    and "sp_subtitle p = Some t \<Longrightarrow> length t \<le> MODULE_LIMITS Search_subtitle_chars"
  using assms
  by (auto simp: projectModuleRecordSearch_def res_bind_Ok_iff Let_def length_sliceUnicode
      simp del: MODULE_LIMITS.simps split: option.splits if_splits)

end
