(* ===== verification/ModuleStore.thy ===== *)
theory ModuleStore
  imports ModuleProjection McpPolicy
begin

text \<open>
  The tables of installed modules (packages/db/src/schema.ts) and the parts of module-service.ts that
  every operation shares: actors and their access, the lookup of an installation with its active
  version, the digests of requests, the receipts a repeated request is answered from, and the
  replacement of relations.

  Columns that no operation reads are left out.  The other parts of the database that the operations
  look at are the record \<open>module_world\<close>: members, employees, the modules owned by apps, which
  tasks a member sees, whether records take part in relations of other resources, and whether saved
  views or such relations stand against a new manifest.  The
  functions the code gets from its runtime are the record \<open>module_env\<close>.  A transaction is a
  function from a store to an error or a result with a new store, so an error leaves the store as it
  was.  Row and advisory locks order the transactions and have no effect inside one.
\<close>

subsection \<open>Rows\<close>

datatype agent_access = AccessNone | AccessRead | AccessWrite

datatype module_source = Bundled | Sideloaded | Registry

record installation_row =
  mi_id :: string
  mi_org :: string
  mi_module_id :: string
  mi_slug :: string
  mi_source :: module_source
  mi_enabled :: bool
  mi_agent_access :: agent_access
  mi_deleted :: bool

record version_row =
  mv_id :: string
  mv_org :: string
  mv_installation :: string
  mv_version :: string
  mv_manifest :: module_manifest
  mv_digest :: string
  mv_active :: bool

record module_row =
  mr_id :: string
  mr_org :: string
  mr_installation :: string
  mr_collection :: string
  mr_version :: string
  mr_data :: "(string \<times> jsv) list"
  mr_revision :: nat
  mr_create_key :: "string option"
  mr_creator :: "string \<times> string"
  mr_title :: string
  mr_subtitle :: "string option"
  mr_text :: string
  mr_deleted :: bool

record relation_row =
  rr_id :: string
  rr_org :: string
  rr_installation :: string
  rr_field :: string
  rr_source :: string
  rr_target :: string
  rr_position :: nat
  rr_deleted :: bool

datatype mutation_operation = MutCreate | MutUpdate | MutArchive

record receipt_row =
  mu_org :: string
  mu_installation :: string
  mu_action :: "string option"
  mu_actor :: "string \<times> string"
  mu_operation :: mutation_operation
  mu_key :: string
  mu_digest :: string
  mu_record :: string
  mu_revision :: nat
  mu_manifest_digest :: string
  mu_archived :: bool
  mu_changed :: "string list"

record merge_row =
  mg_id :: string
  mg_source :: string
  mg_target :: string
  mg_source_revision :: nat
  mg_target_revision :: nat
  mg_source_data :: "(string \<times> jsv) list"
  mg_target_data :: "(string \<times> jsv) list"

text \<open>A reference between a record and a row of another component, such as a task.\<close>

record cross_ref =
  xr_org :: string
  xr_source :: "string \<times> string"
  xr_target :: "string \<times> string"

text \<open>Of an audit entry: who did what to which row, and the revisions before and after.\<close>

record module_audit =
  ma_actor :: "string \<times> string"
  ma_action :: string
  ma_entity :: string
  ma_before :: "nat option"
  ma_after :: "nat option"
  ma_changed :: "string list"

record module_store =
  ms_installations :: "installation_row list"
  ms_versions :: "version_row list"
  ms_records :: "module_row list"
  ms_relations :: "relation_row list"
  ms_receipts :: "receipt_row list"
  ms_merges :: "merge_row list"
  ms_refs :: "cross_ref list"
  ms_audit :: "module_audit list"
  ms_next :: nat

datatype member_role = RoleOwner | RoleAdmin | RoleMember | RoleGuest

record org_member =
  om_org :: string
  om_user :: string
  om_role :: member_role
  om_active :: bool

record module_world =
  mw_members :: "org_member list"
  mw_employees :: "employee list"
  mw_bindings :: "(string \<times> string \<times> string) list"
  mw_task_visible :: "string \<Rightarrow> string \<Rightarrow> bool"
  mw_resource_linked :: "string \<Rightarrow> string list \<Rightarrow> bool"
  mw_upgrade_blocked :: "string \<Rightarrow> module_manifest \<Rightarrow> bool"

record module_env =
  me_url :: "string \<Rightarrow> string option"
  me_num :: "rat \<Rightarrow> string"
  me_dbl :: "nat \<Rightarrow> nat"
  me_sha :: "string \<Rightarrow> string"
  me_collate :: "string \<Rightarrow> string \<Rightarrow> bool"
  me_manifest_digest :: "module_manifest \<Rightarrow> string"
  me_manifest_bytes :: "module_manifest \<Rightarrow> nat"
  me_id :: "nat \<Rightarrow> string"

subsection \<open>Errors\<close>

datatype module_error_code =
    MODULE_NOT_FOUND | MODULE_DISABLED | MODULE_ACCESS_DENIED | MODULE_SCOPE_REQUIRED
  | MODULE_MANIFEST_STALE | MODULE_REVISION_CONFLICT | MODULE_IDEMPOTENCY_CONFLICT
  | MODULE_VALIDATION_ERROR | MODULE_RECORD_NOT_FOUND | MODULE_ALREADY_INSTALLED
  | MODULE_UPDATE_NOT_AVAILABLE | MODULE_IDENTITY_MISMATCH | MODULE_MANIFEST_INVALID
  | MODULE_RELATION_NOT_FOUND

text \<open>
  A \<open>ModuleError\<close> is given by its code (with the issues of a refused record), a failed schema
  parse, a plain \<open>Error\<close> and a refused statement by a constructor each.
\<close>

datatype module_error =
    ModuleError module_error_code
  | RecordIssues "validation_issue list"
  | SchemaError
  | InternalError
  | UniqueIndexViolation
  | ModuleForeignKeyViolation

subsection \<open>Actors\<close>

datatype actor_channel = ViaUi | ViaRest | ViaMcp

datatype module_actor =
    HumanActor string string member_role actor_channel "string list"
  | DeftyActor string string member_role "string option" "string option"
  | EmployeeActor string string trust_level "string list" "string option"
  | SystemActor string string

fun actor_org :: "module_actor \<Rightarrow> string" where
  "actor_org (HumanActor org i r c s) = org"
| "actor_org (DeftyActor org i r c a) = org"
| "actor_org (EmployeeActor org i t s a) = org"
| "actor_org (SystemActor org i) = org"

fun actor_id :: "module_actor \<Rightarrow> string" where
  "actor_id (HumanActor org i r c s) = i"
| "actor_id (DeftyActor org i r c a) = i"
| "actor_id (EmployeeActor org i t s a) = i"
| "actor_id (SystemActor org i) = i"

fun actor_kind :: "module_actor \<Rightarrow> string" where
  "actor_kind (HumanActor org i r c s) = ''human''"
| "actor_kind (DeftyActor org i r c a) = ''defty''"
| "actor_kind (EmployeeActor org i t s a) = ''agent_employee''"
| "actor_kind (SystemActor org i) = ''system''"

fun actor_action :: "module_actor \<Rightarrow> string option" where
  "actor_action (DeftyActor org i r c a) = a"
| "actor_action (EmployeeActor org i t s a) = a"
| "actor_action _ = None"

definition OpaqueIdSchema :: "string \<Rightarrow> bool" where
  "OpaqueIdSchema s \<longleftrightarrow> 1 \<le> length s \<and> length s \<le> 128 \<and> opaque_id s"

definition scopes_ok :: "string list \<Rightarrow> bool" where
  "scopes_ok ss \<longleftrightarrow> length ss \<le> 64 \<and> list_all (\<lambda>s. 1 \<le> length s \<and> length s \<le> 80) ss"

fun ModuleActorSchema :: "module_actor \<Rightarrow> bool" where
  "ModuleActorSchema (HumanActor org i r c s) = (OpaqueIdSchema org \<and> OpaqueIdSchema i \<and> scopes_ok s)"
| "ModuleActorSchema (DeftyActor org i r c a) =
     (OpaqueIdSchema org \<and> OpaqueIdSchema i \<and> opt_ok OpaqueIdSchema c \<and> opt_ok OpaqueIdSchema a)"
| "ModuleActorSchema (EmployeeActor org i t s a) =
     (OpaqueIdSchema org \<and> OpaqueIdSchema i \<and> scopes_ok s \<and> opt_ok OpaqueIdSchema a)"
| "ModuleActorSchema (SystemActor org i) = (OpaqueIdSchema org \<and> OpaqueIdSchema i)"

definition require :: "bool \<Rightarrow> module_error \<Rightarrow> module_error + unit" where
  "require b e = (if b then Ok () else Throw e)"

lemma require_Ok [simp]: "require b e = Inr u \<longleftrightarrow> b"
  by (simp add: require_def)

lemma require_Throw [simp]: "require b e = Inl e' \<longleftrightarrow> \<not> b \<and> e' = e"
  by (auto simp: require_def)

definition validatedActor :: "module_actor \<Rightarrow> module_error + unit" where
  "validatedActor a = require (ModuleActorSchema a) SchemaError"

definition actorMetadata :: "module_actor \<Rightarrow> string \<times> string" where
  "actorMetadata a = (actor_kind a, actor_id a)"

fun isAdmin :: "module_actor \<Rightarrow> bool" where
  "isAdmin (HumanActor org i r c s) = (r = RoleOwner \<or> r = RoleAdmin)"
| "isAdmin _ = False"

fun is_human :: "module_actor \<Rightarrow> bool" where
  "is_human (HumanActor org i r c s) = True"
| "is_human _ = False"

fun is_agent :: "module_actor \<Rightarrow> bool" where
  "is_agent (DeftyActor org i r c a) = True"
| "is_agent (EmployeeActor org i t s a) = True"
| "is_agent _ = False"

fun is_guest :: "module_actor \<Rightarrow> bool" where
  "is_guest (HumanActor org i r c s) = (r = RoleGuest)"
| "is_guest (DeftyActor org i r c a) = (r = RoleGuest)"
| "is_guest _ = False"

fun lacks_mcp_scope :: "string \<Rightarrow> module_actor \<Rightarrow> bool" where
  "lacks_mcp_scope scope (HumanActor org i r c s) = (c = ViaMcp \<and> scope \<notin> set s)"
| "lacks_mcp_scope scope _ = False"

definition assertBaseReadAccess :: "module_actor \<Rightarrow> module_error + unit" where
  "assertBaseReadAccess a =
     res_bind (require (\<not> is_guest a) (ModuleError MODULE_ACCESS_DENIED)) (\<lambda>_.
     require (\<not> lacks_mcp_scope ''read:modules'' a) (ModuleError MODULE_SCOPE_REQUIRED))"

definition assertBaseWriteAccess :: "module_actor \<Rightarrow> module_error + unit" where
  "assertBaseWriteAccess a =
     res_bind (require (\<not> is_guest a) (ModuleError MODULE_ACCESS_DENIED)) (\<lambda>_.
     require (\<not> lacks_mcp_scope ''write:modules'' a) (ModuleError MODULE_SCOPE_REQUIRED))"

datatype access_mode = ModeRead | ModeWrite

definition assertInstallationAccess ::
    "module_actor \<Rightarrow> installation_row \<Rightarrow> access_mode \<Rightarrow> bool \<Rightarrow> module_error + unit" where
  "assertInstallationAccess a inst mode allowDisabledForAdmin =
     res_bind (if mode = ModeWrite then assertBaseWriteAccess a else assertBaseReadAccess a) (\<lambda>_.
     res_bind (require (mi_enabled inst \<or> (allowDisabledForAdmin \<and> isAdmin a)) (ModuleError MODULE_DISABLED)) (\<lambda>_.
     res_bind (require (\<not> (is_agent a \<and> mi_agent_access inst = AccessNone)) (ModuleError MODULE_ACCESS_DENIED)) (\<lambda>_.
     require (\<not> (is_agent a \<and> mode = ModeWrite \<and> mi_agent_access inst \<noteq> AccessWrite))
       (ModuleError MODULE_ACCESS_DENIED))))"

definition assertLifecycleAccess :: "module_actor \<Rightarrow> module_error + unit" where
  "assertLifecycleAccess a =
     res_bind (assertBaseWriteAccess a) (\<lambda>_. require (isAdmin a) (ModuleError MODULE_ACCESS_DENIED))"

definition assertCurrentModuleManager :: "module_world \<Rightarrow> module_actor \<Rightarrow> module_error + unit" where
  "assertCurrentModuleManager w a =
     res_bind (assertLifecycleAccess a) (\<lambda>_.
     res_bind (require (is_human a) (ModuleError MODULE_ACCESS_DENIED)) (\<lambda>_.
     (case List.find (\<lambda>m. om_org m = actor_org a \<and> om_user m = actor_id a) (mw_members w) of
        None \<Rightarrow> Throw (ModuleError MODULE_ACCESS_DENIED)
      | Some m \<Rightarrow> require (om_active m \<and> (om_role m = RoleOwner \<or> om_role m = RoleAdmin))
                    (ModuleError MODULE_ACCESS_DENIED))))"

definition operational_employee :: "module_actor \<Rightarrow> employee \<Rightarrow> bool" where
  "operational_employee a e \<longleftrightarrow> emp_org e = actor_org a \<and> emp_is_active e
     \<and> (\<not> emp_is_deleted e \<or> emp_runtime_kind e = ''defty_system'')"

fun is_employee :: "module_actor \<Rightarrow> bool" where
  "is_employee (EmployeeActor org i t s a) = True"
| "is_employee _ = False"

definition assertAgentModuleMutationPolicy ::
    "module_world \<Rightarrow> module_actor \<Rightarrow> string \<Rightarrow> module_error + unit" where
  "assertAgentModuleMutationPolicy w a operation =
     (if \<not> is_employee a then Ok ()
      else case List.find (\<lambda>e. emp_id e = actor_id a) (mw_employees w) of
             None \<Rightarrow> Throw (ModuleError MODULE_ACCESS_DENIED)
           | Some e \<Rightarrow> require (operational_employee a e \<and> \<not> emp_unhealthy e
                 \<and> \<not> isAgentToolDisabled (emp_disabled_tools e) operation NATIVE_TOOL_ALIASES)
               (ModuleError MODULE_ACCESS_DENIED))"

subsection \<open>Installations\<close>

text \<open>
  \<open>parseDeftModuleManifest\<close> of a parsed manifest, and \<open>verifyManifest\<close>: the stored
  manifest is parsed again and its digest recomputed.
\<close>

definition parseDeftModuleManifest :: "module_env \<Rightarrow> module_manifest \<Rightarrow> module_error + module_manifest" where
  "parseDeftModuleManifest env m =
     (if \<not> DeftModuleManifestV1Schema (me_url env) m then Throw SchemaError
      else if me_manifest_bytes env m > MODULE_LIMITS Manifest_bytes then Throw InternalError
      else Ok m)"

definition verifyManifest :: "module_env \<Rightarrow> version_row \<Rightarrow> module_error + module_manifest" where
  "verifyManifest env v =
     res_bind (parseDeftModuleManifest env (mv_manifest v)) (\<lambda>m.
     if me_manifest_digest env m \<noteq> mv_digest v then Throw InternalError else Ok m)"

datatype module_identifier = BySlug string | ByModuleId string | ByInstallation string

fun identifies :: "module_identifier \<Rightarrow> installation_row \<Rightarrow> bool" where
  "identifies (BySlug s) i = (mi_slug i = s)"
| "identifies (ByModuleId s) i = (mi_module_id i = s)"
| "identifies (ByInstallation s) i = (mi_id i = s)"

fun identifier_text :: "module_identifier \<Rightarrow> string" where
  "identifier_text (BySlug s) = s"
| "identifier_text (ByModuleId s) = s"
| "identifier_text (ByInstallation s) = s"

definition find_installation_row ::
    "module_actor \<Rightarrow> module_identifier \<Rightarrow> module_store \<Rightarrow> installation_row option" where
  "find_installation_row a ident st =
     List.find (\<lambda>i. mi_org i = actor_org a \<and> \<not> mi_deleted i \<and> identifies ident i) (ms_installations st)"

definition active_version :: "string \<Rightarrow> string \<Rightarrow> module_store \<Rightarrow> version_row option" where
  "active_version org inst st =
     List.find (\<lambda>v. mv_org v = org \<and> mv_installation v = inst \<and> mv_active v) (ms_versions st)"

text \<open>
  With a lock the installation is read and checked before its version; without, both come from one
  join, which finds nothing when either is missing.
\<close>

definition findInstallation ::
    "module_env \<Rightarrow> module_actor \<Rightarrow> module_identifier \<Rightarrow> access_mode \<Rightarrow> bool \<Rightarrow> bool \<Rightarrow> module_store
      \<Rightarrow> module_error + installation_row \<times> version_row" where
  "findInstallation env a ident mode allowDisabledForAdmin lock st =
     (if identifier_text ident = [] then Throw InternalError
      else case find_installation_row a ident st of
        None \<Rightarrow> Throw (ModuleError MODULE_NOT_FOUND)
      | Some inst \<Rightarrow>
          (case active_version (actor_org a) (mi_id inst) st of
             None \<Rightarrow> (if lock then res_bind (assertInstallationAccess a inst mode allowDisabledForAdmin)
                        (\<lambda>_. Throw (ModuleError MODULE_NOT_FOUND))
                      else Throw (ModuleError MODULE_NOT_FOUND))
           | Some v \<Rightarrow>
               res_bind (assertInstallationAccess a inst mode allowDisabledForAdmin) (\<lambda>_.
               res_bind (verifyManifest env v) (\<lambda>_. Ok (inst, v)))))"

definition assertExpectedManifest :: "version_row \<Rightarrow> string \<Rightarrow> module_error + unit" where
  "assertExpectedManifest v expected = require (mv_digest v = expected) (ModuleError MODULE_MANIFEST_STALE)"

subsection \<open>Digests\<close>

fun insert_by :: "('a \<Rightarrow> 'a \<Rightarrow> bool) \<Rightarrow> 'a \<Rightarrow> 'a list \<Rightarrow> 'a list" where
  "insert_by le x [] = [x]"
| "insert_by le x (y # ys) = (if le x y then x # y # ys else y # insert_by le x ys)"

text \<open>\<open>xs.sort(cmp)\<close> for a comparison given by \<open>le\<close>: stable.\<close>

definition js_sort_by :: "('a \<Rightarrow> 'a \<Rightarrow> bool) \<Rightarrow> 'a list \<Rightarrow> 'a list" where
  "js_sort_by le xs = foldr (insert_by le) xs []"

fun stableValue :: "(string \<Rightarrow> string \<Rightarrow> bool) \<Rightarrow> jsv \<Rightarrow> jsv" where
  "stableValue collate (JArr vs) = JArr (map (stableValue collate) vs)"
| "stableValue collate (JObj ps) =
     JObj (js_sort_by (\<lambda>p q. collate (fst p) (fst q))
       (map (\<lambda>(k, v). (k, stableValue collate v)) (filter (\<lambda>p. snd p \<noteq> JUndefined) ps)))"
| "stableValue collate v = v"

definition moduleValueDigest :: "module_env \<Rightarrow> jsv \<Rightarrow> string" where
  "moduleValueDigest env v =
     ''sha256:'' @ me_sha env (json_text (me_num env) (stableValue (me_collate env) v))"

definition without_key :: "string \<Rightarrow> (string \<times> 'a) list \<Rightarrow> (string \<times> 'a) list" where
  "without_key k ps = filter (\<lambda>p. fst p \<noteq> k) ps"

definition nullish_default :: "string \<Rightarrow> jsv \<Rightarrow> (string \<times> jsv) list \<Rightarrow> (string \<times> jsv) list" where
  "nullish_default k d ps = (if data_prop ps k \<in> {JUndefined, JNull} then js_put k d ps else ps)"

definition moduleMutationInputDigest ::
    "module_env \<Rightarrow> mutation_operation \<Rightarrow> (string \<times> jsv) list \<Rightarrow> string" where
  "moduleMutationInputDigest env operation value =
     (let withoutKey = without_key ''idempotency_key'' value;
          canonical = (case operation of
              MutUpdate \<Rightarrow> nullish_default ''relations'' (JObj [])
                 (nullish_default ''unset_fields'' (JArr []) (nullish_default ''patch'' (JObj []) withoutKey))
            | MutCreate \<Rightarrow>
                (let relations = data_prop withoutKey ''relations'';
                     legacyCompatible = without_key ''relations'' withoutKey
                 in if (case relations of JObj ps \<Rightarrow> ps \<noteq> [] | JArr vs \<Rightarrow> vs \<noteq> [] | _ \<Rightarrow> False)
                    then legacyCompatible @ [(''relations'', relations)] else legacyCompatible)
            | MutArchive \<Rightarrow> withoutKey)
      in moduleValueDigest env (JObj canonical))"

definition moduleIdempotencyDigest :: "module_env \<Rightarrow> module_actor \<Rightarrow> string \<Rightarrow> string" where
  "moduleIdempotencyDigest env a rawKey =
     ''sha256:'' @ me_sha env (actor_org a @ [CHR 0x00] @ actor_kind a @ [CHR 0x00] @ actor_id a
        @ [CHR 0x00] @ rawKey)"

subsection \<open>Receipts\<close>

record mutation_result =
  mres_resource :: string
  mres_record :: string
  mres_installation :: string
  mres_module_id :: string
  mres_collection :: string
  mres_manifest_digest :: string
  mres_revision :: nat
  mres_archived :: bool
  mres_changed :: "string list"
  mres_replayed :: bool

definition formatModuleRecordResourceId :: "string \<Rightarrow> module_error + string" where
  "formatModuleRecordResourceId i =
     (if opaque_id i \<and> length i \<le> 128 then Ok (''module_record:'' @ i) else Throw SchemaError)"

definition sorted_names :: "string list \<Rightarrow> string list" where
  "sorted_names xs = sort (js_uniq xs)"

definition toModuleMutationResult ::
    "module_row \<Rightarrow> installation_row \<Rightarrow> version_row \<Rightarrow> bool \<Rightarrow> string list \<Rightarrow> module_error + mutation_result" where
  "toModuleMutationResult r inst v replayed changedFields =
     res_bind (formatModuleRecordResourceId (mr_id r)) (\<lambda>res.
     Ok \<lparr>mres_resource = res, mres_record = mr_id r, mres_installation = mi_id inst,
         mres_module_id = mi_module_id inst, mres_collection = mr_collection r,
         mres_manifest_digest = mv_digest v, mres_revision = mr_revision r, mres_archived = mr_deleted r,
         mres_changed = sorted_names changedFields, mres_replayed = replayed\<rparr>)"

definition receipt_matches ::
    "module_env \<Rightarrow> module_actor \<Rightarrow> mutation_operation \<Rightarrow> string \<Rightarrow> receipt_row \<Rightarrow> bool" where
  "receipt_matches env a operation key r \<longleftrightarrow> mu_org r = actor_org a \<and> mu_actor r = actorMetadata a
     \<and> mu_operation r = operation \<and> mu_key r = moduleIdempotencyDigest env a key"

definition record_by_id :: "string \<Rightarrow> module_store \<Rightarrow> module_row option" where
  "record_by_id i st = List.find (\<lambda>r. mr_id r = i) (ms_records st)"

definition findMutationReplay ::
    "module_env \<Rightarrow> module_actor \<Rightarrow> mutation_operation \<Rightarrow> string \<Rightarrow> string \<Rightarrow> string option \<Rightarrow> module_store
      \<Rightarrow> module_error + mutation_result option" where
  "findMutationReplay env a operation key inputDigest expectedInstallation st =
     (case List.find (receipt_matches env a operation key) (ms_receipts st) of
        None \<Rightarrow> Ok None
      | Some receipt \<Rightarrow>
          res_bind (require (mu_digest receipt = inputDigest) (ModuleError MODULE_IDEMPOTENCY_CONFLICT)) (\<lambda>_.
          res_bind (require (case expectedInstallation of None \<Rightarrow> True
              | Some i \<Rightarrow> i = [] \<or> mu_installation receipt = i) (ModuleError MODULE_RECORD_NOT_FOUND)) (\<lambda>_.
          (case record_by_id (mu_record receipt) st of
             None \<Rightarrow> Throw InternalError
           | Some r \<Rightarrow>
               if mr_org r \<noteq> actor_org a \<or> mr_installation r \<noteq> mu_installation receipt then Throw InternalError
               else res_bind (findInstallation env a (ByInstallation (mu_installation receipt)) ModeWrite False True st)
                 (\<lambda>(inst, v).
                 res_bind (formatModuleRecordResourceId (mr_id r)) (\<lambda>res.
                 Ok (Some \<lparr>mres_resource = res, mres_record = mr_id r, mres_installation = mr_installation r,
                   mres_module_id = mi_module_id inst, mres_collection = mr_collection r,
                   mres_manifest_digest = mu_manifest_digest receipt, mres_revision = mu_revision receipt,
                   mres_archived = mu_archived receipt, mres_changed = mu_changed receipt,
                   mres_replayed = True\<rparr>)))))))"

definition assertMutationIdempotencyAvailable ::
    "module_env \<Rightarrow> module_actor \<Rightarrow> mutation_operation \<Rightarrow> string option \<Rightarrow> (string \<times> jsv) list \<Rightarrow> module_store
      \<Rightarrow> module_error + unit" where
  "assertMutationIdempotencyAvailable env a operation key input st =
     (if key = None \<or> key = Some [] then Ok ()
      else case List.find (receipt_matches env a operation (the key)) (ms_receipts st) of
             None \<Rightarrow> Ok ()
           | Some receipt \<Rightarrow> require (mu_digest receipt = moduleMutationInputDigest env operation input)
               (ModuleError MODULE_IDEMPOTENCY_CONFLICT))"

text \<open>The two unique indexes of the receipts: on the key of an operation and on the agent action.\<close>

definition receipt_collides :: "receipt_row \<Rightarrow> receipt_row \<Rightarrow> bool" where
  "receipt_collides r q \<longleftrightarrow> mu_org r = mu_org q
     \<and> ((mu_actor r = mu_actor q \<and> mu_operation r = mu_operation q \<and> mu_key r = mu_key q)
        \<or> (mu_action r = mu_action q \<and> mu_action r \<noteq> None))"

definition insertMutationReceipt ::
    "module_env \<Rightarrow> module_actor \<Rightarrow> mutation_operation \<Rightarrow> string option \<Rightarrow> string option \<Rightarrow> module_row
      \<Rightarrow> version_row \<Rightarrow> string list \<Rightarrow> module_store \<Rightarrow> module_error + module_store" where
  "insertMutationReceipt env a operation key inputDigest r v changedFields st =
     (if key = None \<or> key = Some [] \<or> inputDigest = None \<or> inputDigest = Some [] then Ok st
      else let receipt = \<lparr>mu_org = actor_org a, mu_installation = mr_installation r, mu_action = actor_action a,
             mu_actor = actorMetadata a, mu_operation = operation,
             mu_key = moduleIdempotencyDigest env a (the key), mu_digest = the inputDigest, mu_record = mr_id r,
             mu_revision = mr_revision r, mu_manifest_digest = mv_digest v, mu_archived = mr_deleted r,
             mu_changed = sorted_names changedFields\<rparr>
           in if list_ex (receipt_collides receipt) (ms_receipts st) then Throw UniqueIndexViolation
              else Ok (st\<lparr>ms_receipts := ms_receipts st @ [receipt]\<rparr>))"

definition insertAudit ::
    "module_actor \<Rightarrow> string \<Rightarrow> string \<Rightarrow> nat option \<Rightarrow> nat option \<Rightarrow> string list \<Rightarrow> module_store \<Rightarrow> module_store" where
  "insertAudit a action entity b e changed st =
     st\<lparr>ms_audit := ms_audit st @ [\<lparr>ma_actor = actorMetadata a, ma_action = action, ma_entity = entity,
        ma_before = b, ma_after = e, ma_changed = changed\<rparr>]\<rparr>"

subsection \<open>Checks on a record\<close>

definition parseRecordData ::
    "module_env \<Rightarrow> module_manifest \<Rightarrow> string \<Rightarrow> (string \<times> jsv) list \<Rightarrow> module_error + (string \<times> jsv) list" where
  "parseRecordData env m collectionKey data =
     (case validateModuleRecordData (me_url env) (me_num env) m collectionKey (JObj data) of
        Inl issues \<Rightarrow> Throw (RecordIssues issues)
      | Inr d \<Rightarrow> Ok d)"

definition projectRecord ::
    "module_env \<Rightarrow> module_manifest \<Rightarrow> string \<Rightarrow> (string \<times> jsv) list \<Rightarrow> module_error + search_projection option" where
  "projectRecord env m collectionKey data =
     (case projectModuleRecordSearch (me_url env) (me_num env) m collectionKey (JObj data) of
        Inl issues \<Rightarrow> Throw (RecordIssues issues)
      | Inr p \<Rightarrow> Ok p)"

definition collectionFor :: "module_manifest \<Rightarrow> string \<Rightarrow> module_error + module_collection" where
  "collectionFor m key = (case find_collection m key of
       None \<Rightarrow> Throw (ModuleError MODULE_VALIDATION_ERROR) | Some c \<Rightarrow> Ok c)"

definition fieldFor :: "module_manifest \<Rightarrow> string \<Rightarrow> string \<Rightarrow> module_error + module_field" where
  "fieldFor m collectionKey fieldKey =
     res_bind (collectionFor m collectionKey) (\<lambda>c. case find_field c fieldKey of
       None \<Rightarrow> Throw (ModuleError MODULE_VALIDATION_ERROR) | Some f \<Rightarrow> Ok f)"

fun is_member_field :: "field_type \<Rightarrow> bool" where
  "is_member_field (FtMember _) = True"
| "is_member_field _ = False"

definition member_ids :: "module_field list \<Rightarrow> (string \<times> jsv) list \<Rightarrow> string list" where
  "member_ids fds data = js_uniq (concat (map (\<lambda>f.
     if \<not> is_member_field (mf_type f) then []
     else case data_prop data (mf_key f) of
            JStr s \<Rightarrow> [s]
          | v \<Rightarrow> or_empty (js_strings v)) fds))"

definition assertMemberFieldsValid ::
    "module_world \<Rightarrow> string \<Rightarrow> module_manifest \<Rightarrow> string \<Rightarrow> (string \<times> jsv) list \<Rightarrow> module_error + unit" where
  "assertMemberFieldsValid w org m collectionKey data =
     res_bind (collectionFor m collectionKey) (\<lambda>c.
     require (list_all (\<lambda>i. list_ex (\<lambda>u. om_org u = org \<and> om_active u \<and> om_user u = i) (mw_members w))
         (member_ids (mc_fields c) data)) (ModuleError MODULE_VALIDATION_ERROR))"

subsection \<open>Relations\<close>

definition ModuleRelationPatchSchema :: "(string \<times> string list) list \<Rightarrow> bool" where
  "ModuleRelationPatchSchema ps \<longleftrightarrow> list_all (\<lambda>(k, ids). ModuleFieldKeySchema k \<and> list_all OpaqueIdSchema ids
     \<and> length ids \<le> MODULE_LIMITS Relation_values_per_field \<and> distinct ids) ps"

fun relation_multiple :: "field_type \<Rightarrow> bool" where
  "relation_multiple (FtRelation _ multiple) = multiple"
| "relation_multiple _ = False"

fun relation_fields ::
    "module_manifest \<Rightarrow> string \<Rightarrow> (string \<times> string list) list \<Rightarrow> module_error + module_field list" where
  "relation_fields m collectionKey [] = Ok []"
| "relation_fields m collectionKey ((k, targetIds) # ps) =
     res_bind (fieldFor m collectionKey k) (\<lambda>f.
     res_bind (require (is_relation (mf_type f)) (ModuleError MODULE_RELATION_NOT_FOUND)) (\<lambda>_.
     res_bind (require (relation_multiple (mf_type f) \<or> length targetIds \<le> 1) (ModuleError MODULE_VALIDATION_ERROR)) (\<lambda>_.
     res_bind (relation_fields m collectionKey ps) (\<lambda>fds. Ok (f # fds)))))"

text \<open>The targets are active records of the installation in the collection the field declares.\<close>

definition valid_target ::
    "module_store \<Rightarrow> string \<Rightarrow> string \<Rightarrow> module_field \<Rightarrow> string \<Rightarrow> bool" where
  "valid_target st org inst f i = (case record_by_id i st of
       None \<Rightarrow> False
     | Some r \<Rightarrow> mr_org r = org \<and> mr_installation r = inst \<and> \<not> mr_deleted r
                 \<and> relation_target (mf_type f) = Some (mr_collection r))"

definition replacement_ids :: "(string \<times> string list) list \<Rightarrow> string \<Rightarrow> string list" where
  "replacement_ids ps k = (case map_of ps k of None \<Rightarrow> [] | Some ids \<Rightarrow> ids)"

text \<open>The active edges of one field of a record, by position.\<close>

definition current_edges :: "module_store \<Rightarrow> string \<Rightarrow> string \<Rightarrow> string \<Rightarrow> string \<Rightarrow> relation_row list" where
  "current_edges st org inst source k =
     sort_key rr_position (filter (\<lambda>e. rr_org e = org \<and> rr_installation e = inst \<and> rr_source e = source
        \<and> rr_field e = k \<and> \<not> rr_deleted e) (ms_relations st))"

definition prepareRelationReplacements ::
    "module_actor \<Rightarrow> string \<Rightarrow> string \<Rightarrow> string \<Rightarrow> module_manifest \<Rightarrow> (string \<times> string list) list \<Rightarrow> module_store
      \<Rightarrow> module_error + (module_field \<times> relation_row list) list" where
  "prepareRelationReplacements a source inst collectionKey m replacements st =
     res_bind (relation_fields m collectionKey replacements) (\<lambda>fds.
     res_bind (require (list_all (\<lambda>f. list_all (valid_target st (actor_org a) inst f)
         (replacement_ids replacements (mf_key f))) fds) (ModuleError MODULE_VALIDATION_ERROR)) (\<lambda>_.
     Ok (map (\<lambda>f. (f, current_edges st (actor_org a) inst source (mf_key f))) fds)))"

definition edge_collides :: "relation_row \<Rightarrow> relation_row \<Rightarrow> bool" where
  "edge_collides e q \<longleftrightarrow> rr_id e = rr_id q
     \<or> (\<not> rr_deleted e \<and> \<not> rr_deleted q \<and> rr_org e = rr_org q \<and> rr_installation e = rr_installation q
        \<and> rr_source e = rr_source q \<and> rr_field e = rr_field q \<and> rr_target e = rr_target q)"

definition insert_edge :: "relation_row \<Rightarrow> module_store \<Rightarrow> module_error + module_store" where
  "insert_edge e st =
     (if list_ex (edge_collides e) (ms_relations st) then Throw UniqueIndexViolation
      else if \<not> list_all (\<lambda>i. list_ex (\<lambda>r. mr_id r = i \<and> mr_org r = rr_org e
                 \<and> mr_installation r = rr_installation e) (ms_records st)) [rr_source e, rr_target e]
      then Throw ModuleForeignKeyViolation
      else Ok (st\<lparr>ms_relations := ms_relations st @ [e], ms_next := Suc (ms_next st)\<rparr>))"

definition update_edges :: "(relation_row \<Rightarrow> bool) \<Rightarrow> (relation_row \<Rightarrow> relation_row) \<Rightarrow> module_store \<Rightarrow> module_store" where
  "update_edges p f st = st\<lparr>ms_relations := map (\<lambda>e. if p e then f e else e) (ms_relations st)\<rparr>"

fun place_targets ::
    "module_env \<Rightarrow> string \<Rightarrow> string \<Rightarrow> string \<Rightarrow> string \<Rightarrow> relation_row list \<Rightarrow> nat \<Rightarrow> string list \<Rightarrow> module_store
      \<Rightarrow> module_error + module_store" where
  "place_targets env org inst source k current position [] st = Ok st"
| "place_targets env org inst source k current position (t # ts) st =
     res_bind (case List.find (\<lambda>e. rr_target e = t) (rev current) of
         Some existing \<Rightarrow> Ok (update_edges (\<lambda>e. rr_id e = rr_id existing \<and> rr_org e = org \<and> rr_installation e = inst)
            (\<lambda>e. e\<lparr>rr_position := position\<rparr>) st)
       | None \<Rightarrow> insert_edge \<lparr>rr_id = me_id env (ms_next st), rr_org = org, rr_installation = inst, rr_field = k,
            rr_source = source, rr_target = t, rr_position = position, rr_deleted = False\<rparr> st)
       (\<lambda>st'. place_targets env org inst source k current (Suc position) ts st')"

fun applyPreparedRelationReplacements ::
    "module_env \<Rightarrow> module_actor \<Rightarrow> string \<Rightarrow> string \<Rightarrow> (string \<times> string list) list
      \<Rightarrow> (module_field \<times> relation_row list) list \<Rightarrow> module_store \<Rightarrow> module_error + module_store" where
  "applyPreparedRelationReplacements env a source inst replacements [] st = Ok st"
| "applyPreparedRelationReplacements env a source inst replacements ((f, current) # ps) st =
     (let targetIds = replacement_ids replacements (mf_key f);
          removed = filter (\<lambda>e. rr_target e \<notin> set targetIds) current;
          st' = update_edges (\<lambda>e. rr_org e = actor_org a \<and> rr_installation e = inst \<and> rr_id e \<in> set (map rr_id removed))
                  (\<lambda>e. e\<lparr>rr_deleted := True\<rparr>) st
      in res_bind (place_targets env (actor_org a) inst source (mf_key f) current 0 targetIds st')
           (applyPreparedRelationReplacements env a source inst replacements ps))"

end
