(* ===== verification/ModuleRecords.thy ===== *)
theory ModuleRecords
  imports ModuleStore
begin

text \<open>
  The operations on one record (module-service.ts): create, update, archive and restore, each a
  transaction that is answered from its receipt when it is repeated, the check of a proposal before
  it is stored, and the recovery of a mutation by its agent action.
\<close>

subsection \<open>Requests\<close>

record create_request =
  cr_module_id :: string
  cr_collection_key :: string
  cr_data :: "(string \<times> jsv) list"
  cr_relations :: "(string \<times> string list) list option"
  cr_manifest_digest :: string
  cr_idempotency_key :: string

record update_request =
  ur_record_id :: string
  ur_patch :: "(string \<times> jsv) list"
  ur_unset_fields :: "string list"
  ur_relations :: "(string \<times> string list) list option"
  ur_expected_revision :: nat
  ur_manifest_digest :: string
  ur_idempotency_key :: "string option"

record archive_request =
  ar_record_id :: string
  ar_expected_revision :: nat
  ar_manifest_digest :: string
  ar_idempotency_key :: "string option"

definition relations_json :: "(string \<times> string list) list \<Rightarrow> jsv" where
  "relations_json ps = JObj (map (\<lambda>(k, ids). (k, JArr (map JStr ids))) ps)"

definition opt_prop :: "string \<Rightarrow> ('a \<Rightarrow> jsv) \<Rightarrow> 'a option \<Rightarrow> (string \<times> jsv) list" where
  "opt_prop k f v = (case v of None \<Rightarrow> [] | Some a \<Rightarrow> [(k, f a)])"

definition create_json :: "create_request \<Rightarrow> (string \<times> jsv) list" where
  "create_json r = [(''module_id'', JStr (cr_module_id r)), (''collection_key'', JStr (cr_collection_key r)),
     (''data'', JObj (cr_data r))] @ opt_prop ''relations'' relations_json (cr_relations r)
     @ [(''expected_manifest_digest'', JStr (cr_manifest_digest r)),
        (''idempotency_key'', JStr (cr_idempotency_key r))]"

definition update_json :: "update_request \<Rightarrow> (string \<times> jsv) list" where
  "update_json r = [(''record_id'', JStr (ur_record_id r)), (''patch'', JObj (ur_patch r)),
     (''unset_fields'', JArr (map JStr (ur_unset_fields r)))]
     @ opt_prop ''relations'' relations_json (ur_relations r)
     @ [(''expected_revision'', JNum (of_nat (ur_expected_revision r))),
        (''expected_manifest_digest'', JStr (ur_manifest_digest r))]
     @ opt_prop ''idempotency_key'' JStr (ur_idempotency_key r)"

definition archive_json :: "archive_request \<Rightarrow> (string \<times> jsv) list" where
  "archive_json r = [(''record_id'', JStr (ar_record_id r)),
     (''expected_revision'', JNum (of_nat (ar_expected_revision r))),
     (''expected_manifest_digest'', JStr (ar_manifest_digest r))]
     @ opt_prop ''idempotency_key'' JStr (ar_idempotency_key r)"

text \<open>\<open>input.idempotency_key\<close> counts only when it is truthy.\<close>

definition given_key :: "string option \<Rightarrow> string option" where
  "given_key k = (if k = Some [] then None else k)"

type_synonym mutation_outcome = "module_row option \<times> mutation_result"

subsection \<open>Rows\<close>

definition record_collides :: "module_row \<Rightarrow> module_row \<Rightarrow> bool" where
  "record_collides r q \<longleftrightarrow> mr_id r = mr_id q
     \<or> (mr_org r = mr_org q \<and> mr_installation r = mr_installation q \<and> mr_creator r = mr_creator q
        \<and> mr_create_key r = mr_create_key q \<and> mr_create_key r \<noteq> None)"

definition insert_record :: "module_row \<Rightarrow> module_store \<Rightarrow> module_error + module_store" where
  "insert_record r st =
     (if list_ex (record_collides r) (ms_records st) then Throw UniqueIndexViolation
      else Ok (st\<lparr>ms_records := ms_records st @ [r], ms_next := Suc (ms_next st)\<rparr>))"

text \<open>The \<open>UPDATE\<close> of the row with a given id.\<close>

definition update_record :: "string \<Rightarrow> (module_row \<Rightarrow> module_row) \<Rightarrow> module_store \<Rightarrow> module_store" where
  "update_record i f st = st\<lparr>ms_records := map (\<lambda>r. if mr_id r = i then f r else r) (ms_records st)\<rparr>"

definition projected :: "search_projection option \<Rightarrow> module_row \<Rightarrow> module_row" where
  "projected p r = r\<lparr>mr_title := (case p of None \<Rightarrow> [] | Some q \<Rightarrow> sp_title q),
     mr_subtitle := (case p of None \<Rightarrow> None | Some q \<Rightarrow> sp_subtitle q),
     mr_text := (case p of None \<Rightarrow> [] | Some q \<Rightarrow> sp_text q)\<rparr>"

definition bump :: "module_row \<Rightarrow> module_row" where
  "bump r = r\<lparr>mr_revision := mr_revision r + 1\<rparr>"

definition resource_of :: "module_row \<Rightarrow> string" where
  "resource_of r = ''module_record:'' @ mr_id r"

text \<open>The common end of a mutation: audit entry, receipt and result.\<close>

definition finish_mutation ::
    "module_env \<Rightarrow> module_actor \<Rightarrow> mutation_operation \<Rightarrow> string \<Rightarrow> nat option \<Rightarrow> string option \<Rightarrow> string option
      \<Rightarrow> module_row \<Rightarrow> installation_row \<Rightarrow> version_row \<Rightarrow> string list \<Rightarrow> module_store
      \<Rightarrow> module_error + mutation_outcome \<times> module_store" where
  "finish_mutation env a operation action before_revision key inputDigest r inst v changedFields st =
     res_bind (toModuleMutationResult r inst v False changedFields) (\<lambda>res.
     res_bind (insertMutationReceipt env a operation key inputDigest r v changedFields
         (insertAudit a action (resource_of r) before_revision (Some (mr_revision r)) (sorted_names changedFields) st)) (\<lambda>st'.
     Ok ((Some r, res), st')))"

subsection \<open>Create\<close>

definition new_record ::
    "module_env \<Rightarrow> module_actor \<Rightarrow> create_request \<Rightarrow> installation_row \<Rightarrow> version_row \<Rightarrow> (string \<times> jsv) list
      \<Rightarrow> search_projection option \<Rightarrow> module_store \<Rightarrow> module_row" where
  "new_record env a req inst v data p st =
     projected p \<lparr>mr_id = me_id env (ms_next st), mr_org = actor_org a, mr_installation = mi_id inst,
       mr_collection = cr_collection_key req, mr_version = mv_id v, mr_data = data, mr_revision = 1,
       mr_create_key = Some (moduleIdempotencyDigest env a (cr_idempotency_key req)),
       mr_creator = actorMetadata a, mr_title = [], mr_subtitle = None, mr_text = [], mr_deleted = False\<rparr>"

definition createModuleRecordWithExecutor ::
    "module_env \<Rightarrow> module_world \<Rightarrow> module_actor \<Rightarrow> create_request \<Rightarrow> string \<Rightarrow> module_store
      \<Rightarrow> module_error + mutation_outcome \<times> module_store" where
  "createModuleRecordWithExecutor env w a req inputDigest st =
     res_bind (validatedActor a) (\<lambda>_.
     res_bind (findMutationReplay env a MutCreate (cr_idempotency_key req) inputDigest None st) (\<lambda>replay.
     case replay of Some res \<Rightarrow> Ok ((None, res), st) | None \<Rightarrow>
     res_bind (assertAgentModuleMutationPolicy w a ''module_record_create'') (\<lambda>_.
     res_bind (findInstallation env a (ByModuleId (cr_module_id req)) ModeWrite False True st) (\<lambda>(inst, v).
     res_bind (assertExpectedManifest v (cr_manifest_digest req)) (\<lambda>_.
     res_bind (verifyManifest env v) (\<lambda>m.
     res_bind (parseRecordData env m (cr_collection_key req) (cr_data req)) (\<lambda>data.
     res_bind (require (ModuleRelationPatchSchema (or_empty (cr_relations req))) SchemaError) (\<lambda>_.
     res_bind (assertMemberFieldsValid w (actor_org a) m (cr_collection_key req) data) (\<lambda>_.
     res_bind (projectRecord env m (cr_collection_key req) data) (\<lambda>p.
     let created = new_record env a req inst v data p st; replacements = or_empty (cr_relations req) in
     res_bind (insert_record created st) (\<lambda>st1.
     res_bind (prepareRelationReplacements a (mr_id created) (mi_id inst) (mr_collection created) m replacements st1) (\<lambda>prep.
     res_bind (applyPreparedRelationReplacements env a (mr_id created) (mi_id inst) replacements prep st1) (\<lambda>st2.
     finish_mutation env a MutCreate ''module_record.create'' None (Some (cr_idempotency_key req)) (Some inputDigest)
       created inst v (map fst data @ map fst replacements) st2)))))))))))))"

definition createModuleRecord ::
    "module_env \<Rightarrow> module_world \<Rightarrow> module_actor \<Rightarrow> create_request \<Rightarrow> module_store
      \<Rightarrow> module_error + mutation_outcome \<times> module_store" where
  "createModuleRecord env w a req st =
     createModuleRecordWithExecutor env w a req (moduleMutationInputDigest env MutCreate (create_json req)) st"

subsection \<open>Update\<close>

definition locateModuleRecordInstallation ::
    "module_actor \<Rightarrow> string \<Rightarrow> string option \<Rightarrow> module_store \<Rightarrow> module_error + string" where
  "locateModuleRecordInstallation a recordId expectedInstallation st =
     (case record_by_id recordId st of
        None \<Rightarrow> Throw (ModuleError MODULE_RECORD_NOT_FOUND)
      | Some r \<Rightarrow>
          if mr_org r \<noteq> actor_org a \<or> mr_deleted r
             \<or> (case given_key expectedInstallation of None \<Rightarrow> False | Some i \<Rightarrow> mr_installation r \<noteq> i)
          then Throw (ModuleError MODULE_RECORD_NOT_FOUND) else Ok (mr_installation r))"

text \<open>The row under lock, when it is active and belongs to the installation.\<close>

definition lock_active_record ::
    "module_actor \<Rightarrow> string \<Rightarrow> string \<Rightarrow> module_store \<Rightarrow> module_error + module_row" where
  "lock_active_record a recordId inst st =
     (case record_by_id recordId st of
        None \<Rightarrow> Throw (ModuleError MODULE_RECORD_NOT_FOUND)
      | Some r \<Rightarrow> if mr_org r = actor_org a \<and> mr_installation r = inst \<and> \<not> mr_deleted r then Ok r
                  else Throw (ModuleError MODULE_RECORD_NOT_FOUND))"

definition patched_data :: "(string \<times> jsv) list \<Rightarrow> (string \<times> jsv) list \<Rightarrow> string list \<Rightarrow> (string \<times> jsv) list" where
  "patched_data data patch unsetFields =
     filter (\<lambda>p. fst p \<notin> set unsetFields) (fold (\<lambda>(k, v) d. js_put k v d) patch data)"

text \<open>The replay of a repeated request, when the request carries a key.\<close>

definition replay_of ::
    "module_env \<Rightarrow> module_actor \<Rightarrow> mutation_operation \<Rightarrow> string option \<Rightarrow> string \<Rightarrow> string option \<Rightarrow> module_store
      \<Rightarrow> module_error + mutation_result option" where
  "replay_of env a operation key inputDigest expectedInstallation st = (case given_key key of
       None \<Rightarrow> Ok None
     | Some k \<Rightarrow> findMutationReplay env a operation k inputDigest expectedInstallation st)"

definition updateModuleRecord ::
    "module_env \<Rightarrow> module_world \<Rightarrow> module_actor \<Rightarrow> update_request \<Rightarrow> string option \<Rightarrow> module_store
      \<Rightarrow> module_error + mutation_outcome \<times> module_store" where
  "updateModuleRecord env w a req expectedInstallation st =
     (let replacements = or_empty (ur_relations req);
          inputDigest = moduleMutationInputDigest env MutUpdate (update_json req) in
     res_bind (validatedActor a) (\<lambda>_.
     res_bind (require (ModuleRelationPatchSchema replacements) SchemaError) (\<lambda>_.
     res_bind (replay_of env a MutUpdate (ur_idempotency_key req) inputDigest expectedInstallation st) (\<lambda>replay.
     case replay of Some res \<Rightarrow> Ok ((None, res), st) | None \<Rightarrow>
     res_bind (assertAgentModuleMutationPolicy w a ''module_record_update'') (\<lambda>_.
     res_bind (locateModuleRecordInstallation a (ur_record_id req) expectedInstallation st) (\<lambda>installationId.
     res_bind (findInstallation env a (ByInstallation installationId) ModeWrite False True st) (\<lambda>(inst, v).
     res_bind (lock_active_record a (ur_record_id req) (mi_id inst) st) (\<lambda>current.
     res_bind (assertExpectedManifest v (ur_manifest_digest req)) (\<lambda>_.
     res_bind (require (mr_revision current = ur_expected_revision req) (ModuleError MODULE_REVISION_CONFLICT)) (\<lambda>_.
     res_bind (verifyManifest env v) (\<lambda>m.
     res_bind (parseRecordData env m (mr_collection current)
        (patched_data (mr_data current) (ur_patch req) (ur_unset_fields req))) (\<lambda>data.
     res_bind (assertMemberFieldsValid w (actor_org a) m (mr_collection current) data) (\<lambda>_.
     res_bind (prepareRelationReplacements a (mr_id current) (mi_id inst) (mr_collection current) m replacements st) (\<lambda>prep.
     res_bind (projectRecord env m (mr_collection current) data) (\<lambda>p.
     let changed = (\<lambda>r. bump (projected p (r\<lparr>mr_data := data, mr_version := mv_id v\<rparr>)));
         st1 = update_record (mr_id current) changed st
     in
     res_bind (applyPreparedRelationReplacements env a (mr_id current) (mi_id inst) replacements prep st1) (\<lambda>st2.
     finish_mutation env a MutUpdate ''module_record.update'' (Some (mr_revision current)) (ur_idempotency_key req)
       (Some inputDigest) (changed current) inst v
       (map fst (ur_patch req) @ ur_unset_fields req @ map fst replacements) st2))))))))))))))))"

subsection \<open>Archive and restore\<close>

definition archiveModuleRecord ::
    "module_env \<Rightarrow> module_world \<Rightarrow> module_actor \<Rightarrow> archive_request \<Rightarrow> string option \<Rightarrow> module_store
      \<Rightarrow> module_error + mutation_outcome \<times> module_store" where
  "archiveModuleRecord env w a req expectedInstallation st =
     (let inputDigest = moduleMutationInputDigest env MutArchive (archive_json req) in
     res_bind (validatedActor a) (\<lambda>_.
     res_bind (replay_of env a MutArchive (ar_idempotency_key req) inputDigest expectedInstallation st) (\<lambda>replay.
     case replay of Some res \<Rightarrow> Ok ((None, res), st) | None \<Rightarrow>
     res_bind (assertAgentModuleMutationPolicy w a ''module_record_archive'') (\<lambda>_.
     res_bind (locateModuleRecordInstallation a (ar_record_id req) expectedInstallation st) (\<lambda>installationId.
     res_bind (findInstallation env a (ByInstallation installationId) ModeWrite False True st) (\<lambda>(inst, v).
     res_bind (lock_active_record a (ar_record_id req) (mi_id inst) st) (\<lambda>current.
     res_bind (assertExpectedManifest v (ar_manifest_digest req)) (\<lambda>_.
     res_bind (require (mr_revision current = ar_expected_revision req) (ModuleError MODULE_REVISION_CONFLICT)) (\<lambda>_.
     let changed = (\<lambda>r. bump (r\<lparr>mr_deleted := True\<rparr>)) in
     finish_mutation env a MutArchive ''module_record.archive'' (Some (mr_revision current)) (ar_idempotency_key req)
       (Some inputDigest) (changed current) inst v [] (update_record (mr_id current) changed st))))))))))"

definition version_by_id :: "string \<Rightarrow> string \<Rightarrow> string \<Rightarrow> module_store \<Rightarrow> version_row option" where
  "version_by_id org inst i st =
     List.find (\<lambda>v. mv_org v = org \<and> mv_installation v = inst \<and> mv_id v = i) (ms_versions st)"

definition restoreModuleRecord ::
    "module_env \<Rightarrow> module_actor \<Rightarrow> string \<Rightarrow> archive_request \<Rightarrow> module_store
      \<Rightarrow> module_error + mutation_outcome \<times> module_store" where
  "restoreModuleRecord env a installationId req st =
     (let key = (case ar_idempotency_key req of None \<Rightarrow> [] | Some k \<Rightarrow> k);
          inputDigest = moduleValueDigest env (JObj [(''operation'', JStr ''restore''),
            (''installation_id'', JStr installationId), (''input'', JObj (archive_json req))]) in
     res_bind (validatedActor a) (\<lambda>_.
     res_bind (require (is_human a) (ModuleError MODULE_ACCESS_DENIED)) (\<lambda>_.
     res_bind (require (key \<noteq> []) SchemaError) (\<lambda>_.
     res_bind (findMutationReplay env a MutUpdate key inputDigest (Some installationId) st) (\<lambda>replay.
     case replay of Some res \<Rightarrow> Ok ((None, res), st) | None \<Rightarrow>
     res_bind (findInstallation env a (ByInstallation installationId) ModeWrite False True st) (\<lambda>(inst, v).
     res_bind (assertExpectedManifest v (ar_manifest_digest req)) (\<lambda>_.
     res_bind (verifyManifest env v) (\<lambda>m.
     case record_by_id (ar_record_id req) st of
       None \<Rightarrow> Throw (ModuleError MODULE_RECORD_NOT_FOUND)
     | Some current \<Rightarrow>
     if mr_org current \<noteq> actor_org a \<or> mr_installation current \<noteq> installationId
     then Throw (ModuleError MODULE_RECORD_NOT_FOUND) else
     res_bind (require (mr_revision current = ar_expected_revision req \<and> mr_deleted current)
        (ModuleError MODULE_REVISION_CONFLICT)) (\<lambda>_.
     res_bind (parseRecordData env m (mr_collection current) (mr_data current)) (\<lambda>_.
     case version_by_id (actor_org a) installationId (mr_version current) st of
       None \<Rightarrow> Throw InternalError
     | Some validated \<Rightarrow>
     res_bind (verifyManifest env validated) (\<lambda>_.
     let changed = (\<lambda>r. bump (r\<lparr>mr_deleted := False\<rparr>)) in
     finish_mutation env a MutUpdate ''module_record.restore'' (Some (mr_revision current)) (Some key)
       (Some inputDigest) (changed current) inst validated [] (update_record (mr_id current) changed st))))))))))))"

subsection \<open>Proposals and recovery\<close>

text \<open>The check of a proposed create, update or archive; it changes nothing.\<close>

datatype proposed_mutation =
    ProposedCreate create_request | ProposedUpdate update_request | ProposedArchive archive_request

definition preflight_create ::
    "module_env \<Rightarrow> module_world \<Rightarrow> module_actor \<Rightarrow> create_request \<Rightarrow> bool \<Rightarrow> module_store \<Rightarrow> module_error + unit" where
  "preflight_create env w a req lock st =
     res_bind (findInstallation env a (ByModuleId (cr_module_id req)) ModeWrite False lock st) (\<lambda>(inst, v).
     res_bind (assertExpectedManifest v (cr_manifest_digest req)) (\<lambda>_.
     res_bind (verifyManifest env v) (\<lambda>m.
     res_bind (parseRecordData env m (cr_collection_key req) (cr_data req)) (\<lambda>data.
     res_bind (require (ModuleRelationPatchSchema (or_empty (cr_relations req))) SchemaError) (\<lambda>_.
     res_bind (assertMemberFieldsValid w (actor_org a) m (cr_collection_key req) data) (\<lambda>_.
     res_bind (prepareRelationReplacements a ''__module_create_preflight__'' (mi_id inst) (cr_collection_key req) m
        (or_empty (cr_relations req)) st) (\<lambda>_.
     assertMutationIdempotencyAvailable env a MutCreate (Some (cr_idempotency_key req)) (create_json req) st)))))))"

definition preflight_record ::
    "module_env \<Rightarrow> module_actor \<Rightarrow> string \<Rightarrow> nat \<Rightarrow> string \<Rightarrow> bool \<Rightarrow> module_store
      \<Rightarrow> module_error + module_row \<times> installation_row \<times> version_row" where
  "preflight_record env a recordId revision digest lock st =
     (case record_by_id recordId st of
        None \<Rightarrow> Throw (ModuleError MODULE_RECORD_NOT_FOUND)
      | Some current \<Rightarrow>
          if mr_org current \<noteq> actor_org a \<or> mr_deleted current then Throw (ModuleError MODULE_RECORD_NOT_FOUND) else
          res_bind (findInstallation env a (ByInstallation (mr_installation current)) ModeWrite False lock st) (\<lambda>(inst, v).
          res_bind (assertExpectedManifest v digest) (\<lambda>_.
          res_bind (require (mr_revision current = revision) (ModuleError MODULE_REVISION_CONFLICT)) (\<lambda>_.
          Ok (current, inst, v)))))"

definition preflightModuleMutationWithExecutor ::
    "module_env \<Rightarrow> module_world \<Rightarrow> module_actor \<Rightarrow> proposed_mutation \<Rightarrow> bool \<Rightarrow> module_store \<Rightarrow> module_error + unit" where
  "preflightModuleMutationWithExecutor env w a proposal lock st =
     res_bind (validatedActor a) (\<lambda>_.
     case proposal of
       ProposedCreate req \<Rightarrow> preflight_create env w a req lock st
     | ProposedUpdate req \<Rightarrow>
         res_bind (preflight_record env a (ur_record_id req) (ur_expected_revision req) (ur_manifest_digest req) lock st)
         (\<lambda>(current, inst, v).
         res_bind (require (ModuleRelationPatchSchema (or_empty (ur_relations req))) SchemaError) (\<lambda>_.
         res_bind (verifyManifest env v) (\<lambda>m.
         res_bind (parseRecordData env m (mr_collection current)
            (patched_data (mr_data current) (ur_patch req) (ur_unset_fields req))) (\<lambda>data.
         res_bind (assertMemberFieldsValid w (actor_org a) m (mr_collection current) data) (\<lambda>_.
         res_bind (prepareRelationReplacements a (mr_id current) (mr_installation current) (mr_collection current) m
            (or_empty (ur_relations req)) st) (\<lambda>_.
         assertMutationIdempotencyAvailable env a MutUpdate (ur_idempotency_key req) (update_json req) st))))))
     | ProposedArchive req \<Rightarrow>
         res_bind (preflight_record env a (ar_record_id req) (ar_expected_revision req) (ar_manifest_digest req) lock st)
         (\<lambda>_. assertMutationIdempotencyAvailable env a MutArchive (ar_idempotency_key req) (archive_json req) st))"

definition recoverModuleMutationByAgentActionId ::
    "string \<Rightarrow> string \<Rightarrow> module_store \<Rightarrow> mutation_result option" where
  "recoverModuleMutationByAgentActionId orgId actionId st =
     (case List.find (\<lambda>q. mu_org q = orgId \<and> mu_action q = Some actionId) (ms_receipts st) of
        None \<Rightarrow> None
      | Some q \<Rightarrow>
          (case (List.find (\<lambda>r. mr_org r = mu_org q \<and> mr_installation r = mu_installation q \<and> mr_id r = mu_record q)
                   (ms_records st),
                 List.find (\<lambda>i. mi_org i = mu_org q \<and> mi_id i = mu_installation q) (ms_installations st)) of
             (Some r, Some inst) \<Rightarrow>
               Some \<lparr>mres_resource = ''module_record:'' @ mu_record q, mres_record = mu_record q,
                 mres_installation = mu_installation q, mres_module_id = mi_module_id inst,
                 mres_collection = mr_collection r, mres_manifest_digest = mu_manifest_digest q,
                 mres_revision = mu_revision q, mres_archived = mu_archived q, mres_changed = mu_changed q,
                 mres_replayed = True\<rparr>
           | _ \<Rightarrow> None))"

end
