(* ===== verification/ModuleMerge.thy ===== *)
theory ModuleMerge
  imports ModuleStore
begin

text \<open>
  The plan of a merge of two records (module-merge-plan.ts): the merged data, the conflicts a person
  has to decide, and the edges to remove, to add and to move so that every link to the absorbed record
  points to the surviving one.

  The \<open>Map\<close> of desired edges is an association list in insertion order; its key, the JSON text of
  three strings, is the triple of these strings.
\<close>

subsection \<open>Data\<close>

record merge_edge =
  pe_id :: string
  pe_source :: string
  pe_target :: string
  pe_field :: string
  pe_position :: nat

record desired_edge =
  de_source :: string
  de_target :: string
  de_field :: string
  de_position :: nat

datatype merge_choice = ChooseSource | ChooseTarget

datatype conflict_kind = FieldConflict | RelationConflict

record merge_conflict =
  cf_kind :: conflict_kind
  cf_key :: string
  cf_source :: jsv
  cf_target :: jsv
  cf_choice :: "merge_choice option"

record merge_plan =
  mp_data :: "(string \<times> jsv) list"
  mp_conflicts :: "merge_conflict list"
  mp_ready :: bool
  mp_relations :: "(string \<times> string list) list"
  mp_remove :: "string list"
  mp_add :: "desired_edge list"
  mp_reposition :: "(string \<times> nat) list"
  mp_affected :: "string list"

type_synonym edge_key = "string \<times> string \<times> string"

definition edge_key_of :: "merge_edge \<Rightarrow> edge_key" where
  "edge_key_of e = (pe_source e, pe_field e, pe_target e)"

definition desired_key :: "desired_edge \<Rightarrow> edge_key" where
  "desired_key d = (de_source d, de_field d, de_target d)"

definition json_same :: "module_env \<Rightarrow> jsv \<Rightarrow> jsv \<Rightarrow> bool" where
  "json_same env a b \<longleftrightarrow> json_text (me_num env) a = json_text (me_num env) b"

subsection \<open>Merged data\<close>

definition merge_keys :: "(string \<times> jsv) list \<Rightarrow> (string \<times> jsv) list \<Rightarrow> string list" where
  "merge_keys source target = js_uniq (map fst source @ map fst target)"

definition field_conflict ::
    "module_env \<Rightarrow> (string \<times> merge_choice) list \<Rightarrow> (string \<times> jsv) list \<Rightarrow> (string \<times> jsv) list \<Rightarrow> string
      \<Rightarrow> merge_conflict list" where
  "field_conflict env choices source target k =
     (let sv = data_prop source k; tv = data_prop target k
      in if sv \<noteq> JUndefined \<and> tv \<noteq> JUndefined \<and> \<not> json_same env sv tv
         then [\<lparr>cf_kind = FieldConflict, cf_key = k, cf_source = sv, cf_target = tv, cf_choice = map_of choices k\<rparr>]
         else [])"

definition merged_value ::
    "(string \<times> merge_choice) list \<Rightarrow> (string \<times> jsv) list \<Rightarrow> (string \<times> jsv) list \<Rightarrow> string \<Rightarrow> jsv" where
  "merged_value choices source target k =
     (let sv = data_prop source k; tv = data_prop target k in
      case map_of choices k of
        Some ChooseSource \<Rightarrow> sv
      | Some ChooseTarget \<Rightarrow> tv
      | None \<Rightarrow> if tv = JUndefined then sv else tv)"

definition merged_data ::
    "(string \<times> merge_choice) list \<Rightarrow> (string \<times> jsv) list \<Rightarrow> (string \<times> jsv) list \<Rightarrow> (string \<times> jsv) list" where
  "merged_data choices source target =
     concat (map (\<lambda>k. let v = merged_value choices source target k in if v = JUndefined then [] else [(k, v)])
       (sort (merge_keys source target)))"

subsection \<open>Relations of the surviving record\<close>

definition mappedTarget :: "string \<Rightarrow> string \<Rightarrow> string \<Rightarrow> string" where
  "mappedTarget source target i = (if i = source then target else i)"

definition edge_before :: "module_env \<Rightarrow> merge_edge \<Rightarrow> merge_edge \<Rightarrow> bool" where
  "edge_before env e q \<longleftrightarrow> pe_position e < pe_position q
     \<or> (pe_position e = pe_position q \<and> me_collate env (pe_id e) (pe_id q))"

definition outgoing_targets :: "module_env \<Rightarrow> string \<Rightarrow> string \<Rightarrow> merge_edge list \<Rightarrow> string \<Rightarrow> string \<Rightarrow> string list" where
  "outgoing_targets env source target edges recordId k =
     js_uniq (map (\<lambda>e. mappedTarget source target (pe_target e))
       (js_sort_by (edge_before env) (filter (\<lambda>e. pe_source e = recordId \<and> pe_field e = k) edges)))"

definition json_ids :: "string list \<Rightarrow> jsv" where
  "json_ids ids = JArr (map JStr ids)"

definition relation_conflict ::
    "module_env \<Rightarrow> (string \<times> merge_choice) list \<Rightarrow> module_field \<Rightarrow> string list \<Rightarrow> string list \<Rightarrow> merge_conflict list" where
  "relation_conflict env choices f fromSource fromTarget =
     (if \<not> relation_multiple (mf_type f) \<and> fromSource \<noteq> [] \<and> fromTarget \<noteq> []
         \<and> \<not> json_same env (json_ids fromSource) (json_ids fromTarget)
      then [\<lparr>cf_kind = RelationConflict, cf_key = mf_key f, cf_source = json_ids fromSource,
             cf_target = json_ids fromTarget, cf_choice = map_of choices (mf_key f)\<rparr>]
      else [])"

definition selected_values ::
    "(string \<times> merge_choice) list \<Rightarrow> module_field \<Rightarrow> string list \<Rightarrow> string list \<Rightarrow> string list" where
  "selected_values choices f fromSource fromTarget = (case map_of choices (mf_key f) of
       Some ChooseSource \<Rightarrow> fromSource
     | Some ChooseTarget \<Rightarrow> fromTarget
     | None \<Rightarrow> if relation_multiple (mf_type f) then js_uniq (fromTarget @ fromSource)
               else if fromTarget \<noteq> [] then fromTarget else fromSource)"

fun select_relations ::
    "module_env \<Rightarrow> string \<Rightarrow> string \<Rightarrow> merge_edge list \<Rightarrow> (string \<times> merge_choice) list \<Rightarrow> module_field list
      \<Rightarrow> merge_conflict list \<Rightarrow> (string \<times> string list) list
      \<Rightarrow> module_error + merge_conflict list \<times> (string \<times> string list) list" where
  "select_relations env source target edges choices [] conflicts selected = Ok (conflicts, selected)"
| "select_relations env source target edges choices (f # fs) conflicts selected =
     (let fromSource = outgoing_targets env source target edges source (mf_key f);
          fromTarget = outgoing_targets env source target edges target (mf_key f);
          conflicts' = conflicts @ relation_conflict env choices f fromSource fromTarget;
          ids = selected_values choices f fromSource fromTarget
      in if length ids > (if relation_multiple (mf_type f) then MODULE_LIMITS Relation_values_per_field else 1)
         then Throw (ModuleError MODULE_VALIDATION_ERROR)
         else select_relations env source target edges choices fs conflicts' (js_put (mf_key f) ids selected))"

subsection \<open>Desired edges\<close>

definition mapped_edge :: "string \<Rightarrow> string \<Rightarrow> merge_edge \<Rightarrow> desired_edge" where
  "mapped_edge source target e = \<lparr>de_source = pe_source e, de_target = mappedTarget source target (pe_target e),
     de_field = pe_field e, de_position = pe_position e\<rparr>"

definition keep_first :: "desired_edge \<Rightarrow> (edge_key \<times> desired_edge) list \<Rightarrow> (edge_key \<times> desired_edge) list" where
  "keep_first d m = (case map_of m (desired_key d) of
       None \<Rightarrow> js_put (desired_key d) d m
     | Some prior \<Rightarrow> if de_position d < de_position prior then js_put (desired_key d) d m else m)"

definition incoming_edges :: "string \<Rightarrow> string \<Rightarrow> merge_edge list \<Rightarrow> merge_edge list" where
  "incoming_edges source target edges = filter (\<lambda>e. pe_source e \<noteq> source \<and> pe_source e \<noteq> target) edges"

definition own_edges :: "string \<Rightarrow> string \<times> string list \<Rightarrow> desired_edge list" where
  "own_edges target p = map (\<lambda>(n, i). \<lparr>de_source = target, de_target = i, de_field = fst p, de_position = n\<rparr>)
     (enumerate 0 (snd p))"

definition desired_edges ::
    "string \<Rightarrow> string \<Rightarrow> merge_edge list \<Rightarrow> (string \<times> string list) list \<Rightarrow> (edge_key \<times> desired_edge) list" where
  "desired_edges source target edges selected =
     fold (\<lambda>d m. js_put (desired_key d) d m) (concat (map (own_edges target) selected))
       (fold keep_first (map (mapped_edge source target) (incoming_edges source target edges)) [])"

subsection \<open>The plan\<close>

definition choice_keys_ok ::
    "string list \<Rightarrow> module_field list \<Rightarrow> (string \<times> merge_choice) list \<Rightarrow> (string \<times> merge_choice) list \<Rightarrow> bool" where
  "choice_keys_ok ks relations field_choices relation_choices \<longleftrightarrow>
     list_all (\<lambda>(k, c). k \<in> set ks \<and> \<not> list_ex (\<lambda>f. mf_key f = k) relations) field_choices
     \<and> list_all (\<lambda>(k, c). list_ex (\<lambda>f. mf_key f = k) relations) relation_choices"

text \<open>The records other than the absorbed one own the edges that may change.\<close>

definition active_current :: "string \<Rightarrow> merge_edge list \<Rightarrow> merge_edge list" where
  "active_current source edges = filter (\<lambda>e. pe_source e \<noteq> source) edges"

definition edges_to_remove :: "(edge_key \<times> desired_edge) list \<Rightarrow> merge_edge list \<Rightarrow> string list" where
  "edges_to_remove desired current = sort (map pe_id (filter (\<lambda>e. map_of desired (edge_key_of e) = None) current))"

definition edges_to_add :: "(edge_key \<times> desired_edge) list \<Rightarrow> merge_edge list \<Rightarrow> desired_edge list" where
  "edges_to_add desired current =
     filter (\<lambda>d. desired_key d \<notin> set (map edge_key_of current)) (map snd desired)"

definition moved_position :: "(edge_key \<times> desired_edge) list \<Rightarrow> merge_edge \<Rightarrow> nat option" where
  "moved_position desired e = (case map_of desired (edge_key_of e) of
       Some wanted \<Rightarrow> if de_position wanted \<noteq> pe_position e then Some (de_position wanted) else None
     | None \<Rightarrow> None)"

definition edges_to_move :: "(edge_key \<times> desired_edge) list \<Rightarrow> merge_edge list \<Rightarrow> (string \<times> nat) list" where
  "edges_to_move desired current =
     concat (map (\<lambda>e. case moved_position desired e of Some n \<Rightarrow> [(pe_id e, n)] | None \<Rightarrow> []) current)"

definition planModuleRecordMerge ::
    "module_env \<Rightarrow> string \<times> (string \<times> jsv) list \<Rightarrow> string \<times> (string \<times> jsv) list \<Rightarrow> module_field list \<Rightarrow> merge_edge list
      \<Rightarrow> (string \<times> merge_choice) list \<Rightarrow> (string \<times> merge_choice) list \<Rightarrow> module_error + merge_plan" where
  "planModuleRecordMerge env src tgt fds edges field_choices relation_choices =
     (let source = fst src; target = fst tgt; ks = merge_keys (snd src) (snd tgt);
          relations = filter (\<lambda>f. is_relation (mf_type f)) fds
      in if source = target \<or> \<not> choice_keys_ok ks relations field_choices relation_choices
         then Throw (ModuleError MODULE_VALIDATION_ERROR)
         else res_bind (select_relations env source target edges relation_choices relations
             (concat (map (field_conflict env field_choices (snd src) (snd tgt)) (sort ks))) []) (\<lambda>(conflicts, selected).
           if list_ex (\<lambda>e. pe_source e \<in> {source, target} \<and> map_of selected (pe_field e) = None) edges
           then Throw (ModuleError MODULE_VALIDATION_ERROR)
           else let desired = desired_edges source target edges selected; current = active_current source edges;
                    remove = edges_to_remove desired current; add = edges_to_add desired current;
                    removedSources = map pe_source (filter (\<lambda>e. pe_id e \<in> set remove) current)
                in Ok \<lparr>mp_data = merged_data field_choices (snd src) (snd tgt), mp_conflicts = conflicts,
                       mp_ready = list_all (\<lambda>c. cf_choice c \<noteq> None) conflicts, mp_relations = selected,
                       mp_remove = remove, mp_add = add, mp_reposition = edges_to_move desired current,
                       mp_affected = sorted_names (target # removedSources @ map de_source add)\<rparr>))"

end
