(* ===== verification/ModuleMergeCommit.thy ===== *)
theory ModuleMergeCommit
  imports ModuleRecords ModuleMerge
begin

text \<open>
  The merge of two records as a transaction (module-service.ts): the snapshot of everything the merge
  touches, its checks, and the commit of the plan.  The digest of a snapshot covers whole rows, also
  the columns that are left out here, so it is the argument \<open>snapshot_digest\<close>.
\<close>

record merge_request =
  mq_source :: string
  mq_target :: string
  mq_manifest_digest :: string
  mq_field_choices :: "(string \<times> merge_choice) list"
  mq_relation_choices :: "(string \<times> merge_choice) list"

definition choices_json :: "(string \<times> merge_choice) list \<Rightarrow> jsv" where
  "choices_json cs = JObj (map (\<lambda>(k, c). (k, JStr (case c of ChooseSource \<Rightarrow> ''source'' | ChooseTarget \<Rightarrow> ''target''))) cs)"

definition merge_json :: "merge_request \<Rightarrow> jsv" where
  "merge_json q = JObj [(''source_record_id'', JStr (mq_source q)), (''target_record_id'', JStr (mq_target q)),
     (''expected_manifest_digest'', JStr (mq_manifest_digest q)),
     (''field_choices'', choices_json (mq_field_choices q)), (''relation_choices'', choices_json (mq_relation_choices q))]"

subsection \<open>Linked tasks\<close>

definition record_refs :: "string list \<Rightarrow> (string \<times> string) list" where
  "record_refs ids = map (\<lambda>i. (''module_record'', ''module_record:'' @ i)) ids"

definition mergeTaskEdges ::
    "module_actor \<Rightarrow> string list \<Rightarrow> module_store \<Rightarrow> module_error + cross_ref list \<times> string list" where
  "mergeTaskEdges a ids st =
     (let edges = filter (\<lambda>x. xr_org x = actor_org a
            \<and> (xr_source x \<in> set (record_refs ids) \<or> xr_target x \<in> set (record_refs ids))) (ms_refs st);
          taskIds = sorted_names (map (\<lambda>x. snd (xr_target x)) edges)
      in if length edges > 200
            \<or> list_ex (\<lambda>x. fst (xr_source x) \<noteq> ''module_record'' \<or> fst (xr_target x) \<noteq> ''task'') edges
            \<or> length taskIds > 100
         then Throw (ModuleError MODULE_VALIDATION_ERROR) else Ok (edges, taskIds))"

definition authorizeMergeTasks :: "module_world \<Rightarrow> module_actor \<Rightarrow> string list \<Rightarrow> module_error + unit" where
  "authorizeMergeTasks w a taskIds =
     require (list_all (mw_task_visible w (actor_id a)) taskIds) (ModuleError MODULE_ACCESS_DENIED)"

subsection \<open>Snapshot\<close>

record merge_snapshot =
  sn_installation :: installation_row
  sn_version :: version_row
  sn_manifest :: module_manifest
  sn_source :: module_row
  sn_target :: module_row
  sn_edges :: "relation_row list"
  sn_task_edges :: "cross_ref list"
  sn_task_ids :: "string list"
  sn_plan :: merge_plan
  sn_data :: "(string \<times> jsv) list"

definition merge_edges_of :: "module_actor \<Rightarrow> string \<Rightarrow> string list \<Rightarrow> module_store \<Rightarrow> relation_row list" where
  "merge_edges_of a inst ids st = sort_key rr_id (filter (\<lambda>e. rr_org e = actor_org a \<and> rr_installation e = inst
     \<and> \<not> rr_deleted e \<and> (rr_source e \<in> set ids \<or> rr_target e \<in> set ids)) (ms_relations st))"

definition plan_edge :: "relation_row \<Rightarrow> merge_edge" where
  "plan_edge e = \<lparr>pe_id = rr_id e, pe_source = rr_source e, pe_target = rr_target e, pe_field = rr_field e,
     pe_position = rr_position e\<rparr>"

definition installed_record :: "module_actor \<Rightarrow> string \<Rightarrow> string \<Rightarrow> module_store \<Rightarrow> module_row option" where
  "installed_record a inst i st =
     List.find (\<lambda>r. mr_org r = actor_org a \<and> mr_installation r = inst \<and> mr_id r = i) (ms_records st)"

definition edge_compatible :: "module_actor \<Rightarrow> string \<Rightarrow> module_manifest \<Rightarrow> module_store \<Rightarrow> relation_row \<Rightarrow> bool" where
  "edge_compatible a inst m st e =
     (case (installed_record a inst (rr_source e) st, installed_record a inst (rr_target e) st) of
        (Some src, Some tgt) \<Rightarrow>
          (case find_collection m (mr_collection src) of
             None \<Rightarrow> False
           | Some c \<Rightarrow> (case find_field c (rr_field e) of
                None \<Rightarrow> False
              | Some f \<Rightarrow> relation_target (mf_type f) = Some (mr_collection tgt)))
      | _ \<Rightarrow> False)"

definition active_record :: "module_actor \<Rightarrow> string \<Rightarrow> string \<Rightarrow> module_store \<Rightarrow> module_error + module_row" where
  "active_record a inst i st = (case installed_record a inst i st of
       None \<Rightarrow> Throw (ModuleError MODULE_RECORD_NOT_FOUND)
     | Some r \<Rightarrow> if mr_deleted r then Throw (ModuleError MODULE_RECORD_NOT_FOUND) else Ok r)"

definition moduleMergeSnapshot ::
    "module_env \<Rightarrow> module_world \<Rightarrow> module_actor \<Rightarrow> string \<Rightarrow> merge_request \<Rightarrow> bool \<Rightarrow> string list option \<Rightarrow> module_store
      \<Rightarrow> module_error + merge_snapshot" where
  "moduleMergeSnapshot env w a installationId q lock lockedTaskIds st =
     (let ids = [mq_source q, mq_target q] in
     res_bind (require (is_human a) (ModuleError MODULE_ACCESS_DENIED)) (\<lambda>_.
     res_bind (findInstallation env a (ByInstallation installationId) ModeWrite False lock st) (\<lambda>(inst, v).
     res_bind (assertExpectedManifest v (mq_manifest_digest q)) (\<lambda>_.
     res_bind (verifyManifest env v) (\<lambda>m.
     res_bind (require (mq_source q \<noteq> mq_target q) (ModuleError MODULE_VALIDATION_ERROR)) (\<lambda>_.
     res_bind (active_record a installationId (mq_source q) st) (\<lambda>source.
     res_bind (active_record a installationId (mq_target q) st) (\<lambda>target.
     res_bind (require (mr_collection source = mr_collection target) (ModuleError MODULE_VALIDATION_ERROR)) (\<lambda>_.
     res_bind (collectionFor m (mr_collection source)) (\<lambda>collection.
     res_bind (require (\<not> mw_resource_linked w installationId ids) (ModuleError MODULE_VALIDATION_ERROR)) (\<lambda>_.
     let edges = merge_edges_of a installationId ids st in
     res_bind (require (length edges \<le> 500) (ModuleError MODULE_VALIDATION_ERROR)) (\<lambda>_.
     res_bind (mergeTaskEdges a ids st) (\<lambda>(taskEdges, taskIds).
     res_bind (require (case lockedTaskIds of None \<Rightarrow> True | Some locked \<Rightarrow> set taskIds \<subseteq> set locked)
        (ModuleError MODULE_REVISION_CONFLICT)) (\<lambda>_.
     res_bind (authorizeMergeTasks w a taskIds) (\<lambda>_.
     res_bind (planModuleRecordMerge env (mr_id source, mr_data source) (mr_id target, mr_data target)
        (mc_fields collection) (map plan_edge edges) (mq_field_choices q) (mq_relation_choices q)) (\<lambda>plan.
     res_bind (parseRecordData env m (mc_key collection) (mp_data plan)) (\<lambda>data.
     res_bind (assertMemberFieldsValid w (actor_org a) m (mc_key collection) data) (\<lambda>_.
     res_bind (require (list_all (edge_compatible a installationId m st) edges) (ModuleError MODULE_VALIDATION_ERROR)) (\<lambda>_.
     Ok \<lparr>sn_installation = inst, sn_version = v, sn_manifest = m, sn_source = source, sn_target = target,
         sn_edges = edges, sn_task_edges = taskEdges, sn_task_ids = taskIds, sn_plan = plan, sn_data = data\<rparr>)))))))))))))))))))"

subsection \<open>Commit\<close>

fun add_links ::
    "module_env \<Rightarrow> string \<Rightarrow> string \<Rightarrow> desired_edge list \<Rightarrow> module_store \<Rightarrow> module_error + module_store" where
  "add_links env org inst [] st = Ok st"
| "add_links env org inst (d # ds) st =
     res_bind (insert_edge \<lparr>rr_id = me_id env (ms_next st), rr_org = org, rr_installation = inst,
        rr_field = de_field d, rr_source = de_source d, rr_target = de_target d, rr_position = de_position d,
        rr_deleted = False\<rparr> st) (add_links env org inst ds)"

definition remove_links :: "string \<Rightarrow> string \<Rightarrow> string list \<Rightarrow> module_store \<Rightarrow> module_store" where
  "remove_links org inst ids = update_edges
     (\<lambda>e. rr_org e = org \<and> rr_installation e = inst \<and> rr_id e \<in> set ids) (\<lambda>e. e\<lparr>rr_deleted := True\<rparr>)"

definition move_links :: "string \<Rightarrow> string \<Rightarrow> (string \<times> nat) list \<Rightarrow> module_store \<Rightarrow> module_store" where
  "move_links org inst moves st = fold (\<lambda>(i, n). update_edges
     (\<lambda>e. rr_org e = org \<and> rr_installation e = inst \<and> rr_id e = i) (\<lambda>e. e\<lparr>rr_position := n\<rparr>)) moves st"

text \<open>\<open>onConflictDoNothing\<close>: a reference that exists is not inserted again.\<close>

definition copy_task_refs :: "string \<Rightarrow> string \<Rightarrow> string \<Rightarrow> cross_ref list \<Rightarrow> module_store \<Rightarrow> module_store" where
  "copy_task_refs org source target refs st = st\<lparr>ms_refs := fold (\<lambda>x xs.
     let y = \<lparr>xr_org = org, xr_source = (''module_record'', ''module_record:'' @ target),
              xr_target = (''task'', snd (xr_target x))\<rparr>
     in if y \<in> set xs then xs else xs @ [y])
     (filter (\<lambda>x. snd (xr_source x) = ''module_record:'' @ source) refs) (ms_refs st)\<rparr>"

definition merge_history :: "module_env \<Rightarrow> merge_snapshot \<Rightarrow> module_store \<Rightarrow> module_store" where
  "merge_history env s st = st\<lparr>ms_merges := ms_merges st @ [\<lparr>mg_id = me_id env (ms_next st),
     mg_source = mr_id (sn_source s), mg_target = mr_id (sn_target s),
     mg_source_revision = mr_revision (sn_source s), mg_target_revision = mr_revision (sn_target s),
     mg_source_data = mr_data (sn_source s), mg_target_data = mr_data (sn_target s)\<rparr>],
     ms_next := Suc (ms_next st)\<rparr>"

definition survivor_update :: "merge_snapshot \<Rightarrow> search_projection option \<Rightarrow> module_row \<Rightarrow> module_row" where
  "survivor_update s p r = bump (projected p (r\<lparr>mr_data := sn_data s, mr_version := mv_id (sn_version s)\<rparr>))"

definition bump_records :: "string list \<Rightarrow> module_store \<Rightarrow> module_store" where
  "bump_records ids st = st\<lparr>ms_records := map (\<lambda>r. if mr_id r \<in> set ids then bump r else r) (ms_records st)\<rparr>"

definition merge_rows ::
    "merge_snapshot \<Rightarrow> search_projection option \<Rightarrow> module_store \<Rightarrow> module_store" where
  "merge_rows s p st =
     (let source = mr_id (sn_source s); target = mr_id (sn_target s);
          incoming = filter (\<lambda>i. i \<noteq> target \<and> i \<noteq> source) (mp_affected (sn_plan s))
      in bump_records incoming
           (update_record source (\<lambda>r. bump (r\<lparr>mr_deleted := True\<rparr>))
             (update_record target (survivor_update s p) st)))"

definition commitModuleMerge ::
    "module_env \<Rightarrow> (merge_snapshot \<Rightarrow> string) \<Rightarrow> module_world \<Rightarrow> module_actor \<Rightarrow> string \<Rightarrow> merge_request
      \<Rightarrow> string \<Rightarrow> string \<Rightarrow> module_store \<Rightarrow> module_error + mutation_result \<times> module_store" where
  "commitModuleMerge env snapshot_digest w a installationId q expectedPreviewDigest key st =
     (let digest = moduleValueDigest env (JObj [(''operation'', JStr ''merge''),
            (''installationId'', JStr installationId), (''input'', merge_json q),
            (''expected_preview_digest'', JStr expectedPreviewDigest)]);
          org = actor_org a
     in
     res_bind (validatedActor a) (\<lambda>_.
     res_bind (require (is_human a) (ModuleError MODULE_ACCESS_DENIED)) (\<lambda>_.
     res_bind (require (key \<noteq> []) SchemaError) (\<lambda>_.
     res_bind (findMutationReplay env a MutUpdate key digest (Some installationId) st) (\<lambda>replay.
     case replay of Some res \<Rightarrow> Ok (res, st) | None \<Rightarrow>
     res_bind (findInstallation env a (ByInstallation installationId) ModeWrite False False st) (\<lambda>_.
     res_bind (mergeTaskEdges a [mq_source q, mq_target q] st) (\<lambda>(_, initialTasks).
     res_bind (authorizeMergeTasks w a initialTasks) (\<lambda>_.
     res_bind (moduleMergeSnapshot env w a installationId q True (Some initialTasks) st) (\<lambda>s.
     res_bind (require (snapshot_digest s = expectedPreviewDigest) (ModuleError MODULE_REVISION_CONFLICT)) (\<lambda>_.
     res_bind (require (mp_ready (sn_plan s)) (ModuleError MODULE_VALIDATION_ERROR)) (\<lambda>_.
     let source = sn_source s; target = sn_target s; plan = sn_plan s in
     res_bind (add_links env org installationId (mp_add plan)
        (remove_links org installationId (mp_remove plan) (merge_history env s st))) (\<lambda>st1.
     let st2 = copy_task_refs org (mr_id source) (mr_id target) (sn_task_edges s)
                 (move_links org installationId (mp_reposition plan) st1) in
     res_bind (projectRecord env (sn_manifest s) (mr_collection target) (sn_data s)) (\<lambda>p.
     let survivor = survivor_update s p target; changedFields = map fst (sn_data s);
         st3 = insertAudit a ''module_record.archive'' (resource_of source) (Some (mr_revision source))
                 (Some (mr_revision source + 1)) []
                 (insertAudit a ''module_record.merge'' (resource_of survivor) (Some (mr_revision target))
                   (Some (mr_revision survivor)) changedFields (merge_rows s p st2)) in
     res_bind (insertMutationReceipt env a MutUpdate (Some key) (Some digest) survivor (sn_version s) changedFields st3) (\<lambda>st4.
     res_bind (toModuleMutationResult survivor (sn_installation s) (sn_version s) False changedFields) (\<lambda>res.
     Ok (res, st4))))))))))))))))"

end
