(* ===== verification/ModuleImport.thy ===== *)
theory ModuleImport
  imports ModuleRecords
begin

text \<open>
  The import of rows into a collection (module-service.ts): the preview, which matches every row
  against the records of the collection by one field, and the commit, which creates the new rows in
  one transaction and recognises the rows of an earlier commit by their receipts.
\<close>

datatype import_state = ImportInvalid | ImportNew | ImportExisting | ImportDuplicateInFile

record import_request =
  iq_module_id :: string
  iq_collection_key :: string
  iq_match_field :: string
  iq_manifest_digest :: string
  iq_rows :: "(string \<times> jsv) list list"

record import_match =
  im_id :: string
  im_label :: string
  im_revision :: nat
  im_archived :: bool

record import_row =
  ir_index :: nat
  ir_data :: "(string \<times> jsv) list"
  ir_issues :: "string list"
  ir_state :: import_state
  ir_matches :: "import_match list"

record import_preview =
  ip_rows :: "import_row list"
  ip_new :: nat
  ip_skipped :: nat
  ip_invalid :: nat
  ip_digest :: string

definition import_json :: "import_request \<Rightarrow> jsv" where
  "import_json q = JObj [(''module_id'', JStr (iq_module_id q)), (''collection_key'', JStr (iq_collection_key q)),
     (''match_field'', JStr (iq_match_field q)), (''expected_manifest_digest'', JStr (iq_manifest_digest q)),
     (''rows'', JArr (map JObj (iq_rows q)))]"

definition importCreateInput :: "module_env \<Rightarrow> import_request \<Rightarrow> nat \<Rightarrow> string \<Rightarrow> create_request" where
  "importCreateInput env q index batchKey =
     \<lparr>cr_module_id = iq_module_id q, cr_collection_key = iq_collection_key q, cr_data = iq_rows q ! index,
      cr_relations = Some [], cr_manifest_digest = iq_manifest_digest q,
      cr_idempotency_key = ''import-'' @ me_sha env batchKey @ ''-'' @ nat_to_string index\<rparr>"

definition importRowDigest :: "module_env \<Rightarrow> import_request \<Rightarrow> nat \<Rightarrow> string" where
  "importRowDigest env q index =
     moduleValueDigest env (JObj [(''import'', import_json q), (''row'', JNum (of_nat index))])"

subsection \<open>Matching\<close>

text \<open>
  The code compares \<open>value.trim().toLowerCase()\<close> of a row with \<open>lower(btrim(value))\<close> of
  the stored records.  \<open>btrim\<close> of PostgreSQL removes spaces only; its \<open>lower\<close> is the
  argument \<open>pg_lower\<close>.
\<close>

definition pg_btrim :: "string \<Rightarrow> string" where
  "pg_btrim s = rev (dropWhile (\<lambda>c. c = CHR '' '') (rev (dropWhile (\<lambda>c. c = CHR '' '') s)))"

definition stored_match_key :: "(string \<Rightarrow> string) \<Rightarrow> string \<Rightarrow> module_row \<Rightarrow> string option" where
  "stored_match_key pg_lower k r = map_option (\<lambda>s. pg_lower (pg_btrim s)) (js_string (data_prop (mr_data r) k))"

definition row_match_key :: "string \<Rightarrow> (string \<times> jsv) list \<Rightarrow> string" where
  "row_match_key k data = (case data_prop data k of JStr s \<Rightarrow> js_lower (js_trim s) | _ \<Rightarrow> [])"

fun matchable_type :: "field_type \<Rightarrow> bool" where
  "matchable_type (FtText _) = True"
| "matchable_type (FtEmail _) = True"
| "matchable_type _ = False"

fun is_reference_or_member :: "field_type \<Rightarrow> bool" where
  "is_reference_or_member (FtRelation _ _) = True"
| "is_reference_or_member (FtResourceRef _ _ _) = True"
| "is_reference_or_member (FtMember _) = True"
| "is_reference_or_member _ = False"

definition issue_text :: "validation_issue \<Rightarrow> string" where
  "issue_text i = (case vi_field i of None \<Rightarrow> ''Row'' | Some f \<Rightarrow> f) @ '': '' @ vi_message i"

definition import_row_of ::
    "module_env \<Rightarrow> module_manifest \<Rightarrow> module_collection \<Rightarrow> module_field \<Rightarrow> nat \<times> (string \<times> jsv) list \<Rightarrow> import_row" where
  "import_row_of env m c matchField p =
     (let raw = snd p; checked = validateModuleRecordData (me_url env) (me_num env) m (mc_key c) (JObj raw);
          data = (case checked of Inl _ \<Rightarrow> raw | Inr d \<Rightarrow> d);
          key = data_prop data (mf_key matchField);
          issues = (case checked of Inl is \<Rightarrow> map issue_text is | Inr _ \<Rightarrow> [])
            @ concat (map (\<lambda>f. if data_prop raw (mf_key f) \<noteq> JUndefined \<and> is_reference_or_member (mf_type f)
                then [mf_label f @ '': link or assign this field after importing''] else []) (mc_fields c))
            @ (if (case js_string key of None \<Rightarrow> True | Some s \<Rightarrow> js_trim s = [])
               then [mf_label matchField @ '': a value is required for duplicate matching''] else [])
      in \<lparr>ir_index = fst p, ir_data = data, ir_issues = issues,
          ir_state = (if issues = [] then ImportNew else ImportInvalid), ir_matches = []\<rparr>)"

definition match_label :: "module_env \<Rightarrow> module_manifest \<Rightarrow> string \<Rightarrow> module_row \<Rightarrow> module_error + string" where
  "match_label env m collectionKey r =
     (if mr_title r \<noteq> [] then Ok (mr_title r)
      else case projectModuleRecordDisplayTitle (me_url env) (me_num env) m collectionKey (JObj (mr_data r)) of
             Inl issues \<Rightarrow> Throw (RecordIssues issues)
           | Inr None \<Rightarrow> Ok (mr_id r)
           | Inr (Some t) \<Rightarrow> Ok t)"

fun match_labels ::
    "module_env \<Rightarrow> module_manifest \<Rightarrow> string \<Rightarrow> module_row list \<Rightarrow> module_error + import_match list" where
  "match_labels env m collectionKey [] = Ok []"
| "match_labels env m collectionKey (r # rs) =
     res_bind (match_label env m collectionKey r) (\<lambda>l.
     res_bind (match_labels env m collectionKey rs) (\<lambda>ms.
     Ok (\<lparr>im_id = mr_id r, im_label = l, im_revision = mr_revision r, im_archived = mr_deleted r\<rparr> # ms)))"

fun classify_rows ::
    "module_env \<Rightarrow> (string \<Rightarrow> string) \<Rightarrow> module_manifest \<Rightarrow> string \<Rightarrow> string \<Rightarrow> module_row list \<Rightarrow> string list
      \<Rightarrow> string list \<Rightarrow> import_row list \<Rightarrow> module_error + import_row list" where
  "classify_rows env pg_lower m collectionKey k matches ignoredIds seen [] = Ok []"
| "classify_rows env pg_lower m collectionKey k matches ignoredIds seen (row # rows) =
     (if ir_state row = ImportInvalid
      then res_bind (classify_rows env pg_lower m collectionKey k matches ignoredIds seen rows) (\<lambda>rs. Ok (row # rs))
      else let key = row_match_key k (ir_data row) in
        res_bind (match_labels env m collectionKey (filter (\<lambda>r. stored_match_key pg_lower k r = Some key
            \<and> mr_id r \<notin> set ignoredIds) matches)) (\<lambda>found.
        let row' = row\<lparr>ir_matches := found, ir_state := (if found \<noteq> [] then ImportExisting
              else if key \<in> set seen then ImportDuplicateInFile else ImportNew)\<rparr> in
        res_bind (classify_rows env pg_lower m collectionKey k matches ignoredIds (key # seen) rows) (\<lambda>rs.
        Ok (row' # rs))))"

definition state_name :: "import_state \<Rightarrow> string" where
  "state_name s = (case s of ImportInvalid \<Rightarrow> ''invalid'' | ImportNew \<Rightarrow> ''new''
     | ImportExisting \<Rightarrow> ''existing'' | ImportDuplicateInFile \<Rightarrow> ''duplicate_in_file'')"

definition import_row_json :: "import_row \<Rightarrow> jsv" where
  "import_row_json r = JObj [(''index'', JNum (of_nat (ir_index r))), (''data'', JObj (ir_data r)),
     (''issues'', JArr (map JStr (ir_issues r))), (''state'', JStr (state_name (ir_state r))),
     (''matches'', JArr (map (\<lambda>i. JObj [(''id'', JStr (im_id i)), (''label'', JStr (im_label i)),
        (''revision'', JNum (of_nat (im_revision i))), (''archived'', JBool (im_archived i))]) (ir_matches r)))]"

definition count_state :: "(import_state \<Rightarrow> bool) \<Rightarrow> import_row list \<Rightarrow> nat" where
  "count_state p rows = length (filter (\<lambda>r. p (ir_state r)) rows)"

definition moduleImportPreviewWithExecutor ::
    "module_env \<Rightarrow> (string \<Rightarrow> string) \<Rightarrow> module_actor \<Rightarrow> import_request \<Rightarrow> string list \<Rightarrow> bool \<Rightarrow> module_store
      \<Rightarrow> module_error + import_preview" where
  "moduleImportPreviewWithExecutor env pg_lower a q ignoredIds lock st =
     res_bind (require (is_human a) (ModuleError MODULE_ACCESS_DENIED)) (\<lambda>_.
     res_bind (findInstallation env a (ByModuleId (iq_module_id q)) ModeWrite False lock st) (\<lambda>(inst, v).
     res_bind (assertExpectedManifest v (iq_manifest_digest q)) (\<lambda>_.
     res_bind (verifyManifest env v) (\<lambda>m.
     res_bind (collectionFor m (iq_collection_key q)) (\<lambda>c.
     case find_field c (iq_match_field q) of
       None \<Rightarrow> Throw (ModuleError MODULE_VALIDATION_ERROR)
     | Some matchField \<Rightarrow>
     res_bind (require (matchable_type (mf_type matchField)) (ModuleError MODULE_VALIDATION_ERROR)) (\<lambda>_.
     let rows = map (import_row_of env m c matchField) (enumerate 0 (iq_rows q));
         ks = js_uniq (map (\<lambda>r. row_match_key (iq_match_field q) (ir_data r))
                (filter (\<lambda>r. ir_state r \<noteq> ImportInvalid) rows));
         matches = sort_key mr_id (filter (\<lambda>r. mr_org r = actor_org a \<and> mr_installation r = mi_id inst
            \<and> mr_collection r = mc_key c
            \<and> stored_match_key pg_lower (iq_match_field q) r \<in> Some ` set ks) (ms_records st))
     in
     res_bind (require (length matches \<le> 1000) (ModuleError MODULE_VALIDATION_ERROR)) (\<lambda>_.
     res_bind (classify_rows env pg_lower m (mc_key c) (iq_match_field q) matches ignoredIds [] rows) (\<lambda>rows'.
     Ok \<lparr>ip_rows = rows', ip_new = count_state (\<lambda>s. s = ImportNew) rows',
         ip_skipped = count_state (\<lambda>s. s = ImportExisting \<or> s = ImportDuplicateInFile) rows',
         ip_invalid = count_state (\<lambda>s. s = ImportInvalid) rows',
         ip_digest = moduleValueDigest env (JObj [(''installation_id'', JStr (mi_id inst)),
            (''input'', import_json q), (''rows'', JArr (map import_row_json rows'))])\<rparr>))))))))"

subsection \<open>Commit\<close>

record import_result =
  ires_index :: nat
  ires_record :: string
  ires_replayed :: bool

fun recovered_rows ::
    "module_env \<Rightarrow> module_actor \<Rightarrow> import_request \<Rightarrow> string \<Rightarrow> module_store \<Rightarrow> nat list
      \<Rightarrow> module_error + (nat \<times> mutation_result) list" where
  "recovered_rows env a q key st [] = Ok []"
| "recovered_rows env a q key st (i # is) =
     res_bind (findMutationReplay env a MutCreate (cr_idempotency_key (importCreateInput env q i key))
        (importRowDigest env q i) None st) (\<lambda>replay.
     res_bind (recovered_rows env a q key st is) (\<lambda>rest.
     Ok (case replay of None \<Rightarrow> rest | Some r \<Rightarrow> (i, r) # rest)))"

fun import_rows ::
    "module_env \<Rightarrow> module_world \<Rightarrow> module_actor \<Rightarrow> import_request \<Rightarrow> string \<Rightarrow> (nat \<times> mutation_result) list
      \<Rightarrow> import_row list \<Rightarrow> module_store \<Rightarrow> module_error + import_result list \<times> module_store" where
  "import_rows env w a q key recovered [] st = Ok ([], st)"
| "import_rows env w a q key recovered (row # rows) st =
     (if ir_state row \<noteq> ImportNew then import_rows env w a q key recovered rows st
      else case map_of recovered (ir_index row) of
        Some replay \<Rightarrow>
          res_bind (import_rows env w a q key recovered rows st) (\<lambda>(rs, st').
          Ok (\<lparr>ires_index = ir_index row, ires_record = mres_record replay, ires_replayed = True\<rparr> # rs, st'))
      | None \<Rightarrow>
          res_bind (createModuleRecordWithExecutor env w a (importCreateInput env q (ir_index row) key)
             (importRowDigest env q (ir_index row)) st) (\<lambda>((_, res), st1).
          res_bind (import_rows env w a q key recovered rows st1) (\<lambda>(rs, st').
          Ok (\<lparr>ires_index = ir_index row, ires_record = mres_record res, ires_replayed = mres_replayed res\<rparr> # rs, st'))))"

definition commitModuleImport ::
    "module_env \<Rightarrow> (string \<Rightarrow> string) \<Rightarrow> module_world \<Rightarrow> module_actor \<Rightarrow> import_request \<Rightarrow> string \<Rightarrow> string
      \<Rightarrow> module_store \<Rightarrow> module_error + (import_result list \<times> nat) \<times> module_store" where
  "commitModuleImport env pg_lower w a q expectedPreviewDigest key st =
     res_bind (validatedActor a) (\<lambda>_.
     res_bind (require (1 \<le> length (iq_rows q) \<and> length (iq_rows q) \<le> 100 \<and> key \<noteq> []) SchemaError) (\<lambda>_.
     res_bind (findInstallation env a (ByModuleId (iq_module_id q)) ModeWrite False True st) (\<lambda>_.
     res_bind (recovered_rows env a q key st [0..<length (iq_rows q)]) (\<lambda>recovered.
     res_bind (moduleImportPreviewWithExecutor env pg_lower a q (map (mres_record \<circ> snd) recovered) False st) (\<lambda>preview.
     res_bind (require (ip_digest preview = expectedPreviewDigest) (ModuleError MODULE_REVISION_CONFLICT)) (\<lambda>_.
     res_bind (require (ip_invalid preview = 0) (ModuleError MODULE_VALIDATION_ERROR)) (\<lambda>_.
     res_bind (import_rows env w a q key recovered (ip_rows preview) st) (\<lambda>(results, st').
     Ok ((results, ip_skipped preview), st')))))))))"

end
