(* ===== verification/ModuleLifecycle.thy ===== *)
theory ModuleLifecycle
  imports ModuleRecords
begin

text \<open>
  The lifecycle of an installed module (module-service.ts): installation, the upgrade to a newer
  manifest, the additive upgrade of a module that an app owns, and the settings of an administrator.

  The checks of an upgrade against saved views and against relations to resources of other providers
  are \<open>mw_upgrade_blocked\<close>; the pending agent actions that a revoked access lets expire, the
  event and the caches are left out.
\<close>

subsection \<open>Rows\<close>

definition installation_collides :: "installation_row \<Rightarrow> installation_row \<Rightarrow> bool" where
  "installation_collides i j \<longleftrightarrow> mi_id i = mi_id j
     \<or> (mi_org i = mi_org j \<and> (mi_module_id i = mi_module_id j \<or> mi_slug i = mi_slug j))"

definition insert_installation :: "installation_row \<Rightarrow> module_store \<Rightarrow> module_error + module_store" where
  "insert_installation i st =
     (if list_ex (installation_collides i) (ms_installations st) then Throw UniqueIndexViolation
      else Ok (st\<lparr>ms_installations := ms_installations st @ [i], ms_next := Suc (ms_next st)\<rparr>))"

definition version_collides :: "version_row \<Rightarrow> version_row \<Rightarrow> bool" where
  "version_collides v u \<longleftrightarrow> mv_id v = mv_id u
     \<or> (mv_org v = mv_org u \<and> mv_installation v = mv_installation u
        \<and> (mv_version v = mv_version u \<or> (mv_active v \<and> mv_active u)))"

definition insert_version :: "version_row \<Rightarrow> module_store \<Rightarrow> module_error + module_store" where
  "insert_version v st =
     (if list_ex (version_collides v) (ms_versions st) then Throw UniqueIndexViolation
      else Ok (st\<lparr>ms_versions := ms_versions st @ [v], ms_next := Suc (ms_next st)\<rparr>))"

definition new_version ::
    "module_env \<Rightarrow> module_actor \<Rightarrow> string \<Rightarrow> module_manifest \<Rightarrow> bool \<Rightarrow> module_store \<Rightarrow> version_row" where
  "new_version env a inst m active st =
     \<lparr>mv_id = me_id env (ms_next st), mv_org = actor_org a, mv_installation = inst, mv_version = mm_version m,
      mv_manifest = m, mv_digest = me_manifest_digest env m, mv_active = active\<rparr>"

text \<open>The active version is retired and the inserted one activated, in two statements.\<close>

definition set_active :: "string \<Rightarrow> string \<Rightarrow> string \<Rightarrow> bool \<Rightarrow> module_store \<Rightarrow> module_store" where
  "set_active org inst i active st = st\<lparr>ms_versions := map (\<lambda>v.
     if mv_org v = org \<and> mv_installation v = inst \<and> mv_id v = i \<and> mv_active v = (\<not> active)
     then v\<lparr>mv_active := active\<rparr> else v) (ms_versions st)\<rparr>"

definition activate_version :: "string \<Rightarrow> string \<Rightarrow> string \<Rightarrow> string \<Rightarrow> module_store \<Rightarrow> module_store" where
  "activate_version org inst old new st = set_active org inst new True (set_active org inst old False st)"

definition update_installation ::
    "string \<Rightarrow> string \<Rightarrow> (installation_row \<Rightarrow> installation_row) \<Rightarrow> module_store \<Rightarrow> module_store" where
  "update_installation org inst f st = st\<lparr>ms_installations := map (\<lambda>i.
     if mi_org i = org \<and> mi_id i = inst then f i else i) (ms_installations st)\<rparr>"

definition installation_records :: "string \<Rightarrow> string \<Rightarrow> module_store \<Rightarrow> module_row list" where
  "installation_records org inst st =
     filter (\<lambda>r. mr_org r = org \<and> mr_installation r = inst) (ms_records st)"

subsection \<open>Installation\<close>

definition installModuleFromManifestWithExecutor ::
    "module_env \<Rightarrow> module_world \<Rightarrow> module_actor \<Rightarrow> module_manifest \<Rightarrow> module_source \<Rightarrow> module_store
      \<Rightarrow> module_error + (installation_row \<times> version_row) \<times> module_store" where
  "installModuleFromManifestWithExecutor env w a manifest source st =
     res_bind (validatedActor a) (\<lambda>_.
     res_bind (assertLifecycleAccess a) (\<lambda>_.
     res_bind (parseDeftModuleManifest env manifest) (\<lambda>m.
     res_bind (assertCurrentModuleManager w a) (\<lambda>_.
     res_bind (require (\<not> list_ex (\<lambda>i. mi_org i = actor_org a \<and> \<not> mi_deleted i
          \<and> (mi_module_id i = mm_id m \<or> mi_slug i = mm_slug m)) (ms_installations st))
        (ModuleError MODULE_ALREADY_INSTALLED)) (\<lambda>_.
     let inst = \<lparr>mi_id = me_id env (ms_next st), mi_org = actor_org a, mi_module_id = mm_id m, mi_slug = mm_slug m,
           mi_source = source, mi_enabled = True, mi_agent_access = AccessNone, mi_deleted = False\<rparr> in
     res_bind (insert_installation inst st) (\<lambda>st1.
     let v = new_version env a (mi_id inst) m True st1 in
     res_bind (insert_version v st1) (\<lambda>st2.
     Ok ((inst, v), insertAudit a ''module.install'' (mi_id inst) None None [] st2))))))))"

subsection \<open>Additive upgrade of an app's module\<close>

definition assertModuleLifecycleNotOwnedByApp :: "module_world \<Rightarrow> string \<Rightarrow> string \<Rightarrow> module_error + unit" where
  "assertModuleLifecycleNotOwnedByApp w org inst =
     require (\<not> list_ex (\<lambda>(o', i, app). o' = org \<and> i = inst) (mw_bindings w)) (ModuleError MODULE_ACCESS_DENIED)"

definition optional_without_default :: "module_field \<Rightarrow> bool" where
  "optional_without_default f \<longleftrightarrow> \<not> (mf_required f \<or> type_default (mf_type f) \<noteq> JUndefined)"

text \<open>
  Two parsed fields (or projections) with the same JSON text in a stable order of keys are equal.
\<close>

definition additive_collection :: "module_collection \<Rightarrow> module_collection \<Rightarrow> bool" where
  "additive_collection c d \<longleftrightarrow> mc_search c = mc_search d
     \<and> list_all (\<lambda>f. find_field d (mf_key f) = Some f) (mc_fields c)
     \<and> list_all optional_without_default
         (filter (\<lambda>f. mf_key f \<notin> set (map mf_key (mc_fields c))) (mc_fields d))"

definition strictly_additive :: "module_manifest \<Rightarrow> module_manifest \<Rightarrow> bool" where
  "strictly_additive m n \<longleftrightarrow>
     list_all (\<lambda>c. case find_collection n (mc_key c) of None \<Rightarrow> False | Some d \<Rightarrow> additive_collection c d)
       (mm_collections m)
     \<and> list_all (\<lambda>d. list_all optional_without_default (mc_fields d))
         (filter (\<lambda>d. mc_key d \<notin> set (map mc_key (mm_collections m))) (mm_collections n))"

definition assertStrictlyAdditiveAppModuleUpgrade :: "module_manifest \<Rightarrow> module_manifest \<Rightarrow> module_error + unit" where
  "assertStrictlyAdditiveAppModuleUpgrade m n = require (strictly_additive m n) (ModuleError MODULE_VALIDATION_ERROR)"

definition ModuleManifestDigestSchema :: "string \<Rightarrow> bool" where
  "ModuleManifestDigestSchema s \<longleftrightarrow> js_starts_with s ''sha256:'' \<and> length s = 71
     \<and> list_all (\<lambda>c. js_is_digit c \<or> (97 \<le> code_unit c \<and> code_unit c \<le> 102)) (List.drop 7 s)"

definition repoint_records :: "string \<Rightarrow> string \<Rightarrow> string \<Rightarrow> module_store \<Rightarrow> module_store" where
  "repoint_records org inst version st = st\<lparr>ms_records := map (\<lambda>r.
     if mr_org r = org \<and> mr_installation r = inst then r\<lparr>mr_version := version\<rparr> else r) (ms_records st)\<rparr>"

definition upgradeAppOwnedModuleAdditivelyWithExecutor ::
    "module_env \<Rightarrow> module_world \<Rightarrow> module_actor \<Rightarrow> string \<Rightarrow> string \<Rightarrow> string \<Rightarrow> module_manifest \<Rightarrow> module_store
      \<Rightarrow> module_error + (installation_row \<times> version_row) \<times> module_store" where
  "upgradeAppOwnedModuleAdditivelyWithExecutor env w a app installationId expectedDigest manifest st =
     (let org = actor_org a in
     res_bind (validatedActor a) (\<lambda>_.
     res_bind (assertLifecycleAccess a) (\<lambda>_.
     res_bind (require (ModuleManifestDigestSchema expectedDigest) SchemaError) (\<lambda>_.
     res_bind (parseDeftModuleManifest env manifest) (\<lambda>m.
     res_bind (assertCurrentModuleManager w a) (\<lambda>_.
     case (find_installation_row a (ByInstallation installationId) st, active_version org installationId st) of
       (Some inst, Some v) \<Rightarrow>
         res_bind (require (case List.find (\<lambda>(o', i, app'). o' = org \<and> i = mi_id inst) (mw_bindings w) of
              None \<Rightarrow> False | Some (o', i, app') \<Rightarrow> app' = app) (ModuleError MODULE_ACCESS_DENIED)) (\<lambda>_.
         res_bind (require (mi_source inst = Sideloaded \<and> mi_module_id inst = mm_id m \<and> mi_slug inst = mm_slug m)
            (ModuleError MODULE_IDENTITY_MISMATCH)) (\<lambda>_.
         res_bind (require (mv_digest v = expectedDigest) (ModuleError MODULE_MANIFEST_STALE)) (\<lambda>_.
         res_bind (require (compareSemver (me_dbl env) (mv_version v) (mm_version m) < 0)
            (ModuleError MODULE_UPDATE_NOT_AVAILABLE)) (\<lambda>_.
         res_bind (parseDeftModuleManifest env (mv_manifest v)) (\<lambda>current.
         res_bind (assertStrictlyAdditiveAppModuleUpgrade current m) (\<lambda>_.
         let version = new_version env a (mi_id inst) m False st in
         res_bind (insert_version version st) (\<lambda>st1.
         Ok ((inst\<lparr>mi_enabled := True\<rparr>, version\<lparr>mv_active := True\<rparr>),
             insertAudit a ''module.update'' (mi_id inst) None None []
               (update_installation org (mi_id inst) (\<lambda>i. i\<lparr>mi_enabled := True\<rparr>)
                 (activate_version org (mi_id inst) (mv_id v) (mv_id version)
                   (repoint_records org (mi_id inst) (mv_id version) st1)))))))))))
     | _ \<Rightarrow> Throw (ModuleError MODULE_NOT_FOUND)))))))"

subsection \<open>Upgrade with revalidation\<close>

fun revalidate_records ::
    "module_env \<Rightarrow> module_world \<Rightarrow> string \<Rightarrow> module_manifest \<Rightarrow> module_row list
      \<Rightarrow> module_error + (string \<times> (string \<times> jsv) list \<times> search_projection option) list" where
  "revalidate_records env w org m [] = Ok []"
| "revalidate_records env w org m (r # rs) =
     res_bind (parseRecordData env m (mr_collection r) (mr_data r)) (\<lambda>data.
     res_bind (assertMemberFieldsValid w org m (mr_collection r) data) (\<lambda>_.
     res_bind (projectRecord env m (mr_collection r) data) (\<lambda>p.
     res_bind (revalidate_records env w org m rs) (\<lambda>rest.
     Ok ((mr_id r, data, p) # rest)))))"

fun check_relations ::
    "module_manifest \<Rightarrow> module_row list \<Rightarrow> (string \<times> string) list \<Rightarrow> relation_row list \<Rightarrow> module_error + unit" where
  "check_relations m records seen [] = Ok ()"
| "check_relations m records seen (e # es) =
     (case (List.find (\<lambda>r. mr_id r = rr_source e) records, List.find (\<lambda>r. mr_id r = rr_target e) records) of
        (Some src, Some tgt) \<Rightarrow>
          res_bind (fieldFor m (mr_collection src) (rr_field e)) (\<lambda>f.
          res_bind (require (relation_target (mf_type f) = Some (mr_collection tgt))
             (ModuleError MODULE_VALIDATION_ERROR)) (\<lambda>_.
          res_bind (require (relation_multiple (mf_type f) \<or> (mr_id src, mf_key f) \<notin> set seen)
             (ModuleError MODULE_VALIDATION_ERROR)) (\<lambda>_.
          check_relations m records ((mr_id src, mf_key f) # seen) es)))
      | _ \<Rightarrow> Throw InternalError)"

text \<open>The \<open>UPDATE\<close>s of the validated records, one after the other.\<close>

definition store_validated ::
    "string \<Rightarrow> string \<Rightarrow> string \<Rightarrow> (string \<times> (string \<times> jsv) list \<times> search_projection option) list
      \<Rightarrow> module_store \<Rightarrow> module_store" where
  "store_validated org inst version validated st = st\<lparr>ms_records := fold (\<lambda>(i, data, p). map (\<lambda>r.
     if mr_id r = i \<and> mr_org r = org \<and> mr_installation r = inst
     then projected p (r\<lparr>mr_data := data, mr_version := version\<rparr>) else r)) validated (ms_records st)\<rparr>"

definition version_is_newer ::
    "module_env \<Rightarrow> version_row \<Rightarrow> module_manifest \<Rightarrow> module_source \<Rightarrow> module_error + unit" where
  "version_is_newer env v m source =
     (if mv_version v = mm_version m
      then if mv_digest v \<noteq> me_manifest_digest env m \<and> source = Bundled then Throw InternalError
           else Throw (ModuleError MODULE_UPDATE_NOT_AVAILABLE)
      else require (compareSemver (me_dbl env) (mv_version v) (mm_version m) < 0)
             (ModuleError MODULE_UPDATE_NOT_AVAILABLE))"

definition upgradeModuleInstallationToManifest ::
    "module_env \<Rightarrow> module_world \<Rightarrow> module_actor \<Rightarrow> string \<Rightarrow> module_manifest \<Rightarrow> module_source \<Rightarrow> string option
      \<Rightarrow> module_store \<Rightarrow> module_error + (installation_row \<times> version_row) \<times> module_store" where
  "upgradeModuleInstallationToManifest env w a routeSlug manifest source expected st =
     (let org = actor_org a; expectedActiveDigest = given_key expected in
     res_bind (validatedActor a) (\<lambda>_.
     res_bind (assertLifecycleAccess a) (\<lambda>_.
     res_bind (require (\<not> (source = Sideloaded \<and> expectedActiveDigest = None)) (ModuleError MODULE_MANIFEST_INVALID)) (\<lambda>_.
     res_bind (require (opt_ok ModuleManifestDigestSchema expectedActiveDigest) SchemaError) (\<lambda>_.
     res_bind (parseDeftModuleManifest env manifest) (\<lambda>m.
     res_bind (require (routeSlug = mm_slug m) (ModuleError MODULE_IDENTITY_MISMATCH)) (\<lambda>_.
     res_bind (assertCurrentModuleManager w a) (\<lambda>_.
     res_bind (findInstallation env a (BySlug routeSlug) ModeRead True True st) (\<lambda>(inst, v).
     res_bind (assertModuleLifecycleNotOwnedByApp w org (mi_id inst)) (\<lambda>_.
     res_bind (require (mi_source inst = source \<and> mi_module_id inst = mm_id m \<and> mi_slug inst = mm_slug m)
        (ModuleError MODULE_IDENTITY_MISMATCH)) (\<lambda>_.
     res_bind (require (case expectedActiveDigest of None \<Rightarrow> True | Some d \<Rightarrow> mv_digest v = d)
        (ModuleError MODULE_MANIFEST_STALE)) (\<lambda>_.
     res_bind (version_is_newer env v m source) (\<lambda>_.
     let records = installation_records org (mi_id inst) st in
     res_bind (revalidate_records env w org m records) (\<lambda>validated.
     res_bind (check_relations m records [] (filter (\<lambda>e. rr_org e = org \<and> rr_installation e = mi_id inst
         \<and> \<not> rr_deleted e) (ms_relations st))) (\<lambda>_.
     res_bind (require (\<not> mw_upgrade_blocked w (mi_id inst) m) (ModuleError MODULE_VALIDATION_ERROR)) (\<lambda>_.
     let version = new_version env a (mi_id inst) m False st in
     res_bind (insert_version version st) (\<lambda>st1.
     Ok ((inst, version\<lparr>mv_active := True\<rparr>),
         insertAudit a ''module.update'' (mi_id inst) None None []
           (activate_version org (mi_id inst) (mv_id v) (mv_id version)
             (store_validated org (mi_id inst) (mv_id version) validated st1))))))))))))))))))))"

subsection \<open>Settings\<close>

definition updateModuleInstallation ::
    "module_env \<Rightarrow> module_world \<Rightarrow> module_actor \<Rightarrow> string \<Rightarrow> bool option \<Rightarrow> agent_access option \<Rightarrow> module_store
      \<Rightarrow> module_error + (installation_row \<times> version_row) \<times> module_store" where
  "updateModuleInstallation env w a slug enabled access st =
     res_bind (validatedActor a) (\<lambda>_.
     res_bind (assertLifecycleAccess a) (\<lambda>_.
     res_bind (require (\<not> (enabled = None \<and> access = None)) (ModuleError MODULE_VALIDATION_ERROR)) (\<lambda>_.
     res_bind (assertCurrentModuleManager w a) (\<lambda>_.
     res_bind (findInstallation env a (BySlug slug) ModeRead True True st) (\<lambda>(inst, v).
     res_bind (if enabled = None then Ok () else assertModuleLifecycleNotOwnedByApp w (actor_org a) (mi_id inst)) (\<lambda>_.
     let settings = (\<lambda>i. i\<lparr>mi_enabled := (case enabled of None \<Rightarrow> mi_enabled inst | Some b \<Rightarrow> b),
           mi_agent_access := (case access of None \<Rightarrow> mi_agent_access inst | Some b \<Rightarrow> b)\<rparr>) in
     Ok ((settings inst, v), insertAudit a ''module.configure'' (mi_id inst) None None []
          (update_installation (actor_org a) (mi_id inst) settings st))))))))"

end
