(* ===== verification/ModuleOperations.thy ===== *)
theory ModuleOperations
  imports ModuleMergeCommit ModuleImport ModuleLifecycle
begin

text \<open>
  The requests of the module operations (packages/shared/src/modules.ts), their execution for an actor
  (mcp-tools/modules.ts), and the transactions on the module tables as one step relation.
\<close>

subsection \<open>Requests\<close>

definition key_char :: "char \<Rightarrow> bool" where
  "key_char c \<longleftrightarrow> js_is_alnum c \<or> c \<in> set ''._:/-''"

definition ModuleIdempotencyKeySchema :: "string \<Rightarrow> bool" where
  "ModuleIdempotencyKeySchema s \<longleftrightarrow> 1 \<le> length s \<and> length s \<le> 128
     \<and> js_is_alnum (hd s) \<and> list_all key_char (tl s)"

definition ModuleRecordDataSchema :: "(string \<times> jsv) list \<Rightarrow> bool" where
  "ModuleRecordDataSchema d \<longleftrightarrow> list_all (\<lambda>(k, v). ModuleFieldKeySchema k \<and> field_value_shape v) d"

definition ModuleRecordCreateRequestSchema :: "create_request \<Rightarrow> bool" where
  "ModuleRecordCreateRequestSchema q \<longleftrightarrow> ModuleIdSchema (cr_module_id q) \<and> ModuleKeySchema (cr_collection_key q)
     \<and> ModuleRecordDataSchema (cr_data q) \<and> opt_ok ModuleRelationPatchSchema (cr_relations q)
     \<and> ModuleManifestDigestSchema (cr_manifest_digest q) \<and> ModuleIdempotencyKeySchema (cr_idempotency_key q)"

definition ModuleRecordUpdateRequestSchema :: "update_request \<Rightarrow> bool" where
  "ModuleRecordUpdateRequestSchema q \<longleftrightarrow> OpaqueIdSchema (ur_record_id q) \<and> ModuleRecordDataSchema (ur_patch q)
     \<and> list_all ModuleFieldKeySchema (ur_unset_fields q)
     \<and> length (ur_unset_fields q) \<le> MODULE_LIMITS Fields_per_collection
     \<and> opt_ok ModuleRelationPatchSchema (ur_relations q) \<and> 1 \<le> ur_expected_revision q
     \<and> ModuleManifestDigestSchema (ur_manifest_digest q)
     \<and> opt_ok ModuleIdempotencyKeySchema (ur_idempotency_key q)
     \<and> \<not> (ur_patch q = [] \<and> ur_unset_fields q = [] \<and> or_empty (ur_relations q) = [])
     \<and> addDuplicateIssues (ur_unset_fields q) ''Unset fields'' = []
     \<and> list_all (\<lambda>k. k \<notin> fst ` set (ur_patch q)) (ur_unset_fields q)"

definition ModuleRecordArchiveRequestSchema :: "archive_request \<Rightarrow> bool" where
  "ModuleRecordArchiveRequestSchema q \<longleftrightarrow> OpaqueIdSchema (ar_record_id q) \<and> 1 \<le> ar_expected_revision q
     \<and> ModuleManifestDigestSchema (ar_manifest_digest q)
     \<and> opt_ok ModuleIdempotencyKeySchema (ar_idempotency_key q)"

definition ModuleMutationResultSchema :: "mutation_result \<Rightarrow> bool" where
  "ModuleMutationResultSchema r \<longleftrightarrow> OpaqueIdSchema (mres_record r) \<and> OpaqueIdSchema (mres_installation r)
     \<and> ModuleIdSchema (mres_module_id r) \<and> ModuleKeySchema (mres_collection r)
     \<and> ModuleManifestDigestSchema (mres_manifest_digest r) \<and> 1 \<le> mres_revision r
     \<and> list_all ModuleFieldKeySchema (mres_changed r)
     \<and> length (mres_changed r) \<le> MODULE_LIMITS Fields_per_collection \<and> distinct (mres_changed r)"

subsection \<open>Execution\<close>

text \<open>
  The result is parsed again after the transaction has committed, so a result that the schema refuses
  is an error in a changed store.
\<close>

definition parsed_outcome ::
    "module_store \<Rightarrow> module_error + mutation_outcome \<times> module_store \<Rightarrow> (module_error + mutation_result) \<times> module_store" where
  "parsed_outcome st r = (case r of
       Inl e \<Rightarrow> (Throw e, st)
     | Inr ((_, res), st') \<Rightarrow> (if ModuleMutationResultSchema res then Ok res else Throw SchemaError, st'))"

fun executeModuleOperationForActor ::
    "module_env \<Rightarrow> module_world \<Rightarrow> module_actor \<Rightarrow> proposed_mutation \<Rightarrow> module_store
      \<Rightarrow> (module_error + mutation_result) \<times> module_store" where
  "executeModuleOperationForActor env w a (ProposedCreate q) st =
     (if ModuleRecordCreateRequestSchema q then parsed_outcome st (createModuleRecord env w a q st)
      else (Throw SchemaError, st))"
| "executeModuleOperationForActor env w a (ProposedUpdate q) st =
     (if ModuleRecordUpdateRequestSchema q then parsed_outcome st (updateModuleRecord env w a q None st)
      else (Throw SchemaError, st))"
| "executeModuleOperationForActor env w a (ProposedArchive q) st =
     (if ModuleRecordArchiveRequestSchema q then parsed_outcome st (archiveModuleRecord env w a q None st)
      else (Throw SchemaError, st))"

fun proposed_key :: "proposed_mutation \<Rightarrow> string option" where
  "proposed_key (ProposedCreate q) = Some (cr_idempotency_key q)"
| "proposed_key (ProposedUpdate q) = ur_idempotency_key q"
| "proposed_key (ProposedArchive q) = ar_idempotency_key q"

subsection \<open>Transactions\<close>

text \<open>
  One committed transaction of any operation, with any arguments, actor and state of the rest of the
  database.
\<close>

inductive module_step :: "module_env \<Rightarrow> module_store \<Rightarrow> module_store \<Rightarrow> bool" for env where
  step_install: "installModuleFromManifestWithExecutor env w a m source st = Inr (out, st') \<Longrightarrow> module_step env st st'"
| step_additive: "upgradeAppOwnedModuleAdditivelyWithExecutor env w a app i d m st = Inr (out, st')
    \<Longrightarrow> module_step env st st'"
| step_upgrade: "upgradeModuleInstallationToManifest env w a slug m source d st = Inr (out, st')
    \<Longrightarrow> module_step env st st'"
| step_settings: "updateModuleInstallation env w a slug enabled access st = Inr (out, st') \<Longrightarrow> module_step env st st'"
| step_create: "createModuleRecordWithExecutor env w a q d st = Inr (out, st') \<Longrightarrow> module_step env st st'"
| step_update: "updateModuleRecord env w a q i st = Inr (out, st') \<Longrightarrow> module_step env st st'"
| step_archive: "archiveModuleRecord env w a q i st = Inr (out, st') \<Longrightarrow> module_step env st st'"
| step_restore: "restoreModuleRecord env a i q st = Inr (out, st') \<Longrightarrow> module_step env st st'"
| step_merge: "commitModuleMerge env snapshot_digest w a i q d key st = Inr (out, st') \<Longrightarrow> module_step env st st'"
| step_import: "commitModuleImport env pg_lower w a q d key st = Inr (out, st') \<Longrightarrow> module_step env st st'"

abbreviation module_steps :: "module_env \<Rightarrow> module_store \<Rightarrow> module_store \<Rightarrow> bool" where
  "module_steps env \<equiv> (module_step env)\<^sup>*\<^sup>*"

definition empty_store :: module_store where
  "empty_store = \<lparr>ms_installations = [], ms_versions = [], ms_records = [], ms_relations = [], ms_receipts = [],
     ms_merges = [], ms_refs = [], ms_audit = [], ms_next = 0\<rparr>"

definition reachable_store :: "module_env \<Rightarrow> module_store \<Rightarrow> bool" where
  "reachable_store env st \<longleftrightarrow> module_steps env empty_store st"

end
