(* ===== verification/ModuleEffects.thy ===== *)
theory ModuleEffects
  imports ModuleOperations ModuleTyping "HOL-Library.Sublist"
begin

text \<open>
  What a transaction on the module tables may do, whatever its arguments: a few kinds of elementary
  effects, each with the condition under which it happens.  Two contracts follow from the effects
  alone: the invariant \<open>store_typed\<close>, and the order \<open>store_le\<close> in which every store lies
  above the stores it came from.
\<close>

subsection \<open>The contracts\<close>

definition row_typed :: "module_env \<Rightarrow> module_manifest \<Rightarrow> module_row \<Rightarrow> bool" where
  "row_typed env m r \<longleftrightarrow> (\<exists>c. find_collection m (mr_collection r) = Some c
     \<and> record_typed (me_url env) (mc_fields c) (mr_data r) \<and> record_fits (me_num env) (mr_data r))"

definition owns :: "version_row \<Rightarrow> module_row \<Rightarrow> bool" where
  "owns v r \<longleftrightarrow> mv_id v = mr_version r \<and> mv_org v = mr_org r \<and> mv_installation v = mr_installation r"

text \<open>The row is typed by the version it names, and that version is the active one.\<close>

definition row_current :: "module_env \<Rightarrow> version_row list \<Rightarrow> module_row \<Rightarrow> bool" where
  "row_current env vs r \<longleftrightarrow> (\<exists>v \<in> set vs. mv_active v \<and> owns v r \<and> row_typed env (mv_manifest v) r)"

definition one_active :: "version_row list \<Rightarrow> bool" where
  "one_active vs \<longleftrightarrow> (\<forall>v \<in> set vs. \<forall>u \<in> set vs. mv_active v \<and> mv_active u \<and> mv_org v = mv_org u
     \<and> mv_installation v = mv_installation u \<longrightarrow> v = u)"

definition receipt_ident :: "receipt_row \<Rightarrow> string \<times> (string \<times> string) \<times> mutation_operation \<times> string" where
  "receipt_ident q = (mu_org q, mu_actor q, mu_operation q, mu_key q)"

definition store_typed :: "module_env \<Rightarrow> module_store \<Rightarrow> bool" where
  "store_typed env st \<longleftrightarrow> distinct (map mr_id (ms_records st)) \<and> distinct (map mv_id (ms_versions st))
     \<and> distinct (map mi_id (ms_installations st)) \<and> distinct (map receipt_ident (ms_receipts st))
     \<and> (\<forall>v \<in> set (ms_versions st). DeftModuleManifestV1Schema (me_url env) (mv_manifest v))
     \<and> one_active (ms_versions st) \<and> (\<forall>r \<in> set (ms_records st). row_current env (ms_versions st) r)"

definition row_key :: "module_row \<Rightarrow> string \<times> string \<times> string \<times> string" where
  "row_key r = (mr_id r, mr_org r, mr_installation r, mr_collection r)"

definition installation_key :: "installation_row \<Rightarrow> string \<times> string \<times> string" where
  "installation_key i = (mi_id i, mi_org i, mi_module_id i)"

definition rows_le :: "module_row list \<Rightarrow> module_row list \<Rightarrow> bool" where
  "rows_le rs rs' \<longleftrightarrow> (\<forall>r \<in> set rs. \<exists>r' \<in> set rs'. row_key r' = row_key r \<and> mr_revision r \<le> mr_revision r')"

definition store_le :: "module_store \<Rightarrow> module_store \<Rightarrow> bool" where
  "store_le st st' \<longleftrightarrow> rows_le (ms_records st) (ms_records st')
     \<and> installation_key ` set (ms_installations st) \<subseteq> installation_key ` set (ms_installations st')
     \<and> prefix (ms_receipts st) (ms_receipts st')"

lemma rows_le_refl [simp]: "rows_le rs rs"
  by (auto simp: rows_le_def)

lemma rows_leD:
  assumes "rows_le rs rs'" "r \<in> set rs"
  obtains r' :: module_row where "r' \<in> set rs'" "row_key r' = row_key r" "mr_revision r \<le> mr_revision r'"
  using bspec[OF assms(1)[unfolded rows_le_def] assms(2)] by (elim bexE conjE) (rule that)

lemma rows_le_trans:
  assumes "rows_le a b" "rows_le b c"
  shows "rows_le a c"
  unfolding rows_le_def
proof
  fix r :: module_row assume "r \<in> set a"
  from rows_leD[OF assms(1) this] obtain s :: module_row
    where s: "s \<in> set b" "row_key s = row_key r" "mr_revision r \<le> mr_revision s" .
  from rows_leD[OF assms(2) s(1)] obtain t :: module_row
    where "t \<in> set c" "row_key t = row_key s" "mr_revision s \<le> mr_revision t" .
  then show "\<exists>r' \<in> set c. row_key r' = row_key r \<and> mr_revision r \<le> mr_revision r'"
    using s by (intro bexI[of _ t]) auto
qed

lemma rows_le_append: "rows_le rs (rs @ rs')"
  by (auto simp: rows_le_def)

lemma rows_le_map:
  "(\<And>r. r \<in> set rs \<Longrightarrow> row_key (f r) = row_key r \<and> mr_revision r \<le> mr_revision (f r)) \<Longrightarrow> rows_le rs (map f rs)"
  by (auto simp: rows_le_def)

lemma store_le_refl [simp]: "store_le st st"
  by (auto simp: store_le_def)

lemma store_le_trans: "store_le a b \<Longrightarrow> store_le b c \<Longrightarrow> store_le a c"
  by (auto simp: store_le_def intro: rows_le_trans prefix_order.order_trans)

lemma row_current_cong:
  "row_current env vs r' \<longleftrightarrow> row_current env vs r"
  if "row_key r' = row_key r" "mr_version r' = mr_version r" "mr_data r' = mr_data r"
  using that by (auto simp: row_current_def owns_def row_typed_def row_key_def)

subsection \<open>The effects\<close>

definition same_core :: "module_store \<Rightarrow> module_store \<Rightarrow> bool" where
  "same_core st st' \<longleftrightarrow> ms_installations st' = ms_installations st \<and> ms_versions st' = ms_versions st
     \<and> ms_records st' = ms_records st \<and> ms_receipts st' = ms_receipts st"

inductive module_effect :: "module_env \<Rightarrow> module_store \<Rightarrow> module_store \<Rightarrow> bool" for env where
  e_frame: "same_core st st' \<Longrightarrow> module_effect env st st'"
| e_insert: "mr_id r \<notin> mr_id ` set (ms_records st) \<Longrightarrow> row_current env (ms_versions st) r
    \<Longrightarrow> module_effect env st (st\<lparr>ms_records := ms_records st @ [r]\<rparr>)"
| e_revise: "(\<And>r. r \<in> set (ms_records st) \<Longrightarrow> row_key (f r) = row_key r \<and> row_current env (ms_versions st) (f r)
      \<and> (f r = r \<or> mr_revision (f r) = mr_revision r + 1))
    \<Longrightarrow> module_effect env st (st\<lparr>ms_records := map f (ms_records st)\<rparr>)"
| e_receipt: "\<not> list_ex (receipt_collides q) (ms_receipts st)
    \<Longrightarrow> module_effect env st (st\<lparr>ms_receipts := ms_receipts st @ [q]\<rparr>)"
| e_install: "mi_id i \<notin> mi_id ` set (ms_installations st)
    \<Longrightarrow> module_effect env st (st\<lparr>ms_installations := ms_installations st @ [i]\<rparr>)"
| e_settings: "(\<And>i. installation_key (g i) = installation_key i)
    \<Longrightarrow> module_effect env st (st\<lparr>ms_installations := map g (ms_installations st)\<rparr>)"
| e_version: "\<not> list_ex (version_collides v) (ms_versions st) \<Longrightarrow> DeftModuleManifestV1Schema (me_url env) (mv_manifest v)
    \<Longrightarrow> module_effect env st (st\<lparr>ms_versions := ms_versions st @ [v]\<rparr>)"
| e_upgrade: "(\<And>v. mv_id (h v) = mv_id v \<and> mv_manifest (h v) = mv_manifest v)
    \<Longrightarrow> one_active (map h (ms_versions st))
    \<Longrightarrow> (\<And>r. r \<in> set (ms_records st) \<Longrightarrow> row_key (f r) = row_key r \<and> mr_revision (f r) = mr_revision r
          \<and> row_current env (map h (ms_versions st)) (f r))
    \<Longrightarrow> module_effect env st (st\<lparr>ms_versions := map h (ms_versions st), ms_records := map f (ms_records st)\<rparr>)"

abbreviation module_effects :: "module_env \<Rightarrow> module_store \<Rightarrow> module_store \<Rightarrow> bool" where
  "module_effects env \<equiv> (module_effect env)\<^sup>*\<^sup>*"

lemma row_current_append: "row_current env vs r \<Longrightarrow> row_current env (vs @ us) r"
  by (auto simp: row_current_def)

lemma row_key_map: "\<forall>r \<in> set rs. row_key (f r) = row_key r \<Longrightarrow> map mr_id (map f rs) = map mr_id rs"
  by (auto simp: row_key_def)

lemma effect_typed:
  assumes "module_effect env st st'" "store_typed env st"
  shows "store_typed env st'"
  using assms
proof (cases rule: module_effect.cases)
  case e_frame
  then show ?thesis using assms(2) by (simp add: store_typed_def same_core_def)
next
  case (e_insert r)
  then show ?thesis using assms(2) by (auto simp: store_typed_def)
next
  case (e_revise f)
  then have "map mr_id (map f (ms_records st)) = map mr_id (ms_records st)" by (intro row_key_map) auto
  then show ?thesis using assms(2) e_revise by (auto simp: store_typed_def simp del: map_map)
next
  case (e_receipt q)
  then have "receipt_ident q \<notin> receipt_ident ` set (ms_receipts st)"
    by (auto simp: list_ex_iff receipt_collides_def receipt_ident_def)
  then show ?thesis using assms(2) e_receipt by (auto simp: store_typed_def)
next
  case (e_install i)
  then show ?thesis using assms(2) by (auto simp: store_typed_def)
next
  case (e_settings g)
  then have "map mi_id (map g (ms_installations st)) = map mi_id (ms_installations st)"
    by (auto simp: installation_key_def)
  then show ?thesis using assms(2) e_settings by (simp add: store_typed_def del: map_map)
next
  case (e_version v)
  then have "mv_id v \<notin> mv_id ` set (ms_versions st)" "one_active (ms_versions st @ [v])"
    using assms(2) by (auto simp: list_ex_iff version_collides_def store_typed_def one_active_def)
  then show ?thesis using assms(2) e_version by (auto simp: store_typed_def row_current_append)
next
  case (e_upgrade h f)
  then have "map mr_id (map f (ms_records st)) = map mr_id (ms_records st)" by (intro row_key_map) auto
  moreover have "map mv_id (map h (ms_versions st)) = map mv_id (ms_versions st)" using e_upgrade by simp
  ultimately show ?thesis using assms(2) e_upgrade by (auto simp: store_typed_def simp del: map_map)
qed

lemma effect_le:
  assumes "module_effect env st st'"
  shows "store_le st st'"
  using assms
proof (cases rule: module_effect.cases)
  case (e_insert r)
  then show ?thesis by (simp add: store_le_def rows_le_append)
next
  case (e_revise f)
  have "rows_le (ms_records st) (map f (ms_records st))"
  proof (rule rows_le_map)
    fix r assume "r \<in> set (ms_records st)"
    from e_revise(2)[OF this] show "row_key (f r) = row_key r \<and> mr_revision r \<le> mr_revision (f r)"
      by (elim conjE disjE) simp_all
  qed
  then show ?thesis using e_revise(1) by (simp add: store_le_def)
next
  case (e_settings g)
  then show ?thesis by (auto simp: store_le_def image_iff)
next
  case (e_upgrade h f)
  have "rows_le (ms_records st) (map f (ms_records st))"
    by (rule rows_le_map) (use e_upgrade(4) in auto)
  then show ?thesis using e_upgrade(1) by (simp add: store_le_def)
qed (auto simp: store_le_def same_core_def)

lemma effects_typed: "module_effects env st st' \<Longrightarrow> store_typed env st \<Longrightarrow> store_typed env st'"
  by (induction rule: rtranclp_induct) (auto intro: effect_typed)

lemma effects_le: "module_effects env st st' \<Longrightarrow> store_le st st'"
  by (induction rule: rtranclp_induct) (auto intro: effect_le store_le_trans)

lemma frame_effects [intro]: "same_core st st' \<Longrightarrow> module_effects env st st'"
  by (auto intro: e_frame)

lemma same_core_refl [simp]: "same_core st st"
  by (simp add: same_core_def)

lemma same_core_trans: "same_core a b \<Longrightarrow> same_core b c \<Longrightarrow> same_core a c"
  by (simp add: same_core_def)

lemma same_core_typed: "same_core st st' \<Longrightarrow> store_typed env st' = store_typed env st"
  by (simp add: same_core_def store_typed_def)

end
