(* ===== verification/ModuleOutcomes.thy ===== *)
theory ModuleOutcomes
  imports ModuleEffects
begin

text \<open>
  The successful runs of the module operations: for every operation the checks that have passed and
  the stores it went through, and from these its effects.
\<close>

subsection \<open>Chains of checks\<close>

lemma option_case_Ok:
  "(case x of None \<Rightarrow> f | Some y \<Rightarrow> g y) = Inr z \<longleftrightarrow> (x = None \<and> f = Inr z) \<or> (\<exists>y. x = Some y \<and> g y = Inr z)"
  by (cases x) auto

lemma Throw_not_Ok: "Inl e = Inr z \<longleftrightarrow> False"
  by simp

lemmas Ok_chain = res_bind_Ok_iff option_case_Ok require_Ok if_Throw_Ok Throw_not_Ok split_paired_Ex prod.case

subsection \<open>Reading the store\<close>

lemma verifyManifest_Ok:
  assumes "verifyManifest env v = Inr m"
  shows "m = mv_manifest v" "DeftModuleManifestV1Schema (me_url env) m"
  using assms
  by (auto simp: verifyManifest_def parseDeftModuleManifest_def res_bind_Ok_iff split: if_splits)

lemma findInstallation_Ok:
  assumes "findInstallation env a ident mode disabled lock st = Inr (inst, v)"
  shows "inst \<in> set (ms_installations st)" "mi_org inst = actor_org a" "identifies ident inst"
    "v \<in> set (ms_versions st)" "mv_org v = actor_org a" "mv_installation v = mi_id inst" "mv_active v"
proof -
  have found: "find_installation_row a ident st = Some inst" "active_version (actor_org a) (mi_id inst) st = Some v"
    using assms by (auto simp: findInstallation_def res_bind_Ok_iff split: if_splits option.splits)
  show "inst \<in> set (ms_installations st)" "mi_org inst = actor_org a" "identifies ident inst"
    using find_Some_set[OF found(1)[unfolded find_installation_row_def]] by auto
  show "v \<in> set (ms_versions st)" "mv_org v = actor_org a" "mv_installation v = mi_id inst" "mv_active v"
    using find_Some_set[OF found(2)[unfolded active_version_def]] by auto
qed

lemma record_by_id_Some: "record_by_id i st = Some r \<Longrightarrow> r \<in> set (ms_records st) \<and> mr_id r = i"
  unfolding record_by_id_def by (drule find_Some_set) auto

lemma record_by_id_unique:
  assumes "store_typed env st" "r \<in> set (ms_records st)" "mr_id r = i"
  shows "record_by_id i st = Some r"
proof (cases "record_by_id i st")
  case None
  then show ?thesis using assms by (auto simp: record_by_id_def find_None_set)
next
  case (Some s)
  then have "s \<in> set (ms_records st)" "mr_id s = mr_id r" using record_by_id_Some assms(3) by auto
  moreover have "inj_on mr_id (set (ms_records st))"
    using assms(1) by (simp add: store_typed_def distinct_map)
  ultimately show ?thesis using Some assms(2) by (auto dest: inj_onD)
qed

lemma lock_active_record_Ok:
  assumes "lock_active_record a i inst st = Inr r"
  shows "record_by_id i st = Some r" "mr_org r = actor_org a" "mr_installation r = inst" "\<not> mr_deleted r"
  using assms by (auto simp: lock_active_record_def split: option.splits if_splits)

lemma locate_Ok:
  assumes "locateModuleRecordInstallation a i expected st = Inr inst"
  shows "\<exists>r. record_by_id i st = Some r \<and> mr_installation r = inst \<and> mr_org r = actor_org a"
  using assms by (auto simp: locateModuleRecordInstallation_def split: option.splits if_splits)

lemma parseRecordData_typed:
  assumes "parseRecordData env m ck d = Inr data" "DeftModuleManifestV1Schema (me_url env) m"
  shows "\<exists>c. find_collection m ck = Some c \<and> record_typed (me_url env) (mc_fields c) data
     \<and> record_fits (me_num env) data"
proof -
  have valid: "validateModuleRecordData (me_url env) (me_num env) m ck (JObj d) = Inr data"
    using assms(1) by (auto simp: parseRecordData_def split: sum.splits)
  obtain c where c: "find_collection m ck = Some c"
    using valid by (cases "find_collection m ck") (auto simp: validateModuleRecordData_def)
  then show ?thesis
    using validated_record_is_typed[OF valid c manifest_v1_fields[OF assms(2) c]] by auto
qed

subsection \<open>The common parts\<close>

lemma insertAudit_core [simp]: "same_core st (insertAudit a act e b f ch st)"
  by (simp add: same_core_def insertAudit_def)

lemma insert_edge_core: "insert_edge e st = Inr st' \<Longrightarrow> same_core st st'"
  by (auto simp: insert_edge_def same_core_def split: if_splits)

lemma update_edges_core [simp]: "same_core st (update_edges p f st)"
  by (simp add: update_edges_def same_core_def)

lemma place_targets_core:
  "place_targets env org inst source k current position ts st = Inr st' \<Longrightarrow> same_core st st'"
proof (induction ts arbitrary: position st)
  case (Cons t ts)
  from Cons.prems obtain st1 where step: "place_targets env org inst source k current (Suc position) ts st1 = Inr st'"
    and "same_core st st1"
    by (auto simp: res_bind_Ok_iff split: option.splits dest: insert_edge_core)
  then show ?case using Cons.IH same_core_trans by blast
qed simp

lemma relations_core:
  "applyPreparedRelationReplacements env a source inst rs prep st = Inr st' \<Longrightarrow> same_core st st'"
proof (induction prep arbitrary: st)
  case (Cons p ps)
  obtain f current where p: "p = (f, current)" by (cases p)
  let ?del = "update_edges (\<lambda>e. rr_org e = actor_org a \<and> rr_installation e = inst
      \<and> rr_id e \<in> set (map rr_id (filter (\<lambda>e. rr_target e \<notin> set (replacement_ids rs (mf_key f))) current)))
      (\<lambda>e. e\<lparr>rr_deleted := True\<rparr>) st"
  from Cons.prems obtain st1 where
    "place_targets env (actor_org a) inst source (mf_key f) current 0 (replacement_ids rs (mf_key f)) ?del = Inr st1"
    and rest: "applyPreparedRelationReplacements env a source inst rs ps st1 = Inr st'"
    by (auto simp: p Let_def res_bind_Ok_iff)
  then have "same_core ?del st1" by (intro place_targets_core)
  then have "same_core st st1" using same_core_trans update_edges_core by blast
  then show ?case using Cons.IH[OF rest] same_core_trans by blast
qed simp

lemma insertMutationReceipt_effects:
  assumes "insertMutationReceipt env a operation key d r v changed st = Inr st'"
  shows "module_effects env st st'"
  using assms
  by (auto simp: insertMutationReceipt_def Let_def split: if_splits intro: e_receipt)

lemma finish_mutation_effects:
  assumes "finish_mutation env a operation action b key d r inst v changed st = Inr (out, st')"
  shows "module_effects env st st'"
proof -
  let ?st = "insertAudit a action (resource_of r) b (Some (mr_revision r)) (sorted_names changed) st"
  have "insertMutationReceipt env a operation key d r v changed ?st = Inr st'"
    using assms by (auto simp: finish_mutation_def res_bind_Ok_iff)
  then have "module_effects env ?st st'" by (rule insertMutationReceipt_effects)
  moreover have "module_effects env st ?st" by (rule frame_effects) simp
  ultimately show ?thesis by (rule rtranclp_trans[rotated])
qed

lemma insert_record_effects:
  assumes "insert_record r st = Inr st'" "row_current env (ms_versions st) r"
  shows "module_effects env st st'"
proof -
  have fresh: "mr_id r \<notin> mr_id ` set (ms_records st)"
    and st': "st' = st\<lparr>ms_records := ms_records st @ [r], ms_next := Suc (ms_next st)\<rparr>"
    using assms(1) by (auto simp: insert_record_def list_ex_iff record_collides_def split: if_splits)
  have "module_effect env st (st\<lparr>ms_records := ms_records st @ [r]\<rparr>)" by (rule e_insert[OF fresh assms(2)])
  moreover have "module_effect env (st\<lparr>ms_records := ms_records st @ [r]\<rparr>) st'"
    by (rule e_frame) (simp add: same_core_def st')
  ultimately show ?thesis by (auto intro: converse_rtranclp_into_rtranclp)
qed

text \<open>The update of a row found by its id.\<close>

lemma update_record_effect:
  assumes "store_typed env st" "record_by_id i st = Some r"
    and "row_key (f r) = row_key r" "mr_revision (f r) = mr_revision r + 1" "row_current env (ms_versions st) (f r)"
  shows "module_effects env st (update_record i f st)"
proof -
  let ?f = "\<lambda>q. if mr_id q = i then f q else q"
  have "row_key (?f q) = row_key q \<and> row_current env (ms_versions st) (?f q)
      \<and> (?f q = q \<or> mr_revision (?f q) = mr_revision q + 1)" if q: "q \<in> set (ms_records st)" for q
  proof (cases "mr_id q = i")
    case True
    then have "q = r" using record_by_id_unique[OF assms(1) q True] assms(2) by simp
    then show ?thesis using True assms(3-5) by simp
  next
    case False
    then show ?thesis using q assms(1) by (simp add: store_typed_def)
  qed
  then have "module_effect env st (st\<lparr>ms_records := map ?f (ms_records st)\<rparr>)" by (rule e_revise)
  then show ?thesis by (simp add: update_record_def)
qed

lemma bump_simps [simp]:
  "row_key (bump r) = row_key r" "mr_revision (bump r) = mr_revision r + 1" "mr_version (bump r) = mr_version r"
  "mr_data (bump r) = mr_data r" "mr_deleted (bump r) = mr_deleted r" "mr_id (bump r) = mr_id r"
  "row_key (projected p r) = row_key r" "mr_revision (projected p r) = mr_revision r"
  "mr_version (projected p r) = mr_version r" "mr_data (projected p r) = mr_data r"
  "mr_deleted (projected p r) = mr_deleted r" "mr_id (projected p r) = mr_id r"
  by (simp_all add: bump_def projected_def row_key_def)

lemma row_key_updates [simp]:
  "row_key (r\<lparr>mr_data := d, mr_version := v\<rparr>) = row_key r" "row_key (r\<lparr>mr_deleted := b\<rparr>) = row_key r"
  "row_key (r\<lparr>mr_version := v\<rparr>) = row_key r" "row_key (r\<lparr>mr_data := d\<rparr>) = row_key r"
  by (simp_all add: row_key_def)

text \<open>A row whose data was validated by the active version of its installation.\<close>

lemma validated_row_current:
  assumes "v \<in> set vs" "mv_active v" "mv_org v = mr_org r" "mv_installation v = mr_installation r"
    and "mr_version r = mv_id v" "verifyManifest env v = Inr m"
    and "parseRecordData env m (mr_collection r) d = Inr (mr_data r)"
  shows "row_current env vs r"
  using parseRecordData_typed[OF assms(7) verifyManifest_Ok(2)[OF assms(6)]] verifyManifest_Ok(1)[OF assms(6)] assms(1-5)
  by (auto simp: row_current_def owns_def row_typed_def intro!: bexI[of _ v])

subsection \<open>Create, update, archive, restore\<close>

lemma createModuleRecordWithExecutor_Ok:
  assumes "createModuleRecordWithExecutor env w a req d st = Inr (out, st')"
  obtains (replay) res where "findMutationReplay env a MutCreate (cr_idempotency_key req) d None st = Inr (Some res)"
      "out = (None, res)" "st' = st"
  | (create) inst v m data p prep st1 st2 where
      "findMutationReplay env a MutCreate (cr_idempotency_key req) d None st = Inr None"
      "findInstallation env a (ByModuleId (cr_module_id req)) ModeWrite False True st = Inr (inst, v)"
      "verifyManifest env v = Inr m" "parseRecordData env m (cr_collection_key req) (cr_data req) = Inr data"
      "insert_record (new_record env a req inst v data p st) st = Inr st1"
      "applyPreparedRelationReplacements env a (mr_id (new_record env a req inst v data p st)) (mi_id inst) (or_empty (cr_relations req)) prep st1 = Inr st2"
      "finish_mutation env a MutCreate ''module_record.create'' None (Some (cr_idempotency_key req)) (Some d)
         (new_record env a req inst v data p st) inst v (map fst data @ map fst (or_empty (cr_relations req))) st2 = Inr (out, st')"
  using assms unfolding createModuleRecordWithExecutor_def Let_def
  apply (simp only: Ok_chain)
  apply (elim exE conjE disjE FalseE)
   apply (rule create; (assumption | simp only:))
  apply (rule replay; auto)
  done

lemma updateModuleRecord_Ok:
  assumes "updateModuleRecord env w a req i st = Inr (out, st')"
  defines "d \<equiv> moduleMutationInputDigest env MutUpdate (update_json req)"
  obtains (replay) res where "replay_of env a MutUpdate (ur_idempotency_key req) d i st = Inr (Some res)"
      "out = (None, res)" "st' = st"
  | (change) inst v current m data prep p st2 ii where
      "replay_of env a MutUpdate (ur_idempotency_key req) d i st = Inr None"
      "findInstallation env a (ByInstallation ii) ModeWrite False True st = Inr (inst, v)"
      "lock_active_record a (ur_record_id req) (mi_id inst) st = Inr current"
      "mr_revision current = ur_expected_revision req" "verifyManifest env v = Inr m"
      "parseRecordData env m (mr_collection current)
         (patched_data (mr_data current) (ur_patch req) (ur_unset_fields req)) = Inr data"
      "applyPreparedRelationReplacements env a (mr_id current) (mi_id inst) (or_empty (ur_relations req)) prep
         (update_record (mr_id current) (\<lambda>r. bump (projected p (r\<lparr>mr_data := data, mr_version := mv_id v\<rparr>))) st) = Inr st2"
      "finish_mutation env a MutUpdate ''module_record.update'' (Some (mr_revision current)) (ur_idempotency_key req)
         (Some d) (bump (projected p (current\<lparr>mr_data := data, mr_version := mv_id v\<rparr>))) inst v
         (map fst (ur_patch req) @ ur_unset_fields req @ map fst (or_empty (ur_relations req))) st2 = Inr (out, st')"
  using assms(1) unfolding updateModuleRecord_def Let_def d_def[symmetric]
  apply (simp only: Ok_chain)
  apply (elim exE conjE disjE FalseE)
   apply (rule change; (assumption | simp only:))
  apply (rule replay; auto)
  done

lemma archiveModuleRecord_Ok:
  assumes "archiveModuleRecord env w a req i st = Inr (out, st')"
  defines "d \<equiv> moduleMutationInputDigest env MutArchive (archive_json req)"
  obtains (replay) res where "replay_of env a MutArchive (ar_idempotency_key req) d i st = Inr (Some res)"
      "out = (None, res)" "st' = st"
  | (change) inst v current ii where
      "replay_of env a MutArchive (ar_idempotency_key req) d i st = Inr None"
      "findInstallation env a (ByInstallation ii) ModeWrite False True st = Inr (inst, v)"
      "lock_active_record a (ar_record_id req) (mi_id inst) st = Inr current"
      "mr_revision current = ar_expected_revision req"
      "finish_mutation env a MutArchive ''module_record.archive'' (Some (mr_revision current)) (ar_idempotency_key req)
         (Some d) (bump (current\<lparr>mr_deleted := True\<rparr>)) inst v []
         (update_record (mr_id current) (\<lambda>r. bump (r\<lparr>mr_deleted := True\<rparr>)) st) = Inr (out, st')"
  using assms(1) unfolding archiveModuleRecord_def Let_def d_def[symmetric]
  apply (simp only: Ok_chain)
  apply (elim exE conjE disjE FalseE)
   apply (rule change; (assumption | simp only:))
  apply (rule replay; auto)
  done

lemma restoreModuleRecord_Ok:
  assumes "restoreModuleRecord env a installationId req st = Inr (out, st')"
  obtains (replay) "st' = st"
  | (change) inst v current validated key d where
      "findInstallation env a (ByInstallation installationId) ModeWrite False True st = Inr (inst, v)"
      "record_by_id (ar_record_id req) st = Some current"
      "mr_revision current = ar_expected_revision req \<and> mr_deleted current"
      "finish_mutation env a MutUpdate ''module_record.restore'' (Some (mr_revision current)) (Some key)
         (Some d) (bump (current\<lparr>mr_deleted := False\<rparr>)) inst validated []
         (update_record (mr_id current) (\<lambda>r. bump (r\<lparr>mr_deleted := False\<rparr>)) st) = Inr (out, st')"
  using assms(1) unfolding restoreModuleRecord_def Let_def
  apply (simp only: Ok_chain)
  apply (elim exE conjE disjE FalseE)
   apply (rule change; (assumption | simp only:))
  apply (rule replay; auto)
  done

lemma new_record_simps [simp]:
  "mr_id (new_record env a req inst v data p st) = me_id env (ms_next st)"
  "mr_org (new_record env a req inst v data p st) = actor_org a"
  "mr_installation (new_record env a req inst v data p st) = mi_id inst"
  "mr_collection (new_record env a req inst v data p st) = cr_collection_key req"
  "mr_version (new_record env a req inst v data p st) = mv_id v"
  "mr_data (new_record env a req inst v data p st) = data"
  "mr_revision (new_record env a req inst v data p st) = 1"
  by (simp_all add: new_record_def projected_def)

lemma create_effects:
  assumes "createModuleRecordWithExecutor env w a req d st = Inr (out, st')" "store_typed env st"
  shows "module_effects env st st'"
  using assms(1)
proof (cases rule: createModuleRecordWithExecutor_Ok)
  case replay
  then show ?thesis by simp
next
  case (create inst v m data p prep st1 st2)
  let ?r = "new_record env a req inst v data p st"
  note fi = findInstallation_Ok[OF create(2)]
  have "row_current env (ms_versions st) ?r"
    by (rule validated_row_current[OF fi(4,7)]) (use fi create(3,4) in simp_all)
  then have "module_effects env st st1" by (rule insert_record_effects[OF create(5)])
  also have "module_effects env st1 st2" by (rule frame_effects[OF relations_core[OF create(6)]])
  also have "module_effects env st2 st'" by (rule finish_mutation_effects[OF create(7)])
  finally show ?thesis .
qed

lemma current_row_current:
  assumes "store_typed env st" "record_by_id i st = Some r"
  shows "row_current env (ms_versions st) r"
  using assms record_by_id_Some by (auto simp: store_typed_def)

lemma update_effects:
  assumes "updateModuleRecord env w a req i st = Inr (out, st')" "store_typed env st"
  shows "module_effects env st st'"
  using assms(1)
proof (cases rule: updateModuleRecord_Ok)
  case replay
  then show ?thesis by simp
next
  case (change inst v current m data prep p st2 ii)
  note fi = findInstallation_Ok[OF change(2)] and cur = lock_active_record_Ok[OF change(3)]
  let ?f = "\<lambda>r. bump (projected p (r\<lparr>mr_data := data, mr_version := mv_id v\<rparr>))"
  have id: "mr_id current = ur_record_id req" using record_by_id_Some[OF cur(1)] by simp
  have "row_current env (ms_versions st) (?f current)"
    by (rule validated_row_current[OF fi(4,7)])
      (use fi cur change(5,6) in \<open>simp_all add: bump_def projected_def\<close>)
  then have "module_effects env st (update_record (mr_id current) ?f st)"
    unfolding id by (intro update_record_effect[OF assms(2) cur(1)]) simp_all
  also have "module_effects env (update_record (mr_id current) ?f st) st2"
    by (rule frame_effects[OF relations_core[OF change(7)]])
  also have "module_effects env st2 st'" by (rule finish_mutation_effects[OF change(8)])
  finally show ?thesis .
qed

lemma flag_effects:
  assumes "store_typed env st" "record_by_id i st = Some r"
  shows "module_effects env st (update_record (mr_id r) (\<lambda>r. bump (r\<lparr>mr_deleted := b\<rparr>)) st)"
proof -
  have "row_current env (ms_versions st) (bump (r\<lparr>mr_deleted := b\<rparr>))"
    using current_row_current[OF assms] by (subst row_current_cong[of _ r]) simp_all
  moreover have "mr_id r = i" using record_by_id_Some[OF assms(2)] by simp
  ultimately show ?thesis by (intro update_record_effect[OF assms(1)]) (use assms(2) in simp_all)
qed

lemma archive_effects:
  assumes "archiveModuleRecord env w a req i st = Inr (out, st')" "store_typed env st"
  shows "module_effects env st st'"
  using assms(1)
proof (cases rule: archiveModuleRecord_Ok)
  case replay
  then show ?thesis by simp
next
  case (change inst v current ii)
  show ?thesis
    by (rule rtranclp_trans[OF flag_effects[OF assms(2) lock_active_record_Ok(1)[OF change(3)]]
          finish_mutation_effects[OF change(5)]])
qed

lemma restore_effects:
  assumes "restoreModuleRecord env a i req st = Inr (out, st')" "store_typed env st"
  shows "module_effects env st st'"
  using assms(1)
proof (cases rule: restoreModuleRecord_Ok)
  case replay
  then show ?thesis by simp
next
  case (change inst v current validated key d)
  show ?thesis
    by (rule rtranclp_trans[OF flag_effects[OF assms(2) change(2)] finish_mutation_effects[OF change(4)]])
qed

subsection \<open>Import\<close>

lemma import_rows_effects:
  assumes "import_rows env w a q key recovered rows st = Inr (out, st')" "store_typed env st"
  shows "module_effects env st st'"
  using assms
proof (induction rows arbitrary: out st)
  case (Cons row rows)
  note IH = Cons.IH
  show ?case
  proof (cases "ir_state row = ImportNew \<and> map_of recovered (ir_index row) = None")
    case True
    then obtain o1 st1 o2 where
      step: "createModuleRecordWithExecutor env w a (importCreateInput env q (ir_index row) key)
        (importRowDigest env q (ir_index row)) st = Inr (o1, st1)"
      and rest: "import_rows env w a q key recovered rows st1 = Inr (o2, st')"
      using Cons.prems(1) by (auto simp: res_bind_Ok_iff)
    have "module_effects env st st1" by (rule create_effects[OF step Cons.prems(2)])
    also have "module_effects env st1 st'"
      by (rule IH[OF rest effects_typed[OF \<open>module_effects env st st1\<close> Cons.prems(2)]])
    finally show ?thesis .
  next
    case False
    then obtain o2 where "import_rows env w a q key recovered rows st = Inr (o2, st')"
      using Cons.prems(1) by (auto simp: res_bind_Ok_iff split: if_splits)
    then show ?thesis using IH Cons.prems(2) by blast
  qed
qed simp

lemma import_effects:
  assumes "commitModuleImport env pg_lower w a q d key st = Inr (out, st')" "store_typed env st"
  shows "module_effects env st st'"
proof -
  obtain recovered rows out' where "import_rows env w a q key recovered rows st = Inr (out', st')"
    using assms(1) unfolding commitModuleImport_def
    by (simp only: Ok_chain prod.inject sum.inject) (elim exE conjE, blast)
  then show ?thesis using import_rows_effects assms(2) by blast
qed

subsection \<open>Merge\<close>

lemma moduleMergeSnapshot_Ok:
  assumes "moduleMergeSnapshot env w a installationId q lock locked st = Inr s"
  obtains collection where
    "findInstallation env a (ByInstallation installationId) ModeWrite False lock st = Inr (sn_installation s, sn_version s)"
    "verifyManifest env (sn_version s) = Inr (sn_manifest s)" "mq_source q \<noteq> mq_target q"
    "active_record a installationId (mq_source q) st = Inr (sn_source s)"
    "active_record a installationId (mq_target q) st = Inr (sn_target s)"
    "mr_collection (sn_source s) = mr_collection (sn_target s)"
    "collectionFor (sn_manifest s) (mr_collection (sn_source s)) = Inr collection"
    "sn_edges s = merge_edges_of a installationId [mq_source q, mq_target q] st"
    "planModuleRecordMerge env (mr_id (sn_source s), mr_data (sn_source s)) (mr_id (sn_target s), mr_data (sn_target s))
        (mc_fields collection) (map plan_edge (sn_edges s)) (mq_field_choices q) (mq_relation_choices q) = Inr (sn_plan s)"
    "parseRecordData env (sn_manifest s) (mc_key collection) (mp_data (sn_plan s)) = Inr (sn_data s)"
    "list_all (edge_compatible a installationId (sn_manifest s) st) (sn_edges s)"
  using assms unfolding moduleMergeSnapshot_def Let_def
  apply (simp only: Ok_chain sum.inject)
  apply (elim exE conjE)
  apply (drule sym[where t = s])
  apply (rule that; simp)
  done

lemma commitModuleMerge_Ok:
  assumes "commitModuleMerge env snapshot_digest w a installationId q expected key st = Inr (out, st')"
  defines "org \<equiv> actor_org a"
  obtains (replay) "st' = st"
  | (merge) s st1 p d locked changed where
      "moduleMergeSnapshot env w a installationId q True locked st = Inr s"
      "mp_ready (sn_plan s)"
      "add_links env org installationId (mp_add (sn_plan s))
         (remove_links org installationId (mp_remove (sn_plan s)) (merge_history env s st)) = Inr st1"
      "insertMutationReceipt env a MutUpdate (Some key) (Some d) (survivor_update s p (sn_target s)) (sn_version s) changed
         (insertAudit a ''module_record.archive'' (resource_of (sn_source s)) (Some (mr_revision (sn_source s)))
                 (Some (mr_revision (sn_source s) + 1)) []
                 (insertAudit a ''module_record.merge'' (resource_of (survivor_update s p (sn_target s)))
                   (Some (mr_revision (sn_target s))) (Some (mr_revision (survivor_update s p (sn_target s)))) changed
                   (merge_rows s p (copy_task_refs org (mr_id (sn_source s)) (mr_id (sn_target s)) (sn_task_edges s)
                     (move_links org installationId (mp_reposition (sn_plan s)) st1))))) = Inr st'"
  using assms(1) unfolding commitModuleMerge_def Let_def org_def[symmetric]
  apply (simp only: Ok_chain sum.inject prod.inject)
  apply (elim exE conjE disjE)
   apply (rule merge; (assumption | simp only:))
  apply (rule replay; simp)
  done

lemma add_links_core: "add_links env org inst ds st = Inr st' \<Longrightarrow> same_core st st'"
proof (induction ds arbitrary: st)
  case (Cons d ds)
  then show ?case by (auto simp: res_bind_Ok_iff intro: same_core_trans dest: insert_edge_core)
qed simp

lemma links_core [simp]:
  "same_core st (remove_links org inst ids st)" "same_core st (copy_task_refs org i j refs st)"
  "same_core st (merge_history env s st)"
  by (simp_all add: remove_links_def copy_task_refs_def merge_history_def same_core_def update_edges_def)

lemma move_links_core: "same_core st (move_links org inst moves st)"
proof (induction moves arbitrary: st)
  case (Cons m moves)
  obtain i n where m: "m = (i, n)" by (cases m)
  let ?st = "update_edges (\<lambda>e. rr_org e = org \<and> rr_installation e = inst \<and> rr_id e = i) (\<lambda>e. e\<lparr>rr_position := n\<rparr>) st"
  have "move_links org inst (m # moves) st = move_links org inst moves ?st" by (simp add: move_links_def m)
  then show ?case using Cons.IH[of ?st] same_core_trans[OF update_edges_core] by simp
qed (simp add: move_links_def)

lemma installed_record_by_id:
  assumes "store_typed env st" "installed_record a inst i st = Some r"
  shows "record_by_id i st = Some r" "mr_org r = actor_org a" "mr_installation r = inst"
  using assms find_Some_set[OF assms(2)[unfolded installed_record_def]] record_by_id_unique by auto

lemma active_record_Ok:
  "active_record a inst i st = Inr r \<Longrightarrow> installed_record a inst i st = Some r \<and> \<not> mr_deleted r"
  by (auto simp: active_record_def split: option.splits if_splits)

lemma bump_records_effects:
  assumes "store_typed env st"
  shows "module_effects env st (bump_records ids st)"
proof -
  let ?f = "\<lambda>r. if mr_id r \<in> set ids then bump r else r"
  have "row_key (?f r) = row_key r \<and> row_current env (ms_versions st) (?f r)
      \<and> (?f r = r \<or> mr_revision (?f r) = mr_revision r + 1)" if "r \<in> set (ms_records st)" for r
    using that assms row_current_cong[of "bump r" r] by (auto simp: store_typed_def)
  then have "module_effect env st (st\<lparr>ms_records := map ?f (ms_records st)\<rparr>)" by (rule e_revise)
  then show ?thesis by (simp add: bump_records_def)
qed

lemma record_by_id_core: "same_core st st' \<Longrightarrow> record_by_id i st' = record_by_id i st"
  by (simp add: record_by_id_def same_core_def)

lemma record_by_id_update_other:
  assumes "i \<noteq> j" "\<And>r. mr_id (f r) = mr_id r"
  shows "record_by_id j (update_record i f st) = record_by_id j st"
proof -
  have "List.find (\<lambda>r. mr_id r = j) (map (\<lambda>r. if mr_id r = i then f r else r) rs) = List.find (\<lambda>r. mr_id r = j) rs" for rs
    using assms by (induction rs) auto
  then show ?thesis by (simp add: record_by_id_def update_record_def)
qed

lemma survivor_current:
  assumes "store_typed env st" "moduleMergeSnapshot env w a inst q lock locked st = Inr s"
  shows "row_current env (ms_versions st) (survivor_update s p (sn_target s))"
  using assms(2)
proof (rule moduleMergeSnapshot_Ok)
  fix collection
  assume a: "findInstallation env a (ByInstallation inst) ModeWrite False lock st = Inr (sn_installation s, sn_version s)"
    "verifyManifest env (sn_version s) = Inr (sn_manifest s)"
    "active_record a inst (mq_target q) st = Inr (sn_target s)"
    "mr_collection (sn_source s) = mr_collection (sn_target s)"
    "collectionFor (sn_manifest s) (mr_collection (sn_source s)) = Inr collection"
    "parseRecordData env (sn_manifest s) (mc_key collection) (mp_data (sn_plan s)) = Inr (sn_data s)"
  have key: "mc_key collection = mr_collection (sn_target s)"
    using a(4,5) find_collection_mem by (auto simp: collectionFor_def split: option.splits)
  note fi = findInstallation_Ok[OF a(1)]
  have "installed_record a inst (mq_target q) st = Some (sn_target s)" using active_record_Ok[OF a(3)] by simp
  note t = installed_record_by_id[OF assms(1) this]
  show ?thesis
    by (rule validated_row_current[OF fi(4,7)])
      (use fi t a(2,6) key in \<open>simp_all add: survivor_update_def bump_def projected_def\<close>)
qed

lemma merge_rows_effects:
  assumes st: "store_typed env st" and core: "same_core st st2"
    and snap: "moduleMergeSnapshot env w a inst q lock locked st = Inr s"
  shows "module_effects env st2 (merge_rows s p st2)"
proof -
  have typed2: "store_typed env st2" using st same_core_typed[OF core] by simp
  have ids: "mq_source q \<noteq> mq_target q" and src: "active_record a inst (mq_source q) st = Inr (sn_source s)"
    and tgt: "active_record a inst (mq_target q) st = Inr (sn_target s)"
    by (rule moduleMergeSnapshot_Ok[OF snap], assumption)+
  note rec = installed_record_by_id(1)[OF st conjunct1[OF active_record_Ok[OF src]]]
    installed_record_by_id(1)[OF st conjunct1[OF active_record_Ok[OF tgt]]]
  note same = conjunct2[OF record_by_id_Some[OF rec(1)]] conjunct2[OF record_by_id_Some[OF rec(2)]]
  have survivor_id: "mr_id (survivor_update s p r) = mr_id r" for r by (simp add: survivor_update_def)
  let ?st3 = "update_record (mr_id (sn_target s)) (survivor_update s p) st2"
  let ?st4 = "update_record (mr_id (sn_source s)) (\<lambda>r. bump (r\<lparr>mr_deleted := True\<rparr>)) ?st3"
  have "ms_versions st2 = ms_versions st" using core by (simp add: same_core_def)
  then have "row_current env (ms_versions st2) (survivor_update s p (sn_target s))"
    using survivor_current[OF st snap] by simp
  then have step1: "module_effects env st2 ?st3"
    by (intro update_record_effect[OF typed2, of _ "sn_target s"])
      (simp_all add: survivor_update_def record_by_id_core[OF core] same rec)
  have typed3: "store_typed env ?st3" by (rule effects_typed[OF step1 typed2])
  have "record_by_id (mq_source q) ?st3 = Some (sn_source s)"
    using record_by_id_update_other[of "mr_id (sn_target s)" "mq_source q", OF _ survivor_id] ids same
    by (simp add: record_by_id_core[OF core] rec(1))
  from flag_effects[OF typed3 this] have step2: "module_effects env ?st3 ?st4" .
  have typed4: "store_typed env ?st4" by (rule effects_typed[OF step2 typed3])
  note step1
  also note step2
  also have "module_effects env ?st4 (merge_rows s p st2)"
    unfolding merge_rows_def Let_def by (rule bump_records_effects[OF typed4])
  finally show ?thesis .
qed

lemma merge_effects:
  assumes "commitModuleMerge env snapshot_digest w a inst q d key st = Inr (out, st')" "store_typed env st"
  shows "module_effects env st st'"
  using assms(1)
proof (cases rule: commitModuleMerge_Ok)
  case (merge s st1 p d locked changed)
  let ?st2 = "copy_task_refs (actor_org a) (mr_id (sn_source s)) (mr_id (sn_target s)) (sn_task_edges s)
      (move_links (actor_org a) inst (mp_reposition (sn_plan s)) st1)"
  have core: "same_core st ?st2"
    by (meson same_core_trans links_core move_links_core add_links_core[OF merge(3)])
  define st5 where "st5 = insertAudit a ''module_record.archive'' (resource_of (sn_source s))
      (Some (mr_revision (sn_source s))) (Some (mr_revision (sn_source s) + 1)) []
      (insertAudit a ''module_record.merge'' (resource_of (survivor_update s p (sn_target s)))
        (Some (mr_revision (sn_target s))) (Some (mr_revision (survivor_update s p (sn_target s)))) changed
        (merge_rows s p ?st2))"
  have "module_effects env st ?st2" by (rule frame_effects[OF core])
  moreover have "module_effects env ?st2 (merge_rows s p ?st2)"
    by (rule merge_rows_effects[OF assms(2) core merge(1)])
  moreover have "module_effects env (merge_rows s p ?st2) st5"
    unfolding st5_def by (rule frame_effects[OF same_core_trans[OF insertAudit_core insertAudit_core]])
  moreover have "module_effects env st5 st'"
    unfolding st5_def by (rule insertMutationReceipt_effects[OF merge(4)])
  ultimately show ?thesis by (rule rtranclp_trans[OF rtranclp_trans[OF rtranclp_trans]])
qed simp

end
