(* ===== verification/ModuleProperties.thy ===== *)
theory ModuleProperties
  imports ModuleOutcomes
begin

text \<open>
  Every transaction on the module tables is a sequence of the elementary effects, so the two contracts
  of the effects hold between any two states of a history.  From them: stored records always have the
  type their active manifest gives them, an update never overwrites a change it has not seen, and a
  repeated request is answered from its receipt.
\<close>

subsection \<open>Lifecycle\<close>

lemma parseDeftModuleManifest_Ok:
  "parseDeftModuleManifest env m = Inr n \<Longrightarrow> n = m \<and> DeftModuleManifestV1Schema (me_url env) m"
  by (auto simp: parseDeftModuleManifest_def split: if_splits)

lemma insert_version_effects:
  assumes "insert_version v st = Inr st'" "DeftModuleManifestV1Schema (me_url env) (mv_manifest v)"
  shows "module_effects env st st'" "ms_versions st' = ms_versions st @ [v]"
    "ms_records st' = ms_records st" "ms_installations st' = ms_installations st" "ms_receipts st' = ms_receipts st"
proof -
  have new: "\<not> list_ex (version_collides v) (ms_versions st)"
    and st': "st' = st\<lparr>ms_versions := ms_versions st @ [v], ms_next := Suc (ms_next st)\<rparr>"
    using assms(1) by (auto simp: insert_version_def split: if_splits)
  have "module_effect env st (st\<lparr>ms_versions := ms_versions st @ [v]\<rparr>)" by (rule e_version[OF new assms(2)])
  moreover have "module_effect env (st\<lparr>ms_versions := ms_versions st @ [v]\<rparr>) st'"
    by (rule e_frame) (simp add: same_core_def st')
  ultimately show "module_effects env st st'" by (auto intro: converse_rtranclp_into_rtranclp)
qed (use assms(1) in \<open>auto simp: insert_version_def split: if_splits\<close>)

lemma insert_installation_effects:
  assumes "insert_installation i st = Inr st'"
  shows "module_effects env st st'"
proof -
  have new: "mi_id i \<notin> mi_id ` set (ms_installations st)"
    and st': "st' = st\<lparr>ms_installations := ms_installations st @ [i], ms_next := Suc (ms_next st)\<rparr>"
    using assms by (auto simp: insert_installation_def list_ex_iff installation_collides_def split: if_splits)
  have "module_effect env st (st\<lparr>ms_installations := ms_installations st @ [i]\<rparr>)" by (rule e_install[OF new])
  moreover have "module_effect env (st\<lparr>ms_installations := ms_installations st @ [i]\<rparr>) st'"
    by (rule e_frame) (simp add: same_core_def st')
  ultimately show ?thesis by (auto intro: converse_rtranclp_into_rtranclp)
qed

lemma update_installation_effects:
  assumes "\<And>i. installation_key (f i) = installation_key i"
  shows "module_effects env st (update_installation org inst f st)"
  unfolding update_installation_def by (rule r_into_rtranclp, rule e_settings) (simp add: assms)

lemma install_effects:
  assumes "installModuleFromManifestWithExecutor env w a m source st = Inr (out, st')"
  shows "module_effects env st st'"
proof -
  obtain inst i n st1 st2 where
    new: "parseDeftModuleManifest env m = Inr n" "insert_installation inst st = Inr st1"
      "insert_version (new_version env a i n True st1) st1 = Inr st2"
    and st': "st' = insertAudit a ''module.install'' i None None [] st2"
    using assms unfolding installModuleFromManifestWithExecutor_def Let_def
    by (simp only: Ok_chain prod.inject sum.inject) blast
  have "module_effects env st st1" by (rule insert_installation_effects[OF new(2)])
  also have "module_effects env st1 st2"
    using parseDeftModuleManifest_Ok[OF new(1)] insert_version_effects(1)[OF new(3)] by (simp add: new_version_def)
  also have "module_effects env st2 st'" unfolding st' by (rule frame_effects) simp
  finally show ?thesis .
qed

lemma settings_effects:
  assumes "updateModuleInstallation env w a slug enabled access st = Inr (out, st')"
  shows "module_effects env st st'"
proof -
  obtain org inst f where st': "st' = insertAudit a ''module.configure'' inst None None [] (update_installation org inst f st)"
    and f: "\<And>i. installation_key (f i) = installation_key i"
    using assms unfolding updateModuleInstallation_def Let_def
    by (simp only: Ok_chain prod.inject sum.inject) (auto simp: installation_key_def)
  show ?thesis unfolding st'
    by (rule rtranclp_trans[OF update_installation_effects[OF f] frame_effects[OF insertAudit_core]])
qed

subsection \<open>The change of the active version\<close>

lemma switch_effect:
  fixes st :: module_store
  assumes typed: "store_typed env st" and old: "v \<in> set (ms_versions st)" "mv_org v = org" "mv_installation v = inst" "mv_active v"
    and new: "n \<in> set (ms_versions st)" "mv_org n = org" "mv_installation n = inst" "\<not> mv_active n"
    and f: "\<And>r. r \<in> set (ms_records st) \<Longrightarrow> row_key (f r) = row_key r \<and> mr_revision (f r) = mr_revision r"
    and inside: "\<And>r. r \<in> set (ms_records st) \<Longrightarrow> mr_org r = org \<Longrightarrow> mr_installation r = inst \<Longrightarrow>
        row_typed env (mv_manifest v) r \<Longrightarrow> mr_version (f r) = mv_id n \<and> row_typed env (mv_manifest n) (f r)"
    and outside: "\<And>r. r \<in> set (ms_records st) \<Longrightarrow> \<not> (mr_org r = org \<and> mr_installation r = inst) \<Longrightarrow> f r = r"
  shows "module_effects env st (activate_version org inst (mv_id v) (mv_id n) (st\<lparr>ms_records := map f (ms_records st)\<rparr>))"
proof -
  define h1 where "h1 = (\<lambda>u :: version_row. if mv_org u = org \<and> mv_installation u = inst \<and> mv_id u = mv_id v \<and> mv_active u
      then u\<lparr>mv_active := False\<rparr> else u)"
  define h where "h = (\<lambda>u. if mv_org (h1 u) = org \<and> mv_installation (h1 u) = inst \<and> mv_id (h1 u) = mv_id n \<and> \<not> mv_active (h1 u)
      then (h1 u)\<lparr>mv_active := True\<rparr> else h1 u)"
  have h_keeps: "mv_id (h u) = mv_id u \<and> mv_manifest (h u) = mv_manifest u \<and> mv_org (h u) = mv_org u
      \<and> mv_installation (h u) = mv_installation u" for u :: version_row
    by (simp add: h_def h1_def)
  have one: "one_active (ms_versions st)" and inj: "inj_on mv_id (set (ms_versions st))"
    and rows: "r \<in> set (ms_records st) \<Longrightarrow> row_current env (ms_versions st) r" for r
    using typed by (auto simp: store_typed_def distinct_map)
  have only_old: "u = v" if "u \<in> set (ms_versions st)" "mv_org u = org" "mv_installation u = inst" "mv_active u" for u :: version_row
    using one that old by (auto simp: one_active_def)
  have h_outside: "h u = u" if "\<not> (mv_org u = org \<and> mv_installation u = inst)" for u :: version_row
    using that by (auto simp: h_def h1_def)
  have h_new: "mv_active (h n)" using new by (simp add: h_def h1_def)
  have ids: "mv_id v \<noteq> mv_id n" using inj old new by (auto dest: inj_onD)
  have h_inside: "u = n" if u: "u \<in> set (ms_versions st)" "mv_org u = org" "mv_installation u = inst" "mv_active (h u)" for u :: version_row
  proof (rule ccontr)
    assume "u \<noteq> n"
    then have "mv_id u \<noteq> mv_id n" using inj u(1) new(1) by (auto dest: inj_onD)
    then have act: "mv_active (h1 u)" using u(4) by (auto simp: h_def h1_def split: if_splits)
    then have "mv_active u" by (auto simp: h1_def split: if_splits)
    then have "u = v" using only_old u by blast
    then show False using act old by (simp add: h1_def)
  qed
  have "h u = h u'" if "u \<in> set (ms_versions st)" "u' \<in> set (ms_versions st)" "mv_active (h u)" "mv_active (h u')"
      "mv_org u = mv_org u'" "mv_installation u = mv_installation u'" for u u' :: version_row
  proof (cases "mv_org u = org \<and> mv_installation u = inst")
    case True
    then have "u = n" "u' = n" using h_inside that by auto
    then show ?thesis by simp
  next
    case False
    then have "h u = u" "h u' = u'" using h_outside that by auto
    then show ?thesis using one that by (auto simp: one_active_def)
  qed
  then have "one_active (map h (ms_versions st))" by (auto simp: one_active_def h_keeps)
  moreover have "row_current env (map h (ms_versions st)) (f r)" if r: "r \<in> set (ms_records st)" for r
  proof -
    obtain u :: version_row where u: "u \<in> set (ms_versions st)" "mv_active u" "owns u r" "row_typed env (mv_manifest u) r"
      using rows[OF r] unfolding row_current_def by blast
    show ?thesis
    proof (cases "mr_org r = org \<and> mr_installation r = inst")
      case True
      then have "u = v" using only_old u by (auto simp: owns_def)
      then have fr: "mr_version (f r) = mv_id n \<and> row_typed env (mv_manifest n) (f r)"
        using inside[OF r] True u(4) by blast
      have "owns (h n) (f r)" using fr f[OF r] True new by (auto simp: owns_def h_keeps row_key_def)
      then show ?thesis using fr h_new new(1) unfolding row_current_def by (intro bexI[of _ "h n"]) (auto simp: h_keeps)
    next
      case False
      then have "h u = u" using h_outside u(3) by (auto simp: owns_def)
      then show ?thesis using u outside[OF r False] unfolding row_current_def by (intro bexI[of _ u]) (auto intro!: image_eqI[of _ h u])
    qed
  qed
  ultimately have "module_effect env st (st\<lparr>ms_versions := map h (ms_versions st), ms_records := map f (ms_records st)\<rparr>)"
    using f h_keeps by (intro e_upgrade) auto
  moreover have "activate_version org inst (mv_id v) (mv_id n) (st\<lparr>ms_records := map f (ms_records st)\<rparr>)
      = st\<lparr>ms_versions := map h (ms_versions st), ms_records := map f (ms_records st)\<rparr>"
    by (simp add: activate_version_def set_active_def h_def h1_def comp_def)
  ultimately show ?thesis by (simp add: r_into_rtranclp)
qed

subsection \<open>The additive upgrade\<close>

lemma strictly_additive_collection:
  assumes "strictly_additive m n" "find_collection m k = Some c"
  obtains d where "find_collection n k = Some d" "additive_collection c d"
  using assms find_collection_mem[OF assms(2)]
  by (fastforce simp: strictly_additive_def list_all_iff split: option.splits)

text \<open>A record that is typed before an additive upgrade is typed after it.\<close>

lemma additive_upgrade_keeps_typing:
  assumes "strictly_additive m n" "DeftModuleManifestV1Schema (me_url env) n" "row_typed env m r"
  shows "row_typed env n r"
proof -
  obtain c where c: "find_collection m (mr_collection r) = Some c" "record_typed (me_url env) (mc_fields c) (mr_data r)"
    "record_fits (me_num env) (mr_data r)"
    using assms(3) unfolding row_typed_def by blast
  obtain d where d: "find_collection n (mr_collection r) = Some d" "additive_collection c d"
    by (rule strictly_additive_collection[OF assms(1) c(1)])
  have found: "find_field d (mf_key f) = Some f" if "f \<in> set (mc_fields c)" for f
    using d(2) that by (simp add: additive_collection_def list_all_iff)
  have subset: "set (mc_fields c) \<subseteq> set (mc_fields d)"
  proof
    fix f assume "f \<in> set (mc_fields c)"
    from found[OF this] show "f \<in> set (mc_fields d)" unfolding find_field_def by (auto dest: find_Some_set)
  qed
  have added: "\<not> obligatory f" if f: "f \<in> set (mc_fields d)" "f \<notin> set (mc_fields c)" for f
  proof -
    have "mf_key f \<notin> set (map mf_key (mc_fields c))"
    proof
      assume "mf_key f \<in> set (map mf_key (mc_fields c))"
      then obtain g where g: "g \<in> set (mc_fields c)" "mf_key g = mf_key f" by auto
      moreover have "inj_on mf_key (set (mc_fields d))"
        using manifest_v1_fields[OF assms(2) d(1)] by (simp add: distinct_map)
      ultimately have "g = f" using subset f(1) by (auto dest: inj_onD)
      then show False using g f(2) by simp
    qed
    then have "optional_without_default f" using d(2) f(1) by (auto simp: additive_collection_def list_all_iff)
    then show ?thesis by (simp add: optional_without_default_def obligatory_def)
  qed
  show ?thesis
    using record_typed_more_fields[OF c(2) subset added] c(3) d(1) unfolding row_typed_def by blast
qed

lemma additive_effects:
  assumes "upgradeAppOwnedModuleAdditivelyWithExecutor env w a app i d m st = Inr (out, st')" "store_typed env st"
  shows "module_effects env st st'"
proof -
  define org where "org = actor_org a"
  obtain inst v n cur u st1 where
    ok: "parseDeftModuleManifest env m = Inr n" "find_installation_row a (ByInstallation i) st = Some inst"
      "active_version org i st = Some v" "parseDeftModuleManifest env (mv_manifest v) = Inr cur"
      "assertStrictlyAdditiveAppModuleUpgrade cur n = Inr u"
      "insert_version (new_version env a (mi_id inst) n False st) st = Inr st1"
    and st': "st' = insertAudit a ''module.update'' (mi_id inst) None None []
               (update_installation org (mi_id inst) (\<lambda>i. i\<lparr>mi_enabled := True\<rparr>)
                 (activate_version org (mi_id inst) (mv_id v) (mv_id (new_version env a (mi_id inst) n False st))
                   (repoint_records org (mi_id inst) (mv_id (new_version env a (mi_id inst) n False st)) st1)))"
    using assms(1) unfolding upgradeAppOwnedModuleAdditivelyWithExecutor_def Let_def org_def
    apply (simp only: Ok_chain prod.inject sum.inject)
    apply (elim exE conjE disjE FalseE)
    apply blast
    done
  define new where "new = new_version env a (mi_id inst) n False st"
  note parsed = parseDeftModuleManifest_Ok[OF ok(1)] and parsed_v = parseDeftModuleManifest_Ok[OF ok(4)]
  have inst: "mi_id inst = i" using find_Some_set[OF ok(2)[unfolded find_installation_row_def]] by simp
  note v = find_Some_set[OF ok(3)[unfolded active_version_def]]
  have new_simps: "mv_org new = org" "mv_installation new = i" "\<not> mv_active new" "mv_manifest new = n"
    by (simp_all add: new_def new_version_def org_def inst)
  note ins = insert_version_effects[OF ok(6)[folded new_def], where env = env]
  have eff1: "module_effects env st st1" using ins(1) parsed new_simps by simp
  have vs1: "ms_versions st1 = ms_versions st @ [new]" using ins(2) parsed new_simps by simp
  have typed1: "store_typed env st1" by (rule effects_typed[OF eff1 assms(2)])
  let ?f = "\<lambda>r. if mr_org r = org \<and> mr_installation r = i then r\<lparr>mr_version := mv_id new\<rparr> else r"
  have "module_effects env st1 (activate_version org i (mv_id v) (mv_id new) (st1\<lparr>ms_records := map ?f (ms_records st1)\<rparr>))"
  proof (rule switch_effect[OF typed1])
    fix r :: module_row
    assume "row_typed env (mv_manifest v) r" and r: "mr_org r = org" "mr_installation r = i"
    then have "row_typed env n r"
      using additive_upgrade_keeps_typing[of "mv_manifest v" n] ok(5) parsed parsed_v
      by (auto simp: assertStrictlyAdditiveAppModuleUpgrade_def)
    then show "mr_version (?f r) = mv_id new \<and> row_typed env (mv_manifest new) (?f r)"
      using r by (simp add: new_simps row_typed_def)
  qed (use v vs1 new_simps in auto)
  then have "module_effects env st1 (activate_version org i (mv_id v) (mv_id new) (repoint_records org i (mv_id new) st1))"
    by (simp add: repoint_records_def)
  moreover have "module_effects env (update_installation org i (\<lambda>i. i\<lparr>mi_enabled := True\<rparr>) s) st'"
    if "s = activate_version org i (mv_id v) (mv_id new) (repoint_records org i (mv_id new) st1)" for s
    unfolding st' that new_def inst by (rule frame_effects) simp
  moreover have "module_effects env s (update_installation org i (\<lambda>i. i\<lparr>mi_enabled := True\<rparr>) s)" for s
    by (rule update_installation_effects) (simp add: installation_key_def)
  ultimately show ?thesis using eff1 by (meson rtranclp_trans)
qed

subsection \<open>The upgrade with revalidation\<close>

lemma revalidate_records_ids:
  "revalidate_records env w org m rs = Inr validated \<Longrightarrow> map fst validated = map mr_id rs"
  by (induction rs arbitrary: validated) (auto simp: res_bind_Ok_iff)

lemma revalidate_records_data:
  "revalidate_records env w org m rs = Inr validated \<Longrightarrow> (i, data, p) \<in> set validated \<Longrightarrow>
    \<exists>r \<in> set rs. mr_id r = i \<and> parseRecordData env m (mr_collection r) (mr_data r) = Inr data"
  by (induction rs arbitrary: validated) (auto simp: res_bind_Ok_iff)

definition validated_row ::
    "string \<Rightarrow> string \<Rightarrow> string \<Rightarrow> (string \<times> (string \<times> jsv) list \<times> search_projection option) list
      \<Rightarrow> module_row \<Rightarrow> module_row" where
  "validated_row org inst version validated = fold (\<lambda>(i, data, p) r.
     if mr_id r = i \<and> mr_org r = org \<and> mr_installation r = inst
     then projected p (r\<lparr>mr_data := data, mr_version := version\<rparr>) else r) validated"

lemma fold_map_rows: "fold (\<lambda>x. map (g x)) xs rs = map (fold g xs) rs"
  by (induction xs arbitrary: rs) (auto simp: comp_def)

lemma store_validated_map:
  "store_validated org inst version validated st
     = st\<lparr>ms_records := map (validated_row org inst version validated) (ms_records st)\<rparr>"
  unfolding store_validated_def validated_row_def fold_map_rows[symmetric] by (simp add: case_prod_beta')

lemma validated_row_keys [simp]:
  "row_key (validated_row org inst version validated r) = row_key r
   \<and> mr_revision (validated_row org inst version validated r) = mr_revision r"
  unfolding validated_row_def by (induction validated arbitrary: r) (auto split: prod.splits)

lemma validated_row_outside:
  "\<not> (mr_org r = org \<and> mr_installation r = inst) \<Longrightarrow> validated_row org inst version validated r = r"
  unfolding validated_row_def by (induction validated) (auto split: prod.splits)

lemma validated_row_inside:
  assumes "mr_org r = org" "mr_installation r = inst" "mr_id r \<in> fst ` set validated"
    and "\<And>data p. (mr_id r, data, p) \<in> set validated \<Longrightarrow> P data"
  shows "mr_version (validated_row org inst version validated r) = version
    \<and> P (mr_data (validated_row org inst version validated r))"
proof -
  have key: "mr_org r' = mr_org r \<and> mr_installation r' = mr_installation r \<and> mr_id r' = mr_id r"
    if "row_key r' = row_key r" for r' :: module_row using that by (simp add: row_key_def)
  have "(\<forall>(i, data, p) \<in> set vs. i = mr_id r \<longrightarrow> P data) \<Longrightarrow> row_key r' = row_key r
      \<Longrightarrow> mr_id r \<in> fst ` set vs \<or> (mr_version r' = version \<and> P (mr_data r'))
      \<Longrightarrow> mr_version (validated_row org inst version vs r') = version \<and> P (mr_data (validated_row org inst version vs r'))"
    for vs r'
  proof (induction vs arbitrary: r')
    case Nil
    then show ?case by (simp add: validated_row_def)
  next
    case (Cons x vs)
    obtain i data p where x: "x = (i, data, p)" by (cases x)
    let ?r = "if mr_id r' = i \<and> mr_org r' = org \<and> mr_installation r' = inst
        then projected p (r'\<lparr>mr_data := data, mr_version := version\<rparr>) else r'"
    have "validated_row org inst version (x # vs) r' = validated_row org inst version vs ?r"
      by (simp add: validated_row_def x)
    moreover have "row_key ?r = row_key r" using Cons.prems(2) by simp
    moreover have "mr_id r \<in> fst ` set vs \<or> (mr_version ?r = version \<and> P (mr_data ?r))"
      using Cons.prems key[OF Cons.prems(2)] assms(1,2) x by auto
    ultimately show ?case using Cons.IH[of ?r] Cons.prems(1) by simp
  qed
  from this[of validated r] show ?thesis using assms by auto
qed

lemma upgrade_effects:
  assumes "upgradeModuleInstallationToManifest env w a slug m source d st = Inr (out, st')" "store_typed env st"
  shows "module_effects env st st'"
proof -
  define org where "org = actor_org a"
  obtain inst v n validated st1 where
    ok: "parseDeftModuleManifest env m = Inr n" "findInstallation env a (BySlug slug) ModeRead True True st = Inr (inst, v)"
      "revalidate_records env w org n (installation_records org (mi_id inst) st) = Inr validated"
      "insert_version (new_version env a (mi_id inst) n False st) st = Inr st1"
    and st': "st' = insertAudit a ''module.update'' (mi_id inst) None None []
           (activate_version org (mi_id inst) (mv_id v) (mv_id (new_version env a (mi_id inst) n False st))
             (store_validated org (mi_id inst) (mv_id (new_version env a (mi_id inst) n False st)) validated st1))"
    using assms(1) unfolding upgradeModuleInstallationToManifest_def Let_def org_def
    by (simp only: Ok_chain prod.inject sum.inject) blast
  define new where "new = new_version env a (mi_id inst) n False st"
  define i where "i = mi_id inst"
  note parsed = parseDeftModuleManifest_Ok[OF ok(1)] and fi = findInstallation_Ok[OF ok(2)]
  have new_simps: "mv_org new = org" "mv_installation new = i" "\<not> mv_active new" "mv_manifest new = n"
    by (simp_all add: new_def new_version_def org_def i_def)
  note ins = insert_version_effects[OF ok(4)[folded new_def], where env = env]
  have eff1: "module_effects env st st1" using ins(1) parsed new_simps by simp
  have st1: "ms_versions st1 = ms_versions st @ [new]" "ms_records st1 = ms_records st"
    using ins(2,3) parsed new_simps by simp_all
  have typed1: "store_typed env st1" by (rule effects_typed[OF eff1 assms(2)])
  let ?f = "validated_row org i (mv_id new) validated"
  have "module_effects env st1 (activate_version org i (mv_id v) (mv_id new) (st1\<lparr>ms_records := map ?f (ms_records st1)\<rparr>))"
  proof (rule switch_effect[OF typed1])
    fix r :: module_row assume r: "r \<in> set (ms_records st1)" "mr_org r = org" "mr_installation r = i"
    have mem: "r \<in> set (installation_records org (mi_id inst) st)"
      using r st1 by (simp add: installation_records_def i_def)
    have "mr_id r \<in> fst ` set validated"
      using mem revalidate_records_ids[OF ok(3)] by (metis image_eqI set_map)
    moreover have "\<exists>c. find_collection n (mr_collection r) = Some c \<and> record_typed (me_url env) (mc_fields c) data
        \<and> record_fits (me_num env) data" if data: "(mr_id r, data, p) \<in> set validated" for data p
    proof -
      obtain s where s: "s \<in> set (installation_records org (mi_id inst) st)" "mr_id s = mr_id r"
        "parseRecordData env n (mr_collection s) (mr_data s) = Inr data"
        using revalidate_records_data[OF ok(3) data] by blast
      have "inj_on mr_id (set (ms_records st))" using assms(2) by (simp add: store_typed_def distinct_map)
      then have "s = r" using s(1,2) mem by (auto simp: installation_records_def dest: inj_onD)
      then show ?thesis using parseRecordData_typed[OF s(3)] parsed by simp
    qed
    ultimately have "mr_version (?f r) = mv_id new \<and> (\<exists>c. find_collection n (mr_collection r) = Some c
        \<and> record_typed (me_url env) (mc_fields c) (mr_data (?f r)) \<and> record_fits (me_num env) (mr_data (?f r)))"
      using r(2,3) by (intro validated_row_inside) auto
    moreover have "mr_collection (?f r) = mr_collection r"
      using validated_row_keys[of org i "mv_id new" validated r] by (simp add: row_key_def)
    ultimately show "mr_version (?f r) = mv_id new \<and> row_typed env (mv_manifest new) (?f r)"
      by (simp add: row_typed_def new_simps)
  qed (use fi st1 new_simps i_def org_def validated_row_outside in auto)
  moreover have "module_effects env s st'"
    if "s = activate_version org i (mv_id v) (mv_id new) (store_validated org i (mv_id new) validated st1)" for s
    unfolding st' that new_def i_def by (rule frame_effects) simp
  ultimately show ?thesis using eff1 by (simp add: store_validated_map)
qed

subsection \<open>Histories\<close>

theorem step_effects:
  assumes "module_step env st st'" "store_typed env st"
  shows "module_effects env st st'"
  using assms(1)
proof cases
  case step_install
  then show ?thesis by (rule install_effects)
next
  case step_additive
  then show ?thesis using assms(2) by (rule additive_effects)
next
  case step_upgrade
  then show ?thesis using assms(2) by (rule upgrade_effects)
next
  case step_settings
  then show ?thesis by (rule settings_effects)
next
  case step_create
  then show ?thesis using assms(2) by (rule create_effects)
next
  case step_update
  then show ?thesis using assms(2) by (rule update_effects)
next
  case step_archive
  then show ?thesis using assms(2) by (rule archive_effects)
next
  case step_restore
  then show ?thesis using assms(2) by (rule restore_effects)
next
  case step_merge
  then show ?thesis using assms(2) by (rule merge_effects)
next
  case step_import
  then show ?thesis using assms(2) by (rule import_effects)
qed

lemma steps_typed: "module_steps env st st' \<Longrightarrow> store_typed env st \<Longrightarrow> store_typed env st'"
  by (induction rule: rtranclp_induct) (auto intro: effects_typed step_effects)

lemma steps_le:
  assumes "module_steps env st st'" "store_typed env st"
  shows "store_le st st'"
  using assms
proof (induction rule: rtranclp_induct)
  case (step st1 st2)
  have "store_typed env st1" using steps_typed[OF step.hyps(1) step.prems] .
  then show ?case using step store_le_trans effects_le step_effects by blast
qed simp

lemma empty_store_typed: "store_typed env empty_store"
  by (simp add: store_typed_def empty_store_def one_active_def)

lemma reachable_typed: "reachable_store env st \<Longrightarrow> store_typed env st"
  unfolding reachable_store_def by (rule steps_typed[OF _ empty_store_typed])

text \<open>C10. In every store that the module operations can produce, by any sequence of installs, upgrades,
  creates, updates, archives, restores, merges and imports with any arguments, the data of every record,
  archived ones included, has the type that the active manifest of its installation gives its
  collection, and is within the size limit.\<close>

theorem stored_records_are_typed:
  assumes "reachable_store env st" "r \<in> set (ms_records st)"
  shows "\<exists>v \<in> set (ms_versions st). \<exists>c. mv_id v = mr_version r \<and> mv_org v = mr_org r
    \<and> mv_installation v = mr_installation r \<and> mv_active v
    \<and> find_collection (mv_manifest v) (mr_collection r) = Some c
    \<and> record_typed (me_url env) (mc_fields c) (mr_data r) \<and> record_fits (me_num env) (mr_data r)"
proof -
  have "row_current env (ms_versions st) r"
    using reachable_typed[OF assms(1)] assms(2) by (simp add: store_typed_def)
  then show ?thesis by (auto simp: row_current_def owns_def row_typed_def)
qed

subsection \<open>Updates\<close>

lemma insertMutationReceipt_keeps:
  assumes "insertMutationReceipt env a operation key d r v changed st = Inr st'"
  shows "ms_records st' = ms_records st" "ms_installations st' = ms_installations st"
  using assms by (auto simp: insertMutationReceipt_def Let_def split: if_splits)

lemma insertAudit_keeps [simp]:
  "ms_records (insertAudit a act e b f ch st) = ms_records st"
  "ms_installations (insertAudit a act e b f ch st) = ms_installations st"
  by (simp_all add: insertAudit_def)

lemma finish_mutation_keeps:
  assumes "finish_mutation env a operation action b key d r inst v changed st = Inr (out, st')"
  shows "ms_records st' = ms_records st" "ms_installations st' = ms_installations st"
  using assms by (auto simp: finish_mutation_def res_bind_Ok_iff insertMutationReceipt_keeps)

lemma finish_mutation_out:
  "finish_mutation env a operation action b key d r inst v changed st = Inr ((x, res), st') \<Longrightarrow> x = Some r"
  by (auto simp: finish_mutation_def res_bind_Ok_iff)

lemma updated_record:
  assumes "record_by_id i st = Some r" "mr_id (f r) = i"
  shows "f r \<in> set (ms_records (update_record i f st))"
  using record_by_id_Some[OF assms(1)] by (auto simp: update_record_def)

text \<open>A successful update, not answered from a receipt: the revision it replaced and the one it stored.\<close>

lemma update_revisions:
  assumes "updateModuleRecord env w a req i st = Inr ((Some r, res), st')"
  obtains cur where "record_by_id (ur_record_id req) st = Some cur" "mr_revision cur = ur_expected_revision req"
    "r \<in> set (ms_records st')" "mr_id r = ur_record_id req" "mr_revision r = ur_expected_revision req + 1"
  using assms
proof (cases rule: updateModuleRecord_Ok)
  case (change inst v current m data prep p st2 ii)
  let ?f = "\<lambda>r. bump (projected p (r\<lparr>mr_data := data, mr_version := mv_id v\<rparr>))"
  note cur = lock_active_record_Ok[OF change(3)]
  have id: "mr_id current = ur_record_id req" using record_by_id_Some[OF cur(1)] by simp
  have r: "r = ?f current" using finish_mutation_out[OF change(8)] by simp
  have "ms_records st' = ms_records (update_record (mr_id current) ?f st)"
    using finish_mutation_keeps(1)[OF change(8)] relations_core[OF change(7)] by (simp add: same_core_def)
  moreover have "?f current \<in> set (ms_records (update_record (ur_record_id req) ?f st))"
    by (rule updated_record[OF cur(1)]) (simp add: id)
  ultimately have "r \<in> set (ms_records st')" using r id by simp
  then show ?thesis using that[OF cur(1) change(4)] r id change(4) by simp
qed simp

text \<open>C11. No lost update: after an update of a record has been committed, every later update of the same
  record that is committed expects a newer revision.  An update prepared from a state that another
  update has changed since is refused, whatever happened in between.\<close>

theorem no_lost_update:
  assumes "reachable_store env st"
    and "updateModuleRecord env w a req i st = Inr ((Some r, res), st1)"
    and "module_steps env st1 st2"
    and "updateModuleRecord env w' a' req' i' st2 = Inr ((Some r', res'), st3)"
    and "ur_record_id req' = ur_record_id req"
  shows "ur_expected_revision req < ur_expected_revision req'"
proof -
  have "module_steps env st st1" by (rule r_into_rtranclp, rule step_update, rule assms(2))
  then have typed1: "store_typed env st1" by (rule steps_typed[OF _ reachable_typed[OF assms(1)]])
  have typed2: "store_typed env st2" by (rule steps_typed[OF assms(3) typed1])
  obtain "r \<in> set (ms_records st1)" "mr_id r = ur_record_id req" "mr_revision r = ur_expected_revision req + 1"
    using update_revisions[OF assms(2)] .
  moreover have "rows_le (ms_records st1) (ms_records st2)"
    using steps_le[OF assms(3) typed1] by (simp add: store_le_def)
  ultimately obtain s :: module_row where s: "s \<in> set (ms_records st2)" "row_key s = row_key r" "mr_revision r \<le> mr_revision s"
    using rows_leD by blast
  have "record_by_id (ur_record_id req) st2 = Some s"
    using record_by_id_unique[OF typed2 s(1)] s(2) \<open>mr_id r = ur_record_id req\<close> by (simp add: row_key_def)
  moreover obtain cur where "record_by_id (ur_record_id req') st2 = Some cur" "mr_revision cur = ur_expected_revision req'"
    using update_revisions[OF assms(4)] .
  ultimately show ?thesis using s(3) assms(5) \<open>mr_revision r = _\<close> by simp
qed

subsection \<open>Repeated requests\<close>

text \<open>A receipt of the store answers a request: what the stored answer says.\<close>

definition answer_of :: "receipt_row \<Rightarrow> module_row \<Rightarrow> installation_row \<Rightarrow> mutation_result" where
  "answer_of q r i = \<lparr>mres_resource = ''module_record:'' @ mu_record q, mres_record = mu_record q,
     mres_installation = mu_installation q, mres_module_id = mi_module_id i, mres_collection = mr_collection r,
     mres_manifest_digest = mu_manifest_digest q, mres_revision = mu_revision q, mres_archived = mu_archived q,
     mres_changed = mu_changed q, mres_replayed = True\<rparr>"

definition answered ::
    "module_env \<Rightarrow> module_actor \<Rightarrow> mutation_operation \<Rightarrow> string \<Rightarrow> string \<Rightarrow> module_store \<Rightarrow> mutation_result \<Rightarrow> bool" where
  "answered env a operation k d st res \<longleftrightarrow> (\<exists>q r i. q \<in> set (ms_receipts st) \<and> receipt_matches env a operation k q
     \<and> mu_digest q = d \<and> r \<in> set (ms_records st) \<and> mr_id r = mu_record q \<and> i \<in> set (ms_installations st)
     \<and> mi_id i = mu_installation q \<and> res\<lparr>mres_replayed := True\<rparr> = answer_of q r i)"

lemma answered_mono:
  assumes "answered env a operation k d st res" "store_le st st'"
  shows "answered env a operation k d st' res"
proof -
  obtain q r i where a: "q \<in> set (ms_receipts st)" "receipt_matches env a operation k q" "mu_digest q = d"
    "r \<in> set (ms_records st)" "mr_id r = mu_record q" "i \<in> set (ms_installations st)" "mi_id i = mu_installation q"
    "res\<lparr>mres_replayed := True\<rparr> = answer_of q r i"
    using assms(1) unfolding answered_def by blast
  have le: "rows_le (ms_records st) (ms_records st')" "prefix (ms_receipts st) (ms_receipts st')"
    "installation_key ` set (ms_installations st) \<subseteq> installation_key ` set (ms_installations st')"
    using assms(2) by (auto simp: store_le_def)
  obtain r' :: module_row where r': "r' \<in> set (ms_records st')" "row_key r' = row_key r"
    using rows_leD[OF le(1) a(4)] .
  obtain i' where i': "i' \<in> set (ms_installations st')" "installation_key i' = installation_key i"
    using le(3) a(6) by force
  have "q \<in> set (ms_receipts st')" using le(2) a(1) by (auto dest: set_mono_prefix)
  moreover have "answer_of q r' i' = answer_of q r i" "mr_id r' = mr_id r" "mi_id i' = mi_id i"
    using r'(2) i'(2) by (simp_all add: answer_of_def row_key_def installation_key_def)
  ultimately show ?thesis using a r'(1) i'(1) unfolding answered_def by (intro exI[of _ q] exI[of _ r'] exI[of _ i']) auto
qed

lemma replay_answer:
  assumes "store_typed env st" "answered env a operation k d st res"
    and "findMutationReplay env a operation k d expected st = Inr x"
  shows "x = Some (res\<lparr>mres_replayed := True\<rparr>)"
proof -
  obtain q r i where a: "q \<in> set (ms_receipts st)" "receipt_matches env a operation k q"
    "r \<in> set (ms_records st)" "mr_id r = mu_record q" "i \<in> set (ms_installations st)" "mi_id i = mu_installation q"
    "res\<lparr>mres_replayed := True\<rparr> = answer_of q r i"
    using assms(2) unfolding answered_def by blast
  have distinct: "inj_on receipt_ident (set (ms_receipts st))" "inj_on mi_id (set (ms_installations st))"
    using assms(1) by (simp_all add: store_typed_def distinct_map)
  have "List.find (receipt_matches env a operation k) (ms_receipts st) = Some q"
  proof (cases "List.find (receipt_matches env a operation k) (ms_receipts st)")
    case None
    then show ?thesis using a(1,2) by (simp add: find_None_set)
  next
    case (Some q')
    note q' = find_Some_set[OF Some]
    then have "receipt_ident q' = receipt_ident q" using a(2) by (simp add: receipt_matches_def receipt_ident_def)
    then show ?thesis using Some q' a(1) distinct(1) by (auto dest: inj_onD)
  qed
  moreover have "record_by_id (mu_record q) st = Some r" by (rule record_by_id_unique[OF assms(1) a(3,4)])
  ultimately obtain inst v res' where
    f: "findInstallation env a (ByInstallation (mu_installation q)) ModeWrite False True st = Inr (inst, v)"
    and fmt: "formatModuleRecordResourceId (mr_id r) = Inr res'" and own: "mr_installation r = mu_installation q"
    and x: "x = Some \<lparr>mres_resource = res', mres_record = mr_id r, mres_installation = mr_installation r,
        mres_module_id = mi_module_id inst, mres_collection = mr_collection r,
        mres_manifest_digest = mu_manifest_digest q, mres_revision = mu_revision q,
        mres_archived = mu_archived q, mres_changed = mu_changed q, mres_replayed = True\<rparr>"
    using assms(3) by (auto simp: findMutationReplay_def res_bind_Ok_iff split: if_splits)
  note fi = findInstallation_Ok[OF f]
  have "inst = i" by (rule inj_onD[OF distinct(2) _ fi(1) a(5)]) (use fi(3) a(6) in simp)
  moreover have "res' = ''module_record:'' @ mr_id r" using fmt by (auto simp: formatModuleRecordResourceId_def split: if_splits)
  ultimately show ?thesis unfolding x a(7) by (simp add: answer_of_def a(4) own)
qed

lemma replay_answered:
  assumes "findMutationReplay env a operation k d expected st = Inr (Some res)"
  shows "answered env a operation k d st res"
proof -
  obtain q where q: "List.find (receipt_matches env a operation k) (ms_receipts st) = Some q"
    using assms by (cases "List.find (receipt_matches env a operation k) (ms_receipts st)")
      (auto simp: findMutationReplay_def)
  obtain r where r: "record_by_id (mu_record q) st = Some r"
    using assms q by (cases "record_by_id (mu_record q) st") (auto simp: findMutationReplay_def res_bind_Ok_iff)
  obtain inst v res' where
    f: "findInstallation env a (ByInstallation (mu_installation q)) ModeWrite False True st = Inr (inst, v)"
    and fmt: "formatModuleRecordResourceId (mr_id r) = Inr res'" and own: "mr_installation r = mu_installation q"
    and d: "mu_digest q = d"
    and res: "res = \<lparr>mres_resource = res', mres_record = mr_id r, mres_installation = mr_installation r,
        mres_module_id = mi_module_id inst, mres_collection = mr_collection r,
        mres_manifest_digest = mu_manifest_digest q, mres_revision = mu_revision q,
        mres_archived = mu_archived q, mres_changed = mu_changed q, mres_replayed = True\<rparr>"
    using assms q r by (auto simp: findMutationReplay_def res_bind_Ok_iff split: if_splits)
  note fi = findInstallation_Ok[OF f] and rr = record_by_id_Some[OF r] and qq = find_Some_set[OF q]
  have "res' = ''module_record:'' @ mr_id r" using fmt by (auto simp: formatModuleRecordResourceId_def split: if_splits)
  then have "res\<lparr>mres_replayed := True\<rparr> = answer_of q r inst" using rr by (simp add: res answer_of_def own)
  then show ?thesis using qq d rr fi(1,3) unfolding answered_def by (intro exI[of _ q] exI[of _ r] exI[of _ inst]) auto
qed

lemma finish_answered:
  assumes "finish_mutation env a operation action b (Some k) (Some d) r inst v changed st = Inr ((x, res), st')"
    and "k \<noteq> []" "d \<noteq> []" "r \<in> set (ms_records st)" "inst \<in> set (ms_installations st)" "mi_id inst = mr_installation r"
  shows "answered env a operation k d st' res"
proof -
  let ?q = "\<lparr>mu_org = actor_org a, mu_installation = mr_installation r, mu_action = actor_action a,
       mu_actor = actorMetadata a, mu_operation = operation, mu_key = moduleIdempotencyDigest env a k, mu_digest = d,
       mu_record = mr_id r, mu_revision = mr_revision r, mu_manifest_digest = mv_digest v, mu_archived = mr_deleted r,
       mu_changed = sorted_names changed\<rparr>"
  obtain st1 where res: "toModuleMutationResult r inst v False changed = Inr res"
    and st1: "insertMutationReceipt env a operation (Some k) (Some d) r v changed st1 = Inr st'"
    using assms(1) by (auto simp: finish_mutation_def res_bind_Ok_iff)
  have q: "?q \<in> set (ms_receipts st')"
    using st1 assms(2,3) by (auto simp: insertMutationReceipt_def Let_def split: if_splits)
  have "res\<lparr>mres_replayed := True\<rparr> = answer_of ?q r inst"
    using res assms(6) by (auto simp: toModuleMutationResult_def res_bind_Ok_iff answer_of_def
        formatModuleRecordResourceId_def split: if_splits)
  moreover have "receipt_matches env a operation k ?q" by (simp add: receipt_matches_def)
  moreover have "r \<in> set (ms_records st')" "inst \<in> set (ms_installations st')"
    using assms(4,5) finish_mutation_keeps[OF assms(1)] by simp_all
  ultimately show ?thesis using q assms(6) unfolding answered_def
    by (intro exI[of _ ?q] exI[of _ r] exI[of _ inst]) simp
qed

lemma digest_not_Nil [simp]: "moduleMutationInputDigest env operation v \<noteq> []"
  by (simp add: moduleMutationInputDigest_def moduleValueDigest_def Let_def)

lemma insert_record_keeps:
  assumes "insert_record r st = Inr st'"
  shows "r \<in> set (ms_records st')" "ms_installations st' = ms_installations st"
  using assms by (auto simp: insert_record_def split: if_splits)

lemma create_answered:
  assumes "createModuleRecord env w a q st = Inr ((x, res), st')" "cr_idempotency_key q \<noteq> []"
  shows "answered env a MutCreate (cr_idempotency_key q) (moduleMutationInputDigest env MutCreate (create_json q)) st' res"
  using assms(1)[unfolded createModuleRecord_def]
proof (cases rule: createModuleRecordWithExecutor_Ok)
  case (replay res')
  then show ?thesis using replay_answered by simp
next
  case (create inst v m data p prep st1 st2)
  note fi = findInstallation_Ok[OF create(2)] and ins = insert_record_keeps[OF create(5)]
    and core = relations_core[OF create(6)]
  show ?thesis
    by (rule finish_answered[OF create(7) assms(2)]) (use fi ins core in \<open>simp_all add: same_core_def\<close>)
qed

lemma replay_of_key: "k \<noteq> [] \<Longrightarrow> replay_of env a operation (Some k) d i st = findMutationReplay env a operation k d i st"
  by (simp add: replay_of_def given_key_def)

lemma update_keeps:
  assumes "record_by_id i st = Some r" "mr_id (f r) = mr_id r" "same_core (update_record (mr_id r) f st) st'"
  shows "f r \<in> set (ms_records st')" "ms_installations st' = ms_installations st"
proof -
  have "mr_id r = i" using record_by_id_Some[OF assms(1)] by simp
  then have "f r \<in> set (ms_records (update_record (mr_id r) f st))" using updated_record[of i st r f] assms(1,2) by simp
  then show "f r \<in> set (ms_records st')" "ms_installations st' = ms_installations st"
    using assms(3) by (simp_all add: same_core_def update_record_def)
qed

lemma row_key_installation: "row_key r = row_key s \<Longrightarrow> mr_installation r = mr_installation s \<and> mr_id r = mr_id s"
  by (simp add: row_key_def)

lemma update_answered:
  assumes "updateModuleRecord env w a q i st = Inr ((x, res), st')" "ur_idempotency_key q = Some k" "k \<noteq> []"
  shows "answered env a MutUpdate k (moduleMutationInputDigest env MutUpdate (update_json q)) st' res"
  using assms(1)
proof (cases rule: updateModuleRecord_Ok)
  case (replay res')
  then show ?thesis using replay_answered assms(2,3) by (simp add: replay_of_key)
next
  case (change inst v current m data prep p st2 ii)
  let ?f = "\<lambda>r. bump (projected p (r\<lparr>mr_data := data, mr_version := mv_id v\<rparr>))"
  note fi = findInstallation_Ok[OF change(2)] and cur = lock_active_record_Ok[OF change(3)]
    and core = relations_core[OF change(7)]
  have "row_key (?f current) = row_key current" by simp
  note own = row_key_installation[OF this] and kept = update_keeps[OF cur(1) _ core]
  show ?thesis
    by (rule finish_answered[OF change(8)[unfolded assms(2)] assms(3)]) (use fi cur own kept in simp_all)
qed

lemma archive_answered:
  assumes "archiveModuleRecord env w a q i st = Inr ((x, res), st')" "ar_idempotency_key q = Some k" "k \<noteq> []"
  shows "answered env a MutArchive k (moduleMutationInputDigest env MutArchive (archive_json q)) st' res"
  using assms(1)
proof (cases rule: archiveModuleRecord_Ok)
  case (replay res')
  then show ?thesis using replay_answered assms(2,3) by (simp add: replay_of_key)
next
  case (change inst v current ii)
  let ?f = "\<lambda>r. bump (r\<lparr>mr_deleted := True\<rparr>)"
  note fi = findInstallation_Ok[OF change(2)] and cur = lock_active_record_Ok[OF change(3)]
  have "row_key (?f current) = row_key current" by simp
  note own = row_key_installation[OF this] and kept = update_keeps[OF cur(1), of ?f, OF _ same_core_refl]
  show ?thesis
    by (rule finish_answered[OF change(5)[unfolded assms(2)] assms(3)]) (use fi cur own kept in simp_all)
qed

text \<open>The operation, receipt digest and key of a proposed mutation.\<close>

fun proposed_digest :: "module_env \<Rightarrow> proposed_mutation \<Rightarrow> string" where
  "proposed_digest env (ProposedCreate q) = moduleMutationInputDigest env MutCreate (create_json q)"
| "proposed_digest env (ProposedUpdate q) = moduleMutationInputDigest env MutUpdate (update_json q)"
| "proposed_digest env (ProposedArchive q) = moduleMutationInputDigest env MutArchive (archive_json q)"

fun proposed_operation :: "proposed_mutation \<Rightarrow> mutation_operation" where
  "proposed_operation (ProposedCreate q) = MutCreate"
| "proposed_operation (ProposedUpdate q) = MutUpdate"
| "proposed_operation (ProposedArchive q) = MutArchive"

lemma parsed_outcome_Ok:
  "parsed_outcome st r = (Inr res, st') \<Longrightarrow> \<exists>x. r = Inr ((x, res), st')"
  by (auto simp: parsed_outcome_def split: sum.splits prod.splits if_splits)

lemma execute_step:
  assumes "executeModuleOperationForActor env w a p st = (Inr res, st')"
  shows "module_step env st st'"
proof (cases p)
  case (ProposedCreate q)
  then obtain x where "createModuleRecord env w a q st = Inr ((x, res), st')"
    using assms parsed_outcome_Ok by (fastforce split: if_splits)
  then show ?thesis unfolding createModuleRecord_def by (rule step_create)
next
  case (ProposedUpdate q)
  then obtain x where "updateModuleRecord env w a q None st = Inr ((x, res), st')"
    using assms parsed_outcome_Ok by (fastforce split: if_splits)
  then show ?thesis by (rule step_update)
next
  case (ProposedArchive q)
  then obtain x where "archiveModuleRecord env w a q None st = Inr ((x, res), st')"
    using assms parsed_outcome_Ok by (fastforce split: if_splits)
  then show ?thesis by (rule step_archive)
qed

lemma idempotency_key_not_Nil: "ModuleIdempotencyKeySchema k \<Longrightarrow> k \<noteq> []"
  by (auto simp: ModuleIdempotencyKeySchema_def)

lemma execute_answered:
  assumes "executeModuleOperationForActor env w a p st = (Inr res, st')" "proposed_key p = Some k"
  shows "answered env a (proposed_operation p) k (proposed_digest env p) st' res \<and> k \<noteq> []"
proof (cases p)
  case (ProposedCreate q)
  then obtain x where "createModuleRecord env w a q st = Inr ((x, res), st')" "ModuleRecordCreateRequestSchema q"
    using assms parsed_outcome_Ok by (fastforce split: if_splits)
  then show ?thesis using create_answered assms(2) ProposedCreate idempotency_key_not_Nil
    by (auto simp: ModuleRecordCreateRequestSchema_def)
next
  case (ProposedUpdate q)
  then obtain x where "updateModuleRecord env w a q None st = Inr ((x, res), st')" "ModuleRecordUpdateRequestSchema q"
    using assms parsed_outcome_Ok by (fastforce split: if_splits)
  then show ?thesis using update_answered assms(2) ProposedUpdate idempotency_key_not_Nil
    by (auto simp: ModuleRecordUpdateRequestSchema_def opt_ok_def)
next
  case (ProposedArchive q)
  then obtain x where "archiveModuleRecord env w a q None st = Inr ((x, res), st')" "ModuleRecordArchiveRequestSchema q"
    using assms parsed_outcome_Ok by (fastforce split: if_splits)
  then show ?thesis using archive_answered assms(2) ProposedArchive idempotency_key_not_Nil
    by (auto simp: ModuleRecordArchiveRequestSchema_def opt_ok_def)
qed

lemma parsed_outcome_cases:
  assumes "parsed_outcome st r = (out, st')" "\<And>x res0 st0. r = Inr ((x, res0), st0) \<Longrightarrow> res0 = res \<and> st0 = st"
  shows "st' = st \<and> (\<forall>res'. out = Inr res' \<longrightarrow> res' = res)"
proof (cases r)
  case (Inr y)
  obtain x res0 st0 where y: "y = ((x, res0), st0)" by (metis prod.exhaust)
  then show ?thesis using Inr assms(2)[of x res0 st0] assms(1) by (auto simp: parsed_outcome_def split: if_splits)
qed (use assms(1) in \<open>auto simp: parsed_outcome_def\<close>)

lemma execute_replays:
  assumes "store_typed env st" "answered env a (proposed_operation p) k (proposed_digest env p) st res"
    and "proposed_key p = Some k" "k \<noteq> []" "executeModuleOperationForActor env w a p st = (out, st')"
  shows "st' = st \<and> (\<forall>res'. out = Inr res' \<longrightarrow> res' = res\<lparr>mres_replayed := True\<rparr>)"
proof (cases p)
  case (ProposedCreate q)
  have "res0 = res\<lparr>mres_replayed := True\<rparr> \<and> st0 = st" if "createModuleRecord env w a q st = Inr ((x, res0), st0)" for x res0 st0
    using that unfolding createModuleRecord_def
    by (cases rule: createModuleRecordWithExecutor_Ok)
      (use assms(1-4) ProposedCreate in \<open>auto dest: replay_answer\<close>)
  note again = this
  show ?thesis using again parsed_outcome_cases[of st "createModuleRecord env w a q st" out st' "res\<lparr>mres_replayed := True\<rparr>"] assms(5) ProposedCreate
    by (fastforce split: if_splits)
next
  case (ProposedUpdate q)
  have "res0 = res\<lparr>mres_replayed := True\<rparr> \<and> st0 = st" if "updateModuleRecord env w a q None st = Inr ((x, res0), st0)" for x res0 st0
    using that
    by (cases rule: updateModuleRecord_Ok)
      (use assms(1-4) ProposedUpdate in \<open>auto simp: replay_of_key dest: replay_answer\<close>)
  note again = this
  show ?thesis using again parsed_outcome_cases[of st "updateModuleRecord env w a q None st" out st' "res\<lparr>mres_replayed := True\<rparr>"] assms(5) ProposedUpdate
    by (auto split: if_splits)
next
  case (ProposedArchive q)
  have "res0 = res\<lparr>mres_replayed := True\<rparr> \<and> st0 = st" if "archiveModuleRecord env w a q None st = Inr ((x, res0), st0)" for x res0 st0
    using that
    by (cases rule: archiveModuleRecord_Ok)
      (use assms(1-4) ProposedArchive in \<open>auto simp: replay_of_key dest: replay_answer\<close>)
  note again = this
  show ?thesis using again parsed_outcome_cases[of st "archiveModuleRecord env w a q None st" out st' "res\<lparr>mres_replayed := True\<rparr>"] assms(5) ProposedArchive
    by (auto split: if_splits)
qed

text \<open>C12. A create, update or archive that is repeated with the same key after it has succeeded changes
  nothing, whatever other operations were committed in between; and unless it is refused, it gives the
  same answer as the first time, marked as replayed.\<close>

theorem repeated_operation_changes_nothing:
  assumes "reachable_store env st" "executeModuleOperationForActor env w a p st = (Inr res, st1)"
    and "proposed_key p \<noteq> None" "module_steps env st1 st2"
    and "executeModuleOperationForActor env w' a p st2 = (out, st3)"
  shows "st3 = st2 \<and> (\<forall>res'. out = Inr res' \<longrightarrow> res' = res\<lparr>mres_replayed := True\<rparr>)"
proof -
  obtain k where k: "proposed_key p = Some k" using assms(3) by auto
  have "module_steps env st st1" by (rule r_into_rtranclp, rule execute_step, rule assms(2))
  then have typed1: "store_typed env st1" by (rule steps_typed[OF _ reachable_typed[OF assms(1)]])
  have typed2: "store_typed env st2" by (rule steps_typed[OF assms(4) typed1])
  have "answered env a (proposed_operation p) k (proposed_digest env p) st1 res" "k \<noteq> []"
    using execute_answered[OF assms(2) k] by auto
  then have "answered env a (proposed_operation p) k (proposed_digest env p) st2 res" "k \<noteq> []"
    using answered_mono[OF _ steps_le[OF assms(4) typed1]] by auto
  then show ?thesis using execute_replays[OF typed2 _ k _ assms(5)] by blast
qed

end
