(* ===== verification/ModuleMergeProperties.thy ===== *)
theory ModuleMergeProperties
  imports ModuleMerge
begin

text \<open>
  What the edge changes of a merge plan do.  Applied to the current edges they give exactly the links
  the merge is meant to leave: every other record keeps its links, in its order, with the absorbed
  record replaced by the surviving one, and the surviving record has the selected relations.
\<close>

subsection \<open>Specification\<close>

text \<open>The links after the removals, the repositioning and the insertions of a plan.\<close>

definition apply_changes ::
    "string \<Rightarrow> merge_edge list \<Rightarrow> string list \<Rightarrow> desired_edge list \<Rightarrow> (string \<times> nat) list \<Rightarrow> desired_edge list" where
  "apply_changes source edges remove add reposition =
     map (\<lambda>e. \<lparr>de_source = pe_source e, de_target = pe_target e, de_field = pe_field e,
          de_position = (case map_of reposition (pe_id e) of Some n \<Rightarrow> n | None \<Rightarrow> pe_position e)\<rparr>)
       (filter (\<lambda>e. pe_id e \<notin> set remove) (active_current source edges)) @ add"

definition apply_plan :: "string \<Rightarrow> merge_edge list \<Rightarrow> merge_plan \<Rightarrow> desired_edge list" where
  "apply_plan source edges p = apply_changes source edges (mp_remove p) (mp_add p) (mp_reposition p)"

text \<open>
  A link of another record: one of its edges with the absorbed record renamed; where two edges become
  one link, the earlier position counts.
\<close>

definition renamed_links :: "string \<Rightarrow> string \<Rightarrow> merge_edge list \<Rightarrow> desired_edge set" where
  "renamed_links source target edges =
     {d. \<exists>e \<in> set (incoming_edges source target edges). d = mapped_edge source target e
        \<and> (\<forall>q \<in> set (incoming_edges source target edges).
             desired_key (mapped_edge source target q) = desired_key d \<longrightarrow> pe_position e \<le> pe_position q)}"

definition selected_links :: "string \<Rightarrow> (string \<times> string list) list \<Rightarrow> desired_edge set" where
  "selected_links target selected =
     {d. de_source d = target \<and> (\<exists>ids. map_of selected (de_field d) = Some ids
        \<and> de_position d < length ids \<and> ids ! de_position d = de_target d)}"

subsection \<open>Association lists\<close>

lemma map_of_js_put: "map_of (js_put k v ps) = (map_of ps)(k \<mapsto> v)"
  by (induction k v ps rule: js_put.induct) auto

lemma set_js_put_keys: "fst ` set (js_put k v ps) = insert k (fst ` set ps)"
  by (induction k v ps rule: js_put.induct) auto

lemma distinct_js_put: "distinct (map fst ps) \<Longrightarrow> distinct (map fst (js_put k v ps))"
proof (induction k v ps rule: js_put.induct)
  case (2 k v k' v' ps)
  then show ?case using set_js_put_keys[of k v ps] by auto
qed simp

lemma distinct_fold_put: "distinct (map fst m) \<Longrightarrow> distinct (map fst (fold (\<lambda>d m. js_put (g d) d m) ds m))"
  by (induction ds arbitrary: m) (auto simp: distinct_js_put)

lemma distinct_fold_keep_first: "distinct (map fst m) \<Longrightarrow> distinct (map fst (fold keep_first ds m))"
  by (induction ds arbitrary: m) (auto simp: keep_first_def distinct_js_put split: option.splits)

lemma desired_edge_eq_iff: "d = d' \<longleftrightarrow> desired_key d = desired_key d' \<and> de_position d = de_position d'"
  for d d' :: desired_edge
  by (auto simp: desired_key_def)

subsection \<open>The desired edges\<close>

text \<open>What the fold over the incoming edges keeps: for every key the edge with the least position.\<close>

definition least_of :: "desired_edge list \<Rightarrow> edge_key \<Rightarrow> desired_edge \<Rightarrow> bool" where
  "least_of ds k d \<longleftrightarrow> d \<in> set ds \<and> desired_key d = k
     \<and> (\<forall>q \<in> set ds. desired_key q = k \<longrightarrow> de_position d \<le> de_position q)"

lemma map_of_keep_first:
  "map_of (keep_first x m) k = (if k = desired_key x
     then (case map_of m k of None \<Rightarrow> Some x
           | Some prior \<Rightarrow> Some (if de_position x < de_position prior then x else prior))
     else map_of m k)"
  by (auto simp: keep_first_def map_of_js_put split: option.splits)

lemma least_of_unique: "least_of ds k d \<Longrightarrow> least_of ds k d' \<Longrightarrow> d = d'"
  unfolding least_of_def desired_edge_eq_iff[of d d'] by (metis order_antisym)

lemma least_of_exists: "q \<in> set ds \<Longrightarrow> desired_key q = k \<Longrightarrow> \<exists>d. least_of ds k d"
proof -
  assume q: "q \<in> set ds" "desired_key q = k"
  let ?P = "\<lambda>p. p \<in> set ds \<and> desired_key p = k"
  have "?P q" using q by simp
  then have "?P (arg_min de_position ?P) \<and> (\<forall>y. ?P y \<longrightarrow> de_position (arg_min de_position ?P) \<le> de_position y)"
    by (rule arg_min_nat_lemma)
  then show ?thesis by (auto simp: least_of_def)
qed

lemma least_of_other: "k \<noteq> desired_key x \<Longrightarrow> least_of (ds @ [x]) k d \<longleftrightarrow> least_of ds k d"
  by (auto simp: least_of_def)

lemma least_of_first: "\<forall>d. \<not> least_of ds (desired_key x) d \<Longrightarrow> least_of (ds @ [x]) (desired_key x) x"
proof -
  assume "\<forall>d. \<not> least_of ds (desired_key x) d"
  then have "\<forall>q \<in> set ds. desired_key q \<noteq> desired_key x" using least_of_exists by blast
  then show ?thesis by (auto simp: least_of_def)
qed

lemma least_of_better:
  "least_of ds (desired_key x) p \<Longrightarrow> least_of (ds @ [x]) (desired_key x) (if de_position x < de_position p then x else p)"
  by (fastforce simp: least_of_def)

lemma fold_keep_first:
  "map_of (fold keep_first ds []) k = Some d \<longleftrightarrow> least_of ds k d"
proof (induction ds arbitrary: k d rule: rev_induct)
  case (snoc x ds)
  let ?m = "fold keep_first ds []"
  show ?case
  proof (cases "k = desired_key x")
    case True
    show ?thesis
    proof (cases "map_of ?m k")
      case None
      then have "least_of (ds @ [x]) k x" using snoc True by (metis least_of_first option.distinct(1))
      then show ?thesis using None True by (auto simp: map_of_keep_first dest: least_of_unique)
    next
      case (Some prior)
      then have "least_of (ds @ [x]) k (if de_position x < de_position prior then x else prior)"
        using snoc True least_of_better by metis
      then show ?thesis using Some True by (auto simp: map_of_keep_first dest: least_of_unique)
    qed
  next
    case False
    then show ?thesis using snoc by (simp add: map_of_keep_first least_of_other)
  qed
qed (simp add: least_of_def)

lemma map_of_fold_put:
  "map_of (fold (\<lambda>d m. js_put (desired_key d) d m) ds m) k
     = (case List.find (\<lambda>d. desired_key d = k) (rev ds) of Some d \<Rightarrow> Some d | None \<Rightarrow> map_of m k)"
  by (induction ds arbitrary: m rule: rev_induct) (auto simp: map_of_js_put)

lemma own_edge_iff:
  "d \<in> set (own_edges target (f, ids)) \<longleftrightarrow> de_source d = target \<and> de_field d = f
     \<and> de_position d < length ids \<and> ids ! de_position d = de_target d"
proof -
  have "d \<in> set (own_edges target (f, ids)) \<longleftrightarrow>
      (\<exists>n < length ids. d = \<lparr>de_source = target, de_target = ids ! n, de_field = f, de_position = n\<rparr>)"
    by (auto simp: own_edges_def in_set_enumerate_eq image_iff split: prod.splits)
  then show ?thesis by (cases d) auto
qed

lemma own_edges_iff:
  assumes "distinct (map fst selected)"
  shows "d \<in> set (concat (map (own_edges target) selected)) \<longleftrightarrow> d \<in> selected_links target selected"
proof
  assume "d \<in> set (concat (map (own_edges target) selected))"
  then obtain f ids where "(f, ids) \<in> set selected" "d \<in> set (own_edges target (f, ids))" by auto
  then show "d \<in> selected_links target selected"
    using assms by (auto simp: own_edge_iff selected_links_def)
next
  assume "d \<in> selected_links target selected"
  then obtain ids where ids: "map_of selected (de_field d) = Some ids" "de_source d = target"
    "de_position d < length ids" "ids ! de_position d = de_target d"
    by (auto simp: selected_links_def)
  then have "d \<in> set (own_edges target (de_field d, ids))" by (simp add: own_edge_iff)
  then show "d \<in> set (concat (map (own_edges target) selected))"
    using ids(1) by (auto dest!: map_of_SomeD)
qed

lemma selected_link_key:
  assumes "d \<in> selected_links target selected" "d' \<in> selected_links target selected"
    and "desired_key d = desired_key d'" "\<forall>ids \<in> snd ` set selected. distinct ids"
  shows "d = d'"
proof -
  from assms obtain ids where "map_of selected (de_field d) = Some ids"
    "de_position d < length ids" "de_position d' < length ids"
    "ids ! de_position d = ids ! de_position d'"
    by (auto simp: selected_links_def desired_key_def)
  moreover from this assms(4) have "distinct ids" by (force dest: map_of_SomeD)
  ultimately show ?thesis using assms(3) by (simp add: desired_edge_eq_iff nth_eq_iff_index_eq)
qed

lemma desired_edges_iff:
  assumes "distinct (map fst selected)" "\<forall>ids \<in> snd ` set selected. distinct ids"
  shows "map_of (desired_edges source target edges selected) k = Some d
    \<longleftrightarrow> desired_key d = k \<and> d \<in> selected_links target selected \<union> renamed_links source target edges"
proof -
  let ?own = "concat (map (own_edges target) selected)"
  let ?in = "map (mapped_edge source target) (incoming_edges source target edges)"
  have renamed: "least_of ?in k d \<longleftrightarrow> desired_key d = k \<and> d \<in> renamed_links source target edges"
    by (auto simp: least_of_def renamed_links_def mapped_edge_def)
  have apart: "de_source d \<noteq> target" if "d \<in> renamed_links source target edges" for d
    using that by (auto simp: renamed_links_def incoming_edges_def mapped_edge_def)
  show ?thesis
  proof (cases "List.find (\<lambda>d. desired_key d = k) (rev ?own)")
    case None
    then have "d \<notin> selected_links target selected \<or> desired_key d \<noteq> k"
      using own_edges_iff[OF assms(1), of d target] by (auto simp: find_None_set)
    then show ?thesis using None renamed
      by (auto simp: desired_edges_def map_of_fold_put fold_keep_first)
  next
    case (Some o')
    from find_Some_set[OF Some] have o': "o' \<in> selected_links target selected" "desired_key o' = k"
      using own_edges_iff[OF assms(1), of o' target] by auto
    moreover have "d = o'" if "desired_key d = k" "d \<in> selected_links target selected"
      using selected_link_key[OF that(2) o'(1) _ assms(2)] that o' by simp
    moreover have "d \<notin> renamed_links source target edges" if "desired_key d = k"
      using apart[of d] o' that by (auto simp: selected_links_def desired_key_def)
    ultimately show ?thesis using Some by (auto simp: desired_edges_def map_of_fold_put)
  qed
qed

lemma desired_edges_distinct: "distinct (map fst (desired_edges source target edges selected))"
  by (simp add: desired_edges_def distinct_fold_put distinct_fold_keep_first)

lemma desired_edges_values:
  assumes "distinct (map fst selected)" "\<forall>ids \<in> snd ` set selected. distinct ids"
  shows "snd ` set (desired_edges source target edges selected)
    = selected_links target selected \<union> renamed_links source target edges"
proof -
  let ?D = "desired_edges source target edges selected"
  have "d \<in> snd ` set ?D \<longleftrightarrow> (\<exists>k. map_of ?D k = Some d)" for d
    using desired_edges_distinct[of source target edges selected] by (force simp: image_iff)
  then show ?thesis using desired_edges_iff[OF assms] by blast
qed

subsection \<open>The changes\<close>

lemma map_of_concat_None:
  "(\<And>e. e \<in> set es \<Longrightarrow> map_of (h e) k = None) \<Longrightarrow> map_of (concat (map h es)) k = None"
  by (induction es) (auto simp: map_add_def)

lemma map_of_optional_pairs:
  assumes "distinct (map f es)" "e \<in> set es"
  shows "map_of (concat (map (\<lambda>e. case g e of Some n \<Rightarrow> [(f e, n)] | None \<Rightarrow> []) es)) (f e) = g e"
  using assms
proof (induction es)
  case (Cons q es)
  let ?h = "\<lambda>e. case g e of Some n \<Rightarrow> [(f e, n)] | None \<Rightarrow> []"
  show ?case
  proof (cases "f q = f e")
    case True
    then have "q = e" using Cons.prems by auto
    have ne: "f e' \<noteq> f e" if "e' \<in> set es" for e'
      using that Cons.prems(1) True by (metis distinct.simps(2) image_eqI list.set_map list.simps(9))
    have "map_of (?h e') (f e) = None" if "e' \<in> set es" for e'
      using ne[OF that] by (simp split: option.splits)
    then have "map_of (concat (map ?h es)) (f e) = None" by (rule map_of_concat_None)
    then show ?thesis using \<open>q = e\<close> by (cases "g e") auto
  next
    case False
    then have "map_of (?h q) (f e) = None" "e \<in> set es" using Cons.prems by (auto split: option.splits)
    then show ?thesis using Cons by (cases "g q") auto
  qed
qed simp

definition moved_edge :: "(string \<times> nat) list \<Rightarrow> merge_edge \<Rightarrow> desired_edge" where
  "moved_edge reposition e = \<lparr>de_source = pe_source e, de_target = pe_target e, de_field = pe_field e,
     de_position = (case map_of reposition (pe_id e) of Some n \<Rightarrow> n | None \<Rightarrow> pe_position e)\<rparr>"

lemma moved_edge_desired:
  assumes "distinct (map pe_id act)" "e \<in> set act" "map_of D (edge_key_of e) = Some d" "desired_key d = edge_key_of e"
  shows "moved_edge (edges_to_move D act) e = d"
proof -
  have "map_of (edges_to_move D act) (pe_id e) = moved_position D e"
    unfolding edges_to_move_def by (rule map_of_optional_pairs[OF assms(1,2)])
  then have "de_position (moved_edge (edges_to_move D act) e) = de_position d"
    using assms(3) by (simp add: moved_edge_def moved_position_def)
  moreover have "desired_key (moved_edge (edges_to_move D act) e) = desired_key d"
    using assms(4) by (simp add: moved_edge_def desired_key_def edge_key_of_def)
  ultimately show ?thesis by (simp add: desired_edge_eq_iff)
qed

lemma kept_edge_iff:
  assumes "distinct (map pe_id act)" "e \<in> set act"
  shows "pe_id e \<notin> set (edges_to_remove D act) \<longleftrightarrow> map_of D (edge_key_of e) \<noteq> None"
proof -
  have "pe_id e \<in> set (edges_to_remove D act)
      \<longleftrightarrow> (\<exists>q \<in> set act. map_of D (edge_key_of q) = None \<and> pe_id q = pe_id e)"
    by (auto simp: edges_to_remove_def image_iff eq_commute)
  also have "\<dots> \<longleftrightarrow> map_of D (edge_key_of e) = None"
    using distinct_map_inj[OF assms(1) _ assms(2)] assms(2) by blast
  finally show ?thesis by simp
qed

theorem changes_give_desired_edges:
  fixes edges :: "merge_edge list" and source :: string
  defines "act \<equiv> active_current source edges"
  assumes keys: "distinct (map fst D)" "\<And>k d. map_of D k = Some d \<Longrightarrow> desired_key d = k"
    and ids: "distinct (map pe_id edges)"
  shows "set (apply_changes source edges (edges_to_remove D act) (edges_to_add D act) (edges_to_move D act))
    = snd ` set D" (is "set ?applied = _")
proof -
  have act_ids: "distinct (map pe_id act)" using ids by (simp add: act_def active_current_def distinct_map_filter)
  have applied: "?applied = map (moved_edge (edges_to_move D act))
      (filter (\<lambda>e. pe_id e \<notin> set (edges_to_remove D act)) act) @ edges_to_add D act"
    by (simp add: apply_changes_def act_def moved_edge_def[abs_def])
  have moved: "moved_edge (edges_to_move D act) e = d" if "e \<in> set act" "map_of D (edge_key_of e) = Some d" for e d
    using moved_edge_desired[OF act_ids that keys(2)[OF that(2)]] .
  show ?thesis
  proof (intro set_eqI iffI)
    fix d assume "d \<in> set ?applied"
    then consider "d \<in> set (edges_to_add D act)"
      | e where "e \<in> set act" "map_of D (edge_key_of e) \<noteq> None" "d = moved_edge (edges_to_move D act) e"
      unfolding applied using kept_edge_iff[OF act_ids] by auto
    then show "d \<in> snd ` set D"
    proof cases
      case 2
      then obtain d' where "map_of D (edge_key_of e) = Some d'" by auto
      then show ?thesis using moved[OF 2(1)] 2(3) map_of_SomeD by force
    qed (auto simp: edges_to_add_def)
  next
    fix d assume d: "d \<in> snd ` set D"
    then have D: "map_of D (desired_key d) = Some d" using keys by force
    show "d \<in> set ?applied"
    proof (cases "desired_key d \<in> set (map edge_key_of act)")
      case True
      then obtain e where e: "e \<in> set act" "edge_key_of e = desired_key d" by auto
      then have "pe_id e \<notin> set (edges_to_remove D act)" "moved_edge (edges_to_move D act) e = d"
        using kept_edge_iff[OF act_ids e(1)] moved[OF e(1)] D by auto
      then show ?thesis using e(1) unfolding applied by force
    next
      case False
      then show ?thesis using d unfolding applied by (simp add: edges_to_add_def)
    qed
  qed
qed

subsection \<open>The plan\<close>

lemma distinct_outgoing: "distinct (outgoing_targets env source target edges i k)"
  by (simp add: outgoing_targets_def distinct_js_uniq)

lemma distinct_selected_values:
  "distinct xs \<Longrightarrow> distinct ys \<Longrightarrow> distinct (selected_values choices f xs ys)"
  by (auto simp: selected_values_def distinct_js_uniq split: option.splits merge_choice.splits)

lemma snd_js_put: "snd ` set (js_put k v ps) \<subseteq> insert v (snd ` set ps)"
  by (induction k v ps rule: js_put.induct) auto

lemma select_relations_distinct:
  assumes "select_relations env source target edges choices fds cs sel = Inr (cs', sel')"
    and "distinct (map fst sel)" "\<forall>ids \<in> snd ` set sel. distinct ids"
  shows "distinct (map fst sel') \<and> (\<forall>ids \<in> snd ` set sel'. distinct ids)"
  using assms
proof (induction fds arbitrary: cs sel)
  case (Cons f fs)
  define xs where "xs = outgoing_targets env source target edges source (mf_key f)"
  define ys where "ys = outgoing_targets env source target edges target (mf_key f)"
  let ?ids = "selected_values choices f xs ys"
  have "select_relations env source target edges choices fs (cs @ relation_conflict env choices f xs ys)
      (js_put (mf_key f) ?ids sel) = Inr (cs', sel')"
    using Cons.prems(1) by (simp only: select_relations.simps Let_def if_Throw_Ok xs_def ys_def)
  note step = this
  have d: "distinct ?ids" unfolding xs_def ys_def by (intro distinct_selected_values distinct_outgoing)
  have "\<forall>ids \<in> snd ` set (js_put (mf_key f) ?ids sel). distinct ids"
  proof
    fix ids assume "ids \<in> snd ` set (js_put (mf_key f) ?ids sel)"
    then have "ids \<in> insert ?ids (snd ` set sel)" by (rule subsetD[OF snd_js_put])
    then show "distinct ids" using d Cons.prems(3) by auto
  qed
  with step show ?case using Cons.IH distinct_js_put[OF Cons.prems(2)] by blast
qed simp

lemma planModuleRecordMerge_Ok:
  fixes edges source target
  defines "D \<equiv> \<lambda>sel. desired_edges source target edges sel" and "act \<equiv> active_current source edges"
  assumes "planModuleRecordMerge env (source, sd) (target, td) fds edges fc rc = Inr p"
  shows "source \<noteq> target"
    and "select_relations env source target edges rc (filter (\<lambda>f. is_relation (mf_type f)) fds)
           (concat (map (field_conflict env fc sd td) (sort (merge_keys sd td)))) [] = Inr (mp_conflicts p, mp_relations p)"
    and "mp_remove p = edges_to_remove (D (mp_relations p)) act"
    and "mp_add p = edges_to_add (D (mp_relations p)) act"
    and "mp_reposition p = edges_to_move (D (mp_relations p)) act"
    and "mp_data p = merged_data fc sd td"
    and "\<forall>e \<in> set edges. pe_source e \<in> {source, target} \<longrightarrow> map_of (mp_relations p) (pe_field e) \<noteq> None"
    and "mp_affected p = sorted_names (target # map pe_source (filter (\<lambda>e. pe_id e \<in> set (mp_remove p)) act)
           @ map de_source (mp_add p))"
proof -
  let ?rel = "filter (\<lambda>f. is_relation (mf_type f)) fds"
  let ?sel = "select_relations env source target edges rc ?rel
      (concat (map (field_conflict env fc sd td) (sort (merge_keys sd td)))) []"
  have guard: "\<not> (source = target \<or> \<not> choice_keys_ok (merge_keys sd td) ?rel fc rc)"
  proof
    assume "source = target \<or> \<not> choice_keys_ok (merge_keys sd td) ?rel fc rc"
    then have "planModuleRecordMerge env (source, sd) (target, td) fds edges fc rc
        = Throw (ModuleError MODULE_VALIDATION_ERROR)"
      unfolding planModuleRecordMerge_def Let_def fst_conv snd_conv by (rule if_P)
    then show False using assms(3) by simp
  qed
  then show "source \<noteq> target" by simp
  let ?after = "\<lambda>(conflicts, selected).
      if list_ex (\<lambda>e. pe_source e \<in> {source, target} \<and> map_of selected (pe_field e) = None) edges
      then Throw (ModuleError MODULE_VALIDATION_ERROR)
      else Ok \<lparr>mp_data = merged_data fc sd td, mp_conflicts = conflicts,
        mp_ready = list_all (\<lambda>c. cf_choice c \<noteq> None) conflicts, mp_relations = selected,
        mp_remove = edges_to_remove (D selected) act, mp_add = edges_to_add (D selected) act,
        mp_reposition = edges_to_move (D selected) act,
        mp_affected = sorted_names (target # map pe_source
            (filter (\<lambda>e. pe_id e \<in> set (edges_to_remove (D selected) act)) act)
          @ map de_source (edges_to_add (D selected) act))\<rparr>"
  have "planModuleRecordMerge env (source, sd) (target, td) fds edges fc rc = res_bind ?sel ?after"
    unfolding planModuleRecordMerge_def Let_def fst_conv snd_conv D_def act_def using guard by (rule if_not_P)
  then have run: "res_bind ?sel ?after = Inr p" using assms(3) by simp
  obtain conflicts selected where sel: "?sel = Inr (conflicts, selected)"
    using run by (cases ?sel) auto
  have known: "\<not> list_ex (\<lambda>e. pe_source e \<in> {source, target} \<and> map_of selected (pe_field e) = None) edges"
    using run sel by (auto split: if_split_asm)
  have p: "p = \<lparr>mp_data = merged_data fc sd td, mp_conflicts = conflicts,
      mp_ready = list_all (\<lambda>c. cf_choice c \<noteq> None) conflicts, mp_relations = selected,
      mp_remove = edges_to_remove (D selected) act, mp_add = edges_to_add (D selected) act,
      mp_reposition = edges_to_move (D selected) act,
      mp_affected = sorted_names (target # map pe_source
          (filter (\<lambda>e. pe_id e \<in> set (edges_to_remove (D selected) act)) act)
        @ map de_source (edges_to_add (D selected) act))\<rparr>"
    using run sel known by simp
  show "?sel = Inr (mp_conflicts p, mp_relations p)" using sel p by simp
  show "\<forall>e \<in> set edges. pe_source e \<in> {source, target} \<longrightarrow> map_of (mp_relations p) (pe_field e) \<noteq> None"
    using known p by (auto simp: list_ex_iff)
  show "mp_remove p = edges_to_remove (D (mp_relations p)) act" "mp_add p = edges_to_add (D (mp_relations p)) act"
    "mp_reposition p = edges_to_move (D (mp_relations p)) act" "mp_data p = merged_data fc sd td"
    "mp_affected p = sorted_names (target # map pe_source (filter (\<lambda>e. pe_id e \<in> set (mp_remove p)) act)
       @ map de_source (mp_add p))"
    using p by simp_all
qed

text \<open>C16. Carrying out the plan of a merge, that is removing, adding and moving the edges it lists, leaves
  the edges of the other records and of the surviving record exactly as the merge promises: the
  surviving record has the selected targets in their order, and every link of another record to the
  absorbed record points to the surviving one, once, at its earliest position.\<close>

theorem plan_reaches_desired_links:
  assumes plan: "planModuleRecordMerge env (source, sd) (target, td) fds edges fc rc = Inr p"
    and ids: "distinct (map pe_id edges)"
  shows "set (apply_plan source edges p)
    = selected_links target (mp_relations p) \<union> renamed_links source target edges"
proof -
  note ok = planModuleRecordMerge_Ok[OF plan]
  have d: "distinct (map fst (mp_relations p))" "\<forall>ids \<in> snd ` set (mp_relations p). distinct ids"
    using select_relations_distinct[OF ok(2)] by auto
  let ?D = "desired_edges source target edges (mp_relations p)"
  have "desired_key d' = k" if "map_of ?D k = Some d'" for k d'
    using that desired_edges_iff[OF d] by blast
  then have "set (apply_plan source edges p) = snd ` set ?D"
    unfolding apply_plan_def ok(3,4,5)
    by (intro changes_give_desired_edges desired_edges_distinct ids)
  then show ?thesis using desired_edges_values[OF d] by simp
qed

end
