(* ===== verification/ModuleSamples.thy ===== *)
theory ModuleSamples
  imports ModuleProperties ModuleMergeProperties
begin

text \<open>
  Concrete runs: an administrator installs a module with one collection, creates a record in it and
  updates it.  They show that the hypotheses of the properties of modules can hold.
\<close>

definition sample_digest :: string where
  "sample_digest = ''sha256:'' @ replicate 64 (CHR ''0'')"

definition module_env0 :: module_env where
  "module_env0 = \<lparr>me_url = (\<lambda>_. None), me_num = (\<lambda>_. ''0''), me_dbl = (\<lambda>n. n), me_sha = (\<lambda>s. ''0''),
     me_collate = (\<lambda>_ _. True), me_manifest_digest = (\<lambda>_. sample_digest), me_manifest_bytes = (\<lambda>_. 100),
     me_id = (\<lambda>n. replicate (Suc n) (CHR ''i''))\<rparr>"

definition title_field :: module_field where
  "title_field = \<lparr>mf_key = ''title'', mf_label = ''T'', mf_description = None, mf_required = True, mf_type = FtText None\<rparr>"

definition notes_collection :: module_collection where
  "notes_collection = \<lparr>mc_key = ''notes'', mc_name = ''N'', mc_singular_name = None, mc_description = None,
     mc_fields = [title_field], mc_search = None, mc_views = None, mc_latest_related = None\<rparr>"

definition notes_manifest :: module_manifest where
  "notes_manifest = \<lparr>mm_schema_version = 1, mm_id = ''a.b'', mm_slug = ''ab'', mm_version = ''1.0.0'', mm_name = ''A'',
     mm_description = None, mm_icon = None, mm_collections = [notes_collection], mm_navigation = None\<rparr>"

definition admin_actor :: module_actor where
  "admin_actor = HumanActor ''o'' ''u'' RoleOwner ViaUi []"

definition module_world0 :: module_world where
  "module_world0 = \<lparr>mw_members = [\<lparr>om_org = ''o'', om_user = ''u'', om_role = RoleOwner, om_active = True\<rparr>],
     mw_employees = [], mw_bindings = [], mw_task_visible = (\<lambda>_ _. True), mw_resource_linked = (\<lambda>_ _. False),
     mw_upgrade_blocked = (\<lambda>_ _. False)\<rparr>"

definition notes_installation :: installation_row where
  "notes_installation = \<lparr>mi_id = ''i'', mi_org = ''o'', mi_module_id = ''a.b'', mi_slug = ''ab'', mi_source = Sideloaded,
     mi_enabled = True, mi_agent_access = AccessNone, mi_deleted = False\<rparr>"

definition notes_version :: version_row where
  "notes_version = \<lparr>mv_id = ''ii'', mv_org = ''o'', mv_installation = ''i'', mv_version = ''1.0.0'',
     mv_manifest = notes_manifest, mv_digest = sample_digest, mv_active = True\<rparr>"

definition installed_store :: module_store where
  "installed_store = empty_store\<lparr>ms_installations := [notes_installation], ms_versions := [notes_version],
     ms_audit := [\<lparr>ma_actor = (''human'', ''u''), ma_action = ''module.install'', ma_entity = ''i'', ma_before = None,
       ma_after = None, ma_changed = []\<rparr>], ms_next := 2\<rparr>"

lemmas text_defs = ModuleIdSchema_def ModuleSlugSchema_def ModuleKeySchema_def ModuleFieldKeySchema_def
  ModuleDisplayNameSchema_def ModuleDescriptionSchema_def boundedPlainText_def key_pattern_def lower_digit_def
  js_is_lower_def js_is_digit_def js_is_upper_def js_is_alnum_def code_unit_def unsafe_char_def js_trim_def
  js_trim_start_def js_trim_end_def js_is_space_def MODULE_RESERVED_FIELD_KEYS_def ModuleSemverSchema_def
  SEMVER_REGEX_def before_char_def after_char_def numeric_identifier_def opt_ok_def OpaqueIdSchema_def opaque_id_def

lemma notes_manifest_valid: "DeftModuleManifestV1Schema url notes_manifest"
  by (simp add: DeftModuleManifestV1Schema_def notes_manifest_def manifest_shape_def text_defs
      notes_collection_def title_field_def ModuleCollectionSchema_def collection_shape_def ModuleFieldV2Schema_def
      collection_issues_def field_issues_def addDuplicateIssues_def validateManifestDefault_def
      manifest_issues_def validateLatestRelated_def target_issues_def navigation_issues_def)

lemma env0 [simp]: "me_manifest_digest module_env0 m = sample_digest" "me_manifest_bytes module_env0 m = 100"
    "me_id module_env0 n = CHR ''i'' # replicate n (CHR ''i'')" "me_url module_env0 s = None"
    "me_num module_env0 r = ''0''" "me_dbl module_env0 d = d" "me_sha module_env0 s = ''0''"
    "me_collate module_env0 s t = True"
  by (simp_all add: module_env0_def)

lemma notes_manifest_parses: "parseDeftModuleManifest module_env0 notes_manifest = Inr notes_manifest"
  using notes_manifest_valid by (simp add: parseDeftModuleManifest_def)

lemma notes_manifest_simps: "mm_id notes_manifest = ''a.b''" "mm_slug notes_manifest = ''ab''"
    "mm_version notes_manifest = ''1.0.0''" "mm_collections notes_manifest = [notes_collection]"
  by (simp_all add: notes_manifest_def)

lemma notes_version_verifies: "verifyManifest module_env0 notes_version = Inr notes_manifest"
  using notes_manifest_parses
  by (simp add: verifyManifest_def notes_version_def)

lemma admin_valid: "validatedActor admin_actor = Inr ()" "assertLifecycleAccess admin_actor = Inr ()"
    "assertCurrentModuleManager module_world0 admin_actor = Inr ()" "actor_org admin_actor = ''o''"
    "assertBaseWriteAccess admin_actor = Inr ()" "actorMetadata admin_actor = (''human'', ''u'')"
    "actor_action admin_actor = None" "is_employee admin_actor = False" "is_agent admin_actor = False"
    "actor_kind admin_actor = ''human''" "actor_id admin_actor = ''u''"
  by (simp_all add: validatedActor_def admin_actor_def OpaqueIdSchema_def opaque_id_def js_is_alnum_def js_is_lower_def
      code_unit_def scopes_ok_def assertLifecycleAccess_def assertBaseWriteAccess_def require_def
      assertCurrentModuleManager_def module_world0_def actorMetadata_def)

lemma notes_installed:
  "installModuleFromManifestWithExecutor module_env0 module_world0 admin_actor notes_manifest Sideloaded empty_store
     = Inr ((notes_installation, notes_version), installed_store)"
  by (simp add: installModuleFromManifestWithExecutor_def admin_valid notes_manifest_parses require_def Let_def
      empty_store_def installed_store_def notes_installation_def notes_version_def insert_installation_def
      insert_version_def new_version_def insertAudit_def notes_manifest_simps)

lemma installed_reachable: "reachable_store module_env0 installed_store"
  unfolding reachable_store_def by (rule r_into_rtranclp, rule step_install, rule notes_installed)

subsection \<open>A record\<close>

definition note_request :: create_request where
  "note_request = \<lparr>cr_module_id = ''a.b'', cr_collection_key = ''notes'', cr_data = [(''title'', JStr ''t'')],
     cr_relations = None, cr_manifest_digest = sample_digest, cr_idempotency_key = ''k''\<rparr>"

definition retitle_request :: "string \<Rightarrow> nat \<Rightarrow> update_request" where
  "retitle_request title revision = \<lparr>ur_record_id = ''iii'', ur_patch = [(''title'', JStr title)], ur_unset_fields = [],
     ur_relations = None, ur_expected_revision = revision, ur_manifest_digest = sample_digest, ur_idempotency_key = None\<rparr>"

definition note_row :: "string \<Rightarrow> nat \<Rightarrow> module_row" where
  "note_row title revision = \<lparr>mr_id = ''iii'', mr_org = ''o'', mr_installation = ''i'', mr_collection = ''notes'',
     mr_version = ''ii'', mr_data = [(''title'', JStr title)], mr_revision = revision, mr_create_key = Some ''sha256:0'',
     mr_creator = (''human'', ''u''), mr_title = [], mr_subtitle = None, mr_text = [], mr_deleted = False\<rparr>"

definition note_result :: "nat \<Rightarrow> mutation_result" where
  "note_result revision = \<lparr>mres_resource = ''module_record:iii'', mres_record = ''iii'', mres_installation = ''i'',
     mres_module_id = ''a.b'', mres_collection = ''notes'', mres_manifest_digest = sample_digest,
     mres_revision = revision, mres_archived = False, mres_changed = [''title''], mres_replayed = False\<rparr>"

definition note_receipt :: receipt_row where
  "note_receipt = \<lparr>mu_org = ''o'', mu_installation = ''i'', mu_action = None, mu_actor = (''human'', ''u''),
     mu_operation = MutCreate, mu_key = ''sha256:0'', mu_digest = ''sha256:0'', mu_record = ''iii'', mu_revision = 1,
     mu_manifest_digest = sample_digest, mu_archived = False, mu_changed = [''title'']\<rparr>"

definition note_audit :: "string \<Rightarrow> nat option \<Rightarrow> nat \<Rightarrow> module_audit" where
  "note_audit action b revision = \<lparr>ma_actor = (''human'', ''u''), ma_action = action, ma_entity = ''module_record:iii'',
     ma_before = b, ma_after = Some revision, ma_changed = [''title'']\<rparr>"

definition created_store :: module_store where
  "created_store = installed_store\<lparr>ms_records := [note_row ''t'' 1], ms_next := 3,
     ms_audit := ms_audit installed_store @ [note_audit ''module_record.create'' None 1], ms_receipts := [note_receipt]\<rparr>"

definition retitled_store :: "module_store \<Rightarrow> string \<Rightarrow> nat \<Rightarrow> module_store" where
  "retitled_store st title revision = st\<lparr>ms_records := [note_row title (revision + 1)],
     ms_audit := ms_audit st @ [note_audit ''module_record.update'' (Some revision) (revision + 1)]\<rparr>"

lemma sample_digests [simp]: "moduleMutationInputDigest module_env0 m j = ''sha256:0''"
    "moduleIdempotencyDigest module_env0 a k = ''sha256:0''"
  by (simp_all add: moduleMutationInputDigest_def moduleValueDigest_def moduleIdempotencyDigest_def)

lemma notes_rows: "mi_id notes_installation = ''i''" "mi_org notes_installation = ''o''" "mi_slug notes_installation = ''ab''"
    "mi_module_id notes_installation = ''a.b''" "mi_enabled notes_installation" "\<not> mi_deleted notes_installation"
    "mv_id notes_version = ''ii''" "mv_org notes_version = ''o''" "mv_installation notes_version = ''i''"
    "mv_active notes_version" "mv_digest notes_version = sample_digest" "mv_manifest notes_version = notes_manifest"
  by (simp_all add: notes_installation_def notes_version_def)

lemma notes_found:
  assumes "ms_installations st = [notes_installation]" "ms_versions st = [notes_version]"
  shows "findInstallation module_env0 admin_actor (ByModuleId ''a.b'') ModeWrite False True st
           = Inr (notes_installation, notes_version)"
    and "findInstallation module_env0 admin_actor (ByInstallation ''i'') ModeWrite False True st
           = Inr (notes_installation, notes_version)"
  using assms by (simp_all add: findInstallation_def find_installation_row_def active_version_def admin_valid
      assertInstallationAccess_def notes_version_verifies require_def notes_rows)

lemma notes_expected: "assertExpectedManifest notes_version sample_digest = Inr ()"
  by (simp add: assertExpectedManifest_def notes_version_def)

lemma note_data:
  assumes "title \<in> {''t'', ''u'', ''v''}"
  shows "parseRecordData module_env0 notes_manifest ''notes'' [(''title'', JStr title)] = Inr [(''title'', JStr title)]"
  using assms by (auto simp: parseRecordData_def validateModuleRecordData_def find_collection_def notes_manifest_simps
      notes_collection_def title_field_def field_outcome_of_def validateModuleFieldValue_def text_issue_def
      unknown_field_issues_def find_field_def data_prop_def json_string_def json_escape_char_def utf8_length_def code_unit_def text_defs)

lemma note_members: "assertMemberFieldsValid w org notes_manifest ''notes'' d = Inr ()"
  by (simp add: assertMemberFieldsValid_def collectionFor_def find_collection_def notes_manifest_simps
      notes_collection_def title_field_def member_ids_def js_uniq_def)

lemma note_projection: "projectRecord module_env0 notes_manifest ''notes'' d = Inr None"
  by (simp add: projectRecord_def projectModuleRecordSearch_def find_collection_def notes_manifest_simps
      notes_collection_def)

lemma admin_policy: "assertAgentModuleMutationPolicy w admin_actor operation = Inr ()"
  by (simp add: assertAgentModuleMutationPolicy_def admin_valid)

lemma note_simps: "mr_id (note_row title revision) = ''iii''" "mr_org (note_row title revision) = ''o''"
    "mr_installation (note_row title revision) = ''i''" "mr_collection (note_row title revision) = ''notes''"
    "mr_data (note_row title revision) = [(''title'', JStr title)]" "mr_revision (note_row title revision) = revision"
    "mr_version (note_row title revision) = ''ii''" "\<not> mr_deleted (note_row title revision)"
  by (simp_all add: note_row_def)

lemma note_request_simps: "cr_module_id note_request = ''a.b''" "cr_collection_key note_request = ''notes''"
    "cr_data note_request = [(''title'', JStr ''t'')]" "cr_relations note_request = None"
    "cr_manifest_digest note_request = sample_digest" "cr_idempotency_key note_request = ''k''"
  by (simp_all add: note_request_def)

lemma retitle_simps: "ur_record_id (retitle_request title revision) = ''iii''"
    "ur_patch (retitle_request title revision) = [(''title'', JStr title)]"
    "ur_unset_fields (retitle_request title revision) = []" "ur_relations (retitle_request title revision) = None"
    "ur_expected_revision (retitle_request title revision) = revision"
    "ur_manifest_digest (retitle_request title revision) = sample_digest"
    "ur_idempotency_key (retitle_request title revision) = None"
  by (simp_all add: retitle_request_def)

lemma no_relations: "prepareRelationReplacements a source inst c m [] st = Inr []" "ModuleRelationPatchSchema []"
  by (simp_all add: require_def prepareRelationReplacements_def ModuleRelationPatchSchema_def)

lemma note_result_of: "toModuleMutationResult (note_row title revision) notes_installation notes_version False [''title'']
    = Inr (note_result revision)"
  by (simp add: toModuleMutationResult_def formatModuleRecordResourceId_def note_simps notes_rows opaque_id_def js_is_alnum_def
      js_is_lower_def code_unit_def note_result_def sorted_names_def js_uniq_def)

lemma new_note: "new_record module_env0 admin_actor note_request notes_installation notes_version [(''title'', JStr ''t'')] None
      installed_store = note_row ''t'' 1"
  by (simp add: new_record_def note_row_def projected_def note_request_def notes_rows admin_valid installed_store_def
      eval_nat_numeral)

lemma installed_rows: "ms_installations installed_store = [notes_installation]" "ms_versions installed_store = [notes_version]"
    "ms_records installed_store = []" "ms_receipts installed_store = []" "ms_next installed_store = 2"
  by (simp_all add: installed_store_def empty_store_def)

lemma created_rows: "ms_installations created_store = [notes_installation]" "ms_versions created_store = [notes_version]"
    "ms_records created_store = [note_row ''t'' 1]" "ms_receipts created_store = [note_receipt]"
  by (simp_all add: created_store_def installed_rows)

lemma created_note:
  "createModuleRecordWithExecutor module_env0 w admin_actor note_request ''sha256:0'' installed_store
     = Inr ((Some (note_row ''t'' 1), note_result 1), created_store)"
  unfolding createModuleRecordWithExecutor_def Let_def
  by (simp add: admin_valid findMutationReplay_def installed_rows note_request_simps admin_policy notes_found notes_expected
      notes_version_verifies note_data no_relations note_members note_projection new_note insert_record_def
      finish_mutation_def note_result_of insertAudit_def insertMutationReceipt_def note_simps notes_rows
      created_store_def note_receipt_def note_audit_def sorted_names_def js_uniq_def resource_of_def eval_nat_numeral require_def)

lemma retitled_note:
  assumes "title \<in> {''t'', ''u'', ''v''}" "ms_installations st = [notes_installation]" "ms_versions st = [notes_version]"
    and "ms_records st = [note_row old revision]"
  shows "updateModuleRecord module_env0 w admin_actor (retitle_request title revision) None st
    = Inr ((Some (note_row title (revision + 1)), note_result (revision + 1)), retitled_store st title revision)"
proof -
  have row: "bump (projected None (note_row old revision\<lparr>mr_data := [(''title'', JStr title)], mr_version := ''ii''\<rparr>))
      = note_row title (revision + 1)"
    by (simp add: bump_def projected_def note_row_def)
  show ?thesis
    unfolding updateModuleRecord_def Let_def
    by (simp add: admin_valid retitle_simps no_relations replay_of_def given_key_def admin_policy
        locateModuleRecordInstallation_def record_by_id_def assms(2-4) note_simps notes_found notes_rows lock_active_record_def
        notes_expected notes_version_verifies patched_data_def note_data[OF assms(1)] note_members note_projection
        row update_record_def finish_mutation_def note_result_of insertAudit_def insertMutationReceipt_def
        retitled_store_def note_audit_def sorted_names_def js_uniq_def resource_of_def require_def)
qed

lemma created_reachable: "reachable_store module_env0 created_store"
  using installed_reachable step_create[OF created_note] unfolding reachable_store_def
  by (rule rtranclp.rtrancl_into_rtrancl)

subsection \<open>The properties at these runs\<close>

lemma stored_records_are_typed_witness:
  "record_typed (me_url module_env0) [title_field] [(''title'', JStr ''t'')]"
  using stored_records_are_typed[OF created_reachable, of "note_row ''t'' 1"]
  by (auto simp: created_rows notes_rows note_simps find_collection_def notes_manifest_simps notes_collection_def
      split: if_splits)

abbreviation retitled :: module_store where
  "retitled \<equiv> retitled_store created_store ''u'' 1"

lemma retitled_rows: "ms_installations retitled = [notes_installation]" "ms_versions retitled = [notes_version]"
    "ms_records retitled = [note_row ''u'' 2]"
  by (simp_all add: retitled_store_def created_rows numeral_2_eq_2)

lemma first_retitle: "updateModuleRecord module_env0 module_world0 admin_actor (retitle_request ''u'' 1) None created_store
    = Inr ((Some (note_row ''u'' 2), note_result 2), retitled)"
  using retitled_note[OF _ created_rows(1-3), where title = "''u''" and w = module_world0]
  by (simp add: numeral_2_eq_2)

lemma no_lost_update_witness:
  "ur_expected_revision (retitle_request ''u'' 1) < ur_expected_revision (retitle_request ''v'' 2)"
proof (rule no_lost_update[OF created_reachable first_retitle rtranclp.rtrancl_refl])
  show "updateModuleRecord module_env0 module_world0 admin_actor (retitle_request ''v'' 2) None retitled
      = Inr ((Some (note_row ''v'' 3), note_result 3), retitled_store retitled ''v'' 2)"
    using retitled_note[OF _ retitled_rows, where title = "''v''" and w = module_world0] by simp
qed (simp add: retitle_simps)

lemmas note_schema_defs = ModuleRecordCreateRequestSchema_def note_request_simps ModuleRecordDataSchema_def
  ModuleManifestDigestSchema_def ModuleIdempotencyKeySchema_def key_char_def ModuleMutationResultSchema_def note_result_def
  sample_digest_def OpaqueIdSchema_def field_value_shape_def text_defs

lemma zeros [simp]: "list_all P (replicate n c) \<longleftrightarrow> n = 0 \<or> P c"
  by (induction n) auto

lemma note_request_ok: "ModuleRecordCreateRequestSchema note_request"
  by (simp add: note_schema_defs)

lemma note_result_ok: "ModuleMutationResultSchema (note_result 1)"
  by (simp add: note_schema_defs)

lemma note_executed:
  "executeModuleOperationForActor module_env0 w admin_actor (ProposedCreate note_request) installed_store
     = (Inr (note_result 1), created_store)"
  by (simp add: note_request_ok createModuleRecord_def parsed_outcome_def note_result_ok[simplified] created_note[simplified])

lemma retitle_steps: "module_steps module_env0 created_store retitled"
  by (rule r_into_rtranclp, rule step_update, rule first_retitle)

lemma repeated_operation_changes_nothing_witness:
  "snd (executeModuleOperationForActor module_env0 module_world0 admin_actor (ProposedCreate note_request) retitled) = retitled"
  using repeated_operation_changes_nothing[OF installed_reachable note_executed _ retitle_steps] prod.collapse
  by (metis proposed_key.simps(1) option.distinct(1))

definition merge_field :: module_field where
  "merge_field = \<lparr>mf_key = ''f'', mf_label = ''F'', mf_description = None, mf_required = False, mf_type = FtRelation ''c'' True\<rparr>"

definition merge_edges :: "merge_edge list" where
  "merge_edges = [\<lparr>pe_id = ''1'', pe_source = ''a'', pe_target = ''x'', pe_field = ''f'', pe_position = 0\<rparr>,
     \<lparr>pe_id = ''2'', pe_source = ''b'', pe_target = ''y'', pe_field = ''f'', pe_position = 0\<rparr>,
     \<lparr>pe_id = ''3'', pe_source = ''z'', pe_target = ''a'', pe_field = ''g'', pe_position = 0\<rparr>]"

definition sample_plan :: merge_plan where
  "sample_plan = \<lparr>mp_data = [(''n'', JNull)], mp_conflicts = [], mp_ready = True, mp_relations = [(''f'', [''y'', ''x''])],
     mp_remove = [''3''],
     mp_add = [\<lparr>de_source = ''z'', de_target = ''b'', de_field = ''g'', de_position = 0\<rparr>,
       \<lparr>de_source = ''b'', de_target = ''x'', de_field = ''f'', de_position = 1\<rparr>],
     mp_reposition = [], mp_affected = [''b'', ''z'']\<rparr>"

lemma sample_merge: "planModuleRecordMerge module_env0 (''a'', [(''n'', JNull)]) (''b'', []) [merge_field] merge_edges [] [] = Inr sample_plan"
  by (simp add: planModuleRecordMerge_def merge_field_def merge_edges_def sample_plan_def Let_def merge_keys_def js_uniq_def
     choice_keys_ok_def field_conflict_def data_prop_def outgoing_targets_def edge_before_def js_sort_by_def selected_values_def
     relation_conflict_def mappedTarget_def desired_edges_def active_current_def edges_to_remove_def edges_to_add_def
     edges_to_move_def mapped_edge_def merged_data_def merged_value_def sorted_names_def desired_key_def edge_key_of_def
     own_edges_def incoming_edges_def keep_first_def moved_position_def)

lemma plan_reaches_desired_links_witness:
  "set (apply_plan ''a'' merge_edges sample_plan)
     = selected_links ''b'' [(''f'', [''y'', ''x''])] \<union> renamed_links ''a'' ''b'' merge_edges"
  using plan_reaches_desired_links[OF sample_merge] by (simp add: merge_edges_def sample_plan_def)

end
