(* ===== verification/ModuleCsv.thy ===== *)
theory ModuleCsv
  imports ModuleOperations "HOL-Library.Log_Nat"
begin

text \<open>
  The import of a CSV file that is attached to a message (module-csv-import.ts): the parser, the
  names of columns and options, the values of the cells, the rows of records, the choice of the
  collection and the proposed action.  Errors are the messages of the code.

  A byte order mark in front of the text lies outside the modelled code units.
\<close>

subsection \<open>The parser\<close>

record csv_state =
  cs_records :: "string list list"
  cs_record :: "string list"
  cs_field :: string
  cs_quoted :: bool

record parsed_csv =
  pc_headers :: "string list"
  pc_rows :: "string list list"

definition csv_start :: csv_state where
  "csv_start = \<lparr>cs_records = [], cs_record = [], cs_field = [], cs_quoted = False\<rparr>"

definition blank_record :: "string list \<Rightarrow> bool" where
  "blank_record r \<longleftrightarrow> \<not> list_ex (\<lambda>cell. js_trim cell \<noteq> []) r"

definition end_field :: "csv_state \<Rightarrow> csv_state" where
  "end_field s = s\<lparr>cs_record := cs_record s @ [cs_field s], cs_field := []\<rparr>"

text \<open>A record without a visible cell is dropped.\<close>

definition end_record :: "csv_state \<Rightarrow> csv_state" where
  "end_record s = (let r = cs_record (end_field s)
     in s\<lparr>cs_records := (if blank_record r then cs_records s else cs_records s @ [r]), cs_record := [], cs_field := []\<rparr>)"

definition add_char :: "char \<Rightarrow> csv_state \<Rightarrow> csv_state" where
  "add_char c s = s\<lparr>cs_field := cs_field s @ [c]\<rparr>"

definition CR :: char where "CR = CHR 0x0D"
definition LF :: char where "LF = CHR 0x0A"

text \<open>The loop over the characters; a doubled quote and the pair of CR and LF take two of them.\<close>

fun csv_loop :: "string \<Rightarrow> csv_state \<Rightarrow> csv_state" where
  "csv_loop [] s = s"
| "csv_loop (c # cs) s =
     (if cs_quoted s then
        (if c = CHR 0x22 \<and> js_starts_with cs [CHR 0x22] then csv_loop (drop 1 cs) (add_char (CHR 0x22) s)
         else if c = CHR 0x22 then csv_loop cs (s\<lparr>cs_quoted := False\<rparr>)
         else csv_loop cs (add_char c s))
      else if c = CHR 0x22 \<and> cs_field s = [] then csv_loop cs (s\<lparr>cs_quoted := True\<rparr>)
      else if c = CHR '','' then csv_loop cs (end_field s)
      else if c = LF \<or> c = CR then
        csv_loop (if c = CR \<and> js_starts_with cs [LF] then drop 1 cs else cs) (end_record s)
      else csv_loop cs (add_char c s))"

definition csv_records :: "string \<Rightarrow> string + string list list" where
  "csv_records text =
     (let s = csv_loop text csv_start
      in if cs_quoted s then Throw ''CSV has an unterminated quoted field'' else Ok (cs_records (end_record s)))"

subsection \<open>Names\<close>

text \<open>
  \<open>normalize('NFKC')\<close> on the first 256 code units.  The code units outside of them that it brings in
  (combining marks, the Greek mu, the fraction slash) are written as a multiplication sign, which is no letter
  or digit of a name either.
\<close>

definition foreign_unit :: char where
  "foreign_unit = CHR 0xD7"

definition nfkc_char :: "char \<Rightarrow> string" where
  "nfkc_char c = (let n = code_unit c in
     if n = 160 then '' '' else if n \<in> {168, 175, 180, 184} then [CHR '' '', foreign_unit]
     else if n = 170 then ''a'' else if n = 178 then ''2'' else if n = 179 then ''3''
     else if n = 181 then [foreign_unit] else if n = 185 then ''1'' else if n = 186 then ''o''
     else if n = 188 then [CHR ''1'', foreign_unit, CHR ''4''] else if n = 189 then [CHR ''1'', foreign_unit, CHR ''2'']
     else if n = 190 then [CHR ''3'', foreign_unit, CHR ''4''] else [c])"

definition name_char :: "char \<Rightarrow> bool" where
  "name_char c \<longleftrightarrow> js_is_lower c \<or> js_is_digit c"

text \<open>\<open>replace(/[^a-z0-9]+/g, '_')\<close>.\<close>

function squash_name :: "string \<Rightarrow> string" where
  "squash_name [] = []"
| "squash_name (c # s) = (if name_char c then c # squash_name s
     else CHR ''_'' # squash_name (dropWhile (\<lambda>d. \<not> name_char d) s))"
  by pat_completeness auto
termination
  by (relation "measure length") (auto simp: le_imp_less_Suc length_dropWhile_le)

definition strip_underscores :: "string \<Rightarrow> string" where
  "strip_underscores s = rev (dropWhile (\<lambda>c. c = CHR ''_'') (rev (dropWhile (\<lambda>c. c = CHR ''_'') s)))"

definition normalizeName :: "string \<Rightarrow> string" where
  "normalizeName value = strip_underscores (squash_name (js_lower (js_trim (concat (map nfkc_char value)))))"

definition promptContainsName :: "string \<Rightarrow> string \<Rightarrow> bool" where
  "promptContainsName prompt value =
     (let normalizedPrompt = ''_'' @ normalizeName prompt @ ''_''; normalizedValue = normalizeName value
      in normalizedValue \<noteq> [] \<and> js_includes normalizedPrompt (''_'' @ normalizedValue @ ''_''))"

subsection \<open>The table\<close>

definition MAX_MODULE_BULK_CREATE_ROWS :: nat where
  "MAX_MODULE_BULK_CREATE_ROWS = 100"

text \<open>The first row with another number of columns than the header, with its index.\<close>

definition ragged_row :: "nat \<Rightarrow> string list list \<Rightarrow> (nat \<times> string list) option" where
  "ragged_row n rows = List.find (\<lambda>(i, row). length row \<noteq> n) (enumerate 0 rows)"

definition parseCsv :: "string \<Rightarrow> string + parsed_csv" where
  "parseCsv text =
     res_bind (csv_records text) (\<lambda>records.
     if length records < 2 then Throw ''CSV needs one header row and at least one data row'' else
     let headers = map js_trim (hd records); rows = tl records
     in if list_ex (\<lambda>h. h = []) headers then Throw ''CSV headers cannot be empty''
     else if \<not> distinct (map normalizeName headers) then Throw ''CSV headers must be unique''
     else case ragged_row (length headers) rows of
       Some (i, row) \<Rightarrow> Throw (''CSV row '' @ nat_to_string (i + 2) @ '' has '' @ nat_to_string (length row)
         @ '' columns; expected '' @ nat_to_string (length headers))
     | None \<Rightarrow>
         if length rows > MAX_MODULE_BULK_CREATE_ROWS
         then Throw (''CSV has '' @ nat_to_string (length rows) @ '' data rows; the reviewed import limit is ''
           @ nat_to_string MAX_MODULE_BULK_CREATE_ROWS)
         else Ok \<lparr>pc_headers = headers, pc_rows = rows\<rparr>)"

subsection \<open>Numbers\<close>

text \<open>The rounding of a number to the nearest double, ties to even, and to an infinity beyond the largest.\<close>

definition pow2 :: "int \<Rightarrow> rat" where
  "pow2 e = (if 0 \<le> e then 2 ^ nat e else 1 / 2 ^ nat (- e))"

definition round_even :: "rat \<Rightarrow> int" where
  "round_even q = (let f = floor q; d = q - of_int f
     in if d < 1 / 2 then f else if d > 1 / 2 then f + 1 else if even f then f else f + 1)"

definition double_exponent :: "rat \<Rightarrow> int" where
  "double_exponent q = (let (n, d) = quotient_of q;
       e = int (floorlog 2 (nat n)) - int (floorlog 2 (nat d)) - 53
     in max (- 1074) (if q < pow2 (e + 53) then e else e + 1))"

definition js_double :: "rat \<Rightarrow> jsv" where
  "js_double q =
     (if q = 0 then JNum 0
      else let e = double_exponent \<bar>q\<bar>; r = of_int (round_even (\<bar>q\<bar> / pow2 e)) * pow2 e
           in if pow2 1024 \<le> r then JInf (0 < q) else JNum (sgn q * r))"

text \<open>\<open>Number(s)\<close> of a text that is neither empty nor surrounded by white space.\<close>

definition digit_in :: "nat \<Rightarrow> char \<Rightarrow> nat option" where
  "digit_in base c =
     (let v = (if js_is_digit c then code_unit c - 48
               else if js_is_lower c then code_unit c - 87
               else if js_is_upper c then code_unit c - 55 else 36)
      in if v < base then Some v else None)"

definition literal_value :: "nat \<Rightarrow> string \<Rightarrow> jsv" where
  "literal_value base s =
     (if s = [] \<or> list_ex (\<lambda>c. digit_in base c = None) s then JNaN
      else js_double (of_nat (fold (\<lambda>c acc. base * acc + the (digit_in base c)) s 0)))"

definition literal_exponent :: "string \<Rightarrow> int option" where
  "literal_exponent s = (case s of
       [] \<Rightarrow> Some 0
     | c # t \<Rightarrow>
         if c \<notin> {CHR ''e'', CHR ''E''} then None
         else let neg = js_starts_with t ''-''; ds = (if neg \<or> js_starts_with t ''+'' then drop 1 t else t)
              in if ds = [] \<or> \<not> list_all js_is_digit ds then None
                 else Some (if neg then - int (digits_value ds) else int (digits_value ds)))"

definition pow10 :: "int \<Rightarrow> rat" where
  "pow10 e = (if 0 \<le> e then 10 ^ nat e else 1 / 10 ^ nat (- e))"

definition decimal_value :: "string \<Rightarrow> rat option" where
  "decimal_value s =
     (let ip = takeWhile js_is_digit s; r = drop (length ip) s;
          point = js_starts_with r ''.'';
          fp = (if point then takeWhile js_is_digit (drop 1 r) else []);
          r2 = (if point then drop (1 + length fp) r else r)
      in if ip = [] \<and> fp = [] then None
         else map_option (\<lambda>e. of_nat (digits_value (ip @ fp)) * pow10 (e - int (length fp))) (literal_exponent r2))"

definition string_to_number :: "string \<Rightarrow> jsv" where
  "string_to_number s =
     (let prefix = js_lower (take 2 s) in
      if prefix = ''0x'' then literal_value 16 (drop 2 s)
      else if prefix = ''0o'' then literal_value 8 (drop 2 s)
      else if prefix = ''0b'' then literal_value 2 (drop 2 s)
      else let neg = js_starts_with s ''-''; t = (if neg \<or> js_starts_with s ''+'' then drop 1 s else s)
           in if t = ''Infinity'' then JInf (\<not> neg)
              else case decimal_value t of
                None \<Rightarrow> JNaN
              | Some q \<Rightarrow> js_double (if neg then - q else q))"

subsection \<open>Cells\<close>

definition option_matches :: "select_option list \<Rightarrow> string \<Rightarrow> select_option list" where
  "option_matches options value = (let normalized = normalizeName value
     in filter (\<lambda>o'. normalizeName (so_value o') = normalized \<or> normalizeName (so_label o') = normalized) options)"

definition declared_option :: "string \<Rightarrow> select_option list \<Rightarrow> string \<Rightarrow> string + string" where
  "declared_option message options value = (case option_matches options value of
       [o'] \<Rightarrow> Ok (so_value o') | _ \<Rightarrow> Throw message)"

fun declared_options :: "string \<Rightarrow> select_option list \<Rightarrow> string list \<Rightarrow> string + string list" where
  "declared_options message options [] = Ok []"
| "declared_options message options (v # vs) =
     res_bind (declared_option message options v) (\<lambda>x.
     res_bind (declared_options message options vs) (\<lambda>xs. Ok (x # xs)))"

definition cell_items :: "string \<Rightarrow> string list" where
  "cell_items s = filter (\<lambda>item. item \<noteq> []) (map js_trim (js_split (CHR '';'') s))"

definition js_strs :: "string list \<Rightarrow> jsv" where
  "js_strs xs = JArr (map JStr xs)"

text \<open>The words of a boolean are compared without regard to the case of ASCII letters.\<close>

definition coerceCell :: "module_field \<Rightarrow> string \<Rightarrow> string + jsv" where
  "coerceCell field rawValue =
     (let trimmed = js_trim rawValue; word = js_lower trimmed in
      if trimmed = [] then Ok JUndefined else
      case mf_type field of
        FtNumber d \<Rightarrow> (case string_to_number trimmed of
            JNum q \<Rightarrow> Ok (JNum q) | _ \<Rightarrow> Throw ''must be a finite number'')
      | FtBoolean d \<Rightarrow>
          if word \<in> {''true'', ''yes'', ''1''} then Ok (JBool True)
          else if word \<in> {''false'', ''no'', ''0''} then Ok (JBool False)
          else Throw ''must be true/false, yes/no, or 1/0''
      | FtSingleSelect options d \<Rightarrow>
          res_bind (declared_option ''must match one declared option'' options trimmed) (\<lambda>v. Ok (JStr v))
      | FtMultiSelect options d \<Rightarrow>
          res_bind (declared_options ''contains an undeclared option'' options (cell_items trimmed)) (\<lambda>vs. Ok (js_strs vs))
      | FtTags \<Rightarrow> Ok (js_strs (cell_items trimmed))
      | FtMember multiple \<Rightarrow> Ok (if multiple then js_strs (cell_items trimmed) else JStr trimmed)
      | FtRelation target multiple \<Rightarrow>
          Throw ''is a relation; import the scalar display field or link records after import''
      | FtResourceRef x y multiple \<Rightarrow>
          Throw ''is a relation; import the scalar display field or link records after import''
      | FtText d \<Rightarrow> Ok (JStr rawValue)
      | FtLongText d \<Rightarrow> Ok (JStr rawValue)
      | _ \<Rightarrow> Ok (JStr trimmed))"

subsection \<open>Rows\<close>

text \<open>The field of a column: by its key, otherwise by a label that only one field has.\<close>

definition header_field :: "module_collection \<Rightarrow> string \<Rightarrow> string + module_field" where
  "header_field collection header =
     (let normalized = normalizeName header in
      case List.find (\<lambda>f. normalizeName (mf_key f) = normalized) (mc_fields collection) of
        Some f \<Rightarrow> Ok f
      | None \<Rightarrow>
          (case filter (\<lambda>f. normalizeName (mf_label f) = normalized) (mc_fields collection) of
             [] \<Rightarrow> Throw (''CSV header '' @ [CHR 0x27] @ header @ [CHR 0x27] @ '' is not a field in '' @ mc_name collection)
           | [f] \<Rightarrow> Ok f
           | _ \<Rightarrow> Throw (''CSV header '' @ [CHR 0x27] @ header @ [CHR 0x27] @ '' is ambiguous; use a manifest field key'')))"

fun map_res :: "('a \<Rightarrow> 'e + 'b) \<Rightarrow> 'a list \<Rightarrow> 'e + 'b list" where
  "map_res f [] = Ok []"
| "map_res f (x # xs) = res_bind (f x) (\<lambda>y. res_bind (map_res f xs) (\<lambda>ys. Ok (y # ys)))"

text \<open>The cells of one row, as pairs of the header with its field and the raw text.\<close>

fun row_data :: "nat \<Rightarrow> ((string \<times> module_field) \<times> string) list \<Rightarrow> (string \<times> jsv) list \<Rightarrow> string + (string \<times> jsv) list" where
  "row_data i [] data = Ok data"
| "row_data i (((header, field), raw) # cells) data =
     (case coerceCell field raw of
        Inl e \<Rightarrow> Throw (''CSV row '' @ nat_to_string (i + 2) @ '', column '' @ [CHR 0x27] @ header @ [CHR 0x27] @ '': '' @ e)
      | Inr v \<Rightarrow> row_data i cells (if v = JUndefined then data else js_put (mf_key field) v data))"

definition row_issue :: "nat \<Rightarrow> validation_issue \<Rightarrow> string" where
  "row_issue i v = ''CSV row '' @ nat_to_string (i + 2)
     @ (case vi_field v of None \<Rightarrow> [] | Some f \<Rightarrow> if f = [] then [] else '', field '' @ [CHR 0x27] @ f @ [CHR 0x27])
     @ '': '' @ vi_message v"

definition compile_row ::
    "module_env \<Rightarrow> module_manifest \<Rightarrow> string \<Rightarrow> (string \<times> module_field) list \<Rightarrow> nat \<times> string list
      \<Rightarrow> string + (string \<times> jsv) list" where
  "compile_row env m ck columns r =
     res_bind (row_data (fst r) (zip columns (snd r)) []) (\<lambda>data.
     case validateModuleRecordData (me_url env) (me_num env) m ck (JObj data) of
       Inl issues \<Rightarrow> Throw (row_issue (fst r) (hd issues))
     | Inr d \<Rightarrow> Ok d)"

definition compileCsvRows ::
    "module_env \<Rightarrow> parsed_csv \<Rightarrow> module_manifest \<Rightarrow> string \<Rightarrow> string + (string \<times> jsv) list list" where
  "compileCsvRows env parsed m ck =
     (case find_collection m ck of
        None \<Rightarrow> Throw (''Module collection '' @ [CHR 0x27] @ ck @ [CHR 0x27] @ '' is unavailable'')
      | Some c \<Rightarrow>
          res_bind (map_res (header_field c) (pc_headers parsed)) (\<lambda>fields.
          map_res (compile_row env m ck (zip (pc_headers parsed) fields)) (enumerate 0 (pc_rows parsed))))"

end
