(* ===== verification/ModuleCsvAction.thy ===== *)
theory ModuleCsvAction
  imports ModuleCsv ActionGraph
begin

text \<open>
  From a message with a CSV file to the proposed import (the second half of module-csv-import.ts): the
  intent of the message, the collections the asker may read (module-service.ts), the choice among
  them, and the one action that is proposed for review.  The attachments come from the file service.
\<close>

subsection \<open>The intent\<close>

definition js_word_char :: "char \<Rightarrow> bool" where
  "js_word_char c \<longleftrightarrow> js_is_alnum c \<or> c = CHR ''_''"

definition word_at :: "string \<Rightarrow> nat \<Rightarrow> bool" where
  "word_at s i \<longleftrightarrow> i < length s \<and> js_word_char (s ! i)"

text \<open>The assertion \<open>\b\<close> at a position.\<close>

definition word_boundary :: "string \<Rightarrow> nat \<Rightarrow> bool" where
  "word_boundary s i \<longleftrightarrow> (0 < i \<and> word_at s (i - 1)) \<noteq> word_at s i"

text \<open>The ends of the whole words of a list that stand at a position.\<close>

definition words_at :: "string list \<Rightarrow> string \<Rightarrow> nat \<Rightarrow> nat list" where
  "words_at ws s i = (if word_boundary s i
     then filter (word_boundary s) (map (\<lambda>w. i + length w) (filter (js_starts_with (drop i s)) ws)) else [])"

text \<open>The position after at least one white space.\<close>

definition after_space :: "string \<Rightarrow> nat \<Rightarrow> nat list" where
  "after_space s i = (let k = length (takeWhile js_is_space (drop i s)) in if k = 0 then [] else [i + k])"

function collapse_space :: "string \<Rightarrow> string" where
  "collapse_space [] = []"
| "collapse_space (c # s) = (if js_is_space c then CHR '' '' # collapse_space (dropWhile js_is_space s)
     else c # collapse_space s)"
  by pat_completeness auto
termination
  by (relation "measure length") (auto simp: le_imp_less_Suc length_dropWhile_le)

definition importIntent :: "string \<Rightarrow> bool" where
  "importIntent prompt =
     (let plain = js_lower (js_trim (collapse_space prompt)); starts = [0..<Suc (length plain)] in
      list_ex (\<lambda>i. words_at [''import'', ''upload'', ''load''] plain i \<noteq> []) starts
      \<or> list_ex (\<lambda>i. list_ex (\<lambda>j. list_ex (\<lambda>k. words_at [''add'', ''create'', ''insert''] plain k \<noteq> []) (after_space plain j))
          (words_at [''bulk''] plain i)) starts
      \<or> list_ex (\<lambda>i. list_ex (\<lambda>j. list_ex (\<lambda>k. list_ex (\<lambda>l.
            list_ex (\<lambda>m. words_at [''row'', ''rows'', ''record'', ''records'', ''entries''] plain m \<noteq> [])
              [l..<min (l + 61) (Suc (length plain))])
          (words_at [''all'', ''these'', ''the''] plain k)) (after_space plain j))
          (words_at [''add''] plain i)) starts)"

subsection \<open>The collections of the asker\<close>

text \<open>
  The enabled installations, by slug in the order \<open>pg_le\<close> of the database.  Every manifest is
  verified.  Only an administrator who asks for them is shown the disabled ones.
\<close>

definition listModuleInstallations ::
    "module_env \<Rightarrow> (string \<Rightarrow> string \<Rightarrow> bool) \<Rightarrow> module_actor \<Rightarrow> bool \<Rightarrow> module_store
      \<Rightarrow> module_error + (installation_row \<times> version_row) list" where
  "listModuleInstallations env pg_le a includeDisabled st =
     res_bind (validatedActor a) (\<lambda>_.
     res_bind (assertBaseReadAccess a) (\<lambda>_.
     let rows = concat (map (\<lambda>i. case active_version (actor_org a) (mi_id i) st of None \<Rightarrow> [] | Some v \<Rightarrow> [(i, v)])
           (filter (\<lambda>i. mi_org i = actor_org a \<and> \<not> mi_deleted i \<and> (mi_enabled i \<or> (includeDisabled \<and> isAdmin a))
              \<and> (is_agent a \<longrightarrow> mi_agent_access i \<noteq> AccessNone)) (ms_installations st)))
     in res_bind (map_res (\<lambda>(i, v). res_bind (verifyManifest env v) (\<lambda>m. Ok (i, v\<lparr>mv_manifest := m\<rparr>)))
          (js_sort_by (\<lambda>x y. pg_le (mi_slug (fst x)) (mi_slug (fst y))) rows)) Ok))"

definition getModuleSchema ::
    "module_env \<Rightarrow> module_actor \<Rightarrow> string \<Rightarrow> module_store \<Rightarrow> module_error + string \<times> module_manifest" where
  "getModuleSchema env a moduleId st =
     res_bind (validatedActor a) (\<lambda>_.
     res_bind (findInstallation env a (ByModuleId moduleId) ModeRead False False st) (\<lambda>(inst, v).
     res_bind (verifyManifest env v) (\<lambda>m. Ok (mv_digest v, m))))"

record import_target =
  it_module_id :: string
  it_module_name :: string
  it_module_slug :: string
  it_manifest_digest :: string
  it_manifest :: module_manifest
  it_collection_key :: string
  it_collection_name :: string
  it_singular_name :: "string option"

definition targets_of :: "installation_row \<times> version_row \<Rightarrow> string \<times> module_manifest \<Rightarrow> import_target list" where
  "targets_of summary schema = map (\<lambda>c.
     \<lparr>it_module_id = mi_module_id (fst summary), it_module_name = mm_name (mv_manifest (snd summary)),
       it_module_slug = mi_slug (fst summary), it_manifest_digest = fst schema, it_manifest = snd schema,
       it_collection_key = mc_key c, it_collection_name = mc_name c,
       it_singular_name = given_key (mc_singular_name c)\<rparr>) (mm_collections (snd schema))"

text \<open>The listing reads the tables \<open>view 0\<close>, the schema of the k-th module of the list \<open>view (k + 1)\<close>.\<close>

definition import_targets ::
    "module_env \<Rightarrow> (string \<Rightarrow> string \<Rightarrow> bool) \<Rightarrow> module_actor \<Rightarrow> (nat \<Rightarrow> module_store) \<Rightarrow> module_error + import_target list" where
  "import_targets env pg_le a view =
     res_bind (listModuleInstallations env pg_le a False (view 0)) (\<lambda>summaries.
     res_bind (map_res (\<lambda>(k, s). res_bind (getModuleSchema env a (mi_module_id (fst s)) (view (Suc k)))
         (\<lambda>schema. Ok (targets_of s schema))) (enumerate 0 summaries)) (\<lambda>ts. Ok (concat ts)))"

definition scoreTarget :: "string \<Rightarrow> import_target \<Rightarrow> nat" where
  "scoreTarget prompt t =
     (if promptContainsName prompt (it_collection_key t) then 8 else 0)
     + (if promptContainsName prompt (it_collection_name t) then 8 else 0)
     + (case it_singular_name t of None \<Rightarrow> 0 | Some n \<Rightarrow> if promptContainsName prompt n then 6 else 0)
     + (if promptContainsName prompt (it_module_slug t) then 3 else 0)
     + (if promptContainsName prompt (it_module_name t) then 3 else 0)
     + (if js_includes (js_lower prompt) (js_lower (it_module_id t)) then 4 else 0)"

text \<open>The left side is the question that is asked back.\<close>

definition choose_target :: "string \<Rightarrow> import_target list \<Rightarrow> string + import_target" where
  "choose_target prompt targets =
     (let scored = js_sort_by (\<lambda>l r. snd r \<le> snd l)
            (filter (\<lambda>c. 0 < snd c) (map (\<lambda>t. (t, scoreTarget prompt t)) targets))
      in case scored of
        [] \<Rightarrow> Throw ''Which enabled module collection should I import this CSV into?''
      | best # _ \<Rightarrow>
          (case filter (\<lambda>c. snd c = snd best) scored of
             [w] \<Rightarrow> Ok (fst w)
           | winners \<Rightarrow> Throw (''The import target is ambiguous. Choose one: ''
               @ js_join '', '' (map (\<lambda>(t, n). it_module_name t @ '' / '' @ it_collection_name t) (take 5 winners)) @ ''.'')))"

definition asking_actor :: "string \<Rightarrow> string \<Rightarrow> module_actor" where
  "asking_actor orgId userId = DeftyActor orgId userId RoleMember None None"

definition resolveTarget ::
    "module_env \<Rightarrow> (string \<Rightarrow> string \<Rightarrow> bool) \<Rightarrow> string \<Rightarrow> string \<Rightarrow> string \<Rightarrow> (nat \<Rightarrow> module_store)
      \<Rightarrow> module_error + (string + import_target)" where
  "resolveTarget env pg_le orgId userId prompt view =
     res_bind (require (ModuleActorSchema (asking_actor orgId userId)) SchemaError) (\<lambda>_.
     res_bind (import_targets env pg_le (asking_actor orgId userId) view) (\<lambda>targets.
     Ok (choose_target prompt targets)))"

subsection \<open>The proposed action\<close>

record text_attachment =
  ta_id :: string
  ta_filename :: string
  ta_mime :: string
  ta_content :: "string option"
  ta_unavailable :: "string option"

record import_action =
  ip_params :: jsv
  ip_node_id :: string
  ip_depends_on :: "string list"
  ip_idempotency_key :: string

datatype import_draft =
    Ask string
  | Propose import_action action_graph string

definition MODULE_RECORD_BULK_CREATE_ACTION :: string where
  "MODULE_RECORD_BULK_CREATE_ACTION = ''module_record_bulk_create''"

fun graph_error_text :: "graph_error \<Rightarrow> string" where
  "graph_error_text TooManySteps =
     ''Action graph exceeds the '' @ nat_to_string MAX_ACTION_GRAPH_NODES @ ''-step safety limit''"
| "graph_error_text (DuplicateOrEmptyId i) = ''Duplicate or empty action node id: '' @ i"
| "graph_error_text (UnknownDependency n d) = ''Action '' @ n @ '' depends on unknown node '' @ d"
| "graph_error_text (SelfDependency n) = ''Action '' @ n @ '' cannot depend on itself''"
| "graph_error_text (DependencyCycle i) = ''Action graph contains a dependency cycle at '' @ i"

definition csv_attachment :: "text_attachment \<Rightarrow> bool" where
  "csv_attachment f = (let mime = js_trim (hd (js_split (CHR '';'') (js_lower (ta_mime f))))
     in js_ends_with (js_lower (ta_filename f)) ''.csv'' \<or> mime = ''text/csv'' \<or> mime = ''application/csv'')"

definition row_json :: "(string \<times> jsv) list \<Rightarrow> jsv" where
  "row_json data = JObj [(''data'', JObj data)]"

definition import_params :: "module_env \<Rightarrow> string \<Rightarrow> text_attachment \<Rightarrow> import_target \<Rightarrow> (string \<times> jsv) list list \<Rightarrow> (string \<times> jsv) list" where
  "import_params env messageId file t rows =
     [(''module_id'', JStr (it_module_id t)), (''module_name'', JStr (it_module_name t)),
      (''collection_key'', JStr (it_collection_key t)), (''collection_name'', JStr (it_collection_name t)),
      (''expected_manifest_digest'', JStr (it_manifest_digest t)), (''source_file_name'', JStr (ta_filename file)),
      (''rows'', JArr (map row_json rows)),
      (''idempotency_key'', JStr (''csv_import_'' @ js_slice (me_sha env
         (messageId @ '':'' @ ta_id file @ '':'' @ it_module_id t @ '':'' @ it_collection_key t)) 0 32)),
      (''source_message_id'', JStr messageId)]"

definition import_summary :: "text_attachment \<Rightarrow> import_target \<Rightarrow> nat \<Rightarrow> string" where
  "import_summary file t n = ''I prepared an import of '' @ nat_to_string n @ '' '' @ it_collection_name t @ '' record''
     @ (if n = 1 then [] else ''s'') @ '' from '' @ ta_filename file @ '' for approval.''"

definition import_proposal ::
    "module_env \<Rightarrow> string \<Rightarrow> text_attachment \<Rightarrow> string \<Rightarrow> import_target \<Rightarrow> string + import_draft" where
  "import_proposal env messageId file content t =
     res_bind (parseCsv content) (\<lambda>parsed.
     res_bind (compileCsvRows env parsed (it_manifest t) (it_collection_key t)) (\<lambda>rows.
     let params = import_params env messageId file t rows; summary = import_summary file t (length rows) in
     case buildActionGraph (me_num env) (me_sha env) [(MODULE_RECORD_BULK_CREATE_ACTION, JObj params)] messageId summary of
       Inl e \<Rightarrow> Throw (graph_error_text e)
     | Inr graph \<Rightarrow>
         (let node = hd (ag_actions graph) in
          Ok (Propose \<lparr>ip_params = JObj (params @ [(''proposal_node_id'', JStr (an_id node)),
                (''proposal_depends_on'', js_strs (an_depends_on node))]),
              ip_node_id = an_id node, ip_depends_on = an_depends_on node,
              ip_idempotency_key = an_idempotency_key node\<rparr> graph summary))))"

definition compileMessageModuleCsvImport ::
    "module_env \<Rightarrow> (string \<Rightarrow> string \<Rightarrow> bool) \<Rightarrow> string \<Rightarrow> string \<Rightarrow> string \<Rightarrow> string \<Rightarrow> text_attachment list
      \<Rightarrow> (nat \<Rightarrow> module_store) \<Rightarrow> module_error + import_draft option" where
  "compileMessageModuleCsvImport env pg_le orgId userId messageId prompt files view =
     (if \<not> importIntent prompt then Ok None else
      case filter csv_attachment files of
        [] \<Rightarrow> Ok None
      | [file] \<Rightarrow>
          (case ta_content file of
             None \<Rightarrow> Ok (Some (Ask (''I could not read '' @ ta_filename file @ '' (''
               @ (case ta_unavailable file of None \<Rightarrow> ''file unavailable'' | Some r \<Rightarrow> r) @ '').'')))
           | Some content \<Rightarrow>
               res_bind (resolveTarget env pg_le orgId userId prompt view) (\<lambda>resolved.
               Ok (Some (case resolved of
                   Inl question \<Rightarrow> Ask question
                 | Inr t \<Rightarrow> (case import_proposal env messageId file content t of Inl e \<Rightarrow> Ask e | Inr d \<Rightarrow> d)))))
      | _ \<Rightarrow> Ok (Some (Ask ''Attach one CSV per reviewed import request.'')))"

end
