(* ===== verification/ModuleBulkCreate.thy ===== *)
theory ModuleBulkCreate
  imports ModuleCsvAction
begin

text \<open>
  The creation of many records in one reviewed action (module-record-bulk-create.ts and its schemas in
  packages/shared/src/modules.ts).  Each row is a transaction of its own with a key derived from the
  key of the batch; the batch stops at the first row that fails.
\<close>

subsection \<open>The request\<close>

record bulk_request =
  br_module_id :: string
  br_collection_key :: string
  br_manifest_digest :: string
  br_rows :: "(string \<times> jsv) list list"
  br_idempotency_key :: string
  br_module_name :: "string option"
  br_collection_name :: "string option"
  br_source_file_name :: "string option"

fun bulk_row :: "jsv \<Rightarrow> (string \<times> jsv) list option" where
  "bulk_row (JObj [(k, JObj d)]) = (if k = ''data'' \<and> ModuleRecordDataSchema d then Some d else None)"
| "bulk_row _ = None"

fun bulk_rows :: "jsv \<Rightarrow> (string \<times> jsv) list list option" where
  "bulk_rows (JArr vs) = (if 1 \<le> length vs \<and> length vs \<le> 100 then those (map bulk_row vs) else None)"
| "bulk_rows _ = None"

definition checked :: "(string \<Rightarrow> bool) \<Rightarrow> jsv \<Rightarrow> string option" where
  "checked p v = (case v of JStr s \<Rightarrow> if p s then Some s else None | _ \<Rightarrow> None)"

text \<open>\<open>z.string().trim().min(1).max(bound).optional()\<close>.\<close>

definition optional_label :: "nat \<Rightarrow> jsv \<Rightarrow> string option option" where
  "optional_label bound v = (case v of
       JUndefined \<Rightarrow> Some None
     | JStr s \<Rightarrow> if 1 \<le> length (js_trim s) \<and> length (js_trim s) \<le> bound then Some (Some (js_trim s)) else None
     | _ \<Rightarrow> None)"

definition bulk_request_keys :: "string list" where
  "bulk_request_keys = [''module_id'', ''collection_key'', ''expected_manifest_digest'', ''rows'', ''idempotency_key'',
     ''module_name'', ''collection_name'', ''source_file_name'']"

definition ModuleRecordBulkCreateRequestSchema :: "jsv \<Rightarrow> bulk_request option" where
  "ModuleRecordBulkCreateRequestSchema v = (case v of
       JObj ps \<Rightarrow>
         if \<not> set (map fst ps) \<subseteq> set bulk_request_keys then None else
         Option.bind (checked ModuleIdSchema (data_prop ps ''module_id'')) (\<lambda>m.
         Option.bind (checked ModuleKeySchema (data_prop ps ''collection_key'')) (\<lambda>c.
         Option.bind (checked ModuleManifestDigestSchema (data_prop ps ''expected_manifest_digest'')) (\<lambda>d.
         Option.bind (bulk_rows (data_prop ps ''rows'')) (\<lambda>rows.
         Option.bind (checked ModuleIdempotencyKeySchema (data_prop ps ''idempotency_key'')) (\<lambda>k.
         Option.bind (optional_label 160 (data_prop ps ''module_name'')) (\<lambda>mn.
         Option.bind (optional_label 160 (data_prop ps ''collection_name'')) (\<lambda>cn.
         Option.bind (optional_label 255 (data_prop ps ''source_file_name'')) (\<lambda>fn.
         Some \<lparr>br_module_id = m, br_collection_key = c, br_manifest_digest = d, br_rows = rows,
           br_idempotency_key = k, br_module_name = mn, br_collection_name = cn, br_source_file_name = fn\<rparr>))))))))
     | _ \<Rightarrow> None)"

definition parse_bulk :: "jsv \<Rightarrow> module_error + bulk_request" where
  "parse_bulk v = (case ModuleRecordBulkCreateRequestSchema v of None \<Rightarrow> Throw SchemaError | Some q \<Rightarrow> Ok q)"

subsection \<open>Digests and keys\<close>

text \<open>Unlike its namesake of module-service.ts this one keeps a property that is undefined.\<close>

fun stableBulkValue :: "(string \<Rightarrow> string \<Rightarrow> bool) \<Rightarrow> jsv \<Rightarrow> jsv" where
  "stableBulkValue collate (JArr vs) = JArr (map (stableBulkValue collate) vs)"
| "stableBulkValue collate (JObj ps) =
     JObj (js_sort_by (\<lambda>p q. collate (fst p) (fst q)) (map (\<lambda>(k, v). (k, stableBulkValue collate v)) ps))"
| "stableBulkValue collate v = v"

definition stable_text :: "module_env \<Rightarrow> jsv \<Rightarrow> string" where
  "stable_text env v = json_text (me_num env) (stableBulkValue (me_collate env) v)"

definition moduleBulkCreateInputDigest :: "module_env \<Rightarrow> bulk_request \<Rightarrow> string" where
  "moduleBulkCreateInputDigest env q = ''sha256:'' @ me_sha env (stable_text env (JObj
     [(''module_id'', JStr (br_module_id q)), (''collection_key'', JStr (br_collection_key q)),
      (''expected_manifest_digest'', JStr (br_manifest_digest q)), (''rows'', JArr (map row_json (br_rows q)))]))"

definition rowIdempotencyKey :: "module_env \<Rightarrow> bulk_request \<Rightarrow> nat \<Rightarrow> string" where
  "rowIdempotencyKey env q index = ''bulk-row:'' @ js_slice (me_sha env (stable_text env (JObj
     [(''batch'', JStr (br_idempotency_key q)), (''index'', JNum (of_nat index)),
      (''row'', row_json (br_rows q ! index))]))) 0 40"

definition row_request :: "module_env \<Rightarrow> bulk_request \<Rightarrow> nat \<Rightarrow> create_request" where
  "row_request env q index =
     \<lparr>cr_module_id = br_module_id q, cr_collection_key = br_collection_key q, cr_data = br_rows q ! index,
      cr_relations = None, cr_manifest_digest = br_manifest_digest q,
      cr_idempotency_key = rowIdempotencyKey env q index\<rparr>"

text \<open>What the history of an action keeps of its parameters.\<close>

definition history_keys :: "string list" where
  "history_keys = [''module_id'', ''module_name'', ''collection_key'', ''collection_name'', ''expected_manifest_digest'',
     ''source_file_name'', ''input_digest'']"

fun js_string_items :: "jsv \<Rightarrow> jsv list" where
  "js_string_items (JArr vs) = filter js_is_string vs"
| "js_string_items _ = []"

fun js_is_array :: "jsv \<Rightarrow> bool" where
  "js_is_array (JArr vs) = True"
| "js_is_array _ = False"

definition sanitizeModuleBulkCreateParamsForHistory :: "module_env \<Rightarrow> jsv \<Rightarrow> (string \<times> jsv) list" where
  "sanitizeModuleBulkCreateParamsForHistory env value =
     (case ModuleRecordBulkCreateRequestSchema value of
        None \<Rightarrow> (case value of
            JObj source \<Rightarrow>
              map (\<lambda>k. (k, data_prop source k)) (filter (\<lambda>k. js_is_string (data_prop source k)) history_keys)
              @ (if js_is_number (data_prop source ''row_count'') then [(''row_count'', data_prop source ''row_count'')] else [])
              @ (if js_is_array (data_prop source ''changed_fields'')
                 then [(''changed_fields'', JArr (js_string_items (data_prop source ''changed_fields'')))] else [])
          | _ \<Rightarrow> [])
      | Some q \<Rightarrow>
          [(''module_id'', JStr (br_module_id q)),
           (''module_name'', JStr (case br_module_name q of None \<Rightarrow> br_module_id q | Some n \<Rightarrow> n)),
           (''collection_key'', JStr (br_collection_key q)),
           (''collection_name'', JStr (case br_collection_name q of None \<Rightarrow> br_collection_key q | Some n \<Rightarrow> n)),
           (''expected_manifest_digest'', JStr (br_manifest_digest q))]
          @ (case br_source_file_name q of None \<Rightarrow> [] | Some n \<Rightarrow> [(''source_file_name'', JStr n)])
          @ [(''row_count'', JNum (of_nat (length (br_rows q)))),
             (''changed_fields'', js_strs (sorted_names (map fst (concat (br_rows q))))),
             (''input_digest'', JStr (moduleBulkCreateInputDigest env q))])"

subsection \<open>Preflight and execution\<close>

text \<open>
  Row \<open>k\<close> is checked or created in the world \<open>w k\<close>, after \<open>between k\<close> has happened to the store: the
  transactions others commit meanwhile.
\<close>

fun preflight_rows ::
    "module_env \<Rightarrow> (nat \<Rightarrow> module_world) \<Rightarrow> (nat \<Rightarrow> module_store \<Rightarrow> module_store) \<Rightarrow> module_actor \<Rightarrow> bulk_request
      \<Rightarrow> nat list \<Rightarrow> module_store \<Rightarrow> (module_error + unit) \<times> module_store" where
  "preflight_rows env w between a q [] st = (Ok (), st)"
| "preflight_rows env w between a q (k # ks) st =
     (let st1 = between k st in
      case preflightModuleMutationWithExecutor env (w k) a (ProposedCreate (row_request env q k)) False st1 of
        Inl e \<Rightarrow> (Throw e, st1)
      | Inr _ \<Rightarrow> preflight_rows env w between a q ks st1)"

definition preflightModuleRecordBulkCreate ::
    "module_env \<Rightarrow> (nat \<Rightarrow> module_world) \<Rightarrow> (nat \<Rightarrow> module_store \<Rightarrow> module_store) \<Rightarrow> module_actor \<Rightarrow> jsv
      \<Rightarrow> module_store \<Rightarrow> (module_error + bulk_request) \<times> module_store" where
  "preflightModuleRecordBulkCreate env w between a value st =
     (case parse_bulk value of
        Inl e \<Rightarrow> (Throw e, st)
      | Inr q \<Rightarrow> (case preflight_rows env w between a q [0..<length (br_rows q)] st of
          (Inl e, st') \<Rightarrow> (Throw e, st') | (Inr _, st') \<Rightarrow> (Ok q, st')))"

record bulk_progress =
  bp_module_id :: string
  bp_collection_key :: string
  bp_completed :: bool
  bp_requested :: nat
  bp_created :: nat
  bp_replayed :: nat
  bp_failed_index :: "nat option"
  bp_resource_ids :: "string list"

text \<open>
  The message of a stopped batch names its row and repeats only the text of a \<open>ModuleError\<close>; \<open>None\<close> is
  the text for every other error.
\<close>

datatype bulk_error =
    BulkRefused module_error
  | BulkStopped nat "module_error option" bulk_progress

definition shown_error :: "module_error \<Rightarrow> module_error option" where
  "shown_error e = (case e of ModuleError c \<Rightarrow> Some e | RecordIssues is \<Rightarrow> Some e | _ \<Rightarrow> None)"

definition progress_of :: "bulk_request \<Rightarrow> mutation_result list \<Rightarrow> nat option \<Rightarrow> bulk_progress" where
  "progress_of q mutations failed =
     \<lparr>bp_module_id = br_module_id q, bp_collection_key = br_collection_key q, bp_completed = (failed = None),
      bp_requested = length (br_rows q), bp_created = length (filter (\<lambda>m. \<not> mres_replayed m) mutations),
      bp_replayed = length (filter mres_replayed mutations), bp_failed_index = failed,
      bp_resource_ids = map mres_resource mutations\<rparr>"

definition ModuleRecordResourceIdSchema :: "string \<Rightarrow> bool" where
  "ModuleRecordResourceIdSchema s \<longleftrightarrow> length s \<le> 14 + 128 \<and> js_starts_with s ''module_record:'' \<and> opaque_id (drop 14 s)"

definition bulk_result_ok :: "bulk_progress \<Rightarrow> bool" where
  "bulk_result_ok p \<longleftrightarrow> ModuleIdSchema (bp_module_id p) \<and> ModuleKeySchema (bp_collection_key p)
     \<and> 1 \<le> bp_requested p \<and> bp_requested p \<le> 100 \<and> bp_created p \<le> 100 \<and> bp_replayed p \<le> 100
     \<and> list_all ModuleRecordResourceIdSchema (bp_resource_ids p) \<and> length (bp_resource_ids p) \<le> 100"

fun create_rows ::
    "module_env \<Rightarrow> (nat \<Rightarrow> module_world) \<Rightarrow> (nat \<Rightarrow> module_store \<Rightarrow> module_store) \<Rightarrow> module_actor \<Rightarrow> bulk_request
      \<Rightarrow> nat list \<Rightarrow> mutation_result list \<Rightarrow> module_store \<Rightarrow> (bulk_error + mutation_result list) \<times> module_store" where
  "create_rows env w between a q [] mutations st = (Ok mutations, st)"
| "create_rows env w between a q (k # ks) mutations st =
     (let st1 = between k st in
      case createModuleRecord env (w k) a (row_request env q k) st1 of
        Inl e \<Rightarrow> (Throw (BulkStopped k (shown_error e) (progress_of q mutations (Some k))), st1)
      | Inr ((_, res), st2) \<Rightarrow> create_rows env w between a q ks (mutations @ [res]) st2)"

definition executeModuleRecordBulkCreate ::
    "module_env \<Rightarrow> (nat \<Rightarrow> module_world) \<Rightarrow> (nat \<Rightarrow> module_store \<Rightarrow> module_store) \<Rightarrow> module_actor \<Rightarrow> jsv
      \<Rightarrow> module_store \<Rightarrow> (bulk_error + bulk_progress) \<times> module_store" where
  "executeModuleRecordBulkCreate env w between a value st =
     (case parse_bulk value of
        Inl e \<Rightarrow> (Throw (BulkRefused e), st)
      | Inr q \<Rightarrow> (case create_rows env w between a q [0..<length (br_rows q)] [] st of
          (Inl e, st') \<Rightarrow> (Throw e, st')
        | (Inr mutations, st') \<Rightarrow>
            (let p = progress_of q mutations None
             in if bulk_result_ok p then Ok p else Throw (BulkRefused SchemaError), st')))"

end
