(* ===== verification/ModuleBulkProperties.thy ===== *)
theory ModuleBulkProperties
  imports ModuleBulkCreate ModuleProperties
begin

text \<open>
  A batch that is submitted again, after it has completed or stopped halfway: every row it reaches that was
  created before is answered with the record of then.
\<close>

subsection \<open>The rows of a batch\<close>

text \<open>The rows that a batch creates, from one store to another; it may stop before any row.\<close>

inductive bulk_trace ::
    "module_env \<Rightarrow> (nat \<Rightarrow> module_world) \<Rightarrow> (nat \<Rightarrow> module_store \<Rightarrow> module_store) \<Rightarrow> module_actor \<Rightarrow> bulk_request
      \<Rightarrow> nat list \<Rightarrow> module_store \<Rightarrow> mutation_result list \<Rightarrow> module_store \<Rightarrow> bool"
  for env w between a q where
  trace_end: "bulk_trace env w between a q [] st [] st"
| trace_stop: "bulk_trace env w between a q (k # ks) st [] (between k st)"
| trace_row: "createModuleRecord env (w k) a (row_request env q k) (between k st) = Inr ((x, res), st1)
    \<Longrightarrow> bulk_trace env w between a q ks st1 new st'
    \<Longrightarrow> bulk_trace env w between a q (k # ks) st (res # new) st'"

lemma create_rows_trace:
  "create_rows env w between a q ks mutations st = (out, st') \<Longrightarrow>
   \<exists>new. bulk_trace env w between a q ks st new st' \<and>
     (out = Inr (mutations @ new) \<and> length new = length ks
      \<or> (\<exists>k e. out = Inl (BulkStopped k e (progress_of q (mutations @ new) (Some k)))))"
proof (induction ks arbitrary: mutations st)
  case Nil
  then show ?case using trace_end by fastforce
next
  case (Cons k ks)
  show ?case
  proof (cases "createModuleRecord env (w k) a (row_request env q k) (between k st)")
    case (Inl e)
    then show ?thesis using Cons.prems trace_stop by fastforce
  next
    case (Inr y)
    obtain x res st1 where y: "y = ((x, res), st1)" by (metis prod.exhaust)
    then have "create_rows env w between a q ks (mutations @ [res]) st1 = (out, st')"
      using Cons.prems Inr by simp
    from Cons.IH[OF this] obtain new where "bulk_trace env w between a q ks st1 new st'"
      "out = Inr ((mutations @ [res]) @ new) \<and> length new = length ks
       \<or> (\<exists>k e. out = Inl (BulkStopped k e (progress_of q ((mutations @ [res]) @ new) (Some k))))" by blast
    then show ?thesis using trace_row Inr y by (intro exI[of _ "res # new"]) auto
  qed
qed

abbreviation others_step :: "module_env \<Rightarrow> (nat \<Rightarrow> module_store \<Rightarrow> module_store) \<Rightarrow> bool" where
  "others_step env between \<equiv> (\<forall>k s. module_steps env s (between k s))"

definition row_answered :: "module_env \<Rightarrow> module_actor \<Rightarrow> bulk_request \<Rightarrow> module_store \<Rightarrow> nat \<Rightarrow> mutation_result \<Rightarrow> bool" where
  "row_answered env a q st k res \<longleftrightarrow> answered env a MutCreate (rowIdempotencyKey env q k)
     (moduleMutationInputDigest env MutCreate (create_json (row_request env q k))) st res"

lemma row_key_not_Nil: "cr_idempotency_key (row_request env q k) \<noteq> []"
  by (simp add: row_request_def rowIdempotencyKey_def)

lemma row_request_key [simp]: "cr_idempotency_key (row_request env q k) = rowIdempotencyKey env q k"
  by (simp add: row_request_def)

lemma created_row_answered:
  "createModuleRecord env w a (row_request env q k) st = Inr ((x, res), st') \<Longrightarrow> row_answered env a q st' k res"
  using create_answered[OF _ row_key_not_Nil] by (fastforce simp: row_answered_def)

lemma row_answered_mono:
  "row_answered env a q st k res \<Longrightarrow> module_steps env st st' \<Longrightarrow> store_typed env st \<Longrightarrow> row_answered env a q st' k res"
  unfolding row_answered_def by (blast intro: answered_mono steps_le)

lemma create_steps: "createModuleRecord env w a q st = Inr (out, st') \<Longrightarrow> module_steps env st st'"
  unfolding createModuleRecord_def by (rule r_into_rtranclp, rule step_create)

lemma trace_steps:
  assumes "bulk_trace env w between a q ks st new st'" "others_step env between"
  shows "module_steps env st st'"
  using assms
proof (induction rule: bulk_trace.induct)
  case (trace_row k st x res st1 ks new st')
  then show ?case using create_steps by (meson rtranclp_trans)
qed auto

lemma trace_answered:
  assumes "bulk_trace env w between a q ks st new st'" "others_step env between" "store_typed env st"
  shows "list_all2 (row_answered env a q st') (take (length new) ks) new"
  using assms
proof (induction rule: bulk_trace.induct)
  case (trace_row k st x res st1 ks new st')
  have "store_typed env (between k st)" using trace_row.prems steps_typed by blast
  then have typed: "store_typed env st1" using create_steps[OF trace_row.hyps(1)] steps_typed by blast
  have "row_answered env a q st' k res"
    using row_answered_mono[OF created_row_answered[OF trace_row.hyps(1)] trace_steps[OF trace_row.hyps(2)] typed]
      trace_row.prems by blast
  then show ?case using trace_row.IH trace_row.prems typed by simp
qed simp_all

subsection \<open>Rows that exist\<close>

lemma answered_row_replays:
  assumes "store_typed env st" "row_answered env a q st k res"
    and "createModuleRecord env w a (row_request env q k) st = Inr ((x, res'), st')"
  shows "res' = res\<lparr>mres_replayed := True\<rparr>"
  using assms(3) unfolding createModuleRecord_def
proof (cases rule: createModuleRecordWithExecutor_Ok)
  case (replay r)
  then show ?thesis using replay_answer[OF assms(1) assms(2)[unfolded row_answered_def]] by fastforce
next
  case (create inst v m data p prep st1 st2)
  then show ?thesis using replay_answer[OF assms(1) assms(2)[unfolded row_answered_def]] by fastforce
qed

lemma trace_replays:
  assumes "bulk_trace env w between a q ks st new st'" "others_step env between" "store_typed env st"
    and "list_all2 (row_answered env a q st) (take (length old) ks) old"
  shows "take (length old) new = map (\<lambda>r. r\<lparr>mres_replayed := True\<rparr>) (take (length new) old)"
  using assms
proof (induction arbitrary: old rule: bulk_trace.induct)
  case (trace_row k st x res st1 ks new st')
  show ?case
  proof (cases old)
    case (Cons r rs)
    have between: "module_steps env st (between k st)" using trace_row.prems(1) by blast
    then have typed: "store_typed env (between k st)" using trace_row.prems(2) steps_typed by blast
    have steps: "module_steps env st st1" using between create_steps[OF trace_row.hyps(1)] by simp
    have "row_answered env a q (between k st) k r"
      using row_answered_mono[OF _ between trace_row.prems(2)] trace_row.prems(3) Cons by simp
    then have "res = r\<lparr>mres_replayed := True\<rparr>" by (rule answered_row_replays[OF typed _ trace_row.hyps(1)])
    moreover have "list_all2 (row_answered env a q st1) (take (length rs) ks) rs"
      using trace_row.prems(3) Cons row_answered_mono[OF _ steps trace_row.prems(2)]
      by (auto elim: list.rel_mono_strong)
    moreover have "store_typed env st1" using steps trace_row.prems(2) steps_typed by blast
    ultimately show ?thesis using trace_row.IH[of rs] trace_row.prems(1) Cons by simp
  qed simp
qed simp_all

lemma create_counts:
  assumes "createModuleRecord env w a q st = Inr ((x, res), st')"
  shows "length (ms_records st') = length (ms_records st) + (if mres_replayed res then 0 else 1)"
  using assms unfolding createModuleRecord_def
proof (cases rule: createModuleRecordWithExecutor_Ok)
  case (replay r)
  then show ?thesis
    by (auto simp: findMutationReplay_def res_bind_Ok_iff split: option.splits if_splits)
next
  case (create inst v m data p prep st1 st2)
  have "length (ms_records st1) = Suc (length (ms_records st))"
    using create(5) by (auto simp: insert_record_def split: if_splits)
  moreover have "ms_records st' = ms_records st1"
    using relations_core[OF create(6)] finish_mutation_keeps[OF create(7)] by (simp add: same_core_def)
  moreover have "\<not> mres_replayed res"
    using create(7) by (auto simp: finish_mutation_def toModuleMutationResult_def res_bind_Ok_iff)
  ultimately show ?thesis by simp
qed

lemma trace_counts:
  assumes "bulk_trace env w (\<lambda>k s. s) a q ks st new st'"
  shows "length (ms_records st') = length (ms_records st) + length (filter (\<lambda>m. \<not> mres_replayed m) new)"
  using assms by (induction rule: bulk_trace.induct) (auto dest: create_counts)

subsection \<open>A batch that is submitted again\<close>

text \<open>What the caller learns of the rows, from a completed batch and from one that stopped.\<close>

fun reported :: "bulk_error + bulk_progress \<Rightarrow> bulk_progress option" where
  "reported (Inr p) = Some p"
| "reported (Inl (BulkStopped k e p)) = Some p"
| "reported (Inl (BulkRefused e)) = None"

lemma executed_trace:
  assumes "executeModuleRecordBulkCreate env w between a v st = (out, st')" "reported out = Some p"
  obtains q new failed where "parse_bulk v = Inr q" "p = progress_of q new failed"
    "bulk_trace env w between a q [0..<length (br_rows q)] st new st'"
proof -
  obtain q where q: "parse_bulk v = Inr q"
    using assms by (cases "parse_bulk v") (auto simp: executeModuleRecordBulkCreate_def)
  obtain r st1 where r: "create_rows env w between a q [0..<length (br_rows q)] [] st = (r, st1)" by fastforce
  then obtain new where new: "bulk_trace env w between a q [0..<length (br_rows q)] st new st1"
    "r = Inr new \<or> (\<exists>k e. r = Inl (BulkStopped k e (progress_of q new (Some k))))"
    using create_rows_trace[OF r] by auto
  have "\<exists>failed. p = progress_of q new failed \<and> st' = st1"
    using assms q r new(2) by (auto simp: executeModuleRecordBulkCreate_def Let_def split: if_splits) (rule exI, rule refl)+
  then show ?thesis using that q new(1) by blast
qed

text \<open>C13. A batch is submitted again with the same parameters, after it has completed or stopped at some row and whatever
  was committed in between or meanwhile.  The second run may stop at an earlier row, when the module was disabled
  in between, for example.  Each row that was created the first time and is reached the second time is answered
  with the same record and counted as replayed; only rows beyond those of the first time can be created.  When
  nobody else writes during the second run, exactly the created rows are new in the table.\<close>

theorem resubmitted_batch_creates_no_row_twice:
  assumes "reachable_store env st" "\<forall>k s. module_steps env s (others k s)" "\<forall>k s. module_steps env s (others' k s)"
    and "executeModuleRecordBulkCreate env w others a v st = (out, st1)" "reported out = Some p"
    and "module_steps env st1 st2"
    and "executeModuleRecordBulkCreate env w' others' a v st2 = (out', st3)" "reported out' = Some p'"
  shows "take (length (bp_resource_ids p)) (bp_resource_ids p') = take (length (bp_resource_ids p')) (bp_resource_ids p)
    \<and> bp_created p' \<le> length (bp_resource_ids p') - length (bp_resource_ids p)
    \<and> bp_created p' + bp_replayed p' = length (bp_resource_ids p')
    \<and> (others' = (\<lambda>k s. s) \<longrightarrow> length (ms_records st3) = length (ms_records st2) + bp_created p')"
proof -
  obtain q new failed where run: "parse_bulk v = Inr q" "p = progress_of q new failed"
    "bulk_trace env w others a q [0..<length (br_rows q)] st new st1" by (rule executed_trace[OF assms(4,5)])
  obtain q' new' failed' where run': "parse_bulk v = Inr q'" "p' = progress_of q' new' failed'"
    "bulk_trace env w' others' a q' [0..<length (br_rows q')] st2 new' st3" by (rule executed_trace[OF assms(7,8)])
  have q: "q' = q" using run(1) run'(1) by simp
  let ?R = "\<lambda>r. r\<lparr>mres_replayed := True\<rparr>"
  note typed = reachable_typed[OF assms(1)]
  have typed1: "store_typed env st1" by (rule steps_typed[OF trace_steps[OF run(3) assms(2)] typed])
  then have typed2: "store_typed env st2" by (rule steps_typed[OF assms(6)])
  have "list_all2 (row_answered env a q st2) (take (length new) [0..<length (br_rows q)]) new"
    using trace_answered[OF run(3) assms(2) typed] row_answered_mono[OF _ assms(6) typed1]
    by (auto elim: list.rel_mono_strong)
  then have same: "take (length new) new' = map ?R (take (length new') new)"
    using trace_replays[OF run'(3) assms(3) typed2] q by blast
  have ids: "take (length new) (map mres_resource new') = take (length new') (map mres_resource new)"
    using arg_cong[OF same, of "map mres_resource"] by (simp add: take_map comp_def)
  have "filter (\<lambda>m. \<not> mres_replayed m) new' = filter (\<lambda>m. \<not> mres_replayed m) (drop (length new) new')"
  proof -
    have "filter (\<lambda>m. \<not> mres_replayed m) (take (length new) new') = []" unfolding same by (auto simp: filter_empty_conv)
    then show ?thesis by (metis append_take_drop_id append_Nil filter_append)
  qed
  then have created: "length (filter (\<lambda>m. \<not> mres_replayed m) new') \<le> length new' - length new"
    by (metis length_drop length_filter_le)
  have counts: "length (filter (\<lambda>m. \<not> mres_replayed m) new') + length (filter mres_replayed new') = length new'"
    using sum_length_filter_compl[of mres_replayed new'] by simp
  have "length (ms_records st3) = length (ms_records st2) + length (filter (\<lambda>m. \<not> mres_replayed m) new')"
    if "others' = (\<lambda>k s. s)" using trace_counts run'(3) that by blast
  then show ?thesis using ids created counts run(2) run'(2) by (simp add: progress_of_def)
qed

end
