(* ===== verification/ModuleCsvProperties.thy ===== *)
theory ModuleCsvProperties
  imports ModuleCsvAction ModuleProperties
begin

text \<open>
  The CSV import keeps the file: a printed table is parsed back cell by cell, the rows that are
  proposed are records of the collection, and each cell is found under the field of its column.
\<close>

subsection \<open>Printed tables\<close>

text \<open>
  A cell is quoted when it has to be, and where the writer \<open>q\<close> likes; records are separated by \<open>eol\<close>.
\<close>

definition quote_cell :: "string \<Rightarrow> string" where
  "quote_cell s = CHR 0x22 # concat (map (\<lambda>c. if c = CHR 0x22 then [c, c] else [c]) s) @ [CHR 0x22]"

definition needs_quotes :: "string \<Rightarrow> bool" where
  "needs_quotes s \<longleftrightarrow> list_ex (\<lambda>c. c = CHR '','' \<or> c = CR \<or> c = LF) s \<or> js_starts_with s [CHR 0x22]"

definition print_cell :: "(string \<Rightarrow> bool) \<Rightarrow> string \<Rightarrow> string" where
  "print_cell q s = (if q s \<or> needs_quotes s then quote_cell s else s)"

fun csv_line :: "(string \<Rightarrow> bool) \<Rightarrow> string list \<Rightarrow> string" where
  "csv_line q [] = []"
| "csv_line q [s] = print_cell q s"
| "csv_line q (s # ss) = print_cell q s @ CHR '','' # csv_line q ss"

fun csv_lines :: "(string \<Rightarrow> bool) \<Rightarrow> string \<Rightarrow> string list list \<Rightarrow> string" where
  "csv_lines q eol [] = []"
| "csv_lines q eol [r] = csv_line q r"
| "csv_lines q eol (r # rs) = csv_line q r @ eol @ csv_lines q eol rs"

definition print_csv :: "(string \<Rightarrow> bool) \<Rightarrow> string \<Rightarrow> parsed_csv \<Rightarrow> string" where
  "print_csv q eol p = csv_lines q eol (pc_headers p # pc_rows p)"

definition line_ends :: "string set" where
  "line_ends = {[LF], [CR, LF], [CR]}"

text \<open>The tables the import accepts.\<close>

definition csv_table_ok :: "parsed_csv \<Rightarrow> bool" where
  "csv_table_ok p \<longleftrightarrow> pc_headers p \<noteq> [] \<and> list_all (\<lambda>h. h \<noteq> [] \<and> js_trim h = h) (pc_headers p)
     \<and> distinct (map normalizeName (pc_headers p))
     \<and> 1 \<le> length (pc_rows p) \<and> length (pc_rows p) \<le> MAX_MODULE_BULK_CREATE_ROWS
     \<and> list_all (\<lambda>r. length r = length (pc_headers p) \<and> \<not> blank_record r) (pc_rows p)"

subsection \<open>The loop on printed text\<close>

lemma separators [simp]: "CHR '','' \<noteq> LF" "CHR '','' \<noteq> CR" "LF \<noteq> CR" "CHR 0x22 \<noteq> LF" "CHR 0x22 \<noteq> CR" "CR \<noteq> CHR 0x22" "LF \<noteq> CHR 0x22" "CR \<noteq> CHR '',''" "LF \<noteq> CHR '',''" "CR \<noteq> LF"
  by (simp_all add: CR_def LF_def)

lemma starts_with_single: "js_starts_with s [c] \<longleftrightarrow> s \<noteq> [] \<and> hd s = c"
  by (cases s) auto

lemma loop_quoted:
  assumes "cs_quoted st" "\<not> js_starts_with rest [CHR 0x22]"
  shows "csv_loop (concat (map (\<lambda>c. if c = CHR 0x22 then [c, c] else [c]) s) @ CHR 0x22 # rest) st
    = csv_loop rest (st\<lparr>cs_field := cs_field st @ s, cs_quoted := False\<rparr>)"
  using assms(1)
proof (induction s arbitrary: st)
  case Nil
  then show ?case using assms(2) by simp
next
  case (Cons c s)
  note rest = Cons.IH[of "add_char c st"]
  show ?case
  proof (cases "c = CHR 0x22")
    case True
    then show ?thesis using rest Cons.prems by (simp add: add_char_def)
  next
    case False
    then show ?thesis using rest Cons.prems by (simp add: add_char_def)
  qed
qed

lemma loop_bare:
  assumes "\<not> cs_quoted st" "\<not> list_ex (\<lambda>c. c = CHR '','' \<or> c = CR \<or> c = LF) s"
    and "cs_field st \<noteq> [] \<or> \<not> js_starts_with s [CHR 0x22]"
  shows "csv_loop (s @ rest) st = csv_loop rest (st\<lparr>cs_field := cs_field st @ s\<rparr>)"
  using assms
proof (induction s arbitrary: st)
  case (Cons c s)
  note rest = Cons.IH[of "add_char c st"]
  show ?case
  proof (cases "c = CHR 0x22")
    case True
    then show ?thesis using rest Cons.prems by (simp add: add_char_def)
  next
    case False
    then show ?thesis using rest Cons.prems by (simp add: add_char_def)
  qed
qed simp

lemma loop_cell:
  assumes "\<not> cs_quoted st" "cs_field st = []" "\<not> js_starts_with rest [CHR 0x22]"
  shows "csv_loop (print_cell q s @ rest) st = csv_loop rest (st\<lparr>cs_field := s\<rparr>)"
proof (cases "q s \<or> needs_quotes s")
  case True
  have "csv_loop (quote_cell s @ rest) st
      = csv_loop (concat (map (\<lambda>c. if c = CHR 0x22 then [c, c] else [c]) s) @ CHR 0x22 # rest) (st\<lparr>cs_quoted := True\<rparr>)"
    using assms(1,2) by (simp add: quote_cell_def)
  also have "\<dots> = csv_loop rest (st\<lparr>cs_field := s\<rparr>)"
    using loop_quoted[of "st\<lparr>cs_quoted := True\<rparr>" rest s] assms by (cases st) simp
  finally show ?thesis using True by (simp add: print_cell_def)
next
  case False
  then show ?thesis using loop_bare[of st s rest] assms by (auto simp: print_cell_def needs_quotes_def)
qed

lemma loop_record:
  assumes "\<not> cs_quoted st" "cs_field st = []" "r \<noteq> []" "rest = [] \<or> hd rest = CR \<or> hd rest = LF"
  shows "csv_loop (csv_line q r @ rest) st
    = csv_loop rest (st\<lparr>cs_record := cs_record st @ butlast r, cs_field := last r\<rparr>)"
  using assms
proof (induction q r arbitrary: st rule: csv_line.induct)
  case (2 q s)
  then show ?case using loop_cell[of st rest q s] by (auto simp: starts_with_single)
next
  case (3 q s s' ss)
  have "csv_loop (csv_line q (s # s' # ss) @ rest) st
      = csv_loop (CHR '','' # csv_line q (s' # ss) @ rest) (st\<lparr>cs_field := s\<rparr>)"
    using loop_cell[of st "CHR '','' # csv_line q (s' # ss) @ rest" q s] 3 by simp
  also have "\<dots> = csv_loop (csv_line q (s' # ss) @ rest) (st\<lparr>cs_record := cs_record st @ [s], cs_field := []\<rparr>)"
    using 3 by (simp add: end_field_def)
  finally show ?case using "3.IH"[of "st\<lparr>cs_record := cs_record st @ [s], cs_field := []\<rparr>"] 3 by simp
qed simp

lemma loop_line_end:
  assumes "\<not> cs_quoted st" "eol \<in> line_ends" "\<not> js_starts_with rest [LF]"
  shows "csv_loop (eol @ rest) st = csv_loop rest (end_record st)"
  using assms by (auto simp: line_ends_def)

lemma end_record_filled:
  assumes "r \<noteq> []" "\<not> blank_record r" "cs_record st = butlast r" "cs_field st = last r"
  shows "end_record st = st\<lparr>cs_records := cs_records st @ [r], cs_record := [], cs_field := []\<rparr>"
  using assms by (simp add: end_record_def end_field_def Let_def)

lemma blank_cell [simp]: "blank_record [[]]"
  by (simp add: blank_record_def js_trim_def js_trim_start_def js_trim_end_def)

lemma cell_not_line_feed: "s \<noteq> [] \<or> \<not> js_starts_with rest [LF] \<Longrightarrow> \<not> js_starts_with (print_cell q s @ rest) [LF]"
  by (cases s) (auto simp: print_cell_def quote_cell_def needs_quotes_def starts_with_single)

lemma line_not_line_feed:
  assumes "r \<noteq> []" "\<not> blank_record r"
  shows "\<not> js_starts_with (csv_line q r @ rest) [LF]"
proof -
  obtain s ss where r: "r = s # ss" using assms(1) by (cases r) auto
  show ?thesis
  proof (cases ss)
    case Nil
    then have "s \<noteq> []" using r assms(2) by (cases s) auto
    then show ?thesis using Nil r cell_not_line_feed[of s rest q] by simp
  next
    case (Cons s' ss')
    then show ?thesis using r cell_not_line_feed[of s "CHR '','' # csv_line q ss @ rest" q] by simp
  qed
qed

lemma lines_not_line_feed:
  "rs \<noteq> [] \<Longrightarrow> list_all (\<lambda>r. r \<noteq> [] \<and> \<not> blank_record r) rs \<Longrightarrow> \<not> js_starts_with (csv_lines q eol rs @ rest) [LF]"
  by (induction q eol rs rule: csv_lines.induct) (simp_all add: line_not_line_feed)

lemma csv_lines_Cons: "rs \<noteq> [] \<Longrightarrow> csv_lines q eol (r # rs) = csv_line q r @ eol @ csv_lines q eol rs"
  by (cases rs) simp_all

lemma loop_line:
  assumes "\<not> cs_quoted st" "cs_field st = []" "cs_record st = []" "eol \<in> line_ends" "r \<noteq> []" "\<not> blank_record r"
    and "\<not> js_starts_with rest [LF]"
  shows "csv_loop (csv_line q r @ eol @ rest) st = csv_loop rest (st\<lparr>cs_records := cs_records st @ [r]\<rparr>)"
proof -
  let ?s = "st\<lparr>cs_record := butlast r, cs_field := last r\<rparr>"
  have "hd (eol @ rest) = CR \<or> hd (eol @ rest) = LF" using assms(4) by (auto simp: line_ends_def)
  then have "csv_loop (csv_line q r @ eol @ rest) st = csv_loop (eol @ rest) ?s"
    using loop_record[of st r "eol @ rest" q] assms(1-3,5) by simp
  also have "\<dots> = csv_loop rest (end_record ?s)" using loop_line_end assms(1,4,7) by simp
  also have "end_record ?s = st\<lparr>cs_records := cs_records st @ [r]\<rparr>"
    using end_record_filled[of r ?s] assms by simp
  finally show ?thesis .
qed

lemma loop_last_line:
  assumes "\<not> cs_quoted st" "cs_field st = []" "cs_record st = []" "eol \<in> line_ends" "r \<noteq> []" "\<not> blank_record r"
    and "tail = [] \<or> tail = eol"
  shows "\<not> cs_quoted (csv_loop (csv_line q r @ tail) st)
    \<and> cs_records (end_record (csv_loop (csv_line q r @ tail) st)) = cs_records st @ [r]"
  using assms(7)
proof
  assume "tail = eol"
  then have "csv_loop (csv_line q r @ tail) st = st\<lparr>cs_records := cs_records st @ [r]\<rparr>"
    using loop_line[of st eol r "[]" q] assms(1-6) by simp
  then show ?thesis using assms(1-3) by (simp add: end_record_def end_field_def)
next
  assume "tail = []"
  then have "csv_loop (csv_line q r @ tail) st = st\<lparr>cs_record := butlast r, cs_field := last r\<rparr>"
    using loop_record[of st r "[]" q] assms(1-6) by simp
  then show ?thesis using end_record_filled[of r "csv_loop (csv_line q r @ tail) st"] assms(1-6) by simp
qed

lemma loop_lines:
  assumes "\<not> cs_quoted st" "cs_field st = []" "cs_record st = []" "eol \<in> line_ends" "rs \<noteq> []" "tail = [] \<or> tail = eol"
    and "list_all (\<lambda>r. r \<noteq> [] \<and> \<not> blank_record r) rs"
  shows "\<not> cs_quoted (csv_loop (csv_lines q eol rs @ tail) st)
    \<and> cs_records (end_record (csv_loop (csv_lines q eol rs @ tail) st)) = cs_records st @ rs"
  using assms
proof (induction rs arbitrary: st)
  case (Cons r rs)
  show ?case
  proof (cases "rs = []")
    case True
    then show ?thesis using loop_last_line[of st eol r tail q] Cons.prems by simp
  next
    case False
    have "csv_loop (csv_lines q eol (r # rs) @ tail) st
        = csv_loop (csv_lines q eol rs @ tail) (st\<lparr>cs_records := cs_records st @ [r]\<rparr>)"
      using loop_line[of st eol r "csv_lines q eol rs @ tail" q] lines_not_line_feed[of rs q eol tail] Cons.prems False
      by (simp add: csv_lines_Cons)
    then show ?thesis using Cons.IH[of "st\<lparr>cs_records := cs_records st @ [r]\<rparr>"] Cons.prems False by simp
  qed
qed simp

lemma records_of_printed:
  assumes "eol \<in> line_ends" "rs \<noteq> []" "tail = [] \<or> tail = eol" "list_all (\<lambda>r. r \<noteq> [] \<and> \<not> blank_record r) rs"
  shows "csv_records (csv_lines q eol rs @ tail) = Inr rs"
  using loop_lines[of csv_start eol rs tail q] assms by (simp add: csv_records_def csv_start_def Let_def)

subsection \<open>Printed tables parse\<close>

lemma even_rows: "ragged_row n rows = None \<longleftrightarrow> list_all (\<lambda>r. length r = n) rows"
proof -
  have "(\<forall>x \<in> set (enumerate 0 rows). length (snd x) = n) \<longleftrightarrow> (\<forall>r \<in> set (map snd (enumerate 0 rows)). length r = n)"
    by (simp only: set_map ball_simps)
  then show ?thesis by (simp add: ragged_row_def find_None_set case_prod_beta list_all_iff)
qed

lemma headers_filled: "csv_table_ok p \<Longrightarrow> \<not> blank_record (pc_headers p)"
  by (cases "pc_headers p") (auto simp: csv_table_ok_def blank_record_def)

lemma printed_table_parses:
  assumes "csv_table_ok p" "eol \<in> line_ends" "tail = [] \<or> tail = eol"
  shows "parseCsv (print_csv q eol p @ tail) = Inr p"
proof -
  have "list_all (\<lambda>r. r \<noteq> [] \<and> \<not> blank_record r) (pc_headers p # pc_rows p)"
    using assms(1) headers_filled[OF assms(1)] by (auto simp: csv_table_ok_def list_all_iff)
  then have "csv_records (print_csv q eol p @ tail) = Inr (pc_headers p # pc_rows p)"
    using records_of_printed[of eol _ tail q] assms(2,3) by (simp add: print_csv_def)
  moreover have "map js_trim (pc_headers p) = pc_headers p"
    using assms(1) by (auto simp: csv_table_ok_def list_all_iff intro!: map_idI)
  moreover have "ragged_row (length (pc_headers p)) (pc_rows p) = None"
    using assms(1) by (auto simp: even_rows csv_table_ok_def list_all_iff)
  ultimately show ?thesis using assms(1)
    by (auto simp: parseCsv_def Let_def csv_table_ok_def list_ex_iff list_all_iff)
qed

subsection \<open>What the parser accepts\<close>

lemma dropWhile_hd: "xs = [] \<or> \<not> P (hd xs) \<Longrightarrow> dropWhile P xs = xs"
  by (cases xs) auto

lemma js_trim_idem [simp]: "js_trim (js_trim s) = js_trim s"
proof -
  define u where "u = dropWhile js_is_space s"
  define t where "t = rev (dropWhile js_is_space (rev u))"
  have u: "u = t @ rev (takeWhile js_is_space (rev u))"
    unfolding t_def by (metis rev_append rev_rev_ident takeWhile_dropWhile_id)
  have "u = [] \<or> \<not> js_is_space (hd u)" unfolding u_def by (metis hd_dropWhile)
  moreover have "hd u = hd t" "u \<noteq> []" if "t \<noteq> []" using that u by (metis hd_append2, metis append_is_Nil_conv)
  ultimately have "t = [] \<or> \<not> js_is_space (hd t)" by auto
  then have "dropWhile js_is_space t = t" by (rule dropWhile_hd)
  then show ?thesis by (simp add: js_trim_def js_trim_start_def js_trim_end_def u_def[symmetric] t_def[symmetric])
    (simp add: t_def)
qed

lemma end_record_filled_rows:
  "list_all (\<lambda>r. \<not> blank_record r) (cs_records s) \<Longrightarrow> list_all (\<lambda>r. \<not> blank_record r) (cs_records (end_record s))"
  by (simp add: end_record_def Let_def)

lemma loop_filled_rows:
  "list_all (\<lambda>r. \<not> blank_record r) (cs_records s) \<Longrightarrow> list_all (\<lambda>r. \<not> blank_record r) (cs_records (csv_loop cs s))"
  by (induction cs s rule: csv_loop.induct) (auto simp: add_char_def end_field_def end_record_filled_rows)

lemma records_filled: "csv_records source = Inr rs \<Longrightarrow> list_all (\<lambda>r. \<not> blank_record r) rs"
  using end_record_filled_rows[OF loop_filled_rows[of csv_start source]]
  by (auto simp: csv_records_def csv_start_def Let_def split: if_splits)

lemma parsed_table_ok:
  assumes "parseCsv source = Inr p"
  shows "csv_table_ok p"
proof -
  obtain rs where rs: "csv_records source = Inr rs" "2 \<le> length rs"
    and p: "p = \<lparr>pc_headers = map js_trim (hd rs), pc_rows = tl rs\<rparr>"
    and ok: "\<not> list_ex (\<lambda>h. h = []) (map js_trim (hd rs))" "distinct (map normalizeName (map js_trim (hd rs)))"
      "ragged_row (length (hd rs)) (tl rs) = None" "length (tl rs) \<le> MAX_MODULE_BULK_CREATE_ROWS"
    using assms by (auto simp: parseCsv_def res_bind_Ok_iff Let_def not_less split: if_splits option.splits)
  obtain h t where ht: "rs = h # t" "t \<noteq> []" using rs(2) by (cases rs; cases "tl rs") auto
  have filled: "\<not> blank_record h" "list_all (\<lambda>r. \<not> blank_record r) t"
    using records_filled[OF rs(1)] ht(1) by simp_all
  have "h \<noteq> []" using filled(1) by (auto simp: blank_record_def)
  moreover have "list_all (\<lambda>x. x \<noteq> [] \<and> js_trim x = x) (map js_trim h)"
    using ok(1) ht(1) by (force simp: list_ex_iff list_all_iff)
  moreover have "list_all (\<lambda>r. length r = length h \<and> \<not> blank_record r) t"
    using ok(3) ht(1) filled(2) by (auto simp: even_rows list_all_iff)
  moreover have "1 \<le> length t" using ht(2) by (cases t) auto
  ultimately show ?thesis using p ok(2,4) ht(1) by (simp add: csv_table_ok_def)
qed

subsection \<open>The round trip\<close>

text \<open>C15. The tables the import accepts are exactly those with distinct visible headers, one to a hundred visible
  rows and a cell for each header; and such a table, written with any line end, with or without one
  at the end, and with quotes wherever the writer likes, is parsed back to exactly the same headers
  and cells, commas, quotes and line breaks within cells included.\<close>

theorem csv_roundtrip:
  assumes "eol \<in> line_ends" "tail = [] \<or> tail = eol"
  shows "((\<exists>source. parseCsv source = Inr p) \<longleftrightarrow> csv_table_ok p)
    \<and> (csv_table_ok p \<longleftrightarrow> parseCsv (print_csv q eol p @ tail) = Inr p)"
  using printed_table_parses[OF _ assms] parsed_table_ok by blast

subsection \<open>Validated records\<close>





subsection \<open>Cells\<close>






subsection \<open>The rows of a file\<close>






subsection \<open>The choice of the collection\<close>

lemma insert_by_set [simp]: "set (insert_by le x xs) = insert x (set xs)"
  by (induction xs) auto

lemma js_sort_by_set [simp]: "set (js_sort_by le xs) = set xs"
  unfolding js_sort_by_def by (induction xs) auto





subsection \<open>The proposal\<close>



end
