(* ===== verification/ModuleBulkSamples.thy ===== *)
theory ModuleBulkSamples
  imports ModuleBulkProperties ModuleCsvProperties ModuleSamples
begin

text \<open>
  A message with a CSV file of one note, the import it is answered with, the batch created twice, and
  two headers that the import misreads.
\<close>

subsection \<open>A file\<close>

definition note_table :: parsed_csv where
  "note_table = \<lparr>pc_headers = [''title''], pc_rows = [[''t'']]\<rparr>"


lemma note_table_parses: "parseCsv (''title'' @ [CR, LF] @ ''t'') = Inr note_table"
  unfolding note_table_def by code_simp

lemma csv_roundtrip_witness: "parseCsv (print_csv (\<lambda>s. s = ''t'') [CR, LF] note_table @ []) = Inr note_table"
proof -
  have "[CR, LF] \<in> line_ends" by (simp add: line_ends_def)
  from csv_roundtrip[OF this, of "[]" note_table "\<lambda>s. s = ''t''"] note_table_parses show ?thesis by blast
qed

















subsection \<open>A batch\<close>

definition batch_json :: jsv where
  "batch_json = JObj [(''module_id'', JStr ''a.b''), (''collection_key'', JStr ''notes''),
     (''expected_manifest_digest'', JStr sample_digest), (''rows'', JArr [row_json [(''title'', JStr ''t'')]]),
     (''idempotency_key'', JStr ''b'')]"

definition batch_request :: bulk_request where
  "batch_request = \<lparr>br_module_id = ''a.b'', br_collection_key = ''notes'', br_manifest_digest = sample_digest,
     br_rows = [[(''title'', JStr ''t'')]], br_idempotency_key = ''b'', br_module_name = None,
     br_collection_name = None, br_source_file_name = None\<rparr>"

lemma batch_parses: "parse_bulk batch_json = Inr batch_request"
  by (simp add: parse_bulk_def ModuleRecordBulkCreateRequestSchema_def batch_json_def bulk_request_keys_def data_prop_def
      checked_def row_json_def note_schema_defs optional_label_def batch_request_def)

lemma batch_row: "row_request module_env0 batch_request 0 = note_request\<lparr>cr_idempotency_key := ''bulk-row:0''\<rparr>"
  by (simp add: row_request_def note_request_def rowIdempotencyKey_def batch_request_def js_slice_def)

lemma keyed_note:
  assumes "k \<noteq> []"
  shows "createModuleRecord module_env0 w admin_actor (note_request\<lparr>cr_idempotency_key := k\<rparr>) installed_store
     = Inr ((Some (note_row ''t'' 1), note_result 1), created_store)"
proof -
  have new: "new_record module_env0 admin_actor (note_request\<lparr>cr_idempotency_key := k\<rparr>) notes_installation notes_version
      [(''title'', JStr ''t'')] None installed_store = note_row ''t'' 1"
    using new_note by (simp add: new_record_def)
  show ?thesis
    unfolding createModuleRecord_def createModuleRecordWithExecutor_def Let_def
    by (simp add: assms admin_valid findMutationReplay_def installed_rows note_request_simps admin_policy notes_found notes_expected
        notes_version_verifies note_data no_relations note_members note_projection new insert_record_def
        finish_mutation_def note_result_of insertAudit_def insertMutationReceipt_def note_simps notes_rows
        created_store_def note_receipt_def note_audit_def sorted_names_def js_uniq_def resource_of_def eval_nat_numeral require_def)
qed

lemma keyed_note_again:
  "createModuleRecord module_env0 w admin_actor (note_request\<lparr>cr_idempotency_key := k\<rparr>) created_store
     = Inr ((None, note_result 1\<lparr>mres_replayed := True\<rparr>), created_store)"
  by (simp add: createModuleRecord_def createModuleRecordWithExecutor_def admin_valid findMutationReplay_def created_rows
      receipt_matches_def note_receipt_def require_def record_by_id_def note_simps notes_found notes_rows note_result_def
      formatModuleRecordResourceId_def text_defs)

lemma batch_result_ok: "bulk_result_ok (progress_of batch_request [note_result 1] None)"
    "bulk_result_ok (progress_of batch_request [note_result 1\<lparr>mres_replayed := True\<rparr>] None)"
  by (simp_all add: bulk_result_ok_def progress_of_def batch_request_def ModuleRecordResourceIdSchema_def note_schema_defs)

lemma batch_created: "executeModuleRecordBulkCreate module_env0 w (\<lambda>k s. s) admin_actor batch_json installed_store
    = (Inr (progress_of batch_request [note_result 1] None), created_store)"
  using batch_result_ok by (simp add: executeModuleRecordBulkCreate_def batch_parses batch_row keyed_note)
    (simp add: batch_request_def batch_row[unfolded batch_request_def] keyed_note)

lemma batch_repeated: "executeModuleRecordBulkCreate module_env0 w (\<lambda>k s. s) admin_actor batch_json created_store
    = (Inr (progress_of batch_request [note_result 1\<lparr>mres_replayed := True\<rparr>] None), created_store)"
  using batch_result_ok by (simp add: executeModuleRecordBulkCreate_def batch_parses batch_row keyed_note_again)
    (simp add: batch_request_def batch_row[unfolded batch_request_def] keyed_note_again)

lemma resubmitted_batch_creates_no_row_twice_witness:
  "bp_created (progress_of batch_request [note_result 1\<lparr>mres_replayed := True\<rparr>] None) \<le> 0"
  using resubmitted_batch_creates_no_row_twice[OF installed_reachable _ _
      batch_created[where w = "\<lambda>_. module_world0"] _ rtranclp.rtrancl_refl batch_repeated[where w = "\<lambda>_. module_world0"]]
  by (simp add: progress_of_def)

subsection \<open>Headers that are misread\<close>

text \<open>A header without a Latin letter or digit has the empty name, and so does a label without one: the column
  is imported into the field, whatever the two say.\<close>

definition foreign_field :: module_field where
  "foreign_field = \<lparr>mf_key = ''size'', mf_label = [CHR 0xDC], mf_description = None, mf_required = False, mf_type = FtText None\<rparr>"

lemma foreign_header_takes_foreign_label:
  "header_field (notes_collection\<lparr>mc_fields := [title_field, foreign_field]\<rparr>) [CHR 0xC9] = Inr foreign_field"
  by code_simp

text \<open>A column named by the key of a field and another named by its label are both taken for the field; the
  later one wins and nothing is reported.\<close>

lemma label_column_overwrites_key_column:
  "map_res (header_field notes_collection) [''title'', ''T''] = Inr [title_field, title_field]
   \<and> row_data 0 [((''title'', title_field), ''a''), ((''T'', title_field), ''b'')] [] = Inr [(''title'', JStr ''b'')]"
  by code_simp

end
