(* ===== verification/CivilDate.thy ===== *)
theory CivilDate
  imports Prelude
begin

text \<open>
  The calendar of the JavaScript \<open>Date\<close>: days since 1970-01-01 and the proleptic Gregorian date of
  a day, as the language defines them, with the texts in the form \<open>YYYY-MM-DD\<close> and \<open>HH:MM\<close>.
\<close>

subsection \<open>Years and months\<close>

text \<open>\<open>DayFromYear\<close> of the language definition.\<close>

definition day_of_year_start :: "int \<Rightarrow> int" where
  "day_of_year_start y =
     365 * (y - 1970) + (y - 1969) div 4 - (y - 1901) div 100 + (y - 1601) div 400"

definition is_leap :: "int \<Rightarrow> bool" where
  "is_leap y \<longleftrightarrow> y mod 4 = 0 \<and> (y mod 100 \<noteq> 0 \<or> y mod 400 = 0)"

definition month_lengths :: "int \<Rightarrow> int list" where
  "month_lengths y = [31, if is_leap y then 29 else 28, 31, 30, 31, 30, 31, 31, 30, 31, 30, 31]"

text \<open>The day with a given distance from the first day of a month, which may lie outside the month.\<close>

definition month_start :: "int \<Rightarrow> int \<Rightarrow> int" where
  "month_start y m = day_of_year_start y + sum_list (take (nat (m - 1)) (month_lengths y))"

definition day_number :: "int \<Rightarrow> int \<Rightarrow> int \<Rightarrow> int" where
  "day_number y m d = month_start y m + d - 1"

text \<open>\<open>YearFromTime\<close>: the last year that does not start after the day.\<close>

function year_down :: "int \<Rightarrow> int \<Rightarrow> int" where
  "year_down n y = (if day_of_year_start y \<le> n then y else year_down n (y - 1))"
  by pat_completeness auto

definition year_of_day :: "int \<Rightarrow> int" where
  "year_of_day n = year_down n (if n \<ge> 0 then 1970 + n div 365 else 1969)"

text \<open>\<open>MonthFromTime\<close> and \<open>DateFromTime\<close>: month and day from the lengths of the months.\<close>

fun month_scan :: "int list \<Rightarrow> int \<Rightarrow> int \<times> int" where
  "month_scan [] d = (1, d + 1)"
| "month_scan (l # ls) d = (if d < l then (1, d + 1) else let (m, r) = month_scan ls (d - l) in (m + 1, r))"

definition civil_of_day :: "int \<Rightarrow> int \<times> int \<times> int" where
  "civil_of_day n = (let y = year_of_day n in (y, month_scan (month_lengths y) (n - day_of_year_start y)))"

definition civil_ok :: "int \<times> int \<times> int \<Rightarrow> bool" where
  "civil_ok c = (case c of (y, m, d) \<Rightarrow> 1 \<le> m \<and> m \<le> 12 \<and> 1 \<le> d \<and> d \<le> month_lengths y ! nat (m - 1))"

lemma div_next: "0 < c \<Longrightarrow> (x + 1) div c = x div c + (if (x + 1) mod c = 0 then 1 else (0::int))"
proof -
  assume c: "0 < c"
  have x: "x = c * (x div c) + x mod c" and r: "0 \<le> x mod c" "x mod c < c" using c by simp_all
  show "(x + 1) div c = x div c + (if (x + 1) mod c = 0 then 1 else 0)"
  proof (cases "x mod c + 1 = c")
    case True
    have "x + 1 = c * (x div c) + c" using x True by linarith
    then have "x + 1 = c * (x div c + 1)" by (simp add: distrib_left)
    then show ?thesis using c by (metis mod_mult_self1_is_0 nonzero_mult_div_cancel_left less_irrefl)
  next
    case False
    then have "(x + 1) div c = x div c \<and> (x + 1) mod c = x mod c + 1"
      using x r by (intro conjI int_div_pos_eq[of "x + 1" c _ "x mod c + 1"] int_mod_pos_eq[of "x + 1" c "x div c"]) linarith+
    then show ?thesis using r by simp
  qed
qed

lemma year_step:
  assumes "S = 365 * k + 365 + (A + (if p then 1 else 0)) - (B + (if q then 1 else 0)) + (C + (if r then 1 else 0))"
    and "T = 365 * k + A - B + C" "r \<Longrightarrow> q" "q \<Longrightarrow> p"
  shows "S = T + (if p \<and> (\<not> q \<or> r) then 366 else (365::int))"
  using assms(3,4) unfolding assms(1,2) by (cases p; cases q; cases r) simp_all

lemma year_length: "day_of_year_start (y + 1) = day_of_year_start y + (if is_leap y then 366 else 365)"
proof -
  have a: "(y - 1968) div 4 = (y - 1969) div 4 + (if y mod 4 = 0 then 1 else 0)"
    using div_next[of 4 "y - 1969"] mod_mult_self1[of y "-492" 4] by simp
  have b: "(y - 1900) div 100 = (y - 1901) div 100 + (if y mod 100 = 0 then 1 else 0)"
    using div_next[of 100 "y - 1901"] mod_mult_self1[of y "-19" 100] by simp
  have c: "(y - 1600) div 400 = (y - 1601) div 400 + (if y mod 400 = 0 then 1 else 0)"
    using div_next[of 400 "y - 1601"] mod_mult_self1[of y "-4" 400] by simp
  have "(400::int) dvd y \<Longrightarrow> 100 dvd y" "(100::int) dvd y \<Longrightarrow> 4 dvd y"
    by (auto intro: dvd_trans[of 100 400] dvd_trans[of 4 100])
  then have d: "y mod 400 = 0 \<Longrightarrow> y mod 100 = 0" "y mod 100 = 0 \<Longrightarrow> y mod 4 = 0"
    by (simp_all add: dvd_eq_mod_eq_0)
  have "day_of_year_start (y + 1)
      = 365 * (y - 1970) + 365 + (y - 1968) div 4 - (y - 1900) div 100 + (y - 1600) div 400"
    by (simp add: day_of_year_start_def)
  from this[unfolded a b c] show ?thesis unfolding is_leap_def
    by (rule year_step[OF _ day_of_year_start_def d])
qed

lemma year_start_less: "day_of_year_start y < day_of_year_start (y + 1)"
  by (simp add: year_length)

lemma year_start_strict: "y < z \<Longrightarrow> day_of_year_start y < day_of_year_start z"
proof (induction "nat (z - y)" arbitrary: z)
  case (Suc k)
  have "day_of_year_start (z - 1) < day_of_year_start z" using year_start_less[of "z - 1"] by simp
  moreover have "y < z - 1 \<Longrightarrow> day_of_year_start y < day_of_year_start (z - 1)"
    using Suc(1)[of "z - 1"] Suc(2) by linarith
  moreover have "y < z - 1 \<or> y = z - 1" using Suc(3) by linarith
  ultimately show ?case by fastforce
qed simp

lemma year_start_mono: "y \<le> z \<Longrightarrow> day_of_year_start y \<le> day_of_year_start z"
  using year_start_strict[of y z] by (cases "y = z") auto

lemma year_start_eq_iff: "day_of_year_start y \<le> n \<and> n < day_of_year_start (y + 1)
    \<Longrightarrow> day_of_year_start z \<le> n \<and> n < day_of_year_start (z + 1) \<Longrightarrow> y = z"
  using year_start_mono[of "y + 1" z] year_start_mono[of "z + 1" y] by (metis add1_zle_eq le_less_trans linorder_neqE_linordered_idom not_less)

termination year_down
proof (relation "measure (\<lambda>(n, y). nat (day_of_year_start y - n))")
  fix n y assume "\<not> day_of_year_start y \<le> n"
  then show "((n, y - 1), n, y) \<in> measure (\<lambda>(n, y). nat (day_of_year_start y - n))"
    using year_start_less[of "y - 1"] by simp
qed simp

declare year_down.simps [simp del]

lemma year_down_ok:
  "n < day_of_year_start (y + 1) \<Longrightarrow>
     day_of_year_start (year_down n y) \<le> n \<and> n < day_of_year_start (year_down n y + 1)"
proof (induction n y rule: year_down.induct)
  case (1 n y)
  then show ?case by (subst (1 2) year_down.simps) auto
qed

lemma year_of_day_ok: "day_of_year_start (year_of_day n) \<le> n \<and> n < day_of_year_start (year_of_day n + 1)"
proof -
  have 0: "day_of_year_start 1970 = 0" by (simp add: day_of_year_start_def)
  have "n < day_of_year_start (1970 + n div 365 + 1)" if "n \<ge> 0"
  proof -
    let ?k = "n div 365 + 1"
    have k: "1 \<le> ?k" using that by simp
    have "(?k + 69) div 100 \<le> (?k + 1) div 4" if "1 \<le> (?k + 69) div 100"
    proof -
      have "100 * ((?k + 69) div 100) \<le> ?k + 69" by simp
      then have "(?k + 69) div 100 * 4 \<le> ?k + 1" using that by linarith
      then show ?thesis using zdiv_mono1[of _ _ 4] by fastforce
    qed
    moreover have "0 \<le> (?k + 1) div 4" "0 \<le> (?k + 369) div 400" using k by simp_all
    ultimately have le: "(?k + 69) div 100 \<le> (?k + 1) div 4 + (?k + 369) div 400" by linarith
    have "n < 365 * ?k" using div_mult_mod_eq[of n 365] pos_mod_bound[of 365 n, simplified] by (simp add: algebra_simps)
    then show ?thesis using le by (simp add: day_of_year_start_def algebra_simps)
  qed
  then show ?thesis unfolding year_of_day_def using 0 by (intro year_down_ok) auto
qed

lemma year_of_day_unique: "day_of_year_start y \<le> n \<Longrightarrow> n < day_of_year_start (y + 1) \<Longrightarrow> year_of_day n = y"
  using year_start_eq_iff[of y n "year_of_day n"] year_of_day_ok[of n] by blast

subsection \<open>Days and dates\<close>

lemma month_scan_ok:
  "0 \<le> d \<Longrightarrow> d < sum_list ls \<Longrightarrow> month_scan ls d = (m, r) \<Longrightarrow>
     1 \<le> m \<and> m \<le> int (length ls) \<and> 1 \<le> r \<and> r \<le> ls ! nat (m - 1) \<and> sum_list (take (nat (m - 1)) ls) + r - 1 = d"
proof (induction ls arbitrary: d m r)
  case (Cons l ls)
  show ?case
  proof (cases "d < l")
    case True
    then show ?thesis using Cons.prems by auto
  next
    case False
    obtain m' r' where scan: "month_scan ls (d - l) = (m', r')" by fastforce
    then have m: "m = m' + 1" "r = r'" using Cons.prems False by auto
    have ih: "1 \<le> m' \<and> m' \<le> int (length ls) \<and> 1 \<le> r' \<and> r' \<le> ls ! nat (m' - 1)
        \<and> sum_list (take (nat (m' - 1)) ls) + r' - 1 = d - l"
      using Cons.IH[OF _ _ scan] Cons.prems False by simp
    moreover have "nat m' = Suc (nat (m' - 1))" using ih by linarith
    ultimately show ?thesis using m by simp
  qed
qed simp

lemma month_scan_start:
  "\<forall>l \<in> set ls. 0 < l \<Longrightarrow> k < length ls \<Longrightarrow> 1 \<le> r \<Longrightarrow> r \<le> ls ! k
     \<Longrightarrow> month_scan ls (sum_list (take k ls) + r - 1) = (int k + 1, r)"
proof (induction ls arbitrary: k)
  case (Cons l ls)
  show ?case
  proof (cases k)
    case (Suc j)
    have "0 \<le> sum_list (take j ls)" using Cons.prems(1) by (intro sum_list_nonneg) (auto dest!: in_set_takeD)
    then show ?thesis using Cons Suc by (auto simp: algebra_simps)
  qed (use Cons.prems in simp)
qed simp

lemma month_lengths_facts:
  "length (month_lengths y) = 12" "\<forall>l \<in> set (month_lengths y). 0 < l"
  "sum_list (month_lengths y) = day_of_year_start (y + 1) - day_of_year_start y"
  by (simp_all add: month_lengths_def year_length)

lemma civil_of_day_ok:
  assumes "civil_of_day n = (y, m, d)"
  shows "civil_ok (y, m, d) \<and> day_number y m d = n"
proof -
  have y: "y = year_of_day n" and scan: "month_scan (month_lengths y) (n - day_of_year_start y) = (m, d)"
    using assms by (auto simp: civil_of_day_def Let_def)
  have "0 \<le> n - day_of_year_start y" "n - day_of_year_start y < sum_list (month_lengths y)"
    using year_of_day_ok[of n] y by (simp_all add: month_lengths_facts)
  from month_scan_ok[OF this scan] show ?thesis
    by (auto simp: civil_ok_def day_number_def month_start_def month_lengths_facts)
qed

lemma civil_of_day_number:
  assumes "civil_ok (y, m, d)"
  shows "civil_of_day (day_number y m d) = (y, m, d)"
proof -
  let ?n = "day_number y m d" and ?ls = "month_lengths y"
  have m: "1 \<le> m" "m \<le> 12" "1 \<le> d" "d \<le> ?ls ! nat (m - 1)" using assms by (auto simp: civil_ok_def)
  then have k: "nat (m - 1) < length ?ls" by (simp add: month_lengths_facts)
  have n: "?n = day_of_year_start y + (sum_list (take (nat (m - 1)) ?ls) + d - 1)"
    by (simp add: day_number_def month_start_def)
  have sum: "sum_list ?ls = sum_list (take (nat (m - 1)) ?ls) + ?ls ! nat (m - 1) + sum_list (drop (Suc (nat (m - 1))) ?ls)"
    by (subst id_take_nth_drop[OF k]) simp
  have "0 \<le> sum_list (take (nat (m - 1)) ?ls)" "0 \<le> sum_list (drop (Suc (nat (m - 1))) ?ls)"
    using month_lengths_facts(2)[of y] by (auto intro!: sum_list_nonneg dest!: in_set_takeD in_set_dropD)
  then have "year_of_day ?n = y"
    using n sum m(3,4) month_lengths_facts(3)[of y] by (intro year_of_day_unique) linarith+
  moreover have "month_scan ?ls (?n - day_of_year_start y) = (m, d)"
    using month_scan_start[OF month_lengths_facts(2) k m(3,4)] m(1) n by simp
  ultimately show ?thesis by (simp add: civil_of_day_def Let_def)
qed

lemma day_number_civil: "(case civil_of_day n of (y, m, d) \<Rightarrow> day_number y m d) = n"
  using civil_of_day_ok by (cases "civil_of_day n") fastforce

lemma civil_ok_of_day: "civil_ok (civil_of_day n)"
  using civil_of_day_ok by (cases "civil_of_day n") fastforce

lemma civil_of_day_inj: "civil_of_day n = civil_of_day k \<longleftrightarrow> n = k"
  using day_number_civil by metis

lemma next_civil:
  assumes "civil_of_day n = (y, m, d)"
  shows "civil_of_day (n + 1) =
    (if d < month_lengths y ! nat (m - 1) then (y, m, d + 1) else if m < 12 then (y, m + 1, 1) else (y + 1, 1, 1))"
proof -
  have ok: "civil_ok (y, m, d)" and n: "day_number y m d = n" using civil_of_day_ok[OF assms] by auto
  then have m: "1 \<le> m" "m \<le> 12" "1 \<le> d" "d \<le> month_lengths y ! nat (m - 1)" by (auto simp: civil_ok_def)
  have k: "nat (m - 1) < length (month_lengths y)" using m by (simp add: month_lengths_facts)
  have len: "1 \<le> month_lengths z ! j" if "j < 12" for z j
    using month_lengths_facts(1,2)[of z] that nth_mem[of j "month_lengths z"] by (simp add: int_one_le_iff_zero_less)
  consider "d < month_lengths y ! nat (m - 1)" | "d = month_lengths y ! nat (m - 1)" "m < 12" | "d = month_lengths y ! nat (m - 1)" "m = 12"
    using m by linarith
  then show ?thesis
  proof cases
    case 1
    have "civil_of_day (day_number y m (d + 1)) = (y, m, d + 1)" using 1 m by (intro civil_of_day_number) (simp add: civil_ok_def)
    then show ?thesis using 1 n by (simp add: day_number_def algebra_simps)
  next
    case 2
    have ok': "civil_of_day (day_number y (m + 1) 1) = (y, m + 1, 1)"
      using 2 m len[of "nat m" y] by (intro civil_of_day_number) (simp add: civil_ok_def)
    have "nat (m + 1 - 1) = Suc (nat (m - 1))" using m by linarith
    then have "day_number y (m + 1) 1 = n + 1"
      using n 2 k by (simp add: day_number_def month_start_def take_Suc_conv_app_nth)
    then show ?thesis using ok' 2 by simp
  next
    case 3
    have ok': "civil_of_day (day_number (y + 1) 1 1) = (y + 1, 1, 1)"
      using len[of 0 "y + 1"] by (intro civil_of_day_number) (simp add: civil_ok_def)
    have "month_lengths y = take 11 (month_lengths y) @ [month_lengths y ! 11]" by (simp add: month_lengths_def)
    then have "sum_list (month_lengths y) = sum_list (take 11 (month_lengths y)) + month_lengths y ! 11"
      by (metis sum_list.append sum_list_simps(1,2) sum_list.Cons sum_list.Nil add_0_right)
    then have "day_number (y + 1) 1 1 = n + 1"
      using n 3 month_lengths_facts(3)[of y] by (simp add: day_number_def month_start_def)
    then show ?thesis using ok' 3 by simp
  qed
qed

subsection \<open>Texts\<close>

definition pad_start :: "nat \<Rightarrow> string \<Rightarrow> string" where
  "pad_start k s = replicate (k - length s) (CHR ''0'') @ s"

definition date_text :: "int \<times> int \<times> int \<Rightarrow> string" where
  "date_text c = (case c of (y, m, d) \<Rightarrow> pad_start 4 (int_to_string y) @ ''-'' @ pad_start 2 (int_to_string m)
     @ ''-'' @ pad_start 2 (int_to_string d))"

definition time_text :: "int \<Rightarrow> int \<Rightarrow> string" where
  "time_text h mi = pad_start 2 (int_to_string h) @ '':'' @ pad_start 2 (int_to_string mi)"

text \<open>The digits of a number in a fixed width.\<close>

fun fix_digits :: "nat \<Rightarrow> nat \<Rightarrow> string" where
  "fix_digits 0 n = []"
| "fix_digits (Suc k) n = fix_digits k (n div 10) @ [digit_char (n mod 10)]"

lemma length_fix_digits [simp]: "length (fix_digits k n) = k"
  by (induction k arbitrary: n) auto

lemma digit_zero: "digit_char 0 = CHR ''0''"
  by code_simp

lemma fix_digits_zero: "fix_digits k 0 = replicate k (CHR ''0'')"
  by (induction k) (simp_all add: digit_zero replicate_append_same)

lemma length_nat_to_string: "n < 10 ^ k \<Longrightarrow> 0 < k \<Longrightarrow> length (nat_to_string n) \<le> k"
proof (induction k arbitrary: n)
  case (Suc k)
  show ?case
  proof (cases "n < 10")
    case False
    then have "n div 10 < 10 ^ k" "0 < k" using Suc.prems by (cases k; simp add: div_less_iff_less_mult)+
    then show ?thesis using Suc.IH[of "n div 10"] False by (simp add: nat_to_string.simps[of n])
  qed (simp add: nat_to_string.simps)
qed simp

lemma pad_nat: "n < 10 ^ k \<Longrightarrow> 0 < k \<Longrightarrow> pad_start k (nat_to_string n) = fix_digits k n"
proof (induction k arbitrary: n)
  case (Suc k)
  show ?case
  proof (cases "n < 10")
    case True
    then show ?thesis by (simp add: pad_start_def nat_to_string.simps fix_digits_zero)
  next
    case False
    then have n: "n div 10 < 10 ^ k" "0 < k" using Suc.prems by (cases k; simp add: div_less_iff_less_mult)+
    then show ?thesis using Suc.IH[OF n] False by (simp add: pad_start_def nat_to_string.simps[of n])
  qed
qed simp

lemma digit_char_less: "a < 10 \<Longrightarrow> b < 10 \<Longrightarrow> digit_char a < digit_char b \<longleftrightarrow> a < b"
  by (simp add: digit_char_def less_char_def)

lemma digit_char_eq: "a < 10 \<Longrightarrow> b < 10 \<Longrightarrow> digit_char a = digit_char b \<longleftrightarrow> a = b"
  by (simp add: digit_char_def)

lemma append_less: "length xs = length ys \<Longrightarrow> xs @ us < ys @ vs \<longleftrightarrow> xs < ys \<or> xs = ys \<and> us < vs" for xs :: string
  by (induction xs ys rule: list_induct2) auto

lemma fix_digits_eq: "a < 10 ^ k \<Longrightarrow> b < 10 ^ k \<Longrightarrow> fix_digits k a = fix_digits k b \<longleftrightarrow> a = b"
proof (induction k arbitrary: a b)
  case (Suc k)
  then have "a div 10 < 10 ^ k" "b div 10 < 10 ^ k" by (simp_all add: div_less_iff_less_mult)
  then show ?case using Suc.IH by (simp add: digit_char_eq) (metis mult_div_mod_eq)
qed simp

lemma last_digit_less: "r < 10 \<Longrightarrow> s < 10 \<Longrightarrow> 10 * q + r < 10 * p + s \<longleftrightarrow> q < p \<or> q = p \<and> r < s" for p q r s :: nat
  by (cases q p rule: linorder_cases) auto

lemma fix_digits_less: "a < 10 ^ k \<Longrightarrow> b < 10 ^ k \<Longrightarrow> fix_digits k a < fix_digits k b \<longleftrightarrow> a < b"
proof (induction k arbitrary: a b)
  case (Suc k)
  then have d: "a div 10 < 10 ^ k" "b div 10 < 10 ^ k" by (simp_all add: div_less_iff_less_mult)
  have "a < b \<longleftrightarrow> a div 10 < b div 10 \<or> a div 10 = b div 10 \<and> a mod 10 < b mod 10"
    using last_digit_less[of "a mod 10" "b mod 10" "a div 10" "b div 10"] by simp
  then show ?case using d Suc.IH by (simp add: append_less fix_digits_eq digit_char_less)
qed simp

text \<open>Years of four digits.\<close>

definition year4 :: "int \<times> int \<times> int \<Rightarrow> bool" where
  "year4 c \<longleftrightarrow> 0 \<le> fst c \<and> fst c < 10000"

lemma date_text_digits:
  assumes "civil_ok (y, m, d)" "year4 (y, m, d)"
  shows "date_text (y, m, d) = fix_digits 4 (nat y) @ ''-'' @ fix_digits 2 (nat m) @ ''-'' @ fix_digits 2 (nat d)
    \<and> nat m < 10 ^ 2 \<and> nat d < 10 ^ 2 \<and> nat y < 10 ^ 4"
proof -
  have "month_lengths y ! nat (m - 1) \<le> 31" if "1 \<le> m" "m \<le> 12"
  proof -
    have "month_lengths y ! nat (m - 1) \<in> set (month_lengths y)" using that by (intro nth_mem) (simp add: month_lengths_facts)
    then show ?thesis by (auto simp: month_lengths_def split: if_splits)
  qed
  then have b: "1 \<le> m" "m \<le> 12" "1 \<le> d" "d \<le> 31" "0 \<le> y" "y < 10000"
    using assms by (auto simp: civil_ok_def year4_def)
  then have "nat m < 10 ^ 2" "nat d < 10 ^ 2" "nat y < 10 ^ 4" by simp_all
  then show ?thesis using b by (simp add: date_text_def int_to_string_def pad_nat)
qed

definition civil_less :: "int \<times> int \<times> int \<Rightarrow> int \<times> int \<times> int \<Rightarrow> bool" where
  "civil_less a b = (case (a, b) of ((y, m, d), (y', m', d')) \<Rightarrow> y < y' \<or> y = y' \<and> (m < m' \<or> m = m' \<and> d < d'))"

lemma date_text_less:
  assumes "civil_ok a" "year4 a" "civil_ok b" "year4 b"
  shows "date_text a < date_text b \<longleftrightarrow> civil_less a b"
proof -
  obtain y m d where a: "a = (y, m, d)" by (cases a)
  obtain y' m' d' where b: "b = (y', m', d')" by (cases b)
  note da = date_text_digits[OF assms(1,2)[unfolded a]] and db = date_text_digits[OF assms(3,4)[unfolded b]]
  have "0 \<le> y" "0 \<le> m" "0 \<le> d" "0 \<le> y'" "0 \<le> m'" "0 \<le> d'"
    using assms a b by (auto simp: year4_def civil_ok_def)
  then show ?thesis using da db unfolding a b civil_less_def
    by (simp add: append_less fix_digits_less fix_digits_eq nat_less_eq_zless) (auto simp: nat_eq_iff)
qed

lemma next_civil_less: "civil_less (civil_of_day n) (civil_of_day (n + 1))"
  by (cases "civil_of_day n") (simp add: next_civil civil_less_def)

lemma civil_less_trans: "civil_less a b \<Longrightarrow> civil_less b c \<Longrightarrow> civil_less a c"
  by (auto simp: civil_less_def split: prod.splits)

lemma civil_less_irrefl: "\<not> civil_less a a"
  by (auto simp: civil_less_def split: prod.splits)

lemma civil_of_day_less: "civil_less (civil_of_day n) (civil_of_day k) \<longleftrightarrow> n < k"
proof -
  have up: "civil_less (civil_of_day a) (civil_of_day b)" if "a < b" for a b
    using that
  proof (induction "nat (b - a)" arbitrary: b)
    case (Suc j)
    show ?case
    proof (cases "a = b - 1")
      case True
      then show ?thesis using next_civil_less[of a] by simp
    next
      case False
      have "civil_less (civil_of_day a) (civil_of_day (b - 1))" using Suc False by (intro Suc(1)) linarith+
      then show ?thesis using next_civil_less[of "b - 1"] civil_less_trans by simp
    qed
  qed simp
  then show ?thesis using civil_less_irrefl civil_less_trans by (metis linorder_neqE_linordered_idom)
qed

text \<open>For days of these years the texts are ordered as the days are.\<close>

definition year4_day :: "int \<Rightarrow> bool" where
  "year4_day n \<longleftrightarrow> year4 (civil_of_day n)"

lemma date_text_of_day_less:
  "year4_day n \<Longrightarrow> year4_day k \<Longrightarrow> date_text (civil_of_day n) < date_text (civil_of_day k) \<longleftrightarrow> n < k"
  by (simp add: date_text_less civil_ok_of_day year4_day_def civil_of_day_less)

lemma date_text_of_day_le:
  "year4_day n \<Longrightarrow> year4_day k \<Longrightarrow> date_text (civil_of_day n) \<le> date_text (civil_of_day k) \<longleftrightarrow> n \<le> k"
  by (metis date_text_of_day_less not_less)

lemma year_of_day_mono: "n \<le> k \<Longrightarrow> year_of_day n \<le> year_of_day k"
  using year_of_day_ok[of n] year_of_day_ok[of k] year_start_mono[of "year_of_day k + 1" "year_of_day n"]
  by (metis add1_zle_eq le_less_trans not_le order_trans)

lemma fst_civil_of_day: "fst (civil_of_day n) = year_of_day n"
  by (simp add: civil_of_day_def Let_def)

lemma year4_day_between: "year4_day a \<Longrightarrow> year4_day b \<Longrightarrow> a \<le> n \<Longrightarrow> n \<le> b \<Longrightarrow> year4_day n"
  using year_of_day_mono[of a n] year_of_day_mono[of n b] by (simp add: year4_day_def year4_def fst_civil_of_day)

end
