(* ===== verification/AutomationSchedule.thy ===== *)
theory AutomationSchedule
  imports CivilDate ModuleSchema
begin

text \<open>
  The wall-clock rules of app automations (packages/app-kit/src/automation-schedule.ts): the instant of
  a local date and time, the local dates a scanner looks at, whether an occurrence is due, and the next
  one.  The formatter of the runtime is the argument \<open>zones\<close>: for a time zone and an instant in
  milliseconds it gives year, month, day, hour, minute and second of the wall clock, or nothing when the
  zone is unknown or a part is no number.
\<close>

type_synonym wall_clock = "int \<times> int \<times> int \<times> int \<times> int \<times> int"

type_synonym zones = "string \<Rightarrow> int \<Rightarrow> wall_clock option"

datatype schedule_error = ScheduleInvalid | TimezoneUnavailable

definition ms_per_day :: int where
  "ms_per_day = 24 * 60 * 60000"

subsection \<open>Instants\<close>

record local_parts =
  lp_date :: string
  lp_time :: string
  lp_clock :: wall_clock

definition localParts :: "zones \<Rightarrow> int \<Rightarrow> string \<Rightarrow> schedule_error + local_parts" where
  "localParts zones at_ms tz = (case zones tz at_ms of
       None \<Rightarrow> Throw TimezoneUnavailable
     | Some (y, m, d, h, mi, s) \<Rightarrow>
         Ok \<lparr>lp_date = date_text (y, m, d), lp_time = time_text h mi, lp_clock = (y, m, d, h, mi, s)\<rparr>)"

text \<open>
  \<open>Date.UTC\<close>: a year below 100 counts from 1900, a month outside the year carries over.
\<close>

definition Date_UTC :: "int \<Rightarrow> int \<Rightarrow> int \<Rightarrow> int \<Rightarrow> int \<Rightarrow> int \<Rightarrow> int \<Rightarrow> int" where
  "Date_UTC y m0 d h mi s ms =
     (let year = (if 0 \<le> y \<and> y \<le> 99 then 1900 + y else y)
      in day_number (year + m0 div 12) (m0 mod 12 + 1) d * ms_per_day + ((h * 60 + mi) * 60 + s) * 1000 + ms)"

text \<open>\<open>/^([01]\d|2[0-3]):([0-5]\d)$/\<close>.\<close>

definition time_groups :: "string \<Rightarrow> (nat \<times> nat) option" where
  "time_groups s =
     (if length s = 5 \<and> js_digits 2 (take 2 s) \<and> s ! 2 = CHR '':'' \<and> js_digits 2 (drop 3 s)
         \<and> digits_value (take 2 s) \<le> 23 \<and> digits_value (drop 3 s) \<le> 59
      then Some (digits_value (take 2 s), digits_value (drop 3 s)) else None)"

definition parseLocal :: "string \<Rightarrow> string \<Rightarrow> schedule_error + int" where
  "parseLocal date time = (case (date_groups date, time_groups time) of
       (Some (y, m, d), Some (h, mi)) \<Rightarrow>
         (let utcShape = Date_UTC (int y) (int m - 1) (int d) (int h) (int mi) 0 0
          in if civil_of_day (utcShape div ms_per_day) \<noteq> (int y, int m, int d) then Throw ScheduleInvalid
             else Ok utcShape)
     | _ \<Rightarrow> Throw ScheduleInvalid)"

definition clock_utc :: "wall_clock \<Rightarrow> int \<Rightarrow> int" where
  "clock_utc c ms = (case c of (y, m, d, h, mi, s) \<Rightarrow> Date_UTC y (m - 1) d h mi s ms)"

definition offsetAt :: "zones \<Rightarrow> int \<Rightarrow> string \<Rightarrow> schedule_error + int" where
  "offsetAt zones at_ms tz = res_bind (localParts zones at_ms tz) (\<lambda>p. Ok (clock_utc (lp_clock p) 0 - at_ms))"

definition localWallClockShape :: "zones \<Rightarrow> int \<Rightarrow> string \<Rightarrow> schedule_error + int" where
  "localWallClockShape zones at_ms tz =
     res_bind (localParts zones at_ms tz) (\<lambda>p. Ok (clock_utc (lp_clock p) (at_ms mod 1000)))"

subsection \<open>Occurrences\<close>

record occurrence =
  oc_date :: string
  oc_time :: string
  oc_zone :: string
  oc_resolved :: "int option"

fun shows_time :: "zones \<Rightarrow> string \<Rightarrow> string \<Rightarrow> string \<Rightarrow> int list \<Rightarrow> schedule_error + int list" where
  "shows_time zones tz date time [] = Ok []"
| "shows_time zones tz date time (c # cs) =
     res_bind (localParts zones c tz) (\<lambda>p.
     res_bind (shows_time zones tz date time cs) (\<lambda>rest.
     Ok (if lp_date p = date \<and> lp_time p = time then c # rest else rest)))"

definition resolveAppAutomationOccurrence ::
    "zones \<Rightarrow> string \<Rightarrow> string \<Rightarrow> string \<Rightarrow> schedule_error + occurrence" where
  "resolveAppAutomationOccurrence zones date time tz =
     res_bind (parseLocal date time) (\<lambda>shape.
     res_bind (offsetAt zones (shape - 36 * 60 * 60000) tz) (\<lambda>o1.
     res_bind (offsetAt zones shape tz) (\<lambda>o2.
     res_bind (offsetAt zones (shape + 36 * 60 * 60000) tz) (\<lambda>o3.
     res_bind (shows_time zones tz date time (map (\<lambda>off. shape - off) (js_uniq [o1, o2, o3]))) (\<lambda>candidates.
     Ok \<lparr>oc_date = date, oc_time = time, oc_zone = tz,
       oc_resolved = (case sort candidates of [] \<Rightarrow> None | c # _ \<Rightarrow> Some c)\<rparr>)))))"

definition appAutomationLocalDate :: "zones \<Rightarrow> int \<Rightarrow> string \<Rightarrow> schedule_error + string" where
  "appAutomationLocalDate zones at_ms tz = res_bind (localParts zones at_ms tz) (\<lambda>p. Ok (lp_date p))"

definition nextLogicalDate :: "string \<Rightarrow> schedule_error + string" where
  "nextLogicalDate date =
     res_bind (parseLocal date ''00:00'') (\<lambda>shape. Ok (date_text (civil_of_day ((shape + ms_per_day) div ms_per_day))))"

definition max_days_of :: "int option \<Rightarrow> int" where
  "max_days_of max_days = max 1 (min 31 (case max_days of None \<Rightarrow> 31 | Some n \<Rightarrow> n))"

text \<open>The loop over the dates; the step to the next date is taken after every round.\<close>

function list_dates :: "string \<Rightarrow> string \<Rightarrow> int \<Rightarrow> string list \<Rightarrow> schedule_error + string list" where
  "list_dates cursor last_date maxDays dates =
     (if cursor \<le> last_date \<and> int (length dates) < maxDays
      then case nextLogicalDate cursor of
             Inl e \<Rightarrow> Throw e
           | Inr cursor' \<Rightarrow> list_dates cursor' last_date maxDays (dates @ [cursor])
      else Ok dates)"
  by pat_completeness auto
termination
  by (relation "measure (\<lambda>(cursor, last_date, maxDays, dates). nat (maxDays - int (length dates)))") auto

declare list_dates.simps [simp del]

definition listAppAutomationLogicalDates ::
    "zones \<Rightarrow> int \<Rightarrow> int \<Rightarrow> string \<Rightarrow> int option \<Rightarrow> schedule_error + string list" where
  "listAppAutomationLogicalDates zones eligible_after now tz max_days =
     res_bind (appAutomationLocalDate zones eligible_after tz) (\<lambda>start.
     res_bind (appAutomationLocalDate zones now tz) (\<lambda>last_date.
     list_dates start last_date (max_days_of max_days) []))"

datatype skip_reason = DstGap | MisfireSkipped

datatype occurrence_decision = NotEligible | Future | PendingFire occurrence | SkippedFire skip_reason occurrence

definition classifyAppAutomationOccurrence ::
    "zones \<Rightarrow> occurrence \<Rightarrow> int \<Rightarrow> int \<Rightarrow> int option \<Rightarrow> int \<Rightarrow> schedule_error + occurrence_decision" where
  "classifyAppAutomationOccurrence zones occ now eligible_after eligible_before window =
     (case oc_resolved occ of
        None \<Rightarrow>
          res_bind (parseLocal (oc_date occ) (oc_time occ)) (\<lambda>shape.
          res_bind (localWallClockShape zones eligible_after (oc_zone occ)) (\<lambda>after.
          if shape \<le> after then Ok NotEligible else
          res_bind (case eligible_before of
              None \<Rightarrow> Ok False
            | Some b \<Rightarrow> res_bind (localWallClockShape zones b (oc_zone occ)) (\<lambda>bs. Ok (shape \<ge> bs))) (\<lambda>late.
          if late then Ok NotEligible else
          res_bind (localParts zones now (oc_zone occ)) (\<lambda>current.
          if oc_date occ @ ''T'' @ oc_time occ \<le> lp_date current @ ''T'' @ lp_time current
          then Ok (SkippedFire DstGap occ) else Ok Future))))
      | Some resolvedAt \<Rightarrow>
          if resolvedAt \<le> eligible_after \<or> (case eligible_before of None \<Rightarrow> False | Some b \<Rightarrow> resolvedAt \<ge> b)
          then Ok NotEligible
          else if resolvedAt > now then Ok Future
          else if now - resolvedAt \<le> window * 60000 then Ok (PendingFire occ)
          else Ok (SkippedFire MisfireSkipped occ))"

text \<open>The search over \<open>maxDays\<close> dates; \<open>continue\<close> is the step to the next date.\<close>

fun next_search ::
    "zones \<Rightarrow> string \<Rightarrow> string \<Rightarrow> int \<Rightarrow> int \<Rightarrow> int option \<Rightarrow> nat \<Rightarrow> string \<Rightarrow> schedule_error + occurrence option" where
  "next_search zones time tz now eligible_after eligible_before 0 localDate = Ok None"
| "next_search zones time tz now eligible_after eligible_before (Suc n) localDate =
     res_bind (resolveAppAutomationOccurrence zones localDate time tz) (\<lambda>occ.
     case oc_resolved occ of
       Some resolvedAt \<Rightarrow>
         if resolvedAt \<le> now \<or> resolvedAt \<le> eligible_after
         then res_bind (nextLogicalDate localDate) (next_search zones time tz now eligible_after eligible_before n)
         else if (case eligible_before of None \<Rightarrow> False | Some b \<Rightarrow> resolvedAt \<ge> b) then Ok None
         else Ok (Some occ)
     | None \<Rightarrow> res_bind (nextLogicalDate localDate) (next_search zones time tz now eligible_after eligible_before n))"

definition nextEligibleAppAutomationOccurrence ::
    "zones \<Rightarrow> string \<Rightarrow> string \<Rightarrow> int \<Rightarrow> int \<Rightarrow> int option \<Rightarrow> int option \<Rightarrow> schedule_error + occurrence option" where
  "nextEligibleAppAutomationOccurrence zones time tz now eligible_after eligible_before max_days =
     res_bind (appAutomationLocalDate zones (if now > eligible_after then now else eligible_after) tz)
       (next_search zones time tz now eligible_after eligible_before (nat (max_days_of max_days)))"

end
