(* ===== verification/AutomationTimes.thy ===== *)
theory AutomationTimes
  imports AutomationSchedule
begin

text \<open>
  What the wall-clock rules guarantee: dates read back, the dates a scanner looks at are consecutive
  and end, an occurrence is the earliest instant at which the clocks of the zone show its time, and an
  announced occurrence is one that the classification accepts while it is due.
\<close>

subsection \<open>Dates and times read back\<close>

lemma js_is_digit_char: "d < 10 \<Longrightarrow> js_is_digit (digit_char d)" "d < 10 \<Longrightarrow> digit_value (digit_char d) = d"
  by (simp_all add: digit_char_def js_is_digit_def digit_value_def code_unit_def)

lemma list_all_fix_digits: "list_all js_is_digit (fix_digits k n)"
  by (induction k arbitrary: n) (auto simp: js_is_digit_char)

lemma js_digits_fix: "js_digits k (fix_digits k n)"
  by (simp add: js_digits_def list_all_fix_digits)

lemma digits_value_append: "digits_value (s @ [c]) = 10 * digits_value s + digit_value c"
  by (simp add: digits_value_def)

lemma digits_value_fix: "n < 10 ^ k \<Longrightarrow> digits_value (fix_digits k n) = n"
proof (induction k arbitrary: n)
  case (Suc k)
  then have "n div 10 < 10 ^ k" by (simp add: div_less_iff_less_mult)
  then show ?case using Suc.IH by (simp add: digits_value_append js_is_digit_char)
qed (simp add: digits_value_def)

lemma date_groups_fixed:
  assumes "y < 10 ^ 4" "m < 10 ^ 2" "d < 10 ^ 2"
  shows "date_groups (fix_digits 4 y @ ''-'' @ fix_digits 2 m @ ''-'' @ fix_digits 2 d) = Some (y, m, d)"
  using assms by (simp add: date_groups_def nth_append js_digits_fix digits_value_fix)

lemma time_text_fixed:
  assumes "0 \<le> h" "h < 24" "0 \<le> mi" "mi < 60"
  shows "time_text h mi = fix_digits 2 (nat h) @ '':'' @ fix_digits 2 (nat mi)" "nat h < 10 ^ 2" "nat mi < 10 ^ 2"
proof -
  show "nat h < 10 ^ 2" "nat mi < 10 ^ 2" using assms by simp_all
  then show "time_text h mi = fix_digits 2 (nat h) @ '':'' @ fix_digits 2 (nat mi)"
    using assms by (simp add: time_text_def int_to_string_def pad_nat)
qed

lemma time_groups_text:
  assumes "0 \<le> h" "h < 24" "0 \<le> mi" "mi < 60"
  shows "time_groups (time_text h mi) = Some (nat h, nat mi)"
  using assms by (simp add: time_text_fixed[OF assms] time_groups_def nth_append js_digits_fix digits_value_fix nat_le_iff)

text \<open>Days of the years that \<open>Date.UTC\<close> takes as they are and that have four digits.\<close>

definition plain_day :: "int \<Rightarrow> bool" where
  "plain_day n \<longleftrightarrow> 100 \<le> year_of_day n \<and> year_of_day n < 10000"

lemma plain_day_year4: "plain_day n \<Longrightarrow> year4_day n"
  by (simp add: plain_day_def year4_day_def year4_def fst_civil_of_day)

lemma date_groups_of_day:
  assumes "plain_day n" "civil_of_day n = (y, m, d)"
  shows "date_groups (date_text (civil_of_day n)) = Some (nat y, nat m, nat d)"
proof -
  have "civil_ok (y, m, d)" "year4 (y, m, d)"
    using plain_day_year4[OF assms(1)] civil_ok_of_day[of n] assms(2) by (simp_all add: year4_day_def)
  from date_text_digits[OF this] show ?thesis by (simp add: assms(2) date_groups_fixed[simplified])
qed

lemma Date_UTC_of_day:
  assumes "plain_day n" "civil_of_day n = (y, m, d)"
  shows "Date_UTC y (m - 1) d h mi s ms = n * ms_per_day + ((h * 60 + mi) * 60 + s) * 1000 + ms"
proof -
  have n: "day_number y m d = n" and m: "1 \<le> m" "m \<le> 12" using civil_of_day_ok[OF assms(2)] by (auto simp: civil_ok_def)
  have "100 \<le> y" using assms fst_civil_of_day[of n] by (simp add: plain_day_def)
  moreover have "(m - 1) div 12 = 0" "(m - 1) mod 12 = m - 1" using m by simp_all
  ultimately show ?thesis by (simp add: Date_UTC_def n)
qed

definition minute_of_day :: "int \<Rightarrow> int \<Rightarrow> int" where
  "minute_of_day h mi = (h * 60 + mi) * 60000"

lemma minute_of_day_bounds: "0 \<le> h \<Longrightarrow> h < 24 \<Longrightarrow> 0 \<le> mi \<Longrightarrow> mi < 60 \<Longrightarrow> 0 \<le> minute_of_day h mi \<and> minute_of_day h mi < ms_per_day"
  by (simp add: minute_of_day_def ms_per_day_def)

lemma parseLocal_of_day:
  assumes "plain_day n" "0 \<le> h" "h < 24" "0 \<le> mi" "mi < 60"
  shows "parseLocal (date_text (civil_of_day n)) (time_text h mi) = Inr (n * ms_per_day + minute_of_day h mi)"
proof -
  obtain y m d where c: "civil_of_day n = (y, m, d)" by (cases "civil_of_day n")
  have pos: "0 \<le> y" "0 \<le> m" "0 \<le> d"
    using civil_of_day_ok[OF c] assms(1) fst_civil_of_day[of n] c by (auto simp: civil_ok_def plain_day_def)
  have "Date_UTC y (m - 1) d h mi 0 0 = n * ms_per_day + minute_of_day h mi"
    using Date_UTC_of_day[OF assms(1) c] by (simp add: minute_of_day_def)
  moreover have "(n * ms_per_day + minute_of_day h mi) div ms_per_day = n"
    using minute_of_day_bounds[OF assms(2-5)] by (simp add: ms_per_day_def)
  ultimately show ?thesis
    using date_groups_of_day[OF assms(1) c] time_groups_text[OF assms(2-5)] pos assms(2,4) c
    by (simp add: parseLocal_def Let_def)
qed

lemma midnight_text: "time_text 0 0 = ''00:00''"
  by code_simp

lemma nextLogicalDate_of_day:
  assumes "plain_day n"
  shows "nextLogicalDate (date_text (civil_of_day n)) = Inr (date_text (civil_of_day (n + 1)))"
  using parseLocal_of_day[OF assms, of 0 0]
  by (simp add: nextLogicalDate_def midnight_text minute_of_day_def ms_per_day_def algebra_simps)

subsection \<open>The dates of a scan\<close>

lemma plain_day_between: "plain_day a \<Longrightarrow> plain_day b \<Longrightarrow> a \<le> n \<Longrightarrow> n \<le> b \<Longrightarrow> plain_day n"
  using year_of_day_mono[of a n] year_of_day_mono[of n b] by (simp add: plain_day_def)

lemma plain_date_le:
  "plain_day a \<Longrightarrow> plain_day b \<Longrightarrow> date_text (civil_of_day a) \<le> date_text (civil_of_day b) \<longleftrightarrow> a \<le> b"
  by (simp add: date_text_of_day_le plain_day_year4)

definition day_texts :: "int \<Rightarrow> int \<Rightarrow> string list" where
  "day_texts a b = map (\<lambda>n. date_text (civil_of_day n)) [a .. b]"

lemma day_texts_Nil: "b < a \<Longrightarrow> day_texts a b = []"
  by (simp add: day_texts_def)

lemma day_texts_Cons: "a \<le> b \<Longrightarrow> day_texts a b = date_text (civil_of_day a) # day_texts (a + 1) b"
  by (simp add: day_texts_def upto_rec1)

lemma list_dates_run:
  assumes "plain_day a" "plain_day b" "plain_day (b + 1)"
  shows "list_dates (date_text (civil_of_day a)) (date_text (civil_of_day b)) k ds
    = Inr (ds @ day_texts a (min b (a + (k - int (length ds)) - 1)))"
  using assms(1)
proof (induction "nat (b + 1 - a)" arbitrary: a ds)
  case 0
  then have "\<not> a \<le> b" by linarith
  then show ?case using 0 assms(2) by (subst list_dates.simps) (simp add: plain_date_le day_texts_Nil)
next
  case (Suc j)
  then have ab: "a \<le> b" by linarith
  show ?case
  proof (cases "int (length ds) < k")
    case True
    have next_plain: "plain_day (a + 1)" 
      by (rule plain_day_between[OF Suc.prems assms(3)]) (use ab in simp_all)
    have j: "j = nat (b + 1 - (a + 1))" using Suc(2) by linarith
    have "list_dates (date_text (civil_of_day (a + 1))) (date_text (civil_of_day b)) k (ds @ [date_text (civil_of_day a)])
        = Inr ((ds @ [date_text (civil_of_day a)])
            @ day_texts (a + 1) (min b (a + 1 + (k - int (length (ds @ [date_text (civil_of_day a)]))) - 1)))"
      by (rule Suc(1)[OF j next_plain])
    also have "min b (a + 1 + (k - int (length (ds @ [date_text (civil_of_day a)]))) - 1) = min b (a + (k - int (length ds)) - 1)"
      by simp
    also have "(ds @ [date_text (civil_of_day a)]) @ day_texts (a + 1) (min b (a + (k - int (length ds)) - 1))
        = ds @ day_texts a (min b (a + (k - int (length ds)) - 1))"
      using day_texts_Cons[of a "min b (a + (k - int (length ds)) - 1)"] ab True by simp
    finally have rest: "list_dates (date_text (civil_of_day (a + 1))) (date_text (civil_of_day b)) k (ds @ [date_text (civil_of_day a)])
        = Inr (ds @ day_texts a (min b (a + (k - int (length ds)) - 1)))" .
    have "date_text (civil_of_day a) \<le> date_text (civil_of_day b)" using ab Suc.prems assms(2) by (simp add: plain_date_le)
    then show ?thesis using True rest nextLogicalDate_of_day[OF Suc.prems] by (subst list_dates.simps) simp
  next
    case False
    then show ?thesis by (subst list_dates.simps) (simp add: day_texts_Nil)
  qed
qed

lemma max_days_bounds: "1 \<le> max_days_of m" "max_days_of m \<le> 31"
  by (auto simp: max_days_of_def split: option.split)

text \<open>The enumeration of the local dates for a scan ends and gives exactly the consecutive dates from
  the first eligible one up to the current one, cut off after at most 31 of them.\<close>

theorem logical_dates_are_consecutive:
  assumes "localParts zones eligible_after tz = Inr p" "lp_date p = date_text (civil_of_day a)"
    and "localParts zones now tz = Inr q" "lp_date q = date_text (civil_of_day b)"
    and "101 \<le> year_of_day a" "year_of_day a \<le> 9998" "101 \<le> year_of_day b" "year_of_day b \<le> 9998"
  shows "\<exists>dates. listAppAutomationLogicalDates zones eligible_after now tz max_days = Inr dates
    \<and> dates = map (\<lambda>n. date_text (civil_of_day n)) [a .. min b (a + max_days_of max_days - 1)]
    \<and> length dates \<le> 31"
proof -
  have "plain_day a" "plain_day b" using assms(5-8) by (simp_all add: plain_day_def)
  moreover have "plain_day (b + 1)"
  proof -
    have "b + 1 < day_of_year_start (year_of_day b + 1 + 1)"
      using year_of_day_ok[of b] year_start_less[of "year_of_day b + 1"] by linarith
    then have "year_of_day (b + 1) < year_of_day b + 1 + 1"
      using year_of_day_ok[of "b + 1"] year_start_mono[of "year_of_day b + 1 + 1" "year_of_day (b + 1)"] by linarith
    then show ?thesis using year_of_day_mono[of b "b + 1"] assms(7,8) by (simp add: plain_day_def)
  qed
  ultimately have "list_dates (lp_date p) (lp_date q) (max_days_of max_days) []
      = Inr (day_texts a (min b (a + max_days_of max_days - 1)))"
    using list_dates_run[of a b "max_days_of max_days" "[]"] assms(2,4) by simp
  then show ?thesis using assms(1,3) max_days_bounds[of max_days]
    by (simp add: listAppAutomationLogicalDates_def appAutomationLocalDate_def day_texts_def)
qed

subsection \<open>The instant of an occurrence\<close>

text \<open>The wall clock of a zone that is given by its offset from UTC, in milliseconds, at every instant.\<close>

definition zone_clock :: "(int \<Rightarrow> int) \<Rightarrow> int \<Rightarrow> wall_clock" where
  "zone_clock off at_ms =
     (let t = at_ms + off at_ms; r = t mod ms_per_day
      in case civil_of_day (t div ms_per_day) of (y, m, d) \<Rightarrow> (y, m, d, r div 3600000, r div 60000 mod 60, r div 1000 mod 60))"

lemma wall_minutes:
  assumes "t mod 60000 = (0::int)" "r = t mod ms_per_day"
  shows "r div 1000 mod 60 = 0" "(r div 3600000 * 60 + r div 60000 mod 60) * 60000 = r"
    "0 \<le> r div 3600000" "r div 3600000 < 24" "0 \<le> r div 60000 mod 60" "r div 60000 mod 60 < 60"
proof -
  have r: "0 \<le> r" "r < ms_per_day" using assms(2) by (simp_all add: ms_per_day_def)
  have "(60000::int) dvd ms_per_day" by (simp add: ms_per_day_def)
  then have "r mod 60000 = 0" using assms by (simp add: mod_mod_cancel)
  then obtain k where k: "r = 60000 * k" by (auto simp: mod_eq_0_iff_dvd elim: dvdE)
  have "r div 60000 = k" using k by simp
  moreover have "r div 3600000 = k div 60" using k zdiv_zmult2_eq[of 60 "60000 * k" 60000] by simp
  moreover have "r div 1000 = k * 60" using k by simp
  ultimately show "r div 1000 mod 60 = 0" "(r div 3600000 * 60 + r div 60000 mod 60) * 60000 = r"
      "0 \<le> r div 3600000" "r div 3600000 < 24" "0 \<le> r div 60000 mod 60" "r div 60000 mod 60 < 60"
    using k r by (simp_all add: ms_per_day_def div_less_iff_less_mult pos_imp_zdiv_nonneg_iff)
qed

lemma time_text_inj:
  assumes "0 \<le> h" "h < 24" "0 \<le> mi" "mi < 60" "0 \<le> h'" "h' < 24" "0 \<le> mi'" "mi' < 60"
  shows "time_text h mi = time_text h' mi' \<longleftrightarrow> h = h' \<and> mi = mi'"
proof
  assume "time_text h mi = time_text h' mi'"
  then have "nat h = nat h'" "nat mi = nat mi'"
    using time_groups_text[OF assms(1-4)] time_groups_text[OF assms(5-8)] by simp_all
  then show "h = h' \<and> mi = mi'" using assms(1,3,5,7) by (simp add: eq_nat_nat_iff)
qed simp

lemma date_text_inj:
  "plain_day a \<Longrightarrow> plain_day b \<Longrightarrow> date_text (civil_of_day a) = date_text (civil_of_day b) \<longleftrightarrow> a = b"
  using plain_date_le[of a b] plain_date_le[of b a] by (metis order_antisym order_refl)

lemma near_plain:
  assumes "101 \<le> year_of_day n" "year_of_day n \<le> 9998" "\<bar>k - n\<bar> \<le> 3"
  shows "plain_day k"
proof -
  let ?y = "year_of_day n"
  have "day_of_year_start (?y - 1) + 365 \<le> day_of_year_start ?y" "day_of_year_start (?y + 1) + 365 \<le> day_of_year_start (?y + 2)"
    using year_length[of "?y - 1"] year_length[of "?y + 1"] by (simp_all add: add.commute)
  then have k: "day_of_year_start (?y - 1) \<le> k" "k < day_of_year_start (?y + 2)"
    using year_of_day_ok[of n] assms(3) by linarith+
  have "?y - 1 \<le> year_of_day k"
    using year_start_mono[of "year_of_day k + 1" "?y - 1"] year_of_day_ok[of k] k(1) by linarith
  moreover have "year_of_day k \<le> ?y + 1"
    using year_start_mono[of "?y + 2" "year_of_day k"] year_of_day_ok[of k] k(2) by linarith
  ultimately show ?thesis using assms(1,2) by (simp add: plain_day_def)
qed

lemma minutes_as_seconds: "(h * 60 + mi) * 60000 = r \<Longrightarrow> q + ((h * 60 + mi) * 60 + 0) * 1000 + 0 = q + (r :: int)"
  by simp

lemma zone_parts:
  assumes "zones tz at_ms = Some (zone_clock off at_ms)" "t = at_ms + off at_ms" "t mod 60000 = 0" "plain_day (t div ms_per_day)"
  shows "localParts zones at_ms tz = Inr \<lparr>lp_date = date_text (civil_of_day (t div ms_per_day)),
      lp_time = time_text (t mod ms_per_day div 3600000) (t mod ms_per_day div 60000 mod 60), lp_clock = zone_clock off at_ms\<rparr>"
    and "clock_utc (zone_clock off at_ms) 0 = t"
proof -
  obtain y m d where c: "civil_of_day (t div ms_per_day) = (y, m, d)" by (cases "civil_of_day (t div ms_per_day)")
  note w = wall_minutes[OF assms(3) refl]
  have z: "zone_clock off at_ms = (y, m, d, t mod ms_per_day div 3600000, t mod ms_per_day div 60000 mod 60, 0)"
    using w(1) c assms(2) by (simp add: zone_clock_def Let_def)
  show "localParts zones at_ms tz = Inr \<lparr>lp_date = date_text (civil_of_day (t div ms_per_day)),
      lp_time = time_text (t mod ms_per_day div 3600000) (t mod ms_per_day div 60000 mod 60), lp_clock = zone_clock off at_ms\<rparr>"
    using assms(1) c z by (simp add: localParts_def)
  have "clock_utc (zone_clock off at_ms) 0 = (t div ms_per_day) * ms_per_day
      + (((t mod ms_per_day div 3600000) * 60 + t mod ms_per_day div 60000 mod 60) * 60 + 0) * 1000 + 0"
    unfolding clock_utc_def z prod.case by (rule Date_UTC_of_day[OF assms(4) c])
  also have "\<dots> = (t div ms_per_day) * ms_per_day + t mod ms_per_day" by (rule minutes_as_seconds[OF w(2)])
  finally show "clock_utc (zone_clock off at_ms) 0 = t" by simp
qed

text \<open>
  The hypotheses on the zone: offsets of whole minutes within fifteen hours, and at most one change of
  the offset within 36 hours of the wall clock time.
\<close>

definition calm_zone :: "(int \<Rightarrow> int) \<Rightarrow> int \<Rightarrow> bool" where
  "calm_zone off shape \<longleftrightarrow> (\<forall>t. off t mod 60000 = 0 \<and> \<bar>off t\<bar> \<le> 15 * 3600000)
     \<and> (\<exists>c o1 o2. \<forall>t. \<bar>t - shape\<bar> \<le> 36 * 3600000 \<longrightarrow> off t = (if t < c then o1 else o2))"

lemma calm_candidates:
  assumes "calm_zone off shape" "u + off u = shape"
  shows "off u = off (shape - 36 * 3600000) \<or> off u = off (shape + 36 * 3600000)"
proof -
  obtain c o1 o2 where c: "\<And>t. \<bar>t - shape\<bar> \<le> 36 * 3600000 \<Longrightarrow> off t = (if t < c then o1 else o2)"
    using assms(1) by (auto simp: calm_zone_def)
  have "u - shape = - off u" using assms(2) by simp
  moreover have "\<bar>off u\<bar> \<le> 15 * 3600000" using assms(1) by (simp add: calm_zone_def)
  ultimately have u: "\<bar>u - shape\<bar> \<le> 15 * 3600000" by simp
  show ?thesis
  proof (cases "u < c")
    case True
    then have "off u = o1" "off (shape - 36 * 3600000) = o1" using c[of u] c[of "shape - 36 * 3600000"] u by auto
    then show ?thesis by simp
  next
    case False
    then have "off u = o2" "off (shape + 36 * 3600000) = o2" using c[of u] c[of "shape + 36 * 3600000"] u by auto
    then show ?thesis by simp
  qed
qed

lemma shows_time_filter:
  "(\<And>c. c \<in> set cs \<Longrightarrow> \<exists>p. localParts zones c tz = Inr p \<and> ((lp_date p = date \<and> lp_time p = time) = P c))
    \<Longrightarrow> shows_time zones tz date time cs = Inr (filter P cs)"
proof (induction cs)
  case (Cons c cs)
  obtain p where "localParts zones c tz = Inr p" "(lp_date p = date \<and> lp_time p = time) = P c"
    using Cons.prems[of c] by auto
  then show ?case using Cons by simp
qed simp

lemma offsetAt_zone:
  assumes "zones tz at_ms = Some (zone_clock off at_ms)" "(at_ms + off at_ms) mod 60000 = 0"
    "plain_day ((at_ms + off at_ms) div ms_per_day)"
  shows "offsetAt zones at_ms tz = Inr (off at_ms)"
  using zone_parts[of zones tz at_ms off "at_ms + off at_ms", OF assms(1) refl assms(2,3)] by (simp add: offsetAt_def)

lemma day_near:
  assumes "\<bar>x\<bar> \<le> k * ms_per_day" "0 \<le> r" "r < ms_per_day"
  shows "\<bar>(n * ms_per_day + r + x) div ms_per_day - n\<bar> \<le> k"
proof -
  have "(n * ms_per_day + r + x) div ms_per_day = n + (r + x) div ms_per_day"
    using div_mult_self1[of ms_per_day "r + x" n] by (simp add: ms_per_day_def algebra_simps)
  moreover have "(r + x) div ms_per_day < k + 1"
  proof -
    have "r + x < (k + 1) * ms_per_day" using assms by (simp add: algebra_simps abs_le_iff)
    moreover have "(r + x) div ms_per_day * ms_per_day \<le> r + x"
      using div_mult_mod_eq[of "r + x" ms_per_day] pos_mod_sign[of ms_per_day "r + x"] by (simp add: ms_per_day_def)
    ultimately have "(r + x) div ms_per_day * ms_per_day < (k + 1) * ms_per_day" by linarith
    then show ?thesis by (simp add: ms_per_day_def)
  qed
  moreover have "(- k * ms_per_day) div ms_per_day \<le> (r + x) div ms_per_day"
    using assms by (intro zdiv_mono1) (simp_all add: ms_per_day_def abs_le_iff)
  ultimately show ?thesis by (simp add: ms_per_day_def)
qed

lemma minute_of_day_parts:
  assumes "0 \<le> mi" "mi < 60"
  shows "minute_of_day h mi div 3600000 = h" "minute_of_day h mi div 60000 mod 60 = mi"
proof -
  have "minute_of_day h mi div 60000 = mi + h * 60" by (simp add: minute_of_day_def)
  moreover have "minute_of_day h mi div 3600000 = (minute_of_day h mi div 60000) div 60"
    using zdiv_zmult2_eq[of 60 "minute_of_day h mi" 60000] by simp
  ultimately show "minute_of_day h mi div 3600000 = h" "minute_of_day h mi div 60000 mod 60 = mi"
    using assms by simp_all
qed

text \<open>C24. In a zone whose offset changes at most once within 36 hours, the resolved instant of a local date
  and time is the earliest instant at which the wall clock shows them, and a gap is reported exactly
  when no instant shows them.\<close>

theorem resolved_instant_is_earliest:
  assumes "\<And>at_ms. zones tz at_ms = Some (zone_clock off at_ms)" and "shape = n * ms_per_day + minute_of_day h mi"
    and "calm_zone off shape" and "101 \<le> year_of_day n" "year_of_day n \<le> 9998"
    and "0 \<le> h" "h < 24" "0 \<le> mi" "mi < 60"
  shows "\<exists>occ. resolveAppAutomationOccurrence zones (date_text (civil_of_day n)) (time_text h mi) tz = Inr occ
    \<and> (case oc_resolved occ of
         None \<Rightarrow> \<forall>t. t + off t \<noteq> shape
       | Some t \<Rightarrow> t + off t = shape \<and> (\<forall>u. u + off u = shape \<longrightarrow> t \<le> u))"
proof -
  let ?date = "date_text (civil_of_day n)" and ?time = "time_text h mi" and ?w = "36 * 60 * 60000 :: int"
  note tod = minute_of_day_bounds[OF assms(6-9)]
  have off: "off t mod 60000 = 0" "\<bar>off t\<bar> \<le> 15 * 3600000" for t using assms(3) by (auto simp: calm_zone_def)
  have shape: "shape mod 60000 = 0" "shape div ms_per_day = n" "shape mod ms_per_day = minute_of_day h mi"
    using tod by (simp_all add: assms(2) ms_per_day_def minute_of_day_def mod_add_eq)
  have plain: "plain_day ((shape + x) div ms_per_day)" if "\<bar>x\<bar> \<le> 3 * ms_per_day" for x
    using near_plain[OF assms(4,5) day_near[OF that]] tod assms(2) by simp
  have day3: "3 * ms_per_day = 72 * 3600000" by (simp add: ms_per_day_def)
  have offset: "offsetAt zones (shape + x) tz = Inr (off (shape + x))" if "\<bar>x\<bar> \<le> ?w" "x mod 60000 = 0" for x
  proof -
    let ?o = "off (shape + x)"
    have eq: "shape + x + ?o = shape + (x + ?o)" by simp
    have "\<bar>x + ?o\<bar> \<le> 3 * ms_per_day" using that(1) off(2)[of "shape + x"] unfolding day3 by linarith
    then have "plain_day ((shape + x + ?o) div ms_per_day)" unfolding eq by (rule plain)
    moreover have "(shape + x + ?o) mod 60000 = 0"
      using shape(1) that(2) off(1)[of "shape + x"] by (simp add: mod_eq_0_iff_dvd)
    ultimately show ?thesis by (intro offsetAt_zone assms(1))
  qed
  let ?cs = "map (\<lambda>o1. shape - o1) (js_uniq [off (shape - ?w), off shape, off (shape + ?w)])"
  have shown: "shows_time zones tz ?date ?time ?cs = Inr (filter (\<lambda>c. c + off c = shape) ?cs)"
  proof (rule shows_time_filter)
    fix c assume "c \<in> set ?cs"
    then obtain v where c: "c = shape - off v" by auto
    let ?L = "c + off c"
    have eq: "?L = shape + (off c - off v)" by (simp add: c)
    have "\<bar>off c - off v\<bar> \<le> 3 * ms_per_day" using off(2)[of c] off(2)[of v] unfolding day3 by linarith
    then have pl: "plain_day (?L div ms_per_day)" unfolding eq by (rule plain)
    have L0: "?L mod 60000 = 0" unfolding eq
      using shape(1) off(1)[of c] off(1)[of v] by (simp add: mod_eq_0_iff_dvd)
    note parts = zone_parts[of zones tz c off ?L, OF assms(1) refl L0 pl] and w = wall_minutes[OF L0 refl]
    have pn: "plain_day n" using plain[of 0] shape(2) by (simp add: ms_per_day_def)
    have "(date_text (civil_of_day (?L div ms_per_day)) = ?date
        \<and> time_text (?L mod ms_per_day div 3600000) (?L mod ms_per_day div 60000 mod 60) = ?time) \<longleftrightarrow> ?L = shape"
    proof
      assume "date_text (civil_of_day (?L div ms_per_day)) = ?date
        \<and> time_text (?L mod ms_per_day div 3600000) (?L mod ms_per_day div 60000 mod 60) = ?time"
      then have "?L div ms_per_day = n" "?L mod ms_per_day div 3600000 = h \<and> ?L mod ms_per_day div 60000 mod 60 = mi"
        using date_text_inj[OF pl pn] time_text_inj[OF w(3-6) assms(6-9)] by auto
      then have "?L div ms_per_day = n" "?L mod ms_per_day = minute_of_day h mi" using w(2) by (auto simp: minute_of_day_def)
      then show "?L = shape" using div_mult_mod_eq[of ?L ms_per_day] assms(2) by simp
    next
      assume "?L = shape"
      then show "date_text (civil_of_day (?L div ms_per_day)) = ?date
        \<and> time_text (?L mod ms_per_day div 3600000) (?L mod ms_per_day div 60000 mod 60) = ?time"
        using shape(2,3) minute_of_day_parts[OF assms(8,9)] by simp
    qed
    then show "\<exists>p. localParts zones c tz = Inr p \<and> ((lp_date p = ?date \<and> lp_time p = ?time) = (c + off c = shape))"
      using parts(1) by simp
  qed
  define found where "found = filter (\<lambda>c. c + off c = shape) ?cs"
  have found: "u \<in> set found \<longleftrightarrow> u + off u = shape" for u
  proof
    assume u: "u + off u = shape"
    then have "u = shape - off u" by simp
    moreover have "off u \<in> {off (shape - ?w), off shape, off (shape + ?w)}" using calm_candidates[OF assms(3) u] by auto
    ultimately show "u \<in> set found" using u unfolding found_def by auto
  qed (simp add: found_def)
  have parse: "parseLocal ?date ?time = Inr shape"
    using parseLocal_of_day[OF _ assms(6-9), of n] plain[of 0] shape(2) assms(2) by (simp add: ms_per_day_def)
  have "resolveAppAutomationOccurrence zones ?date ?time tz = Inr \<lparr>oc_date = ?date, oc_time = ?time, oc_zone = tz,
       oc_resolved = (case sort found of [] \<Rightarrow> None | c # _ \<Rightarrow> Some c)\<rparr>"
    using parse offset[of "- ?w"] offset[of 0] offset[of ?w] shown
    by (simp add: resolveAppAutomationOccurrence_def found_def)
  moreover have "case (case sort found of [] \<Rightarrow> None | c # _ \<Rightarrow> Some c) of
         None \<Rightarrow> \<forall>t. t + off t \<noteq> shape
       | Some t \<Rightarrow> t + off t = shape \<and> (\<forall>u. u + off u = shape \<longrightarrow> t \<le> u)"
  proof (cases "sort found")
    case Nil
    then have "set found = {}" by (metis set_sort empty_set)
    then show ?thesis using Nil found by simp
  next
    case (Cons t ts)
    have "set found = insert t (set ts)" by (metis set_sort list.simps(15) Cons)
    moreover have "\<forall>u \<in> set ts. t \<le> u" using sorted_sort[of found] Cons by simp
    ultimately have "t \<in> set found" "\<forall>u \<in> set found. t \<le> u" by auto
    then show ?thesis using Cons found by simp
  qed
  ultimately show ?thesis by auto
qed

subsection \<open>The next occurrence\<close>

lemma shows_time_sound:
  "shows_time zones tz date time cs = Inr xs \<Longrightarrow> c \<in> set xs
     \<Longrightarrow> \<exists>p. localParts zones c tz = Inr p \<and> lp_date p = date \<and> lp_time p = time"
  by (induction cs arbitrary: xs) (auto simp: res_bind_Ok_iff split: if_split_asm)

lemma resolve_sound:
  assumes "resolveAppAutomationOccurrence zones date time tz = Inr occ"
  shows "oc_date occ = date" "oc_time occ = time" "oc_zone occ = tz"
    and "oc_resolved occ = Some t \<Longrightarrow> \<exists>p. localParts zones t tz = Inr p \<and> lp_date p = date \<and> lp_time p = time"
proof -
  obtain cs xs where xs: "shows_time zones tz date time cs = Inr xs"
    and occ: "occ = \<lparr>oc_date = date, oc_time = time, oc_zone = tz, oc_resolved = (case sort xs of [] \<Rightarrow> None | c # _ \<Rightarrow> Some c)\<rparr>"
    using assms unfolding resolveAppAutomationOccurrence_def res_bind_Ok_iff by (elim exE conjE) simp
  then show "oc_date occ = date" "oc_time occ = time" "oc_zone occ = tz" by simp_all
  assume "oc_resolved occ = Some t"
  then have "t \<in> set (sort xs)" using occ by (cases "sort xs") simp_all
  then show "\<exists>p. localParts zones t tz = Inr p \<and> lp_date p = date \<and> lp_time p = time"
    using shows_time_sound[OF xs] by simp
qed

lemma next_search_sound:
  assumes "next_search zones time tz now ea eb n date = Inr (Some occ)"
  shows "\<exists>date' t. resolveAppAutomationOccurrence zones date' time tz = Inr occ \<and> oc_resolved occ = Some t
    \<and> now < t \<and> ea < t \<and> (case eb of None \<Rightarrow> True | Some b \<Rightarrow> t < b)"
  using assms
proof (induction n arbitrary: date)
  case (Suc n)
  from Suc.prems obtain occ' where occ': "resolveAppAutomationOccurrence zones date time tz = Inr occ'"
    by (auto simp: res_bind_Ok_iff)
  show ?case
  proof (cases "oc_resolved occ'")
    case None
    then show ?thesis using Suc occ' by (auto simp: res_bind_Ok_iff)
  next
    case (Some t)
    show ?thesis
    proof (cases "t \<le> now \<or> t \<le> ea")
      case True
      then show ?thesis using Suc occ' Some by (auto simp: res_bind_Ok_iff)
    next
      case False
      then have "occ' = occ" "case eb of None \<Rightarrow> True | Some b \<Rightarrow> t < b"
        using Suc.prems occ' Some by (auto split: if_split_asm option.splits)
      then show ?thesis using occ' Some False by auto
    qed
  qed
qed simp

text \<open>The next run that is announced for an automation is one that the scan will take.  When
  \<open>nextEligibleAppAutomationOccurrence\<close> names an occurrence, its instant lies in the future and inside
  the eligible span, the clock of the zone shows the asked local time and the date of the occurrence at
  that instant, and in the fifteen minutes from it the scan classifies the occurrence as pending with
  the same bounds, before them as a future one.\<close>

theorem announced_fire_is_accepted:
  assumes "nextEligibleAppAutomationOccurrence zones time tz now ea eb max_days = Inr (Some occ)"
  shows "\<exists>t p. oc_resolved occ = Some t \<and> now < t \<and> ea < t \<and> (case eb of None \<Rightarrow> True | Some b \<Rightarrow> t < b)
    \<and> localParts zones t tz = Inr p \<and> lp_time p = time \<and> lp_date p = oc_date occ
    \<and> classifyAppAutomationOccurrence zones occ (t + int late) ea eb 15
        = Inr (if int late \<le> 15 * 60000 then PendingFire occ else SkippedFire MisfireSkipped occ)
    \<and> classifyAppAutomationOccurrence zones occ now ea eb 15 = Inr Future"
proof -
  from assms obtain start n where "next_search zones time tz now ea eb n start = Inr (Some occ)"
    by (auto simp: nextEligibleAppAutomationOccurrence_def res_bind_Ok_iff)
  from next_search_sound[OF this] obtain date t where
    found: "resolveAppAutomationOccurrence zones date time tz = Inr occ" "oc_resolved occ = Some t"
      "now < t" "ea < t" "case eb of None \<Rightarrow> True | Some b \<Rightarrow> t < b" by blast
  from resolve_sound[OF found(1)] found(2) obtain p where
    "localParts zones t tz = Inr p" "lp_date p = oc_date occ" "lp_time p = time" by auto
  with found(2-5) show ?thesis
    by (cases eb) (simp_all add: classifyAppAutomationOccurrence_def)
qed

end
