(* ===== verification/AutomationFires.thy ===== *)
theory AutomationFires
  imports AutomationSchedule ModuleStore
begin

text \<open>
  Automation definitions and their fires: the rows (packages/db/src/schema.ts) with their check
  constraints, unique indexes and guard triggers (upgrades/0.3.0-preview.26), and the statements of
  app-automation-repository.ts.  A fire is one occurrence of a definition on one local date.

  Columns that only pin the authority of a definition are left out.  A statement that a trigger, a
  check or an index refuses is an error, which aborts its transaction.
\<close>

subsection \<open>Rows\<close>

datatype definition_state = DefActive | DefPaused | DefRevoked | DefExpired

record auto_definition =
  ad_id :: string
  ad_org :: string
  ad_local_time :: string
  ad_timezone :: string
  ad_window :: int
  ad_max_runs :: int
  ad_max_pending :: int
  ad_valid_from :: int
  ad_valid_until :: int
  ad_state :: definition_state
  ad_epoch :: nat
  ad_changed_at :: int
  ad_revoked_at :: "int option"
  ad_expired_at :: "int option"

datatype fire_state = FirePending | FireClaimed | FireRunCreated | FireSkipped | FireDeadLetter

datatype fire_reason = ReasonRunCreated | ReasonDstGap | ReasonMisfire | ReasonExhausted | ReasonIneligible

record fire_row =
  fr_id :: string
  fr_org :: string
  fr_definition :: string
  fr_epoch :: nat
  fr_date :: string
  fr_time :: string
  fr_zone :: string
  fr_resolved :: "int option"
  fr_identity :: string
  fr_state :: fire_state
  fr_attempts :: nat
  fr_owner :: "string option"
  fr_token :: "string option"
  fr_claimed_at :: "int option"
  fr_lease :: "int option"
  fr_run :: "string option"
  fr_reason :: "fire_reason option"
  fr_terminal_at :: "int option"

record automation_store =
  as_definitions :: "auto_definition list"
  as_fires :: "fire_row list"
  as_next :: nat

datatype automation_error =
    AppNotFound | AppStale | AppActionInvalid | AppAccessDenied
  | ScheduleRefused schedule_error
  | RequestSchema
  | GuardRefused
  | CheckRefused
  | IndexRefused
  | ConflictWithoutOccurrence

definition active_fire :: "fire_row \<Rightarrow> bool" where
  "active_fire f \<longleftrightarrow> fr_state f = FirePending \<or> fr_state f = FireClaimed"

subsection \<open>Checks\<close>

definition definition_checks :: "auto_definition \<Rightarrow> bool" where
  "definition_checks d \<longleftrightarrow> time_groups (ad_local_time d) \<noteq> None \<and> ad_window d = 15
     \<and> 1 \<le> ad_max_runs d \<and> ad_max_runs d \<le> 100 \<and> 1 \<le> ad_max_pending d \<and> ad_max_pending d \<le> 25
     \<and> ad_valid_from d < ad_valid_until d \<and> ad_valid_until d \<le> ad_valid_from d + 30 * ms_per_day
     \<and> 1 \<le> ad_epoch d
     \<and> (case ad_state d of
          DefRevoked \<Rightarrow> 2 \<le> ad_epoch d \<and> ad_revoked_at d \<noteq> None \<and> ad_expired_at d = None
        | DefExpired \<Rightarrow> 2 \<le> ad_epoch d \<and> ad_revoked_at d = None \<and> ad_expired_at d \<noteq> None
        | _ \<Rightarrow> ad_revoked_at d = None \<and> ad_expired_at d = None)"

definition unclaimed :: "fire_row \<Rightarrow> bool" where
  "unclaimed f \<longleftrightarrow> fr_owner f = None \<and> fr_token f = None \<and> fr_claimed_at f = None \<and> fr_lease f = None"

definition unsettled :: "fire_row \<Rightarrow> bool" where
  "unsettled f \<longleftrightarrow> fr_run f = None \<and> fr_reason f = None \<and> fr_terminal_at f = None"

fun fire_shape :: "fire_state \<Rightarrow> fire_row \<Rightarrow> bool" where
  "fire_shape FirePending f = (unclaimed f \<and> unsettled f)"
| "fire_shape FireClaimed f = (1 \<le> fr_attempts f \<and> fr_owner f \<noteq> None \<and> fr_token f \<noteq> None
     \<and> (case (fr_claimed_at f, fr_lease f) of (Some c, Some l) \<Rightarrow> c < l | _ \<Rightarrow> False) \<and> unsettled f)"
| "fire_shape FireRunCreated f = (1 \<le> fr_attempts f \<and> fr_run f \<noteq> None \<and> fr_reason f = Some ReasonRunCreated
     \<and> fr_terminal_at f \<noteq> None)"
| "fire_shape FireSkipped f = (fr_run f = None \<and> fr_reason f \<in> {Some ReasonDstGap, Some ReasonMisfire, Some ReasonIneligible}
     \<and> fr_terminal_at f \<noteq> None)"
| "fire_shape FireDeadLetter f = (fr_attempts f = 3 \<and> fr_run f = None \<and> fr_reason f = Some ReasonExhausted
     \<and> fr_terminal_at f \<noteq> None)"

text \<open>A local date by \<open>^[0-9]{4}-(0[1-9]|1[0-2])-([0-2][0-9]|3[01])$\<close>.\<close>

definition LogicalLocalDateSchema :: "string \<Rightarrow> bool" where
  "LogicalLocalDateSchema s = (case date_groups s of
       Some (y, m, d) \<Rightarrow> 1 \<le> m \<and> m \<le> 12 \<and> d \<le> 31
     | None \<Rightarrow> False)"

definition fire_checks :: "fire_row \<Rightarrow> bool" where
  "fire_checks f \<longleftrightarrow> 1 \<le> fr_epoch f \<and> LogicalLocalDateSchema (fr_date f) \<and> time_groups (fr_time f) \<noteq> None
     \<and> ((fr_state f = FireSkipped \<and> fr_reason f = Some ReasonDstGap) = (fr_resolved f = None))
     \<and> fr_attempts f \<le> 3 \<and> fire_shape (fr_state f) f"

subsection \<open>Guards of the definitions\<close>

definition immutable_definition :: "auto_definition \<Rightarrow> auto_definition \<Rightarrow> bool" where
  "immutable_definition new old \<longleftrightarrow> new = old\<lparr>ad_state := ad_state new, ad_epoch := ad_epoch new,
     ad_changed_at := ad_changed_at new, ad_revoked_at := ad_revoked_at new, ad_expired_at := ad_expired_at new\<rparr>"

definition definition_guard :: "auto_definition \<Rightarrow> auto_definition \<Rightarrow> bool" where
  "definition_guard new old \<longleftrightarrow> immutable_definition new old
     \<and> ad_epoch new = ad_epoch old + 1
     \<and> ((ad_state old = DefActive \<and> ad_state new \<in> {DefPaused, DefRevoked, DefExpired})
        \<or> (ad_state old = DefPaused \<and> ad_state new \<in> {DefActive, DefRevoked, DefExpired}))
     \<and> \<not> (ad_changed_at new < ad_changed_at old
        \<or> (ad_state new = DefRevoked \<and> ad_revoked_at new \<noteq> Some (ad_changed_at new))
        \<or> (ad_state new = DefExpired \<and> ad_expired_at new \<noteq> Some (ad_changed_at new))
        \<or> (ad_state new \<in> {DefActive, DefPaused} \<and> (ad_revoked_at new \<noteq> None \<or> ad_expired_at new \<noteq> None)))"

subsection \<open>Guards of the fires\<close>

definition getDefinition :: "string \<Rightarrow> string \<Rightarrow> automation_store \<Rightarrow> auto_definition option" where
  "getDefinition org i st = List.find (\<lambda>d. ad_org d = org \<and> ad_id d = i) (as_definitions st)"

definition active_count :: "string \<Rightarrow> fire_row list \<Rightarrow> nat" where
  "active_count org fs = length (filter (\<lambda>f. fr_org f = org \<and> active_fire f) fs)"

definition fire_insert_guard :: "fire_row \<Rightarrow> automation_store \<Rightarrow> bool" where
  "fire_insert_guard f st = (case getDefinition (fr_org f) (fr_definition f) st of
       None \<Rightarrow> False
     | Some d \<Rightarrow> ad_state d = DefActive \<and> ad_epoch d = fr_epoch f \<and> ad_local_time d = fr_time f
         \<and> ad_timezone d = fr_zone f
         \<and> (case fr_resolved f of None \<Rightarrow> True | Some t \<Rightarrow> ad_valid_from d \<le> t \<and> t < ad_valid_until d)
         \<and> int (active_count (fr_org f) (as_fires st)) < min (ad_max_pending d) 25)"

definition immutable_fire :: "fire_row \<Rightarrow> fire_row \<Rightarrow> bool" where
  "immutable_fire new old \<longleftrightarrow> new = old\<lparr>fr_state := fr_state new, fr_attempts := fr_attempts new, fr_owner := fr_owner new,
     fr_token := fr_token new, fr_claimed_at := fr_claimed_at new, fr_lease := fr_lease new, fr_run := fr_run new,
     fr_reason := fr_reason new, fr_terminal_at := fr_terminal_at new\<rparr>"

text \<open>Whether the approver of a definition may still approve is an argument.\<close>

definition fire_update_guard ::
    "(auto_definition \<Rightarrow> bool) \<Rightarrow> automation_store \<Rightarrow> fire_row \<Rightarrow> fire_row \<Rightarrow> bool" where
  "fire_update_guard approver st new old = (case getDefinition (fr_org new) (fr_definition new) st of
       None \<Rightarrow> False
     | Some d \<Rightarrow> immutable_fire new old
         \<and> (fr_run old \<noteq> None \<longrightarrow> fr_run new = fr_run old)
         \<and> fr_state old \<notin> {FireRunCreated, FireSkipped, FireDeadLetter}
         \<and> ((fr_state old = FirePending \<and> fr_state new \<in> {FireClaimed, FireSkipped})
            \<or> (fr_state old = FireClaimed \<and> fr_state new \<in> {FireClaimed, FirePending, FireRunCreated, FireDeadLetter, FireSkipped}))
         \<and> fr_attempts new = (if fr_state old = FirePending \<and> fr_state new = FireClaimed then fr_attempts old + 1 else fr_attempts old)
         \<and> (fr_state new = FireClaimed \<longrightarrow> ad_state d = DefActive \<and> ad_epoch d = fr_epoch new
            \<and> (case fr_claimed_at new of None \<Rightarrow> False | Some c \<Rightarrow> ad_valid_from d \<le> c \<and> c < ad_valid_until d)
            \<and> approver d))"

text \<open>The unique indexes: identity, occurrence, definition and date, and one active fire per definition.\<close>

definition fire_collides :: "fire_row \<Rightarrow> fire_row \<Rightarrow> bool" where
  "fire_collides f g \<longleftrightarrow> fr_id f = fr_id g
     \<or> (fr_org f = fr_org g \<and> (fr_identity f = fr_identity g
        \<or> (fr_definition f = fr_definition g
           \<and> (fr_date f = fr_date g \<or> (active_fire f \<and> active_fire g)))))"

subsection \<open>Statements on definitions\<close>

definition transition_changes ::
    "nat \<Rightarrow> definition_state \<Rightarrow> int \<Rightarrow> auto_definition \<Rightarrow> auto_definition" where
  "transition_changes epoch next_state changed_at d = d\<lparr>ad_state := next_state, ad_epoch := epoch + 1,
     ad_changed_at := changed_at,
     ad_revoked_at := (if next_state = DefRevoked then Some changed_at else None),
     ad_expired_at := (if next_state = DefExpired then Some changed_at else None)\<rparr>"

definition transitionAppAutomationDefinitionWithExecutor ::
    "string \<Rightarrow> string \<Rightarrow> nat \<Rightarrow> definition_state \<Rightarrow> definition_state \<Rightarrow> int \<Rightarrow> automation_store
      \<Rightarrow> automation_error + auto_definition option \<times> automation_store" where
  "transitionAppAutomationDefinitionWithExecutor org i epoch expected_state next_state changed_at st =
     (case List.find (\<lambda>d. ad_org d = org \<and> ad_id d = i \<and> ad_epoch d = epoch \<and> ad_state d = expected_state)
         (as_definitions st) of
        None \<Rightarrow> Ok (None, st)
      | Some old \<Rightarrow>
          (let new = transition_changes epoch next_state changed_at old in
           if \<not> definition_guard new old then Throw GuardRefused
           else if \<not> definition_checks new then Throw CheckRefused
           else Ok (Some new, st\<lparr>as_definitions := map (\<lambda>d. if ad_org d = org \<and> ad_id d = i then new else d) (as_definitions st)\<rparr>)))"

text \<open>The eligible definitions after a cursor, in the order of organisation and identifier.\<close>

definition after_cursor :: "(string \<times> string) option \<Rightarrow> string \<Rightarrow> string \<Rightarrow> bool" where
  "after_cursor cursor org i \<longleftrightarrow> (case cursor of
       None \<Rightarrow> True
     | Some (o', i') \<Rightarrow> o' < org \<or> (o' = org \<and> i' < i))"

definition MAX_AUTOMATION_SCAN_LIMIT :: nat where
  "MAX_AUTOMATION_SCAN_LIMIT = 500"

definition listEligibleAppAutomationDefinitionsWithExecutor ::
    "int \<Rightarrow> nat \<Rightarrow> (string \<times> string) option \<Rightarrow> automation_store \<Rightarrow> auto_definition list" where
  "listEligibleAppAutomationDefinitionsWithExecutor eligible_at page cursor st =
     take (min page MAX_AUTOMATION_SCAN_LIMIT)
       (sort_key ad_org (sort_key ad_id (filter (\<lambda>d. ad_state d = DefActive \<and> ad_valid_from d \<le> eligible_at
          \<and> ad_valid_until d > eligible_at \<and> after_cursor cursor (ad_org d) (ad_id d)) (as_definitions st))))"

subsection \<open>Statements on fires\<close>

definition getFire :: "string \<Rightarrow> string \<Rightarrow> string \<Rightarrow> automation_store \<Rightarrow> fire_row option" where
  "getFire org definition_id i st =
     List.find (\<lambda>f. fr_org f = org \<and> fr_definition f = definition_id \<and> fr_id f = i) (as_fires st)"

definition getFireByIdentity :: "string \<Rightarrow> string \<Rightarrow> automation_store \<Rightarrow> fire_row option" where
  "getFireByIdentity org identity st =
     List.find (\<lambda>f. fr_org f = org \<and> fr_identity f = identity) (as_fires st)"

definition same_occurrence :: "fire_row \<Rightarrow> fire_row \<Rightarrow> bool" where
  "same_occurrence v f \<longleftrightarrow> fr_definition f = fr_definition v \<and> fr_epoch f = fr_epoch v \<and> fr_date f = fr_date v
     \<and> fr_time f = fr_time v \<and> fr_zone f = fr_zone v"

definition getFireByOccurrence :: "fire_row \<Rightarrow> automation_store \<Rightarrow> fire_row option" where
  "getFireByOccurrence v st = List.find (\<lambda>f. fr_org f = fr_org v \<and> same_occurrence v f) (as_fires st)"

definition listExpiredClaimedAppAutomationFiresWithExecutor ::
    "int \<Rightarrow> nat \<Rightarrow> (string \<times> string) option \<Rightarrow> automation_store \<Rightarrow> fire_row list" where
  "listExpiredClaimedAppAutomationFiresWithExecutor now page cursor st =
     take (min page MAX_AUTOMATION_SCAN_LIMIT)
       (sort_key fr_org (sort_key fr_id (filter (\<lambda>f. fr_state f = FireClaimed
          \<and> (case fr_lease f of None \<Rightarrow> False | Some l \<Rightarrow> l \<le> now) \<and> after_cursor cursor (fr_org f) (fr_id f)) (as_fires st))))"

definition listUnsettledAppAutomationFiresWithExecutor ::
    "int \<Rightarrow> nat \<Rightarrow> (string \<times> string) option \<Rightarrow> automation_store \<Rightarrow> fire_row list" where
  "listUnsettledAppAutomationFiresWithExecutor now page cursor st =
     take (max 1 (min page MAX_AUTOMATION_SCAN_LIMIT))
       (sort_key fr_org (sort_key fr_id (filter (\<lambda>f. (fr_state f = FirePending \<or> (fr_state f = FireClaimed
          \<and> (case fr_lease f of None \<Rightarrow> False | Some l \<Rightarrow> l \<le> now))) \<and> after_cursor cursor (fr_org f) (fr_id f)) (as_fires st))))"

text \<open>
  The insert that does nothing on a conflict: trigger and checks come before the indexes.  A loser of a
  race gets the row of the winner.
\<close>

definition insertAppAutomationFireIdempotentlyWithExecutor ::
    "fire_row \<Rightarrow> automation_store \<Rightarrow> automation_error + fire_row \<times> automation_store" where
  "insertAppAutomationFireIdempotentlyWithExecutor v st =
     (if \<not> fire_insert_guard v st then Throw GuardRefused
      else if \<not> fire_checks v then Throw CheckRefused
      else if \<not> list_ex (fire_collides v) (as_fires st)
      then Ok (v, st\<lparr>as_fires := as_fires st @ [v], as_next := Suc (as_next st)\<rparr>)
      else case getFireByIdentity (fr_org v) (fr_identity v) st of
             Some f \<Rightarrow>
               if same_occurrence v f then Ok (f, st)
               else (case getFireByOccurrence v st of
                       Some g \<Rightarrow> if fr_identity g = fr_identity v then Ok (g, st) else Throw ConflictWithoutOccurrence
                     | None \<Rightarrow> Throw ConflictWithoutOccurrence)
           | None \<Rightarrow>
               (case getFireByOccurrence v st of
                  Some g \<Rightarrow> if fr_identity g = fr_identity v then Ok (g, st) else Throw ConflictWithoutOccurrence
                | None \<Rightarrow> Throw ConflictWithoutOccurrence))"

text \<open>An \<open>UPDATE ... RETURNING\<close> of the fire that satisfies a condition.\<close>

definition update_fire ::
    "(auto_definition \<Rightarrow> bool) \<Rightarrow> (fire_row \<Rightarrow> bool) \<Rightarrow> (fire_row \<Rightarrow> fire_row) \<Rightarrow> automation_store
      \<Rightarrow> automation_error + fire_row option \<times> automation_store" where
  "update_fire approver p changes st = (case List.find p (as_fires st) of
       None \<Rightarrow> Ok (None, st)
     | Some old \<Rightarrow>
         (let new = changes old in
          if \<not> fire_update_guard approver st new old then Throw GuardRefused
          else if \<not> fire_checks new then Throw CheckRefused
          else if list_ex (\<lambda>g. fr_id g \<noteq> fr_id old \<and> fire_collides new g) (as_fires st) then Throw IndexRefused
          else Ok (Some new, st\<lparr>as_fires := map (\<lambda>g. if fr_id g = fr_id old then new else g) (as_fires st)\<rparr>)))"

record exact_fire =
  ef_org :: string
  ef_definition :: string
  ef_fire :: string
  ef_epoch :: nat

definition is_exact :: "exact_fire \<Rightarrow> fire_row \<Rightarrow> bool" where
  "is_exact e f \<longleftrightarrow> fr_org f = ef_org e \<and> fr_definition f = ef_definition e \<and> fr_id f = ef_fire e
     \<and> fr_epoch f = ef_epoch e"

definition release_claim :: "fire_row \<Rightarrow> fire_row" where
  "release_claim f = f\<lparr>fr_owner := None, fr_token := None, fr_claimed_at := None, fr_lease := None\<rparr>"

definition settle :: "fire_state \<Rightarrow> fire_reason \<Rightarrow> int \<Rightarrow> fire_row \<Rightarrow> fire_row" where
  "settle s reason at_ms f = f\<lparr>fr_state := s, fr_reason := Some reason, fr_terminal_at := Some at_ms\<rparr>"

definition settleFailedAppAutomationFireClaim ::
    "(auto_definition \<Rightarrow> bool) \<Rightarrow> exact_fire \<Rightarrow> string \<Rightarrow> int \<Rightarrow> bool \<Rightarrow> automation_store
      \<Rightarrow> automation_error + fire_row option \<times> automation_store" where
  "settleFailedAppAutomationFireClaim approver e token settled_at require_expired_lease st =
     (let exactClaim = (\<lambda>f. is_exact e f \<and> fr_state f = FireClaimed \<and> fr_token f = Some token
            \<and> (require_expired_lease \<longrightarrow> (case fr_lease f of None \<Rightarrow> False | Some l \<Rightarrow> l \<le> settled_at)))
      in res_bind (update_fire approver (\<lambda>f. exactClaim f \<and> fr_attempts f = 3)
             (\<lambda>f. settle FireDeadLetter ReasonExhausted settled_at (release_claim f)) st) (\<lambda>(deadLettered, st1).
         case deadLettered of Some f \<Rightarrow> Ok (Some f, st1)
         | None \<Rightarrow> update_fire approver (\<lambda>f. exactClaim f \<and> fr_attempts f < 3)
             (\<lambda>f. (release_claim f)\<lparr>fr_state := FirePending\<rparr>) st1))"

definition recoverExpiredAppAutomationFireClaimWithExecutor ::
    "(auto_definition \<Rightarrow> bool) \<Rightarrow> exact_fire \<Rightarrow> string \<Rightarrow> int \<Rightarrow> automation_store
      \<Rightarrow> automation_error + fire_row option \<times> automation_store" where
  "recoverExpiredAppAutomationFireClaimWithExecutor approver e token recovered_at st =
     settleFailedAppAutomationFireClaim approver e token recovered_at True st"

definition settleFailedAppAutomationFireClaimWithExecutor ::
    "(auto_definition \<Rightarrow> bool) \<Rightarrow> exact_fire \<Rightarrow> string \<Rightarrow> int \<Rightarrow> automation_store
      \<Rightarrow> automation_error + fire_row option \<times> automation_store" where
  "settleFailedAppAutomationFireClaimWithExecutor approver e token failed_at st =
     settleFailedAppAutomationFireClaim approver e token failed_at False st"

text \<open>\<open>None\<close> expects a pending fire, a token expects a fire claimed with it.\<close>

definition terminalizeAppAutomationFireDefinitionIneligibleWithExecutor ::
    "(auto_definition \<Rightarrow> bool) \<Rightarrow> exact_fire \<Rightarrow> string option \<Rightarrow> int \<Rightarrow> automation_store
      \<Rightarrow> automation_error + fire_row option \<times> automation_store" where
  "terminalizeAppAutomationFireDefinitionIneligibleWithExecutor approver e expected_token terminal_at st =
     update_fire approver (\<lambda>f. is_exact e f \<and> (case expected_token of
           None \<Rightarrow> fr_state f = FirePending
         | Some t \<Rightarrow> fr_state f = FireClaimed \<and> fr_token f = Some t))
       (\<lambda>f. settle FireSkipped ReasonIneligible terminal_at (release_claim f)) st"

definition terminalizeUnclaimedAppAutomationFireMisfireWithExecutor ::
    "(auto_definition \<Rightarrow> bool) \<Rightarrow> exact_fire \<Rightarrow> int \<Rightarrow> automation_store
      \<Rightarrow> automation_error + fire_row option \<times> automation_store" where
  "terminalizeUnclaimedAppAutomationFireMisfireWithExecutor approver e terminal_at st =
     update_fire approver (\<lambda>f. is_exact e f \<and> fr_state f = FirePending \<and> fr_attempts f = 0)
       (\<lambda>f. settle FireSkipped ReasonMisfire terminal_at (release_claim f)) st"

definition chargeFailedAppAutomationFireDeliveryWithExecutor ::
    "(auto_definition \<Rightarrow> bool) \<Rightarrow> exact_fire \<Rightarrow> nat \<Rightarrow> int \<Rightarrow> automation_store
      \<Rightarrow> automation_error + fire_row option \<times> automation_store" where
  "chargeFailedAppAutomationFireDeliveryWithExecutor approver e expected_attempts charged_at st =
     (if expected_attempts \<ge> 3 then Ok (None, st)
      else let nextAttempt = expected_attempts + 1
           in update_fire approver (\<lambda>f. is_exact e f \<and> fr_state f = FirePending \<and> fr_attempts f = expected_attempts)
                (\<lambda>f. f\<lparr>fr_attempts := nextAttempt, fr_state := (if nextAttempt = 3 then FireDeadLetter else FirePending),
                   fr_reason := (if nextAttempt = 3 then Some ReasonExhausted else None),
                   fr_terminal_at := (if nextAttempt = 3 then Some charged_at else None)\<rparr>) st)"

text \<open>The runs that a UTC day has already reserved.\<close>

definition reserved_runs :: "string \<Rightarrow> int \<Rightarrow> fire_row list \<Rightarrow> nat" where
  "reserved_runs org claimed_at fs =
     (let utcDayStart = claimed_at div ms_per_day * ms_per_day; utcDayEnd = utcDayStart + 24 * 60 * 60000
      in length (filter (\<lambda>f. fr_org f = org \<and> (fr_state f = FireClaimed \<or> fr_state f = FireRunCreated)
           \<and> (case (case fr_terminal_at f of Some t \<Rightarrow> Some t | None \<Rightarrow> fr_claimed_at f) of
                None \<Rightarrow> False | Some t \<Rightarrow> utcDayStart \<le> t \<and> t < utcDayEnd)) fs))"

definition claimAppAutomationFireWithExecutor ::
    "(auto_definition \<Rightarrow> bool) \<Rightarrow> exact_fire \<Rightarrow> string \<Rightarrow> string \<Rightarrow> int \<Rightarrow> int \<Rightarrow> automation_store
      \<Rightarrow> automation_error + fire_row option \<times> automation_store" where
  "claimAppAutomationFireWithExecutor approver e owner token claimed_at lease st =
     (if lease \<le> claimed_at then Ok (None, st)
      else case getDefinition (ef_org e) (ef_definition e) st of
        None \<Rightarrow> Ok (None, st)
      | Some d \<Rightarrow>
          if ad_state d \<noteq> DefActive \<or> ad_epoch d \<noteq> ef_epoch e \<or> claimed_at < ad_valid_from d \<or> claimed_at \<ge> ad_valid_until d
          then Ok (None, st)
          else if int (active_count (ef_org e) (as_fires st)) > min (ad_max_pending d) 25 then Ok (None, st)
          else if int (reserved_runs (ef_org e) claimed_at (as_fires st)) \<ge> min (ad_max_runs d) 100 then Ok (None, st)
          else update_fire approver (\<lambda>f. is_exact e f \<and> fr_state f = FirePending \<and> fr_attempts f < 3
                 \<and> (fr_attempts f > 0 \<or> (case fr_resolved f of None \<Rightarrow> False
                      | Some t \<Rightarrow> t \<ge> claimed_at - ad_window d * 60000 \<and> t \<le> claimed_at)))
               (\<lambda>f. f\<lparr>fr_state := FireClaimed, fr_attempts := fr_attempts f + 1, fr_owner := Some owner,
                  fr_token := Some token, fr_claimed_at := Some claimed_at, fr_lease := Some lease\<rparr>) st)"

definition bindAppAutomationFireRunWithExecutor ::
    "(auto_definition \<Rightarrow> bool) \<Rightarrow> exact_fire \<Rightarrow> string \<Rightarrow> string \<Rightarrow> int \<Rightarrow> automation_store
      \<Rightarrow> automation_error + fire_row option \<times> automation_store" where
  "bindAppAutomationFireRunWithExecutor approver e token run terminal_at st =
     update_fire approver (\<lambda>f. is_exact e f \<and> fr_state f = FireClaimed \<and> fr_token f = Some token
          \<and> (case fr_lease f of None \<Rightarrow> False | Some l \<Rightarrow> l > terminal_at))
       (\<lambda>f. (settle FireRunCreated ReasonRunCreated terminal_at f)\<lparr>fr_run := Some run\<rparr>) st"

end
