(* ===== verification/AutomationService.thy ===== *)
theory AutomationService
  imports AutomationFires
begin

text \<open>
  The transactions on automations: changes of a definition's state and the recording of a fire
  (app-automation-definition-service.ts), the reconciliation of a fire by the scan
  (app-automation-runtime.ts) and the delivery of a fire (app-automation-dispatch.ts).

  Inside one transaction the clock is read several times; \<open>clock k\<close> is its k-th reading.  Between two
  transactions of a delivery other workers may change the store: \<open>between k\<close> is what they do.
\<close>

record automation_env =
  ae_zones :: zones
  ae_canonical :: "string \<Rightarrow> string option"
  ae_digest :: "jsv \<Rightarrow> string"
  ae_id :: "nat \<Rightarrow> string"

definition demand :: "bool \<Rightarrow> automation_error \<Rightarrow> automation_error + unit" where
  "demand b e = (if b then Ok () else Throw e)"

lemma demand_Ok [simp]: "demand b e = Inr u \<longleftrightarrow> b"
  by (simp add: demand_def)

fun scheduled :: "schedule_error + 'a \<Rightarrow> automation_error + 'a" where
  "scheduled (Inl e) = Inl (ScheduleRefused e)"
| "scheduled (Inr a) = Inr a"

lemma scheduled_Ok [simp]: "scheduled r = Inr a \<longleftrightarrow> r = Inr a"
  by (cases r) auto

subsection \<open>Definitions\<close>

definition automation_manager :: "module_world \<Rightarrow> module_actor \<Rightarrow> automation_error + unit" where
  "automation_manager w a =
     res_bind (demand (isAdmin a) AppAccessDenied) (\<lambda>_.
     (case List.find (\<lambda>m. om_org m = actor_org a \<and> om_user m = actor_id a) (mw_members w) of
        None \<Rightarrow> Throw AppAccessDenied
      | Some m \<Rightarrow> demand (om_active m \<and> (om_role m = RoleOwner \<or> om_role m = RoleAdmin)) AppAccessDenied))"

definition transitionDefinition ::
    "module_world \<Rightarrow> module_actor \<Rightarrow> string \<Rightarrow> nat \<Rightarrow> definition_state \<Rightarrow> definition_state \<Rightarrow> int \<Rightarrow> automation_store
      \<Rightarrow> automation_error + auto_definition \<times> automation_store" where
  "transitionDefinition w a i expected_epoch expectedState nextState now st =
     res_bind (automation_manager w a) (\<lambda>_.
     case getDefinition (actor_org a) i st of
       None \<Rightarrow> Throw AppNotFound
     | Some d \<Rightarrow>
         if ad_epoch d \<noteq> expected_epoch \<or> ad_state d \<noteq> expectedState then Throw AppStale
         else res_bind (transitionAppAutomationDefinitionWithExecutor (actor_org a) (ad_id d) expected_epoch expectedState
                nextState now st) (\<lambda>(updated, st').
              case updated of None \<Rightarrow> Throw AppStale | Some u \<Rightarrow> Ok (u, st')))"

definition pauseAppAutomationDefinition ::
    "module_world \<Rightarrow> module_actor \<Rightarrow> string \<Rightarrow> nat \<Rightarrow> int \<Rightarrow> automation_store
      \<Rightarrow> automation_error + auto_definition \<times> automation_store" where
  "pauseAppAutomationDefinition w a i epoch now st = transitionDefinition w a i epoch DefActive DefPaused now st"

definition resumeAppAutomationDefinition ::
    "module_world \<Rightarrow> module_actor \<Rightarrow> string \<Rightarrow> nat \<Rightarrow> int \<Rightarrow> automation_store
      \<Rightarrow> automation_error + auto_definition \<times> automation_store" where
  "resumeAppAutomationDefinition w a i epoch now st = transitionDefinition w a i epoch DefPaused DefActive now st"

text \<open>Revocation and expiry read the state in a transaction of their own first.\<close>

definition close_definition ::
    "definition_state \<Rightarrow> module_world \<Rightarrow> module_actor \<Rightarrow> string \<Rightarrow> nat \<Rightarrow> int \<Rightarrow> automation_store \<Rightarrow> automation_store
      \<Rightarrow> automation_error + auto_definition \<times> automation_store" where
  "close_definition nextState w a i epoch now st0 st =
     res_bind (automation_manager w a) (\<lambda>_.
     case getDefinition (actor_org a) i st0 of
       None \<Rightarrow> Throw AppNotFound
     | Some current \<Rightarrow>
         if ad_state current \<noteq> DefActive \<and> ad_state current \<noteq> DefPaused then Throw AppStale
         else transitionDefinition w a i epoch (ad_state current) nextState now st)"

definition revokeAppAutomationDefinition ::
    "module_world \<Rightarrow> module_actor \<Rightarrow> string \<Rightarrow> nat \<Rightarrow> int \<Rightarrow> automation_store \<Rightarrow> automation_store
      \<Rightarrow> automation_error + auto_definition \<times> automation_store" where
  "revokeAppAutomationDefinition = close_definition DefRevoked"

definition expireAppAutomationDefinition ::
    "module_world \<Rightarrow> module_actor \<Rightarrow> string \<Rightarrow> nat \<Rightarrow> int \<Rightarrow> automation_store \<Rightarrow> automation_store
      \<Rightarrow> automation_error + auto_definition \<times> automation_store" where
  "expireAppAutomationDefinition = close_definition DefExpired"

subsection \<open>Recording a fire\<close>

record fire_request =
  fq_org :: string
  fq_definition :: string
  fq_epoch :: nat
  fq_date :: string
  fq_resolved :: "int option"
  fq_reason :: "skip_reason option"

definition digestAppAutomationFireIdentity ::
    "automation_env \<Rightarrow> string \<Rightarrow> auto_definition \<Rightarrow> string \<Rightarrow> automation_error + string" where
  "digestAppAutomationFireIdentity env org d date =
     res_bind (demand (LogicalLocalDateSchema date \<and> time_groups (ad_local_time d) \<noteq> None) RequestSchema) (\<lambda>_.
     res_bind (demand (ae_canonical env (ad_timezone d) = Some (ad_timezone d)) AppActionInvalid) (\<lambda>_.
     Ok (ae_digest env (JObj [(''organization_id'', JStr org), (''definition_id'', JStr (ad_id d)),
       (''definition_epoch'', JNum (of_nat (ad_epoch d))), (''logical_local_date'', JStr date),
       (''local_time'', JStr (ad_local_time d)), (''timezone'', JStr (ad_timezone d))]))))"

definition eligible_after_of :: "auto_definition \<Rightarrow> int" where
  "eligible_after_of d = (if ad_changed_at d > ad_valid_from d then ad_changed_at d else ad_valid_from d)"

definition decide ::
    "automation_env \<Rightarrow> auto_definition \<Rightarrow> occurrence \<Rightarrow> int \<Rightarrow> automation_error + occurrence_decision" where
  "decide env d occ now = scheduled (classifyAppAutomationOccurrence (ae_zones env) occ now (eligible_after_of d)
     (Some (ad_valid_until d)) 15)"

fun requested :: "skip_reason option \<Rightarrow> occurrence_decision \<Rightarrow> bool" where
  "requested reason (PendingFire occ) = (reason = None)"
| "requested reason (SkippedFire r occ) = (reason = Some r)"
| "requested reason _ = False"

fun same_kind :: "occurrence_decision \<Rightarrow> occurrence_decision \<Rightarrow> bool" where
  "same_kind (PendingFire _) (PendingFire _) = True"
| "same_kind (SkippedFire _ _) (SkippedFire _ _) = True"
| "same_kind NotEligible NotEligible = True"
| "same_kind Future Future = True"
| "same_kind _ _ = False"

fun other_reason :: "skip_reason option \<Rightarrow> occurrence_decision \<Rightarrow> bool" where
  "other_reason reason (SkippedFire r _) = (reason \<noteq> Some r)"
| "other_reason reason _ = False"

text \<open>\<open>refreshPolicyTime\<close>.\<close>

definition refresh ::
    "automation_env \<Rightarrow> auto_definition \<Rightarrow> occurrence \<Rightarrow> occurrence_decision \<Rightarrow> skip_reason option \<Rightarrow> int \<Rightarrow> automation_error + unit" where
  "refresh env d occ decision reason now =
     res_bind (decide env d occ now) (\<lambda>current.
     demand (\<not> (now < ad_valid_from d \<or> now \<ge> ad_valid_until d \<or> \<not> same_kind current decision
       \<or> other_reason reason current)) AppStale)"

definition fire_of :: "fire_request \<Rightarrow> auto_definition \<Rightarrow> string \<Rightarrow> string \<Rightarrow> int \<Rightarrow> fire_row" where
  "fire_of q d i identity now =
     \<lparr>fr_id = i, fr_org = fq_org q, fr_definition = ad_id d, fr_epoch = ad_epoch d, fr_date = fq_date q,
      fr_time = ad_local_time d, fr_zone = ad_timezone d, fr_resolved = fq_resolved q, fr_identity = identity,
      fr_state = (if fq_reason q \<noteq> None then FireSkipped else FirePending), fr_attempts = 0, fr_owner = None,
      fr_token = None, fr_claimed_at = None, fr_lease = None, fr_run = None,
      fr_reason = map_option (\<lambda>r. case r of DstGap \<Rightarrow> ReasonDstGap | MisfireSkipped \<Rightarrow> ReasonMisfire) (fq_reason q),
      fr_terminal_at = (if fq_reason q \<noteq> None then Some now else None)\<rparr>"

definition exact_of :: "fire_row \<Rightarrow> exact_fire" where
  "exact_of f = \<lparr>ef_org = fr_org f, ef_definition = fr_definition f, ef_fire = fr_id f, ef_epoch = fr_epoch f\<rparr>"

definition persistAppAutomationFire ::
    "automation_env \<Rightarrow> (auto_definition \<Rightarrow> bool) \<Rightarrow> (nat \<Rightarrow> int) \<Rightarrow> fire_request \<Rightarrow> automation_store
      \<Rightarrow> automation_error + fire_row \<times> automation_store" where
  "persistAppAutomationFire env approver clock q st =
     res_bind (demand (LogicalLocalDateSchema (fq_date q)) RequestSchema) (\<lambda>_.
     res_bind (demand ((fq_resolved q = None) = (fq_reason q = Some DstGap)) AppActionInvalid) (\<lambda>_.
     res_bind (demand (\<not> (fq_reason q = Some MisfireSkipped \<and> fq_resolved q = None)) AppActionInvalid) (\<lambda>_.
     case getDefinition (fq_org q) (fq_definition q) st of
       None \<Rightarrow> Throw AppNotFound
     | Some d \<Rightarrow>
     res_bind (demand (ad_state d = DefActive \<and> ad_epoch d = fq_epoch q) AppStale) (\<lambda>_.
     res_bind (demand (\<not> (clock 0 < ad_valid_from d \<or> clock 0 \<ge> ad_valid_until d)) AppStale) (\<lambda>_.
     res_bind (scheduled (resolveAppAutomationOccurrence (ae_zones env) (fq_date q) (ad_local_time d) (ad_timezone d))) (\<lambda>occ.
     res_bind (demand (oc_resolved occ = fq_resolved q) AppActionInvalid) (\<lambda>_.
     res_bind (decide env d occ (clock 0)) (\<lambda>decision.
     res_bind (demand (requested (fq_reason q) decision) AppStale) (\<lambda>_.
     res_bind (digestAppAutomationFireIdentity env (fq_org q) d (fq_date q)) (\<lambda>identity.
     case getFireByIdentity (fq_org q) identity st of
       Some existing \<Rightarrow>
         res_bind (refresh env d occ decision (fq_reason q) (clock 1)) (\<lambda>_.
         if fq_reason q = Some MisfireSkipped \<and> fr_state existing = FirePending \<and> fr_attempts existing = 0
         then res_bind (terminalizeUnclaimedAppAutomationFireMisfireWithExecutor approver
                \<lparr>ef_org = fq_org q, ef_definition = ad_id d, ef_fire = fr_id existing, ef_epoch = ad_epoch d\<rparr> (clock 1) st)
              (\<lambda>(terminalized, st').
              res_bind (refresh env d occ decision (fq_reason q) (clock 2)) (\<lambda>_.
              Ok (case terminalized of Some f \<Rightarrow> f | None \<Rightarrow> existing, st')))
         else Ok (existing, st))
     | None \<Rightarrow>
         res_bind (demand (fq_reason q \<noteq> None \<or> int (active_count (fq_org q) (as_fires st)) < min (ad_max_pending d) 25) AppStale) (\<lambda>_.
         res_bind (refresh env d occ decision (fq_reason q) (clock 1)) (\<lambda>_.
         res_bind (insertAppAutomationFireIdempotentlyWithExecutor
            (fire_of q d (ae_id env (as_next st)) identity (clock 1)) st) (\<lambda>(created, st').
         res_bind (refresh env d occ decision (fq_reason q) (clock 2)) (\<lambda>_.
         Ok (created, st')))))))))))))))"

subsection \<open>Reconciling a fire\<close>

text \<open>
  One transaction of the scan: \<open>rearmed\<close> says whether the queue had a failed job for the fire, which
  it has put back.  The result says whether a job is queued for the fire.
\<close>

definition catch_up_expired :: "auto_definition \<Rightarrow> fire_row \<Rightarrow> int \<Rightarrow> bool" where
  "catch_up_expired d f now \<longleftrightarrow> fr_attempts f = 0
     \<and> (case fr_resolved f of None \<Rightarrow> False | Some t \<Rightarrow> now - t > ad_window d * 60000)"

definition queue_delivery ::
    "(auto_definition \<Rightarrow> bool) \<Rightarrow> (nat \<Rightarrow> int) \<Rightarrow> bool \<Rightarrow> auto_definition \<Rightarrow> fire_row \<Rightarrow> automation_store
      \<Rightarrow> automation_error + bool \<times> automation_store" where
  "queue_delivery approver clock rearmed d f st =
     (if catch_up_expired d f (clock 2)
      then res_bind (terminalizeUnclaimedAppAutomationFireMisfireWithExecutor approver (exact_of f) (clock 3) st)
             (\<lambda>(_, st'). Ok (False, st'))
      else res_bind (if rearmed
              then res_bind (chargeFailedAppAutomationFireDeliveryWithExecutor approver (exact_of f) (fr_attempts f) (clock 4) st)
                (\<lambda>(charged, st'). if charged = None then Throw AppStale else Ok st')
              else Ok st) (\<lambda>st'.
           if clock 5 \<ge> ad_valid_until d \<or> catch_up_expired d f (clock 6) then Throw AppStale else Ok (True, st')))"

definition reconcileFire ::
    "(auto_definition \<Rightarrow> bool) \<Rightarrow> (nat \<Rightarrow> int) \<Rightarrow> bool \<Rightarrow> fire_row \<Rightarrow> automation_store
      \<Rightarrow> automation_error + bool \<times> automation_store" where
  "reconcileFire approver clock rearmed candidate st =
     (case getFire (fr_org candidate) (fr_definition candidate) (fr_id candidate) st of
        None \<Rightarrow> Ok (False, st)
      | Some f \<Rightarrow>
          if \<not> active_fire f then Ok (False, st)
          else if fr_state f = FireClaimed \<and> (case fr_lease f of None \<Rightarrow> True | Some l \<Rightarrow> l > clock 0) then Ok (False, st)
          else (case getDefinition (fr_org candidate) (fr_definition candidate) st of
              None \<Rightarrow> res_bind (terminalizeAppAutomationFireDefinitionIneligibleWithExecutor approver (exact_of f)
                  (if fr_state f = FireClaimed then fr_token f else None) (clock 0) st) (\<lambda>(_, st'). Ok (False, st'))
            | Some d \<Rightarrow>
                if ad_state d \<noteq> DefActive \<or> ad_epoch d \<noteq> fr_epoch f \<or> ad_valid_from d > clock 0 \<or> ad_valid_until d \<le> clock 0
                then res_bind (terminalizeAppAutomationFireDefinitionIneligibleWithExecutor approver (exact_of f)
                  (if fr_state f = FireClaimed then fr_token f else None) (clock 0) st) (\<lambda>(_, st'). Ok (False, st'))
                else if fr_state f = FireClaimed
                then res_bind (recoverExpiredAppAutomationFireClaimWithExecutor approver (exact_of f)
                    (case fr_token f of None \<Rightarrow> [] | Some t \<Rightarrow> t) (clock 1) st) (\<lambda>(recovered, st').
                  case recovered of
                    None \<Rightarrow> Ok (False, st')
                  | Some g \<Rightarrow> if fr_state g \<noteq> FirePending then Ok (False, st')
                              else queue_delivery approver clock rearmed d g st')
                else queue_delivery approver clock rearmed d f st))"

subsection \<open>Delivering a fire\<close>

datatype preflight_result = PreflightPassed | ProviderUnavailable | PreflightRefused | PreflightFailed

text \<open>The submission of the run: passed, refused as stale, denied or disabled, or failed otherwise.\<close>

datatype invoke_result = Invoked | InvokeRefused | InvokeFailed

datatype dispatch_outcome = DispatchDone | RetryLater | DispatchFailed

record delivery =
  dv_job :: string
  dv_lease :: "int option"
  dv_org :: string
  dv_definition :: string
  dv_fire :: string
  dv_epoch :: nat

definition exact_delivery :: "delivery \<Rightarrow> exact_fire" where
  "exact_delivery v = \<lparr>ef_org = dv_org v, ef_definition = dv_definition v, ef_fire = dv_fire v, ef_epoch = dv_epoch v\<rparr>"

text \<open>A transaction that throws leaves the store as it was, and the delivery fails.\<close>

definition settle_delivery ::
    "automation_store \<Rightarrow> automation_error + fire_row option \<times> automation_store \<Rightarrow> dispatch_outcome \<times> automation_store" where
  "settle_delivery st r = (case r of Inl e \<Rightarrow> (DispatchFailed, st) | Inr (_, st') \<Rightarrow> (DispatchDone, st'))"

text \<open>What follows a claim: the run is submitted with the token of the claim.\<close>

definition invoke_claimed ::
    "(auto_definition \<Rightarrow> bool) \<Rightarrow> (nat \<Rightarrow> automation_store \<Rightarrow> automation_store)
      \<Rightarrow> (string \<Rightarrow> automation_store \<Rightarrow> invoke_result \<times> automation_store) \<Rightarrow> delivery \<Rightarrow> string \<Rightarrow> int \<Rightarrow> automation_store
      \<Rightarrow> dispatch_outcome \<times> automation_store" where
  "invoke_claimed approver between invoke v token later st =
     (case invoke token (between 4 st) of
        (Invoked, st') \<Rightarrow> (DispatchDone, st')
      | (InvokeRefused, st') \<Rightarrow>
          settle_delivery (between 5 st') (terminalizeAppAutomationFireDefinitionIneligibleWithExecutor approver
            (exact_delivery v) (Some token) later (between 5 st'))
      | (InvokeFailed, st') \<Rightarrow>
          (case settleFailedAppAutomationFireClaimWithExecutor approver (exact_delivery v) token later (between 5 st') of
             Inl e \<Rightarrow> (DispatchFailed, between 5 st')
           | Inr (Some f, st'') \<Rightarrow> (if fr_state f = FireDeadLetter then DispatchDone else DispatchFailed, st'')
           | Inr (None, st'') \<Rightarrow> (DispatchFailed, st'')))"

definition dispatch_pending ::
    "(auto_definition \<Rightarrow> bool) \<Rightarrow> (nat \<Rightarrow> automation_store \<Rightarrow> automation_store) \<Rightarrow> preflight_result
      \<Rightarrow> (string \<Rightarrow> automation_store \<Rightarrow> invoke_result \<times> automation_store) \<Rightarrow> delivery \<Rightarrow> string \<Rightarrow> int \<Rightarrow> int \<Rightarrow> fire_row
      \<Rightarrow> automation_store \<Rightarrow> dispatch_outcome \<times> automation_store" where
  "dispatch_pending approver between preflight invoke v token now later f st =
     (let e = exact_delivery v; due = (case fr_resolved f of None \<Rightarrow> now | Some t \<Rightarrow> t) in
      if fr_attempts f = 0 \<and> fr_resolved f = None then (DispatchDone, st)
      else if fr_attempts f = 0 \<and> due > now then (RetryLater, st)
      else if fr_attempts f = 0 \<and> now - due > 15 * 60000
      then settle_delivery (between 1 st) (terminalizeUnclaimedAppAutomationFireMisfireWithExecutor approver e now (between 1 st))
      else (case preflight of
          ProviderUnavailable \<Rightarrow> (RetryLater, st)
        | PreflightFailed \<Rightarrow> (DispatchFailed, st)
        | PreflightRefused \<Rightarrow>
            settle_delivery (between 2 st) (terminalizeAppAutomationFireDefinitionIneligibleWithExecutor approver e None now (between 2 st))
        | PreflightPassed \<Rightarrow>
            (let lease = (case dv_lease v of Some l \<Rightarrow> if l > now then l else now + 60000 | None \<Rightarrow> now + 60000)
             in case claimAppAutomationFireWithExecutor approver e (''job:'' @ dv_job v) token now lease (between 2 st) of
                  Inl err \<Rightarrow> (DispatchFailed, between 2 st)
                | Inr (None, st') \<Rightarrow>
                    settle_delivery (between 3 st') (terminalizeAppAutomationFireDefinitionIneligibleWithExecutor approver e None now (between 3 st'))
                | Inr (Some _, st') \<Rightarrow> invoke_claimed approver between invoke v token later st')))"

definition dispatchAppAutomationFire ::
    "bool \<Rightarrow> (auto_definition \<Rightarrow> bool) \<Rightarrow> (nat \<Rightarrow> automation_store \<Rightarrow> automation_store) \<Rightarrow> preflight_result
      \<Rightarrow> (string \<Rightarrow> automation_store \<Rightarrow> invoke_result \<times> automation_store) \<Rightarrow> delivery \<Rightarrow> string \<Rightarrow> int \<Rightarrow> int
      \<Rightarrow> automation_store \<Rightarrow> dispatch_outcome \<times> automation_store" where
  "dispatchAppAutomationFire enabled approver between preflight invoke v token now later st =
     (if \<not> enabled then (RetryLater, st)
      else case getFire (dv_org v) (dv_definition v) (dv_fire v) st of
        None \<Rightarrow> (DispatchDone, st)
      | Some f \<Rightarrow>
          if fr_epoch f \<noteq> dv_epoch v \<or> \<not> active_fire f then (DispatchDone, st)
          else if fr_state f = FireClaimed
          then (case (fr_lease f, fr_token f) of
              (Some l, Some t) \<Rightarrow>
                if l > now then (RetryLater, st)
                else (case recoverExpiredAppAutomationFireClaimWithExecutor approver (exact_delivery v) t now (between 0 st) of
                    Inl err \<Rightarrow> (DispatchFailed, between 0 st)
                  | Inr (None, st') \<Rightarrow> (DispatchDone, st')
                  | Inr (Some g, st') \<Rightarrow>
                      if fr_state g \<noteq> FirePending then (DispatchDone, st')
                      else dispatch_pending approver between preflight invoke v token now later g st')
            | _ \<Rightarrow> (DispatchDone, st))
          else dispatch_pending approver between preflight invoke v token now later f st)"

end
