(* ===== verification/AutomationScan.thy ===== *)
theory AutomationScan
  imports AutomationService
begin

text \<open>
  One slice of the automation scan (app-automation-scan-slice.ts, app-automation-scan-progress.ts).  It
  alternates between two lanes, the definitions and the unsettled fires, and saves its progress after
  every item.  The port is a record of functions on a state \<open>'w\<close> that stands for everything outside:
  database, clock and cancellation.
\<close>

datatype scan_error = ScanAborted | ScanError

datatype lane = LaneDefinitions | LaneFires

record partial_scan =
  pt_org :: string
  pt_definition :: string
  pt_epoch :: nat
  pt_next_date :: string

record scan_progress =
  pg_next_lane :: lane
  pg_complete :: bool
  pg_definitions_done :: bool
  pg_definitions_after :: "(string \<times> string) option"
  pg_partial :: "partial_scan option"
  pg_fires_done :: bool
  pg_fires_after :: "(string \<times> string) option"

definition initialAppAutomationScanProgress :: scan_progress where
  "initialAppAutomationScanProgress = \<lparr>pg_next_lane = LaneFires, pg_complete = False, pg_definitions_done = False,
     pg_definitions_after = None, pg_partial = None, pg_fires_done = False, pg_fires_after = None\<rparr>"

record 'w scan_port =
  sp_definitions :: "int \<Rightarrow> nat \<Rightarrow> (string \<times> string) option \<Rightarrow> 'w \<Rightarrow> (scan_error + auto_definition list) \<times> 'w"
  sp_load :: "string \<Rightarrow> string \<Rightarrow> 'w \<Rightarrow> (scan_error + auto_definition option) \<times> 'w"
  sp_fires :: "int \<Rightarrow> nat \<Rightarrow> (string \<times> string) option \<Rightarrow> 'w \<Rightarrow> (scan_error + fire_row list) \<times> 'w"
  sp_reconcile :: "fire_row \<Rightarrow> int \<Rightarrow> 'w \<Rightarrow> (scan_error + unit) \<times> 'w"
  sp_ensure :: "fire_request \<Rightarrow> int \<Rightarrow> 'w \<Rightarrow> (scan_error + fire_row option) \<times> 'w"
  sp_save :: "scan_progress \<Rightarrow> 'w \<Rightarrow> (scan_error + unit) \<times> 'w"
  sp_now :: "'w \<Rightarrow> int"
  sp_late :: "'w \<Rightarrow> bool"
  sp_aborted :: "'w \<Rightarrow> bool"
  sp_zones :: zones

record 'w slice =
  sl_progress :: scan_progress
  sl_visits :: nat
  sl_items :: nat
  sl_decisions :: nat
  sl_saved :: nat
  sl_errors :: nat
  sl_definitions :: "auto_definition list"
  sl_fires :: "fire_row list"
  sl_current :: "auto_definition option"
  sl_blocked_definitions :: bool
  sl_blocked_fires :: bool
  sl_world :: 'w

definition SLICE_DEFINITION_VISITS :: nat where "SLICE_DEFINITION_VISITS = 256"
definition SLICE_FIRE_ITEMS :: nat where "SLICE_FIRE_ITEMS = 256"
definition SLICE_DECISIONS :: nat where "SLICE_DECISIONS = 512"

text \<open>How a round ends: with the next round, with the slice complete or partial, or with an error.\<close>

datatype 'w round = Next "'w slice" | Complete "'w slice" | Partial "'w slice" | Raise scan_error "'w slice"

definition count_error :: "'w slice \<Rightarrow> 'w slice" where
  "count_error s = s\<lparr>sl_errors := sl_errors s + 1\<rparr>"

text \<open>\<open>cancelled(error)\<close>: an abort ends the slice, any other error is counted.\<close>

definition is_cancelled :: "'w scan_port \<Rightarrow> scan_error \<Rightarrow> 'w slice \<Rightarrow> bool" where
  "is_cancelled port e s \<longleftrightarrow> sp_aborted port (sl_world s) \<or> e = ScanAborted"

definition tolerate :: "'w scan_port \<Rightarrow> scan_error + 'a \<Rightarrow> 'w slice \<Rightarrow> scan_error + 'w slice" where
  "tolerate port r s = (case r of
       Inr _ \<Rightarrow> Ok s
     | Inl e \<Rightarrow> if is_cancelled port e s then Throw (if sp_aborted port (sl_world s) then ScanAborted else e) else Ok (count_error s))"

definition save_slice :: "'w scan_port \<Rightarrow> 'w slice \<Rightarrow> 'w round" where
  "save_slice port s = (case sp_save port (sl_progress s) (sl_world s) of
       (Inl e, w) \<Rightarrow> Raise e (s\<lparr>sl_world := w\<rparr>)
     | (Inr _, w) \<Rightarrow> Next (s\<lparr>sl_world := w, sl_saved := sl_saved s + 1\<rparr>))"

definition finish_definition :: "string \<Rightarrow> string \<Rightarrow> 'w slice \<Rightarrow> 'w slice" where
  "finish_definition org i s = s\<lparr>sl_progress := (sl_progress s)\<lparr>pg_definitions_after := Some (org, i), pg_partial := None\<rparr>,
     sl_current := None\<rparr>"

subsection \<open>The lane of the fires\<close>

definition reconcile_item :: "'w scan_port \<Rightarrow> fire_row \<Rightarrow> fire_row list \<Rightarrow> 'w slice \<Rightarrow> 'w round" where
  "reconcile_item port f rest s =
     (case sp_reconcile port f (sp_now port (sl_world s)) (sl_world s) of (r, w) \<Rightarrow>
        (let s1 = s\<lparr>sl_fires := rest, sl_world := w\<rparr> in
         case tolerate port r s1 of
           Inl e \<Rightarrow> Raise e s1
         | Inr s2 \<Rightarrow> save_slice port (s2\<lparr>sl_progress := (sl_progress s2)\<lparr>pg_fires_after := Some (fr_org f, fr_id f)\<rparr>,
             sl_items := sl_items s2 + 1\<rparr>)))"

definition fires_round :: "'w scan_port \<Rightarrow> 'w slice \<Rightarrow> 'w round" where
  "fires_round port s = (case sl_fires s of
       f # rest \<Rightarrow> reconcile_item port f rest s
     | [] \<Rightarrow>
         (case sp_fires port (sp_now port (sl_world s)) 100 (pg_fires_after (sl_progress s)) (sl_world s) of
            (Inl e, w) \<Rightarrow>
              (let s1 = s\<lparr>sl_world := w\<rparr> in
               if is_cancelled port e s1 then Raise ScanAborted s1
               else Next (count_error (s1\<lparr>sl_blocked_fires := True\<rparr>)))
          | (Inr [], w) \<Rightarrow> save_slice port (s\<lparr>sl_progress := (sl_progress s)\<lparr>pg_fires_done := True\<rparr>, sl_world := w\<rparr>)
          | (Inr (f # rest), w) \<Rightarrow> reconcile_item port f rest (s\<lparr>sl_world := w\<rparr>)))"

subsection \<open>The lane of the definitions\<close>

definition request_of :: "auto_definition \<Rightarrow> string \<Rightarrow> occurrence \<Rightarrow> occurrence_decision \<Rightarrow> fire_request" where
  "request_of d date occ decision = \<lparr>fq_org = ad_org d, fq_definition = ad_id d, fq_epoch = ad_epoch d, fq_date = date,
     fq_resolved = oc_resolved occ, fq_reason = (case decision of SkippedFire r _ \<Rightarrow> Some r | _ \<Rightarrow> None)\<rparr>"

text \<open>The body of the \<open>try\<close> for one date.\<close>

definition reconcile_date ::
    "'w scan_port \<Rightarrow> auto_definition \<Rightarrow> string \<Rightarrow> int \<Rightarrow> 'w \<Rightarrow> (scan_error + unit) \<times> 'w" where
  "reconcile_date port d date now w =
     (case resolveAppAutomationOccurrence (sp_zones port) date (ad_local_time d) (ad_timezone d) of
        Inl _ \<Rightarrow> (Inl ScanError, w)
      | Inr occ \<Rightarrow>
          (case classifyAppAutomationOccurrence (sp_zones port) occ now (eligible_after_of d) (Some (ad_valid_until d)) 15 of
             Inl _ \<Rightarrow> (Inl ScanError, w)
           | Inr decision \<Rightarrow>
               if decision = Future \<or> decision = NotEligible then (Inr (), w)
               else (case sp_ensure port (request_of d date occ decision) (sp_now port w) w of
                   (Inl e, w1) \<Rightarrow> (Inl e, w1)
                 | (Inr None, w1) \<Rightarrow> (Inr (), w1)
                 | (Inr (Some f), w1) \<Rightarrow> if active_fire f then sp_reconcile port f (sp_now port w1) w1 else (Inr (), w1))))"

definition date_round :: "'w scan_port \<Rightarrow> auto_definition \<Rightarrow> 'w slice \<Rightarrow> 'w round" where
  "date_round port d s =
     (let now = sp_now port (sl_world s) in
      if ad_state d \<noteq> DefActive \<or> ad_valid_from d > now \<or> ad_valid_until d \<le> now
      then save_slice port (finish_definition (ad_org d) (ad_id d) s)
      else case listAppAutomationLogicalDates (sp_zones port) (eligible_after_of d) now (ad_timezone d) None of
             Inl _ \<Rightarrow>
               if is_cancelled port ScanError s then Raise ScanAborted s
               else save_slice port (finish_definition (ad_org d) (ad_id d) (count_error s))
           | Inr dates \<Rightarrow>
               (let index = (case pg_partial (sl_progress s) of
                      None \<Rightarrow> Some 0
                    | Some q \<Rightarrow> js_find_index (\<lambda>date. pt_next_date q \<le> date) dates)
                in case index of
                  None \<Rightarrow> save_slice port (finish_definition (ad_org d) (ad_id d) s)
                | Some k \<Rightarrow>
                    if k \<ge> length dates then save_slice port (finish_definition (ad_org d) (ad_id d) s)
                    else (case reconcile_date port d (dates ! k) now (sl_world s) of (r, w) \<Rightarrow>
                        (let s1 = s\<lparr>sl_world := w\<rparr> in
                         case tolerate port r s1 of
                           Inl e \<Rightarrow> Raise e s1
                         | Inr s2 \<Rightarrow>
                             (let s3 = s2\<lparr>sl_decisions := sl_decisions s2 + 1\<rparr> in
                              save_slice port
                                (if Suc k < length dates
                                 then s3\<lparr>sl_progress := (sl_progress s3)\<lparr>pg_partial := Some \<lparr>pt_org = ad_org d,
                                   pt_definition = ad_id d, pt_epoch = ad_epoch d, pt_next_date = dates ! Suc k\<rparr>\<rparr>\<rparr>
                                 else finish_definition (ad_org d) (ad_id d) s3))))))"

text \<open>A definition that was left half way is loaded again; it is given up when its epoch has changed.\<close>

definition resume_definition :: "'w scan_port \<Rightarrow> partial_scan \<Rightarrow> 'w slice \<Rightarrow> 'w round" where
  "resume_definition port q s =
     (case sp_load port (pt_org q) (pt_definition q) (sl_world s) of
        (Inl e, w) \<Rightarrow>
          (let s1 = s\<lparr>sl_world := w\<rparr> in
           if is_cancelled port e s1 then Raise ScanAborted s1
           else Next (count_error (s1\<lparr>sl_blocked_definitions := True\<rparr>)))
      | (Inr found, w) \<Rightarrow>
          (let s1 = s\<lparr>sl_world := w, sl_current := found, sl_visits := sl_visits s + 1\<rparr> in
           case found of
             None \<Rightarrow> save_slice port (finish_definition (pt_org q) (pt_definition q) s1)
           | Some d \<Rightarrow>
               if ad_epoch d \<noteq> pt_epoch q then save_slice port (finish_definition (pt_org q) (pt_definition q) s1)
               else date_round port d s1))"

definition take_definition :: "'w scan_port \<Rightarrow> auto_definition \<Rightarrow> auto_definition list \<Rightarrow> 'w slice \<Rightarrow> 'w round" where
  "take_definition port d rest s =
     date_round port d (s\<lparr>sl_definitions := rest, sl_current := Some d, sl_visits := sl_visits s + 1\<rparr>)"

definition definitions_round :: "'w scan_port \<Rightarrow> 'w slice \<Rightarrow> 'w round" where
  "definitions_round port s = (case sl_current s of
       Some d \<Rightarrow> date_round port d s
     | None \<Rightarrow>
         (case pg_partial (sl_progress s) of
            Some q \<Rightarrow> resume_definition port q s
          | None \<Rightarrow>
              (case sl_definitions s of
                 d # rest \<Rightarrow> take_definition port d rest s
               | [] \<Rightarrow>
                   (case sp_definitions port (sp_now port (sl_world s)) 100 (pg_definitions_after (sl_progress s)) (sl_world s) of
                      (Inl e, w) \<Rightarrow>
                        (let s1 = s\<lparr>sl_world := w\<rparr> in
                         if is_cancelled port e s1 then Raise ScanAborted s1
                         else Next (count_error (s1\<lparr>sl_blocked_definitions := True\<rparr>)))
                    | (Inr [], w) \<Rightarrow>
                        save_slice port (s\<lparr>sl_progress := (sl_progress s)\<lparr>pg_definitions_done := True\<rparr>, sl_world := w\<rparr>)
                    | (Inr (d # rest), w) \<Rightarrow> take_definition port d rest (s\<lparr>sl_world := w\<rparr>)))))"

subsection \<open>The slice\<close>

definition lane_closed :: "lane \<Rightarrow> 'w slice \<Rightarrow> bool" where
  "lane_closed l s = (case l of
       LaneDefinitions \<Rightarrow> pg_definitions_done (sl_progress s) \<or> sl_blocked_definitions s
     | LaneFires \<Rightarrow> pg_fires_done (sl_progress s) \<or> sl_blocked_fires s)"

definition other_lane :: "lane \<Rightarrow> lane" where
  "other_lane l = (case l of LaneFires \<Rightarrow> LaneDefinitions | LaneDefinitions \<Rightarrow> LaneFires)"

definition slice_round :: "'w scan_port \<Rightarrow> 'w slice \<Rightarrow> 'w round" where
  "slice_round port s =
     (if sp_aborted port (sl_world s) then Raise ScanAborted s
      else if pg_definitions_done (sl_progress s) \<and> pg_fires_done (sl_progress s)
      then (case save_slice port (s\<lparr>sl_progress := (sl_progress s)\<lparr>pg_complete := True\<rparr>\<rparr>) of
              Next s' \<Rightarrow> Complete s' | r \<Rightarrow> r)
      else let first = pg_next_lane (sl_progress s);
               l = (if lane_closed first s then other_lane first else first)
           in if lane_closed l s then (if sl_saved s > 0 then Partial s else Raise ScanError s)
              else let s' = s\<lparr>sl_progress := (sl_progress s)\<lparr>pg_next_lane := other_lane l\<rparr>\<rparr>
                   in case l of LaneFires \<Rightarrow> fires_round port s' | LaneDefinitions \<Rightarrow> definitions_round port s')"

definition slice_open :: "'w scan_port \<Rightarrow> 'w slice \<Rightarrow> bool" where
  "slice_open port s \<longleftrightarrow> \<not> sp_late port (sl_world s) \<and> sl_visits s < SLICE_DEFINITION_VISITS
     \<and> sl_items s < SLICE_FIRE_ITEMS \<and> sl_decisions s < SLICE_DECISIONS"

text \<open>The loop has no bound of its own; \<open>None\<close> is a slice that does not return.\<close>

partial_function (option) slice_loop :: "'w scan_port \<Rightarrow> 'w slice \<Rightarrow> (scan_error + bool \<times> 'w slice) option" where
  "slice_loop port s =
     (if slice_open port s
      then (case slice_round port s of
              Next s' \<Rightarrow> slice_loop port s'
            | Complete s' \<Rightarrow> Some (Ok (True, s'))
            | Partial s' \<Rightarrow> Some (Ok (False, s'))
            | Raise e s' \<Rightarrow> Some (Throw e))
      else if sp_aborted port (sl_world s) then Some (Throw ScanAborted)
      else if sl_saved s = 0 then Some (Throw ScanError)
      else Some (Ok (False, s)))"

declare slice_loop.simps [code]

definition scanAppAutomationSlice ::
    "'w scan_port \<Rightarrow> scan_progress \<Rightarrow> 'w \<Rightarrow> (scan_error + bool \<times> 'w slice) option" where
  "scanAppAutomationSlice port initial w =
     slice_loop port \<lparr>sl_progress = initial, sl_visits = 0, sl_items = 0, sl_decisions = 0, sl_saved = 0, sl_errors = 0,
       sl_definitions = [], sl_fires = [], sl_current = None, sl_blocked_definitions = False, sl_blocked_fires = False,
       sl_world = w\<rparr>"

end
