(* ===== verification/AutomationScanProperties.thy ===== *)
theory AutomationScanProperties
  imports AutomationScan
begin

text \<open>
  A slice of the automation scan always ends, whatever the database, the clock and the other workers
  do: every round that is followed by another one uses up a part of a budget.
\<close>

subsection \<open>The budget of a slice\<close>

definition spent :: "bool \<Rightarrow> nat" where
  "spent b = (if b then 0 else 1)"

lemma spent_simps [simp]: "spent True = 0" "spent False = Suc 0" "b \<Longrightarrow> spent b = 0" "\<not> b \<Longrightarrow> spent b = Suc 0"
  by (simp_all add: spent_def)

text \<open>A visit pays for two rounds: the one that starts a definition and the one that gives it up.\<close>

definition budget :: "'w slice \<Rightarrow> nat" where
  "budget s = 2 * (SLICE_DEFINITION_VISITS - sl_visits s) + (SLICE_FIRE_ITEMS - sl_items s) + (SLICE_DECISIONS - sl_decisions s)
     + spent (sl_current s = None) + spent (sl_blocked_definitions s) + spent (sl_blocked_fires s)
     + spent (pg_definitions_done (sl_progress s)) + spent (pg_fires_done (sl_progress s))"

definition within_limits :: "'w slice \<Rightarrow> bool" where
  "within_limits s \<longleftrightarrow> sl_visits s < SLICE_DEFINITION_VISITS \<and> sl_items s < SLICE_FIRE_ITEMS \<and> sl_decisions s < SLICE_DECISIONS"

lemma save_slice_Next:
  assumes "save_slice port s = Next s'"
  shows "budget s' = budget s"
  using assms by (auto simp: save_slice_def budget_def split: prod.splits sum.splits)

lemma budget_count_error [simp]: "budget (count_error s) = budget s"
  by (simp add: count_error_def budget_def)

lemma budget_finish: "budget (finish_definition org i s) + (spent (sl_current s = None)) = budget s"
  by (simp add: finish_definition_def budget_def)

lemma tolerate_budget: "tolerate port r s = Inr s' \<Longrightarrow> s' = s \<or> s' = count_error s"
  by (auto simp: tolerate_def split: sum.splits if_splits)

lemma reconcile_item_budget:
  assumes "reconcile_item port f rest s = Next s'" "sl_items s < SLICE_FIRE_ITEMS"
  shows "budget s' < budget s"
proof -
  obtain r w where rw: "sp_reconcile port f (sp_now port (sl_world s)) (sl_world s) = (r, w)" by fastforce
  define s1 where "s1 = s\<lparr>sl_fires := rest, sl_world := w\<rparr>"
  from assms(1) rw obtain s2 where s2: "tolerate port r s1 = Inr s2"
    and save: "save_slice port (s2\<lparr>sl_progress := (sl_progress s2)\<lparr>pg_fires_after := Some (fr_org f, fr_id f)\<rparr>,
             sl_items := sl_items s2 + 1\<rparr>) = Next s'"
    by (auto simp: reconcile_item_def Let_def s1_def split: sum.splits)
  have "sl_items s2 = sl_items s" "budget s2 = budget s"
    using tolerate_budget[OF s2] by (auto simp: s1_def budget_def count_error_def)
  moreover have "budget (s2\<lparr>sl_progress := (sl_progress s2)\<lparr>pg_fires_after := Some (fr_org f, fr_id f)\<rparr>,
      sl_items := sl_items s2 + 1\<rparr>) < budget s2"
    using calculation(1) assms(2) by (simp add: budget_def)
  ultimately show ?thesis using save_slice_Next[OF save] by simp
qed

lemma fires_round_budget:
  assumes "fires_round port s = Next s'" "sl_items s < SLICE_FIRE_ITEMS"
    and "\<not> pg_fires_done (sl_progress s)" "\<not> sl_blocked_fires s"
  shows "budget s' < budget s"
proof (cases "sl_fires s")
  case (Cons f rest)
  then show ?thesis using assms(1,2) reconcile_item_budget by (simp add: fires_round_def)
next
  case Nil
  obtain r w where rw: "sp_fires port (sp_now port (sl_world s)) 100 (pg_fires_after (sl_progress s)) (sl_world s) = (r, w)"
    by fastforce
  show ?thesis
  proof (cases r)
    case (Inl e)
    then show ?thesis using assms(1,4) Nil rw by (auto simp: fires_round_def Let_def budget_def count_error_def split: if_splits)
  next
    case (Inr fs)
    show ?thesis
    proof (cases fs)
      case Nil
      then have "save_slice port (s\<lparr>sl_progress := (sl_progress s)\<lparr>pg_fires_done := True\<rparr>, sl_world := w\<rparr>) = Next s'"
        using assms(1) Inr rw \<open>sl_fires s = []\<close> by (simp add: fires_round_def)
      from save_slice_Next[OF this] show ?thesis using assms(3) by (simp add: budget_def)
    next
      case (Cons f rest)
      have "budget s' < budget (s\<lparr>sl_world := w\<rparr>)"
        using assms(1,2) Inr rw Cons \<open>sl_fires s = []\<close> by (intro reconcile_item_budget) (simp_all add: fires_round_def)
      then show ?thesis by (simp add: budget_def)
    qed
  qed
qed

text \<open>A round on a definition that is being worked on gives it up or takes a decision.\<close>

lemma date_round_budget:
  assumes "date_round port d s = Next s'" "sl_decisions s < SLICE_DECISIONS" "sl_current s \<noteq> None"
  shows "budget s' < budget s"
proof -
  note fin = save_slice_Next budget_finish[of "ad_org d" "ad_id d" s] budget_finish[of "ad_org d" "ad_id d" "count_error s"]
  let ?now = "sp_now port (sl_world s)"
  consider (closed) "save_slice port (finish_definition (ad_org d) (ad_id d) s) = Next s'"
    | (failed) "save_slice port (finish_definition (ad_org d) (ad_id d) (count_error s)) = Next s'"
    | (decided) dates k w s2 s4 and r :: "scan_error + unit" where "k < length dates" "tolerate port r (s\<lparr>sl_world := w\<rparr>) = Inr s2"
        "save_slice port s4 = Next s'"
        "s4 = (if Suc k < length dates
           then s2\<lparr>sl_decisions := sl_decisions s2 + 1, sl_progress := (sl_progress s2)\<lparr>pg_partial := Some \<lparr>pt_org = ad_org d,
                     pt_definition = ad_id d, pt_epoch = ad_epoch d, pt_next_date = dates ! Suc k\<rparr>\<rparr>\<rparr>
           else finish_definition (ad_org d) (ad_id d) (s2\<lparr>sl_decisions := sl_decisions s2 + 1\<rparr>))"
  proof (cases "ad_state d \<noteq> DefActive \<or> ad_valid_from d > ?now \<or> ad_valid_until d \<le> ?now")
    case True
    then show ?thesis using assms(1) closed by (simp add: date_round_def Let_def)
  next
    case open_def: False
    show ?thesis
    proof (cases "listAppAutomationLogicalDates (sp_zones port) (eligible_after_of d) ?now (ad_timezone d) None")
      case (Inl e)
      then show ?thesis using assms(1) failed open_def by (simp add: date_round_def Let_def split: if_splits)
    next
      case (Inr dates)
      define index where "index = (case pg_partial (sl_progress s) of None \<Rightarrow> Some 0
          | Some q \<Rightarrow> js_find_index (\<lambda>date. pt_next_date q \<le> date) dates)"
      show ?thesis
      proof (cases "index = None \<or> (\<exists>k. index = Some k \<and> k \<ge> length dates)")
        case True
        then show ?thesis using assms(1) closed open_def Inr
          by (auto simp: date_round_def Let_def index_def split: option.splits)
      next
        case False
        then obtain k where k: "index = Some k" "k < length dates" by (cases index) auto
        obtain r w where rw: "reconcile_date port d (dates ! k) ?now (sl_world s) = (r, w)" by fastforce
        have "date_round port d s = (case tolerate port r (s\<lparr>sl_world := w\<rparr>) of
            Inl e \<Rightarrow> Raise e (s\<lparr>sl_world := w\<rparr>)
          | Inr s2 \<Rightarrow> save_slice port (if Suc k < length dates
              then s2\<lparr>sl_decisions := sl_decisions s2 + 1, sl_progress := (sl_progress s2)\<lparr>pg_partial := Some \<lparr>pt_org = ad_org d,
                     pt_definition = ad_id d, pt_epoch = ad_epoch d, pt_next_date = dates ! Suc k\<rparr>\<rparr>\<rparr>
              else finish_definition (ad_org d) (ad_id d) (s2\<lparr>sl_decisions := sl_decisions s2 + 1\<rparr>)))"
          using open_def Inr k rw by (simp add: date_round_def Let_def flip: index_def cong: if_cong sum.case_cong)
        note eq = this[unfolded assms(1)]
        show ?thesis
        proof (cases "tolerate port r (s\<lparr>sl_world := w\<rparr>)")
          case (Inr s2)
          show ?thesis using decided[OF k(2) Inr] eq Inr by simp
        qed (use eq in simp)
      qed
    qed
  qed
  then show ?thesis
  proof cases
    case closed
    then show ?thesis using fin(1)[OF closed] fin(2) assms(3) by simp
  next
    case failed
    then show ?thesis using fin(1)[OF failed] fin(3) assms(3) by (simp add: count_error_def budget_def)
  next
    case decided
    have same: "sl_decisions s2 = sl_decisions s" "budget s2 = budget s" "sl_current s2 = sl_current s"
      using tolerate_budget[OF decided(2)] by (auto simp: budget_def count_error_def)
    have "budget (s2\<lparr>sl_decisions := sl_decisions s2 + 1, sl_progress := (sl_progress s2)\<lparr>pg_partial := q\<rparr>\<rparr>) < budget s2" for q
      using same(1) assms(2) by (simp add: budget_def)
    moreover have "budget (finish_definition (ad_org d) (ad_id d) (s2\<lparr>sl_decisions := sl_decisions s2 + 1\<rparr>)) < budget s2"
      using same(1,3) assms(2,3) by (simp add: budget_def finish_definition_def)
    ultimately have "budget s4 < budget s2" using decided(4) by (cases "Suc k < length dates") simp_all
    then show ?thesis using save_slice_Next[OF decided(3)] same(2) by simp
  qed
qed

lemma take_definition_budget:
  assumes "take_definition port d rest (s\<lparr>sl_world := w\<rparr>) = Next s'" "within_limits s" "sl_current s = None"
  shows "budget s' < budget s"
proof -
  let ?s = "s\<lparr>sl_world := w, sl_definitions := rest, sl_current := Some d, sl_visits := sl_visits s + 1\<rparr>"
  have "date_round port d ?s = Next s'" using assms(1) by (simp add: take_definition_def)
  then have "budget s' < budget ?s" using assms(2) by (intro date_round_budget[of port d]) (simp_all add: within_limits_def)
  moreover have "budget ?s < budget s" using assms(2,3) by (simp add: within_limits_def budget_def) arith
  ultimately show ?thesis by simp
qed

lemma resume_definition_budget:
  assumes "resume_definition port q s = Next s'" "within_limits s" "sl_current s = None" "\<not> sl_blocked_definitions s"
  shows "budget s' < budget s"
proof -
  obtain r w where rw: "sp_load port (pt_org q) (pt_definition q) (sl_world s) = (r, w)" by fastforce
  show ?thesis
  proof (cases r)
    case (Inl e)
    then have "s' = count_error (s\<lparr>sl_world := w, sl_blocked_definitions := True\<rparr>)"
      using assms(1) rw by (simp add: resume_definition_def Let_def split: if_split_asm)
    then show ?thesis using assms(4) by (simp add: budget_def count_error_def)
  next
    case (Inr found)
    let ?s = "s\<lparr>sl_world := w, sl_current := found, sl_visits := sl_visits s + 1\<rparr>"
    have less: "budget ?s < budget s" using assms(2,3) by (cases found; simp add: within_limits_def budget_def; arith)
    consider (given_up) "save_slice port (finish_definition (pt_org q) (pt_definition q) ?s) = Next s'"
      | (loaded) d where "found = Some d" "date_round port d ?s = Next s'"
      using assms(1) rw Inr by (cases found) (simp_all add: resume_definition_def Let_def split: if_split_asm)
    then show ?thesis
    proof cases
      case given_up
      from save_slice_Next[OF this] show ?thesis using budget_finish[of "pt_org q" "pt_definition q" ?s] less by simp
    next
      case loaded
      then have "budget s' < budget ?s" using assms(2) by (intro date_round_budget[of port d]) (simp_all add: within_limits_def)
      then show ?thesis using less by simp
    qed
  qed
qed

lemma definitions_round_budget:
  assumes "definitions_round port s = Next s'" "within_limits s"
    and "\<not> pg_definitions_done (sl_progress s)" "\<not> sl_blocked_definitions s"
  shows "budget s' < budget s"
proof (cases "sl_current s")
  case (Some d)
  then show ?thesis using assms(1,2) date_round_budget[of port d s s'] by (simp add: definitions_round_def within_limits_def)
next
  case idle: None
  show ?thesis
  proof (cases "pg_partial (sl_progress s)")
    case (Some q)
    then show ?thesis using resume_definition_budget[of port q s s'] assms idle by (simp add: definitions_round_def)
  next
    case whole: None
    show ?thesis
    proof (cases "sl_definitions s")
      case (Cons d rest)
      then show ?thesis using take_definition_budget[of port d rest "sl_world s" s s'] assms(1,2) idle whole
        by (simp add: definitions_round_def)
    next
      case Nil
      obtain r w where rw: "sp_definitions port (sp_now port (sl_world s)) 100 (pg_definitions_after (sl_progress s)) (sl_world s)
          = (r, w)" by fastforce
      note eq = assms(1)[unfolded definitions_round_def idle whole Nil rw option.case list.case prod.case]
      show ?thesis
      proof (cases r)
        case (Inl e)
        then have "s' = count_error (s\<lparr>sl_world := w, sl_blocked_definitions := True\<rparr>)"
          using eq by (simp add: Let_def split: if_split_asm)
        then show ?thesis using assms(4) by (simp add: budget_def count_error_def)
      next
        case (Inr page)
        show ?thesis
        proof (cases page)
          case Nil
          then have "save_slice port (s\<lparr>sl_progress := (sl_progress s)\<lparr>pg_definitions_done := True\<rparr>, sl_world := w\<rparr>) = Next s'"
            using eq Inr by simp
          from save_slice_Next[OF this] show ?thesis using assms(3) by (simp add: budget_def)
        next
          case (Cons d rest)
          then show ?thesis using take_definition_budget[of port d rest w s s'] eq Inr assms(2) idle by simp
        qed
      qed
    qed
  qed
qed

subsection \<open>The loop\<close>

lemma budget_next_lane: "budget (s\<lparr>sl_progress := (sl_progress s)\<lparr>pg_next_lane := l\<rparr>\<rparr>) = budget s"
  by (simp add: budget_def)

lemma slice_round_budget:
  assumes "slice_round port s = Next s'" "slice_open port s"
  shows "budget s' < budget s"
proof -
  have limits: "within_limits s" using assms(2) by (simp add: slice_open_def within_limits_def)
  define first where "first = pg_next_lane (sl_progress s)"
  define l where "l = (if lane_closed first s then other_lane first else first)"
  let ?s = "s\<lparr>sl_progress := (sl_progress s)\<lparr>pg_next_lane := other_lane l\<rparr>\<rparr>"
  have running: "\<not> sp_aborted port (sl_world s)" "\<not> (pg_definitions_done (sl_progress s) \<and> pg_fires_done (sl_progress s))"
    using assms(1) by (auto simp: slice_round_def split: if_split_asm round.splits)
  note eq = assms(1)[unfolded slice_round_def if_not_P[OF running(1)] if_not_P[OF running(2)] Let_def,
      folded first_def, folded l_def]
  have l_open: "\<not> lane_closed l s" using eq by (auto split: if_split_asm)
  show ?thesis
  proof (cases l)
    case LaneFires
    then have "fires_round port ?s = Next s'" using eq l_open by simp
    moreover have "\<not> pg_fires_done (sl_progress ?s)" "\<not> sl_blocked_fires ?s" "sl_items ?s < SLICE_FIRE_ITEMS"
      using l_open LaneFires limits by (simp_all add: lane_closed_def within_limits_def)
    ultimately have "budget s' < budget ?s" using fires_round_budget[of port ?s s'] by simp
    then show ?thesis by (simp add: budget_next_lane)
  next
    case LaneDefinitions
    then have "definitions_round port ?s = Next s'" using eq l_open by simp
    moreover have "\<not> pg_definitions_done (sl_progress ?s)" "\<not> sl_blocked_definitions ?s" "within_limits ?s"
      using l_open LaneDefinitions limits by (simp_all add: lane_closed_def within_limits_def)
    ultimately have "budget s' < budget ?s" using definitions_round_budget[of port ?s s'] by simp
    then show ?thesis by (simp add: budget_next_lane)
  qed
qed

lemma slice_loop_ends: "\<exists>r. slice_loop port s = Some r"
proof (induction "budget s" arbitrary: s rule: less_induct)
  case less
  show ?case
  proof (cases "slice_open port s")
    case True
    show ?thesis
    proof (cases "slice_round port s")
      case (Next s')
      from less[OF slice_round_budget[OF Next True]] show ?thesis
        using True Next by (subst slice_loop.simps) simp
    qed (use True in \<open>subst slice_loop.simps, simp\<close>)+
  qed (subst slice_loop.simps, simp)
qed

text \<open>C19.
  A scan slice always returns.  Whatever the database answers, whatever clock and cancellation do and
  wherever the saved progress stands, the loop of \<open>scanAppAutomationSlice\<close> ends after finitely many
  rounds, with a result or an error; its only bounds in the code are the counters of visits, items and
  decisions, and rounds that count none of them close or block a lane.\<close>

theorem scan_slice_ends: "\<exists>r. scanAppAutomationSlice port initial w = Some r"
  unfolding scanAppAutomationSlice_def by (rule slice_loop_ends)

end
