(* ===== verification/AutomationProperties.thy ===== *)
theory AutomationProperties
  imports AutomationService
begin

text \<open>
  What the transactions on automations keep: the statements on fires through \<open>update_fire\<close>, the
  invariant of the stored fires over every transaction, the admission of a claim, and the failed
  delivery that no statement can charge.
\<close>

subsection \<open>The update of a fire\<close>

definition accepted :: "(auto_definition \<Rightarrow> bool) \<Rightarrow> automation_store \<Rightarrow> fire_row \<Rightarrow> fire_row \<Rightarrow> bool" where
  "accepted approver st new old \<longleftrightarrow> fire_update_guard approver st new old \<and> fire_checks new
     \<and> \<not> list_ex (\<lambda>g. fr_id g \<noteq> fr_id old \<and> fire_collides new g) (as_fires st)"

definition put_fire :: "fire_row \<Rightarrow> automation_store \<Rightarrow> automation_store" where
  "put_fire new st = st\<lparr>as_fires := map (\<lambda>g. if fr_id g = fr_id new then new else g) (as_fires st)\<rparr>"

lemma guard_keeps_id:
  assumes "fire_update_guard approver st new old"
  shows "fr_id new = fr_id old" "fr_org new = fr_org old" "fr_definition new = fr_definition old"
    "fr_date new = fr_date old" "fr_identity new = fr_identity old" "fr_epoch new = fr_epoch old"
    "fr_resolved new = fr_resolved old"
proof -
  have "immutable_fire new old" using assms by (simp add: fire_update_guard_def split: option.splits)
  note eq = this[unfolded immutable_fire_def]
  show "fr_id new = fr_id old" "fr_org new = fr_org old" "fr_definition new = fr_definition old"
    "fr_date new = fr_date old" "fr_identity new = fr_identity old" "fr_epoch new = fr_epoch old"
    "fr_resolved new = fr_resolved old"
    by (subst eq, simp)+
qed

lemma guard_active:
  assumes "fire_update_guard approver st new old"
  shows "active_fire old"
  using assms by (cases "fr_state old") (auto simp: fire_update_guard_def active_fire_def split: option.splits)

lemma update_fire_None [simp]:
  "update_fire approver p changes st = Inr (None, st') \<longleftrightarrow> List.find p (as_fires st) = None \<and> st' = st"
  by (auto simp: update_fire_def Let_def split: option.splits)

lemma update_fire_Some [simp]:
  "update_fire approver p changes st = Inr (Some new, st') \<longleftrightarrow>
     (\<exists>old. List.find p (as_fires st) = Some old \<and> new = changes old \<and> accepted approver st new old \<and> st' = put_fire new st)"
proof (cases "List.find p (as_fires st)")
  case (Some old)
  show ?thesis
  proof (cases "fire_update_guard approver st (changes old) old")
    case True
    note same = guard_keeps_id(1)[OF True]
    show ?thesis using Some True same by (auto simp: update_fire_def Let_def accepted_def put_fire_def)
  qed (use Some in \<open>auto simp: update_fire_def Let_def accepted_def\<close>)
qed (simp add: update_fire_def)

lemma update_fire_refused:
  "List.find p (as_fires st) = Some old \<Longrightarrow> \<not> fire_update_guard approver st (changes old) old
     \<Longrightarrow> update_fire approver p changes st = Inl GuardRefused"
  by (simp add: update_fire_def Let_def)

lemma find_fire: "List.find p fs = Some f \<Longrightarrow> f \<in> set fs \<and> p f"
  by (induction fs) (auto split: if_split_asm)

lemma find_fire_None: "List.find p fs = None \<longleftrightarrow> \<not> list_ex p fs"
  by (induction fs) auto

subsection \<open>A failed delivery\<close>

lemma pending_guard:
  "fire_update_guard approver st new old \<Longrightarrow> fr_state old = FirePending
     \<Longrightarrow> fr_state new = FireClaimed \<or> fr_state new = FireSkipped"
  by (simp add: fire_update_guard_def split: option.splits)

text \<open>Neither the attempt counter nor the state that the charge writes passes the guard.\<close>

lemma charge_is_refused:
  "chargeFailedAppAutomationFireDeliveryWithExecutor approver e k t st =
     (if k < 3 \<and> list_ex (\<lambda>f. is_exact e f \<and> fr_state f = FirePending \<and> fr_attempts f = k) (as_fires st)
      then Throw GuardRefused else Ok (None, st))"
proof (cases "k < 3")
  case True
  define p where "p = (\<lambda>f. is_exact e f \<and> fr_state f = FirePending \<and> fr_attempts f = k)"
  define changes where "changes = (\<lambda>f :: fire_row. f\<lparr>fr_attempts := k + 1, fr_state := (if k + 1 = 3 then FireDeadLetter else FirePending),
        fr_reason := (if k + 1 = 3 then Some ReasonExhausted else None),
        fr_terminal_at := (if k + 1 = 3 then Some t else None)\<rparr>)"
  have eq: "chargeFailedAppAutomationFireDeliveryWithExecutor approver e k t st = update_fire approver p changes st"
    using True by (simp add: chargeFailedAppAutomationFireDeliveryWithExecutor_def p_def changes_def Let_def)
  show ?thesis
  proof (cases "List.find p (as_fires st)")
    case None
    then show ?thesis using find_fire_None[of p "as_fires st"] unfolding eq p_def by (simp add: update_fire_def)
  next
    case (Some f)
    have "p f" "list_ex p (as_fires st)"
      using find_fire[OF Some] find_fire_None[of p "as_fires st"] Some by simp_all
    then have "fr_state f = FirePending" "list_ex p (as_fires st)" by (simp_all add: p_def)
    moreover from this(1) have "\<not> fire_update_guard approver st (changes f) f"
      using pending_guard[of approver st "changes f" f] by (auto simp: changes_def)
    ultimately show ?thesis using update_fire_refused[OF Some] True unfolding eq p_def by simp
  qed
qed (simp add: chargeFailedAppAutomationFireDeliveryWithExecutor_def)

lemma rearmed_queue_refused: "queue_delivery approver clock True d f st \<noteq> Inr (True, st')"
  by (auto simp: queue_delivery_def charge_is_refused res_bind_Ok_iff split: if_splits)

text \<open>C25.
  A failed delivery is never put back.  When the queue has a failed job for a fire, the scan rearms the
  job and charges the fire with an attempt in the same transaction.  The charge never succeeds: on the
  pending fire it is meant for the guard of the table refuses it, as a pending fire may only become
  claimed or skipped and its attempts may only grow by a claim; otherwise it changes nothing, which is
  an error as well.  So no transaction that rearms a job commits with the job queued.\<close>

theorem rearmed_delivery_is_never_charged:
  "chargeFailedAppAutomationFireDeliveryWithExecutor approver e k t st =
     (if k < 3 \<and> list_ex (\<lambda>f. is_exact e f \<and> fr_state f = FirePending \<and> fr_attempts f = k) (as_fires st)
      then Throw GuardRefused else Ok (None, st))
   \<and> reconcileFire approver clock True candidate st \<noteq> Ok (True, st')"
proof
  show "reconcileFire approver clock True candidate st \<noteq> Ok (True, st')"
    by (auto simp: reconcileFire_def rearmed_queue_refused res_bind_Ok_iff split: option.splits if_splits)
qed (rule charge_is_refused)

subsection \<open>The stored fires\<close>

text \<open>
  One transaction on automations, whoever asks for it: a change of a definition's state, the recording of
  a fire, a claim, the end of a claim, the binding of a run, the ends of a fire without a run, and the
  reconciliation by the scan.
\<close>

inductive automation_step :: "automation_store \<Rightarrow> automation_store \<Rightarrow> bool" where
  transition: "transitionDefinition w a i n s s' now st = Inr (d, st') \<Longrightarrow> automation_step st st'"
| persist: "persistAppAutomationFire env approver clock q st = Inr (f, st') \<Longrightarrow> automation_step st st'"
| claim: "claimAppAutomationFireWithExecutor approver e owner token now lease st = Inr (r, st') \<Longrightarrow> automation_step st st'"
| bind: "bindAppAutomationFireRunWithExecutor approver e token run now st = Inr (r, st') \<Longrightarrow> automation_step st st'"
| fail: "settleFailedAppAutomationFireClaimWithExecutor approver e token now st = Inr (r, st') \<Longrightarrow> automation_step st st'"
| recover: "recoverExpiredAppAutomationFireClaimWithExecutor approver e token now st = Inr (r, st') \<Longrightarrow> automation_step st st'"
| ineligible: "terminalizeAppAutomationFireDefinitionIneligibleWithExecutor approver e tok now st = Inr (r, st')
    \<Longrightarrow> automation_step st st'"
| misfire: "terminalizeUnclaimedAppAutomationFireMisfireWithExecutor approver e now st = Inr (r, st')
    \<Longrightarrow> automation_step st st'"
| reconcile: "reconcileFire approver clock rearmed f st = Inr (b, st') \<Longrightarrow> automation_step st st'"

text \<open>What a transaction does to the fires: it adds a row that no index refuses, or puts accepted rows.\<close>

inductive fires_change :: "automation_store \<Rightarrow> automation_store \<Rightarrow> bool" where
  same: "as_fires st' = as_fires st \<Longrightarrow> fires_change st st'"
| add: "fire_insert_guard v st \<Longrightarrow> fire_checks v \<Longrightarrow> \<not> list_ex (fire_collides v) (as_fires st)
    \<Longrightarrow> as_fires st' = as_fires st @ [v] \<Longrightarrow> fires_change st st'"
| put: "old \<in> set (as_fires st) \<Longrightarrow> accepted approver st new old \<Longrightarrow> st' = put_fire new st \<Longrightarrow> fires_change st st'"
| both: "fires_change st st1 \<Longrightarrow> fires_change st1 st' \<Longrightarrow> fires_change st st'"

lemma update_change: "update_fire approver p changes st = Inr (r, st') \<Longrightarrow> fires_change st st'"
  by (cases r) (auto intro: same put dest: find_fire)

lemma claim_change: "claimAppAutomationFireWithExecutor approver e owner token now lease st = Inr (r, st') \<Longrightarrow> fires_change st st'"
  by (auto simp: claimAppAutomationFireWithExecutor_def intro: same update_change split: if_split_asm option.split_asm)

lemma settle_failed_change: "settleFailedAppAutomationFireClaim approver e token now b st = Inr (r, st') \<Longrightarrow> fires_change st st'"
  unfolding settleFailedAppAutomationFireClaim_def Let_def res_bind_Ok_iff
  by (auto intro: update_change both split: option.split_asm simp del: update_fire_None update_fire_Some)

lemmas statement_changes = update_change claim_change settle_failed_change

lemma misfire_change:
  "terminalizeUnclaimedAppAutomationFireMisfireWithExecutor approver e now st = Inr (r, st') \<Longrightarrow> fires_change st st'"
  unfolding terminalizeUnclaimedAppAutomationFireMisfireWithExecutor_def by (rule update_change)

lemma ineligible_change:
  "terminalizeAppAutomationFireDefinitionIneligibleWithExecutor approver e tok now st = Inr (r, st') \<Longrightarrow> fires_change st st'"
  unfolding terminalizeAppAutomationFireDefinitionIneligibleWithExecutor_def by (rule update_change)

lemma recover_change:
  "recoverExpiredAppAutomationFireClaimWithExecutor approver e token now st = Inr (r, st') \<Longrightarrow> fires_change st st'"
  unfolding recoverExpiredAppAutomationFireClaimWithExecutor_def by (rule settle_failed_change)

lemma insert_change: "insertAppAutomationFireIdempotentlyWithExecutor v st = Inr (f, st') \<Longrightarrow> fires_change st st'"
  by (auto simp: insertAppAutomationFireIdempotentlyWithExecutor_def intro: same add split: if_split_asm option.split_asm)

lemma queue_change: "queue_delivery approver clock rearmed d f st = Inr (b, st') \<Longrightarrow> fires_change st st'"
  by (auto simp: queue_delivery_def charge_is_refused res_bind_Ok_iff intro: same misfire_change split: if_split_asm)

lemma reconcile_change: "reconcileFire approver clock rearmed f st = Inr (b, st') \<Longrightarrow> fires_change st st'"
  unfolding reconcileFire_def
  by (auto simp: res_bind_Ok_iff intro: same ineligible_change recover_change queue_change both
      split: if_split_asm option.split_asm)

lemma option_case_Inr: "(case x of None \<Rightarrow> Inl e | Some a \<Rightarrow> g a) = Inr b \<longleftrightarrow> (\<exists>a. x = Some a \<and> g a = Inr b)"
  by (cases x) auto

lemmas transaction_steps = res_bind_Ok_iff option_case_Inr demand_Ok scheduled_Ok split_paired_Ex prod.case

lemma persist_existing_change:
  "(if b then res_bind (terminalizeUnclaimedAppAutomationFireMisfireWithExecutor approver e now st)
      (\<lambda>(t, st1). res_bind r (\<lambda>_. Ok (g t, st1))) else Ok (f, st)) = Inr (f', st') \<Longrightarrow> fires_change st st'"
  by (auto simp: res_bind_Ok_iff intro: same misfire_change split: if_split_asm)

lemma persist_new_change:
  "res_bind r0 (\<lambda>_. res_bind r1 (\<lambda>_. res_bind (insertAppAutomationFireIdempotentlyWithExecutor v st)
      (\<lambda>(c, st1). res_bind r2 (\<lambda>_. Ok (c, st1))))) = Inr (f', st') \<Longrightarrow> fires_change st st'"
  by (auto simp: res_bind_Ok_iff intro: insert_change)

lemma persist_change:
  assumes "persistAppAutomationFire env approver clock q st = Inr (f, st')"
  shows "fires_change st st'"
proof -
  from assms[unfolded persistAppAutomationFire_def] show ?thesis
    apply (simp only: transaction_steps)
    apply (elim exE conjE)
    subgoal for _ _ _ d _ _ occ _ decision _ identity
      by (cases "getFireByIdentity (fq_org q) identity st")
        (simp_all only: option.case, erule persist_new_change, simp only: res_bind_Ok_iff, elim exE conjE, erule persist_existing_change)
    done
qed

lemma transition_change: "transitionDefinition w a i n s s' now st = Inr (d, st') \<Longrightarrow> fires_change st st'"
  by (auto simp: transitionDefinition_def transitionAppAutomationDefinitionWithExecutor_def res_bind_Ok_iff Let_def
      intro!: same split: if_split_asm option.split_asm)

lemma step_change: "automation_step st st' \<Longrightarrow> fires_change st st'"
  by (induction rule: automation_step.induct)
    (auto intro: transition_change persist_change claim_change recover_change ineligible_change misfire_change reconcile_change
      settle_failed_change update_change
      simp: bindAppAutomationFireRunWithExecutor_def settleFailedAppAutomationFireClaimWithExecutor_def
      simp del: update_fire_None update_fire_Some)

subsection \<open>The invariant\<close>

definition automation_ok :: "automation_store \<Rightarrow> bool" where
  "automation_ok st \<longleftrightarrow> sorted_wrt (\<lambda>f g. \<not> fire_collides f g) (as_fires st) \<and> list_all fire_checks (as_fires st)
     \<and> (\<forall>org. active_count org (as_fires st) \<le> 25)"

lemma collides_sym: "fire_collides f g = fire_collides g f"
  by (auto simp: fire_collides_def)

lemma apart_iff:
  "sorted_wrt (\<lambda>f g. \<not> fire_collides f g) fs \<longleftrightarrow>
     distinct (map fr_id fs) \<and> (\<forall>f \<in> set fs. \<forall>g \<in> set fs. fr_id f \<noteq> fr_id g \<longrightarrow> \<not> fire_collides f g)"
proof (induction fs)
  case (Cons f fs)
  have same: "fr_id f = fr_id g \<Longrightarrow> fire_collides f g" for g by (simp add: fire_collides_def)
  let ?apart = "\<lambda>fs. \<forall>f \<in> set fs. \<forall>g \<in> set fs. fr_id f \<noteq> fr_id g \<longrightarrow> \<not> fire_collides f g"
  have "distinct (map fr_id (f # fs)) \<and> ?apart (f # fs)
      \<longleftrightarrow> (\<forall>g \<in> set fs. \<not> fire_collides f g) \<and> distinct (map fr_id fs) \<and> ?apart fs"
  proof
    assume "distinct (map fr_id (f # fs)) \<and> ?apart (f # fs)"
    then show "(\<forall>g \<in> set fs. \<not> fire_collides f g) \<and> distinct (map fr_id fs) \<and> ?apart fs"
      by (auto simp: image_iff)
  next
    assume *: "(\<forall>g \<in> set fs. \<not> fire_collides f g) \<and> distinct (map fr_id fs) \<and> ?apart fs"
    then have "fr_id f \<notin> fr_id ` set fs" using same by auto
    moreover have "\<not> fire_collides g f" if "g \<in> set fs" for g using * that collides_sym[of g f] by simp
    ultimately show "distinct (map fr_id (f # fs)) \<and> ?apart (f # fs)" using * by simp
  qed
  then show ?case unfolding sorted_wrt.simps Cons by simp
qed simp

lemma automation_apart:
  "automation_ok st \<Longrightarrow> f \<in> set (as_fires st) \<Longrightarrow> g \<in> set (as_fires st) \<Longrightarrow> fr_id f \<noteq> fr_id g \<Longrightarrow> \<not> fire_collides f g"
  unfolding automation_ok_def apart_iff by blast

lemma same_id_same_fire: "distinct (map fr_id fs) \<Longrightarrow> f \<in> set fs \<Longrightarrow> g \<in> set fs \<Longrightarrow> fr_id f = fr_id g \<Longrightarrow> f = g"
  by (simp add: distinct_map inj_on_def)

lemma active_count_put:
  assumes "distinct (map fr_id fs)" "old \<in> set fs" "fr_id new = fr_id old" "fr_org new = fr_org old" "active_fire old"
  shows "active_count org (map (\<lambda>g. if fr_id g = fr_id new then new else g) fs) \<le> active_count org fs"
  using assms(1,2)
proof (induction fs)
  case (Cons g fs)
  show ?case
  proof (cases "g = old")
    case True
    then have "map (\<lambda>h. if fr_id h = fr_id new then new else h) fs = fs"
      using Cons.prems(1) assms(3) True by (intro map_idI) (auto simp: image_iff)
    then show ?thesis using True assms(3-5) by (simp add: active_count_def)
  next
    case False
    then have "old \<in> set fs" "fr_id g \<noteq> fr_id new" using Cons.prems assms(3) by (auto simp: image_iff)
    then show ?thesis using Cons by (simp add: active_count_def)
  qed
qed simp

lemma change_ok:
  assumes "fires_change st st'" "automation_ok st"
  shows "automation_ok st'"
  using assms
proof (induction rule: fires_change.induct)
  case (same st' st)
  then show ?case by (simp add: automation_ok_def)
next
  case (add v st st')
  have less: "active_count (fr_org v) (as_fires st) < 25"
    using add(1) by (auto simp: fire_insert_guard_def split: option.splits)
  have "active_count org (as_fires st @ [v]) \<le> 25" for org
    using add(5) less by (cases "fr_org v = org") (auto simp: automation_ok_def active_count_def)
  moreover have "\<not> fire_collides g v" if "g \<in> set (as_fires st)" for g
    using add(3) that collides_sym[of g v] by (auto simp: list_ex_iff)
  ultimately show ?case using add(2,4,5) by (simp add: automation_ok_def sorted_wrt_append)
next
  case (put old st approver new st')
  note guard = put(2)[unfolded accepted_def, THEN conjunct1]
  note same = guard_keeps_id(1,2)[OF guard]
  let ?fs = "as_fires st"
  have apart: "distinct (map fr_id ?fs)" "\<And>f g. f \<in> set ?fs \<Longrightarrow> g \<in> set ?fs \<Longrightarrow> fr_id f \<noteq> fr_id g \<Longrightarrow> \<not> fire_collides f g"
    using put(4) by (auto simp: automation_ok_def apart_iff)
  have fresh: "\<not> fire_collides new g" "\<not> fire_collides g new" if "g \<in> set ?fs" "fr_id g \<noteq> fr_id new" for g
    using put(2) that same(1) collides_sym[of g new] by (auto simp: accepted_def list_ex_iff)
  have ids: "map fr_id (map (\<lambda>g. if fr_id g = fr_id new then new else g) ?fs) = map fr_id ?fs" by simp
  have fires: "as_fires st' = map (\<lambda>g. if fr_id g = fr_id new then new else g) ?fs" by (simp add: put(3) put_fire_def)
  have "distinct (map fr_id (as_fires st'))" unfolding fires ids by (rule apart(1))
  moreover have "\<forall>f \<in> set (as_fires st'). \<forall>g \<in> set (as_fires st'). fr_id f \<noteq> fr_id g \<longrightarrow> \<not> fire_collides f g"
    using apart(2) fresh by (auto simp: put(3) put_fire_def)
  ultimately have "sorted_wrt (\<lambda>f g. \<not> fire_collides f g) (as_fires st')" by (simp only: apart_iff simp_thms)
  moreover have "list_all fire_checks (as_fires st')"
    using put by (auto simp: automation_ok_def accepted_def put_fire_def list_all_iff)
  moreover have "active_count org (as_fires st') \<le> 25" for org
    using active_count_put[OF apart(1) put(1) same guard_active[OF guard], of org] put(3,4)
    by (auto simp: automation_ok_def put_fire_def intro: le_trans)
  ultimately show ?case by (simp add: automation_ok_def)
qed blast

lemma run_ok: "automation_step\<^sup>*\<^sup>* st st' \<Longrightarrow> automation_ok st \<Longrightarrow> automation_ok st'"
  by (induction rule: rtranclp_induct) (auto intro: change_ok step_change)

lemma empty_ok [simp]: "as_fires st = [] \<Longrightarrow> automation_ok st"
  by (simp add: automation_ok_def active_count_def)

text \<open>C20.
  The fires of every store that the transactions on automations can reach.  No two of them share an
  identity or are for the same definition and local date, a definition has at most one fire that is
  pending or claimed, an organization has at most 25 of them, and every row satisfies the checks of its
  state: at most three attempts, a claim with its lease exactly while claimed, a run exactly when one
  was created.\<close>

theorem automation_invariant:
  assumes "automation_step\<^sup>*\<^sup>* st st'" "as_fires st = []"
  shows "distinct (map fr_id (as_fires st')) \<and> list_all fire_checks (as_fires st') \<and> active_count org (as_fires st') \<le> 25
    \<and> (\<forall>i < length (as_fires st'). \<forall>j < i. \<not> fire_collides (as_fires st' ! j) (as_fires st' ! i))"
proof -
  have ok: "automation_ok st'" using run_ok[OF assms(1) empty_ok[OF assms(2)]] .
  then have "distinct (map fr_id (as_fires st'))" by (simp add: automation_ok_def apart_iff)
  then show ?thesis using ok by (auto simp: automation_ok_def sorted_wrt_iff_nth_less)
qed

subsection \<open>Settled fires\<close>

lemma change_keeps_settled:
  assumes "fires_change st st'" "automation_ok st" "f \<in> set (as_fires st)" "\<not> active_fire f"
  shows "f \<in> set (as_fires st')"
  using assms
proof (induction rule: fires_change.induct)
  case (put old st approver new st')
  note guard = put(2)[unfolded accepted_def, THEN conjunct1]
  have "fr_id f \<noteq> fr_id new"
  proof
    assume "fr_id f = fr_id new"
    then have "f = old" using put guard_keeps_id(1)[OF guard] same_id_same_fire[of "as_fires st" f old]
      by (simp add: automation_ok_def apart_iff)
    then show False using guard_active[OF guard] put by simp
  qed
  then show ?case using put by (force simp: put_fire_def)
qed (auto intro: change_ok)

lemma one_fire_per_date:
  assumes "automation_ok st" "f \<in> set (as_fires st)"
  shows "\<not> list_ex (\<lambda>g. g \<noteq> f \<and> fr_org g = fr_org f \<and> fr_definition g = fr_definition f \<and> fr_date g = fr_date f) (as_fires st)"
proof -
  { fix g assume g: "g \<in> set (as_fires st)" "fr_org g = fr_org f" "fr_definition g = fr_definition f" "fr_date g = fr_date f"
    then have "fire_collides g f" by (simp add: fire_collides_def)
    then have "g = f" using assms g(1) same_id_same_fire[of "as_fires st" g f] unfolding automation_ok_def apart_iff by blast }
  then show ?thesis by (auto simp: list_ex_iff)
qed

text \<open>C21.
  A fire that has been settled, because its run was created, because it was skipped or because its
  attempts are used up, stays in the table as it is, whatever transactions follow: no second run, no
  new claim and no other reason can be written to it, and as no other fire can be recorded for its
  definition and date, a local date is dealt with once.\<close>

theorem settled_fire_is_final:
  assumes "as_fires st = []" "automation_step\<^sup>*\<^sup>* st st1" "automation_step\<^sup>*\<^sup>* st1 st2"
    and "f \<in> set (as_fires st1)" "\<not> active_fire f"
  shows "f \<in> set (as_fires st2)
    \<and> \<not> list_ex (\<lambda>g. g \<noteq> f \<and> fr_org g = fr_org f \<and> fr_definition g = fr_definition f \<and> fr_date g = fr_date f) (as_fires st2)"
proof
  have "automation_ok st1" using run_ok assms(1,2) by simp
  with assms(3) have "automation_ok st2 \<and> f \<in> set (as_fires st2)"
  proof (induction rule: rtranclp_induct)
    case (step y z)
    then show ?case using change_ok step_change change_keeps_settled assms(5) by blast
  qed (use assms(4) in simp)
  then show "f \<in> set (as_fires st2)"
    "\<not> list_ex (\<lambda>g. g \<noteq> f \<and> fr_org g = fr_org f \<and> fr_definition g = fr_definition f \<and> fr_date g = fr_date f) (as_fires st2)"
    using one_fire_per_date by simp_all
qed

subsection \<open>Claims\<close>

definition claimable :: "exact_fire \<Rightarrow> auto_definition \<Rightarrow> int \<Rightarrow> fire_row \<Rightarrow> bool" where
  "claimable e d now f \<longleftrightarrow> is_exact e f \<and> fr_state f = FirePending \<and> fr_attempts f < 3
     \<and> (fr_attempts f > 0 \<or> (case fr_resolved f of None \<Rightarrow> False | Some t \<Rightarrow> t \<ge> now - ad_window d * 60000 \<and> t \<le> now))"

definition claimed_by :: "string \<Rightarrow> string \<Rightarrow> int \<Rightarrow> int \<Rightarrow> fire_row \<Rightarrow> fire_row" where
  "claimed_by owner token now lease f = f\<lparr>fr_state := FireClaimed, fr_attempts := fr_attempts f + 1, fr_owner := Some owner,
     fr_token := Some token, fr_claimed_at := Some now, fr_lease := Some lease\<rparr>"

definition admitted :: "exact_fire \<Rightarrow> auto_definition \<Rightarrow> int \<Rightarrow> int \<Rightarrow> automation_store \<Rightarrow> bool" where
  "admitted e d now lease st \<longleftrightarrow> now < lease \<and> ad_state d = DefActive \<and> ad_epoch d = ef_epoch e
     \<and> ad_valid_from d \<le> now \<and> now < ad_valid_until d
     \<and> int (active_count (ef_org e) (as_fires st)) \<le> min (ad_max_pending d) 25
     \<and> int (reserved_runs (ef_org e) now (as_fires st)) < min (ad_max_runs d) 100"

lemma claim_unfold:
  "claimAppAutomationFireWithExecutor approver e owner token now lease st =
     (case getDefinition (ef_org e) (ef_definition e) st of
        None \<Rightarrow> Ok (None, st)
      | Some d \<Rightarrow> if admitted e d now lease st then update_fire approver (claimable e d now) (claimed_by owner token now lease) st
                  else Ok (None, st))"
  unfolding claimAppAutomationFireWithExecutor_def claimable_def claimed_by_def admitted_def
  by (simp split: option.split) linarith

lemma claim_Some:
  "claimAppAutomationFireWithExecutor approver e owner token now lease st = Inr (Some f, st') \<longleftrightarrow>
     (\<exists>d old. getDefinition (ef_org e) (ef_definition e) st = Some d \<and> admitted e d now lease st
        \<and> List.find (claimable e d now) (as_fires st) = Some old \<and> f = claimed_by owner token now lease old
        \<and> accepted approver st f old \<and> st' = put_fire f st)"
  by (auto simp: claim_unfold split: option.split)

lemma accepted_approver:
  assumes "accepted approver st f old" "fr_state f = FireClaimed" "getDefinition (fr_org f) (fr_definition f) st = Some d"
  shows "approver d"
  using assms by (simp add: accepted_def fire_update_guard_def)

lemma reserved_runs_put:
  assumes "distinct (map fr_id fs)"
  shows "reserved_runs org now (map (\<lambda>g. if fr_id g = fr_id new then new else g) fs) \<le> Suc (reserved_runs org now fs)"
  using assms
proof (induction fs)
  case (Cons g fs)
  show ?case
  proof (cases "fr_id g = fr_id new")
    case True
    then have "map (\<lambda>h. if fr_id h = fr_id new then new else h) fs = fs"
      using Cons.prems by (intro map_idI) (auto simp: image_iff)
    then show ?thesis using True by (simp add: reserved_runs_def Let_def)
  qed (use Cons in \<open>simp add: reserved_runs_def Let_def\<close>)
qed (simp add: reserved_runs_def)

text \<open>C22.
  What a claim admits.  A fire that is claimed belongs to the epoch in force of an active definition,
  at an instant inside its validity and while its approver may still approve; its attempts stay within
  three; and the first claim happens at most the window of the definition after the resolved instant
  and never before it.  The claim itself keeps to the budget of the UTC day: with the claimed fire, at
  most the limit of runs is reserved on that day.\<close>

theorem claim_is_admitted:
  assumes "claimAppAutomationFireWithExecutor approver e owner token now lease st = Inr (Some f, st')"
    and "distinct (map fr_id (as_fires st))"
  shows "\<exists>d. getDefinition (fr_org f) (fr_definition f) st = Some d \<and> ad_state d = DefActive \<and> ad_epoch d = fr_epoch f
      \<and> ad_valid_from d \<le> now \<and> now < ad_valid_until d \<and> approver d
      \<and> fr_state f = FireClaimed \<and> fr_attempts f \<le> 3 \<and> f \<in> set (as_fires st')
      \<and> (fr_attempts f = 1 \<longrightarrow> (case fr_resolved f of None \<Rightarrow> False
            | Some t \<Rightarrow> t \<le> now \<and> now \<le> t + ad_window d * 60000))
      \<and> int (reserved_runs (fr_org f) now (as_fires st')) \<le> min (ad_max_runs d) 100"
proof -
  from assms(1) obtain d old where d: "getDefinition (ef_org e) (ef_definition e) st = Some d" "admitted e d now lease st"
    and found: "List.find (claimable e d now) (as_fires st) = Some old"
    and f: "f = claimed_by owner token now lease old"
    and acc: "accepted approver st f old" and st': "st' = put_fire f st"
    unfolding claim_Some by blast
  have old: "old \<in> set (as_fires st)" "claimable e d now old" using find_fire[OF found] by simp_all
  have exact: "fr_org f = ef_org e" "fr_definition f = ef_definition e" "fr_epoch f = ef_epoch e" "fr_id f = fr_id old"
    using old(2) f by (auto simp: is_exact_def claimable_def claimed_by_def)
  have "reserved_runs (ef_org e) now (as_fires st') \<le> Suc (reserved_runs (ef_org e) now (as_fires st))"
    unfolding st' put_fire_def using reserved_runs_put[OF assms(2)] by simp
  then have budget: "int (reserved_runs (fr_org f) now (as_fires st')) \<le> min (ad_max_runs d) 100"
    using d(2) exact(1) by (simp add: admitted_def)
  have window: "fr_attempts f = 1 \<longrightarrow> (case fr_resolved f of None \<Rightarrow> False | Some t \<Rightarrow> t \<le> now \<and> now \<le> t + ad_window d * 60000)"
    using old(2) f by (auto simp: claimable_def claimed_by_def split: option.splits)
  have claimed: "fr_state f = FireClaimed" "fr_attempts f \<le> 3" using old(2) f by (simp_all add: claimable_def claimed_by_def)
  have "f \<in> set (as_fires st')" using old(1) exact(4) by (force simp: st' put_fire_def)
  then show ?thesis using d exact budget window claimed accepted_approver[OF acc claimed(1)] by (auto simp: admitted_def)
qed

subsection \<open>Deliveries\<close>

lemma trans_step: "automation_step\<^sup>*\<^sup>* a b \<Longrightarrow> automation_step b c \<Longrightarrow> automation_step\<^sup>*\<^sup>* a c"
  by (rule rtranclp.rtrancl_into_rtrancl)

lemma settle_delivery_steps:
  assumes "settle_delivery st r = (out, st')" "\<And>x s. r = Inr (x, s) \<Longrightarrow> automation_step st s"
  shows "automation_step\<^sup>*\<^sup>* st st'"
  using assms by (auto simp: settle_delivery_def split: sum.split_asm)

text \<open>What other workers do between two transactions, and what the submission of a run does.\<close>

definition interleaves :: "(nat \<Rightarrow> automation_store \<Rightarrow> automation_store) \<Rightarrow> bool" where
  "interleaves between \<longleftrightarrow> (\<forall>k s. automation_step\<^sup>*\<^sup>* s (between k s))"

definition submits :: "(string \<Rightarrow> automation_store \<Rightarrow> invoke_result \<times> automation_store) \<Rightarrow> bool" where
  "submits invoke \<longleftrightarrow> (\<forall>token s. automation_step\<^sup>*\<^sup>* s (snd (invoke token s)))"

lemma between_steps: "interleaves between \<Longrightarrow> automation_step\<^sup>*\<^sup>* (between k s) s' \<Longrightarrow> automation_step\<^sup>*\<^sup>* s s'"
  unfolding interleaves_def by (meson rtranclp_trans)

lemma settle_between:
  assumes "interleaves between" "settle_delivery (between k s) r = (out, st')"
    and "\<And>x s'. r = Inr (x, s') \<Longrightarrow> automation_step (between k s) s'"
  shows "automation_step\<^sup>*\<^sup>* s st'"
  using between_steps[OF assms(1) settle_delivery_steps[OF assms(2,3)]] .

lemma invoke_claimed_steps:
  assumes "invoke_claimed approver between invoke v token later st = (out, st')" "interleaves between" "submits invoke"
  shows "automation_step\<^sup>*\<^sup>* st st'"
proof -
  obtain r s where rs: "invoke token (between 4 st) = (r, s)" by fastforce
  have "automation_step\<^sup>*\<^sup>* (between 4 st) s" using assms(3) rs unfolding submits_def by (metis snd_conv)
  then have start: "automation_step\<^sup>*\<^sup>* st s" by (rule between_steps[OF assms(2)])
  have "automation_step\<^sup>*\<^sup>* s st'"
  proof (cases r)
    case Invoked
    then show ?thesis using assms(1) rs by (simp add: invoke_claimed_def)
  next
    case InvokeRefused
    then have "settle_delivery (between 5 s) (terminalizeAppAutomationFireDefinitionIneligibleWithExecutor approver
        (exact_delivery v) (Some token) later (between 5 s)) = (out, st')" using assms(1) rs by (simp add: invoke_claimed_def)
    then show ?thesis by (rule settle_between[OF assms(2)]) (erule automation_step.ineligible)
  next
    case InvokeFailed
    then have "st' = between 5 s \<or> (\<exists>x. settleFailedAppAutomationFireClaimWithExecutor approver (exact_delivery v) token later
        (between 5 s) = Inr (x, st'))"
      using assms(1) rs by (auto simp: invoke_claimed_def split: sum.split_asm option.split_asm)
    then have "automation_step\<^sup>*\<^sup>* (between 5 s) st'" by (elim disjE exE) (auto intro: automation_step.fail)
    then show ?thesis by (rule between_steps[OF assms(2)])
  qed
  then show ?thesis using start by simp
qed

lemma dispatch_pending_steps:
  assumes "dispatch_pending approver between preflight invoke v token now later f st = (out, st')"
    and "interleaves between" "submits invoke"
  shows "automation_step\<^sup>*\<^sup>* st st'"
proof -
  let ?e = "exact_delivery v"
  consider (same) "st' = st"
    | (misfire) "settle_delivery (between 1 st) (terminalizeUnclaimedAppAutomationFireMisfireWithExecutor approver ?e now (between 1 st)) = (out, st')"
    | (refused) "settle_delivery (between 2 st) (terminalizeAppAutomationFireDefinitionIneligibleWithExecutor approver ?e None now (between 2 st)) = (out, st')"
    | (passed) lease where "(case claimAppAutomationFireWithExecutor approver ?e (''job:'' @ dv_job v) token now lease (between 2 st) of
                  Inl err \<Rightarrow> (DispatchFailed, between 2 st)
                | Inr (None, s) \<Rightarrow>
                    settle_delivery (between 3 s) (terminalizeAppAutomationFireDefinitionIneligibleWithExecutor approver ?e None now (between 3 s))
                | Inr (Some _, s) \<Rightarrow> invoke_claimed approver between invoke v token later s) = (out, st')"
    using assms(1) by (cases preflight) (auto simp: dispatch_pending_def Let_def split: if_split_asm)
  then show ?thesis
  proof cases
    case misfire
    show ?thesis
      by (intro settle_between[OF assms(2) misfire]) (erule automation_step.misfire)
  next
    case refused
    show ?thesis
      by (intro settle_between[OF assms(2) refused]) (erule automation_step.ineligible)
  next
    case passed
    show ?thesis
    proof (rule between_steps[OF assms(2), of 2], cases "claimAppAutomationFireWithExecutor approver ?e (''job:'' @ dv_job v) token now lease (between 2 st)")
      case (Inl err)
      then show "automation_step\<^sup>*\<^sup>* (between 2 st) st'" using passed by simp
    next
      case (Inr res)
      obtain r s where res: "res = (r, s)" by fastforce
      have "automation_step\<^sup>*\<^sup>* (between 2 st) s" using Inr res by (auto intro: automation_step.claim)
      moreover have "automation_step\<^sup>*\<^sup>* s st'"
      proof (cases r)
        case None
        then have *: "settle_delivery (between 3 s) (terminalizeAppAutomationFireDefinitionIneligibleWithExecutor approver ?e None now (between 3 s)) = (out, st')"
          using passed Inr res by simp
        show ?thesis
          by (intro settle_between[OF assms(2) *]) (erule automation_step.ineligible)
      next
        case (Some g)
        then show ?thesis using passed Inr res invoke_claimed_steps[OF _ assms(2,3)] by simp
      qed
      ultimately show "automation_step\<^sup>*\<^sup>* (between 2 st) st'" by simp
    qed
  qed simp
qed

text \<open>A delivery is a sequence of transactions.  Whatever other workers do between its transactions and
  whatever the submission of the run does, as long as these are transactions themselves, the store that
  \<open>dispatchAppAutomationFire\<close> leaves is one that transactions can reach, on every path: not due,
  misfire, refused preflight, lost claim, refused or failed submission, recovered lease.  So what holds
  of all reachable stores also holds between and after deliveries.\<close>

theorem delivery_is_transactions:
  assumes "dispatchAppAutomationFire enabled approver between preflight invoke v token now later st = (out, st')"
    and "interleaves between" "submits invoke"
  shows "automation_step\<^sup>*\<^sup>* st st'"
proof -
  let ?e = "exact_delivery v"
  consider (same) "st' = st"
    | (pending) f where "dispatch_pending approver between preflight invoke v token now later f st = (out, st')"
    | (expired) t where "(case recoverExpiredAppAutomationFireClaimWithExecutor approver ?e t now (between 0 st) of
                    Inl err \<Rightarrow> (DispatchFailed, between 0 st)
                  | Inr (None, s) \<Rightarrow> (DispatchDone, s)
                  | Inr (Some g, s) \<Rightarrow>
                      if fr_state g \<noteq> FirePending then (DispatchDone, s)
                      else dispatch_pending approver between preflight invoke v token now later g s) = (out, st')"
    using assms(1) by (auto simp: dispatchAppAutomationFire_def split: if_split_asm option.split_asm)
  then show ?thesis
  proof cases
    case pending
    then show ?thesis using dispatch_pending_steps assms(2,3) by blast
  next
    case expired
    show ?thesis
    proof (rule between_steps[OF assms(2), of 0], cases "recoverExpiredAppAutomationFireClaimWithExecutor approver ?e t now (between 0 st)")
      case (Inl err)
      then show "automation_step\<^sup>*\<^sup>* (between 0 st) st'" using expired by simp
    next
      case (Inr res)
      obtain r s where res: "res = (r, s)" by fastforce
      have "automation_step\<^sup>*\<^sup>* (between 0 st) s" using Inr res by (auto intro: automation_step.recover)
      moreover have "automation_step\<^sup>*\<^sup>* s st'"
        using expired Inr res dispatch_pending_steps[OF _ assms(2,3)] by (auto split: option.split_asm if_split_asm)
      ultimately show "automation_step\<^sup>*\<^sup>* (between 0 st) st'" by simp
    qed
  qed simp
qed

subsection \<open>A due fire\<close>

text \<open>While the stored fires are in order, no index refuses an update that passes the guard.\<close>

lemma update_is_accepted:
  assumes "automation_ok st" "old \<in> set (as_fires st)" "fire_update_guard approver st new old" "fire_checks new"
  shows "accepted approver st new old"
proof -
  note same = guard_keeps_id[OF assms(3)] guard_active[OF assms(3)]
  have "\<not> fire_collides new g" if "g \<in> set (as_fires st)" "fr_id g \<noteq> fr_id old" for g
  proof -
    have apart: "\<not> fire_collides old g" using automation_apart[OF assms(1,2) that(1)] that(2) by simp
    have "fire_collides new g \<Longrightarrow> fire_collides old g"
      unfolding fire_collides_def same(1-5) using same(8) by blast
    then show ?thesis using apart by blast
  qed
  then show ?thesis using assms(3,4) by (auto simp: accepted_def list_ex_iff)
qed

lemma find_the_fire:
  assumes "automation_ok st" "f \<in> set (as_fires st)" "p f" "\<And>g. p g \<Longrightarrow> fr_id g = fr_id f"
  shows "List.find p (as_fires st) = Some f"
proof (cases "List.find p (as_fires st)")
  case None
  then show ?thesis using assms(2,3) by (auto simp: find_fire_None list_ex_iff)
next
  case (Some g)
  have g: "g \<in> set (as_fires st)" "fr_id g = fr_id f" using find_fire[OF Some] assms(4) by auto
  have "distinct (map fr_id (as_fires st))" using assms(1) by (simp only: automation_ok_def apart_iff)
  then show ?thesis using same_id_same_fire[OF _ g(1) assms(2) g(2)] Some by simp
qed

lemma put_fire_in: "f \<in> set (as_fires st) \<Longrightarrow> fr_id new = fr_id f \<Longrightarrow> new \<in> set (as_fires (put_fire new st))"
  by (force simp: put_fire_def)

lemma put_fire_getDefinition [simp]: "getDefinition org i (put_fire new st) = getDefinition org i st"
  by (simp add: getDefinition_def put_fire_def)

lemma claim_succeeds:
  assumes ok: "automation_ok st" and f: "f \<in> set (as_fires st)" "claimable e d now f"
    and d: "getDefinition (ef_org e) (ef_definition e) st = Some d" "admitted e d now lease st" "approver d"
  shows "claimAppAutomationFireWithExecutor approver e owner token now lease st
    = Inr (Some (claimed_by owner token now lease f), put_fire (claimed_by owner token now lease f) st)"
proof -
  let ?new = "claimed_by owner token now lease f"
  have checks: "fire_checks f" using ok f(1) by (simp add: automation_ok_def list_all_iff)
  have exact: "fr_org f = ef_org e" "fr_definition f = ef_definition e" "fr_epoch f = ef_epoch e" "fr_state f = FirePending"
    "fr_attempts f < 3" using f(2) by (auto simp: claimable_def is_exact_def)
  have found: "List.find (claimable e d now) (as_fires st) = Some f"
    using ok f by (rule find_the_fire) (use f(2) in \<open>auto simp: claimable_def is_exact_def\<close>)
  have "immutable_fire ?new f" by (cases f) (simp add: immutable_fire_def claimed_by_def)
  then have "fire_update_guard approver st ?new f"
    using d exact checks
    by (simp add: fire_update_guard_def claimed_by_def admitted_def fire_checks_def unsettled_def)
  moreover have "fire_checks ?new"
    using checks exact d(2) by (simp add: fire_checks_def claimed_by_def admitted_def unsettled_def)
  ultimately have "accepted approver st ?new f" by (rule update_is_accepted[OF ok f(1)])
  then show ?thesis unfolding claim_Some using d found by blast
qed

lemma bind_succeeds:
  assumes ok: "automation_ok st" and f: "f \<in> set (as_fires st)" "is_exact e f" "fr_state f = FireClaimed" "fr_token f = Some token"
    "fr_lease f = Some lease" "now < lease" and d: "getDefinition (ef_org e) (ef_definition e) st = Some d"
  shows "bindAppAutomationFireRunWithExecutor approver e token run now st
    = Inr (Some ((settle FireRunCreated ReasonRunCreated now f)\<lparr>fr_run := Some run\<rparr>),
        put_fire ((settle FireRunCreated ReasonRunCreated now f)\<lparr>fr_run := Some run\<rparr>) st)"
proof -
  let ?new = "(settle FireRunCreated ReasonRunCreated now f)\<lparr>fr_run := Some run\<rparr>"
  let ?p = "\<lambda>f. is_exact e f \<and> fr_state f = FireClaimed \<and> fr_token f = Some token
          \<and> (case fr_lease f of None \<Rightarrow> False | Some l \<Rightarrow> l > now)"
  have checks: "fire_checks f" using ok f(1) by (simp add: automation_ok_def list_all_iff)
  have exact: "fr_org f = ef_org e" "fr_definition f = ef_definition e" "fr_epoch f = ef_epoch e"
    using f(2) by (auto simp: is_exact_def)
  have found: "List.find ?p (as_fires st) = Some f"
    using ok f(1) by (rule find_the_fire) (use f in \<open>auto simp: is_exact_def\<close>)
  have "immutable_fire ?new f" by (cases f) (simp add: immutable_fire_def settle_def)
  then have "fire_update_guard approver st ?new f"
    using d exact checks f(3) by (simp add: fire_update_guard_def settle_def fire_checks_def unsettled_def)
  moreover have "fire_checks ?new" using checks f(3) by (simp add: fire_checks_def settle_def)
  ultimately have "accepted approver st ?new f" by (rule update_is_accepted[OF ok f(1)])
  then show ?thesis unfolding bindAppAutomationFireRunWithExecutor_def update_fire_Some using found by blast
qed

text \<open>The lease a claim gets: the lease of the job, or a minute when the job has none in the future.\<close>

definition claim_lease :: "delivery \<Rightarrow> int \<Rightarrow> int" where
  "claim_lease v now = (case dv_lease v of None \<Rightarrow> now + 60000 | Some l \<Rightarrow> if l > now then l else now + 60000)"

text \<open>
  A submission that creates the run \<open>run\<close>: it ends with the transaction that binds the run to the fire, and
  when that transaction commits nothing after it fails.
\<close>

definition submits_run ::
    "(auto_definition \<Rightarrow> bool) \<Rightarrow> exact_fire \<Rightarrow> string \<Rightarrow> int \<Rightarrow> (string \<Rightarrow> automation_store \<Rightarrow> invoke_result \<times> automation_store) \<Rightarrow> bool" where
  "submits_run approver e run at_ms invoke \<longleftrightarrow> (\<forall>token s f s'.
     bindAppAutomationFireRunWithExecutor approver e token run at_ms s = Inr (Some f, s') \<longrightarrow> invoke token s = (Invoked, s'))"

text \<open>C23.
  A due fire gets its run.  When a reachable store holds a pending fire that was never claimed, the
  delivery comes within fifteen minutes after its instant, its definition is active in the same epoch
  and inside its validity, the budgets are not used up, the approver may still approve, the preflight
  passes, the submission succeeds whenever it can bind the run, and it binds it before the lease of the claim (the
  lease of the delivering job, if there is one) ends, then without interference
  \<open>dispatchAppAutomationFire\<close> is done and the fire has the state \<open>run_created\<close> with the run and one
  attempt.\<close>

theorem due_fire_creates_its_run:
  assumes "as_fires st0 = []" "automation_step\<^sup>*\<^sup>* st0 st"
    and "getFire (dv_org v) (dv_definition v) (dv_fire v) st = Some f" "fr_epoch f = dv_epoch v"
    and "fr_state f = FirePending" "fr_attempts f = 0" "fr_resolved f = Some t" "t \<le> now" "now \<le> t + 15 * 60000"
    and "getDefinition (dv_org v) (dv_definition v) st = Some d" "ad_window d = 15" "approver d"
    and "ad_state d = DefActive" "ad_epoch d = dv_epoch v" "ad_valid_from d \<le> now" "now < ad_valid_until d"
    and "int (active_count (dv_org v) (as_fires st)) \<le> min (ad_max_pending d) 25"
    and "int (reserved_runs (dv_org v) now (as_fires st)) < min (ad_max_runs d) 100"
    and "submits_run approver (exact_delivery v) run bound_at invoke" "bound_at < claim_lease v now"
  shows "\<exists>st' g. dispatchAppAutomationFire True approver (\<lambda>_ s. s) PreflightPassed invoke v token now later st = (DispatchDone, st')
      \<and> g \<in> set (as_fires st') \<and> fr_id g = dv_fire v \<and> fr_state g = FireRunCreated \<and> fr_run g = Some run \<and> fr_attempts g = 1"
proof -
  let ?e = "exact_delivery v"
  let ?l = "claim_lease v now"
  let ?f = "claimed_by (''job:'' @ dv_job v) token now ?l f"
  let ?st = "put_fire ?f st"
  let ?g = "(settle FireRunCreated ReasonRunCreated bound_at ?f)\<lparr>fr_run := Some run\<rparr>"
  have ok: "automation_ok st" using run_ok[OF assms(2) empty_ok[OF assms(1)]] .
  have f: "f \<in> set (as_fires st)" "fr_org f = dv_org v" "fr_definition f = dv_definition v" "fr_id f = dv_fire v"
    using find_fire[OF assms(3)[unfolded getFire_def]] by auto
  have lease: "now < ?l" by (simp add: claim_lease_def split: option.split)
  have claim: "claimAppAutomationFireWithExecutor approver ?e (''job:'' @ dv_job v) token now ?l st = Inr (Some ?f, ?st)"
    using ok f(1)
    by (rule claim_succeeds[where d = d])
      (use assms f lease in \<open>auto simp: claimable_def is_exact_def exact_delivery_def admitted_def\<close>)
  have "automation_step\<^sup>*\<^sup>* st ?st" using automation_step.claim[OF claim] by blast
  then have ok': "automation_ok ?st" using run_ok ok by blast
  have claimed: "?f \<in> set (as_fires ?st)" by (rule put_fire_in[OF f(1)]) (simp add: claimed_by_def)
  have bind: "bindAppAutomationFireRunWithExecutor approver ?e token run bound_at ?st = Inr (Some ?g, put_fire ?g ?st)"
    using ok'
    by (rule bind_succeeds[where d = d and lease = ?l])
      (use assms f claimed in \<open>auto simp: is_exact_def exact_delivery_def claimed_by_def\<close>)
  have invoked: "invoke token ?st = (Invoked, put_fire ?g ?st)" using assms(19) bind unfolding submits_run_def by blast
  have "dispatchAppAutomationFire True approver (\<lambda>_ s. s) PreflightPassed
        invoke v token now later st = (DispatchDone, put_fire ?g ?st)"
    using assms claim invoked
    by (simp add: dispatchAppAutomationFire_def active_fire_def dispatch_pending_def Let_def invoke_claimed_def
        claim_lease_def[symmetric])
  moreover have "?g \<in> set (as_fires (put_fire ?g ?st))"
    by (rule put_fire_in[OF claimed]) (simp add: settle_def)
  ultimately show ?thesis using f(4) assms(6) by (auto simp: settle_def claimed_by_def)
qed

end
