(* ===== verification/AutomationRuntime.thy ===== *)
theory AutomationRuntime
  imports AutomationScanProperties AutomationProperties
begin

text \<open>
  The scan on the database (app-automation-runtime.ts): every call of the port is one transaction.  What
  the model cannot know is a function of the number of the transaction: the clock, what other workers
  have committed before it, whether it is aborted or times out, whether the queue had a failed job for
  the fire, and whether the lease of the scan still holds when the progress is saved.
\<close>

subsection \<open>Rounds\<close>

text \<open>Only the slice itself is complete or partial; a round goes on or throws.\<close>

definition goes_on :: "'w round \<Rightarrow> bool" where
  "goes_on r \<longleftrightarrow> (case r of Next _ \<Rightarrow> True | Raise _ _ \<Rightarrow> True | _ \<Rightarrow> False)"

lemma goes_on_simps [simp]: "goes_on (Next s)" "goes_on (Raise e s)" "\<not> goes_on (Complete s)" "\<not> goes_on (Partial s)"
  by (simp_all add: goes_on_def)

lemma save_goes_on [simp]: "goes_on (save_slice port s)"
  by (simp add: save_slice_def split: prod.split sum.split)

lemma reconcile_item_goes_on [simp]: "goes_on (reconcile_item port f rest s)"
  by (simp add: reconcile_item_def Let_def split: prod.split sum.split)

lemma fires_round_goes_on [simp]: "goes_on (fires_round port s)"
  by (simp add: fires_round_def Let_def split: prod.split sum.split list.split)

lemma date_round_goes_on [simp]: "goes_on (date_round port d s)"
  by (simp add: date_round_def Let_def split: prod.split sum.split option.split)

lemma resume_definition_goes_on [simp]: "goes_on (resume_definition port q s)"
  by (simp add: resume_definition_def Let_def split: prod.split sum.split option.split)

lemma definitions_round_goes_on [simp]: "goes_on (definitions_round port s)"
  by (simp add: definitions_round_def take_definition_def Let_def split: prod.split sum.split option.split list.split)

subsection \<open>A port that keeps a relation\<close>

text \<open>
  Whatever the calls of the port keep between the states before and after them, a whole slice keeps.
\<close>

locale steady_port =
  fixes port :: "'w scan_port" and related :: "'w \<Rightarrow> 'w \<Rightarrow> bool"
  assumes related_refl: "related w w"
    and related_trans: "related u v \<Longrightarrow> related v w \<Longrightarrow> related u w"
    and definitions_related: "sp_definitions port now page cursor w = (r1, w1) \<Longrightarrow> related w w1"
    and load_related: "sp_load port org i w = (r2, w2) \<Longrightarrow> related w w2"
    and fires_related: "sp_fires port now page cursor w = (r3, w3) \<Longrightarrow> related w w3"
    and reconcile_related: "sp_reconcile port f now w = (r4, w4) \<Longrightarrow> related w w4"
    and ensure_related: "sp_ensure port q now w = (r5, w5) \<Longrightarrow> related w w5"
    and save_related: "sp_save port p w = (r6, w6) \<Longrightarrow> related w w6"
begin

lemma save_steady: "save_slice port s = Next s' \<Longrightarrow> related (sl_world s) (sl_world s')"
  by (auto simp: save_slice_def dest: save_related split: prod.split_asm sum.split_asm)

lemma tolerate_steady: "tolerate port r s = Inr s' \<Longrightarrow> sl_world s' = sl_world s"
  by (auto simp: tolerate_def count_error_def split: sum.split_asm if_split_asm)

lemma finish_steady [simp]: "sl_world (finish_definition org i s) = sl_world s"
  by (simp add: finish_definition_def)

lemma count_steady [simp]: "sl_world (count_error s) = sl_world s"
  by (simp add: count_error_def)

lemma reconcile_item_steady:
  assumes "reconcile_item port f rest s = Next s'"
  shows "related (sl_world s) (sl_world s')"
proof -
  obtain r w where rw: "sp_reconcile port f (sp_now port (sl_world s)) (sl_world s) = (r, w)" by fastforce
  from assms rw obtain s2 where s2: "tolerate port r (s\<lparr>sl_fires := rest, sl_world := w\<rparr>) = Inr s2"
    and save: "save_slice port (s2\<lparr>sl_progress := (sl_progress s2)\<lparr>pg_fires_after := Some (fr_org f, fr_id f)\<rparr>,
             sl_items := sl_items s2 + 1\<rparr>) = Next s'"
    by (auto simp: reconcile_item_def Let_def split: sum.split_asm)
  have "related w (sl_world s')" using save_steady[OF save] tolerate_steady[OF s2] by simp
  then show ?thesis using reconcile_related[OF rw] related_trans by blast
qed

lemma fires_round_steady:
  assumes "fires_round port s = Next s'"
  shows "related (sl_world s) (sl_world s')"
proof (cases "sl_fires s")
  case (Cons f rest)
  then show ?thesis using assms reconcile_item_steady by (simp add: fires_round_def)
next
  case Nil
  obtain r w where rw: "sp_fires port (sp_now port (sl_world s)) 100 (pg_fires_after (sl_progress s)) (sl_world s) = (r, w)"
    by fastforce
  have "related w (sl_world s')"
  proof (cases r)
    case (Inl e)
    then show ?thesis using assms Nil rw related_refl by (auto simp: fires_round_def Let_def split: if_split_asm)
  next
    case (Inr fs)
    show ?thesis
    proof (cases fs)
      case Nil
      then have "save_slice port (s\<lparr>sl_progress := (sl_progress s)\<lparr>pg_fires_done := True\<rparr>, sl_world := w\<rparr>) = Next s'"
        using assms Inr rw \<open>sl_fires s = []\<close> by (simp add: fires_round_def)
      from save_steady[OF this] show ?thesis by simp
    next
      case (Cons f rest)
      then have "reconcile_item port f rest (s\<lparr>sl_world := w\<rparr>) = Next s'"
        using assms Inr rw \<open>sl_fires s = []\<close> by (simp add: fires_round_def)
      from reconcile_item_steady[OF this] show ?thesis by simp
    qed
  qed
  then show ?thesis using fires_related[OF rw] related_trans by blast
qed

lemma reconcile_date_steady: "reconcile_date port d date now w = (r, w') \<Longrightarrow> related w w'"
  unfolding reconcile_date_def
  by (auto split: sum.split_asm if_split_asm prod.split_asm option.split_asm
      intro: related_refl related_trans dest: ensure_related reconcile_related)

lemma date_round_steady:
  assumes "date_round port d s = Next s'"
  shows "related (sl_world s) (sl_world s')"
proof -
  consider (saved) s1 where "save_slice port s1 = Next s'" "sl_world s1 = sl_world s"
    | (decided) dates k w s2 s4 and r :: "scan_error + unit"
      where "reconcile_date port d (dates ! k) (sp_now port (sl_world s)) (sl_world s) = (r, w)"
        "tolerate port r (s\<lparr>sl_world := w\<rparr>) = Inr s2" "save_slice port s4 = Next s'" "sl_world s4 = sl_world s2"
    using assms unfolding date_round_def Let_def
    by (auto split: if_split_asm sum.split_asm option.split_asm prod.split_asm)
  then show ?thesis
  proof cases
    case saved
    then show ?thesis using save_steady by metis
  next
    case decided
    then show ?thesis using save_steady[OF decided(3)] tolerate_steady[OF decided(2)] reconcile_date_steady[OF decided(1)] related_trans
      by simp
  qed
qed

lemma resume_definition_steady:
  assumes "resume_definition port q s = Next s'"
  shows "related (sl_world s) (sl_world s')"
proof -
  obtain r w where rw: "sp_load port (pt_org q) (pt_definition q) (sl_world s) = (r, w)" by fastforce
  have "related w (sl_world s')"
  proof (cases r)
    case (Inl e)
    then show ?thesis using assms rw related_refl by (auto simp: resume_definition_def Let_def split: if_split_asm)
  next
    case (Inr found)
    then show ?thesis using assms rw save_steady date_round_steady
      by (force simp: resume_definition_def Let_def split: option.split_asm if_split_asm)
  qed
  then show ?thesis using load_related[OF rw] related_trans by blast
qed

lemma definitions_round_steady:
  assumes "definitions_round port s = Next s'"
  shows "related (sl_world s) (sl_world s')"
proof -
  obtain r w where rw: "sp_definitions port (sp_now port (sl_world s)) 100 (pg_definitions_after (sl_progress s)) (sl_world s) = (r, w)"
    by fastforce
  note paged = definitions_related[OF rw]
  consider (current) d where "date_round port d s = Next s'" | (resume) q where "resume_definition port q s = Next s'"
    | (take) d s1 where "date_round port d s1 = Next s'" "sl_world s1 = sl_world s \<or> sl_world s1 = w"
    | (saved) s1 where "save_slice port s1 = Next s'" "sl_world s1 = w" | (blocked) "sl_world s' = w"
    using assms rw unfolding definitions_round_def take_definition_def Let_def
    by (auto split: option.split_asm list.split_asm sum.split_asm if_split_asm)
  then show ?thesis
  proof cases
    case take
    then show ?thesis using date_round_steady[OF take(1)] paged related_trans by metis
  next
    case saved
    then show ?thesis using save_steady[OF saved(1)] paged related_trans by metis
  qed (use date_round_steady resume_definition_steady paged in auto)
qed

lemma slice_round_steady:
  assumes "slice_round port s = Next s' \<or> slice_round port s = Complete s' \<or> slice_round port s = Partial s'"
  shows "related (sl_world s) (sl_world s')"
proof -
  have steady: "(case l of LaneFires \<Rightarrow> fires_round port s1 | LaneDefinitions \<Rightarrow> definitions_round port s1) = Next s'
      \<Longrightarrow> related (sl_world s1) (sl_world s')" for l s1
    using fires_round_steady definitions_round_steady by (cases l) auto
  have running: "goes_on (case l of LaneFires \<Rightarrow> fires_round port s1 | LaneDefinitions \<Rightarrow> definitions_round port s1)" for l s1
    by (cases l) simp_all
  define first where "first = pg_next_lane (sl_progress s)"
  define l where "l = (if lane_closed first s then other_lane first else first)"
  let ?s = "s\<lparr>sl_progress := (sl_progress s)\<lparr>pg_next_lane := other_lane l\<rparr>\<rparr>"
  let ?round = "case l of LaneFires \<Rightarrow> fires_round port ?s | LaneDefinitions \<Rightarrow> definitions_round port ?s"
  let ?done = "s\<lparr>sl_progress := (sl_progress s)\<lparr>pg_complete := True\<rparr>\<rparr>"
  have finished: "(case save_slice port ?done of Next s' \<Rightarrow> Complete s' | r \<Rightarrow> r) = r \<Longrightarrow> r = Next s' \<or> r = Complete s' \<or> r = Partial s'
      \<Longrightarrow> save_slice port ?done = Next s'" for r
    using save_goes_on[of port ?done] by (cases "save_slice port ?done") auto
  consider (complete) s1 where "save_slice port s1 = Next s'" "sl_world s1 = sl_world s" | (partial) "s' = s"
    | (worked) "?round = Next s' \<or> ?round = Complete s' \<or> ?round = Partial s'"
  proof (cases "sp_aborted port (sl_world s)")
    case True
    then show ?thesis using assms by (simp add: slice_round_def)
  next
    case running: False
    show ?thesis
    proof (cases "pg_definitions_done (sl_progress s) \<and> pg_fires_done (sl_progress s)")
      case True
      then have "save_slice port ?done = Next s'" using assms running finished[OF refl] by (simp add: slice_round_def)
      then show ?thesis using complete by simp
    next
      case False
      have "slice_round port s = (if lane_closed l s then (if sl_saved s > 0 then Partial s else Raise ScanError s) else ?round)"
        using running False unfolding slice_round_def Let_def first_def[symmetric] l_def[symmetric] by (simp only: if_False)
      then show ?thesis using assms partial worked by (auto split: if_split_asm)
    qed
  qed
  then show ?thesis
  proof cases
    case complete
    then show ?thesis using save_steady by metis
  next
    case partial
    then show ?thesis by (simp add: related_refl)
  next
    case worked
    then have "?round = Next s'" using running[of ?s l] by auto
    from steady[OF this] show ?thesis by simp
  qed
qed

lemma slice_loop_steady: "slice_loop port s = Some (Inr (finished, s')) \<Longrightarrow> related (sl_world s) (sl_world s')"
proof (induction "budget s" arbitrary: s rule: less_induct)
  case less
  show ?case
  proof (cases "slice_open port s")
    case False
    then show ?thesis using less.prems related_refl by (subst (asm) slice_loop.simps) (auto split: if_split_asm)
  next
    case True
    show ?thesis
    proof (cases "slice_round port s")
      case (Next s1)
      then have "slice_loop port s1 = Some (Inr (finished, s'))"
        using less.prems True by (subst (asm) slice_loop.simps) simp
      then have "related (sl_world s1) (sl_world s')" by (rule less.hyps[OF slice_round_budget[OF Next True]])
      then show ?thesis using slice_round_steady[of s s1] Next related_trans by blast
    next
      case (Complete s1)
      then have "s' = s1" using less.prems True by (subst (asm) slice_loop.simps) simp
      then show ?thesis using slice_round_steady[of s s1] Complete by simp
    next
      case (Partial s1)
      then have "s' = s1" using less.prems True by (subst (asm) slice_loop.simps) simp
      then show ?thesis using slice_round_steady[of s s1] Partial by simp
    next
      case (Raise e s1)
      then show ?thesis using less.prems True by (subst (asm) slice_loop.simps) simp
    qed
  qed
qed

lemma scan_steady:
  "scanAppAutomationSlice port initial w = Some (Inr (finished, s)) \<Longrightarrow> related w (sl_world s)"
  unfolding scanAppAutomationSlice_def by (drule slice_loop_steady) simp

end

subsection \<open>The port on the database\<close>

record scan_world =
  sw_store :: automation_store
  sw_tick :: nat

record scan_runtime =
  rt_env :: automation_env
  rt_approver :: "auto_definition \<Rightarrow> bool"
  rt_clock :: "nat \<Rightarrow> nat \<Rightarrow> int"
  rt_between :: "nat \<Rightarrow> automation_store \<Rightarrow> automation_store"
  rt_fails :: "nat \<Rightarrow> scan_error option"
  rt_rearmed :: "nat \<Rightarrow> bool"
  rt_saves :: "nat \<Rightarrow> bool"
  rt_late :: "nat \<Rightarrow> bool"
  rt_aborted :: "nat \<Rightarrow> bool"

text \<open>
  A transaction of the scan's own pool: it fails before its commit, throws, or commits.  \<open>handled\<close> are the
  errors for which the port answers without one.
\<close>

definition scan_transaction ::
    "scan_runtime \<Rightarrow> (automation_error \<Rightarrow> 'a option) \<Rightarrow> (nat \<Rightarrow> automation_store \<Rightarrow> automation_error + 'a \<times> automation_store)
      \<Rightarrow> scan_world \<Rightarrow> (scan_error + 'a) \<times> scan_world" where
  "scan_transaction rt handled run w =
     (let t = sw_tick w; st = rt_between rt t (sw_store w); w' = w\<lparr>sw_store := st, sw_tick := Suc t\<rparr>
      in case rt_fails rt t of
           Some e \<Rightarrow> (Inl e, w')
         | None \<Rightarrow> (case run t st of
               Inl e \<Rightarrow> ((case handled e of Some a \<Rightarrow> Inr a | None \<Rightarrow> Inl ScanError), w')
             | Inr (a, st') \<Rightarrow> (Inr a, w'\<lparr>sw_store := st'\<rparr>)))"

definition not_handled :: "automation_error \<Rightarrow> 'a option" where
  "not_handled e = None"

definition unavailable :: "automation_error \<Rightarrow> 'a option option" where
  "unavailable e = (if e = AppStale \<or> e = AppNotFound then Some None else None)"

definition reads :: "(automation_store \<Rightarrow> 'a) \<Rightarrow> nat \<Rightarrow> automation_store \<Rightarrow> automation_error + 'a \<times> automation_store" where
  "reads f t st = Ok (f st, st)"

definition reconcile_in_scan ::
    "scan_runtime \<Rightarrow> fire_row \<Rightarrow> nat \<Rightarrow> automation_store \<Rightarrow> automation_error + unit \<times> automation_store" where
  "reconcile_in_scan rt f t st =
     res_bind (reconcileFire (rt_approver rt) (rt_clock rt t) (rt_rearmed rt t) f st) (\<lambda>(_, st'). Ok ((), st'))"

definition persist_in_scan ::
    "scan_runtime \<Rightarrow> fire_request \<Rightarrow> nat \<Rightarrow> automation_store \<Rightarrow> automation_error + fire_row option \<times> automation_store" where
  "persist_in_scan rt q t st =
     res_bind (persistAppAutomationFire (rt_env rt) (rt_approver rt) (rt_clock rt t) q st) (\<lambda>(f, st'). Ok (Some f, st'))"

definition database_port :: "scan_runtime \<Rightarrow> scan_world scan_port" where
  "database_port rt =
     \<lparr>sp_definitions = (\<lambda>now page cursor. scan_transaction rt not_handled
        (reads (listEligibleAppAutomationDefinitionsWithExecutor now page cursor))),
      sp_load = (\<lambda>org i. scan_transaction rt not_handled (reads (getDefinition org i))),
      sp_fires = (\<lambda>now page cursor. scan_transaction rt not_handled
        (reads (listUnsettledAppAutomationFiresWithExecutor now page cursor))),
      sp_reconcile = (\<lambda>f now. scan_transaction rt not_handled (reconcile_in_scan rt f)),
      sp_ensure = (\<lambda>q now. scan_transaction rt unavailable (persist_in_scan rt q)),
      sp_save = (\<lambda>p w. (if rt_saves rt (sw_tick w) then Inr () else Inl ScanError, w\<lparr>sw_tick := Suc (sw_tick w)\<rparr>)),
      sp_now = (\<lambda>w. rt_clock rt (sw_tick w) 0),
      sp_late = (\<lambda>w. rt_late rt (sw_tick w)),
      sp_aborted = (\<lambda>w. rt_aborted rt (sw_tick w)),
      sp_zones = ae_zones (rt_env rt)\<rparr>"

definition runAppAutomationScan ::
    "bool \<Rightarrow> scan_runtime \<Rightarrow> scan_progress \<Rightarrow> scan_world \<Rightarrow> (scan_error + bool \<times> scan_world) option" where
  "runAppAutomationScan enabled rt initial w =
     (if \<not> enabled then Some (Ok (True, w))
      else case scanAppAutomationSlice (database_port rt) initial w of
             None \<Rightarrow> None
           | Some (Inl e) \<Rightarrow> Some (Throw e)
           | Some (Inr (finished, s)) \<Rightarrow> Some (Ok (finished, sl_world s)))"

subsection \<open>A scan is a sequence of transactions\<close>

definition transacted :: "scan_runtime \<Rightarrow> scan_world \<Rightarrow> scan_world \<Rightarrow> bool" where
  "transacted rt w w' \<longleftrightarrow> (interleaves (rt_between rt) \<longrightarrow> automation_step\<^sup>*\<^sup>* (sw_store w) (sw_store w'))"

lemma scan_transaction_transacted:
  assumes "scan_transaction rt handled run w = (r, w')"
    and "\<And>t st a st'. run t st = Inr (a, st') \<Longrightarrow> st' = st \<or> automation_step st st'"
  shows "transacted rt w w'"
  unfolding transacted_def
proof
  assume i: "interleaves (rt_between rt)"
  let ?st = "rt_between rt (sw_tick w) (sw_store w)"
  have "automation_step\<^sup>*\<^sup>* ?st (sw_store w')"
    using assms(1) by (auto simp: scan_transaction_def Let_def split: option.split_asm sum.split_asm dest!: assms(2))
  then show "automation_step\<^sup>*\<^sup>* (sw_store w) (sw_store w')" by (rule between_steps[OF i])
qed

interpretation scan_db: steady_port "database_port rt" "transacted rt" for rt
proof
  fix w u v
  show "transacted rt w w" by (simp add: transacted_def)
  show "transacted rt u v \<Longrightarrow> transacted rt v w \<Longrightarrow> transacted rt u w" by (auto simp: transacted_def)
next
  fix now page cursor w r1 w1
  assume "sp_definitions (database_port rt) now page cursor w = (r1, w1)"
  then show "transacted rt w w1"
    by (simp add: database_port_def) (erule scan_transaction_transacted, simp add: reads_def)
next
  fix org i w r2 w2
  assume "sp_load (database_port rt) org i w = (r2, w2)"
  then show "transacted rt w w2"
    by (simp add: database_port_def) (erule scan_transaction_transacted, simp add: reads_def)
next
  fix now page cursor w r3 w3
  assume "sp_fires (database_port rt) now page cursor w = (r3, w3)"
  then show "transacted rt w w3"
    by (simp add: database_port_def) (erule scan_transaction_transacted, simp add: reads_def)
next
  fix f now w r4 w4
  assume "sp_reconcile (database_port rt) f now w = (r4, w4)"
  then show "transacted rt w w4"
    by (simp add: database_port_def) (erule scan_transaction_transacted,
      auto simp: reconcile_in_scan_def res_bind_Ok_iff intro: automation_step.reconcile)
next
  fix q now w r5 w5
  assume "sp_ensure (database_port rt) q now w = (r5, w5)"
  then show "transacted rt w w5"
    by (simp add: database_port_def) (erule scan_transaction_transacted,
      auto simp: persist_in_scan_def res_bind_Ok_iff intro: automation_step.persist)
next
  fix p w r6 w6
  assume "sp_save (database_port rt) p w = (r6, w6)"
  then show "transacted rt w w6" by (auto simp: database_port_def transacted_def)
qed

text \<open>
  Scans keep the stored fires in order.  A scan of the database, with any clock, any failing or aborted
  transactions, any lost lease of the scan and any transactions of other workers in between, always
  returns, and when it returns without an error the store it leaves can be reached by transactions from
  the one it found: the scan has no effect but those of its transactions, and fires that were in order
  before it are in order after it.\<close>

theorem scan_is_transactions:
  assumes "interleaves (rt_between rt)"
  shows "\<exists>r. runAppAutomationScan enabled rt initial w = Some r \<and>
    (case r of Inl e \<Rightarrow> enabled
     | Inr (finished, w') \<Rightarrow> automation_step\<^sup>*\<^sup>* (sw_store w) (sw_store w')
         \<and> (automation_ok (sw_store w) \<longrightarrow> automation_ok (sw_store w')))"
proof (cases enabled)
  case True
  obtain r where r: "scanAppAutomationSlice (database_port rt) initial w = Some r"
    using slice_loop_ends[of "database_port rt"] unfolding scanAppAutomationSlice_def by blast
  show ?thesis
  proof (cases r)
    case (Inl e)
    then show ?thesis using r True by (simp add: runAppAutomationScan_def)
  next
    case (Inr res)
    obtain finished s where res: "res = (finished, s)" by fastforce
    have "automation_step\<^sup>*\<^sup>* (sw_store w) (sw_store (sl_world s))"
      using scan_db.scan_steady[of rt initial w finished s] r Inr res assms by (simp add: transacted_def)
    then show ?thesis using r Inr res True run_ok by (auto simp: runAppAutomationScan_def)
  qed
qed (simp add: runAppAutomationScan_def)

end
