(* ===== verification/AutomationSamples.thy ===== *)
theory AutomationSamples
  imports AutomationTimes AutomationRuntime
begin

text \<open>
  The theorems on automations at work: a daily automation in a zone without offset, its first two fires,
  a claim, a delivery and a scan; and the local date that a scan misses when a zone moves its clock forward.
\<close>

subsection \<open>A zone without offset\<close>

definition utc_zones :: zones where
  "utc_zones tz at_ms = Some (zone_clock (\<lambda>_. 0) at_ms)"

lemma logical_dates_are_consecutive_witness:
  "\<exists>dates. listAppAutomationLogicalDates utc_zones 0 (3 * ms_per_day) ''UTC'' None = Inr dates \<and> length dates = 4"
proof -
  have start: "localParts utc_zones 0 ''UTC'' = Inr \<lparr>lp_date = date_text (civil_of_day 0), lp_time = ''00:00'',
      lp_clock = (1970, 1, 1, 0, 0, 0)\<rparr>" by code_simp
  have last: "localParts utc_zones (3 * ms_per_day) ''UTC'' = Inr \<lparr>lp_date = date_text (civil_of_day 3), lp_time = ''00:00'',
      lp_clock = (1970, 1, 4, 0, 0, 0)\<rparr>" by code_simp
  have years: "year_of_day 0 = 1970" "year_of_day 3 = 1970" by code_simp+
  show ?thesis
    using logical_dates_are_consecutive[of utc_zones 0 "''UTC''" _ 0 "3 * ms_per_day" _ 3 None, OF start _ last]
    by (simp add: years max_days_of_def)
qed

lemma resolved_instant_is_earliest_witness:
  "\<exists>occ. resolveAppAutomationOccurrence utc_zones (date_text (civil_of_day 1)) (time_text 9 0) ''UTC'' = Inr occ
     \<and> oc_resolved occ = Some 118800000"
proof -
  have year: "year_of_day 1 = 1970" by code_simp
  have calm: "calm_zone (\<lambda>_. 0) 118800000" by (auto simp: calm_zone_def)
  obtain occ where "resolveAppAutomationOccurrence utc_zones (date_text (civil_of_day 1)) (time_text 9 0) ''UTC'' = Inr occ"
      "case oc_resolved occ of None \<Rightarrow> \<forall>t. t + (0::int) \<noteq> 118800000
         | Some t \<Rightarrow> t + (0::int) = 118800000 \<and> (\<forall>u. u + (0::int) = 118800000 \<longrightarrow> t \<le> u)"
    using resolved_instant_is_earliest[of utc_zones "''UTC''" "\<lambda>_. 0" 118800000 1 9 0] calm year
    by (auto simp: utc_zones_def minute_of_day_def ms_per_day_def)
  then show ?thesis by (cases "oc_resolved occ") auto
qed

lemma announced_fire_is_accepted_witness:
  "\<exists>occ t. nextEligibleAppAutomationOccurrence utc_zones ''09:00'' ''UTC'' 40000000 0 (Some 864000000) None = Inr (Some occ)
     \<and> oc_resolved occ = Some t \<and> 40000000 < t \<and> t < 864000000"
proof -
  have next_one: "nextEligibleAppAutomationOccurrence utc_zones ''09:00'' ''UTC'' 40000000 0 (Some 864000000) None
      = Inr (Some \<lparr>oc_date = ''1970-01-02'', oc_time = ''09:00'', oc_zone = ''UTC'', oc_resolved = Some 118800000\<rparr>)" by code_simp
  from announced_fire_is_accepted[OF next_one] next_one show ?thesis by auto
qed

subsection \<open>A daily automation\<close>

definition sample_automation :: auto_definition where
  "sample_automation = \<lparr>ad_id = ''d1'', ad_org = ''o1'', ad_local_time = ''09:00'', ad_timezone = ''UTC'', ad_window = 15,
     ad_max_runs = 1, ad_max_pending = 1, ad_valid_from = 0, ad_valid_until = 864000000, ad_state = DefActive, ad_epoch = 1,
     ad_changed_at = 0, ad_revoked_at = None, ad_expired_at = None\<rparr>"

definition empty_automations :: automation_store where
  "empty_automations = \<lparr>as_definitions = [sample_automation], as_fires = [], as_next = 0\<rparr>"

fun sample_digest :: "jsv \<Rightarrow> string" where
  "sample_digest (JObj (_ # _ # _ # (_, JStr date) # _)) = ''sha256:'' @ date"
| "sample_digest _ = []"

definition sample_automation_env :: automation_env where
  "sample_automation_env = \<lparr>ae_zones = utc_zones, ae_canonical = Some, ae_digest = sample_digest,
     ae_id = (\<lambda>n. ''f'' @ [digit_char n])\<rparr>"

definition sample_fire :: fire_row where
  "sample_fire = \<lparr>fr_id = ''f0'', fr_org = ''o1'', fr_definition = ''d1'', fr_epoch = 1, fr_date = ''1970-01-02'',
     fr_time = ''09:00'', fr_zone = ''UTC'', fr_resolved = Some 118800000, fr_identity = ''sha256:1970-01-02'',
     fr_state = FirePending, fr_attempts = 0, fr_owner = None, fr_token = None, fr_claimed_at = None, fr_lease = None,
     fr_run = None, fr_reason = None, fr_terminal_at = None\<rparr>"

definition sample_claimed :: fire_row where
  "sample_claimed = sample_fire\<lparr>fr_state := FireClaimed, fr_attempts := 1, fr_owner := Some ''job:j1'', fr_token := Some ''t1'',
     fr_claimed_at := Some 118900000, fr_lease := Some 118960000\<rparr>"

definition sample_created :: fire_row where
  "sample_created = sample_claimed\<lparr>fr_state := FireRunCreated, fr_run := Some ''run1'', fr_reason := Some ReasonRunCreated,
     fr_terminal_at := Some 118905000\<rparr>"

definition second_fire :: fire_row where
  "second_fire = sample_fire\<lparr>fr_id := ''f1'', fr_date := ''1970-01-03'', fr_resolved := Some 205200000,
     fr_identity := ''sha256:1970-01-03''\<rparr>"

definition fires_store :: "fire_row list \<Rightarrow> automation_store" where
  "fires_store fs = \<lparr>as_definitions = [sample_automation], as_fires = fs, as_next = length fs\<rparr>"

lemmas sample_defs = sample_automation_def sample_fire_def sample_claimed_def sample_created_def second_fire_def fires_store_def

lemma sample_first:
  "persistAppAutomationFire sample_automation_env (\<lambda>_. True) (\<lambda>_. 118860000) \<lparr>fq_org = ''o1'', fq_definition = ''d1'', fq_epoch = 1,
     fq_date = ''1970-01-02'', fq_resolved = Some 118800000, fq_reason = None\<rparr> empty_automations
   = Inr (sample_fire, fires_store [sample_fire])"
  by code_simp

lemma sample_second:
  "persistAppAutomationFire sample_automation_env (\<lambda>_. True) (\<lambda>_. 205260000) \<lparr>fq_org = ''o1'', fq_definition = ''d1'', fq_epoch = 1,
     fq_date = ''1970-01-03'', fq_resolved = Some 205200000, fq_reason = None\<rparr> (fires_store [sample_created])
   = Inr (second_fire, fires_store [sample_created, second_fire])"
  by code_simp

lemma sample_claim:
  "claimAppAutomationFireWithExecutor (\<lambda>_. True) \<lparr>ef_org = ''o1'', ef_definition = ''d1'', ef_fire = ''f0'', ef_epoch = 1\<rparr>
     ''job:j1'' ''t1'' 118900000 118960000 (fires_store [sample_fire]) = Inr (Some sample_claimed, fires_store [sample_claimed])"
  by code_simp

lemma sample_bind:
  "bindAppAutomationFireRunWithExecutor (\<lambda>_. True) \<lparr>ef_org = ''o1'', ef_definition = ''d1'', ef_fire = ''f0'', ef_epoch = 1\<rparr>
     ''t1'' ''run1'' 118905000 (fires_store [sample_claimed]) = Inr (Some sample_created, fires_store [sample_created])"
  by code_simp

lemma automation_history:
  "automation_step empty_automations (fires_store [sample_fire])" "automation_step (fires_store [sample_fire]) (fires_store [sample_claimed])"
  "automation_step (fires_store [sample_claimed]) (fires_store [sample_created])"
  "automation_step (fires_store [sample_created]) (fires_store [sample_created, second_fire])"
  by (rule automation_step.persist[OF sample_first] automation_step.claim[OF sample_claim] automation_step.bind[OF sample_bind]
      automation_step.persist[OF sample_second])+

lemma automation_reach: "automation_step\<^sup>*\<^sup>* empty_automations (fires_store [sample_created])"
  using automation_history by (meson r_into_rtranclp rtranclp_trans)

lemma automation_invariant_witness:
  "list_all fire_checks [sample_created, second_fire] \<and> \<not> fire_collides sample_created second_fire"
proof -
  have "automation_step\<^sup>*\<^sup>* empty_automations (fires_store [sample_created, second_fire])"
    using automation_reach automation_history(4) by simp
  from automation_invariant[OF this, of "[]"] show ?thesis by (simp add: empty_automations_def fires_store_def) (metis One_nat_def less_Suc_eq nth_Cons_0 nth_Cons_Suc zero_less_Suc)
qed

lemma settled_fire_is_final_witness:
  "sample_created \<in> set (as_fires (fires_store [sample_created, second_fire]))"
  using settled_fire_is_final[OF _ automation_reach r_into_rtranclp[where r = automation_step, OF automation_history(4)], of sample_created]
  by (simp add: empty_automations_def fires_store_def active_fire_def sample_created_def)

lemma claim_is_admitted_witness:
  "fr_attempts sample_claimed = 1 \<and> reserved_runs ''o1'' 118900000 [sample_claimed] \<le> 1"
  using claim_is_admitted[OF sample_claim]
  by (simp add: fires_store_def getDefinition_def sample_claimed_def sample_fire_def sample_automation_def)

subsection \<open>A delivery\<close>

definition sample_delivery :: delivery where
  "sample_delivery = \<lparr>dv_job = ''j1'', dv_lease = Some 118960000, dv_org = ''o1'', dv_definition = ''d1'', dv_fire = ''f0'', dv_epoch = 1\<rparr>"

definition sample_submit :: "string \<Rightarrow> automation_store \<Rightarrow> invoke_result \<times> automation_store" where
  "sample_submit token st = (case bindAppAutomationFireRunWithExecutor (\<lambda>_. True) (exact_delivery sample_delivery) token
       ''run1'' 118905000 st of Inr (Some _, st') \<Rightarrow> (Invoked, st') | _ \<Rightarrow> (InvokeFailed, st))"

lemma fire_run_submits: "submits sample_submit"
  unfolding submits_def sample_submit_def
  by (auto split: sum.split option.split intro: automation_step.bind)

lemma sample_dispatch:
  "dispatchAppAutomationFire True (\<lambda>_. True) (\<lambda>_ s. s) PreflightPassed sample_submit sample_delivery ''t1'' 118900000 118910000
     (fires_store [sample_fire]) = (DispatchDone, fires_store [sample_created])"
  by code_simp

lemma delivery_is_transactions_witness:
  "automation_step\<^sup>*\<^sup>* (fires_store [sample_fire]) (fires_store [sample_created])"
  using delivery_is_transactions[OF sample_dispatch _ fire_run_submits] by (simp add: interleaves_def)

lemma due_fire_creates_its_run_witness:
  "\<exists>st' g. dispatchAppAutomationFire True (\<lambda>_. True) (\<lambda>_ s. s) PreflightPassed sample_submit sample_delivery ''t1'' 118900000 118910000
        (fires_store [sample_fire]) = (DispatchDone, st')
      \<and> g \<in> set (as_fires st') \<and> fr_id g = ''f0'' \<and> fr_state g = FireRunCreated \<and> fr_run g = Some ''run1'' \<and> fr_attempts g = 1"
proof -
  have submits: "submits_run (\<lambda>_. True) (exact_delivery sample_delivery) ''run1'' 118905000 sample_submit"
    by (simp add: submits_run_def sample_submit_def)
  have budgets: "active_count ''o1'' [sample_fire] = 1" "reserved_runs ''o1'' 118900000 [sample_fire] = 0" by code_simp+
  show ?thesis
    using due_fire_creates_its_run[OF _ r_into_rtranclp[where r = automation_step, OF automation_history(1)], where v = sample_delivery and d = sample_automation
        and f = sample_fire and t = 118800000 and now = 118900000 and later = 118910000 and run = "''run1''" and bound_at = 118905000
        and token = "''t1''" and approver = "\<lambda>_. True" and invoke = sample_submit] budgets submits
    by (simp add: empty_automations_def getFire_def getDefinition_def sample_delivery_def fires_store_def)
      (simp add: sample_defs claim_lease_def)
qed

subsection \<open>A scan\<close>

definition sample_runtime :: scan_runtime where
  "sample_runtime = \<lparr>rt_env = sample_automation_env, rt_approver = (\<lambda>_. True), rt_clock = (\<lambda>_ _. 118860000),
     rt_between = (\<lambda>_ s. s), rt_fails = (\<lambda>_. None), rt_rearmed = (\<lambda>_. False), rt_saves = (\<lambda>_. True),
     rt_late = (\<lambda>_. False), rt_aborted = (\<lambda>_. False)\<rparr>"

lemma scan_is_transactions_witness:
  "\<exists>r. runAppAutomationScan True sample_runtime initialAppAutomationScanProgress \<lparr>sw_store = empty_automations, sw_tick = 0\<rparr> = Some r
     \<and> (case r of Inl e \<Rightarrow> True | Inr (finished, w') \<Rightarrow> automation_ok (sw_store w'))"
proof -
  have "interleaves (rt_between sample_runtime)" by (simp add: interleaves_def sample_runtime_def)
  from scan_is_transactions[OF this, of True initialAppAutomationScanProgress "\<lparr>sw_store = empty_automations, sw_tick = 0\<rparr>"]
  show ?thesis by (force simp: empty_automations_def split: sum.split_asm prod.split_asm)
qed

subsection \<open>The last local date\<close>

text \<open>
  The clock moves forward by an hour inside the validity of thirty days, which begins on 1970-01-01 at
  23:30 and so touches 32 local dates.  On the last of them the occurrence is pending, but the scan
  lists only 31 dates and misses it.
\<close>

definition spring_zones :: zones where
  "spring_zones tz at_ms = Some (zone_clock (\<lambda>t. if t < 864000000 then 0 else 3600000) at_ms)"

definition spring_start :: int where
  "spring_start = 84600000"

lemma last_date_is_pending:
  "\<exists>occ. resolveAppAutomationOccurrence spring_zones ''1970-02-01'' ''00:00'' ''X'' = Inr occ
     \<and> classifyAppAutomationOccurrence spring_zones occ (spring_start + 30 * ms_per_day - 1500000) spring_start
         (Some (spring_start + 30 * ms_per_day)) 15 = Inr (PendingFire occ)"
proof
  show "resolveAppAutomationOccurrence spring_zones ''1970-02-01'' ''00:00'' ''X''
      = Inr \<lparr>oc_date = ''1970-02-01'', oc_time = ''00:00'', oc_zone = ''X'', oc_resolved = Some 2674800000\<rparr>
    \<and> classifyAppAutomationOccurrence spring_zones \<lparr>oc_date = ''1970-02-01'', oc_time = ''00:00'', oc_zone = ''X'',
         oc_resolved = Some 2674800000\<rparr> (spring_start + 30 * ms_per_day - 1500000) spring_start
         (Some (spring_start + 30 * ms_per_day)) 15
      = Inr (PendingFire \<lparr>oc_date = ''1970-02-01'', oc_time = ''00:00'', oc_zone = ''X'', oc_resolved = Some 2674800000\<rparr>)"
    by code_simp
qed

lemma last_date_is_not_listed:
  "\<exists>dates. listAppAutomationLogicalDates spring_zones spring_start (spring_start + 30 * ms_per_day - 1500000) ''X'' None = Inr dates
     \<and> length dates = 31 \<and> ''1970-02-01'' \<notin> set dates"
proof -
  have dates: "appAutomationLocalDate spring_zones spring_start ''X'' = Inr (date_text (civil_of_day 0))"
    "appAutomationLocalDate spring_zones (spring_start + 30 * ms_per_day - 1500000) ''X'' = Inr (date_text (civil_of_day 31))"
    "''1970-02-01'' = date_text (civil_of_day 31)" by code_simp+
  have "year_of_day 0 = 1970" "year_of_day 32 = 1970" by code_simp+
  then have ends: "plain_day 0" "plain_day 32" by (simp_all add: plain_day_def)
  have plain: "plain_day n" if "0 \<le> n" "n \<le> 32" for n using plain_day_between[OF ends that] .
  have "listAppAutomationLogicalDates spring_zones spring_start (spring_start + 30 * ms_per_day - 1500000) ''X'' None = Inr (day_texts 0 30)"
    using list_dates_run[of 0 31 31 "[]"] plain by (simp add: listAppAutomationLogicalDates_def dates max_days_of_def)
  moreover have "date_text (civil_of_day 31) \<notin> set (day_texts 0 30)"
  proof
    assume "date_text (civil_of_day 31) \<in> set (day_texts 0 30)"
    then obtain n where "0 \<le> n" "n \<le> 30" "date_text (civil_of_day 31) = date_text (civil_of_day n)"
      by (auto simp: day_texts_def)
    then show False using date_text_inj[of 31 n] plain by simp
  qed
  ultimately show ?thesis unfolding dates(3) by (simp add: day_texts_def)
qed

end
