(* ===== verification/JobQueue.thy ===== *)
theory JobQueue
  imports Prelude JsValue
begin

text \<open>
  The durable job queue (apps/api/src/lib/queues.ts, table job_queue of packages/db/src/schema.ts) and
  the worker that delivers its jobs (apps/api/src/workers/index.ts).  Every function of queues.ts is
  one SQL statement on the rows; \<open>now\<close> is the clock of the database in milliseconds, fresh identifiers
  and lock tokens are arguments.
\<close>

subsection \<open>Rows\<close>

datatype job_status = JobPending | JobRunning | JobCompleted | JobFailed

record job_row =
  jb_id :: string
  jb_org :: "string option"
  jb_queue :: string
  jb_name :: string
  jb_data :: jsv
  jb_status :: job_status
  jb_attempts :: nat
  jb_max :: nat
  jb_run_at :: int
  jb_started :: "int option"
  jb_completed :: "int option"
  jb_error :: "string option"
  jb_cron :: "string option"
  jb_dedupe :: "string option"
  jb_locked_by :: "string option"
  jb_token :: "string option"
  jb_lease :: "int option"
  jb_created :: int

datatype queue_error = DedupeKeyRequired | JobIndexViolation

definition active_job :: "job_row \<Rightarrow> bool" where
  "active_job r \<longleftrightarrow> jb_status r = JobPending \<or> jb_status r = JobRunning"

text \<open>The primary key and the unique indexes: dedupe key inside an organisation, active cron key.\<close>

definition job_collides :: "job_row \<Rightarrow> job_row \<Rightarrow> bool" where
  "job_collides a b \<longleftrightarrow> jb_id a = jb_id b
     \<or> (jb_dedupe a \<noteq> None \<and> jb_dedupe a = jb_dedupe b \<and> or_empty (jb_org a) = or_empty (jb_org b))
     \<or> (jb_cron a \<noteq> None \<and> jb_cron a = jb_cron b \<and> active_job a \<and> active_job b)"

definition AGENT_JOBS :: string where "AGENT_JOBS = ''agent-jobs''"
definition SCHEDULED_JOBS :: string where "SCHEDULED_JOBS = ''scheduled-jobs''"

definition DEFAULT_LEASE_MS :: int where "DEFAULT_LEASE_MS = 60000"
definition DEFAULT_RETENTION_MS :: int where "DEFAULT_RETENTION_MS = 7 * 24 * 60 * 60000"

text \<open>\<open>None\<close> stands for a number that is missing or not finite.\<close>

definition positiveInteger :: "rat option \<Rightarrow> int \<Rightarrow> int" where
  "positiveInteger value fallback = (case value of
       Some v \<Rightarrow> if v > 0 then max 1 \<lfloor>v\<rfloor> else fallback
     | None \<Rightarrow> fallback)"

definition org_text :: "jsv \<Rightarrow> string option" where
  "org_text v = (case v of JStr s \<Rightarrow> if s = [] then None else Some s | _ \<Rightarrow> None)"

text \<open>An explicit organisation may be \<open>null\<close>.\<close>

definition inferOrgId :: "jsv \<Rightarrow> string option option \<Rightarrow> string option" where
  "inferOrgId data explicit = (case explicit of
       Some org \<Rightarrow> org
     | None \<Rightarrow> (case org_text (js_prop_of data ''orgId'') of
           Some s \<Rightarrow> Some s
         | None \<Rightarrow> org_text (js_prop_of data ''org_id'')))"

subsection \<open>Priorities\<close>

definition jobPriorityRank :: "string \<Rightarrow> string \<Rightarrow> nat" where
  "jobPriorityRank queue name =
     (if queue \<noteq> AGENT_JOBS then 3
      else if name \<in> {''agent-reply'', ''agent-employee-message'', ''agent-employee-task''} then 0
      else if name \<in> {''employee-trigger'', ''agent-employee-trigger'', ''plan-executor''} then 1
      else if name = ''observe-chat-message'' then 5 else 3)"

text \<open>The \<open>ORDER BY\<close> of the claim: priority, then age.\<close>

definition claimed_before :: "job_row \<Rightarrow> job_row \<Rightarrow> bool" where
  "claimed_before a b \<longleftrightarrow> (let x = jobPriorityRank (jb_queue a) (jb_name a); y = jobPriorityRank (jb_queue b) (jb_name b)
     in x < y \<or> (x = y \<and> jb_created a < jb_created b))"

fun first_job :: "job_row list \<Rightarrow> job_row option" where
  "first_job [] = None"
| "first_job (r # rs) = (case first_job rs of
       None \<Rightarrow> Some r
     | Some s \<Rightarrow> if claimed_before s r then Some s else Some r)"

subsection \<open>Producers\<close>

record enqueue_options =
  eo_delay :: "int option"
  eo_max :: "rat option"
  eo_org :: "string option option"
  eo_dedupe :: "string option"

definition trimmed_key :: "string option \<Rightarrow> string option" where
  "trimmed_key k = (case k of None \<Rightarrow> None | Some s \<Rightarrow> if js_trim s = [] then None else Some (js_trim s))"

definition run_delay :: "int option \<Rightarrow> int" where
  "run_delay d = max 0 (case d of None \<Rightarrow> 0 | Some n \<Rightarrow> n)"

definition new_job ::
    "string \<Rightarrow> string option \<Rightarrow> string \<Rightarrow> string \<Rightarrow> jsv \<Rightarrow> nat \<Rightarrow> int \<Rightarrow> string option \<Rightarrow> string option \<Rightarrow> int \<Rightarrow> job_row" where
  "new_job i org queue name data attempts_limit run_at cron dedupe now =
     \<lparr>jb_id = i, jb_org = org, jb_queue = queue, jb_name = name, jb_data = data, jb_status = JobPending, jb_attempts = 0,
      jb_max = attempts_limit, jb_run_at = run_at, jb_started = None, jb_completed = None, jb_error = None, jb_cron = cron,
      jb_dedupe = dedupe, jb_locked_by = None, jb_token = None, jb_lease = None, jb_created = now\<rparr>"

text \<open>\<open>ON CONFLICT DO NOTHING\<close>.\<close>

definition insert_job :: "job_row \<Rightarrow> job_row list \<Rightarrow> job_row list" where
  "insert_job r rows = (if list_ex (job_collides r) rows then rows else rows @ [r])"

definition enqueueJob ::
    "string \<Rightarrow> string \<Rightarrow> jsv \<Rightarrow> enqueue_options \<Rightarrow> string \<Rightarrow> int \<Rightarrow> job_row list \<Rightarrow> job_row list" where
  "enqueueJob queue name data opts i now rows =
     insert_job (new_job i (inferOrgId data (eo_org opts)) queue name data (nat (positiveInteger (eo_max opts) 3))
       (now + run_delay (eo_delay opts)) None (trimmed_key (eo_dedupe opts)) now) rows"

definition rearmable :: "string option \<Rightarrow> string \<Rightarrow> string \<Rightarrow> string \<Rightarrow> job_row \<Rightarrow> bool" where
  "rearmable org queue name key r \<longleftrightarrow> jb_org r = org \<and> jb_queue r = queue \<and> jb_name r = name \<and> jb_dedupe r = Some key
     \<and> jb_status r = JobFailed"

definition rearm :: "jsv \<Rightarrow> nat \<Rightarrow> int \<Rightarrow> job_row \<Rightarrow> job_row" where
  "rearm data attempts_limit run_at r = r\<lparr>jb_data := data, jb_status := JobPending, jb_attempts := 0, jb_max := attempts_limit,
     jb_run_at := run_at, jb_started := None, jb_completed := None, jb_error := None, jb_locked_by := None, jb_token := None,
     jb_lease := None\<rparr>"

text \<open>An update that leaves two rows with the same unique key fails.\<close>

definition update_jobs :: "(job_row \<Rightarrow> bool) \<Rightarrow> (job_row \<Rightarrow> job_row) \<Rightarrow> job_row list \<Rightarrow> job_row list" where
  "update_jobs p f rows = map (\<lambda>r. if p r then f r else r) rows"

definition keys_apart :: "job_row list \<Rightarrow> bool" where
  "keys_apart rows \<longleftrightarrow> sorted_wrt (\<lambda>a b. \<not> job_collides a b) rows"

datatype rearm_result = DeliveryActive | DeliveryRearmed

definition enqueueOrRearmFailed ::
    "string \<Rightarrow> string \<Rightarrow> jsv \<Rightarrow> enqueue_options \<Rightarrow> string \<Rightarrow> int \<Rightarrow> job_row list \<Rightarrow> queue_error + rearm_result \<times> job_row list" where
  "enqueueOrRearmFailed queue name data opts i now rows =
     (case trimmed_key (eo_dedupe opts) of
        None \<Rightarrow> Throw DedupeKeyRequired
      | Some key \<Rightarrow>
          (let rows1 = enqueueJob queue name data opts i now rows;
               p = rearmable (inferOrgId data (eo_org opts)) queue name key;
               rows2 = update_jobs p (rearm data (nat (positiveInteger (eo_max opts) 3)) (now + run_delay (eo_delay opts))) rows1
           in if \<not> keys_apart rows2 then Throw JobIndexViolation
              else Ok (if length (filter p rows1) = 1 then DeliveryRearmed else DeliveryActive, rows2)))"

definition ensureCronJob ::
    "string \<Rightarrow> string \<Rightarrow> string \<Rightarrow> jsv option \<Rightarrow> int option \<Rightarrow> string \<Rightarrow> int \<Rightarrow> job_row list \<Rightarrow> job_row list" where
  "ensureCronJob queue name cron data delay i now rows =
     insert_job (new_job i None queue name (case data of None \<Rightarrow> JObj [] | Some d \<Rightarrow> d) 2 (now + run_delay delay) (Some cron) None now) rows"

subsection \<open>Claims\<close>

record dequeue_options =
  do_worker :: string
  do_lease :: "rat option"
  do_org :: "string option"
  do_name :: "string option"
  do_match :: "(string \<times> string) option"

text \<open>\<open>text_of\<close> is the text the database gives for a member of a JSON value.\<close>

definition due :: "(jsv \<Rightarrow> string option) \<Rightarrow> string \<Rightarrow> dequeue_options \<Rightarrow> int \<Rightarrow> job_row \<Rightarrow> bool" where
  "due text_of queue opts now r \<longleftrightarrow> jb_status r = JobPending \<and> jb_queue r = queue \<and> jb_run_at r \<le> now
     \<and> (case do_org opts of None \<Rightarrow> True | Some org \<Rightarrow> jb_org r = Some org)
     \<and> (case do_name opts of None \<Rightarrow> True | Some n \<Rightarrow> jb_name r = n)
     \<and> (case do_match opts of None \<Rightarrow> True | Some (k, v) \<Rightarrow> text_of (js_prop_of (jb_data r) k) = Some v)"

definition claim_job :: "string \<Rightarrow> string \<Rightarrow> int \<Rightarrow> int \<Rightarrow> job_row \<Rightarrow> job_row" where
  "claim_job worker token lease_ms now r = r\<lparr>jb_status := JobRunning, jb_attempts := jb_attempts r + 1,
     jb_started := Some now, jb_completed := None, jb_error := None, jb_locked_by := Some worker, jb_token := Some token,
     jb_lease := Some (now + lease_ms)\<rparr>"

text \<open>\<open>locked\<close> are the rows that other transactions hold; \<open>SKIP LOCKED\<close> passes over them.\<close>

definition dequeueJob ::
    "(jsv \<Rightarrow> string option) \<Rightarrow> (job_row \<Rightarrow> bool) \<Rightarrow> string \<Rightarrow> dequeue_options \<Rightarrow> string \<Rightarrow> int \<Rightarrow> job_row list
      \<Rightarrow> job_row option \<times> job_row list" where
  "dequeueJob text_of locked queue opts token now rows =
     (case first_job (filter (\<lambda>r. due text_of queue opts now r \<and> \<not> locked r) rows) of
        None \<Rightarrow> (None, rows)
      | Some r \<Rightarrow>
          (let f = claim_job (do_worker opts) token (positiveInteger (do_lease opts) DEFAULT_LEASE_MS) now
           in (Some (f r), update_jobs (\<lambda>s. jb_id s = jb_id r) f rows)))"

definition owned :: "string \<Rightarrow> string \<Rightarrow> int \<Rightarrow> job_row \<Rightarrow> bool" where
  "owned i token now r \<longleftrightarrow> jb_id r = i \<and> jb_status r = JobRunning \<and> jb_token r = Some token
     \<and> (case jb_lease r of None \<Rightarrow> False | Some l \<Rightarrow> l > now)"

definition owned_update ::
    "string \<Rightarrow> string \<Rightarrow> int \<Rightarrow> (job_row \<Rightarrow> job_row) \<Rightarrow> job_row list \<Rightarrow> bool \<times> job_row list" where
  "owned_update i token now f rows = (list_ex (owned i token now) rows, update_jobs (owned i token now) f rows)"

definition renewJobLease :: "string \<Rightarrow> string \<Rightarrow> rat option \<Rightarrow> int \<Rightarrow> job_row list \<Rightarrow> bool \<times> job_row list" where
  "renewJobLease i token lease_ms now =
     owned_update i token now (\<lambda>r. r\<lparr>jb_lease := Some (now + positiveInteger lease_ms DEFAULT_LEASE_MS)\<rparr>)"

definition unlock :: "job_row \<Rightarrow> job_row" where
  "unlock r = r\<lparr>jb_locked_by := None, jb_token := None, jb_lease := None\<rparr>"

definition completeJob :: "string \<Rightarrow> string \<Rightarrow> int \<Rightarrow> job_row list \<Rightarrow> bool \<times> job_row list" where
  "completeJob i token now =
     owned_update i token now (\<lambda>r. (unlock r)\<lparr>jb_status := JobCompleted, jb_completed := Some now, jb_error := None\<rparr>)"

definition retry_delay :: "nat \<Rightarrow> int" where
  "retry_delay attempts = min (1000 * 2 ^ (attempts - 1)) 60000"

definition failed_row :: "bool \<Rightarrow> string \<Rightarrow> int \<Rightarrow> job_row \<Rightarrow> job_row" where
  "failed_row terminal message now r =
     (if terminal \<or> jb_attempts r \<ge> jb_max r
      then (unlock r)\<lparr>jb_status := JobFailed, jb_completed := Some now, jb_error := Some message\<rparr>
      else (unlock r)\<lparr>jb_status := JobPending, jb_run_at := now + retry_delay (jb_attempts r), jb_started := None,
             jb_completed := None, jb_error := Some message\<rparr>)"

definition failJob :: "string \<Rightarrow> string \<Rightarrow> string \<Rightarrow> bool \<Rightarrow> int \<Rightarrow> job_row list \<Rightarrow> bool \<times> job_row list" where
  "failJob i token message terminal now = owned_update i token now (failed_row terminal message now)"

definition deferJob :: "string \<Rightarrow> string \<Rightarrow> string \<Rightarrow> rat \<Rightarrow> int \<Rightarrow> job_row list \<Rightarrow> bool \<times> job_row list" where
  "deferJob i token message delay now =
     owned_update i token now (\<lambda>r. (unlock r)\<lparr>jb_status := JobPending, jb_attempts := jb_attempts r - 1,
       jb_run_at := now + max 1000 \<lfloor>delay\<rfloor>, jb_started := None, jb_completed := None, jb_error := Some message\<rparr>)"

subsection \<open>Maintenance\<close>

definition stale :: "int \<Rightarrow> job_row \<Rightarrow> bool" where
  "stale now r \<longleftrightarrow> jb_status r = JobRunning \<and> (case jb_lease r of None \<Rightarrow> True | Some l \<Rightarrow> l \<le> now)"

definition recovered_row :: "int \<Rightarrow> job_row \<Rightarrow> job_row" where
  "recovered_row now r =
     (let e = Some ''stale: worker lease expired before settlement'' in
      if jb_attempts r < jb_max r
      then (unlock r)\<lparr>jb_status := JobPending, jb_error := e, jb_run_at := now + 5000, jb_started := None, jb_completed := None\<rparr>
      else (unlock r)\<lparr>jb_status := JobFailed, jb_error := e, jb_completed := Some now\<rparr>)"

definition cleanupStaleJobs :: "int \<Rightarrow> job_row list \<Rightarrow> nat \<times> job_row list" where
  "cleanupStaleJobs now rows = (length (filter (stale now) rows), update_jobs (stale now) (recovered_row now) rows)"

text \<open>The cutoff is computed on the clock of the application.\<close>

definition finished_before :: "int \<Rightarrow> job_row \<Rightarrow> bool" where
  "finished_before cutoff r \<longleftrightarrow> (jb_status r = JobCompleted \<or> jb_status r = JobFailed)
     \<and> (case jb_completed r of None \<Rightarrow> False | Some c \<Rightarrow> c < cutoff)"

definition pruneFinishedJobs :: "rat option \<Rightarrow> int \<Rightarrow> job_row list \<Rightarrow> nat \<times> job_row list" where
  "pruneFinishedJobs retention app_now rows =
     (let cutoff = app_now - positiveInteger retention DEFAULT_RETENTION_MS
      in (length (filter (finished_before cutoff) rows), filter (\<lambda>r. \<not> finished_before cutoff r) rows))"

subsection \<open>Other writers of the table\<close>

text \<open>
  The scans keep their progress in the data of their own job, and bring a pending successor forward
  (app-automation-scan-progress.ts, app-resource-sync-scanner.ts).  \<open>same\<close> compares JSON values.
\<close>

definition saveJobData :: "string \<Rightarrow> string \<Rightarrow> jsv \<Rightarrow> int \<Rightarrow> job_row list \<Rightarrow> bool \<times> job_row list" where
  "saveJobData i token data now = owned_update i token now (\<lambda>r. r\<lparr>jb_data := data\<rparr>)"

definition hastenJobs :: "string \<Rightarrow> string \<Rightarrow> (jsv \<Rightarrow> bool) \<Rightarrow> int \<Rightarrow> job_row list \<Rightarrow> job_row list" where
  "hastenJobs name key same now = update_jobs
     (\<lambda>r. jb_name r = name \<and> jb_queue r = SCHEDULED_JOBS \<and> jb_cron r = Some key \<and> jb_status r = JobPending \<and> same (jb_data r))
     (\<lambda>r. r\<lparr>jb_run_at := min (jb_run_at r) now\<rparr>)"

text \<open>
  The outbox of mails ends or restarts its job without regard to who holds it (email-outbox-store.ts:
  cancel, reschedule, reconcileCopy).
\<close>

definition outbox_job :: "string \<Rightarrow> string \<Rightarrow> job_row \<Rightarrow> bool" where
  "outbox_job i org r \<longleftrightarrow> jb_id r = i \<and> jb_org r = Some org"

definition cancelOutboxJob :: "string \<Rightarrow> string \<Rightarrow> int \<Rightarrow> job_row list \<Rightarrow> job_row list" where
  "cancelOutboxJob i org now =
     update_jobs (outbox_job i org) (\<lambda>r. (unlock r)\<lparr>jb_status := JobCompleted, jb_completed := Some now\<rparr>)"

definition restarted_row :: "jsv option \<Rightarrow> int \<Rightarrow> job_row \<Rightarrow> job_row" where
  "restarted_row data due_at r = (unlock r)\<lparr>jb_status := JobPending, jb_data := (case data of None \<Rightarrow> jb_data r | Some d \<Rightarrow> d),
     jb_attempts := 0, jb_run_at := due_at, jb_completed := None, jb_error := None\<rparr>"

definition restartOutboxJob :: "string \<Rightarrow> string \<Rightarrow> jsv option \<Rightarrow> int \<Rightarrow> job_row list \<Rightarrow> queue_error + job_row list" where
  "restartOutboxJob i org data due_at rows =
     (let rows' = update_jobs (outbox_job i org) (restarted_row data due_at) rows
      in if keys_apart rows' then Ok rows' else Throw JobIndexViolation)"

end
