(* ===== verification/JobWorker.thy ===== *)
theory JobWorker
  imports JobQueue
begin

text \<open>
  The worker that delivers jobs (apps/api/src/workers/index.ts): the batches it claims, the settlement of
  a delivered job, and the next occurrence of a recurring one.  How a handler ends is an argument; what
  other workers do between two statements is \<open>between k\<close>.
\<close>

subsection \<open>Recurring jobs\<close>

definition CRON_DELAYS :: "(string \<times> int) list" where
  "CRON_DELAYS = [(''standup-generate'', 300000), (''nudge-check'', 3600000), (''meeting-prep-check'', 300000),
     (''people-graph'', 86400000), (''manager-pulse'', 86400000), (''burnout-detect'', 86400000),
     (''weekly-digest'', 604800000), (''wiki-lint'', 86400000), (''agent-daily-reset'', 86400000),
     (''agent-heartbeat'', 60000), (''heartbeat-native'', 300000), (''trigger-dispatch'', 60000), (''ics-sync'', 60000),
     (''chat-observation-backfill'', 300000), (''chat-knowledge-batch'', 1800000),
     (''app-integration-knowledge-repair'', 60000), (''attention-maintenance'', 900000), (''app-automation-scan'', 60000)]"

definition CRON_KEYS :: "(string \<times> string) list" where
  "CRON_KEYS = [(''standup-generate'', ''cron:standup''), (''nudge-check'', ''cron:nudge''),
     (''meeting-prep-check'', ''cron:meeting-prep''), (''people-graph'', ''cron:people-graph''),
     (''manager-pulse'', ''cron:manager-pulse''), (''burnout-detect'', ''cron:burnout-detect''),
     (''weekly-digest'', ''cron:weekly-digest''), (''wiki-lint'', ''cron:wiki-lint''),
     (''agent-daily-reset'', ''agent-daily-reset''), (''agent-heartbeat'', ''agent-heartbeat''),
     (''heartbeat-native'', ''cron:heartbeat-native''), (''trigger-dispatch'', ''cron:trigger-dispatch''),
     (''ics-sync'', ''cron:ics-sync''), (''chat-observation-backfill'', ''cron:chat-observation-backfill''),
     (''chat-knowledge-batch'', ''cron:chat-knowledge-batch''),
     (''app-integration-knowledge-repair'', ''cron:app-integration-knowledge-repair''),
     (''attention-maintenance'', ''cron:attention-maintenance''), (''app-automation-scan'', ''cron:app-automation-scan'')]"

definition AUTOMATION_SCAN :: string where "AUTOMATION_SCAN = ''app-automation-scan''"
definition AUTOMATION_SCAN_CRON :: string where "AUTOMATION_SCAN_CRON = ''cron:app-automation-scan''"

definition recurrence_of :: "bool \<Rightarrow> job_row \<Rightarrow> (string \<times> int) option" where
  "recurrence_of automations_enabled job =
     (if jb_name job = AUTOMATION_SCAN \<and> (\<not> automations_enabled \<or> jb_cron job = Some AUTOMATION_SCAN_CRON) then None
      else case jb_cron job of
          None \<Rightarrow> None
        | Some k \<Rightarrow> if k = [] then None
                    else map_option (\<lambda>d. (k, d)) (map_of CRON_DELAYS (jb_name job)))"

text \<open>The recurring jobs that the maintenance puts back when their chain has ended.\<close>

fun ensure_all :: "(string \<times> string) list \<Rightarrow> (nat \<Rightarrow> string) \<Rightarrow> int \<Rightarrow> job_row list \<Rightarrow> job_row list" where
  "ensure_all [] ids now rows = rows"
| "ensure_all ((name, key) # rest) ids now rows =
     ensure_all rest ids now (ensureCronJob SCHEDULED_JOBS name key (Some (JObj [])) (map_of CRON_DELAYS name) (ids (length rest)) now rows)"

definition reconcileRecurringJobs :: "(nat \<Rightarrow> string) \<Rightarrow> int \<Rightarrow> job_row list \<Rightarrow> job_row list" where
  "reconcileRecurringJobs ids now rows =
     ensure_all (filter (\<lambda>(name, _). name \<noteq> ''agent-heartbeat'' \<and> name \<noteq> AUTOMATION_SCAN) CRON_KEYS) ids now rows"

definition runStaleMaintenance :: "(nat \<Rightarrow> string) \<Rightarrow> (job_row list \<Rightarrow> job_row list) \<Rightarrow> int \<Rightarrow> int \<Rightarrow> job_row list \<Rightarrow> job_row list" where
  "runStaleMaintenance ids between now later rows =
     reconcileRecurringJobs ids later (between (snd (cleanupStaleJobs now rows)))"

text \<open>The recurring jobs that the server registers when it starts (job-scheduler.ts).\<close>

definition STARTUP_JOBS :: "(string \<times> string) list" where
  "STARTUP_JOBS = [(''standup-generate'', ''cron:standup''), (''nudge-check'', ''cron:nudge''),
     (''meeting-prep-check'', ''cron:meeting-prep''), (''ics-sync'', ''cron:ics-sync''),
     (''chat-observation-backfill'', ''cron:chat-observation-backfill''), (''chat-knowledge-batch'', ''cron:chat-knowledge-batch''),
     (''attention-maintenance'', ''cron:attention-maintenance''), (''people-graph'', ''cron:people-graph''),
     (''manager-pulse'', ''cron:manager-pulse''), (''burnout-detect'', ''cron:burnout-detect''), (''wiki-lint'', ''cron:wiki-lint''),
     (''weekly-digest'', ''cron:weekly-digest''), (''heartbeat-native'', ''cron:heartbeat-native''),
     (''agent-daily-reset'', ''agent-daily-reset''), (''trigger-dispatch'', ''cron:trigger-dispatch'')]"

fun register_jobs :: "(string \<times> string) list \<Rightarrow> (nat \<Rightarrow> string) \<Rightarrow> int \<Rightarrow> job_row list \<Rightarrow> job_row list" where
  "register_jobs [] ids now rows = rows"
| "register_jobs ((name, key) # rest) ids now rows =
     register_jobs rest ids now (ensureCronJob SCHEDULED_JOBS name key None None (ids (length rest)) now rows)"

definition initScheduler ::
    "bool \<Rightarrow> (job_row list \<Rightarrow> job_row list) \<Rightarrow> (nat \<Rightarrow> string) \<Rightarrow> int \<Rightarrow> job_row list \<Rightarrow> job_row list" where
  "initScheduler automations_enabled sync_scan ids now rows =
     sync_scan (register_jobs (STARTUP_JOBS @ (if automations_enabled then [(AUTOMATION_SCAN, AUTOMATION_SCAN_CRON)] else []))
       ids now rows)"

subsection \<open>A delivered job\<close>

text \<open>No handler, an end without an error, a pause, a timeout, any other error.\<close>

datatype handler_end = NoHandler | Worked | RetryLater string rat | TimedOut string | Threw string

definition unknown_job :: "string \<Rightarrow> job_row \<Rightarrow> string" where
  "unknown_job queue job = ''Unknown '' @ queue @ '' job: '' @ jb_name job"

definition lock_token :: "job_row \<Rightarrow> string" where
  "lock_token job = or_empty (jb_token job)"

definition settle_job :: "string \<Rightarrow> job_row \<Rightarrow> handler_end \<Rightarrow> int \<Rightarrow> job_row list \<Rightarrow> bool \<times> job_row list" where
  "settle_job queue job outcome now rows = (case outcome of
       NoHandler \<Rightarrow> failJob (jb_id job) (lock_token job) (unknown_job queue job) True now rows
     | Worked \<Rightarrow> completeJob (jb_id job) (lock_token job) now rows
     | RetryLater message delay \<Rightarrow> deferJob (jb_id job) (lock_token job) message delay now rows
     | TimedOut message \<Rightarrow> failJob (jb_id job) (lock_token job) message True now rows
     | Threw message \<Rightarrow> failJob (jb_id job) (lock_token job) message False now rows)"

text \<open>
  The \<open>finally\<close>: the successor of an automation scan that this worker has settled (\<open>scan_successor\<close>), of a
  synchronisation scan (\<open>sync_successor\<close>), and the next occurrence of a recurring job.  An error of these inserts is
  caught and logged: \<open>insert_fails\<close> for the last one, the successors include it.
\<close>

record worker_env =
  we_automations :: bool
  we_scan_successor :: "bool \<Rightarrow> job_row list \<Rightarrow> job_row list"
  we_sync_successor :: "job_row list \<Rightarrow> job_row list"
  we_between :: "nat \<Rightarrow> job_row list \<Rightarrow> job_row list"
  we_insert_fails :: bool

definition finish_delivery :: "worker_env \<Rightarrow> string \<Rightarrow> job_row \<Rightarrow> bool \<Rightarrow> bool \<Rightarrow> string \<Rightarrow> int \<Rightarrow> job_row list \<Rightarrow> job_row list" where
  "finish_delivery env queue job settled_owned succeeded i now rows =
     (let rows1 = (if jb_name job = AUTOMATION_SCAN \<and> jb_cron job = Some AUTOMATION_SCAN_CRON \<and> settled_owned
                   then we_scan_successor env succeeded rows else rows);
          rows2 = (if jb_name job = ''app-resource-sync-scan'' then we_sync_successor env rows1 else rows1)
      in case recurrence_of (we_automations env) job of
           None \<Rightarrow> rows2
         | Some (k, d) \<Rightarrow>
             (let rows3 = we_between env 1 rows2
              in if we_insert_fails env then rows3
                 else ensureCronJob queue (jb_name job) k (Some (JObj [])) (Some d) i now rows3))"

definition processDequeuedJob ::
    "worker_env \<Rightarrow> string \<Rightarrow> job_row \<Rightarrow> handler_end \<Rightarrow> string \<Rightarrow> int \<Rightarrow> int \<Rightarrow> job_row list \<Rightarrow> job_row list" where
  "processDequeuedJob env queue job outcome i now later rows =
     (case settle_job queue job outcome now (we_between env 0 rows) of (settled, rows1) \<Rightarrow>
        finish_delivery env queue job (settled \<and> (case outcome of RetryLater _ _ \<Rightarrow> False | _ \<Rightarrow> True))
          (settled \<and> outcome = Worked) i later rows1)"

text \<open>Jobs that project notifications are handled together, those of one organisation in a group.\<close>

fun settle_group :: "string \<Rightarrow> handler_end \<Rightarrow> int \<Rightarrow> job_row list \<Rightarrow> job_row list \<Rightarrow> job_row list" where
  "settle_group queue outcome now [] rows = rows"
| "settle_group queue outcome now (job # jobs) rows =
     settle_group queue outcome now jobs (snd (settle_job queue job
       (case outcome of RetryLater message _ \<Rightarrow> Threw message | e \<Rightarrow> e) now rows))"

definition processAttentionProjectionGroup ::
    "worker_env \<Rightarrow> string \<Rightarrow> job_row list \<Rightarrow> handler_end \<Rightarrow> int \<Rightarrow> job_row list \<Rightarrow> job_row list" where
  "processAttentionProjectionGroup env queue jobs outcome now rows = settle_group queue outcome now jobs (we_between env 0 rows)"

definition projection_key :: "job_row \<Rightarrow> string" where
  "projection_key job = (case js_prop_of (jb_data job) ''orgId'' of JStr s \<Rightarrow> s | _ \<Rightarrow> ''invalid:'' @ jb_id job)"

definition PROJECTION :: string where "PROJECTION = ''notification-attention-sync''"

text \<open>What a batch is split into: single jobs, and one group per organisation in order of appearance.\<close>

definition ordinary_jobs :: "job_row list \<Rightarrow> job_row list" where
  "ordinary_jobs jobs = filter (\<lambda>j. jb_name j \<noteq> PROJECTION) jobs"

definition projection_groups :: "job_row list \<Rightarrow> job_row list list" where
  "projection_groups jobs = (let ps = filter (\<lambda>j. jb_name j = PROJECTION) jobs
     in map (\<lambda>k. filter (\<lambda>j. projection_key j = k) ps) (js_uniq (map projection_key ps)))"

subsection \<open>Batches\<close>

text \<open>
  \<open>reserved\<close> counts the slots of the queue that are in use.  A round takes a slot before it asks for a
  job and gives it back when there is none or the claim fails.
\<close>

record poll_env =
  pe_text :: "jsv \<Rightarrow> string option"
  pe_locked :: "nat \<Rightarrow> job_row \<Rightarrow> bool"
  pe_token :: "nat \<Rightarrow> string"
  pe_clock :: "nat \<Rightarrow> int"
  pe_running :: "nat \<Rightarrow> bool"
  pe_fails :: "nat \<Rightarrow> bool"
  pe_between :: "nat \<Rightarrow> job_row list \<Rightarrow> job_row list"

fun claim_batch ::
    "poll_env \<Rightarrow> string \<Rightarrow> dequeue_options \<Rightarrow> nat \<Rightarrow> nat \<Rightarrow> nat \<Rightarrow> job_row list \<Rightarrow> job_row list \<times> nat \<times> bool \<times> job_row list" where
  "claim_batch env queue opts batch 0 reserved rows = ([], reserved, False, rows)"
| "claim_batch env queue opts batch (Suc n) reserved rows =
     (if \<not> pe_running env n \<or> reserved \<ge> batch then ([], reserved, False, rows)
      else let rows0 = pe_between env n rows
           in if pe_fails env n then ([], reserved, True, rows0)
              else (case dequeueJob (pe_text env) (pe_locked env n) queue opts (pe_token env n) (pe_clock env n) rows0 of
                  (None, rows1) \<Rightarrow> ([], reserved, False, rows1)
                | (Some j, rows1) \<Rightarrow>
                    (case claim_batch env queue opts batch n (reserved + 1) rows1 of
                       (js, reserved', failed, rows2) \<Rightarrow> (j # js, reserved', failed, rows2))))"

definition pollQueueBatch ::
    "poll_env \<Rightarrow> string \<Rightarrow> dequeue_options \<Rightarrow> nat \<Rightarrow> nat \<Rightarrow> job_row list \<Rightarrow> job_row list \<times> nat \<times> bool \<times> job_row list" where
  "pollQueueBatch env queue opts batch reserved rows = claim_batch env queue opts batch (batch - reserved) reserved rows"

definition releaseQueueSlots :: "nat \<Rightarrow> nat \<Rightarrow> nat" where
  "releaseQueueSlots reserved count = reserved - count"

end
