(* ===== verification/JobQueueProperties.thy ===== *)
theory JobQueueProperties
  imports JobWorker
begin

text \<open>
  What the queue promises: the histories of its statements, the invariant of the rows, who may settle a
  job, how often a job is delivered, which job is claimed, and what becomes of an abandoned one.
\<close>

subsection \<open>Histories\<close>

text \<open>
  What a statement did, as far as the promises speak of it: a row with a new identifier may have been added,
  rows were rearmed, a row was claimed with a token, settled or deferred by the owner of a token, or started
  again from outside.
\<close>

datatype queue_event = Added string | Rearmed string "string list" | Claimed string string | Settled string string
  | Deferred string string | Restarted string | Quiet

inductive queue_step :: "int \<Rightarrow> job_row list \<Rightarrow> queue_event \<Rightarrow> job_row list \<Rightarrow> bool" where
  enqueues: "queue_step now rows (Added i) (enqueueJob queue name data opts i now rows)"
| cron: "queue_step now rows (Added i) (ensureCronJob queue name key payload delay i now rows)"
| rearms: "enqueueOrRearmFailed queue name data opts i now rows = Inr (res, rows')
    \<Longrightarrow> trimmed_key (eo_dedupe opts) = Some key
    \<Longrightarrow> queue_step now rows (Rearmed i (map jb_id (filter (rearmable (inferOrgId data (eo_org opts)) queue name key)
          (enqueueJob queue name data opts i now rows)))) rows'"
| dequeues: "dequeueJob text_of locked queue dopts token now rows = (Some j, rows')
    \<Longrightarrow> queue_step now rows (Claimed (jb_id j) token) rows'"
| renews: "queue_step now rows Quiet (snd (renewJobLease i token lease now rows))"
| completes: "completeJob i token now rows = (True, rows') \<Longrightarrow> queue_step now rows (Settled i token) rows'"
| fails: "failJob i token message terminal now rows = (True, rows') \<Longrightarrow> queue_step now rows (Settled i token) rows'"
| defers: "deferJob i token message delay now rows = (True, rows') \<Longrightarrow> queue_step now rows (Deferred i token) rows'"
| cleans: "queue_step now rows Quiet (snd (cleanupStaleJobs now rows))"
| prunes: "queue_step now rows Quiet (snd (pruneFinishedJobs retention app_now rows))"
| inserts: "1 \<le> limit \<Longrightarrow> queue_step now rows (Added i) (insert_job (new_job i org queue name data limit run_at key dedupe now) rows)"
| saves: "queue_step now rows Quiet (snd (saveJobData i token data now rows))"
| hastens: "queue_step now rows Quiet (hastenJobs name key same now rows)"
| cancels: "queue_step now rows Quiet (cancelOutboxJob i org now rows)"
| restarts: "restartOutboxJob i org data due_at rows = Inr rows' \<Longrightarrow> queue_step now rows (Restarted i) rows'"

fun new_ids :: "queue_event list \<Rightarrow> string list" where
  "new_ids [] = []"
| "new_ids (Added i # es) = i # new_ids es"
| "new_ids (Rearmed i _ # es) = i # new_ids es"
| "new_ids (_ # es) = new_ids es"

fun claims :: "queue_event list \<Rightarrow> (string \<times> string) list" where
  "claims [] = []"
| "claims (Claimed i k # es) = (i, k) # claims es"
| "claims (_ # es) = claims es"

text \<open>The claims that their owner has ended, by a settlement or a pause.\<close>

fun ended :: "queue_event list \<Rightarrow> (string \<times> string) list" where
  "ended [] = []"
| "ended (Settled i k # es) = (i, k) # ended es"
| "ended (Deferred i k # es) = (i, k) # ended es"
| "ended (_ # es) = ended es"

definition deliveries_of :: "string \<Rightarrow> queue_event list \<Rightarrow> nat" where
  "deliveries_of i es = length (filter (\<lambda>e. \<exists>k. e = Claimed i k) es)"

definition pauses_of :: "string \<Rightarrow> queue_event list \<Rightarrow> nat" where
  "pauses_of i es = length (filter (\<lambda>e. \<exists>k. e = Deferred i k) es)"

definition rearmed_in :: "string \<Rightarrow> queue_event list \<Rightarrow> bool" where
  "rearmed_in i es \<longleftrightarrow> (\<exists>j is. Rearmed j is \<in> set es \<and> i \<in> set is) \<or> Restarted i \<in> set es"

text \<open>New rows and new claims carry identifiers and tokens that were never used before.\<close>

definition fresh_event :: "queue_event \<Rightarrow> queue_event list \<Rightarrow> bool" where
  "fresh_event e es \<longleftrightarrow> (case e of
       Added i \<Rightarrow> i \<notin> set (new_ids es) | Rearmed i _ \<Rightarrow> i \<notin> set (new_ids es)
     | Claimed _ k \<Rightarrow> k \<notin> snd ` set (claims es) | _ \<Rightarrow> True)"

inductive queue_history :: "int \<Rightarrow> queue_event list \<Rightarrow> job_row list \<Rightarrow> bool" where
  start: "queue_history t [] []"
| more: "queue_history t es rows \<Longrightarrow> t \<le> t' \<Longrightarrow> queue_step t' rows e rows' \<Longrightarrow> fresh_event e es
    \<Longrightarrow> queue_history t' (es @ [e]) rows'"

lemma new_ids_append [simp]: "new_ids (es @ es') = new_ids es @ new_ids es'"
  by (induction es rule: new_ids.induct) simp_all

lemma claims_append [simp]: "claims (es @ es') = claims es @ claims es'"
  by (induction es rule: claims.induct) simp_all

lemma ended_append [simp]: "ended (es @ es') = ended es @ ended es'"
  by (induction es rule: ended.induct) simp_all

lemma counts_append [simp]:
  "deliveries_of i (es @ [e]) = deliveries_of i es + (if \<exists>k. e = Claimed i k then 1 else 0)"
  "pauses_of i (es @ [e]) = pauses_of i es + (if \<exists>k. e = Deferred i k then 1 else 0)"
  "rearmed_in i (es @ [e]) \<longleftrightarrow> rearmed_in i es \<or> (\<exists>j is. e = Rearmed j is \<and> i \<in> set is) \<or> e = Restarted i"
  by (auto simp: deliveries_of_def pauses_of_def rearmed_in_def)

subsection \<open>The invariant of the rows\<close>

fun job_shape :: "job_row \<Rightarrow> bool" where
  "job_shape r = (case jb_status r of
       JobPending \<Rightarrow> jb_attempts r < jb_max r \<and> jb_token r = None \<and> jb_lease r = None
     | JobRunning \<Rightarrow> 1 \<le> jb_attempts r \<and> jb_attempts r \<le> jb_max r \<and> jb_token r \<noteq> None \<and> jb_lease r \<noteq> None
     | _ \<Rightarrow> 1 \<le> jb_max r \<and> jb_attempts r \<le> jb_max r \<and> jb_token r = None \<and> jb_lease r = None \<and> jb_completed r \<noteq> None)"

declare job_shape.simps [simp del]

text \<open>What every row keeps, given the history so far.\<close>

definition row_ok :: "queue_event list \<Rightarrow> job_row \<Rightarrow> bool" where
  "row_ok es r \<longleftrightarrow> job_shape r \<and> jb_id r \<in> set (new_ids es)
     \<and> (\<forall>k. jb_token r = Some k \<longrightarrow> (jb_id r, k) \<in> set (claims es) \<and> (jb_id r, k) \<notin> set (ended es))
     \<and> (\<not> rearmed_in (jb_id r) es \<longrightarrow> deliveries_of (jb_id r) es = jb_attempts r + pauses_of (jb_id r) es)"

definition queue_ok :: "queue_event list \<Rightarrow> job_row list \<Rightarrow> bool" where
  "queue_ok es rows \<longleftrightarrow> keys_apart rows \<and> (\<forall>r \<in> set rows. row_ok es r)
     \<and> distinct (map snd (claims es)) \<and> distinct (ended es) \<and> set (ended es) \<subseteq> set (claims es)"

lemma job_collides_sym: "job_collides a b = job_collides b a"
  by (auto simp: job_collides_def)

lemma positive_limit: "1 \<le> positiveInteger v 3"
  by (auto simp: positiveInteger_def split: option.split)

lemma positive_lease: "0 < positiveInteger v 60000"
  by (auto simp: positiveInteger_def split: option.split)

lemma rows_apart_id:
  assumes "keys_apart rows" "a \<in> set rows" "b \<in> set rows" "jb_id a = jb_id b"
  shows "a = b"
proof -
  have "distinct (map jb_id rows)"
    using assms(1) unfolding keys_apart_def by (induction rows) (auto simp: job_collides_def)
  then show ?thesis using assms(2-4) by (simp add: distinct_map inj_on_def)
qed

lemma apart_insert: "keys_apart rows \<Longrightarrow> keys_apart (insert_job r rows)"
  using job_collides_sym[of r] by (auto simp: insert_job_def keys_apart_def sorted_wrt_append list_ex_iff)

definition keeps_keys :: "job_row \<Rightarrow> job_row \<Rightarrow> bool" where
  "keeps_keys r s \<longleftrightarrow> jb_id s = jb_id r \<and> jb_dedupe s = jb_dedupe r \<and> jb_org s = jb_org r \<and> jb_cron s = jb_cron r
     \<and> (active_job s \<longrightarrow> active_job r)"

lemma keeps_keys_refl [simp]: "keeps_keys r r"
  by (simp add: keeps_keys_def)

lemma collides_weaker: "keeps_keys a a' \<Longrightarrow> keeps_keys b b' \<Longrightarrow> job_collides a' b' \<Longrightarrow> job_collides a b"
  by (simp add: job_collides_def keeps_keys_def) blast

lemma apart_update:
  assumes "keys_apart rows" "\<And>r. r \<in> set rows \<Longrightarrow> p r \<Longrightarrow> keeps_keys r (f r)"
  shows "keys_apart (update_jobs p f rows)"
proof -
  have keeps: "keeps_keys r (if p r then f r else r)" if "r \<in> set rows" for r using assms(2) that by simp
  show ?thesis unfolding update_jobs_def keys_apart_def sorted_wrt_map
  proof (rule sorted_wrt_mono_rel[OF _ assms(1)[unfolded keys_apart_def]])
    fix a b assume "a \<in> set rows" "b \<in> set rows" "\<not> job_collides a b"
    then show "\<not> job_collides (if p a then f a else a) (if p b then f b else b)"
      using collides_weaker[OF keeps keeps] by blast
  qed
qed

subsection \<open>Every statement keeps the invariant\<close>

definition touches :: "queue_event \<Rightarrow> string \<Rightarrow> bool" where
  "touches e i \<longleftrightarrow> (case e of Claimed j _ \<Rightarrow> j = i | Settled j _ \<Rightarrow> j = i | Deferred j _ \<Rightarrow> j = i
     | Rearmed _ is \<Rightarrow> i \<in> set is | Restarted j \<Rightarrow> j = i | _ \<Rightarrow> False)"

lemma untouched_row: "row_ok es r \<Longrightarrow> \<not> touches e (jb_id r) \<Longrightarrow> row_ok (es @ [e]) r"
  by (cases e) (auto simp: row_ok_def touches_def)

definition history_ok :: "queue_event list \<Rightarrow> bool" where
  "history_ok es \<longleftrightarrow> distinct (map snd (claims es)) \<and> distinct (ended es) \<and> set (ended es) \<subseteq> set (claims es)
     \<and> fst ` set (claims es) \<subseteq> set (new_ids es)"

lemma pause_is_ended: "Deferred i k \<in> set es \<Longrightarrow> (i, k) \<in> set (ended es)"
  by (induction es rule: ended.induct) auto

lemma claim_is_listed: "Claimed i k \<in> set es \<Longrightarrow> (i, k) \<in> set (claims es)"
  by (induction es rule: claims.induct) auto

lemma unknown_id_counts:
  assumes "history_ok es" "i \<notin> set (new_ids es)"
  shows "deliveries_of i es = 0" "pauses_of i es = 0"
proof -
  have "(i, k) \<notin> set (claims es)" "(i, k) \<notin> set (ended es)" for k using assms by (force simp: history_ok_def)+
  then show "deliveries_of i es = 0" "pauses_of i es = 0"
    using pause_is_ended claim_is_listed by (fastforce simp: deliveries_of_def pauses_of_def filter_empty_conv)+
qed

lemma new_row_ok:
  assumes "history_ok es" "i \<notin> set (new_ids es)" "1 \<le> n"
  shows "row_ok (es @ [Added i]) (new_job i org queue name data n run_at cron dedupe now)"
  using unknown_id_counts[OF assms(1,2)] assms(3) by (simp add: row_ok_def new_job_def job_shape.simps)

lemma insert_rows_ok:
  assumes "\<forall>r \<in> set rows. row_ok es r" "row_ok (es @ [Added i]) r"
  shows "\<forall>s \<in> set (insert_job r rows). row_ok (es @ [Added i]) s"
  using assms untouched_row[of es _ "Added i"] by (auto simp: insert_job_def touches_def)

lemma owned_update_ok:
  assumes rows: "keys_apart rows" "\<forall>r \<in> set rows. row_ok es r"
    and fin: "owned_update i token now f rows = (True, rows')" and e: "e = Settled i token \<or> e = Deferred i token"
    and f: "\<And>r. r \<in> set rows \<Longrightarrow> owned i token now r \<Longrightarrow> row_ok es r \<Longrightarrow> keeps_keys r (f r) \<and> row_ok (es @ [e]) (f r)"
  shows "keys_apart rows' \<and> (\<forall>r \<in> set rows'. row_ok (es @ [e]) r) \<and> (i, token) \<in> set (claims es) \<and> (i, token) \<notin> set (ended es)"
proof -
  obtain r where r: "r \<in> set rows" "owned i token now r" using fin by (auto simp: owned_update_def list_ex_iff)
  have rows': "rows' = update_jobs (owned i token now) f rows" using fin by (simp add: owned_update_def)
  have "keys_apart rows'" unfolding rows' using rows f by (intro apart_update) auto
  moreover have "row_ok (es @ [e]) s" if "s \<in> set rows'" for s
  proof -
    from that obtain q where q: "q \<in> set rows" "s = (if owned i token now q then f q else q)"
      by (auto simp: rows' update_jobs_def)
    show ?thesis
    proof (cases "owned i token now q")
      case True
      then show ?thesis using q f rows(2) by simp
    next
      case False
      then have "jb_id q \<noteq> i" using rows_apart_id[OF rows(1) q(1) r(1)] r(2) by (auto simp: owned_def)
      then show ?thesis using q False rows(2) e untouched_row[of es q e] by (auto simp: touches_def)
    qed
  qed
  moreover have "(i, token) \<in> set (claims es)" "(i, token) \<notin> set (ended es)"
    using r rows(2) by (auto simp: row_ok_def owned_def)
  ultimately show ?thesis by blast
qed

lemma insert_step_ok:
  assumes "keys_apart rows" "\<forall>r \<in> set rows. row_ok es r" "history_ok es" "i \<notin> set (new_ids es)" "1 \<le> n"
  shows "keys_apart (insert_job (new_job i org queue name data n run_at cron dedupe now) rows)
    \<and> (\<forall>r \<in> set (insert_job (new_job i org queue name data n run_at cron dedupe now) rows). row_ok (es @ [Added i]) r)"
  using apart_insert[OF assms(1)] insert_rows_ok[OF assms(2) new_row_ok[OF assms(3-5)]] by simp

lemma limit_positive: "1 \<le> nat (positiveInteger v 3)"
  using positive_limit[of v] by simp

lemma keeps_unlock: "keeps_keys r s \<Longrightarrow> keeps_keys r (unlock s)"
  by (simp add: keeps_keys_def unlock_def active_job_def)

lemma owned_shape:
  assumes "row_ok es r" "owned i token now r"
  shows "1 \<le> jb_attempts r" "jb_attempts r \<le> jb_max r" "jb_id r = i" "active_job r"
  using assms by (auto simp: row_ok_def job_shape.simps owned_def active_job_def)

lemma settled_row_ok:
  assumes "row_ok es r" "owned i token now r"
  shows "row_ok (es @ [Settled i token]) (failed_row terminal message now r)"
    and "row_ok (es @ [Settled i token]) ((unlock r)\<lparr>jb_status := JobCompleted, jb_completed := Some now, jb_error := None\<rparr>)"
    and "row_ok (es @ [Deferred i token]) ((unlock r)\<lparr>jb_status := JobPending, jb_attempts := jb_attempts r - 1,
       jb_run_at := later, jb_started := None, jb_completed := None, jb_error := Some message\<rparr>)"
  using assms owned_shape[OF assms] by (auto simp: row_ok_def job_shape.simps failed_row_def unlock_def)

lemma keeps_settled: "active_job r \<Longrightarrow> keeps_keys r (failed_row terminal message now r)"
  by (simp add: keeps_keys_def failed_row_def unlock_def)

lemma quiet_update_ok:
  assumes "keys_apart rows" "\<forall>r \<in> set rows. row_ok es r"
    and "\<And>r. r \<in> set rows \<Longrightarrow> p r \<Longrightarrow> row_ok es r \<Longrightarrow> keeps_keys r (f r) \<and> row_ok es (f r)"
  shows "keys_apart (update_jobs p f rows) \<and> (\<forall>r \<in> set (update_jobs p f rows). row_ok (es @ [Quiet]) r)"
proof -
  have "keys_apart (update_jobs p f rows)" using assms by (intro apart_update) auto
  moreover have "row_ok (es @ [Quiet]) r" if "r \<in> set (update_jobs p f rows)" for r
    using that assms(2,3) by (intro untouched_row) (auto simp: update_jobs_def touches_def)
  ultimately show ?thesis by blast
qed

lemma recovered_row_ok: "row_ok es r \<Longrightarrow> stale now r \<Longrightarrow> keeps_keys r (recovered_row now r) \<and> row_ok es (recovered_row now r)"
  by (auto simp: row_ok_def job_shape.simps recovered_row_def stale_def unlock_def keeps_keys_def active_job_def Let_def)

lemma renewed_row_ok: "row_ok es r \<Longrightarrow> owned i token now r \<Longrightarrow> keeps_keys r (r\<lparr>jb_lease := Some l\<rparr>) \<and> row_ok es (r\<lparr>jb_lease := Some l\<rparr>)"
  by (auto simp: row_ok_def job_shape.simps keeps_keys_def active_job_def owned_def)

lemma first_job_in: "first_job rs = Some r \<Longrightarrow> r \<in> set rs"
  by (induction rs arbitrary: r) (auto split: option.split_asm if_split_asm)

lemma claimed_row_ok:
  assumes "row_ok es r" "jb_status r = JobPending" "token \<notin> snd ` set (claims es)" "history_ok es"
  shows "row_ok (es @ [Claimed (jb_id r) token]) (claim_job worker token lease now r)"
proof -
  have "(jb_id r, token) \<notin> set (ended es)" using assms(3,4) by (force simp: history_ok_def)
  then show ?thesis using assms(1,2) by (simp add: row_ok_def job_shape.simps claim_job_def)
qed

lemma dequeue_step_ok:
  assumes rows: "keys_apart rows" "\<forall>r \<in> set rows. row_ok es r" "history_ok es"
    and deq: "dequeueJob text_of locked queue dopts token now rows = (Some j, rows')" and new: "token \<notin> snd ` set (claims es)"
  shows "keys_apart rows' \<and> (\<forall>r \<in> set rows'. row_ok (es @ [Claimed (jb_id j) token]) r)"
proof -
  let ?lease = "positiveInteger (do_lease dopts) DEFAULT_LEASE_MS"
  obtain r where r: "first_job (filter (\<lambda>r. due text_of queue dopts now r \<and> \<not> locked r) rows) = Some r"
    and j: "j = claim_job (do_worker dopts) token ?lease now r"
    and rows': "rows' = update_jobs (\<lambda>s. jb_id s = jb_id r) (claim_job (do_worker dopts) token ?lease now) rows"
    using deq by (auto simp: dequeueJob_def Let_def split: option.split_asm)
  have mem: "r \<in> set rows" "due text_of queue dopts now r" using first_job_in[OF r] by auto
  have pending: "jb_status r = JobPending" using mem(2) by (simp add: due_def)
  have only: "s = r" if "s \<in> set rows" "jb_id s = jb_id r" for s using rows_apart_id[OF rows(1) that(1) mem(1) that(2)] .
  have "keys_apart rows'" unfolding rows'
    by (rule apart_update[OF rows(1)]) (use only pending in \<open>auto simp: keeps_keys_def claim_job_def active_job_def\<close>)
  moreover have "row_ok (es @ [Claimed (jb_id j) token]) s" if "s \<in> set rows'" for s
  proof -
    from that obtain q where q: "q \<in> set rows" "s = (if jb_id q = jb_id r then claim_job (do_worker dopts) token ?lease now q else q)"
      by (auto simp: rows' update_jobs_def)
    have same: "jb_id j = jb_id r" by (simp add: j claim_job_def)
    show ?thesis
    proof (cases "jb_id q = jb_id r")
      case True
      then show ?thesis using only[OF q(1) True] q(2) same claimed_row_ok rows(2,3) pending new mem(1) by simp
    next
      case False
      then show ?thesis using q rows(2) same untouched_row[of es q "Claimed (jb_id j) token"] by (simp add: touches_def)
    qed
  qed
  ultimately show ?thesis by blast
qed

lemma rearm_step_ok:
  assumes rows: "keys_apart rows" "\<forall>r \<in> set rows. row_ok es r" "history_ok es" "i \<notin> set (new_ids es)"
    and re: "enqueueOrRearmFailed queue name data opts i now rows = Inr (res, rows')" "trimmed_key (eo_dedupe opts) = Some key"
    and p: "p = rearmable (inferOrgId data (eo_org opts)) queue name key"
  shows "keys_apart rows' \<and> (\<forall>r \<in> set rows'. row_ok (es @ [Rearmed i (map jb_id (filter p (enqueueJob queue name data opts i now rows)))]) r)"
proof -
  let ?rows = "enqueueJob queue name data opts i now rows"
  let ?e = "Rearmed i (map jb_id (filter p ?rows))"
  define f where "f = rearm data (nat (positiveInteger (eo_max opts) 3)) (now + run_delay (eo_delay opts))"
  have ok: "keys_apart ?rows" "\<forall>r \<in> set ?rows. row_ok (es @ [Added i]) r"
    using insert_step_ok[OF rows limit_positive] unfolding enqueueJob_def by blast+
  have rows': "rows' = update_jobs p f ?rows" "keys_apart rows'"
    using re p by (auto simp: enqueueOrRearmFailed_def Let_def f_def split: if_split_asm)
  have as_added: "row_ok (es @ [?e]) r" if "row_ok (es @ [Added i]) r" "jb_id r \<notin> set (map jb_id (filter p ?rows))" for r
    using that by (auto simp: row_ok_def)
  have "row_ok (es @ [?e]) s" if "s \<in> set rows'" for s
  proof -
    from that obtain q where q: "q \<in> set ?rows" "s = (if p q then f q else q)" by (auto simp: rows'(1) update_jobs_def)
    show ?thesis
    proof (cases "p q")
      case True
      then have "jb_id q \<in> set (map jb_id (filter p ?rows))" using q(1) by auto
      moreover have "jb_id q \<in> set (new_ids es) \<or> jb_id q = i" using ok(2) q(1) by (auto simp: row_ok_def)
      ultimately show ?thesis using True q(2) limit_positive[of "eo_max opts"]
        by (auto simp: row_ok_def f_def rearm_def job_shape.simps)
    next
      case False
      then have "jb_id q \<notin> set (map jb_id (filter p ?rows))" using rows_apart_id[OF ok(1) q(1)] by auto
      then show ?thesis using as_added ok(2) q False by simp
    qed
  qed
  then show ?thesis using rows'(2) by blast
qed

subsection \<open>The invariant of a history\<close>

lemma pruned_ok:
  assumes "keys_apart rows" "\<forall>r \<in> set rows. row_ok es r"
  shows "keys_apart (filter q rows) \<and> (\<forall>r \<in> set (filter q rows). row_ok (es @ [Quiet]) r)"
  using assms untouched_row[of es _ Quiet] by (auto simp: keys_apart_def sorted_wrt_filter touches_def)

lemma settled_keeps:
  "active_job r \<Longrightarrow> keeps_keys r ((unlock r)\<lparr>jb_status := JobCompleted, jb_completed := Some now, jb_error := None\<rparr>)"
  "active_job r \<Longrightarrow> keeps_keys r ((unlock r)\<lparr>jb_status := JobPending, jb_attempts := n, jb_run_at := t, jb_started := None,
     jb_completed := None, jb_error := Some message\<rparr>)"
  by (simp_all add: keeps_keys_def unlock_def)

lemma complete_step_ok:
  assumes "keys_apart rows" "\<forall>r \<in> set rows. row_ok es r" "completeJob i token now rows = (True, rows')"
  shows "keys_apart rows' \<and> (\<forall>r \<in> set rows'. row_ok (es @ [Settled i token]) r) \<and> (i, token) \<in> set (claims es) \<and> (i, token) \<notin> set (ended es)"
  by (rule owned_update_ok[OF assms(1,2) assms(3)[unfolded completeJob_def]])
    (auto intro: settled_keeps settled_row_ok owned_shape)

lemma fail_step_ok:
  assumes "keys_apart rows" "\<forall>r \<in> set rows. row_ok es r" "failJob i token message terminal now rows = (True, rows')"
  shows "keys_apart rows' \<and> (\<forall>r \<in> set rows'. row_ok (es @ [Settled i token]) r) \<and> (i, token) \<in> set (claims es) \<and> (i, token) \<notin> set (ended es)"
  by (rule owned_update_ok[OF assms(1,2) assms(3)[unfolded failJob_def]])
    (auto intro: keeps_settled settled_row_ok owned_shape)

lemma defer_step_ok:
  assumes "keys_apart rows" "\<forall>r \<in> set rows. row_ok es r" "deferJob i token message delay now rows = (True, rows')"
  shows "keys_apart rows' \<and> (\<forall>r \<in> set rows'. row_ok (es @ [Deferred i token]) r) \<and> (i, token) \<in> set (claims es) \<and> (i, token) \<notin> set (ended es)"
proof (rule owned_update_ok[OF assms(1,2) assms(3)[unfolded deferJob_def]])
  fix r assume "owned i token now r" "row_ok es r"
  then show "keeps_keys r ((unlock r)\<lparr>jb_status := JobPending, jb_attempts := jb_attempts r - 1, jb_run_at := now + max 1000 \<lfloor>delay\<rfloor>,
        jb_started := None, jb_completed := None, jb_error := Some message\<rparr>)
    \<and> row_ok (es @ [Deferred i token]) ((unlock r)\<lparr>jb_status := JobPending, jb_attempts := jb_attempts r - 1,
        jb_run_at := now + max 1000 \<lfloor>delay\<rfloor>, jb_started := None, jb_completed := None, jb_error := Some message\<rparr>)"
    using settled_keeps(2) settled_row_ok(3) owned_shape(4) by blast
qed simp

lemma dequeued_id: "dequeueJob text_of locked queue dopts token now rows = (Some j, rows') \<Longrightarrow> jb_id j \<in> jb_id ` set rows"
  by (auto simp: dequeueJob_def Let_def claim_job_def split: option.split_asm dest!: first_job_in)

lemma history_ok_settled:
  assumes "history_ok es" "(i, k) \<in> set (claims es)" "(i, k) \<notin> set (ended es)"
  shows "history_ok (es @ [Settled i k])" "history_ok (es @ [Deferred i k])"
  using assms by (auto simp: history_ok_def)

lemma history_ok_quiet: "history_ok es \<Longrightarrow> history_ok (es @ [Quiet])" "history_ok es \<Longrightarrow> history_ok (es @ [Restarted i])"
  by (simp_all add: history_ok_def)

lemma cancelled_row_ok:
  "row_ok es r \<Longrightarrow> row_ok es ((unlock r)\<lparr>jb_status := JobCompleted, jb_completed := Some now\<rparr>)"
  by (cases "jb_status r") (auto simp: row_ok_def job_shape.simps unlock_def)

lemma quiet_fields [simp]:
  "row_ok es (r\<lparr>jb_data := d\<rparr>) = row_ok es r" "row_ok es (r\<lparr>jb_run_at := t\<rparr>) = row_ok es r"
  "keeps_keys r (r\<lparr>jb_data := d\<rparr>)" "keeps_keys r (r\<lparr>jb_run_at := t\<rparr>)"
  by (cases "jb_status r"; simp add: row_ok_def job_shape.simps keeps_keys_def active_job_def)+

lemma restarted_row_ok:
  assumes "row_ok es r"
  shows "row_ok (es @ [Restarted (jb_id r)]) (restarted_row data due_at r)" "row_ok (es @ [Restarted (jb_id r)]) r"
  using assms by (cases "jb_status r"; auto simp: row_ok_def job_shape.simps restarted_row_def unlock_def)+

lemma restart_step_ok:
  assumes "\<forall>r \<in> set rows. row_ok es r" "restartOutboxJob i org data due_at rows = Inr rows'"
  shows "keys_apart rows' \<and> (\<forall>r \<in> set rows'. row_ok (es @ [Restarted i]) r)"
proof -
  have rows': "rows' = update_jobs (outbox_job i org) (restarted_row data due_at) rows" "keys_apart rows'"
    using assms(2) by (auto simp: restartOutboxJob_def Let_def split: if_split_asm)
  have "row_ok (es @ [Restarted i]) (if outbox_job i org r then restarted_row data due_at r else r)" if "r \<in> set rows" for r
    using that assms(1) restarted_row_ok(1)[of es r data due_at] restarted_row_ok(2)[of es r] untouched_row[of es r "Restarted i"]
    by (cases "jb_id r = i") (auto simp: outbox_job_def touches_def)
  then show ?thesis using rows'(2) unfolding rows'(1) update_jobs_def by (metis (no_types, lifting) imageE list.set_map)
qed

lemma history_ok_new: "history_ok es \<Longrightarrow> history_ok (es @ [Added i])" "history_ok es \<Longrightarrow> history_ok (es @ [Rearmed i is])"
  by (auto simp: history_ok_def)

lemma history_ok_claimed:
  "history_ok es \<Longrightarrow> k \<notin> snd ` set (claims es) \<Longrightarrow> i \<in> set (new_ids es) \<Longrightarrow> history_ok (es @ [Claimed i k])"
  by (auto simp: history_ok_def)

definition ledger_ok :: "queue_event list \<Rightarrow> job_row list \<Rightarrow> bool" where
  "ledger_ok es rows \<longleftrightarrow> keys_apart rows \<and> (\<forall>r \<in> set rows. row_ok es r) \<and> history_ok es"

lemma step_ok:
  assumes "queue_step now rows e rows'" "ledger_ok es rows" "fresh_event e es"
  shows "ledger_ok (es @ [e]) rows'"
  using assms
proof (induction rule: queue_step.induct)
  case (enqueues now rows i queue name data opts)
  then show ?case using insert_step_ok[OF _ _ _ _ limit_positive, of rows es i] history_ok_new(1)[of es i]
    unfolding enqueueJob_def ledger_ok_def fresh_event_def by auto
next
  case (cron now rows i queue name key payload delay)
  then show ?case using insert_step_ok[of rows es i 2] history_ok_new(1)[of es i]
    unfolding ensureCronJob_def ledger_ok_def fresh_event_def by auto
next
  case (rearms queue name data opts i now rows res rows' key)
  then show ?case using rearm_step_ok[of rows es i queue name data opts now res rows' key] history_ok_new(2)[of es i]
    unfolding ledger_ok_def fresh_event_def by auto
next
  case (dequeues text_of locked queue dopts token now rows j rows')
  have "jb_id j \<in> set (new_ids es)" using dequeued_id[OF dequeues(1)] dequeues(2) by (auto simp: ledger_ok_def row_ok_def)
  then show ?case using dequeues dequeue_step_ok[of rows es text_of locked queue dopts token now j rows'] history_ok_claimed[of es token "jb_id j"]
    unfolding ledger_ok_def fresh_event_def by auto
next
  case (renews now rows i token lease)
  let ?f = "\<lambda>r. r\<lparr>jb_lease := Some (now + positiveInteger lease DEFAULT_LEASE_MS)\<rparr>"
  have "keys_apart (update_jobs (owned i token now) ?f rows) \<and> (\<forall>r \<in> set (update_jobs (owned i token now) ?f rows). row_ok (es @ [Quiet]) r)"
    by (rule quiet_update_ok) (use renews renewed_row_ok in \<open>auto simp: ledger_ok_def\<close>)
  then show ?case using renews history_ok_quiet unfolding renewJobLease_def owned_update_def ledger_ok_def by simp
next
  case (completes i token now rows rows')
  then show ?case using complete_step_ok[of rows es i token now rows'] history_ok_settled(1) unfolding ledger_ok_def by blast
next
  case (fails i token message terminal now rows rows')
  then show ?case using fail_step_ok[of rows es i token message terminal now rows'] history_ok_settled(1) unfolding ledger_ok_def by blast
next
  case (defers i token message delay now rows rows')
  then show ?case using defer_step_ok[of rows es i token message delay now rows'] history_ok_settled(2) unfolding ledger_ok_def by blast
next
  case (cleans now rows)
  then show ?case unfolding cleanupStaleJobs_def ledger_ok_def
    using quiet_update_ok[of rows es "stale now" "recovered_row now"] recovered_row_ok[of es _ now] history_ok_quiet[of es] by simp
next
  case (prunes now rows retention app_now)
  then show ?case unfolding pruneFinishedJobs_def Let_def ledger_ok_def
    using pruned_ok[of rows es] history_ok_quiet[of es] by auto
next
  case (inserts limit now rows i org queue name data run_at key dedupe)
  then show ?case using insert_step_ok[of rows es i limit] history_ok_new(1)[of es i]
    unfolding ledger_ok_def fresh_event_def by auto
next
  case (saves now rows i token data)
  have "keys_apart (update_jobs (owned i token now) (\<lambda>r. r\<lparr>jb_data := data\<rparr>) rows)
      \<and> (\<forall>r \<in> set (update_jobs (owned i token now) (\<lambda>r. r\<lparr>jb_data := data\<rparr>) rows). row_ok (es @ [Quiet]) r)"
    by (rule quiet_update_ok)
      (use saves in \<open>simp_all add: ledger_ok_def\<close>)
  then show ?case using saves history_ok_quiet(1) unfolding saveJobData_def owned_update_def ledger_ok_def by simp
next
  case (hastens now rows name key same)
  have "keys_apart (hastenJobs name key same now rows) \<and> (\<forall>r \<in> set (hastenJobs name key same now rows). row_ok (es @ [Quiet]) r)"
    unfolding hastenJobs_def by (rule quiet_update_ok)
      (use hastens in \<open>simp_all add: ledger_ok_def\<close>)
  then show ?case using hastens history_ok_quiet(1) unfolding ledger_ok_def by simp
next
  case (cancels now rows i org)
  have "keys_apart (cancelOutboxJob i org now rows) \<and> (\<forall>r \<in> set (cancelOutboxJob i org now rows). row_ok (es @ [Quiet]) r)"
    unfolding cancelOutboxJob_def by (rule quiet_update_ok)
      (use cancels cancelled_row_ok in \<open>auto simp: ledger_ok_def keeps_keys_def active_job_def unlock_def\<close>)
  then show ?case using cancels history_ok_quiet(1) unfolding ledger_ok_def by simp
next
  case (restarts i org data due_at rows rows' now)
  then show ?case using restart_step_ok[of rows es i org data due_at rows'] history_ok_quiet(2)[of es i] unfolding ledger_ok_def by blast
qed

lemma history_ledger: "queue_history t es rows \<Longrightarrow> ledger_ok es rows"
proof (induction rule: queue_history.induct)
  case (start t)
  then show ?case by (simp add: ledger_ok_def keys_apart_def history_ok_def)
qed (rule step_ok)

text \<open>C27.
  A claim is ended at most once, and only by its owner.  In every history of the queue, with any number
  of workers and any interleaving of their statements, each claim has a token of its own, every completion, failure
  or pause that reports success belongs to a claim that was made and not ended before, and a worker
  that repeats one of them, renews its lease or comes back after its claim was ended changes nothing.\<close>

theorem claim_is_ended_once:
  assumes "queue_history t es rows"
  shows "distinct (map snd (claims es)) \<and> distinct (ended es) \<and> set (ended es) \<subseteq> set (claims es)
    \<and> ((i, k) \<in> set (ended es) \<longrightarrow> completeJob i k now rows = (False, rows) \<and> failJob i k message terminal now rows = (False, rows)
        \<and> deferJob i k message delay now rows = (False, rows) \<and> renewJobLease i k lease now rows = (False, rows))"
proof -
  have ok: "ledger_ok es rows" using history_ledger[OF assms] .
  have "owned_update i k now f rows = (False, rows)" if "(i, k) \<in> set (ended es)" for f
  proof -
    have "\<not> owned i k now r" if "r \<in> set rows" for r
      using ok \<open>(i, k) \<in> set (ended es)\<close> that by (auto simp: ledger_ok_def row_ok_def owned_def)
    then show ?thesis by (auto simp: owned_update_def list_ex_iff update_jobs_def intro!: map_idI)
  qed
  then show ?thesis using ok
    by (auto simp: ledger_ok_def history_ok_def completeJob_def failJob_def deferJob_def renewJobLease_def)
qed

text \<open>C28.
  No job is delivered more often than its attempts allow.  In every history the rows have distinct
  identifiers, one row per dedupe key and organisation and at most one active row per recurring job; a
  pending job has an attempt left and no owner, a running one a token and a lease, a finished one its
  time of completion; and a job that was neither rearmed nor restarted by the mail outbox has been claimed at
  most as often as its limit of attempts plus the pauses its handlers asked for.\<close>

theorem deliveries_stay_within_attempts:
  assumes "queue_history t es rows" "r \<in> set rows"
  shows "job_shape r \<and> (\<not> rearmed_in (jb_id r) es \<longrightarrow> deliveries_of (jb_id r) es \<le> jb_max r + pauses_of (jb_id r) es)
    \<and> (\<forall>s \<in> set rows. job_collides r s \<longrightarrow> s = r)"
proof -
  have ok: "ledger_ok es rows" using history_ledger[OF assms(1)] .
  have row: "row_ok es r" using ok assms(2) by (simp add: ledger_ok_def)
  have "jb_attempts r \<le> jb_max r" using row by (cases "jb_status r") (auto simp: row_ok_def job_shape.simps)
  moreover have "s = r" if "s \<in> set rows" "job_collides r s" for s
  proof -
    obtain i j where ij: "i < length rows" "j < length rows" "r = rows ! i" "s = rows ! j" using assms(2) \<open>s \<in> set rows\<close>
      by (auto simp: in_set_conv_nth)
    have "\<not> (i < j \<or> j < i)" using ok that(2) ij job_collides_sym[of r s]
      by (auto simp: ledger_ok_def keys_apart_def sorted_wrt_iff_nth_less)
    then have "i = j" by linarith
    then show ?thesis using ij by simp
  qed
  ultimately show ?thesis using row by (auto simp: row_ok_def)
qed

subsection \<open>The order of claims\<close>

lemma claimed_before_asym: "claimed_before a b \<Longrightarrow> \<not> claimed_before b a"
  by (auto simp: claimed_before_def Let_def)

lemma claimed_before_negtrans: "\<not> claimed_before a b \<Longrightarrow> \<not> claimed_before b c \<Longrightarrow> \<not> claimed_before a c"
  by (auto simp: claimed_before_def Let_def)

lemma first_job_Nil: "first_job rs = None \<longleftrightarrow> rs = []"
  by (cases rs) (auto split: option.split)

lemma first_job_least: "first_job rs = Some r \<Longrightarrow> s \<in> set rs \<Longrightarrow> \<not> claimed_before s r"
proof (induction rs arbitrary: r s)
  case (Cons a rs)
  have irrefl: "\<not> claimed_before t t" for t using claimed_before_asym by blast
  show ?case
  proof (cases "first_job rs")
    case None
    then have "rs = []" by (simp add: first_job_Nil)
    then show ?thesis using Cons.prems irrefl by simp
  next
    case (Some x)
    have least: "\<not> claimed_before t x" if "t \<in> set rs" for t using Cons.IH[OF Some that] .
    show ?thesis
    proof (cases "claimed_before x a")
      case True
      then have "r = x" using Some Cons.prems(1) by simp
      then show ?thesis using Cons.prems(2) least claimed_before_asym[OF True] by auto
    next
      case False
      then have "r = a" using Some Cons.prems(1) by simp
      then show ?thesis using Cons.prems(2) claimed_before_negtrans[OF least False, of s] irrefl by auto
    qed
  qed
qed simp

lemma first_job_Some: "rs \<noteq> [] \<Longrightarrow> \<exists>r. first_job rs = Some r"
  using first_job_Nil[of rs] by auto

lemma first_job_is:
  assumes "a \<in> set rs" "\<And>s. s \<in> set rs \<Longrightarrow> s = a \<or> claimed_before a s"
  shows "first_job rs = Some a"
proof -
  have "rs \<noteq> []" using assms(1) by auto
  then obtain r where r: "first_job rs = Some r" using first_job_Some by blast
  then have "r = a" using assms(2)[OF first_job_in[OF r]] first_job_least[OF r assms(1)] by blast
  then show ?thesis using r by simp
qed

text \<open>C29.
  A job whose worker has died is delivered again.  When a running job's lease has passed and attempts are
  left, the next sweep makes it pending; and at any later time of the queue at which its row is still as the
  sweep left it, from five seconds after the sweep on, the first unrestricted claim of its queue that finds its row
  unlocked and no due unlocked job of higher priority or greater age takes it, with its data unchanged, one
  attempt more and the token of this claim, so that the old worker can no longer settle it.\<close>

theorem abandoned_job_is_redelivered:
  assumes "queue_history t es rows" "r \<in> set rows" "jb_status r = JobRunning" "jb_lease r = Some l" "l \<le> now"
    and "jb_attempts r < jb_max r" "now + 5000 \<le> later"
    and "queue_history t2 es2 rows2" "recovered_row now r \<in> set rows2"
    and "do_org opts = None" "do_name opts = None" "do_match opts = None"
    and "\<And>s. jb_id s = jb_id r \<Longrightarrow> \<not> locked s"
    and "list_all (\<lambda>s. jb_id s = jb_id r \<or> locked s \<or> \<not> due text_of (jb_queue r) opts later s \<or> claimed_before r s) rows2"
  shows "recovered_row now r \<in> set (snd (cleanupStaleJobs now rows)) \<and> jb_status (recovered_row now r) = JobPending
    \<and> (\<exists>j rows'. dequeueJob text_of locked (jb_queue r) opts token later rows2 = (Some j, rows')
        \<and> jb_id j = jb_id r \<and> jb_name j = jb_name r \<and> jb_data j = jb_data r \<and> jb_attempts j = jb_attempts r + 1
        \<and> jb_token j = Some token \<and> j \<in> set rows')"
proof -
  have ok: "ledger_ok es2 rows2" using history_ledger[OF assms(8)] .
  let ?r = "recovered_row now r"
  have stale: "stale now r" using assms(3-5) by (simp add: stale_def)
  have same: "jb_id ?r = jb_id r" "jb_name ?r = jb_name r" "jb_data ?r = jb_data r" "jb_attempts ?r = jb_attempts r"
    "jb_queue ?r = jb_queue r" "jb_status ?r = JobPending" "jb_run_at ?r = now + 5000" "jb_created ?r = jb_created r"
    using assms(6) by (simp_all add: recovered_row_def unlock_def Let_def)
  have swept: "?r \<in> set (snd (cleanupStaleJobs now rows))"
    using assms(2) stale by (force simp: cleanupStaleJobs_def update_jobs_def)
  have found: "due text_of (jb_queue r) opts later ?r" using same assms(7,10-12) by (simp add: due_def)
  have before: "claimed_before ?r s = claimed_before r s" for s by (simp add: claimed_before_def same)
  have "first_job (filter (\<lambda>s. due text_of (jb_queue r) opts later s \<and> \<not> locked s) rows2) = Some ?r"
  proof (rule first_job_is)
    show "?r \<in> set (filter (\<lambda>s. due text_of (jb_queue r) opts later s \<and> \<not> locked s) rows2)"
      using assms(9) found assms(13) same(1) by simp
    fix s assume s: "s \<in> set (filter (\<lambda>s. due text_of (jb_queue r) opts later s \<and> \<not> locked s) rows2)"
    then have "jb_id s = jb_id r \<or> claimed_before r s" using assms(14) by (auto simp: list_all_iff)
    then show "s = ?r \<or> claimed_before ?r s"
      using rows_apart_id[of rows2 s ?r] ok s assms(9) same(1) before by (auto simp: ledger_ok_def)
  qed
  then have "\<exists>j rows'. dequeueJob text_of locked (jb_queue r) opts token later rows2 = (Some j, rows')
        \<and> jb_id j = jb_id r \<and> jb_name j = jb_name r \<and> jb_data j = jb_data r \<and> jb_attempts j = jb_attempts r + 1
        \<and> jb_token j = Some token \<and> j \<in> set rows'"
    using assms(9) by (auto simp: dequeueJob_def Let_def claim_job_def same update_jobs_def intro!: image_eqI[of _ _ ?r])
  then show ?thesis using swept same(6) by blast
qed

subsection \<open>Recurring jobs\<close>

definition no_row :: "string \<Rightarrow> job_row list \<Rightarrow> bool" where
  "no_row i rows \<longleftrightarrow> list_all (\<lambda>r. jb_id r \<noteq> i) rows"

definition leaves_free :: "string \<Rightarrow> (job_row list \<Rightarrow> job_row list) \<Rightarrow> bool" where
  "leaves_free i f \<longleftrightarrow> (\<forall>rows. no_row i rows \<longrightarrow> no_row i (f rows))"

definition has_occurrence :: "string \<Rightarrow> job_row list \<Rightarrow> bool" where
  "has_occurrence key rows \<longleftrightarrow> list_ex (\<lambda>r. jb_cron r = Some key \<and> active_job r) rows"

lemma ensure_occurrence:
  assumes "no_row i rows"
  shows "has_occurrence key (ensureCronJob queue name key payload delay i now rows)"
  using assms
  by (auto simp: ensureCronJob_def insert_job_def new_job_def job_collides_def active_job_def has_occurrence_def no_row_def
      list_ex_iff list_all_iff)

lemma settle_leaves_free: "no_row j rows \<Longrightarrow> no_row j (snd (settle_job queue job outcome now rows))"
  by (auto simp: no_row_def list_all_iff settle_job_def completeJob_def failJob_def deferJob_def owned_update_def update_jobs_def
      failed_row_def unlock_def split: handler_end.split)

text \<open>The sweep puts every chain back that has ended.\<close>

lemma occurrence_kept: "has_occurrence k rows \<Longrightarrow> has_occurrence k (ensureCronJob queue name key payload delay i now rows)"
  by (auto simp: ensureCronJob_def insert_job_def has_occurrence_def)

lemma ensure_all_kept: "has_occurrence k rows \<Longrightarrow> has_occurrence k (ensure_all cs ids now rows)"
proof (induction cs arbitrary: rows)
  case (Cons c cs)
  then show ?case using occurrence_kept by (cases c) simp
qed simp

lemma ensure_all_occurrences:
  assumes "\<forall>n < length cs. no_row (ids n) rows" "inj ids" "(name, key) \<in> set cs"
  shows "has_occurrence key (ensure_all cs ids now rows)"
  using assms(1,3)
proof (induction cs arbitrary: rows)
  case (Cons c cs)
  obtain n k where c: "c = (n, k)" by fastforce
  let ?rows = "ensureCronJob SCHEDULED_JOBS n k (Some (JObj [])) (map_of CRON_DELAYS n) (ids (length cs)) now rows"
  show ?case
  proof (cases "(name, key) = c")
    case True
    then have "has_occurrence key ?rows" using ensure_occurrence[of "ids (length cs)" rows k] Cons.prems(1) c by simp
    then show ?thesis using c ensure_all_kept by simp
  next
    case False
    have "no_row (ids m) ?rows" if "m < length cs" for m
    proof -
      have "ids m \<noteq> ids (length cs)" using assms(2) that by (auto dest: injD)
      then show ?thesis using Cons.prems(1) that
        by (auto simp: ensureCronJob_def insert_job_def no_row_def new_job_def list_all_iff)
    qed
    then show ?thesis using Cons.IH[of ?rows] Cons.prems(2) False c by auto
  qed
qed simp

lemma sweep_restores:
  assumes "(name, key) \<in> set CRON_KEYS" "name \<noteq> ''agent-heartbeat''" "name \<noteq> AUTOMATION_SCAN"
    and "inj ids" "\<And>n. no_row (ids n) (between (snd (cleanupStaleJobs now rows)))"
  shows "has_occurrence key (runStaleMaintenance ids between now later rows)"
  unfolding runStaleMaintenance_def reconcileRecurringJobs_def
  by (rule ensure_all_occurrences[where name = name]) (use assms in auto)

text \<open>C30.
  A recurring job goes on.  For every recurring job but the automation scan, which has a successor of its own:
  whatever the end of its handler, a missing handler, an error, a timeout, a pause or a lease that was lost to
  another worker, and whatever others do in the meantime, when the worker has finished with the delivery an
  occurrence of the job is pending or running, unless the insert of the next occurrence fails.  Such a
  failure is only logged; the next maintenance sweep then puts the chain back when it is one of those it looks
  after (all but the old agent-heartbeat).\<close>

theorem recurring_job_goes_on:
  assumes "recurrence_of (we_automations env) job = Some (key, delay)" "no_row i rows"
    and "leaves_free i (we_between env 0)" "leaves_free i (we_between env 1)"
    and "\<And>b. leaves_free i (we_scan_successor env b)" "leaves_free i (we_sync_successor env)"
  shows "(\<not> we_insert_fails env \<longrightarrow> has_occurrence key (processDequeuedJob env queue job outcome i now later rows))
    \<and> ((jb_name job, key) \<in> set CRON_KEYS \<and> jb_name job \<noteq> ''agent-heartbeat'' \<and> jb_name job \<noteq> AUTOMATION_SCAN \<and> inj ids
        \<and> (\<forall>n. no_row (ids n) (others (snd (cleanupStaleJobs now2 (processDequeuedJob env queue job outcome i now later rows)))))
       \<longrightarrow> has_occurrence key (runStaleMaintenance ids others now2 later2 (processDequeuedJob env queue job outcome i now later rows)))"
proof -
  obtain b rows1 where settle: "settle_job queue job outcome now (we_between env 0 rows) = (b, rows1)" by fastforce
  have "no_row i rows1" using settle_leaves_free[of i "we_between env 0 rows" queue job outcome now] assms(2,3) settle
    by (simp add: leaves_free_def)
  then have "\<not> we_insert_fails env \<longrightarrow> has_occurrence key (processDequeuedJob env queue job outcome i now later rows)"
    using assms settle
    by (auto simp: processDequeuedJob_def finish_delivery_def Let_def leaves_free_def intro!: ensure_occurrence)
  then show ?thesis using sweep_restores by blast
qed

text \<open>Start and sweep agree on the keys, so they never start two chains of one job.\<close>

lemma startup_keys: "list_all (\<lambda>(name, key). map_of CRON_KEYS name = Some key) STARTUP_JOBS"
  by code_simp

lemma every_chain_has_delay: "list_all (\<lambda>(name, key). map_of CRON_DELAYS name \<noteq> None) CRON_KEYS"
  by code_simp

subsection \<open>Slots\<close>

lemma claim_batch_slots:
  "claim_batch env queue opts batch n reserved rows = (js, reserved', failed, rows')
     \<Longrightarrow> reserved' = reserved + length js \<and> reserved' \<le> max batch reserved"
proof (induction n arbitrary: reserved rows js reserved' failed rows')
  case (Suc n)
  show ?case
  proof (cases "\<not> pe_running env n \<or> reserved \<ge> batch \<or> pe_fails env n")
    case True
    then show ?thesis using Suc.prems by (auto simp: Let_def split: if_split_asm)
  next
    case False
    obtain r rows1 where deq: "dequeueJob (pe_text env) (pe_locked env n) queue opts (pe_token env n) (pe_clock env n)
        (pe_between env n rows) = (r, rows1)" by fastforce
    show ?thesis
    proof (cases r)
      case None
      then show ?thesis using Suc.prems False deq by (simp add: Let_def)
    next
      case (Some j)
      obtain js1 res1 fl1 rows2 where rest: "claim_batch env queue opts batch n (reserved + 1) rows1 = (js1, res1, fl1, rows2)"
        by (metis prod_cases4)
      then show ?thesis using Suc.IH[OF rest] Suc.prems False deq Some by (auto simp: Let_def)
    qed
  qed
qed simp

end
