(* ===== verification/JobSamples.thy ===== *)
theory JobSamples
  imports JobQueueProperties
begin

text \<open>
  The theorems on the queue at work: a job whose first worker dies, the sweep, the second delivery and
  its completion; and a recurring job that times out.
\<close>

definition no_options :: enqueue_options where
  "no_options = \<lparr>eo_delay = None, eo_max = None, eo_org = None, eo_dedupe = None\<rparr>"

definition any_job :: dequeue_options where
  "any_job = \<lparr>do_worker = ''w'', do_lease = None, do_org = None, do_name = None, do_match = None\<rparr>"

definition reminder_row :: job_row where
  "reminder_row = new_job ''j1'' None SCHEDULED_JOBS ''reminder-fire'' (JObj []) 3 0 None None 0"

definition first_claim :: job_row where
  "first_claim = claim_job ''w'' ''k1'' 60000 10 reminder_row"

definition swept_row :: job_row where
  "swept_row = recovered_row 70000 first_claim"

definition second_claim :: job_row where
  "second_claim = claim_job ''w'' ''k2'' 60000 80000 swept_row"

lemmas job_samples = reminder_row_def first_claim_def swept_row_def second_claim_def

lemma sample_enqueue: "enqueueJob SCHEDULED_JOBS ''reminder-fire'' (JObj []) no_options ''j1'' 0 [] = [reminder_row]"
  by (simp add: enqueueJob_def insert_job_def no_options_def inferOrgId_def org_text_def positiveInteger_def run_delay_def
      trimmed_key_def reminder_row_def)

lemma sample_first_claim: "dequeueJob (\<lambda>_. None) (\<lambda>_. False) SCHEDULED_JOBS any_job ''k1'' 10 [reminder_row] = (Some first_claim, [first_claim])"
  by (simp add: dequeueJob_def due_def any_job_def Let_def update_jobs_def positiveInteger_def DEFAULT_LEASE_MS_def job_samples new_job_def)

lemma sample_sweep: "cleanupStaleJobs 70000 [first_claim] = (1, [swept_row])"
  by (simp add: cleanupStaleJobs_def update_jobs_def stale_def job_samples claim_job_def new_job_def)

lemma sample_second_claim: "dequeueJob (\<lambda>_. None) (\<lambda>_. False) SCHEDULED_JOBS any_job ''k2'' 80000 [swept_row] = (Some second_claim, [second_claim])"
  by (simp add: dequeueJob_def due_def any_job_def Let_def update_jobs_def positiveInteger_def DEFAULT_LEASE_MS_def job_samples
      recovered_row_def unlock_def claim_job_def new_job_def)

lemma sample_claimed: "queue_history 10 [Added ''j1'', Claimed ''j1'' ''k1''] [first_claim]"
proof -
  have "queue_history 0 ([] @ [Added ''j1'']) [reminder_row]"
    unfolding sample_enqueue[symmetric] by (rule queue_history.more[OF queue_history.start[of 0] _ queue_step.enqueues]) (simp_all add: fresh_event_def)
  from queue_history.more[OF this _ queue_step.dequeues[OF sample_first_claim]] show ?thesis
    by (simp add: fresh_event_def job_samples claim_job_def new_job_def)
qed

lemma sample_swept: "queue_history 70000 [Added ''j1'', Claimed ''j1'' ''k1'', Quiet] [swept_row]"
  using queue_history.more[OF sample_claimed _ queue_step.cleans[of 70000 "[first_claim]"]] by (simp add: fresh_event_def sample_sweep)

lemma sample_again: "queue_history 80000 [Added ''j1'', Claimed ''j1'' ''k1'', Quiet, Claimed ''j1'' ''k2''] [second_claim]"
proof -
  from queue_history.more[OF sample_swept _ queue_step.dequeues[OF sample_second_claim]] show ?thesis
    by (simp add: fresh_event_def job_samples claim_job_def recovered_row_def unlock_def new_job_def)
qed

lemma sample_settled:
  "\<exists>rows. queue_history 80001 [Added ''j1'', Claimed ''j1'' ''k1'', Quiet, Claimed ''j1'' ''k2'', Settled ''j1'' ''k2''] rows"
proof -
  have "fst (completeJob ''j1'' ''k2'' 80001 [second_claim])"
    by (simp add: completeJob_def owned_update_def owned_def job_samples claim_job_def recovered_row_def unlock_def new_job_def)
  then obtain rows where "completeJob ''j1'' ''k2'' 80001 [second_claim] = (True, rows)" by (metis prod.collapse)
  from queue_history.more[OF sample_again _ queue_step.completes[OF this]] show ?thesis by (auto simp: fresh_event_def)
qed

lemma claim_is_ended_once_witness:
  "\<exists>rows. fst (completeJob ''j1'' ''k2'' 80002 rows) = False
     \<and> queue_history 80001 [Added ''j1'', Claimed ''j1'' ''k1'', Quiet, Claimed ''j1'' ''k2'', Settled ''j1'' ''k2''] rows"
proof -
  obtain rows where "queue_history 80001 [Added ''j1'', Claimed ''j1'' ''k1'', Quiet, Claimed ''j1'' ''k2'', Settled ''j1'' ''k2''] rows"
    using sample_settled by blast
  moreover have "completeJob ''j1'' ''k2'' 80002 rows = (False, rows)"
    using claim_is_ended_once[OF calculation, of "''j1''" "''k2''" 80002] by simp
  ultimately show ?thesis by (intro exI[of _ rows]) simp
qed

lemma deliveries_stay_within_attempts_witness: "deliveries_of ''j1'' [Added ''j1'', Claimed ''j1'' ''k1'', Quiet, Claimed ''j1'' ''k2''] \<le> 3"
  using deliveries_stay_within_attempts[OF sample_again, of second_claim]
  by (simp add: rearmed_in_def pauses_of_def job_samples claim_job_def recovered_row_def unlock_def new_job_def)

lemma abandoned_job_is_redelivered_witness:
  "\<exists>j rows'. dequeueJob (\<lambda>_. None) (\<lambda>_. False) SCHEDULED_JOBS any_job ''k2'' 80000 [swept_row] = (Some j, rows')
     \<and> jb_id j = ''j1'' \<and> jb_attempts j = 2"
proof -
  have row: "jb_status first_claim = JobRunning" "jb_lease first_claim = Some 60010" "jb_attempts first_claim < jb_max first_claim"
    "jb_id first_claim = ''j1''" "jb_queue first_claim = SCHEDULED_JOBS" "jb_attempts first_claim = 1" "jb_id swept_row = ''j1''"
    by (simp_all add: job_samples claim_job_def recovered_row_def unlock_def new_job_def)
  show ?thesis
    using abandoned_job_is_redelivered[OF sample_claimed _ row(1,2) _ row(3) _ sample_swept, of 70000 80000 any_job "\<lambda>_. False" "\<lambda>_. None" "''k2''"]
      row(4-7) sample_sweep by (auto simp: any_job_def swept_row_def)
qed

definition idle_worker :: worker_env where
  "idle_worker = \<lparr>we_automations = True, we_scan_successor = (\<lambda>_ rows. rows), we_sync_successor = (\<lambda>rows. rows),
     we_between = (\<lambda>_ rows. rows), we_insert_fails = False\<rparr>"

definition nudge_row :: job_row where
  "nudge_row = claim_job ''w'' ''k1'' 60000 10 (new_job ''j1'' None SCHEDULED_JOBS ''nudge-check'' (JObj []) 2 0 (Some ''cron:nudge'') None 0)"

lemma recurring_job_goes_on_witness:
  "has_occurrence ''cron:nudge'' (processDequeuedJob idle_worker SCHEDULED_JOBS nudge_row (TimedOut ''late'') ''j2'' 100 200 [nudge_row])"
proof -
  have recurs: "recurrence_of (we_automations idle_worker) nudge_row = Some (''cron:nudge'', 3600000)" by code_simp
  have "no_row ''j2'' [nudge_row]" "leaves_free i (we_between idle_worker n)" "leaves_free i (we_scan_successor idle_worker b)"
    "leaves_free i (we_sync_successor idle_worker)" "\<not> we_insert_fails idle_worker" for i n b
    by (simp_all add: no_row_def leaves_free_def idle_worker_def nudge_row_def claim_job_def new_job_def)
  then show ?thesis
    using recurring_job_goes_on[OF recurs, of "''j2''" "[nudge_row]" SCHEDULED_JOBS "TimedOut ''late''" 100 200] by blast
qed

end
