(* ===== verification/TaskDates.thy ===== *)
theory TaskDates
  imports AutomationTimes
begin

text \<open>
  When a task is due today or overdue (apps/api/src/lib/task-dates.ts).  The formatter of the runtime is
  the argument \<open>zones\<close> of AutomationSchedule; a zone is acceptable when it has a wall clock at the epoch.
  In a zone whose offset changes rarely the answer is that of the local calendar, except on a local day of
  more than 24 hours, which is an empty window: nothing is due on the day the clocks go back.
  Where the clocks are put forward at midnight, the search for that midnight ends on the day before.
\<close>

subsection \<open>The helpers\<close>

definition safeTz :: "zones \<Rightarrow> string option \<Rightarrow> string" where
  "safeTz zones tz = (case tz of
       None \<Rightarrow> ''UTC''
     | Some s \<Rightarrow> if s = [] \<or> zones s 0 = None then ''UTC'' else s)"

text \<open>Year, month, day, hour and minute; a part the formatter does not give stays zero.\<close>

definition wallClock :: "zones \<Rightarrow> int \<Rightarrow> string \<Rightarrow> int \<times> int \<times> int \<times> int \<times> int" where
  "wallClock zones d tz = (case zones tz d of
       None \<Rightarrow> (0, 0, 0, 0, 0)
     | Some (y, m, day, h, mi, s) \<Rightarrow> (y, m, day, h, mi))"

definition wallClockYMD :: "zones \<Rightarrow> int \<Rightarrow> string \<Rightarrow> int \<times> int \<times> int" where
  "wallClockYMD zones d tz = (case wallClock zones d tz of (y, m, day, h, mi) \<Rightarrow> (y, m, day))"

text \<open>The rounds of the search for a local midnight: it stops when the guess is confirmed.\<close>

fun midnight_rounds :: "nat \<Rightarrow> zones \<Rightarrow> string \<Rightarrow> int \<Rightarrow> int \<Rightarrow> int" where
  "midnight_rounds 0 zones tz targetMs utcMs = utcMs"
| "midnight_rounds (Suc i) zones tz targetMs utcMs =
     (case wallClock zones utcMs tz of (y, m, day, h, mi) \<Rightarrow>
        let offsetMs = Date_UTC y (m - 1) day h mi 0 0 - utcMs; nextMs = targetMs - offsetMs
        in if nextMs = utcMs then utcMs else midnight_rounds i zones tz targetMs nextMs)"

definition utcInstantForLocalMidnight :: "zones \<Rightarrow> int \<times> int \<times> int \<Rightarrow> string \<Rightarrow> int" where
  "utcInstantForLocalMidnight zones date tz = (case date of (y, m, day) \<Rightarrow>
     let targetMs = Date_UTC y (m - 1) day 0 0 0 0 in midnight_rounds 3 zones tz targetMs targetMs)"

definition getDayBoundaries :: "zones \<Rightarrow> string option \<Rightarrow> int \<Rightarrow> int \<Rightarrow> int \<times> int" where
  "getDayBoundaries zones tz dayOffset now =
     (let zone = safeTz zones tz;
          todayMidnight = utcInstantForLocalMidnight zones (wallClockYMD zones now zone) zone;
          shifted = todayMidnight + dayOffset * (24 * 60 * 60 * 1000);
          start = utcInstantForLocalMidnight zones (wallClockYMD zones shifted zone) zone;
          endWC = start + 24 * 60 * 60 * 1000
      in (start, utcInstantForLocalMidnight zones (wallClockYMD zones endWC zone) zone))"

definition isDueToday :: "zones \<Rightarrow> int option \<Rightarrow> string option \<Rightarrow> int \<Rightarrow> bool" where
  "isDueToday zones due tz now = (case due of
       None \<Rightarrow> False
     | Some d \<Rightarrow> (case getDayBoundaries zones tz 0 now of (dayStart, dayEnd) \<Rightarrow> dayStart \<le> d \<and> d < dayEnd))"

definition isOverdue :: "zones \<Rightarrow> int option \<Rightarrow> string option \<Rightarrow> int \<Rightarrow> bool" where
  "isOverdue zones due tz now = (case due of
       None \<Rightarrow> False | Some d \<Rightarrow> d < fst (getDayBoundaries zones tz 0 now))"

definition isDueWithinDays :: "zones \<Rightarrow> int option \<Rightarrow> string option \<Rightarrow> int \<Rightarrow> int \<Rightarrow> bool" where
  "isDueWithinDays zones due tz n now = (case due of
       None \<Rightarrow> False
     | Some d \<Rightarrow> \<not> n < 0 \<and> fst (getDayBoundaries zones tz 0 now) \<le> d \<and> d < snd (getDayBoundaries zones tz n now))"

text \<open>The zone of an organisation; a lookup that fails or finds nothing gives UTC.\<close>

definition getOrgTimezone :: "zones \<Rightarrow> (string \<Rightarrow> string option option) \<Rightarrow> string \<Rightarrow> string" where
  "getOrgTimezone zones timezone_of orgId = safeTz zones (case timezone_of orgId of None \<Rightarrow> None | Some tz \<Rightarrow> tz)"

subsection \<open>Zones whose offset changes rarely\<close>

definition local_ms :: "(int \<Rightarrow> int) \<Rightarrow> int \<Rightarrow> int" where
  "local_ms off t = t + off t"

definition local_day :: "(int \<Rightarrow> int) \<Rightarrow> int \<Rightarrow> int" where
  "local_day off t = local_ms off t div ms_per_day"

text \<open>
  Offsets of whole minutes within fifteen hours, and around a day at most one change, by at most
  three hours.
\<close>

definition calm_around :: "(int \<Rightarrow> int) \<Rightarrow> int \<Rightarrow> bool" where
  "calm_around off n \<longleftrightarrow> (\<forall>t. off t mod 60000 = 0 \<and> \<bar>off t\<bar> \<le> 15 * 3600000)
     \<and> (\<exists>c o1 o2. \<bar>o1 - o2\<bar> \<le> 3 * 3600000
          \<and> (\<forall>t. \<bar>t - n * ms_per_day\<bar> \<le> 96 * 3600000 \<longrightarrow> off t = (if t < c then o1 else o2)))"

text \<open>The day \<open>n\<close> begins at \<open>s\<close>: its midnight is shown once.\<close>

definition begins_at :: "(int \<Rightarrow> int) \<Rightarrow> int \<Rightarrow> int \<Rightarrow> bool" where
  "begins_at off n s \<longleftrightarrow> (\<forall>t. local_ms off t = n * ms_per_day \<longleftrightarrow> t = s)"

lemma day_ms: "ms_per_day = 86400000" by (simp add: ms_per_day_def)

lemma day_split: "x = (x div ms_per_day) * 86400000 + x mod ms_per_day \<and> 0 \<le> x mod ms_per_day \<and> x mod ms_per_day < 86400000"
  unfolding day_ms by simp

lemma day_le_iff: "k * ms_per_day \<le> x \<longleftrightarrow> k \<le> x div ms_per_day"
  using day_split[of x] unfolding day_ms by linarith

lemma from_midnight_on:
  assumes calm: "calm_around off n" and s: "begins_at off k s" and k: "\<bar>k - n\<bar> \<le> 1"
  shows "k * ms_per_day \<le> local_ms off t \<longleftrightarrow> s \<le> t"
proof -
  obtain c o1 o2 where o: "\<And>t. \<bar>t - n * ms_per_day\<bar> \<le> 96 * 3600000 \<Longrightarrow> off t = (if t < c then o1 else o2)"
    using calm by (auto simp: calm_around_def)
  have b: "\<bar>off t\<bar> \<le> 15 * 3600000" for t using calm by (simp add: calm_around_def)
  define T where "T = k * 86400000"
  have T: "\<bar>T - n * 86400000\<bar> \<le> 86400000" using k unfolding T_def by (simp add: abs_le_iff algebra_simps)
  have only: "u + off u = T \<longleftrightarrow> u = s" for u using s by (simp add: begins_at_def local_ms_def day_ms T_def)
  then have W: "s + off s = T" by blast
  have near: "off u = (if u < c then o1 else o2)" if "\<bar>u - T\<bar> \<le> 72 * 3600000" for u
    using o[of u] that T by (simp add: day_ms)
  have os: "\<bar>s - T\<bar> \<le> 15 * 3600000" using W b[of s] by linarith
  show ?thesis
  proof (cases "\<bar>t - T\<bar> \<le> 72 * 3600000")
    case False
    then show ?thesis using b[of t] os unfolding local_ms_def day_ms T_def[symmetric] by linarith
  next
    case True
    note ot = near[OF True] and o_s = near[of s]
    have other1: "T - o1 < c \<Longrightarrow> \<bar>o1\<bar> \<le> 15 * 3600000 \<Longrightarrow> T - o1 = s" using near[of "T - o1"] only[of "T - o1"] by simp
    have other2: "\<not> T - o2 < c \<Longrightarrow> \<bar>o2\<bar> \<le> 15 * 3600000 \<Longrightarrow> T - o2 = s" using near[of "T - o2"] only[of "T - o2"] by simp
    have near_s: "off s = (if s < c then o1 else o2)" by (rule o_s) (use os in linarith)
    have "T \<le> t + off t \<longleftrightarrow> s \<le> t"
    proof (cases "t < c")
      case True
      then show ?thesis using ot near_s other1 W b[of t] by (cases "s < c"; cases "T - o1 < c"; simp; linarith)
    next
      case False
      then show ?thesis using ot near_s other2 W b[of t] by (cases "s < c"; cases "T - o2 < c"; simp; linarith)
    qed
    then show ?thesis unfolding local_ms_def day_ms T_def .
  qed
qed

lemma local_day_window:
  assumes "calm_around off n" "begins_at off n s" "begins_at off (n + 1) e"
  shows "local_day off t = n \<longleftrightarrow> s \<le> t \<and> t < e" "local_day off t < n \<longleftrightarrow> t < s"
proof -
  have "n * ms_per_day \<le> local_ms off t \<longleftrightarrow> s \<le> t" by (rule from_midnight_on[OF assms(1,2)]) simp
  moreover have "(n + 1) * ms_per_day \<le> local_ms off t \<longleftrightarrow> e \<le> t" by (rule from_midnight_on[OF assms(1,3)]) simp
  moreover have "k * ms_per_day \<le> local_ms off t \<longleftrightarrow> k \<le> local_day off t" for k
    unfolding local_day_def by (rule day_le_iff)
  ultimately have "n \<le> local_day off t \<longleftrightarrow> s \<le> t" "n + 1 \<le> local_day off t \<longleftrightarrow> e \<le> t" by simp_all
  then show "local_day off t = n \<longleftrightarrow> s \<le> t \<and> t < e" "local_day off t < n \<longleftrightarrow> t < s" by linarith+
qed

subsection \<open>The search for a midnight\<close>

text \<open>The formatter shows the wall clock of the zone, and the dates nearby are ones \<open>Date.UTC\<close> takes as they are.\<close>

definition zone_shown :: "zones \<Rightarrow> string \<Rightarrow> (int \<Rightarrow> int) \<Rightarrow> bool" where
  "zone_shown zones tz off \<longleftrightarrow> (\<forall>t. zones tz t = Some (zone_clock off t))"

lemma wall_date:
  "zone_shown zones tz off \<Longrightarrow> wallClockYMD zones t tz = civil_of_day (local_day off t)"
  by (auto simp: zone_shown_def wallClockYMD_def wallClock_def zone_clock_def local_day_def local_ms_def Let_def
      split: prod.splits)

lemma wall_ms:
  assumes "zone_shown zones tz off" "plain_day (local_day off t)" "local_ms off t mod 60000 = 0"
  shows "(case wallClock zones t tz of (y, m, day, h, mi) \<Rightarrow> Date_UTC y (m - 1) day h mi 0 0) = local_ms off t"
proof -
  have z: "zones tz t = Some (zone_clock off t)" using assms(1) by (simp add: zone_shown_def)
  have "clock_utc (zone_clock off t) 0 = local_ms off t"
    by (rule zone_parts(2)[where tz = tz and zones = zones]) (use z assms(2,3) in \<open>simp_all add: local_ms_def local_day_def\<close>)
  moreover obtain y m d h mi where c: "zone_clock off t = (y, m, d, h, mi, 0)"
    using wall_minutes(1)[OF assms(3) refl]
    by (cases "civil_of_day (local_ms off t div ms_per_day)") (auto simp: zone_clock_def local_ms_def Let_def)
  ultimately show ?thesis using z by (simp add: wallClock_def clock_utc_def)
qed

lemma midnight_found:
  assumes shown: "zone_shown zones tz off" and calm: "calm_around off n" and s: "begins_at off k s"
    and k: "\<bar>k - n\<bar> \<le> 1" and plain: "101 \<le> year_of_day n" "year_of_day n \<le> 9998"
  shows "utcInstantForLocalMidnight zones (civil_of_day k) tz = s"
proof -
  obtain c o1 o2 where o: "\<And>t. \<bar>t - n * ms_per_day\<bar> \<le> 96 * 3600000 \<Longrightarrow> off t = (if t < c then o1 else o2)"
    using calm by (auto simp: calm_around_def)
  have b: "\<bar>off t\<bar> \<le> 15 * 3600000" and minute: "off t mod 60000 = 0" for t using calm by (simp_all add: calm_around_def)
  define T where "T = k * ms_per_day"
  have Tn: "\<bar>T - n * ms_per_day\<bar> \<le> 86400000" using k unfolding T_def day_ms by (simp add: abs_le_iff algebra_simps)
  have only: "u + off u = T \<longleftrightarrow> u = s" for u using s by (simp add: begins_at_def local_ms_def T_def)
  obtain y m d where date: "civil_of_day k = (y, m, d)" by (cases "civil_of_day k")
  have "plain_day k" using near_plain[OF plain, of k] k by simp
  then have target: "Date_UTC y (m - 1) d 0 0 0 0 = T" using Date_UTC_of_day[OF _ date, of 0 0 0 0] by (simp add: T_def)
  have round: "midnight_rounds (Suc i) zones tz T u = (if T - off u = u then u else midnight_rounds i zones tz T (T - off u))"
    if u: "\<bar>u - T\<bar> \<le> 15 * 3600000" "u mod 60000 = 0" for i u
  proof -
    have "\<bar>local_ms off u - T\<bar> \<le> 30 * 3600000" using u(1) b[of u] unfolding local_ms_def by linarith
    then have "\<bar>local_day off u - n\<bar> \<le> 3" using Tn day_split[of "local_ms off u"] unfolding local_day_def day_ms T_def abs_le_iff by linarith
    then have "plain_day (local_day off u)" using near_plain[OF plain] by blast
    moreover have "local_ms off u mod 60000 = 0" using u(2) minute[of u] by (simp add: local_ms_def mod_add_eq[symmetric])
    ultimately have w: "(case wallClock zones u tz of (y, m, day, h, mi) \<Rightarrow> Date_UTC y (m - 1) day h mi 0 0) = u + off u"
      using wall_ms[OF shown] by (simp add: local_ms_def)
    obtain y' m' d' h' mi' where c: "wallClock zones u tz = (y', m', d', h', mi')" by (cases "wallClock zones u tz")
    then have "Date_UTC y' (m' - 1) d' h' mi' 0 0 = u + off u" using w by simp
    then show ?thesis using c by (simp add: Let_def)
  qed
  have T60: "T mod 60000 = 0" by (simp add: T_def day_ms)
  have fine: "\<bar>T - off u - T\<bar> \<le> 15 * 3600000" "(T - off u) mod 60000 = 0" for u
    using b[of u] minute[of u] T60 by (simp, simp add: mod_diff_eq[symmetric])
  have near: "off u = (if u < c then o1 else o2)" if "\<bar>u - T\<bar> \<le> 15 * 3600000" for u
    using o[of u] that Tn by (simp add: day_ms)
  define u1 where "u1 = T - off T"
  define u2 where "u2 = T - off u1"
  have W: "s + off s = T" using only by blast
  have os: "\<bar>s - T\<bar> \<le> 15 * 3600000" using W b[of s] by linarith
  have two: "off T \<in> {o1, o2}" "off u1 \<in> {o1, o2}" "off s \<in> {o1, o2}"
    using near[of T] near[OF os] near[OF fine(1)[of T]] unfolding u1_def by simp_all
  have found: "u1 = s \<or> u2 = s"
  proof (cases "off u1 = off s")
    case True
    then show ?thesis using W unfolding u2_def by simp
  next
    case False
    show ?thesis
    proof (cases "off T = off s")
      case True
      then show ?thesis using W unfolding u1_def by simp
    next
      case other: False
      have "off T = off u1" using two False other by auto
      then have "u1 + off u1 = T" unfolding u1_def by simp
      then show ?thesis using only by blast
    qed
  qed
  have rounds: "midnight_rounds 3 zones tz T T = (if u1 = T then T else midnight_rounds 2 zones tz T u1)"
    "midnight_rounds 2 zones tz T u1 = (if u2 = u1 then u1 else midnight_rounds 1 zones tz T u2)"
    "midnight_rounds 1 zones tz T u2 = (if T - off u2 = u2 then u2 else T - off u2)"
    using round[of T 2] round[of u1 1] round[of u2 0] fine[of T] fine[of u1] T60 unfolding u1_def u2_def
    by (simp_all only: numeral_3_eq_3 numeral_2_eq_2 One_nat_def midnight_rounds.simps(1))
  have "midnight_rounds 3 zones tz T T = s"
  proof (cases "u1 = T \<or> u2 = u1")
    case True
    moreover have "u1 = T \<Longrightarrow> T = s" using only[of T] unfolding u1_def by simp
    moreover have "u2 = u1 \<Longrightarrow> u1 = s" using only[of u1] unfolding u2_def by simp
    ultimately show ?thesis using rounds(1,2) by auto
  next
    case False
    moreover have "u1 \<noteq> s" using False W unfolding u2_def by auto
    moreover have "T - off s = s" using W by simp
    ultimately show ?thesis using rounds found by auto
  qed
  then show ?thesis using target by (simp add: utcInstantForLocalMidnight_def date)
qed

subsection \<open>Today\<close>

lemma day_boundaries:
  assumes shown: "zone_shown zones (safeTz zones tz) off" and calm: "calm_around off n" and now: "local_day off now = n"
    and s: "begins_at off n s" and e: "begins_at off (n + 1) e"
    and plain: "101 \<le> year_of_day n" "year_of_day n \<le> 9998"
  shows "getDayBoundaries zones tz 0 now = (s, if e - s \<le> ms_per_day then e else s)"
proof -
  obtain c o1 o2 where o: "\<bar>o1 - o2\<bar> \<le> 3 * 3600000" "\<And>t. \<bar>t - n * ms_per_day\<bar> \<le> 96 * 3600000 \<Longrightarrow> off t = (if t < c then o1 else o2)"
    using calm by (auto simp: calm_around_def)
  have b: "\<bar>off t\<bar> \<le> 15 * 3600000" for t using calm by (simp add: calm_around_def)
  have W: "s + off s = n * 86400000" using s by (simp add: begins_at_def local_ms_def day_ms)
  then have start_day: "local_day off s = n" by (simp add: local_day_def local_ms_def day_ms)
  note midnight = midnight_found[OF shown calm _ _ plain]
  have first: "utcInstantForLocalMidnight zones (civil_of_day n) (safeTz zones tz) = s" by (rule midnight[OF s]) simp
  have second: "utcInstantForLocalMidnight zones (civil_of_day (n + 1)) (safeTz zones tz) = e" by (rule midnight[OF e]) simp
  have "off (s + 86400000) = (if s + 86400000 < c then o1 else o2)" "off s = (if s < c then o1 else o2)"
    using o(2)[of "s + 86400000"] o(2)[of s] W b[of s] by (simp_all add: day_ms)
  then have "\<bar>off (s + 86400000) - off s\<bar> \<le> 3 * 3600000" using o(1) by (auto simp: abs_minus_commute)
  then have "\<not> (n + 2) * ms_per_day \<le> local_ms off (s + 86400000)"
    using W by (simp add: local_ms_def day_ms algebra_simps)
  then have le: "local_day off (s + 86400000) < n + 2" unfolding day_le_iff local_day_def by simp
  have next_day: "local_day off (s + 86400000) = (if e - s \<le> ms_per_day then n + 1 else n)"
  proof (cases "e - s \<le> ms_per_day")
    case True
    then have "(n + 1) * ms_per_day \<le> local_ms off (s + 86400000)"
      using from_midnight_on[OF calm e, of "s + 86400000"] by (simp add: day_ms)
    then show ?thesis using True le unfolding day_le_iff local_day_def by simp
  next
    case False
    then show ?thesis using local_day_window(1)[OF calm s e, of "s + 86400000"] by (simp add: day_ms)
  qed
  show ?thesis
    using first second start_day next_day
    by (simp add: getDayBoundaries_def Let_def wall_date[OF shown] now)
qed

text \<open>C35. Let the zone's offset be in whole minutes, at most fifteen hours, and change at most once around today
  and then by at most three hours; and let the midnights at which today and tomorrow begin each be shown
  exactly once by the local clock, in the years from 101 to 9998. Then a task is due today exactly when
  it is due on the local day of now and that day has at most 24 hours, and overdue exactly when it is
  due on an earlier local day.  On the day of 25 hours at the end of summer time no task is due today.\<close>
theorem due_today_is_the_local_day:
  assumes "zone_shown zones (safeTz zones tz) off" "calm_around off n" "local_day off now = n"
    and "begins_at off n s" "begins_at off (n + 1) e" "101 \<le> year_of_day n" "year_of_day n \<le> 9998"
  shows "(isDueToday zones (Some due) tz now \<longleftrightarrow> local_day off due = n \<and> e - s \<le> ms_per_day)
    \<and> (isOverdue zones (Some due) tz now \<longleftrightarrow> local_day off due < n)"
  using day_boundaries[OF assms] local_day_window[OF assms(2,4,5), of due]
  by (auto simp: isDueToday_def isOverdue_def)

subsection \<open>The end of summer time\<close>

text \<open>New York in the autumn of 2025: on 2 November the clocks go from two back to one o'clock.\<close>

definition autumn_offset :: "int \<Rightarrow> int" where
  "autumn_offset t = (if t < 1762063200000 then - 4 * 3600000 else - 5 * 3600000)"

definition autumn_zones :: zones where
  "autumn_zones tz t = Some (zone_clock autumn_offset t)"

lemma autumn_calm: "calm_around autumn_offset n"
  unfolding calm_around_def
  by (rule conjI, simp add: autumn_offset_def, rule exI[of _ 1762063200000], rule exI[of _ "- 4 * 3600000"],
      rule exI[of _ "- 5 * 3600000"], simp add: autumn_offset_def)

lemma autumn_midnights: "begins_at autumn_offset 20394 1762056000000" "begins_at autumn_offset 20395 1762146000000"
    "begins_at autumn_offset 20396 1762232400000"
  by (auto simp: begins_at_def autumn_offset_def local_ms_def day_ms)

lemma autumn_zone: "zone_shown autumn_zones tz autumn_offset"
  by (simp add: zone_shown_def autumn_zones_def)

lemma autumn_days: "local_day autumn_offset 1762102800000 = 20394" "local_day autumn_offset 1762110000000 = 20394"
    "local_day autumn_offset 1762189200000 = 20395" "local_day autumn_offset 1762196400000 = 20395"
    "year_of_day 20394 = 2025" "year_of_day 20395 = 2025" "civil_of_day 20394 = (2025, 11, 2)"
  by code_simp+

text \<open>A task that is due at two in the afternoon of 2 November is not due today at noon, one of 3 November is.\<close>

lemma due_today_is_the_local_day_witness:
  "\<not> isDueToday autumn_zones (Some 1762110000000) (Some ''America/New_York'') 1762102800000
   \<and> isDueToday autumn_zones (Some 1762196400000) (Some ''America/New_York'') 1762189200000"
  using due_today_is_the_local_day[OF autumn_zone autumn_calm autumn_days(1) autumn_midnights(1), of 1762146000000 1762110000000]
    due_today_is_the_local_day[OF autumn_zone autumn_calm autumn_days(3) autumn_midnights(2), of 1762232400000 1762196400000]
    autumn_midnights autumn_days by (simp add: day_ms)

subsection \<open>A midnight that is skipped\<close>

text \<open>Cairo in the spring of 2025: on 25 April the clocks go from midnight to one o'clock, so that no instant shows
  the midnight of that day, and the search for it ends an hour before it, on the day before.\<close>

definition cairo_offset :: "int \<Rightarrow> int" where
  "cairo_offset t = (if t < 1745532000000 then 2 * 3600000 else 3 * 3600000)"

definition cairo_zones :: zones where
  "cairo_zones tz t = Some (zone_clock cairo_offset t)"

lemma skipped_midnight: "calm_around cairo_offset n" "zone_shown cairo_zones tz cairo_offset"
    "local_ms cairo_offset t \<noteq> 20203 * ms_per_day"
proof -
  show "calm_around cairo_offset n" unfolding calm_around_def
    by (rule conjI, simp add: cairo_offset_def, rule exI[of _ 1745532000000], rule exI[of _ "2 * 3600000"],
        rule exI[of _ "3 * 3600000"], simp add: cairo_offset_def)
  show "zone_shown cairo_zones tz cairo_offset" by (simp add: zone_shown_def cairo_zones_def)
  show "local_ms cairo_offset t \<noteq> 20203 * ms_per_day"
    by (cases "t < 1745532000000") (simp_all add: local_ms_def day_ms cairo_offset_def)
qed

text \<open>At noon of 25 April a task due at two in the afternoon is not due today; one that was due at ten in the
  evening before is, and is not overdue.\<close>

lemma task_of_yesterday_is_due_today:
  "local_day cairo_offset 1745571600000 = 20203
   \<and> local_day cairo_offset 1745578800000 = 20203 \<and> \<not> isDueToday cairo_zones (Some 1745578800000) (Some ''Africa/Cairo'') 1745571600000
   \<and> local_day cairo_offset 1745524800000 = 20202 \<and> isDueToday cairo_zones (Some 1745524800000) (Some ''Africa/Cairo'') 1745571600000
   \<and> \<not> isOverdue cairo_zones (Some 1745524800000) (Some ''Africa/Cairo'') 1745571600000"
  by code_simp

end
