(* ===== verification/Spec2Isabelle.thy ===== *)
theory Spec2Isabelle
  imports TaskStatus McpPolicy RunLiveness RunLineage ActionGraph TaskSamples PlanSamples McpCacheProperties
    TransportProperties ModuleSamples ModuleBulkSamples AutomationSamples JobSamples TaskDates
begin

text \<open>
  Deft: the parts of the system that decide what an agent or an app may do, and that must keep their
  word when requests, workers and servers interleave or fail.

  \<^bold>\<open>The program.\<close>  Deft (apps/api, packages/shared, packages/mcp, packages/db) is a workspace in which
  people and agents work on tasks, run plans and call tools.  An agent proposes actions; the approval
  rules (agent-approval.ts) say which of them run at once, from the tier of the tool and the trust in
  the agent.  Tools of outside MCP servers are discovered under the policy of their connection
  (agent-tool-policy.ts, mcp-tools.ts) and called through a pool of connections (packages/mcp).  Apps
  call their providers through App Runs (app-run-*.ts): rows with an admission, an approval, a
  ledger of attempts, a result and receipts, worked on by concurrent workers.  Multi-step plans
  (agent-plans.ts) run actions one after the other; tasks (routes/tasks.ts, task-*.ts) have statuses,
  numbers and dependencies.  Modules (packages/shared/src/modules.ts, module-service.ts) are record
  types a workspace installs: a manifest declares collections and typed fields, people and agents
  create, change, relate, merge and import records, and a manifest can be upgraded under them.
  Automations (app-automation-*.ts, packages/app-kit) run an app action every day at a local time: a
  scan records one fire per local date, a worker claims the fire and submits the App Run.  All work in
  the background goes through a queue of jobs in the database (queues.ts, workers/index.ts).

  \<^bold>\<open>How it is modelled.\<close>  A table is a list of records, a transaction a function from a store to a result
  and a store; a thrown error is the left side of a sum, written \<open>Throw\<close>.  JavaScript values are
  \<open>jsv\<close> (theory JsValue), strings are lists of the first 256 code units.  Code of other packages, of
  the network and of the database engine is an argument: cryptographic digests, the clock, fresh
  identifiers, provider calls, the URL parser, the name service.  Concurrency is explicit: the
  workers of an App Run are steps of an inductive relation, the writers of tasks likewise
  (\<open>task_step\<close>), a plan sees its status change between any two statements, the transactions on
  modules are the relation \<open>module_step\<close>, those on automations \<open>automation_step\<close>.  A trigger or a
  check of a table is a guard of the statement it stands against.  The readings of the clock inside a
  transaction are \<open>clock k\<close>, what others commit between two transactions is \<open>between k\<close>.

  \<^bold>\<open>Theories.\<close>
  \<^item> Prelude, JsValue, Workflow: results, strings, decimal numbers, lists; JavaScript values; state
    graphs as tables of successors.
  \<^item> TaskStatus: task-status-machine.ts.  The transition check and the list of next statuses.
  \<^item> Approval: agent-approval.ts, mcp-tool-identity.ts.  Tiers, trust levels, destructive actions, names of MCP
    tools.  No slug hides a destructive tool, names read back, trust is
    monotone, what runs unreviewed.
  \<^item> McpPolicy: agent-tool-policy.ts, mcp-tools.ts, mcp-runtime.ts.  The tool policy of agents, overrides, discovery, the
    daily budget.  What is listed can be executed, overrides merge to the strictest,
    the budget is never exceeded.
  \<^item> RunContract, RunStore, RunEngine: packages/shared/src/app-runs.ts, app-run-repository.ts,
    app-run-receipts.ts, app-run-attempt-runner.ts, app-run-service.ts, app-run-approval-adapter.ts
    and the database guards of schema.ts and its migrations.  The states and policies, the rows with
    their guards, every transaction of the engine on one Run.
  \<^item> RunInvariants, RunEvolution, RunLedger: the invariant of a Run, what every transaction keeps, the
    ledger of attempts.  RunProperties, RunContracts, RunLiveness: the safety of Runs (at most one call of an
    unsafe operation, no call without approval, attempt limits, append-only evidence, crash
    recovery), and the places where the engine throws or stops.
  \<^item> RunAdmission, RunLineage: the submission of Runs: keyrings, fingerprints, replay, lineage.  A resubmission
    returns the same Run, a child stays within its parent, a lineage within its root.
  \<^item> ActionGraph: agent-action-graph.ts.  The validation accepts exactly the acyclic graphs.
  \<^item> TaskStore, TaskGraph, TaskBundle, TaskWorld, TaskProperties, TaskSamples: task-numbering.ts,
    native-task-create.ts, task-visibility.ts, task-dependency.ts, task-bundle.ts,
    resolve-assignee.ts, the dependency routes of routes/tasks.ts and the dependency tools of
    agent-actions.ts.  The locale \<open>task_law\<close> is the contract of a law that every writer keeps; it is
    interpreted for numbers, identifiers and the order of the blocks graph: dependencies stay
    acyclic, identifiers resolve, reserved numbers stay free; the cycle check is reachability.
  \<^item> PlanEngine, PlanLoop, PlanProperties, PlanSamples: agent-plans.ts, routes/agent-plans.ts and the common path of
    executeActionDirect in agent-actions.ts.  The locale \<open>plan_invariant\<close> is the contract of one round
    of the loop; it is interpreted for the approval gate, over the log of all calls that hand a write over to be
    executed (tools and governed module actions), and for the meaning of a completed plan.
  \<^item> McpClient, McpClientProperties, McpCacheProperties: packages/mcp/src/client.ts and cache.ts.  Pool, limit, health,
    backoff and cache.  The bookkeeping of the pool, the backoff that does not end, and
    the locale \<open>expiring_map\<close> and the cache as its instance.
  \<^item> TransportSecurity, TransportProperties: packages/mcp/src/transport-security.ts and transports.ts.  What a
    request may reach, and the address policy against the reserved CIDR blocks.
  \<^item> ModuleSchema, ModuleManifest, ModuleTyping, ModuleProjection: packages/shared/src/modules.ts.  Fields,
    validation of record data, the manifest schema with its cross checks, the type of a record
    (\<open>record_typed\<close>) as the specification of the validation, the projected search texts.
  \<^item> ModuleStore, ModuleRecords, ModuleImport, ModuleLifecycle, ModuleOperations: module-service.ts and
    mcp-tools/modules.ts.  The tables, access and receipts; create, update, archive and restore; the
    import of rows; install, upgrade and settings; requests and the step relation.
  \<^item> ModuleMerge, ModuleMergeProperties, ModuleMergeCommit: module-merge-plan.ts and the merge in
    module-service.ts.  The edges after a merge are the links it promises.
  \<^item> ModuleEffects, ModuleOutcomes, ModuleProperties, ModuleSamples: every transaction as a sequence of
    small effects on the tables, each of which keeps \<open>store_typed\<close> (records have the type of the active
    manifest, identifiers are unique) and only moves revisions forward (\<open>store_le\<close>).  Records stay typed through
    upgrades, no update is lost, a repeated operation changes nothing; one concrete history.
  \<^item> ModuleCsv, ModuleCsvAction, ModuleBulkCreate, ModuleCsvProperties, ModuleBulkProperties, ModuleBulkSamples:
    module-csv-import.ts, module-record-bulk-create.ts.  The parser, the reading of cells, the choice of the collection, the
    proposed batch and its execution row by row (\<open>bulk_trace\<close>).  A printed table parses back, a
    proposed import is sound, a batch that is submitted again creates no row twice.
  \<^item> CivilDate, AutomationSchedule, AutomationTimes: packages/app-kit/src/automation-schedule.ts.  The calendar, the
    instant of a local date and time, due, missed and next occurrences.  The resolved instant is the
    earliest one that shows the local time, the listed dates are consecutive, an announced
    occurrence is taken.
  \<^item> AutomationFires, AutomationService, AutomationProperties: app-automation-repository.ts,
    app-automation-definition-service.ts, app-automation-runtime.ts, app-automation-dispatch.ts, with the
    tables in schema.ts and the triggers in upgrades/0.3.0-preview.26.  The statements, the transactions, the
    relation \<open>automation_step\<close> and its invariant: one fire per date, bounded active fires, settled fires
    final, claims inside the window and the budget, a due fire gets its run, a failed delivery is
    never charged; a delivery is a sequence of transactions.
  \<^item> AutomationScan, AutomationScanProperties, AutomationRuntime, AutomationSamples: app-automation-scan-slice.ts,
    app-automation-scan-progress.ts and the port of app-automation-runtime.ts.  The slice on an arbitrary port is a
    \<open>partial_function\<close> that always returns; the locale \<open>steady_port\<close> is the contract of the port, and its
    interpretation on the database makes a scan a sequence of transactions; one concrete history.
  \<^item> JobQueue, JobWorker, JobQueueProperties, JobSamples: queues.ts, workers/index.ts, job-scheduler.ts, and the
    statements on the queue of app-automation-scan-progress.ts and email-outbox-store.ts.  The statements
    of the queue, the settlement of a delivered job and the recurring jobs.  Histories are the inductive
    relation \<open>queue_history\<close> with the events a statement leaves; claims end once, deliveries stay within
    the attempts, an abandoned job is delivered again, a recurring job goes on or is put back by the next sweep.
  \<^item> TaskDates: task-dates.ts.  The local calendar day of an instant and the rounds that look for its midnight; what
    is due today is due on the local day, except on a local day of more than 24 hours and where the clocks
    skip a midnight (a concrete day of each kind is worked out).

  \<^bold>\<open>Bounds.\<close>  The engine model keeps the bounds of the code: the attempt limit of a Run, three tries to
  persist a result, eight levels of lineage (the walk over ancestors has nine rounds, one more than
  a valid lineage needs), twelve nodes of an action graph, twenty subtasks.  The breadth-first
  search over dependencies stops at its cap of 1000 visited tasks as in the code, so its theorems
  name that bound.  The loop of a plan is a recursion over the remaining indices, since the number
  of steps never changes; the substitution of references and the judgement of addresses are
  functions with termination proofs.  A slice of the scan has no bound on its rounds in the code; its
  limits (256 definitions, 256 fires, 512 decisions) give the measure of the termination proof.  At
  most 31 local dates are listed, as in the code.  Numbers that the code keeps unbounded are \<open>nat\<close>, \<open>int\<close> or \<open>rat\<close>.

  \<^bold>\<open>Not modelled.\<close>  The user interface, request parsing, SQL text, encryption and signatures, mail and
  calendar protocols, the prompts and the model behind an agent, and the services whose content is
  storage of their own tables (app data, connections, attachments, resource synchronisation).  The
  pull channel of app runtimes and the live authorization of a Run enter the Run model as the outcome
  of a check.  Of modules, the queries, saved views and links to tasks are left out; whether they stand
  against an upgrade is an argument.  Of automations, the review that creates a definition with its pinned
  authority, and the job row that carries the progress of a scan are left out.  Capability schemas,
  mentions and the notification policy are not modelled.  The manifest lists every part with its reason.
\<close>

end
